(* ===== verification/Prelude.thy ===== *)
theory Prelude
  imports Main "HOL-Library.Word" "HOL-Library.Option_ord"
begin

text \<open>
  Shared vocabulary of the development: the machine integers of the C code, the error
  codes of \<^verbatim>\<open>src/uesim.h\<close>, the convention for pointers, and the generic lemmas on
  lists and words that the components share.

  Conventions.
  \<^item> A pointer argument that the code compares with \<open>NULL\<close> is an \<open>option\<close>; the
    combinator \<open>with_ptr\<close> is the guard
    \<^verbatim>\<open>if (p == NULL) return UESIM_ERROR_INVALID_PARAM;\<close>.
  \<^item> An operation on an object returns the code's error value and the updated object.
  \<^item> The outcome of the operating system's calls (allocation, mutex lock and
    initialisation) is an argument \<open>os\<close>, so that every error path of the code is a branch of
    the model.
\<close>

unbundle bit_operations_syntax

type_synonym u8 = "8 word"
type_synonym u16 = "16 word"
type_synonym u32 = "32 word"
type_synonym u64 = "64 word"
type_synonym s16 = "16 word"
type_synonym s32 = "32 word"

section \<open>Error codes\<close>

datatype uesim_error =
    UESIM_SUCCESS
  | UESIM_ERROR_INVALID_PARAM
  | UESIM_ERROR_MEMORY
  | UESIM_ERROR_SOCKET
  | UESIM_ERROR_THREAD
  | UESIM_ERROR_TIMEOUT
  | UESIM_ERROR_PROTOCOL
  | UESIM_ERROR_FILE
  | UESIM_ERROR_NOT_INITIALIZED
  | UESIM_ERROR_NOT_FOUND
  | UESIM_ERROR_ALREADY_EXISTS
  | UESIM_ERROR_CAPACITY
  | UESIM_ERROR_KEY_REFRESH_REQUIRED
  | UESIM_ERROR_MAX_RETRIES
  | UESIM_ERROR_RETRY
  | UESIM_ERROR_INIT
  | UESIM_ERROR_TEST_FAILED

text \<open>The numeric value of an error code, as the enumeration of the header gives it.\<close>

fun error_code :: "uesim_error \<Rightarrow> int" where
  "error_code UESIM_SUCCESS = 0"
| "error_code UESIM_ERROR_INVALID_PARAM = -1"
| "error_code UESIM_ERROR_MEMORY = -2"
| "error_code UESIM_ERROR_SOCKET = -3"
| "error_code UESIM_ERROR_THREAD = -4"
| "error_code UESIM_ERROR_TIMEOUT = -5"
| "error_code UESIM_ERROR_PROTOCOL = -6"
| "error_code UESIM_ERROR_FILE = -7"
| "error_code UESIM_ERROR_NOT_INITIALIZED = -8"
| "error_code UESIM_ERROR_NOT_FOUND = -9"
| "error_code UESIM_ERROR_ALREADY_EXISTS = -10"
| "error_code UESIM_ERROR_CAPACITY = -11"
| "error_code UESIM_ERROR_KEY_REFRESH_REQUIRED = -12"
| "error_code UESIM_ERROR_MAX_RETRIES = -13"
| "error_code UESIM_ERROR_RETRY = -14"
| "error_code UESIM_ERROR_INIT = -15"
| "error_code UESIM_ERROR_TEST_FAILED = -16"

lemma error_code_inject: "error_code a = error_code b \<longleftrightarrow> a = b"
  by (cases a; cases b) simp_all

instantiation uesim_error :: linorder
begin
definition less_eq_uesim_error :: "uesim_error \<Rightarrow> uesim_error \<Rightarrow> bool" where
  "less_eq_uesim_error a b \<longleftrightarrow> error_code a \<le> error_code b"
definition less_uesim_error :: "uesim_error \<Rightarrow> uesim_error \<Rightarrow> bool" where
  "less_uesim_error a b \<longleftrightarrow> error_code a < error_code b"
instance
  by standard (auto simp: less_eq_uesim_error_def less_uesim_error_def error_code_inject)
end

section \<open>Operating-system outcomes and pointers\<close>

text \<open>
  \<open>alloc_ok n\<close> is the outcome of the \<open>n\<close>-th allocation of a call (counted from 0),
  \<open>lock_ok n\<close> of its \<open>n\<close>-th mutex lock, \<open>init_ok n\<close> of its \<open>n\<close>-th mutex or condition
  variable initialisation.
\<close>

record os =
  alloc_ok :: "nat \<Rightarrow> bool"
  lock_ok :: "nat \<Rightarrow> bool"
  init_ok :: "nat \<Rightarrow> bool"

definition good_os :: os where
  "good_os = \<lparr>alloc_ok = (\<lambda>_. True), lock_ok = (\<lambda>_. True), init_ok = (\<lambda>_. True)\<rparr>"

lemma good_os_simps [simp]:
  "alloc_ok good_os n" "lock_ok good_os n" "init_ok good_os n"
  by (simp_all add: good_os_def)

fun with_ptr :: "'a option \<Rightarrow> ('a \<Rightarrow> uesim_error \<times> 'a) \<Rightarrow> uesim_error \<times> 'a option" where
  "with_ptr None f = (UESIM_ERROR_INVALID_PARAM, None)"
| "with_ptr (Some x) f = (case f x of (r, x') \<Rightarrow> (r, Some x'))"

text \<open>The same guard for an operation with a result.\<close>

fun with_obj :: "'a option \<Rightarrow> ('a \<Rightarrow> (uesim_error + 'b) \<times> 'a) \<Rightarrow> (uesim_error + 'b) \<times> 'a option" where
  "with_obj None f = (Inl UESIM_ERROR_INVALID_PARAM, None)"
| "with_obj (Some x) f = (case f x of (r, x') \<Rightarrow> (r, Some x'))"

text \<open>The outcomes that are left after \<open>k\<close> allocations.\<close>

definition after_allocs :: "nat \<Rightarrow> os \<Rightarrow> os" where
  "after_allocs k s = s\<lparr>alloc_ok := (\<lambda>n. alloc_ok s (n + k))\<rparr>"

lemma after_allocs_ok [simp]: "alloc_ok (after_allocs k s) n = alloc_ok s (n + k)"
  by (simp add: after_allocs_def)

text \<open>The outcomes that are left after \<open>k\<close> mutex locks.\<close>

definition after_locks :: "nat \<Rightarrow> os \<Rightarrow> os" where
  "after_locks k s = s\<lparr>lock_ok := (\<lambda>n. lock_ok s (n + k))\<rparr>"

lemma after_locks_good [simp]: "after_locks k good_os = good_os"
  by (simp add: after_locks_def good_os_def)

lemma after_locks_ok [simp]: "lock_ok (after_locks k s) n = lock_ok s (n + k)"
  by (simp add: after_locks_def)

text \<open>The outcomes that are left after \<open>k\<close> initialisations.\<close>

definition after_inits :: "nat \<Rightarrow> os \<Rightarrow> os" where
  "after_inits k s = s\<lparr>init_ok := (\<lambda>n. init_ok s (n + k))\<rparr>"

lemma after_inits_ok [simp]: "init_ok (after_inits k s) n = init_ok s (n + k)"
  by (simp add: after_inits_def)

lemma after_inits_good [simp]: "after_inits k good_os = good_os"
  by (simp add: after_inits_def good_os_def)

text \<open>An object guarded by one mutex: a failed lock leaves it alone.\<close>

definition locked :: "os \<Rightarrow> 'a \<Rightarrow> (uesim_error \<times> 'a) \<Rightarrow> uesim_error \<times> 'a" where
  "locked s x res = (if lock_ok s 0 then res else (UESIM_ERROR_THREAD, x))"

lemma locked_good [simp]: "locked good_os x res = res"
  by (simp add: locked_def)

lemma with_ptr_cases:
  assumes "with_ptr p f = (r, p')"
  obtains (null) "p = None" "r = UESIM_ERROR_INVALID_PARAM" "p' = None"
    | (obj) x x' where "p = Some x" "f x = (r, x')" "p' = Some x'"
  using assms by (cases p) (auto split: prod.splits)

text \<open>The guard keeps an invariant that its body keeps.\<close>

lemma with_ptr_inv:
  assumes "\<And>x r x'. I x \<Longrightarrow> f x = (r, x') \<Longrightarrow> I x'"
    and "pred_option I p" and "with_ptr p f = (r, p')"
  shows "pred_option I p'"
  using assms(3) assms(1,2) by (elim with_ptr_cases) auto

section \<open>Collections of facts\<close>

named_theorems error_branch \<open>equations for the early returns of the operations\<close>
named_theorems inv_keep \<open>operations keep the invariant of their component\<close>
named_theorems roundtrip_rule \<open>decode after encode\<close>

section \<open>Lists\<close>

lemma list_eq_iff_nth:
  "xs = ys \<longleftrightarrow> length xs = length ys \<and> (\<forall>i < length xs. xs ! i = ys ! i)"
  by (auto intro: nth_equalityI)

lemma take_drop_split: "n \<le> m \<Longrightarrow> take n xs @ take (m - n) (drop n xs) = take m xs"
  by (metis le_add_diff_inverse take_add)

lemma length_filter_less:
  "x \<in> set xs \<Longrightarrow> \<not> P x \<Longrightarrow> length (filter P xs) < length xs"
  by (induction xs) (auto simp: less_Suc_eq_le)

text \<open>Writing a block of bytes into a buffer, as \<^verbatim>\<open>memcpy(buf + off, src, n)\<close> does.\<close>

definition blit :: "'a list \<Rightarrow> nat \<Rightarrow> 'a list \<Rightarrow> 'a list" where
  "blit buf off src = take off buf @ src @ drop (off + length src) buf"

lemma length_blit [simp]:
  "off + length src \<le> length buf \<Longrightarrow> length (blit buf off src) = length buf"
  by (simp add: blit_def)

lemma nth_blit:
  assumes "off + length src \<le> length buf" and "i < length buf"
  shows "blit buf off src ! i =
    (if off \<le> i \<and> i < off + length src then src ! (i - off) else buf ! i)"
  using assms by (auto simp: blit_def nth_append min_def)

lemma blit_Nil [simp]: "blit buf off [] = buf"
  by (simp add: blit_def)

section \<open>Searching\<close>

text \<open>The loops that look for the first entry with a property.\<close>

primrec find_index :: "('a \<Rightarrow> bool) \<Rightarrow> 'a list \<Rightarrow> nat option" where
  "find_index P [] = None"
| "find_index P (x # xs) = (if P x then Some 0 else map_option Suc (find_index P xs))"

text \<open>Closing the gap of a removed entry.\<close>

definition remove_at :: "nat \<Rightarrow> 'a list \<Rightarrow> 'a list" where
  "remove_at i xs = take i xs @ drop (Suc i) xs"

lemma find_index_SomeD:
  "find_index P xs = Some i \<Longrightarrow> i < length xs \<and> P (xs ! i) \<and> (\<forall>j < i. \<not> P (xs ! j))"
proof (induction xs arbitrary: i)
  case (Cons x xs)
  then show ?case by (cases i) (auto split: if_splits simp: nth_Cons split: nat.splits)
qed simp

lemma find_index_None: "find_index P xs = None \<longleftrightarrow> (\<forall>x \<in> set xs. \<not> P x)"
  by (induction xs) auto

lemma find_indexI: "i < length xs \<Longrightarrow> P (xs ! i) \<Longrightarrow> (\<And>j. j < i \<Longrightarrow> \<not> P (xs ! j)) \<Longrightarrow> find_index P xs = Some i"
proof (induction xs arbitrary: i)
  case (Cons x xs)
  show ?case
  proof (cases i)
    case (Suc k)
    have "\<not> P x" using Cons.prems(3) [of 0] Suc by simp
    moreover have "find_index P xs = Some k"
    proof (rule Cons.IH)
      show "\<not> P (xs ! j)" if "j < k" for j using Cons.prems(3) [of "Suc j"] that Suc by simp
    qed (use Cons.prems Suc in simp_all)
    ultimately show ?thesis using Suc by simp
  qed (use Cons in simp)
qed simp

lemma map_remove_at: "map f (remove_at i xs) = remove_at i (map f xs)"
  by (simp add: remove_at_def take_map drop_map)

lemma length_remove_at: "i < length xs \<Longrightarrow> length (remove_at i xs) = length xs - 1"
  by (simp add: remove_at_def)

lemma set_remove_at: "set (remove_at i xs) \<subseteq> set xs"
  by (auto simp: remove_at_def dest: in_set_takeD in_set_dropD)

lemma distinct_remove_at: "distinct xs \<Longrightarrow> distinct (remove_at i xs)"
proof (cases "i < length xs")
  case True
  assume "distinct xs"
  then have "distinct (take i xs @ xs ! i # drop (Suc i) xs)" by (simp flip: id_take_nth_drop [OF True])
  then show ?thesis by (auto simp: remove_at_def)
qed (simp add: remove_at_def)

lemma nth_remove_at:
  "i < length xs \<Longrightarrow> k < length xs - 1 \<Longrightarrow> remove_at i xs ! k = xs ! (if k < i then k else Suc k)"
  by (auto simp: remove_at_def nth_append min_def)

section \<open>Sizes\<close>

text \<open>
  \<^verbatim>\<open>size_t\<close> values are natural numbers below \<open>2 ^ 64\<close>; a subtraction wraps around.
\<close>

definition size_sub :: "nat \<Rightarrow> nat \<Rightarrow> nat" where
  "size_sub a b = (a + 2 ^ 64 - b) mod 2 ^ 64"

lemma size_sub_le: "b \<le> a \<Longrightarrow> a < 2 ^ 64 \<Longrightarrow> size_sub a b = a - b"
proof -
  assume "b \<le> a" and "a < 2 ^ 64"
  then have "a + 2 ^ 64 - b = (a - b) + 2 ^ 64" and "a - b < 2 ^ 64" by auto
  then show ?thesis by (simp only: size_sub_def mod_add_self2 mod_less)
qed

section \<open>Words\<close>

lemma unat_mask_lt: "unat (w AND mask n :: 'a::len word) < 2 ^ n"
  by (simp flip: take_bit_eq_mask add: unsigned_take_bit_eq)

lemma xor_cancel_left [simp]: "(a::'a::len word) XOR (a XOR b) = b"
  by (simp flip: xor.assoc)

lemma xor_cancel_right [simp]: "(b XOR a) XOR (a::'a::len word) = b"
  by (simp add: xor.assoc)

end
