(* ===== verification/Interfaces.thy ===== *)
theory Interfaces
  imports Prelude
begin

text \<open>
  The contracts that several components share, each stated once as a locale and interpreted
  in the theory of every component that provides it:
  \<^item> \<open>fifo\<close>: a queue that hands out what was put in, in order (ring buffer, RLC service
    data unit queues, thread pool task queue);
  \<^item> \<open>keystream\<close>: a generator of keystream words, from which a cipher by exclusive or is
    built (SNOW 3G and ZUC);
  \<^item> \<open>keyed_store\<close>: entries found by a key (bearer tables, QoS flow tables).
\<close>

section \<open>First-in first-out queues\<close>

datatype 'a qop = Put 'a | Get

text \<open>
  A run of queue operations collects what was accepted and what was handed out; a refused
  put and a get on an empty queue change nothing.
\<close>

fun run_queue :: "('a \<Rightarrow> 'q \<Rightarrow> 'q option) \<Rightarrow> ('q \<Rightarrow> ('a \<times> 'q) option) \<Rightarrow> 'q \<Rightarrow> 'a qop list
    \<Rightarrow> 'a list \<times> 'a list \<times> 'q" where
  "run_queue put get q [] = ([], [], q)"
| "run_queue put get q (Put x # ops) =
     (case put x q of
        None \<Rightarrow> run_queue put get q ops
      | Some q' \<Rightarrow> (case run_queue put get q' ops of (ins, outs, r) \<Rightarrow> (x # ins, outs, r)))"
| "run_queue put get q (Get # ops) =
     (case get q of
        None \<Rightarrow> run_queue put get q ops
      | Some (x, q') \<Rightarrow> (case run_queue put get q' ops of (ins, outs, r) \<Rightarrow> (ins, x # outs, r)))"

locale fifo =
  fixes invar :: "'q \<Rightarrow> bool"
    and items :: "'q \<Rightarrow> 'a list"
    and put :: "'a \<Rightarrow> 'q \<Rightarrow> 'q option"
    and get :: "'q \<Rightarrow> ('a \<times> 'q) option"
  assumes put_items: "invar q \<Longrightarrow> put x q = Some q' \<Longrightarrow> items q' = items q @ [x]"
    and put_invar: "invar q \<Longrightarrow> put x q = Some q' \<Longrightarrow> invar q'"
    and get_items: "invar q \<Longrightarrow> get q = Some (x, q') \<Longrightarrow> items q = x # items q'"
    and get_invar: "invar q \<Longrightarrow> get q = Some (x, q') \<Longrightarrow> invar q'"
    and get_None: "invar q \<Longrightarrow> get q = None \<longleftrightarrow> items q = []"
begin

lemma run_fifo:
  "invar q \<Longrightarrow> run_queue put get q ops = (ins, outs, r) \<Longrightarrow>
   invar r \<and> items q @ ins = outs @ items r"
proof (induction ops arbitrary: q ins outs r)
  case Nil
  then show ?case by simp
next
  case (Cons op ops)
  show ?case
  proof (cases op)
    case (Put x)
    show ?thesis
    proof (cases "put x q")
      case None
      with Put Cons show ?thesis by simp
    next
      case (Some q')
      with Put Cons.prems obtain ins' where
        "run_queue put get q' ops = (ins', outs, r)" and "ins = x # ins'"
        by (auto split: prod.splits)
      with Cons.IH put_invar [OF Cons.prems(1) Some] put_items [OF Cons.prems(1) Some]
      show ?thesis by fastforce
    qed
  next
    case Get
    show ?thesis
    proof (cases "get q")
      case None
      with Get Cons show ?thesis by simp
    next
      case (Some a)
      then obtain x q' where g: "get q = Some (x, q')" by (cases a) auto
      with Get Cons.prems obtain outs' where
        "run_queue put get q' ops = (ins, outs', r)" and "outs = x # outs'"
        by (auto split: prod.splits)
      with Cons.IH get_invar [OF Cons.prems(1) g] get_items [OF Cons.prems(1) g]
      show ?thesis by fastforce
    qed
  qed
qed

lemma get_put_empty:
  assumes "invar q" and "items q = []" and "put x q = Some q'"
  shows "\<exists>q''. get q' = Some (x, q'') \<and> items q'' = []"
proof -
  have inv: "invar q'" and it: "items q' = [x]"
    using assms put_invar put_items by (auto)
  then obtain y q'' where g: "get q' = Some (y, q'')"
    using get_None by (cases "get q'") auto
  then show ?thesis using get_items [OF inv g] it by auto
qed

end

text \<open>A queue with a bounded number of places: a put is refused exactly when it is full.\<close>

locale bounded_fifo = fifo +
  fixes capacity :: "'q \<Rightarrow> nat"
  assumes put_None: "invar q \<Longrightarrow> put x q = None \<longleftrightarrow> capacity q \<le> length (items q)"
    and put_capacity: "invar q \<Longrightarrow> put x q = Some q' \<Longrightarrow> capacity q' = capacity q"
    and get_capacity: "invar q \<Longrightarrow> get q = Some (y, q') \<Longrightarrow> capacity q' = capacity q"
    and within: "invar q \<Longrightarrow> length (items q) \<le> capacity q"
begin

lemma run_within:
  assumes "invar q" and "run_queue put get q ops = (ins, outs, r)"
  shows "length (items q) + length ins \<le> length outs + capacity r"
proof -
  have "invar r" and eq: "items q @ ins = outs @ items r"
    using run_fifo assms by auto
  then have "length (items r) \<le> capacity r" using within by simp
  moreover have "length (items q) + length ins = length outs + length (items r)"
    using arg_cong [OF eq, of length] by simp
  ultimately show ?thesis by simp
qed

end

section \<open>Keystream generators\<close>

text \<open>
  A generator produces a block of \<open>k\<close> keystream bytes per call (a 32-bit word of 4 bytes for
  SNOW 3G and ZUC, an AES block of 16). The ciphers exclusive-or the message with the blocks,
  the last incomplete group with the leading bytes of one more block. Words are laid out in the
  byte order of the (little-endian) machine.
\<close>

definition word_bytes :: "u32 \<Rightarrow> u8 list" where
  "word_bytes w = [ucast w, ucast (drop_bit 8 w), ucast (drop_bit 16 w), ucast (drop_bit 24 w)]"

primrec bytes_word :: "u8 list \<Rightarrow> u32" where
  "bytes_word [] = 0"
| "bytes_word (b # bs) = ucast b + 256 * bytes_word bs"

lemma length_word_bytes [simp]: "length (word_bytes w) = 4"
  by (simp add: word_bytes_def)

function xor_stream :: "nat \<Rightarrow> ('s \<Rightarrow> u8 list \<times> 's) \<Rightarrow> 's \<Rightarrow> u8 list \<Rightarrow> u8 list" where
  "xor_stream k gen s bs =
     (if bs = [] \<or> k = 0 then []
      else (case gen s of (ks, s') \<Rightarrow>
        map2 (XOR) (take k bs) ks @ xor_stream k gen s' (drop k bs)))"
  by pat_completeness auto
termination
  by (relation "measure (\<lambda>(k, gen, s, bs). length bs)") auto

declare xor_stream.simps [simp del]

lemma xor_stream_Nil [simp]: "xor_stream k gen s [] = []"
  by (simp add: xor_stream.simps)

lemma xor_stream_step:
  "bs \<noteq> [] \<Longrightarrow> 0 < k \<Longrightarrow> gen s = (ks, s') \<Longrightarrow>
   xor_stream k gen s bs = map2 (XOR) (take k bs) ks @ xor_stream k gen s' (drop k bs)"
  by (subst xor_stream.simps) simp

lemma map2_xor_twice:
  "length bs \<le> length (ks :: 'a::len word list) \<Longrightarrow> map2 (XOR) (map2 (XOR) bs ks) ks = bs"
proof (induction bs arbitrary: ks)
  case (Cons b bs)
  then show ?case by (cases ks) auto
qed simp

lemma map2_xor_key:
  "length bs = length (ks :: 'a::len word list) \<Longrightarrow> map2 (XOR) (map2 (XOR) bs ks) bs = ks"
  by (induction bs ks rule: list_induct2) (simp_all add: ac_simps)

locale keystream =
  fixes k :: nat
    and gen :: "'s \<Rightarrow> u8 list \<times> 's"
  assumes block_pos: "0 < k"
    and block_length: "gen s = (ks, s') \<Longrightarrow> length ks = k"
begin

lemma stream_length: "length (xor_stream k gen s bs) = length bs"
proof (induction bs arbitrary: s rule: length_induct)
  case (1 bs)
  show ?case
  proof (cases "bs = []")
    case False
    obtain ks s' where g: "gen s = (ks, s')" by fastforce
    have "length (drop k bs) < length bs" using False block_pos by simp
    with 1 have "length (xor_stream k gen s' (drop k bs)) = length (drop k bs)" by blast
    then show ?thesis using False g block_pos block_length [OF g] by (simp add: xor_stream_step)
  qed simp
qed

lemma stream_twice: "xor_stream k gen s (xor_stream k gen s bs) = bs"
proof (induction bs arbitrary: s rule: length_induct)
  case (1 bs)
  show ?case
  proof (cases "bs = []")
    case False
    obtain ks s' where g: "gen s = (ks, s')" by fastforce
    note len = block_length [OF g]
    let ?c = "map2 (XOR) (take k bs) ks"
    have eq: "xor_stream k gen s bs = ?c @ xor_stream k gen s' (drop k bs)"
      using False g block_pos by (simp add: xor_stream_step)
    have ne: "xor_stream k gen s bs \<noteq> []"
      using False stream_length [of s bs] by (metis length_0_conv)
    have tk: "take k (?c @ xor_stream k gen s' (drop k bs)) = ?c"
      using len by (cases "length bs \<le> k") auto
    have dr: "drop k (?c @ xor_stream k gen s' (drop k bs)) = xor_stream k gen s' (drop k bs)"
      using len by (cases "length bs \<le> k") auto
    have "length (drop k bs) < length bs" using False block_pos by simp
    with 1 have IH: "xor_stream k gen s' (xor_stream k gen s' (drop k bs)) = drop k bs" by blast
    have "xor_stream k gen s (xor_stream k gen s bs) =
        map2 (XOR) ?c ks @ xor_stream k gen s' (xor_stream k gen s' (drop k bs))"
      using xor_stream_step [of _ k gen s, OF ne block_pos g] by (simp only: eq tk dr)
    also have "\<dots> = take k bs @ drop k bs"
      using len by (simp add: map2_xor_twice IH)
    finally show ?thesis by simp
  qed simp
qed

text \<open>Two messages under the same keystream: the difference of the ciphertexts is that of the messages.\<close>

lemma stream_diff:
  "length xs = length ys \<Longrightarrow> map2 (XOR) (xor_stream k gen s xs) (xor_stream k gen s ys) = map2 (XOR) xs ys"
proof (induction xs arbitrary: ys s rule: length_induct)
  case (1 xs)
  show ?case
  proof (cases "xs = []")
    case False
    then have ne: "ys \<noteq> []" using 1(2) by auto
    obtain ks s' where g: "gen s = (ks, s')" by fastforce
    have "length (drop k xs) < length xs" using False block_pos by simp
    with 1 have IH: "map2 (XOR) (xor_stream k gen s' (drop k xs)) (xor_stream k gen s' (drop k ys)) =
        map2 (XOR) (drop k xs) (drop k ys)" by simp
    have pad: "map2 (XOR) (map2 (XOR) as ws) (map2 (XOR) bs ws) = map2 (XOR) as bs"
      if "length as = length bs" and "length bs \<le> length ws" for as bs ws :: "u8 list"
      using that
    proof (induction as arbitrary: bs ws)
      case (Cons a as)
      then show ?case by (cases bs; cases ws) (auto simp: ac_simps)
    qed simp
    have len: "length (map2 (XOR) (take k xs) ks) = length (map2 (XOR) (take k ys) ks)"
      using 1(2) by simp
    have blk: "map2 (XOR) (map2 (XOR) (take k xs) ks) (map2 (XOR) (take k ys) ks) = map2 (XOR) (take k xs) (take k ys)"
      using 1(2) block_length [OF g] by (intro pad) auto
    have "map2 (XOR) (xor_stream k gen s xs) (xor_stream k gen s ys) =
        map2 (XOR) (take k xs) (take k ys) @ map2 (XOR) (drop k xs) (drop k ys)"
      unfolding xor_stream_step [of xs k gen s, OF False block_pos g] xor_stream_step [of ys k gen s, OF ne block_pos g]
      by (simp only: zip_append [OF len] map_append blk IH)
    also have "\<dots> = map2 (XOR) (take k xs @ drop k xs) (take k ys @ drop k ys)"
      using 1(2) by (simp only: zip_append length_take map_append)
    finally show ?thesis by simp
  qed simp
qed

text \<open>Message and output differ, in their \<open>i\<close>-th complete group, by the \<open>i\<close>-th keystream block.\<close>

lemma stream_block:
  "k * i + k \<le> length bs \<Longrightarrow> take k (drop (k * i) (xor_stream k gen s bs)) =
   map2 (XOR) (take k (drop (k * i) bs)) (fst (gen (((\<lambda>t. snd (gen t)) ^^ i) s)))"
proof (induction i arbitrary: s bs)
  case (0 s bs)
  obtain ks s' where g: "gen s = (ks, s')" by fastforce
  have "bs \<noteq> []" using 0 block_pos by auto
  then show ?case using 0 block_length [OF g] by (simp add: xor_stream_step [of _ k gen s, OF _ block_pos g] g)
next
  case (Suc i s bs)
  obtain ks s' where g: "gen s = (ks, s')" by fastforce
  have "bs \<noteq> []" using Suc.prems block_pos by auto
  then have "drop (k * Suc i) (xor_stream k gen s bs) = drop (k * i) (xor_stream k gen s' (drop k bs))"
    using Suc.prems block_length [OF g] by (simp add: xor_stream_step [of _ k gen s, OF _ block_pos g])
  moreover have "((\<lambda>t. snd (gen t)) ^^ Suc i) s = ((\<lambda>t. snd (gen t)) ^^ i) s'"
    by (simp only: funpow_Suc_right comp_apply g snd_conv)
  ultimately show ?case
    using Suc.IH [of "drop k bs" s'] Suc.prems by (simp add: add.commute del: funpow.simps)
qed

lemma stream_key_block:
  assumes "k * i + k \<le> length bs"
  shows "map2 (XOR) (take k (drop (k * i) (xor_stream k gen s bs))) (take k (drop (k * i) bs)) =
    fst (gen (((\<lambda>t. snd (gen t)) ^^ i) s))"
proof -
  have "length (fst (gen t)) = k" for t using block_length by (metis prod.collapse)
  then show ?thesis using assms by (simp add: stream_block map2_xor_key)
qed

end

section \<open>Message authentication by accumulation\<close>

text \<open>
  The integrity algorithms of SNOW 3G and ZUC accumulate message words and keystream words by
  exclusive or; an incomplete last group is padded with zero bytes, and one more keystream
  word closes the code.
\<close>

function mac_stream :: "('s \<Rightarrow> u32 \<times> 's) \<Rightarrow> 's \<Rightarrow> u32 \<Rightarrow> u8 list \<Rightarrow> u32" where
  "mac_stream gen s acc bs =
     (case gen s of (w, s') \<Rightarrow>
        if bs = [] then acc XOR w
        else mac_stream gen s' (acc XOR (bytes_word (take 4 bs) XOR w)) (drop 4 bs))"
  by pat_completeness auto
termination
  by (relation "measure (\<lambda>(gen, s, acc, bs). length bs)") auto

declare mac_stream.simps [simp del]

text \<open>The exclusive or of the message words, the only thing the code sees of a message.\<close>

function checksum :: "u8 list \<Rightarrow> u32" where
  "checksum bs = (if bs = [] then 0 else bytes_word (take 4 bs) XOR checksum (drop 4 bs))"
  by pat_completeness auto
termination
  by (relation "measure length") auto

declare checksum.simps [simp del]

lemma checksum_Nil [simp]: "checksum [] = 0"
  by (simp add: checksum.simps)

lemma checksum_append:
  "4 dvd length xs \<Longrightarrow> checksum (xs @ ys) = checksum xs XOR checksum ys"
proof (induction xs rule: checksum.induct)
  case (1 xs)
  show ?case
  proof (cases "xs = []")
    case False
    with 1(2) have len: "4 \<le> length xs" and "4 dvd length (drop 4 xs)"
      by (auto simp: dvd_imp_le)
    with 1 False have IH: "checksum (drop 4 xs @ ys) = checksum (drop 4 xs) XOR checksum ys"
      by blast
    have "checksum (xs @ ys) = bytes_word (take 4 xs) XOR checksum (drop 4 xs @ ys)"
      using False len by (subst checksum.simps) simp
    also have "\<dots> = checksum xs XOR checksum ys"
      using False by (subst (2) checksum.simps) (simp add: IH xor.assoc)
    finally show ?thesis .
  qed simp
qed

text \<open>The exclusive or of the keystream words: \<open>n\<close> for the groups and one more.\<close>

primrec key_sum :: "('s \<Rightarrow> u32 \<times> 's) \<Rightarrow> 's \<Rightarrow> nat \<Rightarrow> u32" where
  "key_sum gen s 0 = fst (gen s)"
| "key_sum gen s (Suc n) = fst (gen s) XOR key_sum gen (snd (gen s)) n"

lemma mac_stream_checksum:
  "mac_stream gen s acc bs = acc XOR checksum bs XOR key_sum gen s ((length bs + 3) div 4)"
proof (induction gen s acc bs rule: mac_stream.induct)
  case (1 gen s acc bs)
  obtain w s' where g: "gen s = (w, s')" by (cases "gen s")
  show ?case
  proof (cases "bs = []")
    case True
    then show ?thesis by (subst mac_stream.simps) (simp add: g)
  next
    case False
    then have n: "(length bs + 3) div 4 = Suc ((length (drop 4 bs) + 3) div 4)"
      by (cases "length bs \<le> 4") (auto simp: length_greater_0_conv [symmetric] simp del: length_greater_0_conv)
    have "checksum bs = bytes_word (take 4 bs) XOR checksum (drop 4 bs)"
      using False by (subst checksum.simps) simp
    then show ?thesis
      using 1 [OF g [symmetric] False] False
      by (subst mac_stream.simps) (simp add: g n ac_simps)
  qed
qed

section \<open>Ciphers\<close>

text \<open>What PDCP relies on: deciphering undoes ciphering, and the length is kept.\<close>

locale cipher =
  fixes enc dec :: "'k \<Rightarrow> 'p \<Rightarrow> u8 list \<Rightarrow> u8 list"
  assumes dec_enc: "dec k p (enc k p m) = m"
    and enc_length: "length (enc k p m) = length m"
begin

lemma enc_inject: "enc k p m = enc k p m' \<longleftrightarrow> m = m'"
  by (metis dec_enc)

lemma enc_Nil: "enc k p [] = []"
  using enc_length [of k p "[]"] by simp

end

locale stream_cipher = cipher +
  assumes dec_is_enc: "dec = enc"
begin

lemma enc_enc: "enc k p (enc k p m) = m"
  using dec_enc by (simp add: dec_is_enc)

lemma enc_surj: "\<exists>m. enc k p m = c"
  using enc_enc by blast

end

section \<open>Keyed stores\<close>

locale keyed_store =
  fixes invar :: "'m \<Rightarrow> bool"
    and lookup :: "'m \<Rightarrow> 'k \<Rightarrow> 'v option"
    and insert :: "'k \<Rightarrow> 'v \<Rightarrow> 'm \<Rightarrow> 'm option"
    and remove :: "'k \<Rightarrow> 'm \<Rightarrow> 'm option"
  assumes insert_lookup: "invar m \<Longrightarrow> insert k v m = Some m' \<Longrightarrow> lookup m' = (lookup m)(k \<mapsto> v)"
    and insert_invar: "invar m \<Longrightarrow> insert k v m = Some m' \<Longrightarrow> invar m'"
    and remove_lookup: "invar m \<Longrightarrow> remove k m = Some m' \<Longrightarrow> lookup m' = (lookup m)(k := None)"
    and remove_invar: "invar m \<Longrightarrow> remove k m = Some m' \<Longrightarrow> invar m'"
begin

lemma lookup_insert_same: "invar m \<Longrightarrow> insert k v m = Some m' \<Longrightarrow> lookup m' k = Some v"
  by (simp add: insert_lookup)

lemma lookup_insert_other:
  "invar m \<Longrightarrow> insert k v m = Some m' \<Longrightarrow> j \<noteq> k \<Longrightarrow> lookup m' j = lookup m j"
  by (simp add: insert_lookup)

lemma insert_remove:
  assumes "invar m" and "insert k v m = Some m'" and "remove k m' = Some m''" and "lookup m k = None"
  shows "lookup m'' = lookup m"
proof -
  have inv: "invar m'" by (rule insert_invar [OF assms(1,2)])
  show ?thesis
    using assms(4)
    by (simp add: remove_lookup [OF inv assms(3)] insert_lookup [OF assms(1,2)] fun_upd_idem)
qed

lemma insert_insert:
  assumes "invar m" and "insert k v m = Some m'" and "insert k w m' = Some m''"
  shows "lookup m'' = (lookup m)(k \<mapsto> w)"
proof -
  have inv: "invar m'" by (rule insert_invar [OF assms(1,2)])
  show ?thesis
    by (simp add: insert_lookup [OF inv assms(3)] insert_lookup [OF assms(1,2)])
qed

end

end
