(* ===== verification/Ring_Buffer.thy ===== *)
theory Ring_Buffer
  imports Interfaces
begin

text \<open>
  The ring buffer of \<^verbatim>\<open>src/utils/ring_buffer.c\<close>: a byte array with a head, where the
  next byte is written, and a tail, where the next byte is read; one place stays free, so that
  a full buffer differs from an empty one. The writer holds \<open>head_lock\<close>, the reader
  \<open>tail_lock\<close>, so the two run concurrently.

  The first part models one turn of the loops of \<^verbatim>\<open>ring_buffer_write\<close> and
  \<^verbatim>\<open>ring_buffer_read\<close> and the loops themselves, as they run undisturbed; the second part
  interleaves the reader's and the writer's accesses to the shared fields.
\<close>

section \<open>The buffer and its observers\<close>

record ring_buffer =
  rb_buffer :: "u8 list option"
  rb_size :: nat
  rb_head :: nat
  rb_tail :: nat

definition ring_buffer_available :: "ring_buffer option \<Rightarrow> nat" where
  "ring_buffer_available p = (case p of None \<Rightarrow> 0
    | Some rb \<Rightarrow>
        if rb_head rb \<ge> rb_tail rb
        then size_sub (size_sub (rb_size rb) (rb_head rb - rb_tail rb)) 1
        else size_sub (rb_tail rb - rb_head rb) 1)"

definition ring_buffer_used :: "ring_buffer option \<Rightarrow> nat" where
  "ring_buffer_used p = (case p of None \<Rightarrow> 0
    | Some rb \<Rightarrow>
        if rb_head rb \<ge> rb_tail rb
        then rb_head rb - rb_tail rb
        else (size_sub (rb_size rb) (rb_tail rb) + rb_head rb) mod 2 ^ 64)"

definition ring_buffer_is_empty :: "ring_buffer option \<Rightarrow> bool" where
  "ring_buffer_is_empty p = (case p of None \<Rightarrow> True | Some rb \<Rightarrow> rb_head rb = rb_tail rb)"

definition ring_buffer_is_full :: "ring_buffer option \<Rightarrow> bool" where
  "ring_buffer_is_full p = (case p of None \<Rightarrow> False | Some rb \<Rightarrow> ring_buffer_available p = 0)"

text \<open>
  Initialisation takes the bytes of the fresh allocation, which the code does not clear; they
  are as many as were asked for. The four \<open>init_ok\<close> outcomes are those of the two mutexes and
  the two condition variables, in the code's order; a failure releases the buffer.
\<close>

definition ring_buffer_init ::
  "os \<Rightarrow> (nat \<Rightarrow> u8 list) \<Rightarrow> ring_buffer option \<Rightarrow> nat \<Rightarrow> uesim_error \<times> ring_buffer option" where
  "ring_buffer_init s fresh p n = with_ptr p (\<lambda>rb.
     if \<not> alloc_ok s 0 then (UESIM_ERROR_MEMORY, rb\<lparr>rb_buffer := None\<rparr>)
     else let rb = rb\<lparr>rb_buffer := Some (fresh n), rb_size := n, rb_head := 0, rb_tail := 0\<rparr>
       in if init_ok s 0 \<and> init_ok s 1 \<and> init_ok s 2 \<and> init_ok s 3
          then (UESIM_SUCCESS, rb)
          else (UESIM_ERROR_THREAD, rb\<lparr>rb_buffer := None\<rparr>))"

definition ring_buffer_destroy :: "ring_buffer option \<Rightarrow> ring_buffer option" where
  "ring_buffer_destroy p = map_option
     (\<lambda>rb. rb\<lparr>rb_buffer := None, rb_size := 0, rb_head := 0, rb_tail := 0\<rparr>) p"

section \<open>One turn of the loops\<close>

text \<open>
  Copying into and out of the array around its end: the two \<^verbatim>\<open>memcpy\<close> calls.
\<close>

definition rb_store :: "u8 list \<Rightarrow> nat \<Rightarrow> nat \<Rightarrow> u8 list \<Rightarrow> u8 list" where
  "rb_store buf sz head src =
     (let first_write = min (length src) (sz - head)
      in blit (blit buf head (take first_write src)) 0 (drop first_write src))"

definition rb_fetch :: "u8 list \<Rightarrow> nat \<Rightarrow> nat \<Rightarrow> nat \<Rightarrow> u8 list" where
  "rb_fetch buf sz tail n =
     (let first_read = min n (sz - tail)
      in take first_read (drop tail buf) @ take (n - first_read) buf)"

text \<open>
  A turn moves as much as fits, waits when nothing fits, and faults where the C code has no
  defined behaviour: an access outside the array, or the reduction modulo a size of 0.
\<close>

datatype 'a turn = Moved 'a | Wait | Fault

definition rb_write_turn :: "ring_buffer \<Rightarrow> u8 list \<Rightarrow> (ring_buffer \<times> u8 list) turn" where
  "rb_write_turn rb rest =
     (let available = ring_buffer_available (Some rb) in
      if available = 0 then Wait
      else let write_size = min (length rest) available in
        case rb_buffer rb of
          None \<Rightarrow> Fault
        | Some buf \<Rightarrow>
            if rb_size rb = 0 \<or> length buf < rb_size rb \<or> rb_size rb < write_size \<or> rb_size rb < rb_head rb
            then Fault
            else Moved (rb\<lparr>rb_buffer := Some (rb_store buf (rb_size rb) (rb_head rb) (take write_size rest)),
                           rb_head := (rb_head rb + write_size) mod rb_size rb\<rparr>,
                        drop write_size rest))"

definition rb_read_turn :: "ring_buffer \<Rightarrow> nat \<Rightarrow> (ring_buffer \<times> u8 list) turn" where
  "rb_read_turn rb n =
     (let used = ring_buffer_used (Some rb) in
      if used = 0 then Wait
      else let read_size = min n used in
        case rb_buffer rb of
          None \<Rightarrow> Fault
        | Some buf \<Rightarrow>
            if rb_size rb = 0 \<or> length buf < rb_size rb \<or> rb_size rb < read_size \<or> rb_size rb < rb_tail rb
            then Fault
            else Moved (rb\<lparr>rb_tail := (rb_tail rb + read_size) mod rb_size rb\<rparr>,
                        rb_fetch buf (rb_size rb) (rb_tail rb) read_size))"

section \<open>The loops\<close>

text \<open>
  The loops as they run with no other thread: a call that has to wait stays in
  \<^verbatim>\<open>pthread_cond_wait\<close>, which is the result \<open>Blocked\<close>, with what is left to move or has
  been moved. Turn \<open>i\<close> takes the lock first (\<open>lock_ok s i\<close>). A turn moves at least one
  byte, so the loops end.
\<close>

datatype 'a call = Returned uesim_error 'a | Blocked 'a | Undefined

lemma rb_write_turn_less:
  "rb_write_turn rb rest = Moved (rb', rest') \<Longrightarrow> rest \<noteq> [] \<Longrightarrow> length rest' < length rest"
  by (auto simp: rb_write_turn_def Let_def split: if_splits option.splits)

lemma rb_read_turn_pos:
  "rb_read_turn rb n = Moved (rb', bs) \<Longrightarrow> 0 < n \<Longrightarrow> bs \<noteq> []"
  by (auto simp: rb_read_turn_def rb_fetch_def Let_def split: if_splits option.splits)

function rb_write_loop :: "os \<Rightarrow> nat \<Rightarrow> ring_buffer \<Rightarrow> u8 list \<Rightarrow> (ring_buffer \<times> u8 list) call" where
  "rb_write_loop s i rb rest =
     (if rest = [] then Returned UESIM_SUCCESS (rb, [])
      else if \<not> lock_ok s i then Returned UESIM_ERROR_THREAD (rb, rest)
      else case rb_write_turn rb rest of
             Moved (rb', rest') \<Rightarrow> rb_write_loop s (Suc i) rb' rest'
           | Wait \<Rightarrow> Blocked (rb, rest)
           | Fault \<Rightarrow> Undefined)"
  by pat_completeness auto
termination
  by (relation "measure (\<lambda>(s, i, rb, rest). length rest)") (auto dest: rb_write_turn_less)

function rb_read_loop :: "os \<Rightarrow> nat \<Rightarrow> ring_buffer \<Rightarrow> nat \<Rightarrow> u8 list \<Rightarrow> (ring_buffer \<times> u8 list) call" where
  "rb_read_loop s i rb n got =
     (if n = 0 then Returned UESIM_SUCCESS (rb, got)
      else if \<not> lock_ok s i then Returned UESIM_ERROR_THREAD (rb, got)
      else case rb_read_turn rb n of
             Moved (rb', bs) \<Rightarrow> rb_read_loop s (Suc i) rb' (n - length bs) (got @ bs)
           | Wait \<Rightarrow> Blocked (rb, got)
           | Fault \<Rightarrow> Undefined)"
  by pat_completeness auto
termination
  by (relation "measure (\<lambda>(s, i, rb, n, got). n)") (auto dest: rb_read_turn_pos)

declare rb_write_loop.simps [simp del] rb_read_loop.simps [simp del]

text \<open>The entry points, with their argument checks.\<close>

fun lift_call :: "(ring_buffer \<times> 'a) call \<Rightarrow> (ring_buffer option \<times> 'a) call" where
  "lift_call (Returned r (rb, x)) = Returned r (Some rb, x)"
| "lift_call (Blocked (rb, x)) = Blocked (Some rb, x)"
| "lift_call Undefined = Undefined"

definition ring_buffer_write ::
  "os \<Rightarrow> ring_buffer option \<Rightarrow> u8 list option \<Rightarrow> (ring_buffer option \<times> u8 list) call" where
  "ring_buffer_write s p data = (case (p, data) of
     (Some rb, Some (b # bs)) \<Rightarrow> lift_call (rb_write_loop s 0 rb (b # bs))
   | _ \<Rightarrow> Returned UESIM_ERROR_INVALID_PARAM (p, []))"

definition ring_buffer_read ::
  "os \<Rightarrow> ring_buffer option \<Rightarrow> bool \<Rightarrow> nat \<Rightarrow> (ring_buffer option \<times> u8 list) call" where
  "ring_buffer_read s p data n = (case p of
     None \<Rightarrow> Returned UESIM_ERROR_INVALID_PARAM (p, [])
   | Some rb \<Rightarrow>
       if \<not> data \<or> n = 0 then Returned UESIM_ERROR_INVALID_PARAM (p, [])
       else lift_call (rb_read_loop s 0 rb n []))"

section \<open>Circular slices\<close>

definition ring_slice :: "u8 list \<Rightarrow> nat \<Rightarrow> nat \<Rightarrow> u8 list" where
  "ring_slice buf start n = map (\<lambda>i. buf ! ((start + i) mod length buf)) [0..<n]"

lemma length_ring_slice [simp]: "length (ring_slice buf start n) = n"
  by (simp add: ring_slice_def)

lemma ring_slice_0 [simp]: "ring_slice buf start 0 = []"
  by (simp add: ring_slice_def)

lemma nth_ring_slice:
  "i < n \<Longrightarrow> ring_slice buf start n ! i = buf ! ((start + i) mod length buf)"
  by (simp add: ring_slice_def)

lemma ring_slice_append:
  "ring_slice buf start (a + b) = ring_slice buf start a @ ring_slice buf ((start + a) mod length buf) b"
proof -
  have "[0..<a + b] = [0..<a] @ map (\<lambda>i. i + a) [0..<b]"
    using upt_add_eq_append [of 0 a b] by (simp add: map_add_upt add.commute)
  then show ?thesis
    by (simp add: ring_slice_def mod_simps ac_simps)
qed

lemma mod_once: "start < k \<Longrightarrow> i \<le> k \<Longrightarrow> (start + i) mod k = (if start + i < k then start + i else start + i - k)"
  for k :: nat
  by (auto simp: not_less le_mod_geq)

lemma rb_fetch_slice:
  assumes "start < length buf" and "n \<le> length buf"
  shows "rb_fetch buf (length buf) start n = ring_slice buf start n"
proof (rule nth_equalityI)
  show len: "length (rb_fetch buf (length buf) start n) = length (ring_slice buf start n)"
    using assms by (simp add: rb_fetch_def Let_def)
  fix i assume "i < length (rb_fetch buf (length buf) start n)"
  then have i: "i < n" using len by simp
  show "rb_fetch buf (length buf) start n ! i = ring_slice buf start n ! i"
  proof (cases "i < length buf - start")
    case True
    with assms i show ?thesis by (simp add: rb_fetch_def Let_def nth_append nth_ring_slice)
  next
    case False
    with assms i have "start + i - length buf < length buf" and "\<not> start + i < length buf"
      and "i - (length buf - start) = start + i - length buf" by simp_all
    with False assms i show ?thesis
      by (simp add: rb_fetch_def Let_def nth_append nth_ring_slice mod_once)
  qed
qed

lemma length_rb_store [simp]:
  "head < length buf \<Longrightarrow> length src \<le> length buf \<Longrightarrow>
   length (rb_store buf (length buf) head src) = length buf"
  by (auto simp: rb_store_def Let_def min_def)

lemma nth_rb_store:
  assumes "head < length buf" and "length src \<le> length buf" and "i < length buf"
  shows "rb_store buf (length buf) head src ! ((head + i) mod length buf) =
    (if i < length src then src ! i else buf ! ((head + i) mod length buf))"
  using assms
  by (auto simp: rb_store_def Let_def min_def mod_once nth_blit)

lemma ring_slice_store_new:
  assumes "head < length buf" and "length src \<le> length buf"
  shows "ring_slice (rb_store buf (length buf) head src) head (length src) = src"
  using assms by (auto simp: list_eq_iff_nth nth_ring_slice nth_rb_store)

lemma ring_slice_store_old:
  assumes "start < length buf" and "n + length src \<le> length buf"
  shows "ring_slice (rb_store buf (length buf) ((start + n) mod length buf) src) start n
    = ring_slice buf start n"
proof -
  let ?k = "length buf" and ?h = "(start + n) mod length buf"
  have k: "0 < ?k" using assms by auto
  then have h: "?h < ?k" by simp
  have len: "length src \<le> ?k" using assms by simp
  have same: "rb_store buf ?k ?h src ! ((start + i) mod ?k) = buf ! ((start + i) mod ?k)"
    if "i < n" for i
  proof (cases "src = []")
    case True
    then show ?thesis by (simp add: rb_store_def)
  next
    case False
    define d where "d = ?k - n + i"
    have d: "length src \<le> d" "d < ?k"
      using assms that by (simp_all add: d_def)
    have "(?h + d) mod ?k = (start + n + d) mod ?k" by (simp add: mod_simps)
    also have "start + n + d = start + i + ?k" using assms that by (simp add: d_def)
    finally have "(?h + d) mod ?k = (start + i) mod ?k" by simp
    then show ?thesis
      using nth_rb_store [OF h len d(2)] d(1) by simp
  qed
  show ?thesis
    by (rule nth_equalityI) (simp_all add: h len same nth_ring_slice)
qed

section \<open>The invariant and the contents\<close>

definition rb_wf :: "ring_buffer \<Rightarrow> bool" where
  "rb_wf rb \<longleftrightarrow> (\<exists>buf. rb_buffer rb = Some buf \<and> length buf = rb_size rb) \<and>
     rb_size rb < 2 ^ 64 \<and> rb_head rb < rb_size rb \<and> rb_tail rb < rb_size rb"

definition rb_content :: "ring_buffer \<Rightarrow> u8 list" where
  "rb_content rb = (case rb_buffer rb of None \<Rightarrow> []
     | Some buf \<Rightarrow> ring_slice buf (rb_tail rb) (ring_buffer_used (Some rb)))"

lemma rb_wfE:
  assumes "rb_wf rb"
  obtains buf where "rb_buffer rb = Some buf" "length buf = rb_size rb" "rb_size rb < 2 ^ 64"
    "rb_head rb < length buf" "rb_tail rb < length buf"
  using assms by (auto simp: rb_wf_def)

lemma used_wf:
  assumes "rb_wf rb"
  shows "ring_buffer_used (Some rb) =
    (if rb_tail rb \<le> rb_head rb then rb_head rb - rb_tail rb
     else rb_size rb - rb_tail rb + rb_head rb)"
  using assms by (auto simp: ring_buffer_used_def rb_wf_def size_sub_le)

lemma available_wf:
  assumes "rb_wf rb"
  shows "ring_buffer_available (Some rb) = rb_size rb - 1 - ring_buffer_used (Some rb)"
  using assms unfolding used_wf [OF assms]
  by (auto simp: ring_buffer_available_def rb_wf_def size_sub_le)

lemma used_less: "rb_wf rb \<Longrightarrow> ring_buffer_used (Some rb) < rb_size rb"
  by (auto simp: used_wf) (auto simp: rb_wf_def)

lemma head_used:
  "rb_wf rb \<Longrightarrow> (rb_tail rb + ring_buffer_used (Some rb)) mod rb_size rb = rb_head rb"
  by (subst mod_once) (auto simp: used_wf, auto simp: rb_wf_def)

lemma length_rb_content: "rb_wf rb \<Longrightarrow> length (rb_content rb) = ring_buffer_used (Some rb)"
  by (auto simp: rb_content_def elim: rb_wfE)

lemma used_unique:
  assumes "rb_wf rb" and "u < rb_size rb" and "(rb_tail rb + u) mod rb_size rb = rb_head rb"
  shows "ring_buffer_used (Some rb) = u"
  using assms by (auto simp: used_wf mod_once rb_wf_def split: if_splits)

lemma used_buffer_update [simp]:
  "ring_buffer_used (Some (rb\<lparr>rb_buffer := b\<rparr>)) = ring_buffer_used (Some rb)"
  "ring_buffer_available (Some (rb\<lparr>rb_buffer := b\<rparr>)) = ring_buffer_available (Some rb)"
  by (simp_all add: ring_buffer_used_def ring_buffer_available_def)

lemma rb_content_eq:
  "rb_wf rb \<Longrightarrow> rb_buffer rb = Some buf \<Longrightarrow>
   rb_content rb = ring_slice buf (rb_tail rb) (ring_buffer_used (Some rb))"
  by (simp add: rb_content_def)

text \<open>Storing \<open>src\<close> at the head and advancing the head appends \<open>src\<close>.\<close>

lemma rb_store_wf:
  assumes wf: "rb_wf rb" and buf: "rb_buffer rb = Some buf"
    and len: "length src \<le> ring_buffer_available (Some rb)"
  defines "rb1 \<equiv> rb\<lparr>rb_buffer := Some (rb_store buf (rb_size rb) (rb_head rb) src)\<rparr>"
  shows "rb_wf rb1" and "rb_content rb1 = rb_content rb"
    and "ring_slice (rb_store buf (rb_size rb) (rb_head rb) src) (rb_head rb) (length src) = src"
proof -
  let ?u = "ring_buffer_used (Some rb)"
  from wf buf have L: "length buf = rb_size rb" "rb_head rb < length buf" "rb_tail rb < length buf"
    by (auto elim: rb_wfE)
  have fits: "?u + length src \<le> length buf"
    using len used_less [OF wf] available_wf [OF wf] L by simp
  have "length (rb_store buf (rb_size rb) (rb_head rb) src) = rb_size rb"
    using length_rb_store [OF L(2), of src] L fits by simp
  then show wf1: "rb_wf rb1" using wf by (auto simp: rb1_def rb_wf_def buf)
  have u1: "ring_buffer_used (Some rb1) = ?u"
    by (simp add: rb1_def ring_buffer_used_def)
  have hd: "(rb_tail rb + ?u) mod length buf = rb_head rb"
    using head_used [OF wf] L by simp
  show "rb_content rb1 = rb_content rb"
    using ring_slice_store_old [OF L(3) fits] hd L
    by (simp add: rb_content_def u1 buf) (simp add: rb1_def)
  show "ring_slice (rb_store buf (rb_size rb) (rb_head rb) src) (rb_head rb) (length src) = src"
    using ring_slice_store_new [OF L(2), of src] L fits by simp
qed

lemma rb_advance_head:
  assumes wf: "rb_wf rb" and buf: "rb_buffer rb = Some buf"
    and n: "n \<le> ring_buffer_available (Some rb)"
  defines "rb1 \<equiv> rb\<lparr>rb_head := (rb_head rb + n) mod rb_size rb\<rparr>"
  shows "rb_wf rb1" and "rb_content rb1 = rb_content rb @ ring_slice buf (rb_head rb) n"
    and "ring_buffer_used (Some rb1) = ring_buffer_used (Some rb) + n"
proof -
  let ?u = "ring_buffer_used (Some rb)"
  from wf buf have L: "length buf = rb_size rb" "0 < rb_size rb"
    by (auto simp: rb_wf_def)
  show wf1: "rb_wf rb1" using wf L(2) by (auto simp: rb_wf_def rb1_def)
  have "(rb_tail rb + (?u + n)) mod rb_size rb = ((rb_tail rb + ?u) mod rb_size rb + n) mod rb_size rb"
    by (simp add: mod_simps add.assoc)
  then have "(rb_tail rb1 + (?u + n)) mod rb_size rb1 = rb_head rb1"
    using head_used [OF wf] by (simp add: rb1_def)
  moreover have "?u + n < rb_size rb1"
    using n used_less [OF wf] available_wf [OF wf] by (simp add: rb1_def)
  ultimately show u1: "ring_buffer_used (Some rb1) = ?u + n"
    by (intro used_unique [OF wf1]) auto
  have b1: "rb_buffer rb1 = Some buf" by (simp add: rb1_def buf)
  have "rb_content rb1 = ring_slice buf (rb_tail rb) (?u + n)"
    using rb_content_eq [OF wf1 b1] u1 by (simp add: rb1_def)
  also have "\<dots> = rb_content rb @ ring_slice buf (rb_head rb) n"
    using head_used [OF wf] L rb_content_eq [OF wf buf] by (simp add: ring_slice_append)
  finally show "rb_content rb1 = rb_content rb @ ring_slice buf (rb_head rb) n" .
qed

text \<open>Advancing the tail by \<open>n\<close> drops the first \<open>n\<close> bytes, which are those fetched.\<close>

lemma rb_fetch_content:
  assumes wf: "rb_wf rb" and buf: "rb_buffer rb = Some buf"
    and n: "n \<le> ring_buffer_used (Some rb)"
  shows "rb_fetch buf (rb_size rb) (rb_tail rb) n = take n (rb_content rb)"
proof -
  let ?u = "ring_buffer_used (Some rb)"
  from wf buf have L: "length buf = rb_size rb" "rb_tail rb < length buf"
    by (auto elim: rb_wfE)
  have "rb_content rb = ring_slice buf (rb_tail rb) (n + (?u - n))"
    using n rb_content_eq [OF wf buf] by simp
  then have "take n (rb_content rb) = ring_slice buf (rb_tail rb) n"
    by (simp only: ring_slice_append) simp
  moreover have "n \<le> length buf" using n used_less [OF wf] L by simp
  ultimately show ?thesis
    using rb_fetch_slice [OF L(2)] L(1) by simp
qed

lemma rb_advance_tail:
  assumes wf: "rb_wf rb" and n: "n \<le> ring_buffer_used (Some rb)"
  defines "rb1 \<equiv> rb\<lparr>rb_tail := (rb_tail rb + n) mod rb_size rb\<rparr>"
  shows "rb_wf rb1" and "rb_content rb1 = drop n (rb_content rb)"
    and "ring_buffer_used (Some rb1) = ring_buffer_used (Some rb) - n"
proof -
  let ?u = "ring_buffer_used (Some rb)"
  from wf obtain buf where L: "rb_buffer rb = Some buf" "length buf = rb_size rb" "0 < rb_size rb"
    by (auto simp: rb_wf_def)
  show wf1: "rb_wf rb1" using wf L(3) by (auto simp: rb_wf_def rb1_def)
  have "((rb_tail rb + n) mod rb_size rb + (?u - n)) mod rb_size rb = (rb_tail rb + n + (?u - n)) mod rb_size rb"
    by (simp only: mod_simps)
  also have "rb_tail rb + n + (?u - n) = rb_tail rb + ?u" using n by simp
  finally have "((rb_tail rb + n) mod rb_size rb + (?u - n)) mod rb_size rb = (rb_tail rb + ?u) mod rb_size rb" .
  then have "(rb_tail rb1 + (?u - n)) mod rb_size rb1 = rb_head rb1"
    using head_used [OF wf] by (simp add: rb1_def)
  moreover have "?u - n < rb_size rb1"
    using used_less [OF wf] by (simp add: rb1_def)
  ultimately show u1: "ring_buffer_used (Some rb1) = ?u - n"
    by (intro used_unique [OF wf1]) auto
  have b1: "rb_buffer rb1 = Some buf" by (simp add: rb1_def L)
  have "rb_content rb = ring_slice buf (rb_tail rb) (n + (?u - n))"
    using n rb_content_eq [OF wf L(1)] by simp
  then have "drop n (rb_content rb) = ring_slice buf ((rb_tail rb + n) mod length buf) (?u - n)"
    by (simp only: ring_slice_append) simp
  then show "rb_content rb1 = drop n (rb_content rb)"
    using rb_content_eq [OF wf1 b1] u1 L by (simp add: rb1_def)
qed

section \<open>The turns and loops move bytes in order\<close>

lemma rb_write_turn_Wait:
  "rb_wf rb \<Longrightarrow> rb_write_turn rb rest = Wait \<longleftrightarrow> ring_buffer_available (Some rb) = 0"
  by (auto simp: rb_write_turn_def Let_def split: option.splits)

lemma rb_write_turn_Moved:
  fixes rest :: "u8 list"
  assumes wf: "rb_wf rb" and pos: "ring_buffer_available (Some rb) \<noteq> 0"
  defines "n \<equiv> min (length rest) (ring_buffer_available (Some rb))"
  obtains rb' where "rb_write_turn rb rest = Moved (rb', drop n rest)" "rb_wf rb'"
    "rb_content rb' = rb_content rb @ take n rest" "rb_size rb' = rb_size rb"
    "ring_buffer_available (Some rb') = ring_buffer_available (Some rb) - n"
proof -
  from wf obtain buf where L: "rb_buffer rb = Some buf" "length buf = rb_size rb"
    "rb_head rb < rb_size rb" by (auto simp: rb_wf_def)
  let ?src = "take n rest"
  have len: "length ?src = n" by (simp add: n_def)
  have av: "n \<le> ring_buffer_available (Some rb)" by (simp add: n_def)
  define rb1 where "rb1 = rb\<lparr>rb_buffer := Some (rb_store buf (rb_size rb) (rb_head rb) ?src)\<rparr>"
  have S: "rb_wf rb1" "rb_content rb1 = rb_content rb"
    "ring_slice (rb_store buf (rb_size rb) (rb_head rb) ?src) (rb_head rb) n = ?src"
    using rb_store_wf [OF wf L(1), of ?src] av len by (auto simp: rb1_def)
  define rb2 where "rb2 = rb1\<lparr>rb_head := (rb_head rb1 + n) mod rb_size rb1\<rparr>"
  have av1: "ring_buffer_available (Some rb1) = ring_buffer_available (Some rb)"
    by (simp add: rb1_def ring_buffer_available_def)
  have b1: "rb_buffer rb1 = Some (rb_store buf (rb_size rb) (rb_head rb) ?src)"
    by (simp add: rb1_def)
  note A = rb_advance_head [OF S(1) b1, of n, folded rb2_def]
  have "rb_write_turn rb rest = Moved (rb2, drop n rest)"
  proof -
    have "n \<le> rb_size rb" "0 < rb_size rb"
      using av used_less [OF wf] available_wf [OF wf] by simp_all
    then show ?thesis
      using pos L
      by (simp add: rb_write_turn_def Let_def n_def [symmetric] rb2_def rb1_def not_less
          del: min_less_iff_conj min.absorb1 min.absorb2 min_le_iff_disj)
  qed
  moreover have "rb_wf rb2" "rb_content rb2 = rb_content rb @ ?src"
    using A av av1 S(2,3) by (auto simp: rb1_def)
  moreover have "rb_size rb2 = rb_size rb" by (simp add: rb2_def rb1_def)
  moreover have "ring_buffer_available (Some rb2) = ring_buffer_available (Some rb) - n"
  proof -
    have "rb_wf rb2" "ring_buffer_used (Some rb2) = ring_buffer_used (Some rb1) + n"
      using A av av1 by auto
    then show ?thesis
      using available_wf [of rb2] available_wf [OF S(1)] av1 by (simp add: rb2_def)
  qed
  ultimately show ?thesis by (rule that)
qed

lemma rb_read_turn_Wait:
  "rb_wf rb \<Longrightarrow> rb_read_turn rb n = Wait \<longleftrightarrow> rb_content rb = []"
  using length_rb_content [of rb]
  by (auto simp: rb_read_turn_def Let_def split: option.splits)

lemma rb_read_turn_Moved:
  assumes wf: "rb_wf rb" and ne: "rb_content rb \<noteq> []"
  obtains rb' where "rb_read_turn rb n = Moved (rb', take n (rb_content rb))" "rb_wf rb'"
    "rb_content rb' = drop n (rb_content rb)" "rb_size rb' = rb_size rb"
proof -
  let ?u = "ring_buffer_used (Some rb)"
  from wf obtain buf where L: "rb_buffer rb = Some buf" "length buf = rb_size rb"
    "rb_tail rb < rb_size rb" by (auto simp: rb_wf_def)
  have u: "?u = length (rb_content rb)" by (simp add: length_rb_content [OF wf])
  have len: "take (min n ?u) (rb_content rb) = take n (rb_content rb)"
    "drop (min n ?u) (rb_content rb) = drop n (rb_content rb)"
    by (simp_all add: u min_def)
  let ?rb1 = "rb\<lparr>rb_tail := (rb_tail rb + min n ?u) mod rb_size rb\<rparr>"
  have "?u \<noteq> 0" using ne u by simp
  then have "rb_read_turn rb n = Moved (?rb1, take n (rb_content rb))"
    using L used_less [OF wf] rb_fetch_content [OF wf L(1), of "min n ?u"] len
    by (simp add: rb_read_turn_def Let_def)
  then show ?thesis
    using that rb_advance_tail [OF wf, of "min n ?u"] len by auto
qed

lemma rb_write_loop_done:
  assumes "rb_wf rb" and "length rest \<le> ring_buffer_available (Some rb)"
  shows "\<exists>rb'. rb_write_loop good_os i rb rest = Returned UESIM_SUCCESS (rb', []) \<and> rb_wf rb' \<and>
    rb_content rb' = rb_content rb @ rest \<and> rb_size rb' = rb_size rb"
proof (cases "rest = []")
  case True
  then show ?thesis using assms by (auto simp: rb_write_loop.simps)
next
  case False
  then have "0 < length rest" by simp
  with assms have "ring_buffer_available (Some rb) \<noteq> 0" by linarith
  from rb_write_turn_Moved [OF assms(1) this, of rest] assms(2) obtain rb' where
    T: "rb_write_turn rb rest = Moved (rb', [])" and P: "rb_wf rb'" "rb_content rb' = rb_content rb @ rest"
    "rb_size rb' = rb_size rb"
    by (auto simp: min_absorb1)
  have "rb_write_loop good_os i rb rest = Returned UESIM_SUCCESS (rb', [])"
    using False T by (subst rb_write_loop.simps) (simp add: rb_write_loop.simps [of _ _ rb' "[]"])
  with P show ?thesis by blast
qed

text \<open>Too much data: the buffer is filled and the call waits with the rest.\<close>

lemma rb_write_loop_blocked:
  assumes wf: "rb_wf rb" and more: "ring_buffer_available (Some rb) < length rest"
  shows "\<exists>rb'. rb_write_loop good_os i rb rest
      = Blocked (rb', drop (ring_buffer_available (Some rb)) rest) \<and> rb_wf rb' \<and>
    rb_content rb' = rb_content rb @ take (ring_buffer_available (Some rb)) rest \<and>
    rb_size rb' = rb_size rb"
proof -
  let ?a = "ring_buffer_available (Some rb)"
  have blocked: "rb_write_loop good_os j r xs = Blocked (r, xs)"
    if "rb_wf r" "ring_buffer_available (Some r) = 0" "xs \<noteq> []" for j r and xs :: "u8 list"
    using that rb_write_turn_Wait [of r xs] by (subst rb_write_loop.simps) simp
  show ?thesis
  proof (cases "?a = 0")
    case True
    with blocked [OF wf True] more show ?thesis using wf by auto
  next
    case False
    from rb_write_turn_Moved [OF wf False, of rest] more obtain rb' where
      T: "rb_write_turn rb rest = Moved (rb', drop ?a rest)" and
      P: "rb_wf rb'" "rb_content rb' = rb_content rb @ take ?a rest" "rb_size rb' = rb_size rb" and
      full: "ring_buffer_available (Some rb') = 0"
      by (auto simp: min_absorb2)
    have "rb_write_loop good_os i rb rest = rb_write_loop good_os (Suc i) rb' (drop ?a rest)"
      using T more by (subst rb_write_loop.simps) auto
    then show ?thesis using blocked [OF P(1) full] P more by auto
  qed
qed

lemma rb_read_loop_done:
  assumes wf: "rb_wf rb" and n: "n \<le> length (rb_content rb)"
  shows "\<exists>rb'. rb_read_loop good_os i rb n got = Returned UESIM_SUCCESS (rb', got @ take n (rb_content rb)) \<and>
    rb_wf rb' \<and> rb_content rb' = drop n (rb_content rb) \<and> rb_size rb' = rb_size rb"
proof (cases "n = 0")
  case True
  then show ?thesis using wf by (auto simp: rb_read_loop.simps)
next
  case False
  with n have "rb_content rb \<noteq> []" by auto
  from rb_read_turn_Moved [OF wf this, of n] obtain rb' where
    T: "rb_read_turn rb n = Moved (rb', take n (rb_content rb))" and
    P: "rb_wf rb'" "rb_content rb' = drop n (rb_content rb)" "rb_size rb' = rb_size rb"
    by blast
  have "rb_read_loop good_os i rb n got = Returned UESIM_SUCCESS (rb', got @ take n (rb_content rb))"
    using False T n by (subst rb_read_loop.simps) (simp add: rb_read_loop.simps [of _ _ rb' 0])
  with P show ?thesis by blast
qed

text \<open>Too few bytes: the buffer is emptied and the call waits with what it has got.\<close>

lemma rb_read_loop_blocked:
  assumes wf: "rb_wf rb" and n: "length (rb_content rb) < n"
  shows "\<exists>rb'. rb_read_loop good_os i rb n got = Blocked (rb', got @ rb_content rb) \<and>
    rb_wf rb' \<and> rb_content rb' = [] \<and> rb_size rb' = rb_size rb"
proof -
  have blocked: "rb_read_loop good_os j r m xs = Blocked (r, xs)"
    if "rb_wf r" "rb_content r = []" "0 < m" for j r m and xs :: "u8 list"
    using that rb_read_turn_Wait [of r m] by (subst rb_read_loop.simps) simp
  show ?thesis
  proof (cases "rb_content rb = []")
    case True
    with blocked [OF wf True] n show ?thesis using wf by auto
  next
    case False
    from rb_read_turn_Moved [OF wf False, of n] n obtain rb' where
      T: "rb_read_turn rb n = Moved (rb', rb_content rb)" and
      P: "rb_wf rb'" "rb_content rb' = []" "rb_size rb' = rb_size rb"
      by auto
    have "rb_read_loop good_os i rb n got =
        rb_read_loop good_os (Suc i) rb' (n - length (rb_content rb)) (got @ rb_content rb)"
      using T n by (subst rb_read_loop.simps) auto
    then show ?thesis using blocked [OF P(1,2)] P n by auto
  qed
qed

text \<open>The ring buffer is a bounded queue of bytes.\<close>

definition rb_put :: "u8 \<Rightarrow> ring_buffer \<Rightarrow> ring_buffer option" where
  "rb_put b rb = (case rb_write_loop good_os 0 rb [b] of Returned UESIM_SUCCESS (rb', _) \<Rightarrow> Some rb' | _ \<Rightarrow> None)"

definition rb_get :: "ring_buffer \<Rightarrow> (u8 \<times> ring_buffer) option" where
  "rb_get rb = (case rb_read_loop good_os 0 rb 1 [] of
     Returned UESIM_SUCCESS (rb', [b]) \<Rightarrow> Some (b, rb') | _ \<Rightarrow> None)"

lemma rb_put_cases:
  assumes "rb_wf rb"
  shows "if ring_buffer_available (Some rb) = 0 then rb_put b rb = None
    else \<exists>rb'. rb_put b rb = Some rb' \<and> rb_wf rb' \<and> rb_content rb' = rb_content rb @ [b] \<and>
      rb_size rb' = rb_size rb"
proof (cases "ring_buffer_available (Some rb) = 0")
  case True
  then show ?thesis using rb_write_loop_blocked [OF assms, of "[b]" 0] by (auto simp: rb_put_def)
next
  case False
  then show ?thesis using rb_write_loop_done [OF assms, of "[b]" 0] by (auto simp: rb_put_def Suc_le_eq)
qed

lemma rb_get_cases:
  assumes "rb_wf rb"
  shows "if rb_content rb = [] then rb_get rb = None
    else \<exists>rb'. rb_get rb = Some (hd (rb_content rb), rb') \<and> rb_wf rb' \<and> rb_content rb' = tl (rb_content rb) \<and>
      rb_size rb' = rb_size rb"
proof (cases "rb_content rb")
  case Nil
  then show ?thesis using rb_read_turn_Wait [OF assms, of 1]
    by (simp add: rb_get_def rb_read_loop.simps)
next
  case (Cons b bs)
  then show ?thesis using rb_read_loop_done [OF assms, of 1 0 "[]"] by (auto simp: rb_get_def)
qed

interpretation rb: bounded_fifo rb_wf rb_content rb_put rb_get "\<lambda>rb. rb_size rb - 1"
proof
  fix rb rb' :: ring_buffer and b
  assume wf: "rb_wf rb"
  show "rb_get rb = None \<longleftrightarrow> rb_content rb = []"
    using rb_get_cases [OF wf] by (auto split: if_splits)
  show "rb_content rb' = rb_content rb @ [b]" "rb_wf rb'" "rb_size rb' - 1 = rb_size rb - 1"
    if "rb_put b rb = Some rb'"
    using rb_put_cases [OF wf, of b] that by (auto split: if_splits)
  show "rb_content rb = b # rb_content rb'" "rb_wf rb'" "rb_size rb' - 1 = rb_size rb - 1"
    if "rb_get rb = Some (b, rb')"
    using rb_get_cases [OF wf] that by (auto split: if_splits)
  show within: "length (rb_content rb) \<le> rb_size rb - 1"
    using used_less [OF wf] length_rb_content [OF wf] by simp
  show "rb_put b rb = None \<longleftrightarrow> rb_size rb - 1 \<le> length (rb_content rb)"
    using rb_put_cases [OF wf, of b] available_wf [OF wf] length_rb_content [OF wf] within
    by (auto split: if_splits)
qed

section \<open>Properties of the sequential buffer\<close>

text \<open>
  C1. A write of data that fits returns success and appends exactly the data to the
  contents; a write of more data than fits fills the buffer with the leading bytes and waits
  with the rest: nothing is overwritten and no byte is lost.
\<close>

theorem ring_buffer_write_correct:
  assumes "rb_wf rb" and "data \<noteq> []"
  shows "\<exists>rb'. rb_wf rb' \<and>
    rb_content rb' = rb_content rb @ take (ring_buffer_available (Some rb)) data \<and>
    ring_buffer_write good_os (Some rb) (Some data) =
      (if length data \<le> ring_buffer_available (Some rb) then Returned UESIM_SUCCESS (Some rb', [])
       else Blocked (Some rb', drop (ring_buffer_available (Some rb)) data))"
proof -
  have eq: "ring_buffer_write good_os (Some rb) (Some data) = lift_call (rb_write_loop good_os 0 rb data)"
    using assms(2) by (cases data) (simp_all add: ring_buffer_write_def)
  show ?thesis
  proof (cases "length data \<le> ring_buffer_available (Some rb)")
    case True
    with rb_write_loop_done [OF assms(1), of data 0] show ?thesis by (auto simp: eq)
  next
    case False
    with rb_write_loop_blocked [OF assms(1), of data 0] show ?thesis by (auto simp: eq)
  qed
qed

definition rb_example :: ring_buffer where
  "rb_example = \<lparr>rb_buffer = Some [0, 0, 0], rb_size = 3, rb_head = 0, rb_tail = 0\<rparr>"

lemma rb_example_wf: "rb_wf rb_example"
  by (simp add: rb_example_def rb_wf_def)

theorem ring_buffer_write_correct_witness:
  "\<exists>rb'. rb_wf rb' \<and>
    rb_content rb' = rb_content rb_example @ take (ring_buffer_available (Some rb_example)) [1, 2, 3] \<and>
    ring_buffer_write good_os (Some rb_example) (Some [1, 2, 3]) =
      (if length [1, 2, 3 :: u8] \<le> ring_buffer_available (Some rb_example)
       then Returned UESIM_SUCCESS (Some rb', [])
       else Blocked (Some rb', drop (ring_buffer_available (Some rb_example)) [1, 2, 3]))"
  by (rule ring_buffer_write_correct [OF rb_example_wf]) simp

text \<open>
  A run of calls of any lengths: every call that returns contributes its result and the bytes it
  handed out; a call that has to wait ends the run, with what it has left to write or has read
  so far.
\<close>

datatype rb_call = Rb_write "u8 list" | Rb_read nat

definition rb_call :: "rb_call \<Rightarrow> ring_buffer \<Rightarrow> (ring_buffer option \<times> u8 list) call" where
  "rb_call c rb = (case c of
     Rb_write data \<Rightarrow> ring_buffer_write good_os (Some rb) (Some data)
   | Rb_read n \<Rightarrow> ring_buffer_read good_os (Some rb) True n)"

fun rb_calls :: "ring_buffer \<Rightarrow> rb_call list \<Rightarrow> u8 list call list \<times> ring_buffer" where
  "rb_calls rb [] = ([], rb)"
| "rb_calls rb (c # cs) = (case rb_call c rb of
     Returned r (Some rb', bs) \<Rightarrow> apfst ((#) (Returned r bs)) (rb_calls rb' cs)
   | Blocked (Some rb', bs) \<Rightarrow> ([Blocked bs], rb')
   | _ \<Rightarrow> ([Undefined], rb))"

text \<open>What the calls promise: a queue of bytes of bounded length.\<close>

fun queue_calls :: "nat \<Rightarrow> u8 list \<Rightarrow> rb_call list \<Rightarrow> u8 list call list \<times> u8 list" where
  "queue_calls cap q [] = ([], q)"
| "queue_calls cap q (Rb_write data # cs) =
     (if data = [] then apfst ((#) (Returned UESIM_ERROR_INVALID_PARAM [])) (queue_calls cap q cs)
      else if length q + length data \<le> cap
      then apfst ((#) (Returned UESIM_SUCCESS [])) (queue_calls cap (q @ data) cs)
      else ([Blocked (drop (cap - length q) data)], q @ take (cap - length q) data))"
| "queue_calls cap q (Rb_read n # cs) =
     (if n = 0 then apfst ((#) (Returned UESIM_ERROR_INVALID_PARAM [])) (queue_calls cap q cs)
      else if n \<le> length q
      then apfst ((#) (Returned UESIM_SUCCESS (take n q))) (queue_calls cap (drop n q) cs)
      else ([Blocked q], []))"

lemma rb_call_write:
  assumes wf: "rb_wf rb" and ne: "data \<noteq> []"
  defines "a \<equiv> rb_size rb - 1 - length (rb_content rb)"
  obtains rb' where "rb_wf rb'" "rb_size rb' = rb_size rb" "rb_content rb' = rb_content rb @ take a data"
    "rb_call (Rb_write data) rb = (if length data \<le> a then Returned UESIM_SUCCESS (Some rb', [])
       else Blocked (Some rb', drop a data))"
proof -
  have a: "a = ring_buffer_available (Some rb)"
    by (simp add: a_def available_wf [OF wf] length_rb_content [OF wf])
  have eq: "rb_call (Rb_write data) rb = lift_call (rb_write_loop good_os 0 rb data)"
    using ne by (cases data) (simp_all add: rb_call_def ring_buffer_write_def)
  show thesis
  proof (cases "length data \<le> a")
    case True
    with rb_write_loop_done [OF wf, of data 0] that show ?thesis by (auto simp: eq a)
  next
    case False
    with rb_write_loop_blocked [OF wf, of data 0] that show ?thesis by (auto simp: eq a)
  qed
qed

lemma rb_call_read:
  assumes wf: "rb_wf rb" and n: "0 < n"
  obtains rb' where "rb_wf rb'" "rb_size rb' = rb_size rb" "rb_content rb' = drop n (rb_content rb)"
    "rb_call (Rb_read n) rb = (if n \<le> length (rb_content rb)
       then Returned UESIM_SUCCESS (Some rb', take n (rb_content rb))
       else Blocked (Some rb', rb_content rb))"
proof -
  have eq: "rb_call (Rb_read n) rb = lift_call (rb_read_loop good_os 0 rb n [])"
    using n by (simp add: rb_call_def ring_buffer_read_def)
  show thesis
  proof (cases "n \<le> length (rb_content rb)")
    case True
    with rb_read_loop_done [OF wf, of n 0 "[]"] that show ?thesis by (auto simp: eq)
  next
    case False
    with rb_read_loop_blocked [OF wf, of n 0 "[]"] that show ?thesis by (auto simp: eq)
  qed
qed

lemma rb_call_empty:
  "rb_call (Rb_write []) rb = Returned UESIM_ERROR_INVALID_PARAM (Some rb, [])"
  "rb_call (Rb_read 0) rb = Returned UESIM_ERROR_INVALID_PARAM (Some rb, [])"
  by (simp_all add: rb_call_def ring_buffer_write_def ring_buffer_read_def)

text \<open>
  C2. Any sequence of reads and writes of any lengths, from any state of the buffer, behaves as
  one on a queue of at most \<open>size - 1\<close> bytes: a call returns exactly when the queue has the room
  or the bytes, a read hands out the oldest bytes in their order, a call without bytes is
  refused, and a call that has to wait has first filled or emptied the queue; the contents
  afterwards, across every wrap around the end of the array, are the queue's, and the buffer
  stays well-formed.
\<close>

theorem ring_buffer_fifo:
  assumes "rb_wf rb"
  shows "apsnd rb_content (rb_calls rb ops) = queue_calls (rb_size rb - 1) (rb_content rb) ops \<and>
    rb_wf (snd (rb_calls rb ops)) \<and> rb_size (snd (rb_calls rb ops)) = rb_size rb"
  using assms
proof (induction ops arbitrary: rb)
  case Nil
  then show ?case by simp
next
  case (Cons c cs)
  show ?case
  proof (cases c)
    case (Rb_write data)
    show ?thesis
    proof (cases "data = []")
      case True
      with Rb_write Cons show ?thesis
        by (simp add: rb_call_empty prod_eq_iff del: One_nat_def)
    next
      case False
      let ?a = "rb_size rb - 1 - length (rb_content rb)"
      obtain rb' where R: "rb_wf rb'" "rb_size rb' = rb_size rb"
        "rb_content rb' = rb_content rb @ take ?a data"
        "rb_call (Rb_write data) rb = (if length data \<le> ?a then Returned UESIM_SUCCESS (Some rb', [])
          else Blocked (Some rb', drop ?a data))"
        by (rule rb_call_write [OF Cons.prems False])
      have "length data \<le> ?a \<longleftrightarrow> length (rb_content rb) + length data \<le> rb_size rb - 1"
        using rb.within [OF Cons.prems] by auto
      with R Rb_write False Cons.IH [OF R(1)] show ?thesis
        by (auto simp: prod_eq_iff simp del: One_nat_def)
    qed
  next
    case (Rb_read n)
    show ?thesis
    proof (cases "n = 0")
      case True
      with Rb_read Cons show ?thesis
        by (simp add: rb_call_empty prod_eq_iff del: One_nat_def)
    next
      case False
      then have "0 < n" by simp
      then obtain rb' where R: "rb_wf rb'" "rb_size rb' = rb_size rb"
        "rb_content rb' = drop n (rb_content rb)"
        "rb_call (Rb_read n) rb = (if n \<le> length (rb_content rb)
          then Returned UESIM_SUCCESS (Some rb', take n (rb_content rb))
          else Blocked (Some rb', rb_content rb))"
        by (rule rb_call_read [OF Cons.prems])
      with Rb_read False Cons.IH [OF R(1)] show ?thesis
        by (auto simp: prod_eq_iff simp del: One_nat_def)
    qed
  qed
qed

text \<open>
  On a buffer of four places: a write of two bytes, both read, a write of three bytes around the
  end of the array, a read of them around the end, and a read that has to wait.
\<close>

definition rb_example4 :: ring_buffer where
  "rb_example4 = \<lparr>rb_buffer = Some [0, 0, 0, 0], rb_size = 4, rb_head = 0, rb_tail = 0\<rparr>"

lemma rb_example4_wf: "rb_wf rb_example4" "rb_content rb_example4 = []" "rb_size rb_example4 = 4"
  by (simp_all add: rb_example4_def rb_wf_def rb_content_def ring_buffer_used_def)

theorem ring_buffer_fifo_witness:
  "fst (rb_calls rb_example4 [Rb_write [1, 2], Rb_read 2, Rb_write [3, 4, 5], Rb_read 2, Rb_read 2]) =
     [Returned UESIM_SUCCESS [], Returned UESIM_SUCCESS [1, 2], Returned UESIM_SUCCESS [],
      Returned UESIM_SUCCESS [3, 4], Blocked [5]]"
  using ring_buffer_fifo [OF rb_example4_wf(1),
      of "[Rb_write [1, 2], Rb_read 2, Rb_write [3, 4, 5], Rb_read 2, Rb_read 2]", unfolded rb_example4_wf]
  by (simp add: prod_eq_iff)

text \<open>The same from the queue contract, for single bytes.\<close>

lemma ring_buffer_bytes_fifo:
  assumes "rb_wf rb" and "run_queue rb_put rb_get rb ops = (ins, outs, rb')"
  shows "rb_content rb @ ins = outs @ rb_content rb' \<and>
    length (rb_content rb) + length ins \<le> length outs + (rb_size rb' - 1)"
  using rb.run_fifo [OF assms] rb.run_within [OF assms] by simp

end
