(* ===== verification/Ring_Concurrency.thy ===== *)
theory Ring_Concurrency
  imports Ring_Buffer "HOL-Library.Sublist"
begin

text \<open>
  One writer and one reader of \<^verbatim>\<open>src/utils/ring_buffer.c\<close> that run concurrently. The
  writer holds \<open>head_lock\<close>, the reader \<open>tail_lock\<close>: neither excludes the other, so the
  accesses to the shared fields interleave. Each loop turn is split at these accesses: the test
  of the room (or of the stored bytes), the copy, the update of the index, and the signal to the
  other side; a thread that finds no room goes to sleep in a step of its own, as
  \<^verbatim>\<open>pthread_cond_wait\<close> is called after the test. The index loads and stores are atomic and
  sequentially consistent, as C's \<^verbatim>\<open>atomic_size_t\<close> is.
\<close>

section \<open>The two threads\<close>

datatype pc =
    Ready                 \<comment> \<open>at the head of the loop\<close>
  | Blocking              \<comment> \<open>has found the buffer full (empty), not yet asleep\<close>
  | Waiting               \<comment> \<open>asleep on the condition variable\<close>
  | Sized nat             \<comment> \<open>has computed the number of bytes of this turn\<close>
  | Copied nat            \<comment> \<open>has copied them, the index is not yet moved\<close>
  | Signal                \<comment> \<open>has moved the index, about to signal\<close>

record rb_sys =
  sys_rb :: ring_buffer
  wpc :: pc
  wrest :: "u8 list"
  rpc :: pc
  rwant :: nat
  rgot :: "u8 list"

definition wake :: "pc \<Rightarrow> pc" where
  "wake p = (if p = Waiting then Ready else p)"

definition writer_step :: "rb_sys \<Rightarrow> rb_sys option" where
  "writer_step s = (let rb = sys_rb s in case wpc s of
     Ready \<Rightarrow>
       if wrest s = [] then None
       else if ring_buffer_available (Some rb) = 0 then Some (s\<lparr>wpc := Blocking\<rparr>)
       else Some (s\<lparr>wpc := Sized (min (length (wrest s)) (ring_buffer_available (Some rb)))\<rparr>)
   | Blocking \<Rightarrow> Some (s\<lparr>wpc := Waiting\<rparr>)
   | Waiting \<Rightarrow> None
   | Sized n \<Rightarrow> Some (s\<lparr>wpc := Copied n,
       sys_rb := rb\<lparr>rb_buffer := map_option
         (\<lambda>buf. rb_store buf (rb_size rb) (rb_head rb) (take n (wrest s))) (rb_buffer rb)\<rparr>\<rparr>)
   | Copied n \<Rightarrow> Some (s\<lparr>wpc := Signal, wrest := drop n (wrest s),
       sys_rb := rb\<lparr>rb_head := (rb_head rb + n) mod rb_size rb\<rparr>\<rparr>)
   | Signal \<Rightarrow> Some (s\<lparr>wpc := Ready, rpc := wake (rpc s)\<rparr>))"

definition reader_step :: "rb_sys \<Rightarrow> rb_sys option" where
  "reader_step s = (let rb = sys_rb s in case rpc s of
     Ready \<Rightarrow>
       if rwant s = 0 then None
       else if ring_buffer_used (Some rb) = 0 then Some (s\<lparr>rpc := Blocking\<rparr>)
       else Some (s\<lparr>rpc := Sized (min (rwant s) (ring_buffer_used (Some rb)))\<rparr>)
   | Blocking \<Rightarrow> Some (s\<lparr>rpc := Waiting\<rparr>)
   | Waiting \<Rightarrow> None
   | Sized n \<Rightarrow> Some (s\<lparr>rpc := Copied n,
       rgot := rgot s @ (case rb_buffer rb of None \<Rightarrow> []
         | Some buf \<Rightarrow> rb_fetch buf (rb_size rb) (rb_tail rb) n)\<rparr>)
   | Copied n \<Rightarrow> Some (s\<lparr>rpc := Signal, rwant := rwant s - n,
       sys_rb := rb\<lparr>rb_tail := (rb_tail rb + n) mod rb_size rb\<rparr>\<rparr>)
   | Signal \<Rightarrow> Some (s\<lparr>rpc := Ready, wpc := wake (wpc s)\<rparr>))"

text \<open>Either thread moves; a sleeping thread may also wake up spuriously.\<close>

inductive rb_step :: "rb_sys \<Rightarrow> rb_sys \<Rightarrow> bool" where
  writer: "writer_step s = Some s' \<Longrightarrow> rb_step s s'"
| reader: "reader_step s = Some s' \<Longrightarrow> rb_step s s'"
| spurious_writer: "wpc s = Waiting \<Longrightarrow> rb_step s (s\<lparr>wpc := Ready\<rparr>)"
| spurious_reader: "rpc s = Waiting \<Longrightarrow> rb_step s (s\<lparr>rpc := Ready\<rparr>)"

inductive_cases rb_stepE: "rb_step s s'"

inductive rb_reach :: "rb_sys \<Rightarrow> rb_sys \<Rightarrow> bool" where
  refl: "rb_reach s s"
| step: "rb_reach s t \<Longrightarrow> rb_step t u \<Longrightarrow> rb_reach s u"

text \<open>The start: a buffer, the bytes to write and the number of bytes to read.\<close>

definition rb_start :: "ring_buffer \<Rightarrow> u8 list \<Rightarrow> nat \<Rightarrow> rb_sys" where
  "rb_start rb data n =
     \<lparr>sys_rb = rb, wpc = Ready, wrest = data, rpc = Ready, rwant = n, rgot = []\<rparr>"

section \<open>The invariant\<close>

text \<open>
  Besides the well-formed buffer: the size a thread has computed stays valid while the other one
  moves (the room only grows under the writer, the contents only grow under the reader), the
  bytes of a finished copy are in place before the head is moved, and the stream
  \<open>read, stored, to be written\<close> is the original one.
\<close>

definition writer_ok :: "rb_sys \<Rightarrow> bool" where
  "writer_ok s = (case wpc s of
     Sized n \<Rightarrow> n \<le> length (wrest s) \<and> n \<le> ring_buffer_available (Some (sys_rb s))
   | Copied n \<Rightarrow> n \<le> length (wrest s) \<and> n \<le> ring_buffer_available (Some (sys_rb s)) \<and>
       (\<exists>buf. rb_buffer (sys_rb s) = Some buf \<and>
         ring_slice buf (rb_head (sys_rb s)) n = take n (wrest s))
   | _ \<Rightarrow> True)"

definition reader_ok :: "rb_sys \<Rightarrow> bool" where
  "reader_ok s = (case rpc s of
     Sized n \<Rightarrow> n \<le> rwant s \<and> n \<le> ring_buffer_used (Some (sys_rb s))
   | Copied n \<Rightarrow> n \<le> rwant s \<and> n \<le> ring_buffer_used (Some (sys_rb s))
   | _ \<Rightarrow> True)"

definition unread :: "rb_sys \<Rightarrow> u8 list" where
  "unread s = (case rpc s of Copied n \<Rightarrow> drop n (rb_content (sys_rb s)) | _ \<Rightarrow> rb_content (sys_rb s))"

definition pending :: "rb_sys \<Rightarrow> nat" where
  "pending s = (case rpc s of Copied n \<Rightarrow> rwant s - n | _ \<Rightarrow> rwant s)"

definition rb_inv :: "u8 list \<Rightarrow> nat \<Rightarrow> rb_sys \<Rightarrow> bool" where
  "rb_inv d n s \<longleftrightarrow> rb_wf (sys_rb s) \<and> writer_ok s \<and> reader_ok s \<and>
     rgot s @ unread s @ wrest s = d \<and> length (rgot s) + pending s = n"

lemmas sys_defs = writer_ok_def reader_ok_def unread_def pending_def

lemma wake_cases: "wake p = p \<or> p = Waiting \<and> wake p = Ready"
  by (simp add: wake_def)

lemma sys_frame [simp]:
  "reader_ok (s\<lparr>wpc := p\<rparr>) = reader_ok s" "unread (s\<lparr>wpc := p\<rparr>) = unread s"
  "pending (s\<lparr>wpc := p\<rparr>) = pending s" "writer_ok (s\<lparr>rpc := p\<rparr>) = writer_ok s"
  by (auto simp: sys_defs split: pc.splits)

text \<open>Control points at which a thread has nothing in flight.\<close>

lemma sys_idle [simp]:
  "p \<in> {Ready, Blocking, Waiting, Signal} \<Longrightarrow> writer_ok (s\<lparr>wpc := p\<rparr>)"
  "p \<in> {Ready, Blocking, Waiting, Signal} \<Longrightarrow> reader_ok (s\<lparr>rpc := p\<rparr>)"
  "p \<in> {Ready, Blocking, Waiting, Signal} \<Longrightarrow> unread (s\<lparr>rpc := p\<rparr>) = rb_content (sys_rb s)"
  "p \<in> {Ready, Blocking, Waiting, Signal} \<Longrightarrow> pending (s\<lparr>rpc := p\<rparr>) = rwant s"
  "rpc s \<in> {Ready, Blocking, Waiting, Signal} \<Longrightarrow> unread s = rb_content (sys_rb s)"
  "rpc s \<in> {Ready, Blocking, Waiting, Signal} \<Longrightarrow> pending s = rwant s"
  by (auto simp: sys_defs)

lemma wake_ok:
  "writer_ok (s\<lparr>wpc := wake (wpc s)\<rparr>) = writer_ok s"
  "reader_ok (s\<lparr>rpc := wake (rpc s)\<rparr>) = reader_ok s"
  "unread (s\<lparr>rpc := wake (rpc s)\<rparr>) = unread s"
  "pending (s\<lparr>rpc := wake (rpc s)\<rparr>) = pending s"
  by (auto simp: sys_defs wake_def split: pc.splits)

lemma writer_copy_inv:
  assumes inv: "rb_inv d k s" and pc: "wpc s = Sized n" and "writer_step s = Some s'"
  shows "rb_inv d k s'"
proof -
  let ?rb = "sys_rb s" and ?src = "take n (wrest s)"
  from inv have wf: "rb_wf ?rb" by (simp add: rb_inv_def)
  then obtain buf where buf: "rb_buffer ?rb = Some buf" by (auto simp: rb_wf_def)
  from inv pc have n: "n \<le> length (wrest s)" "n \<le> ring_buffer_available (Some ?rb)"
    by (auto simp: rb_inv_def writer_ok_def)
  then have len: "length ?src \<le> ring_buffer_available (Some ?rb)" "length ?src = n" by auto
  note S = rb_store_wf [OF wf buf len(1)]
  let ?rb' = "?rb\<lparr>rb_buffer := Some (rb_store buf (rb_size ?rb) (rb_head ?rb) ?src)\<rparr>"
  have s': "s' = s\<lparr>wpc := Copied n, sys_rb := ?rb'\<rparr>"
    using assms(3) pc buf by (simp add: writer_step_def Let_def)
  have "reader_ok s' = reader_ok s" "unread s' = unread s" "pending s' = pending s"
    using S(2) by (auto simp: s' sys_defs split: pc.splits)
  moreover have "writer_ok s'" using S(3) n len(2) by (simp add: s' writer_ok_def)
  moreover have "rb_wf (sys_rb s')" using S(1) by (simp add: s')
  ultimately show ?thesis using inv by (simp add: rb_inv_def) (simp add: s')
qed

lemma writer_publish_inv:
  assumes inv: "rb_inv d k s" and pc: "wpc s = Copied n" and "writer_step s = Some s'"
  shows "rb_inv d k s'"
proof -
  let ?rb = "sys_rb s"
  from inv have wf: "rb_wf ?rb" by (simp add: rb_inv_def)
  from inv pc obtain buf where buf: "rb_buffer ?rb = Some buf" and n: "n \<le> length (wrest s)"
    "n \<le> ring_buffer_available (Some ?rb)" "ring_slice buf (rb_head ?rb) n = take n (wrest s)"
    by (auto simp: rb_inv_def writer_ok_def)
  let ?rb' = "?rb\<lparr>rb_head := (rb_head ?rb + n) mod rb_size ?rb\<rparr>"
  note A = rb_advance_head [OF wf buf n(2)]
  have s': "s' = s\<lparr>wpc := Signal, wrest := drop n (wrest s), sys_rb := ?rb'\<rparr>"
    using assms(3) pc by (simp add: writer_step_def Let_def)
  have r: "reader_ok s" using inv by (simp add: rb_inv_def)
  have "unread s' = unread s @ take n (wrest s)"
    using A(2) n(3) r length_rb_content [OF wf]
    by (auto simp: s' unread_def reader_ok_def split: pc.splits)
  moreover have "reader_ok s'" using r A(3) by (auto simp: s' reader_ok_def split: pc.splits)
  moreover have "rb_wf (sys_rb s')" using A(1) by (simp add: s')
  moreover have "writer_ok s'" "pending s' = pending s"
    by (auto simp: s' sys_defs split: pc.splits)
  moreover have "rgot s' = rgot s" "wrest s' = drop n (wrest s)" by (simp_all add: s')
  ultimately show ?thesis using inv by (auto simp: rb_inv_def)
qed

lemma writer_inv:
  assumes inv: "rb_inv d n s" and step: "writer_step s = Some s'"
  shows "rb_inv d n s'"
proof (cases "wpc s")
  case (Sized m)
  then show ?thesis using writer_copy_inv inv step by blast
next
  case (Copied m)
  then show ?thesis using writer_publish_inv inv step by blast
next
  case Ready
  then consider "s' = s\<lparr>wpc := Blocking\<rparr>" | "s' = s\<lparr>wpc := Sized (min (length (wrest s)) (ring_buffer_available (Some (sys_rb s))))\<rparr>"
    using step by (auto simp: writer_step_def Let_def split: if_splits)
  then show ?thesis using inv Ready
    by cases (simp_all add: rb_inv_def, simp_all add: sys_defs)
next
  case Blocking
  then have "s' = s\<lparr>wpc := Waiting\<rparr>" using step by (simp add: writer_step_def Let_def)
  then show ?thesis using inv Blocking by (simp add: rb_inv_def)
next
  case Waiting
  then show ?thesis using step by (simp add: writer_step_def Let_def)
next
  case Signal
  then have s': "s' = (s\<lparr>wpc := Ready\<rparr>)\<lparr>rpc := wake (rpc (s\<lparr>wpc := Ready\<rparr>))\<rparr>"
    using step by (simp add: writer_step_def Let_def)
  have "rb_inv d n (s\<lparr>wpc := Ready\<rparr>)" using inv by (simp add: rb_inv_def)
  then show ?thesis unfolding s'
    using wake_ok(2-4) [of "s\<lparr>wpc := Ready\<rparr>"] by (simp add: rb_inv_def)
qed

lemma reader_copy_inv:
  assumes inv: "rb_inv d k s" and pc: "rpc s = Sized n" and "reader_step s = Some s'"
  shows "rb_inv d k s'"
proof -
  let ?rb = "sys_rb s"
  from inv have wf: "rb_wf ?rb" by (simp add: rb_inv_def)
  then obtain buf where buf: "rb_buffer ?rb = Some buf" by (auto simp: rb_wf_def)
  from inv pc have n: "n \<le> rwant s" "n \<le> ring_buffer_used (Some ?rb)"
    by (auto simp: rb_inv_def reader_ok_def)
  have s': "s' = s\<lparr>rpc := Copied n, rgot := rgot s @ take n (rb_content ?rb)\<rparr>"
    using assms(3) pc buf rb_fetch_content [OF wf buf n(2)] by (simp add: reader_step_def Let_def)
  have "length (take n (rb_content ?rb)) = n" using n(2) length_rb_content [OF wf] by simp
  then show ?thesis using inv pc n
    by (auto simp: rb_inv_def s' sys_defs split: pc.splits)
qed

lemma reader_publish_inv:
  assumes inv: "rb_inv d k s" and pc: "rpc s = Copied n" and "reader_step s = Some s'"
  shows "rb_inv d k s'"
proof -
  let ?rb = "sys_rb s"
  from inv have wf: "rb_wf ?rb" by (simp add: rb_inv_def)
  from inv pc have n: "n \<le> rwant s" "n \<le> ring_buffer_used (Some ?rb)"
    by (auto simp: rb_inv_def reader_ok_def)
  let ?rb' = "?rb\<lparr>rb_tail := (rb_tail ?rb + n) mod rb_size ?rb\<rparr>"
  note A = rb_advance_tail [OF wf n(2)]
  have s': "s' = s\<lparr>rpc := Signal, rwant := rwant s - n, sys_rb := ?rb'\<rparr>"
    using assms(3) pc by (simp add: reader_step_def Let_def)
  have "ring_buffer_available (Some ?rb) \<le> ring_buffer_available (Some ?rb')"
    using available_wf [OF wf] available_wf [OF A(1)] A(3) by simp
  moreover have "rb_buffer ?rb' = rb_buffer ?rb" "rb_head ?rb' = rb_head ?rb" by simp_all
  ultimately have "writer_ok s'" using inv
    by (auto simp: rb_inv_def s' writer_ok_def split: pc.splits)
  moreover have "rb_wf (sys_rb s')" using A(1) by (simp add: s')
  moreover have "unread s' = unread s" using A(2) pc by (simp add: s' unread_def)
  moreover have "pending s' = pending s" "reader_ok s'" "rgot s' = rgot s" "wrest s' = wrest s"
    using pc by (simp_all add: s' sys_defs)
  ultimately show ?thesis using inv by (simp add: rb_inv_def)
qed

lemma reader_inv:
  assumes inv: "rb_inv d n s" and step: "reader_step s = Some s'"
  shows "rb_inv d n s'"
proof (cases "rpc s")
  case (Sized m)
  then show ?thesis using reader_copy_inv inv step by blast
next
  case (Copied m)
  then show ?thesis using reader_publish_inv inv step by blast
next
  case Ready
  then consider "s' = s\<lparr>rpc := Blocking\<rparr>" | "s' = s\<lparr>rpc := Sized (min (rwant s) (ring_buffer_used (Some (sys_rb s))))\<rparr>"
    using step by (auto simp: reader_step_def Let_def split: if_splits)
  then show ?thesis using inv Ready
    by cases (simp_all add: rb_inv_def, simp_all add: sys_defs)
next
  case Blocking
  then have "s' = s\<lparr>rpc := Waiting\<rparr>" using step by (simp add: reader_step_def Let_def)
  then show ?thesis using inv Blocking by (simp add: rb_inv_def)
next
  case Waiting
  then show ?thesis using step by (simp add: reader_step_def Let_def)
next
  case Signal
  then have s': "s' = (s\<lparr>rpc := Ready\<rparr>)\<lparr>wpc := wake (wpc (s\<lparr>rpc := Ready\<rparr>))\<rparr>"
    using step by (simp add: reader_step_def Let_def)
  have "rb_inv d n (s\<lparr>rpc := Ready\<rparr>)" using inv Signal by (simp add: rb_inv_def)
  then show ?thesis unfolding s'
    using wake_ok(1) [of "s\<lparr>rpc := Ready\<rparr>"] by (simp add: rb_inv_def)
qed

lemma rb_step_inv: "rb_step s s' \<Longrightarrow> rb_inv d n s \<Longrightarrow> rb_inv d n s'"
proof (induction rule: rb_step.induct)
  case (writer s s')
  then show ?case by (blast intro: writer_inv)
next
  case (reader s s')
  then show ?case by (blast intro: reader_inv)
next
  case (spurious_writer s)
  then show ?case by (simp add: rb_inv_def)
next
  case (spurious_reader s)
  then show ?case by (simp add: rb_inv_def)
qed

lemma rb_reach_inv: "rb_reach s s' \<Longrightarrow> rb_inv d n s \<Longrightarrow> rb_inv d n s'"
  by (induction rule: rb_reach.induct) (auto intro: rb_step_inv)

lemma rb_start_inv:
  "rb_wf rb \<Longrightarrow> rb_inv (rb_content rb @ data) n (rb_start rb data n)"
  by (simp add: rb_inv_def rb_start_def sys_defs)

section \<open>Properties of the concurrent buffer\<close>

text \<open>
  C3. Under every interleaving of a writer and a reader, spurious wake-ups included, what the
  reader has got is at every moment a prefix of the bytes stored at the start followed by the
  writer's data: no byte is lost, duplicated, reordered or read before it is written. A reader
  that has returned got exactly the bytes it asked for.
\<close>

theorem ring_buffer_concurrent_fifo:
  assumes "rb_wf rb" and "rb_reach (rb_start rb data n) s"
  shows "prefix (rgot s) (rb_content rb @ data) \<and>
    (rwant s = 0 \<and> rpc s = Ready \<longrightarrow> rgot s = take n (rb_content rb @ data))"
proof -
  let ?d = "rb_content rb @ data"
  have inv: "rb_inv ?d n s"
    using rb_reach_inv [OF assms(2) rb_start_inv [OF assms(1)]] .
  then have d: "rgot s @ unread s @ wrest s = ?d" and len: "length (rgot s) + pending s = n"
    by (simp_all add: rb_inv_def)
  have "rgot s = take n ?d" if "rwant s = 0" "rpc s = Ready"
  proof -
    have "length (rgot s) = n" using len that by (simp add: pending_def)
    then show ?thesis by (simp flip: d)
  qed
  then show ?thesis by (auto simp: prefix_def simp flip: d)
qed

text \<open>A schedule: \<open>True\<close> moves the writer, \<open>False\<close> the reader.\<close>

fun sched :: "bool list \<Rightarrow> rb_sys \<Rightarrow> rb_sys option" where
  "sched [] s = Some s"
| "sched (b # bs) s = (case (if b then writer_step s else reader_step s) of
     None \<Rightarrow> None | Some s' \<Rightarrow> sched bs s')"

lemma rb_reach_trans: "rb_reach t u \<Longrightarrow> rb_reach s t \<Longrightarrow> rb_reach s u"
  by (induction rule: rb_reach.induct) (auto intro: rb_reach.step)

lemma sched_reach: "sched bs s = Some s' \<Longrightarrow> rb_reach s s'"
proof (induction bs arbitrary: s)
  case Nil
  then show ?case by (simp add: rb_reach.refl)
next
  case (Cons b bs)
  then obtain t where t: "(if b then writer_step s else reader_step s) = Some t" "sched bs t = Some s'"
    by (auto split: option.splits if_splits)
  then have "rb_step s t" by (auto split: if_splits intro: rb_step.intros)
  then have "rb_reach s t" using rb_reach.step rb_reach.refl by blast
  with Cons.IH [OF t(2)] show ?case by (rule rb_reach_trans)
qed

theorem ring_buffer_concurrent_fifo_witness:
  "\<exists>s. rb_reach (rb_start rb_example [5, 6] 1) s \<and> rwant s = 0 \<and> rpc s = Ready \<and>
     rgot s = take 1 (rb_content rb_example @ [5, 6])"
proof -
  obtain s where s: "sched [True, True, True, True, False, False, False, False] (rb_start rb_example [5, 6] 1) = Some s"
    "rwant s = 0" "rpc s = Ready"
    by (simp add: rb_start_def rb_example_def writer_step_def reader_step_def Let_def
        ring_buffer_available_def ring_buffer_used_def size_sub_def wake_def)
  then show ?thesis
    using ring_buffer_concurrent_fifo [OF rb_example_wf sched_reach [OF s(1)]] sched_reach [OF s(1)]
    by blast
qed

text \<open>With both threads asleep, only spurious wake-ups are possible.\<close>

lemma asleep_steps:
  "wpc s = Waiting \<Longrightarrow> rpc s = Waiting \<Longrightarrow> {t. rb_step s t} = {s\<lparr>wpc := Ready\<rparr>, s\<lparr>rpc := Ready\<rparr>}"
  by (auto simp: writer_step_def reader_step_def Let_def elim: rb_stepE intro: rb_step.intros)

text \<open>
  C4. The signals are sent without the mutex under which the sleeper tested its condition, so a
  wake-up can be lost. On an empty buffer of capacity 1, with two bytes to write and two to read,
  two schedules put both threads to sleep for good: one with the buffer empty, room in it and a
  byte left to write, and one with a byte in the buffer, which the reader still wants. In either
  state neither thread can move, and the only steps are spurious wake-ups.
\<close>

theorem ring_buffer_lost_wakeup:
  "\<exists>rb s t. rb_wf rb \<and> rb_content rb = [] \<and>
     rb_reach (rb_start rb [1, 2] 2) s \<and> rb_reach (rb_start rb [1, 2] 2) t \<and>
     wpc s = Waiting \<and> rpc s = Waiting \<and> wrest s = [2] \<and> rwant s = 1 \<and>
     rb_content (sys_rb s) = [] \<and> ring_buffer_available (Some (sys_rb s)) = 1 \<and>
     wpc t = Waiting \<and> rpc t = Waiting \<and> wrest t = [2] \<and> rwant t = 2 \<and>
     rb_content (sys_rb t) = [1] \<and>
     {u. rb_step s u} = {s\<lparr>wpc := Ready\<rparr>, s\<lparr>rpc := Ready\<rparr>} \<and>
     {u. rb_step t u} = {t\<lparr>wpc := Ready\<rparr>, t\<lparr>rpc := Ready\<rparr>}"
proof -
  let ?rb = "\<lparr>rb_buffer = Some [0, 0], rb_size = 2, rb_head = 0, rb_tail = 0\<rparr>"
  note run = rb_start_def writer_step_def reader_step_def Let_def ring_buffer_available_def
    ring_buffer_used_def size_sub_def wake_def rb_store_def rb_fetch_def rb_content_def
    ring_slice_def blit_def
  have rb: "rb_wf ?rb" "rb_content ?rb = []"
    by (simp_all add: rb_wf_def rb_content_def ring_buffer_used_def)
  obtain s where s: "sched [True, True, True, True, True, False, False, False, False, False, False, True]
      (rb_start ?rb [1, 2] 2) = Some s"
    "wpc s = Waiting" "rpc s = Waiting" "wrest s = [2]" "rwant s = 1"
    "rb_content (sys_rb s) = []" "ring_buffer_available (Some (sys_rb s)) = 1"
    by (simp add: run)
  obtain t where t: "sched [False, True, True, True, True, False, True, True]
      (rb_start ?rb [1, 2] 2) = Some t"
    "wpc t = Waiting" "rpc t = Waiting" "wrest t = [2]" "rwant t = 2" "rb_content (sys_rb t) = [1]"
    by (simp add: run)
  show ?thesis
    using rb sched_reach [OF s(1)] sched_reach [OF t(1)] s(2-) t(2-)
      asleep_steps [OF s(2,3)] asleep_steps [OF t(2,3)]
    by (intro exI [of _ ?rb] exI [of _ s] exI [of _ t]) simp
qed

end
