(* ===== verification/Memory_Pool.thy ===== *)
theory Memory_Pool
  imports Interfaces
begin

text \<open>
  The memory pool of \<^verbatim>\<open>src/core/memory.c\<close>: one block from the system allocator, handed out
  from the front and never reclaimed, with the system allocator as the fallback. Addresses and
  sizes are natural numbers below \<open>2 ^ 64\<close>, \<open>0\<close> is the null pointer; additions and products
  wrap around as \<^verbatim>\<open>size_t\<close> does. What the system allocator returns is an argument.
\<close>

section \<open>State and operations\<close>

record memory_pool =
  base_address :: nat
  total_size :: nat
  used_size :: nat

definition memory_init :: "os \<Rightarrow> nat \<Rightarrow> memory_pool \<Rightarrow> nat \<Rightarrow> uesim_error \<times> memory_pool" where
  "memory_init s sys p heap_size =
     (if sys = 0 then (UESIM_ERROR_MEMORY, p\<lparr>base_address := 0\<rparr>)
      else let p = p\<lparr>base_address := sys, total_size := heap_size, used_size := 0\<rparr>
        in if init_ok s 0 then (UESIM_SUCCESS, p)
           else (UESIM_ERROR_THREAD, p\<lparr>base_address := 0\<rparr>))"

definition memory_cleanup :: "memory_pool \<Rightarrow> memory_pool" where
  "memory_cleanup p = p\<lparr>base_address := 0, total_size := 0, used_size := 0\<rparr>"

definition uesim_malloc :: "os \<Rightarrow> nat \<Rightarrow> memory_pool \<Rightarrow> nat \<Rightarrow> nat \<times> memory_pool" where
  "uesim_malloc s sys p n =
     (if \<not> lock_ok s 0 then (sys, p)
      else if (used_size p + n) mod 2 ^ 64 \<le> total_size p
      then let ptr = base_address p + used_size p;
               p' = p\<lparr>used_size := (used_size p + n) mod 2 ^ 64\<rparr>
           in (if ptr = 0 then sys else ptr, p')
      else (sys, p))"

text \<open>The size the code asks for is the product of its arguments, reduced modulo \<open>2 ^ 64\<close>.\<close>

definition calloc_size :: "nat \<Rightarrow> nat \<Rightarrow> nat" where
  "calloc_size nmemb n = (nmemb * n) mod 2 ^ 64"

definition uesim_calloc :: "os \<Rightarrow> nat \<Rightarrow> memory_pool \<Rightarrow> nat \<Rightarrow> nat \<Rightarrow> nat \<times> memory_pool" where
  "uesim_calloc s sys p nmemb n = uesim_malloc s sys p (calloc_size nmemb n)"

definition in_pool :: "memory_pool \<Rightarrow> nat \<Rightarrow> bool" where
  "in_pool p ptr \<longleftrightarrow> base_address p \<le> ptr \<and> ptr < base_address p + total_size p"

text \<open>
  Whether a release reaches the system's \<^verbatim>\<open>free\<close>, and what a resize passes to the system's
  \<^verbatim>\<open>realloc\<close>.
\<close>

definition uesim_free :: "memory_pool \<Rightarrow> nat \<Rightarrow> nat option" where
  "uesim_free p ptr = (if in_pool p ptr then None else Some ptr)"

definition uesim_realloc :: "memory_pool \<Rightarrow> nat \<Rightarrow> nat \<Rightarrow> nat \<times> nat" where
  "uesim_realloc p ptr n = (ptr, n)"

section \<open>The invariant\<close>

definition pool_wf :: "memory_pool \<Rightarrow> bool" where
  "pool_wf p \<longleftrightarrow> used_size p \<le> total_size p \<and> base_address p + total_size p < 2 ^ 64 \<and>
     (base_address p = 0 \<longrightarrow> total_size p = 0)"

text \<open>A request that does not wrap around.\<close>

definition fits64 :: "memory_pool \<Rightarrow> nat \<Rightarrow> bool" where
  "fits64 p n \<longleftrightarrow> used_size p + n < 2 ^ 64"

lemma memory_init_wf [inv_keep]:
  "sys + n < 2 ^ 64 \<Longrightarrow> memory_init s sys p n = (UESIM_SUCCESS, p') \<Longrightarrow> pool_wf p'"
  by (auto simp: memory_init_def pool_wf_def Let_def split: if_splits)

lemma memory_cleanup_wf [inv_keep]: "pool_wf (memory_cleanup p)"
  by (simp add: memory_cleanup_def pool_wf_def)

lemma uesim_malloc_wf [inv_keep]:
  "pool_wf p \<Longrightarrow> uesim_malloc s sys p n = (ptr, p') \<Longrightarrow> pool_wf p'"
  by (auto simp: uesim_malloc_def pool_wf_def Let_def split: if_splits)

text \<open>The two outcomes of a request under a working mutex.\<close>

lemma malloc_pool:
  assumes "pool_wf p" and "base_address p \<noteq> 0" and "used_size p + n \<le> total_size p"
  shows "uesim_malloc good_os sys p n =
    (base_address p + used_size p, p\<lparr>used_size := used_size p + n\<rparr>)"
  using assms by (simp add: uesim_malloc_def pool_wf_def)

lemma malloc_fallback:
  assumes "fits64 p n" and "total_size p < used_size p + n"
  shows "uesim_malloc good_os sys p n = (sys, p)"
  using assms by (simp add: uesim_malloc_def fits64_def)

section \<open>Sequences of requests\<close>

text \<open>
  The blocks a sequence of requests gets from the pool (address and size), in order; each
  request comes with what the system allocator would return.
\<close>

fun alloc_run :: "memory_pool \<Rightarrow> (nat \<times> nat) list \<Rightarrow> (nat \<times> nat) list \<times> memory_pool" where
  "alloc_run p [] = ([], p)"
| "alloc_run p ((sys, n) # reqs) =
     (case uesim_malloc good_os sys p n of (ptr, p') \<Rightarrow>
        case alloc_run p' reqs of (blocks, p'') \<Rightarrow>
          (if used_size p' = used_size p then blocks else (ptr, n) # blocks, p''))"

definition disjoint_block :: "nat \<times> nat \<Rightarrow> nat \<times> nat \<Rightarrow> bool" where
  "disjoint_block a b \<longleftrightarrow> fst a + snd a \<le> fst b \<or> fst b + snd b \<le> fst a"

lemma alloc_run_blocks:
  assumes "pool_wf p" and "base_address p \<noteq> 0"
    and "\<forall>(sys, n) \<in> set reqs. n \<le> 2 ^ 63" and "total_size p \<le> 2 ^ 62"
    and "alloc_run p reqs = (blocks, p')"
  shows "sorted_wrt (\<lambda>a b. fst a + snd a \<le> fst b) blocks \<and>
    (\<forall>b \<in> set blocks. base_address p + used_size p \<le> fst b \<and>
       fst b + snd b \<le> base_address p + total_size p \<and> 0 < snd b) \<and>
    p' = p\<lparr>used_size := used_size p + sum_list (map snd blocks)\<rparr> \<and> used_size p' \<le> total_size p \<and>
    (\<forall>(sys, n) \<in> set reqs. n \<notin> set (map snd blocks) \<longrightarrow> n = 0 \<or> total_size p < used_size p' + n)"
  using assms
proof (induction p reqs arbitrary: blocks p' rule: alloc_run.induct)
  case (1 p)
  then show ?case by (simp add: pool_wf_def)
next
  case (2 p sys n reqs)
  obtain ptr q where m: "uesim_malloc good_os sys p n = (ptr, q)"
    by (cases "uesim_malloc good_os sys p n")
  obtain bs r where rec: "alloc_run q reqs = (bs, r)" by (cases "alloc_run q reqs")
  have wf: "pool_wf q" using uesim_malloc_wf [OF "2.prems"(1) m] .
  have n: "fits64 p n" using "2.prems" by (auto simp: fits64_def pool_wf_def)
  show ?case
  proof (cases "used_size p + n \<le> total_size p")
    case True
    note eq = malloc_pool [OF "2.prems"(1,2) True, of sys]
    with m have q: "q = p\<lparr>used_size := used_size p + n\<rparr>" "ptr = base_address p + used_size p"
      by simp_all
    note IH = "2.IH" [OF m [symmetric] wf _ _ _ rec]
    have "blocks = (if n = 0 then bs else (ptr, n) # bs)" "p' = r"
      using "2.prems"(5) m rec q by auto
    then show ?thesis using IH "2.prems"(1-4) q True by (auto simp: less_eq_Suc_le)
  next
    case False
    note eq = malloc_fallback [OF n, of sys]
    with m False have q: "q = p" by simp
    then have "blocks = bs" "p' = r" using "2.prems"(5) m rec by auto
    then show ?thesis using "2.IH" [OF m [symmetric] wf _ _ _ rec] "2.prems" q False by auto
  qed
qed

section \<open>Properties\<close>

text \<open>
  C5. However many requests a pool serves, the blocks it hands out are pairwise disjoint, each
  lies, from its first to its last byte, in the part of the pool that was unused, and releasing
  any of them never reaches the system allocator (pool blocks are not reclaimed); the used size
  grows by exactly their sizes, never past the end of the pool, and a request the pool did not
  serve would not fit any more. The bounds exclude the requests whose size makes the sum wrap
  around.
\<close>

theorem pool_blocks_disjoint:
  assumes "pool_wf p" and "base_address p \<noteq> 0" and "total_size p \<le> 2 ^ 62"
    and "\<forall>(sys, n) \<in> set reqs. n \<le> 2 ^ 63" and "alloc_run p reqs = (blocks, p')"
  shows "sorted_wrt disjoint_block blocks \<and>
    (\<forall>b \<in> set blocks. base_address p + used_size p \<le> fst b \<and>
       fst b + snd b \<le> base_address p + total_size p \<and> 0 < snd b \<and> uesim_free p' (fst b) = None) \<and>
    p' = p\<lparr>used_size := used_size p + sum_list (map snd blocks)\<rparr> \<and> used_size p' \<le> total_size p \<and>
    (\<forall>(sys, n) \<in> set reqs. n \<notin> set (map snd blocks) \<longrightarrow> n = 0 \<or> total_size p < used_size p' + n)"
proof -
  note B = alloc_run_blocks [OF assms(1,2,4,3,5)]
  have "sorted_wrt disjoint_block blocks"
    using B by (auto simp: disjoint_block_def intro: sorted_wrt_mono_rel [rotated])
  moreover have "uesim_free p' (fst b) = None" if "b \<in> set blocks" for b
  proof -
    have "base_address p \<le> fst b" "fst b < base_address p + total_size p"
      "base_address p' = base_address p" "total_size p' = total_size p"
      using B that by (fastforce, fastforce, simp_all)
    then show ?thesis by (simp add: uesim_free_def in_pool_def)
  qed
  ultimately show ?thesis using B by (intro conjI) auto
qed

text \<open>A pool of 32 bytes serves 16 and 8 bytes, refuses 10, and serves 8 more.\<close>

theorem pool_blocks_disjoint_witness:
  "sorted_wrt disjoint_block [(1000, 16), (1016, 8), (1024, 8)] \<and>
   uesim_free \<lparr>base_address = 1000, total_size = 32, used_size = 32\<rparr> 1024 = None \<and>
   alloc_run \<lparr>base_address = 1000, total_size = 32, used_size = 0\<rparr> [(0, 16), (0, 8), (5000, 10), (0, 8)] =
     ([(1000, 16), (1016, 8), (1024, 8)], \<lparr>base_address = 1000, total_size = 32, used_size = 32\<rparr>)"
proof -
  let ?p = "\<lparr>base_address = 1000, total_size = 32, used_size = 0\<rparr>"
  have run: "alloc_run ?p [(0, 16), (0, 8), (5000, 10), (0, 8)] =
     ([(1000, 16), (1016, 8), (1024, 8)], \<lparr>base_address = 1000, total_size = 32, used_size = 32\<rparr>)"
    by (simp add: uesim_malloc_def)
  show ?thesis using pool_blocks_disjoint [OF _ _ _ _ run] run by (simp add: pool_wf_def)
qed

text \<open>
  The overflow of \<^verbatim>\<open>nmemb * size\<close> is not detected: a request for \<open>2 ^ 32\<close> elements of
  \<open>2 ^ 32\<close> bytes is served, by a block of no bytes, and changes nothing in the pool.
\<close>

theorem calloc_overflow:
  assumes "pool_wf p" and "base_address p \<noteq> 0"
  shows "uesim_calloc good_os sys p (2 ^ 32) (2 ^ 32) = (base_address p + used_size p, p)"
  using malloc_pool [OF assms, of 0 sys] assms(1)
  by (simp add: uesim_calloc_def calloc_size_def pool_wf_def)

theorem calloc_overflow_witness:
  "uesim_calloc good_os 0 \<lparr>base_address = 1000, total_size = 64, used_size = 8\<rparr> (2 ^ 32) (2 ^ 32)
    = (1008, \<lparr>base_address = 1000, total_size = 64, used_size = 8\<rparr>)"
  using calloc_overflow [of "\<lparr>base_address = 1000, total_size = 64, used_size = 8\<rparr>" 0]
  by (simp add: pool_wf_def)

end
