(* ===== verification/Thread_Pool.thy ===== *)
theory Thread_Pool
  imports Interfaces "HOL-Library.Multiset"
begin

text \<open>
  The thread pool of \<^verbatim>\<open>src/core/thread_pool.c\<close>: a queue of tasks under one mutex, worker
  threads that take tasks from its front, a shutdown flag. Each rule of the step relation is one
  critical section of the code (the mutex is held throughout) or the execution of a task outside
  it. The linked list with its head and tail pointers is a list; a task is a value of an arbitrary
  type (its function and argument). The record also logs the tasks that were submitted, started and
  finished, in order; no operation reads the log.
\<close>

section \<open>State\<close>

datatype 't worker = At_Loop | Executing 't | Exited

record 't thread_pool =
  task_queue :: "'t list"
  task_count :: nat
  active_tasks :: nat
  shutdown :: bool
  threads :: "'t worker list"
  submitted :: "'t list"
  started :: "'t list"
  finished :: "'t list"

definition thread_count :: "'t thread_pool \<Rightarrow> nat" where
  "thread_count p = length (threads p)"

text \<open>
  Creation: \<open>alloc_ok\<close> gives the outcomes for the pool and the thread array, \<open>init_ok 0\<close> that of
  the mutex and condition variables, \<open>created\<close> how many threads the system can start.
\<close>

definition thread_pool_create ::
  "os \<Rightarrow> nat \<Rightarrow> bool \<Rightarrow> nat \<Rightarrow> uesim_error \<times> 't thread_pool option" where
  "thread_pool_create s created out n =
     (if \<not> out \<or> n = 0 then (UESIM_ERROR_INVALID_PARAM, None)
      else if \<not> alloc_ok s 0 \<or> \<not> alloc_ok s 1 then (UESIM_ERROR_MEMORY, None)
      else if \<not> init_ok s 0 then (UESIM_ERROR_THREAD, None)
      else if created < n then (UESIM_ERROR_THREAD, None)
      else (UESIM_SUCCESS, Some \<lparr>task_queue = [], task_count = 0, active_tasks = 0,
        shutdown = False, threads = replicate n At_Loop,
        submitted = [], started = [], finished = []\<rparr>))"

section \<open>Operations\<close>

definition thread_pool_submit :: "os \<Rightarrow> 't option \<Rightarrow> 't thread_pool \<Rightarrow> uesim_error \<times> 't thread_pool" where
  "thread_pool_submit s f p = (case f of
     None \<Rightarrow> (UESIM_ERROR_INVALID_PARAM, p)
   | Some t \<Rightarrow>
       if \<not> alloc_ok s 0 then (UESIM_ERROR_MEMORY, p)
       else (UESIM_SUCCESS, p\<lparr>task_queue := task_queue p @ [t], task_count := task_count p + 1,
               submitted := submitted p @ [t]\<rparr>))"

text \<open>The test of the worker's inner loop: it sleeps while this holds.\<close>

definition worker_sleeps :: "'t thread_pool \<Rightarrow> bool" where
  "worker_sleeps p \<longleftrightarrow> task_queue p = [] \<and> \<not> shutdown p"

text \<open>The first critical section of worker \<open>i\<close>: leave on shutdown, else take the first task.\<close>

definition worker_take :: "nat \<Rightarrow> 't thread_pool \<Rightarrow> 't thread_pool option" where
  "worker_take i p =
     (if length (threads p) \<le> i \<or> (case threads p ! i of At_Loop \<Rightarrow> False | _ \<Rightarrow> True) \<or> worker_sleeps p
      then None
      else if shutdown p then Some (p\<lparr>threads := (threads p)[i := Exited]\<rparr>)
      else case task_queue p of
        [] \<Rightarrow> None
      | t # ts \<Rightarrow> Some (p\<lparr>task_queue := ts, task_count := task_count p - 1,
          active_tasks := active_tasks p + 1, threads := (threads p)[i := Executing t],
          started := started p @ [t]\<rparr>))"

text \<open>The end of the task and the second critical section.\<close>

definition worker_finish :: "nat \<Rightarrow> 't thread_pool \<Rightarrow> 't thread_pool option" where
  "worker_finish i p =
     (if length (threads p) \<le> i then None
      else case threads p ! i of
        Executing t \<Rightarrow> Some (p\<lparr>active_tasks := active_tasks p - 1,
          threads := (threads p)[i := At_Loop], finished := finished p @ [t]\<rparr>)
      | _ \<Rightarrow> None)"

text \<open>The condition on which \<^verbatim>\<open>thread_pool_wait\<close> returns.\<close>

definition wait_returns :: "'t thread_pool \<Rightarrow> bool" where
  "wait_returns p \<longleftrightarrow> \<not> (0 < active_tasks p \<or> task_queue p \<noteq> [])"

text \<open>Destruction: the flag is set first; when all threads have left, the queued tasks are freed.\<close>

definition destroy_begin :: "'t thread_pool \<Rightarrow> 't thread_pool" where
  "destroy_begin p = p\<lparr>shutdown := True\<rparr>"

definition destroy_joined :: "'t thread_pool \<Rightarrow> bool" where
  "destroy_joined p \<longleftrightarrow> shutdown p \<and> (\<forall>w \<in> set (threads p). case w of Exited \<Rightarrow> True | _ \<Rightarrow> False)"

definition thread_pool_get_active_tasks :: "'t thread_pool option \<Rightarrow> nat" where
  "thread_pool_get_active_tasks p = (case p of None \<Rightarrow> 0 | Some p \<Rightarrow> active_tasks p)"

definition thread_pool_get_pending_tasks :: "'t thread_pool option \<Rightarrow> nat" where
  "thread_pool_get_pending_tasks p = (case p of None \<Rightarrow> 0 | Some p \<Rightarrow> task_count p)"

definition thread_pool_get_thread_count :: "'t thread_pool option \<Rightarrow> nat" where
  "thread_pool_get_thread_count p = (case p of None \<Rightarrow> 0 | Some p \<Rightarrow> thread_count p)"

section \<open>Steps and the invariant\<close>

inductive pool_step :: "'t thread_pool \<Rightarrow> 't thread_pool \<Rightarrow> bool" where
  submit: "thread_pool_submit s f p = (r, p') \<Longrightarrow> pool_step p p'"
| take: "worker_take i p = Some p' \<Longrightarrow> pool_step p p'"
| finish: "worker_finish i p = Some p' \<Longrightarrow> pool_step p p'"
| destroy: "pool_step p (destroy_begin p)"

inductive pool_reach :: "'t thread_pool \<Rightarrow> bool" where
  create: "thread_pool_create s created True n = (UESIM_SUCCESS, Some p) \<Longrightarrow> pool_reach p"
| step: "pool_reach p \<Longrightarrow> pool_step p p' \<Longrightarrow> pool_reach p'"

fun running :: "'t worker list \<Rightarrow> 't multiset" where
  "running [] = {#}"
| "running (Executing t # ws) = add_mset t (running ws)"
| "running (_ # ws) = running ws"

definition pool_inv :: "'t thread_pool \<Rightarrow> bool" where
  "pool_inv p \<longleftrightarrow> task_count p = length (task_queue p) \<and>
     active_tasks p = size (running (threads p)) \<and>
     submitted p = started p @ task_queue p \<and>
     mset (started p) = mset (finished p) + running (threads p)"

lemma running_idle: "i < length ws \<Longrightarrow> ws ! i = At_Loop \<Longrightarrow>
    running (ws[i := Executing t]) = add_mset t (running ws)"
proof (induction ws arbitrary: i)
  case (Cons w ws)
  then show ?case by (cases i; cases w) auto
qed simp

lemma running_exit: "i < length ws \<Longrightarrow> ws ! i = At_Loop \<Longrightarrow> running (ws[i := Exited]) = running ws"
proof (induction ws arbitrary: i)
  case (Cons w ws)
  then show ?case by (cases i; cases w) auto
qed simp

lemma running_finish: "i < length ws \<Longrightarrow> ws ! i = Executing t \<Longrightarrow>
    running ws = add_mset t (running (ws[i := At_Loop]))"
proof (induction ws arbitrary: i)
  case (Cons w ws)
  then show ?case by (cases i; cases w) auto
qed simp

lemma running_replicate [simp]: "running (replicate n At_Loop) = {#}"
  by (induction n) simp_all

lemma submit_inv [inv_keep]: "thread_pool_submit s f p = (r, p') \<Longrightarrow> pool_inv p \<Longrightarrow> pool_inv p'"
  by (auto simp: thread_pool_submit_def pool_inv_def split: option.splits if_splits)

lemma take_inv [inv_keep]: "worker_take i p = Some p' \<Longrightarrow> pool_inv p \<Longrightarrow> pool_inv p'"
  by (auto simp: worker_take_def pool_inv_def running_idle running_exit
      split: if_splits worker.splits list.splits)

lemma finish_inv [inv_keep]: "worker_finish i p = Some p' \<Longrightarrow> pool_inv p \<Longrightarrow> pool_inv p'"
proof -
  assume step: "worker_finish i p = Some p'" and inv: "pool_inv p"
  then obtain t where i: "i < length (threads p)" "threads p ! i = Executing t" and
    p': "p' = p\<lparr>active_tasks := active_tasks p - 1,
      threads := (threads p)[i := At_Loop], finished := finished p @ [t]\<rparr>"
    by (auto simp: worker_finish_def split: if_splits worker.splits)
  show "pool_inv p'" using inv running_finish [OF i] by (simp add: pool_inv_def p')
qed

lemma pool_step_inv: "pool_step p p' \<Longrightarrow> pool_inv p \<Longrightarrow> pool_inv p'"
  by (induction rule: pool_step.induct)
    (auto intro: inv_keep, simp add: pool_inv_def destroy_begin_def)

lemma pool_reach_inv: "pool_reach p \<Longrightarrow> pool_inv p"
proof (induction rule: pool_reach.induct)
  case (create s created n p)
  then show ?case by (auto simp: thread_pool_create_def pool_inv_def split: if_splits)
next
  case (step p p')
  then show ?case by (blast intro: pool_step_inv)
qed

lemma running_no_exec: "running ws = {#} \<longleftrightarrow> (\<forall>w \<in> set ws. case w of Executing _ \<Rightarrow> False | _ \<Rightarrow> True)"
  by (induction ws rule: running.induct) (auto split: worker.splits)

section \<open>The task queue is a queue\<close>

definition queue_put :: "'t \<Rightarrow> 't thread_pool \<Rightarrow> 't thread_pool option" where
  "queue_put t p = (case thread_pool_submit good_os (Some t) p of
     (UESIM_SUCCESS, p') \<Rightarrow> Some p' | _ \<Rightarrow> None)"

text \<open>A worker that is at the head of its loop takes a task (worker 0 of a pool with one idle thread).\<close>

definition queue_get :: "'t thread_pool \<Rightarrow> ('t \<times> 't thread_pool) option" where
  "queue_get p = (case worker_take 0 p of None \<Rightarrow> None
     | Some p' \<Rightarrow> (case threads p' ! 0 of
         Executing t \<Rightarrow> map_option (\<lambda>q. (t, q)) (worker_finish 0 p') | _ \<Rightarrow> None))"

definition idle_pool :: "'t thread_pool \<Rightarrow> bool" where
  "idle_pool p \<longleftrightarrow> pool_inv p \<and> threads p = [At_Loop] \<and> \<not> shutdown p"

lemma queue_get_cases:
  "idle_pool p \<Longrightarrow> queue_get p = (case task_queue p of [] \<Rightarrow> None
     | t # ts \<Rightarrow> Some (t, p\<lparr>task_queue := ts, task_count := task_count p - 1,
         started := started p @ [t], finished := finished p @ [t]\<rparr>))"
  by (auto simp: queue_get_def idle_pool_def worker_take_def worker_sleeps_def worker_finish_def
      split: list.splits)

interpretation tp: fifo idle_pool task_queue queue_put queue_get
  by unfold_locales
    (auto simp: queue_get_cases queue_put_def thread_pool_submit_def split: list.splits,
     auto simp: idle_pool_def pool_inv_def)

section \<open>Properties\<close>

text \<open>
  C6. In every reachable state of the pool, whatever the interleaving of submitters, workers and
  destruction: the tasks were started in the order in which they were submitted; counted with
  multiplicity, every task that was submitted is queued, running on one thread or finished, and in
  exactly one of the three, and what was started is what runs or has finished; the counters are the
  length of the queue and the number of running tasks; and when \<^verbatim>\<open>thread_pool_wait\<close> returns
  every submitted task has finished.
\<close>

theorem pool_safety:
  assumes "pool_reach p"
  shows "submitted p = started p @ task_queue p \<and>
    mset (started p) = mset (finished p) + running (threads p) \<and>
    mset (submitted p) = mset (task_queue p) + running (threads p) + mset (finished p) \<and>
    thread_pool_get_pending_tasks (Some p) = length (task_queue p) \<and>
    thread_pool_get_active_tasks (Some p) = size (running (threads p)) \<and>
    (wait_returns p \<longrightarrow> mset (finished p) = mset (submitted p))"
  using pool_reach_inv [OF assms]
  by (auto simp: pool_inv_def wait_returns_def thread_pool_get_pending_tasks_def
      thread_pool_get_active_tasks_def)

lemma example_reach:
  "pool_reach \<lparr>task_queue = [], task_count = 0, active_tasks = 0, shutdown = False,
     threads = [At_Loop], submitted = [7], started = [7], finished = [7 :: nat]\<rparr>" (is "pool_reach ?p3")
proof -
  let ?p0 = "\<lparr>task_queue = [], task_count = 0, active_tasks = 0, shutdown = False,
     threads = [At_Loop], submitted = [], started = [], finished = []\<rparr> :: nat thread_pool"
  have r0: "pool_reach ?p0"
    by (rule pool_reach.create [of good_os 1 1]) (simp add: thread_pool_create_def)
  have s1: "pool_step ?p0 (?p0\<lparr>task_queue := [7], task_count := 1, submitted := [7]\<rparr>)" (is "pool_step _ ?p1")
    by (rule pool_step.submit [of good_os "Some 7" _ UESIM_SUCCESS]) (simp add: thread_pool_submit_def)
  have s2: "pool_step ?p1 (?p1\<lparr>task_queue := [], task_count := 0, active_tasks := 1,
      threads := [Executing 7], started := [7]\<rparr>)" (is "pool_step _ ?p2")
    by (rule pool_step.take [of 0]) (simp add: worker_take_def worker_sleeps_def)
  have s3: "pool_step ?p2 ?p3"
    by (rule pool_step.finish [of 0]) (simp add: worker_finish_def)
  show ?thesis
    by (rule pool_reach.step [OF pool_reach.step [OF pool_reach.step [OF r0 s1] s2] s3])
qed

theorem pool_safety_witness:
  "\<exists>p. pool_reach p \<and> wait_returns p \<and> submitted p = [7 :: nat] \<and> mset (finished p) = mset (submitted p)"
  using pool_safety [OF example_reach] example_reach
  by (intro exI [of _ "\<lparr>task_queue = [], task_count = 0, active_tasks = 0, shutdown = False,
     threads = [At_Loop], submitted = [7], started = [7], finished = [7 :: nat]\<rparr>"])
    (simp add: wait_returns_def)

text \<open>
  Destroying a pool loses exactly the tasks that are still queued when the threads have been
  joined: every other submitted task has finished.
\<close>

theorem pool_destroy_drops_queue:
  assumes "pool_reach p" and "destroy_joined p"
  shows "mset (submitted p) = mset (finished p) + mset (task_queue p) \<and> active_tasks p = 0"
proof -
  have "running (threads p) = {#}"
    using assms(2) unfolding running_no_exec destroy_joined_def
    by (auto split: worker.splits)
  then show ?thesis using pool_reach_inv [OF assms(1)] by (simp add: pool_inv_def)
qed

theorem pool_destroy_drops_queue_witness:
  "\<exists>p. pool_reach p \<and> destroy_joined p \<and>
     mset (submitted p) = mset (finished p) + mset (task_queue p) \<and> active_tasks p = 0 \<and>
     submitted p = [7 :: nat]"
proof -
  let ?p = "\<lparr>task_queue = [], task_count = 0, active_tasks = 0, shutdown = False,
     threads = [At_Loop], submitted = [7], started = [7], finished = [7 :: nat]\<rparr>"
  let ?q = "destroy_begin ?p" and ?r = "(destroy_begin ?p)\<lparr>threads := [Exited]\<rparr>"
  have "pool_step ?q ?r"
    by (rule pool_step.take [of 0]) (simp add: worker_take_def worker_sleeps_def destroy_begin_def)
  then have r: "pool_reach ?r"
    using pool_reach.step [OF pool_reach.step [OF example_reach pool_step.destroy]] by blast
  moreover have d: "destroy_joined ?r" by (simp add: destroy_joined_def destroy_begin_def)
  ultimately show ?thesis using pool_destroy_drops_queue [OF r d]
    by (intro exI [of _ ?r]) (simp add: destroy_begin_def)
qed

end
