(* ===== verification/Crypto_Base.thy ===== *)
theory Crypto_Base
  imports Interfaces
begin

text \<open>
  What the three algorithm families of \<^verbatim>\<open>src/protocol\<close> share: the parameters of a
  ciphering call (\<^verbatim>\<open>pdcp_cipher_params_t\<close>), the packing of big-endian words, the
  initialisation vector, and the argument checks of the entry points.
\<close>

record cipher_params =
  count :: u32
  bearer :: u8
  direction :: u8

text \<open>\<^verbatim>\<open>(b[0] << 24) | (b[1] << 16) | (b[2] << 8) | b[3]\<close>\<close>

definition be_word :: "u8 \<Rightarrow> u8 \<Rightarrow> u8 \<Rightarrow> u8 \<Rightarrow> u32" where
  "be_word b0 b1 b2 b3 =
     push_bit 24 (ucast b0) OR push_bit 16 (ucast b1) OR push_bit 8 (ucast b2) OR ucast b3"

text \<open>Byte \<open>i\<close> of a word, counted from the least significant one.\<close>

definition byte_at :: "nat \<Rightarrow> u32 \<Rightarrow> u8" where
  "byte_at i w = ucast (drop_bit (8 * i) w)"

definition be_words :: "u8 list \<Rightarrow> u32 list" where
  "be_words bs = map (\<lambda>i. be_word (bs ! (4 * i)) (bs ! (4 * i + 1)) (bs ! (4 * i + 2)) (bs ! (4 * i + 3))) [0..<4]"

lemma length_be_words [simp]: "length (be_words bs) = 4"
  by (simp add: be_words_def)

text \<open>\<open>COUNT || BEARER || DIRECTION || 0...\<close>\<close>

definition iv_bytes :: "cipher_params \<Rightarrow> u8 list" where
  "iv_bytes p = [byte_at 3 (count p), byte_at 2 (count p), byte_at 1 (count p), byte_at 0 (count p),
     bearer p, direction p] @ replicate 10 0"

lemma length_iv_bytes [simp]: "length (iv_bytes p) = 16"
  by (simp add: iv_bytes_def)

text \<open>
  The entry points check their four pointers; \<open>out\<close> says whether the output pointer is
  non-null.
\<close>

definition crypto_entry ::
  "(u8 list \<Rightarrow> cipher_params \<Rightarrow> u8 list \<Rightarrow> 'r) \<Rightarrow> u8 list option \<Rightarrow> cipher_params option \<Rightarrow>
   u8 list option \<Rightarrow> bool \<Rightarrow> uesim_error + 'r" where
  "crypto_entry f key params input out = (case (key, params, input) of
     (Some k, Some p, Some m) \<Rightarrow> if out then Inr (f k p m) else Inl UESIM_ERROR_INVALID_PARAM
   | _ \<Rightarrow> Inl UESIM_ERROR_INVALID_PARAM)"

lemma crypto_entry_ok [simp]: "crypto_entry f (Some k) (Some p) (Some m) True = Inr (f k p m)"
  by (simp add: crypto_entry_def)

lemma crypto_entry_null [error_branch]:
  "key = None \<or> params = None \<or> input = None \<or> \<not> out \<Longrightarrow>
   crypto_entry f key params input out = Inl UESIM_ERROR_INVALID_PARAM"
  by (auto simp: crypto_entry_def split: option.splits)

text \<open>A word generator as a generator of blocks of four bytes.\<close>

definition word_gen :: "('s \<Rightarrow> u32 \<times> 's) \<Rightarrow> 's \<Rightarrow> u8 list \<times> 's" where
  "word_gen gen s = (case gen s of (w, s') \<Rightarrow> (word_bytes w, s'))"

lemma word_gen_keystream: "keystream 4 (word_gen gen)"
  by unfold_locales (auto simp: word_gen_def split: prod.splits)

text \<open>
  The accumulating message authentication codes see the message only through the exclusive or of
  its words: two messages of the same length and the same checksum have the same code under every
  key, whatever the keystream.
\<close>

lemma mac_stream_collision:
  assumes "length m = length m'" and "checksum m = checksum m'"
  shows "mac_stream gen s 0 m = mac_stream gen s 0 m'"
  using assms by (simp add: mac_stream_checksum)

lemma checksum_swap:
  assumes "length a = 4" and "length b = 4"
  shows "checksum (a @ b @ m) = checksum (b @ a @ m)"
  using assms by (simp add: checksum_append xor.left_commute)

end
