(* ===== verification/Snow3g.thy ===== *)
theory Snow3g
  imports Crypto_Base
begin

text \<open>
  The SNOW 3G of \<^verbatim>\<open>src/protocol/snow3g.c\<close> (NEA1 and NIA1): a shift register of sixteen
  words, a three-word finite state machine, a keystream word per clock, the cipher and the message
  authentication code built on it. The fields \<open>keystream_buffer\<close> and \<open>buffer_index\<close> of the
  context are never read or written by the code and have no counterpart.
\<close>

section \<open>Substitution tables and state\<close>

definition snow3g_S1 :: "u8 list" where
  "snow3g_S1 =
    [99, 124, 119, 123, 242, 107, 111, 197, 48, 1, 103, 43, 254, 215, 171, 118,
     202, 130, 201, 125, 250, 89, 71, 240, 173, 212, 162, 175, 156, 164, 114, 192,
     183, 253, 147, 38, 54, 63, 247, 204, 52, 165, 229, 241, 113, 216, 49, 21,
     4, 199, 35, 195, 24, 150, 5, 154, 7, 18, 128, 226, 235, 39, 178, 117,
     9, 131, 44, 26, 27, 110, 90, 160, 82, 59, 214, 179, 41, 227, 47, 132,
     83, 209, 0, 237, 32, 252, 177, 91, 106, 203, 190, 57, 74, 76, 88, 207,
     208, 239, 170, 251, 67, 77, 51, 133, 69, 249, 2, 127, 80, 60, 159, 168,
     81, 163, 64, 143, 146, 157, 56, 245, 188, 182, 218, 33, 16, 255, 243, 210,
     205, 12, 19, 236, 95, 151, 68, 23, 196, 167, 126, 61, 100, 93, 25, 115,
     96, 129, 79, 220, 34, 42, 144, 136, 70, 238, 184, 20, 222, 94, 11, 219,
     224, 50, 58, 10, 73, 6, 36, 92, 194, 211, 172, 98, 145, 149, 228, 121,
     231, 200, 55, 109, 141, 213, 78, 169, 108, 86, 244, 234, 101, 122, 174, 8,
     186, 120, 37, 46, 28, 166, 180, 198, 232, 221, 116, 31, 75, 189, 139, 138,
     112, 62, 181, 102, 72, 3, 246, 14, 97, 53, 87, 185, 134, 193, 29, 158,
     225, 248, 152, 17, 105, 217, 142, 148, 155, 30, 135, 233, 206, 85, 40, 223,
     140, 161, 137, 13, 191, 230, 66, 104, 65, 153, 45, 15, 176, 84, 187, 22]"

definition snow3g_S2 :: "u8 list" where
  "snow3g_S2 =
    [64, 65, 66, 67, 68, 69, 70, 71, 72, 73, 74, 75, 76, 77, 78, 79,
     80, 81, 82, 83, 84, 85, 86, 87, 88, 89, 90, 91, 92, 93, 94, 95,
     96, 97, 98, 99, 100, 101, 102, 103, 104, 105, 106, 107, 108, 109, 110, 111,
     112, 113, 114, 115, 116, 117, 118, 119, 120, 121, 122, 123, 124, 125, 126, 127,
     128, 129, 130, 131, 132, 133, 134, 135, 136, 137, 138, 139, 140, 141, 142, 143,
     144, 145, 146, 147, 148, 149, 150, 151, 152, 153, 154, 155, 156, 157, 158, 159,
     160, 161, 162, 163, 164, 165, 166, 167, 168, 169, 170, 171, 172, 173, 174, 175,
     176, 177, 178, 179, 180, 181, 182, 183, 184, 185, 186, 187, 188, 189, 190, 191,
     192, 193, 194, 195, 196, 197, 198, 199, 200, 201, 202, 203, 204, 205, 206, 207,
     208, 209, 210, 211, 212, 213, 214, 215, 216, 217, 218, 219, 220, 221, 222, 223,
     224, 225, 226, 227, 228, 229, 230, 231, 232, 233, 234, 235, 236, 237, 238, 239,
     240, 241, 242, 243, 244, 245, 246, 247, 248, 249, 250, 251, 252, 253, 254, 255,
     0, 1, 2, 3, 4, 5, 6, 7, 8, 9, 10, 11, 12, 13, 14, 15,
     16, 17, 18, 19, 20, 21, 22, 23, 24, 25, 26, 27, 28, 29, 30, 31,
     32, 33, 34, 35, 36, 37, 38, 39, 40, 41, 42, 43, 44, 45, 46, 47,
     48, 49, 50, 51, 52, 53, 54, 55, 56, 57, 58, 59, 60, 61, 62, 63]"

definition snow3g_s1_box :: "u8 \<Rightarrow> u8" where
  "snow3g_s1_box x = snow3g_S1 ! unat x"

definition snow3g_s2_box :: "u8 \<Rightarrow> u8" where
  "snow3g_s2_box x = snow3g_S2 ! unat x"

record snow3g_context =
  s_lfsr :: "u32 list"
  s_fsm0 :: u32
  s_fsm1 :: u32
  s_fsm2 :: u32

definition snow3g_mul_alpha :: "u32 \<Rightarrow> u32" where
  "snow3g_mul_alpha x = (let result = push_bit 1 x in
     if x AND 0x80000000 \<noteq> 0 then result XOR 0x00000087 else result)"

definition snow3g_mul_alpha_inv :: "u32 \<Rightarrow> u32" where
  "snow3g_mul_alpha_inv x = (let result = drop_bit 1 x in
     if x AND 1 \<noteq> 0 then result XOR 0x80000043 else result)"

section \<open>Clocking\<close>

definition snow3g_lfsr_clock :: "snow3g_context \<Rightarrow> snow3g_context" where
  "snow3g_lfsr_clock ctx = (let l = s_lfsr ctx in
     ctx\<lparr>s_lfsr := tl l @ [l ! 0 XOR l ! 2 XOR l ! 5 XOR l ! 11]\<rparr>)"

definition snow3g_fsm_function :: "snow3g_context \<Rightarrow> u32" where
  "snow3g_fsm_function ctx = (let r1 = s_fsm1 ctx; r2 = s_fsm2 ctx in
     be_word (snow3g_s1_box (byte_at 3 r1)) (snow3g_s2_box (byte_at 2 r1))
       (snow3g_s1_box (byte_at 1 r1)) (snow3g_s2_box (byte_at 0 r1)) XOR r2)"

definition snow3g_fsm_next_state :: "snow3g_context \<Rightarrow> snow3g_context" where
  "snow3g_fsm_next_state ctx =
     ctx\<lparr>s_fsm0 := s_fsm1 ctx, s_fsm1 := s_fsm2 ctx, s_fsm2 := snow3g_fsm_function ctx\<rparr>"

definition snow3g_clock :: "snow3g_context \<Rightarrow> snow3g_context" where
  "snow3g_clock ctx = snow3g_fsm_next_state (snow3g_lfsr_clock ctx)"

definition snow3g_load :: "u8 list \<Rightarrow> cipher_params \<Rightarrow> snow3g_context" where
  "snow3g_load key params =
     \<lparr>s_lfsr = be_words key @ be_words (iv_bytes params) @ replicate 8 0,
      s_fsm0 = 0, s_fsm1 = 0, s_fsm2 = 0\<rparr>"

definition snow3g_init_context :: "u8 list \<Rightarrow> cipher_params \<Rightarrow> snow3g_context" where
  "snow3g_init_context key params = (snow3g_clock ^^ 32) (snow3g_load key params)"

text \<open>One word of keystream, and the state after it.\<close>

definition snow3g_generate_keystream :: "snow3g_context \<Rightarrow> u32 \<times> snow3g_context" where
  "snow3g_generate_keystream ctx = (let ctx' = snow3g_clock ctx in
     (s_lfsr ctx' ! 15 + s_fsm0 ctx', ctx'))"

section \<open>Ciphering and integrity\<close>

definition snow3g_stream :: "u8 list \<Rightarrow> cipher_params \<Rightarrow> u8 list \<Rightarrow> u8 list" where
  "snow3g_stream key params m =
     xor_stream 4 (word_gen snow3g_generate_keystream) (snow3g_init_context key params) m"

definition snow3g_encrypt ::
  "u8 list option \<Rightarrow> cipher_params option \<Rightarrow> u8 list option \<Rightarrow> bool \<Rightarrow> uesim_error + u8 list" where
  "snow3g_encrypt = crypto_entry snow3g_stream"

definition snow3g_decrypt ::
  "u8 list option \<Rightarrow> cipher_params option \<Rightarrow> u8 list option \<Rightarrow> bool \<Rightarrow> uesim_error + u8 list" where
  "snow3g_decrypt key params c out = snow3g_encrypt key params c out"

definition snow3g_mac :: "u8 list \<Rightarrow> cipher_params \<Rightarrow> u8 list \<Rightarrow> u32" where
  "snow3g_mac key params m =
     mac_stream snow3g_generate_keystream (snow3g_init_context key params) 0 m"

definition snow3g_compute_mac ::
  "u8 list option \<Rightarrow> cipher_params option \<Rightarrow> u8 list option \<Rightarrow> bool \<Rightarrow> uesim_error + u32" where
  "snow3g_compute_mac = crypto_entry snow3g_mac"

section \<open>Lemmas\<close>

interpretation snow: keystream 4 "word_gen snow3g_generate_keystream"
  by (rule word_gen_keystream)

interpretation snow: stream_cipher snow3g_stream snow3g_stream
  by unfold_locales (simp_all add: snow3g_stream_def snow.stream_length snow.stream_twice)

lemma snow3g_clock_lfsr: "s_lfsr (snow3g_clock ctx) =
    (let l = s_lfsr ctx in tl l @ [l ! 0 XOR l ! 2 XOR l ! 5 XOR l ! 11])"
  by (simp add: snow3g_clock_def snow3g_fsm_next_state_def snow3g_lfsr_clock_def Let_def)

lemma snow3g_clock_length:
  "length (s_lfsr ctx) = 16 \<Longrightarrow> length (s_lfsr (snow3g_clock ctx)) = 16"
  by (simp add: snow3g_clock_lfsr Let_def)

text \<open>The state machine never looks at the shift register.\<close>

definition fsm_of :: "snow3g_context \<Rightarrow> u32 \<times> u32 \<times> u32" where
  "fsm_of ctx = (s_fsm0 ctx, s_fsm1 ctx, s_fsm2 ctx)"

lemma snow3g_clock_fsm: "fsm_of a = fsm_of b \<Longrightarrow> fsm_of (snow3g_clock a) = fsm_of (snow3g_clock b)"
  by (simp add: fsm_of_def snow3g_clock_def snow3g_fsm_next_state_def snow3g_lfsr_clock_def
      snow3g_fsm_function_def Let_def)

lemma snow3g_clocks_fsm:
  "fsm_of a = fsm_of b \<Longrightarrow> fsm_of ((snow3g_clock ^^ n) a) = fsm_of ((snow3g_clock ^^ n) b)"
  by (induction n) (auto intro: snow3g_clock_fsm)

section \<open>Properties\<close>

text \<open>
  NEA1 deciphering undoes ciphering under the same key and parameters, for messages of every
  length (complete words and the incomplete last one), and the length is kept.
\<close>

theorem snow3g_roundtrip:
  "snow3g_encrypt (Some k) (Some p) (Some m) True = Inr (snow3g_stream k p m) \<and>
   snow3g_decrypt (Some k) (Some p) (Some (snow3g_stream k p m)) True = Inr m \<and>
   length (snow3g_stream k p m) = length m"
  by (simp add: snow3g_encrypt_def snow3g_decrypt_def snow.enc_enc snow.enc_length)

text \<open>
  The state machine of the implementation is fed by nothing: after any number of clocks its
  registers are the same for every key and all parameters, so the only key-dependent part of the
  keystream is the linear shift register.
\<close>

theorem snow3g_fsm_key_independent:
  "fsm_of ((snow3g_clock ^^ n) (snow3g_init_context k p)) =
   fsm_of ((snow3g_clock ^^ n) (snow3g_init_context k' p'))"
proof -
  have "fsm_of (snow3g_load k p) = fsm_of (snow3g_load k' p')"
    by (simp add: snow3g_load_def fsm_of_def)
  then show ?thesis unfolding snow3g_init_context_def by (intro snow3g_clocks_fsm)
qed

text \<open>
  The NIA1 code of a message does not change when two of its complete words are exchanged:
  the words are accumulated by exclusive or, in no particular order.
\<close>

theorem snow3g_mac_swap:
  assumes "length a = 4" and "length b = 4"
  shows "snow3g_compute_mac key p (Some (a @ b @ m)) out = snow3g_compute_mac key p (Some (b @ a @ m)) out"
proof -
  have "snow3g_mac k q (a @ b @ m) = snow3g_mac k q (b @ a @ m)" for k q
  proof -
    have len: "length (a @ b @ m) = length (b @ a @ m)" by simp
    show ?thesis
      unfolding snow3g_mac_def by (rule mac_stream_collision [OF len checksum_swap [OF assms]])
  qed
  then show ?thesis
    unfolding snow3g_compute_mac_def crypto_entry_def by (auto split: option.split)
qed

theorem snow3g_mac_swap_witness:
  "snow3g_compute_mac (Some (replicate 16 0)) (Some \<lparr>count = 0, bearer = 1, direction = 0\<rparr>)
     (Some ([1, 2, 3, 4] @ [5, 6, 7, 8] @ [9])) True =
   snow3g_compute_mac (Some (replicate 16 0)) (Some \<lparr>count = 0, bearer = 1, direction = 0\<rparr>)
     (Some ([5, 6, 7, 8] @ [1, 2, 3, 4] @ [9])) True"
  by (rule snow3g_mac_swap) simp_all

end
