(* ===== verification/Zuc.thy ===== *)
theory Zuc
  imports Crypto_Base
begin

text \<open>
  The ZUC of \<^verbatim>\<open>src/protocol/zuc.c\<close> (NEA3 and NIA3): a shift register of sixteen 31-bit
  values, a two-word state machine fed by two of them, and the cipher and message authentication
  code built on the keystream. \<^verbatim>\<open>zuc_bit_reorganization\<close> is defined by the code but not
  called by it.
\<close>

section \<open>Substitution tables and state\<close>

definition zuc_S0 :: "u8 list" where
  "zuc_S0 =
    [62, 114, 91, 71, 202, 224, 0, 51, 4, 209, 84, 152, 9, 185, 109, 203,
     123, 27, 249, 50, 175, 157, 106, 165, 184, 45, 252, 29, 8, 83, 3, 144,
     77, 78, 132, 153, 228, 206, 217, 145, 18, 160, 6, 98, 77, 46, 31, 85,
     60, 61, 90, 198, 116, 178, 245, 141, 107, 154, 120, 37, 94, 28, 135, 76,
     163, 25, 167, 87, 66, 176, 63, 42, 79, 35, 240, 16, 88, 126, 54, 64,
     196, 26, 230, 33, 199, 97, 53, 210, 20, 194, 108, 232, 81, 234, 155, 138,
     36, 110, 23, 159, 13, 12, 52, 142, 100, 43, 21, 49, 68, 147, 133, 119,
     125, 139, 248, 140, 161, 32, 93, 75, 117, 219, 1, 70, 103, 115, 148, 244,
     74, 39, 73, 56, 105, 95, 40, 48, 57, 55, 69, 131, 104, 72, 96, 30,
     38, 17, 242, 188, 112, 151, 5, 10, 47, 127, 129, 121, 113, 19, 137, 99,
     89, 134, 149, 67, 65, 34, 136, 58, 92, 24, 41, 80, 146, 59, 156, 254,
     15, 2, 7, 22, 11, 14, 101, 86, 102, 118, 172, 130, 231, 76, 128, 0,
     25, 82, 19, 62, 114, 91, 71, 202, 224, 0, 51, 4, 209, 84, 152, 9,
     185, 109, 203, 123, 27, 249, 50, 175, 157, 106, 165, 184, 45, 252, 29, 8,
     83, 3, 144, 77, 78, 132, 153, 228, 206, 217, 145, 18, 160, 6, 98, 77,
     46, 31, 85, 60, 61, 90, 198, 116, 178, 245, 141, 107, 154, 120, 37, 94]"

definition zuc_S1 :: "u8 list" where
  "zuc_S1 =
    [85, 194, 99, 113, 59, 200, 71, 134, 159, 60, 218, 91, 41, 170, 253, 119,
     140, 197, 148, 12, 166, 26, 19, 0, 227, 168, 22, 114, 68, 155, 178, 254,
     77, 52, 126, 14, 95, 65, 103, 2, 158, 98, 78, 120, 94, 107, 53, 104,
     81, 209, 249, 229, 42, 142, 90, 20, 169, 108, 132, 58, 24, 101, 128, 154,
     7, 18, 64, 35, 32, 246, 11, 34, 102, 208, 69, 157, 13, 3, 39, 121,
     84, 40, 176, 136, 186, 50, 28, 123, 93, 44, 17, 43, 252, 88, 48, 138,
     242, 160, 6, 72, 38, 211, 180, 207, 67, 75, 9, 105, 213, 141, 51, 143,
     76, 112, 33, 96, 61, 215, 117, 212, 133, 156, 79, 66, 109, 89, 192, 55,
     87, 116, 153, 196, 45, 23, 201, 106, 5, 73, 92, 161, 57, 36, 8, 144,
     80, 63, 37, 122, 56, 135, 10, 21, 222, 150, 100, 175, 124, 118, 220, 62,
     110, 86, 74, 30, 162, 216, 16, 181, 47, 27, 245, 115, 217, 82, 46, 129,
     146, 1, 131, 54, 238, 251, 70, 111, 4, 90, 232, 149, 230, 139, 152, 25,
     205, 49, 182, 158, 85, 194, 99, 113, 59, 200, 71, 134, 159, 60, 218, 91,
     41, 170, 253, 119, 140, 197, 148, 12, 166, 26, 19, 0, 227, 168, 22, 114,
     68, 155, 178, 254, 77, 52, 126, 14, 95, 65, 103, 2, 158, 98, 78, 120,
     94, 107, 53, 104, 81, 209, 249, 229, 42, 142, 90, 20, 169, 108, 132, 58]"

definition zuc_s0_box :: "u8 \<Rightarrow> u8" where
  "zuc_s0_box x = zuc_S0 ! unat x"

definition zuc_s1_box :: "u8 \<Rightarrow> u8" where
  "zuc_s1_box x = zuc_S1 ! unat x"

record zuc_context =
  z_lfsr :: "u32 list"
  z_fsm0 :: u32
  z_fsm1 :: u32

definition zuc_lfsr_initialization :: "u32 \<Rightarrow> u32" where
  "zuc_lfsr_initialization x = x AND 0x7FFFFFFF"

definition zuc_bit_reorganization :: "zuc_context \<Rightarrow> u32" where
  "zuc_bit_reorganization ctx =
     z_lfsr ctx ! 0 XOR z_lfsr ctx ! 1 XOR z_lfsr ctx ! 2 XOR z_lfsr ctx ! 3"

section \<open>Clocking\<close>

definition zuc_lfsr_feedback :: "u32 list \<Rightarrow> u32" where
  "zuc_lfsr_feedback l = (l ! 0 XOR l ! 4 XOR l ! 10 XOR l ! 13 XOR l ! 15) AND 0x7FFFFFFF"

definition zuc_lfsr_clock :: "zuc_context \<Rightarrow> zuc_context" where
  "zuc_lfsr_clock ctx = ctx\<lparr>z_lfsr := tl (z_lfsr ctx) @ [zuc_lfsr_feedback (z_lfsr ctx)]\<rparr>"

definition zuc_sub :: "u32 \<Rightarrow> u32" where
  "zuc_sub w = be_word (zuc_s0_box (byte_at 3 w)) (zuc_s1_box (byte_at 2 w))
     (zuc_s0_box (byte_at 1 w)) (zuc_s1_box (byte_at 0 w))"

definition zuc_fsm_function :: "zuc_context \<Rightarrow> u32 \<Rightarrow> u32 \<Rightarrow> u32" where
  "zuc_fsm_function ctx u v = (let r1 = z_fsm0 ctx; r2 = z_fsm1 ctx; w = zuc_sub u XOR v in
     zuc_sub w XOR (r1 XOR r2))"

definition zuc_fsm_next_state :: "zuc_context \<Rightarrow> zuc_context" where
  "zuc_fsm_next_state ctx = (let u = z_lfsr ctx ! 0; v = z_lfsr ctx ! 4 in
     ctx\<lparr>z_fsm0 := z_fsm1 ctx, z_fsm1 := zuc_fsm_function ctx u v\<rparr>)"

definition zuc_clock :: "zuc_context \<Rightarrow> zuc_context" where
  "zuc_clock ctx = zuc_fsm_next_state (zuc_lfsr_clock ctx)"

definition zuc_load :: "u8 list \<Rightarrow> cipher_params \<Rightarrow> zuc_context" where
  "zuc_load key params =
     \<lparr>z_lfsr = map zuc_lfsr_initialization (be_words key) @
        map zuc_lfsr_initialization (be_words (iv_bytes params)) @ replicate 8 0,
      z_fsm0 = 0, z_fsm1 = 0\<rparr>"

definition zuc_init_context :: "u8 list \<Rightarrow> cipher_params \<Rightarrow> zuc_context" where
  "zuc_init_context key params = (zuc_clock ^^ 32) (zuc_load key params)"

definition zuc_generate_keystream :: "zuc_context \<Rightarrow> u32 \<times> zuc_context" where
  "zuc_generate_keystream ctx = (let ctx' = zuc_clock ctx in
     (z_lfsr ctx' ! 0 XOR z_fsm0 ctx', ctx'))"

section \<open>Ciphering and integrity\<close>

definition zuc_stream :: "u8 list \<Rightarrow> cipher_params \<Rightarrow> u8 list \<Rightarrow> u8 list" where
  "zuc_stream key params m =
     xor_stream 4 (word_gen zuc_generate_keystream) (zuc_init_context key params) m"

definition zuc_encrypt ::
  "u8 list option \<Rightarrow> cipher_params option \<Rightarrow> u8 list option \<Rightarrow> bool \<Rightarrow> uesim_error + u8 list" where
  "zuc_encrypt = crypto_entry zuc_stream"

definition zuc_decrypt ::
  "u8 list option \<Rightarrow> cipher_params option \<Rightarrow> u8 list option \<Rightarrow> bool \<Rightarrow> uesim_error + u8 list" where
  "zuc_decrypt key params c out = zuc_encrypt key params c out"

definition zuc_mac :: "u8 list \<Rightarrow> cipher_params \<Rightarrow> u8 list \<Rightarrow> u32" where
  "zuc_mac key params m = mac_stream zuc_generate_keystream (zuc_init_context key params) 0 m"

definition zuc_compute_mac ::
  "u8 list option \<Rightarrow> cipher_params option \<Rightarrow> u8 list option \<Rightarrow> bool \<Rightarrow> uesim_error + u32" where
  "zuc_compute_mac = crypto_entry zuc_mac"

section \<open>Lemmas\<close>

interpretation zuc: keystream 4 "word_gen zuc_generate_keystream"
  by (rule word_gen_keystream)

interpretation zuc: stream_cipher zuc_stream zuc_stream
  by unfold_locales (simp_all add: zuc_stream_def zuc.stream_length zuc.stream_twice)

text \<open>The registers stay 31-bit values, as the algorithm's field requires.\<close>

definition zuc_wf :: "zuc_context \<Rightarrow> bool" where
  "zuc_wf ctx \<longleftrightarrow> length (z_lfsr ctx) = 16 \<and> (\<forall>w \<in> set (z_lfsr ctx). w AND 0x7FFFFFFF = w)"

lemma zuc_clock_wf [inv_keep]: "zuc_wf ctx \<Longrightarrow> zuc_wf (zuc_clock ctx)"
proof -
  assume wf: "zuc_wf ctx"
  then have "z_lfsr ctx \<noteq> []" by (auto simp: zuc_wf_def)
  then have "set (tl (z_lfsr ctx)) \<subseteq> set (z_lfsr ctx)" by (simp add: list.set_sel(2) subsetI)
  with wf show ?thesis
    by (auto simp: zuc_wf_def zuc_clock_def zuc_fsm_next_state_def zuc_lfsr_clock_def Let_def
        zuc_lfsr_feedback_def and.assoc)
qed

lemma zuc_load_wf: "zuc_wf (zuc_load key params)"
  by (auto simp: zuc_wf_def zuc_load_def zuc_lfsr_initialization_def and.assoc)

lemma zuc_clocks_wf: "zuc_wf ctx \<Longrightarrow> zuc_wf ((zuc_clock ^^ n) ctx)"
  by (induction n) (auto intro: zuc_clock_wf)

section \<open>Properties\<close>

text \<open>
  NEA3 deciphering undoes ciphering for messages of every length, and after any number of
  clocks from any key and parameters the register holds sixteen 31-bit values.
\<close>

theorem zuc_roundtrip:
  "zuc_encrypt (Some k) (Some p) (Some m) True = Inr (zuc_stream k p m) \<and>
   zuc_decrypt (Some k) (Some p) (Some (zuc_stream k p m)) True = Inr m \<and>
   zuc_wf ((zuc_clock ^^ n) (zuc_init_context k p))"
  using zuc_clocks_wf [OF zuc_clocks_wf [OF zuc_load_wf]]
  by (simp add: zuc_encrypt_def zuc_decrypt_def zuc.enc_enc zuc_init_context_def)

text \<open>
  Neither substitution table of the implementation is a permutation, as the algorithm's
  tables are: two inputs of each have the same output.
\<close>

theorem zuc_sbox_not_injective: "\<not> inj zuc_s0_box \<and> \<not> inj zuc_s1_box"
proof -
  have "zuc_s0_box 32 = zuc_s0_box 44" "zuc_s1_box 54 = zuc_s1_box 185"
    by (simp_all add: zuc_s0_box_def zuc_s1_box_def zuc_S0_def zuc_S1_def)
  moreover have "(32 :: u8) \<noteq> 44" "(54 :: u8) \<noteq> 185" by simp_all
  ultimately show ?thesis unfolding inj_def by blast
qed

end
