(* ===== verification/Aes.thy ===== *)
theory Aes
  imports Crypto_Base
begin

text \<open>
  The AES-128 of \<^verbatim>\<open>src/protocol/aes.c\<close>: key schedule, block cipher and its
  inverse, counter mode (NEA2) and the block-chaining message authentication code (NIA2).
  The state \<^verbatim>\<open>uint8_t state[4][4]\<close> is four rows of four bytes.
\<close>

section \<open>Tables, rows and state\<close>

definition aes_sbox :: "u8 list" where
  "aes_sbox =
    [99, 124, 119, 123, 242, 107, 111, 197, 48, 1, 103, 43, 254, 215, 171, 118,
     202, 130, 201, 125, 250, 89, 71, 240, 173, 212, 162, 175, 156, 164, 114, 192,
     183, 253, 147, 38, 54, 63, 247, 204, 52, 165, 229, 241, 113, 216, 49, 21,
     4, 199, 35, 195, 24, 150, 5, 154, 7, 18, 128, 226, 235, 39, 178, 117,
     9, 131, 44, 26, 27, 110, 90, 160, 82, 59, 214, 179, 41, 227, 47, 132,
     83, 209, 0, 237, 32, 252, 177, 91, 106, 203, 190, 57, 74, 76, 88, 207,
     208, 239, 170, 251, 67, 77, 51, 133, 69, 249, 2, 127, 80, 60, 159, 168,
     81, 163, 64, 143, 146, 157, 56, 245, 188, 182, 218, 33, 16, 255, 243, 210,
     205, 12, 19, 236, 95, 151, 68, 23, 196, 167, 126, 61, 100, 93, 25, 115,
     96, 129, 79, 220, 34, 42, 144, 136, 70, 238, 184, 20, 222, 94, 11, 219,
     224, 50, 58, 10, 73, 6, 36, 92, 194, 211, 172, 98, 145, 149, 228, 121,
     231, 200, 55, 109, 141, 213, 78, 169, 108, 86, 244, 234, 101, 122, 174, 8,
     186, 120, 37, 46, 28, 166, 180, 198, 232, 221, 116, 31, 75, 189, 139, 138,
     112, 62, 181, 102, 72, 3, 246, 14, 97, 53, 87, 185, 134, 193, 29, 158,
     225, 248, 152, 17, 105, 217, 142, 148, 155, 30, 135, 233, 206, 85, 40, 223,
     140, 161, 137, 13, 191, 230, 66, 104, 65, 153, 45, 15, 176, 84, 187, 22]"

definition aes_inv_sbox :: "u8 list" where
  "aes_inv_sbox =
    [82, 9, 106, 213, 48, 54, 165, 56, 191, 64, 163, 158, 129, 243, 215, 251,
     124, 227, 57, 130, 155, 47, 255, 135, 52, 142, 67, 68, 196, 222, 233, 203,
     84, 123, 148, 50, 166, 194, 35, 61, 238, 76, 149, 11, 66, 250, 195, 78,
     8, 46, 161, 102, 40, 217, 36, 178, 118, 91, 162, 73, 109, 139, 209, 37,
     114, 248, 246, 100, 134, 104, 152, 22, 212, 164, 92, 204, 93, 101, 182, 146,
     108, 112, 72, 80, 253, 237, 185, 218, 94, 21, 70, 87, 167, 141, 157, 132,
     144, 216, 171, 0, 140, 188, 211, 10, 247, 228, 88, 5, 184, 179, 69, 6,
     208, 44, 30, 143, 202, 63, 15, 2, 193, 175, 189, 3, 1, 19, 138, 107,
     58, 145, 17, 65, 79, 103, 220, 234, 151, 242, 207, 206, 240, 180, 230, 115,
     150, 172, 116, 34, 231, 173, 53, 133, 226, 249, 55, 232, 28, 117, 223, 110,
     71, 241, 26, 113, 29, 41, 197, 137, 111, 183, 98, 14, 170, 24, 190, 27,
     252, 86, 62, 75, 198, 210, 121, 32, 154, 219, 192, 254, 120, 205, 90, 244,
     31, 221, 168, 51, 136, 7, 199, 49, 177, 18, 16, 89, 39, 128, 236, 95,
     96, 81, 127, 169, 25, 181, 74, 13, 45, 229, 122, 159, 147, 201, 156, 239,
     160, 224, 59, 77, 174, 42, 245, 176, 200, 235, 187, 60, 131, 83, 153, 97,
     23, 43, 4, 126, 186, 119, 214, 38, 225, 105, 20, 99, 85, 33, 12, 125]"

definition AES_ROUNDS :: nat where "AES_ROUNDS = 10"

type_synonym row = "u8 \<times> u8 \<times> u8 \<times> u8"
type_synonym aes_state = "row \<times> row \<times> row \<times> row"

fun row_map :: "('a \<Rightarrow> 'b) \<Rightarrow> 'a \<times> 'a \<times> 'a \<times> 'a \<Rightarrow> 'b \<times> 'b \<times> 'b \<times> 'b" where
  "row_map f (a, b, c, d) = (f a, f b, f c, f d)"

fun row_xor :: "row \<Rightarrow> row \<Rightarrow> row" where
  "row_xor (a, b, c, d) (a', b', c', d') = (a XOR a', b XOR b', c XOR c', d XOR d')"

text \<open>Byte \<open>r\<close> of each of the four words of a round key.\<close>

definition key_row :: "nat \<Rightarrow> u32 list \<Rightarrow> row" where
  "key_row r rk = (byte_at r (rk ! 0), byte_at r (rk ! 1), byte_at r (rk ! 2), byte_at r (rk ! 3))"

text \<open>A function of one column, applied to the four columns.\<close>

fun columns :: "aes_state \<Rightarrow> aes_state" where
  "columns ((a0, a1, a2, a3), (b0, b1, b2, b3), (c0, c1, c2, c3), (d0, d1, d2, d3)) =
     ((a0, b0, c0, d0), (a1, b1, c1, d1), (a2, b2, c2, d2), (a3, b3, c3, d3))"

definition on_columns :: "(row \<Rightarrow> row) \<Rightarrow> aes_state \<Rightarrow> aes_state" where
  "on_columns f st = columns (row_map f (columns st))"

section \<open>Key schedule\<close>

definition aes_rcon :: "u32 list" where
  "aes_rcon = [0x01, 0x02, 0x04, 0x08, 0x10, 0x20, 0x40, 0x80, 0x1b, 0x36]"

definition sub_box :: "u8 \<Rightarrow> u8" where
  "sub_box x = aes_sbox ! unat x"

definition inv_sub_box :: "u8 \<Rightarrow> u8" where
  "inv_sub_box x = aes_inv_sbox ! unat x"

definition aes_next_round_key :: "u32 list \<Rightarrow> u32 \<Rightarrow> u32 list" where
  "aes_next_round_key prev rc = (let t = prev ! 3;
     temp = be_word (sub_box (byte_at 2 t)) (sub_box (byte_at 1 t)) (sub_box (byte_at 0 t))
       (sub_box (byte_at 3 t)) XOR push_bit 24 rc;
     w0 = prev ! 0 XOR temp; w1 = prev ! 1 XOR w0; w2 = prev ! 2 XOR w1; w3 = prev ! 3 XOR w2
     in [w0, w1, w2, w3])"

fun aes_expand :: "u32 list \<Rightarrow> u32 list \<Rightarrow> u32 list list" where
  "aes_expand rk [] = [rk]"
| "aes_expand rk (rc # rcs) = rk # aes_expand (aes_next_round_key rk rc) rcs"

definition aes_key_expansion :: "u8 list \<Rightarrow> u32 list list" where
  "aes_key_expansion key = aes_expand (be_words key) aes_rcon"

record aes_context =
  a_key :: "u8 list"
  round_key :: "u32 list list"

definition aes_init_context :: "u8 list \<Rightarrow> aes_context" where
  "aes_init_context key = \<lparr>a_key = key, round_key = aes_key_expansion key\<rparr>"

section \<open>Round operations\<close>

fun aes_add_round_key :: "u32 list \<Rightarrow> aes_state \<Rightarrow> aes_state" where
  "aes_add_round_key rk (r0, r1, r2, r3) =
     (row_xor r0 (key_row 3 rk), row_xor r1 (key_row 2 rk), row_xor r2 (key_row 1 rk), row_xor r3 (key_row 0 rk))"

fun aes_sub_bytes :: "aes_state \<Rightarrow> aes_state" where
  "aes_sub_bytes (r0, r1, r2, r3) =
     (row_map sub_box r0, row_map sub_box r1, row_map sub_box r2, row_map sub_box r3)"

fun aes_inv_sub_bytes :: "aes_state \<Rightarrow> aes_state" where
  "aes_inv_sub_bytes (r0, r1, r2, r3) =
     (row_map inv_sub_box r0, row_map inv_sub_box r1, row_map inv_sub_box r2, row_map inv_sub_box r3)"

fun aes_shift_rows :: "aes_state \<Rightarrow> aes_state" where
  "aes_shift_rows (r0, (b0, b1, b2, b3), (c0, c1, c2, c3), (d0, d1, d2, d3)) =
     (r0, (b1, b2, b3, b0), (c2, c3, c0, c1), (d3, d0, d1, d2))"

fun aes_inv_shift_rows :: "aes_state \<Rightarrow> aes_state" where
  "aes_inv_shift_rows (r0, (b0, b1, b2, b3), (c0, c1, c2, c3), (d0, d1, d2, d3)) =
     (r0, (b3, b0, b1, b2), (c2, c3, c0, c1), (d1, d2, d3, d0))"

text \<open>\<^verbatim>\<open>(s << 1) ^ (s & 0x80 ? 0x1b : 0)\<close>\<close>

definition xtime :: "u8 \<Rightarrow> u8" where
  "xtime s = push_bit 1 s XOR (if s AND 0x80 \<noteq> 0 then 0x1b else 0)"

fun mix_column :: "row \<Rightarrow> row" where
  "mix_column (s0, s1, s2, s3) =
     (xtime s0 XOR s1 XOR xtime s1 XOR s2 XOR s3,
      s0 XOR xtime s1 XOR s2 XOR xtime s2 XOR s3,
      s0 XOR s1 XOR xtime s2 XOR s3 XOR xtime s3,
      s0 XOR xtime s0 XOR s1 XOR s2 XOR s3 XOR xtime s3)"

definition aes_mix_columns :: "aes_state \<Rightarrow> aes_state" where
  "aes_mix_columns = on_columns mix_column"

text \<open>The multiplication loop: \<open>n\<close> turns left, then the result.\<close>

fun multiply_loop :: "nat \<Rightarrow> u8 \<Rightarrow> u8 \<Rightarrow> u8 \<Rightarrow> u8" where
  "multiply_loop 0 temp y result = result"
| "multiply_loop (Suc n) temp y result =
     multiply_loop n (xtime temp) (drop_bit 1 y) (if y AND 1 \<noteq> 0 then result XOR temp else result)"

definition aes_multiply :: "u8 \<Rightarrow> u8 \<Rightarrow> u8" where
  "aes_multiply x y = multiply_loop 8 x y 0"

fun inv_mix_column :: "row \<Rightarrow> row" where
  "inv_mix_column (s0, s1, s2, s3) =
     (aes_multiply s0 0x0e XOR aes_multiply s1 0x0b XOR aes_multiply s2 0x0d XOR aes_multiply s3 0x09,
      aes_multiply s0 0x09 XOR aes_multiply s1 0x0e XOR aes_multiply s2 0x0b XOR aes_multiply s3 0x0d,
      aes_multiply s0 0x0d XOR aes_multiply s1 0x09 XOR aes_multiply s2 0x0e XOR aes_multiply s3 0x0b,
      aes_multiply s0 0x0b XOR aes_multiply s1 0x0d XOR aes_multiply s2 0x09 XOR aes_multiply s3 0x0e)"

definition aes_inv_mix_columns :: "aes_state \<Rightarrow> aes_state" where
  "aes_inv_mix_columns = on_columns inv_mix_column"

section \<open>Blocks\<close>

definition load_state :: "u8 list \<Rightarrow> aes_state" where
  "load_state p =
     ((p ! 0, p ! 4, p ! 8, p ! 12), (p ! 1, p ! 5, p ! 9, p ! 13),
      (p ! 2, p ! 6, p ! 10, p ! 14), (p ! 3, p ! 7, p ! 11, p ! 15))"

fun store_state :: "aes_state \<Rightarrow> u8 list" where
  "store_state ((a0, a1, a2, a3), (b0, b1, b2, b3), (c0, c1, c2, c3), (d0, d1, d2, d3)) =
     [a0, b0, c0, d0, a1, b1, c1, d1, a2, b2, c2, d2, a3, b3, c3, d3]"

definition aes_round :: "u32 list \<Rightarrow> aes_state \<Rightarrow> aes_state" where
  "aes_round rk st = aes_add_round_key rk (aes_mix_columns (aes_shift_rows (aes_sub_bytes st)))"

definition aes_inv_round :: "u32 list \<Rightarrow> aes_state \<Rightarrow> aes_state" where
  "aes_inv_round rk st = aes_inv_mix_columns (aes_add_round_key rk (aes_inv_sub_bytes (aes_inv_shift_rows st)))"

definition aes_encrypt_block :: "aes_context \<Rightarrow> u8 list \<Rightarrow> u8 list" where
  "aes_encrypt_block ctx p = (let rk = round_key ctx;
     st = fold (\<lambda>r. aes_round (rk ! r)) [1..<AES_ROUNDS] (aes_add_round_key (rk ! 0) (load_state p))
     in store_state (aes_add_round_key (rk ! AES_ROUNDS) (aes_shift_rows (aes_sub_bytes st))))"

definition aes_decrypt_block :: "aes_context \<Rightarrow> u8 list \<Rightarrow> u8 list" where
  "aes_decrypt_block ctx c = (let rk = round_key ctx;
     st = fold (\<lambda>r. aes_inv_round (rk ! r)) (rev [1..<AES_ROUNDS]) (aes_add_round_key (rk ! AES_ROUNDS) (load_state c))
     in store_state (aes_add_round_key (rk ! 0) (aes_inv_sub_bytes (aes_inv_shift_rows st))))"

section \<open>Counter mode\<close>

text \<open>The counter block is incremented from its last byte, stopping at the first byte that does not wrap.\<close>

fun incr_from :: "u8 list \<Rightarrow> u8 list" where
  "incr_from [] = []"
| "incr_from (b # bs) = (if b + 1 \<noteq> 0 then (b + 1) # bs else (b + 1) # incr_from bs)"

definition aes_incr_counter :: "u8 list \<Rightarrow> u8 list" where
  "aes_incr_counter c = rev (incr_from (rev c))"

definition aes_ctr_gen :: "aes_context \<Rightarrow> u8 list \<Rightarrow> u8 list \<times> u8 list" where
  "aes_ctr_gen ctx c = (aes_encrypt_block ctx c, aes_incr_counter c)"

definition aes_ctr_encrypt :: "aes_context \<Rightarrow> u8 list \<Rightarrow> u8 list \<Rightarrow> u8 list" where
  "aes_ctr_encrypt ctx iv m = xor_stream 16 (aes_ctr_gen ctx) iv m"

definition aes_stream :: "u8 list \<Rightarrow> cipher_params \<Rightarrow> u8 list \<Rightarrow> u8 list" where
  "aes_stream key params m = aes_ctr_encrypt (aes_init_context key) (iv_bytes params) m"

definition aes_encrypt ::
  "u8 list option \<Rightarrow> cipher_params option \<Rightarrow> u8 list option \<Rightarrow> bool \<Rightarrow> uesim_error + u8 list" where
  "aes_encrypt = crypto_entry aes_stream"

definition aes_decrypt ::
  "u8 list option \<Rightarrow> cipher_params option \<Rightarrow> u8 list option \<Rightarrow> bool \<Rightarrow> uesim_error + u8 list" where
  "aes_decrypt key params c out = aes_encrypt key params c out"

section \<open>Message authentication code\<close>

function cmac_loop :: "aes_context \<Rightarrow> u8 list \<Rightarrow> u8 list \<Rightarrow> u8 list" where
  "cmac_loop ctx iv m =
     (if 16 \<le> length m then cmac_loop ctx (aes_encrypt_block ctx (map2 (XOR) iv (take 16 m))) (drop 16 m)
      else if m = [] then iv
      else aes_encrypt_block ctx (map2 (XOR) iv (m @ [0x80] @ replicate (15 - length m) 0)))"
  by pat_completeness auto
termination
  by (relation "measure (\<lambda>(ctx, iv, m). length m)") auto

declare cmac_loop.simps [simp del]

definition aes_cmac :: "aes_context \<Rightarrow> u8 list \<Rightarrow> u8 list" where
  "aes_cmac ctx m = aes_encrypt_block ctx (cmac_loop ctx (replicate 16 0) m)"

definition aes_mac :: "u8 list \<Rightarrow> cipher_params \<Rightarrow> u8 list \<Rightarrow> u32" where
  "aes_mac key params m = (let full = aes_cmac (aes_init_context key) m in
     be_word (full ! 0) (full ! 1) (full ! 2) (full ! 3))"

definition aes_compute_mac ::
  "u8 list option \<Rightarrow> cipher_params option \<Rightarrow> u8 list option \<Rightarrow> bool \<Rightarrow> uesim_error + u32" where
  "aes_compute_mac = crypto_entry aes_mac"

section \<open>The round operations have inverses\<close>

lemma aes_tables_inverse:
  "map (\<lambda>y. aes_inv_sbox ! unat y) aes_sbox = map word_of_nat [0..<256]"
  by code_simp

lemma length_aes_sbox: "length aes_sbox = 256"
  by (simp add: aes_sbox_def)

lemma inv_sub_box_sub_box [simp]: "inv_sub_box (sub_box x) = x"
proof -
  have lt: "unat x < 256" using unsigned_less [of x] by simp
  then have "inv_sub_box (sub_box x) = map (\<lambda>y. aes_inv_sbox ! unat y) aes_sbox ! unat x"
    by (simp add: inv_sub_box_def sub_box_def length_aes_sbox)
  also have "\<dots> = x" using lt by (simp add: aes_tables_inverse del: map_map)
  finally show ?thesis .
qed

lemma row_map_inverse [simp]: "row_map inv_sub_box (row_map sub_box r) = r"
  by (cases r) simp

lemma row_xor_twice [simp]: "row_xor (row_xor r k) k = r"
  by (cases r; cases k) simp

lemma add_round_key_twice [simp]: "aes_add_round_key k (aes_add_round_key k st) = st"
  by (cases st) simp

lemma inv_sub_bytes_sub_bytes [simp]: "aes_inv_sub_bytes (aes_sub_bytes st) = st"
  by (cases st) simp

lemma inv_shift_rows_shift_rows [simp]: "aes_inv_shift_rows (aes_shift_rows st) = st"
  by (cases st rule: aes_shift_rows.cases) simp

lemma and_0x80: "(x :: u8) AND 0x80 \<noteq> 0 \<longleftrightarrow> bit x 7"
proof -
  have "(0x80 :: u8) = push_bit 7 1" by simp
  then show ?thesis by (metis and_exp_eq_0_iff_not_bit push_bit_of_1)
qed

lemma xtime_xor: "xtime (a XOR b) = xtime a XOR xtime b"
  by (auto simp: xtime_def and_0x80 bit_xor_iff push_bit_xor ac_simps)

lemma multiply_loop_numeral:
  "multiply_loop (numeral k) temp y result = multiply_loop (pred_numeral k) (xtime temp) (drop_bit 1 y)
     (if y AND 1 \<noteq> 0 then result XOR temp else result)"
  by (simp add: numeral_eq_Suc)

lemma aes_multiply_consts:
  "aes_multiply x 0x0e = xtime x XOR xtime (xtime x) XOR xtime (xtime (xtime x))"
  "aes_multiply x 0x0b = x XOR xtime x XOR xtime (xtime (xtime x))"
  "aes_multiply x 0x0d = x XOR xtime (xtime x) XOR xtime (xtime (xtime x))"
  "aes_multiply x 0x09 = x XOR xtime (xtime (xtime x))"
  by (simp_all add: aes_multiply_def multiply_loop_numeral xor.assoc)

text \<open>
  The fourth output of the code's column mixing multiplies its last input by 3 and not by 2, so
  the inverse column mixing leaves a remainder.
\<close>

lemma inv_mix_column_mix_column:
  "inv_mix_column (mix_column (s0, s1, s2, s3)) =
   row_xor (s0, s1, s2, s3)
     (aes_multiply s3 0x09, aes_multiply s3 0x0d, aes_multiply s3 0x0b, aes_multiply s3 0x0e)"
  by (simp add: aes_multiply_consts xtime_xor ac_simps)

lemma byte_check:
  assumes "list_all (\<lambda>n. P (word_of_nat n :: u8)) [0..<256]"
  shows "P x"
proof -
  have "unat x \<in> set [0..<256]" using unsigned_less [of x] by simp
  with assms have "P (word_of_nat (unat x))" unfolding list_all_iff by blast
  then show ?thesis by simp
qed

lemma aes_multiply_9_zero: "aes_multiply x 0x09 = 0 \<longrightarrow> x = 0"
  by (rule byte_check [of "\<lambda>x. aes_multiply x 0x09 = 0 \<longrightarrow> x = 0"]) code_simp

lemma aes_multiply_f_zero:
  "x XOR aes_multiply x 0x0e = 0 \<longrightarrow> x = 0"
  by (rule byte_check [of "\<lambda>x. x XOR aes_multiply x 0x0e = 0 \<longrightarrow> x = 0"]) code_simp

lemma aes_multiply_xor:
  "aes_multiply (a XOR b) 0x0e = aes_multiply a 0x0e XOR aes_multiply b 0x0e"
  by (simp add: aes_multiply_consts xtime_xor ac_simps)

lemma xor_eq_self_iff: "a XOR b = a \<longleftrightarrow> b = (0 :: 'a::len word)"
  by (metis xor.right_neutral xor_cancel_left)

lemma xor_eq_0: "a XOR b = 0 \<longleftrightarrow> a = (b :: 'a::len word)"
  by (metis xor.right_neutral xor_cancel_left xor_self_eq)

lemma inj_mix_column: "inj mix_column"
proof (rule injI)
  fix c c' :: row
  assume eq: "mix_column c = mix_column c'"
  obtain s0 s1 s2 s3 where c: "c = (s0, s1, s2, s3)" by (cases c)
  obtain t0 t1 t2 t3 where c': "c' = (t0, t1, t2, t3)" by (cases c')
  note res = arg_cong [OF eq, of inv_mix_column,
      unfolded c c' inv_mix_column_mix_column row_xor.simps prod.inject]
  then have "s3 XOR aes_multiply s3 0x0e = t3 XOR aes_multiply t3 0x0e" by blast
  then have "(s3 XOR aes_multiply s3 0x0e) XOR (t3 XOR aes_multiply t3 0x0e) = 0"
    by (simp only: xor_self_eq)
  then have "(s3 XOR t3) XOR aes_multiply (s3 XOR t3) 0x0e = 0"
    by (simp add: aes_multiply_xor ac_simps)
  then have "s3 XOR t3 = 0" using aes_multiply_f_zero [of "s3 XOR t3"] by blast
  then have "s3 = t3" by (simp add: xor_eq_0)
  with res show "c = c'" unfolding c c' by (metis xor_cancel_right)
qed

section \<open>The block cipher is injective\<close>

lemma columns_columns [simp]: "columns (columns st) = st"
  by (cases st rule: columns.cases) simp

lemma inj_row_map: "inj f \<Longrightarrow> inj (row_map f)"
  by (rule injI) (auto elim!: row_map.elims simp: inj_eq)

lemma inj_on_columns:
  assumes "inj f"
  shows "inj (on_columns f)"
proof (rule injI)
  fix x y
  assume "on_columns f x = on_columns f y"
  then have "columns (columns (row_map f (columns x))) = columns (columns (row_map f (columns y)))"
    by (simp only: on_columns_def)
  then have "columns x = columns y" using inj_row_map [OF assms] by (simp add: inj_eq)
  then show "x = y" by (metis columns_columns)
qed

lemma inj_aes_ops:
  "inj (aes_add_round_key k)" "inj aes_sub_bytes" "inj aes_shift_rows" "inj aes_mix_columns"
     apply (metis add_round_key_twice injI)
    apply (metis inv_sub_bytes_sub_bytes injI)
   apply (metis inv_shift_rows_shift_rows injI)
  unfolding aes_mix_columns_def by (rule inj_on_columns [OF inj_mix_column])

lemma inj_aes_round: "inj (aes_round rk)"
  by (rule injI) (simp add: aes_round_def inj_aes_ops [THEN inj_eq])

lemma inj_fold: "(\<And>x. inj (f x)) \<Longrightarrow> fold f xs a = fold f xs b \<Longrightarrow> a = b"
  by (induction xs arbitrary: a b) (auto dest: injD)

lemma store_state_load_state: "length p = 16 \<Longrightarrow> store_state (load_state p) = p"
  by (rule nth_equalityI) (auto simp: load_state_def less_Suc_eq numeral_eq_Suc)

lemma load_state_store_state [simp]: "load_state (store_state st) = st"
  by (cases st rule: columns.cases) (simp add: load_state_def)

lemma length_store_state [simp]: "length (store_state st) = 16"
  by (cases st rule: columns.cases) simp

lemma length_encrypt_block [simp]: "length (aes_encrypt_block ctx p) = 16"
  by (simp add: aes_encrypt_block_def Let_def)

lemma aes_encrypt_block_inject:
  assumes "length p = 16" and "length q = 16"
    and "aes_encrypt_block ctx p = aes_encrypt_block ctx q"
  shows "p = q"
proof -
  let ?rk = "round_key ctx"
  have "store_state x = store_state y \<longleftrightarrow> x = y" for x y by (metis load_state_store_state)
  with assms(3) have "fold (\<lambda>r. aes_round (?rk ! r)) [1..<AES_ROUNDS] (aes_add_round_key (?rk ! 0) (load_state p)) =
      fold (\<lambda>r. aes_round (?rk ! r)) [1..<AES_ROUNDS] (aes_add_round_key (?rk ! 0) (load_state q))"
    by (simp add: aes_encrypt_block_def Let_def inj_aes_ops [THEN inj_eq])
  then have "aes_add_round_key (?rk ! 0) (load_state p) = aes_add_round_key (?rk ! 0) (load_state q)"
    by (rule inj_fold [OF inj_aes_round])
  then have "load_state p = load_state q" by (simp add: inj_aes_ops [THEN inj_eq])
  then show "p = q" by (metis store_state_load_state assms(1,2))
qed

section \<open>The counter\<close>

fun le_value :: "u8 list \<Rightarrow> nat" where
  "le_value [] = 0"
| "le_value (b # bs) = unat b + 256 * le_value bs"

lemma le_value_append: "le_value (xs @ ys) = le_value xs + 256 ^ length xs * le_value ys"
  by (induction xs) (simp_all add: algebra_simps)

lemma byte_less: "unat (b :: u8) < 256"
  using unsigned_less [of b] by simp

lemma le_value_less: "le_value bs < 256 ^ length bs"
proof (induction bs)
  case (Cons b bs)
  then have "le_value bs + 1 \<le> 256 ^ length bs" by simp
  then have "256 * (le_value bs + 1) \<le> 256 * 256 ^ length bs" by (rule mult_le_mono2)
  with byte_less [of b] show ?case by simp
qed simp

lemma le_value_inject: "length xs = length ys \<Longrightarrow> le_value xs = le_value ys \<Longrightarrow> xs = ys"
proof (induction xs ys rule: list_induct2)
  case (Cons x xs y ys)
  have "unat x = unat y" using arg_cong [OF Cons.prems, of "\<lambda>n. n mod 256"] byte_less [of x] byte_less [of y] by simp
  then have "x = y" by (simp add: word_unat_eq_iff)
  with Cons show ?case by simp
qed simp

lemma length_incr_from [simp]: "length (incr_from bs) = length bs"
  by (induction bs) auto

lemma le_value_incr_from: "le_value (incr_from bs) = (le_value bs + 1) mod 256 ^ length bs"
proof (induction bs)
  case (Cons b bs)
  show ?case
  proof (cases "b + 1 = 0")
    case True
    then have "b = - 1" by (simp add: eq_neg_iff_add_eq_0)
    moreover have "(- 1 :: u8) = 255" by simp
    ultimately have b: "unat b = 255" by simp
    have "(256 + 256 * le_value bs) mod (256 * 256 ^ length bs) = 256 * ((1 + le_value bs) mod 256 ^ length bs)"
      by (simp add: mult_mod_right)
    with True Cons show ?thesis by (simp add: b add.commute)
  next
    case False
    then have b: "unat (b + 1) = unat b + 1" by (metis unatSuc add.commute Suc_eq_plus1)
    have "le_value ((b + 1) # bs) < 256 ^ length ((b + 1) # bs)" by (rule le_value_less)
    with False b show ?thesis by simp
  qed
qed simp

definition counter_value :: "u8 list \<Rightarrow> nat" where
  "counter_value c = le_value (rev c)"

lemma length_incr_counters [simp]: "length ((aes_incr_counter ^^ n) c) = length c"
  by (induction n) (simp_all add: aes_incr_counter_def)

lemma counter_value_incr1:
  "counter_value (aes_incr_counter c) = (counter_value c + 1) mod 256 ^ length c"
  by (simp add: counter_value_def aes_incr_counter_def le_value_incr_from)

lemma counter_value_incr:
  "counter_value c < 256 ^ length c \<Longrightarrow>
   counter_value ((aes_incr_counter ^^ n) c) = (counter_value c + n) mod 256 ^ length c"
  by (induction n) (simp_all add: counter_value_incr1 mod_Suc_eq)

lemma counter_value_iv:
  "counter_value (iv_bytes p) = 256 ^ 10 * le_value (rev (take 6 (iv_bytes p)))"
proof -
  have zeros: "le_value (replicate n 0) = 0" for n by (induction n) auto
  show ?thesis by (simp add: counter_value_def iv_bytes_def le_value_append zeros)
qed

lemma word32_bytes_inject:
  assumes "\<forall>i < 4. byte_at i v = byte_at i w"
  shows "v = w"
proof (rule bit_word_eqI)
  fix n assume n: "n < LENGTH(32)"
  then have "n div 8 < 4" by simp
  then have "bit (byte_at (n div 8) v) (n mod 8) = bit (byte_at (n div 8) w) (n mod 8)" using assms by simp
  then show "bit v n = bit w n"
    using n by (simp add: byte_at_def bit_ucast_iff bit_drop_bit_eq)
qed

lemma iv_bytes_inject: "take 6 (iv_bytes p) = take 6 (iv_bytes q) \<Longrightarrow> p = q"
proof -
  assume "take 6 (iv_bytes p) = take 6 (iv_bytes q)"
  then have b: "byte_at 3 (count p) = byte_at 3 (count q)" "byte_at 2 (count p) = byte_at 2 (count q)"
      "byte_at 1 (count p) = byte_at 1 (count q)" "byte_at 0 (count p) = byte_at 0 (count q)"
      "bearer p = bearer q" "direction p = direction q"
    by (simp_all add: iv_bytes_def)
  have "count p = count q"
    by (rule word32_bytes_inject) (use b in \<open>auto simp: less_Suc_eq numeral_eq_Suc\<close>)
  with b show "p = q" by simp
qed

lemma counter_inject:
  assumes "i < 2 ^ 80" and "j < 2 ^ 80"
    and "(aes_incr_counter ^^ i) (iv_bytes p) = (aes_incr_counter ^^ j) (iv_bytes q)"
  shows "i = j \<and> p = q"
proof -
  define hp where "hp = le_value (rev (take 6 (iv_bytes p)))"
  define hq where "hq = le_value (rev (take 6 (iv_bytes q)))"
  have lt: "hp < 256 ^ 6" "hq < 256 ^ 6"
    unfolding hp_def hq_def using le_value_less [of "rev (take 6 (iv_bytes p))"]
      le_value_less [of "rev (take 6 (iv_bytes q))"] by simp_all
  have ij: "i < 256 ^ 10" "j < 256 ^ 10" using assms(1,2) by simp_all
  have bound: "256 ^ 10 * h + n < 256 ^ 16" if "h < 256 ^ 6" and "n < 256 ^ 10" for h n :: nat
  proof -
    have "256 ^ 10 * (h + 1) \<le> 256 ^ 10 * (256 ^ 6 :: nat)" using that(1) by (intro mult_le_mono2) simp
    with that(2) show ?thesis by simp
  qed
  have val: "counter_value ((aes_incr_counter ^^ n) (iv_bytes r)) = 256 ^ 10 * h + n"
    if "h = le_value (rev (take 6 (iv_bytes r)))" and "h < 256 ^ 6" and "n < 256 ^ 10" for n r h
  proof -
    have iv: "counter_value (iv_bytes r) = 256 ^ 10 * h" using that(1) by (simp only: counter_value_iv)
    have "counter_value (iv_bytes r) < 256 ^ length (iv_bytes r)"
      using le_value_less [of "rev (iv_bytes r)"] by (simp only: counter_value_def length_rev)
    then have "counter_value ((aes_incr_counter ^^ n) (iv_bytes r)) = (256 ^ 10 * h + n) mod 256 ^ 16"
      by (simp only: counter_value_incr iv length_iv_bytes)
    also have "\<dots> = 256 ^ 10 * h + n" by (rule mod_less [OF bound [OF that(2,3)]])
    finally show ?thesis .
  qed
  have eq: "256 ^ 10 * hp + i = 256 ^ 10 * hq + j"
    using arg_cong [OF assms(3), of counter_value] val [OF hp_def lt(1) ij(1)] val [OF hq_def lt(2) ij(2)] by simp
  have "i = j" using arg_cong [OF eq, of "\<lambda>n. n mod 256 ^ 10"] ij by simp
  moreover have "hp = hq" using eq \<open>i = j\<close> by simp
  then have "rev (take 6 (iv_bytes p)) = rev (take 6 (iv_bytes q))"
    unfolding hp_def hq_def by (rule le_value_inject [rotated]) simp
  then have "p = q" by (intro iv_bytes_inject) simp
  ultimately show ?thesis ..
qed

section \<open>Counter mode as a cipher\<close>

interpretation aes: keystream 16 "aes_ctr_gen ctx"
  by unfold_locales (auto simp: aes_ctr_gen_def)

interpretation aes: stream_cipher aes_stream aes_stream
  by unfold_locales (simp_all add: aes_stream_def aes_ctr_encrypt_def aes.stream_length aes.stream_twice)

section \<open>A block under all-zero round keys\<close>

definition zero_key_context :: aes_context where
  "zero_key_context = \<lparr>a_key = [], round_key = replicate 11 [0, 0, 0, 0]\<rparr>"

lemma zero_key_enc:
  "aes_encrypt_block zero_key_context p = (let k = aes_round [0, 0, 0, 0] in
     store_state (aes_add_round_key [0, 0, 0, 0] (aes_shift_rows (aes_sub_bytes
       (k (k (k (k (k (k (k (k (k (aes_add_round_key [0, 0, 0, 0] (load_state p)))))))))))))))"
  by (simp add: zero_key_context_def aes_encrypt_block_def AES_ROUNDS_def upt_rec numeral_eq_Suc Let_def)

lemma zero_key_dec:
  "aes_decrypt_block zero_key_context p = (let k = aes_inv_round [0, 0, 0, 0] in
     store_state (aes_add_round_key [0, 0, 0, 0] (aes_inv_sub_bytes (aes_inv_shift_rows
       (k (k (k (k (k (k (k (k (k (aes_add_round_key [0, 0, 0, 0] (load_state p)))))))))))))))"
  by (simp add: zero_key_context_def aes_decrypt_block_def AES_ROUNDS_def upt_rec numeral_eq_Suc Let_def)

lemma zero_key_example:
  "aes_encrypt_block zero_key_context (replicate 16 0) =
   [190, 96, 60, 201, 190, 96, 60, 201, 190, 96, 60, 201, 190, 96, 60, 201]"
  "aes_decrypt_block zero_key_context [190, 96, 60, 201, 190, 96, 60, 201, 190, 96, 60, 201, 190, 96, 60, 201] =
   [8, 150, 198, 186, 8, 150, 198, 186, 8, 150, 198, 186, 8, 150, 198, 186]"
  unfolding zero_key_enc zero_key_dec Let_def by code_simp+

section \<open>Properties\<close>

text \<open>The keystream block a ciphertext shows to who knows the message.\<close>

definition keystream_block :: "u8 list \<Rightarrow> u8 list \<Rightarrow> nat \<Rightarrow> u8 list" where
  "keystream_block c m i = map2 (XOR) (take 16 (drop (16 * i) c)) (take 16 (drop (16 * i) m))"

lemma keystream_block_counter:
  assumes "16 * i + 16 \<le> length m"
  shows "keystream_block (aes_stream k p m) m i =
    aes_encrypt_block (aes_init_context k) ((aes_incr_counter ^^ i) (iv_bytes p))"
  using aes.stream_key_block [OF assms]
  by (simp add: keystream_block_def aes_stream_def aes_ctr_encrypt_def aes_ctr_gen_def)

text \<open>
  C7. NEA2 ciphers every message under all parameters to a ciphertext of the same length that
  deciphers to the message, and no block of keystream is ever used twice under one key: of two
  ciphertexts the code makes, within \<open>2 ^ 80\<close> blocks per parameter triple, a complete block of
  the one was combined with the same keystream block as a complete block of the other exactly
  when the block numbers and the parameters (COUNT, bearer, direction) are the same. (The block
  cipher is a permutation, and the counter blocks of different parameters stay apart.)
\<close>

theorem aes_ctr_correct:
  assumes "16 * i + 16 \<le> length m" and "16 * j + 16 \<le> length n" and "i < 2 ^ 80" and "j < 2 ^ 80"
  shows "\<exists>c d. aes_encrypt (Some k) (Some p) (Some m) True = Inr c \<and>
    aes_encrypt (Some k) (Some q) (Some n) True = Inr d \<and>
    length c = length m \<and> aes_decrypt (Some k) (Some p) (Some c) True = Inr m \<and>
    (keystream_block c m i = keystream_block d n j \<longleftrightarrow> i = j \<and> p = q)"
proof -
  have "keystream_block (aes_stream k p m) m i = keystream_block (aes_stream k q n) n j \<longleftrightarrow> i = j \<and> p = q"
  proof
    assume "keystream_block (aes_stream k p m) m i = keystream_block (aes_stream k q n) n j"
    then have "(aes_incr_counter ^^ i) (iv_bytes p) = (aes_incr_counter ^^ j) (iv_bytes q)"
      unfolding keystream_block_counter [OF assms(1)] keystream_block_counter [OF assms(2)]
      by (rule aes_encrypt_block_inject [rotated 2]) simp_all
    from counter_inject [OF assms(3,4) this] show "i = j \<and> p = q" .
  qed (use assms in \<open>simp add: keystream_block_counter\<close>)
  then show ?thesis
    by (simp add: aes_encrypt_def aes_decrypt_def aes.enc_enc aes.enc_length)
qed

text \<open>Two consecutive blocks of one message, and the same block under the next COUNT.\<close>

theorem aes_ctr_correct_witness:
  "\<exists>c d. aes_encrypt (Some (replicate 16 7)) (Some \<lparr>count = 5, bearer = 1, direction = 0\<rparr>)
       (Some (replicate 32 0)) True = Inr c \<and>
     aes_encrypt (Some (replicate 16 7)) (Some \<lparr>count = 6, bearer = 1, direction = 0\<rparr>)
       (Some (replicate 32 0)) True = Inr d \<and>
     length c = 32 \<and> keystream_block c (replicate 32 0) 1 \<noteq> keystream_block d (replicate 32 0) 1"
  using aes_ctr_correct [of 1 "replicate 32 0" 1 "replicate 32 0" "replicate 16 7"
      "\<lparr>count = 5, bearer = 1, direction = 0\<rparr>" "\<lparr>count = 6, bearer = 1, direction = 0\<rparr>"]
  by (auto simp del: One_nat_def)

text \<open>
  The column mixing of the code is not the one its inverse undoes: applying both gives back a
  state exactly when its fourth row is zero. Deciphering a block therefore does not undo
  enciphering it.
\<close>

theorem aes_mix_columns_broken:
  "(aes_inv_mix_columns (aes_mix_columns (r0, r1, r2, r3)) = (r0, r1, r2, r3) \<longleftrightarrow> r3 = (0, 0, 0, 0)) \<and>
   (\<exists>ctx p. length p = 16 \<and> aes_decrypt_block ctx (aes_encrypt_block ctx p) \<noteq> p)"
proof
  have nz: "aes_multiply x 9 = 0 \<longleftrightarrow> x = 0" for x
    using aes_multiply_9_zero [of x] by (auto simp: aes_multiply_consts xtime_def)
  have z: "aes_multiply 0 9 = 0" "aes_multiply 0 11 = 0" "aes_multiply 0 13 = 0" "aes_multiply 0 14 = 0"
    by (simp_all add: aes_multiply_consts xtime_def)
  show "aes_inv_mix_columns (aes_mix_columns (r0, r1, r2, r3)) = (r0, r1, r2, r3) \<longleftrightarrow> r3 = (0, 0, 0, 0)"
    unfolding aes_inv_mix_columns_def aes_mix_columns_def on_columns_def columns_columns
    by (cases "(r0, r1, r2, r3)" rule: columns.cases)
      (auto simp: inv_mix_column_mix_column xor_eq_self_iff nz z simp del: mix_column.simps inv_mix_column.simps)
  have "aes_decrypt_block zero_key_context (aes_encrypt_block zero_key_context (replicate 16 0)) \<noteq> replicate 16 0"
    by (auto simp: zero_key_example dest: arg_cong [of _ _ hd])
  then show "\<exists>ctx p. length p = 16 \<and> aes_decrypt_block ctx (aes_encrypt_block ctx p) \<noteq> p"
    by (metis length_replicate)
qed

lemma cmac_loop_padding:
  "length m mod 16 \<noteq> 0 \<Longrightarrow>
   cmac_loop ctx iv m = cmac_loop ctx iv (m @ [0x80] @ replicate (15 - length m mod 16) 0)"
proof (induction ctx iv m rule: cmac_loop.induct)
  case (1 ctx iv m)
  show ?case
  proof (cases "16 \<le> length m")
    case True
    then have "(length m - 16) mod 16 = length m mod 16" by (metis le_mod_geq)
    moreover have "cmac_loop ctx iv (m @ s) =
        cmac_loop ctx (aes_encrypt_block ctx (map2 (XOR) iv (take 16 m))) (drop 16 m @ s)" for s
      using True by (subst cmac_loop.simps) simp
    note this [of "[]"] this [of "[0x80] @ replicate (15 - length m mod 16) 0"]
    ultimately show ?thesis using 1 True by simp
  next
    case False
    let ?p = "m @ [0x80] @ replicate (15 - length m mod 16) 0"
    have len: "length ?p = 16" using False by simp
    have "cmac_loop ctx iv ?p = cmac_loop ctx (aes_encrypt_block ctx (map2 (XOR) iv ?p)) []"
      using len by (subst cmac_loop.simps) simp
    also have "\<dots> = aes_encrypt_block ctx (map2 (XOR) iv ?p)" by (subst cmac_loop.simps) simp
    also have "\<dots> = cmac_loop ctx iv m"
      using False "1.prems" by (subst cmac_loop.simps) auto
    finally show ?thesis by simp
  qed
qed

text \<open>
  The NIA2 code pads an incomplete last block with 0x80 and zeros but treats the padded block
  like a complete one (no subkeys): a message and the message with the padding written out have
  the same code under every key.
\<close>

theorem aes_mac_padding_collision:
  assumes "length m mod 16 \<noteq> 0"
  shows "aes_compute_mac (Some k) p (Some m) out =
    aes_compute_mac (Some k) p (Some (m @ [0x80] @ replicate (15 - length m mod 16) 0)) out"
proof -
  have "aes_mac k q m = aes_mac k q (m @ [0x80] @ replicate (15 - length m mod 16) 0)" for q
    unfolding aes_mac_def aes_cmac_def using cmac_loop_padding [OF assms] by (simp only:)
  then show ?thesis
    unfolding aes_compute_mac_def crypto_entry_def by (auto split: option.split)
qed

theorem aes_mac_padding_collision_witness:
  "aes_compute_mac (Some (replicate 16 7)) (Some \<lparr>count = 0, bearer = 0, direction = 0\<rparr>) (Some [1, 2, 3]) True =
   aes_compute_mac (Some (replicate 16 7)) (Some \<lparr>count = 0, bearer = 0, direction = 0\<rparr>)
     (Some ([1, 2, 3] @ [0x80] @ replicate 12 0)) True"
proof -
  have len: "15 - length [1, 2, 3 :: u8] mod 16 = 12" and ne: "length [1, 2, 3 :: u8] mod 16 \<noteq> 0"
    by simp_all
  show ?thesis by (rule aes_mac_padding_collision [OF ne, unfolded len])
qed

end
