(* ===== verification/Pdcp.thy ===== *)
theory Pdcp
  imports Snow3g Zuc Aes
begin

text \<open>
  The packet data convergence protocol of \<^verbatim>\<open>src/protocol/pdcp.c\<close>: entities and their
  counters, security contexts, the transmit and the receive path, the header codec, the COUNT
  values and the key refresh. A null data pointer of a protocol data unit is \<open>None\<close>; its length
  field is then 0.
\<close>

section \<open>State\<close>

type_synonym alg = nat

definition PDCP_ALG_MAX :: nat where "PDCP_ALG_MAX = 4"
definition PDCP_BEARER_SRB3 :: nat where "PDCP_BEARER_SRB3 = 3"
definition PDCP_BEARER_DRB_MAX :: nat where "PDCP_BEARER_DRB_MAX = 32"

record pdcp_security =
  ciphering_key :: "u8 list"
  integrity_key :: "u8 list"
  ciphering_alg :: alg
  integrity_alg :: alg
  key_refresh_count :: u32

record pdcp_entity =
  entity_id :: u32
  bearer_type :: nat
  direction_of :: nat
  sn_length :: nat
  next_pdcp_sn :: u32
  next_expected_sn :: u32
  tx_hfn :: u32
  rx_hfn :: u32
  last_tx_sn :: u32
  last_rx_sn :: u32
  sn_mask :: u32
  sn_max :: u32
  hfn_max :: u32
  security_ctx :: "pdcp_security option"
  pdcp_active :: bool

record pdcp_pdu =
  pdu_sn :: u16
  pdu_data :: "u8 list option"
  mac_i :: u32
  ciphered :: bool
  integrity_protected :: bool

text \<open>The table of the algorithms; entry 0 and everything outside holds no function.\<close>

record crypto_ops =
  op_encrypt :: "u8 list option \<Rightarrow> cipher_params option \<Rightarrow> u8 list option \<Rightarrow> bool \<Rightarrow> uesim_error + u8 list"
  op_decrypt :: "u8 list option \<Rightarrow> cipher_params option \<Rightarrow> u8 list option \<Rightarrow> bool \<Rightarrow> uesim_error + u8 list"
  op_mac :: "u8 list option \<Rightarrow> cipher_params option \<Rightarrow> u8 list option \<Rightarrow> bool \<Rightarrow> uesim_error + u32"

definition g_crypto_ops :: "alg \<Rightarrow> crypto_ops option" where
  "g_crypto_ops a =
     (if a = 1 then Some \<lparr>op_encrypt = snow3g_encrypt, op_decrypt = snow3g_decrypt, op_mac = snow3g_compute_mac\<rparr>
      else if a = 2 then Some \<lparr>op_encrypt = aes_encrypt, op_decrypt = aes_decrypt, op_mac = aes_compute_mac\<rparr>
      else if a = 3 then Some \<lparr>op_encrypt = zuc_encrypt, op_decrypt = zuc_decrypt, op_mac = zuc_compute_mac\<rparr>
      else None)"

section \<open>Counters\<close>

definition pdcp_init_sn_params :: "pdcp_entity \<Rightarrow> pdcp_entity" where
  "pdcp_init_sn_params e = (let
     e' = e\<lparr>tx_hfn := 0, rx_hfn := 0, last_tx_sn := 0, last_rx_sn := 0\<rparr> in
     if sn_length e = 5 then e'\<lparr>sn_mask := 0x1F, sn_max := 32, hfn_max := 0x7FFFFFF\<rparr>
     else if sn_length e = 12 then e'\<lparr>sn_mask := 0xFFF, sn_max := 4096, hfn_max := 0xFFFFF\<rparr>
     else if sn_length e = 18 then e'\<lparr>sn_mask := 0x3FFFF, sn_max := 262144, hfn_max := 0x3FFF\<rparr>
     else e'\<lparr>sn_mask := 0xFFF, sn_max := 4096, hfn_max := 0xFFFFF\<rparr>)"

definition pdcp_get_tx_count :: "pdcp_entity \<Rightarrow> u32" where
  "pdcp_get_tx_count e = (next_pdcp_sn e AND sn_mask e) + (sn_max e * tx_hfn e)"

definition pdcp_get_count :: "pdcp_entity option \<Rightarrow> u32" where
  "pdcp_get_count p = (case p of None \<Rightarrow> 0 | Some e \<Rightarrow> pdcp_get_tx_count e)"

definition pdcp_increment_count :: "pdcp_entity \<Rightarrow> pdcp_entity" where
  "pdcp_increment_count e = e\<lparr>next_pdcp_sn := next_pdcp_sn e + 1\<rparr>"

definition pdcp_detect_sn_wraparound :: "u32 \<Rightarrow> u32 \<Rightarrow> u32 \<Rightarrow> bool" where
  "pdcp_detect_sn_wraparound last_sn new_sn snmax = (let threshold = snmax div 2 in
     last_sn > threshold \<and> new_sn < threshold \<and> last_sn - new_sn > threshold)"

definition pdcp_check_hfn_overflow :: "pdcp_entity \<Rightarrow> bool" where
  "pdcp_check_hfn_overflow e \<longleftrightarrow> tx_hfn e \<ge> hfn_max e \<or> rx_hfn e \<ge> hfn_max e"

definition pdcp_get_rx_count :: "u32 \<Rightarrow> pdcp_entity \<Rightarrow> u32 \<times> pdcp_entity" where
  "pdcp_get_rx_count sn e = (let
     rsn = sn AND sn_mask e;
     e' = (if last_rx_sn e = 0 then e
           else if pdcp_detect_sn_wraparound (last_rx_sn e) rsn (sn_max e) then e\<lparr>rx_hfn := rx_hfn e + 1\<rparr>
           else e)
     in (rsn + (sn_max e' * rx_hfn e'), e'\<lparr>last_rx_sn := rsn\<rparr>))"

section \<open>Life cycle\<close>

text \<open>
  \<open>g\<close> is the global entity counter; \<open>init_ok 0\<close> and \<open>init_ok 1\<close> are the outcomes for the mutex
  and the condition variable. The counter moves on when an initialisation fails.
\<close>

definition pdcp_create_entity ::
  "os \<Rightarrow> bool \<Rightarrow> nat \<Rightarrow> nat \<Rightarrow> u32 \<Rightarrow> (uesim_error + pdcp_entity) \<times> u32" where
  "pdcp_create_entity s ptrs b dir g =
     (if \<not> ptrs then (Inl UESIM_ERROR_INVALID_PARAM, g)
      else if b \<ge> PDCP_BEARER_DRB_MAX then (Inl UESIM_ERROR_INVALID_PARAM, g)
      else if \<not> alloc_ok s 0 then (Inl UESIM_ERROR_MEMORY, g)
      else if \<not> init_ok s 0 \<or> \<not> init_ok s 1 then (Inl UESIM_ERROR_THREAD, g + 1)
      else (Inr (pdcp_init_sn_params
        \<lparr>entity_id = g, bearer_type = b, direction_of = dir,
         sn_length = (if b \<le> PDCP_BEARER_SRB3 then 5 else 12),
         next_pdcp_sn = 0, next_expected_sn = 0, tx_hfn = 0, rx_hfn = 0, last_tx_sn = 0,
         last_rx_sn = 0, sn_mask = 0, sn_max = 0, hfn_max = 0, security_ctx = None,
         pdcp_active = False\<rparr>), g + 1))"

definition pdcp_activate_entity :: "os \<Rightarrow> pdcp_entity option \<Rightarrow> uesim_error \<times> pdcp_entity option" where
  "pdcp_activate_entity s p = with_ptr p (\<lambda>e. locked s e (UESIM_SUCCESS, e\<lparr>pdcp_active := True\<rparr>))"

definition pdcp_deactivate_entity :: "os \<Rightarrow> pdcp_entity option \<Rightarrow> uesim_error \<times> pdcp_entity option" where
  "pdcp_deactivate_entity s p = with_ptr p (\<lambda>e. locked s e (UESIM_SUCCESS, e\<lparr>pdcp_active := False\<rparr>))"

definition pdcp_destroy_entity :: "bool \<Rightarrow> pdcp_entity option \<Rightarrow> uesim_error \<times> pdcp_entity option" where
  "pdcp_destroy_entity ue p = (case p of
     None \<Rightarrow> (UESIM_ERROR_INVALID_PARAM, None)
   | Some e \<Rightarrow> if ue then (UESIM_SUCCESS, None) else (UESIM_ERROR_INVALID_PARAM, Some e))"

definition pdcp_create_security_context ::
  "os \<Rightarrow> alg \<Rightarrow> alg \<Rightarrow> u8 list option \<Rightarrow> u8 list option \<Rightarrow> bool \<Rightarrow> uesim_error + pdcp_security" where
  "pdcp_create_security_context s calg ialg ckey ikey out =
     (if \<not> out then Inl UESIM_ERROR_INVALID_PARAM
      else if calg \<ge> PDCP_ALG_MAX \<or> ialg \<ge> PDCP_ALG_MAX then Inl UESIM_ERROR_INVALID_PARAM
      else if \<not> alloc_ok s 0 then Inl UESIM_ERROR_MEMORY
      else if \<not> init_ok s 0 then Inl UESIM_ERROR_THREAD
      else Inr \<lparr>ciphering_key = (case ckey of None \<Rightarrow> replicate 16 0 | Some k \<Rightarrow> take 16 k),
        integrity_key = (case ikey of None \<Rightarrow> replicate 16 0 | Some k \<Rightarrow> take 16 k),
        ciphering_alg = calg, integrity_alg = ialg, key_refresh_count = 0\<rparr>)"

definition pdcp_update_security_context ::
  "os \<Rightarrow> alg \<Rightarrow> alg \<Rightarrow> pdcp_security option \<Rightarrow> uesim_error \<times> pdcp_security option" where
  "pdcp_update_security_context s calg ialg p = with_ptr p (\<lambda>c.
     if calg \<ge> PDCP_ALG_MAX \<or> ialg \<ge> PDCP_ALG_MAX then (UESIM_ERROR_INVALID_PARAM, c)
     else locked s c (UESIM_SUCCESS, c\<lparr>ciphering_alg := calg, integrity_alg := ialg,
       key_refresh_count := key_refresh_count c + 1\<rparr>))"

section \<open>Ciphering and integrity of one unit\<close>

definition cipher_params_of :: "pdcp_entity \<Rightarrow> cipher_params" where
  "cipher_params_of e = \<lparr>count = pdcp_get_count (Some e), bearer = word_of_nat (bearer_type e),
     direction = word_of_nat (direction_of e)\<rparr>"

definition pdcp_encrypt_pdu :: "os \<Rightarrow> pdcp_entity \<Rightarrow> pdcp_pdu \<Rightarrow> uesim_error \<times> pdcp_pdu" where
  "pdcp_encrypt_pdu s e pdu =
     (case pdu_data pdu of None \<Rightarrow> (UESIM_ERROR_INVALID_PARAM, pdu) | Some d \<Rightarrow>
      case security_ctx e of None \<Rightarrow> (UESIM_SUCCESS, pdu) | Some c \<Rightarrow>
      if ciphering_alg c = 0 then (UESIM_SUCCESS, pdu\<lparr>ciphered := False\<rparr>)
      else case g_crypto_ops (ciphering_alg c) of None \<Rightarrow> (UESIM_ERROR_INVALID_PARAM, pdu) | Some ops \<Rightarrow>
      if \<not> alloc_ok s 0 then (UESIM_ERROR_MEMORY, pdu)
      else case op_encrypt ops (Some (ciphering_key c)) (Some (cipher_params_of e)) (Some d) True of
        Inl r \<Rightarrow> (r, pdu)
      | Inr x \<Rightarrow> (UESIM_SUCCESS, pdu\<lparr>pdu_data := Some x, ciphered := True\<rparr>))"

definition pdcp_decrypt_pdu :: "os \<Rightarrow> pdcp_entity \<Rightarrow> pdcp_pdu \<Rightarrow> uesim_error \<times> pdcp_pdu" where
  "pdcp_decrypt_pdu s e pdu =
     (case pdu_data pdu of None \<Rightarrow> (UESIM_ERROR_INVALID_PARAM, pdu) | Some d \<Rightarrow>
      case security_ctx e of None \<Rightarrow> (UESIM_SUCCESS, pdu) | Some c \<Rightarrow>
      if ciphering_alg c = 0 then (UESIM_SUCCESS, pdu\<lparr>ciphered := False\<rparr>)
      else case g_crypto_ops (ciphering_alg c) of None \<Rightarrow> (UESIM_ERROR_INVALID_PARAM, pdu) | Some ops \<Rightarrow>
      if \<not> alloc_ok s 0 then (UESIM_ERROR_MEMORY, pdu)
      else case op_decrypt ops (Some (ciphering_key c)) (Some (cipher_params_of e)) (Some d) True of
        Inl r \<Rightarrow> (r, pdu)
      | Inr x \<Rightarrow> (UESIM_SUCCESS, pdu\<lparr>pdu_data := Some x, ciphered := False\<rparr>))"

definition pdcp_compute_integrity_protect :: "pdcp_entity \<Rightarrow> pdcp_pdu \<Rightarrow> uesim_error \<times> pdcp_pdu" where
  "pdcp_compute_integrity_protect e pdu =
     (case pdu_data pdu of None \<Rightarrow> (UESIM_ERROR_INVALID_PARAM, pdu) | Some d \<Rightarrow>
      case security_ctx e of None \<Rightarrow> (UESIM_SUCCESS, pdu) | Some c \<Rightarrow>
      if integrity_alg c = 0 then (UESIM_SUCCESS, pdu\<lparr>integrity_protected := False\<rparr>)
      else case g_crypto_ops (integrity_alg c) of None \<Rightarrow> (UESIM_ERROR_INVALID_PARAM, pdu) | Some ops \<Rightarrow>
      case op_mac ops (Some (integrity_key c)) (Some (cipher_params_of e)) (Some d) True of
        Inl r \<Rightarrow> (r, pdu)
      | Inr m \<Rightarrow> (UESIM_SUCCESS, pdu\<lparr>mac_i := m, integrity_protected := True\<rparr>))"

definition pdcp_verify_integrity_protect :: "pdcp_entity \<Rightarrow> pdcp_pdu \<Rightarrow> uesim_error + bool" where
  "pdcp_verify_integrity_protect e pdu =
     (case security_ctx e of None \<Rightarrow> Inr True | Some c \<Rightarrow>
      if integrity_alg c = 0 then Inr True
      else case g_crypto_ops (integrity_alg c) of None \<Rightarrow> Inl UESIM_ERROR_INVALID_PARAM | Some ops \<Rightarrow>
      case op_mac ops (Some (integrity_key c)) (Some (cipher_params_of e)) (pdu_data pdu) True of
        Inl r \<Rightarrow> Inl r
      | Inr m \<Rightarrow> Inr (m = mac_i pdu))"

section \<open>Transmission and reception\<close>

text \<open>The sequence number of a new unit, with the step of the frame number when it wraps.\<close>

definition pdcp_assign_sn :: "pdcp_entity \<Rightarrow> u32 \<times> pdcp_entity" where
  "pdcp_assign_sn e = (let
     current_sn = next_pdcp_sn e AND sn_mask e;
     e1 = e\<lparr>next_pdcp_sn := next_pdcp_sn e + 1\<rparr>;
     e2 = (if current_sn = 0 \<and> last_tx_sn e1 > 0 then e1\<lparr>tx_hfn := tx_hfn e1 + 1\<rparr> else e1)
     in (current_sn, e2\<lparr>last_tx_sn := current_sn\<rparr>))"

definition pdcp_process_tx_data ::
  "os \<Rightarrow> u8 list option \<Rightarrow> bool \<Rightarrow> pdcp_entity option \<Rightarrow> (uesim_error + pdcp_pdu) \<times> pdcp_entity option" where
  "pdcp_process_tx_data s sdu out p = with_obj p (\<lambda>e.
     case sdu of None \<Rightarrow> (Inl UESIM_ERROR_INVALID_PARAM, e) | Some d \<Rightarrow>
     if d = [] \<or> \<not> out then (Inl UESIM_ERROR_INVALID_PARAM, e)
     else if \<not> pdcp_active e then (Inl UESIM_ERROR_INVALID_PARAM, e)
     else if \<not> alloc_ok s 0 \<or> \<not> alloc_ok s 1 then (Inl UESIM_ERROR_MEMORY, e)
     else case pdcp_assign_sn e of (sn, e') \<Rightarrow> (let
       pdu = \<lparr>pdu_sn = ucast sn, pdu_data = Some d, mac_i = 0, ciphered = False, integrity_protected = False\<rparr> in
       if security_ctx e' = None then (Inr pdu, e')
       else case pdcp_compute_integrity_protect e' pdu of (r, pdu1) \<Rightarrow>
         if r \<noteq> UESIM_SUCCESS then (Inl r, e')
         else case pdcp_encrypt_pdu (after_allocs 2 s) e' pdu1 of (r, pdu2) \<Rightarrow>
           if r \<noteq> UESIM_SUCCESS then (Inl r, e') else (Inr pdu2, e')))"

definition pdcp_process_rx_data ::
  "os \<Rightarrow> pdcp_pdu option \<Rightarrow> bool \<Rightarrow> pdcp_entity option \<Rightarrow> (uesim_error + u8 list) \<times> pdcp_entity option" where
  "pdcp_process_rx_data s pdup out p = with_obj p (\<lambda>e.
     case pdup of None \<Rightarrow> (Inl UESIM_ERROR_INVALID_PARAM, e) | Some pdu \<Rightarrow>
     if \<not> out then (Inl UESIM_ERROR_INVALID_PARAM, e)
     else if \<not> pdcp_active e then (Inl UESIM_ERROR_INVALID_PARAM, e)
     else let
       data = (case pdu_data pdu of None \<Rightarrow> [] | Some d \<Rightarrow> d);
       verdict = (if integrity_protected pdu \<and> security_ctx e \<noteq> None
         then pdcp_verify_integrity_protect e pdu else Inr True);
       e' = e\<lparr>next_expected_sn := ucast (pdu_sn pdu) + 1\<rparr>
     in case verdict of Inl r \<Rightarrow> (Inl r, e) | Inr valid \<Rightarrow>
     if \<not> valid then (Inl UESIM_ERROR_PROTOCOL, e)
     else if ciphered pdu \<and> security_ctx e \<noteq> None then
       (if \<not> alloc_ok s 0 then (Inl UESIM_ERROR_MEMORY, e)
        else case pdcp_decrypt_pdu (after_allocs 1 s) e (pdu\<lparr>pdu_data := Some data\<rparr>) of (r, pdu') \<Rightarrow>
          if r \<noteq> UESIM_SUCCESS then (Inl r, e)
          else (Inr (case pdu_data pdu' of None \<Rightarrow> [] | Some d \<Rightarrow> d), e'))
     else if \<not> alloc_ok s 0 then (Inl UESIM_ERROR_MEMORY, e)
     else (Inr data, e'))"

section \<open>Header\<close>

definition pdcp_encode_header :: "pdcp_pdu option \<Rightarrow> bool \<Rightarrow> uesim_error + u8 list" where
  "pdcp_encode_header p out = (case p of None \<Rightarrow> Inl UESIM_ERROR_INVALID_PARAM | Some pdu \<Rightarrow>
     if \<not> out then Inl UESIM_ERROR_INVALID_PARAM
     else let sn = pdu_sn pdu in
       if sn \<le> 0x7F then Inr [ucast (sn AND 0x7F)]
       else if sn \<le> 0xFFF then Inr [0x80 OR ucast (drop_bit 8 sn AND 0x0F), ucast (sn AND 0xFF)]
       else Inr [0xF0 OR ucast (drop_bit 16 sn AND 0x03), ucast (drop_bit 8 sn AND 0xFF), ucast (sn AND 0xFF)])"

definition pdcp_decode_header :: "u8 list option \<Rightarrow> pdcp_pdu option \<Rightarrow> uesim_error \<times> pdcp_pdu option" where
  "pdcp_decode_header header p = with_ptr p (\<lambda>pdu.
     case header of None \<Rightarrow> (UESIM_ERROR_INVALID_PARAM, pdu) | Some h \<Rightarrow>
     if h = [] \<or> length h > 3 then (UESIM_ERROR_INVALID_PARAM, pdu)
     else (UESIM_SUCCESS, pdu\<lparr>pdu_sn :=
       (if length h = 1 then ucast (h ! 0 AND 0x7F)
        else if length h = 2 then push_bit 8 (ucast (h ! 0 AND 0x0F)) OR ucast (h ! 1)
        else ucast (push_bit 16 (ucast (h ! 0 AND 0x03) :: u32) OR push_bit 8 (ucast (h ! 1)) OR ucast (h ! 2)))\<rparr>))"

section \<open>Key refresh\<close>

definition pdcp_trigger_key_refresh :: "os \<Rightarrow> pdcp_entity option \<Rightarrow> uesim_error \<times> pdcp_entity option" where
  "pdcp_trigger_key_refresh s p = with_ptr p (\<lambda>e. locked s e (UESIM_ERROR_KEY_REFRESH_REQUIRED, e))"

text \<open>\<open>lock_ok 0\<close> is the entity's mutex, \<open>lock_ok 1\<close> the security context's.\<close>

definition pdcp_perform_key_refresh ::
  "os \<Rightarrow> u8 list option \<Rightarrow> u8 list option \<Rightarrow> pdcp_entity option \<Rightarrow> uesim_error \<times> pdcp_entity option" where
  "pdcp_perform_key_refresh s ckey ikey p = with_ptr p (\<lambda>e.
     case (ckey, ikey, security_ctx e) of
       (Some ck, Some ik, Some c) \<Rightarrow>
         if \<not> lock_ok s 0 \<or> \<not> lock_ok s 1 then (UESIM_ERROR_THREAD, e)
         else (UESIM_SUCCESS, e\<lparr>
           security_ctx := Some (c\<lparr>ciphering_key := take 16 ck, integrity_key := take 16 ik,
             key_refresh_count := key_refresh_count c + 1\<rparr>),
           tx_hfn := 0, rx_hfn := 0, last_tx_sn := 0, last_rx_sn := 0,
           next_pdcp_sn := 0, next_expected_sn := 0\<rparr>)
     | _ \<Rightarrow> (UESIM_ERROR_INVALID_PARAM, e))"

text \<open>\<^verbatim>\<open>(b << 1) | (b >> 7)\<close>\<close>

definition rol1 :: "u8 \<Rightarrow> u8" where
  "rol1 b = push_bit 1 b OR drop_bit 7 b"

definition kdf_input :: "u8 \<Rightarrow> alg \<Rightarrow> u8 list" where
  "kdf_input ty a = [0x69, ty, 0, 1, word_of_nat a, 0, 1]"

definition kdf_byte :: "u8 list \<Rightarrow> u8 \<Rightarrow> u8" where
  "kdf_byte input k = fold (\<lambda>x b. rol1 (b XOR x)) input k"

definition pdcp_derive_refreshed_keys ::
  "u8 list option \<Rightarrow> bool \<Rightarrow> pdcp_entity option \<Rightarrow> uesim_error + u8 list \<times> u8 list" where
  "pdcp_derive_refreshed_keys kamf outs p = (case (p, kamf) of
     (Some e, Some k) \<Rightarrow>
       if \<not> outs then Inl UESIM_ERROR_INVALID_PARAM
       else (case security_ctx e of None \<Rightarrow> Inl UESIM_ERROR_INVALID_PARAM | Some c \<Rightarrow>
         let srb = bearer_type e \<le> PDCP_BEARER_SRB3;
           enc_type = (if srb then 0x01 else 0x03); int_type = (if srb then 0x02 else 0x04);
           ea = ciphering_alg c; ia = integrity_alg c
         in Inr (map (\<lambda>i. kdf_byte (kdf_input enc_type ea) (k ! i XOR k ! (i + 16))
                   XOR word_of_nat (0x69 + ea mod 256 + i)) [0..<16],
                 map (\<lambda>i. kdf_byte (kdf_input int_type ia) (k ! i XOR k ! ((i + 8) mod 32))
                   XOR word_of_nat (0x69 + ia mod 256 + i)) [0..<16]))
   | _ \<Rightarrow> Inl UESIM_ERROR_INVALID_PARAM)"

end
