(* ===== verification/Pdcp_Proofs.thy ===== *)
theory Pdcp_Proofs
  imports Pdcp
begin

text \<open>
  The properties of the packet data convergence protocol: what the receiver makes of a
  transmitted unit, the header codec, the uniqueness of the COUNT values of the transmitter and
  the reconstruction of COUNT by the receiver.
\<close>

section \<open>The algorithms as ciphers\<close>

definition nea :: "alg \<Rightarrow> u8 list \<Rightarrow> cipher_params \<Rightarrow> u8 list \<Rightarrow> u8 list" where
  "nea a = (if a = 1 then snow3g_stream else if a = 2 then aes_stream
     else if a = 3 then zuc_stream else (\<lambda>k p m. m))"

definition nia :: "alg \<Rightarrow> u8 list \<Rightarrow> cipher_params \<Rightarrow> u8 list \<Rightarrow> u32" where
  "nia a = (if a = 1 then snow3g_mac else if a = 2 then aes_mac else zuc_mac)"

interpretation nea: stream_cipher "nea a" "nea a"
  by unfold_locales
    (simp_all add: nea_def snow.enc_enc aes.enc_enc zuc.enc_enc snow.enc_length aes.enc_length zuc.enc_length)

lemma g_crypto_ops_cases:
  assumes "0 < a" and "a < PDCP_ALG_MAX"
  obtains ops where "g_crypto_ops a = Some ops"
    "\<And>k p m. op_encrypt ops (Some k) (Some p) (Some m) True = Inr (nea a k p m)"
    "\<And>k p m. op_decrypt ops (Some k) (Some p) (Some m) True = Inr (nea a k p m)"
    "\<And>k p m. op_mac ops (Some k) (Some p) (Some m) True = Inr (nia a k p m)"
proof -
  have "a = 1 \<or> a = 2 \<or> a = 3" using assms by (auto simp: PDCP_ALG_MAX_def)
  then show ?thesis
    by (elim disjE; intro that)
      (auto simp: g_crypto_ops_def nea_def nia_def snow3g_encrypt_def snow3g_decrypt_def
        snow3g_compute_mac_def aes_encrypt_def aes_decrypt_def aes_compute_mac_def zuc_encrypt_def
        zuc_decrypt_def zuc_compute_mac_def)
qed

section \<open>The protected unit\<close>

definition sec_wf :: "pdcp_security \<Rightarrow> bool" where
  "sec_wf c \<longleftrightarrow> ciphering_alg c < PDCP_ALG_MAX \<and> integrity_alg c < PDCP_ALG_MAX"

lemma integrity_result:
  assumes "security_ctx e = Some c" and "sec_wf c" and "pdu_data pdu = Some d"
  shows "pdcp_compute_integrity_protect e pdu = (UESIM_SUCCESS,
    if integrity_alg c = 0 then pdu\<lparr>integrity_protected := False\<rparr>
    else pdu\<lparr>mac_i := nia (integrity_alg c) (integrity_key c) (cipher_params_of e) d, integrity_protected := True\<rparr>)"
proof (cases "integrity_alg c = 0")
  case False
  obtain ops where "g_crypto_ops (integrity_alg c) = Some ops"
    "\<And>k p m. op_mac ops (Some k) (Some p) (Some m) True = Inr (nia (integrity_alg c) k p m)"
    using g_crypto_ops_cases [of "integrity_alg c"] False assms(2) unfolding sec_wf_def by (metis neq0_conv)
  with False assms show ?thesis by (simp add: pdcp_compute_integrity_protect_def)
qed (simp add: pdcp_compute_integrity_protect_def assms)

lemma encrypt_result:
  assumes "security_ctx e = Some c" and "sec_wf c" and "pdu_data pdu = Some d" and "alloc_ok s 0"
  shows "pdcp_encrypt_pdu s e pdu = (UESIM_SUCCESS,
    pdu\<lparr>pdu_data := Some (nea (ciphering_alg c) (ciphering_key c) (cipher_params_of e) d),
        ciphered := ciphering_alg c \<noteq> 0\<rparr>)"
proof (cases "ciphering_alg c = 0")
  case False
  obtain ops where "g_crypto_ops (ciphering_alg c) = Some ops"
    "\<And>k p m. op_encrypt ops (Some k) (Some p) (Some m) True = Inr (nea (ciphering_alg c) k p m)"
    using g_crypto_ops_cases [of "ciphering_alg c"] False assms(2) unfolding sec_wf_def by (metis neq0_conv)
  with False assms show ?thesis by (simp add: pdcp_encrypt_pdu_def)
qed (simp add: pdcp_encrypt_pdu_def assms nea_def)

lemma decrypt_result:
  assumes "security_ctx e = Some c" and "sec_wf c" and "pdu_data pdu = Some d" and "alloc_ok s 0"
  shows "pdcp_decrypt_pdu s e pdu = (UESIM_SUCCESS,
    pdu\<lparr>pdu_data := Some (nea (ciphering_alg c) (ciphering_key c) (cipher_params_of e) d), ciphered := False\<rparr>)"
proof (cases "ciphering_alg c = 0")
  case False
  obtain ops where "g_crypto_ops (ciphering_alg c) = Some ops"
    "\<And>k p m. op_decrypt ops (Some k) (Some p) (Some m) True = Inr (nea (ciphering_alg c) k p m)"
    using g_crypto_ops_cases [of "ciphering_alg c"] False assms(2) unfolding sec_wf_def by (metis neq0_conv)
  with False assms show ?thesis by (simp add: pdcp_decrypt_pdu_def)
qed (simp add: pdcp_decrypt_pdu_def assms nea_def)

lemma verify_result:
  assumes "security_ctx e = Some c" and "sec_wf c" and "pdu_data pdu = Some d"
  shows "pdcp_verify_integrity_protect e pdu =
    Inr (integrity_alg c = 0 \<or> nia (integrity_alg c) (integrity_key c) (cipher_params_of e) d = mac_i pdu)"
proof (cases "integrity_alg c = 0")
  case False
  obtain ops where "g_crypto_ops (integrity_alg c) = Some ops"
    "\<And>k p m. op_mac ops (Some k) (Some p) (Some m) True = Inr (nia (integrity_alg c) k p m)"
    using g_crypto_ops_cases [of "integrity_alg c"] False assms(2) unfolding sec_wf_def by (metis neq0_conv)
  with False assms show ?thesis by (simp add: pdcp_verify_integrity_protect_def)
qed (simp add: pdcp_verify_integrity_protect_def assms)

lemma assign_sn_security [simp]: "security_ctx (snd (pdcp_assign_sn e)) = security_ctx e"
  by (simp add: pdcp_assign_sn_def Let_def)

definition protected_pdu :: "pdcp_security \<Rightarrow> cipher_params \<Rightarrow> u32 \<Rightarrow> u8 list \<Rightarrow> pdcp_pdu" where
  "protected_pdu c q sn d = \<lparr>pdu_sn = ucast sn,
     pdu_data = Some (nea (ciphering_alg c) (ciphering_key c) q d),
     mac_i = (if integrity_alg c = 0 then 0 else nia (integrity_alg c) (integrity_key c) q d),
     ciphered = ciphering_alg c \<noteq> 0, integrity_protected = integrity_alg c \<noteq> 0\<rparr>"

lemma tx_result:
  assumes "pdcp_active e" and "d \<noteq> []" and "alloc_ok s 0" and "alloc_ok s 1" and "alloc_ok s 2"
    and "security_ctx e = Some c" and "sec_wf c"
  shows "pdcp_process_tx_data s (Some d) True (Some e) =
    (Inr (protected_pdu c (cipher_params_of (snd (pdcp_assign_sn e))) (fst (pdcp_assign_sn e)) d),
     Some (snd (pdcp_assign_sn e)))"
proof -
  obtain sn e' where a: "pdcp_assign_sn e = (sn, e')" by fastforce
  have sec: "security_ctx e' = Some c" using assign_sn_security [of e] by (simp add: a assms)
  show ?thesis
    using assms by (simp add: pdcp_process_tx_data_def a sec Let_def integrity_result [OF sec \<open>sec_wf c\<close>]
        encrypt_result [OF sec \<open>sec_wf c\<close>] protected_pdu_def numeral_2_eq_2)
qed

lemma rx_result:
  assumes "pdcp_active r" and "alloc_ok s 0" and "alloc_ok s 1"
    and "security_ctx r = Some c" and "sec_wf c"
  shows "fst (pdcp_process_rx_data s (Some (protected_pdu c (cipher_params_of r) sn d)) True (Some r)) =
    (if integrity_alg c = 0 \<or> nia (integrity_alg c) (integrity_key c) (cipher_params_of r)
          (nea (ciphering_alg c) (ciphering_key c) (cipher_params_of r) d) =
        nia (integrity_alg c) (integrity_key c) (cipher_params_of r) d
     then Inr d else Inl UESIM_ERROR_PROTOCOL)"
  using assms
  by (simp add: pdcp_process_rx_data_def protected_pdu_def verify_result [OF assms(4,5)]
      decrypt_result [OF assms(4,5)] Let_def nea.enc_enc)
    (auto simp: nea_def)

lemma tx_success_cases:
  assumes "pdcp_process_tx_data s (Some d) True (Some e) = (Inr pdu, Some e')"
    and "security_ctx e = Some c" and "sec_wf c"
  shows "pdu = protected_pdu c (cipher_params_of e') (fst (pdcp_assign_sn e)) d"
    and "e' = snd (pdcp_assign_sn e)"
proof -
  obtain sn e1 where a: "pdcp_assign_sn e = (sn, e1)" by fastforce
  have sec: "security_ctx e1 = Some c" using assign_sn_security [of e] by (simp add: a assms)
  have pre: "pdcp_active e" "d \<noteq> []" "alloc_ok s 0" "alloc_ok s 1"
    using assms(1) by (auto simp: pdcp_process_tx_data_def split: if_splits)
  have e1: "e' = e1"
    using assms(1) pre by (auto simp: pdcp_process_tx_data_def a sec Let_def split: if_splits prod.splits)
  then show "e' = snd (pdcp_assign_sn e)" by (simp add: a)
  show "pdu = protected_pdu c (cipher_params_of e') (fst (pdcp_assign_sn e)) d"
  proof (cases "ciphering_alg c = 0")
    case True
    with assms pre show ?thesis
      by (auto simp: pdcp_process_tx_data_def a sec e1 Let_def integrity_result [OF sec assms(3)]
          pdcp_encrypt_pdu_def protected_pdu_def nea_def split: if_splits)
  next
    case False
    then have "alloc_ok s 2"
      using assms(1,3) pre
      by (auto simp: pdcp_process_tx_data_def a sec Let_def integrity_result [OF sec assms(3)]
          pdcp_encrypt_pdu_def numeral_2_eq_2 split: if_splits option.splits prod.splits)
    from tx_result [OF pre this assms(2,3)] assms(1) a e1 show ?thesis by simp
  qed
qed

section \<open>Four-byte messages under NEA1 and NIA1\<close>

lemma byte_plus: "(ucast (a :: u8) :: u32) + 256 * x = ucast a XOR push_bit 8 x"
proof -
  have "(ucast a :: u32) AND push_bit 8 x = 0"
    by (rule bit_word_eqI) (auto simp: bit_and_iff bit_push_bit_iff bit_ucast_iff dest: bit_imp_le_length)
  then have "(ucast a :: u32) + push_bit 8 x = ucast a XOR push_bit 8 x"
    by (simp add: disjunctive_add_eq_xor)
  then show ?thesis by (simp add: push_bit_eq_mult mult.commute)
qed

lemma bytes_word_xor:
  "length xs = length ys \<Longrightarrow> bytes_word (map2 (XOR) xs ys) = bytes_word xs XOR bytes_word ys"
proof (induction xs ys rule: list_induct2)
  case (Cons x xs y ys)
  have u: "(ucast (x XOR y) :: u32) = ucast x XOR ucast y"
    by (rule bit_word_eqI) (simp add: bit_xor_iff bit_ucast_iff)
  show ?case
    using Cons by (simp add: byte_plus push_bit_xor) (simp add: u xor.assoc xor.commute xor.left_commute)
qed simp

lemma bytes_word_word_bytes: "bytes_word (word_bytes w) = w"
proof (rule bit_word_eqI)
  fix n assume "n < LENGTH(32)"
  then have n: "n < 32" by simp
  have bits: "bit (ucast (drop_bit k w :: u32) :: u8) m \<longleftrightarrow> m < 8 \<and> bit w (k + m)" for k m
    by (auto simp: bit_ucast_iff bit_drop_bit_eq)
  show "bit (bytes_word (word_bytes w)) n = bit w n"
    using n bits [of 0]
    by (simp add: word_bytes_def byte_plus bit_xor_iff bit_push_bit_iff bit_ucast_iff bit_drop_bit_eq)
      (auto simp: not_le)
qed

lemma checksum_four: "length d = 4 \<Longrightarrow> checksum d = bytes_word d"
  by (subst checksum.simps) auto

lemma snow3g_four_bytes:
  assumes "length d = 4"
  shows "nia 1 ik q (nea 1 ck q d) = nia 1 ik q d \<longleftrightarrow>
    fst (snow3g_generate_keystream (snow3g_init_context ck q)) = 0"
proof -
  obtain w st where g: "snow3g_generate_keystream (snow3g_init_context ck q) = (w, st)" by fastforce
  have c: "nea 1 ck q d = map2 (XOR) d (word_bytes w)"
  proof -
    have "d \<noteq> []" using assms by auto
    from xor_stream_step [OF this, of 4 "word_gen snow3g_generate_keystream"] assms show ?thesis
      by (simp add: nea_def snow3g_stream_def word_gen_def g)
  qed
  then have "bytes_word (nea 1 ck q d) = bytes_word d XOR w"
    using assms by (simp add: bytes_word_xor bytes_word_word_bytes)
  show ?thesis
  proof -
    have "nia 1 ik q m = checksum m XOR key_sum snow3g_generate_keystream (snow3g_init_context ik q) ((length m + 3) div 4)" for m
      by (simp add: nia_def snow3g_mac_def mac_stream_checksum)
    then have "nia 1 ik q (nea 1 ck q d) = nia 1 ik q d \<longleftrightarrow> checksum (nea 1 ck q d) = checksum d"
      by (simp add: nea.enc_length) (metis xor_cancel_right)
    also have "\<dots> \<longleftrightarrow> bytes_word d XOR w = bytes_word d"
      using assms \<open>bytes_word (nea 1 ck q d) = bytes_word d XOR w\<close> by (simp add: checksum_four nea.enc_length)
    finally show ?thesis by (simp add: xor_eq_self_iff g)
  qed
qed

section \<open>Counters of the transmitter\<close>

text \<open>
  \<open>tx_at b k e\<close>: entity \<open>e\<close> with a sequence number of \<open>b\<close> bits has sent \<open>k\<close> units since its
  counters were zero.
\<close>

definition tx_at :: "nat \<Rightarrow> nat \<Rightarrow> pdcp_entity \<Rightarrow> bool" where
  "tx_at b k e \<longleftrightarrow> 0 < b \<and> b < 32 \<and> sn_mask e = mask b \<and> sn_max e = 2 ^ b \<and>
     next_pdcp_sn e = word_of_nat k \<and> tx_hfn e = word_of_nat ((k - 1) div 2 ^ b) \<and>
     last_tx_sn e = word_of_nat ((k - 1) mod 2 ^ b)"

lemma word_of_nat_mask: "(word_of_nat k :: u32) AND mask b = word_of_nat (k mod 2 ^ b)"
  by (simp flip: take_bit_eq_mask take_bit_eq_mod add: take_bit_of_nat)

lemma word_of_nat_eq_0: "n < 2 ^ b \<Longrightarrow> b < 32 \<Longrightarrow> (word_of_nat n :: u32) = 0 \<longleftrightarrow> n = 0"
proof -
  assume "n < 2 ^ b" and "b < 32"
  then have "n < 2 ^ 32" by (meson less_trans power_strict_increasing_iff one_less_numeral_iff semiring_norm(76))
  then show ?thesis by (auto simp: word_of_nat_eq_0_iff dest: dvd_imp_le)
qed

lemma assign_sn_step:
  assumes "tx_at b k e"
  shows "tx_at b (Suc k) (snd (pdcp_assign_sn e))"
    and "fst (pdcp_assign_sn e) = word_of_nat (k mod 2 ^ b)"
    and "pdcp_get_tx_count (snd (pdcp_assign_sn e)) = word_of_nat (2 ^ b * (k div 2 ^ b) + Suc k mod 2 ^ b)"
proof -
  let ?N = "2 ^ b :: nat"
  have b: "0 < b" "b < 32" using assms by (simp_all add: tx_at_def)
  have N: "1 < ?N" by (rule one_less_power) (use b in simp_all)
  have cur: "next_pdcp_sn e AND sn_mask e = word_of_nat (k mod ?N)"
    using assms by (simp add: tx_at_def word_of_nat_mask)
  then show "fst (pdcp_assign_sn e) = word_of_nat (k mod 2 ^ b)"
    by (simp add: pdcp_assign_sn_def Let_def)
  have z: "next_pdcp_sn e AND sn_mask e = 0 \<longleftrightarrow> k mod ?N = 0"
    unfolding cur by (rule word_of_nat_eq_0 [OF _ b(2)]) simp
  have l: "last_tx_sn e > 0 \<longleftrightarrow> (k - 1) mod ?N \<noteq> 0"
  proof -
    have "(word_of_nat ((k - 1) mod ?N) :: u32) = 0 \<longleftrightarrow> (k - 1) mod ?N = 0"
      by (rule word_of_nat_eq_0 [OF _ b(2)]) simp
    then show ?thesis using assms by (simp add: tx_at_def word_greater_zero_iff)
  qed
  have h: "tx_hfn e = word_of_nat ((k - 1) div ?N)" using assms by (simp add: tx_at_def)
  have hfn: "tx_hfn (snd (pdcp_assign_sn e)) = word_of_nat (k div ?N)"
  proof (cases "k mod ?N = 0 \<and> 0 < k")
    case True
    then have "(k - 1) mod ?N \<noteq> 0" and "k div ?N = Suc ((k - 1) div ?N)"
      using N by (cases k; simp add: mod_Suc div_Suc split: if_splits)+
    with True show ?thesis by (simp add: pdcp_assign_sn_def Let_def z l h)
  next
    case False
    then have "k div ?N = (k - 1) div ?N" by (cases k) (auto simp: div_Suc)
    moreover have "\<not> (k mod ?N = 0 \<and> (k - 1) mod ?N \<noteq> 0)" using False by (cases k) auto
    ultimately show ?thesis by (simp add: pdcp_assign_sn_def Let_def z l h)
  qed
  then show at: "tx_at b (Suc k) (snd (pdcp_assign_sn e))"
    using assms cur by (simp add: tx_at_def) (simp add: pdcp_assign_sn_def Let_def)
  show "pdcp_get_tx_count (snd (pdcp_assign_sn e)) = word_of_nat (2 ^ b * (k div 2 ^ b) + Suc k mod 2 ^ b)"
    using at hfn by (simp add: pdcp_get_tx_count_def tx_at_def word_of_nat_mask del: of_nat_Suc)
qed

lemma created_tx_at:
  assumes "pdcp_create_entity s True b dir g = (Inr e, g')"
  shows "tx_at (sn_length e) 0 e" and "sn_length e = (if b \<le> PDCP_BEARER_SRB3 then 5 else 12)"
  using assms by (auto simp: pdcp_create_entity_def pdcp_init_sn_params_def Let_def tx_at_def mask_eq_exp_minus_1
      split: if_splits)

text \<open>
  A run of transmissions and the COUNT under which each unit is protected, whether or not the
  transmission succeeds.
\<close>

fun pdcp_tx_run :: "os \<Rightarrow> u8 list list \<Rightarrow> pdcp_entity \<Rightarrow> u32 list" where
  "pdcp_tx_run s [] e = []"
| "pdcp_tx_run s (d # ds) e = (case pdcp_process_tx_data s (Some d) True (Some e) of
      (_, Some e') \<Rightarrow> pdcp_get_count (Some e') # pdcp_tx_run s ds e'
    | (_, None) \<Rightarrow> [])"

lemma tx_state:
  assumes "pdcp_active e" and "d \<noteq> []" and "alloc_ok s 0" and "alloc_ok s 1"
  shows "\<exists>r. pdcp_process_tx_data s (Some d) True (Some e) = (r, Some (snd (pdcp_assign_sn e)))"
  using assms by (auto simp: pdcp_process_tx_data_def Let_def split: prod.splits)

lemma assign_sn_active [simp]: "pdcp_active (snd (pdcp_assign_sn e)) = pdcp_active e"
  by (simp add: pdcp_assign_sn_def Let_def)

definition tx_count_nat :: "nat \<Rightarrow> nat \<Rightarrow> nat" where
  "tx_count_nat b k = 2 ^ b * (k div 2 ^ b) + Suc k mod 2 ^ b"

lemma tx_run_counts:
  assumes "tx_at b k e" and "pdcp_active e" and "[] \<notin> set ds" and "alloc_ok s 0" and "alloc_ok s 1"
  shows "pdcp_tx_run s ds e = map (\<lambda>i. word_of_nat (tx_count_nat b i)) [k..<k + length ds]"
  using assms
proof (induction ds arbitrary: k e)
  case (Cons d ds)
  note step = assign_sn_step [OF Cons.prems(1)]
  obtain r where r: "pdcp_process_tx_data s (Some d) True (Some e) = (r, Some (snd (pdcp_assign_sn e)))"
    using tx_state [of e d s] Cons.prems by auto
  have "pdcp_tx_run s ds (snd (pdcp_assign_sn e)) =
      map (\<lambda>i. word_of_nat (tx_count_nat b i)) [Suc k..<Suc k + length ds]"
    by (rule Cons.IH [OF step(1)]) (use Cons.prems in simp_all)
  with step(3) show ?case
    by (simp add: r pdcp_get_count_def tx_count_nat_def upt_conv_Cons del: upt_Suc)
qed simp

lemma tx_count_nat_inject: "tx_count_nat b i = tx_count_nat b j \<Longrightarrow> i = j"
proof -
  let ?N = "2 ^ b :: nat"
  assume eq: "tx_count_nat b i = tx_count_nat b j"
  have d: "tx_count_nat b k div ?N = k div ?N" "tx_count_nat b k mod ?N = Suc k mod ?N" for k
    by (simp_all add: tx_count_nat_def)
  have "i div ?N = j div ?N" using arg_cong [OF eq, of "\<lambda>n. n div ?N"] by (simp only: d)
  moreover have "Suc i mod ?N = Suc j mod ?N" using arg_cong [OF eq, of "\<lambda>n. n mod ?N"] by (simp only: d)
  then have "i mod ?N = j mod ?N" by (auto simp: mod_Suc split: if_splits)
  ultimately show "i = j" by (metis div_mult_mod_eq)
qed

lemma tx_count_nat_less:
  assumes "b \<le> 32" and "i < 2 ^ 32"
  shows "tx_count_nat b i < 2 ^ 32"
proof -
  let ?N = "2 ^ b :: nat"
  have M: "2 ^ 32 = ?N * 2 ^ (32 - b)" using assms(1) by (simp flip: power_add)
  have "i div ?N < 2 ^ (32 - b)" using assms(2) unfolding M by (simp add: less_mult_imp_div_less mult.commute)
  then have "?N * (i div ?N + 1) \<le> ?N * 2 ^ (32 - b)" by (intro mult_le_mono2) simp
  moreover have "tx_count_nat b i < ?N * (i div ?N + 1)" by (simp add: tx_count_nat_def)
  ultimately show ?thesis unfolding M by simp
qed

section \<open>Counters of the receiver\<close>

text \<open>\<open>rx_at b c e\<close>: the last unit that entity \<open>e\<close> has received had the COUNT \<open>c\<close>.\<close>

definition rx_at :: "nat \<Rightarrow> nat \<Rightarrow> pdcp_entity \<Rightarrow> bool" where
  "rx_at b c e \<longleftrightarrow> 0 < b \<and> b < 32 \<and> sn_mask e = mask b \<and> sn_max e = 2 ^ b \<and>
     rx_hfn e = word_of_nat (c div 2 ^ b) \<and> last_rx_sn e = word_of_nat (c mod 2 ^ b)"

lemma unat_word_of_nat: "n < 2 ^ 32 \<Longrightarrow> unat (word_of_nat n :: u32) = n"
  by (simp add: unsigned_of_nat take_bit_nat_eq_self)

lemma unat_word_of_nat_less: "n < 2 ^ b \<Longrightarrow> b < 32 \<Longrightarrow> unat (word_of_nat n :: u32) = n"
  by (rule unat_word_of_nat) (meson less_trans power_strict_increasing_iff one_less_numeral_iff semiring_norm(76))

lemma detect_wraparound_nat:
  assumes "l < 2 ^ b" and "n < 2 ^ b" and "0 < b" and "b < 32"
  shows "pdcp_detect_sn_wraparound (word_of_nat l) (word_of_nat n) (2 ^ b) \<longleftrightarrow>
    2 ^ (b - 1) < l \<and> n < 2 ^ (b - 1) \<and> 2 ^ (b - 1) < l - n"
proof -
  have th: "unat ((2 ^ b :: u32) div 2) = 2 ^ (b - 1)"
  proof -
    have "(2 ^ b :: nat) < 2 ^ 32" by (rule power_strict_increasing [OF assms(4)]) simp
    from unat_word_of_nat [OF this] have "unat (2 ^ b :: u32) = 2 ^ b" by simp
    then have "unat ((2 ^ b :: u32) div 2) = 2 ^ b div 2" by (simp add: unat_div)
    then show ?thesis using assms(3) by (cases b) simp_all
  qed
  note u = unat_word_of_nat_less [OF assms(1,4)] unat_word_of_nat_less [OF assms(2,4)]
  show ?thesis
  proof (cases "n \<le> l")
    case True
    then have "unat ((word_of_nat l :: u32) - word_of_nat n) = l - n"
      using u by (simp add: unat_sub word_le_nat_alt)
    then show ?thesis by (simp add: pdcp_detect_sn_wraparound_def Let_def word_less_nat_alt th u)
  next
    case False
    then show ?thesis by (auto simp: pdcp_detect_sn_wraparound_def Let_def word_less_nat_alt th u)
  qed
qed

lemma rx_count_step:
  assumes at: "rx_at b c e" and gap: "c < c'" "c' < c + 2 ^ (b - 1)"
  shows "\<exists>e'. pdcp_get_rx_count (word_of_nat (c' mod 2 ^ b)) e = (word_of_nat c', e') \<and> rx_at b c' e'"
proof -
  let ?N = "2 ^ b :: nat" and ?H = "2 ^ (b - 1) :: nat"
  let ?l = "c mod ?N" and ?n = "c' mod ?N"
  have b: "0 < b" "b < 32" using at by (simp_all add: rx_at_def)
  then have N: "?N = 2 * ?H" by (cases b) simp_all
  have pos: "0 < ?H" "0 < ?N" by simp_all
  have c: "c = c div ?N * ?N + ?l" "?l < ?N" by (simp_all only: div_mult_mod_eq) simp
  have qr: "x div ?N = q \<and> x mod ?N = r" if "x = r + q * ?N" and "r < ?N" for x q r
    using that pos by simp
  have wrap: "(?l \<noteq> 0 \<and> ?H < ?l \<and> ?n < ?H \<and> ?H < ?l - ?n \<longrightarrow> c' div ?N = Suc (c div ?N)) \<and>
      (\<not> (?l \<noteq> 0 \<and> ?H < ?l \<and> ?n < ?H \<and> ?H < ?l - ?n) \<longrightarrow> c' div ?N = c div ?N)"
  proof (cases "?l + (c' - c) < ?N")
    case True
    have "c' = (?l + (c' - c)) + c div ?N * ?N" using gap(1) c(1) by linarith
    with qr [OF this True] show ?thesis using True by auto
  next
    case False
    have "c' = (?l + (c' - c) - ?N) + Suc (c div ?N) * ?N" using gap(1) c(1) False by simp
    moreover have small: "?l + (c' - c) - ?N < ?H" using gap c(2) N by linarith
    moreover have "?l + (c' - c) - ?N < ?N" using small N by linarith
    ultimately have q: "c' div ?N = Suc (c div ?N)" and n: "?n = ?l + (c' - c) - ?N" using qr by blast+
    have "?H < ?l" using False gap N by linarith
    moreover have "?n < ?H" unfolding n by (rule small)
    moreover have "?H < ?l - ?n" unfolding n using False gap N by linarith
    ultimately show ?thesis by (simp add: q)
  qed
  have msk: "(word_of_nat ?n :: u32) AND mask b = word_of_nat ?n" by (simp add: word_of_nat_mask)
  have l0: "last_rx_sn e = 0 \<longleftrightarrow> ?l = 0"
    using at word_of_nat_eq_0 [OF _ b(2), of ?l] by (simp add: rx_at_def)
  have det: "pdcp_detect_sn_wraparound (last_rx_sn e) (word_of_nat ?n) (sn_max e) \<longleftrightarrow>
      ?H < ?l \<and> ?n < ?H \<and> ?H < ?l - ?n"
    using at detect_wraparound_nat [OF _ _ b, of ?l ?n] by (simp add: rx_at_def)
  define e1 where "e1 = (if last_rx_sn e = 0 then e
      else if pdcp_detect_sn_wraparound (last_rx_sn e) (word_of_nat ?n) (sn_max e) then e\<lparr>rx_hfn := rx_hfn e + 1\<rparr>
      else e)"
  have hfn: "rx_hfn e1 = word_of_nat (c' div ?N)" and fields: "sn_mask e1 = mask b" "sn_max e1 = 2 ^ b"
    using wrap at unfolding e1_def l0 det by (auto simp: rx_at_def)
  have "pdcp_get_rx_count (word_of_nat ?n) e =
      (word_of_nat ?n + (sn_max e1 * rx_hfn e1), e1\<lparr>last_rx_sn := word_of_nat ?n\<rparr>)"
    using at by (simp add: pdcp_get_rx_count_def Let_def rx_at_def msk e1_def)
  moreover have "word_of_nat ?n + (sn_max e1 * rx_hfn e1) = (word_of_nat (?n + ?N * (c' div ?N)) :: u32)"
    unfolding hfn fields by (simp only: of_nat_add of_nat_mult of_nat_power of_nat_numeral)
  moreover have "?n + ?N * (c' div ?N) = c'" by simp
  ultimately have "pdcp_get_rx_count (word_of_nat ?n) e = (word_of_nat c', e1\<lparr>last_rx_sn := word_of_nat ?n\<rparr>)"
    by (simp only:)
  moreover have "rx_at b c' (e1\<lparr>last_rx_sn := word_of_nat ?n\<rparr>)"
    using b hfn fields by (simp add: rx_at_def)
  ultimately show ?thesis by blast
qed

fun rx_counts :: "pdcp_entity \<Rightarrow> u32 list \<Rightarrow> u32 list" where
  "rx_counts e [] = []"
| "rx_counts e (sn # sns) = (case pdcp_get_rx_count sn e of (c, e') \<Rightarrow> c # rx_counts e' sns)"

lemma rx_counts_correct:
  assumes "rx_at b c e" and "\<forall>i < length cs. (c # cs) ! i < cs ! i \<and> cs ! i < (c # cs) ! i + 2 ^ (b - 1)"
  shows "rx_counts e (map (\<lambda>c. word_of_nat (c mod 2 ^ b)) cs) = map word_of_nat cs"
  using assms
proof (induction cs arbitrary: c e)
  case (Cons x xs)
  have x: "c < x" "x < c + 2 ^ (b - 1)" using Cons.prems(2) by fastforce+
  obtain e' where e': "pdcp_get_rx_count (word_of_nat (x mod 2 ^ b)) e = (word_of_nat x, e')" "rx_at b x e'"
    using rx_count_step [OF Cons.prems(1) x] by blast
  have "\<forall>i < length xs. (x # xs) ! i < xs ! i \<and> xs ! i < (x # xs) ! i + 2 ^ (b - 1)"
    using Cons.prems(2) by (metis Suc_less_eq length_Cons nth_Cons_Suc)
  from Cons.IH [OF e'(2) this] show ?case by (simp add: e'(1))
qed simp

lemma fresh_rx_at: "tx_at b 0 e \<Longrightarrow> rx_hfn e = 0 \<Longrightarrow> last_rx_sn e = 0 \<Longrightarrow> rx_at b 0 e"
  by (simp add: tx_at_def rx_at_def)

lemma created_rx_at:
  assumes "pdcp_create_entity s True b dir g = (Inr e, g')"
  shows "rx_at (sn_length e) 0 e"
  using assms by (intro fresh_rx_at [OF created_tx_at(1) [OF assms]])
    (auto simp: pdcp_create_entity_def pdcp_init_sn_params_def Let_def split: if_splits)

section \<open>Key derivation\<close>

lemma rol1_inverse: "drop_bit 1 (rol1 b) OR push_bit 7 (rol1 b) = b"
  by (rule byte_check [of "\<lambda>b. drop_bit 1 (rol1 b) OR push_bit 7 (rol1 b) = b"]) code_simp

lemma rol1_inject: "rol1 a = rol1 b \<longleftrightarrow> a = b"
  by (metis rol1_inverse)

lemma kdf_byte_inject: "kdf_byte input a = kdf_byte input b \<longleftrightarrow> a = b"
proof (induction input arbitrary: a b)
  case (Cons x xs)
  have "a XOR x = b XOR x \<longleftrightarrow> a = b" by (metis xor_cancel_right)
  with Cons show ?case by (simp add: kdf_byte_def rol1_inject)
qed (simp add: kdf_byte_def)

lemma kdf_byte_type:
  assumes "t \<noteq> t'"
  shows "kdf_byte (kdf_input t a) k \<noteq> kdf_byte (kdf_input t' a) k"
proof -
  have "kdf_byte (kdf_input u a) k = kdf_byte [0, 1, word_of_nat a, 0, 1] (rol1 (rol1 (k XOR 0x69) XOR u))" for u
    by (simp add: kdf_byte_def kdf_input_def)
  moreover have "rol1 (rol1 (k XOR 0x69) XOR t) \<noteq> rol1 (rol1 (k XOR 0x69) XOR t')"
    using assms by (metis rol1_inject xor_cancel_left)
  ultimately show ?thesis by (simp add: kdf_byte_inject)
qed

section \<open>Examples\<close>

definition srb_example :: pdcp_entity where
  "srb_example = (case pdcp_create_entity good_os True 1 2 7 of (Inr e, _) \<Rightarrow>
     e\<lparr>pdcp_active := True, security_ctx := Some \<lparr>ciphering_key = replicate 16 1,
       integrity_key = replicate 16 2, ciphering_alg = 1, integrity_alg = 1, key_refresh_count = 0\<rparr>\<rparr>)"

lemmas srb_example_unfold =
  srb_example_def pdcp_create_entity_def pdcp_init_sn_params_def PDCP_BEARER_DRB_MAX_def PDCP_BEARER_SRB3_def Let_def

section \<open>Properties\<close>

text \<open>
  C8. What a receiver with the same keys and the same COUNT makes of a transmitted unit: it
  recovers the data exactly when integrity protection is off or the code of the ciphered data
  happens to be the code of the plain data, and rejects the unit as a protocol error otherwise.
  (The code is computed before ciphering but verified before deciphering.)
\<close>

theorem pdcp_tx_rx:
  assumes tx: "pdcp_process_tx_data s (Some d) True (Some e) = (Inr pdu, Some e')"
    and sec: "security_ctx e = Some c" "sec_wf c"
    and rx: "pdcp_active r" "security_ctx r = Some c" "cipher_params_of r = cipher_params_of e'"
    and os: "alloc_ok s' 0" "alloc_ok s' 1"
  shows "fst (pdcp_process_rx_data s' (Some pdu) True (Some r)) =
    (if integrity_alg c = 0 \<or> nia (integrity_alg c) (integrity_key c) (cipher_params_of r)
          (nea (ciphering_alg c) (ciphering_key c) (cipher_params_of r) d) =
        nia (integrity_alg c) (integrity_key c) (cipher_params_of r) d
     then Inr d else Inl UESIM_ERROR_PROTOCOL)"
  unfolding tx_success_cases(1) [OF tx sec] rx(3) [symmetric]
  by (rule rx_result [OF rx(1) os rx(2) sec(2)])

theorem pdcp_tx_rx_witness:
  "fst (pdcp_process_rx_data good_os
     (Some \<lparr>pdu_sn = 0, pdu_data = Some [5, 6], mac_i = 0, ciphered = False, integrity_protected = False\<rparr>) True
     (Some (srb_example\<lparr>next_pdcp_sn := 1, security_ctx := Some \<lparr>ciphering_key = [], integrity_key = [],
       ciphering_alg = 0, integrity_alg = 0, key_refresh_count = 0\<rparr>\<rparr>))) = Inr [5, 6]"
proof -
  let ?c = "\<lparr>ciphering_key = [], integrity_key = [], ciphering_alg = 0, integrity_alg = 0, key_refresh_count = 0\<rparr>"
  let ?e = "srb_example\<lparr>security_ctx := Some ?c\<rparr>" and ?r = "srb_example\<lparr>next_pdcp_sn := 1, security_ctx := Some ?c\<rparr>"
  have "pdcp_process_tx_data good_os (Some [5, 6]) True (Some ?e) =
      (Inr \<lparr>pdu_sn = 0, pdu_data = Some [5, 6], mac_i = 0, ciphered = False, integrity_protected = False\<rparr>, Some ?r)"
    by (simp add: srb_example_unfold pdcp_process_tx_data_def pdcp_assign_sn_def
        pdcp_compute_integrity_protect_def pdcp_encrypt_pdu_def)
  from pdcp_tx_rx [OF this, of ?c ?r good_os] show ?thesis
    by (simp add: sec_wf_def PDCP_ALG_MAX_def srb_example_unfold)
qed

text \<open>
  With NEA1 and NIA1 together, a four-byte service data unit arrives exactly when the first
  keystream word of its COUNT is zero; every other one is rejected by the receiver.
\<close>

theorem pdcp_ciphered_and_protected_rejected:
  assumes tx: "pdcp_process_tx_data s (Some d) True (Some e) = (Inr pdu, Some e')"
    and sec: "security_ctx e = Some c" "ciphering_alg c = 1" "integrity_alg c = 1" and d: "length d = 4"
    and rx: "pdcp_active r" "security_ctx r = Some c" "cipher_params_of r = cipher_params_of e'"
    and os: "alloc_ok s' 0" "alloc_ok s' 1"
  shows "fst (pdcp_process_rx_data s' (Some pdu) True (Some r)) =
    (if fst (snow3g_generate_keystream (snow3g_init_context (ciphering_key c) (cipher_params_of r))) = 0
     then Inr d else Inl UESIM_ERROR_PROTOCOL)"
proof -
  have wf: "sec_wf c" using sec by (simp add: sec_wf_def PDCP_ALG_MAX_def)
  show ?thesis
    unfolding tx_success_cases(1) [OF tx sec(1) wf] rx(3) [symmetric]
      rx_result [OF rx(1) os rx(2) wf] sec(2,3)
    by (simp add: snow3g_four_bytes [OF d] del: One_nat_def)
qed

theorem pdcp_ciphered_and_protected_rejected_witness:
  "\<exists>pdu e'. pdcp_process_tx_data good_os (Some [1, 2, 3, 4]) True (Some srb_example) = (Inr pdu, Some e') \<and>
     fst (pdcp_process_rx_data good_os (Some pdu) True (Some e')) =
       (if fst (snow3g_generate_keystream (snow3g_init_context (replicate 16 1) (cipher_params_of e'))) = 0
        then Inr [1, 2, 3, 4] else Inl UESIM_ERROR_PROTOCOL)"
proof -
  let ?c = "\<lparr>ciphering_key = replicate 16 1, integrity_key = replicate 16 2, ciphering_alg = 1,
    integrity_alg = 1, key_refresh_count = 0\<rparr>"
  have sec: "security_ctx srb_example = Some ?c" and act: "pdcp_active srb_example"
    by (simp_all add: srb_example_unfold)
  have wf: "sec_wf ?c" by (simp add: sec_wf_def PDCP_ALG_MAX_def)
  let ?e = "snd (pdcp_assign_sn srb_example)"
  have tx: "pdcp_process_tx_data good_os (Some [1, 2, 3, 4]) True (Some srb_example) =
      (Inr (protected_pdu ?c (cipher_params_of ?e) (fst (pdcp_assign_sn srb_example)) [1, 2, 3, 4]), Some ?e)"
    by (rule tx_result [OF act _ _ _ _ sec wf]) simp_all
  have "fst (pdcp_process_rx_data good_os
      (Some (protected_pdu ?c (cipher_params_of ?e) (fst (pdcp_assign_sn srb_example)) [1, 2, 3, 4])) True (Some ?e)) =
    (if fst (snow3g_generate_keystream (snow3g_init_context (ciphering_key ?c) (cipher_params_of ?e))) = 0
     then Inr [1, 2, 3, 4] else Inl UESIM_ERROR_PROTOCOL)"
    by (rule pdcp_ciphered_and_protected_rejected [OF tx sec]) (simp_all add: act sec)
  with tx show ?thesis by (intro exI conjI) (assumption, simp)
qed

text \<open>
  C9. The COUNT values under which an entity protects the units it sends, from its creation and
  over every wrap of the sequence number, are pairwise distinct for the first \<open>2 ^ 32\<close> units:
  the hyper frame number moves on exactly when the sequence number wraps.
\<close>

theorem pdcp_count_unique:
  assumes "pdcp_create_entity s0 True b dir g = (Inr e, g')"
    and "[] \<notin> set ds" and "length ds \<le> 2 ^ 32" and "alloc_ok s 0" and "alloc_ok s 1"
  shows "length (pdcp_tx_run s ds (e\<lparr>pdcp_active := True\<rparr>)) = length ds \<and>
    distinct (pdcp_tx_run s ds (e\<lparr>pdcp_active := True\<rparr>))"
proof -
  let ?b = "sn_length e"
  have "tx_at ?b 0 (e\<lparr>pdcp_active := True\<rparr>)"
    using created_tx_at(1) [OF assms(1)] by (simp add: tx_at_def)
  from tx_run_counts [OF this _ assms(2,4,5)]
  have run: "pdcp_tx_run s ds (e\<lparr>pdcp_active := True\<rparr>) = map (\<lambda>i. word_of_nat (tx_count_nat ?b i)) [0..<length ds]"
    by simp
  have b: "?b \<le> 32" using created_tx_at(2) [OF assms(1)] by simp
  have "inj_on (\<lambda>i. word_of_nat (tx_count_nat ?b i) :: u32) {0..<length ds}"
  proof (rule inj_onI)
    fix i j assume ij: "i \<in> {0..<length ds}" "j \<in> {0..<length ds}"
      and eq: "(word_of_nat (tx_count_nat ?b i) :: u32) = word_of_nat (tx_count_nat ?b j)"
    have "tx_count_nat ?b i < 2 ^ 32" "tx_count_nat ?b j < 2 ^ 32"
      using tx_count_nat_less [OF b] ij assms(3) by auto
    with arg_cong [OF eq, of unat] have "tx_count_nat ?b i = tx_count_nat ?b j" by (simp only: unat_word_of_nat)
    then show "i = j" by (rule tx_count_nat_inject)
  qed
  then show ?thesis by (simp add: run distinct_map)
qed

theorem pdcp_count_unique_witness:
  "distinct (pdcp_tx_run good_os [[1], [2], [3]]
     ((case fst (pdcp_create_entity good_os True 1 2 7) of Inr e \<Rightarrow> e)\<lparr>pdcp_active := True\<rparr>))"
proof -
  obtain e where e: "pdcp_create_entity good_os True 1 2 7 = (Inr e, 8)"
    by (simp add: pdcp_create_entity_def PDCP_BEARER_DRB_MAX_def)
  from pdcp_count_unique [OF e, of "[[1], [2], [3]]" good_os] e show ?thesis by simp
qed

text \<open>
  C10. A receiver reconstructs the COUNT of every unit from its sequence number as long as the
  units arrive in order with gaps smaller than half of the sequence number space.
\<close>

theorem pdcp_rx_count_correct:
  assumes "pdcp_create_entity s True b dir g = (Inr e, g')"
    and "\<forall>i < length cs. (0 # cs) ! i < cs ! i \<and> cs ! i < (0 # cs) ! i + 2 ^ (sn_length e - 1)"
  shows "rx_counts e (map (\<lambda>c. word_of_nat (c mod 2 ^ sn_length e)) cs) = map word_of_nat cs"
  by (rule rx_counts_correct [OF created_rx_at [OF assms(1)] assms(2)])

theorem pdcp_rx_count_correct_witness:
  "rx_counts (case fst (pdcp_create_entity good_os True 1 2 7) of Inr e \<Rightarrow> e) [10, 20, 30, 8, 20, 1] =
   [10, 20, 30, 40, 52, 65]"
proof -
  obtain e where e: "pdcp_create_entity good_os True 1 2 7 = (Inr e, 8)"
    by (simp add: pdcp_create_entity_def PDCP_BEARER_DRB_MAX_def)
  have len: "sn_length e = 5" using created_tx_at(2) [OF e] by (simp add: PDCP_BEARER_SRB3_def)
  have "rx_counts e (map (\<lambda>c. word_of_nat (c mod 2 ^ 5)) [10, 20, 30, 40, 52, 65]) = map word_of_nat [10, 20, 30, 40, 52, 65]"
    by (rule pdcp_rx_count_correct [OF e, unfolded len]) (simp add: All_less_Suc2 numeral_eq_Suc)
  then show ?thesis using e by (simp del: rx_counts.simps add: e [unfolded One_nat_def])
qed

text \<open>
  One unit that arrives late over a wrap of the sequence number leaves the receiver's hyper
  frame number one too high for ever: with 5-bit sequence numbers the units 30, 33, 31, 34, 35
  are given the COUNT values 30, 33, 63, 66, 67.
\<close>

theorem pdcp_rx_count_reordering:
  "rx_counts srb_example [30, 1, 31, 2, 3] = [30, 33, 63, 66, 67]"
  by (simp add: srb_example_unfold pdcp_get_rx_count_def pdcp_detect_sn_wraparound_def)

lemma header_masks:
  "(0x7F :: u16) = mask 7" "(0xFFF :: u16) = mask 12" "(0xFF :: u16) = mask 8" "(0x0F :: u16) = mask 4"
  "(0x03 :: u16) = mask 2" "(0x7F :: u8) = mask 7" "(0x0F :: u8) = mask 4" "(0x03 :: u8) = mask 2"
  by (simp_all add: mask_eq_exp_minus_1)

lemma header_tags:
  "bit (128 :: nat) n \<longleftrightarrow> n = 7" "bit (240 :: nat) n \<longleftrightarrow> 4 \<le> n \<and> n < 8"
proof -
  have eq: "128 = push_bit 7 (1 :: nat)" "240 = push_bit 4 (mask 4 :: nat)"
    by (simp_all add: mask_eq_exp_minus_1 push_bit_eq_mult)
  show "bit (128 :: nat) n \<longleftrightarrow> n = 7" unfolding eq(1) bit_push_bit_iff bit_1_iff by auto
  show "bit (240 :: nat) n \<longleftrightarrow> 4 \<le> n \<and> n < 8" unfolding eq(2) bit_push_bit_iff bit_mask_iff by auto
qed

lemma bits_below:
  assumes "unat w < 2 ^ n" and "bit (w :: 'a::len word) m"
  shows "m < n"
proof -
  have "take_bit n (unat w) = unat w" using assms(1) by (simp add: take_bit_nat_eq_self)
  moreover have "bit (unat w) m" using assms(2) by (simp add: bit_unsigned_iff)
  ultimately show ?thesis by (metis bit_take_bit_iff)
qed

lemma header_tag_masks: "(0x80 OR x) AND mask 4 = (x AND mask 4 :: u8)" "(0xF0 :: u8) AND mask 2 = 0"
   apply (rule byte_check [of "\<lambda>x. (0x80 OR x) AND mask 4 = x AND mask 4"], code_simp)
  apply code_simp
  done

lemma encode_decode_sn:
  "\<forall>m. bit sn m \<longrightarrow> m < 7 \<Longrightarrow> ucast ((ucast ((sn :: u16) AND mask 7) :: u8) AND mask 7) = sn"
  "\<forall>m. bit sn m \<longrightarrow> m < 12 \<Longrightarrow> push_bit 8 (ucast ((ucast (drop_bit 8 sn AND mask 4) :: u8) AND mask 4)) OR
     ucast (ucast (sn AND mask 8) :: u8) = sn"
  "ucast (push_bit 8 (ucast (ucast (drop_bit 8 sn AND mask 8) :: u8)) OR ucast (ucast (sn AND mask 8) :: u8) :: u32) = sn"
    apply (rule bit_word_eqI, auto simp: bit_simps )[1]
   apply (rule bit_word_eqI, auto simp: bit_simps not_less )[1]
  apply (rule bit_word_eqI, auto simp: bit_simps not_less)[1]
  done

text \<open>
  Decoding an encoded header gives back the sequence number, for all 16-bit numbers, and the
  first byte tells the length of the header.
\<close>

theorem pdcp_header_roundtrip:
  "\<exists>h. pdcp_encode_header (Some pdu) True = Inr h \<and>
     pdcp_decode_header (Some h) (Some pdu') = (UESIM_SUCCESS, Some (pdu'\<lparr>pdu_sn := pdu_sn pdu\<rparr>)) \<and>
     length h = (if \<not> bit (h ! 0) 7 then 1 else if \<not> bit (h ! 0) 6 then 2 else 3)"
proof -
  let ?sn = "pdu_sn pdu"
  note defs = pdcp_encode_header_def pdcp_decode_header_def Let_def
  consider "?sn \<le> 0x7F" | "\<not> ?sn \<le> 0x7F" "?sn \<le> 0xFFF" | "\<not> ?sn \<le> 0x7F" "\<not> ?sn \<le> 0xFFF" by blast
  then show ?thesis
  proof cases
    case 1
    then have "unat ?sn < 2 ^ 7" by (simp add: word_le_nat_alt)
    then have "\<forall>m. bit ?sn m \<longrightarrow> m < 7" using bits_below by blast
    note sn = encode_decode_sn(1) [OF this]
    show ?thesis using 1 by (simp add: defs header_masks sn) (simp add: bit_simps)
  next
    case 2
    then have "unat ?sn < 2 ^ 12" by (simp add: word_le_nat_alt)
    then have "\<forall>m. bit ?sn m \<longrightarrow> m < 12" using bits_below by blast
    note sn = encode_decode_sn(2) [OF this]
    show ?thesis using 2 by (simp add: defs header_masks header_tag_masks sn) (simp add: bit_simps header_tags)
  next
    case 3
    then show ?thesis
      by (simp add: defs header_masks header_tag_masks encode_decode_sn(3))
  qed
qed

text \<open>
  Key separation: from the same root key and algorithms, the keys of a signalling and of a
  data bearer differ in every byte, ciphering and integrity alike.
\<close>

theorem pdcp_key_separation:
  assumes "security_ctx e = security_ctx e'" and "bearer_type e \<le> PDCP_BEARER_SRB3" and "PDCP_BEARER_SRB3 < bearer_type e'"
    and "pdcp_derive_refreshed_keys (Some k) True (Some e) = Inr (c, i)"
    and "pdcp_derive_refreshed_keys (Some k) True (Some e') = Inr (c', i')"
  shows "length c = 16 \<and> length i = 16 \<and> list_all2 (\<noteq>) c c' \<and> list_all2 (\<noteq>) i i'"
proof -
  obtain x where x: "security_ctx e' = Some x"
    using assms(5) by (cases "security_ctx e'") (simp_all add: pdcp_derive_refreshed_keys_def)
  have ne: "a XOR z = b XOR z \<longleftrightarrow> a = b" for a b z :: u8 by (metis xor_cancel_right)
  show ?thesis
    using assms x by (auto simp: pdcp_derive_refreshed_keys_def Let_def list_all2_conv_all_nth ne kdf_byte_type)
qed

theorem pdcp_key_separation_witness:
  "\<exists>c i c' i'. pdcp_derive_refreshed_keys (Some (replicate 32 9)) True (Some srb_example) = Inr (c, i) \<and>
     pdcp_derive_refreshed_keys (Some (replicate 32 9)) True (Some (srb_example\<lparr>bearer_type := 4\<rparr>)) = Inr (c', i') \<and>
     list_all2 (\<noteq>) c c' \<and> list_all2 (\<noteq>) i i'"
proof -
  have "\<exists>c i. pdcp_derive_refreshed_keys (Some (replicate 32 9)) True (Some srb_example) = Inr (c, i)"
    and "\<exists>c i. pdcp_derive_refreshed_keys (Some (replicate 32 9)) True (Some (srb_example\<lparr>bearer_type := 4\<rparr>)) = Inr (c, i)"
    by (simp_all add: pdcp_derive_refreshed_keys_def srb_example_unfold)
  then obtain c i c' i' where
    k: "pdcp_derive_refreshed_keys (Some (replicate 32 9)) True (Some srb_example) = Inr (c, i)"
      "pdcp_derive_refreshed_keys (Some (replicate 32 9)) True (Some (srb_example\<lparr>bearer_type := 4\<rparr>)) = Inr (c', i')"
    by blast
  have "security_ctx srb_example = security_ctx (srb_example\<lparr>bearer_type := 4\<rparr>)"
    "bearer_type srb_example \<le> PDCP_BEARER_SRB3" "PDCP_BEARER_SRB3 < bearer_type (srb_example\<lparr>bearer_type := 4\<rparr>)"
    by (simp_all add: srb_example_unfold)
  from pdcp_key_separation [OF this k] k show ?thesis by blast
qed

end
