(* ===== verification/Rlc.thy ===== *)
theory Rlc
  imports Interfaces
begin

text \<open>
  The radio link control entities of \<^verbatim>\<open>src/protocol/rlc.c\<close>: their life cycle, the
  segmentation of service data units into protocol data units, the reassembly, the reception of
  single units and the queues of the three modes. The unions of the code (configuration and
  mode-specific data) are separate fields here: every operation reads the member of the entity's
  mode. The windows of the acknowledged mode are in the theory \<open>Rlc_Window\<close>.
\<close>

section \<open>State\<close>

datatype rlc_mode = RLC_MODE_TM | RLC_MODE_UM | RLC_MODE_AM
datatype rlc_status = RLC_STATUS_IDLE | RLC_STATUS_CONFIGURED | RLC_STATUS_ACTIVE | RLC_STATUS_SUSPENDED

definition RLC_MAX_PDU_SIZE :: nat where "RLC_MAX_PDU_SIZE = 8192"
definition RLC_BEARER_DRB_MAX :: nat where "RLC_BEARER_DRB_MAX = 32"

record rlc_config =
  cfg_mode :: rlc_mode
  um_sn_length :: u8
  um_t_reassembly :: u16
  um_enable_ciphering :: bool
  am_sn_length :: u8
  am_t_poll_retransmit :: u16
  am_t_reassembly :: u16
  am_t_status_prohibit :: u16
  am_poll_pdu :: u32
  am_poll_byte :: u32
  am_max_retx_threshold :: u16

text \<open>The configuration of an entity that was allocated with zeros.\<close>

definition zero_config :: rlc_config where
  "zero_config = \<lparr>cfg_mode = RLC_MODE_TM, um_sn_length = 0, um_t_reassembly = 0, um_enable_ciphering = False,
     am_sn_length = 0, am_t_poll_retransmit = 0, am_t_reassembly = 0, am_t_status_prohibit = 0,
     am_poll_pdu = 0, am_poll_byte = 0, am_max_retx_threshold = 0\<rparr>"

record rlc_sdu =
  s_data :: "u8 list"
  sdu_id :: u16
  creation_time :: u32

record rlc_pdu =
  p_data :: "u8 list"
  p_sn :: u16
  p_fi :: u8
  p_so :: u16
  p_is_segment :: bool

text \<open>The windows of the acknowledged mode; a slot holds the units that were chained into it.\<close>

record rlc_am_tx_window =
  tx_slots :: "rlc_pdu list list"
  tx_window_size :: u16
  vt_a :: u16
  vt_ms :: u16
  vt_s :: u16

record rlc_am_rx_window =
  rx_slots :: "rlc_pdu list list"
  rx_window_size :: u16
  vr_r :: u16
  vr_mr :: u16
  vr_x :: u16
  vr_ms :: u16
  vr_h :: u16

text \<open>The windows of an entity that was allocated with zeros and never initialised.\<close>

definition zero_tx_window :: rlc_am_tx_window where
  "zero_tx_window = \<lparr>tx_slots = [], tx_window_size = 0, vt_a = 0, vt_ms = 0, vt_s = 0\<rparr>"

definition zero_rx_window :: rlc_am_rx_window where
  "zero_rx_window = \<lparr>rx_slots = [], rx_window_size = 0, vr_r = 0, vr_mr = 0, vr_x = 0, vr_ms = 0, vr_h = 0\<rparr>"

record rlc_entity =
  rlc_entity_id :: u32
  rlc_bearer :: nat
  rlc_direction :: nat
  mode :: rlc_mode
  status :: rlc_status
  rlc_active :: bool
  config :: rlc_config
  sdu_counter :: u32
  pdu_counter :: u32
  tm_tx_buffer :: "rlc_sdu list"
  tm_rx_buffer :: "rlc_sdu list"
  um_rx_buffer :: "rlc_pdu list"
  am_tx_buffer :: "rlc_sdu list"
  am_rx_buffer :: "rlc_pdu list"
  poll_pdu_counter :: u32
  poll_byte_counter :: u32
  tx_window :: rlc_am_tx_window
  rx_window :: rlc_am_rx_window

section \<open>Life cycle\<close>

text \<open>
  \<open>init_ok 0\<close> to \<open>init_ok 3\<close> are the outcomes for the entity's and the mode's mutex and condition
  variable; \<open>g\<close> is the global entity counter.
\<close>

definition rlc_create_entity ::
  "os \<Rightarrow> bool \<Rightarrow> nat \<Rightarrow> nat \<Rightarrow> rlc_mode option \<Rightarrow> rlc_config option \<Rightarrow> u32 \<Rightarrow> (uesim_error + rlc_entity) \<times> u32" where
  "rlc_create_entity s ptrs b dir m cfg g =
     (if \<not> ptrs then (Inl UESIM_ERROR_INVALID_PARAM, g)
      else if b \<ge> RLC_BEARER_DRB_MAX then (Inl UESIM_ERROR_INVALID_PARAM, g)
      else case m of None \<Rightarrow> (Inl UESIM_ERROR_INVALID_PARAM, g) | Some md \<Rightarrow>
      if \<not> alloc_ok s 0 then (Inl UESIM_ERROR_MEMORY, g)
      else if \<not> (init_ok s 0 \<and> init_ok s 1 \<and> init_ok s 2 \<and> init_ok s 3) then (Inl UESIM_ERROR_THREAD, g + 1)
      else (Inr \<lparr>rlc_entity_id = g, rlc_bearer = b, rlc_direction = dir, mode = md,
          status = RLC_STATUS_CONFIGURED, rlc_active = False,
          config = (case cfg of None \<Rightarrow> zero_config | Some c \<Rightarrow> c),
          sdu_counter = 0, pdu_counter = 0, tm_tx_buffer = [], tm_rx_buffer = [], um_rx_buffer = [],
          am_tx_buffer = [], am_rx_buffer = [], poll_pdu_counter = 0, poll_byte_counter = 0,
          tx_window = zero_tx_window, rx_window = zero_rx_window\<rparr>, g + 1))"

definition rlc_destroy_entity :: "bool \<Rightarrow> rlc_entity option \<Rightarrow> uesim_error \<times> rlc_entity option" where
  "rlc_destroy_entity ue p = (case p of
     None \<Rightarrow> (UESIM_ERROR_INVALID_PARAM, None)
   | Some e \<Rightarrow> if ue then (UESIM_SUCCESS, None) else (UESIM_ERROR_INVALID_PARAM, Some e))"

text \<open>A configuration names its mode; \<open>None\<close> stands for a mode outside of the enumeration.\<close>

definition rlc_configure_entity ::
  "os \<Rightarrow> (rlc_config \<times> rlc_mode option) option \<Rightarrow> rlc_entity option \<Rightarrow> uesim_error \<times> rlc_entity option" where
  "rlc_configure_entity s cfg p = with_ptr p (\<lambda>e. case cfg of
     None \<Rightarrow> (UESIM_ERROR_INVALID_PARAM, e)
   | Some (c, None) \<Rightarrow> (UESIM_ERROR_INVALID_PARAM, e)
   | Some (c, Some m) \<Rightarrow> locked s e (UESIM_SUCCESS, e\<lparr>config := c\<lparr>cfg_mode := m\<rparr>, mode := m\<rparr>))"

definition rlc_activate_entity :: "os \<Rightarrow> rlc_entity option \<Rightarrow> uesim_error \<times> rlc_entity option" where
  "rlc_activate_entity s p = with_ptr p (\<lambda>e.
     locked s e (UESIM_SUCCESS, e\<lparr>rlc_active := True, status := RLC_STATUS_ACTIVE\<rparr>))"

definition rlc_deactivate_entity :: "os \<Rightarrow> rlc_entity option \<Rightarrow> uesim_error \<times> rlc_entity option" where
  "rlc_deactivate_entity s p = with_ptr p (\<lambda>e.
     locked s e (UESIM_SUCCESS, e\<lparr>rlc_active := False, status := RLC_STATUS_CONFIGURED\<rparr>))"

definition rlc_suspend_entity :: "os \<Rightarrow> rlc_entity option \<Rightarrow> uesim_error \<times> rlc_entity option" where
  "rlc_suspend_entity s p = with_ptr p (\<lambda>e.
     locked s e (UESIM_SUCCESS, e\<lparr>rlc_active := False, status := RLC_STATUS_SUSPENDED\<rparr>))"

definition rlc_resume_entity :: "os \<Rightarrow> rlc_entity option \<Rightarrow> uesim_error \<times> rlc_entity option" where
  "rlc_resume_entity s p = with_ptr p (\<lambda>e.
     if status e \<noteq> RLC_STATUS_SUSPENDED then (UESIM_ERROR_INVALID_PARAM, e)
     else locked s e (UESIM_SUCCESS, e\<lparr>rlc_active := True, status := RLC_STATUS_ACTIVE\<rparr>))"

section \<open>Units\<close>

text \<open>A new unit for \<open>d\<close>: the structure is allocated first, then the buffer of a non-empty unit.\<close>

definition unit_allocs :: "os \<Rightarrow> nat \<Rightarrow> u8 list \<Rightarrow> bool" where
  "unit_allocs s n d \<longleftrightarrow> alloc_ok s n \<and> (d = [] \<or> alloc_ok s (n + 1))"

definition rlc_create_pdu :: "os \<Rightarrow> nat \<Rightarrow> u8 list \<Rightarrow> uesim_error + rlc_pdu" where
  "rlc_create_pdu s n d =
     (if \<not> unit_allocs s n d then Inl UESIM_ERROR_MEMORY
      else Inr \<lparr>p_data = d, p_sn = 0, p_fi = 0, p_so = 0, p_is_segment = False\<rparr>)"

definition rlc_create_sdu :: "os \<Rightarrow> u32 \<Rightarrow> u8 list \<Rightarrow> rlc_entity \<Rightarrow> (uesim_error + rlc_sdu) \<times> rlc_entity" where
  "rlc_create_sdu s now d e =
     (if \<not> unit_allocs s 0 d then (Inl UESIM_ERROR_MEMORY, e)
      else (Inr \<lparr>s_data = d, sdu_id = ucast (sdu_counter e), creation_time = now\<rparr>,
            e\<lparr>sdu_counter := sdu_counter e + 1\<rparr>))"

section \<open>Transmission\<close>

text \<open>
  The segmentation loop of the unacknowledged and the acknowledged mode: \<open>k\<close> segments are left,
  of \<open>num\<close>; \<open>ctr\<close> is the entity's unit counter. When an allocation fails the segments made so
  far are freed, but their sequence numbers stay used.
\<close>

definition framing_info :: "nat \<Rightarrow> nat \<Rightarrow> u8" where
  "framing_info num i = (if num = 1 then 0 else if i = 0 then 1 else if i = num - 1 then 2 else 3)"

definition num_segments :: "nat \<Rightarrow> nat" where
  "num_segments len = (len + RLC_MAX_PDU_SIZE - 1) div RLC_MAX_PDU_SIZE"

definition segment_of :: "nat \<Rightarrow> u8 list \<Rightarrow> nat \<Rightarrow> u8 list" where
  "segment_of num d i = (let size = (if i = num - 1 then length d - i * RLC_MAX_PDU_SIZE else RLC_MAX_PDU_SIZE)
     in take size (drop (i * RLC_MAX_PDU_SIZE) d))"

fun segment_loop :: "os \<Rightarrow> nat \<Rightarrow> nat \<Rightarrow> u8 list \<Rightarrow> u32 \<Rightarrow> (uesim_error + rlc_pdu list) \<times> u32" where
  "segment_loop s num 0 d ctr = (Inr [], ctr)"
| "segment_loop s num (Suc k) d ctr = (let i = num - Suc k in
     case rlc_create_pdu s (2 * i) (segment_of num d i) of
       Inl r \<Rightarrow> (Inl r, ctr)
     | Inr pdu \<Rightarrow> (case segment_loop s num k d (ctr + 1) of
         (Inl r, c) \<Rightarrow> (Inl r, c)
       | (Inr pdus, c) \<Rightarrow> (Inr (pdu\<lparr>p_sn := ucast ctr, p_fi := framing_info num i\<rparr> # pdus), c)))"

definition rlc_segment :: "os \<Rightarrow> u8 list \<Rightarrow> rlc_entity \<Rightarrow> (uesim_error + rlc_pdu list) \<times> rlc_entity" where
  "rlc_segment s d e = (let num = num_segments (length d) in
     case segment_loop s num num d (pdu_counter e) of (r, c) \<Rightarrow> (r, e\<lparr>pdu_counter := c\<rparr>))"

definition rlc_tm_process_tx_data :: "os \<Rightarrow> u8 list \<Rightarrow> rlc_entity \<Rightarrow> (uesim_error + rlc_pdu list) \<times> rlc_entity" where
  "rlc_tm_process_tx_data s d e =
     (if mode e \<noteq> RLC_MODE_TM then (Inl UESIM_ERROR_INVALID_PARAM, e)
      else (case rlc_create_pdu s 0 d of Inl r \<Rightarrow> (Inl r, e) | Inr pdu \<Rightarrow> (Inr [pdu], e)))"

definition rlc_um_process_tx_data :: "os \<Rightarrow> u8 list \<Rightarrow> rlc_entity \<Rightarrow> (uesim_error + rlc_pdu list) \<times> rlc_entity" where
  "rlc_um_process_tx_data s d e =
     (if mode e \<noteq> RLC_MODE_UM then (Inl UESIM_ERROR_INVALID_PARAM, e) else rlc_segment s d e)"

definition rlc_am_process_tx_data :: "os \<Rightarrow> u8 list \<Rightarrow> rlc_entity \<Rightarrow> (uesim_error + rlc_pdu list) \<times> rlc_entity" where
  "rlc_am_process_tx_data s d e =
     (if mode e \<noteq> RLC_MODE_AM then (Inl UESIM_ERROR_INVALID_PARAM, e) else rlc_segment s d e)"

definition rlc_process_tx_data ::
  "os \<Rightarrow> u8 list option \<Rightarrow> bool \<Rightarrow> rlc_entity option \<Rightarrow> (uesim_error + rlc_pdu list) \<times> rlc_entity option" where
  "rlc_process_tx_data s sdu out p = with_obj p (\<lambda>e. case sdu of
     None \<Rightarrow> (Inl UESIM_ERROR_INVALID_PARAM, e)
   | Some d \<Rightarrow>
       if d = [] \<or> \<not> out then (Inl UESIM_ERROR_INVALID_PARAM, e)
       else if \<not> rlc_active e \<or> status e \<noteq> RLC_STATUS_ACTIVE then (Inl UESIM_ERROR_INVALID_PARAM, e)
       else (case mode e of
           RLC_MODE_TM \<Rightarrow> rlc_tm_process_tx_data s d e
         | RLC_MODE_UM \<Rightarrow> rlc_um_process_tx_data s d e
         | RLC_MODE_AM \<Rightarrow> rlc_am_process_tx_data s d e))"

section \<open>Reception\<close>

text \<open>The transparent mode takes the first unit of the list, the other modes concatenate the list.\<close>

definition rlc_tm_process_rx_data :: "os \<Rightarrow> rlc_pdu list \<Rightarrow> rlc_entity \<Rightarrow> uesim_error + u8 list" where
  "rlc_tm_process_rx_data s pdus e =
     (if mode e \<noteq> RLC_MODE_TM then Inl UESIM_ERROR_INVALID_PARAM
      else if \<not> alloc_ok s 0 then Inl UESIM_ERROR_MEMORY
      else Inr (p_data (hd pdus)))"

definition rlc_reassemble :: "os \<Rightarrow> rlc_pdu list \<Rightarrow> uesim_error + u8 list" where
  "rlc_reassemble s pdus =
     (if \<not> alloc_ok s 0 then Inl UESIM_ERROR_MEMORY else Inr (concat (map p_data pdus)))"

definition rlc_um_process_rx_data :: "os \<Rightarrow> rlc_pdu list \<Rightarrow> rlc_entity \<Rightarrow> uesim_error + u8 list" where
  "rlc_um_process_rx_data s pdus e =
     (if mode e \<noteq> RLC_MODE_UM then Inl UESIM_ERROR_INVALID_PARAM else rlc_reassemble s pdus)"

definition rlc_am_process_rx_data :: "os \<Rightarrow> rlc_pdu list \<Rightarrow> rlc_entity \<Rightarrow> uesim_error + u8 list" where
  "rlc_am_process_rx_data s pdus e =
     (if mode e \<noteq> RLC_MODE_AM then Inl UESIM_ERROR_INVALID_PARAM else rlc_reassemble s pdus)"

definition rlc_process_rx_data ::
  "os \<Rightarrow> rlc_pdu list \<Rightarrow> bool \<Rightarrow> rlc_entity option \<Rightarrow> uesim_error + u8 list" where
  "rlc_process_rx_data s pdus out p = (case p of None \<Rightarrow> Inl UESIM_ERROR_INVALID_PARAM | Some e \<Rightarrow>
     if pdus = [] \<or> \<not> out then Inl UESIM_ERROR_INVALID_PARAM
     else if \<not> rlc_active e \<or> status e \<noteq> RLC_STATUS_ACTIVE then Inl UESIM_ERROR_INVALID_PARAM
     else (case mode e of
         RLC_MODE_TM \<Rightarrow> rlc_tm_process_rx_data s pdus e
       | RLC_MODE_UM \<Rightarrow> rlc_um_process_rx_data s pdus e
       | RLC_MODE_AM \<Rightarrow> rlc_am_process_rx_data s pdus e))"

text \<open>Single units: the transparent mode queues service data units, the other modes copies of the unit.\<close>

definition rlc_tm_receive_pdu :: "os \<Rightarrow> u32 \<Rightarrow> rlc_pdu \<Rightarrow> rlc_entity \<Rightarrow> uesim_error \<times> rlc_entity" where
  "rlc_tm_receive_pdu s now pdu e =
     (if mode e \<noteq> RLC_MODE_TM then (UESIM_ERROR_INVALID_PARAM, e)
      else locked s e (case rlc_create_sdu s now (p_data pdu) e of
          (Inl r, e') \<Rightarrow> (r, e')
        | (Inr sdu, e') \<Rightarrow> (UESIM_SUCCESS, e'\<lparr>tm_rx_buffer := tm_rx_buffer e' @ [sdu]\<rparr>)))"

definition copy_pdu :: "os \<Rightarrow> rlc_pdu \<Rightarrow> uesim_error + rlc_pdu" where
  "copy_pdu s pdu = (case rlc_create_pdu s 0 (p_data pdu) of Inl r \<Rightarrow> Inl r
     | Inr c \<Rightarrow> Inr (c\<lparr>p_sn := p_sn pdu, p_fi := p_fi pdu, p_so := p_so pdu, p_is_segment := p_is_segment pdu\<rparr>))"

definition rlc_um_receive_pdu :: "os \<Rightarrow> rlc_pdu \<Rightarrow> rlc_entity \<Rightarrow> uesim_error \<times> rlc_entity" where
  "rlc_um_receive_pdu s pdu e =
     (if mode e \<noteq> RLC_MODE_UM then (UESIM_ERROR_INVALID_PARAM, e)
      else locked s e (case copy_pdu s pdu of
          Inl r \<Rightarrow> (r, e)
        | Inr c \<Rightarrow> (UESIM_SUCCESS, e\<lparr>um_rx_buffer := um_rx_buffer e @ [c]\<rparr>)))"

section \<open>Queues of service data units\<close>

definition rlc_queue_sdu :: "os \<Rightarrow> rlc_sdu option \<Rightarrow> rlc_entity option \<Rightarrow> uesim_error \<times> rlc_entity option" where
  "rlc_queue_sdu s sdu p = with_ptr p (\<lambda>e. case sdu of
     None \<Rightarrow> (UESIM_ERROR_INVALID_PARAM, e)
   | Some u \<Rightarrow> (case mode e of
       RLC_MODE_TM \<Rightarrow> locked s e (UESIM_SUCCESS, e\<lparr>tm_tx_buffer := tm_tx_buffer e @ [u]\<rparr>)
     | RLC_MODE_UM \<Rightarrow> (UESIM_ERROR_INVALID_PARAM, e)
     | RLC_MODE_AM \<Rightarrow> locked s e (UESIM_SUCCESS, e\<lparr>am_tx_buffer := am_tx_buffer e @ [u]\<rparr>)))"

text \<open>
  In acknowledged mode the code hands out the received unit through a pointer to the other
  structure; the layouts agree (data and length, the sequence number in the place of the
  identifier, segment offset and flag in the place of the creation time).
\<close>

definition pdu_as_sdu :: "rlc_pdu \<Rightarrow> rlc_sdu" where
  "pdu_as_sdu pdu = \<lparr>s_data = p_data pdu, sdu_id = p_sn pdu,
     creation_time = ucast (p_so pdu) OR (if p_is_segment pdu then push_bit 16 1 else 0)\<rparr>"

definition rlc_dequeue_sdu ::
  "os \<Rightarrow> bool \<Rightarrow> rlc_entity option \<Rightarrow> (uesim_error + rlc_sdu) \<times> rlc_entity option" where
  "rlc_dequeue_sdu s out p = with_obj p (\<lambda>e.
     if \<not> out then (Inl UESIM_ERROR_INVALID_PARAM, e)
     else (case mode e of
       RLC_MODE_TM \<Rightarrow>
         if \<not> lock_ok s 0 then (Inl UESIM_ERROR_THREAD, e)
         else (case tm_rx_buffer e of [] \<Rightarrow> (Inl UESIM_ERROR_INVALID_PARAM, e)
           | u # us \<Rightarrow> (Inr u, e\<lparr>tm_rx_buffer := us\<rparr>))
     | RLC_MODE_UM \<Rightarrow> (Inl UESIM_ERROR_INVALID_PARAM, e)
     | RLC_MODE_AM \<Rightarrow>
         if \<not> lock_ok s 0 then (Inl UESIM_ERROR_THREAD, e)
         else (case am_rx_buffer e of [] \<Rightarrow> (Inl UESIM_ERROR_INVALID_PARAM, e)
           | u # us \<Rightarrow> (Inr (pdu_as_sdu u), e\<lparr>am_rx_buffer := us\<rparr>))))"

section \<open>Counters and configuration\<close>

definition rlc_get_sequence_number :: "rlc_entity option \<Rightarrow> u16" where
  "rlc_get_sequence_number p = (case p of None \<Rightarrow> 0 | Some e \<Rightarrow> ucast (pdu_counter e))"

definition rlc_increment_sequence_number :: "rlc_entity option \<Rightarrow> uesim_error \<times> rlc_entity option" where
  "rlc_increment_sequence_number p = with_ptr p (\<lambda>e. (UESIM_SUCCESS, e\<lparr>pdu_counter := pdu_counter e + 1\<rparr>))"

definition rlc_is_entity_active :: "rlc_entity option \<Rightarrow> bool" where
  "rlc_is_entity_active p = (case p of None \<Rightarrow> False | Some e \<Rightarrow> rlc_active e)"

definition rlc_set_tm_config :: "rlc_config option \<Rightarrow> uesim_error \<times> rlc_config option" where
  "rlc_set_tm_config p = with_ptr p (\<lambda>c. (UESIM_SUCCESS, c\<lparr>cfg_mode := RLC_MODE_TM\<rparr>))"

definition rlc_set_um_config :: "u8 \<Rightarrow> u16 \<Rightarrow> rlc_config option \<Rightarrow> uesim_error \<times> rlc_config option" where
  "rlc_set_um_config len t p = with_ptr p (\<lambda>c.
     if len \<noteq> 6 \<and> len \<noteq> 12 then (UESIM_ERROR_INVALID_PARAM, c)
     else (UESIM_SUCCESS, c\<lparr>cfg_mode := RLC_MODE_UM, um_sn_length := len, um_t_reassembly := t,
       um_enable_ciphering := True\<rparr>))"

definition rlc_set_am_config ::
  "u8 \<Rightarrow> u16 \<Rightarrow> u16 \<Rightarrow> u16 \<Rightarrow> u32 \<Rightarrow> u32 \<Rightarrow> u16 \<Rightarrow> rlc_config option \<Rightarrow> uesim_error \<times> rlc_config option" where
  "rlc_set_am_config len tp tr ts pp pb mr p = with_ptr p (\<lambda>c.
     if len \<noteq> 12 \<and> len \<noteq> 18 then (UESIM_ERROR_INVALID_PARAM, c)
     else (UESIM_SUCCESS, c\<lparr>cfg_mode := RLC_MODE_AM, am_sn_length := len, am_t_poll_retransmit := tp,
       am_t_reassembly := tr, am_t_status_prohibit := ts, am_poll_pdu := pp, am_poll_byte := pb,
       am_max_retx_threshold := mr\<rparr>))"

end
