(* ===== verification/Rlc_Window.thy ===== *)
theory Rlc_Window
  imports Rlc "HOL-Library.While_Combinator"
begin

text \<open>
  The windows of the acknowledged mode of \<^verbatim>\<open>src/protocol/rlc.c\<close> and the status units
  that are built from them and read into them. A slot of a window is the list of the units that
  were chained into it. A call can end regularly, run forever (a \<^verbatim>\<open>while\<close> loop whose
  condition stays true) or leave the defined behaviour of C (a division by a window size of zero,
  an access outside of an array).
\<close>

section \<open>Outcomes\<close>

datatype 'a outcome = Done 'a | Diverges | Undefined_Behaviour

fun bind_outcome :: "'a outcome \<Rightarrow> ('a \<Rightarrow> 'b outcome) \<Rightarrow> 'b outcome" where
  "bind_outcome (Done x) f = f x"
| "bind_outcome Diverges f = Diverges"
| "bind_outcome Undefined_Behaviour f = Undefined_Behaviour"

lemma bind_outcome_Done:
  "bind_outcome x f = Done y \<longleftrightarrow> (\<exists>z. x = Done z \<and> f z = Done y)"
  by (cases x) auto

definition loop :: "('a \<Rightarrow> bool) \<Rightarrow> ('a \<Rightarrow> 'a) \<Rightarrow> 'a \<Rightarrow> 'a outcome" where
  "loop b c s = (case while_option b c s of None \<Rightarrow> Diverges | Some t \<Rightarrow> Done t)"

lemma loop_unfold: "loop b c s = (if b s then loop b c (c s) else Done s)"
  by (simp add: loop_def while_option_unfold [of b c s])

definition read_at :: "'a list \<Rightarrow> nat \<Rightarrow> 'a outcome" where
  "read_at xs i = (if i < length xs then Done (xs ! i) else Undefined_Behaviour)"

section \<open>Windows\<close>

definition rlc_am_init_tx_window :: "os \<Rightarrow> u16 \<Rightarrow> bool \<Rightarrow> uesim_error + rlc_am_tx_window" where
  "rlc_am_init_tx_window s ws ptr =
     (if \<not> ptr \<or> ws = 0 then Inl UESIM_ERROR_INVALID_PARAM
      else if \<not> alloc_ok s 0 then Inl UESIM_ERROR_MEMORY
      else if \<not> init_ok s 0 then Inl UESIM_ERROR_THREAD
      else Inr \<lparr>tx_slots = replicate (unat ws) [], tx_window_size = ws, vt_a = 0, vt_ms = ws, vt_s = 0\<rparr>)"

definition rlc_am_init_rx_window :: "os \<Rightarrow> u16 \<Rightarrow> bool \<Rightarrow> uesim_error + rlc_am_rx_window" where
  "rlc_am_init_rx_window s ws ptr =
     (if \<not> ptr \<or> ws = 0 then Inl UESIM_ERROR_INVALID_PARAM
      else if \<not> alloc_ok s 0 then Inl UESIM_ERROR_MEMORY
      else if \<not> init_ok s 0 then Inl UESIM_ERROR_THREAD
      else Inr \<lparr>rx_slots = replicate (unat ws) [], rx_window_size = ws, vr_r = 0, vr_mr = ws, vr_x = 0,
        vr_ms = 0, vr_h = 0\<rparr>)"

text \<open>\<^verbatim>\<open>uint16_t sn_mask = (sn_length == 12) ? 0xFFF : 0x3FFFF;\<close>\<close>

definition am_sn_mask :: "u8 \<Rightarrow> u16" where
  "am_sn_mask len = (if len = 12 then 0xFFF else ucast (0x3FFFF :: u32))"

text \<open>\<^verbatim>\<open>int16_t diff = (a - b) & sn_mask\<close>, compared as a signed number with the window size.\<close>

definition sn_diff :: "u16 \<Rightarrow> u16 \<Rightarrow> u16 \<Rightarrow> int" where
  "sn_diff m a b = sint ((a - b) AND m)"

definition slot_of :: "u16 \<Rightarrow> u16 \<Rightarrow> nat" where
  "slot_of sn ws = unat sn mod unat ws"

definition rlc_am_tx_window_insert ::
  "os \<Rightarrow> rlc_pdu option \<Rightarrow> u8 \<Rightarrow> rlc_am_tx_window option \<Rightarrow> (uesim_error \<times> rlc_am_tx_window option) outcome" where
  "rlc_am_tx_window_insert s p len w = (case (w, p) of
     (Some win, Some pdu) \<Rightarrow>
       if \<not> lock_ok s 0 then Done (UESIM_ERROR_THREAD, w)
       else if tx_window_size win = 0 then Undefined_Behaviour
       else let m = am_sn_mask len; idx = slot_of (p_sn pdu) (tx_window_size win) in
         if sn_diff m (p_sn pdu) (vt_a win) \<ge> uint (tx_window_size win) then Done (UESIM_ERROR_CAPACITY, w)
         else Done (UESIM_SUCCESS, Some (win\<lparr>tx_slots := (tx_slots win)[idx := pdu # tx_slots win ! idx],
           vt_s := (p_sn pdu + 1) AND m\<rparr>))
   | _ \<Rightarrow> Done (UESIM_ERROR_INVALID_PARAM, w))"

definition rlc_am_tx_window_get :: "rlc_am_tx_window option \<Rightarrow> u16 \<Rightarrow> rlc_pdu option outcome" where
  "rlc_am_tx_window_get w sn = (case w of None \<Rightarrow> Done None | Some win \<Rightarrow>
     if tx_slots win = [] then Done None
     else if tx_window_size win = 0 then Undefined_Behaviour
     else Done (case tx_slots win ! slot_of sn (tx_window_size win) of [] \<Rightarrow> None | pdu # _ \<Rightarrow> Some pdu))"

text \<open>The receive state moves over every slot that is not empty; no slot is ever emptied.\<close>

definition advance_vr_r :: "u16 \<Rightarrow> rlc_am_rx_window \<Rightarrow> rlc_am_rx_window outcome" where
  "advance_vr_r m = loop (\<lambda>win. rx_slots win ! slot_of (vr_r win) (rx_window_size win) \<noteq> [])
     (\<lambda>win. let r = (vr_r win + 1) AND m in win\<lparr>vr_r := r, vr_mr := (r + rx_window_size win) AND m\<rparr>)"

definition rlc_am_rx_window_insert ::
  "os \<Rightarrow> rlc_pdu option \<Rightarrow> u8 \<Rightarrow> rlc_am_rx_window option \<Rightarrow> (uesim_error \<times> rlc_am_rx_window option) outcome" where
  "rlc_am_rx_window_insert s p len w = (case (w, p) of
     (Some win, Some pdu) \<Rightarrow>
       if \<not> lock_ok s 0 then Done (UESIM_ERROR_THREAD, w)
       else if rx_window_size win = 0 then Undefined_Behaviour
       else let m = am_sn_mask len; ws = rx_window_size win; idx = slot_of (p_sn pdu) ws in
         if sn_diff m (p_sn pdu) (vr_r win) \<ge> uint ws then Done (UESIM_ERROR_CAPACITY, w)
         else let
           d = sn_diff m (p_sn pdu) (vr_h win);
           win' = win\<lparr>rx_slots := (rx_slots win)[idx := pdu # rx_slots win ! idx],
             vr_h := (if 0 < d \<and> d < uint ws then p_sn pdu else vr_h win)\<rparr>
         in bind_outcome (advance_vr_r m win') (\<lambda>win''. Done (UESIM_SUCCESS, Some win''))
   | _ \<Rightarrow> Done (UESIM_ERROR_INVALID_PARAM, w))"

definition rlc_am_rx_window_get :: "rlc_am_rx_window option \<Rightarrow> u16 \<Rightarrow> rlc_pdu option outcome" where
  "rlc_am_rx_window_get w sn = (case w of None \<Rightarrow> Done None | Some win \<Rightarrow>
     if rx_slots win = [] then Done None
     else if rx_window_size win = 0 then Undefined_Behaviour
     else Done (case rx_slots win ! slot_of sn (rx_window_size win) of [] \<Rightarrow> None | pdu # _ \<Rightarrow> Some pdu))"

section \<open>Entities in acknowledged mode\<close>

subsection \<open>Reading a status unit\<close>

text \<open>\<^verbatim>\<open>(data[bit / 8] >> (7 - bit % 8))\<close>\<close>

definition bits_at :: "u8 list \<Rightarrow> nat \<Rightarrow> u8 outcome" where
  "bits_at d pos = bind_outcome (read_at d (pos div 8)) (\<lambda>b. Done (drop_bit (7 - pos mod 8) b))"

definition flag_at :: "u8 list \<Rightarrow> nat \<Rightarrow> bool outcome" where
  "flag_at d pos = bind_outcome (bits_at d pos) (\<lambda>b. Done (b AND 1 = 1))"

definition read_ack_sn :: "u8 \<Rightarrow> u8 list \<Rightarrow> (u16 \<times> nat) outcome" where
  "read_ack_sn len d = bind_outcome (read_at d 0) (\<lambda>b0. bind_outcome (read_at d 1) (\<lambda>b1.
     if len = 12 then Done (push_bit 7 (ucast (b0 AND 0x1F)) OR ucast (drop_bit 1 b1 AND 0x7F), 16)
     else bind_outcome (read_at d 2) (\<lambda>b2.
       Done (push_bit 13 (ucast (b0 AND 0x1F)) OR push_bit 5 (ucast b1) OR ucast (drop_bit 3 b2 AND 0x1F), 24))))"

definition read_nack_sn :: "u8 \<Rightarrow> u8 list \<Rightarrow> nat \<Rightarrow> (u16 \<times> nat) outcome" where
  "read_nack_sn len d pos = bind_outcome (bits_at d pos) (\<lambda>x.
     if len = 12 then bind_outcome (bits_at d (pos + 5)) (\<lambda>y.
       Done (push_bit 7 (ucast (x AND 0x1F)) OR ucast (y AND 0x7F), pos + 12))
     else bind_outcome (bits_at d (pos + 5)) (\<lambda>y. bind_outcome (bits_at d (pos + 13)) (\<lambda>z.
       Done (push_bit 13 (ucast (x AND 0x1F)) OR push_bit 5 (ucast y) OR ucast (z AND 0x1F), pos + 18))))"

text \<open>Freeing the acknowledged slots: only the first unit of a slot is freed, the slot becomes empty.\<close>

definition ack_loop :: "u16 \<Rightarrow> u16 \<Rightarrow> rlc_am_tx_window \<Rightarrow> rlc_am_tx_window outcome" where
  "ack_loop m ack = loop (\<lambda>win. vt_a win \<noteq> ack)
     (\<lambda>win. win\<lparr>tx_slots := (tx_slots win)[slot_of (vt_a win) (tx_window_size win) := []],
       vt_a := (vt_a win + 1) AND m\<rparr>)"

definition mark_segment :: "rlc_pdu list \<Rightarrow> rlc_pdu list" where
  "mark_segment slot = (case slot of [] \<Rightarrow> [] | pdu # rest \<Rightarrow> pdu\<lparr>p_is_segment := True\<rparr> # rest)"

text \<open>
  The list of missing numbers. Every turn moves the bit position forward, so that the fuel \<open>8 *
  length d\<close> is enough.
\<close>

fun nack_loop :: "nat \<Rightarrow> u8 \<Rightarrow> u8 list \<Rightarrow> bool \<Rightarrow> nat \<Rightarrow> rlc_am_tx_window \<Rightarrow> rlc_am_tx_window outcome" where
  "nack_loop 0 len d e1 pos win = Diverges"
| "nack_loop (Suc n) len d e1 pos win =
     (if \<not> (e1 \<and> pos div 8 < length d) then Done win
      else bind_outcome (read_nack_sn len d pos) (\<lambda>(sn, pos').
        if tx_window_size win = 0 then Undefined_Behaviour
        else let idx = slot_of sn (tx_window_size win);
          win' = win\<lparr>tx_slots := (tx_slots win)[idx := mark_segment (tx_slots win ! idx)]\<rparr>
        in bind_outcome (flag_at d pos') (\<lambda>e1'. bind_outcome (flag_at d (pos' + 1)) (\<lambda>e2.
          nack_loop n len d e1' (pos' + 2 + (if e2 then 32 else 0)) win'))))"

definition rlc_am_process_status_pdu ::
  "os \<Rightarrow> u8 list option \<Rightarrow> rlc_entity option \<Rightarrow> (uesim_error \<times> rlc_entity option) outcome" where
  "rlc_am_process_status_pdu s data p = (case (p, data) of
     (Some e, Some d) \<Rightarrow>
       if d = [] \<or> mode e \<noteq> RLC_MODE_AM then Done (UESIM_ERROR_INVALID_PARAM, p)
       else if \<not> lock_ok s 0 then Done (UESIM_ERROR_THREAD, p)
       else if drop_bit 5 (d ! 0) AND 0x07 \<noteq> 0 then Done (UESIM_ERROR_PROTOCOL, p)
       else let len = am_sn_length (config e); win = tx_window e; m = am_sn_mask len in
         bind_outcome (read_ack_sn len d) (\<lambda>(ack, pos).
         bind_outcome (if vt_a win \<noteq> ack \<and> tx_window_size win = 0 then Undefined_Behaviour else ack_loop m ack win) (\<lambda>win1.
         bind_outcome (flag_at d pos) (\<lambda>e1.
         bind_outcome (nack_loop (8 * length d + 1) len d e1 (pos + 1) win1) (\<lambda>win2.
           Done (UESIM_SUCCESS, Some (e\<lparr>tx_window := win2\<rparr>))))))
   | _ \<Rightarrow> Done (UESIM_ERROR_INVALID_PARAM, p))"

subsection \<open>Writing a status unit\<close>

text \<open>\<^verbatim>\<open>pdu[bit / 8] |= v\<close> on the buffer of 128 bytes\<close>

definition or_at :: "u8 list \<Rightarrow> nat \<Rightarrow> u8 \<Rightarrow> u8 list" where
  "or_at d i v = d[i := d ! i OR v]"

definition write_ack_sn :: "u8 \<Rightarrow> u16 \<Rightarrow> u8 list \<Rightarrow> u8 list \<times> nat" where
  "write_ack_sn len ack d =
     (if len = 12 then ((or_at d 0 (ucast (drop_bit 7 ack AND 0x1F)))[1 := ucast (push_bit 1 (ack AND 0x7F))], 16)
      else ((or_at d 0 (ucast (drop_bit 13 ack AND 0x1F)))
        [1 := ucast (drop_bit 5 ack AND 0xFF), 2 := ucast (push_bit 3 (ack AND 0x1F))], 24))"

definition write_nack :: "u8 \<Rightarrow> u16 \<Rightarrow> u8 list \<times> nat \<Rightarrow> u8 list \<times> nat" where
  "write_nack len sn = (\<lambda>(d, pos). let
     d = or_at d (pos div 8) (push_bit (7 - pos mod 8) 1); pos = pos + 1 in
     if len = 12 then let
       d = or_at d (pos div 8) (ucast (drop_bit 7 sn AND 0x1F)); pos = pos + 5;
       d = or_at d (pos div 8) (ucast (push_bit (7 - pos mod 8) (sn AND 0x7F)))
       in (d, pos + 8)
     else let
       d = or_at d (pos div 8) (ucast (drop_bit 13 sn AND 0x1F)); pos = pos + 5;
       d = or_at d (pos div 8) (ucast (drop_bit 5 sn AND 0xFF)); pos = pos + 8;
       d = or_at d (pos div 8) (ucast (push_bit (7 - pos mod 8) (sn AND 0x1F)))
       in (d, pos + 6))"

text \<open>The state of the loop: the buffer with its bit position, the sequence number and the count.\<close>

definition nack_list :: "u8 \<Rightarrow> rlc_am_rx_window \<Rightarrow> u8 list \<times> nat \<Rightarrow> ((u8 list \<times> nat) \<times> u16 \<times> nat) outcome" where
  "nack_list len win db = loop (\<lambda>(_, sn, n). sn \<noteq> vr_h win \<and> n < 16)
     (\<lambda>(db, sn, n). if rx_slots win ! slot_of sn (rx_window_size win) = []
        then (write_nack len sn db, (sn + 1) AND am_sn_mask len, n + 1)
        else (db, (sn + 1) AND am_sn_mask len, n)) (db, vr_r win, 0)"

definition rlc_am_generate_status_pdu :: "os \<Rightarrow> bool \<Rightarrow> rlc_entity option \<Rightarrow> (uesim_error + u8 list) outcome" where
  "rlc_am_generate_status_pdu s out p = (case p of None \<Rightarrow> Done (Inl UESIM_ERROR_INVALID_PARAM) | Some e \<Rightarrow>
     if \<not> out \<or> mode e \<noteq> RLC_MODE_AM then Done (Inl UESIM_ERROR_INVALID_PARAM)
     else if \<not> lock_ok s 0 then Done (Inl UESIM_ERROR_THREAD)
     else if \<not> alloc_ok s 0 then Done (Inl UESIM_ERROR_MEMORY)
     else let len = am_sn_length (config e); win = rx_window e;
       db = write_ack_sn len (vr_r win) ((replicate 128 0)[0 := 0x80])
     in if vr_r win \<noteq> vr_h win \<and> rx_window_size win = 0 then Undefined_Behaviour
     else bind_outcome (nack_list len win db) (\<lambda>((d, pos), _).
       Done (Inr (take ((pos + 7) div 8)
         (d[pos div 8 := d ! (pos div 8) AND NOT (push_bit (7 - pos mod 8) 1)])))))"

subsection \<open>Polling and reception\<close>

definition rlc_am_poll_entity :: "os \<Rightarrow> rlc_entity option \<Rightarrow> (uesim_error \<times> rlc_entity option) outcome" where
  "rlc_am_poll_entity s p = (case p of None \<Rightarrow> Done (UESIM_ERROR_INVALID_PARAM, p) | Some e \<Rightarrow>
     if mode e \<noteq> RLC_MODE_AM then Done (UESIM_ERROR_INVALID_PARAM, p)
     else if \<not> lock_ok s 0 then Done (UESIM_ERROR_THREAD, p)
     else let
       by_pdu = poll_pdu_counter e \<ge> am_poll_pdu (config e);
       by_byte = poll_byte_counter e \<ge> am_poll_byte (config e);
       e' = e\<lparr>poll_pdu_counter := (if by_pdu then 0 else poll_pdu_counter e),
              poll_byte_counter := (if by_byte then 0 else poll_byte_counter e)\<rparr>
     in if by_pdu \<or> by_byte
       then bind_outcome (rlc_am_generate_status_pdu s False (Some e'))
         (\<lambda>r. Done (case r of Inl err \<Rightarrow> err | Inr _ \<Rightarrow> UESIM_SUCCESS, Some e'))
       else Done (UESIM_SUCCESS, Some e'))"

definition rlc_am_receive_pdu ::
  "os \<Rightarrow> rlc_pdu option \<Rightarrow> rlc_entity option \<Rightarrow> (uesim_error \<times> rlc_entity option) outcome" where
  "rlc_am_receive_pdu s p q = (case (q, p) of
     (Some e, Some pdu) \<Rightarrow>
       if mode e \<noteq> RLC_MODE_AM then Done (UESIM_ERROR_INVALID_PARAM, q)
       else if \<not> lock_ok s 0 then Done (UESIM_ERROR_THREAD, q)
       else if length (p_data pdu) \<ge> 2 \<and> p_data pdu ! 0 = 0xC0 then
         rlc_am_process_status_pdu (s\<lparr>lock_ok := (\<lambda>n. lock_ok s (n + 1))\<rparr>) (Some (p_data pdu)) q
       else (case copy_pdu s pdu of
           Inl r \<Rightarrow> Done (r, q)
         | Inr c \<Rightarrow> Done (UESIM_SUCCESS, Some (e\<lparr>am_rx_buffer := am_rx_buffer e @ [c]\<rparr>)))
   | _ \<Rightarrow> Done (UESIM_ERROR_INVALID_PARAM, q))"

definition rlc_receive_pdu ::
  "os \<Rightarrow> u32 \<Rightarrow> rlc_pdu option \<Rightarrow> rlc_entity option \<Rightarrow> (uesim_error \<times> rlc_entity option) outcome" where
  "rlc_receive_pdu s now p q = (case (q, p) of
     (Some e, Some pdu) \<Rightarrow>
       if \<not> rlc_active e then Done (UESIM_ERROR_INVALID_PARAM, q)
       else (case mode e of
         RLC_MODE_TM \<Rightarrow> (case rlc_tm_receive_pdu s now pdu e of (r, e') \<Rightarrow> Done (r, Some e'))
       | RLC_MODE_UM \<Rightarrow> (case rlc_um_receive_pdu s pdu e of (r, e') \<Rightarrow> Done (r, Some e'))
       | RLC_MODE_AM \<Rightarrow> rlc_am_receive_pdu s p q)
   | _ \<Rightarrow> Done (UESIM_ERROR_INVALID_PARAM, q))"

end
