(* ===== verification/Rlc_Proofs.thy ===== *)
theory Rlc_Proofs
  imports Rlc_Window
begin

text \<open>
  The properties of the radio link control entities: segmentation and reassembly, the life cycle
  as a step relation, and the receive queues as first-in first-out queues.
\<close>

section \<open>Segmentation\<close>

lemma num_segments_bounds:
  "0 < len \<Longrightarrow> len \<le> num_segments len * RLC_MAX_PDU_SIZE"
  "0 < len \<Longrightarrow> (num_segments len - 1) * RLC_MAX_PDU_SIZE < len"
  "0 < len \<Longrightarrow> 0 < num_segments len"
  by (simp_all add: num_segments_def RLC_MAX_PDU_SIZE_def)

lemma segment_of_append:
  assumes "d \<noteq> []" and "i < num_segments (length d)"
  shows "segment_of (num_segments (length d)) d i @ drop (Suc i * RLC_MAX_PDU_SIZE) d = drop (i * RLC_MAX_PDU_SIZE) d"
proof (cases "i = num_segments (length d) - 1")
  case True
  then have "Suc i * RLC_MAX_PDU_SIZE \<ge> length d" using assms num_segments_bounds(1) [of "length d"] by simp
  then show ?thesis using True by (simp add: segment_of_def)
next
  case False
  then show ?thesis by (simp add: segment_of_def Let_def) (metis append_take_drop_id drop_drop add.commute)
qed

lemma segment_of_length:
  assumes "d \<noteq> []" and "i < num_segments (length d)"
  shows "length (segment_of (num_segments (length d)) d i) \<le> RLC_MAX_PDU_SIZE"
proof (cases "i = num_segments (length d) - 1")
  case True
  then have "length d \<le> Suc i * RLC_MAX_PDU_SIZE" using assms num_segments_bounds(1) [of "length d"] by simp
  then show ?thesis using True by (simp add: segment_of_def)
qed (simp add: segment_of_def Let_def)

lemma segment_loop_result:
  assumes "d \<noteq> []" and "num = num_segments (length d)" and "k \<le> num"
    and "segment_loop s num k d ctr = (Inr pdus, c)"
  shows "concat (map p_data pdus) = drop ((num - k) * RLC_MAX_PDU_SIZE) d \<and> length pdus = k \<and>
    (\<forall>pdu \<in> set pdus. length (p_data pdu) \<le> RLC_MAX_PDU_SIZE) \<and> c = ctr + word_of_nat k \<and>
    map p_sn pdus = map (\<lambda>i. ucast (ctr + word_of_nat i)) [0..<k] \<and>
    map p_fi pdus = map (framing_info num) [num - k..<num]"
  using assms(3,4)
proof (induction k arbitrary: ctr pdus)
  case 0
  have "length d \<le> num * RLC_MAX_PDU_SIZE" using num_segments_bounds(1) [of "length d"] assms(1,2) by simp
  with 0 show ?case by simp
next
  case (Suc k)
  let ?i = "num - Suc k"
  obtain rest where pdus: "pdus = \<lparr>p_data = segment_of num d ?i, p_sn = ucast ctr, p_fi = framing_info num ?i,
      p_so = 0, p_is_segment = False\<rparr> # rest" and rest: "segment_loop s num k d (ctr + 1) = (Inr rest, c)"
    using Suc.prems(2) by (auto simp: Let_def rlc_create_pdu_def split: sum.splits if_splits prod.splits)
  have k: "k \<le> num" and i: "num - k = Suc ?i" and lt: "?i < num" using Suc.prems(1) by auto
  note IH = Suc.IH [OF k rest]
  have "map (\<lambda>i. ucast (ctr + 1 + word_of_nat i) :: u16) [0..<k] = map (\<lambda>i. ucast (ctr + word_of_nat i)) [Suc 0..<Suc k]"
    by (simp add: map_Suc_upt [symmetric] ac_simps del: upt_Suc)
  then have sn: "map p_sn pdus = map (\<lambda>i. ucast (ctr + word_of_nat i)) [0..<Suc k]"
    using IH by (simp add: pdus upt_conv_Cons del: upt_Suc)
  have fi: "map p_fi pdus = map (framing_info num) [?i..<num]"
    using IH lt i by (simp add: pdus upt_conv_Cons)
  have data: "concat (map p_data pdus) = drop (?i * RLC_MAX_PDU_SIZE) d"
    using IH segment_of_append [OF assms(1), of ?i] lt i by (simp add: pdus assms(2))
  show ?case
    using IH sn fi data segment_of_length [OF assms(1), of ?i] lt by (simp add: pdus assms(2) add.commute add.left_commute)
qed

lemma rlc_segment_result:
  assumes "rlc_segment s d e = (Inr pdus, e')" and "d \<noteq> []"
  shows "concat (map p_data pdus) = d \<and> pdus \<noteq> [] \<and>
    (\<forall>pdu \<in> set pdus. length (p_data pdu) \<le> RLC_MAX_PDU_SIZE) \<and>
    pdu_counter e' = pdu_counter e + word_of_nat (length pdus) \<and>
    map p_sn pdus = map (\<lambda>i. ucast (pdu_counter e + word_of_nat i)) [0..<length pdus] \<and>
    map p_fi pdus = map (framing_info (length pdus)) [0..<length pdus]"
proof -
  let ?n = "num_segments (length d)"
  obtain c where l: "segment_loop s ?n ?n d (pdu_counter e) = (Inr pdus, c)" and e': "e' = e\<lparr>pdu_counter := c\<rparr>"
    using assms(1) by (auto simp: rlc_segment_def Let_def split: prod.splits)
  note r = segment_loop_result [OF assms(2) refl order_refl l]
  then have "length pdus = ?n" by simp
  moreover have "0 < ?n" using assms(2) num_segments_bounds(3) [of "length d"] by simp
  ultimately show ?thesis using r e' by auto
qed

section \<open>Life cycle\<close>

inductive rlc_step :: "rlc_entity \<Rightarrow> rlc_entity \<Rightarrow> bool" where
  configure: "rlc_configure_entity s cfg (Some e) = (r, Some e') \<Longrightarrow> rlc_step e e'"
| activate: "rlc_activate_entity s (Some e) = (r, Some e') \<Longrightarrow> rlc_step e e'"
| deactivate: "rlc_deactivate_entity s (Some e) = (r, Some e') \<Longrightarrow> rlc_step e e'"
| suspend: "rlc_suspend_entity s (Some e) = (r, Some e') \<Longrightarrow> rlc_step e e'"
| resume: "rlc_resume_entity s (Some e) = (r, Some e') \<Longrightarrow> rlc_step e e'"
| tx: "rlc_process_tx_data s sdu out (Some e) = (x, Some e') \<Longrightarrow> rlc_step e e'"
| receive: "rlc_receive_pdu s now pdu (Some e) = Done (r, Some e') \<Longrightarrow> rlc_step e e'"
| queue: "rlc_queue_sdu s u (Some e) = (r, Some e') \<Longrightarrow> rlc_step e e'"
| dequeue: "rlc_dequeue_sdu s out (Some e) = (y, Some e') \<Longrightarrow> rlc_step e e'"

inductive rlc_reach :: "rlc_entity \<Rightarrow> bool" where
  create: "rlc_create_entity s True b dir m cfg g = (Inr e, g') \<Longrightarrow> rlc_reach e"
| step: "rlc_reach e \<Longrightarrow> rlc_step e e' \<Longrightarrow> rlc_reach e'"

definition rlc_status_inv :: "rlc_entity \<Rightarrow> bool" where
  "rlc_status_inv e \<longleftrightarrow> (rlc_active e \<longleftrightarrow> status e = RLC_STATUS_ACTIVE) \<and> status e \<noteq> RLC_STATUS_IDLE"

lemma self_tx_window: "\<exists>w. e = e\<lparr>tx_window := w\<rparr>"
  by (rule exI [of _ "tx_window e"]) simp

lemma process_status_frame:
  assumes "rlc_am_process_status_pdu s data (Some e) = Done (r, Some e')"
  shows "\<exists>w. e' = e\<lparr>tx_window := w\<rparr>"
proof (cases data)
  case (Some d)
  show ?thesis
  proof (cases "d = [] \<or> mode e \<noteq> RLC_MODE_AM \<or> \<not> lock_ok s 0 \<or> drop_bit 5 (d ! 0) AND 0x07 \<noteq> 0")
    case True
    then have "e' = e" using assms Some by (auto simp: rlc_am_process_status_pdu_def split: if_splits)
    then show ?thesis using self_tx_window by simp
  next
    case False
    then show ?thesis
      using assms Some by (fastforce simp: rlc_am_process_status_pdu_def Let_def bind_outcome_Done)
  qed
qed (use assms self_tx_window in \<open>simp add: rlc_am_process_status_pdu_def\<close>)

lemma am_receive_frame:
  assumes "rlc_am_receive_pdu s p (Some e) = Done (r, Some e')"
  shows "\<exists>w b. e' = e\<lparr>tx_window := w, am_rx_buffer := b\<rparr>"
proof -
  have same: "\<exists>w b. e = e\<lparr>tx_window := w, am_rx_buffer := b\<rparr>"
    by (rule exI [of _ "tx_window e"], rule exI [of _ "am_rx_buffer e"]) simp
  have queued: "\<exists>w b. e\<lparr>am_rx_buffer := x\<rparr> = e\<lparr>tx_window := w, am_rx_buffer := b\<rparr>" for x
    by (rule exI [of _ "tx_window e"], rule exI [of _ x]) simp
  have status: "\<exists>w b. x = e\<lparr>tx_window := w, am_rx_buffer := b\<rparr>"
    if h: "rlc_am_process_status_pdu t d (Some e) = Done (r, Some x)" for t d x
  proof -
    obtain w where "x = e\<lparr>tx_window := w\<rparr>" using process_status_frame [OF h] ..
    then show ?thesis by (intro exI [of _ w] exI [of _ "am_rx_buffer e"]) simp
  qed
  show ?thesis
    using assms status same queued
    by (auto simp: rlc_am_receive_pdu_def split: option.splits if_splits sum.splits)
qed

lemma receive_frame:
  assumes "rlc_receive_pdu s now p (Some e) = Done (r, Some e')"
  shows "rlc_active e' = rlc_active e \<and> status e' = status e \<and> mode e' = mode e"
proof (cases p)
  case (Some pdu)
  show ?thesis
  proof (cases "mode e")
    case RLC_MODE_AM
    with assms Some have "rlc_am_receive_pdu s p (Some e) = Done (r, Some e') \<or> e' = e"
      by (auto simp: rlc_receive_pdu_def split: if_splits)
    then show ?thesis using am_receive_frame by fastforce
  qed (use assms Some in \<open>auto simp: rlc_receive_pdu_def rlc_tm_receive_pdu_def rlc_um_receive_pdu_def locked_def
      rlc_create_sdu_def split: if_splits prod.splits sum.splits\<close>)
qed (use assms in \<open>simp add: rlc_receive_pdu_def\<close>)

lemma tx_frame:
  assumes "rlc_process_tx_data s sdu out (Some e) = (x, Some e')"
  shows "rlc_active e' = rlc_active e \<and> status e' = status e \<and> mode e' = mode e"
  using assms
  by (auto simp: rlc_process_tx_data_def rlc_tm_process_tx_data_def rlc_um_process_tx_data_def
      rlc_am_process_tx_data_def rlc_segment_def Let_def
      split: option.splits if_splits prod.splits sum.splits rlc_mode.splits)

lemma rlc_step_inv [inv_keep]: "rlc_step e e' \<Longrightarrow> rlc_status_inv e \<Longrightarrow> rlc_status_inv e'"
proof (induction rule: rlc_step.induct)
  case (tx s sdu out e x e')
  then show ?case using tx_frame by (fastforce simp: rlc_status_inv_def)
next
  case (receive s now pdu e r e')
  then show ?case using receive_frame by (fastforce simp: rlc_status_inv_def)
qed (auto simp: rlc_status_inv_def rlc_configure_entity_def rlc_activate_entity_def rlc_deactivate_entity_def
    rlc_suspend_entity_def rlc_resume_entity_def rlc_queue_sdu_def rlc_dequeue_sdu_def locked_def
    split: option.splits if_splits prod.splits rlc_mode.splits list.splits)

lemma rlc_reach_inv: "rlc_reach e \<Longrightarrow> rlc_status_inv e"
proof (induction rule: rlc_reach.induct)
  case (create s b dir m cfg g e g')
  then show ?case by (auto simp: rlc_create_entity_def rlc_status_inv_def split: if_splits option.splits)
qed (rule rlc_step_inv)

section \<open>Receive queues\<close>

definition rlc_receiving :: "rlc_entity \<Rightarrow> bool" where
  "rlc_receiving e \<longleftrightarrow> rlc_active e \<and> mode e \<noteq> RLC_MODE_UM"

definition rlc_received :: "rlc_entity \<Rightarrow> u8 list list" where
  "rlc_received e = (if mode e = RLC_MODE_TM then map s_data (tm_rx_buffer e) else map p_data (am_rx_buffer e))"

definition plain_pdu :: "u8 list \<Rightarrow> rlc_pdu" where
  "plain_pdu d = \<lparr>p_data = d, p_sn = 0, p_fi = 0, p_so = 0, p_is_segment = False\<rparr>"

text \<open>Receiving a data unit; control units of the acknowledged mode are not queued.\<close>

definition rlc_put :: "u8 list \<Rightarrow> rlc_entity \<Rightarrow> rlc_entity option" where
  "rlc_put d e =
     (if mode e = RLC_MODE_AM \<and> 2 \<le> length d \<and> d ! 0 = 0xC0 then None
      else case rlc_receive_pdu good_os 0 (Some (plain_pdu d)) (Some e) of
        Done (UESIM_SUCCESS, Some e') \<Rightarrow> Some e' | _ \<Rightarrow> None)"

definition rlc_get :: "rlc_entity \<Rightarrow> (u8 list \<times> rlc_entity) option" where
  "rlc_get e = (case rlc_dequeue_sdu good_os True (Some e) of
     (Inr u, Some e') \<Rightarrow> Some (s_data u, e') | _ \<Rightarrow> None)"

lemma rlc_put_cases:
  assumes "rlc_receiving e" and "rlc_put d e = Some e'"
  shows "rlc_receiving e' \<and> rlc_received e' = rlc_received e @ [d]"
  using assms
  by (cases "mode e")
    (auto simp: rlc_put_def rlc_receiving_def rlc_received_def rlc_receive_pdu_def rlc_tm_receive_pdu_def
      rlc_create_sdu_def rlc_am_receive_pdu_def copy_pdu_def rlc_create_pdu_def unit_allocs_def plain_pdu_def
      split: if_splits)

lemma rlc_get_cases:
  assumes "rlc_receiving e"
  shows "(case rlc_get e of None \<Rightarrow> rlc_received e = []
    | Some (d, e') \<Rightarrow> rlc_receiving e' \<and> rlc_received e = d # rlc_received e')"
  using assms
  by (cases "mode e")
    (auto simp: rlc_get_def rlc_receiving_def rlc_received_def rlc_dequeue_sdu_def pdu_as_sdu_def split: list.splits)

lemma rlc_get_Some:
  assumes "rlc_receiving e" and "rlc_get e = Some (d, e')"
  shows "rlc_receiving e' \<and> rlc_received e = d # rlc_received e'"
  using rlc_get_cases [OF assms(1)] assms(2) by simp

interpretation rlc: fifo rlc_receiving rlc_received rlc_put rlc_get
proof unfold_locales
  fix e e' d
  assume e: "rlc_receiving e"
  show "rlc_received e' = rlc_received e @ [d]" "rlc_receiving e'" if "rlc_put d e = Some e'"
    using rlc_put_cases [OF e that] by simp_all
  show "rlc_received e = d # rlc_received e'" "rlc_receiving e'" if "rlc_get e = Some (d, e')"
    using rlc_get_Some [OF e that] by simp_all
  show "rlc_get e = None \<longleftrightarrow> rlc_received e = []"
    using rlc_get_cases [OF e] by (auto split: option.splits)
qed

section \<open>Properties\<close>

text \<open>
  C11. Segmentation and reassembly: the segments of a service data unit carry at most 8192 bytes,
  consecutive sequence numbers and the framing information of their place, and an active
  receiver of the same mode puts them together to the original unit.
\<close>

theorem rlc_tx_rx:
  assumes tx: "rlc_process_tx_data s (Some d) True (Some e) = (Inr pdus, Some e')"
    and rx: "rlc_active r" "status r = RLC_STATUS_ACTIVE" "mode r = mode e" "alloc_ok s' 0"
  shows "rlc_process_rx_data s' pdus True (Some r) = Inr d \<and>
    (mode e \<noteq> RLC_MODE_TM \<longrightarrow>
      (\<forall>pdu \<in> set pdus. length (p_data pdu) \<le> RLC_MAX_PDU_SIZE) \<and>
      pdu_counter e' = pdu_counter e + word_of_nat (length pdus) \<and>
      map p_sn pdus = map (\<lambda>i. ucast (pdu_counter e + word_of_nat i)) [0..<length pdus] \<and>
      map p_fi pdus = map (framing_info (length pdus)) [0..<length pdus])"
proof (cases "mode e = RLC_MODE_TM")
  case True
  then show ?thesis
    using tx rx by (auto simp: rlc_process_tx_data_def rlc_tm_process_tx_data_def rlc_create_pdu_def
        rlc_process_rx_data_def rlc_tm_process_rx_data_def split: if_splits sum.splits)
next
  case False
  then have "rlc_segment s d e = (Inr pdus, e')" and d: "d \<noteq> []"
    using tx by (auto simp: rlc_process_tx_data_def rlc_um_process_tx_data_def rlc_am_process_tx_data_def
        split: if_splits prod.splits rlc_mode.splits)
  note seg = rlc_segment_result [OF this]
  then have "rlc_process_rx_data s' pdus True (Some r) = Inr d"
    using False rx by (auto simp: rlc_process_rx_data_def rlc_um_process_rx_data_def rlc_am_process_rx_data_def
        rlc_reassemble_def split: rlc_mode.splits)
  with seg show ?thesis by blast
qed

theorem rlc_tx_rx_witness:
  "rlc_process_rx_data good_os [plain_pdu [1, 2, 3]] True
     (Some ((case fst (rlc_create_entity good_os True 4 0 (Some RLC_MODE_UM) None 7) of Inr e \<Rightarrow> e)
       \<lparr>rlc_active := True, status := RLC_STATUS_ACTIVE\<rparr>)) = Inr [1, 2, 3]"
proof -
  let ?e = "(case fst (rlc_create_entity good_os True 4 0 (Some RLC_MODE_UM) None 7) of Inr e \<Rightarrow> e)
    \<lparr>rlc_active := True, status := RLC_STATUS_ACTIVE\<rparr>"
  have "rlc_process_tx_data good_os (Some [1, 2, 3]) True (Some ?e) = (Inr [plain_pdu [1, 2, 3]], Some (?e\<lparr>pdu_counter := 1\<rparr>))"
    by (simp add: rlc_create_entity_def RLC_BEARER_DRB_MAX_def rlc_process_tx_data_def rlc_um_process_tx_data_def
        rlc_segment_def num_segments_def RLC_MAX_PDU_SIZE_def rlc_create_pdu_def unit_allocs_def segment_of_def
        framing_info_def plain_pdu_def)
  from rlc_tx_rx [OF this, of ?e good_os] show ?thesis
    by (simp add: rlc_create_entity_def RLC_BEARER_DRB_MAX_def)
qed

text \<open>
  In every state an entity reaches through configuration, activation, suspension, data
  transfer and queueing, in any order, it is active exactly when its status is ACTIVE; it then
  transmits every non-empty unit, and in every other status it transmits none.
\<close>

theorem rlc_transmits_when_active:
  assumes "rlc_reach e" and "d \<noteq> []"
  shows "rlc_active e = (status e = RLC_STATUS_ACTIVE) \<and>
    (\<exists>x. fst (rlc_process_tx_data good_os (Some d) True (Some e)) =
      (if status e = RLC_STATUS_ACTIVE then Inr x else Inl UESIM_ERROR_INVALID_PARAM))"
proof -
  have ok: "\<exists>pdus c. segment_loop good_os num k d ctr = (Inr pdus, c)" for num k ctr
  proof (induction k arbitrary: ctr)
    case (Suc k)
    obtain pdus c where "segment_loop good_os num k d (ctr + 1) = (Inr pdus, c)" using Suc by blast
    then show ?case by (simp add: Let_def rlc_create_pdu_def unit_allocs_def)
  qed simp
  obtain pdus c where seg: "segment_loop good_os (num_segments (length d)) (num_segments (length d)) d (pdu_counter e) = (Inr pdus, c)"
    using ok by blast
  have "rlc_active e = (status e = RLC_STATUS_ACTIVE)" using rlc_reach_inv [OF assms(1)] by (simp add: rlc_status_inv_def)
  with assms(2) show ?thesis
    by (cases "mode e") (auto simp: rlc_process_tx_data_def rlc_tm_process_tx_data_def rlc_um_process_tx_data_def
        rlc_am_process_tx_data_def rlc_segment_def rlc_create_pdu_def unit_allocs_def seg)
qed

definition rlc_example :: rlc_entity where
  "rlc_example = (case fst (rlc_create_entity good_os True 4 0 (Some RLC_MODE_AM) None 7) of Inr e \<Rightarrow> e)"

lemma rlc_example_reach: "rlc_reach rlc_example"
  by (rule rlc_reach.create [of good_os 4 0 "Some RLC_MODE_AM" None 7])
    (simp add: rlc_example_def rlc_create_entity_def RLC_BEARER_DRB_MAX_def)

theorem rlc_transmits_when_active_witness:
  "fst (rlc_process_tx_data good_os (Some [1, 2]) True (Some rlc_example)) = Inl UESIM_ERROR_INVALID_PARAM"
  using rlc_transmits_when_active [OF rlc_example_reach, of "[1, 2]"]
  by (simp add: rlc_example_def rlc_create_entity_def RLC_BEARER_DRB_MAX_def)

text \<open>
  Units received by an active entity in transparent or acknowledged mode are handed out in
  the order of their arrival, none lost, duplicated or altered, whatever the order of receptions
  and removals.
\<close>

theorem rlc_receive_queue_fifo:
  assumes "rlc_active e" and "mode e \<noteq> RLC_MODE_UM" and "run_queue rlc_put rlc_get e ops = (ins, outs, e')"
  shows "rlc_received e @ ins = outs @ rlc_received e'"
  using rlc.run_fifo [OF _ assms(3)] assms(1,2) by (simp add: rlc_receiving_def)

theorem rlc_receive_queue_fifo_witness:
  "fst (snd (run_queue rlc_put rlc_get (rlc_example\<lparr>rlc_active := True\<rparr>) [Put [1], Put [2, 3], Get, Get, Get])) = [[1], [2, 3]]"
proof -
  obtain ins outs e' where run: "run_queue rlc_put rlc_get (rlc_example\<lparr>rlc_active := True\<rparr>)
      [Put [1], Put [2, 3], Get, Get, Get] = (ins, outs, e')"
    by (metis prod_cases3)
  then have "ins = [[1], [2, 3]]" and "rlc_received e' = []"
    by (auto simp: rlc_example_def rlc_create_entity_def RLC_BEARER_DRB_MAX_def rlc_put_def rlc_get_def rlc_receive_pdu_def
        rlc_am_receive_pdu_def copy_pdu_def rlc_create_pdu_def unit_allocs_def plain_pdu_def rlc_dequeue_sdu_def
        rlc_received_def)
  then show ?thesis
    using rlc_receive_queue_fifo [OF _ _ run] run
    by (simp add: rlc_received_def rlc_example_def rlc_create_entity_def RLC_BEARER_DRB_MAX_def)
qed

end
