(* ===== verification/Rlc_Window_Proofs.thy ===== *)
theory Rlc_Window_Proofs
  imports Rlc_Window
begin

text \<open>
  The properties of the windows and of the status units of the acknowledged mode: what an
  acknowledgement frees, why the receive window stops working, and why an entity refuses the
  status units that its peer writes.
\<close>

section \<open>Loops\<close>

lemma loop_diverges:
  assumes "I s" and "\<And>s. I s \<Longrightarrow> b s \<and> I (c s)"
  shows "loop b c s = Diverges"
proof -
  have "while_option b c s = None"
  proof (rule ccontr)
    assume "while_option b c s \<noteq> None"
    then obtain t where t: "while_option b c s = Some t" by blast
    have "I t" using while_option_rule [where P = I, OF _ t assms(1)] assms(2) by blast
    with assms(2) while_option_stop [OF t] show False by blast
  qed
  then show ?thesis by (simp add: loop_def)
qed

lemma loop_rule:
  assumes "loop b c s = Done t" and "P s" and "\<And>s. P s \<Longrightarrow> b s \<Longrightarrow> P (c s)"
  shows "P t"
  using assms(1) while_option_rule [where P = P and b = b and c = c, OF assms(3) _ assms(2)]
  by (auto simp: loop_def split: option.splits)

section \<open>Sequence numbers\<close>

lemma am_sn_mask_12 [simp]: "am_sn_mask 12 = mask 12"
  by (simp add: am_sn_mask_def mask_eq_exp_minus_1)

lemma am_sn_mask_18: "len \<noteq> 12 \<Longrightarrow> am_sn_mask len = - 1"
  by (simp add: am_sn_mask_def)

lemma unat_and_mask12: "unat (w AND mask 12 :: u16) = unat w mod 4096"
proof -
  have "unat (w AND mask 12) = unat (take_bit 12 w)" by (simp only: take_bit_eq_mask)
  also have "\<dots> = take_bit 12 (unat w)" by (rule unsigned_take_bit_eq)
  finally show ?thesis by (simp add: take_bit_eq_mod)
qed

lemma sn_diff_12: "sn_diff (mask 12) a b = int (unat (a - b) mod 4096)"
proof -
  let ?x = "(a - b) AND mask 12"
  have "unat ?x < 4096" by (simp only: unat_and_mask12)
  then have "uint ?x < 4096" by (simp only: uint_nat of_nat_less_numeral_iff)
  moreover have "- (2 ^ 15) \<le> uint ?x" by (rule order_trans [of _ 0]) simp_all
  ultimately have "signed_take_bit 15 (uint ?x) = uint ?x" by (intro signed_take_bit_int_eq_self) simp_all
  then have "sint ?x = uint ?x" by (simp add: sint_uint)
  then show ?thesis by (simp only: sn_diff_def uint_nat unat_and_mask12)
qed

lemma unat_sn_add: "unat ((a + word_of_nat n) AND mask 12 :: u16) = (unat a + n) mod 4096"
proof -
  have "unat (a + word_of_nat n) mod 4096 = (unat a + n mod 65536) mod 65536 mod 4096"
    by (simp add: unat_word_ariths(1) unsigned_of_nat take_bit_eq_mod)
  also have "\<dots> = (unat a + n mod 65536) mod 4096" by (rule mod_mod_cancel) simp
  also have "\<dots> = (unat a + n mod 65536 mod 4096) mod 4096" by (simp add: mod_add_right_eq)
  also have "n mod 65536 mod 4096 = n mod 4096" by (rule mod_mod_cancel) simp
  finally show ?thesis by (simp add: unat_and_mask12 mod_add_right_eq)
qed

section \<open>Acknowledgements\<close>

text \<open>The slots that the sequence numbers from \<open>a\<close> on, \<open>n\<close> of them, occupy.\<close>

definition acked_slots :: "nat \<Rightarrow> nat \<Rightarrow> nat \<Rightarrow> nat set" where
  "acked_slots ws a n = (\<lambda>j. (a + j) mod 4096 mod ws) ` {..<n}"

lemma acked_slots_Suc:
  "acked_slots ws a (Suc n) = insert (a mod 4096 mod ws) (acked_slots ws ((a + 1) mod 4096) n)"
proof -
  have "{..<Suc n} = insert 0 (Suc ` {..<n})" by (rule lessThan_Suc_eq_insert_0)
  then show ?thesis
    by (auto simp: acked_slots_def image_image mod_add_left_eq add.assoc)
qed

lemma ack_loop_result:
  assumes "vt_a win AND mask 12 = vt_a win" and "ack = (vt_a win + word_of_nat n) AND mask 12" and "n < 4096"
    and "0 < unat (tx_window_size win)" and "length (tx_slots win) = unat (tx_window_size win)"
  shows "ack_loop (mask 12) ack win = Done (win\<lparr>vt_a := ack,
    tx_slots := map (\<lambda>i. if i \<in> acked_slots (unat (tx_window_size win)) (unat (vt_a win)) n then [] else tx_slots win ! i)
      [0..<length (tx_slots win)]\<rparr>)"
  using assms
proof (induction n arbitrary: win)
  case 0
  then have "map (\<lambda>i. if i \<in> acked_slots (unat (tx_window_size win)) (unat (vt_a win)) 0 then [] else tx_slots win ! i)
      [0..<length (tx_slots win)] = tx_slots win"
    by (intro nth_equalityI) (simp_all add: acked_slots_def)
  with 0 show ?case by (simp add: ack_loop_def loop_unfold)
next
  case (Suc n)
  let ?ws = "unat (tx_window_size win)" and ?a = "unat (vt_a win)"
  have a: "?a < 4096" using Suc.prems(1) by (metis unat_and_mask12 mod_less_divisor zero_less_numeral)
  have ne: "vt_a win \<noteq> ack"
  proof
    assume "vt_a win = ack"
    then have "?a = (?a + Suc n) mod 4096" using Suc.prems(2) unat_sn_add [of "vt_a win" "Suc n"] by simp
    with a Suc.prems(3) show False by (simp add: mod_if split: if_splits)
  qed
  let ?win = "win\<lparr>tx_slots := (tx_slots win)[slot_of (vt_a win) (tx_window_size win) := []], vt_a := (vt_a win + 1) AND mask 12\<rparr>"
  have a1: "unat (vt_a ?win) = (?a + 1) mod 4096" using unat_sn_add [of "vt_a win" 1] by simp
  have ack: "ack = (vt_a ?win + word_of_nat n) AND mask 12"
  proof -
    have "unat ack = unat ((vt_a ?win + word_of_nat n) AND mask 12)"
      unfolding unat_sn_add a1 using Suc.prems(2) unat_sn_add [of "vt_a win" "Suc n"] by (simp add: mod_add_left_eq)
    then show ?thesis by (simp add: word_unat_eq_iff)
  qed
  have IH: "ack_loop (mask 12) ack ?win = Done (?win\<lparr>vt_a := ack,
      tx_slots := map (\<lambda>i. if i \<in> acked_slots ?ws ((?a + 1) mod 4096) n then [] else tx_slots ?win ! i)
        [0..<length (tx_slots win)]\<rparr>)"
    using Suc.IH [of ?win] ack Suc.prems a1 by (simp add: and.assoc)
  have "map (\<lambda>i. if i \<in> acked_slots ?ws ((?a + 1) mod 4096) n then [] else tx_slots ?win ! i) [0..<length (tx_slots win)] =
      map (\<lambda>i. if i \<in> acked_slots ?ws ?a (Suc n) then [] else tx_slots win ! i) [0..<length (tx_slots win)]"
    using Suc.prems(4) a by (intro nth_equalityI) (auto simp: acked_slots_Suc slot_of_def nth_list_update)
  with IH ne show ?case by (simp add: ack_loop_def loop_unfold [of _ _ win])
qed

section \<open>Status units\<close>

lemma length_or_at [simp]: "length (or_at d i v) = length d"
  by (simp add: or_at_def)

lemma or_at_other: "0 < i \<Longrightarrow> or_at d i v ! 0 = d ! 0"
  by (simp add: or_at_def)

text \<open>The buffer keeps its length and its first bit, and the position stays behind the second byte.\<close>

definition status_buffer :: "u8 list \<times> nat \<Rightarrow> bool" where
  "status_buffer db \<longleftrightarrow> length (fst db) = 128 \<and> bit (fst db ! 0) 7 \<and> 16 \<le> snd db"

lemma write_ack_sn_buffer: "status_buffer (write_ack_sn len ack ((replicate 128 0)[0 := 0x80]))"
  by (auto simp: status_buffer_def write_ack_sn_def or_at_def bit_or_iff)

lemma write_nack_buffer:
  assumes "status_buffer db"
  shows "status_buffer (write_nack len sn db)"
proof -
  obtain d pos where db: "db = (d, pos)" by fastforce
  have "0 < pos div 8" "0 < (pos + 1) div 8" "0 < (pos + 1 + 5) div 8" "0 < (pos + 1 + 5 + 8) div 8"
    using assms by (simp_all add: status_buffer_def db div_greater_zero_iff)
  then show ?thesis
    using assms by (simp add: status_buffer_def db write_nack_def Let_def or_at_other)
qed

lemma nack_list_buffer:
  assumes "nack_list len win db = Done (db', x)" and "status_buffer db"
  shows "status_buffer db'"
proof -
  have "(\<lambda>(db, _, _). status_buffer db) (db', x)"
    by (rule loop_rule [OF assms(1) [unfolded nack_list_def]]) (auto simp: assms(2) split: if_splits, metis write_nack_buffer)
  then show ?thesis by (auto split: prod.splits)
qed

lemma generated_first_byte:
  assumes "rlc_am_generate_status_pdu s True (Some e) = Done (Inr d)"
  shows "d \<noteq> [] \<and> bit (d ! 0) 7"
proof -
  let ?len = "am_sn_length (config e)" and ?win = "rx_window e"
  let ?db = "write_ack_sn ?len (vr_r ?win) ((replicate 128 0)[0 := 0x80])"
  obtain b pos x where l: "nack_list ?len ?win ?db = Done ((b, pos), x)"
    and d: "d = take ((pos + 7) div 8) (b[pos div 8 := b ! (pos div 8) AND NOT (push_bit (7 - pos mod 8) 1)])"
    using assms by (cases "nack_list ?len ?win ?db")
      (auto simp: rlc_am_generate_status_pdu_def Let_def split: if_splits)
  have "status_buffer (b, pos)" by (rule nack_list_buffer [OF l write_ack_sn_buffer])
  then have "16 \<le> pos" "length b = 128" "bit (b ! 0) 7" by (simp_all add: status_buffer_def)
  moreover from this(1) have "0 < (pos + 7) div 8" "0 < pos div 8" by simp_all
  ultimately show ?thesis by (auto simp: d)
qed

lemma control_type_nonzero: "bit (b :: u8) 7 \<Longrightarrow> drop_bit 5 b AND 0x07 \<noteq> 0"
proof
  assume b: "bit b 7" and z: "drop_bit 5 b AND 0x07 = 0"
  have "(0x07 :: u8) = mask 3" by (simp add: mask_eq_exp_minus_1)
  with b have "bit (drop_bit 5 b AND 0x07) 2" by (simp add: bit_and_iff bit_drop_bit_eq bit_mask_iff)
  with z show False by simp
qed

section \<open>The receive window in order\<close>

text \<open>\<open>in_order k win\<close>: the units \<open>0, \<dots>, k - 1\<close> have been inserted into a fresh window.\<close>

definition in_order :: "nat \<Rightarrow> rlc_am_rx_window \<Rightarrow> bool" where
  "in_order k win \<longleftrightarrow> 0 < rx_window_size win \<and> unat (rx_window_size win) \<le> 4096 \<and>
     length (rx_slots win) = unat (rx_window_size win) \<and> k < unat (rx_window_size win) \<and>
     vr_r win = word_of_nat k \<and> (\<forall>i < unat (rx_window_size win). rx_slots win ! i \<noteq> [] \<longleftrightarrow> i < k)"

lemma unat_u16: "n < 65536 \<Longrightarrow> unat (word_of_nat n :: u16) = n"
  by (simp add: unsigned_of_nat take_bit_nat_eq_self)

lemma sn_next: "k < 4095 \<Longrightarrow> (word_of_nat k + 1 :: u16) AND mask 12 = word_of_nat (k + 1)"
proof -
  assume k: "k < 4095"
  have "unat ((word_of_nat k + word_of_nat 1 :: u16) AND mask 12) = k + 1"
    using k by (simp only: unat_sn_add unat_u16) simp
  moreover have "unat (word_of_nat (k + 1) :: u16) = k + 1" by (rule unat_u16) (use k in simp)
  ultimately show ?thesis by (simp only: word_unat_eq_iff of_nat_1)
qed

lemma insert_start:
  assumes "in_order k win" and "p_sn pdu = word_of_nat k"
  shows "rlc_am_rx_window_insert good_os (Some pdu) 12 (Some win) =
    bind_outcome (advance_vr_r (mask 12) (win\<lparr>rx_slots := (rx_slots win)[k := [pdu]],
      vr_h := (let d = sn_diff (mask 12) (p_sn pdu) (vr_h win) in
        if 0 < d \<and> d < uint (rx_window_size win) then p_sn pdu else vr_h win)\<rparr>))
      (\<lambda>w. Done (UESIM_SUCCESS, Some w))"
proof -
  have k: "k < unat (rx_window_size win)" "unat (rx_window_size win) \<le> 4096" "vr_r win = word_of_nat k"
    "rx_slots win ! k = []" and ws: "0 < rx_window_size win" using assms(1) by (auto simp: in_order_def)
  have slot: "slot_of (p_sn pdu) (rx_window_size win) = k"
    using k by (simp add: slot_of_def assms(2) unat_u16)
  have "sn_diff (mask 12) (p_sn pdu) (vr_r win) = 0" by (simp add: sn_diff_12 assms(2) k(3))
  moreover have "0 < uint (rx_window_size win)" using ws by (simp add: word_less_def)
  moreover have "rx_window_size win \<noteq> 0" using ws by auto
  ultimately show ?thesis
    using ws by (simp add: rlc_am_rx_window_insert_def Let_def slot k(4))
qed

lemma insert_in_order:
  assumes "in_order k win" and "p_sn pdu = word_of_nat k" and "Suc k < unat (rx_window_size win)"
  shows "\<exists>win'. rlc_am_rx_window_insert good_os (Some pdu) 12 (Some win) = Done (UESIM_SUCCESS, Some win') \<and>
    in_order (Suc k) win' \<and> rx_window_size win' = rx_window_size win"
proof -
  define h where "h = (let d = sn_diff (mask 12) (p_sn pdu) (vr_h win) in
    if 0 < d \<and> d < uint (rx_window_size win) then p_sn pdu else vr_h win)"
  let ?w = "win\<lparr>rx_slots := (rx_slots win)[k := [pdu]], vr_h := h\<rparr>"
  have io: "0 < rx_window_size win" "unat (rx_window_size win) \<le> 4096" "length (rx_slots win) = unat (rx_window_size win)"
    "vr_r win = word_of_nat k" "\<And>i. i < unat (rx_window_size win) \<Longrightarrow> rx_slots win ! i \<noteq> [] \<longleftrightarrow> i < k"
    using assms(1) by (auto simp: in_order_def)
  have s: "slot_of (word_of_nat k) (rx_window_size win) = k" "slot_of (word_of_nat (Suc k)) (rx_window_size win) = Suc k"
    using assms(3) io(2) by (simp_all add: slot_of_def unat_u16 del: of_nat_Suc)
  have next_sn: "(word_of_nat k + 1 :: u16) AND mask 12 = word_of_nat (Suc k)"
    using sn_next [of k] assms(3) io(2) by simp
  define w' where "w' = ?w\<lparr>vr_r := word_of_nat (Suc k), vr_mr := (word_of_nat (Suc k) + rx_window_size win) AND mask 12\<rparr>"
  have "advance_vr_r (mask 12) ?w = advance_vr_r (mask 12) w'"
    unfolding advance_vr_r_def using assms(3) io(3)
    by (subst loop_unfold) (simp add: io(4) s(1) next_sn w'_def Let_def del: of_nat_Suc)
  also have "\<dots> = Done w'"
    unfolding advance_vr_r_def using assms(3) io(5) [of "Suc k"]
    by (subst loop_unfold) (simp add: s(2) w'_def del: of_nat_Suc)
  finally have "rlc_am_rx_window_insert good_os (Some pdu) 12 (Some win) = Done (UESIM_SUCCESS, Some w')"
    unfolding insert_start [OF assms(1,2)] h_def [symmetric] by simp
  moreover have "in_order (Suc k) w'"
    using io assms(3) by (auto simp: in_order_def w'_def nth_list_update less_Suc_eq)
  ultimately show ?thesis by (auto simp: w'_def)
qed

lemma insert_last:
  assumes "in_order k win" and "p_sn pdu = word_of_nat k" and "Suc k = unat (rx_window_size win)"
  shows "rlc_am_rx_window_insert good_os (Some pdu) 12 (Some win) = Diverges"
proof -
  define h where "h = (let d = sn_diff (mask 12) (p_sn pdu) (vr_h win) in
    if 0 < d \<and> d < uint (rx_window_size win) then p_sn pdu else vr_h win)"
  let ?w = "win\<lparr>rx_slots := (rx_slots win)[k := [pdu]], vr_h := h\<rparr>"
  have io: "0 < unat (rx_window_size win)" "length (rx_slots win) = unat (rx_window_size win)"
    "\<And>i. i < unat (rx_window_size win) \<Longrightarrow> rx_slots win ! i \<noteq> [] \<longleftrightarrow> i < k"
    using assms by (auto simp: in_order_def)
  have full: "\<forall>i < unat (rx_window_size win). rx_slots ?w ! i \<noteq> []"
    using io assms(3) by (auto simp: nth_list_update less_Suc_eq)
  have "advance_vr_r (mask 12) ?w = Diverges"
    unfolding advance_vr_r_def
    by (rule loop_diverges [where I = "\<lambda>w. rx_window_size w = rx_window_size win \<and> rx_slots w = rx_slots ?w"])
      (use full io(1) in \<open>auto simp: Let_def slot_of_def\<close>)
  then show ?thesis unfolding insert_start [OF assms(1,2)] h_def [symmetric] by simp
qed

fun rx_insert_run :: "rlc_pdu list \<Rightarrow> rlc_am_rx_window \<Rightarrow> rlc_am_rx_window outcome" where
  "rx_insert_run [] win = Done win"
| "rx_insert_run (p # ps) win = bind_outcome (rlc_am_rx_window_insert good_os (Some p) 12 (Some win))
     (\<lambda>(_, w). case w of None \<Rightarrow> Undefined_Behaviour | Some w' \<Rightarrow> rx_insert_run ps w')"

lemma rx_insert_run_in_order:
  assumes "in_order k win" and "map p_sn ps = map word_of_nat [k..<k + length ps]"
  shows "(k + length ps < unat (rx_window_size win) \<longrightarrow>
      (\<exists>win'. rx_insert_run ps win = Done win' \<and> in_order (k + length ps) win')) \<and>
    (unat (rx_window_size win) \<le> k + length ps \<longrightarrow> rx_insert_run ps win = Diverges)"
  using assms
proof (induction ps arbitrary: k win)
  case Nil
  then show ?case by (auto simp: in_order_def)
next
  case (Cons p ps)
  have p: "p_sn p = word_of_nat k" and ps: "map p_sn ps = map word_of_nat [Suc k..<Suc k + length ps]"
    using Cons.prems(2) by (simp_all add: upt_conv_Cons del: upt_Suc)
  show ?case
  proof (cases "Suc k < unat (rx_window_size win)")
    case True
    obtain w where w: "rlc_am_rx_window_insert good_os (Some p) 12 (Some win) = Done (UESIM_SUCCESS, Some w)"
      "in_order (Suc k) w" "rx_window_size w = rx_window_size win"
      using insert_in_order [OF Cons.prems(1) p True] by blast
    then show ?thesis using Cons.IH [OF w(2) ps] by simp
  next
    case False
    then have "Suc k = unat (rx_window_size win)" using Cons.prems(1) by (simp add: in_order_def)
    from insert_last [OF Cons.prems(1) p this] False show ?thesis by simp
  qed
qed

section \<open>Properties\<close>

text \<open>
  C12. The receive window never empties a slot, so it works for one window only: from a fresh
  window of up to 4096 slots, units that arrive in order are inserted and counted by VR(R) as
  long as they are fewer than the window size, and the insertion of the last one of a full window
  never returns.
\<close>

theorem rlc_rx_window_diverges:
  assumes "rlc_am_init_rx_window s ws True = Inr win" and "unat ws \<le> 4096"
    and "map p_sn ps = map word_of_nat [0..<length ps]"
  shows "(length ps < unat ws \<longrightarrow> (\<exists>win'. rx_insert_run ps win = Done win' \<and> vr_r win' = word_of_nat (length ps))) \<and>
    (unat ws \<le> length ps \<longrightarrow> rx_insert_run ps win = Diverges)"
proof -
  have "in_order 0 win" and "rx_window_size win = ws"
    using assms(1,2) by (auto simp: rlc_am_init_rx_window_def in_order_def word_neq_0_conv unat_gt_0 split: if_splits)
  with rx_insert_run_in_order [of 0 win ps] assms(3) show ?thesis by (auto simp: in_order_def)
qed

theorem rlc_rx_window_diverges_witness:
  "rx_insert_run [\<lparr>p_data = [1], p_sn = 0, p_fi = 0, p_so = 0, p_is_segment = False\<rparr>,
      \<lparr>p_data = [2], p_sn = 1, p_fi = 0, p_so = 0, p_is_segment = False\<rparr>]
    \<lparr>rx_slots = [[], []], rx_window_size = 2, vr_r = 0, vr_mr = 2, vr_x = 0, vr_ms = 0, vr_h = 0\<rparr> = Diverges"
proof -
  have "rlc_am_init_rx_window good_os 2 True =
      Inr \<lparr>rx_slots = [[], []], rx_window_size = 2, vr_r = 0, vr_mr = 2, vr_x = 0, vr_ms = 0, vr_h = 0\<rparr>"
    by (simp add: rlc_am_init_rx_window_def) (simp add: numeral_2_eq_2)
  from rlc_rx_window_diverges [OF this, of "[\<lparr>p_data = [1], p_sn = 0, p_fi = 0, p_so = 0, p_is_segment = False\<rparr>,
      \<lparr>p_data = [2], p_sn = 1, p_fi = 0, p_so = 0, p_is_segment = False\<rparr>]"]
  show ?thesis by simp
qed

text \<open>
  No entity accepts a status unit that another one has generated: the generated unit starts
  with the bit that the parser takes for a control type other than status.
\<close>

theorem rlc_status_pdu_refused:
  assumes "rlc_am_generate_status_pdu s True (Some e) = Done (Inr d)"
    and "mode e' = RLC_MODE_AM" and "lock_ok s' 0"
  shows "rlc_am_process_status_pdu s' (Some d) (Some e') = Done (UESIM_ERROR_PROTOCOL, Some e')"
  using generated_first_byte [OF assms(1)] control_type_nonzero [of "d ! 0"] assms(2,3)
  by (simp add: rlc_am_process_status_pdu_def)

definition am_example :: rlc_entity where
  "am_example = (case fst (rlc_create_entity good_os True 4 0 (Some RLC_MODE_AM)
     (snd (rlc_set_am_config 12 45 35 10 4 1000 8 (Some zero_config))) 7) of Inr e \<Rightarrow> e)
     \<lparr>tx_window := \<lparr>tx_slots = [[], []], tx_window_size = 2, vt_a = 0, vt_ms = 2, vt_s = 0\<rparr>,
      rx_window := \<lparr>rx_slots = [[], []], rx_window_size = 2, vr_r = 0, vr_mr = 2, vr_x = 0, vr_ms = 0, vr_h = 0\<rparr>\<rparr>"

lemmas am_example_unfold = am_example_def rlc_create_entity_def RLC_BEARER_DRB_MAX_def rlc_set_am_config_def

theorem rlc_status_pdu_refused_witness:
  "rlc_am_process_status_pdu good_os (Some [0x80, 0]) (Some am_example) = Done (UESIM_ERROR_PROTOCOL, Some am_example)"
proof -
  have "rlc_am_generate_status_pdu good_os True (Some am_example) = Done (Inr [0x80, 0])"
    by code_simp
  moreover have "mode am_example = RLC_MODE_AM" by (simp add: am_example_unfold)
  ultimately show ?thesis by (rule rlc_status_pdu_refused) simp
qed

text \<open>
  A status unit with 12-bit numbers and the control type of the standard acknowledges
  exactly the units below its number: the transmit window's VT(A) becomes that number, and the
  slots of the numbers in between are emptied, all others kept.
\<close>

theorem rlc_ack_frees_slots:
  assumes "mode e = RLC_MODE_AM" and "am_sn_length (config e) = 12" and "lock_ok s 0"
    and "ack = (vt_a (tx_window e) + word_of_nat n) AND mask 12" and "n < 4096"
    and "vt_a (tx_window e) AND mask 12 = vt_a (tx_window e)"
    and "0 < unat (tx_window_size (tx_window e))" and "length (tx_slots (tx_window e)) = unat (tx_window_size (tx_window e))"
    and "d = [ucast (drop_bit 7 ack), ucast (push_bit 1 ack), b]" and "\<not> bit b 7"
  shows "rlc_am_process_status_pdu s (Some d) (Some e) = Done (UESIM_SUCCESS, Some (e\<lparr>tx_window := (tx_window e)\<lparr>
    vt_a := ack, tx_slots := map (\<lambda>i. if i \<in> acked_slots (unat (tx_window_size (tx_window e))) (unat (vt_a (tx_window e))) n
      then [] else tx_slots (tx_window e) ! i) [0..<length (tx_slots (tx_window e))]\<rparr>\<rparr>))"
proof -
  have small: "bit ack m \<Longrightarrow> m < 12" for m
    using assms(4) by (metis bit_and_iff bit_mask_iff)
  have cpt: "drop_bit 5 (ucast (drop_bit 7 ack) :: u8) AND 0x07 = 0"
    by (rule bit_word_eqI) (auto simp: bit_simps dest: small)
  have double: "bit (ack * 2) (Suc m) \<longleftrightarrow> m < 15 \<and> bit ack m" for m
    by (simp add: mult.commute [of ack] bit_double_iff)
  have masks: "(0x1F :: u8) = mask 5" "(0x7F :: u8) = mask 7" by (simp_all add: mask_eq_exp_minus_1)
  have sn: "push_bit 7 (ucast ((ucast (drop_bit 7 ack) :: u8) AND 0x1F)) OR
      ucast (drop_bit 1 (ucast (push_bit 1 ack) :: u8) AND 0x7F) = ack"
    unfolding masks by (rule bit_word_eqI) (auto simp: bit_simps double dest: small)
  have flag: "flag_at d 16 = Done False"
    using assms(9,10) by (simp add: flag_at_def bits_at_def read_at_def flip: bit_iff_and_drop_bit_eq_1)
  have nacks: "nack_loop m len x False pos win = Done win" if "0 < m" for m len x pos win
    using that by (cases m) simp_all
  have ws: "tx_window_size (tx_window e) \<noteq> 0" using assms(7) by auto
  show ?thesis
    using assms(1-3) ack_loop_result [OF assms(6,4,5,7,8)] cpt sn flag ws
    by (simp add: rlc_am_process_status_pdu_def assms(9) Let_def read_ack_sn_def read_at_def nacks)
qed

definition sn_pdu :: "u16 \<Rightarrow> rlc_pdu" where
  "sn_pdu sn = \<lparr>p_data = [1], p_sn = sn, p_fi = 0, p_so = 0, p_is_segment = False\<rparr>"

theorem rlc_ack_frees_slots_witness:
  "\<exists>e'. rlc_am_process_status_pdu good_os (Some [0, 2, 0]) (Some (am_example
      \<lparr>tx_window := \<lparr>tx_slots = [[sn_pdu 0], [sn_pdu 1]], tx_window_size = 2, vt_a = 0, vt_ms = 2, vt_s = 2\<rparr>\<rparr>)) =
    Done (UESIM_SUCCESS, Some e') \<and> vt_a (tx_window e') = 1 \<and> tx_slots (tx_window e') = [[], [sn_pdu 1]]"
proof -
  let ?e = "am_example\<lparr>tx_window := \<lparr>tx_slots = [[sn_pdu 0], [sn_pdu 1]], tx_window_size = 2, vt_a = 0, vt_ms = 2, vt_s = 2\<rparr>\<rparr>"
  have "mode ?e = RLC_MODE_AM" and "am_sn_length (config ?e) = 12" by (simp_all add: am_example_unfold)
  from rlc_ack_frees_slots [OF this, of good_os 1 1 "[0, 2, 0]" 0] show ?thesis
    by (simp add: acked_slots_def lessThan_Suc mask_eq_exp_minus_1)
qed

text \<open>
  With 18-bit numbers the window check is void in one direction: the mask does not fit the
  16-bit variable and the difference becomes negative, so that a unit up to 32768 numbers behind
  VR(R) is never refused for lack of capacity.
\<close>

theorem rlc_18_bit_window_check:
  assumes "len \<noteq> 12" and "0 < n" and "n \<le> 32768" and "p_sn pdu = vr_r win - word_of_nat n"
  shows "rlc_am_rx_window_insert s (Some pdu) len (Some win) \<noteq> Done (UESIM_ERROR_CAPACITY, w)"
proof -
  have "sint (word_of_int (- int n) :: u16) = signed_take_bit 15 (- int n)"
    unfolding sint_sbintrunc' by simp
  also have "\<dots> = - int n" by (rule signed_take_bit_int_eq_self) (use assms(2,3) in simp_all)
  finally have "sn_diff (am_sn_mask len) (p_sn pdu) (vr_r win) = - int n"
    using assms(1,4) by (simp add: sn_diff_def am_sn_mask_18)
  moreover have "\<not> uint (rx_window_size win) \<le> - int n"
  proof -
    have "0 \<le> uint (rx_window_size win)" by simp
    with assms(2) show ?thesis by linarith
  qed
  ultimately show ?thesis
    by (auto simp: rlc_am_rx_window_insert_def Let_def bind_outcome_Done split: if_splits)
qed

theorem rlc_18_bit_window_check_witness:
  "rlc_am_rx_window_insert good_os (Some \<lparr>p_data = [1], p_sn = 0, p_fi = 0, p_so = 0, p_is_segment = False\<rparr>) 18
     (Some \<lparr>rx_slots = [[], []], rx_window_size = 2, vr_r = 10, vr_mr = 12, vr_x = 0, vr_ms = 0, vr_h = 0\<rparr>)
   \<noteq> Done (UESIM_ERROR_CAPACITY, None)"
  by (rule rlc_18_bit_window_check [of _ 10]) simp_all

end
