(* ===== verification/Ue_Context.thy ===== *)
theory Ue_Context
  imports Pdcp Rlc
begin

text \<open>
  The context of a simulated UE (\<^verbatim>\<open>src/uesim.h\<close>, \<^verbatim>\<open>src/core/uesim_core.c\<close>): its creation, the
  tables of the RLC and PDCP entities, the bearer configuration with its counters, DRX,
  capabilities, statistics and the pointers to the other layers' contexts; and the operations
  of \<^verbatim>\<open>pdcp.c\<close> and \<^verbatim>\<open>rlc.c\<close> that fill and empty the tables.

  A slot of a table holds the entity its pointer leads to: a pointer is stored in one slot
  only, so that an operation on the entity through the caller's pointer is an update of the slot.
  Pointers to contexts of other layers are addresses (\<open>None\<close> for \<open>NULL\<close>). The memory of a destroyed
  entity is not read again. Its sockets and gNB connections are not part of this theory.
\<close>

section \<open>State\<close>

definition UESIM_MAX_SRB :: nat where "UESIM_MAX_SRB = 4"
definition UESIM_MAX_DRB :: nat where "UESIM_MAX_DRB = 32"
definition UESIM_MAX_RLC_ENTITIES :: nat where "UESIM_MAX_RLC_ENTITIES = 36"
definition UESIM_MAX_PDCP_ENTITIES :: nat where "UESIM_MAX_PDCP_ENTITIES = 36"

lemmas ue_limits = UESIM_MAX_SRB_def UESIM_MAX_DRB_def UESIM_MAX_RLC_ENTITIES_def UESIM_MAX_PDCP_ENTITIES_def

datatype rrc_state = RRC_STATE_IDLE | RRC_STATE_CONNECTED | RRC_STATE_INACTIVE | RRC_STATE_CONNECTING

record ue_capabilities =
  ue_category :: u8
  supported_bands :: "u8 list"
  num_bands :: u8
  nr_capability :: bool
  lte_capability :: bool
  pdcp_sn_lengths :: u8
  supported_modulation_ul :: bool
  supported_modulation_dl :: bool

record ue_bearer_config =
  bc_active :: bool
  bc_bearer_id :: u8
  bc_lcid :: u8
  bc_priority :: u8
  prioritized_bit_rate :: u16
  bucket_size_duration :: u16

record ue_drx_config =
  drx_enabled :: bool
  on_duration_timer :: u32
  drx_inactivity_timer :: u32
  drx_retransmission_timer :: u32
  long_drx_cycle :: u32
  short_drx_cycle :: u32
  drx_short_cycle_count :: u16
  drx_start_offset :: u32
  use_short_drx :: bool

text \<open>The start times and running flags of T300, T301, T302, T304, T310 and T311.\<close>

record ue_rrc_timers =
  timer_start_times :: "u32 list"
  timer_running :: "bool list"

record ue_stats =
  tx_bytes :: u64
  rx_bytes :: u64
  tx_packets :: u64
  rx_packets :: u64
  rrc_procedures_success :: u64
  rrc_procedures_failed :: u64
  handovers_success :: u64
  handovers_failed :: u64
  rach_attempts :: u64
  rach_success :: u64
  connection_start_time :: int
  last_activity_time :: int
  connection_duration_s :: u32

record ue_context =
  current_state :: rrc_state
  ue_active :: bool
  serving_gnb :: "nat option"
  candidate_gnbs :: "nat option list"
  num_candidate_gnbs :: u8
  ngap_socket :: int
  gtpu_socket :: int
  rx_buffer_size :: nat
  tx_buffer_size :: nat
  imsi :: string
  msisdn :: string
  ue_tac :: u16
  gnb_ip :: u32
  gnb_port :: u16
  nas_ctx :: "nat option"
  rrc_state_ctx :: "nat option"
  rrc_meas_ctx :: "nat option"
  phy_ctx :: "nat option"
  mac_entity :: "nat option"
  rlc_entities :: "rlc_entity option list"
  pdcp_entities :: "pdcp_entity option list"
  num_active_rlc_entities :: u8
  num_active_pdcp_entities :: u8
  srb_config :: "ue_bearer_config list"
  drb_config :: "ue_bearer_config list"
  num_active_srbs :: u8
  num_active_drbs :: u8
  capabilities :: ue_capabilities
  drx_config :: ue_drx_config
  rrc_timers :: ue_rrc_timers
  ue_stats_of :: ue_stats

section \<open>Creation\<close>

definition zero_bearer :: ue_bearer_config where
  "zero_bearer = \<lparr>bc_active = False, bc_bearer_id = 0, bc_lcid = 0, bc_priority = 0,
     prioritized_bit_rate = 0, bucket_size_duration = 0\<rparr>"

definition zero_drx :: ue_drx_config where
  "zero_drx = \<lparr>drx_enabled = False, on_duration_timer = 0, drx_inactivity_timer = 0,
     drx_retransmission_timer = 0, long_drx_cycle = 0, short_drx_cycle = 0,
     drx_short_cycle_count = 0, drx_start_offset = 0, use_short_drx = False\<rparr>"

definition zero_stats :: ue_stats where
  "zero_stats = \<lparr>tx_bytes = 0, rx_bytes = 0, tx_packets = 0, rx_packets = 0,
     rrc_procedures_success = 0, rrc_procedures_failed = 0, handovers_success = 0,
     handovers_failed = 0, rach_attempts = 0, rach_success = 0, connection_start_time = 0,
     last_activity_time = 0, connection_duration_s = 0\<rparr>"

definition default_capabilities :: ue_capabilities where
  "default_capabilities = \<lparr>ue_category = 15, supported_bands = replicate 16 0, num_bands = 0,
     nr_capability = True, lte_capability = True, pdcp_sn_lengths = 0x06,
     supported_modulation_ul = False, supported_modulation_dl = False\<rparr>"

text \<open>A number printed with \<open>w\<close> decimal digits (\<^verbatim>\<open>%0wd\<close> for a number that fits).\<close>

fun decimal :: "nat \<Rightarrow> nat \<Rightarrow> string" where
  "decimal 0 n = ''''"
| "decimal (Suc w) n = decimal w (n div 10) @ [char_of (48 + n mod 10)]"

text \<open>
  \<open>alloc_ok 0\<close> is the outcome for the context, 1 and 2 for its buffers; \<open>init_ok\<close> 0 to 2 for the two
  mutexes and the condition variable. \<open>r1\<close> and \<open>r2\<close> are the results of \<^verbatim>\<open>rand\<close>, \<open>now\<close> of \<^verbatim>\<open>time\<close>.
\<close>

definition uesim_create_ue_instance ::
  "os \<Rightarrow> bool \<Rightarrow> nat \<Rightarrow> nat \<Rightarrow> int \<Rightarrow> uesim_error + ue_context" where
  "uesim_create_ue_instance s out r1 r2 now =
     (if \<not> out then Inl UESIM_ERROR_INVALID_PARAM
      else if \<not> alloc_ok s 0 then Inl UESIM_ERROR_MEMORY
      else if \<not> init_ok s 0 \<or> \<not> init_ok s 1 \<or> \<not> init_ok s 2 then Inl UESIM_ERROR_THREAD
      else if \<not> alloc_ok s 1 \<or> \<not> alloc_ok s 2 then Inl UESIM_ERROR_MEMORY
      else Inr \<lparr>current_state = RRC_STATE_IDLE, ue_active = False,
        serving_gnb = None, candidate_gnbs = replicate 8 None, num_candidate_gnbs = 0,
        ngap_socket = -1, gtpu_socket = -1, rx_buffer_size = 65536, tx_buffer_size = 65536,
        imsi = ''00101'' @ decimal 10 (r1 mod 1000000000),
        msisdn = ''12345'' @ decimal 6 (r2 mod 1000000),
        ue_tac = 1, gnb_ip = 0x0100007F, gnb_port = 38412,
        nas_ctx = None, rrc_state_ctx = None, rrc_meas_ctx = None, phy_ctx = None, mac_entity = None,
        rlc_entities = replicate UESIM_MAX_RLC_ENTITIES None,
        pdcp_entities = replicate UESIM_MAX_PDCP_ENTITIES None,
        num_active_rlc_entities = 0, num_active_pdcp_entities = 0,
        srb_config = replicate UESIM_MAX_SRB zero_bearer,
        drb_config = replicate UESIM_MAX_DRB zero_bearer,
        num_active_srbs = 0, num_active_drbs = 0,
        capabilities = default_capabilities, drx_config = zero_drx,
        rrc_timers = \<lparr>timer_start_times = replicate 6 0, timer_running = replicate 6 False\<rparr>,
        ue_stats_of = zero_stats\<lparr>connection_start_time := now\<rparr>\<rparr>)"

definition uesim_start_ue :: "os \<Rightarrow> ue_context option \<Rightarrow> uesim_error \<times> ue_context option" where
  "uesim_start_ue s p = with_ptr p (\<lambda>c. locked s c
     (if ue_active c then (UESIM_SUCCESS, c) else (UESIM_SUCCESS, c\<lparr>ue_active := True\<rparr>)))"

section \<open>Contexts of the other layers\<close>

definition ue_get_nas_context :: "ue_context option \<Rightarrow> nat option" where
  "ue_get_nas_context p = (case p of None \<Rightarrow> None | Some c \<Rightarrow> nas_ctx c)"

definition ue_set_nas_context :: "nat option \<Rightarrow> ue_context option \<Rightarrow> uesim_error \<times> ue_context option" where
  "ue_set_nas_context a p = with_ptr p (\<lambda>c. (UESIM_SUCCESS, c\<lparr>nas_ctx := a\<rparr>))"

definition ue_get_rrc_state_context :: "ue_context option \<Rightarrow> nat option" where
  "ue_get_rrc_state_context p = (case p of None \<Rightarrow> None | Some c \<Rightarrow> rrc_state_ctx c)"

definition ue_set_rrc_state_context :: "nat option \<Rightarrow> ue_context option \<Rightarrow> uesim_error \<times> ue_context option" where
  "ue_set_rrc_state_context a p = with_ptr p (\<lambda>c. (UESIM_SUCCESS, c\<lparr>rrc_state_ctx := a\<rparr>))"

definition ue_get_rrc_meas_context :: "ue_context option \<Rightarrow> nat option" where
  "ue_get_rrc_meas_context p = (case p of None \<Rightarrow> None | Some c \<Rightarrow> rrc_meas_ctx c)"

definition ue_set_rrc_meas_context :: "nat option \<Rightarrow> ue_context option \<Rightarrow> uesim_error \<times> ue_context option" where
  "ue_set_rrc_meas_context a p = with_ptr p (\<lambda>c. (UESIM_SUCCESS, c\<lparr>rrc_meas_ctx := a\<rparr>))"

definition ue_get_phy_context :: "ue_context option \<Rightarrow> nat option" where
  "ue_get_phy_context p = (case p of None \<Rightarrow> None | Some c \<Rightarrow> phy_ctx c)"

definition ue_set_phy_context :: "nat option \<Rightarrow> ue_context option \<Rightarrow> uesim_error \<times> ue_context option" where
  "ue_set_phy_context a p = with_ptr p (\<lambda>c. (UESIM_SUCCESS, c\<lparr>phy_ctx := a\<rparr>))"

definition ue_get_mac_entity :: "ue_context option \<Rightarrow> nat option" where
  "ue_get_mac_entity p = (case p of None \<Rightarrow> None | Some c \<Rightarrow> mac_entity c)"

definition ue_set_mac_entity :: "nat option \<Rightarrow> ue_context option \<Rightarrow> uesim_error \<times> ue_context option" where
  "ue_set_mac_entity a p = with_ptr p (\<lambda>c. (UESIM_SUCCESS, c\<lparr>mac_entity := a\<rparr>))"

section \<open>Entity tables\<close>

text \<open>The counter of a table when a slot changes from \<open>old\<close> to \<open>new\<close>; it is eight bits wide.\<close>

definition slot_counter :: "'e option \<Rightarrow> 'e option \<Rightarrow> u8 \<Rightarrow> u8" where
  "slot_counter new old n =
     (if new \<noteq> None \<and> old = None then n + 1
      else if new = None \<and> old \<noteq> None then n - 1 else n)"

definition ue_get_rlc_entity :: "u8 \<Rightarrow> ue_context option \<Rightarrow> rlc_entity option" where
  "ue_get_rlc_entity i p = (case p of None \<Rightarrow> None | Some c \<Rightarrow>
     if unat i \<ge> UESIM_MAX_RLC_ENTITIES then None else rlc_entities c ! unat i)"

definition ue_set_rlc_entity :: "u8 \<Rightarrow> rlc_entity option \<Rightarrow> ue_context option \<Rightarrow> uesim_error \<times> ue_context option" where
  "ue_set_rlc_entity i e p = with_ptr p (\<lambda>c.
     if unat i \<ge> UESIM_MAX_RLC_ENTITIES then (UESIM_ERROR_INVALID_PARAM, c)
     else (UESIM_SUCCESS, c\<lparr>
       num_active_rlc_entities := slot_counter e (rlc_entities c ! unat i) (num_active_rlc_entities c),
       rlc_entities := (rlc_entities c)[unat i := e]\<rparr>))"

definition ue_remove_rlc_entity :: "u8 \<Rightarrow> ue_context option \<Rightarrow> uesim_error \<times> ue_context option" where
  "ue_remove_rlc_entity i p = ue_set_rlc_entity i None p"

definition ue_get_pdcp_entity :: "u8 \<Rightarrow> ue_context option \<Rightarrow> pdcp_entity option" where
  "ue_get_pdcp_entity i p = (case p of None \<Rightarrow> None | Some c \<Rightarrow>
     if unat i \<ge> UESIM_MAX_PDCP_ENTITIES then None else pdcp_entities c ! unat i)"

definition ue_set_pdcp_entity :: "u8 \<Rightarrow> pdcp_entity option \<Rightarrow> ue_context option \<Rightarrow> uesim_error \<times> ue_context option" where
  "ue_set_pdcp_entity i e p = with_ptr p (\<lambda>c.
     if unat i \<ge> UESIM_MAX_PDCP_ENTITIES then (UESIM_ERROR_INVALID_PARAM, c)
     else (UESIM_SUCCESS, c\<lparr>
       num_active_pdcp_entities := slot_counter e (pdcp_entities c ! unat i) (num_active_pdcp_entities c),
       pdcp_entities := (pdcp_entities c)[unat i := e]\<rparr>))"

definition ue_remove_pdcp_entity :: "u8 \<Rightarrow> ue_context option \<Rightarrow> uesim_error \<times> ue_context option" where
  "ue_remove_pdcp_entity i p = ue_set_pdcp_entity i None p"

section \<open>Bearers\<close>

definition ue_configure_srb :: "u8 \<Rightarrow> u8 \<Rightarrow> u8 \<Rightarrow> ue_context option \<Rightarrow> uesim_error \<times> ue_context option" where
  "ue_configure_srb srb lcid prio p = with_ptr p (\<lambda>c.
     if unat srb \<ge> UESIM_MAX_SRB then (UESIM_ERROR_INVALID_PARAM, c)
     else (UESIM_SUCCESS, c\<lparr>
       num_active_srbs := (if \<not> bc_active (srb_config c ! unat srb) \<and> unat (num_active_srbs c) < UESIM_MAX_SRB
         then num_active_srbs c + 1 else num_active_srbs c),
       srb_config := (srb_config c)[unat srb := \<lparr>bc_active = True, bc_bearer_id = srb, bc_lcid = lcid,
         bc_priority = prio, prioritized_bit_rate = 8, bucket_size_duration = 10\<rparr>]\<rparr>))"

definition ue_configure_drb ::
  "u8 \<Rightarrow> u8 \<Rightarrow> u8 \<Rightarrow> u16 \<Rightarrow> u16 \<Rightarrow> ue_context option \<Rightarrow> uesim_error \<times> ue_context option" where
  "ue_configure_drb drb lcid prio pbr bsd p = with_ptr p (\<lambda>c.
     if unat drb \<ge> UESIM_MAX_DRB then (UESIM_ERROR_INVALID_PARAM, c)
     else (UESIM_SUCCESS, c\<lparr>
       num_active_drbs := (if \<not> bc_active (drb_config c ! unat drb) \<and> unat (num_active_drbs c) < UESIM_MAX_DRB
         then num_active_drbs c + 1 else num_active_drbs c),
       drb_config := (drb_config c)[unat drb := \<lparr>bc_active = True, bc_bearer_id = drb, bc_lcid = lcid,
         bc_priority = prio, prioritized_bit_rate = pbr, bucket_size_duration = bsd\<rparr>]\<rparr>))"

text \<open>A bearer identity below 4 is a signalling bearer, 4 to 35 the data bearers 0 to 31.\<close>

definition ue_remove_bearer :: "u8 \<Rightarrow> ue_context option \<Rightarrow> uesim_error \<times> ue_context option" where
  "ue_remove_bearer b p = with_ptr p (\<lambda>c.
     if unat b < UESIM_MAX_SRB then
       (UESIM_SUCCESS, if bc_active (srb_config c ! unat b) then c\<lparr>
          srb_config := (srb_config c)[unat b := (srb_config c ! unat b)\<lparr>bc_active := False\<rparr>],
          num_active_srbs := (if num_active_srbs c > 0 then num_active_srbs c - 1 else num_active_srbs c)\<rparr>
        else c)
     else let i = b - word_of_nat UESIM_MAX_SRB in
       if unat i < UESIM_MAX_DRB then
         (UESIM_SUCCESS, if bc_active (drb_config c ! unat i) then c\<lparr>
            drb_config := (drb_config c)[unat i := (drb_config c ! unat i)\<lparr>bc_active := False\<rparr>],
            num_active_drbs := (if num_active_drbs c > 0 then num_active_drbs c - 1 else num_active_drbs c)\<rparr>
          else c)
       else (UESIM_ERROR_NOT_FOUND, c))"

definition ue_get_bearer_config :: "u8 \<Rightarrow> ue_context option \<Rightarrow> ue_bearer_config option" where
  "ue_get_bearer_config b p = (case p of None \<Rightarrow> None | Some c \<Rightarrow>
     if unat b < UESIM_MAX_SRB then Some (srb_config c ! unat b)
     else let i = b - word_of_nat UESIM_MAX_SRB in
       if unat i < UESIM_MAX_DRB then Some (drb_config c ! unat i) else None)"

section \<open>DRX, capabilities and statistics\<close>

definition ue_configure_drx :: "ue_drx_config option \<Rightarrow> ue_context option \<Rightarrow> uesim_error \<times> ue_context option" where
  "ue_configure_drx d p = with_ptr p (\<lambda>c. case d of
     None \<Rightarrow> (UESIM_ERROR_INVALID_PARAM, c) | Some x \<Rightarrow> (UESIM_SUCCESS, c\<lparr>drx_config := x\<rparr>))"

definition ue_disable_drx :: "ue_context option \<Rightarrow> uesim_error \<times> ue_context option" where
  "ue_disable_drx p = with_ptr p (\<lambda>c. (UESIM_SUCCESS, c\<lparr>drx_config := (drx_config c)\<lparr>drx_enabled := False\<rparr>\<rparr>))"

definition ue_set_capabilities :: "ue_capabilities option \<Rightarrow> ue_context option \<Rightarrow> uesim_error \<times> ue_context option" where
  "ue_set_capabilities k p = with_ptr p (\<lambda>c. case k of
     None \<Rightarrow> (UESIM_ERROR_INVALID_PARAM, c) | Some x \<Rightarrow> (UESIM_SUCCESS, c\<lparr>capabilities := x\<rparr>))"

definition ue_get_capabilities :: "ue_context option \<Rightarrow> ue_capabilities option" where
  "ue_get_capabilities p = map_option capabilities p"

text \<open>\<open>now\<close> is the result of \<^verbatim>\<open>time\<close>; the duration keeps 32 bits of the difference.\<close>

definition ue_update_stats :: "int \<Rightarrow> ue_context option \<Rightarrow> uesim_error \<times> ue_context option" where
  "ue_update_stats now p = with_ptr p (\<lambda>c. (UESIM_SUCCESS, c\<lparr>ue_stats_of := (ue_stats_of c)\<lparr>
     last_activity_time := now,
     connection_duration_s := word_of_int (now - connection_start_time (ue_stats_of c))\<rparr>\<rparr>))"

definition ue_reset_stats :: "int \<Rightarrow> ue_context option \<Rightarrow> uesim_error \<times> ue_context option" where
  "ue_reset_stats now p = with_ptr p (\<lambda>c.
     (UESIM_SUCCESS, c\<lparr>ue_stats_of := zero_stats\<lparr>connection_start_time := now\<rparr>\<rparr>))"

definition ue_get_stats :: "ue_context option \<Rightarrow> ue_stats option" where
  "ue_get_stats p = map_option ue_stats_of p"

section \<open>PDCP and RLC initialisation\<close>

text \<open>
  The outcomes that are left after the creation of a first entity. Each creation uses one
  allocation; PDCP uses two initialisations, RLC four; each activation is one lock.
\<close>

definition after_create :: "nat \<Rightarrow> nat \<Rightarrow> os \<Rightarrow> os" where
  "after_create inits locks s = \<lparr>alloc_ok = (\<lambda>n. alloc_ok s (n + 1)),
     lock_ok = (\<lambda>n. lock_ok s (n + locks)), init_ok = (\<lambda>n. init_ok s (n + inits))\<rparr>"

lemma after_create_good [simp]: "after_create i l good_os = good_os"
  by (simp add: after_create_def good_os_def)

text \<open>The activation through the pointer that was stored in slot \<open>i\<close>; its result is not looked at.\<close>

definition activate_slot :: "os \<Rightarrow> u8 \<Rightarrow> ue_context option \<Rightarrow> ue_context option" where
  "activate_slot s i p = map_option (\<lambda>c. c\<lparr>pdcp_entities :=
     (pdcp_entities c)[unat i := snd (pdcp_activate_entity s (pdcp_entities c ! unat i))]\<rparr>) p"

definition pdcp_init :: "os \<Rightarrow> ue_context option \<Rightarrow> u32 \<Rightarrow> (uesim_error \<times> ue_context option) \<times> u32" where
  "pdcp_init s p g =
     (if p = None then ((UESIM_ERROR_INVALID_PARAM, None), g)
      else case pdcp_create_entity s True 1 2 g of
        (Inl r, g1) \<Rightarrow> ((r, p), g1)
      | (Inr e1, g1) \<Rightarrow> (case ue_set_pdcp_entity 1 (Some e1) p of (r1, p1) \<Rightarrow>
          if r1 \<noteq> UESIM_SUCCESS then ((r1, p1), g1)
          else let p2 = activate_slot s 1 p1; s2 = after_create 2 1 s in
            case pdcp_create_entity s2 True 2 2 g1 of
              (Inl r, g2) \<Rightarrow> ((UESIM_SUCCESS, p2), g2)
            | (Inr e2, g2) \<Rightarrow> (case ue_set_pdcp_entity 2 (Some e2) p2 of (r2, p3) \<Rightarrow>
                if r2 \<noteq> UESIM_SUCCESS then ((UESIM_SUCCESS, p3), g2)
                else ((UESIM_SUCCESS, activate_slot s2 2 p3), g2))))"

definition pdcp_cleanup_slot :: "ue_context option \<Rightarrow> u8 \<Rightarrow> ue_context option" where
  "pdcp_cleanup_slot p i = (case ue_get_pdcp_entity i p of
     None \<Rightarrow> p | Some e \<Rightarrow> snd (ue_remove_pdcp_entity i p))"

definition pdcp_cleanup :: "ue_context option \<Rightarrow> ue_context option" where
  "pdcp_cleanup p = (if p = None then None
     else foldl pdcp_cleanup_slot p (map word_of_nat [0..<UESIM_MAX_PDCP_ENTITIES]))"

definition rlc_init :: "os \<Rightarrow> ue_context option \<Rightarrow> u32 \<Rightarrow> (uesim_error \<times> ue_context option) \<times> u32" where
  "rlc_init s p g =
     (if p = None then ((UESIM_ERROR_INVALID_PARAM, None), g)
      else case rlc_create_entity s True 1 2 (Some RLC_MODE_AM) None g of
        (Inl r, g1) \<Rightarrow> ((r, p), g1)
      | (Inr e1, g1) \<Rightarrow> (case ue_set_rlc_entity 1 (Some e1) p of (r1, p1) \<Rightarrow>
          if r1 \<noteq> UESIM_SUCCESS then ((r1, p1), g1)
          else case rlc_create_entity (after_create 4 0 s) True 2 2 (Some RLC_MODE_AM) None g1 of
              (Inl r, g2) \<Rightarrow> ((UESIM_SUCCESS, p1), g2)
            | (Inr e2, g2) \<Rightarrow> ((UESIM_SUCCESS, snd (ue_set_rlc_entity 2 (Some e2) p1)), g2)))"

definition rlc_cleanup_slot :: "ue_context option \<Rightarrow> u8 \<Rightarrow> ue_context option" where
  "rlc_cleanup_slot p i = (case ue_get_rlc_entity i p of
     None \<Rightarrow> p | Some e \<Rightarrow> snd (ue_remove_rlc_entity i p))"

definition rlc_cleanup :: "ue_context option \<Rightarrow> ue_context option" where
  "rlc_cleanup p = (if p = None then None
     else foldl rlc_cleanup_slot p (map word_of_nat [0..<UESIM_MAX_RLC_ENTITIES]))"

end
