(* ===== verification/Ue_Context_Proofs.thy ===== *)
theory Ue_Context_Proofs
  imports Ue_Context
begin

text \<open>
  The tables of the UE context: their counters are exact in every reachable context, the tables
  are keyed stores, what the initialisation of PDCP and RLC leaves behind, and the two numberings
  of the data bearers.
\<close>

section \<open>Counters\<close>

text \<open>\<open>n\<close> counts the entries of the table \<open>xs\<close>, of length \<open>k\<close>, that satisfy \<open>P\<close>.\<close>

definition counted :: "('a \<Rightarrow> bool) \<Rightarrow> nat \<Rightarrow> 'a list \<Rightarrow> u8 \<Rightarrow> bool" where
  "counted P k xs n \<longleftrightarrow> length xs = k \<and> unat n = length (filter P xs)"

lemma length_filter_update:
  "i < length xs \<Longrightarrow> length (filter P (xs[i := x])) + (if P (xs ! i) then 1 else 0) =
     length (filter P xs) + (if P x then 1 else 0)"
proof (induction xs arbitrary: i)
  case (Cons y ys)
  then show ?case by (cases i) auto
qed simp

lemma counted_le: "counted P k xs n \<Longrightarrow> unat n \<le> k"
  unfolding counted_def using length_filter_le [of P xs] by simp

lemma counted_length: "counted P k xs n \<Longrightarrow> length xs = k"
  by (simp add: counted_def)

lemma counted_replicate: "\<not> P x \<Longrightarrow> counted P k (replicate k x) 0"
  by (simp add: counted_def)

lemma counted_same:
  "counted P k xs n \<Longrightarrow> i < k \<Longrightarrow> P x = P (xs ! i) \<Longrightarrow> counted P k (xs[i := x]) n"
  using length_filter_update [of i xs P x] by (auto simp: counted_def split: if_splits)

lemma counted_up:
  assumes "counted P k xs n" and "i < k" and "k < 255" and "P x" and "\<not> P (xs ! i)"
  shows "counted P k (xs[i := x]) (n + 1)"
proof -
  have "unat n < 255" using counted_le [OF assms(1)] assms(3) by simp
  then have "unat (n + 1) = unat n + 1" by (simp add: unat_word_ariths)
  then show ?thesis
    using length_filter_update [of i xs P x] assms by (simp add: counted_def)
qed

lemma counted_down:
  assumes "counted P k xs n" and "i < k" and "\<not> P x" and "P (xs ! i)"
  shows "counted P k (xs[i := x]) (n - 1)" and "0 < n"
proof -
  have eq: "Suc (length (filter P (xs[i := x]))) = unat n"
    using length_filter_update [of i xs P x] assms by (simp add: counted_def)
  then have "n \<noteq> 0" by auto
  then have "unat (n - 1) = unat n - 1" by (rule unat_minus_one)
  with eq show "counted P k (xs[i := x]) (n - 1)"
    using counted_length [OF assms(1)] by (simp add: counted_def)
  from \<open>n \<noteq> 0\<close> show "0 < n" by (simp add: word_neq_0_conv)
qed

lemma counted_room:
  assumes "counted P k xs n" and "i < k" and "\<not> P (xs ! i)"
  shows "unat n < k"
proof -
  have "length (filter P xs) < length xs"
    using assms by (intro length_filter_less [of "xs ! i"]) (auto simp: counted_def)
  then show ?thesis using assms by (simp add: counted_def)
qed

text \<open>A slot that holds an entity.\<close>

definition filled :: "'e option \<Rightarrow> bool" where
  "filled x \<longleftrightarrow> x \<noteq> None"

lemma filled_simps [simp]: "filled (Some e)" "\<not> filled None"
  by (simp_all add: filled_def)

lemma counted_slot:
  assumes "counted filled k tab n" and "i < k" and "k < 255"
  shows "counted filled k (tab[i := e]) (slot_counter e (tab ! i) n)"
  using assms
  by (auto simp: slot_counter_def filled_def intro: counted_same counted_up counted_down(1))

lemma counted_turn_on:
  assumes "counted P k xs n" and "i < k" and "k < 255" and "P x"
  shows "P (xs ! i) \<Longrightarrow> counted P k (xs[i := x]) n"
    and "\<not> unat n < k \<Longrightarrow> counted P k (xs[i := x]) n"
    and "\<not> P (xs ! i) \<Longrightarrow> counted P k (xs[i := x]) (n + 1)"
  using assms counted_room [OF assms(1,2)] counted_same [OF assms(1,2)] counted_up [OF assms(1-4)]
  by blast+

text \<open>A counter in terms of the identities of the entries.\<close>

lemma counted_card:
  assumes "counted P k xs n" and "k < 256"
  shows "unat n = card {i :: u8. unat i < k \<and> P (xs ! unat i)}"
proof -
  have "bij_betw unat {i :: u8. unat i < k \<and> P (xs ! unat i)} {m. m < k \<and> P (xs ! m)}"
  proof (rule bij_betw_byWitness [where f' = word_of_nat])
    show "unat ` {i :: u8. unat i < k \<and> P (xs ! unat i)} \<subseteq> {m. m < k \<and> P (xs ! m)}" by auto
    show "word_of_nat ` {m. m < k \<and> P (xs ! m)} \<subseteq> {i :: u8. unat i < k \<and> P (xs ! unat i)}"
      using assms(2) by (auto simp: unsigned_of_nat take_bit_nat_eq_self)
    show "\<forall>m \<in> {m. m < k \<and> P (xs ! m)}. unat (word_of_nat m :: u8) = m"
      using assms(2) by (auto simp: unsigned_of_nat take_bit_nat_eq_self)
  qed simp
  then show ?thesis
    using assms(1) by (simp add: counted_def length_filter_conv_card bij_betw_same_card)
qed

section \<open>The invariant of a context\<close>

definition ue_ok :: "ue_context \<Rightarrow> bool" where
  "ue_ok c \<longleftrightarrow>
     counted filled UESIM_MAX_RLC_ENTITIES (rlc_entities c) (num_active_rlc_entities c) \<and>
     counted filled UESIM_MAX_PDCP_ENTITIES (pdcp_entities c) (num_active_pdcp_entities c) \<and>
     counted bc_active UESIM_MAX_SRB (srb_config c) (num_active_srbs c) \<and>
     counted bc_active UESIM_MAX_DRB (drb_config c) (num_active_drbs c)"

lemma ue_create_ok [inv_keep]:
  "uesim_create_ue_instance s out r1 r2 now = Inr c \<Longrightarrow> ue_ok c"
  by (auto simp: uesim_create_ue_instance_def ue_ok_def zero_bearer_def intro!: counted_replicate
      split: if_splits)

lemma set_rlc_ok [inv_keep]:
  assumes "pred_option ue_ok p" shows "pred_option ue_ok (snd (ue_set_rlc_entity i e p))"
  using assms by (cases p) (auto simp: ue_set_rlc_entity_def ue_ok_def ue_limits intro: counted_slot)

lemma set_pdcp_ok [inv_keep]:
  assumes "pred_option ue_ok p" shows "pred_option ue_ok (snd (ue_set_pdcp_entity i e p))"
  using assms by (cases p) (auto simp: ue_set_pdcp_entity_def ue_ok_def ue_limits intro: counted_slot)

lemma configure_srb_ok [inv_keep]:
  assumes "pred_option ue_ok p" shows "pred_option ue_ok (snd (ue_configure_srb b l q p))"
  using assms by (cases p) (auto simp: ue_configure_srb_def ue_ok_def ue_limits not_le
    intro: counted_turn_on)

lemma configure_drb_ok [inv_keep]:
  assumes "pred_option ue_ok p" shows "pred_option ue_ok (snd (ue_configure_drb b l q x y p))"
  using assms by (cases p) (auto simp: ue_configure_drb_def ue_ok_def ue_limits not_le
    intro: counted_turn_on)

lemma remove_bearer_ok [inv_keep]:
  assumes "pred_option ue_ok p" shows "pred_option ue_ok (snd (ue_remove_bearer b p))"
proof (cases p)
  case (Some c)
  let ?i = "b - word_of_nat UESIM_MAX_SRB"
  have ok: "ue_ok c" using assms Some by simp
  then have srb: "counted bc_active UESIM_MAX_SRB (srb_config c) (num_active_srbs c)"
    and drb: "counted bc_active UESIM_MAX_DRB (drb_config c) (num_active_drbs c)"
    by (simp_all add: ue_ok_def)
  note s = counted_down [OF srb, of "unat b" "(srb_config c ! unat b)\<lparr>bc_active := False\<rparr>"]
  note d = counted_down [OF drb, of "unat ?i" "(drb_config c ! unat ?i)\<lparr>bc_active := False\<rparr>"]
  show ?thesis using ok Some s d by (auto simp: ue_remove_bearer_def Let_def ue_ok_def)
qed (simp add: ue_remove_bearer_def)

lemma activate_slot_ok [inv_keep]:
  assumes "pred_option ue_ok p" and "unat i < UESIM_MAX_PDCP_ENTITIES"
  shows "pred_option ue_ok (activate_slot s i p)"
proof (cases p)
  case (Some c)
  let ?x = "pdcp_entities c ! unat i"
  have "filled (snd (pdcp_activate_entity s ?x)) = filled ?x"
    by (cases ?x) (auto simp: pdcp_activate_entity_def split: prod.splits)
  then show ?thesis
    using assms Some by (auto simp: activate_slot_def ue_ok_def intro!: counted_same)
qed (simp add: activate_slot_def)

lemma foldl_inv: "(\<And>p x. I p \<Longrightarrow> I (f p x)) \<Longrightarrow> I p \<Longrightarrow> I (foldl f p xs)"
  by (induction xs arbitrary: p) auto

lemma pdcp_cleanup_ok [inv_keep]: "pred_option ue_ok p \<Longrightarrow> pred_option ue_ok (pdcp_cleanup p)"
proof -
  have "pred_option ue_ok q \<Longrightarrow> pred_option ue_ok (pdcp_cleanup_slot q i)" for q i
    by (auto simp: pdcp_cleanup_slot_def ue_remove_pdcp_entity_def set_pdcp_ok split: option.splits)
  from foldl_inv [where I = "pred_option ue_ok" and f = pdcp_cleanup_slot, OF this]
  show "pred_option ue_ok p \<Longrightarrow> pred_option ue_ok (pdcp_cleanup p)" by (simp add: pdcp_cleanup_def)
qed

lemma rlc_cleanup_ok [inv_keep]: "pred_option ue_ok p \<Longrightarrow> pred_option ue_ok (rlc_cleanup p)"
proof -
  have "pred_option ue_ok q \<Longrightarrow> pred_option ue_ok (rlc_cleanup_slot q i)" for q i
    by (auto simp: rlc_cleanup_slot_def ue_remove_rlc_entity_def set_rlc_ok split: option.splits)
  from foldl_inv [where I = "pred_option ue_ok" and f = rlc_cleanup_slot, OF this]
  show "pred_option ue_ok p \<Longrightarrow> pred_option ue_ok (rlc_cleanup p)" by (simp add: rlc_cleanup_def)
qed

lemma set_pdcp_result:
  "ue_set_pdcp_entity i e q = (r, q') \<Longrightarrow> pred_option ue_ok q \<Longrightarrow> pred_option ue_ok q'"
  using set_pdcp_ok [of q i e] by simp

lemma set_rlc_result:
  "ue_set_rlc_entity i e q = (r, q') \<Longrightarrow> pred_option ue_ok q \<Longrightarrow> pred_option ue_ok q'"
  using set_rlc_ok [of q i e] by simp

lemma activate_srb_ok:
  assumes "pred_option ue_ok p"
  shows "pred_option ue_ok (activate_slot s 1 p)" and "pred_option ue_ok (activate_slot s 2 p)"
  using assms by (simp_all add: activate_slot_ok UESIM_MAX_PDCP_ENTITIES_def)

lemma pdcp_init_ok [inv_keep]:
  assumes "pred_option ue_ok p" shows "pred_option ue_ok (snd (fst (pdcp_init s p g)))"
  unfolding pdcp_init_def Let_def
  using assms
  by (auto simp del: option.pred_inject dest!: set_pdcp_result dest: activate_srb_ok intro!: activate_srb_ok
      split: prod.splits sum.splits)

lemma rlc_init_ok [inv_keep]:
  assumes "pred_option ue_ok p" shows "pred_option ue_ok (snd (fst (rlc_init s p g)))"
  unfolding rlc_init_def
  using assms
  by (auto simp del: option.pred_inject dest!: set_rlc_result intro!: set_rlc_ok
      split: prod.splits sum.splits)

section \<open>Reachable contexts\<close>

text \<open>
  The calls that change a context; \<open>Use_Rlc\<close> and \<open>Use_Pdcp\<close> stand for whatever an operation does to
  the entity in a slot.
\<close>

datatype ue_call =
    Set_Rlc u8 "rlc_entity option" | Set_Pdcp u8 "pdcp_entity option"
  | Configure_Srb u8 u8 u8 | Configure_Drb u8 u8 u8 u16 u16 | Remove_Bearer u8
  | Configure_Drx "ue_drx_config option" | Disable_Drx | Set_Capabilities "ue_capabilities option"
  | Update_Stats int | Reset_Stats int | Start_Ue os
  | Pdcp_Init os u32 | Pdcp_Cleanup | Rlc_Init os u32 | Rlc_Cleanup
  | Use_Rlc u8 "rlc_entity \<Rightarrow> rlc_entity" | Use_Pdcp u8 "pdcp_entity \<Rightarrow> pdcp_entity"

fun ue_run :: "ue_call \<Rightarrow> ue_context option \<Rightarrow> ue_context option" where
  "ue_run (Set_Rlc i e) p = snd (ue_set_rlc_entity i e p)"
| "ue_run (Set_Pdcp i e) p = snd (ue_set_pdcp_entity i e p)"
| "ue_run (Configure_Srb b l q) p = snd (ue_configure_srb b l q p)"
| "ue_run (Configure_Drb b l q x y) p = snd (ue_configure_drb b l q x y p)"
| "ue_run (Remove_Bearer b) p = snd (ue_remove_bearer b p)"
| "ue_run (Configure_Drx d) p = snd (ue_configure_drx d p)"
| "ue_run Disable_Drx p = snd (ue_disable_drx p)"
| "ue_run (Set_Capabilities k) p = snd (ue_set_capabilities k p)"
| "ue_run (Update_Stats t) p = snd (ue_update_stats t p)"
| "ue_run (Reset_Stats t) p = snd (ue_reset_stats t p)"
| "ue_run (Start_Ue s) p = snd (uesim_start_ue s p)"
| "ue_run (Pdcp_Init s g) p = snd (fst (pdcp_init s p g))"
| "ue_run Pdcp_Cleanup p = pdcp_cleanup p"
| "ue_run (Rlc_Init s g) p = snd (fst (rlc_init s p g))"
| "ue_run Rlc_Cleanup p = rlc_cleanup p"
| "ue_run (Use_Rlc i f) p = (if unat i < UESIM_MAX_RLC_ENTITIES then
     map_option (\<lambda>c. c\<lparr>rlc_entities := (rlc_entities c)[unat i := map_option f (rlc_entities c ! unat i)]\<rparr>) p
     else p)"
| "ue_run (Use_Pdcp i f) p = (if unat i < UESIM_MAX_PDCP_ENTITIES then
     map_option (\<lambda>c. c\<lparr>pdcp_entities := (pdcp_entities c)[unat i := map_option f (pdcp_entities c ! unat i)]\<rparr>) p
     else p)"

inductive ue_reach :: "ue_context \<Rightarrow> bool" where
  created: "uesim_create_ue_instance s out r1 r2 now = Inr c \<Longrightarrow> ue_reach c"
| called: "ue_reach c \<Longrightarrow> ue_run k (Some c) = Some c' \<Longrightarrow> ue_reach c'"

lemma ue_ok_stable:
  "ue_ok (c\<lparr>drx_config := d\<rparr>) = ue_ok c" "ue_ok (c\<lparr>capabilities := k\<rparr>) = ue_ok c"
  "ue_ok (c\<lparr>ue_stats_of := t\<rparr>) = ue_ok c" "ue_ok (c\<lparr>ue_active := a\<rparr>) = ue_ok c"
  by (simp_all add: ue_ok_def)

lemma filled_map [simp]: "filled (map_option f x) = filled x"
  by (simp add: filled_def)

lemma ue_run_ok [inv_keep]:
  assumes "pred_option ue_ok p" shows "pred_option ue_ok (ue_run k p)"
proof (cases k)
  case (Use_Rlc i f)
  then show ?thesis using assms by (cases p) (auto simp: ue_ok_def intro: counted_same)
next
  case (Use_Pdcp i f)
  then show ?thesis using assms by (cases p) (auto simp: ue_ok_def intro: counted_same)
next
  case (Start_Ue s)
  then show ?thesis using assms by (cases p) (auto simp: uesim_start_ue_def locked_def ue_ok_stable)
qed (use assms in \<open>simp_all add: inv_keep\<close>,
  use assms in \<open>(cases p; auto simp: ue_configure_drx_def ue_disable_drx_def ue_set_capabilities_def
    ue_update_stats_def ue_reset_stats_def ue_ok_stable split: option.splits)+\<close>)

lemma ue_reach_ok: "ue_reach c \<Longrightarrow> ue_ok c"
proof (induction rule: ue_reach.induct)
  case (created s out r1 r2 now c)
  then show ?case by (rule ue_create_ok)
next
  case (called c k c')
  then show ?case using ue_run_ok [of "Some c" k] by simp
qed

text \<open>
  C13. In every reachable context the two entity counters are the numbers of bearer identities under
  which an entity is found, and the two bearer counters add up to the number of bearer
  identities whose configuration is active: no sequence of calls, failed initialisations
  included, makes a counter drift or wrap.
\<close>

theorem ue_counters_exact:
  assumes "ue_reach c"
  shows "unat (num_active_rlc_entities c) = card {i. ue_get_rlc_entity i (Some c) \<noteq> None} \<and>
    unat (num_active_pdcp_entities c) = card {i. ue_get_pdcp_entity i (Some c) \<noteq> None} \<and>
    unat (num_active_srbs c) + unat (num_active_drbs c) =
      card {b. \<exists>k. ue_get_bearer_config b (Some c) = Some k \<and> bc_active k}"
proof -
  have ok: "ue_ok c" by (rule ue_reach_ok [OF assms])
  then have srb: "counted bc_active 4 (srb_config c) (num_active_srbs c)"
    and drb: "counted bc_active 32 (drb_config c) (num_active_drbs c)"
    by (simp_all add: ue_ok_def ue_limits)
  let ?S = "{i :: u8. unat i < 4 \<and> bc_active (srb_config c ! unat i)}"
  let ?D = "{i :: u8. unat i < 32 \<and> bc_active (drb_config c ! unat i)}"
  have shift: "unat (i + 4) = unat i + 4" if "unat i < 32" for i :: u8
    using that by (simp add: unat_word_ariths)
  have split: "{b. \<exists>k. ue_get_bearer_config b (Some c) = Some k \<and> bc_active k} = ?S \<union> (\<lambda>i. i + 4) ` ?D"
  proof (intro set_eqI iffI)
    fix b assume "b \<in> {b. \<exists>k. ue_get_bearer_config b (Some c) = Some k \<and> bc_active k}"
    then have "b \<in> ?S \<or> b - 4 \<in> ?D"
      by (auto simp: ue_get_bearer_config_def ue_limits Let_def split: if_splits)
    then show "b \<in> ?S \<union> (\<lambda>i. i + 4) ` ?D"
      by (auto intro: image_eqI [of b "\<lambda>i. i + 4" "b - 4"])
  next
    fix b assume "b \<in> ?S \<union> (\<lambda>i. i + 4) ` ?D"
    then show "b \<in> {b. \<exists>k. ue_get_bearer_config b (Some c) = Some k \<and> bc_active k}"
      using shift by (auto simp: ue_get_bearer_config_def ue_limits Let_def)
  qed
  have "?S \<inter> (\<lambda>i. i + 4) ` ?D = {}" using shift by auto
  then have "card (?S \<union> (\<lambda>i. i + 4) ` ?D) = card ?S + card ?D"
    by (simp add: card_Un_disjoint card_image)
  then have bearers: "unat (num_active_srbs c) + unat (num_active_drbs c) =
      card {b. \<exists>k. ue_get_bearer_config b (Some c) = Some k \<and> bc_active k}"
    using counted_card [OF srb] counted_card [OF drb] by (simp add: split)
  have rlc: "counted filled 36 (rlc_entities c) (num_active_rlc_entities c)"
    and pdcp: "counted filled 36 (pdcp_entities c) (num_active_pdcp_entities c)"
    using ok by (simp_all add: ue_ok_def ue_limits)
  show ?thesis
    using bearers counted_card [OF rlc] counted_card [OF pdcp]
    by (simp add: ue_get_rlc_entity_def ue_get_pdcp_entity_def ue_limits filled_def not_le cong: conj_cong)
qed

theorem ue_counters_exact_witness:
  "\<exists>c. ue_reach c \<and> unat (num_active_drbs c) = 1 \<and>
    card {b. \<exists>k. ue_get_bearer_config b (Some c) = Some k \<and> bc_active k} = 1"
proof -
  obtain c where c: "uesim_create_ue_instance good_os True 7 8 100 = Inr c"
    by (simp add: uesim_create_ue_instance_def)
  let ?d = "the (ue_run (Configure_Drb 2 4 1 8 10) (Some c))"
  have "ue_reach ?d"
    by (rule called [OF created [OF c], of "Configure_Drb 2 4 1 8 10"])
      (simp add: ue_configure_drb_def ue_limits)
  moreover have "unat (num_active_drbs ?d) = 1" and "unat (num_active_srbs ?d) = 0"
    using c by (auto simp: uesim_create_ue_instance_def ue_configure_drb_def ue_limits zero_bearer_def)
  ultimately show ?thesis using ue_counters_exact [of ?d] by (intro exI [of _ ?d]) simp
qed

section \<open>The tables as keyed stores\<close>

definition accepted :: "uesim_error \<times> 'a option \<Rightarrow> 'a option" where
  "accepted x = (if fst x = UESIM_SUCCESS then snd x else None)"

lemma slot_lookup:
  "length (tab :: 'e option list) = 36 \<Longrightarrow> unat i < 36 \<Longrightarrow>
   (\<lambda>j :: u8. if 36 \<le> unat j then None else tab[unat i := e] ! unat j) =
   (\<lambda>j. if 36 \<le> unat j then None else tab ! unat j)(i := e)"
  by (auto simp: fun_eq_iff nth_list_update word_unat_eq_iff)

lemma set_rlc_accepted:
  assumes "ue_ok c" and "accepted (ue_set_rlc_entity i e (Some c)) = Some c'"
  shows "(\<lambda>j. ue_get_rlc_entity j (Some c')) = (\<lambda>j. ue_get_rlc_entity j (Some c))(i := e)" and "ue_ok c'"
proof -
  have len: "length (rlc_entities c) = 36"
    using assms(1) counted_length by (fastforce simp: ue_ok_def ue_limits)
  show "(\<lambda>j. ue_get_rlc_entity j (Some c')) = (\<lambda>j. ue_get_rlc_entity j (Some c))(i := e)"
    using assms(2) slot_lookup [OF len, of i e]
    by (auto simp: accepted_def ue_set_rlc_entity_def ue_get_rlc_entity_def ue_limits not_le
      cong: if_cong split: if_splits)
  show "ue_ok c'"
    using set_rlc_ok [of "Some c" i e] assms by (auto simp: accepted_def split: if_splits)
qed

lemma set_pdcp_accepted:
  assumes "ue_ok c" and "accepted (ue_set_pdcp_entity i e (Some c)) = Some c'"
  shows "(\<lambda>j. ue_get_pdcp_entity j (Some c')) = (\<lambda>j. ue_get_pdcp_entity j (Some c))(i := e)" and "ue_ok c'"
proof -
  have len: "length (pdcp_entities c) = 36"
    using assms(1) counted_length by (fastforce simp: ue_ok_def ue_limits)
  show "(\<lambda>j. ue_get_pdcp_entity j (Some c')) = (\<lambda>j. ue_get_pdcp_entity j (Some c))(i := e)"
    using assms(2) slot_lookup [OF len, of i e]
    by (auto simp: accepted_def ue_set_pdcp_entity_def ue_get_pdcp_entity_def ue_limits not_le
      cong: if_cong split: if_splits)
  show "ue_ok c'"
    using set_pdcp_ok [of "Some c" i e] assms by (auto simp: accepted_def split: if_splits)
qed

interpretation rlc_table: keyed_store ue_ok "\<lambda>c i. ue_get_rlc_entity i (Some c)"
  "\<lambda>i e c. accepted (ue_set_rlc_entity i (Some e) (Some c))"
  "\<lambda>i c. accepted (ue_remove_rlc_entity i (Some c))"
  by unfold_locales (auto simp: set_rlc_accepted ue_remove_rlc_entity_def)

interpretation pdcp_table: keyed_store ue_ok "\<lambda>c i. ue_get_pdcp_entity i (Some c)"
  "\<lambda>i e c. accepted (ue_set_pdcp_entity i (Some e) (Some c))"
  "\<lambda>i c. accepted (ue_remove_pdcp_entity i (Some c))"
  by unfold_locales (auto simp: set_pdcp_accepted ue_remove_pdcp_entity_def)

section \<open>Initialisation and cleanup\<close>

lemma cleanup_pdcp_slots:
  assumes "ue_ok c"
  shows "\<exists>d. foldl pdcp_cleanup_slot (Some c) is = Some d \<and> ue_ok d \<and>
    (\<forall>j. ue_get_pdcp_entity j (Some d) = (if j \<in> set is then None else ue_get_pdcp_entity j (Some c)))"
  using assms
proof (induction "is" arbitrary: c)
  case (Cons i "is")
  show ?case
  proof (cases "ue_get_pdcp_entity i (Some c)")
    case None
    then show ?thesis
      using Cons.IH [OF Cons.prems] by (auto simp: pdcp_cleanup_slot_def)
  next
    case (Some e)
    have "unat i < UESIM_MAX_PDCP_ENTITIES"
      using Some by (simp add: ue_get_pdcp_entity_def not_le split: if_splits)
    then have "\<exists>c'. ue_remove_pdcp_entity i (Some c) = (UESIM_SUCCESS, Some c')"
      by (simp add: ue_remove_pdcp_entity_def ue_set_pdcp_entity_def)
    then obtain c' where "ue_remove_pdcp_entity i (Some c) = (UESIM_SUCCESS, Some c')" by blast
    then have c': "accepted (ue_remove_pdcp_entity i (Some c)) = Some c'"
        "snd (ue_remove_pdcp_entity i (Some c)) = Some c'"
      by (simp_all add: accepted_def)
    note r = pdcp_table.remove_lookup [OF Cons.prems c'(1)] pdcp_table.remove_invar [OF Cons.prems c'(1)]
    have step: "ue_get_pdcp_entity j (Some c') = (if j = i then None else ue_get_pdcp_entity j (Some c))" for j
      using fun_cong [OF r(1), of j] by simp
    obtain d where d: "foldl pdcp_cleanup_slot (Some c') is = Some d" "ue_ok d" and
      g: "\<forall>j. ue_get_pdcp_entity j (Some d) = (if j \<in> set is then None else ue_get_pdcp_entity j (Some c'))"
      using Cons.IH [OF r(2)] by blast
    have "foldl pdcp_cleanup_slot (Some c) (i # is) = Some d"
      using Some c'(2) d(1) by (simp add: pdcp_cleanup_slot_def)
    moreover have "ue_get_pdcp_entity j (Some d) =
        (if j \<in> set (i # is) then None else ue_get_pdcp_entity j (Some c))" for j
      by (simp add: g step)
    ultimately show ?thesis using d(2) by blast
  qed
qed simp

lemma pdcp_cleanup_empties:
  assumes "ue_ok c"
  shows "\<exists>d. pdcp_cleanup (Some c) = Some d \<and> num_active_pdcp_entities d = 0 \<and>
    (\<forall>j. ue_get_pdcp_entity j (Some d) = None)"
proof -
  let ?is = "map word_of_nat [0..<UESIM_MAX_PDCP_ENTITIES] :: u8 list"
  obtain d where d: "pdcp_cleanup (Some c) = Some d" "ue_ok d" and
    g: "\<And>j. ue_get_pdcp_entity j (Some d) = (if j \<in> set ?is then None else ue_get_pdcp_entity j (Some c))"
    using cleanup_pdcp_slots [OF assms, of ?is] by (auto simp: pdcp_cleanup_def)
  have none: "ue_get_pdcp_entity j (Some d) = None" for j
  proof (cases "unat j < UESIM_MAX_PDCP_ENTITIES")
    case True
    then have "j \<in> set ?is" by (auto intro: image_eqI [of _ _ "unat j"])
    then show ?thesis by (simp add: g)
  qed (simp add: ue_get_pdcp_entity_def)
  have "counted filled 36 (pdcp_entities d) (num_active_pdcp_entities d)"
    using d(2) by (simp add: ue_ok_def ue_limits)
  from counted_card [OF this] have n: "unat (num_active_pdcp_entities d) =
      card {i :: u8. unat i < 36 \<and> filled (pdcp_entities d ! unat i)}" by simp
  have "{i :: u8. unat i < 36 \<and> filled (pdcp_entities d ! unat i)} = {}"
  proof -
    have "\<not> filled (pdcp_entities d ! unat i)" if "unat i < 36" for i :: u8
      using none [of i] that by (simp add: ue_get_pdcp_entity_def ue_limits filled_def)
    then show ?thesis by blast
  qed
  then have "num_active_pdcp_entities d = 0"
    using n by (simp only: card.empty unat_eq_0)
  with d none show ?thesis by blast
qed

text \<open>An entity that was just created, and after its activation.\<close>

lemma pdcp_created:
  "b < 4 \<Longrightarrow> \<exists>e. pdcp_create_entity good_os True b 2 g = (Inr e, g + 1) \<and> entity_id e = g \<and>
    bearer_type e = b \<and> sn_length e = 5 \<and> sn_mask e = 0x1F \<and> next_pdcp_sn e = 0 \<and> security_ctx e = None"
  by (simp add: pdcp_create_entity_def pdcp_init_sn_params_def PDCP_BEARER_DRB_MAX_def
      PDCP_BEARER_SRB3_def Let_def)

lemma rlc_created:
  "b < 4 \<Longrightarrow> \<exists>e. rlc_create_entity good_os True b 2 (Some RLC_MODE_AM) None g = (Inr e, g + 1) \<and>
    rlc_entity_id e = g \<and> rlc_bearer e = b \<and> mode e = RLC_MODE_AM \<and> \<not> rlc_active e \<and>
    status e = RLC_STATUS_CONFIGURED"
  by (simp add: rlc_create_entity_def RLC_BEARER_DRB_MAX_def)

lemma set_pdcp_done:
  assumes "ue_ok c" and "unat i < UESIM_MAX_PDCP_ENTITIES"
  shows "\<exists>d. ue_set_pdcp_entity i (Some e) (Some c) = (UESIM_SUCCESS, Some d) \<and> ue_ok d \<and>
    (\<forall>j. ue_get_pdcp_entity j (Some d) = (if j = i then Some e else ue_get_pdcp_entity j (Some c)))"
proof -
  obtain d where d: "ue_set_pdcp_entity i (Some e) (Some c) = (UESIM_SUCCESS, Some d)"
    using assms(2) by (simp add: ue_set_pdcp_entity_def)
  then have a: "accepted (ue_set_pdcp_entity i (Some e) (Some c)) = Some d" by (simp add: accepted_def)
  show ?thesis
    using d pdcp_table.insert_invar [OF assms(1) a] pdcp_table.lookup_insert_same [OF assms(1) a]
      pdcp_table.lookup_insert_other [OF assms(1) a] by auto
qed

lemma set_rlc_done:
  assumes "ue_ok c" and "unat i < UESIM_MAX_RLC_ENTITIES"
  shows "\<exists>d. ue_set_rlc_entity i (Some e) (Some c) = (UESIM_SUCCESS, Some d) \<and> ue_ok d \<and>
    (\<forall>j. ue_get_rlc_entity j (Some d) = (if j = i then Some e else ue_get_rlc_entity j (Some c)))"
proof -
  obtain d where d: "ue_set_rlc_entity i (Some e) (Some c) = (UESIM_SUCCESS, Some d)"
    using assms(2) by (simp add: ue_set_rlc_entity_def)
  then have a: "accepted (ue_set_rlc_entity i (Some e) (Some c)) = Some d" by (simp add: accepted_def)
  show ?thesis
    using d rlc_table.insert_invar [OF assms(1) a] rlc_table.lookup_insert_same [OF assms(1) a]
      rlc_table.lookup_insert_other [OF assms(1) a] by auto
qed

lemma activate_slot_done:
  assumes ok: "ue_ok c" and i: "unat i < UESIM_MAX_PDCP_ENTITIES" and e: "ue_get_pdcp_entity i (Some c) = Some e"
  shows "\<exists>d. activate_slot good_os i (Some c) = Some d \<and> ue_ok d \<and>
    (\<forall>j. ue_get_pdcp_entity j (Some d) =
      (if j = i then Some (e\<lparr>pdcp_active := True\<rparr>) else ue_get_pdcp_entity j (Some c)))"
proof -
  let ?d = "c\<lparr>pdcp_entities := (pdcp_entities c)[unat i := Some (e\<lparr>pdcp_active := True\<rparr>)]\<rparr>"
  have len: "length (pdcp_entities c) = 36"
    using ok counted_length by (fastforce simp: ue_ok_def ue_limits)
  have "pdcp_entities c ! unat i = Some e"
    using i e by (simp add: ue_get_pdcp_entity_def)
  then have d: "activate_slot good_os i (Some c) = Some ?d"
    by (simp add: activate_slot_def pdcp_activate_entity_def)
  moreover have "ue_ok ?d" using activate_slot_ok [of "Some c" i good_os] ok i d by simp
  moreover have "ue_get_pdcp_entity j (Some ?d) =
      (if j = i then Some (e\<lparr>pdcp_active := True\<rparr>) else ue_get_pdcp_entity j (Some c))" for j
    using len i by (auto simp: ue_get_pdcp_entity_def ue_limits nth_list_update word_unat_eq_iff)
  ultimately show ?thesis by blast
qed

lemma pdcp_init_done:
  assumes ok: "ue_ok c"
  shows "\<exists>d e1 e2. pdcp_init good_os (Some c) g = ((UESIM_SUCCESS, Some d), g + 2) \<and> ue_ok d \<and>
    pdcp_create_entity good_os True 1 2 g = (Inr e1, g + 1) \<and>
    pdcp_create_entity good_os True 2 2 (g + 1) = (Inr e2, g + 2) \<and>
    (\<forall>j. ue_get_pdcp_entity j (Some d) = (if j = 1 then Some (e1\<lparr>pdcp_active := True\<rparr>)
       else if j = 2 then Some (e2\<lparr>pdcp_active := True\<rparr>) else ue_get_pdcp_entity j (Some c)))"
proof -
  obtain e1 where e1: "pdcp_create_entity good_os True 1 2 g = (Inr e1, g + 1)"
    using pdcp_created [of 1 g] by auto
  obtain e2 where e2: "pdcp_create_entity good_os True 2 2 (g + 1) = (Inr e2, g + 2)"
    using pdcp_created [of 2 "g + 1"] by (auto simp: add.assoc)
  obtain c1 where c1: "ue_set_pdcp_entity 1 (Some e1) (Some c) = (UESIM_SUCCESS, Some c1)" "ue_ok c1" and
    g1: "\<forall>j. ue_get_pdcp_entity j (Some c1) = (if j = 1 then Some e1 else ue_get_pdcp_entity j (Some c))"
    using set_pdcp_done [OF ok, of 1 e1] by (auto simp: ue_limits)
  obtain c2 where c2: "activate_slot good_os 1 (Some c1) = Some c2" "ue_ok c2" and
    g2: "\<forall>j. ue_get_pdcp_entity j (Some c2) =
      (if j = 1 then Some (e1\<lparr>pdcp_active := True\<rparr>) else ue_get_pdcp_entity j (Some c1))"
    using activate_slot_done [OF c1(2), of 1 e1] g1 by (auto simp: ue_limits)
  obtain c3 where c3: "ue_set_pdcp_entity 2 (Some e2) (Some c2) = (UESIM_SUCCESS, Some c3)" "ue_ok c3" and
    g3: "\<forall>j. ue_get_pdcp_entity j (Some c3) = (if j = 2 then Some e2 else ue_get_pdcp_entity j (Some c2))"
    using set_pdcp_done [OF c2(2), of 2 e2] by (auto simp: ue_limits)
  obtain d where d: "activate_slot good_os 2 (Some c3) = Some d" "ue_ok d" and
    g4: "\<forall>j. ue_get_pdcp_entity j (Some d) =
      (if j = 2 then Some (e2\<lparr>pdcp_active := True\<rparr>) else ue_get_pdcp_entity j (Some c3))"
    using activate_slot_done [OF c3(2), of 2 e2] g3 by (auto simp: ue_limits)
  have "pdcp_init good_os (Some c) g = ((UESIM_SUCCESS, Some d), g + 2)"
    using e1 e2 c1(1) c2(1) c3(1) d(1) by (simp add: pdcp_init_def)
  with e1 e2 d(2) g1 g2 g3 g4 show ?thesis by auto
qed

lemma rlc_init_done:
  assumes ok: "ue_ok c"
  shows "\<exists>d e1 e2. rlc_init good_os (Some c) g = ((UESIM_SUCCESS, Some d), g + 2) \<and> ue_ok d \<and>
    rlc_create_entity good_os True 1 2 (Some RLC_MODE_AM) None g = (Inr e1, g + 1) \<and>
    rlc_create_entity good_os True 2 2 (Some RLC_MODE_AM) None (g + 1) = (Inr e2, g + 2) \<and>
    (\<forall>j. ue_get_rlc_entity j (Some d) = (if j = 1 then Some e1
       else if j = 2 then Some e2 else ue_get_rlc_entity j (Some c)))"
proof -
  obtain e1 where e1: "rlc_create_entity good_os True 1 2 (Some RLC_MODE_AM) None g = (Inr e1, g + 1)"
    using rlc_created [of 1 g] by auto
  obtain e2 where e2: "rlc_create_entity good_os True 2 2 (Some RLC_MODE_AM) None (g + 1) = (Inr e2, g + 2)"
    using rlc_created [of 2 "g + 1"] by (auto simp: add.assoc)
  obtain c1 where c1: "ue_set_rlc_entity 1 (Some e1) (Some c) = (UESIM_SUCCESS, Some c1)" "ue_ok c1" and
    g1: "\<forall>j. ue_get_rlc_entity j (Some c1) = (if j = 1 then Some e1 else ue_get_rlc_entity j (Some c))"
    using set_rlc_done [OF ok, of 1 e1] by (auto simp: ue_limits)
  obtain d where d: "ue_set_rlc_entity 2 (Some e2) (Some c1) = (UESIM_SUCCESS, Some d)" "ue_ok d" and
    g2: "\<forall>j. ue_get_rlc_entity j (Some d) = (if j = 2 then Some e2 else ue_get_rlc_entity j (Some c1))"
    using set_rlc_done [OF c1(2), of 2 e2] by (auto simp: ue_limits)
  have "rlc_init good_os (Some c) g = ((UESIM_SUCCESS, Some d), g + 2)"
    using e1 e2 c1(1) d(1) by (simp add: rlc_init_def)
  with e1 e2 d(2) g1 g2 show ?thesis by auto
qed

lemma pdcp_active_sends:
  assumes "pdcp_create_entity good_os True b 2 g = (Inr e, g')" and "b < 4" and "data \<noteq> []"
  shows "\<exists>e'. pdcp_process_tx_data good_os (Some data) True (Some (e\<lparr>pdcp_active := True\<rparr>)) =
    (Inr \<lparr>pdu_sn = 0, pdu_data = Some data, mac_i = 0, ciphered = False, integrity_protected = False\<rparr>, Some e')"
proof -
  have "sn_mask e = 0x1F" "next_pdcp_sn e = 0" "security_ctx e = None" "last_tx_sn e = 0"
    using assms by (auto simp: pdcp_create_entity_def pdcp_init_sn_params_def PDCP_BEARER_DRB_MAX_def
      PDCP_BEARER_SRB3_def Let_def)
  then show ?thesis using assms(3) by (simp add: pdcp_process_tx_data_def pdcp_assign_sn_def Let_def)
qed

lemma rlc_fresh_refuses:
  assumes "rlc_create_entity good_os True b 2 (Some RLC_MODE_AM) None g = (Inr e, g')"
  shows "rlc_process_tx_data s sdu out (Some e) = (Inl UESIM_ERROR_INVALID_PARAM, Some e)"
proof -
  have "\<not> rlc_active e" using assms by (auto simp: rlc_create_entity_def split: if_splits)
  then show ?thesis by (auto simp: rlc_process_tx_data_def split: option.splits)
qed

text \<open>
  From any reachable context and with every resource available, the initialisation of PDCP
  leaves the signalling bearers 1 and 2 ready: each sends its first unit with sequence number 0 and
  unprotected data. The initialisation of RLC succeeds as well, and yet its two entities refuse
  every unit, because nothing activates them. The cleanup of PDCP empties all 36 slots and brings
  its counter back to 0.
\<close>

theorem layers_after_init:
  assumes "ue_reach c" and "b \<in> {1, 2}" and "data \<noteq> []"
  shows "\<exists>d e e' d' x z.
    pdcp_init good_os (Some c) g = ((UESIM_SUCCESS, Some d), g + 2) \<and>
    ue_get_pdcp_entity b (Some d) = Some e \<and>
    pdcp_process_tx_data good_os (Some data) True (Some e) =
      (Inr \<lparr>pdu_sn = 0, pdu_data = Some data, mac_i = 0, ciphered = False, integrity_protected = False\<rparr>, Some e') \<and>
    rlc_init good_os (Some d) h = ((UESIM_SUCCESS, Some d'), h + 2) \<and>
    ue_get_rlc_entity b (Some d') = Some x \<and>
    (\<forall>s sdu out. rlc_process_tx_data s sdu out (Some x) = (Inl UESIM_ERROR_INVALID_PARAM, Some x)) \<and>
    pdcp_cleanup (Some d') = Some z \<and> num_active_pdcp_entities z = 0 \<and>
    (\<forall>j. ue_get_pdcp_entity j (Some z) = None)"
proof -
  obtain d e1 e2 where d: "pdcp_init good_os (Some c) g = ((UESIM_SUCCESS, Some d), g + 2)" "ue_ok d"
    and e1: "pdcp_create_entity good_os True 1 2 g = (Inr e1, g + 1)"
    and e2: "pdcp_create_entity good_os True 2 2 (g + 1) = (Inr e2, g + 2)"
    and gd: "\<forall>j. ue_get_pdcp_entity j (Some d) = (if j = 1 then Some (e1\<lparr>pdcp_active := True\<rparr>)
       else if j = 2 then Some (e2\<lparr>pdcp_active := True\<rparr>) else ue_get_pdcp_entity j (Some c))"
    using pdcp_init_done [OF ue_reach_ok [OF assms(1)], of g] by blast
  obtain d' x1 x2 where d': "rlc_init good_os (Some d) h = ((UESIM_SUCCESS, Some d'), h + 2)" "ue_ok d'"
    and x1: "rlc_create_entity good_os True 1 2 (Some RLC_MODE_AM) None h = (Inr x1, h + 1)"
    and x2: "rlc_create_entity good_os True 2 2 (Some RLC_MODE_AM) None (h + 1) = (Inr x2, h + 2)"
    and gd': "\<forall>j. ue_get_rlc_entity j (Some d') = (if j = 1 then Some x1
       else if j = 2 then Some x2 else ue_get_rlc_entity j (Some d))"
    using rlc_init_done [OF d(2), of h] by blast
  obtain e e' where e: "ue_get_pdcp_entity b (Some d) = Some e"
    "pdcp_process_tx_data good_os (Some data) True (Some e) =
      (Inr \<lparr>pdu_sn = 0, pdu_data = Some data, mac_i = 0, ciphered = False, integrity_protected = False\<rparr>, Some e')"
    using gd assms(2) pdcp_active_sends [OF e1 _ assms(3)] pdcp_active_sends [OF e2 _ assms(3)] by auto
  obtain x where "ue_get_rlc_entity b (Some d') = Some x"
    "\<forall>s sdu out. rlc_process_tx_data s sdu out (Some x) = (Inl UESIM_ERROR_INVALID_PARAM, Some x)"
    using gd' assms(2) rlc_fresh_refuses [OF x1] rlc_fresh_refuses [OF x2] by auto
  with d d' e pdcp_cleanup_empties [OF d'(2)] show ?thesis by blast
qed

theorem layers_after_init_witness:
  "\<exists>c d. ue_reach c \<and> pdcp_init good_os (Some c) 0 = ((UESIM_SUCCESS, Some d), 2)"
proof -
  obtain c where "uesim_create_ue_instance good_os True 7 8 100 = Inr c"
    by (simp add: uesim_create_ue_instance_def)
  then have "ue_reach c" by (rule created)
  moreover from this have "\<exists>d. pdcp_init good_os (Some c) 0 = ((UESIM_SUCCESS, Some d), 2)"
    using layers_after_init [of c 1 "[1]" 0 0] by auto
  ultimately show ?thesis by blast
qed

section \<open>Two numberings of the data bearers\<close>

text \<open>
  A data bearer is configured under a number from 0 to 31, which its configuration stores as its
  bearer identity, but it is found and removed under that number plus 4. The removal under the stored
  identity succeeds and leaves the bearer active; for the numbers below 4 it switches off the
  signalling bearer of that number instead.
\<close>

theorem drb_identity_mismatch:
  assumes "ue_reach c" and "unat i < 32" and "ue_configure_drb i l q x y (Some c) = (r, Some d)"
  shows "\<exists>k z. r = UESIM_SUCCESS \<and> ue_get_bearer_config (i + 4) (Some d) = Some k \<and>
    bc_active k \<and> bc_bearer_id k = i \<and> bc_lcid k = l \<and>
    ue_remove_bearer (bc_bearer_id k) (Some d) = (UESIM_SUCCESS, Some z) \<and>
    ue_get_bearer_config (i + 4) (Some z) = Some k \<and>
    (unat i < 4 \<longrightarrow> (\<exists>m. ue_get_bearer_config i (Some z) = Some m \<and> \<not> bc_active m))"
proof -
  let ?k = "\<lparr>bc_active = True, bc_bearer_id = i, bc_lcid = l, bc_priority = q,
    prioritized_bit_rate = x, bucket_size_duration = y\<rparr>"
  have ok: "ue_ok c" by (rule ue_reach_ok [OF assms(1)])
  then have len: "length (srb_config c) = 4" "length (drb_config c) = 32"
    using counted_length by (fastforce simp: ue_ok_def ue_limits)+
  have shift: "unat (i + 4) = unat i + 4" using assms(2) by (simp add: unat_word_ariths)
  have d: "r = UESIM_SUCCESS" "drb_config d = (drb_config c)[unat i := ?k]" "srb_config d = srb_config c"
    using assms(2,3) by (auto simp: ue_configure_drb_def ue_limits split: if_splits)
  have found: "ue_get_bearer_config (i + 4) (Some d) = Some ?k"
    using assms(2) len shift d by (simp add: ue_get_bearer_config_def ue_limits Let_def)
  have "unat (i - 4) < 32" if "\<not> unat i < 4" using that assms(2) by (simp add: unat_sub_if')
  then have "\<exists>z. ue_remove_bearer i (Some d) = (UESIM_SUCCESS, Some z)"
    by (cases "unat i < 4") (simp_all add: ue_remove_bearer_def Let_def ue_limits)
  then obtain z where z: "ue_remove_bearer i (Some d) = (UESIM_SUCCESS, Some z)" by blast
  have same: "drb_config z ! unat i = ?k"
  proof (cases "unat i < 4")
    case True
    then show ?thesis using z d len by (auto simp: ue_remove_bearer_def ue_limits split: if_splits)
  next
    case False
    then have "unat (i - 4) \<noteq> unat i" and "unat (i - 4) < 32"
      using assms(2) by (simp_all add: unat_sub_if')
    then show ?thesis using z d len assms(2) False
      by (auto simp: ue_remove_bearer_def ue_limits Let_def split: if_splits)
  qed
  then have kept: "ue_get_bearer_config (i + 4) (Some z) = Some ?k"
    using assms(2) shift by (simp add: ue_get_bearer_config_def ue_limits Let_def)
  have "\<exists>m. ue_get_bearer_config i (Some z) = Some m \<and> \<not> bc_active m" if "unat i < 4"
    using that z d len by (auto simp: ue_remove_bearer_def ue_get_bearer_config_def ue_limits split: if_splits)
  with d(1) found z kept show ?thesis by auto
qed

theorem drb_identity_mismatch_witness:
  "\<exists>c d z m. ue_configure_drb 2 6 1 8 10 (Some c) = (UESIM_SUCCESS, Some d) \<and>
    ue_remove_bearer 2 (Some d) = (UESIM_SUCCESS, Some z) \<and>
    ue_get_bearer_config 2 (Some z) = Some m \<and> \<not> bc_active m"
proof -
  obtain c where "uesim_create_ue_instance good_os True 7 8 100 = Inr c"
    by (simp add: uesim_create_ue_instance_def)
  then have c: "ue_reach c" by (rule created)
  have "\<exists>d. ue_configure_drb 2 6 1 8 10 (Some c) = (UESIM_SUCCESS, Some d)"
    by (simp add: ue_configure_drb_def ue_limits)
  then obtain d where d: "ue_configure_drb 2 6 1 8 10 (Some c) = (UESIM_SUCCESS, Some d)" by blast
  from drb_identity_mismatch [OF c _ d] have "\<exists>z m. ue_remove_bearer 2 (Some d) = (UESIM_SUCCESS, Some z) \<and>
    ue_get_bearer_config 2 (Some z) = Some m \<and> \<not> bc_active m" by auto
  with d show ?thesis by blast
qed

end
