(* ===== verification/Asn1_Per.thy ===== *)
theory Asn1_Per
  imports Interfaces "HOL-Library.Monad_Syntax"
begin

text \<open>
  The bit buffer and the packed encoding primitives of \<^verbatim>\<open>src/protocol/asn1_per.c\<close>.

  A decoder reads from the list of the bytes it was given; a read behind its end leaves the defined
  behaviour of C, which is the result \<open>None\<close>. A position is a number of bits, and the pointer to it is
  an option. After an error the outputs of a decoder are not looked at.
\<close>

section \<open>The buffer\<close>

record asn1_buffer =
  ab_data :: "u8 list"
  ab_size :: nat
  ab_capacity :: nat
  ab_offset :: nat
  own_data :: bool

definition asn1_buffer_init :: "u8 list option \<Rightarrow> nat \<Rightarrow> asn1_buffer option \<Rightarrow> uesim_error \<times> asn1_buffer option" where
  "asn1_buffer_init data cap p = with_ptr p (\<lambda>b. case data of
     None \<Rightarrow> (UESIM_ERROR_INVALID_PARAM, b)
   | Some d \<Rightarrow> if cap = 0 then (UESIM_ERROR_INVALID_PARAM, b)
       else (UESIM_SUCCESS, \<lparr>ab_data = d, ab_size = 0, ab_capacity = cap, ab_offset = 0, own_data = False\<rparr>))"

text \<open>\<open>mem\<close> is what the allocated block holds; a null pointer to the data is the empty list.\<close>

definition asn1_buffer_alloc :: "os \<Rightarrow> u8 list \<Rightarrow> nat \<Rightarrow> asn1_buffer option \<Rightarrow> uesim_error \<times> asn1_buffer option" where
  "asn1_buffer_alloc s mem cap p = with_ptr p (\<lambda>b.
     if cap = 0 then (UESIM_ERROR_INVALID_PARAM, b)
     else if \<not> alloc_ok s 0 then (UESIM_ERROR_MEMORY, b\<lparr>ab_data := []\<rparr>)
     else (UESIM_SUCCESS, \<lparr>ab_data = mem, ab_size = 0, ab_capacity = cap, ab_offset = 0, own_data = True\<rparr>))"

definition asn1_buffer_free :: "asn1_buffer option \<Rightarrow> asn1_buffer option" where
  "asn1_buffer_free p = map_option (\<lambda>b. if own_data b then b\<lparr>ab_data := []\<rparr> else b) p"

definition asn1_buffer_length :: "asn1_buffer option \<Rightarrow> nat" where
  "asn1_buffer_length p = (case p of None \<Rightarrow> 0 | Some b \<Rightarrow> (ab_offset b + 7) div 8)"

text \<open>\<^verbatim>\<open>memset(buf->data, 0, buf->capacity); buf->size = 0; buf->bit_offset = 0;\<close>\<close>

definition clear_buffer :: "asn1_buffer \<Rightarrow> asn1_buffer" where
  "clear_buffer b = b\<lparr>ab_data := blit (ab_data b) 0 (replicate (ab_capacity b) 0), ab_size := 0, ab_offset := 0\<rparr>"

section \<open>Bits\<close>

text \<open>The loop of the encoder: the bits \<open>n - 1\<close> to 0 of the value, the highest first.\<close>

fun put_bits :: "u32 \<Rightarrow> nat \<Rightarrow> asn1_buffer \<Rightarrow> uesim_error \<times> asn1_buffer" where
  "put_bits v 0 b = (UESIM_SUCCESS, b\<lparr>ab_size := (ab_offset b + 7) div 8\<rparr>)"
| "put_bits v (Suc i) b = (let idx = ab_offset b div 8 in
     if idx \<ge> ab_capacity b then (UESIM_ERROR_CAPACITY, b)
     else put_bits v i (b\<lparr>
       ab_data := (if bit v i then (ab_data b)[idx := ab_data b ! idx OR push_bit (7 - ab_offset b mod 8) 1]
         else ab_data b),
       ab_offset := ab_offset b + 1\<rparr>))"

definition asn1_encode_bits :: "u32 \<Rightarrow> nat \<Rightarrow> asn1_buffer option \<Rightarrow> uesim_error \<times> asn1_buffer option" where
  "asn1_encode_bits v n p = with_ptr p (\<lambda>b.
     if n > 32 then (UESIM_ERROR_INVALID_PARAM, b) else put_bits v n b)"

text \<open>The loop of the decoder, with the value read so far.\<close>

fun read_loop :: "u8 list \<Rightarrow> nat \<Rightarrow> u32 \<Rightarrow> nat \<Rightarrow> (u32 \<times> nat) option" where
  "read_loop d off v 0 = Some (v, off)"
| "read_loop d off v (Suc i) =
     (if off div 8 < length d
      then read_loop d (off + 1) (if bit (d ! (off div 8)) (7 - off mod 8) then v OR push_bit i 1 else v) i
      else None)"

abbreviation read_bits :: "u8 list \<Rightarrow> nat \<Rightarrow> nat \<Rightarrow> (u32 \<times> nat) option" where
  "read_bits d off n \<equiv> read_loop d off 0 n"

definition with_input :: "u8 list option \<Rightarrow> nat option \<Rightarrow> bool \<Rightarrow>
    (u8 list \<Rightarrow> nat \<Rightarrow> (uesim_error + 'a) option) \<Rightarrow> (uesim_error + 'a) option" where
  "with_input d off out f = (case d of None \<Rightarrow> Some (Inl UESIM_ERROR_INVALID_PARAM) | Some x \<Rightarrow>
     case off of None \<Rightarrow> Some (Inl UESIM_ERROR_INVALID_PARAM) | Some o' \<Rightarrow>
     if out then f x o' else Some (Inl UESIM_ERROR_INVALID_PARAM))"

definition asn1_decode_bits ::
  "u8 list option \<Rightarrow> nat option \<Rightarrow> bool \<Rightarrow> nat \<Rightarrow> (uesim_error + u32 \<times> nat) option" where
  "asn1_decode_bits d off out n = with_input d off out (\<lambda>x p.
     if n > 32 then Some (Inl UESIM_ERROR_INVALID_PARAM) else map_option Inr (read_bits x p n))"

section \<open>Primitive types\<close>

definition asn1_encode_boolean :: "bool \<Rightarrow> asn1_buffer option \<Rightarrow> uesim_error \<times> asn1_buffer option" where
  "asn1_encode_boolean v p = asn1_encode_bits (if v then 1 else 0) 1 p"

definition asn1_decode_boolean :: "u8 list option \<Rightarrow> nat option \<Rightarrow> (uesim_error + bool \<times> nat) option" where
  "asn1_decode_boolean d off = map_option (map_sum id (map_prod (\<lambda>v. v \<noteq> 0) id)) (asn1_decode_bits d off True 1)"

definition asn1_encode_integer :: "int \<Rightarrow> nat \<Rightarrow> asn1_buffer option \<Rightarrow> uesim_error \<times> asn1_buffer option" where
  "asn1_encode_integer v n p = asn1_encode_bits (word_of_int v) n p"

definition asn1_decode_integer :: "u8 list option \<Rightarrow> nat option \<Rightarrow> nat \<Rightarrow> (uesim_error + int \<times> nat) option" where
  "asn1_decode_integer d off n = map_option (map_sum id (map_prod uint id)) (asn1_decode_bits d off True n)"

text \<open>\<^verbatim>\<open>while (tmp) { bits++; tmp >>= 1; }\<close>\<close>

fun bits_needed :: "nat \<Rightarrow> nat" where
  "bits_needed n = (if n = 0 then 0 else Suc (bits_needed (n div 2)))"

declare bits_needed.simps [simp del]

definition asn1_count_bits :: "u64 \<Rightarrow> nat" where
  "asn1_count_bits v = (let n = bits_needed (unat v) in if n = 0 then 1 else n)"

definition asn1_encode_enumerated :: "u32 \<Rightarrow> u32 \<Rightarrow> asn1_buffer option \<Rightarrow> uesim_error \<times> asn1_buffer option" where
  "asn1_encode_enumerated v num p =
     (if num \<le> 1 then (UESIM_SUCCESS, p) else asn1_encode_bits v (bits_needed (unat (num - 1))) p)"

definition asn1_decode_enumerated ::
  "u8 list option \<Rightarrow> nat option \<Rightarrow> u32 \<Rightarrow> (uesim_error + u32 \<times> nat option) option" where
  "asn1_decode_enumerated d off num =
     (if num \<le> 1 then Some (Inr (0, off))
      else map_option (map_sum id (map_prod id Some)) (asn1_decode_bits d off True (bits_needed (unat (num - 1)))))"

text \<open>The null type has no encoding.\<close>

definition asn1_encode_null :: "asn1_buffer option \<Rightarrow> uesim_error \<times> asn1_buffer option" where
  "asn1_encode_null p = (UESIM_SUCCESS, p)"

definition asn1_decode_null :: "u8 list option \<Rightarrow> nat option \<Rightarrow> uesim_error \<times> nat option" where
  "asn1_decode_null d off = (UESIM_SUCCESS, off)"

section \<open>Lengths and strings\<close>

definition put_length :: "nat \<Rightarrow> asn1_buffer \<Rightarrow> uesim_error \<times> asn1_buffer" where
  "put_length len b =
     (if len < 128 then put_bits (word_of_nat len) 8 b
      else if len < 256 then put_bits (word_of_nat len) 8 (snd (put_bits 0x81 8 b))
      else put_bits (word_of_nat len) 16 (snd (put_bits 0x82 8 b)))"

definition asn1_encode_length :: "nat \<Rightarrow> asn1_buffer option \<Rightarrow> uesim_error \<times> asn1_buffer option" where
  "asn1_encode_length len p = with_ptr p (put_length len)"

text \<open>The bytes are copied to the byte position \<open>size\<close>; the bit position moves on by their bits.\<close>

definition put_copy :: "u8 list option \<Rightarrow> nat \<Rightarrow> asn1_buffer \<Rightarrow> uesim_error \<times> asn1_buffer" where
  "put_copy data len b =
     (if ab_size b + len > ab_capacity b then (UESIM_ERROR_CAPACITY, b)
      else (UESIM_SUCCESS, b\<lparr>
        ab_data := (case data of None \<Rightarrow> ab_data b | Some d \<Rightarrow> blit (ab_data b) (ab_size b) (take len d)),
        ab_offset := ab_offset b + len * 8, ab_size := ab_size b + len\<rparr>))"

definition put_octets :: "u8 list option \<Rightarrow> nat \<Rightarrow> asn1_buffer \<Rightarrow> uesim_error \<times> asn1_buffer" where
  "put_octets data len b = (case put_length len b of (r, b1) \<Rightarrow>
     if r \<noteq> UESIM_SUCCESS then (r, b1) else put_copy data len b1)"

definition asn1_encode_octet_string ::
  "u8 list option \<Rightarrow> nat \<Rightarrow> asn1_buffer option \<Rightarrow> uesim_error \<times> asn1_buffer option" where
  "asn1_encode_octet_string data len p = with_ptr p (put_octets data len)"

definition read_length :: "u8 list \<Rightarrow> nat \<Rightarrow> (uesim_error + nat \<times> nat) option" where
  "read_length d off = do {
     (first, p) \<leftarrow> read_bits d off 8;
     if first < 128 then Some (Inr (unat first, p))
     else if first = 0x81 then do { (v, p2) \<leftarrow> read_bits d p 8; Some (Inr (unat v, p2)) }
     else if first = 0x82 then do { (v, p2) \<leftarrow> read_bits d p 16; Some (Inr (unat v, p2)) }
     else Some (Inl UESIM_ERROR_PROTOCOL) }"

definition asn1_decode_length ::
  "u8 list option \<Rightarrow> nat option \<Rightarrow> bool \<Rightarrow> (uesim_error + nat \<times> nat) option" where
  "asn1_decode_length d off out = with_input d off out read_length"

text \<open>The bits \<open>i\<close> of \<open>is\<close> of a byte array, one by one; the result of each write is ignored.\<close>

fun put_bit_run :: "u8 list \<Rightarrow> nat list \<Rightarrow> asn1_buffer \<Rightarrow> asn1_buffer option" where
  "put_bit_run d [] b = Some b"
| "put_bit_run d (i # is) b =
     (if i div 8 < length d
      then put_bit_run d is (snd (put_bits (if bit (d ! (i div 8)) (7 - i mod 8) then 1 else 0) 1 b))
      else None)"

definition asn1_encode_bit_string ::
  "u8 list option \<Rightarrow> nat \<Rightarrow> bool \<Rightarrow> nat \<Rightarrow> asn1_buffer option \<Rightarrow> (uesim_error \<times> asn1_buffer option) option" where
  "asn1_encode_bit_string data n constr fixed p = (case p of
     None \<Rightarrow> Some (UESIM_ERROR_INVALID_PARAM, None)
   | Some b \<Rightarrow>
       if constr \<and> fixed > 0 then
         map_option (\<lambda>b'. (UESIM_SUCCESS, Some b'))
           (put_bit_run (case data of None \<Rightarrow> [] | Some d \<Rightarrow> d) [0..<n] b)
       else let bytes = (n + 7) div 8; (r, b2) = put_copy data bytes (snd (put_length bytes b))
         in Some (r, Some b2))"

definition asn1_decode_bit_string ::
  "u8 list option \<Rightarrow> nat option \<Rightarrow> nat \<Rightarrow> bool \<Rightarrow> bool \<Rightarrow> nat \<Rightarrow> (uesim_error + u8 list \<times> nat \<times> nat) option" where
  "asn1_decode_bit_string d off maxb out constr fixed = with_input d off out (\<lambda>x p. do {
     hdr \<leftarrow> (if constr \<and> fixed > 0 then Some (Inr ((fixed + 7) div 8, fixed, p))
       else map_option (map_sum (\<lambda>_. UESIM_ERROR_PROTOCOL) (\<lambda>(len, p2). (len, len * 8, p2))) (read_length x p));
     case hdr of Inl r \<Rightarrow> Some (Inl r) | Inr (len, bits, p2) \<Rightarrow>
       if len > maxb then Some (Inl UESIM_ERROR_CAPACITY)
       else if len > 0 \<and> length x < p2 div 8 + len then None
       else Some (Inr (take len (drop (p2 div 8) x), bits, p2 + len * 8)) })"

section \<open>Constructed types\<close>

definition asn1_encode_sequence :: "bool list option \<Rightarrow> asn1_buffer option \<Rightarrow> uesim_error \<times> asn1_buffer option" where
  "asn1_encode_sequence opts p = with_ptr p (\<lambda>b. (UESIM_SUCCESS, case opts of
     None \<Rightarrow> b | Some os \<Rightarrow> foldl (\<lambda>b v. snd (put_bits (if v then 1 else 0) 1 b)) b os))"

fun read_flags :: "u8 list \<Rightarrow> nat \<Rightarrow> nat \<Rightarrow> (bool list \<times> nat) option" where
  "read_flags d off 0 = Some ([], off)"
| "read_flags d off (Suc n) = do {
     (v, p) \<leftarrow> read_bits d off 1; (vs, p2) \<leftarrow> read_flags d p n; Some ((v \<noteq> 0) # vs, p2) }"

text \<open>\<open>n\<close> is the number of optional fields, and 0 when no place for the flags is given.\<close>

definition asn1_decode_sequence ::
  "u8 list option \<Rightarrow> nat option \<Rightarrow> nat \<Rightarrow> (uesim_error + bool list \<times> nat) option" where
  "asn1_decode_sequence d off n = with_input d off True (\<lambda>x p. map_option Inr (read_flags x p n))"

definition asn1_encode_sequence_of ::
  "nat \<Rightarrow> nat \<Rightarrow> nat \<Rightarrow> asn1_buffer option \<Rightarrow> uesim_error \<times> asn1_buffer option" where
  "asn1_encode_sequence_of n lo hi p = with_ptr p (\<lambda>b. (UESIM_SUCCESS,
     if lo = hi then b
     else if hi \<le> 255 then snd (put_bits (word_of_nat n) 8 b)
     else if hi \<le> 65535 then snd (put_bits (word_of_nat n) 16 (snd (put_bits 0x82 8 b)))
     else snd (put_length n b)))"

text \<open>
  A failed length leaves the count 0. Without a valid length the position behind the first byte is
  kept as well.
\<close>

definition asn1_decode_sequence_of ::
  "u8 list option \<Rightarrow> nat option \<Rightarrow> bool \<Rightarrow> nat \<Rightarrow> nat \<Rightarrow> (uesim_error + nat \<times> nat) option" where
  "asn1_decode_sequence_of d off out lo hi = with_input d off out (\<lambda>x p.
     if lo = hi then Some (Inr (lo, p))
     else do {
       (n, p2) \<leftarrow> (if hi \<le> 255 then map_option (map_prod unat id) (read_bits x p 8)
         else if hi \<le> 65535 then do {
           (marker, p1) \<leftarrow> read_bits x p 8;
           if marker = 0x82 then map_option (map_prod unat id) (read_bits x p1 16)
           else Some (unat marker, p1) }
         else map_option (case_sum (\<lambda>_. (0, p + 8)) id) (read_length x p));
       if n < lo \<or> n > hi then Some (Inl UESIM_ERROR_PROTOCOL) else Some (Inr (n, p2)) })"

definition asn1_encode_choice :: "u32 \<Rightarrow> u32 \<Rightarrow> asn1_buffer option \<Rightarrow> uesim_error \<times> asn1_buffer option" where
  "asn1_encode_choice c num p = with_ptr p (\<lambda>b.
     if num = 0 then (UESIM_ERROR_INVALID_PARAM, b)
     else let n = bits_needed (unat (num - 1)) in
       (UESIM_SUCCESS, if n > 0 then snd (put_bits c n b) else b))"

definition asn1_decode_choice ::
  "u8 list option \<Rightarrow> nat option \<Rightarrow> bool \<Rightarrow> u32 \<Rightarrow> (uesim_error + u32 \<times> nat) option" where
  "asn1_decode_choice d off out num = with_input d off out (\<lambda>x p.
     if num = 0 then Some (Inl UESIM_ERROR_INVALID_PARAM)
     else if num = 1 then Some (Inr (0, p))
     else map_option Inr (read_bits x p (bits_needed (unat (num - 1)))))"

text \<open>The values are signed 64-bit integers; the differences are taken modulo \<open>2 ^ 64\<close>.\<close>

definition asn1_encode_constrained_integer ::
  "int \<Rightarrow> int \<Rightarrow> int \<Rightarrow> asn1_buffer option \<Rightarrow> uesim_error \<times> asn1_buffer option" where
  "asn1_encode_constrained_integer v lo hi p = with_ptr p (\<lambda>b.
     if lo > hi then (UESIM_ERROR_INVALID_PARAM, b)
     else if v < lo \<or> v > hi then (UESIM_ERROR_PROTOCOL, b)
     else let range = nat ((hi - lo) mod 2 ^ 64); bits = bits_needed range in
       if range = 0 then (UESIM_SUCCESS, b)
       else if bits > 32 then (UESIM_ERROR_INVALID_PARAM, b)
       else put_bits (word_of_int (v - lo)) bits b)"

definition asn1_decode_constrained_integer ::
  "u8 list option \<Rightarrow> nat option \<Rightarrow> bool \<Rightarrow> int \<Rightarrow> int \<Rightarrow> (uesim_error + int \<times> nat) option" where
  "asn1_decode_constrained_integer d off out lo hi = with_input d off (out \<and> lo \<le> hi) (\<lambda>x p.
     let range = nat ((hi - lo) mod 2 ^ 64); bits = bits_needed range in
       if range = 0 then Some (Inr (lo, p))
       else if bits > 32 then Some (Inl UESIM_ERROR_INVALID_PARAM)
       else do { (v, p2) \<leftarrow> read_bits x p bits;
         if uint v + lo < lo \<or> uint v + lo > hi then Some (Inl UESIM_ERROR_PROTOCOL)
         else Some (Inr (uint v + lo, p2)) })"

section \<open>Alignment and object identifiers\<close>

definition align8 :: "nat \<Rightarrow> nat" where
  "align8 off = (off + 7) div 8 * 8"

definition asn1_byte_align :: "asn1_buffer option \<Rightarrow> uesim_error \<times> asn1_buffer option" where
  "asn1_byte_align p = with_ptr p (\<lambda>b. (UESIM_SUCCESS,
     if ab_offset b mod 8 \<noteq> 0
     then b\<lparr>ab_offset := align8 (ab_offset b), ab_size := align8 (ab_offset b) div 8\<rparr> else b))"

definition asn1_skip_to_byte_boundary :: "nat option \<Rightarrow> nat option" where
  "asn1_skip_to_byte_boundary off = map_option (\<lambda>p. if p mod 8 \<noteq> 0 then align8 p else p) off"

text \<open>A component in groups of seven bits; the results of the writes are ignored.\<close>

definition oid_groups :: "u32 \<Rightarrow> u32 list" where
  "oid_groups v =
     (if v < 128 then [v]
      else if v < 16384 then [drop_bit 7 v OR 0x80, v AND 0x7F]
      else if v < 2097152 then [drop_bit 14 v OR 0x80, (drop_bit 7 v AND 0x7F) OR 0x80, v AND 0x7F]
      else [drop_bit 21 v OR 0x80, (drop_bit 14 v AND 0x7F) OR 0x80, (drop_bit 7 v AND 0x7F) OR 0x80, v AND 0x7F])"

definition asn1_encode_oid :: "u32 list option \<Rightarrow> asn1_buffer option \<Rightarrow> uesim_error \<times> asn1_buffer option" where
  "asn1_encode_oid comps p = with_ptr p (\<lambda>b. case comps of
     Some (a # c # rest) \<Rightarrow> (UESIM_SUCCESS,
       foldl (\<lambda>b v. snd (put_bits v 8 b)) b
         (((40 * a + c) AND 0xFF) # concat (map oid_groups rest)))
   | _ \<Rightarrow> (UESIM_ERROR_INVALID_PARAM, b))"

lemma read_loop_offset: "read_loop d off v n = Some (w, p) \<Longrightarrow> p = off + n \<and> (0 < n \<longrightarrow> p \<le> 8 * length d)"
  by (induction d off v n rule: read_loop.induct) (auto split: if_splits)

function oid_component :: "u8 list \<Rightarrow> nat \<Rightarrow> u32 \<Rightarrow> (u32 \<times> nat) option" where
  "oid_component d off v = (case read_bits d off 8 of
     None \<Rightarrow> None
   | Some (byte, p) \<Rightarrow>
       if byte AND 0x80 \<noteq> 0 then oid_component d p (push_bit 7 v OR (byte AND 0x7F))
       else Some (push_bit 7 v OR (byte AND 0x7F), p))"
  by pat_completeness auto
termination
  by (relation "measure (\<lambda>(d, off, v). 8 * length d - off)") (auto dest!: read_loop_offset)

declare oid_component.simps [simp del]

text \<open>The loop ends when the place for the components is used up, or with four of them.\<close>

function oid_loop :: "u8 list \<Rightarrow> nat \<Rightarrow> u32 list \<Rightarrow> nat \<Rightarrow> (u32 list \<times> nat) option" where
  "oid_loop d off comps maxc =
     (if off div 8 < 1024 \<and> length comps < maxc then
        (case oid_component d off 0 of
           None \<Rightarrow> None
         | Some (v, p) \<Rightarrow>
             if length comps + 1 \<ge> 4 then Some (comps @ [v], p) else oid_loop d p (comps @ [v]) maxc)
      else Some (comps, off))"
  by pat_completeness auto
termination
  by (relation "measure (\<lambda>(d, off, comps, maxc). maxc - length comps)") auto

declare oid_loop.simps [simp del]

definition asn1_decode_oid ::
  "u8 list option \<Rightarrow> nat option \<Rightarrow> bool \<Rightarrow> nat \<Rightarrow> (uesim_error + u32 list \<times> nat) option" where
  "asn1_decode_oid d off out maxc = with_input d off out (\<lambda>x p.
     if maxc < 2 then Some (Inl UESIM_ERROR_CAPACITY)
     else do { (first, p1) \<leftarrow> read_bits x p 8;
       map_option Inr (oid_loop x p1 [first div 40, first mod 40] maxc) })"

end
