(* ===== verification/Asn1_Rrc.thy ===== *)
theory Asn1_Rrc
  imports Asn1_Per
begin

text \<open>
  The codecs of the RRC messages in \<^verbatim>\<open>src/protocol/asn1_per.c\<close>. A byte array with its length is the
  list of its valid bytes. An encoder clears the buffer and writes its fields without looking at the
  results of the writes; a decoder gets the list of the \<^verbatim>\<open>len\<close> bytes that were received and
  updates the structure it was given, and a read behind the bytes is the result \<open>None\<close>.
\<close>

section \<open>Messages\<close>

record rrc_ue_identity =
  id_type :: u8
  random_value :: u64

record rrc_setup_request =
  sr_identity :: rrc_ue_identity
  establishment_cause :: u32

record rrc_setup =
  su_tid :: u8
  su_bearer_config :: "u8 list"
  su_cell_group :: "u8 list"

record rrc_setup_complete =
  sc_tid :: u8
  selected_plmn :: u8
  nas_pdu :: "u8 list"

record rrc_reest_request =
  rr_identity :: rrc_ue_identity
  reestablishment_cause :: u32
  rr_pci :: u16
  rr_c_rnti :: u32
  short_mac_i :: "u8 list"

record rrc_reestablishment =
  re_tid :: u8
  re_bearer_config :: "u8 list"

record rrc_reconfiguration =
  rc_tid :: u8
  rc_bearer_config :: "u8 list"
  meas_config :: "u8 list"
  has_mobility_config :: bool
  mobility_config :: "u8 list"

record rrc_measurement_report =
  mr_meas_id :: u8
  mr_rsrp :: s32
  mr_rsrq :: s32
  mr_pci :: u16
  mr_cell_id :: u32

record rrc_handover_command =
  hc_tid :: u8
  target_pci :: u16
  target_cell_id :: u32
  new_c_rnti :: u8
  hc_bearer_config :: "u8 list"

record rrc_ue_cap_enquiry =
  enquiry_id :: u8
  rat_types :: "u8 list"

record rrc_ue_cap_info =
  ci_rat_type :: u8
  capability_container :: "u8 list"

record rrc_connection_release =
  release_cause :: u8
  redirect_carrier :: bool
  redirect_earfcn :: u16

record rrc_handover_prep =
  hp_meas_id :: u8
  hp_rsrp :: s32
  hp_rsrq :: s32
  hp_pci :: u16
  hp_cell_id :: u32

record rrc_security_mode_cmd =
  sm_tid :: u8
  sm_ciphering_alg :: u8
  sm_integrity_alg :: u8
  security_capabilities :: "u8 list"

text \<open>The messages that carry a transaction identity only.\<close>

type_synonym rrc_reest_complete = u8
type_synonym rrc_reconfig_complete = u8
type_synonym rrc_handover_confirm = u8
type_synonym rrc_security_mode_complete = u8

section \<open>Encoders\<close>

text \<open>A field is a value with its number of bits.\<close>

definition emit :: "(u32 \<times> nat) list \<Rightarrow> asn1_buffer \<Rightarrow> asn1_buffer" where
  "emit fs b = foldl (\<lambda>b (v, n). snd (put_bits v n b)) b fs"

definition octets :: "u8 list \<Rightarrow> asn1_buffer \<Rightarrow> asn1_buffer" where
  "octets d b = snd (put_octets (Some d) (length d) b)"

definition message :: "'m option \<Rightarrow> ('m \<Rightarrow> asn1_buffer \<Rightarrow> asn1_buffer) \<Rightarrow> asn1_buffer option
    \<Rightarrow> uesim_error \<times> asn1_buffer option" where
  "message msg f p = with_ptr p (\<lambda>b. case msg of
     None \<Rightarrow> (UESIM_ERROR_INVALID_PARAM, b) | Some m \<Rightarrow> (UESIM_SUCCESS, f m (clear_buffer b)))"

text \<open>An enumerated field of \<open>num\<close> values.\<close>

definition enum_field :: "u32 \<Rightarrow> nat \<Rightarrow> u32 \<times> nat" where
  "enum_field v num = (v, bits_needed (num - 1))"

definition setup_request_fields :: "rrc_setup_request \<Rightarrow> (u32 \<times> nat) list" where
  "setup_request_fields m = [enum_field (establishment_cause m) 4, (0, 1),
     (ucast (id_type (sr_identity m)), 1),
     (ucast (drop_bit 8 (random_value (sr_identity m))), 31),
     (ucast (random_value (sr_identity m) AND 0xFF), 8)]"

definition rrc_encode_setup_request ::
  "rrc_setup_request option \<Rightarrow> asn1_buffer option \<Rightarrow> uesim_error \<times> asn1_buffer option" where
  "rrc_encode_setup_request msg p = message msg (\<lambda>m. emit (setup_request_fields m)) p"

definition rrc_encode_setup :: "rrc_setup option \<Rightarrow> asn1_buffer option \<Rightarrow> uesim_error \<times> asn1_buffer option" where
  "rrc_encode_setup msg p = message msg (\<lambda>m b.
     octets (su_bearer_config m) (emit [(ucast (su_tid m), 2), (0, 6)] b)) p"

definition rrc_encode_setup_complete ::
  "rrc_setup_complete option \<Rightarrow> asn1_buffer option \<Rightarrow> uesim_error \<times> asn1_buffer option" where
  "rrc_encode_setup_complete msg p = message msg (\<lambda>m b.
     octets (nas_pdu m) (emit [(ucast (sc_tid m), 2), (ucast (selected_plmn m), 4), (0, 2)] b)) p"

definition reest_request_fields :: "rrc_reest_request \<Rightarrow> (u32 \<times> nat) list" where
  "reest_request_fields m = [enum_field (reestablishment_cause m) 3, (ucast (rr_pci m), 16),
     (rr_c_rnti m, 16), (ucast (short_mac_i m ! 0), 8), (ucast (short_mac_i m ! 1), 8),
     (ucast (id_type (rr_identity m)), 1),
     (ucast (drop_bit 8 (random_value (rr_identity m))), 31),
     (ucast (random_value (rr_identity m) AND 0xFF), 8)]"

definition rrc_encode_reest_request ::
  "rrc_reest_request option \<Rightarrow> asn1_buffer option \<Rightarrow> uesim_error \<times> asn1_buffer option" where
  "rrc_encode_reest_request msg p = message msg (\<lambda>m. emit (reest_request_fields m)) p"

definition rrc_encode_reestablishment ::
  "rrc_reestablishment option \<Rightarrow> asn1_buffer option \<Rightarrow> uesim_error \<times> asn1_buffer option" where
  "rrc_encode_reestablishment msg p = message msg (\<lambda>m b.
     octets (re_bearer_config m) (emit [(ucast (re_tid m), 2), (0, 6)] b)) p"

definition rrc_encode_reest_complete ::
  "rrc_reest_complete option \<Rightarrow> asn1_buffer option \<Rightarrow> uesim_error \<times> asn1_buffer option" where
  "rrc_encode_reest_complete msg p = message msg (\<lambda>tid. emit [(ucast tid, 2), (0, 6)]) p"

definition rrc_encode_reconfiguration ::
  "rrc_reconfiguration option \<Rightarrow> asn1_buffer option \<Rightarrow> uesim_error \<times> asn1_buffer option" where
  "rrc_encode_reconfiguration msg p = message msg (\<lambda>m b. let
     b1 = octets (rc_bearer_config m) (emit [(ucast (rc_tid m), 2), (0, 6)] b);
     b2 = (if meas_config m \<noteq> [] then octets (meas_config m) (emit [(1, 1)] b1) else emit [(0, 1)] b1)
     in if has_mobility_config m \<and> mobility_config m \<noteq> []
        then octets (mobility_config m) (emit [(1, 1)] b2) else emit [(0, 1)] b2) p"

definition rrc_encode_reconfig_complete ::
  "rrc_reconfig_complete option \<Rightarrow> asn1_buffer option \<Rightarrow> uesim_error \<times> asn1_buffer option" where
  "rrc_encode_reconfig_complete msg p = message msg (\<lambda>tid. emit [(ucast tid, 2), (0, 6)]) p"

text \<open>The received power and quality as offsets from -140 dBm and -20 dB.\<close>

definition measurement_fields :: "u8 \<Rightarrow> s32 \<Rightarrow> s32 \<Rightarrow> u16 \<Rightarrow> u32 \<Rightarrow> (u32 \<times> nat) list" where
  "measurement_fields i rsrp rsrq pci cell =
     [(ucast i, 6), (0, 2), (rsrp + 140, 8), (rsrq + 20, 7), (ucast pci, 16), (cell, 28)]"

definition rrc_encode_measurement_report ::
  "rrc_measurement_report option \<Rightarrow> asn1_buffer option \<Rightarrow> uesim_error \<times> asn1_buffer option" where
  "rrc_encode_measurement_report msg p = message msg (\<lambda>m.
     emit (measurement_fields (mr_meas_id m) (mr_rsrp m) (mr_rsrq m) (mr_pci m) (mr_cell_id m))) p"

definition rrc_encode_handover_command ::
  "rrc_handover_command option \<Rightarrow> asn1_buffer option \<Rightarrow> uesim_error \<times> asn1_buffer option" where
  "rrc_encode_handover_command msg p = message msg (\<lambda>m b.
     octets (hc_bearer_config m) (emit [(ucast (hc_tid m), 2), (0, 6), (ucast (target_pci m), 16),
       (target_cell_id m, 28), (ucast (new_c_rnti m), 16)] b)) p"

definition rrc_encode_handover_confirm ::
  "rrc_handover_confirm option \<Rightarrow> asn1_buffer option \<Rightarrow> uesim_error \<times> asn1_buffer option" where
  "rrc_encode_handover_confirm msg p = message msg (\<lambda>tid. emit [(ucast tid, 2), (0, 6)]) p"

definition rrc_encode_ue_cap_enquiry ::
  "rrc_ue_cap_enquiry option \<Rightarrow> asn1_buffer option \<Rightarrow> uesim_error \<times> asn1_buffer option" where
  "rrc_encode_ue_cap_enquiry msg p = message msg (\<lambda>m. emit
     ([(ucast (enquiry_id m), 4), (word_of_nat (length (rat_types m)), 4)] @
      map (\<lambda>t. (ucast t, 4)) (take 8 (rat_types m)))) p"

definition rrc_encode_ue_cap_info ::
  "rrc_ue_cap_info option \<Rightarrow> asn1_buffer option \<Rightarrow> uesim_error \<times> asn1_buffer option" where
  "rrc_encode_ue_cap_info msg p = message msg (\<lambda>m b.
     octets (capability_container m) (emit [(ucast (ci_rat_type m), 4), (0, 4)] b)) p"

definition rrc_encode_connection_release ::
  "rrc_connection_release option \<Rightarrow> asn1_buffer option \<Rightarrow> uesim_error \<times> asn1_buffer option" where
  "rrc_encode_connection_release msg p = message msg (\<lambda>m. emit
     ([(ucast (release_cause m), 3), (if redirect_carrier m then 1 else 0, 1)] @
      (if redirect_carrier m then [(ucast (redirect_earfcn m), 16)] else []) @ [(0, 5)])) p"

definition rrc_encode_handover_prep ::
  "rrc_handover_prep option \<Rightarrow> asn1_buffer option \<Rightarrow> uesim_error \<times> asn1_buffer option" where
  "rrc_encode_handover_prep msg p = message msg (\<lambda>m.
     emit (measurement_fields (hp_meas_id m) (hp_rsrp m) (hp_rsrq m) (hp_pci m) (hp_cell_id m))) p"

definition rrc_encode_security_mode_cmd ::
  "rrc_security_mode_cmd option \<Rightarrow> asn1_buffer option \<Rightarrow> uesim_error \<times> asn1_buffer option" where
  "rrc_encode_security_mode_cmd msg p = message msg (\<lambda>m b. let
     b1 = emit [(ucast (sm_tid m), 2), (0, 6), (ucast (sm_ciphering_alg m), 4), (ucast (sm_integrity_alg m), 4)] b;
     caps = take 4 (security_capabilities m)
     in if caps \<noteq> [] then octets caps b1 else b1) p"

definition rrc_encode_security_mode_complete ::
  "rrc_security_mode_complete option \<Rightarrow> asn1_buffer option \<Rightarrow> uesim_error \<times> asn1_buffer option" where
  "rrc_encode_security_mode_complete msg p = message msg (\<lambda>tid. emit [(ucast tid, 2), (0, 6)]) p"

section \<open>Decoders\<close>

text \<open>The values of consecutive fields with the given numbers of bits.\<close>

fun read_fields :: "u8 list \<Rightarrow> nat \<Rightarrow> nat list \<Rightarrow> (u32 list \<times> nat) option" where
  "read_fields d off [] = Some ([], off)"
| "read_fields d off (n # ns) = do {
     (v, p) \<leftarrow> read_bits d off n; (vs, q) \<leftarrow> read_fields d p ns; Some (v # vs, q) }"

definition decoder :: "u8 list option \<Rightarrow> nat \<Rightarrow> 'm option \<Rightarrow> (u8 list \<Rightarrow> 'm \<Rightarrow> 'm option)
    \<Rightarrow> (uesim_error \<times> 'm option) option" where
  "decoder data need msg f = (case data of None \<Rightarrow> Some (UESIM_ERROR_INVALID_PARAM, msg) | Some d \<Rightarrow>
     case msg of None \<Rightarrow> Some (UESIM_ERROR_INVALID_PARAM, None) | Some m \<Rightarrow>
     if length d < need then Some (UESIM_ERROR_INVALID_PARAM, msg)
     else map_option (\<lambda>m'. (UESIM_SUCCESS, Some m')) (f d m))"

text \<open>The rest of the bytes from a bit position on, at most \<open>n\<close> of them.\<close>

definition rest_bytes :: "u8 list \<Rightarrow> nat \<Rightarrow> nat \<Rightarrow> u8 list" where
  "rest_bytes d off n = (let i = (off + 7) div 8 in if i < length d then take n (drop i d) else [])"

definition identity_of :: "u32 \<Rightarrow> u32 \<Rightarrow> u32 \<Rightarrow> rrc_ue_identity" where
  "identity_of ty high low = \<lparr>id_type = ucast ty, random_value = push_bit 8 (ucast high) OR ucast low\<rparr>"

definition rrc_decode_setup_request ::
  "u8 list option \<Rightarrow> rrc_setup_request option \<Rightarrow> (uesim_error \<times> rrc_setup_request option) option" where
  "rrc_decode_setup_request data msg = decoder data 6 msg (\<lambda>d m. do {
     (vs, p) \<leftarrow> read_fields d 0 [bits_needed 3, 1, 1, 31, 8];
     Some \<lparr>sr_identity = identity_of (vs ! 2) (vs ! 3) (vs ! 4), establishment_cause = vs ! 0\<rparr> })"

definition rrc_decode_setup :: "u8 list option \<Rightarrow> rrc_setup option \<Rightarrow> (uesim_error \<times> rrc_setup option) option" where
  "rrc_decode_setup data msg = decoder data 4 msg (\<lambda>d m. do {
     (vs, p) \<leftarrow> read_fields d 0 [2, 6];
     Some (m\<lparr>su_tid := ucast (vs ! 0), su_bearer_config := rest_bytes d p 256\<rparr>) })"

definition rrc_decode_setup_complete ::
  "u8 list option \<Rightarrow> rrc_setup_complete option \<Rightarrow> (uesim_error \<times> rrc_setup_complete option) option" where
  "rrc_decode_setup_complete data msg = decoder data 2 msg (\<lambda>d m. do {
     (vs, p) \<leftarrow> read_fields d 0 [2, 4, 2];
     Some \<lparr>sc_tid = ucast (vs ! 0), selected_plmn = ucast (vs ! 1), nas_pdu = rest_bytes d p 1024\<rparr> })"

definition rrc_decode_reest_request ::
  "u8 list option \<Rightarrow> rrc_reest_request option \<Rightarrow> (uesim_error \<times> rrc_reest_request option) option" where
  "rrc_decode_reest_request data msg = decoder data 12 msg (\<lambda>d m. do {
     (vs, p) \<leftarrow> read_fields d 0 [bits_needed 2, 16, 16, 8, 8, 1, 31, 8];
     Some \<lparr>rr_identity = identity_of (vs ! 5) (vs ! 6) (vs ! 7), reestablishment_cause = vs ! 0,
       rr_pci = ucast (vs ! 1), rr_c_rnti = vs ! 2, short_mac_i = [ucast (vs ! 3), ucast (vs ! 4)]\<rparr> })"

definition rrc_decode_reestablishment ::
  "u8 list option \<Rightarrow> rrc_reestablishment option \<Rightarrow> (uesim_error \<times> rrc_reestablishment option) option" where
  "rrc_decode_reestablishment data msg = decoder data 4 msg (\<lambda>d m. do {
     (vs, p) \<leftarrow> read_fields d 0 [2, 6];
     Some \<lparr>re_tid = ucast (vs ! 0), re_bearer_config = rest_bytes d p 256\<rparr> })"

definition rrc_decode_reconfiguration ::
  "u8 list option \<Rightarrow> rrc_reconfiguration option \<Rightarrow> (uesim_error \<times> rrc_reconfiguration option) option" where
  "rrc_decode_reconfiguration data msg = decoder data 4 msg (\<lambda>d m. do {
     (vs, p) \<leftarrow> read_fields d 0 [2, 6];
     Some \<lparr>rc_tid = ucast (vs ! 0), rc_bearer_config = rest_bytes d p 512, meas_config = [],
       has_mobility_config = False, mobility_config = []\<rparr> })"

definition rrc_decode_reconfig_complete ::
  "u8 list option \<Rightarrow> rrc_reconfig_complete option \<Rightarrow> (uesim_error \<times> rrc_reconfig_complete option) option" where
  "rrc_decode_reconfig_complete data msg = decoder data 1 msg (\<lambda>d m. do {
     (v, p) \<leftarrow> read_bits d 0 2; Some (ucast v) })"

definition rrc_decode_measurement_report ::
  "u8 list option \<Rightarrow> rrc_measurement_report option \<Rightarrow> (uesim_error \<times> rrc_measurement_report option) option" where
  "rrc_decode_measurement_report data msg = decoder data 10 msg (\<lambda>d m. do {
     (vs, p) \<leftarrow> read_fields d 0 [6, 2, 8, 7, 16, 28];
     Some \<lparr>mr_meas_id = ucast (vs ! 0), mr_rsrp = vs ! 2 - 140, mr_rsrq = vs ! 3 - 20,
       mr_pci = ucast (vs ! 4), mr_cell_id = vs ! 5\<rparr> })"

definition rrc_decode_handover_command ::
  "u8 list option \<Rightarrow> rrc_handover_command option \<Rightarrow> (uesim_error \<times> rrc_handover_command option) option" where
  "rrc_decode_handover_command data msg = decoder data 10 msg (\<lambda>d m. do {
     (vs, p) \<leftarrow> read_fields d 0 [2, 6, 16, 28, 16];
     Some \<lparr>hc_tid = ucast (vs ! 0), target_pci = ucast (vs ! 2), target_cell_id = vs ! 3,
       new_c_rnti = ucast (vs ! 4), hc_bearer_config = rest_bytes d p 512\<rparr> })"

definition rrc_decode_ue_cap_enquiry ::
  "u8 list option \<Rightarrow> rrc_ue_cap_enquiry option \<Rightarrow> (uesim_error \<times> rrc_ue_cap_enquiry option) option" where
  "rrc_decode_ue_cap_enquiry data msg = decoder data 2 msg (\<lambda>d m. do {
     (vs, p) \<leftarrow> read_fields d 0 [4, 4];
     (ts, q) \<leftarrow> read_fields d p (replicate (if vs ! 1 < 8 then unat (vs ! 1) else 8) 4);
     Some \<lparr>enquiry_id = ucast (vs ! 0), rat_types = map ucast ts\<rparr> })"

definition rrc_decode_connection_release ::
  "u8 list option \<Rightarrow> rrc_connection_release option \<Rightarrow> (uesim_error \<times> rrc_connection_release option) option" where
  "rrc_decode_connection_release data msg = decoder data 2 msg (\<lambda>d m. do {
     (vs, p) \<leftarrow> read_fields d 0 [3, 1];
     if vs ! 1 \<noteq> 0 then do { (e, q) \<leftarrow> read_bits d p 16;
       Some \<lparr>release_cause = ucast (vs ! 0), redirect_carrier = True, redirect_earfcn = ucast e\<rparr> }
     else Some \<lparr>release_cause = ucast (vs ! 0), redirect_carrier = False, redirect_earfcn = 0\<rparr> })"

end
