(* ===== verification/Asn1_Proofs.thy ===== *)
theory Asn1_Proofs
  imports Asn1_Rrc
begin

text \<open>
  The bit buffer refines a list of bits: a write appends the bits of its field, a read takes the
  bits at its position. From this the round trip of any sequence of fields and of the messages.
\<close>

section \<open>The buffer as a list of bits\<close>

definition bit_at :: "u8 list \<Rightarrow> nat \<Rightarrow> bool" where
  "bit_at d k = bit (d ! (k div 8)) (7 - k mod 8)"

definition stream :: "asn1_buffer \<Rightarrow> bool list" where
  "stream b = map (bit_at (ab_data b)) [0..<ab_offset b]"

definition field_bits :: "u32 \<times> nat \<Rightarrow> bool list" where
  "field_bits f = map (\<lambda>i. bit (fst f) (snd f - 1 - i)) [0..<snd f]"

text \<open>Behind the bit position everything is still zero.\<close>

definition buf_ok :: "asn1_buffer \<Rightarrow> bool" where
  "buf_ok b \<longleftrightarrow> ab_capacity b \<le> length (ab_data b) \<and>
     (\<forall>k. ab_offset b \<le> k \<and> k < 8 * ab_capacity b \<longrightarrow> \<not> bit_at (ab_data b) k)"

lemma length_field_bits [simp]: "length (field_bits f) = snd f"
  by (simp add: field_bits_def)

lemma field_bits_Suc: "field_bits (v, Suc n) = bit v n # field_bits (v, n)"
  by (simp add: field_bits_def upt_conv_Cons map_Suc_upt [symmetric] del: upt_Suc map_Suc_upt)

lemma field_bits_0 [simp]: "field_bits (v, 0) = []"
  by (simp add: field_bits_def)

lemma bit_at_set:
  assumes "k div 8 < length d" and "\<not> bit_at d k"
  shows "bit_at (if c then d[k div 8 := d ! (k div 8) OR push_bit (7 - k mod 8) 1] else d) j =
    (if j = k then c else bit_at d j)"
proof (cases "j div 8 = k div 8")
  case True
  then have jk: "j = k \<longleftrightarrow> 7 - j mod 8 = 7 - k mod 8"
  proof -
    have "7 - x = 7 - y \<longleftrightarrow> x = y" if "x < 8" and "y < 8" for x y :: nat using that by arith
    then have "7 - j mod 8 = 7 - k mod 8 \<longleftrightarrow> j mod 8 = k mod 8" by simp
    also have "\<dots> \<longleftrightarrow> j = k" using True by (metis div_mult_mod_eq)
    finally show ?thesis by blast
  qed
  have "bit (push_bit (7 - k mod 8) 1 :: u8) (7 - j mod 8) \<longleftrightarrow> 7 - j mod 8 = 7 - k mod 8"
    by (auto simp: bit_exp_iff)
  then show ?thesis using assms True jk by (auto simp: bit_at_def bit_or_iff)
next
  case False
  then show ?thesis by (auto simp: bit_at_def)
qed

section \<open>Writing\<close>

lemma put_bits_ok:
  assumes "buf_ok b" and "ab_offset b + n \<le> 8 * ab_capacity b"
  shows "\<exists>b'. put_bits v n b = (UESIM_SUCCESS, b') \<and> buf_ok b' \<and>
    stream b' = stream b @ field_bits (v, n) \<and> ab_offset b' = ab_offset b + n \<and>
    ab_capacity b' = ab_capacity b \<and> length (ab_data b') = length (ab_data b) \<and>
    ab_size b' = (ab_offset b + n + 7) div 8"
  using assms
proof (induction v n b rule: put_bits.induct)
  case (1 v b)
  then show ?case by (simp add: buf_ok_def stream_def)
next
  case (2 v i b)
  let ?k = "ab_offset b"
  let ?d = "if bit v i then (ab_data b)[?k div 8 := ab_data b ! (?k div 8) OR push_bit (7 - ?k mod 8) 1]
    else ab_data b"
  let ?b = "b\<lparr>ab_data := ?d, ab_offset := ?k + 1\<rparr>"
  have room: "?k div 8 < ab_capacity b" using 2(3) by (simp add: div_less_iff_less_mult mult.commute)
  have zero: "\<not> bit_at (ab_data b) ?k" and len: "?k div 8 < length (ab_data b)"
    using 2(2,3) room by (simp_all add: buf_ok_def)
  note set = bit_at_set [OF len zero, of "bit v i"]
  have ok: "buf_ok ?b" using 2(2) by (auto simp: buf_ok_def set)
  have st: "stream ?b = stream b @ [bit v i]"
    by (auto simp: stream_def set)
  have "put_bits v (Suc i) b = put_bits v i ?b" using room by (simp add: Let_def)
  with 2(1) [OF refl _ ok] 2(3) room st show ?case by (auto simp: field_bits_Suc)
qed

lemma emit_Nil [simp]: "emit [] b = b"
  by (simp add: emit_def)

lemma emit_Cons: "emit ((v, n) # fs) b = emit fs (snd (put_bits v n b))"
  by (simp add: emit_def)

lemma emit_ok:
  assumes "buf_ok b" and "ab_offset b + sum_list (map snd fs) \<le> 8 * ab_capacity b"
  shows "buf_ok (emit fs b) \<and> stream (emit fs b) = stream b @ concat (map field_bits fs) \<and>
    ab_offset (emit fs b) = ab_offset b + sum_list (map snd fs) \<and>
    ab_capacity (emit fs b) = ab_capacity b \<and> length (ab_data (emit fs b)) = length (ab_data b) \<and>
    (fs \<noteq> [] \<longrightarrow> ab_size (emit fs b) = (ab_offset (emit fs b) + 7) div 8)"
  using assms
proof (induction fs arbitrary: b)
  case Nil
  then show ?case by simp
next
  case (Cons f fs)
  obtain v n where f: "f = (v, n)" by (cases f)
  from Cons.prems f have "ab_offset b + n \<le> 8 * ab_capacity b" by simp
  with put_bits_ok [OF Cons.prems(1)] obtain b' where b': "put_bits v n b = (UESIM_SUCCESS, b')" "buf_ok b'"
    "stream b' = stream b @ field_bits (v, n)" "ab_offset b' = ab_offset b + n"
    "ab_capacity b' = ab_capacity b" "length (ab_data b') = length (ab_data b)"
    "ab_size b' = (ab_offset b + n + 7) div 8" by blast
  have "emit (f # fs) b = emit fs b'" by (simp add: emit_Cons f b'(1))
  moreover have "ab_offset b' + sum_list (map snd fs) \<le> 8 * ab_capacity b'"
    using Cons.prems(2) b' f by simp
  note IH = Cons.IH [OF b'(2) this]
  ultimately show ?case using IH b'(3-7) f by (cases "fs = []") simp_all
qed

lemma clear_buffer_ok:
  assumes "ab_capacity b \<le> length (ab_data b)"
  shows "buf_ok (clear_buffer b)" and "stream (clear_buffer b) = []" and "ab_offset (clear_buffer b) = 0"
    and "ab_capacity (clear_buffer b) = ab_capacity b"
    and "length (ab_data (clear_buffer b)) = length (ab_data b)"
  using assms by (auto simp: clear_buffer_def buf_ok_def stream_def bit_at_def nth_blit less_mult_imp_div_less
      div_less_iff_less_mult mult.commute)

section \<open>Reading\<close>

lemma read_loop_ok:
  assumes "off + n \<le> 8 * length d"
  shows "\<exists>w. read_loop d off v n = Some (w, off + n) \<and>
    (\<forall>j. bit w j \<longleftrightarrow> bit v j \<or> (j < n \<and> j < 32 \<and> bit_at d (off + (n - 1 - j))))"
  using assms
proof (induction d off v n rule: read_loop.induct)
  case (1 d off v)
  then show ?case by simp
next
  case (2 d off v i)
  let ?v = "if bit (d ! (off div 8)) (7 - off mod 8) then v OR push_bit i 1 else v"
  have in_data: "off div 8 < length d" using 2(2) by (simp add: div_less_iff_less_mult mult.commute)
  from 2(1) [OF in_data] 2(2) obtain w where w: "read_loop d (off + 1) ?v i = Some (w, off + Suc i)"
    "\<forall>j. bit w j \<longleftrightarrow> bit ?v j \<or> (j < i \<and> j < 32 \<and> bit_at d (off + 1 + (i - 1 - j)))" by auto
  have v: "bit ?v j \<longleftrightarrow> bit v j \<or> (j = i \<and> j < 32 \<and> bit_at d off)" for j
    by (auto simp: bit_or_iff bit_exp_iff bit_at_def)
  have "bit w j \<longleftrightarrow> bit v j \<or> (j < Suc i \<and> j < 32 \<and> bit_at d (off + (Suc i - 1 - j)))" for j
  proof (cases "j < i")
    case True
    then have "off + 1 + (i - 1 - j) = off + (Suc i - 1 - j)" by simp
    with True show ?thesis using w(2) v [of j] by simp
  next
    case False
    then have "bit w j \<longleftrightarrow> bit v j \<or> (j = i \<and> j < 32 \<and> bit_at d off)"
      using spec [OF w(2), of j] v [of j] by blast
    with False show ?thesis by (cases "j = i") simp_all
  qed
  with w(1) in_data show ?case by auto
qed

lemma read_bits_field:
  assumes "off + n \<le> 8 * length d" and "n \<le> 32"
    and "map (bit_at d) [off..<off + n] = field_bits (v, n)"
  shows "read_bits d off n = Some (take_bit n v, off + n)"
proof -
  obtain w where w: "read_bits d off n = Some (w, off + n)" and
    bits: "\<forall>j. bit w j \<longleftrightarrow> (j < n \<and> j < 32 \<and> bit_at d (off + (n - 1 - j)))"
    using read_loop_ok [OF assms(1), of 0] by auto
  have at: "bit_at d (off + i) = bit v (n - 1 - i)" if "i < n" for i
    using arg_cong [OF assms(3), of "\<lambda>xs. xs ! i"] that by (simp add: field_bits_def)
  have "w = take_bit n v"
  proof (rule bit_word_eqI)
    fix j assume "j < LENGTH(32)"
    then show "bit w j = bit (take_bit n v) j"
    proof (cases "j < n")
      case True
      then have "n - 1 - j < n" and "n - 1 - (n - 1 - j) = j" by simp_all
      with at [of "n - 1 - j"] have "bit_at d (off + (n - 1 - j)) = bit v j" by simp
      with spec [OF bits, of j] True assms(2) show ?thesis by (simp add: bit_take_bit_iff)
    next
      case False
      with spec [OF bits, of j] show ?thesis by (simp add: bit_take_bit_iff)
    qed
  qed
  with w show ?thesis by simp
qed

lemma read_fields_ok:
  assumes "off + sum_list (map snd fs) \<le> 8 * length d" and "\<forall>f \<in> set fs. snd f \<le> 32"
    and "map (bit_at d) [off..<off + sum_list (map snd fs)] = concat (map field_bits fs)"
  shows "read_fields d off (map snd fs) =
    Some (map (\<lambda>(v, n). take_bit n v) fs, off + sum_list (map snd fs))"
  using assms
proof (induction fs arbitrary: off)
  case (Cons f fs)
  obtain v n where f: "f = (v, n)" by (cases f)
  let ?m = "sum_list (map snd fs)"
  have "[off..<off + (n + ?m)] = [off..<off + n] @ [off + n..<off + n + ?m]"
    by (metis add.assoc le_add1 upt_add_eq_append)
  with Cons.prems(3) f have eq: "map (bit_at d) [off..<off + n] @ map (bit_at d) [off + n..<off + n + ?m] =
      field_bits (v, n) @ concat (map field_bits fs)" by simp
  then have "map (bit_at d) [off..<off + n] = field_bits (v, n)"
    and rest: "map (bit_at d) [off + n..<off + n + ?m] = concat (map field_bits fs)"
    using append_eq_append_conv [of "map (bit_at d) [off..<off + n]" "field_bits (v, n)"] by simp_all
  then have "read_bits d off n = Some (take_bit n v, off + n)"
    using Cons.prems(1,2) f by (intro read_bits_field) auto
  moreover have "read_fields d (off + n) (map snd fs) = Some (map (\<lambda>(v, n). take_bit n v) fs, off + n + ?m)"
    using Cons.prems(1,2) f rest by (intro Cons.IH) auto
  ultimately show ?case by (simp add: f add.assoc)
qed simp

text \<open>What was written is read, from the whole buffer or from the bytes that are in use.\<close>

lemma emit_read:
  assumes "ab_capacity b \<le> length (ab_data b)" and "sum_list (map snd fs) \<le> 8 * ab_capacity b"
    and "\<forall>f \<in> set fs. snd f \<le> 32" and "(sum_list (map snd fs) + 7) div 8 \<le> L"
  shows "read_fields (take L (ab_data (emit fs (clear_buffer b)))) 0 (map snd fs) =
    Some (map (\<lambda>(v, n). take_bit n v) fs, sum_list (map snd fs))"
proof -
  let ?e = "emit fs (clear_buffer b)" and ?t = "sum_list (map snd fs)"
  note c = clear_buffer_ok [OF assms(1)]
  have e: "stream ?e = concat (map field_bits fs)" "ab_offset ?e = ?t" "length (ab_data ?e) = length (ab_data b)"
    using emit_ok [OF c(1), of fs] c assms(2) by auto
  let ?d = "take L (ab_data ?e)"
  have at: "bit_at ?d k = bit_at (ab_data ?e) k" if "k < ?t" for k
  proof -
    have "k div 8 < L" using that assms(4) by auto
    then show ?thesis by (simp add: bit_at_def)
  qed
  have len: "?t \<le> 8 * length ?d" using assms(1,2,4) e(3) by auto
  have "map (bit_at ?d) [0..<?t] = concat (map field_bits fs)"
    unfolding e(1) [symmetric] stream_def e(2) using at by (intro map_cong) auto
  then show ?thesis using read_fields_ok [of 0 fs ?d] len assms(3) by simp
qed

declare read_fields.simps [simp del] read_loop.simps [simp del]

section \<open>A full buffer\<close>

lemma put_bits_full:
  assumes "8 * ab_capacity b < ab_offset b + n" and "ab_offset b \<le> 8 * ab_capacity b"
  shows "fst (put_bits v n b) = UESIM_ERROR_CAPACITY"
  using assms
proof (induction v n b rule: put_bits.induct)
  case (2 v i b)
  show ?case
  proof (cases "ab_offset b div 8 \<ge> ab_capacity b")
    case False
    then have "ab_offset b < 8 * ab_capacity b" by (simp add: not_le div_less_iff_less_mult mult.commute)
    with 2(1) [OF refl False] 2(2) False show ?thesis by (simp add: Let_def)
  qed (simp add: Let_def)
qed simp

text \<open>
  C14. Any sequence of fields of up to 32 bits that fits into a buffer is read back, each field
  reduced to its width, and the length of the buffer is the number of bits rounded up to bytes. A
  further write is refused for its width above 32, and for the capacity exactly when it does not fit.
\<close>

theorem asn1_fields_roundtrip:
  assumes "ab_capacity b \<le> length (ab_data b)" and "sum_list (map snd fs) \<le> 8 * ab_capacity b"
    and "\<forall>f \<in> set fs. snd f \<le> 32"
  shows "read_fields (ab_data (emit fs (clear_buffer b))) 0 (map snd fs) =
      Some (map (\<lambda>(v, n). take_bit n v) fs, sum_list (map snd fs)) \<and>
    asn1_buffer_length (Some (emit fs (clear_buffer b))) = (sum_list (map snd fs) + 7) div 8 \<and>
    fst (asn1_encode_bits v n (Some (emit fs (clear_buffer b)))) =
      (if n > 32 then UESIM_ERROR_INVALID_PARAM
       else if sum_list (map snd fs) + n \<le> 8 * ab_capacity b then UESIM_SUCCESS else UESIM_ERROR_CAPACITY)"
proof (intro conjI)
  let ?e = "emit fs (clear_buffer b)" and ?t = "sum_list (map snd fs)"
  note c = clear_buffer_ok [OF assms(1)]
  have e: "buf_ok ?e" "ab_offset ?e = ?t" "ab_capacity ?e = ab_capacity b" "length (ab_data ?e) = length (ab_data b)"
    using emit_ok [OF c(1), of fs] c assms(2) by auto
  have "(?t + 7) div 8 \<le> length (ab_data ?e)" using assms(1,2) e(4) by simp
  from emit_read [OF assms this]
  show "read_fields (ab_data ?e) 0 (map snd fs) = Some (map (\<lambda>(v, n). take_bit n v) fs, ?t)" by simp
  show "asn1_buffer_length (Some ?e) = (?t + 7) div 8" by (simp add: asn1_buffer_length_def e(2))
  show "fst (asn1_encode_bits v n (Some ?e)) = (if n > 32 then UESIM_ERROR_INVALID_PARAM
      else if ?t + n \<le> 8 * ab_capacity b then UESIM_SUCCESS else UESIM_ERROR_CAPACITY)"
    using put_bits_ok [OF e(1), of n v] put_bits_full [of ?e n v] assms(2) e(2,3)
    by (auto simp: asn1_encode_bits_def split: prod.splits)
qed

theorem asn1_fields_roundtrip_witness:
  "read_fields (ab_data (emit [(5, 3), (300, 9), (7, 2)]
      (clear_buffer \<lparr>ab_data = [255, 255], ab_size = 0, ab_capacity = 2, ab_offset = 0, own_data = False\<rparr>)))
      0 [3, 9, 2] = Some ([5, 300, 3], 14)"
  using asn1_fields_roundtrip [of "\<lparr>ab_data = [255, 255], ab_size = 0, ab_capacity = 2, ab_offset = 0, own_data = False\<rparr>"
      "[(5, 3), (300, 9), (7, 2)]"] by simp

section \<open>Messages\<close>

lemma bits_needed_3: "bits_needed 3 = 2" and bits_needed_2: "bits_needed 2 = 2"
  by (simp_all add: bits_needed.simps)

lemma take_bit_small: "w < 2 ^ n \<Longrightarrow> n < LENGTH('a) \<Longrightarrow> take_bit n w = (w :: 'a::len word)"
proof -
  assume "w < 2 ^ n" and n: "n < LENGTH('a)"
  moreover have "uint (2 ^ n :: 'a word) = 2 ^ n"
    using n by (metis uint_word_of_int_eq word_of_int_2p take_bit_int_eq_self_iff zero_le_numeral
      zero_le_power power_strict_increasing_iff one_less_numeral_iff semiring_norm(76))
  ultimately show ?thesis
    by (simp add: word_uint_eq_iff unsigned_take_bit_eq take_bit_int_eq_self_iff word_less_def)
qed

lemma identity_split:
  assumes "id_type i \<le> 1" and "random_value i < 2 ^ 39"
  shows "identity_of (take_bit 1 (ucast (id_type i))) (take_bit 31 (ucast (drop_bit 8 (random_value i))))
    (take_bit 8 (ucast (random_value i AND 0xFF))) = i"
proof -
  have r: "take_bit 39 (random_value i) = random_value i"
    using assms(2) by (intro take_bit_small) simp_all
  have "random_value i = push_bit 8 (ucast (take_bit 31 (ucast (drop_bit 8 (random_value i)) :: u32))) OR
      ucast (take_bit 8 (ucast (random_value i AND 0xFF) :: u32))"
  proof (rule bit_word_eqI)
    fix n assume n: "n < LENGTH(64)"
    have "bit (random_value i) n \<longleftrightarrow> n < 39 \<and> bit (random_value i) n"
      by (subst r [symmetric]) (simp add: bit_take_bit_iff)
    moreover have "bit (0xFF :: u64) n \<longleftrightarrow> n < 8"
    proof -
      have "(0xFF :: u64) = mask 8" by (simp add: mask_eq_decr_exp)
      then have "bit (0xFF :: u64) n = bit (mask 8 :: u64) n" by (rule arg_cong)
      then show ?thesis using n by (simp only: bit_mask_iff possible_bit_word) auto
    qed
    ultimately show "bit (random_value i) n = bit (push_bit 8 (ucast (take_bit 31 (ucast (drop_bit 8 (random_value i)) :: u32))) OR
      ucast (take_bit 8 (ucast (random_value i AND 0xFF) :: u32)) :: u64) n"
      by (auto simp: bit_or_iff bit_and_iff bit_push_bit_iff bit_take_bit_iff bit_ucast_iff bit_drop_bit_eq
          possible_bit_word)
  qed
  moreover have "ucast (take_bit 1 (ucast (id_type i) :: u32)) = id_type i"
  proof -
    have "id_type i = 0 \<or> id_type i = 1" using assms(1) by (metis linorder_not_less verit_la_disequality word_less_1 word_gt_0 inc_le order_antisym add_0)
    then show ?thesis by auto
  qed
  ultimately show ?thesis by (simp add: identity_of_def)
qed

text \<open>The message that an encoder leaves in the buffer: the bytes in use.\<close>

definition encoded :: "uesim_error \<times> asn1_buffer option \<Rightarrow> u8 list option" where
  "encoded x = (if fst x = UESIM_SUCCESS
     then map_option (\<lambda>b. take (asn1_buffer_length (Some b)) (ab_data b)) (snd x) else None)"

lemma message_read:
  assumes "ab_capacity b \<le> length (ab_data b)" and "sum_list (map snd (fs m)) \<le> 8 * ab_capacity b"
    and "\<forall>f \<in> set (fs m). snd f \<le> 32"
  shows "\<exists>d. encoded (message (Some m) (\<lambda>m. emit (fs m)) (Some b)) = Some d \<and>
    length d = (sum_list (map snd (fs m)) + 7) div 8 \<and>
    read_fields d 0 (map snd (fs m)) =
      Some (map (\<lambda>(v, n). take_bit n v) (fs m), sum_list (map snd (fs m)))"
proof -
  let ?e = "emit (fs m) (clear_buffer b)" and ?t = "sum_list (map snd (fs m))"
  note c = clear_buffer_ok [OF assms(1)]
  have e: "ab_offset ?e = ?t" "length (ab_data ?e) = length (ab_data b)"
    using emit_ok [OF c(1), of "fs m"] c assms(2) by auto
  have "length (take ((?t + 7) div 8) (ab_data ?e)) = (?t + 7) div 8" using assms(1,2) e(2) by simp
  with emit_read [OF assms order_refl] e(1) show ?thesis
    by (simp add: encoded_def message_def asn1_buffer_length_def)
qed

text \<open>A narrower word survives the way through a field of its width.\<close>

lemma ucast_take: "LENGTH('b) \<le> n \<Longrightarrow> n < LENGTH('a) \<Longrightarrow>
    ucast (take_bit n (ucast (w :: 'b::len word) :: 'a::len word)) = w"
  by (rule bit_word_eqI) (auto simp: bit_ucast_iff bit_take_bit_iff possible_bit_word dest: bit_imp_le_length)

lemma setup_request_roundtrip [roundtrip_rule]:
  assumes "ab_capacity b \<le> length (ab_data b)" and "6 \<le> ab_capacity b"
    and "establishment_cause m < 4" and "id_type (sr_identity m) \<le> 1" and "random_value (sr_identity m) < 2 ^ 39"
  shows "rrc_decode_setup_request (encoded (rrc_encode_setup_request (Some m) (Some b))) (Some m0) =
    Some (UESIM_SUCCESS, Some m)"
proof -
  have fs: "map snd (setup_request_fields m) = [2, 1, 1, 31, 8]"
    by (simp add: setup_request_fields_def enum_field_def bits_needed_3)
  have "sum_list (map snd (setup_request_fields m)) \<le> 8 * ab_capacity b"
    and "\<forall>f \<in> set (setup_request_fields m). snd f \<le> 32"
    using assms(2) by (simp_all add: setup_request_fields_def enum_field_def bits_needed_3)
  from message_read [of b setup_request_fields m, OF assms(1) this] obtain d where d: "encoded (rrc_encode_setup_request (Some m) (Some b)) = Some d"
    "length d = 6" and r: "read_fields d 0 [2, 1, 1, 31, 8] =
      Some (map (\<lambda>(v, n). take_bit n v) (setup_request_fields m), 43)"
    unfolding rrc_encode_setup_request_def fs by auto
  have "take_bit 2 (establishment_cause m) = establishment_cause m"
    using assms(3) by (intro take_bit_small) simp_all
  then show ?thesis using d r identity_split [OF assms(4,5)]
    by (simp add: rrc_decode_setup_request_def decoder_def bits_needed_3 setup_request_fields_def enum_field_def)
qed

lemma reest_request_roundtrip [roundtrip_rule]:
  assumes "ab_capacity b \<le> length (ab_data b)" and "12 \<le> ab_capacity b"
    and "reestablishment_cause m < 4" and "id_type (rr_identity m) \<le> 1" and "random_value (rr_identity m) < 2 ^ 39"
    and "rr_c_rnti m < 2 ^ 16" and "length (short_mac_i m) = 2"
  shows "rrc_decode_reest_request (encoded (rrc_encode_reest_request (Some m) (Some b))) (Some m0) =
    Some (UESIM_SUCCESS, Some m)"
proof -
  have fs: "map snd (reest_request_fields m) = [2, 16, 16, 8, 8, 1, 31, 8]"
    by (simp add: reest_request_fields_def enum_field_def bits_needed_2)
  have "sum_list (map snd (reest_request_fields m)) \<le> 8 * ab_capacity b"
    and "\<forall>f \<in> set (reest_request_fields m). snd f \<le> 32"
    using assms(2) by (simp_all add: reest_request_fields_def enum_field_def bits_needed_2)
  from message_read [of b reest_request_fields m, OF assms(1) this] obtain d
    where d: "encoded (rrc_encode_reest_request (Some m) (Some b)) = Some d"
    "length d = 12" and r: "read_fields d 0 [2, 16, 16, 8, 8, 1, 31, 8] =
      Some (map (\<lambda>(v, n). take_bit n v) (reest_request_fields m), 90)"
    unfolding rrc_encode_reest_request_def fs by auto
  obtain x y where mac: "short_mac_i m = [x, y]"
    using assms(7) by (auto simp: length_Suc_conv numeral_2_eq_2)
  have "take_bit 2 (reestablishment_cause m) = reestablishment_cause m"
    and "take_bit 16 (rr_c_rnti m) = rr_c_rnti m"
    using assms(3,6) by (intro take_bit_small; simp)+
  then show ?thesis using d r identity_split [OF assms(4,5)] mac
    by (simp add: rrc_decode_reest_request_def decoder_def bits_needed_2 reest_request_fields_def enum_field_def
        ucast_take)
qed

lemma read_fields_append:
  "read_fields d off (ns @ ms) = do {
     (vs, p) \<leftarrow> read_fields d off ns; (ws, q) \<leftarrow> read_fields d p ms; Some (vs @ ws, q) }"
  by (induction ns arbitrary: off) (auto simp: read_fields.simps split: Option.bind_splits)

definition cap_enquiry_fields :: "rrc_ue_cap_enquiry \<Rightarrow> (u32 \<times> nat) list" where
  "cap_enquiry_fields m = [(ucast (enquiry_id m), 4), (word_of_nat (length (rat_types m)), 4)] @
     map (\<lambda>t. (ucast t, 4)) (take 8 (rat_types m))"

definition release_fields :: "rrc_connection_release \<Rightarrow> (u32 \<times> nat) list" where
  "release_fields m = [(ucast (release_cause m), 3), (if redirect_carrier m then 1 else 0, 1)] @
     (if redirect_carrier m then [(ucast (redirect_earfcn m), 16)] else []) @ [(0, 5)]"

lemma ucast_take_small:
  "w < 2 ^ n \<Longrightarrow> n < LENGTH('b) \<Longrightarrow> n \<le> 32 \<Longrightarrow> ucast (take_bit n (ucast (w :: 'b::len word) :: u32)) = w"
proof -
  assume "w < 2 ^ n" and n: "n < LENGTH('b)" "n \<le> 32"
  then have w: "take_bit n w = w" by (intro take_bit_small)
  show ?thesis
  proof (rule bit_word_eqI)
    fix k assume "k < LENGTH('b)"
    then show "bit (ucast (take_bit n (ucast w :: u32)) :: 'b word) k = bit w k"
      by (subst (2) w [symmetric]) (use n in \<open>auto simp: bit_ucast_iff bit_take_bit_iff possible_bit_word\<close>)
  qed
qed

lemma ue_cap_enquiry_roundtrip [roundtrip_rule]:
  assumes "ab_capacity b \<le> length (ab_data b)" and "5 \<le> ab_capacity b"
    and "enquiry_id m < 16" and "length (rat_types m) \<le> 8" and "\<forall>t \<in> set (rat_types m). t < 16"
    and "rat_types m \<noteq> []"
  shows "rrc_decode_ue_cap_enquiry (encoded (rrc_encode_ue_cap_enquiry (Some m) (Some b))) (Some m0) =
    Some (UESIM_SUCCESS, Some m)"
proof -
  let ?n = "length (rat_types m)"
  have fs: "map snd (cap_enquiry_fields m) = [4, 4] @ replicate ?n 4"
    using assms(4) by (simp add: cap_enquiry_fields_def map_replicate_const comp_def)
  have t: "sum_list (map snd (cap_enquiry_fields m)) = 8 + 4 * ?n"
    unfolding fs by (simp add: sum_list_replicate)
  have w: "\<forall>f \<in> set (cap_enquiry_fields m). snd f \<le> 32"
    by (auto simp: cap_enquiry_fields_def)
  have "sum_list (map snd (cap_enquiry_fields m)) \<le> 8 * ab_capacity b"
    using assms(2,4) t by simp
  from message_read [of b cap_enquiry_fields m, OF assms(1) this w] obtain d
    where d: "encoded (rrc_encode_ue_cap_enquiry (Some m) (Some b)) = Some d"
    "length d = (8 + 4 * ?n + 7) div 8" and r: "read_fields d 0 ([4, 4] @ replicate ?n 4) =
      Some (map (\<lambda>(v, n). take_bit n v) (cap_enquiry_fields m), 8 + 4 * ?n)"
    unfolding rrc_encode_ue_cap_enquiry_def cap_enquiry_fields_def [symmetric] fs
    by (auto simp: sum_list_replicate mult.commute)
  from r obtain vs p ws where split: "read_fields d 0 [4, 4] = Some (vs, p)"
    "read_fields d p (replicate ?n 4) = Some (ws, 8 + 4 * ?n)"
    "vs @ ws = map (\<lambda>(v, n). take_bit n v) (cap_enquiry_fields m)"
    unfolding read_fields_append by (auto simp: bind_eq_Some_conv)
  from split(1) have "length vs = 2" by (auto simp: read_fields.simps bind_eq_Some_conv)
  moreover have "take_bit 4 (word_of_nat ?n :: u32) = word_of_nat ?n"
    using assms(4) by (intro take_bit_small) (simp_all add: word_less_nat_alt unsigned_of_nat take_bit_nat_eq_self)
  ultimately have vs: "vs = [take_bit 4 (ucast (enquiry_id m)), word_of_nat ?n]"
    and ws: "ws = map (\<lambda>t. take_bit 4 (ucast t)) (rat_types m)"
    using split(3) assms(4)
    by (auto simp: cap_enquiry_fields_def length_Suc_conv numeral_2_eq_2 comp_def)
  have num: "(if (word_of_nat ?n :: u32) < 8 then unat (word_of_nat ?n :: u32) else 8) = ?n"
    using assms(4) by (auto simp: word_less_nat_alt unsigned_of_nat take_bit_nat_eq_self)
  have "map ucast ws = rat_types m"
    using assms(5) by (auto simp: ws comp_def ucast_take_small intro!: map_idI)
  moreover have "ucast (take_bit 4 (ucast (enquiry_id m) :: u32)) = enquiry_id m"
    using assms(3) by (intro ucast_take_small) simp_all
  moreover have "2 \<le> length d" using d(2) assms(6) by (cases "rat_types m") simp_all
  ultimately show ?thesis
    using split(1,2) num
    by (cases "(word_of_nat ?n :: u32) < 8") (simp_all add: rrc_decode_ue_cap_enquiry_def decoder_def d(1) vs)
qed

lemma connection_release_roundtrip [roundtrip_rule]:
  assumes "ab_capacity b \<le> length (ab_data b)" and "4 \<le> ab_capacity b"
    and "release_cause m < 8" and "\<not> redirect_carrier m \<longrightarrow> redirect_earfcn m = 0"
  shows "rrc_decode_connection_release (encoded (rrc_encode_connection_release (Some m) (Some b))) (Some m0) =
    Some (UESIM_SUCCESS, Some m)"
proof -
  have w: "\<forall>f \<in> set (release_fields m). snd f \<le> 32" by (auto simp: release_fields_def)
  have "sum_list (map snd (release_fields m)) \<le> 8 * ab_capacity b"
    using assms(2) by (simp add: release_fields_def)
  from message_read [of b release_fields m, OF assms(1) this w] obtain d
    where d: "encoded (rrc_encode_connection_release (Some m) (Some b)) = Some d"
    "length d = (sum_list (map snd (release_fields m)) + 7) div 8" and r:
    "read_fields d 0 (map snd (release_fields m)) =
      Some (map (\<lambda>(v, n). take_bit n v) (release_fields m), sum_list (map snd (release_fields m)))"
    unfolding rrc_encode_connection_release_def release_fields_def [symmetric] by auto
  have c: "ucast (take_bit 3 (ucast (release_cause m) :: u32)) = release_cause m"
    using assms(3) by (intro ucast_take_small) simp_all
  have e: "ucast (take_bit 16 (ucast (redirect_earfcn m) :: u32)) = redirect_earfcn m"
    by (rule ucast_take) simp_all
  show ?thesis
  proof (cases "redirect_carrier m")
    case True
    with r obtain p q s where "read_bits d 0 3 = Some (take_bit 3 (ucast (release_cause m)), p)"
      "read_bits d p 1 = Some (1, q)" "read_bits d q 16 = Some (take_bit 16 (ucast (redirect_earfcn m)), s)"
      by (auto simp: release_fields_def read_fields.simps bind_eq_Some_conv)
    with True d c e show ?thesis
      by (simp add: rrc_decode_connection_release_def decoder_def release_fields_def read_fields.simps)
  next
    case False
    with r obtain p q where "read_bits d 0 3 = Some (take_bit 3 (ucast (release_cause m)), p)"
      "read_bits d p 1 = Some (0, q)"
      by (auto simp: release_fields_def read_fields.simps bind_eq_Some_conv)
    with False d c assms(4) show ?thesis
      by (simp add: rrc_decode_connection_release_def decoder_def release_fields_def read_fields.simps)
  qed
qed

text \<open>
  The requests survive the way over the air: a setup request, a reestablishment request, a
  capability enquiry and a connection release whose values fit their fields are decoded from the
  bytes in use of the encoder's buffer to exactly what was encoded, whatever the buffer held before.
\<close>

theorem rrc_requests_roundtrip:
  assumes "ab_capacity b \<le> length (ab_data b)" and "12 \<le> ab_capacity b"
    and "establishment_cause m1 < 4" "id_type (sr_identity m1) \<le> 1" "random_value (sr_identity m1) < 2 ^ 39"
    and "reestablishment_cause m2 < 4" "id_type (rr_identity m2) \<le> 1" "random_value (rr_identity m2) < 2 ^ 39"
      "rr_c_rnti m2 < 2 ^ 16" "length (short_mac_i m2) = 2"
    and "enquiry_id m3 < 16" "length (rat_types m3) \<in> {1..8}" "\<forall>t \<in> set (rat_types m3). t < 16"
    and "release_cause m4 < 8" "\<not> redirect_carrier m4 \<longrightarrow> redirect_earfcn m4 = 0"
  shows "rrc_decode_setup_request (encoded (rrc_encode_setup_request (Some m1) (Some b))) (Some x1) =
      Some (UESIM_SUCCESS, Some m1) \<and>
    rrc_decode_reest_request (encoded (rrc_encode_reest_request (Some m2) (Some b))) (Some x2) =
      Some (UESIM_SUCCESS, Some m2) \<and>
    rrc_decode_ue_cap_enquiry (encoded (rrc_encode_ue_cap_enquiry (Some m3) (Some b))) (Some x3) =
      Some (UESIM_SUCCESS, Some m3) \<and>
    rrc_decode_connection_release (encoded (rrc_encode_connection_release (Some m4) (Some b))) (Some x4) =
      Some (UESIM_SUCCESS, Some m4)"
proof (intro conjI)
  have "rat_types m3 \<noteq> []" using assms(12) by auto
  then show "rrc_decode_ue_cap_enquiry (encoded (rrc_encode_ue_cap_enquiry (Some m3) (Some b))) (Some x3) =
      Some (UESIM_SUCCESS, Some m3)"
    using assms(1,2,11,12,13) by (intro ue_cap_enquiry_roundtrip) auto
qed (use assms in \<open>auto intro!: setup_request_roundtrip reest_request_roundtrip connection_release_roundtrip\<close>)

theorem rrc_requests_roundtrip_witness:
  "rrc_decode_setup_request (encoded (rrc_encode_setup_request
      (Some \<lparr>sr_identity = \<lparr>id_type = 1, random_value = 0x123456789A\<rparr>, establishment_cause = 3\<rparr>)
      (Some \<lparr>ab_data = replicate 16 255, ab_size = 7, ab_capacity = 16, ab_offset = 3, own_data = True\<rparr>)))
      (Some \<lparr>sr_identity = \<lparr>id_type = 0, random_value = 0\<rparr>, establishment_cause = 0\<rparr>) =
    Some (UESIM_SUCCESS, Some \<lparr>sr_identity = \<lparr>id_type = 1, random_value = 0x123456789A\<rparr>, establishment_cause = 3\<rparr>)"
  by (rule rrc_requests_roundtrip [where ?m2.0 = "\<lparr>rr_identity = \<lparr>id_type = 0, random_value = 0\<rparr>,
        reestablishment_cause = 0, rr_pci = 1, rr_c_rnti = 2, short_mac_i = [0, 0]\<rparr>"
      and ?m3.0 = "\<lparr>enquiry_id = 3, rat_types = [1, 2]\<rparr>"
      and ?m4.0 = "\<lparr>release_cause = 1, redirect_carrier = False, redirect_earfcn = 0\<rparr>", THEN conjunct1]) simp_all

section \<open>Octet strings\<close>

lemma byte_eqI:
  assumes "\<forall>i < 8. bit_at d (8 * k + i) = bit_at d' (8 * k' + i)"
  shows "d ! k = d' ! k'"
proof (rule bit_word_eqI)
  fix i assume "i < LENGTH(8)"
  then obtain j where j: "i = 7 - j" "j < 8" using that [of "7 - i"] by auto
  then have "bit_at d (8 * k + j) = bit_at d' (8 * k' + j)" using assms by blast
  then show "bit (d ! k) i = bit (d' ! k') i" using j by (simp add: bit_at_def)
qed

lemma stream_prefix_bytes:
  assumes "map (bit_at d) [0..<8 * k] = map (bit_at d') [0..<8 * k]" and "k \<le> length d" and "length d' = length d"
  shows "take k d = take k d'"
proof (rule nth_equalityI)
  fix i assume i: "i < length (take k d)"
  have "d ! i = d' ! i"
  proof (rule byte_eqI, intro allI impI)
    fix j :: nat assume "j < 8"
    then have "8 * i + j < 8 * k" using i by auto
    then show "bit_at d (8 * i + j) = bit_at d' (8 * i + j)"
      using arg_cong [OF assms(1), of "\<lambda>xs. xs ! (8 * i + j)"] by simp
  qed
  then show "take k d ! i = take k d' ! i" using i by simp
qed (use assms in simp)

lemma octets_short:
  assumes "buf_ok b" and "ab_offset b = 8 * k" and "length d < 128" and "k + 1 + length d \<le> ab_capacity b"
  shows "take (k + 1 + length d) (ab_data (octets d b)) = take k (ab_data b) @ word_of_nat (length d) # d \<and>
    ab_offset (octets d b) = 8 * (k + 1 + length d)"
proof -
  have room: "ab_offset b + 8 \<le> 8 * ab_capacity b" using assms(2,4) by simp
  obtain b' where b': "put_bits (word_of_nat (length d)) 8 b = (UESIM_SUCCESS, b')" "buf_ok b'"
    "stream b' = stream b @ field_bits (word_of_nat (length d), 8)" "ab_offset b' = 8 * k + 8"
    "ab_capacity b' = ab_capacity b" "length (ab_data b') = length (ab_data b)" "ab_size b' = k + 1"
    using put_bits_ok [OF assms(1) room, of "word_of_nat (length d)"] assms(2) by auto
  have cap: "ab_capacity b \<le> length (ab_data b)" using assms(1) by (simp add: buf_ok_def)
  have st: "map (bit_at (ab_data b')) [0..<8 * k + 8] =
      map (bit_at (ab_data b)) [0..<8 * k] @ field_bits (word_of_nat (length d), 8)"
    using b'(3,4) assms(2) by (simp add: stream_def)
  have upt: "[0..<8 * k + 8] = [0..<8 * k] @ [8 * k..<8 * k + 8]" by (rule upt_add_eq_append) simp
  have parts: "map (bit_at (ab_data b')) [0..<8 * k] = map (bit_at (ab_data b)) [0..<8 * k]"
    "map (bit_at (ab_data b')) [8 * k..<8 * k + 8] = field_bits (word_of_nat (length d), 8)"
    using st unfolding upt by (simp_all add: append_eq_append_conv)
  have pre: "take k (ab_data b') = take k (ab_data b)"
    using parts(1) cap assms(4) b'(6) by (intro stream_prefix_bytes) simp_all
  have "ab_data b' ! k = [word_of_nat (length d)] ! 0"
  proof (rule byte_eqI, intro allI impI)
    fix i :: nat assume i: "i < 8"
    have "bit_at (ab_data b') (8 * k + i) = bit (word_of_nat (length d) :: u32) (7 - i)"
      using arg_cong [OF parts(2), of "\<lambda>xs. xs ! i"] i by (simp add: field_bits_def)
    then show "bit_at (ab_data b') (8 * k + i) = bit_at [word_of_nat (length d)] (8 * 0 + i)"
      using i by (auto simp: bit_at_def bit_of_nat_iff possible_bit_word less_imp_diff_less)
  qed
  then have byte: "ab_data b' ! k = word_of_nat (length d)" by simp
  have oct: "octets d b = b'\<lparr>ab_data := blit (ab_data b') (k + 1) d,
      ab_offset := 8 * k + 8 + length d * 8, ab_size := k + 1 + length d\<rparr>"
    using b'(1,4,5,7) assms(3,4) by (simp add: octets_def put_octets_def put_length_def put_copy_def)
  have "take (k + 1) (ab_data b') = take k (ab_data b) @ [word_of_nat (length d)]"
    using pre byte b'(6) cap assms(4) by (simp add: take_Suc_conv_app_nth)
  then show ?thesis using b'(6) cap assms(4) by (simp add: oct blit_def)
qed

lemma setup_complete_prefixed:
  assumes "ab_capacity b \<le> length (ab_data b)" and "length (nas_pdu m) + 2 \<le> ab_capacity b"
    and "sc_tid m < 4" and "selected_plmn m < 16" and "length (nas_pdu m) < 128"
  shows "rrc_decode_setup_complete (encoded (rrc_encode_setup_complete (Some m) (Some b))) (Some x) =
    Some (UESIM_SUCCESS, Some (m\<lparr>nas_pdu := word_of_nat (length (nas_pdu m)) # nas_pdu m\<rparr>))"
proof -
  let ?fs = "[(ucast (sc_tid m), 2), (ucast (selected_plmn m), 4), (0, 2)] :: (u32 \<times> nat) list"
  let ?b1 = "emit ?fs (clear_buffer b)" and ?n = "nas_pdu m"
  note c = clear_buffer_ok [OF assms(1)]
  have "ab_offset (clear_buffer b) + sum_list (map snd ?fs) \<le> 8 * ab_capacity (clear_buffer b)"
    using c assms(2) by simp
  from emit_ok [OF c(1) this] c have e: "buf_ok ?b1" "stream ?b1 = concat (map field_bits ?fs)"
    "ab_offset ?b1 = 8 * 1" "ab_capacity ?b1 = ab_capacity b" "length (ab_data ?b1) = length (ab_data b)"
    by simp_all
  have room: "1 + 1 + length ?n \<le> ab_capacity ?b1" using assms(2) e(4) by simp
  note o = octets_short [OF e(1,3) assms(5) room]
  define d where "d = take 1 (ab_data ?b1) @ word_of_nat (length ?n) # ?n"
  have enc: "encoded (rrc_encode_setup_complete (Some m) (Some b)) = Some d"
    using o by (simp add: rrc_encode_setup_complete_def message_def encoded_def asn1_buffer_length_def d_def)
  have ne: "ab_data ?b1 \<noteq> []" using assms(1,2) e(5) by (cases "ab_data ?b1") auto
  then obtain y ys where y: "ab_data ?b1 = y # ys" by (cases "ab_data ?b1") auto
  have d: "d = y # word_of_nat (length ?n) # ?n" by (simp add: d_def y)
  have "map (bit_at d) [0..<8] = map (bit_at (ab_data ?b1)) [0..<8]"
    by (auto simp: bit_at_def d y)
  then have bits: "map (bit_at d) [0..<0 + sum_list (map snd ?fs)] = concat (map field_bits ?fs)"
    using e(2,3) by (simp add: stream_def del: map_eq_conv)
  have "0 + sum_list (map snd ?fs) \<le> 8 * length d" by (simp add: d)
  from read_fields_ok [OF this _ bits] have r: "read_fields d 0 [2, 4, 2] =
      Some ([take_bit 2 (ucast (sc_tid m)), take_bit 4 (ucast (selected_plmn m)), 0], 8)" by simp
  have "rest_bytes d 8 1024 = word_of_nat (length ?n) # ?n"
    using assms(5) by (simp add: rest_bytes_def d)
  moreover have "ucast (take_bit 2 (ucast (sc_tid m) :: u32)) = sc_tid m"
    using assms(3) by (intro ucast_take_small) simp_all
  moreover have "ucast (take_bit 4 (ucast (selected_plmn m) :: u32)) = selected_plmn m"
    using assms(4) by (intro ucast_take_small) simp_all
  ultimately show ?thesis
    by (simp add: enc rrc_decode_setup_complete_def decoder_def r) (simp add: d)
qed

lemma measurement_report_refused:
  assumes "ab_capacity b \<le> length (ab_data b)" and "9 \<le> ab_capacity b"
  shows "rrc_decode_measurement_report (encoded (rrc_encode_measurement_report (Some m) (Some b))) (Some x) =
    Some (UESIM_ERROR_INVALID_PARAM, Some x)"
proof -
  let ?f = "\<lambda>m. measurement_fields (mr_meas_id m) (mr_rsrp m) (mr_rsrq m) (mr_pci m) (mr_cell_id m)"
  have "sum_list (map snd (?f m)) \<le> 8 * ab_capacity b" and "\<forall>f \<in> set (?f m). snd f \<le> 32"
    using assms(2) by (simp_all add: measurement_fields_def)
  from message_read [of b ?f m, OF assms(1) this] obtain d
    where "encoded (rrc_encode_measurement_report (Some m) (Some b)) = Some d" and "length d = 9"
    unfolding rrc_encode_measurement_report_def by (auto simp: measurement_fields_def)
  then show ?thesis by (simp add: rrc_decode_measurement_report_def decoder_def)
qed

text \<open>
  Two decoders do not match their encoders. Every encoded measurement report has 9 bytes and is
  refused by the decoder, which asks for 10. A setup complete message is decoded with the
  length octet of its NAS message as the first byte of that message.
\<close>

theorem rrc_decoder_mismatch:
  assumes "ab_capacity b \<le> length (ab_data b)" and "9 \<le> ab_capacity b"
    and "length (nas_pdu m) + 2 \<le> ab_capacity b" and "length (nas_pdu m) < 128"
    and "sc_tid m < 4" and "selected_plmn m < 16"
  shows "rrc_decode_measurement_report (encoded (rrc_encode_measurement_report (Some r) (Some b))) (Some x) =
      Some (UESIM_ERROR_INVALID_PARAM, Some x) \<and>
    rrc_decode_setup_complete (encoded (rrc_encode_setup_complete (Some m) (Some b))) (Some y) =
      Some (UESIM_SUCCESS, Some (m\<lparr>nas_pdu := word_of_nat (length (nas_pdu m)) # nas_pdu m\<rparr>))"
  using measurement_report_refused [OF assms(1,2)] setup_complete_prefixed [OF assms(1,3,5,6,4)] by blast

theorem rrc_decoder_mismatch_witness:
  "rrc_decode_setup_complete (encoded (rrc_encode_setup_complete
      (Some \<lparr>sc_tid = 1, selected_plmn = 2, nas_pdu = [0x7E, 0, 0x41]\<rparr>)
      (Some \<lparr>ab_data = replicate 16 0, ab_size = 0, ab_capacity = 16, ab_offset = 0, own_data = True\<rparr>)))
      (Some \<lparr>sc_tid = 0, selected_plmn = 0, nas_pdu = []\<rparr>) =
    Some (UESIM_SUCCESS, Some \<lparr>sc_tid = 1, selected_plmn = 2, nas_pdu = [3, 0x7E, 0, 0x41]\<rparr>)"
  using rrc_decoder_mismatch [of "\<lparr>ab_data = replicate 16 0, ab_size = 0, ab_capacity = 16, ab_offset = 0, own_data = True\<rparr>"
      "\<lparr>sc_tid = 1, selected_plmn = 2, nas_pdu = [0x7E, 0, 0x41]\<rparr>"] by simp

end
