(* ===== verification/Sdap.thy ===== *)
theory Sdap
  imports Interfaces
begin

text \<open>
  The service data adaptation protocol of \<^verbatim>\<open>src/protocol/sdap.c\<close>: entities, the table that maps QoS
  flows to data bearers, the header of the data units, both directions of the data path, the control
  units and reflective QoS. What a fresh block of memory holds is overwritten before it is read.
\<close>

section \<open>State\<close>

definition SDAP_MAX_QOS_FLOWS :: nat where "SDAP_MAX_QOS_FLOWS = 64"

record sdap_qos_mapping =
  q_qfi :: u8
  q_drb_id :: u8
  q_reflective :: bool
  q_active :: bool

record sdap_config =
  cf_pdu_session_id :: u32
  num_qos_flows :: u8
  qos_mappings :: "sdap_qos_mapping list"
  default_drb_configured :: bool
  default_drb_id :: u8

record sdap_stats =
  sd_tx_pdus :: u64
  sd_tx_bytes :: u64
  sd_rx_pdus :: u64
  sd_rx_bytes :: u64
  tx_control_pdus :: u64
  rx_control_pdus :: u64
  mapping_errors :: u64

record sdap_entity =
  sdap_entity_id :: u32
  pdu_session_id :: u32
  sdap_config_of :: sdap_config
  qos_flow_map :: "sdap_qos_mapping list"
  sdap_stats_of :: sdap_stats
  sdap_active :: bool

record sdap_pdu =
  sp_data :: "u8 list"
  sp_qfi :: u8
  sp_is_control :: bool

record sdap_sdu =
  ss_data :: "u8 list option"
  ss_length :: nat
  ss_qfi :: u8
  ss_drb_id :: u8

definition unused_mapping :: sdap_qos_mapping where
  "unused_mapping = \<lparr>q_qfi = 0, q_drb_id = 0, q_reflective = False, q_active = False\<rparr>"

definition zero_sdap_stats :: sdap_stats where
  "zero_sdap_stats = \<lparr>sd_tx_pdus = 0, sd_tx_bytes = 0, sd_rx_pdus = 0, sd_rx_bytes = 0,
     tx_control_pdus = 0, rx_control_pdus = 0, mapping_errors = 0\<rparr>"

section \<open>Life cycle\<close>

definition sdap_create_entity ::
  "os \<Rightarrow> bool \<Rightarrow> u32 \<Rightarrow> sdap_config option \<Rightarrow> u32 \<Rightarrow> (uesim_error + sdap_entity) \<times> u32" where
  "sdap_create_entity s ptrs session cfg g =
     (if \<not> ptrs then (Inl UESIM_ERROR_INVALID_PARAM, g)
      else if \<not> alloc_ok s 0 then (Inl UESIM_ERROR_MEMORY, g)
      else if \<not> init_ok s 0 then (Inl UESIM_ERROR_THREAD, g + 1)
      else (Inr \<lparr>sdap_entity_id = g, pdu_session_id = session,
          sdap_config_of = (case cfg of
            None \<Rightarrow> \<lparr>cf_pdu_session_id = session, num_qos_flows = 0,
              qos_mappings = replicate SDAP_MAX_QOS_FLOWS unused_mapping,
              default_drb_configured = False, default_drb_id = 0\<rparr>
          | Some c \<Rightarrow> c),
          qos_flow_map = (case cfg of None \<Rightarrow> replicate SDAP_MAX_QOS_FLOWS unused_mapping
            | Some c \<Rightarrow> qos_mappings c),
          sdap_stats_of = zero_sdap_stats, sdap_active = False\<rparr>, g + 1))"

definition sdap_destroy_entity :: "sdap_entity option \<Rightarrow> uesim_error \<times> sdap_entity option" where
  "sdap_destroy_entity p = (case p of
     None \<Rightarrow> (UESIM_ERROR_INVALID_PARAM, None) | Some e \<Rightarrow> (UESIM_SUCCESS, None))"

definition sdap_configure_entity ::
  "os \<Rightarrow> sdap_config option \<Rightarrow> sdap_entity option \<Rightarrow> uesim_error \<times> sdap_entity option" where
  "sdap_configure_entity s cfg p = with_ptr p (\<lambda>e. case cfg of
     None \<Rightarrow> (UESIM_ERROR_INVALID_PARAM, e)
   | Some c \<Rightarrow> locked s e (UESIM_SUCCESS, e\<lparr>sdap_config_of := c, qos_flow_map := qos_mappings c\<rparr>))"

definition sdap_activate_entity :: "os \<Rightarrow> sdap_entity option \<Rightarrow> uesim_error \<times> sdap_entity option" where
  "sdap_activate_entity s p = with_ptr p (\<lambda>e. locked s e (UESIM_SUCCESS, e\<lparr>sdap_active := True\<rparr>))"

definition sdap_deactivate_entity :: "os \<Rightarrow> sdap_entity option \<Rightarrow> uesim_error \<times> sdap_entity option" where
  "sdap_deactivate_entity s p = with_ptr p (\<lambda>e. locked s e (UESIM_SUCCESS, e\<lparr>sdap_active := False\<rparr>))"

text \<open>The entity of the default session is created and activated, and then known to nobody.\<close>

definition sdap_init :: "os \<Rightarrow> bool \<Rightarrow> u32 \<Rightarrow> uesim_error \<times> u32" where
  "sdap_init s ue g =
     (if \<not> ue then (UESIM_ERROR_INVALID_PARAM, g)
      else case sdap_create_entity s True 1 None g of
        (Inl r, g') \<Rightarrow> (r, g')
      | (Inr e, g') \<Rightarrow> (fst (sdap_activate_entity s (Some e)), g'))"

section \<open>The table of the QoS flows\<close>

text \<open>The loop over the table that changes the first entry with a property.\<close>

fun update_first :: "('a \<Rightarrow> bool) \<Rightarrow> ('a \<Rightarrow> 'a) \<Rightarrow> 'a list \<Rightarrow> 'a list option" where
  "update_first P f [] = None"
| "update_first P f (x # xs) = (if P x then Some (f x # xs) else map_option ((#) x) (update_first P f xs))"

definition maps_flow :: "u8 \<Rightarrow> sdap_qos_mapping \<Rightarrow> bool" where
  "maps_flow qfi m \<longleftrightarrow> q_active m \<and> q_qfi m = qfi"

definition add_flows :: "u8 \<Rightarrow> sdap_entity \<Rightarrow> sdap_entity" where
  "add_flows k e = e\<lparr>sdap_config_of := (sdap_config_of e)\<lparr>num_qos_flows := num_qos_flows (sdap_config_of e) + k\<rparr>\<rparr>"

definition map_flow :: "os \<Rightarrow> u8 \<Rightarrow> u8 \<Rightarrow> bool \<Rightarrow> sdap_entity \<Rightarrow> uesim_error \<times> sdap_entity" where
  "map_flow s qfi drb rq e =
     (if qfi > 63 then (UESIM_ERROR_INVALID_PARAM, e)
      else locked s e (case update_first (\<lambda>m. \<not> q_active m)
          (\<lambda>m. m\<lparr>q_qfi := qfi, q_drb_id := drb, q_reflective := rq, q_active := True\<rparr>) (qos_flow_map e) of
        None \<Rightarrow> (UESIM_ERROR_CAPACITY, e)
      | Some t \<Rightarrow> (UESIM_SUCCESS, add_flows 1 (e\<lparr>qos_flow_map := t\<rparr>))))"

definition sdap_map_qos_flow ::
  "os \<Rightarrow> u8 \<Rightarrow> u8 \<Rightarrow> bool \<Rightarrow> sdap_entity option \<Rightarrow> uesim_error \<times> sdap_entity option" where
  "sdap_map_qos_flow s qfi drb rq p = with_ptr p (map_flow s qfi drb rq)"

definition sdap_unmap_qos_flow :: "os \<Rightarrow> u8 \<Rightarrow> sdap_entity option \<Rightarrow> uesim_error \<times> sdap_entity option" where
  "sdap_unmap_qos_flow s qfi p = with_ptr p (\<lambda>e. locked s e
     (case update_first (maps_flow qfi) (\<lambda>m. m\<lparr>q_active := False\<rparr>) (qos_flow_map e) of
        None \<Rightarrow> (UESIM_ERROR_NOT_FOUND, e)
      | Some t \<Rightarrow> (UESIM_SUCCESS, add_flows (- 1) (e\<lparr>qos_flow_map := t\<rparr>))))"

definition sdap_update_qos_mapping :: "os \<Rightarrow> u8 \<Rightarrow> u8 \<Rightarrow> sdap_entity option \<Rightarrow> uesim_error \<times> sdap_entity option" where
  "sdap_update_qos_mapping s qfi drb p = with_ptr p (\<lambda>e. locked s e
     (case update_first (maps_flow qfi) (\<lambda>m. m\<lparr>q_drb_id := drb\<rparr>) (qos_flow_map e) of
        None \<Rightarrow> (UESIM_ERROR_NOT_FOUND, e)
      | Some t \<Rightarrow> (UESIM_SUCCESS, e\<lparr>qos_flow_map := t\<rparr>)))"

text \<open>The result is an \<^verbatim>\<open>int8_t\<close>: a bearer identity of 128 and more becomes negative.\<close>

definition drb_for_qos :: "sdap_entity \<Rightarrow> u8 \<Rightarrow> int" where
  "drb_for_qos e qfi = (case find (maps_flow qfi) (qos_flow_map e) of
     Some m \<Rightarrow> sint (q_drb_id m)
   | None \<Rightarrow> if default_drb_configured (sdap_config_of e) then sint (default_drb_id (sdap_config_of e)) else -1)"

definition sdap_get_drb_for_qos :: "sdap_entity option \<Rightarrow> u8 \<Rightarrow> int" where
  "sdap_get_drb_for_qos p qfi = (case p of None \<Rightarrow> -1 | Some e \<Rightarrow> drb_for_qos e qfi)"

definition sdap_is_reflective_qos :: "sdap_entity option \<Rightarrow> u8 \<Rightarrow> bool" where
  "sdap_is_reflective_qos p qfi = (case p of None \<Rightarrow> False | Some e \<Rightarrow>
     (case find (maps_flow qfi) (qos_flow_map e) of Some m \<Rightarrow> q_reflective m | None \<Rightarrow> False))"

section \<open>Units\<close>

text \<open>Allocation \<open>n\<close> is the structure, \<open>n + 1\<close> the data of a non-empty unit.\<close>

definition sdap_allocs :: "os \<Rightarrow> nat \<Rightarrow> nat \<Rightarrow> bool" where
  "sdap_allocs s n len \<longleftrightarrow> alloc_ok s n \<and> (len > 0 \<longrightarrow> alloc_ok s (n + 1))"

definition sdap_create_pdu :: "os \<Rightarrow> nat \<Rightarrow> bool \<Rightarrow> uesim_error + sdap_pdu" where
  "sdap_create_pdu s len out =
     (if \<not> out then Inl UESIM_ERROR_INVALID_PARAM
      else if \<not> sdap_allocs s 0 len then Inl UESIM_ERROR_MEMORY
      else Inr \<lparr>sp_data = replicate len 0, sp_qfi = 0, sp_is_control = False\<rparr>)"

definition sdap_create_sdu :: "os \<Rightarrow> nat \<Rightarrow> bool \<Rightarrow> uesim_error + sdap_sdu" where
  "sdap_create_sdu s len out =
     (if \<not> out then Inl UESIM_ERROR_INVALID_PARAM
      else if \<not> sdap_allocs s 0 len then Inl UESIM_ERROR_MEMORY
      else Inr \<lparr>ss_data = (if len > 0 then Some (replicate len 0) else None), ss_length = len,
        ss_qfi = 0, ss_drb_id = 0\<rparr>)"

definition sdap_build_data_pdu ::
  "os \<Rightarrow> sdap_entity option \<Rightarrow> u8 list option \<Rightarrow> u8 \<Rightarrow> bool \<Rightarrow> bool \<Rightarrow> uesim_error + sdap_pdu" where
  "sdap_build_data_pdu s p data qfi rqi out = (case (p, data) of
     (Some e, Some d) \<Rightarrow>
       if \<not> out then Inl UESIM_ERROR_INVALID_PARAM
       else (case sdap_create_pdu s (1 + length d) True of
           Inl r \<Rightarrow> Inl r
         | Inr pdu \<Rightarrow> Inr (pdu\<lparr>sp_data := ((qfi AND 0x3F) OR push_bit 6 (if rqi then 1 else 0)) # d,
             sp_qfi := qfi, sp_is_control := False\<rparr>))
   | _ \<Rightarrow> Inl UESIM_ERROR_INVALID_PARAM)"

text \<open>The data of an empty unit is the null pointer.\<close>

definition sdap_parse_data_pdu ::
  "os \<Rightarrow> sdap_entity option \<Rightarrow> u8 list option \<Rightarrow> uesim_error + (u8 \<times> bool \<times> u8 list option)" where
  "sdap_parse_data_pdu s p data = (case (p, data) of
     (Some e, Some (h # d)) \<Rightarrow>
       if d \<noteq> [] \<and> \<not> alloc_ok s 0 then Inl UESIM_ERROR_MEMORY
       else Inr (h AND 0x3F, drop_bit 6 h AND 0x01 \<noteq> 0, if d = [] then None else Some d)
   | _ \<Rightarrow> Inl UESIM_ERROR_INVALID_PARAM)"

section \<open>The data path\<close>

definition count_rx :: "nat \<Rightarrow> sdap_entity \<Rightarrow> sdap_entity" where
  "count_rx len e = e\<lparr>sdap_stats_of := (sdap_stats_of e)\<lparr>sd_rx_pdus := sd_rx_pdus (sdap_stats_of e) + 1,
     sd_rx_bytes := sd_rx_bytes (sdap_stats_of e) + word_of_nat len\<rparr>\<rparr>"

definition count_tx :: "nat \<Rightarrow> sdap_entity \<Rightarrow> sdap_entity" where
  "count_tx len e = e\<lparr>sdap_stats_of := (sdap_stats_of e)\<lparr>sd_tx_pdus := sd_tx_pdus (sdap_stats_of e) + 1,
     sd_tx_bytes := sd_tx_bytes (sdap_stats_of e) + word_of_nat len\<rparr>\<rparr>"

definition count_mapping_error :: "sdap_entity \<Rightarrow> sdap_entity" where
  "count_mapping_error e = e\<lparr>sdap_stats_of := (sdap_stats_of e)\<lparr>mapping_errors := mapping_errors (sdap_stats_of e) + 1\<rparr>\<rparr>"

definition sdap_process_ul_sdu ::
  "os \<Rightarrow> u8 list option \<Rightarrow> u8 \<Rightarrow> bool \<Rightarrow> sdap_entity option \<Rightarrow> (uesim_error + sdap_pdu) \<times> sdap_entity option" where
  "sdap_process_ul_sdu s data qfi out p = with_obj p (\<lambda>e. case data of
     None \<Rightarrow> (Inl UESIM_ERROR_INVALID_PARAM, e)
   | Some d \<Rightarrow>
       if \<not> out then (Inl UESIM_ERROR_INVALID_PARAM, e)
       else if \<not> sdap_active e then (Inl UESIM_ERROR_INVALID_PARAM, e)
       else if drb_for_qos e qfi < 0 then (Inl UESIM_ERROR_NOT_FOUND, count_mapping_error e)
       else (case sdap_build_data_pdu s (Some e) (Some d) qfi (sdap_is_reflective_qos (Some e) qfi) True of
           Inl r \<Rightarrow> (Inl r, e)
         | Inr pdu \<Rightarrow> (Inr pdu, if lock_ok s 0 then count_tx (length d) e else e)))"

definition sdap_process_ul_pdu :: "sdap_entity option \<Rightarrow> sdap_pdu option \<Rightarrow> bool \<Rightarrow> uesim_error + u8" where
  "sdap_process_ul_pdu p pdu out = (case (p, pdu) of
     (Some e, Some u) \<Rightarrow>
       if \<not> out then Inl UESIM_ERROR_INVALID_PARAM
       else if drb_for_qos e (sp_qfi u) < 0 then Inl UESIM_ERROR_NOT_FOUND
       else Inr (word_of_int (drb_for_qos e (sp_qfi u)))
   | _ \<Rightarrow> Inl UESIM_ERROR_INVALID_PARAM)"

text \<open>
  The first lock is that of the mapping when the reflective bit is set (its result is ignored), the
  next one that of the statistics.
\<close>

definition sdap_process_dl_pdu ::
  "os \<Rightarrow> u8 list option \<Rightarrow> u8 \<Rightarrow> bool \<Rightarrow> sdap_entity option \<Rightarrow> (uesim_error + sdap_sdu) \<times> sdap_entity option" where
  "sdap_process_dl_pdu s data drb out p = with_obj p (\<lambda>e. case data of
     None \<Rightarrow> (Inl UESIM_ERROR_INVALID_PARAM, e)
   | Some d \<Rightarrow>
       if \<not> out \<or> d = [] then (Inl UESIM_ERROR_INVALID_PARAM, e)
       else (case sdap_parse_data_pdu s (Some e) (Some d) of
           Inl r \<Rightarrow> (Inl r, e)
         | Inr (qfi, rqi, sdu) \<Rightarrow> (let len = length d - 1 in
             case sdap_create_sdu (after_allocs (if len > 0 then 1 else 0) s) len True of
               Inl r \<Rightarrow> (Inl r, e)
             | Inr u \<Rightarrow> (let
                 e1 = (if rqi then snd (map_flow s qfi drb True e) else e);
                 e2 = (if lock_ok s (if rqi then 1 else 0) then count_rx len e1 else e1)
                 in (Inr (u\<lparr>ss_data := sdu, ss_length := len, ss_qfi := qfi, ss_drb_id := drb\<rparr>), e2)))))"

text \<open>
  A unit for the IP stack: the length of an IPv4 or IPv6 packet is checked against its smallest
  header, after the statistics were counted. The fields of the headers are only printed.
\<close>

definition sdap_process_dl_sdu :: "os \<Rightarrow> sdap_sdu option \<Rightarrow> sdap_entity option \<Rightarrow> uesim_error \<times> sdap_entity option" where
  "sdap_process_dl_sdu s sdu p = with_ptr p (\<lambda>e. case sdu of
     None \<Rightarrow> (UESIM_ERROR_INVALID_PARAM, e)
   | Some u \<Rightarrow>
       if ss_data u = None \<and> ss_length u > 0 then (UESIM_ERROR_INVALID_PARAM, e)
       else if \<not> sdap_active e then (UESIM_ERROR_INVALID_PARAM, e)
       else if ss_qfi u > 63 then (UESIM_ERROR_INVALID_PARAM, e)
       else if drb_for_qos e (ss_qfi u) < 0 then (UESIM_ERROR_NOT_FOUND, count_mapping_error e)
       else let e' = (if lock_ok s 0 then count_rx (ss_length u) e else e) in
         (case ss_data u of
            Some (h # d) \<Rightarrow>
              let ip_version = drop_bit 4 h AND 0x0F in
              if ip_version = 4 \<and> ss_length u < 20 then (UESIM_ERROR_PROTOCOL, e')
              else if ip_version = 6 \<and> ss_length u < 40 then (UESIM_ERROR_PROTOCOL, e')
              else (UESIM_SUCCESS, e')
          | _ \<Rightarrow> (UESIM_SUCCESS, e')))"

section \<open>Control units and statistics\<close>

definition count_tx_control :: "sdap_entity \<Rightarrow> sdap_entity" where
  "count_tx_control e = e\<lparr>sdap_stats_of := (sdap_stats_of e)\<lparr>tx_control_pdus := tx_control_pdus (sdap_stats_of e) + 1\<rparr>\<rparr>"

definition sdap_send_end_marker ::
  "os \<Rightarrow> u8 \<Rightarrow> bool \<Rightarrow> sdap_entity option \<Rightarrow> (uesim_error + sdap_pdu) \<times> sdap_entity option" where
  "sdap_send_end_marker s qfi out p = with_obj p (\<lambda>e. case sdap_create_pdu s 2 out of
     Inl r \<Rightarrow> (Inl r, e)
   | Inr u \<Rightarrow> (Inr (u\<lparr>sp_data := [0x80 OR 0x00, qfi], sp_is_control := True\<rparr>), count_tx_control e))"

definition sdap_send_reflective_qos ::
  "os \<Rightarrow> u8 \<Rightarrow> u8 \<Rightarrow> bool \<Rightarrow> sdap_entity option \<Rightarrow> (uesim_error + sdap_pdu) \<times> sdap_entity option" where
  "sdap_send_reflective_qos s qfi drb out p = with_obj p (\<lambda>e. case sdap_create_pdu s 3 out of
     Inl r \<Rightarrow> (Inl r, e)
   | Inr u \<Rightarrow> (Inr (u\<lparr>sp_data := [0x80 OR 0x01, qfi, drb], sp_is_control := True\<rparr>), count_tx_control e))"

definition sdap_handle_control_pdu :: "os \<Rightarrow> u8 list option \<Rightarrow> sdap_entity option \<Rightarrow> uesim_error \<times> sdap_entity option" where
  "sdap_handle_control_pdu s data p = with_ptr p (\<lambda>e. case data of
     None \<Rightarrow> (UESIM_ERROR_INVALID_PARAM, e)
   | Some d \<Rightarrow>
       if length d < 2 then (UESIM_ERROR_INVALID_PARAM, e)
       else let pdu_type = d ! 0 AND 0x0F;
           e' = e\<lparr>sdap_stats_of := (sdap_stats_of e)\<lparr>rx_control_pdus := rx_control_pdus (sdap_stats_of e) + 1\<rparr>\<rparr> in
         if pdu_type = 0x00 then (UESIM_SUCCESS, e')
         else if pdu_type = 0x01 then
           (UESIM_SUCCESS, if length d \<ge> 3 then snd (map_flow s (d ! 1) (d ! 2) True e') else e')
         else (UESIM_ERROR_PROTOCOL, e'))"

definition sdap_get_stats :: "os \<Rightarrow> bool \<Rightarrow> sdap_entity option \<Rightarrow> uesim_error + sdap_stats" where
  "sdap_get_stats s out p = (case p of None \<Rightarrow> Inl UESIM_ERROR_INVALID_PARAM | Some e \<Rightarrow>
     if \<not> out then Inl UESIM_ERROR_INVALID_PARAM
     else if lock_ok s 0 then Inr (sdap_stats_of e) else Inl UESIM_ERROR_THREAD)"

definition sdap_reset_stats :: "os \<Rightarrow> sdap_entity option \<Rightarrow> uesim_error \<times> sdap_entity option" where
  "sdap_reset_stats s p = with_ptr p (\<lambda>e. locked s e (UESIM_SUCCESS, e\<lparr>sdap_stats_of := zero_sdap_stats\<rparr>))"

end
