(* ===== verification/Sdap_Proofs.thy ===== *)
theory Sdap_Proofs
  imports Sdap
begin

text \<open>
  What a receiver makes of a transmitted data unit, the effect of a mapping on the table of the QoS
  flows, and how reflective QoS uses the table up.
\<close>

section \<open>The table\<close>

lemma update_first_None: "update_first P f xs = None \<longleftrightarrow> (\<forall>x \<in> set xs. \<not> P x)"
  by (induction xs) auto

lemma update_first_Some:
  "update_first P f xs = Some ys \<Longrightarrow>
     \<exists>us x vs. xs = us @ x # vs \<and> (\<forall>u \<in> set us. \<not> P u) \<and> P x \<and> ys = us @ f x # vs"
proof (induction xs arbitrary: ys)
  case (Cons a as)
  show ?case
  proof (cases "P a")
    case True
    with Cons.prems show ?thesis
      by (intro exI [of _ "[]"] exI [of _ a] exI [of _ as]) simp
  next
    case False
    with Cons.prems obtain zs where "update_first P f as = Some zs" and ys: "ys = a # zs" by auto
    with Cons.IH obtain us x vs where "as = us @ x # vs" "\<forall>u \<in> set us. \<not> P u" "P x" "zs = us @ f x # vs"
      by blast
    with False ys show ?thesis
      by (intro exI [of _ "a # us"] exI [of _ x] exI [of _ vs]) simp
  qed
qed simp

lemma find_append: "find P (xs @ ys) = (case find P xs of Some x \<Rightarrow> Some x | None \<Rightarrow> find P ys)"
  by (induction xs) auto

lemma find_inactive: "\<not> q_active m \<Longrightarrow> \<not> maps_flow q m"
  by (simp add: maps_flow_def)

definition free_slots :: "sdap_entity \<Rightarrow> nat" where
  "free_slots e = length (filter (\<lambda>m. \<not> q_active m) (qos_flow_map e))"

text \<open>
  A new mapping goes into the first free place. It counts for its own flow unless an older mapping of
  that flow stands in front of it, and never for another flow.
\<close>

lemma map_flow_result:
  assumes "q \<le> 63"
  shows "map_flow good_os q drb rq e = (r, e') \<Longrightarrow> free_slots e = 0 \<Longrightarrow> r = UESIM_ERROR_CAPACITY \<and> e' = e"
    and "map_flow good_os q drb rq e = (r, e') \<Longrightarrow> 0 < free_slots e \<Longrightarrow> r = UESIM_SUCCESS \<and>
      free_slots e' + 1 = free_slots e \<and>
      num_qos_flows (sdap_config_of e') = num_qos_flows (sdap_config_of e) + 1 \<and>
      drb_for_qos e' q = (case find (maps_flow q) (takeWhile q_active (qos_flow_map e)) of
        Some m \<Rightarrow> sint (q_drb_id m) | None \<Rightarrow> sint drb) \<and>
      (\<forall>q'. q' \<noteq> q \<longrightarrow> drb_for_qos e' q' = drb_for_qos e q')"
proof -
  let ?new = "\<lambda>m. m\<lparr>q_qfi := q, q_drb_id := drb, q_reflective := rq, q_active := True\<rparr>"
  let ?t = "update_first (\<lambda>m. \<not> q_active m) ?new (qos_flow_map e)"
  have q: "\<not> q > 63" using assms by simp
  {
    assume "map_flow good_os q drb rq e = (r, e')" and "free_slots e = 0"
    moreover from this have "?t = None" by (simp add: update_first_None free_slots_def filter_empty_conv)
    ultimately show "r = UESIM_ERROR_CAPACITY \<and> e' = e" using q by (simp add: map_flow_def)
  next
    assume m: "map_flow good_os q drb rq e = (r, e')" and "0 < free_slots e"
    then have "?t \<noteq> None" by (auto simp: update_first_None free_slots_def filter_empty_conv)
    then obtain ys where ys: "?t = Some ys" by blast
    from update_first_Some [OF this] obtain us x vs where
      s: "qos_flow_map e = us @ x # vs" "\<forall>u \<in> set us. q_active u" "\<not> q_active x"
      and "ys = us @ ?new x # vs" by auto
    with ys have t: "?t = Some (us @ ?new x # vs)" by blast
    have e': "r = UESIM_SUCCESS" "e' = add_flows 1 (e\<lparr>qos_flow_map := us @ ?new x # vs\<rparr>)"
      using m q t by (simp_all add: map_flow_def)
    have "takeWhile q_active (qos_flow_map e) = us" using s by simp
    with e' s show "r = UESIM_SUCCESS \<and> free_slots e' + 1 = free_slots e \<and>
        num_qos_flows (sdap_config_of e') = num_qos_flows (sdap_config_of e) + 1 \<and>
        drb_for_qos e' q = (case find (maps_flow q) (takeWhile q_active (qos_flow_map e)) of
          Some m \<Rightarrow> sint (q_drb_id m) | None \<Rightarrow> sint drb) \<and>
        (\<forall>q'. q' \<noteq> q \<longrightarrow> drb_for_qos e' q' = drb_for_qos e q')"
      by (auto simp: add_flows_def free_slots_def drb_for_qos_def find_append maps_flow_def split: option.splits)
  }
qed

lemma count_rx_frame [simp]:
  "drb_for_qos (count_rx n e) q = drb_for_qos e q" "free_slots (count_rx n e) = free_slots e"
  by (simp_all add: count_rx_def drb_for_qos_def free_slots_def split: option.split)

section \<open>The data path\<close>

lemma sdap_header_byte:
  assumes "(q :: u8) \<le> 63"
  shows "((q AND 0x3F) OR push_bit 6 (if b then 1 else 0)) AND 0x3F = q"
    and "(drop_bit 6 ((q AND 0x3F) OR push_bit 6 (if b then 1 else 0)) AND 0x01 \<noteq> 0) = b"
proof -
  have "\<forall>w \<in> set (map word_of_nat [0..<64]) :: u8 set. \<forall>b.
      ((w AND 0x3F) OR push_bit 6 (if b then 1 else 0)) AND 0x3F = w \<and>
      (drop_bit 6 ((w AND 0x3F) OR push_bit 6 (if b then 1 else 0)) AND 0x01 \<noteq> 0) = b"
    by code_simp
  moreover have "q \<in> set (map word_of_nat [0..<64])"
    using assms by (auto simp: word_le_nat_alt intro!: image_eqI [of _ _ "unat q"])
  ultimately show "((q AND 0x3F) OR push_bit 6 (if b then 1 else 0)) AND 0x3F = q"
    and "(drop_bit 6 ((q AND 0x3F) OR push_bit 6 (if b then 1 else 0)) AND 0x01 \<noteq> 0) = b" by blast+
qed

text \<open>
  C15. A data unit that one entity built from \<open>d\<close> for the flow \<open>q\<close> reaches the other side with
  the same data, under the flow identity that is left of \<open>q\<close> in six bits (\<open>q\<close> itself up to 63).
  When the sender marks the flow as reflective and the receiver's table has a free place, the
  receiver maps the flow to the bearer of the unit, which counts unless an older mapping of the
  flow stands in front of the first free place: then the flow keeps the older bearer. In all other
  cases the flow keeps its bearer, and every other flow always does.
\<close>

theorem sdap_tx_rx:
  assumes "sdap_process_ul_sdu s (Some d) q True (Some e) = (Inr pdu, Some e')"
  shows "\<exists>sdu r'. sdap_process_dl_pdu good_os (Some (sp_data pdu)) drb True (Some r) = (Inr sdu, Some r') \<and>
    (case ss_data sdu of None \<Rightarrow> [] | Some x \<Rightarrow> x) = d \<and> ss_length sdu = length d \<and>
    ss_qfi sdu = q AND 0x3F \<and> ss_drb_id sdu = drb \<and>
    drb_for_qos r' (q AND 0x3F) = (if sdap_is_reflective_qos (Some e) q \<and> 0 < free_slots r
      then (case find (maps_flow (q AND 0x3F)) (takeWhile q_active (qos_flow_map r)) of
        Some m \<Rightarrow> sint (q_drb_id m) | None \<Rightarrow> sint drb)
      else drb_for_qos r (q AND 0x3F)) \<and>
    (\<forall>q'. q' = q AND 0x3F \<or> drb_for_qos r' q' = drb_for_qos r q')"
proof -
  let ?b = "sdap_is_reflective_qos (Some e) q" and ?f = "q AND 0x3F"
  let ?h = "?f OR push_bit 6 (if ?b then 1 else 0)"
  have pdu: "sp_data pdu = ?h # d"
    using assms by (auto simp: sdap_process_ul_sdu_def sdap_build_data_pdu_def split: if_splits sum.splits)
  have f: "?f \<le> 63" by (rule word_and_le1)
  note h = sdap_header_byte [OF f, of ?b, unfolded and.assoc and.idem]
  obtain x r1 where m: "map_flow good_os ?f drb True r = (x, r1)" by fastforce
  have "drb_for_qos r1 ?f = (if 0 < free_slots r
      then (case find (maps_flow ?f) (takeWhile q_active (qos_flow_map r)) of
        Some m \<Rightarrow> sint (q_drb_id m) | None \<Rightarrow> sint drb)
      else drb_for_qos r ?f)" and "\<forall>q'. q' = ?f \<or> drb_for_qos r1 q' = drb_for_qos r q'"
    using map_flow_result [OF f m] by (cases "free_slots r = 0"; auto)+
  then show ?thesis
    by (simp add: sdap_process_dl_pdu_def pdu sdap_parse_data_pdu_def h m sdap_create_sdu_def
        sdap_allocs_def Let_def)
qed

definition sdap_example :: sdap_entity where
  "sdap_example = (case sdap_create_entity good_os True 1 (Some \<lparr>cf_pdu_session_id = 1, num_qos_flows = 1,
     qos_mappings = \<lparr>q_qfi = 5, q_drb_id = 2, q_reflective = True, q_active = True\<rparr> # replicate 63 unused_mapping,
     default_drb_configured = True, default_drb_id = 1\<rparr>) 0 of (Inr e, _) \<Rightarrow> e\<lparr>sdap_active := True\<rparr>)"

text \<open>
  Flow 5 is mapped to bearer 2 at the sender, reflectively. A unit of it that comes on bearer 3 maps
  the flow to bearer 3 in an empty table, and leaves it on bearer 2 at a receiver that has the
  sender's table.
\<close>

definition sdap_fresh :: sdap_entity where
  "sdap_fresh = sdap_example\<lparr>qos_flow_map := replicate 64 unused_mapping\<rparr>"

theorem sdap_tx_rx_witness:
  "\<exists>pdu e' u v r1 r2. sdap_process_ul_sdu good_os (Some [1, 2]) 5 True (Some sdap_example) = (Inr pdu, Some e') \<and>
    sdap_process_dl_pdu good_os (Some (sp_data pdu)) 3 True (Some sdap_fresh) = (Inr u, Some r1) \<and>
    ss_data u = Some [1, 2] \<and> ss_qfi u = 5 \<and> drb_for_qos r1 5 = 3 \<and>
    sdap_process_dl_pdu good_os (Some (sp_data pdu)) 3 True (Some sdap_example) = (Inr v, Some r2) \<and>
    drb_for_qos r2 5 = 2"
proof -
  obtain pdu e' where t: "sdap_process_ul_sdu good_os (Some [1, 2]) 5 True (Some sdap_example) = (Inr pdu, Some e')"
    by (simp add: sdap_process_ul_sdu_def sdap_example_def sdap_create_entity_def drb_for_qos_def
        maps_flow_def sdap_build_data_pdu_def sdap_create_pdu_def sdap_allocs_def)
  note ex = free_slots_def sdap_example_def sdap_fresh_def sdap_create_entity_def unused_mapping_def
    sdap_is_reflective_qos_def maps_flow_def
  have f: "(5 :: u8) AND 0x3F = 5" by simp
  have "0 < free_slots sdap_fresh" "0 < free_slots sdap_example"
    "sdap_is_reflective_qos (Some sdap_example) 5"
    "find (maps_flow 5) (takeWhile q_active (qos_flow_map sdap_fresh)) = None"
    "find (maps_flow 5) (takeWhile q_active (qos_flow_map sdap_example)) =
      Some \<lparr>q_qfi = 5, q_drb_id = 2, q_reflective = True, q_active = True\<rparr>"
    by (simp_all add: ex)
  then obtain u v r1 r2 where
    "sdap_process_dl_pdu good_os (Some (sp_data pdu)) 3 True (Some sdap_fresh) = (Inr u, Some r1)"
    "(case ss_data u of None \<Rightarrow> [] | Some x \<Rightarrow> x) = [1, 2]" "ss_qfi u = 5" "drb_for_qos r1 5 = 3"
    "sdap_process_dl_pdu good_os (Some (sp_data pdu)) 3 True (Some sdap_example) = (Inr v, Some r2)"
    "drb_for_qos r2 5 = 2"
    using sdap_tx_rx [OF t, of 3 sdap_fresh] sdap_tx_rx [OF t, of 3 sdap_example]
    unfolding f by auto
  with t show ?thesis by (auto split: option.splits)
qed

section \<open>Reflective QoS uses up the table\<close>

definition dl_run :: "(u8 list \<times> u8) list \<Rightarrow> sdap_entity option \<Rightarrow> sdap_entity option" where
  "dl_run us p = foldl (\<lambda>p (d, drb). snd (sdap_process_dl_pdu good_os (Some d) drb True p)) p us"

lemma dl_reflective_step:
  assumes "d \<noteq> []" and "bit (hd d) 6"
  shows "\<exists>r'. snd (sdap_process_dl_pdu good_os (Some d) drb True (Some r)) = Some r' \<and>
    free_slots r' = free_slots r - 1"
proof -
  obtain h x where d: "d = h # x" using assms(1) by (cases d) auto
  have q: "h AND 0x3F \<le> 63" by (rule word_and_le1)
  have rq: "drop_bit 6 h AND 1 = 1" using assms(2) d by (simp add: bit_iff_and_drop_bit_eq_1)
  obtain y r1 where m: "map_flow good_os (h AND 0x3F) drb True r = (y, r1)" by fastforce
  have "free_slots r1 = free_slots r - 1"
    using map_flow_result [OF q m] by (cases "free_slots r = 0") auto
  then show ?thesis
    by (simp add: sdap_process_dl_pdu_def d sdap_parse_data_pdu_def rq m sdap_create_sdu_def sdap_allocs_def Let_def)
qed

lemma dl_run_free:
  assumes "\<forall>(d, drb) \<in> set us. d \<noteq> [] \<and> bit (hd d) 6"
  shows "\<exists>r'. dl_run us (Some r) = Some r' \<and> free_slots r' = free_slots r - length us"
  using assms
proof (induction us arbitrary: r)
  case Nil
  then show ?case by (simp add: dl_run_def)
next
  case (Cons u us)
  obtain d drb where u: "u = (d, drb)" by (cases u)
  with Cons.prems dl_reflective_step obtain r1 where
    r1: "snd (sdap_process_dl_pdu good_os (Some d) drb True (Some r)) = Some r1" "free_slots r1 = free_slots r - 1"
    by force
  from Cons.IH [of r1] Cons.prems obtain r' where "dl_run us (Some r1) = Some r'"
    "free_slots r' = free_slots r1 - length us" by auto
  with r1 u show ?case by (auto simp: dl_run_def)
qed

text \<open>
  Every received data unit with the reflective bit takes a place of the table, even when its
  flow is mapped already: as many such units as the table has free places, all of one flow, and no
  flow can be mapped any more.
\<close>

theorem sdap_table_exhausted:
  assumes "\<forall>(d, drb) \<in> set us. d \<noteq> [] \<and> bit (hd d) 6" and "free_slots r \<le> length us" and "q \<le> 63"
  shows "\<exists>r'. dl_run us (Some r) = Some r' \<and>
    sdap_map_qos_flow good_os q drb rq (Some r') = (UESIM_ERROR_CAPACITY, Some r')"
proof -
  obtain r' where r': "dl_run us (Some r) = Some r'" "free_slots r' = 0"
    using dl_run_free [OF assms(1), of r] assms(2) by auto
  obtain x e where m: "map_flow good_os q drb rq r' = (x, e)" by fastforce
  with map_flow_result(1) [OF assms(3) m r'(2)] r'(1) show ?thesis by (simp add: sdap_map_qos_flow_def)
qed

theorem sdap_table_exhausted_witness:
  "\<exists>r'. dl_run (replicate 63 ([0x45, 7], 2)) (Some sdap_example) = Some r' \<and>
    sdap_map_qos_flow good_os 9 4 False (Some r') = (UESIM_ERROR_CAPACITY, Some r')"
proof (rule sdap_table_exhausted)
  show "\<forall>(d, drb) \<in> set (replicate 63 ([0x45, 7], 2)) :: (u8 list \<times> u8) set. d \<noteq> [] \<and> bit (hd d) 6" by code_simp
  show "free_slots sdap_example \<le> length (replicate 63 ([0x45, 7 :: u8], 2 :: u8))"
    by (simp add: free_slots_def sdap_example_def sdap_create_entity_def unused_mapping_def)
qed simp

end
