(* ===== verification/Mac_Queues.thy ===== *)
theory Mac_Queues
  imports Interfaces
begin

text \<open>
  The parts of \<^verbatim>\<open>src/protocol/mac.c\<close> that work on one object: the HARQ process, the byte-bounded
  buffer of a logical channel, and the table of the buffer status report. \<open>now\<close> is the result of
  \<^verbatim>\<open>time\<close>, of which the code keeps 32 bits.
\<close>

section \<open>HARQ processes\<close>

datatype mac_harq_state = MAC_HARQ_IDLE | MAC_HARQ_ACTIVE | MAC_HARQ_PENDING

record mac_harq_process =
  hq_process_id :: u8
  hq_state :: mac_harq_state
  hq_tb_data :: "u8 list option"
  hq_tb_length :: nat
  hq_rvidx :: u16
  hq_ndi :: u8
  hq_ack :: u8
  hq_transmission_time :: u32
  hq_tb_size :: u16
  hq_num_retransmissions :: u8
  hq_max_retransmissions :: u8

text \<open>The process is cleared first, so that it is the same on both outcomes of the mutex.\<close>

definition mac_harq_fresh :: "u8 \<Rightarrow> mac_harq_process" where
  "mac_harq_fresh i = \<lparr>hq_process_id = i, hq_state = MAC_HARQ_IDLE, hq_tb_data = None, hq_tb_length = 0,
     hq_rvidx = 0, hq_ndi = 0, hq_ack = 0, hq_transmission_time = 0, hq_tb_size = 0,
     hq_num_retransmissions = 0, hq_max_retransmissions = 4\<rparr>"

definition mac_harq_init_process ::
  "os \<Rightarrow> u8 \<Rightarrow> mac_harq_process option \<Rightarrow> uesim_error \<times> mac_harq_process option" where
  "mac_harq_init_process s i p = with_ptr p (\<lambda>h.
     (if init_ok s 0 then UESIM_SUCCESS else UESIM_ERROR_THREAD, mac_harq_fresh i))"

definition mac_harq_start_transmission ::
  "os \<Rightarrow> nat \<Rightarrow> u8 list option \<Rightarrow> mac_harq_process option \<Rightarrow> uesim_error \<times> mac_harq_process option" where
  "mac_harq_start_transmission s now data p = with_ptr p (\<lambda>h. case data of
     None \<Rightarrow> (UESIM_ERROR_INVALID_PARAM, h)
   | Some bs \<Rightarrow>
       if bs = [] then (UESIM_ERROR_INVALID_PARAM, h)
       else locked s h
         (if \<not> alloc_ok s 0 then (UESIM_ERROR_MEMORY, h\<lparr>hq_tb_data := None\<rparr>)
          else (UESIM_SUCCESS, h\<lparr>hq_tb_data := Some bs, hq_tb_length := length bs,
                  hq_tb_size := of_nat (length bs), hq_state := MAC_HARQ_ACTIVE,
                  hq_transmission_time := of_nat now, hq_num_retransmissions := 0,
                  hq_ndi := 1, hq_rvidx := 0\<rparr>)))"

definition mac_harq_process_ack ::
  "os \<Rightarrow> u8 \<Rightarrow> mac_harq_process option \<Rightarrow> uesim_error \<times> mac_harq_process option" where
  "mac_harq_process_ack s ack p = with_ptr p (\<lambda>h. locked s h (
     let h = h\<lparr>hq_ack := ack\<rparr> in
     if ack = 1 then (UESIM_SUCCESS, h\<lparr>hq_state := MAC_HARQ_IDLE\<rparr>)
     else let h = h\<lparr>hq_num_retransmissions := hq_num_retransmissions h + 1\<rparr> in
       if hq_num_retransmissions h < hq_max_retransmissions h
       then (UESIM_SUCCESS, h\<lparr>hq_state := MAC_HARQ_PENDING\<rparr>)
       else (UESIM_SUCCESS, h\<lparr>hq_state := MAC_HARQ_IDLE\<rparr>)))"

definition mac_harq_retransmit ::
  "os \<Rightarrow> nat \<Rightarrow> mac_harq_process option \<Rightarrow> uesim_error \<times> mac_harq_process option" where
  "mac_harq_retransmit s now p = with_ptr p (\<lambda>h. locked s h (
     if hq_state h \<noteq> MAC_HARQ_PENDING then (UESIM_ERROR_INVALID_PARAM, h)
     else if hq_tb_data h = None then (UESIM_ERROR_INVALID_PARAM, h)
     else (UESIM_SUCCESS, h\<lparr>hq_rvidx := (hq_rvidx h + 1) mod 4, hq_ndi := 0,
             hq_state := MAC_HARQ_ACTIVE, hq_transmission_time := of_nat now\<rparr>)))"

definition mac_harq_reset_process ::
  "os \<Rightarrow> mac_harq_process option \<Rightarrow> uesim_error \<times> mac_harq_process option" where
  "mac_harq_reset_process s p = with_ptr p (\<lambda>h. locked s h
     (UESIM_SUCCESS, h\<lparr>hq_tb_data := None, hq_tb_length := 0, hq_tb_size := 0, hq_rvidx := 0,
        hq_ndi := 0, hq_ack := 0, hq_transmission_time := 0, hq_num_retransmissions := 0,
        hq_state := MAC_HARQ_IDLE\<rparr>))"

section \<open>The buffer of a logical channel\<close>

text \<open>
  The linked list from \<open>head\<close> to \<open>tail\<close> is the list of the entries: their data and the time of
  arrival.
\<close>

record mac_lch_buffer =
  lb_entries :: "(u8 list \<times> u32) list"
  lb_entry_count :: u32
  lb_total_bytes :: u32
  lb_max_bytes :: u32

definition mac_lch_buffer_init ::
  "os \<Rightarrow> u32 \<Rightarrow> mac_lch_buffer option \<Rightarrow> uesim_error \<times> mac_lch_buffer option" where
  "mac_lch_buffer_init s n p = with_ptr p (\<lambda>b.
     (if init_ok s 0 then UESIM_SUCCESS else UESIM_ERROR_THREAD,
      \<lparr>lb_entries = [], lb_entry_count = 0, lb_total_bytes = 0, lb_max_bytes = n\<rparr>))"

definition mac_lch_buffer_cleanup :: "os \<Rightarrow> mac_lch_buffer option \<Rightarrow> mac_lch_buffer option" where
  "mac_lch_buffer_cleanup s p = map_option (\<lambda>b. if lock_ok s 0
     then b\<lparr>lb_entries := [], lb_entry_count := 0, lb_total_bytes := 0\<rparr> else b) p"

definition mac_lch_buffer_enqueue ::
  "os \<Rightarrow> nat \<Rightarrow> u8 list option \<Rightarrow> mac_lch_buffer option \<Rightarrow> uesim_error \<times> mac_lch_buffer option" where
  "mac_lch_buffer_enqueue s now data p = with_ptr p (\<lambda>b. case data of
     None \<Rightarrow> (UESIM_ERROR_INVALID_PARAM, b)
   | Some bs \<Rightarrow>
       if bs = [] then (UESIM_ERROR_INVALID_PARAM, b)
       else locked s b
         (if unat (lb_max_bytes b) < (unat (lb_total_bytes b) + length bs) mod 2 ^ 64
          then (UESIM_ERROR_MEMORY, b)
          else if \<not> alloc_ok s 0 then (UESIM_ERROR_MEMORY, b)
          else if \<not> alloc_ok s 1 then (UESIM_ERROR_MEMORY, b)
          else (UESIM_SUCCESS, b\<lparr>lb_entries := lb_entries b @ [(bs, of_nat now)],
                  lb_entry_count := lb_entry_count b + 1,
                  lb_total_bytes := lb_total_bytes b + of_nat (length bs)\<rparr>)))"

definition mac_lch_buffer_dequeue ::
  "os \<Rightarrow> mac_lch_buffer option \<Rightarrow> (uesim_error + u8 list) \<times> mac_lch_buffer option" where
  "mac_lch_buffer_dequeue s p = with_obj p (\<lambda>b.
     if \<not> lock_ok s 0 then (Inl UESIM_ERROR_THREAD, b)
     else case lb_entries b of
       [] \<Rightarrow> (Inl UESIM_ERROR_INVALID_PARAM, b)
     | (bs, t) # rest \<Rightarrow> (Inr bs, b\<lparr>lb_entries := rest, lb_entry_count := lb_entry_count b - 1,
         lb_total_bytes := lb_total_bytes b - of_nat (length bs)\<rparr>))"

definition mac_lch_buffer_peek :: "os \<Rightarrow> mac_lch_buffer option \<Rightarrow> uesim_error + u8 list" where
  "mac_lch_buffer_peek s p = (case p of None \<Rightarrow> Inl UESIM_ERROR_INVALID_PARAM
   | Some b \<Rightarrow> if \<not> lock_ok s 0 then Inl UESIM_ERROR_THREAD
       else case lb_entries b of [] \<Rightarrow> Inl UESIM_ERROR_INVALID_PARAM | (bs, t) # rest \<Rightarrow> Inr bs)"

definition mac_lch_buffer_get_bytes :: "os \<Rightarrow> mac_lch_buffer option \<Rightarrow> u32" where
  "mac_lch_buffer_get_bytes s p = (case p of None \<Rightarrow> 0
   | Some b \<Rightarrow> if lock_ok s 0 then lb_total_bytes b else 0)"

definition mac_lch_buffer_get_entries :: "os \<Rightarrow> mac_lch_buffer option \<Rightarrow> u32" where
  "mac_lch_buffer_get_entries s p = (case p of None \<Rightarrow> 0
   | Some b \<Rightarrow> if lock_ok s 0 then lb_entry_count b else 0)"

definition mac_lch_buffer_is_empty :: "os \<Rightarrow> mac_lch_buffer option \<Rightarrow> bool" where
  "mac_lch_buffer_is_empty s p = (case p of None \<Rightarrow> True
   | Some b \<Rightarrow> if lock_ok s 0 then lb_entries b = [] else True)"

section \<open>The table of the buffer status report\<close>

definition mac_bsr_buffer_size_to_index :: "u32 \<Rightarrow> u8" where
  "mac_bsr_buffer_size_to_index n =
     (if n = 0 then 0 else if n \<le> 10 then 1 else if n \<le> 20 then 2 else if n \<le> 40 then 3
      else if n \<le> 80 then 4 else if n \<le> 160 then 5 else if n \<le> 320 then 6 else if n \<le> 640 then 7
      else if n \<le> 1280 then 8 else if n \<le> 2560 then 9 else if n \<le> 5120 then 10
      else if n \<le> 10240 then 11 else if n \<le> 20480 then 12 else if n \<le> 40960 then 13
      else if n \<le> 81920 then 14 else 15)"

definition bsr_sizes :: "u32 list" where
  "bsr_sizes = [0, 10, 20, 40, 80, 160, 320, 640, 1280, 2560, 5120, 10240, 20480, 40960, 81920, 150000]"

definition mac_bsr_index_to_buffer_size :: "u8 \<Rightarrow> u32" where
  "mac_bsr_index_to_buffer_size i = (if i < 16 then bsr_sizes ! unat i else 0)"

end
