(* ===== verification/Mac.thy ===== *)
theory Mac
  imports Mac_Queues Ue_Context
begin

text \<open>
  The MAC entity of \<^verbatim>\<open>src/protocol/mac.c\<close>: its life cycle, transport blocks and grants, the logical
  channels, the random access procedure, scheduling requests, and the reports and timers kept in its
  configuration. The queue of control elements and the two arrays of grants are never used by
  the code and are left out. \<open>now\<close> is the result of \<^verbatim>\<open>time\<close>; \<open>out\<close> says that the out pointers
  are not null. Results in \<open>option\<close> are \<open>None\<close> where the C code leaves defined behaviour.
\<close>

section \<open>Configuration\<close>

definition MAC_LCH_MAX :: nat where "MAC_LCH_MAX = 5"
definition MAC_MAX_HARQ_PROCESSES :: nat where "MAC_MAX_HARQ_PROCESSES = 16"
definition MAC_MAX_LOGICAL_CHANNELS :: nat where "MAC_MAX_LOGICAL_CHANNELS = 32"
definition MAC_MAX_RACH_PREAMBLES :: u8 where "MAC_MAX_RACH_PREAMBLES = 64"

record mac_lch_info_t =
  li_lch_id :: nat
  li_priority :: u8
  li_prioritized_bit_rate :: u16
  li_bucket_size_duration :: u16
  li_logical_channel_group :: bool
  li_served_bytes :: u32
  li_queued_bytes :: u32

record mac_rach_config_t =
  rc_preamble_index :: u8
  rc_prach_mask_index :: u8
  rc_ra_rnti :: u16
  rc_msg1_freq_hopping :: u8
  rc_msg1_scs :: u8
  rc_msg1_cyclic_prefix :: u8
  rc_ra_response_window :: u16
  rc_preamble_trans_max :: u8
  rc_power_ramping_step :: u16
  rc_contention_resolution_timer :: u16
  rc_initial_target_power :: s16

record mac_sr_config_t =
  sr_id :: u8
  sr_prohibit_timer :: u8
  sr_trans_max :: u8
  sr_counter :: u8
  sr_pucch_resource :: u8
  sr_period :: u16
  sr_pending :: bool
  sr_prohibited :: bool

datatype mac_phr_type = MAC_PHR_SINGLE | MAC_PHR_MULTI | MAC_PHR_EXTENDED

record mac_phr_entry_t =
  ph_value :: u8
  ph_p_cmax :: u8
  ph_serving_cell_id :: u8
  ph_pcmax_set :: bool

record mac_phr_ce_t =
  phr_type :: mac_phr_type
  phr_num_entries :: u8
  phr_entries :: "mac_phr_entry_t list"
  phr_triggered :: bool
  phr_prohibit_timer :: u8
  phr_periodic_timer :: u8

record mac_drx_config_t =
  dx_on_duration_timer :: u16
  dx_inactivity_timer :: u16
  dx_retransmission_timer :: u16
  dx_long_cycle :: u16
  dx_short_cycle :: u16
  dx_start_offset :: u16
  dx_short_cycle_count :: u8
  dx_slot_offset :: u16
  dx_active :: bool
  dx_on_duration :: bool
  dx_use_short_cycle :: bool
  dx_current_cycle :: u16
  dx_next_on_duration :: u32
  dx_last_activity_time :: u32
  dx_harq_active :: "bool list"

record mac_config_t =
  mc_c_rnti :: u16
  mc_harq_processes :: u8
  mc_tti_length_ms :: u16
  mc_max_harq_retx :: u16
  mc_rach :: mac_rach_config_t
  mc_sr :: mac_sr_config_t
  mc_lch :: "mac_lch_info_t list"
  mc_num_lch :: u8
  mc_drx :: mac_drx_config_t
  mc_phr :: mac_phr_ce_t
  mc_bsr_periodic_timer :: u16
  mc_bsr_retx_timer :: u16

text \<open>The cleared configuration, and the values the defaults set in it.\<close>

definition zero_lch_info :: mac_lch_info_t where
  "zero_lch_info = \<lparr>li_lch_id = 0, li_priority = 0, li_prioritized_bit_rate = 0,
     li_bucket_size_duration = 0, li_logical_channel_group = False, li_served_bytes = 0,
     li_queued_bytes = 0\<rparr>"

definition zero_mac_config :: mac_config_t where
  "zero_mac_config = \<lparr>mc_c_rnti = 0, mc_harq_processes = 0, mc_tti_length_ms = 0, mc_max_harq_retx = 0,
     mc_rach = \<lparr>rc_preamble_index = 0, rc_prach_mask_index = 0, rc_ra_rnti = 0,
       rc_msg1_freq_hopping = 0, rc_msg1_scs = 0, rc_msg1_cyclic_prefix = 0, rc_ra_response_window = 0,
       rc_preamble_trans_max = 0, rc_power_ramping_step = 0, rc_contention_resolution_timer = 0,
       rc_initial_target_power = 0\<rparr>,
     mc_sr = \<lparr>sr_id = 0, sr_prohibit_timer = 0, sr_trans_max = 0, sr_counter = 0,
       sr_pucch_resource = 0, sr_period = 0, sr_pending = False, sr_prohibited = False\<rparr>,
     mc_lch = replicate MAC_MAX_LOGICAL_CHANNELS zero_lch_info, mc_num_lch = 0,
     mc_drx = \<lparr>dx_on_duration_timer = 0, dx_inactivity_timer = 0, dx_retransmission_timer = 0,
       dx_long_cycle = 0, dx_short_cycle = 0, dx_start_offset = 0, dx_short_cycle_count = 0,
       dx_slot_offset = 0, dx_active = False, dx_on_duration = False, dx_use_short_cycle = False,
       dx_current_cycle = 0, dx_next_on_duration = 0, dx_last_activity_time = 0,
       dx_harq_active = replicate MAC_MAX_HARQ_PROCESSES False\<rparr>,
     mc_phr = \<lparr>phr_type = MAC_PHR_SINGLE, phr_num_entries = 0,
       phr_entries = replicate 8 \<lparr>ph_value = 0, ph_p_cmax = 0, ph_serving_cell_id = 0, ph_pcmax_set = False\<rparr>,
       phr_triggered = False, phr_prohibit_timer = 0, phr_periodic_timer = 0\<rparr>,
     mc_bsr_periodic_timer = 0, mc_bsr_retx_timer = 0\<rparr>"

definition default_mac_config :: mac_config_t where
  "default_mac_config = zero_mac_config\<lparr>mc_c_rnti := 0x1234, mc_harq_processes := 8,
     mc_tti_length_ms := 1, mc_max_harq_retx := 4,
     mc_rach := (mc_rach zero_mac_config)\<lparr>rc_preamble_index := 1, rc_ra_rnti := 0x1234,
       rc_ra_response_window := 10, rc_preamble_trans_max := 7, rc_power_ramping_step := 100,
       rc_contention_resolution_timer := 64\<rparr>,
     mc_sr := (mc_sr zero_mac_config)\<lparr>sr_id := 1, sr_prohibit_timer := 20, sr_trans_max := 20,
       sr_pending := False\<rparr>,
     mc_num_lch := 0\<rparr>"

definition mac_set_default_config :: "mac_config_t option \<Rightarrow> uesim_error \<times> mac_config_t option" where
  "mac_set_default_config p = with_ptr p (\<lambda>c. (UESIM_SUCCESS, default_mac_config))"

definition mac_set_rach_config ::
  "mac_rach_config_t option \<Rightarrow> mac_config_t option \<Rightarrow> uesim_error \<times> mac_config_t option" where
  "mac_set_rach_config r p = with_ptr p (\<lambda>c. case r of
     None \<Rightarrow> (UESIM_ERROR_INVALID_PARAM, c) | Some r \<Rightarrow> (UESIM_SUCCESS, c\<lparr>mc_rach := r\<rparr>))"

definition mac_set_sr_config ::
  "mac_sr_config_t option \<Rightarrow> mac_config_t option \<Rightarrow> uesim_error \<times> mac_config_t option" where
  "mac_set_sr_config r p = with_ptr p (\<lambda>c. case r of
     None \<Rightarrow> (UESIM_ERROR_INVALID_PARAM, c) | Some r \<Rightarrow> (UESIM_SUCCESS, c\<lparr>mc_sr := r\<rparr>))"

text \<open>The next place of the array is written; the guard keeps it inside.\<close>

definition append_lch :: "mac_lch_info_t \<Rightarrow> mac_config_t \<Rightarrow> mac_config_t" where
  "append_lch li c = c\<lparr>mc_lch := (mc_lch c)[unat (mc_num_lch c) := li], mc_num_lch := mc_num_lch c + 1\<rparr>"

definition mac_add_logical_channel ::
  "mac_lch_info_t option \<Rightarrow> mac_config_t option \<Rightarrow> uesim_error \<times> mac_config_t option" where
  "mac_add_logical_channel r p = with_ptr p (\<lambda>c. case r of
     None \<Rightarrow> (UESIM_ERROR_INVALID_PARAM, c)
   | Some li \<Rightarrow> if MAC_MAX_LOGICAL_CHANNELS \<le> unat (mc_num_lch c) then (UESIM_ERROR_INVALID_PARAM, c)
       else (UESIM_SUCCESS, append_lch li c))"

section \<open>The entity and its life cycle\<close>

datatype mac_status = MAC_STATUS_IDLE | MAC_STATUS_CONFIGURED | MAC_STATUS_ACTIVE | MAC_STATUS_SUSPENDED

datatype mac_rach_state = MAC_RACH_IDLE | MAC_RACH_ACTIVE | MAC_RACH_SUCCESS | MAC_RACH_FAILED

datatype mac_direction = MAC_DIRECTION_UPLINK | MAC_DIRECTION_DOWNLINK

record mac_tb_t =
  tb_data :: "u8 list"
  tb_id :: u16
  tb_harq_process_id :: u8
  tb_rnti :: u16
  tb_modulation :: u8
  tb_mcs :: u16
  tb_rv :: u16
  tb_ndi :: u8
  tb_creation_time :: u32
  tb_is_retransmission :: bool
  tb_direction :: mac_direction

record mac_stats_t =
  ms_tx_tb_count :: u64
  ms_rx_tb_count :: u64
  ms_tx_bytes :: u64
  ms_rx_bytes :: u64
  ms_harq_retransmissions :: u64
  ms_harq_failures :: u64
  ms_rach_attempts :: u64
  ms_rach_success :: u64
  ms_scheduling_requests :: u64

record mac_entity_t =
  me_entity_id :: u32
  me_status :: mac_status
  me_config :: mac_config_t
  me_ul_harq :: "mac_harq_process list"
  me_dl_harq :: "mac_harq_process list"
  me_lch_buffers :: "mac_lch_buffer list"
  me_tb_queue :: "mac_tb_t list"
  me_stats :: mac_stats_t
  me_tb_counter :: u32
  me_active :: bool
  me_rach_state :: mac_rach_state
  me_rach_preamble_index :: u8
  me_rach_attempt :: u8
  me_rach_power :: s16
  me_rach_backoff :: u16
  me_rach_contention_timer :: u16
  me_timing_advance :: u32
  me_rach_ul_grant :: u32

definition zero_mac_stats :: mac_stats_t where
  "zero_mac_stats = \<lparr>ms_tx_tb_count = 0, ms_rx_tb_count = 0, ms_tx_bytes = 0, ms_rx_bytes = 0,
     ms_harq_retransmissions = 0, ms_harq_failures = 0, ms_rach_attempts = 0, ms_rach_success = 0,
     ms_scheduling_requests = 0\<rparr>"

text \<open>
  The mutexes and conditions are initialised in this order: those of the entity (2), the uplink and
  downlink HARQ processes in turn (32), the channel buffers (5). Any failure undoes the
  initialisations so far and releases the entity. \<open>g\<close> is the counter of the entities.
\<close>

definition mac_fresh_entity :: "u32 \<Rightarrow> mac_config_t option \<Rightarrow> mac_entity_t" where
  "mac_fresh_entity g cfg = \<lparr>me_entity_id = g, me_status = MAC_STATUS_CONFIGURED,
     me_config = (case cfg of None \<Rightarrow> default_mac_config | Some c \<Rightarrow> c),
     me_ul_harq = map (\<lambda>i. mac_harq_fresh (of_nat i)) [0..<MAC_MAX_HARQ_PROCESSES],
     me_dl_harq = map (\<lambda>i. mac_harq_fresh (of_nat i)) [0..<MAC_MAX_HARQ_PROCESSES],
     me_lch_buffers = replicate MAC_LCH_MAX
       \<lparr>lb_entries = [], lb_entry_count = 0, lb_total_bytes = 0, lb_max_bytes = 65536\<rparr>,
     me_tb_queue = [], me_stats = zero_mac_stats, me_tb_counter = 0, me_active = False,
     me_rach_state = MAC_RACH_IDLE, me_rach_preamble_index = 0, me_rach_attempt = 0,
     me_rach_power = 0, me_rach_backoff = 0, me_rach_contention_timer = 0, me_timing_advance = 0,
     me_rach_ul_grant = 0\<rparr>"

definition mac_create_entity ::
  "os \<Rightarrow> bool \<Rightarrow> mac_config_t option \<Rightarrow> u32 \<Rightarrow> (uesim_error + mac_entity_t) \<times> u32" where
  "mac_create_entity s ptrs cfg g =
     (if \<not> ptrs then (Inl UESIM_ERROR_INVALID_PARAM, g)
      else if \<not> alloc_ok s 0 then (Inl UESIM_ERROR_MEMORY, g)
      else if list_all (init_ok s) [0..<2 + 2 * MAC_MAX_HARQ_PROCESSES + MAC_LCH_MAX]
        then (Inr (mac_fresh_entity g cfg), g + 1)
      else (Inl UESIM_ERROR_THREAD, g + 1))"

definition mac_destroy_entity :: "bool \<Rightarrow> mac_entity_t option \<Rightarrow> uesim_error \<times> mac_entity_t option" where
  "mac_destroy_entity ue p = (if \<not> ue then (UESIM_ERROR_INVALID_PARAM, p)
     else case p of None \<Rightarrow> (UESIM_ERROR_INVALID_PARAM, None) | Some e \<Rightarrow> (UESIM_SUCCESS, None))"

definition mac_configure_entity ::
  "os \<Rightarrow> mac_config_t option \<Rightarrow> mac_entity_t option \<Rightarrow> uesim_error \<times> mac_entity_t option" where
  "mac_configure_entity s cfg p = with_ptr p (\<lambda>e. case cfg of
     None \<Rightarrow> (UESIM_ERROR_INVALID_PARAM, e)
   | Some c \<Rightarrow> locked s e (UESIM_SUCCESS, e\<lparr>me_config := c\<rparr>))"

definition mac_activate_entity :: "os \<Rightarrow> mac_entity_t option \<Rightarrow> uesim_error \<times> mac_entity_t option" where
  "mac_activate_entity s p = with_ptr p (\<lambda>e. locked s e
     (UESIM_SUCCESS, e\<lparr>me_active := True, me_status := MAC_STATUS_ACTIVE\<rparr>))"

definition mac_deactivate_entity :: "os \<Rightarrow> mac_entity_t option \<Rightarrow> uesim_error \<times> mac_entity_t option" where
  "mac_deactivate_entity s p = with_ptr p (\<lambda>e. locked s e
     (UESIM_SUCCESS, e\<lparr>me_active := False, me_status := MAC_STATUS_CONFIGURED\<rparr>))"

definition mac_suspend_entity :: "os \<Rightarrow> mac_entity_t option \<Rightarrow> uesim_error \<times> mac_entity_t option" where
  "mac_suspend_entity s p = with_ptr p (\<lambda>e. locked s e
     (UESIM_SUCCESS, e\<lparr>me_active := False, me_status := MAC_STATUS_SUSPENDED\<rparr>))"

definition mac_resume_entity :: "os \<Rightarrow> mac_entity_t option \<Rightarrow> uesim_error \<times> mac_entity_t option" where
  "mac_resume_entity s p = with_ptr p (\<lambda>e.
     if me_status e \<noteq> MAC_STATUS_SUSPENDED then (UESIM_ERROR_INVALID_PARAM, e)
     else locked s e (UESIM_SUCCESS, e\<lparr>me_active := True, me_status := MAC_STATUS_ACTIVE\<rparr>))"

definition mac_is_entity_active :: "mac_entity_t option \<Rightarrow> bool" where
  "mac_is_entity_active p = (case p of None \<Rightarrow> False | Some e \<Rightarrow> me_active e)"

definition mac_update_statistics :: "os \<Rightarrow> mac_entity_t option \<Rightarrow> uesim_error \<times> mac_entity_t option" where
  "mac_update_statistics s p = with_ptr p (\<lambda>e. locked s e (UESIM_SUCCESS, e))"

definition mac_get_entity_stats :: "os \<Rightarrow> bool \<Rightarrow> mac_entity_t option \<Rightarrow> uesim_error + mac_stats_t" where
  "mac_get_entity_stats s out p = (case p of
     None \<Rightarrow> Inl UESIM_ERROR_INVALID_PARAM
   | Some e \<Rightarrow> if \<not> out then Inl UESIM_ERROR_INVALID_PARAM
       else if lock_ok s 0 then Inr (me_stats e) else Inl UESIM_ERROR_THREAD)"

text \<open>
  The entity of a UE: the context keeps its address \<open>a\<close>. The result holds the context, the entity
  at the address and the counter.
\<close>

definition mac_init ::
  "os \<Rightarrow> nat \<Rightarrow> ue_context option \<Rightarrow> u32 \<Rightarrow> uesim_error \<times> ue_context option \<times> mac_entity_t option \<times> u32" where
  "mac_init s a ue g =
     (if ue = None then (UESIM_ERROR_INVALID_PARAM, ue, None, g)
      else case mac_create_entity s True None g of
        (Inl r, g') \<Rightarrow> (r, ue, None, g')
      | (Inr e, g') \<Rightarrow> (case ue_set_mac_entity (Some a) ue of (r, ue') \<Rightarrow>
          if r \<noteq> UESIM_SUCCESS then (r, ue', snd (mac_destroy_entity True (Some e)), g')
          else case mac_activate_entity s (Some e) of (r, e') \<Rightarrow>
            if r \<noteq> UESIM_SUCCESS
            then (r, snd (ue_set_mac_entity None ue'), snd (mac_destroy_entity True e'), g')
            else (UESIM_SUCCESS, ue', e', g')))"

text \<open>The cleanup releases the entity at the address in the context.\<close>

definition mac_cleanup ::
  "(nat \<Rightarrow> mac_entity_t option) \<Rightarrow> ue_context option \<Rightarrow> (nat \<Rightarrow> mac_entity_t option) \<times> ue_context option" where
  "mac_cleanup h ue = (case ue_get_mac_entity ue of
     None \<Rightarrow> (h, ue)
   | Some a \<Rightarrow> (h(a := snd (mac_destroy_entity True (h a))), snd (ue_set_mac_entity None ue)))"

end
