(* ===== verification/Mac_Access.thy ===== *)
theory Mac_Access
  imports Mac
begin

text \<open>
  Random access and scheduling requests of \<^verbatim>\<open>src/protocol/mac.c\<close>: the preamble, the scan of the
  random access response, the retry, and the request that falls back on random access.
\<close>

text \<open>An operation of an active entity.\<close>

definition when_active :: "mac_entity_t \<Rightarrow> uesim_error \<times> mac_entity_t \<Rightarrow> uesim_error \<times> mac_entity_t" where
  "when_active e res = (if me_active e then res else (UESIM_ERROR_INVALID_PARAM, e))"

section \<open>Random access\<close>

definition set_ra_rnti :: "u16 \<Rightarrow> mac_entity_t \<Rightarrow> mac_entity_t" where
  "set_ra_rnti r e = e\<lparr>me_config := (me_config e)\<lparr>mc_rach := (mc_rach (me_config e))\<lparr>rc_ra_rnti := r\<rparr>\<rparr>\<rparr>"

definition count_rach_attempt :: "bool \<Rightarrow> mac_entity_t \<Rightarrow> mac_entity_t" where
  "count_rach_attempt ok e = (if ok
     then e\<lparr>me_stats := (me_stats e)\<lparr>ms_rach_attempts := ms_rach_attempts (me_stats e) + 1\<rparr>\<rparr> else e)"

text \<open>The slot of the frame is taken from the clock; the other indices of the formula are 0.\<close>

definition ra_rnti_of :: "nat \<Rightarrow> u16" where
  "ra_rnti_of now = (let t_id = of_nat (now mod 80) in 1 + 0 + 14 * t_id + 14 * 80 * 0 + 14 * 80 * 8 * 0)"

definition mac_process_rach_request ::
  "os \<Rightarrow> nat \<Rightarrow> u8 \<Rightarrow> mac_entity_t option \<Rightarrow> uesim_error \<times> mac_entity_t option" where
  "mac_process_rach_request s now i p = with_ptr p (\<lambda>e. when_active e (
     if MAC_MAX_RACH_PREAMBLES \<le> i then (UESIM_ERROR_INVALID_PARAM, e)
     else if me_rach_state e = MAC_RACH_ACTIVE then (UESIM_ERROR_PROTOCOL, e)
     else (UESIM_SUCCESS, count_rach_attempt (lock_ok s 0) (set_ra_rnti (ra_rnti_of now)
       (e\<lparr>me_rach_state := MAC_RACH_ACTIVE, me_rach_preamble_index := i, me_rach_attempt := 1,
          me_rach_power := rc_initial_target_power (mc_rach (me_config e)), me_rach_backoff := 0\<rparr>)))))"

text \<open>The six octets of the preamble are built and dropped; only the state is left.\<close>

definition mac_send_rach_preamble ::
  "os \<Rightarrow> nat \<Rightarrow> u8 \<Rightarrow> mac_entity_t option \<Rightarrow> uesim_error \<times> mac_entity_t option" where
  "mac_send_rach_preamble s now i p = with_ptr p (\<lambda>e. when_active e (
     if MAC_MAX_RACH_PREAMBLES \<le> i then (UESIM_ERROR_INVALID_PARAM, e)
     else if me_rach_state e = MAC_RACH_ACTIVE then (UESIM_ERROR_PROTOCOL, e)
     else let rc = mc_rach (me_config e);
              power = (if 0 < me_rach_attempt e
                       then me_rach_power e + rc_power_ramping_step rc div 10
                       else rc_initial_target_power rc)
       in (UESIM_SUCCESS, count_rach_attempt (lock_ok s 0)
            ((set_ra_rnti (ra_rnti_of now)
               (e\<lparr>me_rach_state := MAC_RACH_ACTIVE, me_rach_preamble_index := i, me_rach_power := power\<rparr>))
             \<lparr>me_rach_contention_timer := rc_contention_resolution_timer rc\<rparr>))))"

definition mac_initiate_random_access ::
  "os \<Rightarrow> nat \<Rightarrow> mac_entity_t option \<Rightarrow> uesim_error \<times> mac_entity_t option" where
  "mac_initiate_random_access s now p = with_ptr p (\<lambda>e. when_active e (
     case mac_send_rach_preamble s now 1 (Some e) of
       (r, Some e') \<Rightarrow>
         if r \<noteq> UESIM_SUCCESS then (r, e')
         else if \<not> lock_ok s 1 then (UESIM_ERROR_THREAD, e')
         else (UESIM_SUCCESS, count_rach_attempt True e')
     | (r, None) \<Rightarrow> (r, e)))"

text \<open>
  The scan of the response. A subheader has an extension bit, a type bit and the preamble identity;
  a matching one is followed by four octets that are read, another one by four that are skipped. The
  grant is a 16-bit variable, into which the 20 bits of the grant are shifted. The temporary
  identity is read when two more octets are there.
\<close>

datatype rar_result = Rar_truncated | Rar_none | Rar_found u16 u16 u16

definition rar_payload :: "u8 list \<Rightarrow> rar_result" where
  "rar_payload d =
     (let ta = push_bit 5 (ucast (d ! 0 AND 0x7F)) OR ucast (drop_bit 3 (d ! 1) AND 0x1F);
          g1 = ucast (push_bit 17 (ucast (d ! 1 AND 0x07) :: u32));
          g2 = g1 OR ucast (push_bit 9 (ucast (d ! 2) :: u32)
                            OR push_bit 8 (drop_bit 7 (ucast (d ! 3)) AND 0x01));
          g3 = g2 OR ucast (d ! 3 AND 0xFF);
          tc = (if 5 < length d then push_bit 8 (ucast (d ! 4)) OR ucast (d ! 5) else 0)
      in Rar_found ta g3 tc)"

function rar_scan :: "u8 \<Rightarrow> u8 list \<Rightarrow> rar_result" where
  "rar_scan idx [] = Rar_none"
| "rar_scan idx (h # rest) =
     (let e_bit = drop_bit 7 h AND 1; t_bit = drop_bit 6 h AND 1; rapid = h AND 0x3F in
      if t_bit = 1 \<and> rapid = idx
      then (if length rest < 4 then Rar_truncated else rar_payload rest)
      else if e_bit = 0 then Rar_none
      else rar_scan idx (if t_bit = 1 then drop 4 rest else rest))"
  by pat_completeness auto
termination
  by (relation "measure (length \<circ> snd)") auto

declare rar_scan.simps(2) [simp del]

text \<open>\<open>rnd\<close> is the result of \<^verbatim>\<open>rand\<close>, which draws the backoff.\<close>

definition mac_receive_rach_response ::
  "os \<Rightarrow> nat \<Rightarrow> u8 list option \<Rightarrow> mac_entity_t option \<Rightarrow> uesim_error \<times> mac_entity_t option" where
  "mac_receive_rach_response s rnd data p = with_ptr p (\<lambda>e. case data of
     None \<Rightarrow> (UESIM_ERROR_INVALID_PARAM, e)
   | Some d \<Rightarrow>
       if d = [] then (UESIM_ERROR_INVALID_PARAM, e)
       else when_active e (
         if me_rach_state e \<noteq> MAC_RACH_ACTIVE then (UESIM_ERROR_PROTOCOL, e)
         else if length d < 5 then (UESIM_ERROR_PROTOCOL, e)
         else case rar_scan (me_rach_preamble_index e) d of
           Rar_truncated \<Rightarrow> (UESIM_ERROR_PROTOCOL, e)
         | Rar_none \<Rightarrow>
             let e = e\<lparr>me_rach_attempt := me_rach_attempt e + 1\<rparr> in
             if rc_preamble_trans_max (mc_rach (me_config e)) \<le> me_rach_attempt e
             then (UESIM_ERROR_MAX_RETRIES, e\<lparr>me_rach_state := MAC_RACH_FAILED\<rparr>)
             else (UESIM_ERROR_RETRY, e\<lparr>me_rach_backoff := of_nat (rnd mod 10 + 1)\<rparr>)
         | Rar_found ta grant tc \<Rightarrow>
             let e = e\<lparr>me_rach_state := MAC_RACH_SUCCESS, me_timing_advance := ucast ta * 512\<rparr>;
                 e = (if tc \<noteq> 0 then e\<lparr>me_config := (me_config e)\<lparr>mc_c_rnti := tc\<rparr>\<rparr> else e);
                 e = e\<lparr>me_rach_ul_grant := ucast grant, me_rach_contention_timer := 0\<rparr>
             in (UESIM_SUCCESS, if lock_ok s 0
                  then e\<lparr>me_stats := (me_stats e)\<lparr>ms_rach_success := ms_rach_success (me_stats e) + 1\<rparr>\<rparr>
                  else e)))"

section \<open>Scheduling requests\<close>

definition upd_sr :: "(mac_sr_config_t \<Rightarrow> mac_sr_config_t) \<Rightarrow> mac_entity_t \<Rightarrow> mac_entity_t" where
  "upd_sr f e = e\<lparr>me_config := (me_config e)\<lparr>mc_sr := f (mc_sr (me_config e))\<rparr>\<rparr>"

definition count_sr :: "mac_entity_t \<Rightarrow> mac_entity_t" where
  "count_sr e = e\<lparr>me_stats := (me_stats e)\<lparr>ms_scheduling_requests := ms_scheduling_requests (me_stats e) + 1\<rparr>\<rparr>"

definition mac_trigger_scheduling_request :: "os \<Rightarrow> mac_entity_t option \<Rightarrow> uesim_error \<times> mac_entity_t option" where
  "mac_trigger_scheduling_request s p = with_ptr p (\<lambda>e. when_active e (locked s e
     (UESIM_SUCCESS, count_sr (upd_sr (\<lambda>r. r\<lparr>sr_pending := True\<rparr>) e))))"

definition mac_process_scheduling_response ::
  "os \<Rightarrow> u8 list option \<Rightarrow> mac_entity_t option \<Rightarrow> uesim_error \<times> mac_entity_t option" where
  "mac_process_scheduling_response s data p = with_ptr p (\<lambda>e.
     if data = None \<or> data = Some [] then (UESIM_ERROR_INVALID_PARAM, e)
     else when_active e (locked s e (UESIM_SUCCESS, upd_sr (\<lambda>r. r\<lparr>sr_pending := False\<rparr>) e)))"

definition mac_sr_config ::
  "u8 \<Rightarrow> u8 \<Rightarrow> u16 \<Rightarrow> u8 \<Rightarrow> mac_entity_t option \<Rightarrow> uesim_error \<times> mac_entity_t option" where
  "mac_sr_config i pucch period trans_max p = with_ptr p (\<lambda>e. (UESIM_SUCCESS,
     upd_sr (\<lambda>r. r\<lparr>sr_id := i, sr_pucch_resource := pucch, sr_period := period, sr_trans_max := trans_max,
       sr_counter := 0, sr_pending := False, sr_prohibited := False\<rparr>) e))"

definition mac_sr_trigger :: "mac_entity_t option \<Rightarrow> uesim_error \<times> mac_entity_t option" where
  "mac_sr_trigger p = with_ptr p (\<lambda>e.
     if sr_prohibited (mc_sr (me_config e)) then (UESIM_SUCCESS, e)
     else (UESIM_SUCCESS, upd_sr (\<lambda>r. r\<lparr>sr_pending := True, sr_counter := 0\<rparr>) e))"

definition mac_sr_cancel :: "mac_entity_t option \<Rightarrow> uesim_error \<times> mac_entity_t option" where
  "mac_sr_cancel p = with_ptr p (\<lambda>e.
     (UESIM_SUCCESS, upd_sr (\<lambda>r. r\<lparr>sr_pending := False, sr_counter := 0\<rparr>) e))"

definition mac_sr_transmit :: "os \<Rightarrow> nat \<Rightarrow> mac_entity_t option \<Rightarrow> uesim_error \<times> mac_entity_t option" where
  "mac_sr_transmit s now p = with_ptr p (\<lambda>e.
     if \<not> sr_pending (mc_sr (me_config e)) then (UESIM_ERROR_INVALID_PARAM, e)
     else let e = count_sr (upd_sr (\<lambda>r. r\<lparr>sr_counter := sr_counter r + 1\<rparr>) e); r = mc_sr (me_config e) in
       if sr_trans_max r \<le> sr_counter r
       then (case mac_initiate_random_access s now
               (Some (upd_sr (\<lambda>r. r\<lparr>sr_pending := False, sr_counter := 0\<rparr>) e)) of
             (res, Some e') \<Rightarrow> (res, e') | (res, None) \<Rightarrow> (res, e))
       else (UESIM_SUCCESS, e))"

definition mac_sr_is_pending :: "mac_entity_t option \<Rightarrow> bool" where
  "mac_sr_is_pending p = (case p of None \<Rightarrow> False | Some e \<Rightarrow> sr_pending (mc_sr (me_config e)))"

definition mac_sr_is_prohibited :: "mac_entity_t option \<Rightarrow> bool" where
  "mac_sr_is_prohibited p = (case p of None \<Rightarrow> False | Some e \<Rightarrow> sr_prohibited (mc_sr (me_config e)))"

end
