(* ===== verification/Mac_Data.thy ===== *)
theory Mac_Data
  imports Mac_Access
begin

text \<open>
  The data path of \<^verbatim>\<open>src/protocol/mac.c\<close>: transport blocks, grants, control elements, the data of the
  logical channels, and the reports and timers (BSR, PHR, DRX).
\<close>

section \<open>Transport blocks\<close>

text \<open>\<open>fresh n\<close> is what a new block of \<open>n\<close> octets holds.\<close>

definition mac_create_transport_block ::
  "os \<Rightarrow> nat \<Rightarrow> (nat \<Rightarrow> u8 list) \<Rightarrow> bool \<Rightarrow> nat \<Rightarrow> mac_entity_t option
    \<Rightarrow> (uesim_error + mac_tb_t) \<times> mac_entity_t option" where
  "mac_create_transport_block s now fresh out n p = with_obj p (\<lambda>e.
     if \<not> out then (Inl UESIM_ERROR_INVALID_PARAM, e)
     else if \<not> alloc_ok s 0 then (Inl UESIM_ERROR_MEMORY, e)
     else if 0 < n \<and> \<not> alloc_ok s 1 then (Inl UESIM_ERROR_MEMORY, e)
     else (Inr \<lparr>tb_data = (if 0 < n then fresh n else []), tb_id = ucast (me_tb_counter e),
             tb_harq_process_id = 0, tb_rnti = 0, tb_modulation = 0, tb_mcs = 0, tb_rv = 0, tb_ndi = 0,
             tb_creation_time = of_nat now, tb_is_retransmission = False,
             tb_direction = MAC_DIRECTION_UPLINK\<rparr>,
           e\<lparr>me_tb_counter := me_tb_counter e + 1\<rparr>))"

definition mac_destroy_transport_block :: "mac_tb_t option \<Rightarrow> uesim_error \<times> mac_tb_t option" where
  "mac_destroy_transport_block p = (case p of
     None \<Rightarrow> (UESIM_ERROR_INVALID_PARAM, None) | Some tb \<Rightarrow> (UESIM_SUCCESS, None))"

text \<open>The block put at the end of the queue is not in it yet: the callers pass a new one.\<close>

definition mac_queue_transport_block ::
  "os \<Rightarrow> mac_tb_t option \<Rightarrow> mac_entity_t option \<Rightarrow> uesim_error \<times> mac_entity_t option" where
  "mac_queue_transport_block s tb p = with_ptr p (\<lambda>e. case tb of
     None \<Rightarrow> (UESIM_ERROR_INVALID_PARAM, e)
   | Some tb \<Rightarrow> when_active e (locked s e (UESIM_SUCCESS, e\<lparr>me_tb_queue := me_tb_queue e @ [tb]\<rparr>)))"

definition mac_dequeue_transport_block ::
  "os \<Rightarrow> bool \<Rightarrow> mac_entity_t option \<Rightarrow> (uesim_error + mac_tb_t) \<times> mac_entity_t option" where
  "mac_dequeue_transport_block s out p = with_obj p (\<lambda>e.
     if \<not> out \<or> \<not> me_active e then (Inl UESIM_ERROR_INVALID_PARAM, e)
     else if \<not> lock_ok s 0 then (Inl UESIM_ERROR_THREAD, e)
     else case me_tb_queue e of
       [] \<Rightarrow> (Inl UESIM_ERROR_INVALID_PARAM, e)
     | tb # rest \<Rightarrow> (Inr tb, e\<lparr>me_tb_queue := rest\<rparr>))"

text \<open>\<open>hc\<close> is the counter that assigns the HARQ processes in turn.\<close>

definition mac_process_tx_data ::
  "os \<Rightarrow> nat \<Rightarrow> (nat \<Rightarrow> u8 list) \<Rightarrow> u8 list option \<Rightarrow> bool \<Rightarrow> u32 \<Rightarrow> mac_entity_t option
    \<Rightarrow> ((uesim_error + mac_tb_t) \<times> mac_entity_t option) \<times> u32" where
  "mac_process_tx_data s now fresh data out hc p = (case p of
     None \<Rightarrow> ((Inl UESIM_ERROR_INVALID_PARAM, p), hc)
   | Some e \<Rightarrow> (case data of
       None \<Rightarrow> ((Inl UESIM_ERROR_INVALID_PARAM, p), hc)
     | Some bs \<Rightarrow>
         if bs = [] \<or> \<not> out \<or> \<not> me_active e then ((Inl UESIM_ERROR_INVALID_PARAM, p), hc)
         else case mac_create_transport_block s now fresh out (length bs) p of
           (Inl r, p') \<Rightarrow> ((Inl r, p'), hc)
         | (Inr tb, p') \<Rightarrow>
             let tb = tb\<lparr>tb_data := bs, tb_harq_process_id := ucast (hc mod 16),
                         tb_rnti := mc_c_rnti (me_config e), tb_direction := MAC_DIRECTION_UPLINK\<rparr>
             in (case mac_queue_transport_block s (Some tb) p' of (r, p'') \<Rightarrow>
               ((if r = UESIM_SUCCESS then Inr tb else Inl r, p''), hc + 1))))"

definition mac_process_rx_data ::
  "os \<Rightarrow> mac_tb_t option \<Rightarrow> bool \<Rightarrow> mac_entity_t option \<Rightarrow> uesim_error + u8 list" where
  "mac_process_rx_data s tb out p = (case (p, tb) of
     (Some e, Some tb) \<Rightarrow>
       if \<not> out \<or> \<not> me_active e then Inl UESIM_ERROR_INVALID_PARAM
       else if \<not> alloc_ok s 0 then Inl UESIM_ERROR_MEMORY
       else Inr (tb_data tb)
   | _ \<Rightarrow> Inl UESIM_ERROR_INVALID_PARAM)"

text \<open>The HARQ process takes lock 0 and the one allocation, the statistics take lock 1.\<close>

definition mac_transmit_tb ::
  "os \<Rightarrow> nat \<Rightarrow> mac_tb_t option \<Rightarrow> mac_entity_t option \<Rightarrow> uesim_error \<times> mac_entity_t option" where
  "mac_transmit_tb s now tb p = with_ptr p (\<lambda>e. case tb of
     None \<Rightarrow> (UESIM_ERROR_INVALID_PARAM, e)
   | Some tb \<Rightarrow> when_active e (
       let i = unat (tb_harq_process_id tb) in
       if MAC_MAX_HARQ_PROCESSES \<le> i then (UESIM_ERROR_INVALID_PARAM, e)
       else case mac_harq_start_transmission s now (if tb_data tb = [] then None else Some (tb_data tb))
                   (Some (me_ul_harq e ! i)) of
         (r, None) \<Rightarrow> (r, e)
       | (r, Some h) \<Rightarrow>
           let e = e\<lparr>me_ul_harq := (me_ul_harq e)[i := h]\<rparr> in
           if r \<noteq> UESIM_SUCCESS then (r, e)
           else if \<not> lock_ok s 1 then (UESIM_ERROR_THREAD, e)
           else (UESIM_SUCCESS, e\<lparr>me_stats := (me_stats e)
                  \<lparr>ms_tx_tb_count := ms_tx_tb_count (me_stats e) + 1,
                   ms_tx_bytes := ms_tx_bytes (me_stats e) + of_nat (length (tb_data tb))\<rparr>\<rparr>)))"

definition mac_receive_tb ::
  "os \<Rightarrow> mac_tb_t option \<Rightarrow> mac_entity_t option \<Rightarrow> uesim_error \<times> mac_entity_t option" where
  "mac_receive_tb s tb p = with_ptr p (\<lambda>e. case tb of
     None \<Rightarrow> (UESIM_ERROR_INVALID_PARAM, e)
   | Some tb \<Rightarrow> when_active e (locked s e (UESIM_SUCCESS, e\<lparr>me_stats := (me_stats e)
       \<lparr>ms_rx_tb_count := ms_rx_tb_count (me_stats e) + 1,
        ms_rx_bytes := ms_rx_bytes (me_stats e) + of_nat (length (tb_data tb))\<rparr>\<rparr>)))"

text \<open>The product is computed in 32-bit signed integers and kept in 16 bits.\<close>

definition mac_calculate_tb_size :: "mac_entity_t option \<Rightarrow> u16 \<Rightarrow> u16 \<Rightarrow> u16 option" where
  "mac_calculate_tb_size p mcs prbs = (case p of
     None \<Rightarrow> Some 0
   | Some e \<Rightarrow> if 2 ^ 31 \<le> unat mcs * unat prbs * 100 then None
       else Some (of_nat (unat mcs * unat prbs * 100)))"

section \<open>Grants and control elements\<close>

record mac_ul_grant_t =
  ug_rnti :: u16
  ug_tb_size :: u16
  ug_mcs :: u16
  ug_ndi :: u8
  ug_rv :: u8
  ug_frequency_hopping :: u16
  ug_hopping_id :: u16
  ug_grant_time :: u32
  ug_valid :: bool

record mac_dl_grant_t =
  dg_rnti :: u16
  dg_tb_size :: u16
  dg_mcs :: u16
  dg_ndi :: u8
  dg_rv :: u8
  dg_grant_time :: u32
  dg_valid :: bool

record mac_ce_t =
  ce_type :: u8
  ce_data :: "u8 list"
  ce_rnti :: u16

definition active_query :: "bool \<Rightarrow> mac_entity_t option \<Rightarrow> (mac_entity_t \<Rightarrow> uesim_error + 'a) \<Rightarrow> uesim_error + 'a" where
  "active_query out p f = (case p of None \<Rightarrow> Inl UESIM_ERROR_INVALID_PARAM
   | Some e \<Rightarrow> if \<not> out \<or> \<not> me_active e then Inl UESIM_ERROR_INVALID_PARAM else f e)"

definition mac_schedule_uplink :: "nat \<Rightarrow> bool \<Rightarrow> mac_entity_t option \<Rightarrow> uesim_error + mac_ul_grant_t" where
  "mac_schedule_uplink now out p = active_query out p (\<lambda>e. Inr
     \<lparr>ug_rnti = mc_c_rnti (me_config e), ug_tb_size = 1024, ug_mcs = 10, ug_ndi = 1, ug_rv = 0,
      ug_frequency_hopping = 0, ug_hopping_id = 0, ug_grant_time = of_nat now, ug_valid = True\<rparr>)"

definition mac_schedule_downlink :: "nat \<Rightarrow> bool \<Rightarrow> mac_entity_t option \<Rightarrow> uesim_error + mac_dl_grant_t" where
  "mac_schedule_downlink now out p = active_query out p (\<lambda>e. Inr
     \<lparr>dg_rnti = mc_c_rnti (me_config e), dg_tb_size = 2048, dg_mcs = 15, dg_ndi = 1, dg_rv = 0,
      dg_grant_time = of_nat now, dg_valid = True\<rparr>)"

definition mac_process_grant :: "mac_entity_t option \<Rightarrow> mac_ul_grant_t option \<Rightarrow> uesim_error" where
  "mac_process_grant p g = (case (p, g) of
     (Some e, Some g) \<Rightarrow> if \<not> me_active e then UESIM_ERROR_INVALID_PARAM
       else if ug_valid g then UESIM_SUCCESS else UESIM_ERROR_INVALID_PARAM
   | _ \<Rightarrow> UESIM_ERROR_INVALID_PARAM)"

definition mac_generate_ul_grant ::
  "nat \<Rightarrow> bool \<Rightarrow> u16 \<Rightarrow> mac_entity_t option \<Rightarrow> uesim_error + mac_ul_grant_t" where
  "mac_generate_ul_grant now out n p = active_query out p (\<lambda>e. Inr
     \<lparr>ug_rnti = mc_c_rnti (me_config e), ug_tb_size = n, ug_mcs = 10, ug_ndi = 1, ug_rv = 0,
      ug_frequency_hopping = 0, ug_hopping_id = 0, ug_grant_time = of_nat now, ug_valid = True\<rparr>)"

definition mac_create_control_element ::
  "os \<Rightarrow> u8 \<Rightarrow> u8 list option \<Rightarrow> bool \<Rightarrow> mac_entity_t option \<Rightarrow> uesim_error + mac_ce_t" where
  "mac_create_control_element s ty data out p = (case p of
     None \<Rightarrow> Inl UESIM_ERROR_INVALID_PARAM
   | Some e \<Rightarrow>
       if \<not> out then Inl UESIM_ERROR_INVALID_PARAM
       else if \<not> alloc_ok s 0 then Inl UESIM_ERROR_MEMORY
       else let bs = (case data of None \<Rightarrow> [] | Some bs \<Rightarrow> bs) in
         if bs \<noteq> [] \<and> \<not> alloc_ok s 1 then Inl UESIM_ERROR_MEMORY
         else Inr \<lparr>ce_type = ty, ce_data = bs, ce_rnti = mc_c_rnti (me_config e)\<rparr>)"

definition mac_process_control_element :: "mac_entity_t option \<Rightarrow> mac_ce_t option \<Rightarrow> uesim_error" where
  "mac_process_control_element p ce = (case (p, ce) of
     (Some e, Some c) \<Rightarrow> if me_active e then UESIM_SUCCESS else UESIM_ERROR_INVALID_PARAM
   | _ \<Rightarrow> UESIM_ERROR_INVALID_PARAM)"

definition mac_destroy_control_element :: "mac_ce_t option \<Rightarrow> uesim_error \<times> mac_ce_t option" where
  "mac_destroy_control_element p = (case p of
     None \<Rightarrow> (UESIM_ERROR_INVALID_PARAM, None) | Some c \<Rightarrow> (UESIM_SUCCESS, None))"

section \<open>Logical channels\<close>

definition mac_configure_logical_channel ::
  "os \<Rightarrow> mac_lch_info_t option \<Rightarrow> mac_entity_t option \<Rightarrow> uesim_error \<times> mac_entity_t option" where
  "mac_configure_logical_channel s r p = with_ptr p (\<lambda>e. case r of
     None \<Rightarrow> (UESIM_ERROR_INVALID_PARAM, e)
   | Some li \<Rightarrow>
       if MAC_LCH_MAX \<le> li_lch_id li then (UESIM_ERROR_INVALID_PARAM, e)
       else locked s e (
         if unat (mc_num_lch (me_config e)) < MAC_MAX_LOGICAL_CHANNELS
         then (UESIM_SUCCESS, e\<lparr>me_config := append_lch li (me_config e)\<rparr>)
         else (UESIM_ERROR_INVALID_PARAM, e)))"

text \<open>
  The bubble sort by priority: a pass makes \<open>k\<close> comparisons, and every pass one less than the one
  before. More channels than the array holds would be compared outside it.
\<close>

fun bubble_pass :: "nat \<Rightarrow> mac_lch_info_t list \<Rightarrow> mac_lch_info_t list" where
  "bubble_pass (Suc k) (x # y # xs) =
     (if li_priority x > li_priority y then y # bubble_pass k (x # xs) else x # bubble_pass k (y # xs))"
| "bubble_pass k xs = xs"

primrec bubble_passes :: "nat \<Rightarrow> mac_lch_info_t list \<Rightarrow> mac_lch_info_t list" where
  "bubble_passes 0 xs = xs"
| "bubble_passes (Suc k) xs = bubble_passes k (bubble_pass (Suc k) xs)"

definition mac_prioritize_logical_channels ::
  "os \<Rightarrow> mac_entity_t option \<Rightarrow> (uesim_error \<times> mac_entity_t option) option" where
  "mac_prioritize_logical_channels s p = (case p of
     None \<Rightarrow> Some (UESIM_ERROR_INVALID_PARAM, None)
   | Some e \<Rightarrow>
       if \<not> lock_ok s 0 then Some (UESIM_ERROR_THREAD, p)
       else let c = me_config e; n = unat (mc_num_lch c) in
         if 1 < n \<and> length (mc_lch c) < n then None
         else Some (UESIM_SUCCESS, Some (e\<lparr>me_config := c\<lparr>mc_lch := bubble_passes (n - 1) (mc_lch c)\<rparr>\<rparr>)))"

text \<open>
  The entry of a channel among the configured ones is the first with its identity; a search beyond
  the array is undefined.
\<close>

fun update_lch :: "(mac_lch_info_t \<Rightarrow> mac_lch_info_t) \<Rightarrow> nat \<Rightarrow> nat \<Rightarrow> mac_lch_info_t list
    \<Rightarrow> mac_lch_info_t list option" where
  "update_lch f i 0 xs = Some xs"
| "update_lch f i (Suc n) [] = None"
| "update_lch f i (Suc n) (x # xs) =
     (if li_lch_id x = i then Some (f x # xs) else map_option ((#) x) (update_lch f i n xs))"

definition account_lch ::
  "bool \<Rightarrow> (mac_lch_info_t \<Rightarrow> mac_lch_info_t) \<Rightarrow> nat \<Rightarrow> mac_entity_t \<Rightarrow> mac_entity_t option" where
  "account_lch ok f i e = (if ok
     then map_option (\<lambda>xs. e\<lparr>me_config := (me_config e)\<lparr>mc_lch := xs\<rparr>\<rparr>)
            (update_lch f i (unat (mc_num_lch (me_config e))) (mc_lch (me_config e)))
     else Some e)"

text \<open>
  Lock 0 is taken by the buffer, lock 1 by the accounting, lock 2 by the scheduling request, whose
  result is not looked at.
\<close>

definition mac_queue_logical_channel_data ::
  "os \<Rightarrow> nat \<Rightarrow> nat \<Rightarrow> u8 list option \<Rightarrow> mac_entity_t option \<Rightarrow> (uesim_error \<times> mac_entity_t option) option" where
  "mac_queue_logical_channel_data s now i data p = (case p of
     None \<Rightarrow> Some (UESIM_ERROR_INVALID_PARAM, None)
   | Some e \<Rightarrow>
       if data = None \<or> data = Some [] \<or> MAC_LCH_MAX \<le> i \<or> \<not> me_active e
       then Some (UESIM_ERROR_INVALID_PARAM, p)
       else case mac_lch_buffer_enqueue s now data (Some (me_lch_buffers e ! i)) of
         (r, None) \<Rightarrow> Some (r, p)
       | (r, Some b) \<Rightarrow>
           let n = length (the data); e = e\<lparr>me_lch_buffers := (me_lch_buffers e)[i := b]\<rparr> in
           if r \<noteq> UESIM_SUCCESS then Some (r, Some e)
           else case account_lch (lock_ok s 1)
                       (\<lambda>li. li\<lparr>li_queued_bytes := li_queued_bytes li + of_nat n\<rparr>) i e of
             None \<Rightarrow> None
           | Some e \<Rightarrow> Some (UESIM_SUCCESS,
               if sr_pending (mc_sr (me_config e)) then Some e
               else snd (mac_trigger_scheduling_request (after_locks 2 s) (Some e))))"

definition serve_lch :: "u32 \<Rightarrow> mac_lch_info_t \<Rightarrow> mac_lch_info_t" where
  "serve_lch n li = li\<lparr>li_served_bytes := li_served_bytes li + n,
     li_queued_bytes := (if n \<le> li_queued_bytes li then li_queued_bytes li - n else 0)\<rparr>"

definition mac_dequeue_logical_channel_data ::
  "os \<Rightarrow> bool \<Rightarrow> nat \<Rightarrow> mac_entity_t option \<Rightarrow> ((uesim_error + u8 list) \<times> mac_entity_t option) option" where
  "mac_dequeue_logical_channel_data s out i p = (case p of
     None \<Rightarrow> Some (Inl UESIM_ERROR_INVALID_PARAM, None)
   | Some e \<Rightarrow>
       if \<not> out \<or> MAC_LCH_MAX \<le> i \<or> \<not> me_active e then Some (Inl UESIM_ERROR_INVALID_PARAM, p)
       else case mac_lch_buffer_dequeue s (Some (me_lch_buffers e ! i)) of
         (Inr bs, Some b) \<Rightarrow>
           map_option (\<lambda>e. (Inr bs, Some e))
             (account_lch (lock_ok s 1) (serve_lch (of_nat (length bs))) i
               (e\<lparr>me_lch_buffers := (me_lch_buffers e)[i := b]\<rparr>))
       | (Inl r, _) \<Rightarrow> Some (Inl r, p)
       | (Inr bs, None) \<Rightarrow> Some (Inr bs, p))"

definition mac_get_lch_buffer_status :: "os \<Rightarrow> bool \<Rightarrow> nat \<Rightarrow> mac_entity_t option \<Rightarrow> uesim_error + u32" where
  "mac_get_lch_buffer_status s out i p = (case p of
     None \<Rightarrow> Inl UESIM_ERROR_INVALID_PARAM
   | Some e \<Rightarrow> if \<not> out \<or> MAC_LCH_MAX \<le> i then Inl UESIM_ERROR_INVALID_PARAM
       else Inr (mac_lch_buffer_get_bytes s (Some (me_lch_buffers e ! i))))"

definition mac_get_total_buffer_status :: "os \<Rightarrow> bool \<Rightarrow> mac_entity_t option \<Rightarrow> uesim_error + u32" where
  "mac_get_total_buffer_status s out p = (case p of
     None \<Rightarrow> Inl UESIM_ERROR_INVALID_PARAM
   | Some e \<Rightarrow> if \<not> out then Inl UESIM_ERROR_INVALID_PARAM
       else Inr (fold (\<lambda>i acc. acc + mac_lch_buffer_get_bytes (after_locks i s) (Some (me_lch_buffers e ! i)))
                   [0..<MAC_LCH_MAX] 0))"

section \<open>Buffer status reports\<close>

datatype mac_bsr_type = MAC_BSR_SINGLE | MAC_BSR_SHORT | MAC_BSR_LONG | MAC_BSR_TRUNCATED

record mac_bsr_ce_t =
  bsr_type :: mac_bsr_type
  bsr_lcg_id :: u8
  bsr_lcg_num :: u8
  bsr_buffer_size :: "u8 list"

definition mac_bsr_config :: "u16 \<Rightarrow> u16 \<Rightarrow> mac_entity_t option \<Rightarrow> uesim_error \<times> mac_entity_t option" where
  "mac_bsr_config periodic retx p = with_ptr p (\<lambda>e. (UESIM_SUCCESS,
     e\<lparr>me_config := (me_config e)\<lparr>mc_bsr_periodic_timer := periodic, mc_bsr_retx_timer := retx\<rparr>\<rparr>))"

definition mac_bsr_trigger_regular :: "u8 \<Rightarrow> mac_entity_t option \<Rightarrow> uesim_error" where
  "mac_bsr_trigger_regular lcg p = (if p = None \<or> 8 \<le> lcg then UESIM_ERROR_INVALID_PARAM else UESIM_SUCCESS)"

text \<open>The status record is a local variable that nobody reads.\<close>

definition mac_bsr_update_lcg :: "u8 \<Rightarrow> u32 \<Rightarrow> mac_entity_t option \<Rightarrow> uesim_error" where
  "mac_bsr_update_lcg lcg n p = (if p = None \<or> 8 \<le> lcg then UESIM_ERROR_INVALID_PARAM else UESIM_SUCCESS)"

text \<open>
  The loops over the eight groups read the channel buffers by the group; there are five buffers.
\<close>

fun buffer_bytes :: "os \<Rightarrow> mac_lch_buffer list \<Rightarrow> nat list \<Rightarrow> u32 list option" where
  "buffer_bytes s bufs [] = Some []"
| "buffer_bytes s bufs (i # is) =
     (if i < length bufs
      then map_option ((#) (mac_lch_buffer_get_bytes (after_locks i s) (Some (bufs ! i)))) (buffer_bytes s bufs is)
      else None)"

definition mac_bsr_construct ::
  "os \<Rightarrow> mac_bsr_type \<Rightarrow> mac_bsr_ce_t option \<Rightarrow> mac_entity_t option
    \<Rightarrow> (uesim_error \<times> mac_bsr_ce_t option) option" where
  "mac_bsr_construct s ty bsr p = (case (p, bsr) of
     (Some e, Some b) \<Rightarrow>
       map_option (\<lambda>bytes. (UESIM_SUCCESS, Some (b\<lparr>bsr_type := ty,
           bsr_lcg_num := of_nat (length (filter (\<lambda>n. 0 < n) bytes)),
           bsr_buffer_size := map mac_bsr_buffer_size_to_index bytes\<rparr>)))
         (buffer_bytes s (me_lch_buffers e) [0..<8])
   | _ \<Rightarrow> Some (UESIM_ERROR_INVALID_PARAM, bsr))"

definition largest_group :: "u32 list \<Rightarrow> u8" where
  "largest_group bytes = snd (fold (\<lambda>(i, n) (m, k). if m < n then (n, of_nat i) else (m, k))
     (enumerate 0 bytes) (0, 0))"

definition mac_bsr_get_highest_priority_lcg ::
  "os \<Rightarrow> bool \<Rightarrow> mac_entity_t option \<Rightarrow> (uesim_error + u8) option" where
  "mac_bsr_get_highest_priority_lcg s out p = (case p of
     None \<Rightarrow> Some (Inl UESIM_ERROR_INVALID_PARAM)
   | Some e \<Rightarrow> if \<not> out then Some (Inl UESIM_ERROR_INVALID_PARAM)
       else map_option (\<lambda>bytes. Inr (largest_group bytes)) (buffer_bytes s (me_lch_buffers e) [0..<8]))"

section \<open>Power headroom reports\<close>

definition upd_phr :: "(mac_phr_ce_t \<Rightarrow> mac_phr_ce_t) \<Rightarrow> mac_entity_t \<Rightarrow> mac_entity_t" where
  "upd_phr f e = e\<lparr>me_config := (me_config e)\<lparr>mc_phr := f (mc_phr (me_config e))\<rparr>\<rparr>"

definition mac_phr_config :: "u8 \<Rightarrow> u8 \<Rightarrow> mac_entity_t option \<Rightarrow> uesim_error \<times> mac_entity_t option" where
  "mac_phr_config periodic prohibit p = with_ptr p (\<lambda>e. (UESIM_SUCCESS,
     upd_phr (\<lambda>h. h\<lparr>phr_periodic_timer := periodic, phr_prohibit_timer := prohibit, phr_triggered := False\<rparr>) e))"

definition mac_phr_trigger :: "mac_entity_t option \<Rightarrow> uesim_error \<times> mac_entity_t option" where
  "mac_phr_trigger p = with_ptr p (\<lambda>e. (UESIM_SUCCESS, upd_phr (\<lambda>h. h\<lparr>phr_triggered := True\<rparr>) e))"

text \<open>The trigger is cleared in the copy that is handed out.\<close>

definition mac_phr_construct :: "bool \<Rightarrow> mac_entity_t option \<Rightarrow> uesim_error + mac_phr_ce_t" where
  "mac_phr_construct out p = (case p of None \<Rightarrow> Inl UESIM_ERROR_INVALID_PARAM
   | Some e \<Rightarrow> if \<not> out then Inl UESIM_ERROR_INVALID_PARAM
       else Inr ((mc_phr (me_config e))\<lparr>phr_triggered := False\<rparr>))"

definition mac_phr_update_entry ::
  "u8 \<Rightarrow> u8 \<Rightarrow> u8 \<Rightarrow> mac_entity_t option \<Rightarrow> uesim_error \<times> mac_entity_t option" where
  "mac_phr_update_entry cell ph p_cmax p = with_ptr p (\<lambda>e.
     if 8 \<le> cell then (UESIM_ERROR_INVALID_PARAM, e)
     else (UESIM_SUCCESS, upd_phr (\<lambda>h.
       h\<lparr>phr_entries := (phr_entries h)[unat cell :=
            \<lparr>ph_value = ph, ph_p_cmax = p_cmax, ph_serving_cell_id = cell, ph_pcmax_set = True\<rparr>],
         phr_num_entries := (if phr_num_entries h \<le> cell then cell + 1 else phr_num_entries h)\<rparr>) e))"

definition mac_phr_is_triggered :: "mac_entity_t option \<Rightarrow> bool" where
  "mac_phr_is_triggered p = (case p of None \<Rightarrow> False | Some e \<Rightarrow> phr_triggered (mc_phr (me_config e)))"

section \<open>Discontinuous reception\<close>

definition upd_drx :: "(mac_drx_config_t \<Rightarrow> mac_drx_config_t) \<Rightarrow> mac_entity_t \<Rightarrow> mac_entity_t" where
  "upd_drx f e = e\<lparr>me_config := (me_config e)\<lparr>mc_drx := f (mc_drx (me_config e))\<rparr>\<rparr>"

definition mac_drx_config ::
  "mac_drx_config_t option \<Rightarrow> mac_entity_t option \<Rightarrow> uesim_error \<times> mac_entity_t option" where
  "mac_drx_config cfg p = with_ptr p (\<lambda>e. case cfg of
     None \<Rightarrow> (UESIM_ERROR_INVALID_PARAM, e)
   | Some c \<Rightarrow> (UESIM_SUCCESS, upd_drx (\<lambda>_. c\<lparr>dx_active := False, dx_on_duration := False\<rparr>) e))"

definition mac_drx_start :: "mac_entity_t option \<Rightarrow> uesim_error \<times> mac_entity_t option" where
  "mac_drx_start p = with_ptr p (\<lambda>e. (UESIM_SUCCESS,
     upd_drx (\<lambda>d. d\<lparr>dx_active := True, dx_current_cycle := 0\<rparr>) e))"

definition mac_drx_stop :: "mac_entity_t option \<Rightarrow> uesim_error \<times> mac_entity_t option" where
  "mac_drx_stop p = with_ptr p (\<lambda>e. (UESIM_SUCCESS,
     upd_drx (\<lambda>d. d\<lparr>dx_active := False, dx_on_duration := False\<rparr>) e))"

definition mac_drx_on_duration_start :: "mac_entity_t option \<Rightarrow> uesim_error \<times> mac_entity_t option" where
  "mac_drx_on_duration_start p = with_ptr p (\<lambda>e. (UESIM_SUCCESS, upd_drx (\<lambda>d. d\<lparr>dx_on_duration := True\<rparr>) e))"

definition mac_drx_on_duration_end :: "mac_entity_t option \<Rightarrow> uesim_error \<times> mac_entity_t option" where
  "mac_drx_on_duration_end p = with_ptr p (\<lambda>e. (UESIM_SUCCESS, upd_drx (\<lambda>d. d\<lparr>dx_on_duration := False\<rparr>) e))"

definition set_drx_harq :: "bool \<Rightarrow> u8 \<Rightarrow> mac_entity_t option \<Rightarrow> uesim_error \<times> mac_entity_t option" where
  "set_drx_harq v i p = with_ptr p (\<lambda>e.
     if MAC_MAX_HARQ_PROCESSES \<le> unat i then (UESIM_ERROR_INVALID_PARAM, e)
     else (UESIM_SUCCESS, upd_drx (\<lambda>d. d\<lparr>dx_harq_active := (dx_harq_active d)[unat i := v]\<rparr>) e))"

definition mac_drx_retransmission_timer_start :: "u8 \<Rightarrow> mac_entity_t option \<Rightarrow> uesim_error \<times> mac_entity_t option" where
  "mac_drx_retransmission_timer_start = set_drx_harq True"

definition mac_drx_retransmission_timer_stop :: "u8 \<Rightarrow> mac_entity_t option \<Rightarrow> uesim_error \<times> mac_entity_t option" where
  "mac_drx_retransmission_timer_stop = set_drx_harq False"

definition mac_drx_is_active_time :: "mac_entity_t option \<Rightarrow> bool" where
  "mac_drx_is_active_time p = (case p of None \<Rightarrow> True
   | Some e \<Rightarrow> let d = mc_drx (me_config e) in
       if \<not> dx_active d then True else if dx_on_duration d then True
       else list_ex (\<lambda>b. b) (take MAC_MAX_HARQ_PROCESSES (dx_harq_active d)))"

definition mac_drx_is_on_duration :: "mac_entity_t option \<Rightarrow> bool" where
  "mac_drx_is_on_duration p = (case p of None \<Rightarrow> False | Some e \<Rightarrow> dx_on_duration (mc_drx (me_config e)))"

text \<open>A cycle of length 0 divides by zero.\<close>

definition mac_drx_update_timers ::
  "u32 \<Rightarrow> mac_entity_t option \<Rightarrow> (uesim_error \<times> mac_entity_t option) option" where
  "mac_drx_update_timers now p = (case p of
     None \<Rightarrow> Some (UESIM_ERROR_INVALID_PARAM, None)
   | Some e \<Rightarrow> let d = mc_drx (me_config e) in
       if \<not> dx_active d then Some (UESIM_SUCCESS, p)
       else let cycle = (if dx_use_short_cycle d then dx_short_cycle d else dx_long_cycle d) in
         if cycle = 0 then None
         else let position = (now + ucast (dx_start_offset d)) mod ucast cycle;
                  p' = (if position < ucast (dx_on_duration_timer d)
                        then (if \<not> dx_on_duration d then snd (mac_drx_on_duration_start p) else p)
                        else (if dx_on_duration d then snd (mac_drx_on_duration_end p) else p))
           in Some (UESIM_SUCCESS, map_option (upd_drx (\<lambda>d. d\<lparr>dx_last_activity_time := now\<rparr>)) p'))"

end
