(* ===== verification/Mac_Proofs.thy ===== *)
theory Mac_Proofs
  imports Mac_Data "HOL-Library.Multiset"
begin

text \<open>
  What the MAC layer keeps: the channel buffers are byte-bounded queues whose counters are exact, the
  priority sort is the stable sort, a HARQ process retransmits a bounded number of times, and a failed
  random access response leaves a procedure that cannot send again.
\<close>

section \<open>Channel buffers\<close>

lemma with_ptr_Some: obtains r y where "with_ptr (Some x) f = (r, Some y)"
  by (cases "f x") simp

lemma with_obj_Some: obtains r y where "with_obj (Some x) f = (r, Some y)"
  by (cases "f x") simp

definition octets :: "(u8 list \<times> u32) list \<Rightarrow> nat" where
  "octets es = sum_list (map (length \<circ> fst) es)"

lemma octets_simps [simp]:
  "octets [] = 0" "octets (x # xs) = length (fst x) + octets xs" "octets (xs @ ys) = octets xs + octets ys"
  by (simp_all add: octets_def)

definition lch_ok :: "mac_lch_buffer \<Rightarrow> bool" where
  "lch_ok b \<longleftrightarrow> (\<forall>x \<in> set (lb_entries b). fst x \<noteq> []) \<and> unat (lb_entry_count b) = length (lb_entries b)
     \<and> unat (lb_total_bytes b) = octets (lb_entries b) \<and> lb_total_bytes b \<le> lb_max_bytes b"

lemma unat32: "unat (x :: u32) < 4294967296"
  by (rule order.strict_trans2 [OF unsigned_less]) simp

lemma entries_le_octets: "\<forall>x \<in> set es. fst x \<noteq> [] \<Longrightarrow> length es \<le> octets es"
proof (induction es)
  case (Cons x xs)
  then show ?case by (cases "fst x") auto
qed simp

lemma enqueue_ok [inv_keep]:
  assumes "lch_ok b" and "length bs < 2 ^ 63"
    and "mac_lch_buffer_enqueue s now (Some bs) (Some b) = (r, Some b')"
  shows "lch_ok b' \<and> lb_max_bytes b' = lb_max_bytes b
    \<and> (if r = UESIM_SUCCESS then bs \<noteq> [] \<and> lb_entries b' = lb_entries b @ [(bs, of_nat now)] else b' = b)"
proof (cases "bs \<noteq> [] \<and> lock_ok s 0 \<and> alloc_ok s 0 \<and> alloc_ok s 1 \<and>
      unat (lb_total_bytes b) + length bs \<le> unat (lb_max_bytes b)")
  case True
  have small: "unat (lb_total_bytes b) + length bs < 2 ^ 32"
    using True unat32 [of "lb_max_bytes b"] by simp
  have len: "length (lb_entries b) < 2 ^ 32 - 1"
    using entries_le_octets [of "lb_entries b"] assms(1) True small
    by (cases bs) (auto simp: lch_ok_def)
  have b': "b' = b\<lparr>lb_entries := lb_entries b @ [(bs, of_nat now)], lb_entry_count := lb_entry_count b + 1,
      lb_total_bytes := lb_total_bytes b + of_nat (length bs)\<rparr>" and r: "r = UESIM_SUCCESS"
    using assms(3) True small by (auto simp: mac_lch_buffer_enqueue_def locked_def)
  have t: "unat (lb_total_bytes b + of_nat (length bs)) = unat (lb_total_bytes b) + length bs"
    using small by (simp add: unat_word_ariths unat_of_nat)
  have c: "unat (lb_entry_count b + 1) = length (lb_entries b) + 1"
    using len assms(1) by (simp add: lch_ok_def unat_word_ariths)
  show ?thesis using assms(1) True t c by (auto simp: b' r lch_ok_def word_le_nat_alt)
next
  case False
  have lt: "unat (lb_total_bytes b) + length bs < 2 ^ 64"
    using assms(2) unat32 [of "lb_total_bytes b"] by simp
  have "b' = b \<and> r \<noteq> UESIM_SUCCESS"
    using assms(3) False lt
    by (auto simp: mac_lch_buffer_enqueue_def locked_def split: if_splits)
  then show ?thesis using assms(1) by simp
qed

lemma dequeue_ok [inv_keep]:
  assumes "lch_ok b" and "mac_lch_buffer_dequeue s (Some b) = (Inr bs, Some b')"
  shows "lch_ok b' \<and> lb_max_bytes b' = lb_max_bytes b
    \<and> map fst (lb_entries b) = bs # map fst (lb_entries b')"
proof -
  obtain t rest where es: "lb_entries b = (bs, t) # rest"
    and b': "b' = b\<lparr>lb_entries := rest, lb_entry_count := lb_entry_count b - 1,
      lb_total_bytes := lb_total_bytes b - of_nat (length bs)\<rparr>"
    using assms(2) by (auto simp: mac_lch_buffer_dequeue_def split: if_splits list.splits prod.splits)
  have tot: "unat (lb_total_bytes b) = length bs + octets rest"
    and cnt: "unat (lb_entry_count b) = Suc (length rest)"
    using assms(1) by (simp_all add: lch_ok_def es)
  have lt: "length bs < 2 ^ 32" using tot unat32 [of "lb_total_bytes b"] by simp
  have le: "of_nat (length bs) \<le> lb_total_bytes b"
    using tot lt by (simp add: word_le_nat_alt unat_of_nat)
  have "unat (lb_total_bytes b - of_nat (length bs)) = octets rest"
    using le tot lt by (simp add: unat_sub unat_of_nat)
  moreover have "unat (lb_entry_count b - 1) = length rest"
    using cnt unat_minus_one [of "lb_entry_count b"] by (cases "lb_entry_count b = 0") auto
  moreover have "lb_total_bytes b - of_nat (length bs) \<le> lb_max_bytes b"
    using assms(1) calculation(1) tot by (simp add: lch_ok_def word_le_nat_alt)
  ultimately show ?thesis using assms(1) by (simp add: lch_ok_def b' es)
qed

lemma dequeue_empty:
  "fst (mac_lch_buffer_dequeue good_os (Some b)) = Inl r \<longleftrightarrow>
     lb_entries b = [] \<and> r = UESIM_ERROR_INVALID_PARAM"
  by (auto simp: mac_lch_buffer_dequeue_def split: list.splits)


text \<open>The entity: five good buffers, and no more channels configured than there are places.\<close>

definition mac_wf :: "mac_entity_t \<Rightarrow> bool" where
  "mac_wf e \<longleftrightarrow> length (me_lch_buffers e) = MAC_LCH_MAX \<and> (\<forall>b \<in> set (me_lch_buffers e). lch_ok b)
     \<and> unat (mc_num_lch (me_config e)) \<le> length (mc_lch (me_config e))"

definition mac_receiving :: "mac_entity_t \<Rightarrow> bool" where
  "mac_receiving e \<longleftrightarrow> mac_wf e \<and> me_active e"

definition mac_queued :: "nat \<Rightarrow> mac_entity_t \<Rightarrow> u8 list list" where
  "mac_queued i e = map fst (lb_entries (me_lch_buffers e ! i))"

text \<open>A put below \<open>2 ^ 63\<close> octets, the largest object there is, and a get, with all locks and allocations.\<close>

definition mac_put :: "nat \<Rightarrow> nat \<Rightarrow> u8 list \<Rightarrow> mac_entity_t \<Rightarrow> mac_entity_t option" where
  "mac_put now i d e = (if length d < 2 ^ 63
     then (case mac_queue_logical_channel_data good_os now i (Some d) (Some e) of
             Some (UESIM_SUCCESS, Some e') \<Rightarrow> Some e' | _ \<Rightarrow> None)
     else None)"

definition mac_get :: "nat \<Rightarrow> mac_entity_t \<Rightarrow> (u8 list \<times> mac_entity_t) option" where
  "mac_get i e = (case mac_dequeue_logical_channel_data good_os True i (Some e) of
     Some (Inr d, Some e') \<Rightarrow> Some (d, e') | _ \<Rightarrow> None)"

lemma update_lch_Some:
  "n \<le> length xs \<Longrightarrow> \<exists>ys. update_lch f i n xs = Some ys \<and> length ys = length xs"
proof (induction f i n xs rule: update_lch.induct)
  case (3 f i n x xs)
  then show ?case by auto
qed auto

lemma account_lch_Some:
  assumes "unat (mc_num_lch (me_config e)) \<le> length (mc_lch (me_config e))"
  obtains xs where "account_lch ok f i e = Some (e\<lparr>me_config := (me_config e)\<lparr>mc_lch := xs\<rparr>\<rparr>)"
    and "length xs = length (mc_lch (me_config e))"
proof (cases ok)
  case True
  then show ?thesis using update_lch_Some [OF assms, of f i] that by (auto simp: account_lch_def)
next
  case False
  then show ?thesis using that [of "mc_lch (me_config e)"] by (simp add: account_lch_def)
qed

text \<open>The pending request changes neither the buffers nor the channels.\<close>

lemma trigger_frame:
  assumes "mac_trigger_scheduling_request s (Some e) = (r, Some e')"
  shows "me_lch_buffers e' = me_lch_buffers e" and "me_active e' = me_active e"
    and "mc_num_lch (me_config e') = mc_num_lch (me_config e)"
    and "mc_lch (me_config e') = mc_lch (me_config e)"
  using assms
  by (auto simp: mac_trigger_scheduling_request_def when_active_def locked_def count_sr_def upd_sr_def
      split: if_splits)

lemma put_state:
  assumes "mac_receiving e" and "mac_put now i d e = Some e'"
  obtains b' where "i < MAC_LCH_MAX" and "d \<noteq> []"
    and "mac_lch_buffer_enqueue good_os now (Some d) (Some (me_lch_buffers e ! i)) = (UESIM_SUCCESS, Some b')"
    and "me_lch_buffers e' = (me_lch_buffers e)[i := b']" and "me_active e'"
    and "mc_num_lch (me_config e') = mc_num_lch (me_config e)"
    and "length (mc_lch (me_config e')) = length (mc_lch (me_config e))" and "length d < 2 ^ 63"
proof -
  have q: "mac_queue_logical_channel_data good_os now i (Some d) (Some e) = Some (UESIM_SUCCESS, Some e')"
    and len: "length d < 2 ^ 63"
    using assms(2) by (auto simp: mac_put_def split: if_splits option.splits prod.splits uesim_error.splits)
  have guard: "d \<noteq> []" "i < MAC_LCH_MAX" "me_active e"
    using q by (auto simp: mac_queue_logical_channel_data_def split: if_splits)
  obtain r b' where enq: "mac_lch_buffer_enqueue good_os now (Some d) (Some (me_lch_buffers e ! i)) = (r, Some b')"
    unfolding mac_lch_buffer_enqueue_def by (rule with_ptr_Some)
  let ?e = "e\<lparr>me_lch_buffers := (me_lch_buffers e)[i := b']\<rparr>"
  have r: "r = UESIM_SUCCESS"
    using q guard enq by (auto simp: mac_queue_logical_channel_data_def Let_def split: if_splits)
  let ?f = "\<lambda>li. li\<lparr>li_queued_bytes := li_queued_bytes li + of_nat (length d)\<rparr>"
  obtain xs where acc: "account_lch True ?f i ?e = Some (?e\<lparr>me_config := (me_config ?e)\<lparr>mc_lch := xs\<rparr>\<rparr>)"
    and xs: "length xs = length (mc_lch (me_config e))"
    using account_lch_Some [of ?e True ?f i] assms(1) by (auto simp: mac_receiving_def mac_wf_def)
  let ?e1 = "?e\<lparr>me_config := (me_config ?e)\<lparr>mc_lch := xs\<rparr>\<rparr>"
  have e': "Some e' = (if sr_pending (mc_sr (me_config ?e1)) then Some ?e1
      else snd (mac_trigger_scheduling_request good_os (Some ?e1)))"
    using q guard enq r acc by (auto simp: mac_queue_logical_channel_data_def split: if_splits)
  have frame: "me_lch_buffers e' = me_lch_buffers ?e1 \<and> me_active e' = me_active ?e1
      \<and> mc_num_lch (me_config e') = mc_num_lch (me_config ?e1) \<and> mc_lch (me_config e') = mc_lch (me_config ?e1)"
  proof (cases "sr_pending (mc_sr (me_config ?e1))")
    case False
    then have "mac_trigger_scheduling_request good_os (Some ?e1) =
        (fst (mac_trigger_scheduling_request good_os (Some ?e1)), Some e')"
      using e' by (metis (no_types, lifting) prod.collapse)
    from trigger_frame [OF this] show ?thesis by blast
  qed (use e' in simp)
  show ?thesis
    by (rule that [of b']) (use guard enq r frame xs len in auto)
qed

lemma get_state:
  assumes "mac_receiving e" and "mac_get i e = Some (d, e')"
  obtains b' where "i < MAC_LCH_MAX"
    and "mac_lch_buffer_dequeue good_os (Some (me_lch_buffers e ! i)) = (Inr d, Some b')"
    and "me_lch_buffers e' = (me_lch_buffers e)[i := b']" and "me_active e'"
    and "mc_num_lch (me_config e') = mc_num_lch (me_config e)"
    and "length (mc_lch (me_config e')) = length (mc_lch (me_config e))"
proof -
  have q: "mac_dequeue_logical_channel_data good_os True i (Some e) = Some (Inr d, Some e')"
    using assms(2) by (auto simp: mac_get_def split: option.splits prod.splits sum.splits)
  have guard: "i < MAC_LCH_MAX" "me_active e"
    using q by (auto simp: mac_dequeue_logical_channel_data_def split: if_splits)
  obtain r b' where deq: "mac_lch_buffer_dequeue good_os (Some (me_lch_buffers e ! i)) = (r, Some b')"
    unfolding mac_lch_buffer_dequeue_def by (rule with_obj_Some)
  have r: "r = Inr d"
    using q guard deq by (cases r) (auto simp: mac_dequeue_logical_channel_data_def)
  let ?e = "e\<lparr>me_lch_buffers := (me_lch_buffers e)[i := b']\<rparr>"
  let ?f = "serve_lch (of_nat (length d))"
  obtain xs where acc: "account_lch True ?f i ?e = Some (?e\<lparr>me_config := (me_config ?e)\<lparr>mc_lch := xs\<rparr>\<rparr>)"
    and xs: "length xs = length (mc_lch (me_config e))"
    using account_lch_Some [of ?e True ?f i] assms(1) by (auto simp: mac_receiving_def mac_wf_def)
  have "e' = ?e\<lparr>me_config := (me_config ?e)\<lparr>mc_lch := xs\<rparr>\<rparr>"
    using q guard deq r acc by (simp add: mac_dequeue_logical_channel_data_def)
  then show ?thesis
    by (intro that [of b']) (use guard deq r xs in auto)
qed

lemma get_None:
  assumes "mac_receiving e" and "i < MAC_LCH_MAX"
  shows "mac_get i e = None \<longleftrightarrow> mac_queued i e = []"
proof (cases "lb_entries (me_lch_buffers e ! i)")
  case Nil
  then have "mac_dequeue_logical_channel_data good_os True i (Some e) = Some (Inl UESIM_ERROR_INVALID_PARAM, Some e)"
    using assms by (simp add: mac_dequeue_logical_channel_data_def mac_receiving_def mac_lch_buffer_dequeue_def)
  with Nil show ?thesis by (simp add: mac_get_def mac_queued_def)
next
  case (Cons x es)
  obtain d t where x: "x = (d, t)" by fastforce
  obtain b' where deq: "mac_lch_buffer_dequeue good_os (Some (me_lch_buffers e ! i)) = (Inr d, Some b')"
    using Cons x by (simp add: mac_lch_buffer_dequeue_def)
  let ?e = "e\<lparr>me_lch_buffers := (me_lch_buffers e)[i := b']\<rparr>"
  obtain e1 where "account_lch True (serve_lch (of_nat (length d))) i ?e = Some e1"
    using account_lch_Some [of ?e True "serve_lch (of_nat (length d))" i] assms(1)
    by (auto simp: mac_receiving_def mac_wf_def)
  then have "mac_get i e \<noteq> None"
    using assms deq by (simp add: mac_get_def mac_dequeue_logical_channel_data_def mac_receiving_def)
  with Cons show ?thesis by (simp add: mac_queued_def)
qed

lemma lch_ok_update:
  "mac_receiving e \<Longrightarrow> lch_ok b \<Longrightarrow> me_lch_buffers e' = (me_lch_buffers e)[i := b] \<Longrightarrow> me_active e' \<Longrightarrow>
   mc_num_lch (me_config e') = mc_num_lch (me_config e) \<Longrightarrow>
   length (mc_lch (me_config e')) = length (mc_lch (me_config e)) \<Longrightarrow> mac_receiving e'"
  unfolding mac_receiving_def mac_wf_def by (auto dest!: set_update_subset_insert [THEN subsetD])

lemma lch_ok_nth: "mac_receiving e \<Longrightarrow> i < MAC_LCH_MAX \<Longrightarrow> lch_ok (me_lch_buffers e ! i)"
  by (auto simp: mac_receiving_def mac_wf_def)

lemma put_effect:
  assumes "mac_receiving e" and "mac_put now i d e = Some e'"
  shows "mac_receiving e'" and "mac_queued i e' = mac_queued i e @ [d]"
    and "j \<noteq> i \<Longrightarrow> mac_queued j e' = mac_queued j e"
    and "map lb_max_bytes (me_lch_buffers e') = map lb_max_bytes (me_lch_buffers e)"
proof -
  from assms obtain b' where p: "i < MAC_LCH_MAX" "d \<noteq> []"
    "mac_lch_buffer_enqueue good_os now (Some d) (Some (me_lch_buffers e ! i)) = (UESIM_SUCCESS, Some b')"
    "me_lch_buffers e' = (me_lch_buffers e)[i := b']" "me_active e'"
    "mc_num_lch (me_config e') = mc_num_lch (me_config e)"
    "length (mc_lch (me_config e')) = length (mc_lch (me_config e))" "length d < 2 ^ 63"
    by (rule put_state)
  have ok: "lch_ok b'" "lb_max_bytes b' = lb_max_bytes (me_lch_buffers e ! i)"
    "lb_entries b' = lb_entries (me_lch_buffers e ! i) @ [(d, of_nat now)]"
    using enqueue_ok [OF lch_ok_nth [OF assms(1) p(1)] p(8,3)] by simp_all
  have len: "i < length (me_lch_buffers e)" using p(1) assms(1) by (simp add: mac_receiving_def mac_wf_def)
  show "mac_receiving e'" by (rule lch_ok_update [OF assms(1) ok(1) p(4-7)])
  show "mac_queued i e' = mac_queued i e @ [d]" using p ok len by (simp add: mac_queued_def)
  show "mac_queued j e' = mac_queued j e" if "j \<noteq> i" using p that by (simp add: mac_queued_def)
  show "map lb_max_bytes (me_lch_buffers e') = map lb_max_bytes (me_lch_buffers e)"
    using p(4) ok(2) len by (simp add: map_update list_update_same_conv)
qed

lemma get_effect:
  assumes "mac_receiving e" and "mac_get i e = Some (d, e')"
  shows "mac_receiving e'" and "mac_queued i e = d # mac_queued i e'"
    and "j \<noteq> i \<Longrightarrow> mac_queued j e' = mac_queued j e"
    and "map lb_max_bytes (me_lch_buffers e') = map lb_max_bytes (me_lch_buffers e)"
proof -
  from assms obtain b' where p: "i < MAC_LCH_MAX"
    "mac_lch_buffer_dequeue good_os (Some (me_lch_buffers e ! i)) = (Inr d, Some b')"
    "me_lch_buffers e' = (me_lch_buffers e)[i := b']" "me_active e'"
    "mc_num_lch (me_config e') = mc_num_lch (me_config e)"
    "length (mc_lch (me_config e')) = length (mc_lch (me_config e))"
    by (rule get_state)
  have ok: "lch_ok b'" "lb_max_bytes b' = lb_max_bytes (me_lch_buffers e ! i)"
    "map fst (lb_entries (me_lch_buffers e ! i)) = d # map fst (lb_entries b')"
    using dequeue_ok [OF lch_ok_nth [OF assms(1) p(1)] p(2)] by simp_all
  have len: "i < length (me_lch_buffers e)" using p(1) assms(1) by (simp add: mac_receiving_def mac_wf_def)
  show "mac_receiving e'" by (rule lch_ok_update [OF assms(1) ok(1) p(3-6)])
  show "mac_queued i e = d # mac_queued i e'" using p ok len by (simp add: mac_queued_def)
  show "mac_queued j e' = mac_queued j e" if "j \<noteq> i" using p that by (simp add: mac_queued_def)
  show "map lb_max_bytes (me_lch_buffers e') = map lb_max_bytes (me_lch_buffers e)"
    using p(3) ok(2) len by (simp add: map_update list_update_same_conv)
qed

interpretation mac_channel: fifo "\<lambda>e. mac_receiving e \<and> i < MAC_LCH_MAX" "mac_queued i" "mac_put now i" "mac_get i"
  for now i
  by unfold_locales (blast intro: put_effect(1,2) get_effect(1,2) get_None [THEN iffD1] get_None [THEN iffD2])+

text \<open>What every accepted put and every get keep, a run keeps.\<close>

lemma run_queue_keeps:
  assumes put: "\<And>x q q'. I q \<Longrightarrow> put x q = Some q' \<Longrightarrow> I q'"
    and get: "\<And>x q q'. I q \<Longrightarrow> get q = Some (x, q') \<Longrightarrow> I q'"
  shows "I q \<Longrightarrow> run_queue put get q ops = (ins, outs, r) \<Longrightarrow> I r"
proof (induction ops arbitrary: q ins outs)
  case (Cons op ops)
  then show ?case
    by (cases op) (auto split: option.splits prod.splits dest: put get)
qed simp

lemma run_channel:
  assumes "mac_receiving e" and "run_queue (mac_put now i) (mac_get i) e ops = (ins, outs, e')"
  shows "mac_receiving e'" and "j \<noteq> i \<Longrightarrow> mac_queued j e' = mac_queued j e"
    and "map lb_max_bytes (me_lch_buffers e') = map lb_max_bytes (me_lch_buffers e)"
proof -
  let ?I = "\<lambda>f. mac_receiving f \<and> (\<forall>j. j \<noteq> i \<longrightarrow> mac_queued j f = mac_queued j e)
    \<and> map lb_max_bytes (me_lch_buffers f) = map lb_max_bytes (me_lch_buffers e)"
  have "?I e'"
  proof (rule run_queue_keeps [where I = ?I, OF _ _ _ assms(2)])
    show "?I g" if "?I f" and "mac_put now i x f = Some g" for x f g
      using that put_effect [of f now i x g] by auto
    show "?I g" if "?I f" and "mac_get i f = Some (x, g)" for x f g
      using that get_effect [of f i x g] by auto
  qed (use assms(1) in simp)
  then show "mac_receiving e'" and "j \<noteq> i \<Longrightarrow> mac_queued j e' = mac_queued j e"
    and "map lb_max_bytes (me_lch_buffers e') = map lb_max_bytes (me_lch_buffers e)" by auto
qed

lemma channel_bytes:
  assumes "mac_receiving e" and "i < MAC_LCH_MAX"
  shows "sum_list (map length (mac_queued i e)) \<le> unat (lb_max_bytes (me_lch_buffers e ! i))"
    and "mac_get_lch_buffer_status good_os True i (Some e) =
      Inr (of_nat (sum_list (map length (mac_queued i e))))"
proof -
  have ok: "lch_ok (me_lch_buffers e ! i)" by (rule lch_ok_nth [OF assms])
  have oct: "octets es = sum_list (map length (map fst es))" for es by (simp add: octets_def)
  from ok have tot: "unat (lb_total_bytes (me_lch_buffers e ! i)) = sum_list (map length (mac_queued i e))"
    unfolding lch_ok_def mac_queued_def oct by blast
  then show "sum_list (map length (mac_queued i e)) \<le> unat (lb_max_bytes (me_lch_buffers e ! i))"
    using ok by (simp add: lch_ok_def word_le_nat_alt)
  show "mac_get_lch_buffer_status good_os True i (Some e) =
      Inr (of_nat (sum_list (map length (mac_queued i e))))"
    using assms(2) by (simp add: mac_get_lch_buffer_status_def mac_lch_buffer_get_bytes_def flip: tot)
qed

definition mac_example :: mac_entity_t where
  "mac_example = (mac_fresh_entity 0 None)\<lparr>me_active := True, me_status := MAC_STATUS_ACTIVE\<rparr>"

lemma mac_example_receiving: "mac_receiving mac_example"
  by (simp add: mac_receiving_def mac_wf_def mac_example_def mac_fresh_entity_def default_mac_config_def
      zero_mac_config_def lch_ok_def)

text \<open>
  C16. The data of a logical channel leave in the order they were queued, none lost and none
  invented, through any run of accepted puts and gets on an active entity; the other channels keep
  theirs, the reported amount is the exact number of queued octets, and it stays within the bound of the
  buffer.
\<close>

theorem mac_channel_fifo:
  assumes "mac_receiving e" and "i < MAC_LCH_MAX"
    and "run_queue (mac_put now i) (mac_get i) e ops = (ins, outs, e')"
  shows "mac_queued i e @ ins = outs @ mac_queued i e'
    \<and> (\<forall>j. j = i \<or> mac_queued j e' = mac_queued j e)
    \<and> mac_get_lch_buffer_status good_os True i (Some e') = Inr (of_nat (sum_list (map length (mac_queued i e'))))
    \<and> sum_list (map length (mac_queued i e')) \<le> unat (lb_max_bytes (me_lch_buffers e ! i))"
proof -
  note run = run_channel [OF assms(1,3)]
  have "lb_max_bytes (me_lch_buffers e' ! i) = lb_max_bytes (me_lch_buffers e ! i)"
    using arg_cong [OF run(3), of "\<lambda>xs. xs ! i"] assms(1,2) run(1)
    by (simp add: mac_receiving_def mac_wf_def)
  then show ?thesis
    using mac_channel.run_fifo [of e i now ops ins outs e'] assms run(2) channel_bytes [OF run(1) assms(2)]
    by auto
qed

lemma mac_channel_fifo_witness:
  "\<exists>ins outs e'. run_queue (mac_put 0 4) (mac_get 4) mac_example [Put [1], Put [2, 3], Get] = (ins, outs, e')
     \<and> mac_queued 4 mac_example @ ins = outs @ mac_queued 4 e'"
proof -
  obtain ins outs e' where
    run: "run_queue (mac_put 0 4) (mac_get 4) mac_example [Put [1], Put [2, 3], Get] = (ins, outs, e')"
    by (metis prod_cases3)
  have "mac_queued 4 mac_example @ ins = outs @ mac_queued 4 e'"
    using mac_channel_fifo [OF mac_example_receiving _ run] by (simp add: MAC_LCH_MAX_def)
  with run show ?thesis by blast
qed

section \<open>The priority sort\<close>

lemma length_bubble_pass [simp]: "length (bubble_pass k xs) = length xs"
  by (induction k xs rule: bubble_pass.induct) auto

lemma mset_bubble_pass [simp]: "mset (bubble_pass k xs) = mset xs"
  by (induction k xs rule: bubble_pass.induct) auto

lemma drop_bubble_pass: "drop (Suc k) (bubble_pass k xs) = drop (Suc k) xs"
proof (induction k xs rule: bubble_pass.induct)
  case (1 k x y xs)
  then show ?case by auto
qed auto

lemma filter_bubble_pass:
  "filter (\<lambda>x. li_priority x = p) (bubble_pass k xs) = filter (\<lambda>x. li_priority x = p) xs"
  by (induction k xs rule: bubble_pass.induct) auto

text \<open>A pass moves a largest of the first places to the last of them.\<close>

lemma bubble_pass_last:
  "k < length xs \<Longrightarrow> x \<in> set (take (Suc k) (bubble_pass k xs)) \<Longrightarrow>
   li_priority x \<le> li_priority (bubble_pass k xs ! k)"
proof (induction k xs arbitrary: x rule: bubble_pass.induct)
  case (1 k y z xs)
  have le: "li_priority w \<le> li_priority (bubble_pass k (v # xs) ! k)"
    if "w = v \<or> w \<in> set (take (Suc k) (bubble_pass k (v # xs)))" and
      IH: "\<And>x. x \<in> set (take (Suc k) (bubble_pass k (v # xs))) \<Longrightarrow>
        li_priority x \<le> li_priority (bubble_pass k (v # xs) ! k)" for w v
  proof -
    have "mset (take (Suc k) (bubble_pass k (v # xs))) = mset (take (Suc k) (v # xs))"
      by (metis add_right_cancel append_take_drop_id drop_bubble_pass mset_append mset_bubble_pass)
    then have "set (take (Suc k) (bubble_pass k (v # xs))) = set (take (Suc k) (v # xs))"
      by (rule mset_eq_setD)
    then have "v \<in> set (take (Suc k) (bubble_pass k (v # xs)))" by simp
    with that show ?thesis by blast
  qed
  show ?case
  proof (cases "li_priority y > li_priority z")
    case True
    with 1 have IH: "\<And>x. x \<in> set (take (Suc k) (bubble_pass k (y # xs))) \<Longrightarrow>
        li_priority x \<le> li_priority (bubble_pass k (y # xs) ! k)" by simp
    have "x = z \<or> x \<in> set (take (Suc k) (bubble_pass k (y # xs)))" using 1(4) True by simp
    then show ?thesis using le [OF disjI2 IH] le [OF disjI1 [OF refl] IH] True by fastforce
  next
    case False
    with 1 have IH: "\<And>x. x \<in> set (take (Suc k) (bubble_pass k (z # xs))) \<Longrightarrow>
        li_priority x \<le> li_priority (bubble_pass k (z # xs) ! k)" by simp
    have "x = y \<or> x \<in> set (take (Suc k) (bubble_pass k (z # xs)))" using 1(4) False by simp
    then show ?thesis using le [OF disjI2 IH] le [OF disjI1 [OF refl] IH] False by fastforce
  qed
qed (auto simp: take_Suc_conv_app_nth)

lemma mset_bubble_passes [simp]: "mset (bubble_passes k xs) = mset xs"
  by (induction k arbitrary: xs) auto

lemma length_bubble_passes [simp]: "length (bubble_passes k xs) = length xs"
  using mset_bubble_passes by (metis size_mset)

lemma filter_bubble_passes:
  "filter (\<lambda>x. li_priority x = p) (bubble_passes k xs) = filter (\<lambda>x. li_priority x = p) xs"
  by (induction k arbitrary: xs) (auto simp: filter_bubble_pass)

lemma drop_bubble_passes: "drop (Suc k) (bubble_passes k xs) = drop (Suc k) xs"
proof (induction k arbitrary: xs)
  case (Suc k)
  have "drop (Suc (Suc k)) (bubble_passes k (bubble_pass (Suc k) xs)) =
      drop 1 (drop (Suc k) (bubble_passes k (bubble_pass (Suc k) xs)))" by simp
  also have "\<dots> = drop (Suc (Suc k)) (bubble_pass (Suc k) xs)" by (simp only: Suc.IH) simp
  finally show ?case by (simp add: drop_bubble_pass)
qed simp

lemma mset_take_eq: "mset xs = mset ys \<Longrightarrow> drop n xs = drop n ys \<Longrightarrow> mset (take n xs) = mset (take n ys)"
  by (metis add_right_cancel append_take_drop_id mset_append)

lemma sorted_bubble_passes: "k < length xs \<Longrightarrow> sorted (map li_priority (take (Suc k) (bubble_passes k xs)))"
proof (induction k arbitrary: xs)
  case 0
  then show ?case by (cases xs) auto
next
  case (Suc k)
  define ys where "ys = bubble_pass (Suc k) xs"
  define zs where "zs = bubble_passes k ys"
  have len: "length ys = length xs" "length zs = length xs" by (simp_all add: ys_def zs_def)
  have dr: "drop (Suc k) zs = drop (Suc k) ys" by (simp add: zs_def drop_bubble_passes)
  then have last: "zs ! Suc k = ys ! Suc k"
    using Suc.prems len by (metis Cons_nth_drop_Suc list.inject)
  have "mset (take (Suc k) zs) = mset (take (Suc k) ys)"
    by (rule mset_take_eq [OF _ dr]) (simp add: zs_def)
  then have sub: "set (take (Suc k) zs) \<subseteq> set (take (Suc (Suc k)) ys)"
    using mset_eq_setD set_take_subset_set_take [of "Suc k" "Suc (Suc k)" ys] by fastforce
  have "sorted (map li_priority (take (Suc k) zs))"
    unfolding zs_def by (rule Suc.IH) (use Suc.prems len in simp)
  moreover have "\<forall>x \<in> set (take (Suc k) zs). li_priority x \<le> li_priority (zs ! Suc k)"
    using sub bubble_pass_last [of "Suc k" xs] Suc.prems by (auto simp: last ys_def)
  ultimately have "sorted (map li_priority (take (Suc k) zs @ [zs ! Suc k]))"
    by (auto simp: sorted_append)
  then show ?case
    using Suc.prems len by (simp add: take_Suc_conv_app_nth flip: zs_def ys_def)
qed

lemma bubble_passes_sort:
  assumes "n \<le> length xs"
  shows "bubble_passes (n - 1) xs = sort_key li_priority (take n xs) @ drop n xs"
proof (cases n)
  case 0
  then show ?thesis by simp
next
  case (Suc k)
  let ?ys = "bubble_passes k xs"
  have dr: "drop n ?ys = drop n xs" using Suc by (simp add: drop_bubble_passes)
  have "sort_key li_priority (take n xs) = take n ?ys"
  proof (rule properties_for_sort_key)
    show "mset (take n ?ys) = mset (take n xs)" by (rule mset_take_eq [OF _ dr]) simp
    show "sorted (map li_priority (take n ?ys))" using sorted_bubble_passes [of k xs] assms Suc by simp
    show "filter (\<lambda>x. li_priority a = li_priority x) (take n ?ys) =
        filter (\<lambda>x. li_priority a = li_priority x) (take n xs)" for a
    proof -
      let ?P = "\<lambda>x. li_priority x = li_priority a"
      have "filter ?P (take n ?ys) @ filter ?P (drop n ?ys) = filter ?P (take n xs) @ filter ?P (drop n xs)"
        using filter_bubble_passes [of "li_priority a" k xs]
        by (simp only: append_take_drop_id flip: filter_append)
      then show ?thesis by (simp add: dr eq_commute [of "li_priority a"])
    qed
  qed
  then show ?thesis using dr Suc by (metis append_take_drop_id diff_Suc_1)
qed

text \<open>
  Prioritising the logical channels is the stable sort of the configured channels by
  priority: channels of equal priority keep their order, and the free places of the array stay as
  they are.
\<close>

theorem prioritize_stable_sort:
  assumes "unat (mc_num_lch (me_config e)) \<le> length (mc_lch (me_config e))"
  shows "mac_prioritize_logical_channels good_os (Some e) =
    (let n = unat (mc_num_lch (me_config e)); xs = mc_lch (me_config e) in
     Some (UESIM_SUCCESS, Some (e\<lparr>me_config := (me_config e)
       \<lparr>mc_lch := sort_key li_priority (take n xs) @ drop n xs\<rparr>\<rparr>)))"
  using assms bubble_passes_sort [OF assms] by (simp add: mac_prioritize_logical_channels_def Let_def)

lemma prioritize_stable_sort_witness:
  "mac_prioritize_logical_channels good_os (Some (mac_example\<lparr>me_config := default_mac_config
      \<lparr>mc_num_lch := 2, mc_lch := [zero_lch_info\<lparr>li_priority := 9\<rparr>, zero_lch_info\<lparr>li_priority := 3\<rparr>, zero_lch_info]\<rparr>\<rparr>)) =
    Some (UESIM_SUCCESS, Some (mac_example\<lparr>me_config := default_mac_config
      \<lparr>mc_num_lch := 2, mc_lch := [zero_lch_info\<lparr>li_priority := 3\<rparr>, zero_lch_info\<lparr>li_priority := 9\<rparr>, zero_lch_info]\<rparr>\<rparr>))"
  by (subst prioritize_stable_sort) (simp_all add: zero_lch_info_def)

section \<open>HARQ\<close>

text \<open>
  What happens to a process after its transmission started: acknowledgements (1 is positive) and
  attempts to retransmit, of which the run counts those that were made.
\<close>

datatype harq_event = Harq_ack u8 | Harq_retransmit nat

fun harq_run :: "mac_harq_process \<Rightarrow> harq_event list \<Rightarrow> nat \<times> mac_harq_process" where
  "harq_run h [] = (0, h)"
| "harq_run h (Harq_ack a # evs) = (case mac_harq_process_ack good_os a (Some h) of
     (r, Some h') \<Rightarrow> harq_run h' evs | (r, None) \<Rightarrow> (0, h))"
| "harq_run h (Harq_retransmit now # evs) = (case mac_harq_retransmit good_os now (Some h) of
     (r, Some h') \<Rightarrow> (case harq_run h' evs of (n, h'') \<Rightarrow>
       (if r = UESIM_SUCCESS then n + 1 else n, h''))
   | (r, None) \<Rightarrow> (0, h))"

fun nacks :: "harq_event list \<Rightarrow> nat" where
  "nacks [] = 0"
| "nacks (Harq_ack a # evs) = (if a = 1 then 0 else 1) + nacks evs"
| "nacks (Harq_retransmit now # evs) = nacks evs"

lemma ack_good:
  "mac_harq_process_ack good_os a (Some h) = (UESIM_SUCCESS, Some (
     if a = 1 then h\<lparr>hq_ack := a, hq_state := MAC_HARQ_IDLE\<rparr>
     else h\<lparr>hq_ack := a, hq_num_retransmissions := hq_num_retransmissions h + 1,
       hq_state := (if hq_num_retransmissions h + 1 < hq_max_retransmissions h
                    then MAC_HARQ_PENDING else MAC_HARQ_IDLE)\<rparr>))"
  by (simp add: mac_harq_process_ack_def Let_def)

lemma retransmit_good:
  "mac_harq_retransmit good_os now (Some h) =
     (if hq_state h = MAC_HARQ_PENDING \<and> hq_tb_data h \<noteq> None
      then (UESIM_SUCCESS, Some (h\<lparr>hq_rvidx := (hq_rvidx h + 1) mod 4, hq_ndi := 0,
              hq_state := MAC_HARQ_ACTIVE, hq_transmission_time := of_nat now\<rparr>))
      else (UESIM_ERROR_INVALID_PARAM, Some h))"
  by (simp add: mac_harq_retransmit_def)

lemma harq_run_bound:
  "unat (hq_num_retransmissions h) + nacks evs < 256 \<Longrightarrow> harq_run h evs = (n, h') \<Longrightarrow>
   n \<le> unat (hq_max_retransmissions h) - 1 - unat (hq_num_retransmissions h)
       + (if hq_state h = MAC_HARQ_PENDING then 1 else 0)
   \<and> hq_tb_data h' = hq_tb_data h \<and> hq_max_retransmissions h' = hq_max_retransmissions h"
proof (induction h evs arbitrary: n h' rule: harq_run.induct)
  case (2 h a evs)
  show ?case
  proof (cases "a = 1")
    case True
    with 2 show ?thesis by (fastforce simp: ack_good)
  next
    case False
    with 2(2) have step: "unat (hq_num_retransmissions h + 1) = unat (hq_num_retransmissions h) + 1"
      by (simp add: unat_word_ariths)
    define g where "g = h\<lparr>hq_ack := a, hq_num_retransmissions := hq_num_retransmissions h + 1,
       hq_state := (if hq_num_retransmissions h + 1 < hq_max_retransmissions h
                    then MAC_HARQ_PENDING else MAC_HARQ_IDLE)\<rparr>"
    have ack: "(UESIM_SUCCESS, Some g) = mac_harq_process_ack good_os a (Some h)"
      using False by (simp add: ack_good g_def)
    have "harq_run g evs = (n, h')" using 2(3) by (simp flip: ack)
    from 2(1) [OF ack refl _ this] show ?thesis
      using 2(2) False step by (auto simp: g_def word_less_nat_alt split: if_splits)
  qed
next
  case (3 h now evs)
  show ?case
  proof (cases "hq_state h = MAC_HARQ_PENDING \<and> hq_tb_data h \<noteq> None")
    case True
    define g where "g = h\<lparr>hq_rvidx := (hq_rvidx h + 1) mod 4, hq_ndi := 0,
              hq_state := MAC_HARQ_ACTIVE, hq_transmission_time := of_nat now\<rparr>"
    have re: "(UESIM_SUCCESS, Some g) = mac_harq_retransmit good_os now (Some h)"
      using True by (simp add: retransmit_good g_def)
    obtain m where run: "harq_run g evs = (m, h')" and n: "n = m + 1"
      using 3(3) by (auto simp flip: re split: prod.splits)
    from 3(1) [OF re refl _ run] show ?thesis
      using 3(2) True by (simp add: g_def n)
  next
    case False
    with 3 show ?thesis by (fastforce simp: retransmit_good split: prod.splits)
  qed
qed auto

text \<open>
  A transmission is repeated at most one time less than the maximum of its process, however
  acknowledgements and attempts to retransmit are ordered, as long as fewer than 256 negative ones
  arrive; its data stay those of the transmission.
\<close>

theorem harq_budget:
  assumes "mac_harq_start_transmission s now (Some bs) (Some h) = (UESIM_SUCCESS, Some h')"
    and "nacks evs < 256" and "harq_run h' evs = (n, h'')"
  shows "n \<le> unat (hq_max_retransmissions h) - 1 \<and> hq_tb_data h'' = Some bs"
proof -
  have h': "hq_num_retransmissions h' = 0" "hq_state h' = MAC_HARQ_ACTIVE" "hq_tb_data h' = Some bs"
    "hq_max_retransmissions h' = hq_max_retransmissions h"
    using assms(1) by (auto simp: mac_harq_start_transmission_def locked_def split: if_splits)
  show ?thesis using harq_run_bound [of h' evs n h''] assms(2,3) by (simp add: h')
qed

text \<open>With the default maximum of 4 the bound is 3, and it is reached.\<close>

lemma harq_budget_witness:
  "\<exists>h' n h''. mac_harq_start_transmission good_os 0 (Some [1]) (Some (mac_harq_fresh 0)) = (UESIM_SUCCESS, Some h')
     \<and> harq_run h' (concat (replicate 5 [Harq_ack 0, Harq_retransmit 0])) = (n, h'')
     \<and> n = 3 \<and> n \<le> unat (hq_max_retransmissions (mac_harq_fresh 0)) - 1"
proof -
  define h' where "h' = (mac_harq_fresh 0)\<lparr>hq_tb_data := Some [1], hq_tb_length := 1, hq_tb_size := 1,
    hq_state := MAC_HARQ_ACTIVE, hq_transmission_time := 0, hq_num_retransmissions := 0, hq_ndi := 1, hq_rvidx := 0\<rparr>"
  have start: "mac_harq_start_transmission good_os 0 (Some [1]) (Some (mac_harq_fresh 0)) = (UESIM_SUCCESS, Some h')"
    by (simp add: mac_harq_start_transmission_def h'_def)
  obtain n h'' where run: "harq_run h' (concat (replicate 5 [Harq_ack 0, Harq_retransmit 0])) = (n, h'')"
    by fastforce
  have "fst (harq_run h' (concat (replicate 5 [Harq_ack 0, Harq_retransmit 0]))) = 3"
    unfolding h'_def by code_simp
  then have "n = 3" by (simp add: run)
  moreover have "n \<le> unat (hq_max_retransmissions (mac_harq_fresh 0)) - 1"
    using harq_budget [OF start _ run] by (simp add: numeral_eq_Suc)
  ultimately show ?thesis using start run by blast
qed

text \<open>
  Past 255 negative acknowledgements the eight-bit counter starts again: the 256th makes a process
  pending again that had used up its attempts.
\<close>

lemma harq_counter_wraps:
  "hq_num_retransmissions h = 255 \<Longrightarrow> 0 < hq_max_retransmissions h \<Longrightarrow>
   mac_harq_process_ack good_os 0 (Some h) = (UESIM_SUCCESS,
     Some (h\<lparr>hq_ack := 0, hq_num_retransmissions := 0, hq_state := MAC_HARQ_PENDING\<rparr>))"
proof -
  assume a: "hq_num_retransmissions h = 255" and m: "0 < hq_max_retransmissions h"
  from a have "hq_num_retransmissions h + 1 = 0" by (simp add: word_unat_eq_iff unat_word_ariths)
  with m show ?thesis by (simp add: ack_good)
qed

section \<open>Random access\<close>

text \<open>
  A response without an answer to the sent preamble asks for a retry, with the attempt
  counted, but leaves the procedure active: every later request to send a preamble, by any of the three
  operations and with any preamble, is refused and changes nothing.
\<close>

theorem rach_retry_never_resends:
  assumes "mac_receive_rach_response s rnd d (Some e) = (UESIM_ERROR_RETRY, Some e')"
  shows "me_rach_attempt e' = me_rach_attempt e + 1 \<and> me_rach_state e' = MAC_RACH_ACTIVE
    \<and> (\<forall>s now i. fst (mac_send_rach_preamble s now i (Some e')) \<noteq> UESIM_SUCCESS
        \<and> snd (mac_send_rach_preamble s now i (Some e')) = Some e')
    \<and> (\<forall>s now i. fst (mac_process_rach_request s now i (Some e')) \<noteq> UESIM_SUCCESS
        \<and> snd (mac_process_rach_request s now i (Some e')) = Some e')
    \<and> (\<forall>s now. mac_initiate_random_access s now (Some e') = (UESIM_ERROR_PROTOCOL, Some e'))"
proof -
  have e': "me_active e'" "me_rach_state e' = MAC_RACH_ACTIVE" "me_rach_attempt e' = me_rach_attempt e + 1"
    using assms by (auto simp: mac_receive_rach_response_def when_active_def Let_def
        split: option.splits if_splits rar_result.splits)
  then show ?thesis
    by (auto simp: mac_send_rach_preamble_def mac_process_rach_request_def mac_initiate_random_access_def
        when_active_def MAC_MAX_RACH_PREAMBLES_def word_le_nat_alt)
qed

lemma rach_retry_never_resends_witness:
  "\<exists>e'. mac_receive_rach_response good_os 0 (Some [0, 0, 0, 0, 0])
      (Some (mac_example\<lparr>me_rach_state := MAC_RACH_ACTIVE\<rparr>)) = (UESIM_ERROR_RETRY, Some e')
    \<and> mac_initiate_random_access good_os 0 (Some e') = (UESIM_ERROR_PROTOCOL, Some e')"
proof -
  obtain e' where r: "mac_receive_rach_response good_os 0 (Some [0, 0, 0, 0, 0])
      (Some (mac_example\<lparr>me_rach_state := MAC_RACH_ACTIVE\<rparr>)) = (UESIM_ERROR_RETRY, Some e')"
    by (simp add: mac_receive_rach_response_def when_active_def mac_example_def mac_fresh_entity_def
        default_mac_config_def zero_mac_config_def rar_scan.simps(2) Let_def word_le_nat_alt)
  then show ?thesis using rach_retry_never_resends [OF r] by blast
qed

text \<open>A response with one answer, to preamble \<open>i\<close>, laid out as the comments of the code have it.\<close>

definition rar_response :: "u8 \<Rightarrow> u16 \<Rightarrow> u8 \<Rightarrow> u8 \<Rightarrow> u8 \<Rightarrow> u16 \<Rightarrow> u8 list" where
  "rar_response i ta g1 g2 g3 tc = [0x40 OR i, ucast (drop_bit 5 ta) AND 0x7F,
     push_bit 3 (ucast (ta AND 0x1F)) OR (g1 AND 7), g2, g3, ucast (drop_bit 8 tc), ucast tc]"

text \<open>The masks of the code as fields of low bits.\<close>

lemma low_bits:
  "(x :: 'a::len word) AND 1 = take_bit 1 x" "x AND 7 = take_bit 3 x" "x AND 0x1F = take_bit 5 x"
  "x AND 0x3F = take_bit 6 x" "x AND 0x7F = take_bit 7 x" "x AND 0xFF = take_bit 8 x"
  by (simp_all add: take_bit_eq_mask mask_numeral)

lemma ta_bits:
  assumes "(ta :: u16) < 2 ^ 12"
  shows "push_bit 5 (ucast ((ucast (drop_bit 5 ta) AND 0x7F) AND (0x7F :: u8))) OR
    ucast (drop_bit 3 (push_bit 3 (ucast (ta AND 0x1F)) OR (g AND 7)) AND (0x1F :: u8)) = ta"
    (is "?l = _")
proof -
  have "?l = take_bit 12 ta"
    unfolding low_bits by (rule bit_word_eqI) (auto simp: bit_simps)
  moreover have "take_bit 12 ta = ta"
    using assms by (simp add: word_unat_eq_iff unsigned_take_bit_eq take_bit_nat_eq_self word_less_nat_alt)
  ultimately show ?thesis by simp
qed

lemma tc_bits: "push_bit 8 (ucast (ucast (drop_bit 8 (tc :: u16)) :: u8)) OR ucast (ucast tc :: u8) = tc"
  by (rule bit_word_eqI) (auto simp: bit_simps)

lemma bit_0x40: "bit (0x40 :: u8) n \<longleftrightarrow> n = 6"
  using bit_push_bit_iff [of 6 "1 :: u8" n] by (auto simp: bit_1_iff push_bit_eq_mult)

lemma subheader_bits:
  assumes "(i :: u8) < 64"
  shows "drop_bit 6 (0x40 OR i) AND 1 = 1" and "(0x40 OR i) AND 0x3F = i"
proof -
  have i: "i = take_bit 6 i"
    using assms by (simp add: word_unat_eq_iff unsigned_take_bit_eq take_bit_nat_eq_self word_less_nat_alt)
  have hi: "\<not> bit i (6 + n)" for n by (subst i) (simp add: bit_simps)
  show "drop_bit 6 (0x40 OR i) AND 1 = 1"
    unfolding low_bits by (rule bit_word_eqI) (use hi [of 0] in \<open>auto simp: bit_simps bit_0x40 bit_1_iff\<close>)
  have "(0x40 OR i) AND 0x3F = take_bit 6 i"
    unfolding low_bits by (rule bit_word_eqI) (auto simp: bit_simps bit_0x40)
  then show "(0x40 OR i) AND 0x3F = i" using i by simp
qed

lemma grant_bits:
  "(ucast (push_bit 17 (ucast (x AND 7 :: u8) :: u32)) :: u16) OR
   ucast (push_bit 9 (ucast (g2 :: u8) :: u32) OR push_bit 8 (drop_bit 7 (ucast (g3 :: u8)) AND 0x01)) OR ucast (g3 AND 0xFF) =
   push_bit 9 (ucast g2) OR push_bit 8 (ucast (drop_bit 7 g3)) OR ucast g3"
proof (unfold low_bits, rule bit_word_eqI)
  have hi: "\<not> bit g3 m" if "8 \<le> m" for m
    using bit_imp_le_length [of g3 m] that by auto
  show "bit (ucast (push_bit 17 (ucast (take_bit 3 x) :: u32)) OR
      ucast (push_bit 9 (ucast g2 :: u32) OR push_bit 8 (take_bit 1 (drop_bit 7 (ucast g3)))) OR
      ucast (take_bit 8 g3) :: u16) n \<longleftrightarrow>
    bit (push_bit 9 (ucast g2) OR push_bit 8 (ucast (drop_bit 7 g3)) OR ucast g3 :: u16) n"
    if "n < LENGTH(16)" for n
    using that hi [of n] hi [of "n - 1"]
    by (cases "n \<le> 8"; cases "n = 8") (auto simp: bit_simps even_drop_bit_iff_not_bit)
qed

lemma payload_octets:
  "rar_payload [a, b, c, d, x, y] = Rar_found
     (push_bit 5 (ucast (a AND 0x7F)) OR ucast (drop_bit 3 b AND 0x1F))
     (ucast (push_bit 17 (ucast (b AND 0x07) :: u32))
      OR ucast (push_bit 9 (ucast c :: u32) OR push_bit 8 (drop_bit 7 (ucast d) AND 0x01)) OR ucast (d AND 0xFF))
     (push_bit 8 (ucast x) OR ucast y)"
  by (simp add: rar_payload_def or.assoc)

lemma scan_response:
  assumes "i < 64" and "ta < 2 ^ 12"
  shows "rar_scan i (rar_response i ta g1 g2 g3 tc) =
    Rar_found ta (push_bit 9 (ucast g2) OR push_bit 8 (ucast (drop_bit 7 g3)) OR ucast g3) tc"
proof -
  have "\<not> length [a, b, c, d, x, y] < 4" for a b c d x y :: u8 by simp
  then show ?thesis
    by (simp only: rar_response_def rar_scan.simps(2) Let_def subheader_bits [OF assms(1)] refl simp_thms
        if_True if_False payload_octets ta_bits [OF assms(2)] tc_bits grant_bits)
qed

text \<open>
  A response that answers the sent preamble completes the random access: the timing
  advance is 512 times the 12-bit command that was encoded, and a temporary identity other than 0 becomes
  the identity of the UE. Of the grant, the three bits beside the command (\<open>g1\<close>) have no effect.
\<close>

theorem rar_roundtrip:
  assumes "me_active e" and "me_rach_state e = MAC_RACH_ACTIVE" and "me_rach_preamble_index e < 64"
    and "ta < 2 ^ 12"
  shows "\<exists>e'. mac_receive_rach_response good_os rnd
        (Some (rar_response (me_rach_preamble_index e) ta g1 g2 g3 tc)) (Some e) = (UESIM_SUCCESS, Some e')
    \<and> me_rach_state e' = MAC_RACH_SUCCESS \<and> me_timing_advance e' = ucast ta * 512
    \<and> mc_c_rnti (me_config e') = (if tc = 0 then mc_c_rnti (me_config e) else tc)
    \<and> me_rach_ul_grant e' = ucast (push_bit 9 (ucast g2) OR push_bit 8 (ucast (drop_bit 7 g3)) OR ucast g3 :: u16)"
proof -
  have "rar_response (me_rach_preamble_index e) ta g1 g2 g3 tc \<noteq> []"
    and "\<not> length (rar_response (me_rach_preamble_index e) ta g1 g2 g3 tc) < 5"
    by (simp_all add: rar_response_def)
  then show ?thesis
    using assms(1,2) scan_response [OF assms(3,4), of g1 g2 g3 tc]
    by (simp add: mac_receive_rach_response_def when_active_def Let_def)
qed

lemma rar_roundtrip_witness:
  "\<exists>e'. mac_receive_rach_response good_os 0
        (Some (rar_response 1 31 7 2 3 0x4601)) (Some (mac_example\<lparr>me_rach_state := MAC_RACH_ACTIVE,
           me_rach_preamble_index := 1\<rparr>)) = (UESIM_SUCCESS, Some e')
    \<and> me_timing_advance e' = 31 * 512 \<and> mc_c_rnti (me_config e') = 0x4601"
proof -
  let ?e = "mac_example\<lparr>me_rach_state := MAC_RACH_ACTIVE, me_rach_preamble_index := 1\<rparr>"
  have "me_active ?e" "me_rach_state ?e = MAC_RACH_ACTIVE" "me_rach_preamble_index ?e < 64" "(31 :: u16) < 2 ^ 12"
    by (simp_all add: mac_example_def word_less_nat_alt)
  from rar_roundtrip [OF this, of 0 7 2 3 "0x4601"] show ?thesis by auto
qed

text \<open>
  An answer to another preamble is skipped as four octets, although six are read of an own one: here
  the answer to preamble 5 stands behind a six-octet one to preamble 3 and is not found.
\<close>

lemma rar_scan_misaligned:
  "rar_scan 5 ((0x80 OR 0x40 OR 3) # [1, 2, 3, 4, 0, 6] @ (0x40 OR 5) # [1, 2, 3, 4, 5, 6]) = Rar_none"
  by code_simp

section \<open>Buffer status reports\<close>

text \<open>
  The index of an amount that the table covers stands for the smallest entry that holds it.
\<close>

lemma bsr_index_bounds:
  assumes "n \<le> 81920"
  shows "n \<le> mac_bsr_index_to_buffer_size (mac_bsr_buffer_size_to_index n)"
    and "0 < n \<Longrightarrow> mac_bsr_index_to_buffer_size (mac_bsr_buffer_size_to_index n - 1) < n"
  using assms
  by (auto simp: mac_bsr_buffer_size_to_index_def mac_bsr_index_to_buffer_size_def bsr_sizes_def
      word_le_nat_alt word_less_nat_alt word_gt_0 unat_eq_0 split: if_splits)

text \<open>
  Building a report reads the buffers of eight groups; an entity has five, so the loop leaves the
  array on every entity and in every call.
\<close>

lemma bsr_out_of_bounds:
  assumes "mac_wf e"
  shows "mac_bsr_construct s ty (Some b) (Some e) = None"
    and "mac_bsr_get_highest_priority_lcg s True (Some e) = None"
proof -
  have "buffer_bytes s bufs [0..<8] = None" if "length bufs = 5" for bufs
    using that by (simp add: upt_rec numeral_eq_Suc)
  then show "mac_bsr_construct s ty (Some b) (Some e) = None"
    and "mac_bsr_get_highest_priority_lcg s True (Some e) = None"
    using assms by (simp_all add: mac_bsr_construct_def mac_bsr_get_highest_priority_lcg_def mac_wf_def MAC_LCH_MAX_def)
qed

end
