(* ===== verification/Session.thy ===== *)
theory Session
  imports Interfaces
begin

text \<open>
  QoS flows (\<^verbatim>\<open>src/nas/qos_flow.c\<close>) and PDU sessions (\<^verbatim>\<open>src/nas/pdu_session.c\<close>). A manager keeps
  its flows or sessions in the first \<open>num\<close> places of an array; the model is the list of these places,
  whose length is the counter, and a pointer to an entry is its index. The places behind are
  cleared before they are used. \<open>now\<close> is the result of \<^verbatim>\<open>time\<close>.
\<close>

section \<open>QoS flows\<close>

definition QOS_MAX_FLOWS_PER_SESSION :: nat where "QOS_MAX_FLOWS_PER_SESSION = 8"
definition QOS_DEFAULT_5QI :: u8 where "QOS_DEFAULT_5QI = 9"

datatype qos_flow_state = QOS_FLOW_STATE_INACTIVE | QOS_FLOW_STATE_ACTIVE | QOS_FLOW_STATE_SUSPENDED

record arp_t =
  arp_priority_level :: u8
  arp_pre_emption_capability :: bool
  arp_pre_emption_vulnerability :: bool

record bit_rate_t =
  br_uplink :: u64
  br_downlink :: u64

record packet_filter_t =
  pf_direction :: u8
  pf_protocol :: u8
  pf_remote_addr :: u32
  pf_remote_mask :: u32
  pf_local_port_low :: u16
  pf_local_port_high :: u16
  pf_remote_port_low :: u16
  pf_remote_port_high :: u16
  pf_match_all :: bool
  pf_precedence :: u8

record qos_flow_rule_t =
  fr_rule_id :: u8
  fr_qfi :: u8
  fr_precedence :: u8
  fr_filters :: "packet_filter_t list"
  fr_num_filters :: u8
  fr_default_rule :: bool

record qos_flow_t =
  qf_qfi :: u8
  qf_five_qi :: u8
  qf_state :: qos_flow_state
  qf_arp :: arp_t
  qf_gbr :: bit_rate_t
  qf_mbr :: bit_rate_t
  qf_current_rate :: bit_rate_t
  qf_bytes_sent :: u64
  qf_bytes_received :: u64
  qf_packets_dropped :: u64
  qf_drb_id :: u8
  qf_rule :: "qos_flow_rule_t option"
  qf_create_time :: int
  qf_last_activity :: int

record qos_flow_manager_t =
  qm_flows :: "qos_flow_t list"
  qm_default_qfi :: u8
  qm_next_rule_id :: u8
  qm_session_ambr :: bit_rate_t
  qm_session_bytes_sent :: u64
  qm_session_bytes_received :: u64

definition zero_rate :: bit_rate_t where "zero_rate = \<lparr>br_uplink = 0, br_downlink = 0\<rparr>"

text \<open>The table of the 5QI values with a guaranteed bit rate.\<close>

definition five_qi_profiles :: "(u8 \<times> bool) list" where
  "five_qi_profiles = [(1, True), (2, True), (3, True), (4, True), (5, False), (6, False), (7, False),
     (8, False), (9, False), (65, True), (66, True), (67, True), (68, True), (69, False), (70, False),
     (75, True), (76, True), (79, True), (80, False), (84, False), (85, False)]"

definition qos_flow_is_gbr :: "u8 \<Rightarrow> bool" where
  "qos_flow_is_gbr q = (case map_of five_qi_profiles q of None \<Rightarrow> False | Some b \<Rightarrow> b)"

definition new_qos_manager :: qos_flow_manager_t where
  "new_qos_manager = \<lparr>qm_flows = [], qm_default_qfi = 0, qm_next_rule_id = 1,
     qm_session_ambr = \<lparr>br_uplink = 100000, br_downlink = 200000\<rparr>, qm_session_bytes_sent = 0,
     qm_session_bytes_received = 0\<rparr>"

definition qos_flow_create_manager :: "os \<Rightarrow> bool \<Rightarrow> uesim_error + qos_flow_manager_t" where
  "qos_flow_create_manager s out =
     (if \<not> out then Inl UESIM_ERROR_INVALID_PARAM
      else if \<not> alloc_ok s 0 then Inl UESIM_ERROR_MEMORY
      else if \<not> init_ok s 0 then Inl UESIM_ERROR_THREAD
      else Inr new_qos_manager)"

definition qos_flow_destroy_manager :: "qos_flow_manager_t option \<Rightarrow> uesim_error \<times> qos_flow_manager_t option" where
  "qos_flow_destroy_manager p = (case p of
     None \<Rightarrow> (UESIM_ERROR_INVALID_PARAM, None) | Some m \<Rightarrow> (UESIM_SUCCESS, None))"

definition new_flow :: "int \<Rightarrow> u8 \<Rightarrow> u8 \<Rightarrow> arp_t option \<Rightarrow> bit_rate_t option \<Rightarrow> bit_rate_t option \<Rightarrow> qos_flow_t" where
  "new_flow now qfi five_qi arp gbr mbr = \<lparr>qf_qfi = qfi, qf_five_qi = five_qi,
     qf_state = QOS_FLOW_STATE_INACTIVE,
     qf_arp = (case arp of Some a \<Rightarrow> a
       | None \<Rightarrow> \<lparr>arp_priority_level = 8, arp_pre_emption_capability = False, arp_pre_emption_vulnerability = False\<rparr>),
     qf_gbr = (case gbr of Some r \<Rightarrow> r | None \<Rightarrow> zero_rate),
     qf_mbr = (case mbr of Some r \<Rightarrow> r | None \<Rightarrow> zero_rate),
     qf_current_rate = zero_rate, qf_bytes_sent = 0, qf_bytes_received = 0, qf_packets_dropped = 0,
     qf_drb_id = 0, qf_rule = None, qf_create_time = now, qf_last_activity = 0\<rparr>"

text \<open>The number of the new flow is one more than the number of the flows there are.\<close>

definition qos_flow_create ::
  "os \<Rightarrow> int \<Rightarrow> u8 \<Rightarrow> arp_t option \<Rightarrow> bit_rate_t option \<Rightarrow> bit_rate_t option \<Rightarrow> bool
    \<Rightarrow> qos_flow_manager_t option \<Rightarrow> (uesim_error + nat) \<times> qos_flow_manager_t option" where
  "qos_flow_create s now five_qi arp gbr mbr out p = with_obj p (\<lambda>m.
     if \<not> out then (Inl UESIM_ERROR_INVALID_PARAM, m)
     else if QOS_MAX_FLOWS_PER_SESSION \<le> length (qm_flows m) then (Inl UESIM_ERROR_CAPACITY, m)
     else if \<not> init_ok s 0 then (Inl UESIM_ERROR_THREAD, m)
     else let qfi = of_nat (length (qm_flows m)) + 1;
              d = (if qm_default_qfi m = 0 then qfi else qm_default_qfi m)
       in (Inr (length (qm_flows m)),
           m\<lparr>qm_flows := qm_flows m @ [new_flow now qfi five_qi arp gbr mbr], qm_default_qfi := d\<rparr>))"

definition qos_flow_find_by_qfi :: "u8 \<Rightarrow> qos_flow_manager_t option \<Rightarrow> nat option" where
  "qos_flow_find_by_qfi qfi p = (case p of None \<Rightarrow> None
   | Some m \<Rightarrow> find_index (\<lambda>f. qf_qfi f = qfi) (qm_flows m))"

definition qos_flow_find_default :: "qos_flow_manager_t option \<Rightarrow> nat option" where
  "qos_flow_find_default p = (case p of None \<Rightarrow> None | Some m \<Rightarrow> qos_flow_find_by_qfi (qm_default_qfi m) p)"

definition qos_flow_release :: "u8 \<Rightarrow> qos_flow_manager_t option \<Rightarrow> uesim_error \<times> qos_flow_manager_t option" where
  "qos_flow_release qfi p = with_ptr p (\<lambda>m. case qos_flow_find_by_qfi qfi p of
     None \<Rightarrow> (UESIM_ERROR_NOT_FOUND, m)
   | Some i \<Rightarrow> (UESIM_SUCCESS, m\<lparr>qm_flows := remove_at i (qm_flows m)\<rparr>))"

definition upd_flow :: "nat \<Rightarrow> (qos_flow_t \<Rightarrow> qos_flow_t) \<Rightarrow> qos_flow_manager_t \<Rightarrow> qos_flow_manager_t" where
  "upd_flow i f m = m\<lparr>qm_flows := (qm_flows m)[i := f (qm_flows m ! i)]\<rparr>"

definition qos_flow_activate :: "u8 \<Rightarrow> qos_flow_manager_t option \<Rightarrow> uesim_error \<times> qos_flow_manager_t option" where
  "qos_flow_activate qfi p = with_ptr p (\<lambda>m. case qos_flow_find_by_qfi qfi p of
     None \<Rightarrow> (UESIM_ERROR_NOT_FOUND, m)
   | Some i \<Rightarrow> (UESIM_SUCCESS, upd_flow i (\<lambda>f. f\<lparr>qf_state := QOS_FLOW_STATE_ACTIVE\<rparr>) m))"

definition qos_flow_set_session_ambr ::
  "u64 \<Rightarrow> u64 \<Rightarrow> qos_flow_manager_t option \<Rightarrow> uesim_error \<times> qos_flow_manager_t option" where
  "qos_flow_set_session_ambr ul dl p = with_ptr p (\<lambda>m. (UESIM_SUCCESS,
     m\<lparr>qm_session_ambr := \<lparr>br_uplink = ul, br_downlink = dl\<rparr>\<rparr>))"

definition qos_flow_update_session_stats ::
  "u64 \<Rightarrow> u64 \<Rightarrow> qos_flow_manager_t option \<Rightarrow> uesim_error \<times> qos_flow_manager_t option" where
  "qos_flow_update_session_stats sent recv p = with_ptr p (\<lambda>m. (UESIM_SUCCESS,
     m\<lparr>qm_session_bytes_sent := qm_session_bytes_sent m + sent,
       qm_session_bytes_received := qm_session_bytes_received m + recv\<rparr>))"

definition qos_flow_bind_to_drb :: "u8 \<Rightarrow> qos_flow_t option \<Rightarrow> uesim_error \<times> qos_flow_t option" where
  "qos_flow_bind_to_drb d p = with_ptr p (\<lambda>f. (UESIM_SUCCESS, f\<lparr>qf_drb_id := d\<rparr>))"

definition qos_flow_get_drb_id :: "qos_flow_t option \<Rightarrow> u8" where
  "qos_flow_get_drb_id p = (case p of None \<Rightarrow> 0 | Some f \<Rightarrow> qf_drb_id f)"

text \<open>The module keeps one manager of its own with a default flow.\<close>

record qos_globals =
  g_qos_initialized :: bool
  g_default_manager :: "qos_flow_manager_t option"

definition qos_flow_init :: "os \<Rightarrow> int \<Rightarrow> qos_globals \<Rightarrow> uesim_error \<times> qos_globals" where
  "qos_flow_init s now g =
     (if g_qos_initialized g then (UESIM_SUCCESS, g)
      else case qos_flow_create_manager s True of
        Inl r \<Rightarrow> (r, g)
      | Inr m \<Rightarrow> (case qos_flow_create (after_inits 1 s) now QOS_DEFAULT_5QI
             (Some \<lparr>arp_priority_level = 8, arp_pre_emption_capability = False, arp_pre_emption_vulnerability = True\<rparr>)
             None None True (Some m) of
          (Inl r, m') \<Rightarrow> (r, g\<lparr>g_default_manager := None\<rparr>)
        | (Inr i, m') \<Rightarrow> (UESIM_SUCCESS, g\<lparr>g_qos_initialized := True,
            g_default_manager := (case m' of None \<Rightarrow> None
              | Some x \<Rightarrow> snd (qos_flow_activate (qf_qfi (qm_flows x ! i)) m'))\<rparr>)))"

definition qos_flow_cleanup :: "qos_globals \<Rightarrow> qos_globals" where
  "qos_flow_cleanup g = (if \<not> g_qos_initialized g then g
     else g\<lparr>g_default_manager := None, g_qos_initialized := False\<rparr>)"

section \<open>PDU sessions\<close>

definition PDU_MAX_SESSIONS_PER_UE :: nat where "PDU_MAX_SESSIONS_PER_UE = 16"
definition PDU_MAX_DRBS :: nat where "PDU_MAX_DRBS = 8"

datatype pdu_session_type =
    PDU_SESSION_TYPE_NONE | PDU_SESSION_TYPE_IPV4 | PDU_SESSION_TYPE_IPV6 | PDU_SESSION_TYPE_IPV4V6
  | PDU_SESSION_TYPE_ETHERNET

datatype ssc_mode = SSC_MODE_NONE | SSC_MODE_1 | SSC_MODE_2 | SSC_MODE_3

datatype pdu_session_state =
    PDU_SESSION_STATE_INACTIVE | PDU_SESSION_STATE_CREATING | PDU_SESSION_STATE_ACTIVE
  | PDU_SESSION_STATE_MODIFYING | PDU_SESSION_STATE_RELEASING | PDU_SESSION_STATE_SUSPENDED

datatype selection_mode = SELECTION_MODE_UE | SELECTION_MODE_NETWORK | SELECTION_MODE_UE_V4_V6

record snssai_t =
  sn_sst :: u8
  sn_sd :: "u8 list"
  sn_sd_len :: u8

record pdu_address_t =
  pa_type :: pdu_session_type
  pa_ipv4_addr :: u32
  pa_ipv6_addr :: "u8 list"
  pa_ipv6_prefix_len :: u8
  pa_ethernet_addr :: "u8 list"

record pdu_session_config_t =
  pg_session_type :: pdu_session_type
  pg_ssc_mode :: ssc_mode
  pg_selection_mode :: selection_mode
  pg_snssai :: snssai_t
  pg_pdu_address :: pdu_address_t
  pg_session_ambr_ul :: u64
  pg_session_ambr_dl :: u64
  pg_always_on_requested :: bool
  pg_always_on_granted :: bool
  pg_dns_servers :: "u32 list"
  pg_num_dns_servers :: u8

record pdu_session_stats_t =
  pt_ul_packets :: u64
  pt_dl_packets :: u64
  pt_ul_bytes :: u64
  pt_dl_bytes :: u64
  pt_ul_dropped :: u64
  pt_dl_dropped :: u64
  pt_last_ul_activity :: int
  pt_last_dl_activity :: int

record pdu_session_t =
  ps_session_id :: u8
  ps_state :: pdu_session_state
  ps_config :: pdu_session_config_t
  ps_qos_manager :: "qos_flow_manager_t option"
  ps_default_qfi :: u8
  ps_drb_ids :: "u8 list"
  ps_stats :: pdu_session_stats_t
  ps_create_time :: int
  ps_last_activity :: int
  ps_modify_time :: int
  ps_transaction_id :: u8
  ps_procedure_transaction_id :: u8

record pdu_session_manager_t =
  pm_sessions :: "pdu_session_t list"
  pm_next_session_id :: u8
  pm_default_session_type :: pdu_session_type
  pm_default_ssc_mode :: ssc_mode
  pm_default_snssai :: snssai_t

definition zero_session_stats :: pdu_session_stats_t where
  "zero_session_stats = \<lparr>pt_ul_packets = 0, pt_dl_packets = 0, pt_ul_bytes = 0, pt_dl_bytes = 0,
     pt_ul_dropped = 0, pt_dl_dropped = 0, pt_last_ul_activity = 0, pt_last_dl_activity = 0\<rparr>"

definition new_session_manager :: pdu_session_manager_t where
  "new_session_manager = \<lparr>pm_sessions = [], pm_next_session_id = 1,
     pm_default_session_type = PDU_SESSION_TYPE_IPV4, pm_default_ssc_mode = SSC_MODE_1,
     pm_default_snssai = \<lparr>sn_sst = 1, sn_sd = replicate 8 0, sn_sd_len = 0\<rparr>\<rparr>"

text \<open>The flag of the module is set and cleared, and never read by another function.\<close>

definition pdu_session_init :: "bool \<Rightarrow> uesim_error \<times> bool" where
  "pdu_session_init g = (UESIM_SUCCESS, True)"

definition pdu_session_cleanup :: "bool \<Rightarrow> bool" where
  "pdu_session_cleanup g = False"

definition pdu_session_create_manager :: "os \<Rightarrow> bool \<Rightarrow> uesim_error + pdu_session_manager_t" where
  "pdu_session_create_manager s out =
     (if \<not> out then Inl UESIM_ERROR_INVALID_PARAM
      else if \<not> alloc_ok s 0 then Inl UESIM_ERROR_MEMORY
      else if \<not> init_ok s 0 then Inl UESIM_ERROR_THREAD
      else Inr new_session_manager)"

definition pdu_session_destroy_manager ::
  "pdu_session_manager_t option \<Rightarrow> uesim_error \<times> pdu_session_manager_t option" where
  "pdu_session_destroy_manager p = (case p of
     None \<Rightarrow> (UESIM_ERROR_INVALID_PARAM, None) | Some m \<Rightarrow> (UESIM_SUCCESS, None))"

text \<open>The identity is taken from a counter of eight bits; above 15 it is 1.\<close>

definition session_id_of :: "u8 \<Rightarrow> u8" where
  "session_id_of next = (if 15 < next then 1 else next)"

definition new_session ::
  "int \<Rightarrow> u8 \<Rightarrow> pdu_session_type \<Rightarrow> ssc_mode \<Rightarrow> snssai_t \<Rightarrow> qos_flow_manager_t option \<Rightarrow> u8 \<Rightarrow> pdu_session_t" where
  "new_session now i ty md sl qm d = \<lparr>ps_session_id = i, ps_state = PDU_SESSION_STATE_CREATING,
     ps_config = \<lparr>pg_session_type = ty, pg_ssc_mode = md, pg_selection_mode = SELECTION_MODE_UE,
       pg_snssai = sl,
       pg_pdu_address = \<lparr>pa_type = PDU_SESSION_TYPE_NONE, pa_ipv4_addr = 0, pa_ipv6_addr = replicate 16 0,
         pa_ipv6_prefix_len = 0, pa_ethernet_addr = replicate 6 0\<rparr>,
       pg_session_ambr_ul = 100000, pg_session_ambr_dl = 200000, pg_always_on_requested = False,
       pg_always_on_granted = False, pg_dns_servers = [0, 0], pg_num_dns_servers = 0\<rparr>,
     ps_qos_manager = qm, ps_default_qfi = d, ps_drb_ids = [], ps_stats = zero_session_stats,
     ps_create_time = now, ps_last_activity = 0, ps_modify_time = 0, ps_transaction_id = 0,
     ps_procedure_transaction_id = 0\<rparr>"

text \<open>
  Initialisation 0 is the mutex of the QoS manager, 1 that of its default flow, 2 that of the session.
  The counter of the identities moves on before any of them. The result is the index of the session.
\<close>

definition pdu_session_create ::
  "os \<Rightarrow> int \<Rightarrow> pdu_session_type \<Rightarrow> ssc_mode \<Rightarrow> snssai_t option \<Rightarrow> bool
    \<Rightarrow> pdu_session_manager_t option \<Rightarrow> (uesim_error + nat) \<times> pdu_session_manager_t option" where
  "pdu_session_create s now ty md sl out p = with_obj p (\<lambda>m.
     if \<not> out then (Inl UESIM_ERROR_INVALID_PARAM, m)
     else if PDU_MAX_SESSIONS_PER_UE \<le> length (pm_sessions m) then (Inl UESIM_ERROR_CAPACITY, m)
     else let i = session_id_of (pm_next_session_id m);
              m = m\<lparr>pm_next_session_id := pm_next_session_id m + 1\<rparr>;
              sl = (case sl of Some x \<Rightarrow> x | None \<Rightarrow> pm_default_snssai m)
       in case qos_flow_create_manager s True of
         Inl r \<Rightarrow> (Inl r, m)
       | Inr q \<Rightarrow>
           let (qm, d) = (case qos_flow_create (after_inits 1 s) now 9
                  (Some \<lparr>arp_priority_level = 8, arp_pre_emption_capability = False, arp_pre_emption_vulnerability = False\<rparr>)
                  None None True (Some q) of
                (Inr j, Some q') \<Rightarrow>
                  (let d = qf_qfi (qm_flows q' ! j) in (snd (qos_flow_activate d (Some q')), d))
              | (_, q') \<Rightarrow> (q', 0))
           in if \<not> init_ok s 2 then (Inl UESIM_ERROR_THREAD, m)
              else (Inr (length (pm_sessions m)),
                    m\<lparr>pm_sessions := pm_sessions m @ [new_session now i ty md sl qm d]\<rparr>))"

definition pdu_session_find_by_id :: "u8 \<Rightarrow> pdu_session_manager_t option \<Rightarrow> nat option" where
  "pdu_session_find_by_id i p = (case p of None \<Rightarrow> None
   | Some m \<Rightarrow> find_index (\<lambda>x. ps_session_id x = i) (pm_sessions m))"

definition pdu_session_release ::
  "u8 \<Rightarrow> pdu_session_manager_t option \<Rightarrow> uesim_error \<times> pdu_session_manager_t option" where
  "pdu_session_release i p = with_ptr p (\<lambda>m. case pdu_session_find_by_id i p of
     None \<Rightarrow> (UESIM_ERROR_NOT_FOUND, m)
   | Some k \<Rightarrow> (UESIM_SUCCESS, m\<lparr>pm_sessions := remove_at k (pm_sessions m)\<rparr>))"

text \<open>An operation on the session with an identity.\<close>

definition on_session ::
  "u8 \<Rightarrow> (pdu_session_t \<Rightarrow> pdu_session_t) \<Rightarrow> pdu_session_manager_t option
    \<Rightarrow> uesim_error \<times> pdu_session_manager_t option" where
  "on_session i f p = with_ptr p (\<lambda>m. case pdu_session_find_by_id i p of
     None \<Rightarrow> (UESIM_ERROR_NOT_FOUND, m)
   | Some k \<Rightarrow> (UESIM_SUCCESS, m\<lparr>pm_sessions := (pm_sessions m)[k := f (pm_sessions m ! k)]\<rparr>))"

definition pdu_session_modify ::
  "int \<Rightarrow> u8 \<Rightarrow> pdu_session_config_t option \<Rightarrow> pdu_session_manager_t option
    \<Rightarrow> uesim_error \<times> pdu_session_manager_t option" where
  "pdu_session_modify now i cfg p = (case cfg of
     None \<Rightarrow> (UESIM_ERROR_INVALID_PARAM, p)
   | Some c \<Rightarrow> on_session i (\<lambda>x.
       let g = ps_config x;
           g = (if 0 < pg_session_ambr_ul c then g\<lparr>pg_session_ambr_ul := pg_session_ambr_ul c\<rparr> else g);
           g = (if 0 < pg_session_ambr_dl c then g\<lparr>pg_session_ambr_dl := pg_session_ambr_dl c\<rparr> else g)
       in x\<lparr>ps_config := g, ps_modify_time := now, ps_state := PDU_SESSION_STATE_ACTIVE\<rparr>) p)"

definition pdu_session_activate ::
  "u8 \<Rightarrow> pdu_session_manager_t option \<Rightarrow> uesim_error \<times> pdu_session_manager_t option" where
  "pdu_session_activate i = on_session i (\<lambda>x. x\<lparr>ps_state := PDU_SESSION_STATE_ACTIVE\<rparr>)"

definition pdu_session_suspend ::
  "u8 \<Rightarrow> pdu_session_manager_t option \<Rightarrow> uesim_error \<times> pdu_session_manager_t option" where
  "pdu_session_suspend i = on_session i (\<lambda>x. x\<lparr>ps_state := PDU_SESSION_STATE_SUSPENDED\<rparr>)"

definition pdu_session_resume ::
  "u8 \<Rightarrow> pdu_session_manager_t option \<Rightarrow> uesim_error \<times> pdu_session_manager_t option" where
  "pdu_session_resume i = on_session i (\<lambda>x. x\<lparr>ps_state := PDU_SESSION_STATE_ACTIVE\<rparr>)"

definition pdu_session_find_by_drb :: "u8 \<Rightarrow> pdu_session_manager_t option \<Rightarrow> nat option" where
  "pdu_session_find_by_drb d p = (case p of None \<Rightarrow> None
   | Some m \<Rightarrow> find_index (\<lambda>x. d \<in> set (ps_drb_ids x)) (pm_sessions m))"

definition pdu_session_find_default :: "pdu_session_manager_t option \<Rightarrow> nat option" where
  "pdu_session_find_default p = (case p of None \<Rightarrow> None
   | Some m \<Rightarrow> if pm_sessions m = [] then None else Some 0)"

text \<open>Operations on a session: its flows, its bearers, its addresses and its statistics.\<close>

definition pdu_session_add_qos_flow ::
  "os \<Rightarrow> int \<Rightarrow> u8 \<Rightarrow> arp_t option \<Rightarrow> bit_rate_t option \<Rightarrow> bit_rate_t option \<Rightarrow> bool \<Rightarrow> pdu_session_t option
    \<Rightarrow> (uesim_error + u8) \<times> pdu_session_t option" where
  "pdu_session_add_qos_flow s now five_qi arp gbr mbr out p = with_obj p (\<lambda>x.
     if ps_qos_manager x = None \<or> \<not> out then (Inl UESIM_ERROR_INVALID_PARAM, x)
     else case qos_flow_create s now five_qi arp gbr mbr True (ps_qos_manager x) of
       (Inr j, Some q) \<Rightarrow> (let d = qf_qfi (qm_flows q ! j) in
         (Inr d, x\<lparr>ps_qos_manager := snd (qos_flow_activate d (Some q))\<rparr>))
     | (Inr j, None) \<Rightarrow> (Inl UESIM_ERROR_INVALID_PARAM, x)
     | (Inl r, q) \<Rightarrow> (Inl r, x\<lparr>ps_qos_manager := q\<rparr>))"

definition pdu_session_remove_qos_flow :: "u8 \<Rightarrow> pdu_session_t option \<Rightarrow> uesim_error \<times> pdu_session_t option" where
  "pdu_session_remove_qos_flow qfi p = with_ptr p (\<lambda>x.
     case qos_flow_release qfi (ps_qos_manager x) of (r, q) \<Rightarrow> (r, x\<lparr>ps_qos_manager := q\<rparr>))"

definition pdu_session_get_qos_flow :: "u8 \<Rightarrow> pdu_session_t option \<Rightarrow> nat option" where
  "pdu_session_get_qos_flow qfi p = (case p of None \<Rightarrow> None
   | Some x \<Rightarrow> qos_flow_find_by_qfi qfi (ps_qos_manager x))"

definition pdu_session_set_default_qos_flow :: "u8 \<Rightarrow> pdu_session_t option \<Rightarrow> uesim_error \<times> pdu_session_t option" where
  "pdu_session_set_default_qos_flow qfi p = with_ptr p (\<lambda>x.
     case qos_flow_find_by_qfi qfi (ps_qos_manager x) of
       None \<Rightarrow> (UESIM_ERROR_NOT_FOUND, x) | Some i \<Rightarrow> (UESIM_SUCCESS, x\<lparr>ps_default_qfi := qfi\<rparr>))"

definition pdu_session_bind_drb :: "u8 \<Rightarrow> pdu_session_t option \<Rightarrow> uesim_error \<times> pdu_session_t option" where
  "pdu_session_bind_drb d p = with_ptr p (\<lambda>x.
     if PDU_MAX_DRBS \<le> length (ps_drb_ids x) then (UESIM_ERROR_CAPACITY, x)
     else if d \<in> set (ps_drb_ids x) then (UESIM_ERROR_ALREADY_EXISTS, x)
     else (UESIM_SUCCESS, x\<lparr>ps_drb_ids := ps_drb_ids x @ [d]\<rparr>))"

definition pdu_session_unbind_drb :: "u8 \<Rightarrow> pdu_session_t option \<Rightarrow> uesim_error \<times> pdu_session_t option" where
  "pdu_session_unbind_drb d p = with_ptr p (\<lambda>x. case find_index (\<lambda>b. b = d) (ps_drb_ids x) of
     None \<Rightarrow> (UESIM_ERROR_NOT_FOUND, x)
   | Some i \<Rightarrow> (UESIM_SUCCESS, x\<lparr>ps_drb_ids := remove_at i (ps_drb_ids x)\<rparr>))"

definition pdu_session_get_drb_for_qos :: "u8 \<Rightarrow> pdu_session_t option \<Rightarrow> u8" where
  "pdu_session_get_drb_for_qos qfi p = (case p of None \<Rightarrow> 0
   | Some x \<Rightarrow>
       let first = (case ps_drb_ids x of [] \<Rightarrow> 0 | d # ds \<Rightarrow> d) in
       case (ps_qos_manager x, qos_flow_find_by_qfi qfi (ps_qos_manager x)) of
         (Some q, Some i) \<Rightarrow> if 0 < qf_drb_id (qm_flows q ! i) then qf_drb_id (qm_flows q ! i) else first
       | _ \<Rightarrow> first)"

definition upd_address :: "(pdu_address_t \<Rightarrow> pdu_address_t) \<Rightarrow> pdu_session_t \<Rightarrow> pdu_session_t" where
  "upd_address f x = x\<lparr>ps_config := (ps_config x)\<lparr>pg_pdu_address := f (pg_pdu_address (ps_config x))\<rparr>\<rparr>"

definition pdu_session_set_ipv4_address :: "u32 \<Rightarrow> pdu_session_t option \<Rightarrow> uesim_error \<times> pdu_session_t option" where
  "pdu_session_set_ipv4_address a p = with_ptr p (\<lambda>x. (UESIM_SUCCESS,
     upd_address (\<lambda>d. d\<lparr>pa_ipv4_addr := a, pa_type := PDU_SESSION_TYPE_IPV4\<rparr>) x))"

text \<open>Sixteen octets are copied; fewer are read outside.\<close>

definition pdu_session_set_ipv6_address ::
  "u8 list option \<Rightarrow> u8 \<Rightarrow> pdu_session_t option \<Rightarrow> (uesim_error \<times> pdu_session_t option) option" where
  "pdu_session_set_ipv6_address a n p = (case (p, a) of
     (Some x, Some bs) \<Rightarrow> if length bs < 16 then None
       else Some (UESIM_SUCCESS, Some (upd_address (\<lambda>d. d\<lparr>pa_ipv6_addr := take 16 bs,
              pa_ipv6_prefix_len := n, pa_type := PDU_SESSION_TYPE_IPV6\<rparr>) x))
   | _ \<Rightarrow> Some (UESIM_ERROR_INVALID_PARAM, p))"

definition pdu_session_set_ambr :: "u64 \<Rightarrow> u64 \<Rightarrow> pdu_session_t option \<Rightarrow> uesim_error \<times> pdu_session_t option" where
  "pdu_session_set_ambr ul dl p = with_ptr p (\<lambda>x. (UESIM_SUCCESS,
     x\<lparr>ps_config := (ps_config x)\<lparr>pg_session_ambr_ul := ul, pg_session_ambr_dl := dl\<rparr>,
       ps_qos_manager := snd (qos_flow_set_session_ambr ul dl (ps_qos_manager x))\<rparr>))"

definition pdu_session_update_stats ::
  "int \<Rightarrow> u64 \<Rightarrow> u64 \<Rightarrow> u64 \<Rightarrow> u64 \<Rightarrow> pdu_session_t option \<Rightarrow> uesim_error \<times> pdu_session_t option" where
  "pdu_session_update_stats now ulb dlb ulp dlp p = with_ptr p (\<lambda>x. (UESIM_SUCCESS,
     let t = ps_stats x;
         t = t\<lparr>pt_ul_bytes := pt_ul_bytes t + ulb, pt_dl_bytes := pt_dl_bytes t + dlb,
               pt_ul_packets := pt_ul_packets t + ulp, pt_dl_packets := pt_dl_packets t + dlp\<rparr>;
         t = (if 0 < ulb then t\<lparr>pt_last_ul_activity := now\<rparr> else t);
         t = (if 0 < dlb then t\<lparr>pt_last_dl_activity := now\<rparr> else t)
     in x\<lparr>ps_stats := t, ps_last_activity := now\<rparr>))"

definition pdu_session_reset_stats :: "pdu_session_t option \<Rightarrow> pdu_session_t option" where
  "pdu_session_reset_stats p = map_option (\<lambda>x. x\<lparr>ps_stats := zero_session_stats\<rparr>) p"

end
