(* ===== verification/Session_Proofs.thy ===== *)
theory Session_Proofs
  imports Session
begin

text \<open>
  How far the numbers of QoS flows and PDU sessions identify them: up to the first release of a flow,
  and up to the fifteenth session.
\<close>

section \<open>Flow numbers\<close>

definition numbered :: "nat \<Rightarrow> qos_flow_manager_t \<Rightarrow> bool" where
  "numbered n m \<longleftrightarrow> length (qm_flows m) = n \<and> (\<forall>i < n. qf_qfi (qm_flows m ! i) = of_nat i + 1)"

lemma new_numbered: "numbered 0 new_qos_manager"
  by (simp add: numbered_def new_qos_manager_def)

lemma create_numbered:
  assumes "numbered n m" and "n < 8"
  obtains m' where "qos_flow_create good_os now q arp gbr mbr True (Some m) = (Inr n, Some m')"
    and "numbered (Suc n) m'"
  using assms
  by (auto simp: qos_flow_create_def numbered_def QOS_MAX_FLOWS_PER_SESSION_def new_flow_def nth_append less_Suc_eq Let_def)

lemma small_u8: "i < 256 \<Longrightarrow> j < 256 \<Longrightarrow> (of_nat i :: u8) = of_nat j \<longleftrightarrow> i = j"
  by (simp add: word_unat_eq_iff unat_of_nat)

text \<open>
  Among flows that are numbered by their creations, a lookup finds each by its number.
  Once a flow before the last is released, the next flow gets the number of the last one: the
  lookup keeps finding the old flow, so activating the new one by its number leaves it inactive.
\<close>

theorem qfi_reused:
  assumes "numbered n m" and "n \<le> 8" and "1 \<le> i" and "i < n"
  shows "qos_flow_find_by_qfi (of_nat i) (Some m) = Some (i - 1)
    \<and> (\<exists>m' m''. qos_flow_release (of_nat i) (Some m) = (UESIM_SUCCESS, Some m')
        \<and> qos_flow_create good_os now q arp gbr mbr True (Some m') = (Inr (n - 1), Some m'')
        \<and> qf_qfi (qm_flows m'' ! (n - 1)) = of_nat n
        \<and> qos_flow_find_by_qfi (of_nat n) (Some m'') = Some (n - 2)
        \<and> (\<exists>m3. qos_flow_activate (of_nat n) (Some m'') = (UESIM_SUCCESS, Some m3)
             \<and> qf_state (qm_flows m3 ! (n - 1)) = QOS_FLOW_STATE_INACTIVE))"
proof -
  have len: "length (qm_flows m) = n" and num: "\<And>k. k < n \<Longrightarrow> qf_qfi (qm_flows m ! k) = of_nat (Suc k)"
    using assms(1) by (simp_all add: numbered_def add.commute)
  have find: "find_index (\<lambda>f. qf_qfi f = of_nat i) (qm_flows m) = Some (i - 1)"
    using assms len by (intro find_indexI) (auto simp: num small_u8 simp del: of_nat_Suc)
  let ?m' = "m\<lparr>qm_flows := remove_at (i - 1) (qm_flows m)\<rparr>"
  have rel: "qos_flow_release (of_nat i) (Some m) = (UESIM_SUCCESS, Some ?m')"
    using find by (simp add: qos_flow_release_def qos_flow_find_by_qfi_def)
  have len': "length (qm_flows ?m') = n - 1" using len assms by (simp add: length_remove_at)
  let ?f = "new_flow now (of_nat n) q arp gbr mbr"
  define m'' where "m'' = ?m'\<lparr>qm_flows := qm_flows ?m' @ [?f],
    qm_default_qfi := (if qm_default_qfi m = 0 then of_nat n else qm_default_qfi m)\<rparr>"
  have nn: "of_nat (n - 1) + 1 = (of_nat n :: u8)" using assms by (cases n) simp_all
  have cre: "qos_flow_create good_os now q arp gbr mbr True (Some ?m') = (Inr (n - 1), Some m'')"
    using len' assms nn by (simp add: qos_flow_create_def QOS_MAX_FLOWS_PER_SESSION_def m''_def Let_def)
  have last: "qm_flows m'' ! (n - 1) = ?f"
    using len' by (simp add: m''_def nth_append)
  have at: "qf_qfi (qm_flows m'' ! k) = of_nat (if k < i - 1 then Suc k else Suc (Suc k))" if "k < n - 1" for k
    using that len' len assms by (auto simp: m''_def nth_append nth_remove_at num simp del: of_nat_Suc)
  have find': "find_index (\<lambda>f. qf_qfi f = of_nat n) (qm_flows m'') = Some (n - 2)"
  proof (rule find_indexI)
    show "n - 2 < length (qm_flows m'')" using len' assms by (simp add: m''_def)
    show "qf_qfi (qm_flows m'' ! (n - 2)) = of_nat n"
      using assms by (subst at) (auto simp: Suc_diff_Suc numeral_2_eq_2 simp del: of_nat_Suc)
    show "\<not> qf_qfi (qm_flows m'' ! j) = of_nat n" if "j < n - 2" for j
      using that assms by (subst at) (auto simp: small_u8 simp del: of_nat_Suc)
  qed
  let ?m3 = "upd_flow (n - 2) (\<lambda>f. f\<lparr>qf_state := QOS_FLOW_STATE_ACTIVE\<rparr>) m''"
  have act: "qos_flow_activate (of_nat n) (Some m'') = (UESIM_SUCCESS, Some ?m3)"
    "qf_state (qm_flows ?m3 ! (n - 1)) = QOS_FLOW_STATE_INACTIVE"
    using find' assms last
    by (auto simp: qos_flow_activate_def qos_flow_find_by_qfi_def upd_flow_def new_flow_def nth_list_update)
  have "qf_qfi (qm_flows m'' ! (n - 1)) = of_nat n" using last by (simp add: new_flow_def)
  then show ?thesis
    using find rel cre find' act by (auto simp: qos_flow_find_by_qfi_def)
qed

lemma qfi_reused_witness:
  "\<exists>m m' m'' m3. numbered 3 m
     \<and> qos_flow_release 1 (Some m) = (UESIM_SUCCESS, Some m')
     \<and> qos_flow_create good_os 0 9 None None None True (Some m') = (Inr 2, Some m'')
     \<and> qf_qfi (qm_flows m'' ! 2) = 3 \<and> qos_flow_find_by_qfi 3 (Some m'') = Some 1
     \<and> qos_flow_activate 3 (Some m'') = (UESIM_SUCCESS, Some m3)
     \<and> qf_state (qm_flows m3 ! 2) = QOS_FLOW_STATE_INACTIVE"
proof -
  obtain m1 where m1: "numbered (Suc 0) m1" by (rule create_numbered [OF new_numbered]) simp_all
  obtain m2 where m2: "numbered (Suc (Suc 0)) m2" by (rule create_numbered [OF m1]) simp_all
  obtain m where m: "numbered 3 m" unfolding numeral_3_eq_3 by (rule create_numbered [OF m2]) simp_all
  from qfi_reused [OF m, where i = 1 and now = 0 and q = 9 and arp = None and gbr = None and mbr = None]
  obtain m' m'' m3 where "qos_flow_release 1 (Some m) = (UESIM_SUCCESS, Some m')"
    and "qos_flow_create good_os 0 9 None None None True (Some m') = (Inr 2, Some m'')"
    and "qf_qfi (qm_flows m'' ! 2) = 3" and "qos_flow_find_by_qfi 3 (Some m'') = Some 1"
    and "qos_flow_activate 3 (Some m'') = (UESIM_SUCCESS, Some m3)"
    and "qf_state (qm_flows m3 ! 2) = QOS_FLOW_STATE_INACTIVE"
    by auto
  with m show ?thesis by blast
qed

section \<open>Session identities\<close>

datatype session_op =
    Create os int pdu_session_type ssc_mode "snssai_t option"
  | Release u8
  | Modify int u8 pdu_session_config_t
  | Activate u8
  | Suspend u8
  | Resume u8

definition session_step :: "session_op \<Rightarrow> pdu_session_manager_t option \<Rightarrow> pdu_session_manager_t option" where
  "session_step op p = (case op of
     Create s now ty md sl \<Rightarrow> snd (pdu_session_create s now ty md sl True p)
   | Release i \<Rightarrow> snd (pdu_session_release i p)
   | Modify now i c \<Rightarrow> snd (pdu_session_modify now i (Some c) p)
   | Activate i \<Rightarrow> snd (pdu_session_activate i p)
   | Suspend i \<Rightarrow> snd (pdu_session_suspend i p)
   | Resume i \<Rightarrow> snd (pdu_session_resume i p))"

definition is_create :: "session_op \<Rightarrow> bool" where
  "is_create op = (case op of Create s now ty md sl \<Rightarrow> True | _ \<Rightarrow> False)"

definition ids_fresh :: "nat \<Rightarrow> pdu_session_manager_t \<Rightarrow> bool" where
  "ids_fresh n m \<longleftrightarrow> unat (pm_next_session_id m) \<le> n + 1 \<and> pm_next_session_id m \<noteq> 0
     \<and> distinct (map ps_session_id (pm_sessions m))
     \<and> (\<forall>x \<in> set (pm_sessions m). 0 < ps_session_id x \<and> ps_session_id x < pm_next_session_id m)"

lemma ids_fresh_mono: "ids_fresh n m \<Longrightarrow> n \<le> k \<Longrightarrow> ids_fresh k m"
  by (auto simp: ids_fresh_def)

text \<open>Either nothing was created and only the counter may have moved, or the session was appended.\<close>

lemma new_session_id [simp]: "ps_session_id (new_session now i ty md sl qm d) = i"
  by (simp add: new_session_def)

lemma create_cases:
  assumes "pdu_session_create s now ty md sl True (Some m) = (r, p)"
  shows "p = Some m \<or> p = Some (m\<lparr>pm_next_session_id := pm_next_session_id m + 1\<rparr>)
    \<or> (\<exists>x. ps_session_id x = session_id_of (pm_next_session_id m) \<and>
        p = Some (m\<lparr>pm_next_session_id := pm_next_session_id m + 1, pm_sessions := pm_sessions m @ [x]\<rparr>))"
proof -
  let ?m = "m\<lparr>pm_next_session_id := pm_next_session_id m + 1\<rparr>"
  have "p = Some m \<or> p = Some ?m \<or> (\<exists>sl qm d. p = Some (?m\<lparr>pm_sessions := pm_sessions m @
      [new_session now (session_id_of (pm_next_session_id m)) ty md sl qm d]\<rparr>))"
    using assms
    by (auto simp: pdu_session_create_def Let_def split: if_splits sum.splits prod.splits)
  then show ?thesis by (elim disjE exE) (auto intro!: exI)
qed

lemma remove_fresh: "ids_fresh n m \<Longrightarrow> ids_fresh n (m\<lparr>pm_sessions := remove_at k (pm_sessions m)\<rparr>)"
  using set_remove_at [of k "pm_sessions m"]
  by (auto simp: ids_fresh_def map_remove_at distinct_remove_at)

lemma on_session_fresh:
  assumes "ids_fresh n m" and "\<And>x. ps_session_id (f x) = ps_session_id x"
  shows "\<exists>m'. snd (on_session i f (Some m)) = Some m' \<and> ids_fresh n m'"
proof (cases "pdu_session_find_by_id i (Some m)")
  case None
  with assms show ?thesis by (auto simp: on_session_def)
next
  case (Some k)
  then have k: "k < length (pm_sessions m)"
    by (auto simp: pdu_session_find_by_id_def dest: find_index_SomeD)
  let ?xs = "(pm_sessions m)[k := f (pm_sessions m ! k)]"
  have ids: "map ps_session_id ?xs = map ps_session_id (pm_sessions m)"
    using k by (simp add: map_update assms(2) list_update_same_conv)
  have "ps_session_id ` set ?xs = ps_session_id ` set (pm_sessions m)"
    using arg_cong [OF ids, of set] by simp
  then have "\<forall>x \<in> set ?xs. ps_session_id x \<in> ps_session_id ` set (pm_sessions m)" by blast
  then have "ids_fresh n (m\<lparr>pm_sessions := ?xs\<rparr>)"
    using assms(1) ids by (fastforce simp: ids_fresh_def)
  then show ?thesis using Some by (auto simp: on_session_def)
qed

lemma create_fresh:
  assumes "ids_fresh n m" and "n < 15" and "pdu_session_create s now ty md sl True (Some m) = (r, p)"
  shows "\<exists>m'. p = Some m' \<and> ids_fresh (Suc n) m'"
proof -
  let ?k = "pm_next_session_id m"
  have k: "unat ?k \<le> 15" "?k \<noteq> 0" using assms(1,2) by (auto simp: ids_fresh_def)
  then have suc: "unat (?k + 1) = unat ?k + 1" by (simp add: unat_word_ariths)
  then have lt: "x < ?k + 1 \<longleftrightarrow> x \<le> ?k" for x
    by (simp add: word_less_nat_alt word_le_nat_alt less_Suc_eq_le)
  have nz: "?k + 1 \<noteq> 0" using suc by (metis add_is_0 one_neq_zero unat_0)
  have id: "session_id_of ?k = ?k" using k by (simp add: session_id_of_def word_less_nat_alt)
  have base: "ids_fresh (Suc n) (m\<lparr>pm_next_session_id := ?k + 1\<rparr>)"
    using assms(1) suc nz lt by (auto simp: ids_fresh_def)
  show ?thesis
    using create_cases [OF assms(3)]
  proof (elim disjE exE conjE)
    assume "p = Some m"
    then show ?thesis using ids_fresh_mono [OF assms(1), of "Suc n"] by simp
  next
    assume "p = Some (m\<lparr>pm_next_session_id := ?k + 1\<rparr>)"
    then show ?thesis using base by simp
  next
    fix x assume x: "ps_session_id x = session_id_of ?k"
      and p: "p = Some (m\<lparr>pm_next_session_id := ?k + 1, pm_sessions := pm_sessions m @ [x]\<rparr>)"
    have "ids_fresh (Suc n) (m\<lparr>pm_next_session_id := ?k + 1, pm_sessions := pm_sessions m @ [x]\<rparr>)"
      using assms(1) base x id lt k(2) by (auto simp: ids_fresh_def word_gt_0)
    then show ?thesis using p by blast
  qed
qed

lemma step_fresh:
  assumes "ids_fresh n m" and "n < 15 \<or> \<not> is_create op"
  shows "\<exists>m'. session_step op (Some m) = Some m' \<and> ids_fresh (if is_create op then Suc n else n) m'"
proof (cases op)
  case (Create s now ty md sl)
  with assms show ?thesis
    using create_fresh [of n m s now ty md sl] by (auto simp: session_step_def is_create_def prod_eq_iff)
next
  case (Release i)
  then show ?thesis
    using assms remove_fresh
    by (auto simp: session_step_def is_create_def pdu_session_release_def split: option.splits)
next
  case (Modify now i c)
  have id: "ps_session_id (let g = ps_config x;
         g = (if 0 < pg_session_ambr_ul c then g\<lparr>pg_session_ambr_ul := pg_session_ambr_ul c\<rparr> else g);
         g = (if 0 < pg_session_ambr_dl c then g\<lparr>pg_session_ambr_dl := pg_session_ambr_dl c\<rparr> else g)
     in x\<lparr>ps_config := g, ps_modify_time := now, ps_state := PDU_SESSION_STATE_ACTIVE\<rparr>) = ps_session_id x" for x
    by (simp add: Let_def)
  show ?thesis
    using Modify on_session_fresh [OF assms(1) id, of i]
    by (simp add: session_step_def is_create_def pdu_session_modify_def)
next
  case (Activate i)
  then show ?thesis
    using on_session_fresh [OF assms(1), of "\<lambda>x. x\<lparr>ps_state := PDU_SESSION_STATE_ACTIVE\<rparr>" i]
    by (simp add: session_step_def is_create_def pdu_session_activate_def)
next
  case (Suspend i)
  then show ?thesis
    using on_session_fresh [OF assms(1), of "\<lambda>x. x\<lparr>ps_state := PDU_SESSION_STATE_SUSPENDED\<rparr>" i]
    by (simp add: session_step_def is_create_def pdu_session_suspend_def)
next
  case (Resume i)
  then show ?thesis
    using on_session_fresh [OF assms(1), of "\<lambda>x. x\<lparr>ps_state := PDU_SESSION_STATE_ACTIVE\<rparr>" i]
    by (simp add: session_step_def is_create_def pdu_session_resume_def)
qed

lemma run_fresh:
  "ids_fresh n m \<Longrightarrow> n + length (filter is_create ops) \<le> 15 \<Longrightarrow>
   \<exists>m' k. fold session_step ops (Some m) = Some m' \<and> ids_fresh k m'"
proof (induction ops arbitrary: n m)
  case (Cons op ops)
  have "n < 15 \<or> \<not> is_create op" using Cons.prems(2) by (auto split: if_splits)
  from step_fresh [OF Cons.prems(1) this] obtain m1 where
    "session_step op (Some m) = Some m1" and "ids_fresh (if is_create op then Suc n else n) m1" by blast
  with Cons.IH [of "if is_create op then Suc n else n" m1] Cons.prems(2) show ?case
    by (auto split: if_splits)
qed auto

lemma find_distinct:
  assumes "distinct (map ps_session_id (pm_sessions m))" and "k < length (pm_sessions m)"
  shows "pdu_session_find_by_id (ps_session_id (pm_sessions m ! k)) (Some m) = Some k"
  unfolding pdu_session_find_by_id_def
  using assms nth_eq_iff_index_eq [OF assms(1), of _ k]
  by (auto intro!: find_indexI)

text \<open>
  C17. A manager that was asked for at most fifteen sessions keeps their identities apart, whatever
  was released, modified, suspended and resumed in between and whichever creations failed: each lookup by
  identity finds its session, and every identity lies in 1 to 15.
\<close>

theorem pdu_session_ids:
  assumes "length (filter is_create ops) \<le> 15"
  shows "\<exists>m. fold session_step ops (Some new_session_manager) = Some m
    \<and> list_all (\<lambda>k. pdu_session_find_by_id (ps_session_id (pm_sessions m ! k)) (Some m) = Some k
         \<and> 1 \<le> ps_session_id (pm_sessions m ! k)) [0..<length (pm_sessions m)]
    \<and> distinct (map ps_session_id (pm_sessions m))"
proof -
  have "ids_fresh 0 new_session_manager" by (simp add: ids_fresh_def new_session_manager_def)
  from run_fresh [OF this, of ops] assms obtain m k where
    run: "fold session_step ops (Some new_session_manager) = Some m" and fresh: "ids_fresh k m" by auto
  have dist: "distinct (map ps_session_id (pm_sessions m))" using fresh by (simp add: ids_fresh_def)
  have "1 \<le> ps_session_id (pm_sessions m ! j)" if "j < length (pm_sessions m)" for j
    using fresh that by (auto simp: ids_fresh_def word_le_nat_alt word_less_nat_alt Suc_le_eq)
  then show ?thesis using run dist find_distinct [OF dist] by (auto simp: list_all_iff)
qed

lemma pdu_session_ids_witness:
  "\<exists>m. fold session_step (replicate 3 (Create good_os 0 PDU_SESSION_TYPE_IPV4 SSC_MODE_1 None) @ [Release 2])
       (Some new_session_manager) = Some m \<and> distinct (map ps_session_id (pm_sessions m))"
  using pdu_session_ids [of "replicate 3 (Create good_os 0 PDU_SESSION_TYPE_IPV4 SSC_MODE_1 None) @ [Release 2]"]
  by (auto simp: is_create_def)

text \<open>
  After fifteen, whether the sessions are still there or not, two further sessions both get the
  identity 1, and the lookup finds the older one.
\<close>

lemma pdu_session_ids_collide:
  "map ps_session_id (pm_sessions (the (fold session_step
     (concat (map (\<lambda>i. [Create good_os 0 PDU_SESSION_TYPE_IPV4 SSC_MODE_1 None, Release (of_nat i)]) [1..<16])
      @ replicate 2 (Create good_os 0 PDU_SESSION_TYPE_IPV4 SSC_MODE_1 None))
     (Some new_session_manager)))) = [1, 1]"
  by code_simp

end
