(* ===== verification/Slicing.thy ===== *)
theory Slicing
  imports Interfaces
begin

text \<open>
  Network slicing, \<^verbatim>\<open>src/nas/network_slicing.c\<close>: the lists of slices of the NAS context, the selection of
  a slice for a session, and the codec of slice identities. A list with a counter is the list of its
  first \<open>num\<close> places. Results in \<open>option\<close> are \<open>None\<close> where the code reads outside an array.
\<close>

section \<open>State\<close>

definition NAS_MAX_SNSSAI :: nat where "NAS_MAX_SNSSAI = 8"
definition NAS_MAX_PDU_SESSIONS :: nat where "NAS_MAX_PDU_SESSIONS = 16"
definition NAS_SST_EMBB :: u8 where "NAS_SST_EMBB = 1"
definition NAS_SST_HCI :: u8 where "NAS_SST_HCI = 5"

record nas_s_nssai_t =
  ns_sst :: u8
  ns_sd :: u32
  ns_sd_present :: bool
  ns_mapped_sst_present :: bool
  ns_mapped_sst :: u8
  ns_mapped_sd :: u32
  ns_mapped_sd_present :: bool

record nas_slice_subscription_t =
  sb_subscribed :: "nas_s_nssai_t list"
  sb_default :: nas_s_nssai_t
  sb_default_configured :: bool

record nas_network_slicing_t =
  nl_configured :: "nas_s_nssai_t list"
  nl_allowed :: "nas_s_nssai_t list"
  nl_requested :: "nas_s_nssai_t list"
  nl_rejected :: "nas_s_nssai_t list"
  nl_default_slice :: nas_s_nssai_t
  nl_enabled :: bool
  nl_default_configured :: bool

datatype nas_slice_select_result =
    NAS_SLICE_SELECT_SUCCESS | NAS_SLICE_SELECT_NOT_ALLOWED | NAS_SLICE_SELECT_NOT_SUBSCRIBED
  | NAS_SLICE_SELECT_REJECTED | NAS_SLICE_SELECT_NO_DEFAULT

record nas_pdu_session_slice_t =
  sx_pdu_session_id :: u8
  sx_s_nssai :: nas_s_nssai_t
  sx_associated :: bool

text \<open>The three fields of the NAS context that slicing works on.\<close>

record nas_slices =
  sc_slicing :: nas_network_slicing_t
  sc_subscription :: nas_slice_subscription_t
  sc_sessions :: "nas_pdu_session_slice_t list"

definition zero_slice :: nas_s_nssai_t where
  "zero_slice = \<lparr>ns_sst = 0, ns_sd = 0, ns_sd_present = False, ns_mapped_sst_present = False,
     ns_mapped_sst = 0, ns_mapped_sd = 0, ns_mapped_sd_present = False\<rparr>"

definition upd_slicing :: "(nas_network_slicing_t \<Rightarrow> nas_network_slicing_t) \<Rightarrow> nas_slices \<Rightarrow> nas_slices" where
  "upd_slicing f c = c\<lparr>sc_slicing := f (sc_slicing c)\<rparr>"

definition upd_subscription ::
  "(nas_slice_subscription_t \<Rightarrow> nas_slice_subscription_t) \<Rightarrow> nas_slices \<Rightarrow> nas_slices" where
  "upd_subscription f c = c\<lparr>sc_subscription := f (sc_subscription c)\<rparr>"

definition nas_slice_init :: "nas_slices option \<Rightarrow> uesim_error \<times> nas_slices option" where
  "nas_slice_init p = with_ptr p (\<lambda>c. (UESIM_SUCCESS,
     (upd_subscription (\<lambda>b. b\<lparr>sb_subscribed := [], sb_default_configured := False\<rparr>)
      (upd_slicing (\<lambda>n. n\<lparr>nl_enabled := True, nl_default_configured := False, nl_configured := [],
         nl_allowed := [], nl_requested := [], nl_rejected := []\<rparr>) c))
     \<lparr>sc_sessions := map (\<lambda>i. \<lparr>sx_pdu_session_id = of_nat i, sx_s_nssai = zero_slice, sx_associated = False\<rparr>)
         [0..<NAS_MAX_PDU_SESSIONS]\<rparr>))"

definition nas_slice_cleanup :: "nas_slices option \<Rightarrow> nas_slices option" where
  "nas_slice_cleanup p = map_option (\<lambda>c.
     (upd_subscription (\<lambda>b. b\<lparr>sb_subscribed := [], sb_default_configured := False\<rparr>)
      (upd_slicing (\<lambda>n. n\<lparr>nl_enabled := False, nl_configured := [], nl_allowed := [], nl_requested := [],
         nl_rejected := [], nl_default_configured := False\<rparr>) c))
     \<lparr>sc_sessions := map (\<lambda>x. x\<lparr>sx_associated := False\<rparr>) (sc_sessions c)\<rparr>) p"

section \<open>Slice identities\<close>

definition s_nssai :: "u8 \<Rightarrow> u32 \<Rightarrow> bool \<Rightarrow> nas_s_nssai_t" where
  "s_nssai sst sd present = zero_slice\<lparr>ns_sst := sst, ns_sd := sd AND 0x00FFFFFF, ns_sd_present := present\<rparr>"

definition nas_slice_create_s_nssai ::
  "u8 \<Rightarrow> u32 \<Rightarrow> bool \<Rightarrow> nas_s_nssai_t option \<Rightarrow> uesim_error \<times> nas_s_nssai_t option" where
  "nas_slice_create_s_nssai sst sd present p = with_ptr p (\<lambda>x. (UESIM_SUCCESS, s_nssai sst sd present))"

definition nas_slice_compare_s_nssai :: "nas_s_nssai_t option \<Rightarrow> nas_s_nssai_t option \<Rightarrow> bool" where
  "nas_slice_compare_s_nssai a b = (case (a, b) of
     (Some x, Some y) \<Rightarrow>
       if ns_sst x \<noteq> ns_sst y then False
       else if ns_sd_present x \<and> ns_sd_present y then ns_sd x = ns_sd y
       else ns_sd_present x = ns_sd_present y
   | _ \<Rightarrow> False)"

text \<open>The first \<open>count\<close> slices of the array of the caller, at most eight.\<close>

definition read_slices :: "nas_s_nssai_t list \<Rightarrow> u8 \<Rightarrow> nas_s_nssai_t list option" where
  "read_slices xs count = (let n = min (unat count) NAS_MAX_SNSSAI in
     if n \<le> length xs then Some (take n xs) else None)"

definition set_slices ::
  "nas_s_nssai_t list option \<Rightarrow> u8 \<Rightarrow> bool \<Rightarrow> (nas_s_nssai_t list \<Rightarrow> nas_slices \<Rightarrow> nas_slices)
    \<Rightarrow> nas_slices option \<Rightarrow> (uesim_error \<times> nas_slices option) option" where
  "set_slices slices count bad f p = (case (p, slices) of
     (Some c, Some xs) \<Rightarrow>
       if bad then Some (UESIM_ERROR_INVALID_PARAM, p)
       else map_option (\<lambda>ys. (UESIM_SUCCESS, Some (f ys c))) (read_slices xs count)
   | _ \<Rightarrow> Some (UESIM_ERROR_INVALID_PARAM, p))"

definition nas_slice_set_subscription ::
  "nas_s_nssai_t list option \<Rightarrow> u8 \<Rightarrow> nas_s_nssai_t option \<Rightarrow> nas_slices option
    \<Rightarrow> (uesim_error \<times> nas_slices option) option" where
  "nas_slice_set_subscription slices count def p = set_slices slices count (count = 0)
     (\<lambda>ys. upd_subscription (\<lambda>b. case def of
        None \<Rightarrow> b\<lparr>sb_subscribed := ys\<rparr>
      | Some d \<Rightarrow> b\<lparr>sb_subscribed := ys, sb_default := d, sb_default_configured := True\<rparr>)) p"

definition nas_slice_set_configured ::
  "nas_s_nssai_t list option \<Rightarrow> u8 \<Rightarrow> nas_slices option \<Rightarrow> (uesim_error \<times> nas_slices option) option" where
  "nas_slice_set_configured slices count p =
     set_slices slices count (count = 0) (\<lambda>ys. upd_slicing (\<lambda>n. n\<lparr>nl_configured := ys\<rparr>)) p"

definition nas_slice_set_allowed ::
  "nas_s_nssai_t list option \<Rightarrow> u8 \<Rightarrow> nas_slices option \<Rightarrow> (uesim_error \<times> nas_slices option) option" where
  "nas_slice_set_allowed slices count p =
     set_slices slices count (count = 0) (\<lambda>ys. upd_slicing (\<lambda>n. n\<lparr>nl_allowed := ys\<rparr>)) p"

definition nas_slice_set_requested ::
  "nas_s_nssai_t list option \<Rightarrow> u8 \<Rightarrow> nas_slices option \<Rightarrow> (uesim_error \<times> nas_slices option) option" where
  "nas_slice_set_requested slices count p =
     set_slices slices count False (\<lambda>ys. upd_slicing (\<lambda>n. n\<lparr>nl_requested := ys\<rparr>)) p"

definition nas_slice_add_rejected ::
  "nas_s_nssai_t option \<Rightarrow> nas_slices option \<Rightarrow> uesim_error \<times> nas_slices option" where
  "nas_slice_add_rejected sl p = with_ptr p (\<lambda>c. case sl of
     None \<Rightarrow> (UESIM_ERROR_INVALID_PARAM, c)
   | Some x \<Rightarrow> (UESIM_SUCCESS,
       if length (nl_rejected (sc_slicing c)) < NAS_MAX_SNSSAI
       then upd_slicing (\<lambda>n. n\<lparr>nl_rejected := nl_rejected n @ [x]\<rparr>) c else c))"

section \<open>Queries and selection\<close>

definition slice_in :: "nas_s_nssai_t \<Rightarrow> nas_s_nssai_t list \<Rightarrow> bool" where
  "slice_in x ys = list_ex (\<lambda>y. nas_slice_compare_s_nssai (Some y) (Some x)) ys"

definition nas_slice_is_allowed :: "nas_slices option \<Rightarrow> nas_s_nssai_t option \<Rightarrow> bool" where
  "nas_slice_is_allowed p sl = (case (p, sl) of
     (Some c, Some x) \<Rightarrow>
       if slice_in x (nl_allowed (sc_slicing c)) then True
       else if nl_allowed (sc_slicing c) = [] then NAS_SST_EMBB \<le> ns_sst x \<and> ns_sst x \<le> NAS_SST_HCI
       else False
   | _ \<Rightarrow> False)"

definition nas_slice_is_subscribed :: "nas_slices option \<Rightarrow> nas_s_nssai_t option \<Rightarrow> bool" where
  "nas_slice_is_subscribed p sl = (case (p, sl) of
     (Some c, Some x) \<Rightarrow> slice_in x (sb_subscribed (sc_subscription c)) | _ \<Rightarrow> False)"

definition nas_slice_is_requested :: "nas_slices option \<Rightarrow> nas_s_nssai_t option \<Rightarrow> bool" where
  "nas_slice_is_requested p sl = (case (p, sl) of
     (Some c, Some x) \<Rightarrow> slice_in x (nl_requested (sc_slicing c)) | _ \<Rightarrow> False)"

definition nas_slice_is_rejected :: "nas_slices option \<Rightarrow> nas_s_nssai_t option \<Rightarrow> bool" where
  "nas_slice_is_rejected p sl = (case (p, sl) of
     (Some c, Some x) \<Rightarrow> slice_in x (nl_rejected (sc_slicing c)) | _ \<Rightarrow> False)"

definition nas_slice_get_default :: "nas_slices option \<Rightarrow> nas_s_nssai_t option" where
  "nas_slice_get_default p = (case p of None \<Rightarrow> None
   | Some c \<Rightarrow> Some (
       if nl_default_configured (sc_slicing c) then nl_default_slice (sc_slicing c)
       else if sb_default_configured (sc_subscription c) then sb_default (sc_subscription c)
       else case nl_allowed (sc_slicing c) of x # xs \<Rightarrow> x
       | [] \<Rightarrow> (case sb_subscribed (sc_subscription c) of x # xs \<Rightarrow> x | [] \<Rightarrow> s_nssai NAS_SST_EMBB 0 False)))"

definition nas_slice_get_allowed :: "nas_slices option \<Rightarrow> u8 \<Rightarrow> nas_s_nssai_t option" where
  "nas_slice_get_allowed p i = (case p of None \<Rightarrow> None
   | Some c \<Rightarrow> if NAS_MAX_SNSSAI \<le> unat i then None
       else if unat i < length (nl_allowed (sc_slicing c)) then Some (nl_allowed (sc_slicing c) ! unat i)
       else None)"

definition nas_slice_get_allowed_count :: "nas_slices option \<Rightarrow> u8" where
  "nas_slice_get_allowed_count p = (case p of None \<Rightarrow> 0 | Some c \<Rightarrow> of_nat (length (nl_allowed (sc_slicing c))))"

definition nas_slice_get_requested_count :: "nas_slices option \<Rightarrow> u8" where
  "nas_slice_get_requested_count p = (case p of None \<Rightarrow> 0 | Some c \<Rightarrow> of_nat (length (nl_requested (sc_slicing c))))"

definition nas_slice_select_for_pdu_session ::
  "nas_slices option \<Rightarrow> bool \<Rightarrow> nas_slice_select_result \<times> nas_s_nssai_t option" where
  "nas_slice_select_for_pdu_session p out =
     (if p = None \<or> \<not> out then (NAS_SLICE_SELECT_NO_DEFAULT, None)
      else case nas_slice_get_default p of
        None \<Rightarrow> (NAS_SLICE_SELECT_NO_DEFAULT, None)
      | Some d \<Rightarrow>
          if \<not> nas_slice_is_allowed p (Some d) then (NAS_SLICE_SELECT_NOT_ALLOWED, None)
          else if nas_slice_is_rejected p (Some d) then (NAS_SLICE_SELECT_REJECTED, None)
          else (NAS_SLICE_SELECT_SUCCESS, Some d))"

definition nas_slice_associate_pdu_session ::
  "u8 \<Rightarrow> nas_s_nssai_t option \<Rightarrow> nas_slices option \<Rightarrow> uesim_error \<times> nas_slices option" where
  "nas_slice_associate_pdu_session i sl p = with_ptr p (\<lambda>c. case sl of
     None \<Rightarrow> (UESIM_ERROR_INVALID_PARAM, c)
   | Some x \<Rightarrow> if NAS_MAX_PDU_SESSIONS \<le> unat i then (UESIM_ERROR_INVALID_PARAM, c)
       else (UESIM_SUCCESS, c\<lparr>sc_sessions := (sc_sessions c)[unat i :=
               \<lparr>sx_pdu_session_id = i, sx_s_nssai = x, sx_associated = True\<rparr>]\<rparr>))"

definition nas_slice_disassociate_pdu_session :: "u8 \<Rightarrow> nas_slices option \<Rightarrow> uesim_error \<times> nas_slices option" where
  "nas_slice_disassociate_pdu_session i p = with_ptr p (\<lambda>c.
     if NAS_MAX_PDU_SESSIONS \<le> unat i then (UESIM_ERROR_INVALID_PARAM, c)
     else (UESIM_SUCCESS, c\<lparr>sc_sessions := (sc_sessions c)[unat i :=
             (sc_sessions c ! unat i)\<lparr>sx_associated := False, sx_s_nssai := zero_slice\<rparr>]\<rparr>))"

definition nas_slice_get_pdu_session_slice :: "nas_slices option \<Rightarrow> u8 \<Rightarrow> nas_s_nssai_t option" where
  "nas_slice_get_pdu_session_slice p i = (case p of None \<Rightarrow> None
   | Some c \<Rightarrow> if NAS_MAX_PDU_SESSIONS \<le> unat i then None
       else if sx_associated (sc_sessions c ! unat i) then Some (sx_s_nssai (sc_sessions c ! unat i))
       else nas_slice_get_default p)"

section \<open>The codec\<close>

text \<open>
  The encoders return the octets they write into a buffer of \<open>n\<close> octets, the decoders take the octets
  of the buffer; the slice identity says nothing of its own length.
\<close>

definition be24 :: "u32 \<Rightarrow> u8 list" where
  "be24 v = [ucast (drop_bit 16 v), ucast (drop_bit 8 v), ucast v]"

definition nas_slice_encode_s_nssai ::
  "nas_s_nssai_t option \<Rightarrow> bool \<Rightarrow> nat \<Rightarrow> uesim_error + u8 list" where
  "nas_slice_encode_s_nssai sl ptrs n = (case sl of
     None \<Rightarrow> Inl UESIM_ERROR_INVALID_PARAM
   | Some x \<Rightarrow>
       if \<not> ptrs \<or> n < 1 then Inl UESIM_ERROR_INVALID_PARAM
       else let b = [ns_sst x] in
       if ns_sd_present x \<and> n < length b + 3 then Inl UESIM_ERROR_INVALID_PARAM
       else let b = (if ns_sd_present x then b @ be24 (ns_sd x) else b) in
       if ns_mapped_sst_present x \<and> n < length b + 1 then Inl UESIM_ERROR_INVALID_PARAM
       else let b' = (if ns_mapped_sst_present x then b @ [ns_mapped_sst x] else b) in
       if ns_mapped_sst_present x \<and> ns_mapped_sd_present x \<and> n < length b' + 3
       then Inl UESIM_ERROR_INVALID_PARAM
       else Inr (if ns_mapped_sst_present x \<and> ns_mapped_sd_present x then b' @ be24 (ns_mapped_sd x) else b'))"

definition nas_slice_decode_s_nssai :: "u8 list option \<Rightarrow> bool \<Rightarrow> uesim_error + (nas_s_nssai_t \<times> nat)" where
  "nas_slice_decode_s_nssai buf ptrs = (case buf of
     None \<Rightarrow> Inl UESIM_ERROR_INVALID_PARAM
   | Some bs \<Rightarrow>
       if \<not> ptrs then Inl UESIM_ERROR_INVALID_PARAM
       else case bs of
         [] \<Rightarrow> Inl UESIM_ERROR_INVALID_PARAM
       | b # b1 # b2 # b3 # rest \<Rightarrow> Inr (zero_slice\<lparr>ns_sst := b, ns_sd_present := True,
           ns_sd := push_bit 16 (ucast b1) OR push_bit 8 (ucast b2) OR ucast b3\<rparr>, 4)
       | b # rest \<Rightarrow> Inr (zero_slice\<lparr>ns_sst := b\<rparr>, 1))"

primrec encode_slices :: "nas_s_nssai_t list \<Rightarrow> nat \<Rightarrow> uesim_error + u8 list" where
  "encode_slices [] n = Inr []"
| "encode_slices (x # xs) n = (case nas_slice_encode_s_nssai (Some x) True n of
     Inl r \<Rightarrow> Inl r
   | Inr b \<Rightarrow> (case encode_slices xs (n - length b) of Inl r \<Rightarrow> Inl r | Inr bs \<Rightarrow> Inr (b @ bs)))"

text \<open>\<open>None\<close> is a count beyond the array of the caller.\<close>

definition nas_slice_encode_nssai ::
  "nas_s_nssai_t list option \<Rightarrow> u8 \<Rightarrow> bool \<Rightarrow> nat \<Rightarrow> (uesim_error + u8 list) option" where
  "nas_slice_encode_nssai slices count ptrs n = (case slices of
     None \<Rightarrow> Some (Inl UESIM_ERROR_INVALID_PARAM)
   | Some xs \<Rightarrow>
       if \<not> ptrs \<or> count = 0 \<or> NAS_MAX_SNSSAI < unat count \<or> n < 1 then Some (Inl UESIM_ERROR_INVALID_PARAM)
       else if length xs < unat count then None
       else Some (case encode_slices (take (unat count) xs) (n - 1) of
         Inl r \<Rightarrow> Inl r | Inr bs \<Rightarrow> Inr (of_nat (length bs) # bs)))"

text \<open>
  The loop ends when \<open>left\<close> octets, those the length octet announced, are used up or the array is
  full; every slice is decoded from the whole rest of the buffer.
\<close>

fun decode_slices :: "nat \<Rightarrow> nat \<Rightarrow> u8 list \<Rightarrow> nas_s_nssai_t list" where
  "decode_slices 0 left bs = []"
| "decode_slices (Suc room) left bs =
     (if left = 0 then []
      else case nas_slice_decode_s_nssai (Some bs) True of
        Inl r \<Rightarrow> []
      | Inr (x, k) \<Rightarrow> x # decode_slices room (left - k) (drop k bs))"

definition nas_slice_decode_nssai :: "u8 list option \<Rightarrow> bool \<Rightarrow> u8 \<Rightarrow> uesim_error + nas_s_nssai_t list" where
  "nas_slice_decode_nssai buf ptrs max_count = (case buf of
     None \<Rightarrow> Inl UESIM_ERROR_INVALID_PARAM
   | Some bs \<Rightarrow> if \<not> ptrs then Inl UESIM_ERROR_INVALID_PARAM
       else case bs of [] \<Rightarrow> Inl UESIM_ERROR_INVALID_PARAM
       | l # rest \<Rightarrow> if length rest < unat l then Inl UESIM_ERROR_INVALID_PARAM
           else Inr (decode_slices (unat max_count) (unat l) rest))"

section \<open>Registration\<close>

definition slices_to_request :: "nas_slices \<Rightarrow> nas_s_nssai_t list" where
  "slices_to_request c = (case sb_subscribed (sc_subscription c) of
     [] \<Rightarrow> [s_nssai NAS_SST_EMBB 0 False] | x # xs \<Rightarrow> take NAS_MAX_SNSSAI (x # xs))"

definition nas_slice_prepare_registration_nssai ::
  "bool \<Rightarrow> nat \<Rightarrow> nas_slices option \<Rightarrow> ((uesim_error + u8 list) \<times> nas_slices option) option" where
  "nas_slice_prepare_registration_nssai ptrs n p = (case p of
     None \<Rightarrow> Some (Inl UESIM_ERROR_INVALID_PARAM, None)
   | Some c \<Rightarrow>
       if \<not> ptrs then Some (Inl UESIM_ERROR_INVALID_PARAM, p)
       else let xs = slices_to_request c; k = of_nat (length xs) in
         case nas_slice_set_requested (Some xs) k p of
           None \<Rightarrow> None
         | Some (r, p') \<Rightarrow> map_option (\<lambda>res. (res, p')) (nas_slice_encode_nssai (Some xs) k True n))"

definition nas_slice_process_registration_accept_nssai ::
  "u8 list option \<Rightarrow> nas_slices option \<Rightarrow> (uesim_error \<times> nas_slices option) option" where
  "nas_slice_process_registration_accept_nssai buf p = (case (p, buf) of
     (Some c, Some bs) \<Rightarrow>
       if bs = [] then Some (UESIM_SUCCESS, p)
       else (case nas_slice_decode_nssai (Some bs) True (of_nat NAS_MAX_SNSSAI) of
         Inl r \<Rightarrow> Some (r, p)
       | Inr xs \<Rightarrow> nas_slice_set_allowed (Some xs) (of_nat (length xs)) p)
   | _ \<Rightarrow> Some (UESIM_ERROR_INVALID_PARAM, p))"

end
