(* ===== verification/Slicing_Proofs.thy ===== *)
theory Slicing_Proofs
  imports Slicing
begin

text \<open>
  What the slice codec carries: lists of slices with a differentiator come back, a slice without one
  is read together with the octets behind it.
\<close>

text \<open>Slices that the codec can carry: with a differentiator of 24 bits, and nothing mapped.\<close>

definition plain_slice :: "nas_s_nssai_t \<Rightarrow> bool" where
  "plain_slice x \<longleftrightarrow> ns_sd_present x \<and> take_bit 24 (ns_sd x) = ns_sd x \<and> \<not> ns_mapped_sst_present x
     \<and> x = zero_slice\<lparr>ns_sst := ns_sst x, ns_sd := ns_sd x, ns_sd_present := True\<rparr>"

definition sd_octets :: "nas_s_nssai_t \<Rightarrow> u8 list" where
  "sd_octets x = ns_sst x # be24 (ns_sd x)"

lemma length_sd_octets [simp]: "length (sd_octets x) = 4"
  by (simp add: sd_octets_def be24_def)

lemma be24_value:
  "push_bit 16 (ucast (ucast (drop_bit 16 v) :: u8)) OR push_bit 8 (ucast (ucast (drop_bit 8 v) :: u8))
     OR ucast (ucast v :: u8) = take_bit 24 (v :: u32)"
proof (rule bit_word_eqI)
  show "bit (push_bit 16 (ucast (ucast (drop_bit 16 v) :: u8)) OR push_bit 8 (ucast (ucast (drop_bit 8 v) :: u8))
     OR ucast (ucast v :: u8) :: u32) n \<longleftrightarrow> bit (take_bit 24 v) n" if "n < LENGTH(32)" for n
    using that by (cases "n < 8"; cases "n < 16") (auto simp: bit_simps)
qed

lemma encode_plain: "plain_slice x \<Longrightarrow> 4 \<le> n \<Longrightarrow> nas_slice_encode_s_nssai (Some x) True n = Inr (sd_octets x)"
  by (auto simp: plain_slice_def nas_slice_encode_s_nssai_def sd_octets_def be24_def Let_def)

lemma decode_plain: "plain_slice x \<Longrightarrow> nas_slice_decode_s_nssai (Some (sd_octets x @ rest)) True = Inr (x, 4)"
  using be24_value [of "ns_sd x"]
  by (cases x) (auto simp: plain_slice_def nas_slice_decode_s_nssai_def sd_octets_def be24_def zero_slice_def)

lemma encode_plain_list:
  "list_all plain_slice xs \<Longrightarrow> 4 * length xs \<le> n \<Longrightarrow> encode_slices xs n = Inr (concat (map sd_octets xs))"
proof (induction xs arbitrary: n)
  case (Cons x xs)
  then show ?case by (simp add: encode_plain)
qed simp

lemma length_concat_octets [simp]: "length (concat (map sd_octets xs)) = 4 * length xs"
  by (induction xs) auto

lemma decode_plain_list:
  "list_all plain_slice xs \<Longrightarrow> length xs \<le> room \<Longrightarrow>
   decode_slices room (4 * length xs) (concat (map sd_octets xs) @ rest) = xs"
proof (induction xs arbitrary: room)
  case (Cons x xs)
  then obtain k where k: "room = Suc k" by (cases room) auto
  have d: "drop 4 (sd_octets x @ ys) = ys" for ys by simp
  show ?case
    using Cons d [of "concat (map sd_octets xs) @ rest"]
    by (simp add: k decode_plain)
next
  case Nil
  then show ?case by (cases room) simp_all
qed

text \<open>
  The list of slices a UE requests at registration, when the subscribed slices have a
  differentiator and nothing is mapped, is carried unchanged: if the network returns the same octets as
  allowed slices, exactly the subscribed ones are allowed afterwards.
\<close>

theorem nssai_roundtrip:
  assumes "list_all plain_slice (sb_subscribed (sc_subscription c))"
    and "sb_subscribed (sc_subscription c) \<noteq> []"
    and "length (sb_subscribed (sc_subscription c)) \<le> NAS_MAX_SNSSAI" and "33 \<le> n"
  shows "\<exists>bs c' d'. nas_slice_prepare_registration_nssai True n (Some c) = Some (Inr bs, Some c')
    \<and> nl_requested (sc_slicing c') = sb_subscribed (sc_subscription c)
    \<and> nas_slice_process_registration_accept_nssai (Some bs) (Some d) = Some (UESIM_SUCCESS, Some d')
    \<and> nl_allowed (sc_slicing d') = sb_subscribed (sc_subscription c)"
proof -
  let ?xs = "sb_subscribed (sc_subscription c)"
  have req: "slices_to_request c = ?xs"
    using assms(2,3) by (cases ?xs) (simp_all add: slices_to_request_def)
  have len: "length ?xs \<le> 8" using assms(3) by (simp add: NAS_MAX_SNSSAI_def)
  then have k: "unat (of_nat (length ?xs) :: u8) = length ?xs" by (simp add: unat_of_nat)
  have k0: "of_nat (length ?xs) \<noteq> (0 :: u8)"
    using k assms(2) by (metis length_0_conv unat_0)
  have rd: "read_slices ?xs (of_nat (length ?xs)) = Some ?xs"
    using len k by (simp add: read_slices_def NAS_MAX_SNSSAI_def min_def)
  have l: "unat (of_nat (4 * length ?xs) :: u8) = 4 * length ?xs" using len by (simp add: unat_of_nat del: of_nat_mult)
  let ?bs = "of_nat (4 * length ?xs) # concat (map sd_octets ?xs)"
  have enc: "nas_slice_encode_nssai (Some ?xs) (of_nat (length ?xs)) True n = Some (Inr ?bs)"
    using len k k0 assms(1,4) encode_plain_list [OF assms(1), of "n - 1"]
    by (simp add: nas_slice_encode_nssai_def NAS_MAX_SNSSAI_def)
  have dec: "nas_slice_decode_nssai (Some ?bs) True (of_nat NAS_MAX_SNSSAI) = Inr ?xs"
    using l len decode_plain_list [OF assms(1), of 8 "[]"]
    by (simp add: nas_slice_decode_nssai_def NAS_MAX_SNSSAI_def)
  have prep: "nas_slice_prepare_registration_nssai True n (Some c) =
      Some (Inr ?bs, Some (upd_slicing (\<lambda>n. n\<lparr>nl_requested := ?xs\<rparr>) c))"
    using enc rd
    by (simp add: nas_slice_prepare_registration_nssai_def req nas_slice_set_requested_def set_slices_def Let_def)
  have proc: "nas_slice_process_registration_accept_nssai (Some ?bs) (Some d) =
      Some (UESIM_SUCCESS, Some (upd_slicing (\<lambda>n. n\<lparr>nl_allowed := ?xs\<rparr>) d))"
    using dec rd k0
    by (simp add: nas_slice_process_registration_accept_nssai_def nas_slice_set_allowed_def set_slices_def)
  show ?thesis using prep proc by (auto simp: upd_slicing_def)
qed

definition slices_example :: "nas_s_nssai_t list \<Rightarrow> nas_slices" where
  "slices_example xs = \<lparr>sc_slicing = \<lparr>nl_configured = [], nl_allowed = [], nl_requested = [], nl_rejected = [],
       nl_default_slice = zero_slice, nl_enabled = True, nl_default_configured = False\<rparr>,
     sc_subscription = \<lparr>sb_subscribed = xs, sb_default = zero_slice, sb_default_configured = False\<rparr>,
     sc_sessions = []\<rparr>"

lemma nssai_roundtrip_witness:
  "\<exists>bs c' d'. nas_slice_prepare_registration_nssai True 64
      (Some (slices_example [s_nssai 1 0x010203 True, s_nssai 2 5 True])) = Some (Inr bs, Some c')
    \<and> nas_slice_process_registration_accept_nssai (Some bs) (Some (slices_example [])) = Some (UESIM_SUCCESS, Some d')
    \<and> nl_allowed (sc_slicing d') = [s_nssai 1 0x010203 True, s_nssai 2 5 True]"
proof -
  let ?c = "slices_example [s_nssai 1 0x010203 True, s_nssai 2 5 True]"
  have "list_all plain_slice (sb_subscribed (sc_subscription ?c))"
    by (simp add: slices_example_def plain_slice_def s_nssai_def zero_slice_def)
  moreover have "sb_subscribed (sc_subscription ?c) \<noteq> []"
    "length (sb_subscribed (sc_subscription ?c)) \<le> NAS_MAX_SNSSAI" "(33 :: nat) \<le> 64"
    by (simp_all add: slices_example_def NAS_MAX_SNSSAI_def)
  ultimately obtain bs c' d' where
    "nas_slice_prepare_registration_nssai True 64 (Some ?c) = Some (Inr bs, Some c')"
    "nas_slice_process_registration_accept_nssai (Some bs) (Some (slices_example [])) = Some (UESIM_SUCCESS, Some d')"
    "nl_allowed (sc_slicing d') = sb_subscribed (sc_subscription ?c)"
    using nssai_roundtrip [of ?c 64 "slices_example []"] by blast
  then show ?thesis by (auto simp: slices_example_def)
qed

text \<open>
  Four standard slices without a differentiator come back as one slice with the differentiator 0x020304:
  afterwards none of the four is allowed, and a session on the default slice 1 is refused.
\<close>

lemma nssai_without_sd_misread:
  "(let xs = map (\<lambda>t. s_nssai t 0 False) [1, 2, 3, 4];
        bs = (case nas_slice_prepare_registration_nssai True 64 (Some (slices_example xs)) of
                Some (Inr bs, c) \<Rightarrow> bs | _ \<Rightarrow> []);
        d = (case nas_slice_process_registration_accept_nssai (Some bs) (Some (slices_example xs)) of
                Some (r, Some d) \<Rightarrow> d | _ \<Rightarrow> slices_example [])
    in (bs, nl_allowed (sc_slicing d), map (\<lambda>x. nas_slice_is_allowed (Some d) (Some x)) xs))
   = ([4, 1, 2, 3, 4], [s_nssai 1 0x020304 True], [False, False, False, False])"
  by code_simp

end
