(* ===== verification/Nas.thy ===== *)
theory Nas
  imports Slicing Pdcp
begin

text \<open>
  The NAS layer, \<^verbatim>\<open>src/nas/nas.c\<close>: its state, its messages and their codec, the protection of messages
  and the derivation of keys. The procedures are in the theory Nas_Procedures.

  A message is a header with a pointer to its data and a length, which never exceeds the data. The
  outcomes of locks and allocations are counted in the order of the calls. Algorithms are numbers, as
  the code compares them with a bound. \<open>now\<close> is the result of \<^verbatim>\<open>time\<close>.
\<close>

section \<open>State\<close>

definition NAS_DEFAULT_T3412 :: u32 where "NAS_DEFAULT_T3412 = 540"
definition NAS_DEFAULT_T3422 :: u32 where "NAS_DEFAULT_T3422 = 12"
definition NAS_DEFAULT_T3450 :: u32 where "NAS_DEFAULT_T3450 = 6"
definition NAS_MAX_AUTHENTICATION_VECTOR :: nat where "NAS_MAX_AUTHENTICATION_VECTOR = 5"

text \<open>The message types and header types that the code names.\<close>

definition NAS_MSG_TYPE_REGISTRATION_REQUEST :: u8 where "NAS_MSG_TYPE_REGISTRATION_REQUEST = 0x41"
definition NAS_MSG_TYPE_REGISTRATION_COMPLETE :: u8 where "NAS_MSG_TYPE_REGISTRATION_COMPLETE = 0x43"
definition NAS_MSG_TYPE_AUTHENTICATION_RESPONSE :: u8 where "NAS_MSG_TYPE_AUTHENTICATION_RESPONSE = 0x57"
definition NAS_MSG_TYPE_SECURITY_MODE_COMPLETE :: u8 where "NAS_MSG_TYPE_SECURITY_MODE_COMPLETE = 0x5f"
definition NAS_MSG_TYPE_PDU_SESSION_ESTABLISHMENT_REQUEST :: u8 where
  "NAS_MSG_TYPE_PDU_SESSION_ESTABLISHMENT_REQUEST = 0xc1"
definition NAS_MSG_TYPE_PDU_SESSION_ESTABLISHMENT_ACCEPT :: u8 where
  "NAS_MSG_TYPE_PDU_SESSION_ESTABLISHMENT_ACCEPT = 0xc2"
definition NAS_MSG_TYPE_PDU_SESSION_MODIFICATION_REQUEST :: u8 where
  "NAS_MSG_TYPE_PDU_SESSION_MODIFICATION_REQUEST = 0xc9"
definition NAS_MSG_TYPE_PDU_SESSION_MODIFICATION_COMPLETE :: u8 where
  "NAS_MSG_TYPE_PDU_SESSION_MODIFICATION_COMPLETE = 0xcc"
definition NAS_MSG_TYPE_PDU_SESSION_RELEASE_REQUEST :: u8 where
  "NAS_MSG_TYPE_PDU_SESSION_RELEASE_REQUEST = 0xd1"
definition NAS_MSG_TYPE_PDU_SESSION_RELEASE_COMPLETE :: u8 where
  "NAS_MSG_TYPE_PDU_SESSION_RELEASE_COMPLETE = 0xd4"

definition NAS_SECURITY_HEADER_PLAIN :: u8 where "NAS_SECURITY_HEADER_PLAIN = 0"

definition NAS_CIPHERING_ALG_NEA0 :: alg where "NAS_CIPHERING_ALG_NEA0 = 0"
definition NAS_CIPHERING_ALG_NEA3 :: alg where "NAS_CIPHERING_ALG_NEA3 = 3"
definition NAS_INTEGRITY_ALG_NIA0 :: alg where "NAS_INTEGRITY_ALG_NIA0 = 0"
definition NAS_INTEGRITY_ALG_NIA3 :: alg where "NAS_INTEGRITY_ALG_NIA3 = 3"

datatype nas_authentication_type =
    NAS_AUTHENTICATION_TYPE_NONE | NAS_AUTHENTICATION_TYPE_5G_AKA | NAS_AUTHENTICATION_TYPE_EAP
  | NAS_AUTHENTICATION_TYPE_5G_AKA_PRIME

datatype nas_pdu_session_type =
    NAS_PDU_SESSION_TYPE_IPV4 | NAS_PDU_SESSION_TYPE_IPV6 | NAS_PDU_SESSION_TYPE_IPV4V6
  | NAS_PDU_SESSION_TYPE_UNSTRUCTURED | NAS_PDU_SESSION_TYPE_ETHERNET

datatype nas_ssc_mode = NAS_SSC_MODE_1 | NAS_SSC_MODE_2 | NAS_SSC_MODE_3

datatype nas_5gmm_state =
    NAS_5GMM_NULL | NAS_5GMM_DEREGISTERED | NAS_5GMM_REGISTERED_INITIATED | NAS_5GMM_REGISTERED
  | NAS_5GMM_SERVICE_REQUEST_INITIATED | NAS_5GMM_DEREGISTERED_INITIATED

datatype nas_5gsm_state =
    NAS_5GSM_PDU_SESSION_INACTIVE | NAS_5GSM_PDU_SESSION_ACTIVE_PENDING | NAS_5GSM_PDU_SESSION_ACTIVE
  | NAS_5GSM_PDU_SESSION_MODIFICATION_PENDING | NAS_5GSM_PDU_SESSION_RELEASED_PENDING

record nas_security_context_t =
  nk_ksi :: u8
  nk_ciphering_alg :: alg
  nk_integrity_alg :: alg
  nk_knas_enc :: "u8 list"
  nk_knas_int :: "u8 list"
  nk_downlink_count :: u32
  nk_uplink_count :: u32
  nk_valid :: bool

record nas_auth_vector_t =
  av_rand :: "u8 list"
  av_xres :: "u8 list"
  av_autn :: "u8 list"
  av_kasme :: "u8 list"
  av_used :: bool

record nas_auth_context_t =
  au_type :: nas_authentication_type
  au_vectors :: "nas_auth_vector_t list"
  au_num_vectors :: u8
  au_current_vector :: u8
  au_authenticated :: bool

record nas_ue_identity_t =
  ni_suci :: string
  ni_guti :: string
  ni_imsi :: string
  ni_imei :: string
  ni_msisdn :: string

record nas_qos_flow_t =
  nq_qfi :: u8
  nq_arp :: u8
  nq_qci :: u8
  nq_gbr_ul :: u16
  nq_gbr_dl :: u16
  nq_mbr_ul :: u16
  nq_mbr_dl :: u16
  nq_active :: bool

record nas_pdu_session_t =
  np_pdu_session_id :: u8
  np_session_type :: nas_pdu_session_type
  np_ssc_mode :: nas_ssc_mode
  np_state :: nas_5gsm_state
  np_pdu_address :: u32
  np_default_qfi :: u8
  np_qos_flows :: "nas_qos_flow_t list"
  np_session_ambr_ul :: u16
  np_session_ambr_dl :: u16
  np_ptis :: u8
  np_ul_teid :: u32
  np_dl_teid :: u32
  np_upf_ip :: u32
  np_active :: bool

record nas_message_t =
  nm_epd :: u8
  nm_security_header :: u8
  nm_type :: u8
  nm_mac :: u32
  nm_sequence :: u8
  nm_data :: "u8 list option"
  nm_length :: nat
  nm_arrival :: int
  nm_integrity_protected :: bool
  nm_ciphered :: bool

record nas_stats_t =
  nt_registration_requests :: u64
  nt_registration_accepts :: u64
  nt_registration_rejects :: u64
  nt_authentication_requests :: u64
  nt_authentication_responses :: u64
  nt_security_mode_commands :: u64
  nt_security_mode_completes :: u64
  nt_pdu_session_est_requests :: u64
  nt_pdu_session_est_accepts :: u64
  nt_pdu_session_release_requests :: u64
  nt_messages_sent :: u64
  nt_messages_received :: u64
  nt_authentication_success :: u64
  nt_authentication_failures :: u64
  nt_last_update_time :: u32
  nt_context_start_time :: u32
  nt_active_pdu_sessions :: u8
  nt_security_active :: bool
  nt_integrity_failures :: u64
  nt_cipher_failures :: u64
  nt_timeout_events :: u64
  nt_registration_failures :: u64

record nas_ue_context_t =
  nc_ue_id :: u32
  nc_mm_state :: nas_5gmm_state
  nc_identity :: nas_ue_identity_t
  nc_security :: nas_security_context_t
  nc_auth :: nas_auth_context_t
  nc_sessions :: "nas_pdu_session_t list"
  nc_slices :: nas_slices
  nc_num_active_sessions :: u8
  nc_t3412_timer :: u32
  nc_t3422_timer :: u32
  nc_t3450_timer :: u32
  nc_t3412_running :: bool
  nc_t3422_running :: bool
  nc_t3450_running :: bool
  nc_message_counter :: u32
  nc_active :: bool
  nc_stats :: nas_stats_t

definition upd_stats :: "(nas_stats_t \<Rightarrow> nas_stats_t) \<Rightarrow> nas_ue_context_t \<Rightarrow> nas_ue_context_t" where
  "upd_stats f c = c\<lparr>nc_stats := f (nc_stats c)\<rparr>"

definition upd_security :: "(nas_security_context_t \<Rightarrow> nas_security_context_t) \<Rightarrow> nas_ue_context_t \<Rightarrow> nas_ue_context_t" where
  "upd_security f c = c\<lparr>nc_security := f (nc_security c)\<rparr>"

definition upd_pdu :: "u8 \<Rightarrow> (nas_pdu_session_t \<Rightarrow> nas_pdu_session_t) \<Rightarrow> nas_ue_context_t \<Rightarrow> nas_ue_context_t" where
  "upd_pdu i f c = c\<lparr>nc_sessions := (nc_sessions c)[unat i := f (nc_sessions c ! unat i)]\<rparr>"

text \<open>One statistics counter under the mutex; \<open>n\<close> is the number of the lock.\<close>

definition count_stat :: "os \<Rightarrow> nat \<Rightarrow> (nas_stats_t \<Rightarrow> nas_stats_t) \<Rightarrow> nas_ue_context_t \<Rightarrow> uesim_error \<times> nas_ue_context_t" where
  "count_stat s n f c = (if lock_ok s n then (UESIM_SUCCESS, upd_stats f c) else (UESIM_ERROR_THREAD, c))"

section \<open>Configuration and creation\<close>

definition zero_nas_stats :: nas_stats_t where
  "zero_nas_stats = \<lparr>nt_registration_requests = 0, nt_registration_accepts = 0, nt_registration_rejects = 0,
     nt_authentication_requests = 0, nt_authentication_responses = 0, nt_security_mode_commands = 0,
     nt_security_mode_completes = 0, nt_pdu_session_est_requests = 0, nt_pdu_session_est_accepts = 0,
     nt_pdu_session_release_requests = 0, nt_messages_sent = 0, nt_messages_received = 0,
     nt_authentication_success = 0, nt_authentication_failures = 0, nt_last_update_time = 0,
     nt_context_start_time = 0, nt_active_pdu_sessions = 0, nt_security_active = False,
     nt_integrity_failures = 0, nt_cipher_failures = 0, nt_timeout_events = 0, nt_registration_failures = 0\<rparr>"

definition default_session :: "nat \<Rightarrow> nas_pdu_session_t \<Rightarrow> nas_pdu_session_t" where
  "default_session i x = x\<lparr>np_pdu_session_id := of_nat i, np_session_type := NAS_PDU_SESSION_TYPE_IPV4,
     np_ssc_mode := NAS_SSC_MODE_1, np_state := NAS_5GSM_PDU_SESSION_INACTIVE, np_active := False\<rparr>"

definition default_nas_config :: "nas_ue_context_t \<Rightarrow> nas_ue_context_t" where
  "default_nas_config c =
     (upd_security (\<lambda>k. k\<lparr>nk_ciphering_alg := NAS_CIPHERING_ALG_NEA0, nk_integrity_alg := NAS_INTEGRITY_ALG_NIA0,
        nk_valid := False, nk_ksi := 7\<rparr>) c)
     \<lparr>nc_t3412_timer := NAS_DEFAULT_T3412, nc_t3422_timer := NAS_DEFAULT_T3422,
      nc_t3450_timer := NAS_DEFAULT_T3450, nc_t3412_running := False, nc_t3422_running := False,
      nc_t3450_running := False, nc_num_active_sessions := 0,
      nc_identity := \<lparr>ni_suci = ''suci-0-0-0-0-0'', ni_guti = '''', ni_imsi = ''000000000000000'',
        ni_imei = ''000000000000000'', ni_msisdn = ''000000000000000''\<rparr>,
      nc_sessions := map (\<lambda>i. default_session i (nc_sessions c ! i)) [0..<NAS_MAX_PDU_SESSIONS],
      nc_stats := zero_nas_stats\<rparr>"

definition nas_set_default_config :: "nas_ue_context_t option \<Rightarrow> uesim_error \<times> nas_ue_context_t option" where
  "nas_set_default_config p = with_ptr p (\<lambda>c. (UESIM_SUCCESS, default_nas_config c))"

text \<open>The context as \<^verbatim>\<open>uesim_calloc\<close> returns it; the enumerations without a 0 get their first value.\<close>

definition zero_nas_session :: nas_pdu_session_t where
  "zero_nas_session = \<lparr>np_pdu_session_id = 0, np_session_type = NAS_PDU_SESSION_TYPE_IPV4,
     np_ssc_mode = NAS_SSC_MODE_1, np_state = NAS_5GSM_PDU_SESSION_INACTIVE, np_pdu_address = 0,
     np_default_qfi = 0, np_qos_flows = [], np_session_ambr_ul = 0, np_session_ambr_dl = 0, np_ptis = 0,
     np_ul_teid = 0, np_dl_teid = 0, np_upf_ip = 0, np_active = False\<rparr>"

definition zero_vector :: nas_auth_vector_t where
  "zero_vector = \<lparr>av_rand = replicate 16 0, av_xres = replicate 16 0, av_autn = replicate 16 0,
     av_kasme = replicate 32 0, av_used = False\<rparr>"

definition zero_nas_context :: nas_ue_context_t where
  "zero_nas_context = \<lparr>nc_ue_id = 0, nc_mm_state = NAS_5GMM_NULL,
     nc_identity = \<lparr>ni_suci = '''', ni_guti = '''', ni_imsi = '''', ni_imei = '''', ni_msisdn = ''''\<rparr>,
     nc_security = \<lparr>nk_ksi = 0, nk_ciphering_alg = 0, nk_integrity_alg = 0, nk_knas_enc = replicate 16 0,
       nk_knas_int = replicate 16 0, nk_downlink_count = 0, nk_uplink_count = 0, nk_valid = False\<rparr>,
     nc_auth = \<lparr>au_type = NAS_AUTHENTICATION_TYPE_NONE,
       au_vectors = replicate NAS_MAX_AUTHENTICATION_VECTOR zero_vector, au_num_vectors = 0,
       au_current_vector = 0, au_authenticated = False\<rparr>,
     nc_sessions = replicate NAS_MAX_PDU_SESSIONS zero_nas_session,
     nc_slices = \<lparr>sc_slicing = \<lparr>nl_configured = [], nl_allowed = [], nl_requested = [], nl_rejected = [],
         nl_default_slice = zero_slice, nl_enabled = False, nl_default_configured = False\<rparr>,
       sc_subscription = \<lparr>sb_subscribed = [], sb_default = zero_slice, sb_default_configured = False\<rparr>,
       sc_sessions = replicate NAS_MAX_PDU_SESSIONS
         \<lparr>sx_pdu_session_id = 0, sx_s_nssai = zero_slice, sx_associated = False\<rparr>\<rparr>,
     nc_num_active_sessions = 0, nc_t3412_timer = 0, nc_t3422_timer = 0, nc_t3450_timer = 0,
     nc_t3412_running = False, nc_t3422_running = False, nc_t3450_running = False, nc_message_counter = 0,
     nc_active = False, nc_stats = zero_nas_stats\<rparr>"

definition init_slices :: "nas_slices \<Rightarrow> nas_slices" where
  "init_slices c = (case snd (nas_slice_init (Some c)) of Some d \<Rightarrow> d | None \<Rightarrow> c)"

definition fresh_nas_context :: "int \<Rightarrow> u32 \<Rightarrow> nas_ue_context_t" where
  "fresh_nas_context now i = (let c = default_nas_config (zero_nas_context\<lparr>nc_ue_id := i\<rparr>);
       c = upd_stats (\<lambda>t. t\<lparr>nt_context_start_time := of_int now\<rparr>) c
     in c\<lparr>nc_slices := init_slices (nc_slices c), nc_mm_state := NAS_5GMM_DEREGISTERED\<rparr>)"

text \<open>
  \<open>g\<close> is the counter of the identities. Three initialisations are of the mutexes and the condition
  variable of the context, sixteen of the mutexes of its sessions.
\<close>

definition nas_create_ue_context ::
  "os \<Rightarrow> int \<Rightarrow> bool \<Rightarrow> bool \<Rightarrow> u32 \<Rightarrow> (uesim_error + nas_ue_context_t) \<times> u32" where
  "nas_create_ue_context s now ue out g =
     (if \<not> ue \<or> \<not> out then (Inl UESIM_ERROR_INVALID_PARAM, g)
      else if \<not> alloc_ok s 0 then (Inl UESIM_ERROR_MEMORY, g)
      else if list_all (init_ok s) [0..<3 + NAS_MAX_PDU_SESSIONS] then (Inr (fresh_nas_context now g), g + 1)
      else (Inl UESIM_ERROR_THREAD, g + 1))"

definition nas_destroy_ue_context :: "bool \<Rightarrow> nas_ue_context_t option \<Rightarrow> uesim_error \<times> nas_ue_context_t option" where
  "nas_destroy_ue_context ue p = (case p of
     None \<Rightarrow> (UESIM_ERROR_INVALID_PARAM, None)
   | Some c \<Rightarrow> if ue then (UESIM_SUCCESS, None) else (UESIM_ERROR_INVALID_PARAM, p))"

text \<open>The module works on the pointer to the NAS context that the UE keeps.\<close>

definition nas_init ::
  "os \<Rightarrow> int \<Rightarrow> bool \<Rightarrow> nas_ue_context_t option \<times> u32 \<Rightarrow> uesim_error \<times> nas_ue_context_t option \<times> u32" where
  "nas_init s now ue st = (case st of (slot, g) \<Rightarrow>
     if \<not> ue then (UESIM_ERROR_INVALID_PARAM, slot, g)
     else case nas_create_ue_context s now ue True g of
       (Inl r, g') \<Rightarrow> (r, slot, g')
     | (Inr c, g') \<Rightarrow> (UESIM_SUCCESS, Some c, g'))"

definition nas_cleanup :: "bool \<Rightarrow> nas_ue_context_t option \<Rightarrow> nas_ue_context_t option" where
  "nas_cleanup ue slot = (if ue then None else slot)"

definition nas_activate_ue_context :: "os \<Rightarrow> nas_ue_context_t option \<Rightarrow> uesim_error \<times> nas_ue_context_t option" where
  "nas_activate_ue_context s p = with_ptr p (\<lambda>c. locked s c (UESIM_SUCCESS, c\<lparr>nc_active := True\<rparr>))"

definition nas_deactivate_ue_context :: "os \<Rightarrow> nas_ue_context_t option \<Rightarrow> uesim_error \<times> nas_ue_context_t option" where
  "nas_deactivate_ue_context s p = with_ptr p (\<lambda>c. locked s c (UESIM_SUCCESS, c\<lparr>nc_active := False\<rparr>))"

definition nas_update_5gmm_state ::
  "os \<Rightarrow> nas_5gmm_state \<Rightarrow> nas_ue_context_t option \<Rightarrow> uesim_error \<times> nas_ue_context_t option" where
  "nas_update_5gmm_state s st p = with_ptr p (\<lambda>c. locked s c (UESIM_SUCCESS, c\<lparr>nc_mm_state := st\<rparr>))"

text \<open>An operation on one session under its mutex.\<close>

definition on_pdu ::
  "os \<Rightarrow> u8 \<Rightarrow> (nas_pdu_session_t \<Rightarrow> nas_pdu_session_t) \<Rightarrow> nas_ue_context_t option
    \<Rightarrow> uesim_error \<times> nas_ue_context_t option" where
  "on_pdu s i f p = with_ptr p (\<lambda>c.
     if NAS_MAX_PDU_SESSIONS \<le> unat i then (UESIM_ERROR_INVALID_PARAM, c)
     else locked s c (UESIM_SUCCESS, upd_pdu i f c))"

definition nas_update_5gsm_state ::
  "os \<Rightarrow> u8 \<Rightarrow> nas_5gsm_state \<Rightarrow> nas_ue_context_t option \<Rightarrow> uesim_error \<times> nas_ue_context_t option" where
  "nas_update_5gsm_state s i st = on_pdu s i (\<lambda>x. x\<lparr>np_state := st\<rparr>)"

end
