(* ===== verification/Nas_Security.thy ===== *)
theory Nas_Security
  imports Nas
begin

text \<open>
  Messages of \<^verbatim>\<open>src/nas/nas.c\<close>: their codec, their protection under the security context, the derivation
  of the keys, and the validation of an authentication response.
\<close>

section \<open>Messages\<close>

text \<open>The size of the header structure, with its padding; it is the bound of the code, not what it writes.\<close>

definition sizeof_nas_header :: nat where "sizeof_nas_header = 20"

definition payload :: "nas_message_t \<Rightarrow> u8 list option" where
  "payload m = map_option (take (nm_length m)) (nm_data m)"

definition encoded_header :: "nas_message_t \<Rightarrow> u8 list" where
  "encoded_header m = [nm_epd m, push_bit 4 (nm_security_header m) OR nm_type m] @
     (if nm_security_header m \<noteq> NAS_SECURITY_HEADER_PLAIN then word_bytes (nm_mac m) @ [nm_sequence m] else [])"

text \<open>\<open>junk\<close> is the content of the allocated block; the octets behind the data keep it.\<close>

definition nas_encode_message ::
  "os \<Rightarrow> (nat \<Rightarrow> u8) \<Rightarrow> nas_message_t option \<Rightarrow> bool \<Rightarrow> uesim_error + u8 list" where
  "nas_encode_message s junk p ptrs = (case p of
     None \<Rightarrow> Inl UESIM_ERROR_INVALID_PARAM
   | Some m \<Rightarrow>
       if \<not> ptrs then Inl UESIM_ERROR_INVALID_PARAM
       else if \<not> alloc_ok s 0 then Inl UESIM_ERROR_MEMORY
       else Inr (blit (map junk [0..<sizeof_nas_header + nm_length m]) 0
              (encoded_header m @ (case payload m of None \<Rightarrow> [] | Some bs \<Rightarrow> bs))))"

text \<open>
  The decoder writes into the message of the caller, also where it fails afterwards. \<open>None\<close> is a read
  behind the only octet.
\<close>

definition decode_body :: "os \<Rightarrow> int \<Rightarrow> u8 list \<Rightarrow> nas_message_t \<Rightarrow> uesim_error \<times> nas_message_t" where
  "decode_body s now rest m =
     (if rest = [] then (UESIM_SUCCESS, m\<lparr>nm_length := 0, nm_arrival := now, nm_integrity_protected := False, nm_ciphered := False\<rparr>)
      else if \<not> alloc_ok s 0 then (UESIM_ERROR_MEMORY, m\<lparr>nm_length := length rest, nm_data := None\<rparr>)
      else (UESIM_SUCCESS, m\<lparr>nm_length := length rest, nm_data := Some rest, nm_arrival := now,
              nm_integrity_protected := False, nm_ciphered := False\<rparr>))"

definition nas_decode_message ::
  "os \<Rightarrow> int \<Rightarrow> u8 list option \<Rightarrow> nas_message_t option \<Rightarrow> (uesim_error \<times> nas_message_t option) option" where
  "nas_decode_message s now buf p = (case (buf, p) of
     (Some bs, Some m) \<Rightarrow>
       if bs = [] then Some (UESIM_ERROR_INVALID_PARAM, p)
       else if length bs = 1 then None
       else let m = m\<lparr>nm_epd := bs ! 0, nm_security_header := drop_bit 4 (bs ! 1) AND 0x0F,
                      nm_type := (bs ! 1) AND 0x0F\<rparr>
       in if nm_security_header m = NAS_SECURITY_HEADER_PLAIN
          then (case decode_body s now (drop 2 bs) m of (r, m') \<Rightarrow> Some (r, Some m'))
          else if length bs < sizeof_nas_header then Some (UESIM_ERROR_INVALID_PARAM, Some m)
          else (case decode_body s now (drop 7 bs)
                  (m\<lparr>nm_mac := bytes_word (take 4 (drop 2 bs)), nm_sequence := bs ! 6\<rparr>)
                of (r, m') \<Rightarrow> Some (r, Some m'))
   | _ \<Rightarrow> Some (UESIM_ERROR_INVALID_PARAM, p))"

definition new_message :: "int \<Rightarrow> u8 \<Rightarrow> u8 list option \<Rightarrow> nas_message_t" where
  "new_message now t data = \<lparr>nm_epd = 0x7E, nm_security_header = NAS_SECURITY_HEADER_PLAIN, nm_type = t,
     nm_mac = 0, nm_sequence = 0,
     nm_data = (case data of Some (b # bs) \<Rightarrow> Some (b # bs) | _ \<Rightarrow> None),
     nm_length = (case data of Some bs \<Rightarrow> length bs | None \<Rightarrow> 0),
     nm_arrival = now, nm_integrity_protected = False, nm_ciphered = False\<rparr>"

definition nas_create_message ::
  "os \<Rightarrow> int \<Rightarrow> u8 \<Rightarrow> u8 list option \<Rightarrow> bool \<Rightarrow> uesim_error + nas_message_t" where
  "nas_create_message s now t data out =
     (if \<not> out then Inl UESIM_ERROR_INVALID_PARAM
      else if \<not> alloc_ok s 0 then Inl UESIM_ERROR_MEMORY
      else case data of
        Some (b # bs) \<Rightarrow> if alloc_ok s 1 then Inr (new_message now t data) else Inl UESIM_ERROR_MEMORY
      | _ \<Rightarrow> Inr (new_message now t data))"

definition nas_destroy_message :: "nas_message_t option \<Rightarrow> uesim_error \<times> nas_message_t option" where
  "nas_destroy_message p = (case p of None \<Rightarrow> (UESIM_ERROR_INVALID_PARAM, None) | Some m \<Rightarrow> (UESIM_SUCCESS, None))"

section \<open>Protection\<close>

text \<open>A guard for two pointers.\<close>

fun with_both ::
  "'a option \<Rightarrow> 'b option \<Rightarrow> ('a \<Rightarrow> 'b \<Rightarrow> uesim_error \<times> 'a \<times> 'b) \<Rightarrow> uesim_error \<times> 'a option \<times> 'b option" where
  "with_both (Some x) (Some y) f = (case f x y of (r, x', y') \<Rightarrow> (r, Some x', Some y'))"
| "with_both p q f = (UESIM_ERROR_INVALID_PARAM, p, q)"

text \<open>The algorithms; \<open>None\<close> is the default branch.\<close>

definition nas_mac_with :: "alg \<Rightarrow> u8 list \<Rightarrow> u8 list option \<Rightarrow> cipher_params \<Rightarrow> (uesim_error + u32) option" where
  "nas_mac_with a k d q =
     (if a = 1 then Some (snow3g_compute_mac (Some k) (Some q) d True)
      else if a = 2 then Some (aes_compute_mac (Some k) (Some q) d True)
      else if a = 3 then Some (zuc_compute_mac (Some k) (Some q) d True)
      else None)"

definition nas_encrypt_with :: "alg \<Rightarrow> u8 list \<Rightarrow> u8 list option \<Rightarrow> cipher_params \<Rightarrow> (uesim_error + u8 list) option" where
  "nas_encrypt_with a k d q =
     (if a = 1 then Some (snow3g_encrypt (Some k) (Some q) d True)
      else if a = 2 then Some (aes_encrypt (Some k) (Some q) d True)
      else if a = 3 then Some (zuc_encrypt (Some k) (Some q) d True)
      else None)"

definition nas_decrypt_with :: "alg \<Rightarrow> u8 list \<Rightarrow> u8 list option \<Rightarrow> cipher_params \<Rightarrow> (uesim_error + u8 list) option" where
  "nas_decrypt_with a k d q =
     (if a = 1 then Some (snow3g_decrypt (Some k) (Some q) d True)
      else if a = 2 then Some (aes_decrypt (Some k) (Some q) d True)
      else if a = 3 then Some (zuc_decrypt (Some k) (Some q) d True)
      else None)"

definition uplink_params :: "nas_security_context_t \<Rightarrow> cipher_params" where
  "uplink_params k = \<lparr>count = nk_uplink_count k, bearer = 0, direction = 0\<rparr>"

definition downlink_params :: "nas_security_context_t \<Rightarrow> cipher_params" where
  "downlink_params k = \<lparr>count = nk_downlink_count k, bearer = 0, direction = 1\<rparr>"

definition nas_integrity_protect_message ::
  "nas_ue_context_t option \<Rightarrow> nas_message_t option \<Rightarrow> uesim_error \<times> nas_ue_context_t option \<times> nas_message_t option" where
  "nas_integrity_protect_message p q = with_both p q (\<lambda>c m. let k = nc_security c in
     if \<not> nk_valid k then (UESIM_SUCCESS, c, m)
     else if nk_integrity_alg k = NAS_INTEGRITY_ALG_NIA0
     then (UESIM_SUCCESS, c, m\<lparr>nm_integrity_protected := False\<rparr>)
     else case nas_mac_with (nk_integrity_alg k) (nk_knas_int k) (payload m) (uplink_params k) of
       None \<Rightarrow> (UESIM_SUCCESS, c, m\<lparr>nm_integrity_protected := False\<rparr>)
     | Some (Inl r) \<Rightarrow> (r, c, m)
     | Some (Inr mac) \<Rightarrow> (UESIM_SUCCESS,
         upd_security (\<lambda>k. k\<lparr>nk_uplink_count := nk_uplink_count k + 1\<rparr>) c,
         m\<lparr>nm_integrity_protected := True, nm_mac := mac\<rparr>))"

definition nas_verify_integrity_protection ::
  "nas_message_t option \<Rightarrow> bool \<Rightarrow> nas_ue_context_t option \<Rightarrow> (uesim_error + bool) \<times> nas_ue_context_t option" where
  "nas_verify_integrity_protection q out p = with_obj p (\<lambda>c. case q of
     None \<Rightarrow> (Inl UESIM_ERROR_INVALID_PARAM, c)
   | Some m \<Rightarrow> let k = nc_security c in
       if \<not> out then (Inl UESIM_ERROR_INVALID_PARAM, c)
       else if \<not> nk_valid k \<or> \<not> nm_integrity_protected m \<or> nk_integrity_alg k = NAS_INTEGRITY_ALG_NIA0
       then (Inr True, c)
       else case nas_mac_with (nk_integrity_alg k) (nk_knas_int k) (payload m) (downlink_params k) of
         None \<Rightarrow> (Inr True, c)
       | Some (Inl r) \<Rightarrow> (Inl r, c)
       | Some (Inr mac) \<Rightarrow> (Inr (mac = nm_mac m),
           upd_security (\<lambda>k. k\<lparr>nk_downlink_count := nk_downlink_count k + 1\<rparr>) c))"

text \<open>Ciphering and deciphering write the result over the data.\<close>

definition overwrite_data :: "u8 list \<Rightarrow> nas_message_t \<Rightarrow> nas_message_t" where
  "overwrite_data bs m = m\<lparr>nm_data := map_option (\<lambda>d. blit d 0 bs) (nm_data m)\<rparr>"

definition nas_cipher_message ::
  "nas_ue_context_t option \<Rightarrow> nas_message_t option \<Rightarrow> uesim_error \<times> nas_ue_context_t option \<times> nas_message_t option" where
  "nas_cipher_message p q = with_both p q (\<lambda>c m. let k = nc_security c in
     if \<not> nk_valid k then (UESIM_SUCCESS, c, m)
     else if nk_ciphering_alg k = NAS_CIPHERING_ALG_NEA0 \<or> nm_data m = None \<or> nm_length m = 0
     then (UESIM_SUCCESS, c, m\<lparr>nm_ciphered := False\<rparr>)
     else case nas_encrypt_with (nk_ciphering_alg k) (nk_knas_enc k) (payload m) (uplink_params k) of
       None \<Rightarrow> (UESIM_SUCCESS, c, m\<lparr>nm_ciphered := False\<rparr>)
     | Some (Inl r) \<Rightarrow> (r, c, m)
     | Some (Inr bs) \<Rightarrow> (UESIM_SUCCESS, c, (overwrite_data bs m)\<lparr>nm_ciphered := True\<rparr>))"

definition nas_decipher_message ::
  "nas_ue_context_t option \<Rightarrow> nas_message_t option \<Rightarrow> uesim_error \<times> nas_ue_context_t option \<times> nas_message_t option" where
  "nas_decipher_message p q = with_both p q (\<lambda>c m. let k = nc_security c in
     if \<not> nk_valid k then (UESIM_SUCCESS, c, m)
     else if nk_ciphering_alg k = NAS_CIPHERING_ALG_NEA0 \<or> nm_data m = None \<or> nm_length m = 0
     then (UESIM_SUCCESS, c, m\<lparr>nm_ciphered := False\<rparr>)
     else case nas_decrypt_with (nk_ciphering_alg k) (nk_knas_enc k) (payload m) (downlink_params k) of
       None \<Rightarrow> (UESIM_SUCCESS, c, m\<lparr>nm_ciphered := False\<rparr>)
     | Some (Inl r) \<Rightarrow> (r, c, m)
     | Some (Inr bs) \<Rightarrow> (UESIM_SUCCESS, c, (overwrite_data bs m)\<lparr>nm_ciphered := False\<rparr>))"

text \<open>
  Received messages are counted by the context and dispatched to no handler. The copy that is
  deciphered shares its data with the message.
\<close>

definition received_data ::
  "nas_ue_context_t \<Rightarrow> nas_message_t \<Rightarrow> uesim_error \<times> nas_message_t" where
  "received_data c m = (if nm_ciphered m
     then (case nas_decipher_message (Some c) (Some m) of
        (r, p, Some t) \<Rightarrow> (r, m\<lparr>nm_data := nm_data t\<rparr>) | (r, p, None) \<Rightarrow> (r, m))
     else (UESIM_SUCCESS, m))"

definition nas_process_message ::
  "os \<Rightarrow> nas_ue_context_t option \<Rightarrow> nas_message_t option
    \<Rightarrow> uesim_error \<times> nas_ue_context_t option \<times> nas_message_t option" where
  "nas_process_message s p q = with_both p q (\<lambda>c m.
     if \<not> nc_active c then (UESIM_ERROR_INVALID_PARAM, c, m)
     else case (if nm_integrity_protected m then nas_verify_integrity_protection (Some m) True (Some c)
                else (Inr True, Some c)) of
       (Inl r, p') \<Rightarrow> (r, the p', m)
     | (Inr False, p') \<Rightarrow> (UESIM_ERROR_PROTOCOL, the p', m)
     | (Inr True, p') \<Rightarrow> (case received_data (the p') m of (r, m') \<Rightarrow>
         if r \<noteq> UESIM_SUCCESS then (r, the p', m')
         else case count_stat s 0 (\<lambda>t. t\<lparr>nt_messages_received := nt_messages_received t + 1\<rparr>) (the p') of
           (r, c') \<Rightarrow> (r, c', m')))"

text \<open>A message that is sent is protected and counted; the lower layers are not called.\<close>

definition nas_send_message ::
  "os \<Rightarrow> nas_ue_context_t option \<Rightarrow> nas_message_t option
    \<Rightarrow> uesim_error \<times> nas_ue_context_t option \<times> nas_message_t option" where
  "nas_send_message s p q = with_both p q (\<lambda>c m.
     if \<not> nc_active c then (UESIM_ERROR_INVALID_PARAM, c, m)
     else case (if \<not> nk_valid (nc_security c) then (UESIM_SUCCESS, Some c, Some m)
           else case nas_integrity_protect_message (Some c) (Some m) of
             (r, p', q') \<Rightarrow>
               if r \<noteq> UESIM_SUCCESS \<or> nk_ciphering_alg (nc_security (the p')) = NAS_CIPHERING_ALG_NEA0
               then (r, p', q') else nas_cipher_message p' q') of
       (r, p', q') \<Rightarrow>
         if r \<noteq> UESIM_SUCCESS then (r, the p', the q')
         else case count_stat s 0 (\<lambda>t. t\<lparr>nt_messages_sent := nt_messages_sent t + 1\<rparr>) (the p') of
           (r, c') \<Rightarrow> (r, c', the q'))"

section \<open>Security contexts\<close>

definition new_algs :: "alg \<Rightarrow> alg \<Rightarrow> nas_security_context_t \<Rightarrow> nas_security_context_t" where
  "new_algs a b k = k\<lparr>nk_ciphering_alg := a, nk_integrity_alg := b\<rparr>"

definition nas_create_security_context ::
  "os \<Rightarrow> alg \<Rightarrow> alg \<Rightarrow> nas_ue_context_t option \<Rightarrow> uesim_error \<times> nas_ue_context_t option" where
  "nas_create_security_context s a b p = with_ptr p (\<lambda>c. locked s c (UESIM_SUCCESS,
     upd_security (\<lambda>k. (new_algs a b k)\<lparr>nk_ksi := 0, nk_downlink_count := 0, nk_uplink_count := 0, nk_valid := True\<rparr>) c))"

definition nas_destroy_security_context ::
  "os \<Rightarrow> nas_ue_context_t option \<Rightarrow> uesim_error \<times> nas_ue_context_t option" where
  "nas_destroy_security_context s p = with_ptr p (\<lambda>c. locked s c (UESIM_SUCCESS,
     upd_security (\<lambda>k. k\<lparr>nk_valid := False, nk_knas_enc := replicate 16 0, nk_knas_int := replicate 16 0,
       nk_downlink_count := 0, nk_uplink_count := 0\<rparr>) c))"

definition nas_update_security_context ::
  "os \<Rightarrow> alg \<Rightarrow> alg \<Rightarrow> nas_ue_context_t option \<Rightarrow> uesim_error \<times> nas_ue_context_t option" where
  "nas_update_security_context s a b p = with_ptr p (\<lambda>c. locked s c (UESIM_SUCCESS, upd_security (new_algs a b) c))"

definition nas_set_security_config ::
  "os \<Rightarrow> alg \<Rightarrow> alg \<Rightarrow> nas_ue_context_t option \<Rightarrow> uesim_error \<times> nas_ue_context_t option" where
  "nas_set_security_config s a b p = with_ptr p (\<lambda>c. locked s c (UESIM_SUCCESS, upd_security (new_algs a b) c))"

section \<open>Keys\<close>

definition rotl1 :: "u8 \<Rightarrow> u8" where "rotl1 x = push_bit 1 x OR drop_bit 7 x"

text \<open>The octets of the input are mixed into one octet, each by exclusive or and a rotation.\<close>

definition absorb :: "u8 list \<Rightarrow> u8 \<Rightarrow> u8" where
  "absorb bs a = fold (\<lambda>b a. rotl1 (a XOR b)) bs a"

definition len_octets :: "nat \<Rightarrow> u8 list" where
  "len_octets n = [of_nat (n div 256), of_nat n]"

definition nas_kdf :: "u8 list \<Rightarrow> u8 \<Rightarrow> u8 list \<Rightarrow> u8 list \<Rightarrow> nat \<Rightarrow> u8 list" where
  "nas_kdf key fc p0 p1 n = (let
     s = [fc] @ (if p0 \<noteq> [] then p0 @ len_octets (length p0) else [])
              @ (if p1 \<noteq> [] then p1 @ len_octets (length p1) else [])
   in map (\<lambda>i. absorb s (key ! (i mod length key)) XOR key ! ((i + 7) mod length key) XOR (fc + of_nat i)) [0..<n])"

definition derived_keys :: "u8 list \<Rightarrow> nas_security_context_t \<Rightarrow> nas_security_context_t" where
  "derived_keys kamf k = k\<lparr>nk_knas_enc := nas_kdf kamf 0x69 [0x03] [of_nat (nk_ciphering_alg k)] 16,
     nk_knas_int := nas_kdf kamf 0x69 [0x04] [of_nat (nk_integrity_alg k)] 16\<rparr>"

text \<open>The key has 32 octets.\<close>

definition nas_derive_nas_keys ::
  "os \<Rightarrow> u8 list option \<Rightarrow> nas_ue_context_t option \<Rightarrow> uesim_error \<times> nas_ue_context_t option" where
  "nas_derive_nas_keys s kamf p = with_ptr p (\<lambda>c. case kamf of
     None \<Rightarrow> (UESIM_ERROR_INVALID_PARAM, c)
   | Some key \<Rightarrow> locked s c (UESIM_SUCCESS, upd_security (derived_keys key) c))"

definition nas_derive_nas_keys_from_kasme ::
  "os \<Rightarrow> u8 list option \<Rightarrow> nas_ue_context_t option \<Rightarrow> uesim_error \<times> nas_ue_context_t option" where
  "nas_derive_nas_keys_from_kasme s kasme p = nas_derive_nas_keys s kasme p"

section \<open>Authentication responses\<close>

text \<open>\<open>rnd\<close> gives the results of the calls of \<^verbatim>\<open>rand\<close>, three for every octet, then one for every octet.\<close>

definition nas_generate_authentication_vector ::
  "(nat \<Rightarrow> u32) \<Rightarrow> bool \<Rightarrow> nas_auth_vector_t option \<Rightarrow> uesim_error \<times> nas_auth_vector_t option" where
  "nas_generate_authentication_vector rnd ctx p = (if \<not> ctx then (UESIM_ERROR_INVALID_PARAM, p)
     else with_ptr p (\<lambda>v. (UESIM_SUCCESS, v\<lparr>
       av_rand := map (\<lambda>i. ucast (rnd (3 * i) AND 0xFF)) [0..<16],
       av_xres := map (\<lambda>i. ucast (rnd (3 * i + 1) AND 0xFF)) [0..<16],
       av_autn := map (\<lambda>i. ucast (rnd (3 * i + 2) AND 0xFF)) [0..<16],
       av_kasme := map (\<lambda>i. ucast (rnd (48 + i) AND 0xFF)) [0..<32],
       av_used := False\<rparr>)))"

definition constant_time_memcmp :: "u8 list \<Rightarrow> u8 list \<Rightarrow> nat \<Rightarrow> u8" where
  "constant_time_memcmp a b n = fold (\<lambda>i r. r OR (a ! i XOR b ! i)) [0..<n] 0"

definition nas_compute_res_star :: "u8 list \<Rightarrow> u8 list \<Rightarrow> u8 list \<Rightarrow> nat \<Rightarrow> u8 list" where
  "nas_compute_res_star res ck ik n = (let
     s = [0x6B] @ res @ len_octets (length res) @ ck @ ik @ [0, 32]
   in map (\<lambda>i. absorb s (ck ! (i mod 16) XOR ik ! (i mod 16)) XOR (0x6B + of_nat i)) [0..<n])"

definition aka_valid :: "nas_auth_vector_t \<Rightarrow> u8 list \<Rightarrow> bool" where
  "aka_valid v response = (let
     res = take 16 response;
     ck = take 16 (av_kasme v);
     ik = drop 16 (av_kasme v)
   in constant_time_memcmp (nas_compute_res_star res ck ik 32) (nas_compute_res_star (av_xres v) ck ik 32) 32 = 0)"

definition at_res_valid :: "nas_auth_vector_t \<Rightarrow> u8 list \<Rightarrow> nat \<Rightarrow> bool" where
  "at_res_valid v r off = (let res_bytes = (unat (r ! (off + 2)) + 7) div 8 in
     off + 4 + res_bytes \<le> length r \<and> res_bytes = 16
       \<and> constant_time_memcmp (take 16 (drop (off + 4) r)) (av_xres v) 16 = 0)"

text \<open>
  The search for the attribute with the response. The length of a skipped attribute is four times an
  octet, computed in eight bits; \<open>None\<close> is a search that does not end.
\<close>

definition attr_len :: "u8 list \<Rightarrow> nat \<Rightarrow> nat" where
  "attr_len r off = unat (4 * r ! (off + 1))"

partial_function (option) eap_scan :: "nas_auth_vector_t \<Rightarrow> u8 list \<Rightarrow> nat \<Rightarrow> bool option" where
  "eap_scan v r off =
     (if length r < off + 4 then Some False
      else if r ! off = 0x03 then Some (at_res_valid v r off)
      else eap_scan v r (off + attr_len r off))"

definition eap_valid :: "nas_auth_vector_t \<Rightarrow> u8 list \<Rightarrow> bool option" where
  "eap_valid v r =
     (if length r < 16 then Some False
      else if r ! 0 \<noteq> 1 then Some False
      else if r ! 4 \<noteq> 50 then Some False
      else eap_scan v r 5)"

definition accept_vector :: "nas_auth_context_t \<Rightarrow> nas_auth_context_t" where
  "accept_vector a = a\<lparr>
     au_vectors := (au_vectors a)[unat (au_current_vector a) := (au_vectors a ! unat (au_current_vector a))\<lparr>av_used := True\<rparr>],
     au_authenticated := True,
     au_current_vector := (if unat (au_current_vector a) + 1 < unat (au_num_vectors a)
       then au_current_vector a + 1 else au_current_vector a)\<rparr>"

definition nas_validate_authentication_response ::
  "u8 list option \<Rightarrow> bool \<Rightarrow> nas_ue_context_t option \<Rightarrow> ((uesim_error + bool) \<times> nas_ue_context_t option) option" where
  "nas_validate_authentication_response response out p = (case (p, response) of
     (Some c, Some r) \<Rightarrow>
       let a = nc_auth c; v = au_vectors a ! unat (au_current_vector a) in
       if r = [] \<or> \<not> out \<or> au_num_vectors a = 0 \<or> av_used v then Some (Inl UESIM_ERROR_INVALID_PARAM, p)
       else map_option (\<lambda>valid. (Inr valid, Some (if valid then c\<lparr>nc_auth := accept_vector a\<rparr> else c)))
         (case au_type a of
            NAS_AUTHENTICATION_TYPE_5G_AKA \<Rightarrow> Some (aka_valid v r)
          | NAS_AUTHENTICATION_TYPE_5G_AKA_PRIME \<Rightarrow> Some (aka_valid v r)
          | NAS_AUTHENTICATION_TYPE_EAP \<Rightarrow> eap_valid v r
          | NAS_AUTHENTICATION_TYPE_NONE \<Rightarrow> Some False)
   | _ \<Rightarrow> Some (Inl UESIM_ERROR_INVALID_PARAM, p))"

end
