(* ===== verification/Nas_Procedures.thy ===== *)
theory Nas_Procedures
  imports Nas_Security
begin

text \<open>
  The procedures of \<^verbatim>\<open>src/nas/nas.c\<close>: registration, authentication, security mode, sessions and their
  flows, timers and statistics. Structures that are sent are turned into octets by a function the
  caller gives, for their layout in memory. Locks are counted in the order of the calls; where the code
  ignores the result of an operation, so does the model.
\<close>

definition when_nas_active :: "nas_ue_context_t \<Rightarrow> uesim_error \<times> nas_ue_context_t \<Rightarrow> uesim_error \<times> nas_ue_context_t" where
  "when_nas_active c res = (if nc_active c then res else (UESIM_ERROR_INVALID_PARAM, c))"

text \<open>Creating a message, sending it and destroying it; \<open>k\<close> locks were taken before.\<close>

definition send_new ::
  "os \<Rightarrow> nat \<Rightarrow> int \<Rightarrow> u8 \<Rightarrow> u8 list option \<Rightarrow> nas_ue_context_t \<Rightarrow> uesim_error \<times> nas_ue_context_t" where
  "send_new s k now t data c = (case nas_create_message s now t data True of
     Inl r \<Rightarrow> (r, c)
   | Inr m \<Rightarrow> (case nas_send_message (after_locks k s) (Some c) (Some m) of (r, p', q') \<Rightarrow> (r, the p')))"

text \<open>The next step of a procedure, only after a success.\<close>

definition then_do :: "uesim_error \<times> 'c \<Rightarrow> ('c \<Rightarrow> uesim_error \<times> 'c) \<Rightarrow> uesim_error \<times> 'c" where
  "then_do res f = (case res of (r, c) \<Rightarrow> if r = UESIM_SUCCESS then f c else (r, c))"

definition set_mm_state :: "os \<Rightarrow> nas_5gmm_state \<Rightarrow> nas_ue_context_t \<Rightarrow> nas_ue_context_t" where
  "set_mm_state s st c = the (snd (nas_update_5gmm_state s st (Some c)))"

definition set_sm_state :: "os \<Rightarrow> u8 \<Rightarrow> nas_5gsm_state \<Rightarrow> nas_ue_context_t \<Rightarrow> nas_ue_context_t" where
  "set_sm_state s i st c = the (snd (nas_update_5gsm_state s i st (Some c)))"

section \<open>Identity\<close>

definition nas_update_ue_identity ::
  "os \<Rightarrow> nas_ue_identity_t option \<Rightarrow> nas_ue_context_t option \<Rightarrow> uesim_error \<times> nas_ue_context_t option" where
  "nas_update_ue_identity s i p = with_ptr p (\<lambda>c. case i of
     None \<Rightarrow> (UESIM_ERROR_INVALID_PARAM, c)
   | Some x \<Rightarrow> locked s c (UESIM_SUCCESS, c\<lparr>nc_identity := x\<rparr>))"

definition nas_get_ue_identity :: "os \<Rightarrow> bool \<Rightarrow> nas_ue_context_t option \<Rightarrow> uesim_error + nas_ue_identity_t" where
  "nas_get_ue_identity s out p = (case p of None \<Rightarrow> Inl UESIM_ERROR_INVALID_PARAM
   | Some c \<Rightarrow> if \<not> out then Inl UESIM_ERROR_INVALID_PARAM
       else if lock_ok s 0 then Inr (nc_identity c) else Inl UESIM_ERROR_THREAD)"

section \<open>Registration\<close>

record nas_registration_request_t =
  nr_registration_type :: u8
  nr_ngksi_tsc :: bool
  nr_ngksi_value :: u8
  nr_identity_type :: u8
  nr_mobile_identity :: string
  nr_follow_on_request :: bool
  nr_uplink_data_status :: bool
  nr_allowed_pdu_session_status :: u16
  nr_n1_mode_reg :: bool
  nr_sms_requested :: bool

definition registration_request :: "u8 \<Rightarrow> nas_ue_context_t \<Rightarrow> nas_registration_request_t" where
  "registration_request ty c = \<lparr>nr_registration_type = ty, nr_ngksi_tsc = False, nr_ngksi_value = 7,
     nr_identity_type = 1, nr_mobile_identity = ni_suci (nc_identity c), nr_follow_on_request = False,
     nr_uplink_data_status = False, nr_allowed_pdu_session_status = 0, nr_n1_mode_reg = False,
     nr_sms_requested = False\<rparr>"

definition nas_initiate_registration ::
  "(nas_registration_request_t \<Rightarrow> u8 list) \<Rightarrow> os \<Rightarrow> int \<Rightarrow> u8 \<Rightarrow> nas_ue_context_t option
    \<Rightarrow> uesim_error \<times> nas_ue_context_t option" where
  "nas_initiate_registration octets s now ty p = with_ptr p (\<lambda>c. when_nas_active c
     (then_do (send_new s 0 now NAS_MSG_TYPE_REGISTRATION_REQUEST (Some (octets (registration_request ty c))) c)
       (\<lambda>c. count_stat s 2 (\<lambda>t. t\<lparr>nt_registration_requests := nt_registration_requests t + 1\<rparr>)
              (set_mm_state (after_locks 1 s) NAS_5GMM_REGISTERED_INITIATED c))))"

text \<open>The handlers of registration messages get a structure of which they read nothing.\<close>

definition nas_handle_registration_request :: "bool \<Rightarrow> nas_ue_context_t option \<Rightarrow> uesim_error \<times> nas_ue_context_t option" where
  "nas_handle_registration_request req p = with_ptr p (\<lambda>c.
     if \<not> req then (UESIM_ERROR_INVALID_PARAM, c) else when_nas_active c (UESIM_SUCCESS, c))"

definition nas_handle_registration_accept ::
  "os \<Rightarrow> bool \<Rightarrow> nas_ue_context_t option \<Rightarrow> uesim_error \<times> nas_ue_context_t option" where
  "nas_handle_registration_accept s acc p = with_ptr p (\<lambda>c.
     if \<not> acc then (UESIM_ERROR_INVALID_PARAM, c)
     else when_nas_active c
       (let c = the (snd (nas_update_ue_identity s (Some (nc_identity c)) (Some c)));
            c = set_mm_state (after_locks 1 s) NAS_5GMM_REGISTERED c
        in count_stat s 2 (\<lambda>t. t\<lparr>nt_registration_accepts := nt_registration_accepts t + 1\<rparr>) c))"

definition nas_send_registration_complete ::
  "os \<Rightarrow> int \<Rightarrow> nas_ue_context_t option \<Rightarrow> uesim_error \<times> nas_ue_context_t option" where
  "nas_send_registration_complete s now p = with_ptr p (\<lambda>c. when_nas_active c
     (send_new s 0 now NAS_MSG_TYPE_REGISTRATION_COMPLETE None c))"

definition nas_is_ue_registered :: "nas_ue_context_t option \<Rightarrow> bool" where
  "nas_is_ue_registered p = (case p of None \<Rightarrow> False | Some c \<Rightarrow> nc_mm_state c = NAS_5GMM_REGISTERED)"

definition nas_set_registration_config :: "nas_ue_context_t option \<Rightarrow> uesim_error" where
  "nas_set_registration_config p = (if p = None then UESIM_ERROR_INVALID_PARAM else UESIM_SUCCESS)"

section \<open>Authentication\<close>

definition nas_initiate_authentication :: "nas_ue_context_t option \<Rightarrow> uesim_error \<times> nas_ue_context_t option" where
  "nas_initiate_authentication p = with_ptr p (\<lambda>c. when_nas_active c (UESIM_SUCCESS, c))"

definition nas_send_authentication_response ::
  "os \<Rightarrow> int \<Rightarrow> u8 list option \<Rightarrow> nas_ue_context_t option \<Rightarrow> uesim_error \<times> nas_ue_context_t option" where
  "nas_send_authentication_response s now data p = with_ptr p (\<lambda>c. case data of
     None \<Rightarrow> (UESIM_ERROR_INVALID_PARAM, c)
   | Some bs \<Rightarrow> if bs = [] then (UESIM_ERROR_INVALID_PARAM, c)
       else when_nas_active c
         (then_do (send_new s 0 now NAS_MSG_TYPE_AUTHENTICATION_RESPONSE (Some bs) c)
            (count_stat s 1 (\<lambda>t. t\<lparr>nt_authentication_responses := nt_authentication_responses t + 1\<rparr>))))"

text \<open>The response and the keys, from what the request carries.\<close>

definition aka_res :: "u8 \<Rightarrow> u8 list \<Rightarrow> u8 list \<Rightarrow> u8 list" where
  "aka_res ksi rand autn = map (\<lambda>i. rand ! i XOR autn ! i XOR (ksi + of_nat i)) [0..<16]"

definition store_challenge :: "u8 list \<Rightarrow> u8 list \<Rightarrow> nas_auth_context_t \<Rightarrow> nas_auth_context_t" where
  "store_challenge rand autn a = a\<lparr>au_type := NAS_AUTHENTICATION_TYPE_5G_AKA, au_current_vector := 0,
     au_vectors := (au_vectors a)[0 := (au_vectors a ! 0)\<lparr>av_rand := rand, av_autn := autn, av_used := False\<rparr>],
     au_num_vectors := 1\<rparr>"

definition aka_keys :: "u8 \<Rightarrow> u8 list \<Rightarrow> u8 list \<Rightarrow> nas_security_context_t \<Rightarrow> nas_security_context_t" where
  "aka_keys ksi rand autn k = (let
     res = aka_res ksi rand autn;
     kasme = map (\<lambda>i. rand ! i XOR res ! i) [0..<16] @ map (\<lambda>i. autn ! i XOR res ! i) [0..<16]
   in k\<lparr>nk_knas_enc := map (\<lambda>i. kasme ! i XOR 0xAA) [0..<16],
        nk_knas_int := map (\<lambda>i. kasme ! (i + 16) XOR 0x55) [0..<16], nk_ksi := ksi\<rparr>)"

definition nas_handle_authentication_request ::
  "os \<Rightarrow> int \<Rightarrow> u8 list option \<Rightarrow> nas_ue_context_t option \<Rightarrow> uesim_error \<times> nas_ue_context_t option" where
  "nas_handle_authentication_request s now data p = with_ptr p (\<lambda>c. case data of
     None \<Rightarrow> (UESIM_ERROR_INVALID_PARAM, c)
   | Some bs \<Rightarrow>
       if bs = [] \<or> \<not> nc_active c then (UESIM_ERROR_INVALID_PARAM, c)
       else if length bs < 33 then (UESIM_ERROR_PROTOCOL, c)
       else if \<not> lock_ok s 0 then (UESIM_ERROR_THREAD, c)
       else let ksi = (bs ! 0) AND 0x07; rand = take 16 (drop 1 bs); autn = take 16 (drop 17 bs);
              c = upd_stats (\<lambda>t. t\<lparr>nt_authentication_requests := nt_authentication_requests t + 1\<rparr>)
                    (c\<lparr>nc_auth := store_challenge rand autn (nc_auth c)\<rparr>)
       in if \<not> lock_ok s 1 then (UESIM_ERROR_THREAD, c)
          else case nas_send_authentication_response (after_locks 2 s) now (Some (aka_res ksi rand autn))
                      (Some (upd_security (aka_keys ksi rand autn) c)) of
            (r, p') \<Rightarrow> (r, the p'))"

definition nas_handle_authentication_result ::
  "os \<Rightarrow> u8 list option \<Rightarrow> nas_ue_context_t option \<Rightarrow> uesim_error \<times> nas_ue_context_t option" where
  "nas_handle_authentication_result s data p = with_ptr p (\<lambda>c.
     if data = None \<or> data = Some [] then (UESIM_ERROR_INVALID_PARAM, c)
     else when_nas_active c (locked s c (UESIM_SUCCESS,
       upd_stats (\<lambda>t. t\<lparr>nt_authentication_success := nt_authentication_success t + 1\<rparr>)
         (c\<lparr>nc_auth := (nc_auth c)\<lparr>au_authenticated := True\<rparr>\<rparr>))))"

section \<open>Security mode\<close>

record nas_security_mode_command_t =
  sm_selected_ciphering :: alg
  sm_selected_integrity :: alg
  sm_ngksi_tsc :: bool
  sm_ngksi_value :: u8

definition nas_initiate_security_mode_control ::
  "nas_ue_context_t option \<Rightarrow> uesim_error \<times> nas_ue_context_t option" where
  "nas_initiate_security_mode_control p = with_ptr p (\<lambda>c. when_nas_active c (UESIM_SUCCESS, c))"

definition nas_send_security_mode_complete ::
  "os \<Rightarrow> int \<Rightarrow> nas_ue_context_t option \<Rightarrow> uesim_error \<times> nas_ue_context_t option" where
  "nas_send_security_mode_complete s now p = with_ptr p (\<lambda>c. when_nas_active c
     (then_do (send_new s 0 now NAS_MSG_TYPE_SECURITY_MODE_COMPLETE None c)
        (count_stat s 1 (\<lambda>t. t\<lparr>nt_security_mode_completes := nt_security_mode_completes t + 1\<rparr>))))"

definition start_security :: "nas_security_mode_command_t \<Rightarrow> nas_security_context_t \<Rightarrow> nas_security_context_t" where
  "start_security cmd k = k\<lparr>nk_ciphering_alg := sm_selected_ciphering cmd,
     nk_integrity_alg := sm_selected_integrity cmd, nk_ksi := sm_ngksi_value cmd,
     nk_downlink_count := 0, nk_uplink_count := 0, nk_valid := True\<rparr>"

text \<open>
  With an authentication vector the keys are derived while the mutex of the security context is held,
  which the derivation locks itself: the handler blocks, and the result is \<open>None\<close>.
\<close>

definition nas_handle_security_mode_command ::
  "os \<Rightarrow> int \<Rightarrow> nas_security_mode_command_t option \<Rightarrow> nas_ue_context_t option
    \<Rightarrow> (uesim_error \<times> nas_ue_context_t option) option" where
  "nas_handle_security_mode_command s now cmd p = (case (p, cmd) of
     (Some c, Some x) \<Rightarrow>
       if \<not> nc_active c then Some (UESIM_ERROR_INVALID_PARAM, p)
       else if NAS_CIPHERING_ALG_NEA3 < sm_selected_ciphering x then Some (UESIM_ERROR_PROTOCOL, p)
       else if NAS_INTEGRITY_ALG_NIA3 < sm_selected_integrity x then Some (UESIM_ERROR_PROTOCOL, p)
       else if \<not> lock_ok s 0 then Some (UESIM_ERROR_THREAD, p)
       else if au_num_vectors (nc_auth c) \<noteq> 0 then None
       else let c = upd_security (start_security x) c
       in if \<not> lock_ok s 1 then Some (UESIM_ERROR_THREAD, Some c)
          else Some (nas_send_security_mode_complete (after_locks 2 s) now
            (Some (upd_stats (\<lambda>t. t\<lparr>nt_security_mode_commands := nt_security_mode_commands t + 1,
                                    nt_security_active := True\<rparr>) c)))
   | _ \<Rightarrow> Some (UESIM_ERROR_INVALID_PARAM, p))"

end
