(* ===== verification/Nas_Sessions.thy ===== *)
theory Nas_Sessions
  imports Nas_Procedures
begin

text \<open>
  Sessions of the NAS context with their flows, timers and statistics, \<^verbatim>\<open>src/nas/nas.c\<close>. The context
  has sixteen sessions, found by their number; the flows of a session are the first \<open>num\<close> of its array
  of eight.
\<close>

definition pdu_at :: "u8 \<Rightarrow> nas_ue_context_t \<Rightarrow> nas_pdu_session_t" where
  "pdu_at i c = nc_sessions c ! unat i"

text \<open>The guards that the operations on a session share.\<close>

definition with_pdu ::
  "u8 \<Rightarrow> nas_ue_context_t option \<Rightarrow> (nas_ue_context_t \<Rightarrow> uesim_error \<times> nas_ue_context_t)
    \<Rightarrow> uesim_error \<times> nas_ue_context_t option" where
  "with_pdu i p f = with_ptr p (\<lambda>c.
     if NAS_MAX_PDU_SESSIONS \<le> unat i then (UESIM_ERROR_INVALID_PARAM, c) else when_nas_active c (f c))"

text \<open>A step under the mutex of the session that is refused unless \<open>ok\<close> holds.\<close>

definition checked ::
  "os \<Rightarrow> nat \<Rightarrow> bool \<Rightarrow> nas_ue_context_t \<Rightarrow> uesim_error \<times> nas_ue_context_t \<Rightarrow> uesim_error \<times> nas_ue_context_t" where
  "checked s n ok c res = (if \<not> lock_ok s n then (UESIM_ERROR_THREAD, c)
     else if \<not> ok then (UESIM_ERROR_INVALID_PARAM, c) else res)"

fun session_type_code :: "nas_pdu_session_type \<Rightarrow> u8" where
  "session_type_code NAS_PDU_SESSION_TYPE_IPV4 = 1"
| "session_type_code NAS_PDU_SESSION_TYPE_IPV6 = 2"
| "session_type_code NAS_PDU_SESSION_TYPE_IPV4V6 = 3"
| "session_type_code NAS_PDU_SESSION_TYPE_UNSTRUCTURED = 4"
| "session_type_code NAS_PDU_SESSION_TYPE_ETHERNET = 5"

section \<open>Establishment\<close>

record nas_pdu_session_establishment_request_t =
  ne_pdu_session_id :: u8
  ne_pdu_session_type :: nas_pdu_session_type
  ne_ssc_mode :: nas_ssc_mode
  ne_ptis :: u8
  ne_request :: "u8 list"
  ne_request_length :: nat

definition nas_initiate_pdu_session_establishment ::
  "(nas_pdu_session_establishment_request_t \<Rightarrow> u8 list) \<Rightarrow> os \<Rightarrow> int \<Rightarrow> u8 \<Rightarrow> nas_pdu_session_type
    \<Rightarrow> nas_ue_context_t option \<Rightarrow> uesim_error \<times> nas_ue_context_t option" where
  "nas_initiate_pdu_session_establishment octets s now i ty p = with_pdu i p (\<lambda>c.
     if i < 1 \<or> 15 < i then (UESIM_ERROR_INVALID_PARAM, c)
     else checked s 0 (\<not> np_active (pdu_at i c)) c
       (then_do (send_new s 1 now NAS_MSG_TYPE_PDU_SESSION_ESTABLISHMENT_REQUEST
           (Some (octets \<lparr>ne_pdu_session_id = i, ne_pdu_session_type = ty, ne_ssc_mode = NAS_SSC_MODE_1,
                    ne_ptis = 1, ne_request = replicate 256 0, ne_request_length = 0\<rparr>)) c)
         (\<lambda>c. count_stat s 3 (\<lambda>t. t\<lparr>nt_pdu_session_est_requests := nt_pdu_session_est_requests t + 1\<rparr>)
                (set_sm_state (after_locks 2 s) i NAS_5GSM_PDU_SESSION_ACTIVE_PENDING c))))"

definition nas_handle_pdu_session_establishment_request ::
  "os \<Rightarrow> nas_pdu_session_establishment_request_t option \<Rightarrow> nas_ue_context_t option
    \<Rightarrow> uesim_error \<times> nas_ue_context_t option" where
  "nas_handle_pdu_session_establishment_request s req p = with_ptr p (\<lambda>c. case req of
     None \<Rightarrow> (UESIM_ERROR_INVALID_PARAM, c)
   | Some q \<Rightarrow> when_nas_active c
       (if NAS_MAX_PDU_SESSIONS \<le> unat (ne_pdu_session_id q) then (UESIM_ERROR_INVALID_PARAM, c)
        else locked s c (UESIM_SUCCESS, upd_pdu (ne_pdu_session_id q) (\<lambda>x. x\<lparr>
          np_pdu_session_id := ne_pdu_session_id q, np_session_type := ne_pdu_session_type q,
          np_ssc_mode := ne_ssc_mode q, np_ptis := ne_ptis q\<rparr>) c)))"

definition default_flow :: nas_qos_flow_t where
  "default_flow = \<lparr>nq_qfi = 1, nq_arp = 1, nq_qci = 5, nq_gbr_ul = 100, nq_gbr_dl = 200, nq_mbr_ul = 1000,
     nq_mbr_dl = 2000, nq_active = True\<rparr>"

definition establish :: "nas_pdu_session_t \<Rightarrow> nas_pdu_session_t" where
  "establish x = x\<lparr>np_active := True, np_pdu_address := 0xC0A80101, np_default_qfi := 1,
     np_session_ambr_ul := 1000, np_session_ambr_dl := 2000, np_ul_teid := 0x12345678,
     np_dl_teid := 0x87654321, np_upf_ip := 0xC0A80102, np_qos_flows := [default_flow]\<rparr>"

definition accept_octets :: "u8 \<Rightarrow> nas_ue_context_t \<Rightarrow> u8 list" where
  "accept_octets i c = [i, session_type_code (np_session_type (pdu_at i c))] @ word_bytes 0xC0A80101 @
     [0x01, 0x08, 0x01, 0x01, 0x05, 0x00, 0x64, 0x00, 0xC8]"

text \<open>The counter of the active sessions is incremented whether or not the session was active before.\<close>

definition nas_send_pdu_session_establishment_accept ::
  "os \<Rightarrow> int \<Rightarrow> u8 \<Rightarrow> nas_ue_context_t option \<Rightarrow> uesim_error \<times> nas_ue_context_t option" where
  "nas_send_pdu_session_establishment_accept s now i p = with_pdu i p (\<lambda>c.
     if i < 1 \<or> 15 < i then (UESIM_ERROR_INVALID_PARAM, c)
     else then_do (send_new s 0 now NAS_MSG_TYPE_PDU_SESSION_ESTABLISHMENT_ACCEPT (Some (accept_octets i c)) c)
       (\<lambda>c. checked s 1 True c
         (let c = set_sm_state (after_locks 2 s) i NAS_5GSM_PDU_SESSION_ACTIVE (upd_pdu i establish c)
          in if \<not> lock_ok s 3 then (UESIM_ERROR_THREAD, c)
             else (UESIM_SUCCESS,
               (upd_stats (\<lambda>t. t\<lparr>nt_pdu_session_est_accepts := nt_pdu_session_est_accepts t + 1\<rparr>) c)
               \<lparr>nc_num_active_sessions := nc_num_active_sessions c + 1\<rparr>))))"

definition nas_handle_pdu_session_establishment_reject ::
  "os \<Rightarrow> u8 \<Rightarrow> u8 \<Rightarrow> nas_ue_context_t option \<Rightarrow> uesim_error \<times> nas_ue_context_t option" where
  "nas_handle_pdu_session_establishment_reject s i cause p = with_pdu i p (\<lambda>c.
     (UESIM_SUCCESS, set_sm_state s i NAS_5GSM_PDU_SESSION_INACTIVE c))"

section \<open>Modification and release\<close>

definition nas_initiate_pdu_session_modification ::
  "os \<Rightarrow> int \<Rightarrow> u8 \<Rightarrow> nas_ue_context_t option \<Rightarrow> uesim_error \<times> nas_ue_context_t option" where
  "nas_initiate_pdu_session_modification s now i p = with_pdu i p (\<lambda>c.
     checked s 0 (np_active (pdu_at i c)) c
       (then_do (send_new s 1 now NAS_MSG_TYPE_PDU_SESSION_MODIFICATION_REQUEST (Some [i, 0x01]) c)
         (\<lambda>c. (UESIM_SUCCESS, set_sm_state (after_locks 2 s) i NAS_5GSM_PDU_SESSION_MODIFICATION_PENDING c))))"

definition nas_initiate_pdu_session_release ::
  "os \<Rightarrow> int \<Rightarrow> u8 \<Rightarrow> nas_ue_context_t option \<Rightarrow> uesim_error \<times> nas_ue_context_t option" where
  "nas_initiate_pdu_session_release s now i p = with_pdu i p (\<lambda>c.
     checked s 0 (np_active (pdu_at i c)) c
       (then_do (send_new s 1 now NAS_MSG_TYPE_PDU_SESSION_RELEASE_REQUEST (Some [i, 0x00]) c)
         (\<lambda>c. (UESIM_SUCCESS, set_sm_state (after_locks 2 s) i NAS_5GSM_PDU_SESSION_RELEASED_PENDING c))))"

definition octets_u16 :: "u8 list \<Rightarrow> nat \<Rightarrow> u16" where
  "octets_u16 bs k = ucast (bs ! k) + 256 * ucast (bs ! (k + 1))"

definition nas_handle_pdu_session_modification_command ::
  "os \<Rightarrow> int \<Rightarrow> u8 \<Rightarrow> u8 list option \<Rightarrow> nas_ue_context_t option \<Rightarrow> uesim_error \<times> nas_ue_context_t option" where
  "nas_handle_pdu_session_modification_command s now i data p = with_ptr p (\<lambda>c.
     if NAS_MAX_PDU_SESSIONS \<le> unat i then (UESIM_ERROR_INVALID_PARAM, c)
     else case data of None \<Rightarrow> (UESIM_ERROR_INVALID_PARAM, c)
     | Some bs \<Rightarrow> if bs = [] then (UESIM_ERROR_INVALID_PARAM, c)
         else when_nas_active c (checked s 0 True c
           (then_do (send_new s 1 now NAS_MSG_TYPE_PDU_SESSION_MODIFICATION_COMPLETE (Some [i])
               (if 4 \<le> length bs then upd_pdu i (\<lambda>x. x\<lparr>np_session_ambr_ul := octets_u16 bs 0,
                  np_session_ambr_dl := octets_u16 bs 2\<rparr>) c else c))
             (\<lambda>c. (UESIM_SUCCESS, set_sm_state (after_locks 2 s) i NAS_5GSM_PDU_SESSION_ACTIVE c)))))"

text \<open>The command itself is not read; the counter is decremented whether or not the session was active.\<close>

definition nas_handle_pdu_session_release_command ::
  "os \<Rightarrow> int \<Rightarrow> u8 \<Rightarrow> nas_ue_context_t option \<Rightarrow> uesim_error \<times> nas_ue_context_t option" where
  "nas_handle_pdu_session_release_command s now i p = with_pdu i p (\<lambda>c. checked s 0 True c
     (let c = upd_pdu i (\<lambda>x. x\<lparr>np_active := False, np_state := NAS_5GSM_PDU_SESSION_INACTIVE\<rparr>) c
      in if \<not> lock_ok s 1 then (UESIM_ERROR_THREAD, c)
         else send_new s 2 now NAS_MSG_TYPE_PDU_SESSION_RELEASE_COMPLETE (Some [i])
           (if 0 < nc_num_active_sessions c
            then c\<lparr>nc_num_active_sessions := nc_num_active_sessions c - 1\<rparr> else c)))"

section \<open>Flows\<close>

definition set_flows :: "u8 \<Rightarrow> (nas_qos_flow_t list \<Rightarrow> nas_qos_flow_t list) \<Rightarrow> nas_ue_context_t \<Rightarrow> nas_ue_context_t" where
  "set_flows i f = upd_pdu i (\<lambda>x. x\<lparr>np_qos_flows := f (np_qos_flows x)\<rparr>)"

definition nas_add_qos_flow ::
  "os \<Rightarrow> u8 \<Rightarrow> nas_qos_flow_t option \<Rightarrow> nas_ue_context_t option \<Rightarrow> uesim_error \<times> nas_ue_context_t option" where
  "nas_add_qos_flow s i flow p = with_ptr p (\<lambda>c. case flow of
     None \<Rightarrow> (UESIM_ERROR_INVALID_PARAM, c)
   | Some f \<Rightarrow> if NAS_MAX_PDU_SESSIONS \<le> unat i then (UESIM_ERROR_INVALID_PARAM, c)
       else when_nas_active c
         (checked s 0 (np_active (pdu_at i c) \<and> length (np_qos_flows (pdu_at i c)) < 8) c
           (UESIM_SUCCESS, set_flows i (\<lambda>fs. fs @ [f\<lparr>nq_active := True\<rparr>]) c)))"

definition nas_remove_qos_flow ::
  "os \<Rightarrow> u8 \<Rightarrow> u8 \<Rightarrow> nas_ue_context_t option \<Rightarrow> uesim_error \<times> nas_ue_context_t option" where
  "nas_remove_qos_flow s i qfi p = with_pdu i p (\<lambda>c. checked s 0 True c
     (UESIM_SUCCESS, case find_index (\<lambda>f. nq_qfi f = qfi) (np_qos_flows (pdu_at i c)) of
        None \<Rightarrow> c | Some k \<Rightarrow> set_flows i (remove_at k) c))"

definition nas_modify_qos_flow ::
  "os \<Rightarrow> u8 \<Rightarrow> nas_qos_flow_t option \<Rightarrow> nas_ue_context_t option \<Rightarrow> uesim_error \<times> nas_ue_context_t option" where
  "nas_modify_qos_flow s i flow p = with_ptr p (\<lambda>c. case flow of
     None \<Rightarrow> (UESIM_ERROR_INVALID_PARAM, c)
   | Some f \<Rightarrow> if NAS_MAX_PDU_SESSIONS \<le> unat i then (UESIM_ERROR_INVALID_PARAM, c)
       else when_nas_active c (checked s 0 True c
         (UESIM_SUCCESS, case find_index (\<lambda>g. nq_qfi g = nq_qfi f) (np_qos_flows (pdu_at i c)) of
            None \<Rightarrow> c | Some k \<Rightarrow> set_flows i (\<lambda>fs. fs[k := f\<lparr>nq_active := True\<rparr>]) c)))"

section \<open>Queries, limits, timers and statistics\<close>

definition nas_is_pdu_session_active :: "bool \<Rightarrow> nas_ue_context_t option \<Rightarrow> u8 \<Rightarrow> bool" where
  "nas_is_pdu_session_active lock p i = (case p of None \<Rightarrow> False
   | Some c \<Rightarrow> unat i < NAS_MAX_PDU_SESSIONS \<and> lock \<and> np_active (pdu_at i c))"

definition nas_get_pdu_session_info ::
  "os \<Rightarrow> u8 \<Rightarrow> bool \<Rightarrow> nas_ue_context_t option \<Rightarrow> uesim_error + nas_pdu_session_t" where
  "nas_get_pdu_session_info s i out p = (case p of None \<Rightarrow> Inl UESIM_ERROR_INVALID_PARAM
   | Some c \<Rightarrow> if NAS_MAX_PDU_SESSIONS \<le> unat i \<or> \<not> out then Inl UESIM_ERROR_INVALID_PARAM
       else if lock_ok s 0 then Inr (pdu_at i c) else Inl UESIM_ERROR_THREAD)"

definition nas_get_all_active_pdu_sessions :: "os \<Rightarrow> bool \<Rightarrow> nas_ue_context_t option \<Rightarrow> uesim_error + u8 list" where
  "nas_get_all_active_pdu_sessions s ptrs p = (if p = None \<or> \<not> ptrs then Inl UESIM_ERROR_INVALID_PARAM
     else Inr (map of_nat (filter (\<lambda>i. nas_is_pdu_session_active (lock_ok s i) p (of_nat i)) [0..<NAS_MAX_PDU_SESSIONS])))"

definition nas_update_pdu_session_ambr ::
  "os \<Rightarrow> u8 \<Rightarrow> u16 \<Rightarrow> u16 \<Rightarrow> nas_ue_context_t option \<Rightarrow> uesim_error \<times> nas_ue_context_t option" where
  "nas_update_pdu_session_ambr s i ul dl = on_pdu s i (\<lambda>x. x\<lparr>np_session_ambr_ul := ul, np_session_ambr_dl := dl\<rparr>)"

definition nas_set_pdu_session_config ::
  "os \<Rightarrow> u8 \<Rightarrow> nas_pdu_session_type \<Rightarrow> nas_ssc_mode \<Rightarrow> nas_ue_context_t option \<Rightarrow> uesim_error \<times> nas_ue_context_t option" where
  "nas_set_pdu_session_config s i ty md = on_pdu s i (\<lambda>x. x\<lparr>np_session_type := ty, np_ssc_mode := md\<rparr>)"

definition nas_start_timer ::
  "os \<Rightarrow> u16 \<Rightarrow> u32 \<Rightarrow> nas_ue_context_t option \<Rightarrow> uesim_error \<times> nas_ue_context_t option" where
  "nas_start_timer s i ms p = with_ptr p (\<lambda>c.
     if i = 3412 then locked s c (UESIM_SUCCESS, c\<lparr>nc_t3412_timer := ms div 1000, nc_t3412_running := True\<rparr>)
     else if i = 3422 then locked s c (UESIM_SUCCESS, c\<lparr>nc_t3422_timer := ms div 1000, nc_t3422_running := True\<rparr>)
     else if i = 3450 then locked s c (UESIM_SUCCESS, c\<lparr>nc_t3450_timer := ms div 1000, nc_t3450_running := True\<rparr>)
     else (UESIM_ERROR_INVALID_PARAM, c))"

definition nas_stop_timer :: "os \<Rightarrow> u16 \<Rightarrow> nas_ue_context_t option \<Rightarrow> uesim_error \<times> nas_ue_context_t option" where
  "nas_stop_timer s i p = with_ptr p (\<lambda>c.
     if i = 3412 then locked s c (UESIM_SUCCESS, c\<lparr>nc_t3412_running := False\<rparr>)
     else if i = 3422 then locked s c (UESIM_SUCCESS, c\<lparr>nc_t3422_running := False\<rparr>)
     else if i = 3450 then locked s c (UESIM_SUCCESS, c\<lparr>nc_t3450_running := False\<rparr>)
     else (UESIM_ERROR_INVALID_PARAM, c))"

definition nas_handle_timer_expiry ::
  "os \<Rightarrow> u16 \<Rightarrow> nas_ue_context_t option \<Rightarrow> uesim_error \<times> nas_ue_context_t option" where
  "nas_handle_timer_expiry s i p = with_ptr p (\<lambda>c. locked s c
     (if i = 3412 \<or> i = 3422 \<or> i = 3450 then UESIM_SUCCESS else UESIM_ERROR_INVALID_PARAM,
      upd_stats (\<lambda>t. t\<lparr>nt_timeout_events := nt_timeout_events t + 1\<rparr>) c))"

definition nas_get_statistics :: "os \<Rightarrow> bool \<Rightarrow> nas_ue_context_t option \<Rightarrow> uesim_error + nas_stats_t" where
  "nas_get_statistics s out p = (case p of None \<Rightarrow> Inl UESIM_ERROR_INVALID_PARAM
   | Some c \<Rightarrow> if \<not> out then Inl UESIM_ERROR_INVALID_PARAM
       else if lock_ok s 0 then Inr (nc_stats c) else Inl UESIM_ERROR_THREAD)"

definition nas_update_statistics ::
  "os \<Rightarrow> int \<Rightarrow> nas_ue_context_t option \<Rightarrow> uesim_error \<times> nas_ue_context_t option" where
  "nas_update_statistics s now p = with_ptr p (\<lambda>c. locked s c (UESIM_SUCCESS,
     upd_stats (\<lambda>t. t\<lparr>nt_last_update_time := of_int now,
       nt_active_pdu_sessions := of_nat (length (filter np_active (nc_sessions c))),
       nt_security_active := nk_valid (nc_security c)\<rparr>) c))"

end
