(* ===== verification/Nas_Proofs.thy ===== *)
theory Nas_Proofs
  imports Nas_Sessions Pdcp_Proofs
begin

text \<open>
  What the NAS layer guarantees and what it does not: how much of an authentication response is
  checked, when the search for the EAP attribute ends, the outcomes of the security mode command, what
  the codec keeps, and which counter values the ciphering of uplink messages uses.
\<close>

section \<open>The mixing of octets\<close>

lemma xor_eq_zero: "a XOR b = (0 :: 'a::len word) \<longleftrightarrow> a = b"
  by (metis xor.right_neutral xor_cancel_left xor_self_eq)

lemma rotl1_bit: "n < 8 \<Longrightarrow> bit (rotl1 x) n = bit x (if n = 0 then 7 else n - 1)"
proof (cases "n = 0")
  case False
  assume n: "n < 8"
  have "\<not> bit x (n + 7)" using bit_imp_le_length [of x "n + 7"] False by auto
  then show ?thesis
    using False n unfolding rotl1_def bit_or_iff bit_push_bit_iff bit_drop_bit_eq by (simp add: add.commute)
next
  case True
  then show ?thesis unfolding rotl1_def bit_or_iff bit_push_bit_iff bit_drop_bit_eq by simp
qed

lemma rotl1_xor: "rotl1 (x XOR y) = rotl1 x XOR rotl1 y"
  by (rule bit_word_eqI) (auto simp: rotl1_bit bit_simps)

lemma rotl1_inject: "rotl1 x = rotl1 y \<longleftrightarrow> x = y"
proof
  assume eq: "rotl1 x = rotl1 y"
  show "x = y"
  proof (rule bit_word_eqI)
    fix n assume "n < LENGTH(8)"
    then have "bit z n = bit (rotl1 z) (if n = 7 then 0 else Suc n)" for z
      by (subst rotl1_bit) auto
    then show "bit x n \<longleftrightarrow> bit y n" using eq by simp
  qed
qed simp

lemma absorb_Cons: "absorb (b # bs) a = absorb bs (rotl1 (a XOR b))"
  by (simp add: absorb_def)

lemma absorb_append: "absorb (xs @ ys) a = absorb ys (absorb xs a)"
  by (simp add: absorb_def)

lemma absorb_inject: "absorb bs x = absorb bs y \<longleftrightarrow> x = y"
  by (induction bs arbitrary: x y)
    (simp_all add: absorb_Cons rotl1_inject, simp_all add: absorb_def, metis xor_cancel_right)

text \<open>The mixing is linear in the state it starts from.\<close>

lemma absorb_xor: "absorb bs (x XOR y) = absorb bs x XOR absorb (replicate (length bs) 0) y"
proof (induction bs arbitrary: x y)
  case (Cons b bs)
  have "(x XOR y) XOR b = (x XOR b) XOR y" by (simp only: ac_simps)
  then show ?case
    using Cons [of "rotl1 (x XOR b)" "rotl1 y"]
    by (simp only: absorb_Cons rotl1_xor [symmetric] length_Cons replicate_Suc xor.right_neutral)
qed (simp add: absorb_def)

lemma absorb_same_start:
  assumes "length xs = length ys"
  shows "absorb xs a = absorb ys a \<longleftrightarrow> absorb xs 0 = absorb ys 0"
proof -
  have "absorb xs a = absorb xs 0 XOR absorb (replicate (length xs) 0) a" for xs
    using absorb_xor [of xs 0 a] by simp
  then show ?thesis using assms by (metis xor_cancel_right)
qed

text \<open>The last octet sets the result to any value.\<close>

lemma absorb_last: "\<exists>b. absorb (bs @ [b]) a = t"
proof -
  have "rotl1 (push_bit 7 t OR drop_bit 1 t) = t"
    by (rule bit_word_eqI) (auto simp: rotl1_bit bit_simps dest: bit_imp_le_length)
  then have "absorb (bs @ [absorb bs a XOR (push_bit 7 t OR drop_bit 1 t)]) a = t"
    by (simp add: absorb_append absorb_Cons) (simp add: absorb_def)
  then show ?thesis by blast
qed

lemma memcmp_zero: "constant_time_memcmp a b n = 0 \<longleftrightarrow> (\<forall>i < n. a ! i = b ! i)"
proof (induction n)
  case (Suc n)
  then show ?case
    by (auto simp: constant_time_memcmp_def or_eq_0_iff xor_eq_zero less_Suc_eq)
qed (simp add: constant_time_memcmp_def)

lemma res_star_equal:
  assumes "length xs = length ys"
  shows "constant_time_memcmp (nas_compute_res_star xs ck ik 32) (nas_compute_res_star ys ck ik 32) 32 = 0
    \<longleftrightarrow> absorb xs 0 = absorb ys 0"
proof -
  have star: "nas_compute_res_star zs ck ik 32 ! i =
      absorb (len_octets (length zs) @ ck @ ik @ [0, 32])
        (absorb zs (rotl1 ((ck ! (i mod 16) XOR ik ! (i mod 16)) XOR 0x6B))) XOR (0x6B + of_nat i)"
    if "i < 32" for i zs
    using that by (simp add: nas_compute_res_star_def Let_def absorb_Cons absorb_append)
  have xor: "a XOR c = b XOR c \<longleftrightarrow> a = b" for a b c :: u8 by (metis xor_cancel_right)
  have "nas_compute_res_star xs ck ik 32 ! i = nas_compute_res_star ys ck ik 32 ! i
      \<longleftrightarrow> absorb xs 0 = absorb ys 0" if "i < 32" for i
    using absorb_same_start [OF assms] by (simp add: star [OF that] assms xor absorb_inject)
  then show ?thesis unfolding memcmp_zero by (metis zero_less_numeral)
qed

section \<open>Authentication\<close>

lemma aka_valid_iff:
  assumes "length (av_xres v) = 16" and "16 \<le> length r"
  shows "aka_valid v r \<longleftrightarrow> absorb (take 16 r) 0 = absorb (av_xres v) 0"
  using assms by (simp add: aka_valid_def Let_def res_star_equal)

lemma validate_aka:
  assumes "au_type (nc_auth c) = NAS_AUTHENTICATION_TYPE_5G_AKA" and "au_num_vectors (nc_auth c) \<noteq> 0"
    and "v = au_vectors (nc_auth c) ! unat (au_current_vector (nc_auth c))" and "\<not> av_used v"
    and "length (av_xres v) = 16" and "16 \<le> length r"
  shows "nas_validate_authentication_response (Some r) True (Some c) =
    (let valid = (absorb (take 16 r) 0 = absorb (av_xres v) 0)
     in Some (Inr valid, Some (if valid then c\<lparr>nc_auth := accept_vector (nc_auth c)\<rparr> else c)))"
proof -
  have "r \<noteq> []" using assms(6) by auto
  then show ?thesis
    using assms aka_valid_iff [OF assms(5,6)]
    by (simp add: nas_validate_authentication_response_def Let_def)
qed

text \<open>
  C18. The validation of a response compares one octet: whatever the keys, a response of sixteen octets is
  accepted if and only if its mixed octet is that of the expected response. For any first fifteen
  octets there is a last one with which the response is accepted and the UE counts as authenticated.
\<close>

theorem auth_response_eight_bits:
  assumes "au_type (nc_auth c) = NAS_AUTHENTICATION_TYPE_5G_AKA" and "au_num_vectors (nc_auth c) \<noteq> 0"
    and "v = au_vectors (nc_auth c) ! unat (au_current_vector (nc_auth c))" and "\<not> av_used v"
    and "length (av_xres v) = 16" and "length bs = 15"
  shows "(\<exists>c'. nas_validate_authentication_response (Some (bs @ [b])) True (Some c) =
        Some (Inr (absorb (bs @ [b]) 0 = absorb (av_xres v) 0), Some c'))
    \<and> (\<exists>b c'. nas_validate_authentication_response (Some (bs @ [b])) True (Some c) = Some (Inr True, Some c')
        \<and> au_authenticated (nc_auth c'))"
proof -
  have len: "16 \<le> length (bs @ [b])" and tk: "take 16 (bs @ [b]) = bs @ [b]" for b
    using assms(6) by simp_all
  note val = validate_aka [OF assms(1-5) len, unfolded tk Let_def]
  obtain b where "absorb (bs @ [b]) 0 = absorb (av_xres v) 0" using absorb_last by blast
  then have "\<exists>b c'. nas_validate_authentication_response (Some (bs @ [b])) True (Some c) = Some (Inr True, Some c')
        \<and> au_authenticated (nc_auth c')"
    using val by (intro exI [of _ b]) (auto simp: accept_vector_def)
  then show ?thesis unfolding val by blast
qed

definition challenged :: "nas_authentication_type \<Rightarrow> nas_ue_context_t" where
  "challenged t = zero_nas_context\<lparr>nc_active := True, nc_auth := (nc_auth zero_nas_context)\<lparr>au_type := t, au_num_vectors := 1\<rparr>\<rparr>"

lemma challenged_vector:
  "au_type (nc_auth (challenged t)) = t" "au_num_vectors (nc_auth (challenged t)) = 1"
  "au_vectors (nc_auth (challenged t)) ! unat (au_current_vector (nc_auth (challenged t))) = zero_vector"
  "nc_active (challenged t)"
  by (simp_all add: challenged_def zero_nas_context_def NAS_MAX_AUTHENTICATION_VECTOR_def)

lemma zero_vector_facts: "\<not> av_used zero_vector" "length (av_xres zero_vector) = 16"
  by (simp_all add: zero_vector_def)

lemma auth_response_eight_bits_witness:
  "\<exists>b c'. nas_validate_authentication_response (Some (replicate 15 77 @ [b])) True
      (Some (challenged NAS_AUTHENTICATION_TYPE_5G_AKA)) = Some (Inr True, Some c') \<and> au_authenticated (nc_auth c')"
  using auth_response_eight_bits [of "challenged NAS_AUTHENTICATION_TYPE_5G_AKA" zero_vector "replicate 15 77" 0]
  by (simp add: challenged_vector zero_vector_facts)

text \<open>The offsets the search for the attribute visits.\<close>

primrec visited :: "u8 list \<Rightarrow> nat \<Rightarrow> nat \<Rightarrow> nat" where
  "visited r off 0 = off"
| "visited r off (Suc k) = visited r (off + attr_len r off) k"

definition skipped :: "u8 list \<Rightarrow> nat \<Rightarrow> bool" where
  "skipped r off \<longleftrightarrow> off + 4 \<le> length r \<and> r ! off \<noteq> 0x03"

definition stuck :: "u8 list \<Rightarrow> nat \<Rightarrow> bool" where
  "stuck r off \<longleftrightarrow> (\<exists>k. list_all (\<lambda>j. skipped r (visited r off j)) [0..<Suc k] \<and> attr_len r (visited r off k) = 0)"

lemma list_all_upto: "list_all P [0..<Suc k] \<longleftrightarrow> (\<forall>j \<le> k. P j)"
  by (auto simp: list_all_iff less_Suc_eq_le simp del: upt_Suc)

lemma stuckE:
  assumes "stuck r off"
  obtains k where "\<And>j. j \<le> k \<Longrightarrow> skipped r (visited r off j)" and "attr_len r (visited r off k) = 0"
  using assms unfolding stuck_def list_all_upto by blast

lemma stuckI:
  "(\<And>j. j \<le> k \<Longrightarrow> skipped r (visited r off j)) \<Longrightarrow> attr_len r (visited r off k) = 0 \<Longrightarrow> stuck r off"
  unfolding stuck_def list_all_upto by blast

lemma stuck_step: "stuck r off \<longleftrightarrow> skipped r off \<and> (attr_len r off = 0 \<or> stuck r (off + attr_len r off))"
proof
  assume st: "stuck r off"
  obtain k where all: "\<And>j. j \<le> k \<Longrightarrow> skipped r (visited r off j)" and z: "attr_len r (visited r off k) = 0"
    using stuckE [OF st] by blast
  have "skipped r off" using all [of 0] by simp
  moreover have "stuck r (off + attr_len r off)" if nz: "attr_len r off \<noteq> 0"
  proof -
    obtain i where i: "k = Suc i" using z nz by (cases k) auto
    have "skipped r (visited r (off + attr_len r off) j)" if "j \<le> i" for j
      using all [of "Suc j"] that i by simp
    then show ?thesis using z i by (intro stuckI [of i]) auto
  qed
  ultimately show "skipped r off \<and> (attr_len r off = 0 \<or> stuck r (off + attr_len r off))" by blast
next
  assume a: "skipped r off \<and> (attr_len r off = 0 \<or> stuck r (off + attr_len r off))"
  show "stuck r off"
  proof (cases "attr_len r off = 0")
    case True
    then show ?thesis using a by (intro stuckI [of 0]) auto
  next
    case False
    then have st: "stuck r (off + attr_len r off)" using a by simp
    obtain k where all: "\<And>j. j \<le> k \<Longrightarrow> skipped r (visited r (off + attr_len r off) j)"
      and z: "attr_len r (visited r (off + attr_len r off) k) = 0"
      using stuckE [OF st] by blast
    have "skipped r (visited r off j)" if "j \<le> Suc k" for j
      using all [of "j - 1"] a that by (cases j) auto
    then show ?thesis using z by (intro stuckI [of "Suc k"]) auto
  qed
qed

lemma eap_scan_stuck: "eap_scan v r off = Some y \<Longrightarrow> \<not> stuck r off"
proof (rule eap_scan.raw_induct [of "\<lambda>v r off y. \<not> stuck r off"])
  fix scan v r off y
  assume IH: "\<And>v r off y. scan v r off = Some y \<Longrightarrow> \<not> stuck r off"
    and eq: "(if length r < off + 4 then Some False
      else if r ! off = 0x03 then Some (at_res_valid v r off) else scan v r (off + attr_len r off)) = Some y"
  show "\<not> stuck r off"
  proof
    assume st: "stuck r off"
    then have sk: "skipped r off" and next_stuck: "stuck r (off + attr_len r off)"
      using stuck_step [of r off] by auto
    have "scan v r (off + attr_len r off) = Some y"
      using eq sk by (simp add: skipped_def)
    then show False using IH next_stuck by blast
  qed
qed

lemma eap_scan_ends: "\<not> stuck r off \<Longrightarrow> eap_scan v r off \<noteq> None"
proof (induction "length r - off" arbitrary: off rule: less_induct)
  case less
  show ?case
  proof (cases "skipped r off")
    case True
    then have "attr_len r off \<noteq> 0" and "\<not> stuck r (off + attr_len r off)"
      using less.prems stuck_step [of r off] by auto
    moreover have "length r - (off + attr_len r off) < length r - off"
      using True \<open>attr_len r off \<noteq> 0\<close> by (auto simp: skipped_def)
    ultimately show ?thesis
      using less.hyps True by (subst eap_scan.simps) (simp add: skipped_def)
  qed (subst eap_scan.simps, auto simp: skipped_def)
qed

text \<open>
  The validation of an EAP response of sixteen octets or more with the right code and type fails to
  return exactly when the search visits, before the response attribute and within the response, an
  attribute whose length octet is a multiple of 64, which counts as 0 in eight bits.
\<close>

theorem eap_search_ends:
  assumes "au_type (nc_auth c) = NAS_AUTHENTICATION_TYPE_EAP" and "au_num_vectors (nc_auth c) \<noteq> 0"
    and "\<not> av_used (au_vectors (nc_auth c) ! unat (au_current_vector (nc_auth c)))"
    and "16 \<le> length r" and "r ! 0 = 1" and "r ! 4 = 50"
  shows "nas_validate_authentication_response (Some r) True (Some c) = None \<longleftrightarrow>
    (\<exists>k. list_all (\<lambda>j. visited r 5 j + 4 \<le> length r \<and> r ! visited r 5 j \<noteq> 0x03) [0..<Suc k]
       \<and> unat (r ! (visited r 5 k + 1)) mod 64 = 0)"
proof -
  have r: "r \<noteq> []" using assms(4) by auto
  have iff: "eap_scan v r 5 = None \<longleftrightarrow> stuck r 5" for v
    using eap_scan_stuck [of v r 5] eap_scan_ends [of r 5 v] by fastforce
  have "nas_validate_authentication_response (Some r) True (Some c) = None \<longleftrightarrow> stuck r 5"
    using assms r by (simp add: nas_validate_authentication_response_def Let_def eap_valid_def iff)
  moreover have "unat (4 * x) = 0 \<longleftrightarrow> unat x mod 64 = 0" for x :: u8
    by (simp add: unat_word_ariths) presburger
  ultimately show ?thesis by (simp add: stuck_def skipped_def attr_len_def del: upt_Suc)
qed

definition eap_response :: "u8 list" where
  "eap_response = [1, 0, 0, 16, 50, 9, 64, 0, 0, 3, 5, 128, 0, 0, 0, 0]"

lemma eap_search_ends_witness:
  "nas_validate_authentication_response (Some eap_response) True (Some (challenged NAS_AUTHENTICATION_TYPE_EAP)) = None"
proof -
  have "list_all (\<lambda>j. visited eap_response 5 j + 4 \<le> length eap_response
      \<and> eap_response ! visited eap_response 5 j \<noteq> 0x03) [0..<Suc 0]"
    by (simp add: eap_response_def)
  moreover have "unat (eap_response ! (visited eap_response 5 0 + 1)) mod 64 = 0"
    by (simp add: eap_response_def)
  ultimately show ?thesis
    by (subst eap_search_ends)
      (auto simp: challenged_vector zero_vector_facts eap_response_def simp del: upt_Suc intro!: exI [of _ 0])
qed

section \<open>Keys and the security mode\<close>

text \<open>Sending changes the counter of the uplink and the statistics of a context, nothing else.\<close>

definition setup_of :: "nas_ue_context_t \<Rightarrow> nas_ue_context_t" where
  "setup_of c = c\<lparr>nc_security := (nc_security c)\<lparr>nk_uplink_count := 0\<rparr>, nc_stats := zero_nas_stats\<rparr>"

lemma setup_keeps:
  assumes "setup_of c = setup_of d"
  shows "nc_auth c = nc_auth d" "nc_active c = nc_active d" "nk_valid (nc_security c) = nk_valid (nc_security d)"
    "nk_ciphering_alg (nc_security c) = nk_ciphering_alg (nc_security d)"
    "nk_integrity_alg (nc_security c) = nk_integrity_alg (nc_security d)"
    "nk_knas_enc (nc_security c) = nk_knas_enc (nc_security d)"
    "nk_knas_int (nc_security c) = nk_knas_int (nc_security d)"
  using arg_cong [OF assms, of nc_auth] arg_cong [OF assms, of nc_active]
    arg_cong [OF assms, of "\<lambda>c. nk_valid (nc_security c)"]
    arg_cong [OF assms, of "\<lambda>c. nk_ciphering_alg (nc_security c)"]
    arg_cong [OF assms, of "\<lambda>c. nk_integrity_alg (nc_security c)"]
    arg_cong [OF assms, of "\<lambda>c. nk_knas_enc (nc_security c)"]
    arg_cong [OF assms, of "\<lambda>c. nk_knas_int (nc_security c)"]
  by (simp_all add: setup_of_def)

lemma stats_setup [simp]: "setup_of (upd_stats f c) = setup_of c"
  by (simp add: setup_of_def upd_stats_def)

lemma count_setup [simp]: "setup_of (upd_security (\<lambda>k. k\<lparr>nk_uplink_count := f k\<rparr>) c) = setup_of c"
  by (simp add: setup_of_def upd_security_def)

lemma protect_cases:
  "\<exists>r c' m'. nas_integrity_protect_message (Some c) (Some m) = (r, Some c', Some m') \<and> setup_of c' = setup_of c"
  by (auto simp: nas_integrity_protect_message_def Let_def split: prod.split option.split sum.split)

lemma cipher_cases: "\<exists>r m'. nas_cipher_message (Some c) (Some m) = (r, Some c, Some m')"
  by (auto simp: nas_cipher_message_def Let_def split: prod.split option.split sum.split)

lemma send_cases:
  "\<exists>r c' m'. nas_send_message s (Some c) (Some m) = (r, Some c', Some m') \<and> setup_of c' = setup_of c"
proof -
  obtain r c' m' where p: "nas_integrity_protect_message (Some c) (Some m) = (r, Some c', Some m')"
    and c': "setup_of c' = setup_of c" using protect_cases by blast
  obtain r2 m2 where q: "nas_cipher_message (Some c') (Some m') = (r2, Some c', Some m2)"
    using cipher_cases by blast
  show ?thesis
    using c' by (simp add: nas_send_message_def p q count_stat_def)
qed

lemma send_new_setup: "setup_of (snd (send_new s k now t data c)) = setup_of c"
proof (cases "nas_create_message s now t data True")
  case (Inr m)
  then show ?thesis using send_cases [of "after_locks k s" c m] by (auto simp: send_new_def)
qed (simp add: send_new_def)

lemma then_do_setup:
  "setup_of (snd res) = d \<Longrightarrow> (\<And>c. setup_of (snd (f c)) = setup_of c) \<Longrightarrow> setup_of (snd (then_do res f)) = d"
  by (cases res) (auto simp: then_do_def)

lemma with_ptr_pair: "with_ptr (Some x) f = (fst (f x), Some (snd (f x)))"
  by (simp split: prod.split)

lemma count_stat_setup: "setup_of (snd (count_stat s n f c)) = setup_of c"
  by (simp add: count_stat_def)

lemma auth_response_setup:
  "\<exists>r c'. nas_send_authentication_response s now d (Some c) = (r, Some c') \<and> setup_of c' = setup_of c"
  unfolding nas_send_authentication_response_def with_ptr_pair
  by (auto simp: when_nas_active_def intro!: then_do_setup send_new_setup count_stat_setup split: option.split)

lemma auth_request_success:
  assumes "nas_handle_authentication_request s now data (Some c) = (UESIM_SUCCESS, Some c')"
  obtains bs where "data = Some bs" and "33 \<le> length bs" and "nc_active c" and "nc_active c'"
    and "au_num_vectors (nc_auth c') = 1"
    and "nk_knas_enc (nc_security c') = nk_knas_enc (aka_keys ((bs ! 0) AND 7) (take 16 (drop 1 bs)) (take 16 (drop 17 bs)) (nc_security c))"
    and "nk_knas_int (nc_security c') = nk_knas_int (aka_keys ((bs ! 0) AND 7) (take 16 (drop 1 bs)) (take 16 (drop 17 bs)) (nc_security c))"
proof (cases data)
  case (Some bs)
  let ?k = "(bs ! 0) AND 7" and ?r = "take 16 (drop 1 bs)" and ?a = "take 16 (drop 17 bs)"
  let ?d = "upd_security (aka_keys ?k ?r ?a) (upd_stats (\<lambda>t. t\<lparr>nt_authentication_requests := nt_authentication_requests t + 1\<rparr>)
    (c\<lparr>nc_auth := store_challenge ?r ?a (nc_auth c)\<rparr>))"
  obtain r d' where resp: "nas_send_authentication_response (after_locks 2 s) now (Some (aka_res ?k ?r ?a)) (Some ?d) = (r, Some d')"
    and kept: "setup_of d' = setup_of ?d" using auth_response_setup by blast
  have ok: "bs \<noteq> []" "nc_active c" "33 \<le> length bs" "lock_ok s 0" "lock_ok s 1" "d' = c'"
    using assms Some resp
    by (auto simp: nas_handle_authentication_request_def Let_def split: if_splits)
  show ?thesis
    using ok setup_keeps [OF kept] Some
    by (intro that [of bs]) (simp_all add: upd_security_def upd_stats_def store_challenge_def)
qed (use assms in \<open>simp add: nas_handle_authentication_request_def\<close>)

lemma empty_protected:
  assumes "nk_valid (nc_security c)" and "nk_integrity_alg (nc_security c) \<le> 3" and "nk_integrity_alg (nc_security c) \<noteq> 0"
  shows "nas_integrity_protect_message (Some c) (Some (new_message now t None)) =
    (UESIM_ERROR_INVALID_PARAM, Some c, Some (new_message now t None))"
proof -
  have "nk_integrity_alg (nc_security c) \<in> {1, 2, 3}" using assms(2,3) by auto
  then have "nas_mac_with (nk_integrity_alg (nc_security c)) k None q = Some (Inl UESIM_ERROR_INVALID_PARAM)" for k q
    by (auto simp: nas_mac_with_def snow3g_compute_mac_def aes_compute_mac_def zuc_compute_mac_def error_branch)
  then show ?thesis
    using assms by (simp add: nas_integrity_protect_message_def NAS_INTEGRITY_ALG_NIA0_def payload_def new_message_def)
qed

lemma send_complete_protected:
  assumes "nc_active c" and "nk_valid (nc_security c)" and "nk_integrity_alg (nc_security c) \<le> 3"
    and "nk_integrity_alg (nc_security c) \<noteq> 0"
  shows "nas_send_security_mode_complete good_os now (Some c) = (UESIM_ERROR_INVALID_PARAM, Some c)"
  using assms
  by (simp add: nas_send_security_mode_complete_def when_nas_active_def then_do_def send_new_def
      nas_create_message_def nas_send_message_def empty_protected)

lemma send_complete_null:
  assumes "nc_active c" and "nk_valid (nc_security c)" and "nk_integrity_alg (nc_security c) = 0"
  shows "nas_send_security_mode_complete good_os now (Some c) = (UESIM_SUCCESS,
    Some (upd_stats (\<lambda>t. t\<lparr>nt_messages_sent := nt_messages_sent t + 1,
       nt_security_mode_completes := nt_security_mode_completes t + 1\<rparr>) c))"
  using assms
  by (simp add: nas_send_security_mode_complete_def when_nas_active_def then_do_def send_new_def
      nas_create_message_def nas_send_message_def nas_integrity_protect_message_def nas_cipher_message_def
      NAS_INTEGRITY_ALG_NIA0_def new_message_def count_stat_def upd_stats_def after_locks_good)

text \<open>
  C19. A security mode command with known algorithms that reaches an active UE ends in one of three ways:
  after an authentication request the handler blocks for ever; without one, it succeeds exactly when no
  integrity algorithm is selected; with one, the completion cannot be protected, the handler fails, and
  yet the new security context is in force and reported as active.
\<close>

theorem security_mode_outcomes:
  assumes "nc_active c" and "sm_selected_ciphering cmd \<le> 3" and "sm_selected_integrity cmd \<le> 3"
  shows "(nas_handle_authentication_request s now' data (Some b) = (UESIM_SUCCESS, Some c)
        \<longrightarrow> nas_handle_security_mode_command good_os now (Some cmd) (Some c) = None)
    \<and> (au_num_vectors (nc_auth c) = 0 \<longrightarrow>
        (\<exists>d. nas_handle_security_mode_command good_os now (Some cmd) (Some c) =
            Some (if sm_selected_integrity cmd = 0 then UESIM_SUCCESS else UESIM_ERROR_INVALID_PARAM, Some d)
          \<and> nk_valid (nc_security d) \<and> nt_security_active (nc_stats d)
          \<and> nt_security_mode_completes (nc_stats d) = nt_security_mode_completes (nc_stats c)
              + (if sm_selected_integrity cmd = 0 then 1 else 0)))"
proof (intro conjI impI)
  assume req: "nas_handle_authentication_request s now' data (Some b) = (UESIM_SUCCESS, Some c)"
  show "nas_handle_security_mode_command good_os now (Some cmd) (Some c) = None"
    by (rule auth_request_success [OF req])
      (use assms in \<open>simp add: nas_handle_security_mode_command_def NAS_CIPHERING_ALG_NEA3_def NAS_INTEGRITY_ALG_NIA3_def\<close>)
next
  assume "au_num_vectors (nc_auth c) = 0"
  let ?d = "upd_stats (\<lambda>t. t\<lparr>nt_security_mode_commands := nt_security_mode_commands t + 1, nt_security_active := True\<rparr>)
    (upd_security (start_security cmd) c)"
  have d: "nc_active ?d" "nk_valid (nc_security ?d)" "nk_integrity_alg (nc_security ?d) = sm_selected_integrity cmd"
    "nt_security_active (nc_stats ?d)" "nt_security_mode_completes (nc_stats ?d) = nt_security_mode_completes (nc_stats c)"
    using assms(1) by (simp_all add: upd_stats_def upd_security_def start_security_def)
  have "nas_handle_security_mode_command good_os now (Some cmd) (Some c) =
      Some (nas_send_security_mode_complete good_os now (Some ?d))"
    using assms \<open>au_num_vectors (nc_auth c) = 0\<close>
    by (simp add: nas_handle_security_mode_command_def NAS_CIPHERING_ALG_NEA3_def NAS_INTEGRITY_ALG_NIA3_def after_locks_good)
  moreover have "nas_send_security_mode_complete good_os now (Some ?d) = (UESIM_ERROR_INVALID_PARAM, Some ?d)"
    if "sm_selected_integrity cmd \<noteq> 0"
    by (rule send_complete_protected [OF d(1,2)]) (use d(3) that assms(3) in simp_all)
  moreover have "nas_send_security_mode_complete good_os now (Some ?d) = (UESIM_SUCCESS,
    Some (upd_stats (\<lambda>t. t\<lparr>nt_messages_sent := nt_messages_sent t + 1,
       nt_security_mode_completes := nt_security_mode_completes t + 1\<rparr>) ?d))"
    if "sm_selected_integrity cmd = 0"
    by (rule send_complete_null [OF d(1,2)]) (use d(3) that in simp)
  ultimately show "\<exists>d. nas_handle_security_mode_command good_os now (Some cmd) (Some c) =
        Some (if sm_selected_integrity cmd = 0 then UESIM_SUCCESS else UESIM_ERROR_INVALID_PARAM, Some d)
      \<and> nk_valid (nc_security d) \<and> nt_security_active (nc_stats d)
      \<and> nt_security_mode_completes (nc_stats d) = nt_security_mode_completes (nc_stats c)
          + (if sm_selected_integrity cmd = 0 then 1 else 0)"
    using d(2,4,5) by (cases "sm_selected_integrity cmd = 0") (auto simp: upd_stats_def)
qed

definition nia2_command :: nas_security_mode_command_t where
  "nia2_command = \<lparr>sm_selected_ciphering = 2, sm_selected_integrity = 2, sm_ngksi_tsc = False, sm_ngksi_value = 0\<rparr>"

definition idle_context :: nas_ue_context_t where
  "idle_context = zero_nas_context\<lparr>nc_active := True\<rparr>"

lemma idle_context_facts: "nc_active idle_context" "au_num_vectors (nc_auth idle_context) = 0"
  "\<not> nk_valid (nc_security idle_context)"
  by (simp_all add: idle_context_def zero_nas_context_def)

lemma send_plain:
  "nc_active c \<Longrightarrow> \<not> nk_valid (nc_security c) \<Longrightarrow> send_new good_os k now t data c =
    (UESIM_SUCCESS, upd_stats (\<lambda>u. u\<lparr>nt_messages_sent := nt_messages_sent u + 1\<rparr>) c)"
  by (cases data; cases "the data")
    (simp_all add: send_new_def nas_create_message_def nas_send_message_def count_stat_def)

lemma request_accepted:
  "\<exists>c'. nas_handle_authentication_request good_os 0 (Some (replicate 33 1)) (Some idle_context) = (UESIM_SUCCESS, Some c')"
proof -
  have "aka_res k r a \<noteq> []" for k r a by (simp add: aka_res_def)
  then show ?thesis
    using idle_context_facts
    by (simp add: nas_handle_authentication_request_def nas_send_authentication_response_def Let_def
        when_nas_active_def then_do_def send_plain upd_security_def upd_stats_def aka_keys_def count_stat_def)
qed

lemma security_mode_outcomes_witness:
  "(\<exists>c. nas_handle_authentication_request good_os 0 (Some (replicate 33 1)) (Some idle_context) = (UESIM_SUCCESS, Some c)
      \<and> nas_handle_security_mode_command good_os 0 (Some nia2_command) (Some c) = None)
    \<and> (\<exists>d. nas_handle_security_mode_command good_os 0 (Some nia2_command) (Some idle_context) =
      Some (UESIM_ERROR_INVALID_PARAM, Some d) \<and> nt_security_active (nc_stats d))"
proof -
  have algs: "sm_selected_ciphering nia2_command \<le> 3" "sm_selected_integrity nia2_command \<le> 3"
    "sm_selected_integrity nia2_command \<noteq> 0"
    by (simp_all add: nia2_command_def)
  obtain c where req: "nas_handle_authentication_request good_os 0 (Some (replicate 33 1)) (Some idle_context) = (UESIM_SUCCESS, Some c)"
    using request_accepted by blast
  have act: "nc_active c" by (rule auth_request_success [OF req])
  have "nas_handle_security_mode_command good_os 0 (Some nia2_command) (Some c) = None"
    using security_mode_outcomes [OF act algs(1,2)] req by blast
  moreover have "\<exists>d. nas_handle_security_mode_command good_os 0 (Some nia2_command) (Some idle_context) =
      Some (UESIM_ERROR_INVALID_PARAM, Some d) \<and> nt_security_active (nc_stats d)"
    using security_mode_outcomes [OF idle_context_facts(1) algs(1,2), THEN conjunct2, THEN mp, OF idle_context_facts(2)] algs(3)
    by fastforce
  ultimately show ?thesis using req by blast
qed

text \<open>
  An accepted authentication request sets the keys of the NAS security from its own octets: each
  octet of the two keys is computed from one octet of AUTN or RAND, the key identifier and its
  position. No secret of the UE enters them.
\<close>

theorem aka_keys_public:
  assumes "nas_handle_authentication_request s now (Some bs) (Some c) = (UESIM_SUCCESS, Some c')"
  shows "nk_knas_enc (nc_security c') = map (\<lambda>i. bs ! (17 + i) XOR ((bs ! 0 AND 7) + of_nat i) XOR 0xAA) [0..<16]
    \<and> nk_knas_int (nc_security c') = map (\<lambda>i. bs ! (1 + i) XOR ((bs ! 0 AND 7) + of_nat i) XOR 0x55) [0..<16]"
proof -
  have cancel: "x XOR (x XOR y) = y" "x XOR (y XOR (x XOR z)) = y XOR z" for x y z :: u8
    by simp_all (metis xor.left_commute xor_cancel_left)
  obtain bs' where "Some bs = Some bs'" and len: "33 \<le> length bs'"
    and enc: "nk_knas_enc (nc_security c') = nk_knas_enc (aka_keys ((bs' ! 0) AND 7) (take 16 (drop 1 bs')) (take 16 (drop 17 bs')) (nc_security c))"
    and int: "nk_knas_int (nc_security c') = nk_knas_int (aka_keys ((bs' ! 0) AND 7) (take 16 (drop 1 bs')) (take 16 (drop 17 bs')) (nc_security c))"
    using auth_request_success [OF assms] by metis
  then show ?thesis
    by (auto simp: aka_keys_def aka_res_def Let_def nth_append ac_simps intro!: map_cong)
qed

lemma aka_keys_public_witness:
  "\<exists>c. nas_handle_authentication_request good_os 0 (Some (replicate 33 1)) (Some idle_context) = (UESIM_SUCCESS, Some c)
    \<and> nk_knas_int (nc_security c) ! 0 = 1 XOR 1 XOR 0x55"
proof -
  obtain c where req: "nas_handle_authentication_request good_os 0 (Some (replicate 33 1)) (Some idle_context) = (UESIM_SUCCESS, Some c)"
    using request_accepted by blast
  show ?thesis using aka_keys_public [OF req] req by simp
qed

section \<open>The codec\<close>

definition message_ok :: "nas_message_t \<Rightarrow> bool" where
  "message_ok m \<longleftrightarrow> (case nm_data m of None \<Rightarrow> nm_length m = 0 | Some d \<Rightarrow> nm_length m = length d)"

definition data_octets :: "nas_message_t \<Rightarrow> u8 list" where
  "data_octets m = (case nm_data m of None \<Rightarrow> [] | Some d \<Rightarrow> d)"

lemma created_message_ok: "message_ok (new_message now t data)"
  by (auto simp: message_ok_def new_message_def split: option.splits list.splits)

lemma encode_plain_message:
  assumes "message_ok m" and "nm_security_header m = NAS_SECURITY_HEADER_PLAIN"
  shows "\<exists>rest. nas_encode_message good_os junk (Some m) True = Inr ([nm_epd m, nm_type m] @ data_octets m @ rest)
    \<and> length rest = 18"
proof -
  have len: "length (data_octets m) = nm_length m" and pay: "(case payload m of None \<Rightarrow> [] | Some bs \<Rightarrow> bs) = data_octets m"
    using assms(1) by (auto simp: message_ok_def data_octets_def payload_def split: option.splits)
  show ?thesis
    using len pay assms(2)
    by (intro exI [of _ "drop (2 + nm_length m) (map junk [0..<20 + nm_length m])"])
      (simp add: nas_encode_message_def encoded_header_def sizeof_nas_header_def NAS_SECURITY_HEADER_PLAIN_def blit_def)
qed

text \<open>What a decoder makes of an octet that is not below 16 in the place of the type.\<close>

lemma decode_typed:
  assumes "20 \<le> length bs" and "drop_bit 4 (bs ! 1) \<noteq> 0"
  shows "nas_decode_message good_os now (Some bs) (Some m0) = Some (UESIM_SUCCESS, Some
    (m0\<lparr>nm_epd := bs ! 0, nm_security_header := drop_bit 4 (bs ! 1), nm_type := bs ! 1 AND 0x0F,
        nm_mac := bytes_word (take 4 (drop 2 bs)), nm_sequence := bs ! 6, nm_length := length bs - 7,
        nm_data := Some (drop 7 bs), nm_arrival := now, nm_integrity_protected := False, nm_ciphered := False\<rparr>))"
proof -
  have "drop_bit 4 x AND 15 = drop_bit 4 x" for x :: u8
  proof -
    have "drop_bit 4 x AND 15 = take_bit 4 (drop_bit 4 x)" by (simp add: take_bit_eq_mask mask_numeral)
    then show ?thesis by (simp add: take_bit_drop_bit take_bit_word_eq_self)
  qed
  then show ?thesis
    using assms by (auto simp: nas_decode_message_def decode_body_def Let_def NAS_SECURITY_HEADER_PLAIN_def sizeof_nas_header_def)
qed

text \<open>
  The codec does not keep the type of a 5GMM or 5GSM message: the octet of the type is read as two
  half octets, so an encoded plain message comes back with the lower half as its type, the upper half as a security header,
  five octets of its data taken for the protection, and thirteen more octets than it had.
\<close>

theorem nas_codec_loses_type:
  assumes "message_ok m" and "nm_security_header m = NAS_SECURITY_HEADER_PLAIN"
    and "drop_bit 4 (nm_type m) \<noteq> 0"
  shows "\<exists>bs m'. nas_encode_message good_os junk (Some m) True = Inr bs
    \<and> take (nm_length m) (drop 2 bs) = data_octets m
    \<and> nas_decode_message good_os now (Some bs) (Some m0) = Some (UESIM_SUCCESS, Some m')
    \<and> nm_epd m' = nm_epd m
    \<and> nm_type m' = nm_type m AND 0x0F \<and> nm_type m' \<noteq> nm_type m
    \<and> nm_security_header m' = drop_bit 4 (nm_type m) \<and> nm_security_header m' \<noteq> NAS_SECURITY_HEADER_PLAIN
    \<and> nm_length m' = nm_length m + 13 \<and> take (nm_length m - 5) (data_octets m') = drop 5 (data_octets m)"
proof -
  obtain rest where enc: "nas_encode_message good_os junk (Some m) True = Inr ([nm_epd m, nm_type m] @ data_octets m @ rest)"
    and rest: "length rest = 18" using encode_plain_message [OF assms(1,2)] by blast
  let ?bs = "[nm_epd m, nm_type m] @ data_octets m @ rest"
  have len: "length (data_octets m) = nm_length m"
    using assms(1) by (auto simp: message_ok_def data_octets_def split: option.splits)
  have ne: "nm_type m AND 0x0F \<noteq> nm_type m"
  proof
    assume eq: "nm_type m AND 0x0F = nm_type m"
    have "nm_type m AND 0x0F = take_bit 4 (nm_type m)" by (simp add: take_bit_eq_mask mask_numeral)
    then have "drop_bit 4 (nm_type m) = drop_bit 4 (take_bit 4 (nm_type m))" using eq by simp
    then show False using assms(3) by (simp add: drop_bit_take_bit)
  qed
  have "20 \<le> length ?bs" "drop_bit 4 (?bs ! 1) \<noteq> 0" using rest assms(3) by simp_all
  note dec = decode_typed [OF this, of now m0]
  show ?thesis
    by (intro exI conjI, rule enc, simp add: len, rule dec)
      (use assms(3) ne rest len in \<open>auto simp: NAS_SECURITY_HEADER_PLAIN_def data_octets_def split: option.splits\<close>)
qed

lemma nas_codec_loses_type_witness:
  "\<exists>bs m'. nas_encode_message good_os (\<lambda>_. 0) (Some (new_message 0 NAS_MSG_TYPE_REGISTRATION_REQUEST (Some [1, 2]))) True = Inr bs
    \<and> nas_decode_message good_os 0 (Some bs) (Some (new_message 0 0 None)) = Some (UESIM_SUCCESS, Some m')
    \<and> nm_type m' = 1 \<and> nm_security_header m' = 4"
proof -
  let ?m = "new_message 0 NAS_MSG_TYPE_REGISTRATION_REQUEST (Some [1, 2])"
  have "nm_security_header ?m = NAS_SECURITY_HEADER_PLAIN" "drop_bit 4 (nm_type ?m) = 4" "nm_type ?m AND 0x0F = 1"
    by (simp_all add: new_message_def NAS_MSG_TYPE_REGISTRATION_REQUEST_def drop_bit_eq_div)
  then show ?thesis
    using nas_codec_loses_type [of ?m "\<lambda>_. 0" 0 "new_message 0 0 None", OF created_message_ok] by fastforce
qed

text \<open>
  Whatever octets a UE decodes, the message that results is taken as it is by an active context,
  under any security context: the decoder marks it as unprotected, and unprotected messages are neither
  verified nor refused. Its type is below 16, which no message of the protocol has.
\<close>

theorem decoded_messages_accepted:
  assumes "nas_decode_message s now (Some bs) (Some m0) = Some (UESIM_SUCCESS, Some m)"
    and "nc_active c" and "lock_ok s' 0"
  shows "nas_process_message s' (Some c) (Some m) = (UESIM_SUCCESS,
      Some (upd_stats (\<lambda>t. t\<lparr>nt_messages_received := nt_messages_received t + 1\<rparr>) c), Some m)
    \<and> unat (nm_type m) < 16"
proof -
  have "nm_integrity_protected m = False \<and> nm_ciphered m = False \<and> nm_type m = bs ! 1 AND 0x0F"
    using assms(1)
    by (auto simp: nas_decode_message_def decode_body_def Let_def split: if_splits prod.splits)
  moreover have "unat (x AND 15) < 16" for x :: u8
    using unat_mask_lt [of x 4] by (simp add: mask_numeral)
  ultimately show ?thesis
    using assms(2,3) by (simp add: nas_process_message_def received_data_def count_stat_def)
qed

definition secured_context :: "alg \<Rightarrow> alg \<Rightarrow> nas_ue_context_t" where
  "secured_context a b = zero_nas_context\<lparr>nc_active := True, nc_security := (nc_security zero_nas_context)
     \<lparr>nk_valid := True, nk_ciphering_alg := a, nk_integrity_alg := b\<rparr>\<rparr>"

lemma secured_context_facts: "nc_active (secured_context a b)" "nk_valid (nc_security (secured_context a b))"
  "nk_ciphering_alg (nc_security (secured_context a b)) = a" "nk_integrity_alg (nc_security (secured_context a b)) = b"
  by (simp_all add: secured_context_def zero_nas_context_def)

lemma decoded_messages_accepted_witness:
  "\<exists>m. nas_decode_message good_os 0 (Some (replicate 24 0x42)) (Some (new_message 0 0 None)) = Some (UESIM_SUCCESS, Some m)
    \<and> nas_process_message good_os (Some (secured_context 2 2)) (Some m) = (UESIM_SUCCESS,
      Some (upd_stats (\<lambda>t. t\<lparr>nt_messages_received := nt_messages_received t + 1\<rparr>) (secured_context 2 2)), Some m)"
proof -
  have "drop_bit 4 (replicate 24 0x42 ! 1 :: u8) \<noteq> 0" by (simp add: drop_bit_eq_div)
  then obtain m where dec: "nas_decode_message good_os 0 (Some (replicate 24 0x42)) (Some (new_message 0 0 None)) = Some (UESIM_SUCCESS, Some m)"
    using decode_typed [of "replicate 24 0x42" 0 "new_message 0 0 None"] by auto
  show ?thesis using dec decoded_messages_accepted [OF dec secured_context_facts(1), of good_os] by auto
qed

section \<open>The keystream of the uplink\<close>

lemma nea_diff:
  assumes "0 < a" and "a \<le> 3" and "length xs = length ys"
  shows "map2 (XOR) (nea a k p xs) (nea a k p ys) = map2 (XOR) xs ys"
proof -
  have "a = 1 \<or> a = 2 \<or> a = 3" using assms(1,2) by auto
  then show ?thesis
    using assms(3)
    by (auto simp: nea_def snow3g_stream_def zuc_stream_def aes_stream_def aes_ctr_encrypt_def
        snow.stream_diff zuc.stream_diff aes.stream_diff)
qed

lemma mac_with_nia: "0 < b \<Longrightarrow> b \<le> 3 \<Longrightarrow> nas_mac_with b k (Some d) q = Some (Inr (nia b k q d))"
proof -
  assume "0 < b" "b \<le> 3"
  then have "b = 1 \<or> b = 2 \<or> b = 3" by auto
  then show ?thesis
    by (auto simp: nas_mac_with_def nia_def snow3g_compute_mac_def aes_compute_mac_def zuc_compute_mac_def)
qed

lemma encrypt_with_nea: "0 < a \<Longrightarrow> a \<le> 3 \<Longrightarrow> nas_encrypt_with a k (Some d) q = Some (Inr (nea a k q d))"
proof -
  assume "0 < a" "a \<le> 3"
  then have "a = 1 \<or> a = 2 \<or> a = 3" by auto
  then show ?thesis
    by (auto simp: nas_encrypt_with_def nea_def snow3g_encrypt_def aes_encrypt_def zuc_encrypt_def)
qed

definition ready :: "nas_message_t \<Rightarrow> bool" where
  "ready m \<longleftrightarrow> (case nm_data m of None \<Rightarrow> False | Some d \<Rightarrow> d \<noteq> [] \<and> nm_length m = length d)"

definition secured :: "alg \<Rightarrow> alg \<Rightarrow> nas_ue_context_t \<Rightarrow> bool" where
  "secured a b c \<longleftrightarrow> nc_active c \<and> nk_valid (nc_security c) \<and> nk_ciphering_alg (nc_security c) = a
     \<and> nk_integrity_alg (nc_security c) = b"

text \<open>The octets that leave a context that sends a list of messages.\<close>

primrec send_run :: "nas_ue_context_t \<Rightarrow> nas_message_t list \<Rightarrow> u8 list list" where
  "send_run c [] = []"
| "send_run c (m # ms) = (case nas_send_message good_os (Some c) (Some m) of
     (r, Some c', Some m') \<Rightarrow> data_octets m' # send_run c' ms | _ \<Rightarrow> [])"

definition cipher_count :: "alg \<Rightarrow> u32 \<Rightarrow> nat \<Rightarrow> cipher_params" where
  "cipher_count b u i = \<lparr>count = u + (if b = 0 then 0 else of_nat i + 1), bearer = 0, direction = 0\<rparr>"

lemma send_secured:
  assumes "secured a b c" and "0 < a" and "a \<le> 3" and "b \<le> 3" and "ready m"
  obtains c' m' where "nas_send_message good_os (Some c) (Some m) = (UESIM_SUCCESS, Some c', Some m')"
    and "secured a b c'" and "nk_knas_enc (nc_security c') = nk_knas_enc (nc_security c)"
    and "nk_uplink_count (nc_security c') = nk_uplink_count (nc_security c) + (if b = 0 then 0 else 1)"
    and "data_octets m' = nea a (nk_knas_enc (nc_security c)) (cipher_count b (nk_uplink_count (nc_security c)) 0) (data_octets m)"
proof -
  obtain d where d: "nm_data m = Some d" "d \<noteq> []" "nm_length m = length d"
    using assms(5) by (auto simp: ready_def split: option.splits)
  let ?k = "nc_security c"
  define c1 where "c1 = (if b = 0 then c else upd_security (\<lambda>k. k\<lparr>nk_uplink_count := nk_uplink_count k + 1\<rparr>) c)"
  define m1 where "m1 = (if b = 0 then m\<lparr>nm_integrity_protected := False\<rparr>
    else m\<lparr>nm_integrity_protected := True, nm_mac := nia b (nk_knas_int ?k) (uplink_params ?k) d\<rparr>)"
  have pay: "payload m = Some d" "payload m1 = Some d" "nm_data m1 = Some d" "nm_length m1 = length d"
    using d by (simp_all add: payload_def m1_def)
  have protect: "nas_integrity_protect_message (Some c) (Some m) = (UESIM_SUCCESS, Some c1, Some m1)"
    using assms(1,4) pay(1)
    by (auto simp: nas_integrity_protect_message_def secured_def NAS_INTEGRITY_ALG_NIA0_def mac_with_nia c1_def m1_def Let_def)
  have c1: "secured a b c1" "nk_knas_enc (nc_security c1) = nk_knas_enc ?k"
    "nk_uplink_count (nc_security c1) = nk_uplink_count ?k + (if b = 0 then 0 else 1)"
    using assms(1) by (simp_all add: secured_def c1_def upd_security_def)
  let ?e = "nea a (nk_knas_enc ?k) (uplink_params (nc_security c1)) d"
  have par: "uplink_params (nc_security c1) = cipher_count b (nk_uplink_count ?k) 0"
    using c1(3) by (simp add: uplink_params_def cipher_count_def)
  define m2 where "m2 = (overwrite_data ?e m1)\<lparr>nm_ciphered := True\<rparr>"
  have cipher: "nas_cipher_message (Some c1) (Some m1) = (UESIM_SUCCESS, Some c1, Some m2)"
    using c1(1,2) pay d(2) assms(2,3)
    by (simp add: nas_cipher_message_def secured_def NAS_CIPHERING_ALG_NEA0_def encrypt_with_nea m2_def)
  have out: "data_octets m2 = ?e"
    using pay(3) nea.enc_length by (simp add: m2_def overwrite_data_def data_octets_def blit_def)
  let ?c2 = "upd_stats (\<lambda>t. t\<lparr>nt_messages_sent := nt_messages_sent t + 1\<rparr>) c1"
  have "nas_send_message good_os (Some c) (Some m) = (UESIM_SUCCESS, Some ?c2, Some m2)"
    using assms(1,2) c1(1) by (simp add: nas_send_message_def protect cipher secured_def NAS_CIPHERING_ALG_NEA0_def count_stat_def)
  then show ?thesis
    using c1 out par d(1) by (intro that [of ?c2 m2]) (simp_all add: secured_def upd_stats_def data_octets_def)
qed

lemma cipher_count_step:
  "cipher_count b (u + (if b = 0 then 0 else 1)) i = cipher_count b u (Suc i)"
  by (simp add: cipher_count_def)

lemma send_run_octets:
  assumes "secured a b c" and "0 < a" and "a \<le> 3" and "b \<le> 3" and "list_all ready ms"
  shows "send_run c ms = map (\<lambda>i. nea a (nk_knas_enc (nc_security c))
    (cipher_count b (nk_uplink_count (nc_security c)) i) (data_octets (ms ! i))) [0..<length ms]"
  using assms(1,5)
proof (induction ms arbitrary: c)
  case (Cons m ms)
  from send_secured [OF Cons.prems(1) assms(2-4)] Cons.prems(2) obtain c' m' where
    s: "nas_send_message good_os (Some c) (Some m) = (UESIM_SUCCESS, Some c', Some m')" "secured a b c'"
      "nk_knas_enc (nc_security c') = nk_knas_enc (nc_security c)"
      "nk_uplink_count (nc_security c') = nk_uplink_count (nc_security c) + (if b = 0 then 0 else 1)"
      "data_octets m' = nea a (nk_knas_enc (nc_security c)) (cipher_count b (nk_uplink_count (nc_security c)) 0) (data_octets m)"
    by auto
  have up: "[0..<length (m # ms)] = 0 # map Suc [0..<length ms]"
    by (simp add: map_Suc_upt upt_conv_Cons del: upt_Suc)
  show ?case
    unfolding up using Cons.IH [OF s(2)] Cons.prems(2) s
    by (simp add: cipher_count_step comp_def)
qed simp

text \<open>
  C20. The COUNT values of the uplink ciphering advance only with integrity protection. With it, the
  \<open>i\<close>-th message is ciphered under the \<open>i\<close>-th next value, all different below \<open>2 ^ 32\<close> messages. With
  NIA0 every message is ciphered under the same value: the difference of any two ciphertexts of equal
  length is that of the messages.
\<close>

theorem uplink_keystream:
  assumes "secured a b c" and "0 < a" and "a \<le> 3" and "b \<le> 3" and "list_all ready ms" and "length ms < 2 ^ 32"
    and "i < j" and "j < length ms"
  shows "send_run c ms ! i = nea a (nk_knas_enc (nc_security c))
      (cipher_count b (nk_uplink_count (nc_security c)) i) (data_octets (ms ! i))
    \<and> (0 < b \<longrightarrow> cipher_count b (nk_uplink_count (nc_security c)) i \<noteq> cipher_count b (nk_uplink_count (nc_security c)) j)
    \<and> (b = 0 \<and> length (data_octets (ms ! i)) = length (data_octets (ms ! j)) \<longrightarrow>
        map2 (XOR) (send_run c ms ! i) (send_run c ms ! j) = map2 (XOR) (data_octets (ms ! i)) (data_octets (ms ! j)))"
proof -
  note run = send_run_octets [OF assms(1-5)]
  have "(of_nat i :: u32) \<noteq> of_nat j"
    using assms(6-8) by (simp add: word_unat_eq_iff unat_of_nat)
  then have distinct: "cipher_count b u i \<noteq> cipher_count b u j" if "0 < b" for u
    using that by (simp add: cipher_count_def)
  have same: "cipher_count 0 u i = cipher_count 0 u j" for u by (simp add: cipher_count_def)
  show ?thesis
    using assms(2,3,7,8) distinct same nea_diff by (auto simp: run)
qed

lemma uplink_keystream_witness:
  "map2 (XOR) (send_run (secured_context 2 0) [new_message 0 1 (Some [1, 2, 3]), new_message 0 1 (Some [4, 5, 6])] ! 0)
              (send_run (secured_context 2 0) [new_message 0 1 (Some [1, 2, 3]), new_message 0 1 (Some [4, 5, 6])] ! 1)
    = [1 XOR 4, 2 XOR 5, 3 XOR 6]"
proof -
  define ms where "ms = [new_message 0 1 (Some [1, 2, 3]), new_message 0 1 (Some [4, 5, 6])]"
  have ms: "list_all ready ms" "length ms = 2" "data_octets (ms ! 0) = [1, 2, 3]" "data_octets (ms ! 1) = [4, 5, 6]"
    by (simp_all add: ms_def ready_def new_message_def data_octets_def)
  have sec: "secured 2 0 (secured_context 2 0)" by (simp add: secured_def secured_context_facts)
  have "map2 (XOR) (send_run (secured_context 2 0) ms ! 0) (send_run (secured_context 2 0) ms ! 1) =
      map2 (XOR) (data_octets (ms ! 0)) (data_octets (ms ! 1))"
    by (rule uplink_keystream [OF sec _ _ _ ms(1), of 0 1, THEN conjunct2, THEN conjunct2, THEN mp])
      (use ms in simp_all)
  then show ?thesis unfolding ms(3,4) by (simp add: ms_def del: send_run.simps)
qed

text \<open>A session that is accepted twice is counted twice, and still counted after its release.\<close>

lemma sessions_counted_twice:
  "(let p0 = Some idle_context;
        p1 = snd (nas_send_pdu_session_establishment_accept good_os 0 5 p0);
        p2 = snd (nas_send_pdu_session_establishment_accept good_os 0 5 p1);
        p3 = snd (nas_handle_pdu_session_release_command good_os 0 5 p2)
    in (nc_num_active_sessions (the p3), length (filter np_active (nc_sessions (the p3))))) = (1, 0)"
  by code_simp

end
