(* ===== verification/Nas_Validation.thy ===== *)
theory Nas_Validation
  imports Nas_Sessions
begin

text \<open>
  The validation of received NAS messages, \<^verbatim>\<open>src/nas/nas_validation.c\<close>: header, length and mandatory
  information elements of a message, and the order of the messages of a UE. The texts of the errors are
  left out. A validator that writes through the null pointer of its caller has the result \<open>None\<close>.
\<close>

section \<open>State\<close>

definition NAS_MAX_PDU_SIZE :: nat where "NAS_MAX_PDU_SIZE = 65535"
definition NAS_MIN_HEADER_SIZE :: nat where "NAS_MIN_HEADER_SIZE = 3"

datatype nas_validation_result =
    NAS_VALIDATION_OK | NAS_VALIDATION_ERROR_LENGTH | NAS_VALIDATION_ERROR_MANDATORY_IE
  | NAS_VALIDATION_ERROR_VALUE_RANGE | NAS_VALIDATION_ERROR_INTEGRITY | NAS_VALIDATION_ERROR_SEQUENCE
  | NAS_VALIDATION_ERROR_PROTOCOL_DISCRIMINATOR | NAS_VALIDATION_ERROR_MESSAGE_TYPE
  | NAS_VALIDATION_ERROR_SECURITY_HEADER | NAS_VALIDATION_ERROR_IE_LENGTH | NAS_VALIDATION_ERROR_IE_TYPE
  | NAS_VALIDATION_ERROR_NULL_POINTER | NAS_VALIDATION_ERROR_BUFFER_TOO_SMALL

record nas_validation_context_t =
  vx_result :: nas_validation_result
  vx_error_ie_type :: u8
  vx_error_ie_offset :: u16
  vx_validated_bytes :: u32
  vx_ie_count :: u8

record nas_validation_config_t =
  vg_check_mandatory_ie :: bool
  vg_check_value_ranges :: bool
  vg_check_sequence :: bool
  vg_strict_mode :: bool
  vg_allow_unknown_ie :: bool
  vg_max_message_size :: u32

text \<open>The configuration of the module and whether it is initialised; at first all of it is zero.\<close>

definition zero_validation_config :: nas_validation_config_t where
  "zero_validation_config = \<lparr>vg_check_mandatory_ie = False, vg_check_value_ranges = False,
     vg_check_sequence = False, vg_strict_mode = False, vg_allow_unknown_ie = False, vg_max_message_size = 0\<rparr>"

definition nas_validation_get_default_config :: "nas_validation_config_t option \<Rightarrow> nas_validation_config_t option" where
  "nas_validation_get_default_config p = map_option (\<lambda>c. \<lparr>vg_check_mandatory_ie = True,
     vg_check_value_ranges = True, vg_check_sequence = True, vg_strict_mode = False,
     vg_allow_unknown_ie = True, vg_max_message_size = of_nat NAS_MAX_PDU_SIZE\<rparr>) p"

definition nas_validation_init ::
  "nas_validation_config_t option \<Rightarrow> nas_validation_config_t \<times> bool
    \<Rightarrow> nas_validation_result \<times> nas_validation_config_t \<times> bool" where
  "nas_validation_init cfg g = (NAS_VALIDATION_OK, (case cfg of Some c \<Rightarrow> c
     | None \<Rightarrow> the (nas_validation_get_default_config (Some (fst g)))), True)"

definition nas_validation_cleanup :: "nas_validation_config_t \<times> bool \<Rightarrow> nas_validation_config_t \<times> bool" where
  "nas_validation_cleanup g = (zero_validation_config, False)"

definition fresh_validation_context :: nas_validation_context_t where
  "fresh_validation_context = \<lparr>vx_result = NAS_VALIDATION_OK, vx_error_ie_type = 0, vx_error_ie_offset = 0,
     vx_validated_bytes = 0, vx_ie_count = 0\<rparr>"

definition nas_validation_context_init :: "nas_validation_context_t option \<Rightarrow> nas_validation_context_t option" where
  "nas_validation_context_init p = map_option (\<lambda>c. fresh_validation_context) p"

definition nas_validation_set_error ::
  "nas_validation_result \<Rightarrow> u8 \<Rightarrow> nas_validation_context_t option \<Rightarrow> nas_validation_context_t option" where
  "nas_validation_set_error r ie p = map_option (\<lambda>c. c\<lparr>vx_result := r, vx_error_ie_type := ie\<rparr>) p"

definition fail_with ::
  "nas_validation_result \<Rightarrow> u8 \<Rightarrow> nas_validation_context_t option
    \<Rightarrow> nas_validation_result \<times> nas_validation_context_t option" where
  "fail_with r ie p = (r, nas_validation_set_error r ie p)"

section \<open>Elements\<close>

text \<open>
  The search for an element walks over a type octet, a length octet and the content of each; an
  element is found by its type, whether or not its content lies in the message.
\<close>

function scan_ie :: "u8 list \<Rightarrow> u8 \<Rightarrow> nat \<Rightarrow> bool" where
  "scan_ie bs ie off =
     (if length bs < off + 2 then False
      else if bs ! off = ie then True
      else if length bs < off + 3 then False
      else scan_ie bs ie (off + 2 + unat (bs ! (off + 1))))"
  by pat_completeness auto
termination
  by (relation "measure (\<lambda>(bs, ie, off). length bs - off)") auto

declare scan_ie.simps [simp del]

definition nas_validate_mandatory_ie ::
  "u8 list option \<Rightarrow> u8 \<Rightarrow> nas_validation_context_t option
    \<Rightarrow> nas_validation_result \<times> nas_validation_context_t option" where
  "nas_validate_mandatory_ie data ie p = (case data of
     None \<Rightarrow> (NAS_VALIDATION_ERROR_NULL_POINTER, p)
   | Some bs \<Rightarrow> if scan_ie bs ie 0 then (NAS_VALIDATION_OK, p)
       else fail_with NAS_VALIDATION_ERROR_MANDATORY_IE ie p)"

definition nas_validate_value_range :: "u32 \<Rightarrow> u32 \<Rightarrow> u32 \<Rightarrow> u8 \<Rightarrow> nas_validation_result" where
  "nas_validate_value_range v lo hi ie = (if v < lo \<or> hi < v then NAS_VALIDATION_ERROR_VALUE_RANGE else NAS_VALIDATION_OK)"

definition nas_validate_ie_length :: "u16 \<Rightarrow> u16 \<Rightarrow> u16 \<Rightarrow> u16 \<Rightarrow> nas_validation_result" where
  "nas_validate_ie_length actual expected lo hi =
     (if 0 < expected then (if actual \<noteq> expected then NAS_VALIDATION_ERROR_IE_LENGTH else NAS_VALIDATION_OK)
      else if actual < lo \<or> hi < actual then NAS_VALIDATION_ERROR_IE_LENGTH else NAS_VALIDATION_OK)"

section \<open>Messages\<close>

definition nas_is_valid_message_type :: "u8 \<Rightarrow> bool" where
  "nas_is_valid_message_type t \<longleftrightarrow> (0x41 \<le> t \<and> t \<le> 0x6F) \<or> (0xC1 \<le> t \<and> t \<le> 0xDF)"

definition nas_is_valid_protocol_discriminator :: "u8 \<Rightarrow> bool" where
  "nas_is_valid_protocol_discriminator d \<longleftrightarrow> d = 0x7E \<or> d = 0x2E"

definition nas_get_min_message_length :: "u8 \<Rightarrow> nat" where
  "nas_get_min_message_length t =
     (if t = 0x41 then 20 else if t = 0x42 then 10 else if t = 0x56 then 35 else if t = 0x57 then 18
      else if t = 0x5e then 10 else if t = 0x5f then 5 else if t = 0xc1 then 10 else if t = 0xc2 then 20
      else if t = 0x67 \<or> t = 0x68 then 10 else if t = 0x43 then 5 else if t = 0x45 then 10
      else NAS_MIN_HEADER_SIZE)"

definition nas_validate_security_header ::
  "u8 \<Rightarrow> nas_validation_context_t option \<Rightarrow> nas_validation_result \<times> nas_validation_context_t option" where
  "nas_validate_security_header h p = (if h \<in> {0, 1, 2, 3, 4, 0x0c} then (NAS_VALIDATION_OK, p)
     else fail_with NAS_VALIDATION_ERROR_SECURITY_HEADER 0 p)"

definition nas_validate_mac ::
  "u8 list option \<Rightarrow> u32 \<Rightarrow> nas_validation_context_t option
    \<Rightarrow> nas_validation_result \<times> nas_validation_context_t option" where
  "nas_validate_mac data expected p = (case data of
     None \<Rightarrow> fail_with NAS_VALIDATION_ERROR_INTEGRITY 0 p
   | Some bs \<Rightarrow> if length bs < 4 then fail_with NAS_VALIDATION_ERROR_INTEGRITY 0 p
       else let n = length bs; actual = push_bit 24 (ucast (bs ! (n - 4))) OR push_bit 16 (ucast (bs ! (n - 3)))
              OR push_bit 8 (ucast (bs ! (n - 2))) OR ucast (bs ! (n - 1))
       in if actual \<noteq> expected then fail_with NAS_VALIDATION_ERROR_INTEGRITY 0 p else (NAS_VALIDATION_OK, p))"

definition nas_validate_message_header ::
  "u8 list option \<Rightarrow> nas_validation_context_t option
    \<Rightarrow> nas_validation_result \<times> nas_validation_context_t option" where
  "nas_validate_message_header data p = (case data of
     None \<Rightarrow> fail_with NAS_VALIDATION_ERROR_NULL_POINTER 0 p
   | Some bs \<Rightarrow>
       if length bs < NAS_MIN_HEADER_SIZE then fail_with NAS_VALIDATION_ERROR_BUFFER_TOO_SMALL 0 p
       else if \<not> nas_is_valid_protocol_discriminator (bs ! 0)
       then fail_with NAS_VALIDATION_ERROR_PROTOCOL_DISCRIMINATOR 0x7E p
       else case nas_validate_security_header (bs ! 1 AND 0x0F) p of (r, p') \<Rightarrow>
         if r \<noteq> NAS_VALIDATION_OK then (r, p')
         else if \<not> nas_is_valid_message_type (bs ! 2) then fail_with NAS_VALIDATION_ERROR_MESSAGE_TYPE 0 p'
         else (NAS_VALIDATION_OK, map_option (\<lambda>c. c\<lparr>vx_validated_bytes := 3, vx_ie_count := 0\<rparr>) p'))"

text \<open>What the validators of the messages share: a least length, and elements that must occur.\<close>

primrec require_ies ::
  "u8 list \<Rightarrow> u8 list \<Rightarrow> nas_validation_context_t option \<Rightarrow> nas_validation_result \<times> nas_validation_context_t option" where
  "require_ies bs [] p = (NAS_VALIDATION_OK, p)"
| "require_ies bs (ie # ies) p = (case nas_validate_mandatory_ie (Some bs) ie p of (r, p') \<Rightarrow>
     if r \<noteq> NAS_VALIDATION_OK then (r, p') else require_ies bs ies p')"

definition validate_payload ::
  "nat \<Rightarrow> u8 list \<Rightarrow> nas_validation_config_t \<Rightarrow> u8 list option \<Rightarrow> nas_validation_context_t option
    \<Rightarrow> (nas_validation_result \<times> nas_validation_context_t option) option" where
  "validate_payload least ies g data p = (case data of
     None \<Rightarrow> Some (fail_with NAS_VALIDATION_ERROR_LENGTH 0 p)
   | Some bs \<Rightarrow>
       if length bs < least then Some (fail_with NAS_VALIDATION_ERROR_LENGTH 0 p)
       else case (if vg_check_mandatory_ie g then require_ies bs ies p else (NAS_VALIDATION_OK, p)) of (r, p') \<Rightarrow>
         if r \<noteq> NAS_VALIDATION_OK then Some (r, p')
         else map_option (\<lambda>c. (NAS_VALIDATION_OK, Some (c\<lparr>vx_validated_bytes := of_nat (length bs)\<rparr>))) p')"

definition nas_validate_registration_request where
  "nas_validate_registration_request = validate_payload 5 [0x5E, 0x15]"

definition nas_validate_registration_accept where
  "nas_validate_registration_accept = validate_payload 3 [0x18]"

definition nas_validate_authentication_request where
  "nas_validate_authentication_request = validate_payload 35 [0x21, 0x20]"

definition nas_validate_security_mode_command where
  "nas_validate_security_mode_command = validate_payload 5 [0x30]"

definition nas_validate_pdu_session_establishment_request where
  "nas_validate_pdu_session_establishment_request = validate_payload 5 [0x12, 0x19]"

definition nas_validate_pdu_session_establishment_accept where
  "nas_validate_pdu_session_establishment_accept = validate_payload 10 [0x12, 0x35]"

definition nas_validate_ul_nas_transport where
  "nas_validate_ul_nas_transport = validate_payload 5 [0x40, 0x41]"

definition nas_validate_dl_nas_transport where
  "nas_validate_dl_nas_transport = nas_validate_ul_nas_transport"

definition payload_validator ::
  "u8 \<Rightarrow> (nas_validation_config_t \<Rightarrow> u8 list option \<Rightarrow> nas_validation_context_t option
    \<Rightarrow> (nas_validation_result \<times> nas_validation_context_t option) option) option" where
  "payload_validator t =
     (if t = 0x41 then Some nas_validate_registration_request
      else if t = 0x42 then Some nas_validate_registration_accept
      else if t = 0x56 then Some nas_validate_authentication_request
      else if t = 0x5e then Some nas_validate_security_mode_command
      else if t = 0xc1 then Some nas_validate_pdu_session_establishment_request
      else if t = 0xc2 then Some nas_validate_pdu_session_establishment_accept
      else if t = 0x67 then Some nas_validate_ul_nas_transport
      else if t = 0x68 then Some nas_validate_dl_nas_transport else None)"

text \<open>A context of the function stands in for a null pointer, so that the validators always have one.\<close>

definition nas_validate_message ::
  "nas_validation_config_t \<Rightarrow> u8 list option \<Rightarrow> u8 \<Rightarrow> nas_validation_context_t option
    \<Rightarrow> (nas_validation_result \<times> nas_validation_context_t option) option" where
  "nas_validate_message g data t p = (let
     p = (case p of None \<Rightarrow> Some fresh_validation_context | Some c \<Rightarrow> Some c)
   in case data of
     None \<Rightarrow> Some (fail_with NAS_VALIDATION_ERROR_NULL_POINTER 0 p)
   | Some bs \<Rightarrow>
       if unat (vg_max_message_size g) < length bs then Some (fail_with NAS_VALIDATION_ERROR_LENGTH 0 p)
       else case nas_validate_message_header data p of (r, p') \<Rightarrow>
         if r \<noteq> NAS_VALIDATION_OK then Some (r, p')
         else let t = (if t = 0 then bs ! 2 else t) in
           if length bs < nas_get_min_message_length t then Some (fail_with NAS_VALIDATION_ERROR_LENGTH 0 p')
           else case payload_validator t of
             Some v \<Rightarrow> v g (Some (drop 3 bs)) p'
           | None \<Rightarrow> Some (NAS_VALIDATION_OK, map_option (\<lambda>c. c\<lparr>vx_validated_bytes := of_nat (length bs)\<rparr>) p'))"

definition nas_validate_pdu_length :: "u8 list option \<Rightarrow> u8 \<Rightarrow> nas_validation_result" where
  "nas_validate_pdu_length data t = (case data of None \<Rightarrow> NAS_VALIDATION_ERROR_NULL_POINTER
   | Some bs \<Rightarrow> if length bs < nas_get_min_message_length t \<or> NAS_MAX_PDU_SIZE < length bs
       then NAS_VALIDATION_ERROR_LENGTH else NAS_VALIDATION_OK)"

section \<open>The order of messages\<close>

datatype nas_seq_state =
    NAS_SEQ_STATE_IDLE | NAS_SEQ_STATE_REGISTERING | NAS_SEQ_STATE_AUTHENTICATING
  | NAS_SEQ_STATE_SECURITY_MODE | NAS_SEQ_STATE_REGISTERED | NAS_SEQ_STATE_PDU_SESSION_PENDING
  | NAS_SEQ_STATE_CONNECTED | NAS_SEQ_STATE_DEREGISTERING

record nas_sequence_context_t =
  sq_current_state :: nas_seq_state
  sq_expected_next :: nas_seq_state
  sq_last_msg_type :: u8
  sq_sequence_number :: u32
  sq_expected_sequence :: u32
  sq_sequence_valid :: bool

definition fresh_sequence_context :: nas_sequence_context_t where
  "fresh_sequence_context = \<lparr>sq_current_state = NAS_SEQ_STATE_IDLE, sq_expected_next = NAS_SEQ_STATE_IDLE,
     sq_last_msg_type = 0, sq_sequence_number = 0, sq_expected_sequence = 0, sq_sequence_valid = True\<rparr>"

definition nas_sequence_context_init :: "nas_sequence_context_t option \<Rightarrow> nas_sequence_context_t option" where
  "nas_sequence_context_init p = map_option (\<lambda>c. fresh_sequence_context) p"

text \<open>The new state of a message, or \<open>None\<close> where the current state does not allow it.\<close>

definition seq_next :: "nas_seq_state \<Rightarrow> u8 \<Rightarrow> nas_seq_state option" where
  "seq_next st t =
     (if t = 0x41 then (if st = NAS_SEQ_STATE_IDLE \<or> st = NAS_SEQ_STATE_REGISTERED
        then Some NAS_SEQ_STATE_REGISTERING else None)
      else if t = 0x56 then (if st = NAS_SEQ_STATE_REGISTERING then Some NAS_SEQ_STATE_AUTHENTICATING else None)
      else if t = 0x57 then (if st = NAS_SEQ_STATE_AUTHENTICATING then Some NAS_SEQ_STATE_SECURITY_MODE else None)
      else if t = 0x5e then (if st = NAS_SEQ_STATE_SECURITY_MODE then Some st else None)
      else if t = 0x5f then (if st = NAS_SEQ_STATE_SECURITY_MODE then Some NAS_SEQ_STATE_REGISTERED else None)
      else if t = 0x42 then (if st = NAS_SEQ_STATE_REGISTERING \<or> st = NAS_SEQ_STATE_SECURITY_MODE
        then Some NAS_SEQ_STATE_REGISTERED else None)
      else if t = 0xc1 then (if st = NAS_SEQ_STATE_REGISTERED \<or> st = NAS_SEQ_STATE_CONNECTED
        then Some NAS_SEQ_STATE_PDU_SESSION_PENDING else None)
      else if t = 0xc2 then (if st = NAS_SEQ_STATE_PDU_SESSION_PENDING then Some NAS_SEQ_STATE_CONNECTED else None)
      else if t = 0x45 then (if st = NAS_SEQ_STATE_REGISTERED \<or> st = NAS_SEQ_STATE_CONNECTED
        then Some NAS_SEQ_STATE_DEREGISTERING else None)
      else Some st)"

definition nas_validate_sequence ::
  "u8 \<Rightarrow> u32 \<Rightarrow> nas_sequence_context_t option \<Rightarrow> nas_validation_result \<times> nas_sequence_context_t option" where
  "nas_validate_sequence t n p = (case p of
     None \<Rightarrow> (NAS_VALIDATION_ERROR_NULL_POINTER, None)
   | Some c \<Rightarrow> (case seq_next (sq_current_state c) t of
       None \<Rightarrow> (NAS_VALIDATION_ERROR_SEQUENCE, Some (c\<lparr>sq_sequence_valid := False\<rparr>))
     | Some st \<Rightarrow>
         if 0 < sq_expected_sequence c \<and> n \<noteq> sq_expected_sequence c
         then (NAS_VALIDATION_ERROR_SEQUENCE, Some (c\<lparr>sq_sequence_valid := False\<rparr>))
         else (NAS_VALIDATION_OK, Some (c\<lparr>sq_last_msg_type := t, sq_sequence_number := n, sq_current_state := st\<rparr>))))"

fun expected_type :: "nas_seq_state \<Rightarrow> u8" where
  "expected_type NAS_SEQ_STATE_IDLE = 0x41"
| "expected_type NAS_SEQ_STATE_REGISTERING = 0x56"
| "expected_type NAS_SEQ_STATE_AUTHENTICATING = 0x57"
| "expected_type NAS_SEQ_STATE_SECURITY_MODE = 0x5f"
| "expected_type NAS_SEQ_STATE_REGISTERED = 0xc1"
| "expected_type NAS_SEQ_STATE_PDU_SESSION_PENDING = 0xc2"
| "expected_type st = 0"

definition nas_get_expected_next_msg_type :: "nas_sequence_context_t option \<Rightarrow> u8" where
  "nas_get_expected_next_msg_type p = (case p of None \<Rightarrow> 0 | Some c \<Rightarrow> expected_type (sq_current_state c))"

fun nas_is_valid_state_transition :: "nas_seq_state \<Rightarrow> nas_seq_state \<Rightarrow> u8 \<Rightarrow> bool" where
  "nas_is_valid_state_transition NAS_SEQ_STATE_IDLE st t = (st = NAS_SEQ_STATE_REGISTERING \<and> t = 0x41)"
| "nas_is_valid_state_transition NAS_SEQ_STATE_REGISTERING st t =
     ((st = NAS_SEQ_STATE_AUTHENTICATING \<and> t = 0x56) \<or> (st = NAS_SEQ_STATE_REGISTERED \<and> t = 0x42))"
| "nas_is_valid_state_transition NAS_SEQ_STATE_AUTHENTICATING st t = (st = NAS_SEQ_STATE_SECURITY_MODE \<and> t = 0x57)"
| "nas_is_valid_state_transition NAS_SEQ_STATE_SECURITY_MODE st t = (st = NAS_SEQ_STATE_REGISTERED \<and> t = 0x5f)"
| "nas_is_valid_state_transition NAS_SEQ_STATE_REGISTERED st t =
     ((st = NAS_SEQ_STATE_PDU_SESSION_PENDING \<and> t = 0xc1) \<or> (st = NAS_SEQ_STATE_DEREGISTERING \<and> t = 0x45))"
| "nas_is_valid_state_transition NAS_SEQ_STATE_PDU_SESSION_PENDING st t = (st = NAS_SEQ_STATE_CONNECTED \<and> t = 0xc2)"
| "nas_is_valid_state_transition NAS_SEQ_STATE_CONNECTED st t = (st = NAS_SEQ_STATE_DEREGISTERING \<and> t = 0x45)"
| "nas_is_valid_state_transition NAS_SEQ_STATE_DEREGISTERING st t = (st = NAS_SEQ_STATE_IDLE)"

end
