(* ===== verification/Nas_Validation_Proofs.thy ===== *)
theory Nas_Validation_Proofs
  imports Nas_Validation Nas_Proofs
begin

text \<open>
  The order of messages that the validation enforces, against its table of transitions and against the
  registration of a UE, and the format of an authentication request, against the handler that reads it.
\<close>

section \<open>The order of messages\<close>

text \<open>
  C22. In a context without an expected number, a message moves the validator to another state exactly
  where the table of transitions says so, with four exceptions: the table leaves the deregistering
  state, the validator does not; the validator lets a registered UE register again, takes a
  registration accept for the end of the security mode, and lets a connected UE ask for another session.
\<close>

theorem nas_sequence_table:
  assumes "sq_expected_sequence c = 0"
  shows "(\<exists>c'. nas_validate_sequence t n (Some c) = (NAS_VALIDATION_OK, Some c')
        \<and> sq_current_state c' = st \<and> st \<noteq> sq_current_state c)
    \<longleftrightarrow> (nas_is_valid_state_transition (sq_current_state c) st t \<and> sq_current_state c \<noteq> NAS_SEQ_STATE_DEREGISTERING)
      \<or> (sq_current_state c, t, st) \<in> {(NAS_SEQ_STATE_REGISTERED, 0x41, NAS_SEQ_STATE_REGISTERING),
           (NAS_SEQ_STATE_SECURITY_MODE, 0x42, NAS_SEQ_STATE_REGISTERED),
           (NAS_SEQ_STATE_CONNECTED, 0xc1, NAS_SEQ_STATE_PDU_SESSION_PENDING)}"
proof -
  have step: "(\<exists>c'. nas_validate_sequence t n (Some c) = (NAS_VALIDATION_OK, Some c')
        \<and> sq_current_state c' = st \<and> st \<noteq> sq_current_state c)
      \<longleftrightarrow> seq_next (sq_current_state c) t = Some st \<and> st \<noteq> sq_current_state c"
    using assms by (auto simp: nas_validate_sequence_def split: option.splits)
  show ?thesis
    unfolding step
    by (cases "sq_current_state c") (auto simp: seq_next_def)
qed

lemma nas_sequence_table_witness:
  "\<exists>c'. nas_validate_sequence 0x41 7 (Some fresh_sequence_context) = (NAS_VALIDATION_OK, Some c')
    \<and> sq_current_state c' = NAS_SEQ_STATE_REGISTERING"
  using nas_sequence_table [of fresh_sequence_context "0x41" 7 NAS_SEQ_STATE_REGISTERING]
  by (auto simp: fresh_sequence_context_def)

text \<open>A run of messages: the results and the last state.\<close>

primrec seq_run :: "(u8 \<times> u32) list \<Rightarrow> nas_sequence_context_t option
    \<Rightarrow> nas_validation_result list \<times> nas_sequence_context_t option" where
  "seq_run [] p = ([], p)"
| "seq_run (m # ms) p = (case nas_validate_sequence (fst m) (snd m) p of (r, p') \<Rightarrow>
     case seq_run ms p' of (rs, q) \<Rightarrow> (r # rs, q))"

lemma deregistering_step:
  assumes "sq_current_state c = NAS_SEQ_STATE_DEREGISTERING"
  shows "\<exists>r c'. nas_validate_sequence t n (Some c) = (r, Some c') \<and> sq_current_state c' = NAS_SEQ_STATE_DEREGISTERING"
proof -
  have "seq_next NAS_SEQ_STATE_DEREGISTERING t = None \<or> seq_next NAS_SEQ_STATE_DEREGISTERING t = Some NAS_SEQ_STATE_DEREGISTERING"
    by (simp add: seq_next_def)
  then show ?thesis using assms by (auto simp: nas_validate_sequence_def)
qed

text \<open>Once a UE deregisters, no messages take the validator out of the deregistering state.\<close>

lemma deregistering_final:
  "sq_current_state c = NAS_SEQ_STATE_DEREGISTERING \<Longrightarrow>
   \<exists>rs c'. seq_run ms (Some c) = (rs, Some c') \<and> sq_current_state c' = NAS_SEQ_STATE_DEREGISTERING"
proof (induction ms arbitrary: c)
  case (Cons m ms)
  obtain r c1 where "nas_validate_sequence (fst m) (snd m) (Some c) = (r, Some c1)"
    and "sq_current_state c1 = NAS_SEQ_STATE_DEREGISTERING"
    using deregistering_step [OF Cons.prems] by blast
  then show ?case using Cons.IH [of c1] by auto
qed simp

text \<open>
  The registration of a UE in the order of the protocol, with any sequence numbers, is accepted up to
  the completion of the security mode, and its last message, the registration accept, is refused.
\<close>

lemma registration_accept_refused:
  "fst (seq_run [(0x41, n1), (0x56, n2), (0x57, n3), (0x5e, n4), (0x5f, n5), (0x42, n6)] (Some fresh_sequence_context)) =
      [NAS_VALIDATION_OK, NAS_VALIDATION_OK, NAS_VALIDATION_OK, NAS_VALIDATION_OK, NAS_VALIDATION_OK, NAS_VALIDATION_ERROR_SEQUENCE]"
  by (simp add: nas_validate_sequence_def seq_next_def fresh_sequence_context_def)

section \<open>Authentication requests\<close>

definition default_validation_config :: nas_validation_config_t where
  "default_validation_config = fst (snd (nas_validation_init None (zero_validation_config, False)))"

lemma default_checks: "vg_check_mandatory_ie default_validation_config"
  by (simp add: default_validation_config_def nas_validation_init_def nas_validation_get_default_config_def)

lemma auth_request_stores:
  assumes "33 \<le> length bs" and "nc_active c" and "au_vectors (nc_auth c) \<noteq> []"
  shows "\<exists>r c'. nas_handle_authentication_request good_os now (Some bs) (Some c) = (r, Some c')
    \<and> av_rand (au_vectors (nc_auth c') ! 0) = take 16 (drop 1 bs)
    \<and> av_autn (au_vectors (nc_auth c') ! 0) = take 16 (drop 17 bs)"
proof -
  let ?k = "(bs ! 0) AND 7" and ?r = "take 16 (drop 1 bs)" and ?a = "take 16 (drop 17 bs)"
  let ?d = "upd_security (aka_keys ?k ?r ?a) (upd_stats (\<lambda>t. t\<lparr>nt_authentication_requests := nt_authentication_requests t + 1\<rparr>)
    (c\<lparr>nc_auth := store_challenge ?r ?a (nc_auth c)\<rparr>))"
  obtain r d' where resp: "nas_send_authentication_response good_os now (Some (aka_res ?k ?r ?a)) (Some ?d) = (r, Some d')"
    and kept: "setup_of d' = setup_of ?d" using auth_response_setup by blast
  have "nas_handle_authentication_request good_os now (Some bs) (Some c) = (r, Some d')"
    using assms(1,2) resp by (auto simp: nas_handle_authentication_request_def Let_def)
  moreover have "nc_auth d' = store_challenge ?r ?a (nc_auth c)"
    using setup_keeps(1) [OF kept] by (simp add: upd_security_def upd_stats_def)
  ultimately show ?thesis using assms(3) by (simp add: store_challenge_def)
qed

text \<open>
  C21. Validation and handler disagree on the format of an authentication request. A request with the two
  elements RAND and AUTN passes the validation, but the handler takes its length octet for the first octet of
  RAND and parts of both elements for AUTN; the request from which the handler does read RAND and AUTN (a key
  set identifier, then both without element headers) is too short for the validation.
\<close>

theorem challenge_formats_disagree:
  assumes "length R = 16" and "length A = 16" and "nc_active c" and "au_vectors (nc_auth c) \<noteq> []"
  shows "(\<exists>q. nas_validate_authentication_request default_validation_config (Some ([0x21, 16] @ R @ [0x20, 16] @ A)) (Some x)
        = Some (NAS_VALIDATION_OK, q))
    \<and> (\<exists>r c'. nas_handle_authentication_request good_os now (Some ([0x21, 16] @ R @ [0x20, 16] @ A)) (Some c) = (r, Some c')
        \<and> av_rand (au_vectors (nc_auth c') ! 0) = 16 # take 15 R
        \<and> av_autn (au_vectors (nc_auth c') ! 0) = drop 15 R @ [0x20, 16] @ take 13 A)
    \<and> (\<exists>r c'. nas_handle_authentication_request good_os now (Some (k # R @ A)) (Some c) = (r, Some c')
        \<and> av_rand (au_vectors (nc_auth c') ! 0) = R \<and> av_autn (au_vectors (nc_auth c') ! 0) = A)
    \<and> (\<exists>q. nas_validate_authentication_request default_validation_config (Some (k # R @ A)) (Some x)
        = Some (NAS_VALIDATION_ERROR_LENGTH, q))"
proof -
  let ?bs = "[0x21, 16] @ R @ [0x20, 16] @ A"
  have len: "length ?bs = 36" using assms(1,2) by simp
  have rand: "scan_ie ?bs 0x21 0" using len by (subst scan_ie.simps) simp
  have at18: "?bs ! 18 = 0x20" using assms(1) by (simp add: nth_append)
  have autn: "scan_ie ?bs 0x20 0"
  proof (subst scan_ie.simps)
    have "scan_ie ?bs 0x20 18" using len at18 by (subst scan_ie.simps) simp
    then show "if length ?bs < 0 + 2 then False else if ?bs ! 0 = 0x20 then True
      else if length ?bs < 0 + 3 then False else scan_ie ?bs 0x20 (0 + 2 + unat (?bs ! (0 + 1)))"
      using len by simp
  qed
  have val: "nas_validate_authentication_request default_validation_config (Some ?bs) (Some x) =
      Some (NAS_VALIDATION_OK, Some (x\<lparr>vx_validated_bytes := of_nat (length ?bs)\<rparr>))"
    using len rand autn default_checks
    by (simp add: nas_validate_authentication_request_def validate_payload_def nas_validate_mandatory_ie_def del: append.simps)
  have short: "nas_validate_authentication_request default_validation_config (Some (k # R @ A)) (Some x) =
      Some (NAS_VALIDATION_ERROR_LENGTH, nas_validation_set_error NAS_VALIDATION_ERROR_LENGTH 0 (Some x))"
    using assms(1,2) by (simp add: nas_validate_authentication_request_def validate_payload_def fail_with_def)
  have split: "take 16 (drop 1 ?bs) = 16 # take 15 R" "take 16 (drop 17 ?bs) = drop 15 R @ [0x20, 16] @ take 13 A"
    using assms(1,2) by (simp_all add: drop_Cons')
  have "33 \<le> length ?bs" using len by simp
  note misread = auth_request_stores [OF this assms(3,4), of now, unfolded split]
  have "33 \<le> length (k # R @ A)" and "take 16 (drop 1 (k # R @ A)) = R" and "take 16 (drop 17 (k # R @ A)) = A"
    using assms(1,2) by (simp_all add: drop_Cons')
  with auth_request_stores [of "k # R @ A", OF _ assms(3,4), of now] misread val short show ?thesis by metis
qed

lemma challenge_formats_disagree_witness:
  "(\<exists>q. nas_validate_authentication_request default_validation_config
        (Some ([0x21, 16] @ replicate 16 7 @ [0x20, 16] @ replicate 16 9)) (Some fresh_validation_context) = Some (NAS_VALIDATION_OK, q))
    \<and> (\<exists>r c'. nas_handle_authentication_request good_os 0 (Some ([0x21, 16] @ replicate 16 7 @ [0x20, 16] @ replicate 16 9)) (Some idle_context) = (r, Some c')
      \<and> av_rand (au_vectors (nc_auth c') ! 0) = 16 # replicate 15 7)
    \<and> (\<exists>q. nas_validate_authentication_request default_validation_config
        (Some (0 # replicate 16 7 @ replicate 16 9)) (Some fresh_validation_context) = Some (NAS_VALIDATION_ERROR_LENGTH, q))"
proof -
  have vectors: "au_vectors (nc_auth idle_context) \<noteq> []"
    by (simp add: idle_context_def zero_nas_context_def NAS_MAX_AUTHENTICATION_VECTOR_def)
  have "take 15 (replicate 16 (7 :: u8)) = replicate 15 7" by simp
  with challenge_formats_disagree [of "replicate 16 7" "replicate 16 9" idle_context fresh_validation_context 0 0, OF _ _ _ vectors]
    idle_context_facts
  show ?thesis by (metis length_replicate)
qed

text \<open>Before the initialisation of the module every message is longer than the maximal size.\<close>

lemma uninitialised_refuses:
  "bs \<noteq> [] \<Longrightarrow> \<exists>q. nas_validate_message zero_validation_config (Some bs) t p = Some (NAS_VALIDATION_ERROR_LENGTH, q)"
  by (auto simp: nas_validate_message_def zero_validation_config_def fail_with_def Let_def)

end
