(* ===== verification/Gnb.thy ===== *)
theory Gnb
  imports Ue_Context Memory_Pool
begin

text \<open>
  The base stations (gNBs) of a UE and their connections (\<^verbatim>\<open>src/core/uesim_core.c\<close>): adding, removing
  and switching, connecting with retries, and the procedures the core runs over them.

  A gNB context is shared between the serving pointer, the candidate table and the callers, so
  contexts live in a store (\<open>gnb_at\<close>) under their addresses; \<open>gnb_live\<close> lists the addresses that are
  allocated and not freed. \<open>fds\<close> lists the open socket descriptors of the process. What the
  network does to a connection attempt is an argument.
\<close>

section \<open>State\<close>

datatype gnb_type = GNB_TYPE_OAI | GNB_TYPE_SRSRAN | GNB_TYPE_COMMERCIAL | GNB_TYPE_MOCK

datatype gnb_state = GNB_STATE_UNKNOWN | GNB_STATE_CONNECTED | GNB_STATE_DISCONNECTED
  | GNB_STATE_HANDOVER_CANDIDATE | GNB_STATE_CONNECTING

definition MAX_GNB_CANDIDATES :: nat where "MAX_GNB_CANDIDATES = 8"

text \<open>The address of a gNB: IP address and port in network byte order.\<close>

record gnb_context =
  gnb_id :: u32
  gb_type :: gnb_type
  gb_state :: gnb_state
  gb_addr :: "u32 \<times> u16"
  gb_ngap :: int
  gb_gtpu :: int
  cell_id :: u16
  gb_tac :: u16
  rsrp :: s32
  rsrq :: s32
  connect_time :: int
  last_activity :: int
  is_serving :: bool

record gnb_sys =
  ue :: ue_context
  ue_gnb_addr :: "u32 \<times> u16"
  state_change_time :: int
  gnb_at :: "nat \<Rightarrow> gnb_context"
  gnb_live :: "nat list"
  g_gnb_id_counter :: u32
  fds :: "int list"

text \<open>Updates of one gNB, of the UE context, and of the socket that is closed.\<close>

definition upd_gnb :: "nat \<Rightarrow> (gnb_context \<Rightarrow> gnb_context) \<Rightarrow> 'z gnb_sys_scheme \<Rightarrow> 'z gnb_sys_scheme" where
  "upd_gnb a f w = w\<lparr>gnb_at := (gnb_at w)(a := f (gnb_at w a))\<rparr>"

definition upd_ue :: "(ue_context \<Rightarrow> ue_context) \<Rightarrow> 'z gnb_sys_scheme \<Rightarrow> 'z gnb_sys_scheme" where
  "upd_ue f w = w\<lparr>ue := f (ue w)\<rparr>"

definition close_fd :: "int \<Rightarrow> 'z gnb_sys_scheme \<Rightarrow> 'z gnb_sys_scheme" where
  "close_fd fd w = (if fd \<ge> 0 then w\<lparr>fds := remove1 fd (fds w)\<rparr> else w)"

text \<open>The candidates in the first \<open>num_candidate_gnbs\<close> places of the table.\<close>

definition candidates :: "'z gnb_sys_scheme \<Rightarrow> nat option list" where
  "candidates w = take (unat (num_candidate_gnbs (ue w))) (candidate_gnbs (ue w))"

section \<open>The tables\<close>

text \<open>\<^verbatim>\<open>htons\<close> and \<^verbatim>\<open>ntohs\<close> on a little-endian machine.\<close>

definition swap16 :: "u16 \<Rightarrow> u16" where
  "swap16 v = push_bit 8 v OR drop_bit 8 v"

definition new_gnb :: "u32 \<Rightarrow> gnb_type \<Rightarrow> u32 \<Rightarrow> u16 \<Rightarrow> gnb_context" where
  "new_gnb i ty ip port = \<lparr>gnb_id = i, gb_type = ty, gb_state = GNB_STATE_DISCONNECTED,
     gb_addr = (ip, swap16 port), gb_ngap = -1, gb_gtpu = -1, cell_id = 0, gb_tac = 0,
     rsrp = -140, rsrq = -20, connect_time = 0, last_activity = 0, is_serving = False\<rparr>"

text \<open>
  \<open>a\<close> is the address the allocator returns, \<open>ip\<close> the value of \<^verbatim>\<open>inet_addr\<close> for the string. The counter
  of identities advances also when the gNB is rejected afterwards.
\<close>

definition uesim_add_gnb :: "os \<Rightarrow> nat \<Rightarrow> gnb_type \<Rightarrow> u32 option \<Rightarrow> u16 \<Rightarrow> bool
    \<Rightarrow> 'z gnb_sys_scheme option \<Rightarrow> (uesim_error + nat) \<times> 'z gnb_sys_scheme option" where
  "uesim_add_gnb s a ty ip port out p = with_obj p (\<lambda>w. case ip of
     None \<Rightarrow> (Inl UESIM_ERROR_INVALID_PARAM, w)
   | Some i \<Rightarrow> let n = unat (num_candidate_gnbs (ue w)) in
       if \<not> out then (Inl UESIM_ERROR_INVALID_PARAM, w)
       else if \<not> lock_ok s 0 then (Inl UESIM_ERROR_THREAD, w)
       else if n \<ge> MAX_GNB_CANDIDATES \<and> serving_gnb (ue w) \<noteq> None then (Inl UESIM_ERROR_CAPACITY, w)
       else if \<not> alloc_ok s 0 then (Inl UESIM_ERROR_MEMORY, w)
       else let w = w\<lparr>g_gnb_id_counter := g_gnb_id_counter w + 1\<rparr>;
                g = new_gnb (g_gnb_id_counter w) ty i port in
         if \<not> init_ok s 0 then (Inl UESIM_ERROR_THREAD, w)
         else if serving_gnb (ue w) = None then
           (Inr a, upd_ue (\<lambda>c. c\<lparr>serving_gnb := Some a, gnb_ip := i, gnb_port := port\<rparr>)
             (w\<lparr>gnb_at := (gnb_at w)(a := g\<lparr>is_serving := True\<rparr>), gnb_live := a # gnb_live w,
                ue_gnb_addr := gb_addr g\<rparr>))
         else if \<exists>b \<in> set (candidates w). case b of None \<Rightarrow> False | Some q \<Rightarrow> gb_addr (gnb_at w q) = gb_addr g
         then (Inl UESIM_ERROR_ALREADY_EXISTS, w)
         else (Inr a, upd_ue (\<lambda>c. c\<lparr>candidate_gnbs := (candidate_gnbs c)[n := Some a],
                 num_candidate_gnbs := num_candidate_gnbs c + 1\<rparr>)
             (w\<lparr>gnb_at := (gnb_at w)(a := g\<lparr>gb_state := GNB_STATE_HANDOVER_CANDIDATE\<rparr>),
                gnb_live := a # gnb_live w\<rparr>)))"

text \<open>
  Closing the gap of place \<open>i\<close> among the first \<open>n\<close>: the following ones move down, place \<open>n - 1\<close> is cleared.
\<close>

definition shift_out :: "nat \<Rightarrow> nat \<Rightarrow> nat option list \<Rightarrow> nat option list" where
  "shift_out i n cs = take i cs @ take (n - 1 - i) (drop (Suc i) cs) @ None # drop n cs"

definition drop_candidate :: "nat \<Rightarrow> ue_context \<Rightarrow> ue_context" where
  "drop_candidate i c = c\<lparr>
     candidate_gnbs := shift_out i (unat (num_candidate_gnbs c)) (candidate_gnbs c),
     num_candidate_gnbs := num_candidate_gnbs c - 1\<rparr>"

definition uesim_disconnect_gnb :: "os \<Rightarrow> nat option \<Rightarrow> 'z gnb_sys_scheme option
    \<Rightarrow> uesim_error \<times> 'z gnb_sys_scheme option" where
  "uesim_disconnect_gnb s g p = with_ptr p (\<lambda>w. case g of
     None \<Rightarrow> (UESIM_ERROR_INVALID_PARAM, w)
   | Some a \<Rightarrow> locked s w (UESIM_SUCCESS,
       let w1 = close_fd (gb_gtpu (gnb_at w a)) (close_fd (gb_ngap (gnb_at w a)) w);
           w2 = upd_gnb a (\<lambda>b. b\<lparr>gb_ngap := (if gb_ngap b \<ge> 0 then -1 else gb_ngap b),
             gb_gtpu := (if gb_gtpu b \<ge> 0 then -1 else gb_gtpu b), gb_state := GNB_STATE_DISCONNECTED\<rparr>) w1
       in if is_serving (gnb_at w a) then upd_ue (\<lambda>c. c\<lparr>ngap_socket := -1, gtpu_socket := -1\<rparr>) w2 else w2))"

text \<open>The lock of the list is the first one, that of the gNB, for the disconnection, the second.\<close>

definition uesim_remove_gnb :: "os \<Rightarrow> nat option \<Rightarrow> 'z gnb_sys_scheme option
    \<Rightarrow> uesim_error \<times> 'z gnb_sys_scheme option" where
  "uesim_remove_gnb s g p = with_ptr p (\<lambda>w. case g of
     None \<Rightarrow> (UESIM_ERROR_INVALID_PARAM, w)
   | Some a \<Rightarrow> if \<not> lock_ok s 0 then (UESIM_ERROR_THREAD, w)
       else if serving_gnb (ue w) = Some a then (UESIM_ERROR_INVALID_PARAM, w)
       else case find_index (\<lambda>b. b = Some a) (candidates w) of
         None \<Rightarrow> (UESIM_ERROR_NOT_FOUND, w)
       | Some i \<Rightarrow> let
           w1 = (if gb_state (gnb_at w a) = GNB_STATE_CONNECTED
             then the (snd (uesim_disconnect_gnb (after_locks 1 s) (Some a) (Some w))) else w)
           in (UESIM_SUCCESS, upd_ue (drop_candidate i) (w1\<lparr>gnb_live := remove1 a (gnb_live w1)\<rparr>)))"

definition uesim_switch_serving_gnb :: "os \<Rightarrow> nat option \<Rightarrow> 'z gnb_sys_scheme option
    \<Rightarrow> uesim_error \<times> 'z gnb_sys_scheme option" where
  "uesim_switch_serving_gnb s g p = with_ptr p (\<lambda>w. case g of
     None \<Rightarrow> (UESIM_ERROR_INVALID_PARAM, w)
   | Some a \<Rightarrow> if \<not> lock_ok s 0 then (UESIM_ERROR_THREAD, w)
       else case find_index (\<lambda>b. b = Some a) (candidates w) of
         None \<Rightarrow> (UESIM_ERROR_NOT_FOUND, w)
       | Some i \<Rightarrow> let
           w1 = (case serving_gnb (ue w) of None \<Rightarrow> w
             | Some q \<Rightarrow> upd_ue (\<lambda>c. if unat (num_candidate_gnbs c) < MAX_GNB_CANDIDATES
                 then c\<lparr>candidate_gnbs := (candidate_gnbs c)[unat (num_candidate_gnbs c) := Some q],
                        num_candidate_gnbs := num_candidate_gnbs c + 1\<rparr> else c)
                 (upd_gnb q (\<lambda>b. b\<lparr>is_serving := False, gb_state := GNB_STATE_HANDOVER_CANDIDATE\<rparr>) w));
           w2 = upd_gnb a (\<lambda>b. b\<lparr>is_serving := True, gb_state := GNB_STATE_CONNECTED\<rparr>) w1;
           b = gnb_at w2 a
           in (UESIM_SUCCESS, upd_ue (drop_candidate i) (upd_ue (\<lambda>c. c\<lparr>serving_gnb := Some a,
             gnb_ip := fst (gb_addr b), gnb_port := swap16 (snd (gb_addr b)),
             ngap_socket := gb_ngap b, gtpu_socket := gb_gtpu b\<rparr>) (w2\<lparr>ue_gnb_addr := gb_addr b\<rparr>))))"

definition uesim_find_gnb_by_id :: "u32 \<Rightarrow> 'z gnb_sys_scheme option \<Rightarrow> nat option" where
  "uesim_find_gnb_by_id i p = (case p of None \<Rightarrow> None | Some w \<Rightarrow>
     case List.find (\<lambda>b. case b of None \<Rightarrow> False | Some q \<Rightarrow> gnb_id (gnb_at w q) = i)
       (serving_gnb (ue w) # candidates w) of None \<Rightarrow> None | Some b \<Rightarrow> b)"

definition uesim_get_serving_gnb :: "'z gnb_sys_scheme option \<Rightarrow> nat option" where
  "uesim_get_serving_gnb p = (case p of None \<Rightarrow> None | Some w \<Rightarrow> serving_gnb (ue w))"

definition uesim_get_candidate_gnb_count :: "'z gnb_sys_scheme option \<Rightarrow> u8" where
  "uesim_get_candidate_gnb_count p = (case p of None \<Rightarrow> 0 | Some w \<Rightarrow> num_candidate_gnbs (ue w))"

section \<open>Connections\<close>

text \<open>
  An attempt: the descriptor that \<^verbatim>\<open>socket\<close> returns, whether the socket could be made non-blocking,
  and what \<^verbatim>\<open>connect\<close> does: it succeeds at once, it is pending, with the result of \<^verbatim>\<open>select\<close> and
  whether \<^verbatim>\<open>getsockopt\<close> reports no error, or it fails.
\<close>

datatype connect_result = Connected | Pending int bool | Refused

record net_try =
  nt_fd :: int
  nt_nonblock :: bool
  nt_connect :: connect_result

text \<open>The three attempts, the descriptor of the data socket, and the time.\<close>

record net =
  net_try :: "nat \<Rightarrow> net_try"
  net_gtpu :: int
  net_now :: int

definition UESIM_CONNECT_MAX_RETRIES :: nat where "UESIM_CONNECT_MAX_RETRIES = 3"
definition UESIM_CONNECT_INITIAL_DELAY_MS :: nat where "UESIM_CONNECT_INITIAL_DELAY_MS = 1000"
definition UESIM_CONNECT_MAX_DELAY_MS :: nat where "UESIM_CONNECT_MAX_DELAY_MS = 10000"

definition next_delay :: "nat \<Rightarrow> nat" where
  "next_delay d = (if d * 2 < UESIM_CONNECT_MAX_DELAY_MS then d * 2 else UESIM_CONNECT_MAX_DELAY_MS)"

definition connect_succeeds :: "connect_result \<Rightarrow> bool" where
  "connect_succeeds r = (case r of Connected \<Rightarrow> True | Pending sel ok \<Rightarrow> sel > 0 \<and> ok | Refused \<Rightarrow> False)"

text \<open>
  The loop over the attempts that are left, with the delay and the error so far: the result, the
  gNB's socket, and the milliseconds slept. A failed attempt closes its socket, so only the socket
  of a successful one stays open.
\<close>

fun connect_loop :: "net_try list \<Rightarrow> nat \<Rightarrow> uesim_error \<Rightarrow> int \<Rightarrow> nat \<Rightarrow> uesim_error \<times> int \<times> nat" where
  "connect_loop [] d err fd slept = (err, fd, slept)"
| "connect_loop (t # ts) d err fd slept =
     (if nt_fd t < 0 then connect_loop ts (next_delay d) err (nt_fd t) (slept + d)
      else if \<not> nt_nonblock t then connect_loop ts (next_delay d) err (-1) slept
      else if connect_succeeds (nt_connect t) then (UESIM_SUCCESS, nt_fd t, slept)
      else if ts \<noteq> [] then connect_loop ts (next_delay d) UESIM_ERROR_TIMEOUT (-1) (slept + d)
      else (UESIM_ERROR_TIMEOUT, -1, slept))"

definition connect_with_retry :: "net \<Rightarrow> int \<Rightarrow> uesim_error \<times> int \<times> nat" where
  "connect_with_retry n fd = connect_loop (map (net_try n) [0..<UESIM_CONNECT_MAX_RETRIES])
     UESIM_CONNECT_INITIAL_DELAY_MS UESIM_ERROR_SOCKET fd 0"

definition uesim_connect_gnb :: "os \<Rightarrow> net \<Rightarrow> nat option \<Rightarrow> 'z gnb_sys_scheme option
    \<Rightarrow> uesim_error \<times> 'z gnb_sys_scheme option" where
  "uesim_connect_gnb s n g p = with_ptr p (\<lambda>w. case g of
     None \<Rightarrow> (UESIM_ERROR_INVALID_PARAM, w)
   | Some a \<Rightarrow> locked s w
       (if gb_state (gnb_at w a) = GNB_STATE_CONNECTED then (UESIM_SUCCESS, w)
        else case connect_with_retry n (gb_ngap (gnb_at w a)) of (r, fd, slept) \<Rightarrow>
          if r \<noteq> UESIM_SUCCESS
          then (r, upd_gnb a (\<lambda>b. b\<lparr>gb_state := GNB_STATE_DISCONNECTED, gb_ngap := fd\<rparr>) w)
          else if net_gtpu n < 0
          then (UESIM_ERROR_SOCKET, upd_gnb a (\<lambda>b. b\<lparr>gb_state := GNB_STATE_DISCONNECTED,
             gb_ngap := -1, gb_gtpu := net_gtpu n\<rparr>) w)
          else let w1 = upd_gnb a (\<lambda>b. b\<lparr>gb_ngap := fd, gb_gtpu := net_gtpu n,
               gb_state := (if is_serving b then GNB_STATE_CONNECTED else GNB_STATE_HANDOVER_CANDIDATE),
               connect_time := net_now n, last_activity := net_now n\<rparr>)
               (w\<lparr>fds := net_gtpu n # fd # fds w\<rparr>)
             in (UESIM_SUCCESS, if is_serving (gnb_at w a)
               then upd_ue (\<lambda>c. c\<lparr>ngap_socket := fd, gtpu_socket := net_gtpu n\<rparr>) w1 else w1)))"

definition uesim_reconnect_gnb :: "os \<Rightarrow> net \<Rightarrow> nat option \<Rightarrow> 'z gnb_sys_scheme option
    \<Rightarrow> uesim_error \<times> 'z gnb_sys_scheme option" where
  "uesim_reconnect_gnb s n g p = with_ptr p (\<lambda>w. case g of
     None \<Rightarrow> (UESIM_ERROR_INVALID_PARAM, w)
   | Some a \<Rightarrow>
       if gb_state (gnb_at w a) = GNB_STATE_CONNECTED
       then (case uesim_connect_gnb (after_locks 1 s) n g (snd (uesim_disconnect_gnb s g (Some w))) of
         (r, q) \<Rightarrow> (r, the q))
       else case uesim_connect_gnb s n g (Some w) of (r, q) \<Rightarrow> (r, the q))"

definition uesim_is_gnb_connected :: "os \<Rightarrow> nat option \<Rightarrow> 'z gnb_sys_scheme option \<Rightarrow> bool" where
  "uesim_is_gnb_connected s g p = (case p of None \<Rightarrow> False | Some w \<Rightarrow> case g of None \<Rightarrow> False
   | Some a \<Rightarrow> lock_ok s 0 \<and> gb_state (gnb_at w a) = GNB_STATE_CONNECTED \<and> gb_ngap (gnb_at w a) \<ge> 0)"

section \<open>The core's procedures\<close>

datatype rrc_procedure = RRC_PROC_REGISTRATION | RRC_PROC_ESTABLISHMENT | RRC_PROC_REESTABLISHMENT
  | RRC_PROC_HANDOVER | RRC_PROC_MAX

text \<open>Connecting the serving gNB unless it is connected; without one, the procedures stop.\<close>

definition ensure_connected :: "os \<Rightarrow> net \<Rightarrow> 'z gnb_sys_scheme \<Rightarrow> uesim_error \<times> 'z gnb_sys_scheme" where
  "ensure_connected s n w = (case serving_gnb (ue w) of
     None \<Rightarrow> (UESIM_ERROR_NOT_INITIALIZED, w)
   | Some a \<Rightarrow> if gb_state (gnb_at w a) \<noteq> GNB_STATE_CONNECTED
       then (case uesim_connect_gnb s n (Some a) (Some w) of (r, q) \<Rightarrow> (r, the q))
       else (UESIM_SUCCESS, w))"

definition count_procedure :: "bool \<Rightarrow> 'z gnb_sys_scheme \<Rightarrow> 'z gnb_sys_scheme" where
  "count_procedure ok = upd_ue (\<lambda>c. c\<lparr>ue_stats_of := (if ok
     then (ue_stats_of c)\<lparr>rrc_procedures_success := rrc_procedures_success (ue_stats_of c) + 1\<rparr>
     else (ue_stats_of c)\<lparr>rrc_procedures_failed := rrc_procedures_failed (ue_stats_of c) + 1\<rparr>)\<rparr>)"

definition execute_registration_procedure ::
  "os \<Rightarrow> net \<Rightarrow> 'z gnb_sys_scheme \<Rightarrow> uesim_error \<times> 'z gnb_sys_scheme" where
  "execute_registration_procedure s n w = ensure_connected s n w"

definition execute_establishment_procedure ::
  "os \<Rightarrow> net \<Rightarrow> 'z gnb_sys_scheme \<Rightarrow> uesim_error \<times> 'z gnb_sys_scheme" where
  "execute_establishment_procedure s n w = (case ensure_connected s n w of (r, w1) \<Rightarrow>
     if r \<noteq> UESIM_SUCCESS then (r, w1)
     else (UESIM_SUCCESS, count_procedure True (upd_ue (\<lambda>c. c\<lparr>current_state := RRC_STATE_CONNECTING\<rparr>)
       (w1\<lparr>state_change_time := net_now n\<rparr>))))"

definition execute_reestablishment_procedure ::
  "os \<Rightarrow> net \<Rightarrow> 'z gnb_sys_scheme \<Rightarrow> uesim_error \<times> 'z gnb_sys_scheme" where
  "execute_reestablishment_procedure s n w =
     (if current_state (ue w) \<noteq> RRC_STATE_CONNECTED \<or> serving_gnb (ue w) = None
      then (UESIM_ERROR_NOT_INITIALIZED, w)
      else case ensure_connected s n w of (r, w1) \<Rightarrow>
        if r \<noteq> UESIM_SUCCESS then (r, count_procedure False w1)
        else (UESIM_SUCCESS, count_procedure True (w1\<lparr>state_change_time := net_now n\<rparr>)))"

text \<open>The candidate with the greatest received power above -140 dBm, the first one of several.\<close>

definition better :: "'z gnb_sys_scheme \<Rightarrow> nat option \<times> s32 \<Rightarrow> nat option \<Rightarrow> nat option \<times> s32" where
  "better w best b = (case b of None \<Rightarrow> best
   | Some q \<Rightarrow> if sint (rsrp (gnb_at w q)) > sint (snd best) then (Some q, rsrp (gnb_at w q)) else best)"

definition best_candidate :: "'z gnb_sys_scheme \<Rightarrow> nat option \<times> s32" where
  "best_candidate w = foldl (better w) (None, -140) (candidates w)"

definition execute_handover_procedure ::
  "os \<Rightarrow> net \<Rightarrow> 'z gnb_sys_scheme \<Rightarrow> uesim_error \<times> 'z gnb_sys_scheme" where
  "execute_handover_procedure s n w =
     (if num_candidate_gnbs (ue w) = 0 then (UESIM_ERROR_NOT_FOUND, w)
      else case fst (best_candidate w) of
        None \<Rightarrow> (UESIM_ERROR_NOT_FOUND, w)
      | Some a \<Rightarrow> (case uesim_connect_gnb s n (Some a) (Some w) of (r, q) \<Rightarrow>
          if r \<noteq> UESIM_SUCCESS then (r, the q)
          else case uesim_switch_serving_gnb (after_locks 1 s) (Some a) q of (r', q') \<Rightarrow> (r', the q')))"

text \<open>The lock of the state is the first one.\<close>

definition uesim_execute_procedure :: "os \<Rightarrow> net \<Rightarrow> rrc_procedure \<Rightarrow> 'z gnb_sys_scheme option
    \<Rightarrow> uesim_error \<times> 'z gnb_sys_scheme option" where
  "uesim_execute_procedure s n k p = with_ptr p (\<lambda>w. locked s w (let s' = after_locks 1 s in case k of
     RRC_PROC_REGISTRATION \<Rightarrow> execute_registration_procedure s' n w
   | RRC_PROC_ESTABLISHMENT \<Rightarrow> execute_establishment_procedure s' n w
   | RRC_PROC_REESTABLISHMENT \<Rightarrow> execute_reestablishment_procedure s' n w
   | RRC_PROC_HANDOVER \<Rightarrow> execute_handover_procedure s' n w
   | RRC_PROC_MAX \<Rightarrow> (UESIM_ERROR_INVALID_PARAM, w)))"

text \<open>
  Stopping: the state lock, then the disconnections in the order of the table. The outcome of each
  disconnection's lock is its own; a failed one leaves the gNB connected.
\<close>

definition disconnect_all :: "os \<Rightarrow> nat option list \<Rightarrow> 'z gnb_sys_scheme \<Rightarrow> os \<times> 'z gnb_sys_scheme" where
  "disconnect_all s gs w = foldl (\<lambda>(s, w) g. case g of None \<Rightarrow> (s, w)
     | Some a \<Rightarrow> (after_locks 1 s, the (snd (uesim_disconnect_gnb s (Some a) (Some w))))) (s, w) gs"

definition uesim_stop_ue :: "os \<Rightarrow> 'z gnb_sys_scheme option \<Rightarrow> uesim_error \<times> 'z gnb_sys_scheme option" where
  "uesim_stop_ue s p = with_ptr p (\<lambda>w. locked s w
     (if \<not> ue_active (ue w) then (UESIM_SUCCESS, w)
      else let w1 = snd (disconnect_all (after_locks 1 s) (serving_gnb (ue w) # candidates w) w);
               w2 = close_fd (gtpu_socket (ue w1)) (close_fd (ngap_socket (ue w1)) w1)
        in (UESIM_SUCCESS, upd_ue (\<lambda>c. c\<lparr>ngap_socket := (if ngap_socket c \<ge> 0 then -1 else ngap_socket c),
             gtpu_socket := (if gtpu_socket c \<ge> 0 then -1 else gtpu_socket c), ue_active := False\<rparr>) w2)))"

text \<open>
  Waiting for a state: \<open>wakes\<close> are the returns of \<^verbatim>\<open>pthread_cond_timedwait\<close> before the deadline, each
  its return code and the state of the UE at that time; after them the deadline has passed.
\<close>

datatype timed_wait = Woken | Timed_Out | Wait_Error

fun wait_state_loop :: "rrc_state \<Rightarrow> rrc_state \<Rightarrow> (timed_wait \<times> rrc_state) list \<Rightarrow> uesim_error" where
  "wait_state_loop want now [] = (if now = want then UESIM_SUCCESS else UESIM_ERROR_TIMEOUT)"
| "wait_state_loop want now ((r, st) # ws) =
     (if now = want then UESIM_SUCCESS
      else case r of Timed_Out \<Rightarrow> UESIM_ERROR_TIMEOUT | Wait_Error \<Rightarrow> UESIM_ERROR_THREAD
        | Woken \<Rightarrow> wait_state_loop want st ws)"

definition uesim_wait_for_state_change :: "os \<Rightarrow> rrc_state \<Rightarrow> (timed_wait \<times> rrc_state) list
    \<Rightarrow> 'z gnb_sys_scheme option \<Rightarrow> uesim_error" where
  "uesim_wait_for_state_change s want ws p = (case p of None \<Rightarrow> UESIM_ERROR_INVALID_PARAM | Some w \<Rightarrow>
     if \<not> lock_ok s 0 then UESIM_ERROR_THREAD
     else wait_state_loop want (current_state (ue w)) ws)"

section \<open>Initialisation of the core\<close>

definition UESIM_HEAP_SIZE :: nat where "UESIM_HEAP_SIZE = 64 * 1024 * 1024"

text \<open>\<open>g\<close> is the flag \<^verbatim>\<open>g_initialized\<close>, \<open>sys\<close> the block the system allocator returns.\<close>

definition uesim_init :: "os \<Rightarrow> nat \<Rightarrow> bool \<times> memory_pool \<Rightarrow> uesim_error \<times> bool \<times> memory_pool" where
  "uesim_init s sys st = (case st of (g, m) \<Rightarrow>
     if g then (UESIM_SUCCESS, g, m)
     else if \<not> lock_ok s 0 then (UESIM_ERROR_THREAD, g, m)
     else case memory_init s sys m UESIM_HEAP_SIZE of (r, m1) \<Rightarrow>
       if r \<noteq> UESIM_SUCCESS then (r, g, m1) else (UESIM_SUCCESS, True, m1))"

definition uesim_cleanup :: "os \<Rightarrow> bool \<times> memory_pool \<Rightarrow> bool \<times> memory_pool" where
  "uesim_cleanup s st = (case st of (g, m) \<Rightarrow>
     if \<not> g \<or> \<not> lock_ok s 0 then (g, m) else (False, memory_cleanup m))"

end
