(* ===== verification/Gnb_Proofs.thy ===== *)
theory Gnb_Proofs
  imports Gnb
begin

text \<open>
  The tables of the base stations: in every reachable state they are consistent and lookups by identity
  are exact; what a full table loses; which sockets a handover leaves open.
\<close>

section \<open>The invariant of the tables\<close>

definition gnb_table :: "'z gnb_sys_scheme \<Rightarrow> nat list \<Rightarrow> bool" where
  "gnb_table w qs \<longleftrightarrow> length qs \<le> 8 \<and> unat (num_candidate_gnbs (ue w)) = length qs \<and>
     candidate_gnbs (ue w) = map Some qs @ replicate (8 - length qs) None"

lemma candidates_table [simp]: "gnb_table w qs \<Longrightarrow> candidates w = map Some qs"
  by (simp add: gnb_table_def candidates_def)

definition listed :: "nat option \<Rightarrow> nat list \<Rightarrow> nat list" where
  "listed g qs = (case g of None \<Rightarrow> qs | Some a \<Rightarrow> a # qs)"

definition gnb_ok :: "'z gnb_sys_scheme \<Rightarrow> nat list \<Rightarrow> bool" where
  "gnb_ok w qs \<longleftrightarrow> gnb_table w qs \<and> (serving_gnb (ue w) = None \<longrightarrow> qs = []) \<and>
     distinct (listed (serving_gnb (ue w)) qs) \<and> set (listed (serving_gnb (ue w)) qs) \<subseteq> set (gnb_live w) \<and>
     distinct (gnb_live w) \<and>
     (\<forall>a \<in> set (listed (serving_gnb (ue w)) qs). is_serving (gnb_at w a) \<longleftrightarrow> serving_gnb (ue w) = Some a) \<and>
     distinct (map (gnb_id \<circ> gnb_at w) (listed (serving_gnb (ue w)) qs)) \<and>
     (\<forall>a \<in> set (listed (serving_gnb (ue w)) qs). gnb_id (gnb_at w a) \<le> g_gnb_id_counter w)"

text \<open>An update of one gNB that keeps its identity and its flag keeps the invariant.\<close>

definition same_tables :: "'z gnb_sys_scheme \<Rightarrow> 'z gnb_sys_scheme \<Rightarrow> bool" where
  "same_tables w w' \<longleftrightarrow> serving_gnb (ue w') = serving_gnb (ue w) \<and> candidate_gnbs (ue w') = candidate_gnbs (ue w) \<and>
     num_candidate_gnbs (ue w') = num_candidate_gnbs (ue w) \<and> gnb_live w' = gnb_live w \<and>
     g_gnb_id_counter w' = g_gnb_id_counter w \<and>
     (\<forall>a. gnb_id (gnb_at w' a) = gnb_id (gnb_at w a) \<and> is_serving (gnb_at w' a) = is_serving (gnb_at w a))"

lemma same_tables_ok: "same_tables w w' \<Longrightarrow> gnb_ok w qs \<Longrightarrow> gnb_ok w' qs"
  by (simp add: same_tables_def gnb_ok_def gnb_table_def comp_def)

lemma same_tables_refl [simp]: "same_tables w w"
  by (simp add: same_tables_def)

lemma same_tables_counter: "same_tables w w' \<Longrightarrow> g_gnb_id_counter w' = g_gnb_id_counter w"
  by (simp add: same_tables_def)

lemma same_tables_trans: "same_tables w w' \<Longrightarrow> same_tables w' w'' \<Longrightarrow> same_tables w w''"
  by (simp add: same_tables_def)

lemma disconnect_same:
  "uesim_disconnect_gnb s g (Some w) = (r, p) \<Longrightarrow> \<exists>w'. p = Some w' \<and> same_tables w w'"
  by (auto simp: uesim_disconnect_gnb_def locked_def same_tables_def upd_gnb_def upd_ue_def close_fd_def Let_def
      split: option.splits if_splits)

lemma connect_same:
  "uesim_connect_gnb s n g (Some w) = (r, p) \<Longrightarrow> \<exists>w'. p = Some w' \<and> same_tables w w'"
  by (auto simp: uesim_connect_gnb_def locked_def same_tables_def upd_gnb_def upd_ue_def Let_def
      split: option.splits if_splits prod.splits)

lemma reconnect_same:
  assumes "uesim_reconnect_gnb s n g (Some w) = (r, p)"
  shows "\<exists>w'. p = Some w' \<and> same_tables w w'"
proof -
  obtain r1 w1 where d: "uesim_disconnect_gnb s g (Some w) = (r1, Some w1)" and s1: "same_tables w w1"
    using disconnect_same [of s g w] by (cases "uesim_disconnect_gnb s g (Some w)") auto
  obtain r2 w2 where c: "uesim_connect_gnb (after_locks 1 s) n g (Some w1) = (r2, Some w2)" and s2: "same_tables w1 w2"
    using connect_same [of "after_locks 1 s" n g w1] by (cases "uesim_connect_gnb (after_locks 1 s) n g (Some w1)") auto
  obtain r3 w3 where e: "uesim_connect_gnb s n g (Some w) = (r3, Some w3)" and s3: "same_tables w w3"
    using connect_same [of s n g w] by (cases "uesim_connect_gnb s n g (Some w)") auto
  show ?thesis
    using assms s3 same_tables_trans [OF s1 s2] d c e
    by (auto simp: uesim_reconnect_gnb_def split: option.splits if_splits)
qed

lemma ensure_same: "ensure_connected s n w = (r, w') \<Longrightarrow> same_tables w w'"
  by (auto simp: ensure_connected_def split: option.splits if_splits prod.splits dest: connect_same)

lemma procedure_same:
  "execute_registration_procedure s n w = (r, w') \<Longrightarrow> same_tables w w'"
  "execute_establishment_procedure s n w = (r, w') \<Longrightarrow> same_tables w w'"
  "execute_reestablishment_procedure s n w = (r, w') \<Longrightarrow> same_tables w w'"
  by (auto simp: execute_registration_procedure_def execute_establishment_procedure_def
      execute_reestablishment_procedure_def same_tables_def upd_ue_def count_procedure_def
      split: prod.splits if_splits dest!: ensure_same)

lemma disconnect_all_simps [simp]:
  "disconnect_all s [] w = (s, w)" "disconnect_all s (None # gs) w = disconnect_all s gs w"
  "disconnect_all s (Some a # gs) w =
    disconnect_all (after_locks 1 s) gs (the (snd (uesim_disconnect_gnb s (Some a) (Some w))))"
  by (simp_all add: disconnect_all_def)

lemma disconnect_all_same: "same_tables w (snd (disconnect_all s gs w))"
proof (induction gs arbitrary: s w)
  case (Cons g gs)
  show ?case
  proof (cases g)
    case None
    then show ?thesis using Cons [of w s] by simp
  next
    case (Some a)
    obtain r w1 where d: "uesim_disconnect_gnb s (Some a) (Some w) = (r, Some w1)" and s1: "same_tables w w1"
      using disconnect_same [of s "Some a" w] by (cases "uesim_disconnect_gnb s (Some a) (Some w)") auto
    show ?thesis
      using same_tables_trans [OF s1 Cons [of w1 "after_locks 1 s"]] Some d by simp
  qed
qed simp

lemma stop_same: "uesim_stop_ue s (Some w) = (r, p) \<Longrightarrow> \<exists>w'. p = Some w' \<and> same_tables w w'"
  using disconnect_all_same [of w "after_locks 1 s" "serving_gnb (ue w) # candidates w"]
  by (auto simp: uesim_stop_ue_def locked_def same_tables_def upd_ue_def close_fd_def Let_def split: if_splits)

text \<open>Removing a place of the table.\<close>

lemma shift_out_table:
  assumes "i < length qs" and "length qs \<le> 8"
  shows "shift_out i (length qs) (map Some qs @ replicate (8 - length qs) None)
    = map Some (remove_at i qs) @ replicate (8 - length (remove_at i qs)) None"
proof -
  have gap: "8 - (length qs - Suc 0) = Suc (8 - length qs)" using assms by simp
  have "take (length qs - 1 - i) (drop (Suc i) (map Some qs @ replicate (8 - length qs) None))
      = map Some (drop (Suc i) qs)"
    using assms by (simp add: drop_map)
  then show ?thesis
    using assms by (simp add: shift_out_def remove_at_def take_map drop_map gap)
qed

lemma drop_candidate_table:
  assumes "gnb_table w qs" and "i < length qs"
  shows "gnb_table (upd_ue (drop_candidate i) w) (remove_at i qs)"
proof -
  have "unat (num_candidate_gnbs (ue w) - 1) = length qs - 1"
    using assms by (subst unat_sub) (auto simp: gnb_table_def word_le_nat_alt)
  then show ?thesis
    using assms shift_out_table [of i qs]
    by (auto simp: gnb_table_def upd_ue_def drop_candidate_def length_remove_at)
qed

lemma find_candidate:
  assumes "gnb_table w qs" and "find_index (\<lambda>b. b = Some a) (candidates w) = Some i"
  shows "i < length qs \<and> qs ! i = a"
  using find_index_SomeD [OF assms(2)] assms(1) by (auto simp: nth_map)

lemma remove_at_at:
  assumes "distinct xs" and "i < length xs"
  shows "xs ! i \<notin> set (remove_at i xs)"
proof -
  have "distinct (take i xs @ xs ! i # drop (Suc i) xs)" using assms by (simp flip: id_take_nth_drop)
  then show ?thesis by (simp add: remove_at_def)
qed

lemma insert_remove_at:
  assumes "i < length xs"
  shows "insert (xs ! i) (set (remove_at i xs)) = set xs"
proof -
  have "set (take i xs @ xs ! i # drop (Suc i) xs) = set xs" using assms by (simp flip: id_take_nth_drop)
  then show ?thesis by (auto simp: remove_at_def)
qed

lemma remove_at_append: "i < length xs \<Longrightarrow> remove_at i (xs @ ys) = remove_at i xs @ ys"
  by (simp add: remove_at_def)

text \<open>A free place takes another candidate.\<close>

lemma add_candidate_table:
  assumes "gnb_table w qs" and "length qs < 8"
  shows "gnb_table (upd_ue (\<lambda>c. c\<lparr>candidate_gnbs := (candidate_gnbs c)[unat (num_candidate_gnbs c) := Some a],
      num_candidate_gnbs := num_candidate_gnbs c + 1\<rparr>) w) (qs @ [a])"
proof -
  have "unat (num_candidate_gnbs (ue w) + 1) = Suc (length qs)"
    using assms by (simp add: gnb_table_def unat_word_ariths)
  moreover have "replicate (8 - length qs) (None :: nat option) = None # replicate (8 - Suc (length qs)) None"
    using assms by (simp flip: replicate_Suc add: Suc_diff_Suc)
  ultimately show ?thesis
    using assms by (simp add: gnb_table_def upd_ue_def list_update_append)
qed

lemma gnb_okI:
  assumes "gnb_table w qs" and "serving_gnb (ue w) = Some a" and "distinct (a # qs)"
    and "set (a # qs) \<subseteq> set (gnb_live w)" and "distinct (gnb_live w)"
    and "is_serving (gnb_at w a)" and "\<And>q. q \<in> set qs \<Longrightarrow> \<not> is_serving (gnb_at w q)"
    and "distinct (map (gnb_id \<circ> gnb_at w) (a # qs))" and "\<And>q. q \<in> set (a # qs) \<Longrightarrow> gnb_id (gnb_at w q) \<le> g_gnb_id_counter w"
  shows "gnb_ok w qs"
  using assms by (auto simp: gnb_ok_def listed_def)

lemma gnb_ok_serving:
  assumes "gnb_ok w qs" and "serving_gnb (ue w) = Some a"
  shows "gnb_table w qs \<and> distinct (a # qs) \<and> set (a # qs) \<subseteq> set (gnb_live w) \<and> distinct (gnb_live w) \<and>
    is_serving (gnb_at w a) \<and> (\<forall>q \<in> set qs. \<not> is_serving (gnb_at w q)) \<and>
    distinct (map (gnb_id \<circ> gnb_at w) (a # qs)) \<and> (\<forall>q \<in> set (a # qs). gnb_id (gnb_at w q) \<le> g_gnb_id_counter w)"
  using assms by (auto simp: gnb_ok_def listed_def)

text \<open>What the accessors see of the updates.\<close>

lemma upd_simps [simp]:
  "ue (upd_ue f w) = f (ue w)" "gnb_at (upd_ue f w) = gnb_at w" "gnb_live (upd_ue f w) = gnb_live w"
  "g_gnb_id_counter (upd_ue f w) = g_gnb_id_counter w" "fds (upd_ue f w) = fds w"
  "ue (upd_gnb a g w) = ue w" "gnb_at (upd_gnb a g w) = (gnb_at w)(a := g (gnb_at w a))"
  "gnb_live (upd_gnb a g w) = gnb_live w" "g_gnb_id_counter (upd_gnb a g w) = g_gnb_id_counter w"
  "fds (upd_gnb a g w) = fds w"
  by (simp_all add: upd_ue_def upd_gnb_def)

lemma drop_candidate_simps [simp]:
  "serving_gnb (drop_candidate i c) = serving_gnb c" "ngap_socket (drop_candidate i c) = ngap_socket c"
  "gtpu_socket (drop_candidate i c) = gtpu_socket c" "current_state (drop_candidate i c) = current_state c"
  by (simp_all add: drop_candidate_def)

lemma gnb_table_ue: "ue w' = ue w \<Longrightarrow> gnb_table w qs \<Longrightarrow> gnb_table w' qs"
  by (simp add: gnb_table_def)

lemma gnb_table_upd_ue:
  "candidate_gnbs (f (ue w)) = candidate_gnbs (ue w) \<Longrightarrow> num_candidate_gnbs (f (ue w)) = num_candidate_gnbs (ue w)
    \<Longrightarrow> gnb_table w qs \<Longrightarrow> gnb_table (upd_ue f w) qs"
  by (simp add: gnb_table_def)

text \<open>Removing keeps the invariant.\<close>

lemma remove_ok:
  assumes ok: "gnb_ok w qs" and run: "uesim_remove_gnb s g (Some w) = (r, p)"
  shows "\<exists>w' qs'. p = Some w' \<and> gnb_ok w' qs' \<and> set (gnb_live w') \<subseteq> set (gnb_live w)
    \<and> g_gnb_id_counter w' = g_gnb_id_counter w"
proof (cases "p = Some w")
  case True
  then show ?thesis using ok by blast
next
  case False
  then obtain a i where g: "g = Some a" and i: "find_index (\<lambda>b. b = Some a) (candidates w) = Some i"
    and na: "serving_gnb (ue w) \<noteq> Some a" and "lock_ok s 0"
    using run by (auto simp: uesim_remove_gnb_def split: option.splits if_splits)
  define w1 where "w1 = (if gb_state (gnb_at w a) = GNB_STATE_CONNECTED
    then the (snd (uesim_disconnect_gnb (after_locks 1 s) (Some a) (Some w))) else w)"
  have "same_tables w w1"
    using disconnect_same [of "after_locks 1 s" "Some a" w]
    by (cases "uesim_disconnect_gnb (after_locks 1 s) (Some a) (Some w)") (auto simp: w1_def)
  then have ok1: "gnb_ok w1 qs" and s1: "serving_gnb (ue w1) = serving_gnb (ue w)"
      "gnb_live w1 = gnb_live w" "g_gnb_id_counter w1 = g_gnb_id_counter w"
    using same_tables_ok [OF _ ok] by (auto simp: same_tables_def)
  have tab: "gnb_table w qs" using ok by (simp add: gnb_ok_def)
  note qi = find_candidate [OF tab i]
  have p: "p = Some (upd_ue (drop_candidate i) (w1\<lparr>gnb_live := remove1 a (gnb_live w1)\<rparr>))"
    using run g i na \<open>lock_ok s 0\<close> by (simp add: uesim_remove_gnb_def w1_def Let_def)
  obtain b where b: "serving_gnb (ue w1) = Some b"
    using ok1 qi by (cases "serving_gnb (ue w1)") (auto simp: gnb_ok_def)
  note f = gnb_ok_serving [OF ok1 b]
  have tab1: "gnb_table (w1\<lparr>gnb_live := remove1 a (gnb_live w1)\<rparr>) qs"
    using f by (simp add: gnb_table_def)
  have sub: "set (remove_at i qs) \<subseteq> set qs - {a}"
    using set_remove_at [of i qs] remove_at_at [of qs i] f qi by auto
  have map_remove: "distinct (map h (remove_at i qs))" if "distinct (map h qs)" for h :: "nat \<Rightarrow> u32"
    using that by (simp add: map_remove_at distinct_remove_at)
  have ids: "distinct (map (gnb_id \<circ> gnb_at w1) (b # remove_at i qs))"
    using f sub map_remove [of "gnb_id \<circ> gnb_at w1"] by auto
  have "gnb_ok (upd_ue (drop_candidate i) (w1\<lparr>gnb_live := remove1 a (gnb_live w1)\<rparr>)) (remove_at i qs)"
  proof (rule gnb_okI [where a = b])
    show "gnb_table (upd_ue (drop_candidate i) (w1\<lparr>gnb_live := remove1 a (gnb_live w1)\<rparr>)) (remove_at i qs)"
      using drop_candidate_table [OF tab1] qi by blast
    show "distinct (b # remove_at i qs)"
      using f sub by (auto simp: distinct_remove_at)
    have "b \<noteq> a" using b s1 na by simp
    then show "set (b # remove_at i qs) \<subseteq> set (gnb_live (upd_ue (drop_candidate i) (w1\<lparr>gnb_live := remove1 a (gnb_live w1)\<rparr>)))"
      using f sub by auto
    show "is_serving (gnb_at (upd_ue (drop_candidate i) (w1\<lparr>gnb_live := remove1 a (gnb_live w1)\<rparr>)) b)"
      using f by simp
    show "distinct (map (gnb_id \<circ> gnb_at (upd_ue (drop_candidate i) (w1\<lparr>gnb_live := remove1 a (gnb_live w1)\<rparr>)))
        (b # remove_at i qs))"
      using ids by (simp add: comp_def)
  qed (use f sub b in \<open>auto\<close>)
  moreover have "set (remove1 a (gnb_live w1)) \<subseteq> set (gnb_live w)"
    using s1 set_remove1_subset by metis
  ultimately show ?thesis using p s1 by auto
qed

text \<open>
  Switching to candidate \<open>a\<close>: the old serving gNB takes the last place of the table, when there is one.
\<close>

lemma switch_result:
  assumes ok: "gnb_ok w qs" and b: "serving_gnb (ue w) = Some b" and l: "lock_ok s 0"
    and i: "i < length qs" and a: "qs ! i = a"
  shows "\<exists>w'. uesim_switch_serving_gnb s (Some a) (Some w) = (UESIM_SUCCESS, Some w')
    \<and> gnb_table w' (remove_at i qs @ (if length qs < 8 then [b] else []))
    \<and> gnb_ok w' (remove_at i qs @ (if length qs < 8 then [b] else []))
    \<and> serving_gnb (ue w') = Some a \<and> gnb_live w' = gnb_live w \<and> g_gnb_id_counter w' = g_gnb_id_counter w
    \<and> fds w' = fds w \<and> (\<forall>q. gb_ngap (gnb_at w' q) = gb_ngap (gnb_at w q) \<and> gb_gtpu (gnb_at w' q) = gb_gtpu (gnb_at w q)
        \<and> gnb_id (gnb_at w' q) = gnb_id (gnb_at w q))
    \<and> current_state (ue w') = current_state (ue w)"
proof -
  note f = gnb_ok_serving [OF ok b]
  define rest where "rest = (if length qs < 8 then [b] else [])"
  define w1 where "w1 = upd_ue (\<lambda>c. if unat (num_candidate_gnbs c) < MAX_GNB_CANDIDATES
      then c\<lparr>candidate_gnbs := (candidate_gnbs c)[unat (num_candidate_gnbs c) := Some b],
             num_candidate_gnbs := num_candidate_gnbs c + 1\<rparr> else c)
      (upd_gnb b (\<lambda>x. x\<lparr>is_serving := False, gb_state := GNB_STATE_HANDOVER_CANDIDATE\<rparr>) w)"
  define w2 where "w2 = upd_gnb a (\<lambda>b. b\<lparr>is_serving := True, gb_state := GNB_STATE_CONNECTED\<rparr>) w1"
  define w3 where "w3 = upd_ue (\<lambda>c. c\<lparr>serving_gnb := Some a, gnb_ip := fst (gb_addr (gnb_at w2 a)),
      gnb_port := swap16 (snd (gb_addr (gnb_at w2 a))), ngap_socket := gb_ngap (gnb_at w2 a),
      gtpu_socket := gb_gtpu (gnb_at w2 a)\<rparr>) (w2\<lparr>ue_gnb_addr := gb_addr (gnb_at w2 a)\<rparr>)"
  have find: "find_index (\<lambda>c. c = Some a) (candidates w) = Some i"
  proof (rule find_indexI)
    show "candidates w ! j \<noteq> Some a" if "j < i" for j
    proof -
      have "qs ! j \<noteq> qs ! i" using that i f nth_eq_iff_index_eq [of qs j i] by auto
      moreover have "candidates w = map Some qs" and "j < length qs" using f that i by auto
      ultimately show ?thesis using a by simp
    qed
  qed (use f i a in auto)
  have run: "uesim_switch_serving_gnb s (Some a) (Some w) = (UESIM_SUCCESS, Some (upd_ue (drop_candidate i) w3))"
    using find b l by (simp add: uesim_switch_serving_gnb_def w1_def w2_def w3_def Let_def)
  have "gnb_table w1 (qs @ rest)"
  proof (cases "length qs < 8")
    case True
    then have "gnb_table (upd_ue (\<lambda>c. c\<lparr>candidate_gnbs := (candidate_gnbs c)[unat (num_candidate_gnbs c) := Some b],
        num_candidate_gnbs := num_candidate_gnbs c + 1\<rparr>) w) (qs @ [b])"
      using add_candidate_table f by blast
    moreover have "unat (num_candidate_gnbs (ue w)) < 8" using True f by (simp add: gnb_table_def)
    ultimately show ?thesis
      using True by (simp add: w1_def rest_def gnb_table_def MAX_GNB_CANDIDATES_def)
  next
    case False
    then show ?thesis using f by (simp add: w1_def rest_def gnb_table_def MAX_GNB_CANDIDATES_def)
  qed
  then have "gnb_table w3 (qs @ rest)" by (simp add: w2_def w3_def gnb_table_def)
  moreover have "remove_at i (qs @ rest) = remove_at i qs @ rest" using i by (rule remove_at_append)
  ultimately have tab: "gnb_table (upd_ue (drop_candidate i) w3) (remove_at i qs @ rest)"
    using drop_candidate_table [of w3 "qs @ rest" i] i by simp
  have nb: "a \<noteq> b" using f i a nth_mem [OF i] by auto
  have sub: "set (remove_at i qs) \<subseteq> set qs - {a}"
    using set_remove_at [of i qs] remove_at_at [of qs i] f i a by auto
  have at: "gnb_at w3 = (gnb_at w)(b := (gnb_at w b)\<lparr>is_serving := False, gb_state := GNB_STATE_HANDOVER_CANDIDATE\<rparr>,
      a := (gnb_at w a)\<lparr>is_serving := True, gb_state := GNB_STATE_CONNECTED\<rparr>)"
    using nb by (simp add: w1_def w2_def w3_def)
  have id: "gnb_id (gnb_at w3 q) = gnb_id (gnb_at w q)" for q
    using at nb by simp
  have rest: "distinct rest" "set rest \<subseteq> {b}" by (auto simp: rest_def)
  have ok': "gnb_ok (upd_ue (drop_candidate i) w3) (remove_at i qs @ rest)"
  proof (rule gnb_okI [where a = a])
    show "gnb_table (upd_ue (drop_candidate i) w3) (remove_at i qs @ rest)" by (rule tab)
    show "serving_gnb (ue (upd_ue (drop_candidate i) w3)) = Some a" by (simp add: w3_def)
    show "distinct (a # remove_at i qs @ rest)"
      using f sub nb rest by (auto simp: distinct_remove_at)
    show "set (a # remove_at i qs @ rest) \<subseteq> set (gnb_live (upd_ue (drop_candidate i) w3))"
      using f sub rest nth_mem [OF i] a by (auto simp: w1_def w2_def w3_def)
    show "distinct (gnb_live (upd_ue (drop_candidate i) w3))"
      using f by (simp add: w1_def w2_def w3_def)
    show "is_serving (gnb_at (upd_ue (drop_candidate i) w3) a)" by (simp add: at)
    show "\<not> is_serving (gnb_at (upd_ue (drop_candidate i) w3) q)" if "q \<in> set (remove_at i qs @ rest)" for q
      using that f sub rest nb by (auto simp: at)
    have "inj_on (gnb_id \<circ> gnb_at w) (set (b # qs))"
      using f distinct_map by blast
    then have "inj_on (gnb_id \<circ> gnb_at w) (set (a # remove_at i qs @ rest))"
      by (rule inj_on_subset) (use sub rest nth_mem [OF i] a in auto)
    then have "distinct (map (gnb_id \<circ> gnb_at w) (a # remove_at i qs @ rest))"
      using \<open>distinct (a # remove_at i qs @ rest)\<close> by (simp only: distinct_map)
    then show "distinct (map (gnb_id \<circ> gnb_at (upd_ue (drop_candidate i) w3)) (a # remove_at i qs @ rest))"
      by (simp add: comp_def id)
    show "gnb_id (gnb_at (upd_ue (drop_candidate i) w3) q) \<le> g_gnb_id_counter (upd_ue (drop_candidate i) w3)"
      if "q \<in> set (a # remove_at i qs @ rest)" for q
      using that f sub rest nth_mem [OF i] a by (auto simp: id) (auto simp: w1_def w2_def w3_def)
  qed
  have "gb_ngap (gnb_at w3 q) = gb_ngap (gnb_at w q) \<and> gb_gtpu (gnb_at w3 q) = gb_gtpu (gnb_at w q)" for q
    using at nb by simp
  then show ?thesis
    using run tab ok' id unfolding rest_def
    by (intro exI [of _ "upd_ue (drop_candidate i) w3"]) (auto simp: w1_def w2_def w3_def)
qed

lemma switch_ok:
  assumes ok: "gnb_ok w qs" and run: "uesim_switch_serving_gnb s g (Some w) = (r, p)"
  shows "\<exists>w' qs'. p = Some w' \<and> gnb_ok w' qs' \<and> gnb_live w' = gnb_live w \<and> g_gnb_id_counter w' = g_gnb_id_counter w"
proof (cases "p = Some w")
  case True
  then show ?thesis using ok by blast
next
  case False
  then obtain a i where g: "g = Some a" and i: "find_index (\<lambda>b. b = Some a) (candidates w) = Some i" and l: "lock_ok s 0"
    using run by (auto simp: uesim_switch_serving_gnb_def split: option.splits if_splits)
  have tab: "gnb_table w qs" using ok by (simp add: gnb_ok_def)
  note qi = find_candidate [OF tab i]
  obtain b where b: "serving_gnb (ue w) = Some b"
    using ok qi by (cases "serving_gnb (ue w)") (auto simp: gnb_ok_def)
  show ?thesis
    using switch_result [OF ok b l] qi run g by fastforce
qed

text \<open>
  Adding a gNB at a fresh address. The counter advances by at most one; the new identity is greater than
  all others unless it wraps around.
\<close>

lemma new_gnb_simps [simp]:
  "gnb_id (new_gnb i ty ip port) = i" "is_serving (new_gnb i ty ip port) = False"
  by (simp_all add: new_gnb_def)

lemma counter_grows: "unat (c :: u32) + 1 < 2 ^ 32 \<Longrightarrow> unat (c + 1) = Suc (unat c)"
  by (simp add: unat_word_ariths)

lemma counter_only_ok:
  assumes ok: "gnb_ok w qs" and k: "unat (g_gnb_id_counter w) + 1 < 2 ^ 32"
  shows "gnb_ok (w\<lparr>g_gnb_id_counter := g_gnb_id_counter w + 1\<rparr>) qs"
proof -
  have "g_gnb_id_counter w \<le> g_gnb_id_counter w + 1"
    using counter_grows [OF k] by (simp add: word_le_nat_alt)
  then show ?thesis using ok order_trans by (fastforce simp: gnb_ok_def gnb_table_def comp_def)
qed

lemma add_ok:
  assumes ok: "gnb_ok w qs" and fresh: "a \<notin> set (gnb_live w)" and k: "unat (g_gnb_id_counter w) + 1 < 2 ^ 32"
    and run: "uesim_add_gnb s a ty ip port out (Some w) = (r, p)"
  shows "\<exists>w' qs'. p = Some w' \<and> gnb_ok w' qs' \<and> set (gnb_live w') \<subseteq> insert a (set (gnb_live w)) \<and>
    unat (g_gnb_id_counter w') \<le> Suc (unat (g_gnb_id_counter w))"
proof -
  let ?w = "w\<lparr>g_gnb_id_counter := g_gnb_id_counter w + 1\<rparr>"
  note ok1 = counter_only_ok [OF ok k]
  have new: "gnb_id (gnb_at w q) \<noteq> g_gnb_id_counter w + 1" "gnb_id (gnb_at w q) \<le> g_gnb_id_counter w + 1"
    if "gnb_id (gnb_at w q) \<le> g_gnb_id_counter w" for q
    using that counter_grows [OF k] by (auto simp: word_le_nat_alt)
  have tab: "gnb_table w qs" using ok by (simp add: gnb_ok_def)
  show ?thesis
  proof (cases "p = Some w \<or> p = Some ?w")
    case True
    then show ?thesis using ok ok1 counter_grows [OF k] by fastforce
  next
    case False
    then obtain i where ip: "ip = Some i" and room: "length qs < 8 \<or> serving_gnb (ue w) = None"
      using run tab by (auto simp: uesim_add_gnb_def Let_def gnb_table_def MAX_GNB_CANDIDATES_def split: option.splits if_splits)
    define g where "g = new_gnb (g_gnb_id_counter w + 1) ty i port"
    show ?thesis
    proof (cases "serving_gnb (ue w)")
      case None
      define w' where "w' = upd_ue (\<lambda>c. c\<lparr>serving_gnb := Some a, gnb_ip := i, gnb_port := port\<rparr>)
         (?w\<lparr>gnb_at := (gnb_at w)(a := g\<lparr>is_serving := True\<rparr>), gnb_live := a # gnb_live w, ue_gnb_addr := gb_addr g\<rparr>)"
      have p: "p = Some w'"
        using run False ip None by (auto simp: uesim_add_gnb_def Let_def w'_def g_def split: if_splits)
      have "qs = []" using ok None by (simp add: gnb_ok_def)
      then have "gnb_ok w' []"
        using ok fresh by (intro gnb_okI [where a = a]) (auto simp: w'_def g_def gnb_ok_def gnb_table_def)
      then show ?thesis using p counter_grows [OF k] by (auto simp: w'_def)
    next
      case (Some b)
      note f = gnb_ok_serving [OF ok Some]
      define w' where "w' = upd_ue (\<lambda>c. c\<lparr>candidate_gnbs := (candidate_gnbs c)[unat (num_candidate_gnbs c) := Some a],
           num_candidate_gnbs := num_candidate_gnbs c + 1\<rparr>)
         (?w\<lparr>gnb_at := (gnb_at w)(a := g\<lparr>gb_state := GNB_STATE_HANDOVER_CANDIDATE\<rparr>), gnb_live := a # gnb_live w\<rparr>)"
      have p: "p = Some w'"
        using run False ip Some by (auto simp: uesim_add_gnb_def Let_def w'_def g_def upd_ue_def split: if_splits)
      have tab': "gnb_table w' (qs @ [a])"
        using add_candidate_table [of w qs a] tab room Some by (simp add: w'_def gnb_table_def)
      have "gnb_ok w' (qs @ [a])"
      proof (rule gnb_okI [where a = b])
        show "gnb_table w' (qs @ [a])" by (rule tab')
        have na: "a \<noteq> b" "a \<notin> set qs" using f fresh by auto
        then have at: "gnb_at w' a = g\<lparr>gb_state := GNB_STATE_HANDOVER_CANDIDATE\<rparr>" "gnb_at w' b = gnb_at w b"
            "\<And>q. q \<in> set qs \<Longrightarrow> gnb_at w' q = gnb_at w q"
          by (auto simp: w'_def)
        show "distinct (map (gnb_id \<circ> gnb_at w') (b # qs @ [a]))"
        proof -
          have "map (gnb_id \<circ> gnb_at w') (b # qs @ [a]) = map (gnb_id \<circ> gnb_at w) (b # qs) @ [g_gnb_id_counter w + 1]"
            using at by (simp add: g_def)
          moreover have "g_gnb_id_counter w + 1 \<noteq> gnb_id (gnb_at w q)" if "q \<in> set (b # qs)" for q
            using new(1) [of q] f that by auto
          then have "g_gnb_id_counter w + 1 \<notin> set (map (gnb_id \<circ> gnb_at w) (b # qs))"
            unfolding set_map comp_def by blast
          ultimately show ?thesis using f by (simp del: list.map)
        qed
        show "serving_gnb (ue w') = Some b" using Some by (simp add: w'_def)
        show "distinct (b # qs @ [a])" using f na by simp
        show "set (b # qs @ [a]) \<subseteq> set (gnb_live w')" using f by (auto simp: w'_def)
        show "distinct (gnb_live w')" using f fresh by (simp add: w'_def)
        show "is_serving (gnb_at w' b)" using at f by simp
        show "\<not> is_serving (gnb_at w' q)" if "q \<in> set (qs @ [a])" for q using that at f by (auto simp: g_def)
        show "gnb_id (gnb_at w' q) \<le> g_gnb_id_counter w'" if "q \<in> set (b # qs @ [a])" for q
          using that at f new(2) by (auto simp: g_def) (auto simp: w'_def)
      qed
      then show ?thesis using p counter_grows [OF k] by (auto simp: w'_def)
    qed
  qed
qed

lemma handover_ok:
  assumes ok: "gnb_ok w qs" and run: "execute_handover_procedure s n w = (r, w')"
  shows "\<exists>qs'. gnb_ok w' qs' \<and> gnb_live w' = gnb_live w \<and> g_gnb_id_counter w' = g_gnb_id_counter w"
proof (cases "w' = w")
  case False
  then obtain a where run': "(case uesim_connect_gnb s n (Some a) (Some w) of (r, q) \<Rightarrow>
      if r \<noteq> UESIM_SUCCESS then (r, the q)
      else case uesim_switch_serving_gnb (after_locks 1 s) (Some a) q of (r', q') \<Rightarrow> (r', the q')) = (r, w')"
    using run by (auto simp: execute_handover_procedure_def split: if_splits option.splits)
  obtain r1 w1 where c: "uesim_connect_gnb s n (Some a) (Some w) = (r1, Some w1)" and s1: "same_tables w w1"
    using connect_same [of s n "Some a" w] by (cases "uesim_connect_gnb s n (Some a) (Some w)") auto
  have ok1: "gnb_ok w1 qs" and k: "gnb_live w1 = gnb_live w" "g_gnb_id_counter w1 = g_gnb_id_counter w"
    using same_tables_ok [OF s1 ok] s1 by (auto simp: same_tables_def)
  show ?thesis
  proof (cases "r1 = UESIM_SUCCESS")
    case True
    obtain r2 p where sw: "uesim_switch_serving_gnb (after_locks 1 s) (Some a) (Some w1) = (r2, p)" by fastforce
    show ?thesis using switch_ok [OF ok1 sw] run' c True sw k by auto
  qed (use run' c ok1 k in auto)
qed (use ok in blast)

section \<open>Reachable tables\<close>

text \<open>The operations on the tables, in any order, with any outcome of the system and the network.\<close>

datatype gnb_op = Add_Gnb os nat gnb_type "u32 option" u16 bool | Remove_Gnb os "nat option"
  | Switch_Gnb os "nat option" | Connect_Gnb os net "nat option" | Disconnect_Gnb os "nat option"
  | Reconnect_Gnb os net "nat option" | Procedure_Gnb os net rrc_procedure | Stop_Ue os

definition gnb_op_run :: "gnb_op \<Rightarrow> 'z gnb_sys_scheme \<Rightarrow> 'z gnb_sys_scheme" where
  "gnb_op_run x w = (case x of
     Add_Gnb s a ty ip port out \<Rightarrow> the (snd (uesim_add_gnb s a ty ip port out (Some w)))
   | Remove_Gnb s g \<Rightarrow> the (snd (uesim_remove_gnb s g (Some w)))
   | Switch_Gnb s g \<Rightarrow> the (snd (uesim_switch_serving_gnb s g (Some w)))
   | Connect_Gnb s n g \<Rightarrow> the (snd (uesim_connect_gnb s n g (Some w)))
   | Disconnect_Gnb s g \<Rightarrow> the (snd (uesim_disconnect_gnb s g (Some w)))
   | Reconnect_Gnb s n g \<Rightarrow> the (snd (uesim_reconnect_gnb s n g (Some w)))
   | Procedure_Gnb s n k \<Rightarrow> the (snd (uesim_execute_procedure s n k (Some w)))
   | Stop_Ue s \<Rightarrow> the (snd (uesim_stop_ue s (Some w))))"

text \<open>An allocation does not return an address that is in use.\<close>

definition gnb_op_fresh :: "gnb_op \<Rightarrow> 'z gnb_sys_scheme \<Rightarrow> bool" where
  "gnb_op_fresh x w = (case x of Add_Gnb s a ty ip port out \<Rightarrow> a \<notin> set (gnb_live w) | _ \<Rightarrow> True)"

primrec gnb_run :: "gnb_op list \<Rightarrow> 'z gnb_sys_scheme \<Rightarrow> 'z gnb_sys_scheme" where
  "gnb_run [] w = w"
| "gnb_run (x # xs) w = gnb_run xs (gnb_op_run x w)"

primrec gnb_run_fresh :: "gnb_op list \<Rightarrow> 'z gnb_sys_scheme \<Rightarrow> bool" where
  "gnb_run_fresh [] w = True"
| "gnb_run_fresh (x # xs) w = (gnb_op_fresh x w \<and> gnb_run_fresh xs (gnb_op_run x w))"

lemma procedure_ok:
  assumes ok: "gnb_ok w qs" and run: "uesim_execute_procedure s n k (Some w) = (r, p)"
  shows "\<exists>w' qs'. p = Some w' \<and> gnb_ok w' qs' \<and> g_gnb_id_counter w' = g_gnb_id_counter w"
proof (cases "lock_ok s 0")
  case True
  show ?thesis
  proof (cases k)
    case RRC_PROC_HANDOVER
    then show ?thesis
      using run True handover_ok [OF ok, of "after_locks 1 s" n]
      by (cases "execute_handover_procedure (after_locks 1 s) n w") (auto simp: uesim_execute_procedure_def locked_def)
  qed (use run True ok in \<open>auto simp: uesim_execute_procedure_def locked_def Let_def split: prod.splits
    dest!: procedure_same intro: same_tables_ok [OF _ ok] same_tables_counter\<close>)
qed (use assms in \<open>auto simp: uesim_execute_procedure_def locked_def\<close>)

lemma op_run_ok:
  assumes "gnb_ok w qs" and "gnb_op_fresh x w" and "unat (g_gnb_id_counter w) + 1 < 2 ^ 32"
  shows "\<exists>qs'. gnb_ok (gnb_op_run x w) qs' \<and> unat (g_gnb_id_counter (gnb_op_run x w)) \<le> Suc (unat (g_gnb_id_counter w))"
proof -
  have keep: "\<exists>qs'. gnb_ok (the p) qs' \<and> unat (g_gnb_id_counter (the p)) \<le> Suc (unat (g_gnb_id_counter w))"
    if ex: "\<exists>w'. p = Some w' \<and> same_tables w w'" for p
  proof -
    obtain w' where "p = Some w'" and st: "same_tables w w'" using ex by blast
    then show ?thesis
      using same_tables_ok [OF st assms(1)] by (auto simp: same_tables_counter [OF st])
  qed
  show ?thesis
  proof (cases x)
    case (Add_Gnb s a ty ip port out)
    then show ?thesis
      using add_ok [OF assms(1) _ assms(3), of a s ty ip port out] assms(2)
      by (cases "uesim_add_gnb s a ty ip port out (Some w)") (auto simp: gnb_op_run_def gnb_op_fresh_def)
  next
    case (Remove_Gnb s g)
    then show ?thesis
      using remove_ok [OF assms(1), of s g]
      by (cases "uesim_remove_gnb s g (Some w)") (auto simp: gnb_op_run_def)
  next
    case (Switch_Gnb s g)
    then show ?thesis
      using switch_ok [OF assms(1), of s g]
      by (cases "uesim_switch_serving_gnb s g (Some w)") (auto simp: gnb_op_run_def)
  next
    case (Procedure_Gnb s n k)
    then show ?thesis
      using procedure_ok [OF assms(1), of s n k]
      by (cases "uesim_execute_procedure s n k (Some w)") (auto simp: gnb_op_run_def)
  qed (use keep connect_same disconnect_same reconnect_same stop_same in
    \<open>(simp add: gnb_op_run_def, metis prod.collapse)+\<close>)
qed

lemma run_ok:
  "gnb_ok w qs \<Longrightarrow> gnb_run_fresh xs w \<Longrightarrow> unat (g_gnb_id_counter w) + length xs < 2 ^ 32
    \<Longrightarrow> \<exists>qs'. gnb_ok (gnb_run xs w) qs'"
proof (induction xs arbitrary: w qs)
  case (Cons x xs)
  then obtain qs' where "gnb_ok (gnb_op_run x w) qs'"
      and "unat (g_gnb_id_counter (gnb_op_run x w)) \<le> Suc (unat (g_gnb_id_counter w))"
    using op_run_ok [of w qs x] by auto
  then show ?case using Cons.IH [of "gnb_op_run x w" qs'] Cons.prems by simp
qed auto

text \<open>A UE context as it is created, before any gNB is added.\<close>

definition fresh_ue :: ue_context where
  "fresh_ue = (case uesim_create_ue_instance good_os True 0 0 0 of Inr c \<Rightarrow> c)"

definition no_gnb :: gnb_context where
  "no_gnb = new_gnb 0 GNB_TYPE_MOCK 0 0"

definition fresh_sys :: gnb_sys where
  "fresh_sys = \<lparr>ue = fresh_ue, ue_gnb_addr = (0, 0), state_change_time = 0, gnb_at = (\<lambda>_. no_gnb),
     gnb_live = [], g_gnb_id_counter = 0, fds = []\<rparr>"

definition empty_tables :: "'z gnb_sys_scheme \<Rightarrow> bool" where
  "empty_tables w \<longleftrightarrow> serving_gnb (ue w) = None \<and> num_candidate_gnbs (ue w) = 0 \<and>
     candidate_gnbs (ue w) = replicate 8 None \<and> gnb_live w = [] \<and> g_gnb_id_counter w = 0"

lemma empty_tables_ok: "empty_tables w \<Longrightarrow> gnb_ok w []"
  by (simp add: empty_tables_def gnb_ok_def gnb_table_def listed_def)

lemma fresh_sys_empty: "empty_tables fresh_sys"
  by (simp add: empty_tables_def fresh_sys_def fresh_ue_def uesim_create_ue_instance_def)

text \<open>The lookup of a listed gNB by its identity finds it.\<close>

lemma find_listed:
  assumes "distinct (map f xs)" and "x \<in> set xs"
  shows "List.find (\<lambda>y. f y = f x) xs = Some x"
  using assms by (induction xs) force+

lemma find_map_Some:
  "List.find (\<lambda>b. case b of None \<Rightarrow> False | Some q \<Rightarrow> P q) (map Some xs) = map_option Some (List.find P xs)"
  by (induction xs) simp_all

lemma lookup_listed:
  assumes ok: "gnb_ok w qs" and q: "q \<in> set (listed (serving_gnb (ue w)) qs)"
  shows "uesim_find_gnb_by_id (gnb_id (gnb_at w q)) (Some w) = Some q"
proof -
  obtain b where b: "serving_gnb (ue w) = Some b"
    using ok q by (cases "serving_gnb (ue w)") (auto simp: gnb_ok_def listed_def)
  note f = gnb_ok_serving [OF ok b]
  have "serving_gnb (ue w) # candidates w = map Some (b # qs)" using f b by simp
  then show ?thesis
    using find_listed [of "gnb_id \<circ> gnb_at w" "b # qs" q] f q b
    by (simp add: uesim_find_gnb_by_id_def find_map_Some listed_def del: list.map find.simps)
qed

text \<open>
  C23. However gNBs are added, removed, connected, disconnected and switched, by the caller or the core's
  procedures, with any outcome of the system and the network, for fewer than \<open>2 ^ 32\<close> calls: the places
  in use come first in the candidate table and are as many as its counter says; the serving gNB and the
  candidates are distinct and not freed; exactly the serving one has its flag set; and the lookup by
  identity finds each of them.
\<close>

theorem gnb_tables_consistent:
  assumes "empty_tables w" and "gnb_run_fresh xs w" and "length xs < 2 ^ 32"
  shows "\<exists>qs. let w' = gnb_run xs w; gs = listed (serving_gnb (ue w')) qs in
    candidate_gnbs (ue w') = map Some qs @ replicate (8 - length qs) None \<and> length qs \<le> 8
    \<and> unat (uesim_get_candidate_gnb_count (Some w')) = length qs
    \<and> distinct gs \<and> set gs \<subseteq> set (gnb_live w')
    \<and> (\<forall>a \<in> set gs. (is_serving (gnb_at w' a) \<longleftrightarrow> uesim_get_serving_gnb (Some w') = Some a)
        \<and> uesim_find_gnb_by_id (gnb_id (gnb_at w' a)) (Some w') = Some a)"
proof -
  obtain qs where ok: "gnb_ok (gnb_run xs w) qs"
    using run_ok [OF empty_tables_ok assms(2)] assms by (auto simp: empty_tables_def)
  then show ?thesis
    using lookup_listed [OF ok]
    by (intro exI [of _ qs]) (auto simp: Let_def gnb_ok_def gnb_table_def uesim_get_serving_gnb_def
        uesim_get_candidate_gnb_count_def)
qed

text \<open>A network on which the attempts succeed with the given descriptors.\<close>

definition net_ok :: "int \<Rightarrow> int \<Rightarrow> net" where
  "net_ok a b = \<lparr>net_try = (\<lambda>_. \<lparr>nt_fd = a, nt_nonblock = True, nt_connect = Connected\<rparr>), net_gtpu = b, net_now = 0\<rparr>"

definition gnb_example :: "gnb_op list" where
  "gnb_example = [Add_Gnb good_os 10 GNB_TYPE_MOCK (Some 1) 38412 True,
     Add_Gnb good_os 20 GNB_TYPE_MOCK (Some 2) 38412 True, Switch_Gnb good_os (Some 20)]"

lemma gnb_tables_consistent_witness:
  "\<exists>qs. candidate_gnbs (ue (gnb_run gnb_example fresh_sys)) = map Some qs @ replicate (8 - length qs) None"
proof -
  have "gnb_run_fresh gnb_example fresh_sys"
    by (simp add: gnb_example_def gnb_op_fresh_def fresh_sys_def fresh_ue_def uesim_create_ue_instance_def
        gnb_op_run_def uesim_add_gnb_def upd_ue_def candidates_def Let_def MAX_GNB_CANDIDATES_def)
  then show ?thesis
    using gnb_tables_consistent [OF fresh_sys_empty, of gnb_example] by (auto simp: gnb_example_def Let_def)
qed

section \<open>What a handover loses\<close>

text \<open>With a full candidate table the old serving gNB is in no table any more, but still allocated.\<close>

lemma full_table_loses_serving:
  assumes ok: "gnb_ok w qs" and b: "serving_gnb (ue w) = Some b" and l: "lock_ok s 0"
    and full: "length qs = 8" and i: "i < 8"
  shows "\<exists>w'. uesim_switch_serving_gnb s (Some (qs ! i)) (Some w) = (UESIM_SUCCESS, Some w')
    \<and> b \<in> set (gnb_live w') \<and> uesim_find_gnb_by_id (gnb_id (gnb_at w b)) (Some w') = None
    \<and> uesim_get_candidate_gnb_count (Some w') = 7"
proof -
  note f = gnb_ok_serving [OF ok b]
  have iq: "i < length qs" using full i by simp
  obtain w' where sw: "uesim_switch_serving_gnb s (Some (qs ! i)) (Some w) = (UESIM_SUCCESS, Some w')"
    and tab: "gnb_table w' (remove_at i qs)" and s': "serving_gnb (ue w') = Some (qs ! i)"
    and live: "gnb_live w' = gnb_live w" and id: "\<And>q. gnb_id (gnb_at w' q) = gnb_id (gnb_at w q)"
    using switch_result [OF ok b l iq refl] full by auto
  have "gnb_id (gnb_at w q) \<noteq> gnb_id (gnb_at w b)" if "q \<in> set qs" for q
    using f that by auto (metis image_eqI)
  moreover have "set (qs ! i # remove_at i qs) \<subseteq> set qs"
    using set_remove_at [of i qs] nth_mem [OF iq] by auto
  ultimately have "List.find (\<lambda>q. gnb_id (gnb_at w' q) = gnb_id (gnb_at w b)) (qs ! i # remove_at i qs) = None"
    unfolding find_None_iff by (auto simp: id)
  moreover have "serving_gnb (ue w') # candidates w' = map Some (qs ! i # remove_at i qs)"
    using tab s' by simp
  ultimately have "uesim_find_gnb_by_id (gnb_id (gnb_at w b)) (Some w') = None"
    by (simp add: uesim_find_gnb_by_id_def find_map_Some del: list.map find.simps)
  moreover have "unat (num_candidate_gnbs (ue w')) = 7"
    using tab full i by (simp add: gnb_table_def length_remove_at)
  then have "num_candidate_gnbs (ue w') = 7" by (simp add: word_unat_eq_iff)
  ultimately show ?thesis using sw live f by (auto simp: uesim_get_candidate_gnb_count_def)
qed

text \<open>An open socket that neither a gNB nor the UE holds, so that nothing can close it.\<close>

definition unheld :: "int \<Rightarrow> 'z gnb_sys_scheme \<Rightarrow> bool" where
  "unheld o' w \<longleftrightarrow> o' \<in> set (fds w) \<and> (\<forall>q. gb_ngap (gnb_at w q) \<noteq> o' \<and> gb_gtpu (gnb_at w q) \<noteq> o') \<and>
     ngap_socket (ue w) \<noteq> o' \<and> gtpu_socket (ue w) \<noteq> o' \<and> 0 \<le> o'"

lemma close_fd_simps [simp]:
  "ue (close_fd x w) = ue w" "gnb_at (close_fd x w) = gnb_at w" "x \<noteq> y \<Longrightarrow> y \<in> set (fds (close_fd x w)) \<longleftrightarrow> y \<in> set (fds w)"
  by (simp_all add: close_fd_def in_set_remove1)

lemma disconnect_unheld:
  "unheld o' w \<Longrightarrow> uesim_disconnect_gnb s g (Some w) = (r, Some w') \<Longrightarrow> unheld o' w'"
  by (auto simp: uesim_disconnect_gnb_def locked_def unheld_def Let_def split: option.splits if_splits)

lemma disconnect_all_unheld:
  "unheld o' w \<Longrightarrow> unheld o' (snd (disconnect_all s gs w))"
proof (induction gs arbitrary: s w)
  case (Cons g gs)
  show ?case
  proof (cases g)
    case None
    then show ?thesis using Cons.IH [of w s] Cons.prems by simp
  next
    case (Some a)
    obtain r w1 where d: "uesim_disconnect_gnb s (Some a) (Some w) = (r, Some w1)"
      using disconnect_same [of s "Some a" w] by (cases "uesim_disconnect_gnb s (Some a) (Some w)") auto
    show ?thesis
      using Cons.IH [OF disconnect_unheld [OF Cons.prems d], of "after_locks 1 s"] Some d by simp
  qed
qed simp

lemma stop_unheld:
  assumes "unheld o' w" and "uesim_stop_ue s (Some w) = (r, Some w')"
  shows "unheld o' w'"
  using assms disconnect_all_unheld [OF assms(1), of "after_locks 1 s" "serving_gnb (ue w) # candidates w"]
  by (auto simp: uesim_stop_ue_def locked_def unheld_def Let_def split: if_splits)

lemma connect_loop_ok:
  "connect_loop ts d e fd n = (UESIM_SUCCESS, x, k) \<Longrightarrow> e \<noteq> UESIM_SUCCESS \<Longrightarrow> \<exists>t \<in> set ts. x = nt_fd t \<and> 0 \<le> x"
  by (induction ts d e fd n rule: connect_loop.induct) (auto split: if_splits)

text \<open>
  A candidate that is connected keeps the state of a candidate, so a handover to it connects it
  again: two more sockets are open, and the socket it had is held by nobody; it is still open after the
  UE has been stopped with every lock granted.
\<close>

theorem handover_leaks_socket:
  assumes "gnb_ok w qs" and "serving_gnb (ue w) = Some b" and "i < length qs" and "fst (best_candidate w) = Some (qs ! i)"
    and "gb_state (gnb_at w (qs ! i)) = GNB_STATE_HANDOVER_CANDIDATE"
    and "o' = gb_ngap (gnb_at w (qs ! i))" and "0 \<le> o'" and "o' \<in> set (fds w)" and "gb_gtpu (gnb_at w (qs ! i)) \<noteq> o'"
    and "\<forall>q. q \<noteq> qs ! i \<longrightarrow> gb_ngap (gnb_at w q) \<noteq> o' \<and> gb_gtpu (gnb_at w q) \<noteq> o'"
    and "connect_with_retry n o' = (UESIM_SUCCESS, fd, slept)" and "fd \<notin> set (fds w)"
    and "0 \<le> net_gtpu n" and "net_gtpu n \<notin> set (fds w)"
  shows "\<exists>w1 w2. uesim_execute_procedure good_os n RRC_PROC_HANDOVER (Some w) = (UESIM_SUCCESS, Some w1)
    \<and> fds w1 = net_gtpu n # fd # fds w \<and> serving_gnb (ue w1) = Some (qs ! i)
    \<and> uesim_stop_ue good_os (Some w1) = (UESIM_SUCCESS, Some w2) \<and> o' \<in> set (fds w2)"
proof -
  let ?a = "qs ! i"
  note f = gnb_ok_serving [OF assms(1,2)]
  define wc where "wc = upd_gnb ?a (\<lambda>b. b\<lparr>gb_ngap := fd, gb_gtpu := net_gtpu n,
      gb_state := GNB_STATE_HANDOVER_CANDIDATE, connect_time := net_now n, last_activity := net_now n\<rparr>)
      (w\<lparr>fds := net_gtpu n # fd # fds w\<rparr>)"
  have ns: "\<not> is_serving (gnb_at w ?a)" using f nth_mem [OF assms(3)] by simp
  have conn: "uesim_connect_gnb good_os n (Some ?a) (Some w) = (UESIM_SUCCESS, Some wc)"
    using assms(5,6,11,13) ns by (simp add: uesim_connect_gnb_def wc_def Let_def upd_gnb_def)
  then have okc: "gnb_ok wc qs"
    using connect_same [OF conn] same_tables_ok [OF _ assms(1)] by auto
  have sc: "serving_gnb (ue wc) = Some b" using assms(2) by (simp add: wc_def)
  obtain w1 where sw: "uesim_switch_serving_gnb good_os (Some ?a) (Some wc) = (UESIM_SUCCESS, Some w1)"
    and s1: "serving_gnb (ue w1) = Some ?a" and f1: "fds w1 = fds wc"
    and so: "\<And>q. gb_ngap (gnb_at w1 q) = gb_ngap (gnb_at wc q) \<and> gb_gtpu (gnb_at w1 q) = gb_gtpu (gnb_at wc q)"
    using switch_result [OF okc sc _ assms(3) refl, of good_os] by auto
  have us: "ngap_socket (ue w1) = gb_ngap (gnb_at wc ?a)" "gtpu_socket (ue w1) = gb_gtpu (gnb_at wc ?a)"
    using sw nth_mem [OF assms(3)] f sc
    by (auto simp: uesim_switch_serving_gnb_def Let_def split: option.splits)
  have "num_candidate_gnbs (ue w) \<noteq> 0" using f assms(3) by (auto simp: gnb_table_def)
  then have ho: "uesim_execute_procedure good_os n RRC_PROC_HANDOVER (Some w) = (UESIM_SUCCESS, Some w1)"
    using assms(4) conn sw by (simp add: uesim_execute_procedure_def execute_handover_procedure_def Let_def)
  have "o' \<noteq> fd" and "o' \<noteq> net_gtpu n" using assms(8,12,14) by auto
  then have "unheld o' w1"
    using assms(7-10) us so f1 by (auto simp: unheld_def wc_def)
  moreover have "\<exists>w2. uesim_stop_ue good_os (Some w1) = (UESIM_SUCCESS, Some w2)"
    by (simp add: uesim_stop_ue_def Let_def)
  then obtain w2 where st: "uesim_stop_ue good_os (Some w1) = (UESIM_SUCCESS, Some w2)" by blast
  ultimately show ?thesis
    using ho s1 st stop_unheld [of o' w1 good_os] f1 by (auto simp: unheld_def wc_def)
qed

text \<open>Two gNBs; the candidate reports a better power and is connected.\<close>

definition two_gnbs :: gnb_sys where
  "two_gnbs = fresh_sys\<lparr>
     ue := fresh_ue\<lparr>serving_gnb := Some 10, candidate_gnbs := Some 20 # replicate 7 None,
       num_candidate_gnbs := 1, ngap_socket := 3, gtpu_socket := 4\<rparr>,
     gnb_at := (\<lambda>_. no_gnb)(
       10 := (new_gnb 1 GNB_TYPE_MOCK 1 38412)\<lparr>is_serving := True, gb_state := GNB_STATE_CONNECTED,
         gb_ngap := 3, gb_gtpu := 4\<rparr>,
       20 := (new_gnb 2 GNB_TYPE_MOCK 2 38412)\<lparr>gb_state := GNB_STATE_HANDOVER_CANDIDATE,
         gb_ngap := 5, gb_gtpu := 6, rsrp := -80\<rparr>),
     gnb_live := [20, 10], g_gnb_id_counter := 2, fds := [6, 5, 4, 3]\<rparr>"

lemmas two_gnbs_eval = two_gnbs_def fresh_sys_def candidates_def new_gnb_def no_gnb_def

lemma handover_leaks_socket_witness:
  "\<exists>w1 w2. uesim_execute_procedure good_os (net_ok 7 8) RRC_PROC_HANDOVER (Some two_gnbs) = (UESIM_SUCCESS, Some w1)
    \<and> uesim_stop_ue good_os (Some w1) = (UESIM_SUCCESS, Some w2) \<and> 5 \<in> set (fds w2)"
proof -
  have s: "serving_gnb (ue two_gnbs) = Some 10"
    and c: "candidates two_gnbs = [Some 20]"
    and a: "gb_state (gnb_at two_gnbs 20) = GNB_STATE_HANDOVER_CANDIDATE" "gb_ngap (gnb_at two_gnbs 20) = 5"
      "gb_gtpu (gnb_at two_gnbs 20) = 6" "rsrp (gnb_at two_gnbs 20) = -80"
    and o': "fds two_gnbs = [6, 5, 4, 3]"
    and q: "q \<noteq> 20 \<Longrightarrow> gb_ngap (gnb_at two_gnbs q) \<noteq> 5 \<and> gb_gtpu (gnb_at two_gnbs q) \<noteq> 5" for q
    by (simp_all add: two_gnbs_eval)
  have "gnb_ok two_gnbs [20]"
    by (rule gnb_okI [where a = 10]) (simp_all add: two_gnbs_eval gnb_table_def)
  moreover have "fst (best_candidate two_gnbs) = Some ([20] ! 0)"
    by (simp add: best_candidate_def c better_def a)
  ultimately show ?thesis
    using handover_leaks_socket [OF _ s, of "[20]" 0 5 "net_ok 7 8" 7 0] a o' q
    by (fastforce simp: connect_with_retry_def net_ok_def UESIM_CONNECT_MAX_RETRIES_def connect_succeeds_def upt_rec)
qed

end
