(* ===== verification/Rrc.thy ===== *)
theory Rrc
  imports Gnb Asn1_Rrc
begin

text \<open>
  The RRC layer (\<^verbatim>\<open>src/protocol/rrc.c\<close>): the state machine, the messages and their octets, the
  procedures with their retries, and the handlers of what the network sends.

  The state is that of the gNB connections with the counter of transactions and the octets handed to
  \<^verbatim>\<open>send\<close>. The data of a message that the layer builds is a value of \<open>rrc_data\<close>; that of a received one
  are the octets after its header. A result \<open>None\<close> is a read or write outside the data.
\<close>

section \<open>Constants and state\<close>

definition RRC_T300_MS :: u32 where "RRC_T300_MS = 1000"
definition RRC_T301_MS :: u32 where "RRC_T301_MS = 1000"
definition RRC_T304_MS :: u32 where "RRC_T304_MS = 2000"
definition RRC_N300_MAX :: nat where "RRC_N300_MAX = 3"
definition RRC_N311_MAX :: nat where "RRC_N311_MAX = 3"

text \<open>Of the message types, a received number that is not in the enumeration is the last case.\<close>

datatype rrc_message_type =
    RRC_MESSAGE_TYPE_SETUP_REQUEST | RRC_MESSAGE_TYPE_SETUP | RRC_MESSAGE_TYPE_SETUP_COMPLETE
  | RRC_MESSAGE_TYPE_REESTABLISHMENT_REQUEST | RRC_MESSAGE_TYPE_REESTABLISHMENT
  | RRC_MESSAGE_TYPE_REESTABLISHMENT_COMPLETE | RRC_MESSAGE_TYPE_RECONFIGURATION
  | RRC_MESSAGE_TYPE_RECONFIGURATION_COMPLETE | RRC_MESSAGE_TYPE_MEASUREMENT_REPORT
  | RRC_MESSAGE_TYPE_HANDOVER_PREPARATION | RRC_MESSAGE_TYPE_HANDOVER_COMMAND
  | RRC_MESSAGE_TYPE_HANDOVER_CONFIRMATION | RRC_MESSAGE_TYPE_UE_CAPABILITY_ENQUIRY
  | RRC_MESSAGE_TYPE_UE_CAPABILITY_INFORMATION | RRC_MESSAGE_TYPE_CONNECTION_RELEASE
  | RRC_MESSAGE_TYPE_SECURITY_MODE_COMMAND | RRC_MESSAGE_TYPE_SECURITY_MODE_COMPLETE
  | RRC_MESSAGE_TYPE_OTHER u32

definition named_types :: "rrc_message_type list" where
  "named_types = [RRC_MESSAGE_TYPE_SETUP_REQUEST, RRC_MESSAGE_TYPE_SETUP, RRC_MESSAGE_TYPE_SETUP_COMPLETE,
    RRC_MESSAGE_TYPE_REESTABLISHMENT_REQUEST, RRC_MESSAGE_TYPE_REESTABLISHMENT,
    RRC_MESSAGE_TYPE_REESTABLISHMENT_COMPLETE, RRC_MESSAGE_TYPE_RECONFIGURATION,
    RRC_MESSAGE_TYPE_RECONFIGURATION_COMPLETE, RRC_MESSAGE_TYPE_MEASUREMENT_REPORT,
    RRC_MESSAGE_TYPE_HANDOVER_PREPARATION, RRC_MESSAGE_TYPE_HANDOVER_COMMAND,
    RRC_MESSAGE_TYPE_HANDOVER_CONFIRMATION, RRC_MESSAGE_TYPE_UE_CAPABILITY_ENQUIRY,
    RRC_MESSAGE_TYPE_UE_CAPABILITY_INFORMATION, RRC_MESSAGE_TYPE_CONNECTION_RELEASE,
    RRC_MESSAGE_TYPE_SECURITY_MODE_COMMAND, RRC_MESSAGE_TYPE_SECURITY_MODE_COMPLETE]"

definition type_of_number :: "u32 \<Rightarrow> rrc_message_type" where
  "type_of_number v = (if unat v < length named_types then named_types ! unat v else RRC_MESSAGE_TYPE_OTHER v)"

definition number_of_type :: "rrc_message_type \<Rightarrow> u32" where
  "number_of_type t = (case t of RRC_MESSAGE_TYPE_OTHER v \<Rightarrow> v
   | _ \<Rightarrow> (case find_index (\<lambda>x. x = t) named_types of None \<Rightarrow> 0 | Some i \<Rightarrow> word_of_nat i))"

datatype rrc_proc_status = RRC_PROC_STATUS_IDLE | RRC_PROC_STATUS_ONGOING | RRC_PROC_STATUS_SUCCESS
  | RRC_PROC_STATUS_TIMEOUT | RRC_PROC_STATUS_FAILED | RRC_PROC_STATUS_RETRY

datatype rrc_error_cause = RRC_CAUSE_SUCCESS | RRC_CAUSE_TIMEOUT | RRC_CAUSE_MAX_RETRIES
  | RRC_CAUSE_NETWORK_FAILURE | RRC_CAUSE_RADIO_LINK_FAILURE | RRC_CAUSE_HANDOVER_FAILED
  | RRC_CAUSE_RECONFIGURATION_FAILED | RRC_CAUSE_SECURITY_FAILED | RRC_CAUSE_INVALID_STATE

text \<open>
  The structures behind the data pointer: setup request (identity, cause), setup complete (transaction,
  network, NAS message), reestablishment request (cause, cell, identity), reconfiguration (transaction),
  measurement report, capability (radio access type, container); and received octets.
\<close>

datatype rrc_data =
    Setup_Request_Data u64 u8
  | Setup_Complete_Data u8 u8 "u8 list"
  | Reest_Request_Data u8 u16 u32
  | Reconfig_Data u8
  | Meas_Report_Data u8 s32 s32 u16 u32
  | Ue_Cap_Data u8 "u8 list"
  | Raw "u8 list"

record rrc_message =
  message_type :: rrc_message_type
  message_id :: u32
  transaction_id :: u32
  data_length :: nat
  msg_data :: "rrc_data option"

record rrc_procedure_context =
  pc_type :: rrc_procedure
  pc_transaction_id :: u32
  pc_start_time :: int
  pc_retry_count :: u32
  pc_timeout_ms :: u32
  pc_status :: rrc_proc_status
  pc_error_cause :: rrc_error_cause
  pc_completed :: bool
  pc_success :: bool
  pc_data :: "rrc_data option"

record rrc_sys = gnb_sys +
  g_transaction_id_counter :: u32
  sent :: "(int \<times> u8 list) list"

text \<open>
  What one call meets: the outcomes of the system, the results of \<^verbatim>\<open>rand\<close>, the content of a block of
  256 octets, the time, the network, and what \<^verbatim>\<open>send\<close> does.
\<close>

datatype send_result = Sent nat | Would_Block | Send_Failed

record rrc_env =
  ev_os :: os
  ev_rand :: "nat \<Rightarrow> nat"
  ev_mem :: "u8 list"
  ev_now :: int
  ev_net :: net
  ev_send :: send_result

definition after_env :: "nat \<Rightarrow> nat \<Rightarrow> nat \<Rightarrow> rrc_env \<Rightarrow> rrc_env" where
  "after_env allocs locks rands e = e\<lparr>ev_os := after_allocs allocs (after_locks locks (ev_os e)),
     ev_rand := (\<lambda>i. ev_rand e (i + rands))\<rparr>"

section \<open>The state machine\<close>

definition g_valid_state_transitions :: "(rrc_state \<times> rrc_state) list" where
  "g_valid_state_transitions = [(RRC_STATE_IDLE, RRC_STATE_CONNECTED), (RRC_STATE_IDLE, RRC_STATE_CONNECTING),
     (RRC_STATE_CONNECTED, RRC_STATE_IDLE), (RRC_STATE_CONNECTED, RRC_STATE_INACTIVE),
     (RRC_STATE_INACTIVE, RRC_STATE_IDLE), (RRC_STATE_INACTIVE, RRC_STATE_CONNECTED),
     (RRC_STATE_INACTIVE, RRC_STATE_CONNECTING), (RRC_STATE_CONNECTING, RRC_STATE_IDLE),
     (RRC_STATE_CONNECTING, RRC_STATE_CONNECTED)]"

text \<open>\<open>None\<close> is a number that is not a state.\<close>

definition rrc_is_valid_state_transition :: "rrc_state option \<Rightarrow> rrc_state option \<Rightarrow> bool" where
  "rrc_is_valid_state_transition from to = (case (from, to) of
     (Some a, Some b) \<Rightarrow> (a, b) \<in> set g_valid_state_transitions | _ \<Rightarrow> False)"

definition rrc_change_state :: "os \<Rightarrow> int \<Rightarrow> rrc_state option \<Rightarrow> 'z gnb_sys_scheme option
    \<Rightarrow> uesim_error \<times> 'z gnb_sys_scheme option" where
  "rrc_change_state s now st p = with_ptr p (\<lambda>w. case st of
     None \<Rightarrow> (UESIM_ERROR_INVALID_PARAM, w)
   | Some x \<Rightarrow> locked s w
       (if \<not> rrc_is_valid_state_transition (Some (current_state (ue w))) (Some x) then (UESIM_ERROR_PROTOCOL, w)
        else (UESIM_SUCCESS, upd_ue (\<lambda>c. c\<lparr>current_state := x\<rparr>) (w\<lparr>state_change_time := now\<rparr>))))"

definition rrc_get_current_state :: "os \<Rightarrow> 'z gnb_sys_scheme option \<Rightarrow> rrc_state option" where
  "rrc_get_current_state s p = (case p of None \<Rightarrow> None | Some w \<Rightarrow>
     if lock_ok s 0 then Some (current_state (ue w)) else None)"

section \<open>Messages\<close>

text \<open>\<^verbatim>\<open>((uint64_t)rand() << 32) | rand()\<close>\<close>

definition rand64 :: "(nat \<Rightarrow> nat) \<Rightarrow> u64" where
  "rand64 r = push_bit 32 (word_of_nat (r 0)) OR word_of_nat (r 1)"

definition no_buffer :: asn1_buffer where
  "no_buffer = \<lparr>ab_data = [], ab_size = 0, ab_capacity = 0, ab_offset = 0, own_data = False\<rparr>"

text \<open>
  The encoder of one message type, from the data its cast finds; \<open>None\<close> when the data are of another kind.
  Without data the structure for the encoder is zero, but for the identity of a setup request.
\<close>

definition random_identity :: "u64 \<Rightarrow> rrc_ue_identity" where
  "random_identity v = \<lparr>id_type = 0, random_value = v\<rparr>"

definition encode_setup_request_data ::
  "(nat \<Rightarrow> nat) \<Rightarrow> rrc_data option \<Rightarrow> asn1_buffer option \<Rightarrow> (uesim_error \<times> asn1_buffer option) option" where
  "encode_setup_request_data r d b = (case d of
     None \<Rightarrow> Some (rrc_encode_setup_request (Some \<lparr>sr_identity = random_identity (rand64 r),
       establishment_cause = 2\<rparr>) b)
   | Some (Setup_Request_Data i c) \<Rightarrow> Some (rrc_encode_setup_request
       (Some \<lparr>sr_identity = random_identity i, establishment_cause = ucast c\<rparr>) b)
   | _ \<Rightarrow> None)"

definition encode_setup_complete_data ::
  "rrc_data option \<Rightarrow> asn1_buffer option \<Rightarrow> (uesim_error \<times> asn1_buffer option) option" where
  "encode_setup_complete_data d b = (case d of
     None \<Rightarrow> Some (rrc_encode_setup_complete (Some \<lparr>sc_tid = 0, selected_plmn = 0, nas_pdu = []\<rparr>) b)
   | Some (Setup_Complete_Data t pl n) \<Rightarrow>
       Some (rrc_encode_setup_complete (Some \<lparr>sc_tid = t, selected_plmn = pl, nas_pdu = n\<rparr>) b)
   | _ \<Rightarrow> None)"

definition encode_reest_request_data ::
  "(nat \<Rightarrow> nat) \<Rightarrow> rrc_data option \<Rightarrow> asn1_buffer option \<Rightarrow> (uesim_error \<times> asn1_buffer option) option" where
  "encode_reest_request_data r d b = (case d of
     None \<Rightarrow> Some (rrc_encode_reest_request (Some \<lparr>rr_identity = random_identity 0,
       reestablishment_cause = 0, rr_pci = 0, rr_c_rnti = 0, short_mac_i = [0, 0]\<rparr>) b)
   | Some (Reest_Request_Data c pci rnti) \<Rightarrow> Some (rrc_encode_reest_request
       (Some \<lparr>rr_identity = random_identity (rand64 r), reestablishment_cause = ucast c, rr_pci = pci,
         rr_c_rnti = rnti, short_mac_i = [0, 0]\<rparr>) b)
   | _ \<Rightarrow> None)"

definition encode_measurement_data ::
  "rrc_data option \<Rightarrow> asn1_buffer option \<Rightarrow> (uesim_error \<times> asn1_buffer option) option" where
  "encode_measurement_data d b = (case d of
     None \<Rightarrow> Some (rrc_encode_measurement_report
       (Some \<lparr>mr_meas_id = 0, mr_rsrp = 0, mr_rsrq = 0, mr_pci = 0, mr_cell_id = 0\<rparr>) b)
   | Some (Meas_Report_Data i p q pci cell) \<Rightarrow> Some (rrc_encode_measurement_report
       (Some \<lparr>mr_meas_id = i, mr_rsrp = p, mr_rsrq = q, mr_pci = pci, mr_cell_id = cell\<rparr>) b)
   | _ \<Rightarrow> None)"

definition encode_handover_prep_data ::
  "rrc_data option \<Rightarrow> asn1_buffer option \<Rightarrow> (uesim_error \<times> asn1_buffer option) option" where
  "encode_handover_prep_data d b = (case d of
     None \<Rightarrow> Some (rrc_encode_handover_prep
       (Some \<lparr>hp_meas_id = 0, hp_rsrp = 0, hp_rsrq = 0, hp_pci = 0, hp_cell_id = 0\<rparr>) b)
   | Some (Meas_Report_Data i p q pci cell) \<Rightarrow> Some (rrc_encode_handover_prep
       (Some \<lparr>hp_meas_id = i, hp_rsrp = p, hp_rsrq = q, hp_pci = pci, hp_cell_id = cell\<rparr>) b)
   | _ \<Rightarrow> None)"

definition encode_ue_cap_data ::
  "rrc_data option \<Rightarrow> asn1_buffer option \<Rightarrow> (uesim_error \<times> asn1_buffer option) option" where
  "encode_ue_cap_data d b = (case d of
     None \<Rightarrow> Some (rrc_encode_ue_cap_info (Some \<lparr>ci_rat_type = 0, capability_container = []\<rparr>) b)
   | Some (Ue_Cap_Data t c) \<Rightarrow>
       Some (rrc_encode_ue_cap_info (Some \<lparr>ci_rat_type = t, capability_container = c\<rparr>) b)
   | _ \<Rightarrow> None)"

text \<open>The transaction identity in the two low bits.\<close>

definition tid_of :: "rrc_message \<Rightarrow> u8" where
  "tid_of m = ucast (transaction_id m AND 0x03)"

text \<open>
  The format of the other messages: a header of type, transaction and length of the data, then the data,
  each with the length octets of an octet string. Their errors are not looked at.
\<close>

definition encode_other :: "rrc_message \<Rightarrow> asn1_buffer option \<Rightarrow> (uesim_error \<times> asn1_buffer option) option" where
  "encode_other m b = (let
     n = min (data_length m) 65535;
     header = [ucast (number_of_type (message_type m)), ucast (transaction_id m),
       word_of_nat (n div 256), word_of_nat n];
     b1 = snd (asn1_encode_octet_string (Some header) 4 b)
     in if data_length m > 0 then (case msg_data m of
          None \<Rightarrow> Some (UESIM_SUCCESS, b1)
        | Some (Raw d) \<Rightarrow> Some (UESIM_SUCCESS, snd (asn1_encode_octet_string (Some d) n b1))
        | _ \<Rightarrow> None)
        else Some (UESIM_SUCCESS, b1))"

definition encode_message_body ::
  "(nat \<Rightarrow> nat) \<Rightarrow> rrc_message \<Rightarrow> asn1_buffer option \<Rightarrow> (uesim_error \<times> asn1_buffer option) option" where
  "encode_message_body r m b = (case message_type m of
     RRC_MESSAGE_TYPE_SETUP_REQUEST \<Rightarrow> encode_setup_request_data r (msg_data m) b
   | RRC_MESSAGE_TYPE_SETUP_COMPLETE \<Rightarrow> encode_setup_complete_data (msg_data m) b
   | RRC_MESSAGE_TYPE_REESTABLISHMENT_REQUEST \<Rightarrow> encode_reest_request_data r (msg_data m) b
   | RRC_MESSAGE_TYPE_RECONFIGURATION_COMPLETE \<Rightarrow> (case msg_data m of
       None \<Rightarrow> Some (rrc_encode_reconfig_complete (Some 0) b)
     | Some (Reconfig_Data t) \<Rightarrow> Some (rrc_encode_reconfig_complete (Some t) b)
     | _ \<Rightarrow> None)
   | RRC_MESSAGE_TYPE_MEASUREMENT_REPORT \<Rightarrow> encode_measurement_data (msg_data m) b
   | RRC_MESSAGE_TYPE_REESTABLISHMENT_COMPLETE \<Rightarrow> Some (rrc_encode_reest_complete (Some (tid_of m)) b)
   | RRC_MESSAGE_TYPE_HANDOVER_CONFIRMATION \<Rightarrow> Some (rrc_encode_handover_confirm (Some (tid_of m)) b)
   | RRC_MESSAGE_TYPE_UE_CAPABILITY_INFORMATION \<Rightarrow> encode_ue_cap_data (msg_data m) b
   | RRC_MESSAGE_TYPE_HANDOVER_PREPARATION \<Rightarrow> encode_handover_prep_data (msg_data m) b
   | RRC_MESSAGE_TYPE_SECURITY_MODE_COMPLETE \<Rightarrow> Some (rrc_encode_security_mode_complete (Some (tid_of m)) b)
   | _ \<Rightarrow> encode_other m b)"

text \<open>The result is the block of 256 octets and the number of them that are used.\<close>

definition rrc_encode_message :: "os \<Rightarrow> (nat \<Rightarrow> nat) \<Rightarrow> u8 list \<Rightarrow> rrc_message option \<Rightarrow> bool \<Rightarrow> bool
    \<Rightarrow> (uesim_error + u8 list \<times> nat) option" where
  "rrc_encode_message s r mem msg out outlen = (case msg of
     None \<Rightarrow> Some (Inl UESIM_ERROR_INVALID_PARAM)
   | Some m \<Rightarrow>
       if \<not> out \<or> \<not> outlen then Some (Inl UESIM_ERROR_INVALID_PARAM)
       else case asn1_buffer_alloc s mem 256 (Some no_buffer) of (e, b) \<Rightarrow>
         if e \<noteq> UESIM_SUCCESS then Some (Inl e)
         else map_option (\<lambda>(e, b). if e \<noteq> UESIM_SUCCESS then Inl e
           else Inr (case b of None \<Rightarrow> [] | Some x \<Rightarrow> ab_data x, asn1_buffer_length b))
           (encode_message_body r m b))"

text \<open>The number in octets of a little-endian machine.\<close>

definition le_word :: "u8 list \<Rightarrow> 'a::len word" where
  "le_word d = foldr (\<lambda>b v. push_bit 8 v OR ucast b) d 0"

definition RRC_HEADER_LENGTH :: nat where "RRC_HEADER_LENGTH = 20"

text \<open>
  Decoding fills the message field by field, also when it fails. The sum of the lengths is taken modulo
  \<open>2 ^ 64\<close>; a copy of more octets than there are is \<open>None\<close>.
\<close>

definition rrc_decode_message :: "os \<Rightarrow> u8 list option \<Rightarrow> rrc_message option
    \<Rightarrow> (uesim_error \<times> rrc_message option) option" where
  "rrc_decode_message s data msg = (case data of
     None \<Rightarrow> Some (UESIM_ERROR_INVALID_PARAM, msg)
   | Some d \<Rightarrow> (case msg of
       None \<Rightarrow> Some (UESIM_ERROR_INVALID_PARAM, None)
     | Some m \<Rightarrow>
         if length d < RRC_HEADER_LENGTH then Some (UESIM_ERROR_INVALID_PARAM, Some m)
         else let n = unat (le_word (take 8 (drop 12 d)) :: u64);
                m1 = m\<lparr>message_type := type_of_number (le_word (take 4 d)),
                  message_id := le_word (take 4 (drop 4 d)),
                  transaction_id := le_word (take 4 (drop 8 d)), data_length := n\<rparr>
           in if n = 0 then Some (UESIM_SUCCESS, Some (m1\<lparr>msg_data := None\<rparr>))
              else if length d < (RRC_HEADER_LENGTH + n) mod 2 ^ 64 then Some (UESIM_ERROR_INVALID_PARAM, Some m1)
              else if \<not> alloc_ok s 0 then Some (UESIM_ERROR_MEMORY, Some (m1\<lparr>msg_data := None\<rparr>))
              else if length d < RRC_HEADER_LENGTH + n then None
              else Some (UESIM_SUCCESS, Some (m1\<lparr>msg_data := Some (Raw (take n (drop RRC_HEADER_LENGTH d)))\<rparr>))))"

section \<open>Sending\<close>

text \<open>
  \<^verbatim>\<open>send_ngap_message\<close> of \<^verbatim>\<open>src/transport/socket_mgr.c\<close>. \<open>Sent k\<close> is \<^verbatim>\<open>send\<close> having taken \<open>k\<close> octets; a
  partial send and a full socket buffer count as success.
\<close>

definition send_ngap_message :: "send_result \<Rightarrow> u8 list option \<Rightarrow> nat \<Rightarrow> 'z rrc_sys_scheme option
    \<Rightarrow> uesim_error \<times> 'z rrc_sys_scheme option" where
  "send_ngap_message r data len p = with_ptr p (\<lambda>w. case data of
     None \<Rightarrow> (UESIM_ERROR_INVALID_PARAM, w)
   | Some d \<Rightarrow>
       if len = 0 then (UESIM_ERROR_INVALID_PARAM, w)
       else if ngap_socket (ue w) < 0 then (UESIM_ERROR_SOCKET, w)
       else case r of
         Sent k \<Rightarrow> (UESIM_SUCCESS, w\<lparr>sent := sent w @ [(ngap_socket (ue w), take k (take len d))]\<rparr>)
       | Would_Block \<Rightarrow> (UESIM_SUCCESS, w)
       | Send_Failed \<Rightarrow> (UESIM_ERROR_SOCKET, w))"

definition rrc_send_message :: "rrc_env \<Rightarrow> rrc_message option \<Rightarrow> 'z rrc_sys_scheme option
    \<Rightarrow> (uesim_error \<times> 'z rrc_sys_scheme option) option" where
  "rrc_send_message e msg p = (if p = None \<or> msg = None then Some (UESIM_ERROR_INVALID_PARAM, p)
     else map_option (\<lambda>res. case res of Inl r \<Rightarrow> (r, p)
       | Inr (d, len) \<Rightarrow> send_ngap_message (ev_send e) (Some d) len p)
       (rrc_encode_message (ev_os e) (ev_rand e) (ev_mem e) msg True True))"

text \<open>The counter of transactions is shared by all UEs and wraps around.\<close>

definition next_transaction :: "'z rrc_sys_scheme \<Rightarrow> u32 \<times> 'z rrc_sys_scheme" where
  "next_transaction w = (g_transaction_id_counter w,
     w\<lparr>g_transaction_id_counter := g_transaction_id_counter w + 1\<rparr>)"

text \<open>The transaction of a received message: the first octet of its data.\<close>

definition response_tid :: "rrc_message \<Rightarrow> u8 option" where
  "response_tid m = (case msg_data m of None \<Rightarrow> Some 0 | Some (Raw (b # _)) \<Rightarrow> Some b | _ \<Rightarrow> None)"

definition rrc_send_setup_complete :: "rrc_env \<Rightarrow> rrc_message option \<Rightarrow> 'z rrc_sys_scheme option
    \<Rightarrow> (uesim_error \<times> 'z rrc_sys_scheme option) option" where
  "rrc_send_setup_complete e msg p = (case p of None \<Rightarrow> Some (UESIM_ERROR_INVALID_PARAM, p) | Some w \<Rightarrow>
     case msg of None \<Rightarrow> Some (UESIM_ERROR_INVALID_PARAM, p) | Some m \<Rightarrow> do {
       t \<leftarrow> response_tid m;
       let (i, w) = next_transaction w;
       if \<not> alloc_ok (ev_os e) 0 then Some (UESIM_ERROR_MEMORY, Some w)
       else rrc_send_message (after_env 1 0 0 e) (Some \<lparr>message_type = RRC_MESSAGE_TYPE_SETUP_COMPLETE,
         message_id = i, transaction_id = ucast t, data_length = 1040,
         msg_data = Some (Setup_Complete_Data t 1 [])\<rparr>) (Some w) })"

text \<open>The answers without data.\<close>

definition send_plain :: "rrc_message_type \<Rightarrow> rrc_env \<Rightarrow> rrc_message option \<Rightarrow> 'z rrc_sys_scheme option
    \<Rightarrow> (uesim_error \<times> 'z rrc_sys_scheme option) option" where
  "send_plain ty e msg p = (case p of None \<Rightarrow> Some (UESIM_ERROR_INVALID_PARAM, p) | Some w \<Rightarrow>
     case msg of None \<Rightarrow> Some (UESIM_ERROR_INVALID_PARAM, p) | Some m \<Rightarrow> do {
       t \<leftarrow> response_tid m;
       let (i, w) = next_transaction w;
       rrc_send_message e (Some \<lparr>message_type = ty, message_id = i, transaction_id = ucast t,
         data_length = 0, msg_data = None\<rparr>) (Some w) })"

definition rrc_send_reest_complete :: "rrc_env \<Rightarrow> rrc_message option \<Rightarrow> 'z rrc_sys_scheme option
    \<Rightarrow> (uesim_error \<times> 'z rrc_sys_scheme option) option" where
  "rrc_send_reest_complete = send_plain RRC_MESSAGE_TYPE_REESTABLISHMENT_COMPLETE"

definition rrc_send_reconfig_complete :: "rrc_env \<Rightarrow> rrc_message option \<Rightarrow> 'z rrc_sys_scheme option
    \<Rightarrow> (uesim_error \<times> 'z rrc_sys_scheme option) option" where
  "rrc_send_reconfig_complete = send_plain RRC_MESSAGE_TYPE_RECONFIGURATION_COMPLETE"

definition rrc_send_handover_confirm :: "rrc_env \<Rightarrow> rrc_message option \<Rightarrow> 'z rrc_sys_scheme option
    \<Rightarrow> (uesim_error \<times> 'z rrc_sys_scheme option) option" where
  "rrc_send_handover_confirm = send_plain RRC_MESSAGE_TYPE_HANDOVER_CONFIRMATION"

definition rrc_send_capability_info :: "rrc_env \<Rightarrow> 'z rrc_sys_scheme option
    \<Rightarrow> (uesim_error \<times> 'z rrc_sys_scheme option) option" where
  "rrc_send_capability_info e p = (case p of None \<Rightarrow> Some (UESIM_ERROR_INVALID_PARAM, p) | Some w \<Rightarrow>
     let (i, w) = next_transaction w in
       if \<not> alloc_ok (ev_os e) 0 then Some (UESIM_ERROR_MEMORY, Some w)
       else rrc_send_message (after_env 1 0 0 e) (Some \<lparr>message_type = RRC_MESSAGE_TYPE_UE_CAPABILITY_INFORMATION,
         message_id = i, transaction_id = i, data_length = 1040, msg_data = Some (Ue_Cap_Data 0 [])\<rparr>) (Some w))"

section \<open>Handlers\<close>

text \<open>A handler needs a message with data; then it answers and, with success, goes on.\<close>

definition with_response :: "rrc_message option \<Rightarrow> 'z rrc_sys_scheme option
    \<Rightarrow> (rrc_message \<Rightarrow> 'z rrc_sys_scheme \<Rightarrow> (uesim_error \<times> 'z rrc_sys_scheme option) option)
    \<Rightarrow> (uesim_error \<times> 'z rrc_sys_scheme option) option" where
  "with_response msg p f = (case p of None \<Rightarrow> Some (UESIM_ERROR_INVALID_PARAM, p) | Some w \<Rightarrow>
     case msg of None \<Rightarrow> Some (UESIM_ERROR_INVALID_PARAM, p) | Some m \<Rightarrow>
     if msg_data m = None then Some (UESIM_ERROR_PROTOCOL, p) else f m w)"

definition on_success :: "(uesim_error \<times> 'z rrc_sys_scheme option) option
    \<Rightarrow> ('z rrc_sys_scheme option \<Rightarrow> uesim_error \<times> 'z rrc_sys_scheme option)
    \<Rightarrow> (uesim_error \<times> 'z rrc_sys_scheme option) option" where
  "on_success res f = map_option (\<lambda>(r, p). if r \<noteq> UESIM_SUCCESS then (r, p) else f p) res"

definition rrc_handle_setup_response :: "rrc_env \<Rightarrow> rrc_message option \<Rightarrow> 'z rrc_sys_scheme option
    \<Rightarrow> (uesim_error \<times> 'z rrc_sys_scheme option) option" where
  "rrc_handle_setup_response e msg p = with_response msg p (\<lambda>m w.
     on_success (rrc_send_setup_complete e msg p) (rrc_change_state (ev_os e) (ev_now e) (Some RRC_STATE_CONNECTED)))"

definition rrc_handle_reestablishment_response :: "rrc_env \<Rightarrow> rrc_message option \<Rightarrow> 'z rrc_sys_scheme option
    \<Rightarrow> (uesim_error \<times> 'z rrc_sys_scheme option) option" where
  "rrc_handle_reestablishment_response e msg p = with_response msg p (\<lambda>m w.
     on_success (rrc_send_reest_complete e msg p) (rrc_change_state (ev_os e) (ev_now e) (Some RRC_STATE_CONNECTED)))"

definition rrc_handle_reconfiguration_response :: "rrc_env \<Rightarrow> rrc_message option \<Rightarrow> 'z rrc_sys_scheme option
    \<Rightarrow> (uesim_error \<times> 'z rrc_sys_scheme option) option" where
  "rrc_handle_reconfiguration_response e msg p = with_response msg p (\<lambda>m w. rrc_send_reconfig_complete e msg p)"

text \<open>The cell of a handover command is read from octets 2 and 3, whatever the length of the data.\<close>

definition command_pci :: "rrc_message \<Rightarrow> u16 option" where
  "command_pci m = (case msg_data m of Some (Raw d) \<Rightarrow> if length d < 4 then None else Some (le_word (take 2 (drop 2 d)))
     | _ \<Rightarrow> None)"

definition rrc_handle_handover_command :: "rrc_env \<Rightarrow> rrc_message option \<Rightarrow> 'z rrc_sys_scheme option
    \<Rightarrow> (uesim_error \<times> 'z rrc_sys_scheme option) option" where
  "rrc_handle_handover_command e msg p = with_response msg p (\<lambda>m w. do {
     pci \<leftarrow> command_pci m;
     case List.find (\<lambda>b. case b of None \<Rightarrow> False | Some q \<Rightarrow> cell_id (gnb_at w q) = pci) (candidates w) of
       Some (Some a) \<Rightarrow> (case uesim_connect_gnb (ev_os e) (ev_net e) (Some a) p of (r, p1) \<Rightarrow>
         if r \<noteq> UESIM_SUCCESS then Some (r, p1)
         else on_success (rrc_send_handover_confirm e msg p1)
           (uesim_switch_serving_gnb (after_locks 1 (ev_os e)) (Some a)))
     | _ \<Rightarrow> Some (UESIM_ERROR_NOT_FOUND, p) })"

definition rrc_handle_capability_enquiry :: "rrc_env \<Rightarrow> rrc_message option \<Rightarrow> 'z rrc_sys_scheme option
    \<Rightarrow> (uesim_error \<times> 'z rrc_sys_scheme option) option" where
  "rrc_handle_capability_enquiry e msg p = (if p = None \<or> msg = None then Some (UESIM_ERROR_INVALID_PARAM, p)
     else rrc_send_capability_info e p)"

text \<open>Disconnecting the serving gNB, when there is one.\<close>

definition disconnect_serving :: "os \<Rightarrow> 'z gnb_sys_scheme \<Rightarrow> 'z gnb_sys_scheme" where
  "disconnect_serving s w = (case serving_gnb (ue w) of None \<Rightarrow> w
     | Some a \<Rightarrow> the (snd (uesim_disconnect_gnb s (Some a) (Some w))))"

definition rrc_handle_connection_release :: "rrc_env \<Rightarrow> rrc_message option \<Rightarrow> 'z rrc_sys_scheme option
    \<Rightarrow> uesim_error \<times> 'z rrc_sys_scheme option" where
  "rrc_handle_connection_release e msg p = (if p = None \<or> msg = None then (UESIM_ERROR_INVALID_PARAM, p)
     else case rrc_change_state (ev_os e) (ev_now e) (Some RRC_STATE_IDLE) p of (r, p1) \<Rightarrow>
       if r \<noteq> UESIM_SUCCESS then (r, p1)
       else (UESIM_SUCCESS, map_option (disconnect_serving (after_locks 1 (ev_os e))) p1))"

definition rrc_handle_procedure_response :: "rrc_env \<Rightarrow> rrc_message option \<Rightarrow> 'z rrc_sys_scheme option
    \<Rightarrow> (uesim_error \<times> 'z rrc_sys_scheme option) option" where
  "rrc_handle_procedure_response e msg p = (if p = None then Some (UESIM_ERROR_INVALID_PARAM, p)
     else case msg of None \<Rightarrow> Some (UESIM_ERROR_INVALID_PARAM, p) | Some m \<Rightarrow> (case message_type m of
       RRC_MESSAGE_TYPE_SETUP \<Rightarrow> rrc_handle_setup_response e msg p
     | RRC_MESSAGE_TYPE_REESTABLISHMENT \<Rightarrow> rrc_handle_reestablishment_response e msg p
     | RRC_MESSAGE_TYPE_RECONFIGURATION \<Rightarrow> rrc_handle_reconfiguration_response e msg p
     | RRC_MESSAGE_TYPE_HANDOVER_COMMAND \<Rightarrow> rrc_handle_handover_command e msg p
     | RRC_MESSAGE_TYPE_UE_CAPABILITY_ENQUIRY \<Rightarrow> rrc_handle_capability_enquiry e msg p
     | RRC_MESSAGE_TYPE_CONNECTION_RELEASE \<Rightarrow> Some (rrc_handle_connection_release e msg p)
     | _ \<Rightarrow> Some (UESIM_ERROR_PROTOCOL, p)))"

definition rrc_receive_message :: "rrc_env \<Rightarrow> rrc_message option \<Rightarrow> 'z rrc_sys_scheme option
    \<Rightarrow> (uesim_error \<times> 'z rrc_sys_scheme option) option" where
  "rrc_receive_message e msg p = (if p = None \<or> msg = None then Some (UESIM_ERROR_INVALID_PARAM, p)
     else rrc_handle_procedure_response e msg p)"

definition zero_message :: rrc_message where
  "zero_message = \<lparr>message_type = RRC_MESSAGE_TYPE_SETUP_REQUEST, message_id = 0, transaction_id = 0,
     data_length = 0, msg_data = None\<rparr>"

text \<open>The allocation for the data of the message is the first of the call.\<close>

definition rrc_process_incoming_message :: "rrc_env \<Rightarrow> u8 list option \<Rightarrow> 'z rrc_sys_scheme option
    \<Rightarrow> (uesim_error \<times> 'z rrc_sys_scheme option) option" where
  "rrc_process_incoming_message e data p =
     (if p = None \<or> data = None \<or> data = Some [] then Some (UESIM_ERROR_INVALID_PARAM, p)
      else do {
        (r, m) \<leftarrow> rrc_decode_message (ev_os e) data (Some zero_message);
        if r \<noteq> UESIM_SUCCESS then Some (r, p) else rrc_receive_message (after_env 1 0 0 e) m p })"

section \<open>Procedure contexts\<close>

definition rrc_get_procedure_timeout :: "rrc_procedure \<Rightarrow> u32" where
  "rrc_get_procedure_timeout k = (case k of RRC_PROC_REESTABLISHMENT \<Rightarrow> RRC_T301_MS
     | RRC_PROC_HANDOVER \<Rightarrow> RRC_T304_MS | _ \<Rightarrow> RRC_T300_MS)"

text \<open>\<open>None\<close> is \<^verbatim>\<open>RRC_MESSAGE_TYPE_MAX\<close>.\<close>

definition rrc_get_expected_response :: "rrc_procedure \<Rightarrow> rrc_message_type option" where
  "rrc_get_expected_response k = (case k of RRC_PROC_REGISTRATION \<Rightarrow> Some RRC_MESSAGE_TYPE_SETUP
     | RRC_PROC_ESTABLISHMENT \<Rightarrow> Some RRC_MESSAGE_TYPE_SETUP
     | RRC_PROC_REESTABLISHMENT \<Rightarrow> Some RRC_MESSAGE_TYPE_REESTABLISHMENT
     | RRC_PROC_HANDOVER \<Rightarrow> Some RRC_MESSAGE_TYPE_HANDOVER_COMMAND | RRC_PROC_MAX \<Rightarrow> None)"

definition rrc_start_procedure :: "os \<Rightarrow> int \<Rightarrow> rrc_procedure \<Rightarrow> bool \<Rightarrow> 'z rrc_sys_scheme option
    \<Rightarrow> (uesim_error + rrc_procedure_context) \<times> 'z rrc_sys_scheme option" where
  "rrc_start_procedure s now k out p = with_obj p (\<lambda>w.
     if \<not> out then (Inl UESIM_ERROR_INVALID_PARAM, w)
     else if \<not> alloc_ok s 0 then (Inl UESIM_ERROR_MEMORY, w)
     else let (i, w) = next_transaction w in
       if \<not> init_ok s 0 \<or> \<not> init_ok s 1 then (Inl UESIM_ERROR_THREAD, w)
       else (Inr \<lparr>pc_type = k, pc_transaction_id = i, pc_start_time = now, pc_retry_count = 0,
         pc_timeout_ms = rrc_get_procedure_timeout k, pc_status = RRC_PROC_STATUS_ONGOING,
         pc_error_cause = RRC_CAUSE_SUCCESS, pc_completed = False, pc_success = False, pc_data = None\<rparr>, w))"

definition rrc_abort_procedure :: "'z rrc_sys_scheme option \<Rightarrow> rrc_procedure_context option
    \<Rightarrow> uesim_error \<times> rrc_procedure_context option" where
  "rrc_abort_procedure p q = (if p = None then (UESIM_ERROR_INVALID_PARAM, q)
     else with_ptr q (\<lambda>c. (UESIM_SUCCESS, c\<lparr>pc_status := RRC_PROC_STATUS_FAILED,
       pc_error_cause := RRC_CAUSE_NETWORK_FAILURE, pc_completed := True\<rparr>)))"

text \<open>
  The returns of \<^verbatim>\<open>pthread_cond_timedwait\<close> before the deadline: a wake-up, after another thread has
  aborted the procedure or not, or an error. After the last of them the deadline has passed.
\<close>

datatype proc_wake = Proc_Woken bool | Proc_Error

fun wait_loop :: "'z rrc_sys_scheme option \<Rightarrow> proc_wake list \<Rightarrow> rrc_procedure_context
    \<Rightarrow> uesim_error \<times> rrc_procedure_context" where
  "wait_loop p ws c = (if pc_completed c then (UESIM_SUCCESS, c) else case ws of
     [] \<Rightarrow> (UESIM_ERROR_TIMEOUT, c\<lparr>pc_status := RRC_PROC_STATUS_TIMEOUT, pc_error_cause := RRC_CAUSE_TIMEOUT\<rparr>)
   | Proc_Woken abort # ws' \<Rightarrow> wait_loop p ws' (if abort then the (snd (rrc_abort_procedure p (Some c))) else c)
   | Proc_Error # ws' \<Rightarrow> (UESIM_ERROR_THREAD, c))"

declare wait_loop.simps [simp del]

text \<open>The time waited: the given one, or that of the procedure when it is 0.\<close>

definition wait_time :: "rrc_procedure_context \<Rightarrow> u32 \<Rightarrow> u32" where
  "wait_time c t = (if 0 < t then t else pc_timeout_ms c)"

definition rrc_wait_procedure_complete :: "bool \<Rightarrow> proc_wake list \<Rightarrow> 'z rrc_sys_scheme option
    \<Rightarrow> rrc_procedure_context option \<Rightarrow> uesim_error \<times> rrc_procedure_context option" where
  "rrc_wait_procedure_complete lock ws p q = (if p = None then (UESIM_ERROR_INVALID_PARAM, q)
     else with_ptr q (\<lambda>c. if \<not> lock then (UESIM_ERROR_THREAD, c) else wait_loop p ws c))"

definition rrc_fallback_to_idle :: "rrc_env \<Rightarrow> 'z rrc_sys_scheme option \<Rightarrow> uesim_error \<times> 'z rrc_sys_scheme option" where
  "rrc_fallback_to_idle e p = (case p of None \<Rightarrow> (UESIM_ERROR_INVALID_PARAM, p) | Some w \<Rightarrow>
     rrc_change_state (after_locks (if serving_gnb (ue w) = None then 0 else 1) (ev_os e)) (ev_now e)
       (Some RRC_STATE_IDLE) (Some (disconnect_serving (ev_os e) w)))"

definition rrc_handle_procedure_failure :: "rrc_env \<Rightarrow> rrc_error_cause \<Rightarrow> rrc_procedure_context option
    \<Rightarrow> 'z rrc_sys_scheme option \<Rightarrow> uesim_error \<times> rrc_procedure_context option \<times> 'z rrc_sys_scheme option" where
  "rrc_handle_procedure_failure e cause q p = (if p = None then (UESIM_ERROR_INVALID_PARAM, q, p)
     else case q of None \<Rightarrow> (UESIM_ERROR_INVALID_PARAM, q, p) | Some c \<Rightarrow> let
       q' = Some (c\<lparr>pc_status := RRC_PROC_STATUS_FAILED, pc_error_cause := cause,
         pc_completed := True, pc_success := False\<rparr>)
       in if cause = RRC_CAUSE_MAX_RETRIES \<or> cause = RRC_CAUSE_RADIO_LINK_FAILURE
         then (case rrc_fallback_to_idle e p of (r, p') \<Rightarrow> (r, q', p'))
         else (UESIM_SUCCESS, q', p))"

section \<open>Procedures\<close>

text \<open>
  One attempt: the sending, whether the mutex of the procedure could be locked, the returns of the wait,
  and the messages that the thread of the sockets processes meanwhile.
\<close>

record rrc_attempt =
  at_env :: rrc_env
  at_lock :: bool
  at_wakes :: "proc_wake list"
  at_incoming :: "(rrc_env \<times> u8 list) list"

primrec process_all :: "(rrc_env \<times> u8 list) list \<Rightarrow> 'z rrc_sys_scheme \<Rightarrow> 'z rrc_sys_scheme option" where
  "process_all [] w = Some w"
| "process_all (m # ms) w = do {
     (r, p) \<leftarrow> rrc_process_incoming_message (fst m) (Some (snd m)) (Some w);
     process_all ms (the p) }"

text \<open>
  Sending a request and waiting for the response, for the attempts that are left: the result of the last
  one, unless one succeeds.
\<close>

primrec request_loop :: "rrc_attempt list \<Rightarrow> u32 \<Rightarrow> rrc_message \<Rightarrow> uesim_error \<Rightarrow> rrc_procedure_context
    \<Rightarrow> 'z rrc_sys_scheme \<Rightarrow> (uesim_error \<times> rrc_procedure_context \<times> 'z rrc_sys_scheme) option" where
  "request_loop [] k m r c w = Some (r, c, w)"
| "request_loop (a # as) k m r c w = do {
     let c1 = c\<lparr>pc_retry_count := k\<rparr>;
     (r1, p1) \<leftarrow> rrc_send_message (at_env a) (Some m) (Some w);
     if r1 \<noteq> UESIM_SUCCESS then request_loop as (k + 1) m r1 c1 (the p1)
     else do {
       w2 \<leftarrow> process_all (at_incoming a) (the p1);
       let (r2, q2) = rrc_wait_procedure_complete (at_lock a) (at_wakes a) (Some w2) (Some c1);
       if r2 = UESIM_SUCCESS \<and> pc_success (the q2) then Some (r2, the q2, w2)
       else request_loop as (k + 1) m r2 (the q2) w2 } }"

text \<open>What follows the attempts: with a failure, its handling, whose result is not looked at.\<close>

definition conclude :: "rrc_env \<Rightarrow> rrc_error_cause \<Rightarrow> uesim_error \<times> rrc_procedure_context \<times> 'z rrc_sys_scheme
    \<Rightarrow> uesim_error \<times> 'z rrc_sys_scheme option" where
  "conclude e other res = (case res of (r, c, w) \<Rightarrow>
     if r \<noteq> UESIM_SUCCESS \<or> \<not> pc_success c
     then (case rrc_handle_procedure_failure e (if r = UESIM_ERROR_TIMEOUT then RRC_CAUSE_TIMEOUT else other)
         (Some c) (Some w) of (_, _, p') \<Rightarrow> (r, p'))
     else (UESIM_SUCCESS, Some w))"

definition request_message :: "rrc_message_type \<Rightarrow> u32 \<Rightarrow> nat \<Rightarrow> rrc_data \<Rightarrow> rrc_message" where
  "request_message ty i n d = \<lparr>message_type = ty, message_id = i, transaction_id = i, data_length = n, msg_data = Some d\<rparr>"

text \<open>
  Registration. Of \<open>e\<close> the procedure takes two locks and two allocations before the attempts, the rest
  after them; \<open>at\<close> are the attempts.
\<close>

definition rrc_execute_registration :: "rrc_env \<Rightarrow> (nat \<Rightarrow> rrc_attempt) \<Rightarrow> 'z rrc_sys_scheme option
    \<Rightarrow> (uesim_error \<times> 'z rrc_sys_scheme option) option" where
  "rrc_execute_registration e at p = (if p = None then Some (UESIM_ERROR_INVALID_PARAM, p)
     else if rrc_get_current_state (ev_os e) p \<noteq> Some RRC_STATE_IDLE then Some (UESIM_ERROR_PROTOCOL, p)
     else case rrc_start_procedure (ev_os e) (ev_now e) RRC_PROC_REGISTRATION True p of
       (Inl r, p1) \<Rightarrow> Some (r, p1)
     | (Inr c, p1) \<Rightarrow> (case rrc_change_state (after_locks 1 (ev_os e)) (ev_now e) (Some RRC_STATE_CONNECTING) p1 of (r, p2) \<Rightarrow>
         if r \<noteq> UESIM_SUCCESS then Some (r, p2)
         else if \<not> alloc_ok (ev_os e) 1 then Some (UESIM_ERROR_MEMORY, p2)
         else let d = Setup_Request_Data (rand64 (ev_rand e)) 2 in
           map_option (conclude (after_env 2 2 2 e) RRC_CAUSE_MAX_RETRIES)
             (request_loop (map at [0..<RRC_N300_MAX + 1]) 0
               (request_message RRC_MESSAGE_TYPE_SETUP_REQUEST (pc_transaction_id c) 16 d)
               UESIM_ERROR_PROTOCOL (c\<lparr>pc_data := Some d\<rparr>) (the p2))))"

definition rrc_execute_establishment :: "rrc_env \<Rightarrow> (nat \<Rightarrow> rrc_attempt) \<Rightarrow> 'z rrc_sys_scheme option
    \<Rightarrow> (uesim_error \<times> 'z rrc_sys_scheme option) option" where
  "rrc_execute_establishment e at p = (if p = None then Some (UESIM_ERROR_INVALID_PARAM, p)
     else rrc_execute_registration e at p)"

definition rrc_execute_reestablishment :: "rrc_env \<Rightarrow> (nat \<Rightarrow> rrc_attempt) \<Rightarrow> 'z rrc_sys_scheme option
    \<Rightarrow> (uesim_error \<times> 'z rrc_sys_scheme option) option" where
  "rrc_execute_reestablishment e at p = (if p = None then Some (UESIM_ERROR_INVALID_PARAM, p)
     else if rrc_get_current_state (ev_os e) p = Some RRC_STATE_IDLE then Some (UESIM_ERROR_PROTOCOL, p)
     else case rrc_start_procedure (ev_os e) (ev_now e) RRC_PROC_REESTABLISHMENT True p of
       (Inl r, p1) \<Rightarrow> Some (r, p1)
     | (Inr c, p1) \<Rightarrow> (case rrc_change_state (after_locks 1 (ev_os e)) (ev_now e) (Some RRC_STATE_CONNECTING) p1 of (r, p2) \<Rightarrow>
         if r \<noteq> UESIM_SUCCESS then Some (r, p2)
         else if \<not> alloc_ok (ev_os e) 1 then Some (UESIM_ERROR_MEMORY, p2)
         else let w = the p2;
                d = Reest_Request_Data 0 (case serving_gnb (ue w) of None \<Rightarrow> 0 | Some a \<Rightarrow> cell_id (gnb_at w a))
                  (word_of_nat (ev_rand e 0) AND 0xFFFF) in
           map_option (conclude (after_env 2 2 1 e) RRC_CAUSE_MAX_RETRIES)
             (request_loop (map at [0..<RRC_N311_MAX + 1]) 0
               (request_message RRC_MESSAGE_TYPE_REESTABLISHMENT_REQUEST (pc_transaction_id c) 12 d)
               UESIM_ERROR_PROTOCOL (c\<lparr>pc_data := Some d\<rparr>) w)))"

text \<open>
  Handover: one request. The candidate is chosen as in the core's procedure; the allocation for the
  data is the second.
\<close>

definition rrc_execute_handover :: "rrc_env \<Rightarrow> rrc_attempt \<Rightarrow> 'z rrc_sys_scheme option
    \<Rightarrow> (uesim_error \<times> 'z rrc_sys_scheme option) option" where
  "rrc_execute_handover e a p = (case p of None \<Rightarrow> Some (UESIM_ERROR_INVALID_PARAM, p) | Some w \<Rightarrow>
     if rrc_get_current_state (ev_os e) p \<noteq> Some RRC_STATE_CONNECTED then Some (UESIM_ERROR_PROTOCOL, p)
     else if num_candidate_gnbs (ue w) = 0 then Some (UESIM_ERROR_NOT_FOUND, p)
     else case rrc_start_procedure (ev_os e) (ev_now e) RRC_PROC_HANDOVER True p of
       (Inl r, p1) \<Rightarrow> Some (r, p1)
     | (Inr c, p1) \<Rightarrow> (case best_candidate (the p1) of
         (None, _) \<Rightarrow> Some (UESIM_ERROR_NOT_FOUND, p1)
       | (Some b, pwr) \<Rightarrow>
           if \<not> alloc_ok (ev_os e) 1 then Some (UESIM_ERROR_MEMORY, p1)
           else let g = gnb_at (the p1) b;
                  d = Meas_Report_Data 1 pwr (rsrq g) (cell_id g) (gnb_id g);
                  m = request_message RRC_MESSAGE_TYPE_HANDOVER_PREPARATION (pc_transaction_id c) 20 d
             in do {
               (r, p2) \<leftarrow> rrc_send_message (at_env a) (Some m) p1;
               if r \<noteq> UESIM_SUCCESS then Some (r, p2)
               else do {
                 w3 \<leftarrow> process_all (at_incoming a) (the p2);
                 let (r3, q3) = rrc_wait_procedure_complete (at_lock a) (at_wakes a) (Some w3) (Some (c\<lparr>pc_data := Some d\<rparr>));
                 Some (conclude (after_env 2 1 0 e) RRC_CAUSE_HANDOVER_FAILED (r3, the q3, w3)) } }))"

definition rrc_execute_reconfiguration :: "rrc_env \<Rightarrow> 'z rrc_sys_scheme option \<Rightarrow> uesim_error" where
  "rrc_execute_reconfiguration e p = (if p = None then UESIM_ERROR_INVALID_PARAM
     else if rrc_get_current_state (ev_os e) p \<noteq> Some RRC_STATE_CONNECTED then UESIM_ERROR_PROTOCOL
     else UESIM_SUCCESS)"

definition rrc_execute_measurement_report :: "rrc_env \<Rightarrow> 'z rrc_sys_scheme option
    \<Rightarrow> (uesim_error \<times> 'z rrc_sys_scheme option) option" where
  "rrc_execute_measurement_report e p = (case p of None \<Rightarrow> Some (UESIM_ERROR_INVALID_PARAM, p) | Some w \<Rightarrow>
     if rrc_get_current_state (ev_os e) p \<noteq> Some RRC_STATE_CONNECTED then Some (UESIM_ERROR_PROTOCOL, p)
     else let (i, w) = next_transaction w in
       if \<not> alloc_ok (ev_os e) 0 then Some (UESIM_ERROR_MEMORY, Some w)
       else rrc_send_message (after_env 1 1 0 e) (Some (request_message RRC_MESSAGE_TYPE_MEASUREMENT_REPORT i 20
         (case serving_gnb (ue w) of None \<Rightarrow> Meas_Report_Data 1 (-100) (-10) 0 0
          | Some a \<Rightarrow> Meas_Report_Data 1 (rsrp (gnb_at w a)) (rsrq (gnb_at w a)) (cell_id (gnb_at w a)) (gnb_id (gnb_at w a)))))
         (Some w))"

definition rrc_execute_capability_transfer :: "'z rrc_sys_scheme option \<Rightarrow> uesim_error" where
  "rrc_execute_capability_transfer p = (if p = None then UESIM_ERROR_INVALID_PARAM else UESIM_SUCCESS)"

definition rrc_execute_procedure :: "rrc_env \<Rightarrow> (nat \<Rightarrow> rrc_attempt) \<Rightarrow> rrc_procedure \<Rightarrow> 'z rrc_sys_scheme option
    \<Rightarrow> (uesim_error \<times> 'z rrc_sys_scheme option) option" where
  "rrc_execute_procedure e at k p = (if p = None then Some (UESIM_ERROR_INVALID_PARAM, p) else case k of
     RRC_PROC_REGISTRATION \<Rightarrow> rrc_execute_registration e at p
   | RRC_PROC_ESTABLISHMENT \<Rightarrow> rrc_execute_establishment e at p
   | RRC_PROC_REESTABLISHMENT \<Rightarrow> rrc_execute_reestablishment e at p
   | RRC_PROC_HANDOVER \<Rightarrow> rrc_execute_handover e (at 0) p
   | RRC_PROC_MAX \<Rightarrow> Some (UESIM_ERROR_INVALID_PARAM, p))"

definition rrc_retry_procedure :: "rrc_env \<Rightarrow> (nat \<Rightarrow> rrc_attempt) \<Rightarrow> rrc_procedure_context option
    \<Rightarrow> 'z rrc_sys_scheme option \<Rightarrow> (uesim_error \<times> rrc_procedure_context option \<times> 'z rrc_sys_scheme option) option" where
  "rrc_retry_procedure e at q p = (if p = None then Some (UESIM_ERROR_INVALID_PARAM, q, p)
     else case q of None \<Rightarrow> Some (UESIM_ERROR_INVALID_PARAM, q, p)
     | Some c \<Rightarrow> map_option (\<lambda>(r, p'). (r, Some (c\<lparr>pc_retry_count := pc_retry_count c + 1, pc_status := RRC_PROC_STATUS_RETRY\<rparr>), p'))
         (rrc_execute_procedure e at (pc_type c) p))"

section \<open>Names\<close>

fun rrc_state_to_string :: "rrc_state option \<Rightarrow> string" where
  "rrc_state_to_string (Some RRC_STATE_IDLE) = ''IDLE''"
| "rrc_state_to_string (Some RRC_STATE_CONNECTED) = ''CONNECTED''"
| "rrc_state_to_string (Some RRC_STATE_INACTIVE) = ''INACTIVE''"
| "rrc_state_to_string (Some RRC_STATE_CONNECTING) = ''CONNECTING''"
| "rrc_state_to_string None = ''UNKNOWN''"

fun rrc_procedure_to_string :: "rrc_procedure \<Rightarrow> string" where
  "rrc_procedure_to_string RRC_PROC_REGISTRATION = ''Registration''"
| "rrc_procedure_to_string RRC_PROC_ESTABLISHMENT = ''Establishment''"
| "rrc_procedure_to_string RRC_PROC_REESTABLISHMENT = ''Reestablishment''"
| "rrc_procedure_to_string RRC_PROC_HANDOVER = ''Handover''"
| "rrc_procedure_to_string RRC_PROC_MAX = ''Unknown''"

end
