(* ===== verification/Rrc_Proofs.thy ===== *)
theory Rrc_Proofs
  imports Rrc Gnb_Proofs Asn1_Proofs
begin

text \<open>
  The RRC layer: what its decoder makes of the octets its encoder produces, how its procedures end, and
  which states it reaches.
\<close>

section \<open>Octets\<close>

text \<open>The messages as the layer builds them for sending.\<close>

inductive layer_data :: "rrc_message_type \<Rightarrow> rrc_data option \<Rightarrow> bool" where
  "layer_data RRC_MESSAGE_TYPE_SETUP_REQUEST (Some (Setup_Request_Data i c))"
| "layer_data RRC_MESSAGE_TYPE_SETUP_COMPLETE (Some (Setup_Complete_Data t pl []))"
| "layer_data RRC_MESSAGE_TYPE_REESTABLISHMENT_REQUEST (Some (Reest_Request_Data c pci rnti))"
| "layer_data RRC_MESSAGE_TYPE_REESTABLISHMENT_COMPLETE None"
| "layer_data RRC_MESSAGE_TYPE_RECONFIGURATION_COMPLETE None"
| "layer_data RRC_MESSAGE_TYPE_HANDOVER_CONFIRMATION None"
| "layer_data RRC_MESSAGE_TYPE_HANDOVER_PREPARATION (Some (Meas_Report_Data i p q pci cell))"
| "layer_data RRC_MESSAGE_TYPE_MEASUREMENT_REPORT (Some (Meas_Report_Data i p q pci cell))"
| "layer_data RRC_MESSAGE_TYPE_UE_CAPABILITY_INFORMATION (Some (Ue_Cap_Data t []))"

declare layer_data.intros [simp, intro]

definition layer_message :: "rrc_message \<Rightarrow> bool" where
  "layer_message m \<longleftrightarrow> layer_data (message_type m) (msg_data m)"

text \<open>An encoder has used between one and twelve octets of its block.\<close>

definition short_result :: "(uesim_error \<times> asn1_buffer option) option \<Rightarrow> bool" where
  "short_result x \<longleftrightarrow> (\<exists>b. x = Some (UESIM_SUCCESS, Some b) \<and> 1 \<le> asn1_buffer_length (Some b) \<and>
     asn1_buffer_length (Some b) \<le> 12 \<and> length (ab_data b) = 256)"

definition block :: "u8 list \<Rightarrow> asn1_buffer" where
  "block mem = \<lparr>ab_data = mem, ab_size = 0, ab_capacity = 256, ab_offset = 0, own_data = True\<rparr>"

lemma emit_clear_length:
  assumes "length mem = 256" and "sum_list (map snd fs) \<le> 96"
  shows "ab_offset (emit fs (clear_buffer (block mem))) = sum_list (map snd fs)"
    and "length (ab_data (emit fs (clear_buffer (block mem)))) = 256"
    and "ab_capacity (emit fs (clear_buffer (block mem))) = 256"
    and "fs \<noteq> [] \<Longrightarrow> ab_size (emit fs (clear_buffer (block mem))) = (sum_list (map snd fs) + 7) div 8"
    and "buf_ok (emit fs (clear_buffer (block mem)))"
  using emit_ok [of "clear_buffer (block mem)" fs] clear_buffer_ok [of "block mem"] assms
  by (simp_all add: block_def)

lemma fields_short:
  assumes "length mem = 256" and "sum_list (map snd (fs m)) \<le> 96" and "1 \<le> sum_list (map snd (fs m))"
  shows "short_result (Some (message (Some m) (\<lambda>m. emit (fs m)) (Some (block mem))))"
proof -
  have "1 \<le> (sum_list (map snd (fs m)) + 7) div 8 \<and> (sum_list (map snd (fs m)) + 7) div 8 \<le> 12"
    using assms(2,3) by presburger
  then show ?thesis
    using emit_clear_length [OF assms(1,2)] by (simp add: short_result_def message_def asn1_buffer_length_def)
qed

lemma octets_short_result:
  assumes "length mem = 256" and "sum_list (map snd (fs m)) = 8" and "g m = []"
  shows "short_result (Some (message (Some m) (\<lambda>m b. octets (g m) (emit (fs m) b)) (Some (block mem))))"
proof -
  let ?b = "emit (fs m) (clear_buffer (block mem))"
  have fs: "fs m \<noteq> []" using assms(2) by auto
  note e = emit_clear_length [OF assms(1), of "fs m"]
  obtain b' where b': "put_bits 0 8 ?b = (UESIM_SUCCESS, b')" "ab_offset b' = 16" "ab_capacity b' = 256"
      "length (ab_data b') = 256" "ab_size b' = 2"
    using put_bits_ok [of ?b 8 0] e assms(2) by fastforce
  have "octets [] ?b = b'\<lparr>ab_data := blit (ab_data b') 2 [], ab_offset := 16, ab_size := 2\<rparr>"
    using b' by (simp add: octets_def put_octets_def put_length_def put_copy_def)
  then show ?thesis
    using b' assms(3) by (simp add: short_result_def message_def asn1_buffer_length_def)
qed

lemma layer_body_short:
  assumes "layer_message m" and mem: "length mem = 256"
  shows "short_result (encode_message_body r m (Some (block mem)))"
proof -
  note sh = fields_short [OF mem] octets_short_result [OF mem]
  have "layer_data (message_type m) (msg_data m)" using assms(1) by (simp add: layer_message_def)
  then show ?thesis
    by (cases rule: layer_data.cases)
      (auto simp: encode_message_body_def encode_setup_request_data_def encode_setup_complete_data_def
        encode_reest_request_data_def encode_measurement_data_def encode_handover_prep_data_def encode_ue_cap_data_def
        rrc_encode_setup_request_def rrc_encode_setup_complete_def rrc_encode_reest_request_def
        rrc_encode_reest_complete_def rrc_encode_reconfig_complete_def rrc_encode_handover_confirm_def
        rrc_encode_handover_prep_def rrc_encode_measurement_report_def rrc_encode_ue_cap_info_def
        setup_request_fields_def reest_request_fields_def measurement_fields_def enum_field_def
        bits_needed_3 bits_needed_2
        intro!: sh)
qed

lemma layer_encode:
  assumes "layer_message m" and "length mem = 256" and "alloc_ok s 0"
  shows "\<exists>d n. rrc_encode_message s r mem (Some m) True True = Some (Inr (d, n)) \<and> 1 \<le> n \<and> n \<le> 12 \<and> length d = 256"
proof -
  obtain b where b: "encode_message_body r m (Some (block mem)) = Some (UESIM_SUCCESS, Some b)"
    and l: "1 \<le> asn1_buffer_length (Some b)" "asn1_buffer_length (Some b) \<le> 12" "length (ab_data b) = 256"
    using layer_body_short [OF assms(1,2), of r] by (auto simp: short_result_def)
  have "asn1_buffer_alloc s mem 256 (Some no_buffer) = (UESIM_SUCCESS, Some (block mem))"
    using assms(3) by (simp add: asn1_buffer_alloc_def block_def)
  then show ?thesis using b l by (simp add: rrc_encode_message_def)
qed

text \<open>A working environment takes all octets of a message.\<close>

definition good_env :: "rrc_env \<Rightarrow> bool" where
  "good_env e \<longleftrightarrow> ev_os e = good_os \<and> length (ev_mem e) = 256 \<and> ev_send e = Sent 256"

lemma after_allocs_good [simp]: "after_allocs k good_os = good_os"
  by (simp add: after_allocs_def good_os_def)

lemma good_env_after [simp]: "good_env e \<Longrightarrow> good_env (after_env a l r e)"
  by (simp add: good_env_def after_env_def)

lemma layer_send:
  assumes "layer_message m" and "good_env e" and "0 \<le> ngap_socket (ue w)"
  shows "\<exists>x. rrc_send_message e (Some m) (Some w) = Some (UESIM_SUCCESS, Some (w\<lparr>sent := sent w @ [(ngap_socket (ue w), x)]\<rparr>))
    \<and> 1 \<le> length x \<and> length x \<le> 12"
proof -
  obtain d n where "rrc_encode_message (ev_os e) (ev_rand e) (ev_mem e) (Some m) True True = Some (Inr (d, n))"
      and n: "1 \<le> n" "n \<le> 12" "length d = 256"
    using layer_encode [OF assms(1), of "ev_mem e" "ev_os e" "ev_rand e"] assms(2) by (auto simp: good_env_def)
  then have "rrc_send_message e (Some m) (Some w) = Some (UESIM_SUCCESS, Some (w\<lparr>sent := sent w @ [(ngap_socket (ue w), take n d)]\<rparr>))"
    using assms(2,3) by (simp add: rrc_send_message_def send_ngap_message_def good_env_def)
  then show ?thesis using n by auto
qed

text \<open>
  C24. The decoder does not read what the encoder writes: every message the layer builds is encoded in at
  most twelve octets and sent whole, and the layer of another UE, or of a network built on this code,
  refuses these octets as too short for its header, in every state and environment, and changes nothing.
\<close>

theorem rrc_messages_refused:
  assumes "layer_message m" and "good_env e" and "0 \<le> ngap_socket (ue w)"
  shows "\<exists>x w'. rrc_send_message e (Some m) (Some w) = Some (UESIM_SUCCESS, Some w')
    \<and> sent w' = sent w @ [(ngap_socket (ue w), x)] \<and> length x \<le> 12
    \<and> rrc_process_incoming_message e' (Some x) (Some v) = Some (UESIM_ERROR_INVALID_PARAM, Some v)"
proof -
  obtain x where x: "rrc_send_message e (Some m) (Some w) = Some (UESIM_SUCCESS, Some (w\<lparr>sent := sent w @ [(ngap_socket (ue w), x)]\<rparr>))"
      "1 \<le> length x" "length x \<le> 12"
    using layer_send [OF assms] by blast
  then have "rrc_process_incoming_message e' (Some x) (Some v) = Some (UESIM_ERROR_INVALID_PARAM, Some v)"
    by (auto simp: rrc_process_incoming_message_def rrc_decode_message_def RRC_HEADER_LENGTH_def)
  then show ?thesis using x by auto
qed

definition rrc_example :: rrc_sys where
  "rrc_example = gnb_sys.extend (fresh_sys\<lparr>ue := fresh_ue\<lparr>ngap_socket := 3\<rparr>\<rparr>)
     \<lparr>g_transaction_id_counter = 0, sent = []\<rparr>"

definition env_example :: rrc_env where
  "env_example = \<lparr>ev_os = good_os, ev_rand = (\<lambda>_. 0), ev_mem = replicate 256 0, ev_now = 0,
     ev_net = net_ok 3 4, ev_send = Sent 256\<rparr>"

lemma env_example_good: "good_env env_example"
  by (simp add: good_env_def env_example_def)

lemma rrc_messages_refused_witness:
  "\<exists>x w'. rrc_send_message env_example (Some (request_message RRC_MESSAGE_TYPE_SETUP_REQUEST 0 16 (Setup_Request_Data 5 2)))
      (Some rrc_example) = Some (UESIM_SUCCESS, Some w')
    \<and> rrc_process_incoming_message env_example (Some x) (Some rrc_example) = Some (UESIM_ERROR_INVALID_PARAM, Some rrc_example)"
proof -
  have "0 \<le> ngap_socket (ue rrc_example)" by (simp add: rrc_example_def gnb_sys.defs)
  moreover have "layer_message (request_message RRC_MESSAGE_TYPE_SETUP_REQUEST 0 16 (Setup_Request_Data 5 2))"
    by (simp add: layer_message_def request_message_def)
  ultimately show ?thesis
    using rrc_messages_refused [OF _ env_example_good, of _ rrc_example env_example rrc_example] by blast
qed

section \<open>How procedures end\<close>

text \<open>The wait for a procedure that no other thread aborts never succeeds.\<close>

lemma wait_not_completed:
  assumes "\<not> pc_completed c" and "Proc_Woken True \<notin> set ws" and "wait_loop p ws c = (r, c')"
  shows "r \<noteq> UESIM_SUCCESS \<and> \<not> pc_completed c' \<and> (pc_success c' \<longleftrightarrow> pc_success c)"
  using assms
proof (induction ws arbitrary: c)
  case Nil
  then show ?case by (auto simp: wait_loop.simps [of p "[]" c])
next
  case (Cons x ws)
  then show ?case
    by (cases x) (auto simp: wait_loop.simps [of p "_ # _" c])
qed

lemma procedure_wait_fails:
  assumes "\<not> pc_completed c" and "Proc_Woken True \<notin> set ws"
    and "rrc_wait_procedure_complete l ws p (Some c) = (r, q)"
  shows "r \<noteq> UESIM_SUCCESS \<and> \<not> pc_completed (the q) \<and> (pc_success (the q) \<longleftrightarrow> pc_success c)"
  using assms wait_not_completed [OF assms(1,2)]
  by (auto simp: rrc_wait_procedure_complete_def split: if_splits prod.splits)

lemma request_loop_fails:
  assumes "\<forall>a \<in> set as. Proc_Woken True \<notin> set (at_wakes a)" and "r \<noteq> UESIM_SUCCESS" and "\<not> pc_completed c"
    and "request_loop as k m r c w = Some (r', c', w')"
  shows "r' \<noteq> UESIM_SUCCESS"
  using assms
proof (induction as arbitrary: k r c w)
  case (Cons a as)
  let ?c = "c\<lparr>pc_retry_count := k\<rparr>"
  obtain r1 p1 where s: "rrc_send_message (at_env a) (Some m) (Some w) = Some (r1, p1)"
    using Cons.prems(4) by (cases "rrc_send_message (at_env a) (Some m) (Some w)") auto
  show ?case
  proof (cases "r1 = UESIM_SUCCESS")
    case False
    then show ?thesis using Cons.IH [of r1 ?c "k + 1" "the p1"] Cons.prems s by simp
  next
    case True
    obtain w2 where w2: "process_all (at_incoming a) (the p1) = Some w2"
      using Cons.prems(4) s True by (cases "process_all (at_incoming a) (the p1)") auto
    obtain r2 q2 where q2: "rrc_wait_procedure_complete (at_lock a) (at_wakes a) (Some w2) (Some ?c) = (r2, q2)"
      by fastforce
    have f: "r2 \<noteq> UESIM_SUCCESS" "\<not> pc_completed (the q2)"
      using procedure_wait_fails [OF _ _ q2] Cons.prems(1,3) by auto
    then show ?thesis
      using Cons.IH [of r2 "the q2" "k + 1" w2] Cons.prems s True w2 q2 by simp
  qed
qed auto

lemma conclude_result: "conclude e cause (r, c, w) = (r', p) \<Longrightarrow> r \<noteq> UESIM_SUCCESS \<Longrightarrow> r' \<noteq> UESIM_SUCCESS"
  by (auto simp: conclude_def split: prod.splits if_splits)

lemma started_not_completed:
  "rrc_start_procedure s now k out p = (Inr c, p1) \<Longrightarrow> \<not> pc_completed c \<and> \<not> pc_success c"
  by (cases p) (auto simp: rrc_start_procedure_def next_transaction_def Let_def split: if_splits)

lemma not_started: "rrc_start_procedure s now k out p = (Inl r, p1) \<Longrightarrow> r \<noteq> UESIM_SUCCESS"
  by (cases p) (auto simp: rrc_start_procedure_def next_transaction_def Let_def split: if_splits)

lemma registration_fails:
  assumes "\<forall>k < 4. Proc_Woken True \<notin> set (at_wakes (at k))" and "rrc_execute_registration e at p = Some (r, p')"
  shows "r \<noteq> UESIM_SUCCESS"
proof
  assume "r = UESIM_SUCCESS"
  have "\<forall>a \<in> set (map at [0..<Suc RRC_N300_MAX]). Proc_Woken True \<notin> set (at_wakes a)"
    using assms(1) by (auto simp: RRC_N300_MAX_def)
  note loop = request_loop_fails [OF this, of UESIM_ERROR_PROTOCOL, rotated 2]
  show False
    using assms(2) \<open>r = UESIM_SUCCESS\<close>
    by (auto simp: rrc_execute_registration_def Let_def simp del: upt_Suc split: if_splits prod.splits sum.splits
        dest!: started_not_completed dest: loop conclude_result not_started)
qed

lemma reestablishment_fails:
  assumes "\<forall>k < 4. Proc_Woken True \<notin> set (at_wakes (at k))" and "rrc_execute_reestablishment e at p = Some (r, p')"
  shows "r \<noteq> UESIM_SUCCESS"
proof
  assume "r = UESIM_SUCCESS"
  have "\<forall>a \<in> set (map at [0..<Suc RRC_N311_MAX]). Proc_Woken True \<notin> set (at_wakes a)"
    using assms(1) by (auto simp: RRC_N311_MAX_def)
  note loop = request_loop_fails [OF this, of UESIM_ERROR_PROTOCOL, rotated 2]
  show False
    using assms(2) \<open>r = UESIM_SUCCESS\<close>
    by (auto simp: rrc_execute_reestablishment_def Let_def simp del: upt_Suc split: if_splits prod.splits sum.splits
        dest!: started_not_completed dest: loop conclude_result not_started)
qed

lemma handover_fails:
  assumes "Proc_Woken True \<notin> set (at_wakes a)" and "rrc_execute_handover e a p = Some (r, p')"
  shows "r \<noteq> UESIM_SUCCESS"
proof
  assume "r = UESIM_SUCCESS"
  then show False
    using assms
    by (auto simp: rrc_execute_handover_def Let_def conclude_def
        split: option.splits if_splits prod.splits sum.splits Option.bind_splits
        dest!: started_not_completed dest: procedure_wait_fails [rotated 2] not_started)
qed

section \<open>The states that are reached\<close>

text \<open>
  No handler and no procedure makes a UE inactive: the operations below leave the state alone or change it
  to one of the others.
\<close>

definition awake :: "'z gnb_sys_scheme option \<Rightarrow> bool" where
  "awake p \<longleftrightarrow> (case p of None \<Rightarrow> False | Some w \<Rightarrow> current_state (ue w) \<noteq> RRC_STATE_INACTIVE)"

lemma awake_simps [simp]: "\<not> awake None" "awake (Some w) \<longleftrightarrow> current_state (ue w) \<noteq> RRC_STATE_INACTIVE"
  by (simp_all add: awake_def)

lemma change_awake:
  "rrc_change_state s now (Some st) p = (r, p') \<Longrightarrow> st \<noteq> RRC_STATE_INACTIVE \<Longrightarrow> awake p \<Longrightarrow> awake p'"
  by (cases p) (auto simp: rrc_change_state_def locked_def split: if_splits)

lemma connect_awake: "uesim_connect_gnb s n g p = (r, p') \<Longrightarrow> awake p \<Longrightarrow> awake p'"
  by (cases p) (auto simp: uesim_connect_gnb_def locked_def Let_def split: option.splits if_splits prod.splits)

lemma disconnect_awake: "uesim_disconnect_gnb s g p = (r, p') \<Longrightarrow> awake p \<Longrightarrow> awake p'"
  by (cases p) (auto simp: uesim_disconnect_gnb_def locked_def Let_def split: option.splits if_splits)

lemma switch_awake: "uesim_switch_serving_gnb s g p = (r, p') \<Longrightarrow> awake p \<Longrightarrow> awake p'"
  by (cases p) (auto simp: uesim_switch_serving_gnb_def Let_def split: option.splits if_splits)

lemma disconnect_serving_awake:
  assumes "awake (Some w)"
  shows "awake (Some (disconnect_serving s w))"
proof (cases "serving_gnb (ue w)")
  case (Some a)
  obtain r w1 where d: "uesim_disconnect_gnb s (Some a) (Some w) = (r, Some w1)"
    using disconnect_same [of s "Some a" w] by (cases "uesim_disconnect_gnb s (Some a) (Some w)") auto
  show ?thesis using disconnect_awake [OF d assms] d Some by (simp add: disconnect_serving_def)
qed (use assms in \<open>simp add: disconnect_serving_def\<close>)

text \<open>Sending only adds to what was sent.\<close>

lemma ngap_frame: "\<exists>l. send_ngap_message x d n (Some w) = (r, p') \<longrightarrow> p' = Some (w\<lparr>sent := sent w @ l\<rparr>)"
proof -
  have "\<exists>l. snd (send_ngap_message x d n (Some w)) = Some (w\<lparr>sent := sent w @ l\<rparr>)"
    by (cases x; cases d) (auto simp: send_ngap_message_def intro: exI [of _ "[]"])
  then show ?thesis by (metis snd_conv)
qed

lemma send_frame:
  assumes "rrc_send_message e m (Some w) = Some (r, p')"
  shows "\<exists>l. p' = Some (w\<lparr>sent := sent w @ l\<rparr>)"
proof (cases "rrc_encode_message (ev_os e) (ev_rand e) (ev_mem e) m True True")
  case None
  then show ?thesis using assms by (auto simp: rrc_send_message_def intro: exI [of _ "[]"] split: if_splits)
next
  case (Some x)
  then show ?thesis
    using assms ngap_frame [of "ev_send e" "Some (fst (projr x))" "snd (projr x)" w r p']
    by (cases x) (auto simp: rrc_send_message_def intro: exI [of _ "[]"] split: if_splits prod.splits)
qed

lemma send_awake: "rrc_send_message e m p = Some (r, p') \<Longrightarrow> awake p \<Longrightarrow> awake p' \<and> (p \<noteq> None \<longrightarrow> p' \<noteq> None)"
proof (cases p)
  case (Some w)
  then show "rrc_send_message e m p = Some (r, p') \<Longrightarrow> awake p \<Longrightarrow> awake p' \<and> (p \<noteq> None \<longrightarrow> p' \<noteq> None)"
    by (auto dest: send_frame)
qed (simp add: rrc_send_message_def)

lemma next_transaction_simps [simp]:
  "ue (snd (next_transaction w)) = ue w" "sent (snd (next_transaction w)) = sent w" "gnb_at (snd (next_transaction w)) = gnb_at w"
  by (simp_all add: next_transaction_def)

lemma plain_awake: "send_plain ty e m p = Some (r, p') \<Longrightarrow> awake p \<Longrightarrow> awake p'"
  by (auto simp: send_plain_def next_transaction_def Let_def split: option.splits Option.bind_splits dest!: send_awake)

lemma setup_complete_awake: "rrc_send_setup_complete e m p = Some (r, p') \<Longrightarrow> awake p \<Longrightarrow> awake p'"
  by (auto simp: rrc_send_setup_complete_def next_transaction_def Let_def
      split: option.splits Option.bind_splits if_splits dest!: send_awake)

lemma capability_awake: "rrc_send_capability_info e p = Some (r, p') \<Longrightarrow> awake p \<Longrightarrow> awake p'"
  by (auto simp: rrc_send_capability_info_def next_transaction_def Let_def split: option.splits if_splits dest!: send_awake)

lemmas answers_awake = plain_awake setup_complete_awake capability_awake

lemma with_response_awake:
  "with_response m p f = Some (r, p') \<Longrightarrow> awake p \<Longrightarrow> (\<And>x w r p'. f x w = Some (r, p') \<Longrightarrow> awake p') \<Longrightarrow> awake p'"
  by (auto simp: with_response_def split: option.splits if_splits)

lemma on_success_awake:
  "on_success x f = Some (r, p') \<Longrightarrow> (\<And>r q. x = Some (r, q) \<Longrightarrow> awake q) \<Longrightarrow> (\<And>q r q'. f q = (r, q') \<Longrightarrow> awake q \<Longrightarrow> awake q')
    \<Longrightarrow> awake p'"
  by (cases x) (auto simp: on_success_def split: if_splits)

lemma release_awake: "rrc_handle_connection_release e m p = (r, p') \<Longrightarrow> awake p \<Longrightarrow> awake p'"
proof -
  assume run: "rrc_handle_connection_release e m p = (r, p')" and a: "awake p"
  obtain r1 p1 where c: "rrc_change_state (ev_os e) (ev_now e) (Some RRC_STATE_IDLE) p = (r1, p1)" by fastforce
  have a1: "awake p1" using change_awake [OF c] a by simp
  have "awake (Some (disconnect_serving s w))" if "p1 = Some w" for s w
    using disconnect_serving_awake [of w s] a1 that by simp
  then show "awake p'"
    using run a a1 c by (cases p1) (auto simp: rrc_handle_connection_release_def split: if_splits)
qed

lemma response_awake:
  assumes "rrc_handle_procedure_response e m p = Some (r, p')" and "awake p"
  shows "awake p'"
proof -
  have "awake p'" if "rrc_handle_setup_response e m p = Some (r, p')"
    using that assms(2) unfolding rrc_handle_setup_response_def
    by (elim with_response_awake on_success_awake) (auto dest: setup_complete_awake intro: change_awake)
  moreover have "awake p'" if "rrc_handle_reestablishment_response e m p = Some (r, p')"
    using that assms(2) unfolding rrc_handle_reestablishment_response_def rrc_send_reest_complete_def
    by (elim with_response_awake on_success_awake) (auto dest: plain_awake intro: change_awake)
  moreover have "awake p'" if "rrc_handle_reconfiguration_response e m p = Some (r, p')"
    using that assms(2) unfolding rrc_handle_reconfiguration_response_def rrc_send_reconfig_complete_def
    by (elim with_response_awake) (auto dest: plain_awake)
  moreover have "awake p'" if run: "rrc_handle_handover_command e m p = Some (r, p')"
  proof -
    have keep: "awake p'" if "on_success (rrc_send_handover_confirm e m p1) (uesim_switch_serving_gnb s g) = Some (r, p')"
      and "awake p1" for p1 s g r p'
      using that unfolding rrc_send_handover_confirm_def
      by (elim on_success_awake) (auto dest: plain_awake intro: switch_awake)
    show ?thesis
      using run assms(2) unfolding rrc_handle_handover_command_def
      by (elim with_response_awake)
        (auto split: Option.bind_splits option.splits prod.splits if_splits dest!: connect_awake dest: keep)
  qed
  ultimately show ?thesis
    using assms
    by (auto simp: rrc_handle_procedure_response_def rrc_handle_capability_enquiry_def
        split: if_splits option.splits rrc_message_type.splits dest: capability_awake release_awake)
qed

lemma incoming_awake:
  "rrc_process_incoming_message e d p = Some (r, p') \<Longrightarrow> awake p \<Longrightarrow> awake p'"
  by (auto simp: rrc_process_incoming_message_def rrc_receive_message_def split: if_splits Option.bind_splits
      simp del: awake_simps dest: response_awake)

lemma process_all_awake: "process_all ms w = Some w' \<Longrightarrow> awake (Some w) \<Longrightarrow> awake (Some w')"
proof (induction ms arbitrary: w)
  case (Cons x ms)
  then obtain r p where p: "rrc_process_incoming_message (fst x) (Some (snd x)) (Some w) = Some (r, p)"
      and "process_all ms (the p) = Some w'"
    by (auto split: Option.bind_splits)
  moreover obtain w1 where "p = Some w1" using incoming_awake [OF p] Cons.prems(2) by (cases p) auto
  ultimately show ?case using incoming_awake [OF p] Cons by auto
qed simp

lemma request_loop_awake:
  "request_loop as k m r c w = Some (r', c', w') \<Longrightarrow> awake (Some w) \<Longrightarrow> awake (Some w')"
proof (induction as arbitrary: k r c w)
  case (Cons a as)
  let ?c = "c\<lparr>pc_retry_count := k\<rparr>"
  obtain r1 p1 where s: "rrc_send_message (at_env a) (Some m) (Some w) = Some (r1, p1)"
    using Cons.prems(1) by (cases "rrc_send_message (at_env a) (Some m) (Some w)") auto
  then obtain w1 where w1: "p1 = Some w1" "awake (Some w1)"
    using send_awake [OF s] Cons.prems(2) by auto
  show ?case
  proof (cases "r1 = UESIM_SUCCESS")
    case False
    then show ?thesis using Cons.IH [of "k + 1" r1 ?c w1] Cons.prems s w1 by simp
  next
    case True
    obtain w2 where w2: "process_all (at_incoming a) w1 = Some w2"
      using Cons.prems(1) s True w1 by (cases "process_all (at_incoming a) w1") auto
    then have "awake (Some w2)" using process_all_awake w1 by blast
    moreover obtain r2 q2 where "rrc_wait_procedure_complete (at_lock a) (at_wakes a) (Some w2) (Some ?c) = (r2, q2)"
      by fastforce
    ultimately show ?thesis
      using Cons.IH [of "k + 1" r2 "the q2" w2] Cons.prems s True w1 w2 by (auto split: if_splits)
  qed
qed simp

lemma fallback_awake: "rrc_fallback_to_idle e p = (r, p') \<Longrightarrow> awake p \<Longrightarrow> awake p'"
proof (cases p)
  case (Some w)
  assume run: "rrc_fallback_to_idle e p = (r, p')" and "awake p"
  then have "awake (Some (disconnect_serving (ev_os e) w))" using disconnect_serving_awake Some by blast
  then show ?thesis using run Some by (auto simp: rrc_fallback_to_idle_def simp del: awake_simps dest: change_awake)
qed simp

lemma conclude_awake: "conclude e cause (r, c, w) = (r', p) \<Longrightarrow> awake (Some w) \<Longrightarrow> awake p"
  by (auto simp: conclude_def rrc_handle_procedure_failure_def Let_def simp del: awake_simps
      split: if_splits prod.splits dest: fallback_awake)

lemma start_awake: "rrc_start_procedure s now k out p = (x, p') \<Longrightarrow> awake p \<Longrightarrow> awake p'"
  by (cases p) (auto simp: rrc_start_procedure_def next_transaction_def Let_def split: if_splits)

lemma attempts_awake:
  "request_loop as k m r c (the p) = Some (r1, c1, w1) \<Longrightarrow> conclude e cause (r1, c1, w1) = (r', p') \<Longrightarrow> awake p \<Longrightarrow> awake p'"
  using request_loop_awake conclude_awake by (cases p) fastforce+

lemma registration_awake: "rrc_execute_registration e at p = Some (r, p') \<Longrightarrow> awake p \<Longrightarrow> awake p'"
  by (auto simp only: rrc_execute_registration_def Let_def rrc_state.simps option.inject prod.inject
      split: if_splits prod.splits sum.splits dest!: start_awake change_awake dest: attempts_awake)

lemma reestablishment_awake: "rrc_execute_reestablishment e at p = Some (r, p') \<Longrightarrow> awake p \<Longrightarrow> awake p'"
  by (auto simp only: rrc_execute_reestablishment_def Let_def rrc_state.simps option.inject prod.inject
      split: if_splits prod.splits sum.splits dest!: start_awake change_awake dest: attempts_awake)

lemma handover_awake:
  assumes run: "rrc_execute_handover e a p = Some (r, p')" and "awake p"
  shows "awake p'"
proof -
  obtain w where p: "p = Some w" using assms(2) by (cases p) auto
  obtain x p1 where st: "rrc_start_procedure (ev_os e) (ev_now e) RRC_PROC_HANDOVER True p = (x, p1)" by fastforce
  have p1: "awake p1" using start_awake [OF st assms(2)] .
  show ?thesis
  proof (cases "p' = p \<or> p' = p1")
    case True
    then show ?thesis using p1 assms(2) by auto
  next
    case False
    then obtain m r2 p2 where s: "rrc_send_message (at_env a) (Some m) p1 = Some (r2, p2)"
      and rest: "p' = p2 \<or> (\<exists>w3 c k cause. process_all (at_incoming a) (the p2) = Some w3
          \<and> conclude k cause (fst c, snd c, w3) = (r, p'))"
      using run p st
      by (auto simp: rrc_execute_handover_def Let_def split: if_splits sum.splits prod.splits option.splits Option.bind_splits)
        blast+
    have "awake p2" using send_awake [OF s p1] by simp
    moreover obtain w2 where "p2 = Some w2" using \<open>awake p2\<close> by (cases p2) auto
    ultimately show ?thesis
      using rest process_all_awake conclude_awake by (metis option.sel)
  qed
qed

lemma core_procedure_awake:
  assumes "uesim_execute_procedure s n k p = (r, p')" and "awake p"
  shows "awake p'"
proof -
  obtain w where p: "p = Some w" using assms(2) by (cases p) auto
  have keep: "current_state (ue w') = current_state (ue w)"
    if "ensure_connected s n w = (r, w')" for s n r w'
  proof (cases "serving_gnb (ue w)")
    case (Some a)
    obtain r1 w1 where c: "uesim_connect_gnb s n (Some a) (Some w) = (r1, Some w1)"
      using connect_same [of s n "Some a" w] by (cases "uesim_connect_gnb s n (Some a) (Some w)") auto
    then have "current_state (ue w1) = current_state (ue w)"
      by (auto simp: uesim_connect_gnb_def locked_def Let_def split: if_splits prod.splits)
    then show ?thesis using that Some c by (auto simp: ensure_connected_def split: if_splits)
  qed (use that in \<open>auto simp: ensure_connected_def\<close>)
  have ho: "awake (Some w')" if run: "execute_handover_procedure s n w = (r, w')" for s r w'
  proof (cases "w' = w")
    case False
    then obtain a where run': "(case uesim_connect_gnb s n (Some a) (Some w) of (r, q) \<Rightarrow>
        if r \<noteq> UESIM_SUCCESS then (r, the q)
        else case uesim_switch_serving_gnb (after_locks 1 s) (Some a) q of (r', q') \<Rightarrow> (r', the q')) = (r, w')"
      using run by (auto simp: execute_handover_procedure_def split: if_splits option.splits)
    obtain r1 w1 where c: "uesim_connect_gnb s n (Some a) (Some w) = (r1, Some w1)"
      using connect_same [of s n "Some a" w] by (cases "uesim_connect_gnb s n (Some a) (Some w)") auto
    obtain r2 q2 where sw: "uesim_switch_serving_gnb (after_locks 1 s) (Some a) (Some w1) = (r2, q2)" by fastforce
    have w1: "awake (Some w1)" using connect_awake [OF c] assms(2) p by simp
    show ?thesis using run' c sw w1 switch_awake [OF sw w1] by (cases q2) (auto split: if_splits)
  qed (use assms(2) p in simp)
  show ?thesis
    using assms p
    by (cases k) (auto simp: uesim_execute_procedure_def locked_def Let_def execute_registration_procedure_def
        execute_establishment_procedure_def execute_reestablishment_procedure_def count_procedure_def
        split: if_splits prod.splits dest!: keep ho)
qed

text \<open>What happens to a UE: procedures of the layer, procedures of the core, and messages that arrive.\<close>

datatype rrc_event = Rrc_Procedure rrc_env "nat \<Rightarrow> rrc_attempt" rrc_procedure
  | Core_Procedure os net rrc_procedure | Incoming rrc_env "u8 list"

primrec rrc_event_run :: "rrc_event \<Rightarrow> 'z rrc_sys_scheme \<Rightarrow> 'z rrc_sys_scheme option" where
  "rrc_event_run (Rrc_Procedure e at k) w = Option.bind (rrc_execute_procedure e at k (Some w)) snd"
| "rrc_event_run (Core_Procedure s n k) w = snd (uesim_execute_procedure s n k (Some w))"
| "rrc_event_run (Incoming e d) w = Option.bind (rrc_process_incoming_message e (Some d) (Some w)) snd"

primrec rrc_run :: "rrc_event list \<Rightarrow> 'z rrc_sys_scheme \<Rightarrow> 'z rrc_sys_scheme option" where
  "rrc_run [] w = Some w"
| "rrc_run (x # xs) w = Option.bind (rrc_event_run x w) (rrc_run xs)"

lemma event_awake:
  assumes "rrc_event_run x w = Some w'" and "awake (Some w)"
  shows "awake (Some w')"
proof (cases x)
  case (Rrc_Procedure e at k)
  then obtain r where "rrc_execute_procedure e at k (Some w) = Some (r, Some w')"
    using assms(1) by (auto split: Option.bind_splits)
  then show ?thesis
    using assms(2)
    by (cases k) (auto simp: rrc_execute_procedure_def rrc_execute_establishment_def simp del: awake_simps
        dest: registration_awake reestablishment_awake handover_awake)
next
  case (Core_Procedure s n k)
  then show ?thesis
    using assms core_procedure_awake [of s n k "Some w"] by (cases "uesim_execute_procedure s n k (Some w)") auto
next
  case (Incoming e d)
  then obtain r where "rrc_process_incoming_message e (Some d) (Some w) = Some (r, Some w')"
    using assms(1) by (auto split: Option.bind_splits)
  then show ?thesis using incoming_awake assms(2) by blast
qed

lemma run_awake: "rrc_run xs w = Some w' \<Longrightarrow> awake (Some w) \<Longrightarrow> awake (Some w')"
proof (induction xs arbitrary: w)
  case (Cons x xs)
  then show ?case using event_awake [of x w] by (auto split: Option.bind_splits simp del: awake_simps)
qed simp

text \<open>
  C25. Re-establishment is dead code. Whatever procedures the layer and the core run and whatever messages
  arrive, from the idle state, with any outcome of the system and the network, the UE is never inactive;
  and from the other states the table of transitions has no way to connecting, so every re-establishment
  is refused: nothing is sent and the UE is unchanged.
\<close>

theorem reestablishment_never_starts:
  assumes "current_state (ue w) = RRC_STATE_IDLE" and "rrc_run xs w = Some w'" and "lock_ok (ev_os e) 0"
  shows "current_state (ue w') \<noteq> RRC_STATE_INACTIVE
    \<and> (\<exists>r w''. rrc_execute_reestablishment e at (Some w') = Some (r, Some w'') \<and> r \<noteq> UESIM_SUCCESS
        \<and> ue w'' = ue w' \<and> gnb_at w'' = gnb_at w' \<and> sent w'' = sent w')"
proof -
  have awake: "current_state (ue w') \<noteq> RRC_STATE_INACTIVE"
    using run_awake [OF assms(2)] assms(1) by simp
  have get: "rrc_get_current_state (ev_os e) (Some w') = Some (current_state (ue w'))"
    using assms(3) by (simp add: rrc_get_current_state_def)
  show ?thesis
  proof (cases "current_state (ue w') = RRC_STATE_IDLE")
    case True
    then show ?thesis using awake get by (simp add: rrc_execute_reestablishment_def)
  next
    case False
    then have no: "\<not> rrc_is_valid_state_transition (Some (current_state (ue w'))) (Some RRC_STATE_CONNECTING)"
      using awake by (cases "current_state (ue w')")
        (simp_all add: rrc_is_valid_state_transition_def g_valid_state_transitions_def)
    then show ?thesis
      using False awake get
      by (simp add: rrc_execute_reestablishment_def rrc_start_procedure_def next_transaction_def Let_def
          rrc_change_state_def locked_def)
  qed
qed

lemma reestablishment_never_starts_witness:
  "\<exists>r w''. rrc_execute_reestablishment env_example (\<lambda>_. \<lparr>at_env = env_example, at_lock = True, at_wakes = [], at_incoming = []\<rparr>) (Some rrc_example)
    = Some (r, Some w'') \<and> r \<noteq> UESIM_SUCCESS"
proof -
  have "current_state (ue rrc_example) = RRC_STATE_IDLE"
    by (simp add: rrc_example_def gnb_sys.defs fresh_ue_def uesim_create_ue_instance_def)
  then show ?thesis
    using reestablishment_never_starts [of rrc_example "[]" rrc_example env_example
        "\<lambda>_. \<lparr>at_env = env_example, at_lock = True, at_wakes = [], at_incoming = []\<rparr>"]
    by (auto simp: env_example_def)
qed

text \<open>
  C26. No procedure of the layer succeeds unless another thread aborts it: the flag that reports success is
  never set, so a registration, an establishment, a re-establishment and a handover end with an error
  whatever the network answers.
\<close>

theorem rrc_procedures_fail:
  assumes "\<forall>j < 4. Proc_Woken True \<notin> set (at_wakes (at j))" and "rrc_execute_procedure e at k p = Some (r, p')"
  shows "r \<noteq> UESIM_SUCCESS"
  using assms
  by (cases k) (auto simp: rrc_execute_procedure_def rrc_execute_establishment_def split: if_splits
      dest: registration_fails [OF assms(1)] reestablishment_fails [OF assms(1)] handover_fails [of "at 0", rotated])

section \<open>A registration that is answered\<close>

text \<open>An attempt that is sent and waits in vain, and what a run of them does.\<close>

definition silent :: "rrc_attempt \<Rightarrow> bool" where
  "silent a \<longleftrightarrow> good_env (at_env a) \<and> at_lock a \<and> at_wakes a = [] \<and> at_incoming a = []"

lemma wait_in_vain:
  "\<not> pc_completed c \<Longrightarrow> rrc_wait_procedure_complete True [] (Some w) (Some c) =
    (UESIM_ERROR_TIMEOUT, Some (c\<lparr>pc_status := RRC_PROC_STATUS_TIMEOUT, pc_error_cause := RRC_CAUSE_TIMEOUT\<rparr>))"
  by (simp add: rrc_wait_procedure_complete_def wait_loop.simps)

lemma silent_loop:
  assumes "list_all silent as" and "layer_message m" and "0 \<le> ngap_socket (ue w)" and "\<not> pc_completed c" and "\<not> pc_success c"
  shows "\<exists>l c'. request_loop as k m UESIM_ERROR_TIMEOUT c w = Some (UESIM_ERROR_TIMEOUT, c', w\<lparr>sent := sent w @ l\<rparr>)
    \<and> length l = length as \<and> \<not> pc_success c'"
  using assms
proof (induction as arbitrary: k c w)
  case Nil
  then show ?case by (auto intro: exI [of _ "[]"])
next
  case (Cons a as)
  then have a: "good_env (at_env a)" "at_lock a" "at_wakes a = []" "at_incoming a = []" by (simp_all add: silent_def)
  obtain x where x: "rrc_send_message (at_env a) (Some m) (Some w)
      = Some (UESIM_SUCCESS, Some (w\<lparr>sent := sent w @ [(ngap_socket (ue w), x)]\<rparr>))"
    using layer_send [OF Cons.prems(2) a(1) Cons.prems(3)] by blast
  let ?w = "w\<lparr>sent := sent w @ [(ngap_socket (ue w), x)]\<rparr>"
  let ?c = "c\<lparr>pc_retry_count := k, pc_status := RRC_PROC_STATUS_TIMEOUT, pc_error_cause := RRC_CAUSE_TIMEOUT\<rparr>"
  have "request_loop (a # as) k m UESIM_ERROR_TIMEOUT c w = request_loop as (k + 1) m UESIM_ERROR_TIMEOUT ?c ?w"
    using x a Cons.prems(4) by (simp add: wait_in_vain)
  moreover obtain l c' where "request_loop as (k + 1) m UESIM_ERROR_TIMEOUT ?c ?w
      = Some (UESIM_ERROR_TIMEOUT, c', ?w\<lparr>sent := sent ?w @ l\<rparr>)" "length l = length as" "\<not> pc_success c'"
    using Cons.IH [of ?w ?c "k + 1"] Cons.prems by auto
  ultimately show ?case by (intro exI [of _ "(ngap_socket (ue w), x) # l"] exI [of _ c']) simp
qed

text \<open>The octets of a setup message in the format the decoder reads: eight octets of identities, then data.\<close>

definition setup_octets :: "u8 list \<Rightarrow> u8 list \<Rightarrow> u8 list" where
  "setup_octets ids d = [1, 0, 0, 0] @ ids @ [word_of_nat (length d), 0, 0, 0, 0, 0, 0, 0] @ d"

lemma decode_setup:
  assumes "length ids = 8" and "0 < length d" and "length d < 256" and "alloc_ok s 0"
  shows "\<exists>i j. rrc_decode_message s (Some (setup_octets ids d)) (Some m) = Some (UESIM_SUCCESS,
    Some (m\<lparr>message_type := RRC_MESSAGE_TYPE_SETUP, message_id := i, transaction_id := j,
      data_length := length d, msg_data := Some (Raw d)\<rparr>))"
proof -
  have l: "unat (word_of_nat (length d) :: u8) = length d" using assms(3) by (simp add: unat_of_nat)
  have n: "unat (ucast (word_of_nat (length d) :: u8) :: u64) = length d"
    using assms(3) by (simp add: unsigned_ucast_eq l take_bit_nat_eq_self)
  have t: "type_of_number (1 :: u32) = RRC_MESSAGE_TYPE_SETUP"
    by (simp add: type_of_number_def named_types_def)
  show ?thesis
    using assms l n t
    by (intro exI [of _ "le_word (take 4 ids)"] exI [of _ "le_word (drop 4 ids)"])
      (simp add: rrc_decode_message_def setup_octets_def RRC_HEADER_LENGTH_def le_word_def Let_def)
qed

text \<open>
  A registration that the network answers: the UE is idle with an open socket, everything can be sent,
  and during the first wait a setup message arrives. Then the UE is connected; but the procedure knows
  nothing of it, sends its request three more times, and ends with a timeout. Five messages have been
  handed to the network, and a second registration is refused.
\<close>

theorem registration_answered_times_out:
  assumes "current_state (ue w) = RRC_STATE_IDLE" and "0 \<le> ngap_socket (ue w)" and "good_env e"
    and "\<forall>j < 4. good_env (at_env (at j)) \<and> at_lock (at j) \<and> at_wakes (at j) = []"
    and "at_incoming (at 0) = [(e0, setup_octets ids d)]" and "\<forall>j. 0 < j \<and> j < 4 \<longrightarrow> at_incoming (at j) = []"
    and "good_env e0" and "length ids = 8" and "0 < length d" and "length d < 256" and "good_env e1"
  shows "\<exists>w'. rrc_execute_registration e at (Some w) = Some (UESIM_ERROR_TIMEOUT, Some w')
    \<and> current_state (ue w') = RRC_STATE_CONNECTED \<and> length (sent w') = length (sent w) + 5
    \<and> rrc_execute_registration e1 at' (Some w') = Some (UESIM_ERROR_PROTOCOL, Some w')"
proof -
  define i where "i = g_transaction_id_counter w"
  define c0 where "c0 = \<lparr>pc_type = RRC_PROC_REGISTRATION, pc_transaction_id = i, pc_start_time = ev_now e,
     pc_retry_count = 0, pc_timeout_ms = RRC_T300_MS, pc_status = RRC_PROC_STATUS_ONGOING,
     pc_error_cause = RRC_CAUSE_SUCCESS, pc_completed = False, pc_success = False, pc_data = None\<rparr>"
  define dd where "dd = Setup_Request_Data (rand64 (ev_rand e)) 2"
  define m where "m = request_message RRC_MESSAGE_TYPE_SETUP_REQUEST i 16 dd"
  define w0 where "w0 = w\<lparr>g_transaction_id_counter := i + 1, state_change_time := ev_now e,
     ue := (ue w)\<lparr>current_state := RRC_STATE_CONNECTING\<rparr>\<rparr>"
  have lm: "layer_message m" by (simp add: layer_message_def m_def request_message_def dd_def)
  have n4: "[0..<RRC_N300_MAX + 1] = [0..<4]" by (simp add: RRC_N300_MAX_def upt_rec)
  have start: "rrc_execute_registration e at (Some w) =
      map_option (conclude (after_env 2 2 2 e) RRC_CAUSE_MAX_RETRIES)
        (request_loop (map at [0..<4]) 0 m UESIM_ERROR_PROTOCOL (c0\<lparr>pc_data := Some dd\<rparr>) w0)"
    using assms(1,3) unfolding rrc_execute_registration_def n4
    by (simp add: rrc_get_current_state_def good_env_def rrc_start_procedure_def
        next_transaction_def rrc_change_state_def rrc_is_valid_state_transition_def g_valid_state_transitions_def
        rrc_get_procedure_timeout_def c0_def i_def m_def dd_def w0_def Let_def upd_ue_def
        del: request_loop.simps)
  obtain x where x: "rrc_send_message (at_env (at 0)) (Some m) (Some w0)
      = Some (UESIM_SUCCESS, Some (w0\<lparr>sent := sent w0 @ [(ngap_socket (ue w0), x)]\<rparr>))"
    using layer_send [OF lm, of "at_env (at 0)" w0] assms(2,4) by (auto simp: w0_def)
  let ?w1 = "w0\<lparr>sent := sent w0 @ [(ngap_socket (ue w0), x)]\<rparr>"
  obtain a b where dec: "rrc_decode_message (ev_os e0) (Some (setup_octets ids d)) (Some zero_message) = Some (UESIM_SUCCESS,
      Some (zero_message\<lparr>message_type := RRC_MESSAGE_TYPE_SETUP, message_id := a, transaction_id := b,
        data_length := length d, msg_data := Some (Raw d)\<rparr>))"
    using decode_setup [OF assms(8-10), of "ev_os e0" zero_message] assms(7) by (auto simp: good_env_def)
  obtain h ds where d: "d = h # ds" using assms(9) by (cases d) auto
  let ?m1 = "zero_message\<lparr>message_type := RRC_MESSAGE_TYPE_SETUP, message_id := a, transaction_id := b,
        data_length := length d, msg_data := Some (Raw d)\<rparr>"
  let ?e = "after_env 1 0 0 e0"
  let ?w2 = "?w1\<lparr>g_transaction_id_counter := i + 2\<rparr>"
  have "\<exists>y. rrc_send_setup_complete ?e (Some ?m1) (Some ?w1)
      = Some (UESIM_SUCCESS, Some (?w2\<lparr>sent := sent ?w2 @ [(ngap_socket (ue w0), y)]\<rparr>))"
    using layer_send [of "\<lparr>message_type = RRC_MESSAGE_TYPE_SETUP_COMPLETE, message_id = i + 1, transaction_id = ucast h,
        data_length = 1040, msg_data = Some (Setup_Complete_Data h 1 [])\<rparr>" "after_env 1 0 0 ?e" ?w2] assms(2,7) d
    by (simp add: rrc_send_setup_complete_def response_tid_def next_transaction_def w0_def i_def layer_message_def
        good_env_def after_env_def add.commute) blast
  then obtain y where y: "rrc_send_setup_complete ?e (Some ?m1) (Some ?w1)
      = Some (UESIM_SUCCESS, Some (?w2\<lparr>sent := sent ?w2 @ [(ngap_socket (ue w0), y)]\<rparr>))" by blast
  let ?w3 = "?w2\<lparr>sent := sent ?w2 @ [(ngap_socket (ue w0), y)]\<rparr>"
  define w4 where "w4 = ?w3\<lparr>state_change_time := ev_now e0, ue := (ue w0)\<lparr>current_state := RRC_STATE_CONNECTED\<rparr>\<rparr>"
  have inc: "rrc_process_incoming_message e0 (Some (setup_octets ids d)) (Some ?w1) = Some (UESIM_SUCCESS, Some w4)"
    using dec y assms(7)
    by (simp add: rrc_process_incoming_message_def rrc_receive_message_def rrc_handle_procedure_response_def
        rrc_handle_setup_response_def with_response_def on_success_def rrc_change_state_def good_env_def after_env_def
        rrc_is_valid_state_transition_def g_valid_state_transitions_def w0_def w4_def setup_octets_def upd_ue_def)
  let ?c1 = "c0\<lparr>pc_data := Some dd, pc_retry_count := 0, pc_status := RRC_PROC_STATUS_TIMEOUT, pc_error_cause := RRC_CAUSE_TIMEOUT\<rparr>"
  have four: "map at [0..<4] = at 0 # map at [1..<4]" by (simp add: upt_rec)
  have first: "request_loop (map at [0..<4]) 0 m UESIM_ERROR_PROTOCOL (c0\<lparr>pc_data := Some dd\<rparr>) w0
      = request_loop (map at [1..<4]) 1 m UESIM_ERROR_TIMEOUT ?c1 w4"
    using x inc assms(4,5) by (simp add: four wait_in_vain c0_def)
  have sil: "list_all silent (map at [1..<4])" using assms(4,6) by (auto simp: list_all_iff silent_def)
  have s4: "0 \<le> ngap_socket (ue w4)" using assms(2) by (simp add: w4_def w0_def)
  obtain l c' where last: "request_loop (map at [1..<4]) 1 m UESIM_ERROR_TIMEOUT ?c1 w4
      = Some (UESIM_ERROR_TIMEOUT, c', w4\<lparr>sent := sent w4 @ l\<rparr>)" "length l = 3"
    using silent_loop [OF sil lm s4, of ?c1 1] by (auto simp: c0_def)
  have "rrc_execute_registration e at (Some w) = Some (UESIM_ERROR_TIMEOUT, Some (w4\<lparr>sent := sent w4 @ l\<rparr>))"
    using start first last by (simp add: conclude_def rrc_handle_procedure_failure_def)
  moreover have "current_state (ue w4) = RRC_STATE_CONNECTED" and "length (sent w4) = length (sent w) + 2"
    by (simp_all add: w4_def w0_def)
  ultimately show ?thesis
    using last(2) assms(11)
    by (simp add: rrc_execute_registration_def rrc_get_current_state_def good_env_def)
qed

lemma registration_answered_times_out_witness:
  "\<exists>w'. rrc_execute_registration env_example (\<lambda>j. \<lparr>at_env = env_example, at_lock = True, at_wakes = [],
      at_incoming = if j = 0 then [(env_example, setup_octets (replicate 8 0) [7])] else []\<rparr>) (Some rrc_example)
      = Some (UESIM_ERROR_TIMEOUT, Some w') \<and> current_state (ue w') = RRC_STATE_CONNECTED"
proof -
  have "current_state (ue rrc_example) = RRC_STATE_IDLE" and "0 \<le> ngap_socket (ue rrc_example)"
    by (simp_all add: rrc_example_def gnb_sys.defs fresh_ue_def uesim_create_ue_instance_def)
  then show ?thesis
    using registration_answered_times_out [of rrc_example env_example "\<lambda>j. \<lparr>at_env = env_example, at_lock = True, at_wakes = [],
        at_incoming = if j = 0 then [(env_example, setup_octets (replicate 8 0) [7])] else []\<rparr>"
        env_example "replicate 8 0" "[7]" env_example] env_example_good
    by fastforce
qed

text \<open>Even the registration that is answered, and leaves the UE connected, does not succeed.\<close>

lemma rrc_procedures_fail_witness:
  "\<exists>r w'. rrc_execute_procedure env_example (\<lambda>j. \<lparr>at_env = env_example, at_lock = True, at_wakes = [],
      at_incoming = if j = 0 then [(env_example, setup_octets (replicate 8 0) [7])] else []\<rparr>) RRC_PROC_REGISTRATION
      (Some rrc_example) = Some (r, Some w') \<and> r \<noteq> UESIM_SUCCESS \<and> current_state (ue w') = RRC_STATE_CONNECTED"
proof -
  let ?at = "\<lambda>j. \<lparr>at_env = env_example, at_lock = True, at_wakes = [],
      at_incoming = if j = 0 then [(env_example, setup_octets (replicate 8 0) [7])] else []\<rparr>"
  obtain w' where w': "rrc_execute_registration env_example ?at (Some rrc_example) = Some (UESIM_ERROR_TIMEOUT, Some w')"
    "current_state (ue w') = RRC_STATE_CONNECTED"
    using registration_answered_times_out_witness by blast
  then have "rrc_execute_procedure env_example ?at RRC_PROC_REGISTRATION (Some rrc_example) =
      Some (UESIM_ERROR_TIMEOUT, Some w')"
    by (simp add: rrc_execute_procedure_def)
  with rrc_procedures_fail [of ?at, OF _ this] w'(2) show ?thesis by auto
qed

end
