(* ===== verification/Rrc_Meas.thy ===== *)
theory Rrc_Meas
  imports Rrc
begin

text \<open>
  Measurements and their events (\<^verbatim>\<open>src/protocol/rrc_meas.c\<close>): the context of a UE in the global table,
  the configuration of events, taking measurements from the gNB contexts, and the evaluation of the
  events A3, A4 and A5 with their time to trigger.

  A result \<open>None\<close> is the use of a context that has been freed. Levels and offsets are added as integers;
  the code adds them in 32 bits, where a sum outside the range is undefined.
\<close>

section \<open>Data\<close>

datatype rrc_meas_event = RRC_MEAS_EVENT_A1 | RRC_MEAS_EVENT_A2 | RRC_MEAS_EVENT_A3 | RRC_MEAS_EVENT_A4
  | RRC_MEAS_EVENT_A5 | RRC_MEAS_EVENT_A6 | RRC_MEAS_EVENT_B1 | RRC_MEAS_EVENT_B2

definition all_events :: "rrc_meas_event list" where
  "all_events = [RRC_MEAS_EVENT_A1, RRC_MEAS_EVENT_A2, RRC_MEAS_EVENT_A3, RRC_MEAS_EVENT_A4,
     RRC_MEAS_EVENT_A5, RRC_MEAS_EVENT_A6, RRC_MEAS_EVENT_B1, RRC_MEAS_EVENT_B2]"

datatype rrc_quantity = RRC_QUANTITY_RSRP | RRC_QUANTITY_RSRQ | RRC_QUANTITY_SINR

datatype rrc_report_trigger = RRC_REPORT_TRIGGER_EVENT | RRC_REPORT_TRIGGER_PERIODIC | RRC_REPORT_TRIGGER_NONE

text \<open>An event or a quantity that is \<open>None\<close> is a number outside the enumeration. Signed octets are words.\<close>

record rrc_meas_config =
  event_id :: "rrc_meas_event option"
  mc_id :: u8
  mc_enabled :: bool
  hysteresis_db :: u8
  time_to_trigger :: u32
  threshold1 :: s32
  threshold2 :: s32
  quantity :: "rrc_quantity option"
  carrier_freq :: u32
  target_carrier_freq :: u32
  is_inter_freq :: bool
  cell_offset :: "8 word list"
  freq_offset :: "8 word"
  target_freq_offset :: "8 word"
  report_trigger :: rrc_report_trigger
  report_interval_ms :: u32
  max_report_cells :: u8

record rrc_meas_result =
  ms_id :: u8
  ms_pci :: u16
  ms_cell_id :: u32
  ms_arfcn :: u32
  ms_rsrp :: s32
  ms_rsrq :: s32
  ms_sinr :: s32
  ms_timestamp :: int
  is_serving_cell :: bool
  gnb_index :: u8

record rrc_meas_event_state =
  es_config :: rrc_meas_config
  event_entered :: bool
  event_triggered :: bool
  enter_time :: int
  trigger_time :: int
  serving_result :: rrc_meas_result
  neighbor_results :: "rrc_meas_result list"
  num_neighbors :: u8
  triggered_neighbor_idx :: u8

record rrc_meas_context =
  initialized :: bool
  next_meas_id :: u8
  events :: "rrc_meas_event \<Rightarrow> rrc_meas_event_state"
  num_active_events :: u8
  serving_meas :: rrc_meas_result
  neighbor_meas :: "rrc_meas_result list"
  num_neighbor_meas :: u8
  meas_interval_ms :: u32
  last_meas_time :: int
  report_pending :: bool
  pending_event :: "rrc_meas_event option"

text \<open>The structures as \<^verbatim>\<open>calloc\<close> and \<^verbatim>\<open>memset\<close> leave them.\<close>

definition zero_meas_config :: rrc_meas_config where
  "zero_meas_config = \<lparr>event_id = Some RRC_MEAS_EVENT_A1, mc_id = 0, mc_enabled = False, hysteresis_db = 0,
     time_to_trigger = 0, threshold1 = 0, threshold2 = 0, quantity = Some RRC_QUANTITY_RSRP, carrier_freq = 0,
     target_carrier_freq = 0, is_inter_freq = False, cell_offset = replicate MAX_GNB_CANDIDATES 0, freq_offset = 0,
     target_freq_offset = 0, report_trigger = RRC_REPORT_TRIGGER_EVENT, report_interval_ms = 0, max_report_cells = 0\<rparr>"

definition zero_result :: rrc_meas_result where
  "zero_result = \<lparr>ms_id = 0, ms_pci = 0, ms_cell_id = 0, ms_arfcn = 0, ms_rsrp = 0, ms_rsrq = 0, ms_sinr = 0,
     ms_timestamp = 0, is_serving_cell = False, gnb_index = 0\<rparr>"

definition zero_state :: rrc_meas_event_state where
  "zero_state = \<lparr>es_config = zero_meas_config, event_entered = False, event_triggered = False, enter_time = 0,
     trigger_time = 0, serving_result = zero_result, neighbor_results = replicate MAX_GNB_CANDIDATES zero_result,
     num_neighbors = 0, triggered_neighbor_idx = 0\<rparr>"

text \<open>A context as the lookup creates it: zero, but for the flag and the interval.\<close>

definition new_context :: rrc_meas_context where
  "new_context = \<lparr>initialized = True, next_meas_id = 0, events = (\<lambda>_. zero_state), num_active_events = 0,
     serving_meas = zero_result, neighbor_meas = replicate MAX_GNB_CANDIDATES zero_result, num_neighbor_meas = 0,
     meas_interval_ms = 200, last_meas_time = 0, report_pending = False, pending_event = Some RRC_MEAS_EVENT_A1\<rparr>"

text \<open>An entry of the global table: null, a context, or the address of one that has been freed.\<close>

datatype meas_slot = No_Context | Context rrc_meas_context | Dangling

definition MAX_UE_INSTANCES :: nat where "MAX_UE_INSTANCES = 1024"

record meas_sys = rrc_sys +
  ue_id :: u32
  g_meas_contexts :: "nat \<Rightarrow> meas_slot"

section \<open>Names, quantities and defaults\<close>

definition g_event_names :: "string list" where
  "g_event_names = [''A1'', ''A2'', ''A3'', ''A4'', ''A5'', ''A6'', ''B1'', ''B2'']"

definition rrc_meas_event_to_string :: "rrc_meas_event option \<Rightarrow> string" where
  "rrc_meas_event_to_string e = (case e of None \<Rightarrow> ''Unknown''
   | Some x \<Rightarrow> g_event_names ! the (find_index (\<lambda>y. y = x) all_events))"

fun rrc_quantity_to_string :: "rrc_quantity option \<Rightarrow> string" where
  "rrc_quantity_to_string None = ''Unknown''"
| "rrc_quantity_to_string (Some RRC_QUANTITY_RSRP) = ''RSRP''"
| "rrc_quantity_to_string (Some RRC_QUANTITY_RSRQ) = ''RSRQ''"
| "rrc_quantity_to_string (Some RRC_QUANTITY_SINR) = ''SINR''"

definition rrc_meas_get_quantity_value :: "rrc_meas_result option \<Rightarrow> rrc_quantity option \<Rightarrow> s32" where
  "rrc_meas_get_quantity_value r q = (case r of None \<Rightarrow> -140 | Some m \<Rightarrow> (case q of
     Some RRC_QUANTITY_RSRQ \<Rightarrow> ms_rsrq m
   | Some RRC_QUANTITY_SINR \<Rightarrow> ms_sinr m
   | _ \<Rightarrow> ms_rsrp m))"

definition rrc_meas_get_default_a3_config :: rrc_meas_config where
  "rrc_meas_get_default_a3_config = zero_meas_config\<lparr>event_id := Some RRC_MEAS_EVENT_A3, mc_enabled := True,
     hysteresis_db := 1, time_to_trigger := 640, threshold1 := 3, quantity := Some RRC_QUANTITY_RSRP,
     report_trigger := RRC_REPORT_TRIGGER_EVENT, max_report_cells := of_nat MAX_GNB_CANDIDATES\<rparr>"

definition rrc_meas_get_default_a4_config :: rrc_meas_config where
  "rrc_meas_get_default_a4_config = zero_meas_config\<lparr>event_id := Some RRC_MEAS_EVENT_A4, mc_enabled := True,
     hysteresis_db := 1, time_to_trigger := 640, threshold1 := -100, quantity := Some RRC_QUANTITY_RSRP,
     report_trigger := RRC_REPORT_TRIGGER_EVENT, max_report_cells := of_nat MAX_GNB_CANDIDATES\<rparr>"

definition rrc_meas_get_default_a5_config :: rrc_meas_config where
  "rrc_meas_get_default_a5_config = zero_meas_config\<lparr>event_id := Some RRC_MEAS_EVENT_A5, mc_enabled := True,
     hysteresis_db := 1, time_to_trigger := 640, threshold1 := -110, threshold2 := -100,
     quantity := Some RRC_QUANTITY_RSRP, report_trigger := RRC_REPORT_TRIGGER_EVENT,
     max_report_cells := of_nat MAX_GNB_CANDIDATES\<rparr>"

section \<open>The table of contexts\<close>

definition set_slot :: "meas_slot \<Rightarrow> 'z meas_sys_scheme \<Rightarrow> 'z meas_sys_scheme" where
  "set_slot x w = w\<lparr>g_meas_contexts := (g_meas_contexts w)(unat (ue_id w) := x)\<rparr>"

text \<open>The lookup creates a context where there is none; the address it returns is that of the entry.\<close>

definition rrc_meas_get_context :: "os \<Rightarrow> 'z meas_sys_scheme option \<Rightarrow> meas_slot \<times> 'z meas_sys_scheme option" where
  "rrc_meas_get_context s p = (case p of None \<Rightarrow> (No_Context, p) | Some w \<Rightarrow>
     if unat (ue_id w) \<ge> MAX_UE_INSTANCES then (No_Context, p)
     else case g_meas_contexts w (unat (ue_id w)) of
       No_Context \<Rightarrow> if alloc_ok s 0 then (Context new_context, Some (set_slot (Context new_context) w))
         else (No_Context, p)
     | x \<Rightarrow> (x, p))"

text \<open>
  The beginning of every operation: null pointers, then the context; \<open>f\<close> works on it under its mutex.
\<close>

definition with_meas :: "os \<Rightarrow> 'z meas_sys_scheme option
    \<Rightarrow> ('z meas_sys_scheme \<Rightarrow> rrc_meas_context \<Rightarrow> uesim_error \<times> rrc_meas_context)
    \<Rightarrow> (uesim_error \<times> 'z meas_sys_scheme option) option" where
  "with_meas s p f = (case rrc_meas_get_context s p of
     (Dangling, _) \<Rightarrow> None
   | (No_Context, p') \<Rightarrow> Some (UESIM_ERROR_NOT_INITIALIZED, p')
   | (Context c, p') \<Rightarrow> if \<not> initialized c then Some (UESIM_ERROR_NOT_INITIALIZED, p')
       else (case p' of None \<Rightarrow> None | Some w \<Rightarrow>
         (case f w c of (r, c') \<Rightarrow> Some (r, Some (set_slot (Context c') w)))))"

text \<open>
  The initialisation allocates a context and stores its address nowhere; only the outcome of the
  allocation shows.
\<close>

definition rrc_meas_init :: "os \<Rightarrow> 'z meas_sys_scheme option \<Rightarrow> uesim_error \<times> 'z meas_sys_scheme option" where
  "rrc_meas_init s p = with_ptr p (\<lambda>w. if alloc_ok s 0 then (UESIM_SUCCESS, w) else (UESIM_ERROR_MEMORY, w))"

text \<open>The entry of the table keeps the address of the context that is freed.\<close>

definition rrc_meas_cleanup :: "os \<Rightarrow> 'z meas_sys_scheme option \<Rightarrow> 'z meas_sys_scheme option option" where
  "rrc_meas_cleanup s p = (case p of None \<Rightarrow> Some p | Some _ \<Rightarrow> (case rrc_meas_get_context s p of
     (Dangling, _) \<Rightarrow> None
   | (No_Context, p') \<Rightarrow> Some p'
   | (Context c, p') \<Rightarrow> Some (map_option (set_slot Dangling) p')))"

section \<open>Configuration\<close>

definition upd_event :: "rrc_meas_event \<Rightarrow> (rrc_meas_event_state \<Rightarrow> rrc_meas_event_state)
    \<Rightarrow> rrc_meas_context \<Rightarrow> rrc_meas_context" where
  "upd_event e f c = c\<lparr>events := (events c)(e := f (events c e))\<rparr>"

text \<open>The counter of active events is compared with the configuration that has just been copied.\<close>

definition configure_event :: "rrc_meas_event \<Rightarrow> rrc_meas_config \<Rightarrow> rrc_meas_context \<Rightarrow> rrc_meas_context" where
  "configure_event e cfg c = (let
     c1 = upd_event e (\<lambda>st. st\<lparr>es_config := cfg\<lparr>mc_id := next_meas_id c\<rparr>, event_entered := False,
       event_triggered := False, enter_time := 0, trigger_time := 0, num_neighbors := 0,
       triggered_neighbor_idx := 0xFF\<rparr>) (c\<lparr>next_meas_id := next_meas_id c + 1\<rparr>);
     stored = mc_enabled (es_config (events c1 e))
     in if mc_enabled cfg \<and> \<not> stored then c1\<lparr>num_active_events := num_active_events c1 + 1\<rparr>
        else if \<not> mc_enabled cfg \<and> stored then c1\<lparr>num_active_events := num_active_events c1 - 1\<rparr>
        else c1)"

definition rrc_meas_configure_event :: "os \<Rightarrow> rrc_meas_config option \<Rightarrow> 'z meas_sys_scheme option
    \<Rightarrow> (uesim_error \<times> 'z meas_sys_scheme option) option" where
  "rrc_meas_configure_event s q p = (if p = None then Some (UESIM_ERROR_INVALID_PARAM, p) else case q of
     None \<Rightarrow> Some (UESIM_ERROR_INVALID_PARAM, p)
   | Some cfg \<Rightarrow> (case event_id cfg of None \<Rightarrow> Some (UESIM_ERROR_INVALID_PARAM, p)
     | Some e \<Rightarrow> with_meas s p (\<lambda>w c. (UESIM_SUCCESS, configure_event e cfg c))))"

definition remove_event :: "rrc_meas_event \<Rightarrow> rrc_meas_context \<Rightarrow> rrc_meas_context" where
  "remove_event e c = upd_event e (\<lambda>_. zero_state)
     (if mc_enabled (es_config (events c e)) then c\<lparr>num_active_events := num_active_events c - 1\<rparr> else c)"

definition rrc_meas_remove_event :: "os \<Rightarrow> rrc_meas_event option \<Rightarrow> 'z meas_sys_scheme option
    \<Rightarrow> (uesim_error \<times> 'z meas_sys_scheme option) option" where
  "rrc_meas_remove_event s ev p = (if p = None then Some (UESIM_ERROR_INVALID_PARAM, p) else case ev of
     None \<Rightarrow> Some (UESIM_ERROR_INVALID_PARAM, p)
   | Some e \<Rightarrow> with_meas s p (\<lambda>w c. (UESIM_SUCCESS, remove_event e c)))"

definition enable_event :: "rrc_meas_event \<Rightarrow> bool \<Rightarrow> rrc_meas_context \<Rightarrow> rrc_meas_context" where
  "enable_event e on c = (let st = events c e in
     if mc_enabled (es_config st) = on then c
     else let c1 = upd_event e (\<lambda>st. st\<lparr>es_config := (es_config st)\<lparr>mc_enabled := on\<rparr>\<rparr>) c in
       if on then c1\<lparr>num_active_events := num_active_events c1 + 1\<rparr>
       else upd_event e (\<lambda>st. st\<lparr>event_entered := False, event_triggered := False\<rparr>)
         (c1\<lparr>num_active_events := num_active_events c1 - 1\<rparr>))"

definition rrc_meas_enable_event :: "os \<Rightarrow> rrc_meas_event option \<Rightarrow> bool \<Rightarrow> 'z meas_sys_scheme option
    \<Rightarrow> (uesim_error \<times> 'z meas_sys_scheme option) option" where
  "rrc_meas_enable_event s ev on p = (if p = None then Some (UESIM_ERROR_INVALID_PARAM, p) else case ev of
     None \<Rightarrow> Some (UESIM_ERROR_INVALID_PARAM, p)
   | Some e \<Rightarrow> with_meas s p (\<lambda>w c. (UESIM_SUCCESS, enable_event e on c)))"

section \<open>Measurements\<close>

text \<open>What is taken from a gNB context; the frequency of the old result stays.\<close>

definition measured :: "gnb_context \<Rightarrow> bool \<Rightarrow> nat \<Rightarrow> int \<Rightarrow> rrc_meas_result \<Rightarrow> rrc_meas_result" where
  "measured g srv i now m = m\<lparr>ms_id := 0, ms_pci := cell_id g, ms_cell_id := gnb_id g, ms_rsrp := rsrp g,
     ms_rsrq := rsrq g, ms_sinr := rsrp g + 10, ms_timestamp := now, is_serving_cell := srv, gnb_index := of_nat i\<rparr>"

definition add_neighbor :: "int \<Rightarrow> nat \<times> gnb_context \<Rightarrow> rrc_meas_context \<Rightarrow> rrc_meas_context" where
  "add_neighbor now x c = (let n = unat (num_neighbor_meas c) in
     c\<lparr>neighbor_meas := (neighbor_meas c)[n := measured (snd x) False (fst x) now (neighbor_meas c ! n)],
       num_neighbor_meas := num_neighbor_meas c + 1\<rparr>)"

text \<open>The candidates that are gNBs other than the serving one, with their places.\<close>

definition neighbors :: "'z meas_sys_scheme \<Rightarrow> (nat \<times> gnb_context) list" where
  "neighbors w = List.map_filter (\<lambda>(i, b). case b of None \<Rightarrow> None
     | Some a \<Rightarrow> if serving_gnb (ue w) = Some a then None else Some (i, gnb_at w a))
     (List.enumerate 0 (take MAX_GNB_CANDIDATES (candidates w)))"

definition serving :: "'z meas_sys_scheme \<Rightarrow> gnb_context option" where
  "serving w = map_option (gnb_at w) (serving_gnb (ue w))"

definition perform_measurement :: "int \<Rightarrow> gnb_context option \<Rightarrow> (nat \<times> gnb_context) list
    \<Rightarrow> rrc_meas_context \<Rightarrow> rrc_meas_context" where
  "perform_measurement now sv nbs c = (let
     c1 = (case sv of None \<Rightarrow> c | Some g \<Rightarrow> c\<lparr>serving_meas := measured g True 0 now (serving_meas c)\<rparr>)
     in (fold (add_neighbor now) nbs (c1\<lparr>num_neighbor_meas := 0\<rparr>))\<lparr>last_meas_time := now\<rparr>)"

definition rrc_meas_perform_measurement :: "os \<Rightarrow> int \<Rightarrow> 'z meas_sys_scheme option
    \<Rightarrow> (uesim_error \<times> 'z meas_sys_scheme option) option" where
  "rrc_meas_perform_measurement s now p = (if p = None then Some (UESIM_ERROR_INVALID_PARAM, p)
     else with_meas s p (\<lambda>w c. (UESIM_SUCCESS, perform_measurement now (serving w) (neighbors w) c)))"

definition rrc_meas_update_serving_result :: "os \<Rightarrow> rrc_meas_result option \<Rightarrow> 'z meas_sys_scheme option
    \<Rightarrow> (uesim_error \<times> 'z meas_sys_scheme option) option" where
  "rrc_meas_update_serving_result s q p = (if p = None then Some (UESIM_ERROR_INVALID_PARAM, p) else case q of
     None \<Rightarrow> Some (UESIM_ERROR_INVALID_PARAM, p)
   | Some r \<Rightarrow> with_meas s p (\<lambda>w c. (UESIM_SUCCESS, c\<lparr>serving_meas := r\<rparr>)))"

definition update_neighbor :: "rrc_meas_result \<Rightarrow> rrc_meas_context \<Rightarrow> rrc_meas_context" where
  "update_neighbor r c = (let n = unat (num_neighbor_meas c) in
     case find_index (\<lambda>m. ms_pci m = ms_pci r) (take n (neighbor_meas c)) of
       Some i \<Rightarrow> c\<lparr>neighbor_meas := (neighbor_meas c)[i := r]\<rparr>
     | None \<Rightarrow> if n < MAX_GNB_CANDIDATES
         then c\<lparr>neighbor_meas := (neighbor_meas c)[n := r], num_neighbor_meas := num_neighbor_meas c + 1\<rparr>
         else c)"

definition rrc_meas_update_neighbor_result :: "os \<Rightarrow> rrc_meas_result option \<Rightarrow> 'z meas_sys_scheme option
    \<Rightarrow> (uesim_error \<times> 'z meas_sys_scheme option) option" where
  "rrc_meas_update_neighbor_result s q p = (if p = None then Some (UESIM_ERROR_INVALID_PARAM, p) else case q of
     None \<Rightarrow> Some (UESIM_ERROR_INVALID_PARAM, p)
   | Some r \<Rightarrow> with_meas s p (\<lambda>w c. (UESIM_SUCCESS, update_neighbor r c)))"

section \<open>Evaluation\<close>

text \<open>The level of neighbour \<open>i\<close> with the offsets of its frequency and cell, less the hysteresis.\<close>

definition neighbor_level :: "rrc_meas_event_state \<Rightarrow> nat \<Rightarrow> int" where
  "neighbor_level st i = (let cfg = es_config st in
     sint (rrc_meas_get_quantity_value (Some (neighbor_results st ! i)) (quantity cfg))
       + sint (target_freq_offset cfg) + sint (cell_offset cfg ! i) - int (unat (hysteresis_db cfg) div 2))"

definition serving_level :: "rrc_meas_event_state \<Rightarrow> int" where
  "serving_level st = sint (rrc_meas_get_quantity_value (Some (serving_result st)) (quantity (es_config st)))"

text \<open>The loop over the neighbours: the first one above the bound is stored.\<close>

definition first_above :: "int \<Rightarrow> rrc_meas_event_state \<Rightarrow> bool \<times> rrc_meas_event_state" where
  "first_above bound st =
     (case find_index (\<lambda>i. neighbor_level st i > bound) [0..<unat (num_neighbors st)] of
        None \<Rightarrow> (False, st)
      | Some i \<Rightarrow> (True, st\<lparr>triggered_neighbor_idx := of_nat i\<rparr>))"

text \<open>A null pointer is no event: the result is false.\<close>

definition eval_event :: "(rrc_meas_event_state \<Rightarrow> bool \<times> rrc_meas_event_state)
    \<Rightarrow> rrc_meas_event_state option \<Rightarrow> bool \<times> rrc_meas_event_state option" where
  "eval_event f p = (case p of None \<Rightarrow> (False, None) | Some st \<Rightarrow>
     if mc_enabled (es_config st) then (case f st of (b, st') \<Rightarrow> (b, Some st')) else (False, Some st))"

definition rrc_meas_eval_a3 :: "rrc_meas_event_state option \<Rightarrow> bool \<times> rrc_meas_event_state option" where
  "rrc_meas_eval_a3 = eval_event (\<lambda>st.
     first_above (serving_level st + sint (freq_offset (es_config st)) + sint (threshold1 (es_config st))) st)"

definition rrc_meas_eval_a4 :: "rrc_meas_event_state option \<Rightarrow> bool \<times> rrc_meas_event_state option" where
  "rrc_meas_eval_a4 = eval_event (\<lambda>st. first_above (sint (threshold1 (es_config st))) st)"

definition rrc_meas_eval_a5 :: "rrc_meas_event_state option \<Rightarrow> bool \<times> rrc_meas_event_state option" where
  "rrc_meas_eval_a5 = eval_event (\<lambda>st.
     if serving_level st + int (unat (hysteresis_db (es_config st)) div 2) \<ge> sint (threshold1 (es_config st))
     then (False, st) else first_above (sint (threshold2 (es_config st))) st)"

text \<open>The switch of the main loop; the other events are passed over.\<close>

definition evaluator :: "rrc_meas_event
    \<Rightarrow> (rrc_meas_event_state option \<Rightarrow> bool \<times> rrc_meas_event_state option) option" where
  "evaluator e = (case e of RRC_MEAS_EVENT_A3 \<Rightarrow> Some rrc_meas_eval_a3
   | RRC_MEAS_EVENT_A4 \<Rightarrow> Some rrc_meas_eval_a4
   | RRC_MEAS_EVENT_A5 \<Rightarrow> Some rrc_meas_eval_a5
   | _ \<Rightarrow> None)"

definition copy_measurements :: "rrc_meas_context \<Rightarrow> rrc_meas_context" where
  "copy_measurements c = c\<lparr>events := (\<lambda>e. let st = events c e in
     if mc_enabled (es_config st)
     then st\<lparr>serving_result := serving_meas c,
       neighbor_results := blit (neighbor_results st) 0 (take (unat (num_neighbor_meas c)) (neighbor_meas c)),
       num_neighbors := num_neighbor_meas c\<rparr>
     else st)\<rparr>"

text \<open>The time since the entry, in milliseconds of a clock of seconds, in 32 bits.\<close>

definition elapsed_ms :: "int \<Rightarrow> rrc_meas_event_state \<Rightarrow> u32" where
  "elapsed_ms now st = word_of_int (now - enter_time st) * 1000"

text \<open>
  One event after its entry condition has been evaluated: whether it is reported, and its new state.
  A reported event starts again.
\<close>

definition trigger_step :: "int \<Rightarrow> bool \<Rightarrow> rrc_meas_event_state \<Rightarrow> bool \<times> rrc_meas_event_state" where
  "trigger_step now met st =
     (if met then
        if \<not> event_entered st then (False, st\<lparr>event_entered := True, event_triggered := False, enter_time := now\<rparr>)
        else if elapsed_ms now st \<ge> time_to_trigger (es_config st) \<and> \<not> event_triggered st
        then (True, st\<lparr>event_entered := False, event_triggered := False, trigger_time := now\<rparr>)
        else (False, st)
      else (False, st\<lparr>event_entered := False, event_triggered := False\<rparr>))"

text \<open>The loop over the events, which ends with the first that is reported.\<close>

primrec evaluate_loop :: "int \<Rightarrow> rrc_meas_event list \<Rightarrow> rrc_meas_context
    \<Rightarrow> (rrc_meas_event \<times> u8) option \<times> rrc_meas_context" where
  "evaluate_loop now [] c = (None, c)"
| "evaluate_loop now (e # es) c =
     (if \<not> mc_enabled (es_config (events c e)) then evaluate_loop now es c
      else case evaluator e of None \<Rightarrow> evaluate_loop now es c
      | Some f \<Rightarrow> let (met, q) = f (Some (events c e)); (rep, st) = trigger_step now met (the q);
            c' = upd_event e (\<lambda>_. st) c
          in if rep then (Some (e, triggered_neighbor_idx st), c') else evaluate_loop now es c')"

definition evaluate_events :: "int \<Rightarrow> int \<Rightarrow> gnb_context option \<Rightarrow> (nat \<times> gnb_context) list
    \<Rightarrow> rrc_meas_context \<Rightarrow> (rrc_meas_event \<times> u8) option \<times> rrc_meas_context" where
  "evaluate_events t0 now sv nbs c =
     evaluate_loop now all_events (copy_measurements (perform_measurement t0 sv nbs c))"

text \<open>
  The result holds what the output pointers receive: the event (the number past the last one when there is
  none) and the neighbour (\<open>0xFF\<close>); \<open>t0\<close> is the time of the measurement, \<open>now\<close> that of the evaluation.
\<close>

definition rrc_meas_evaluate_events :: "os \<Rightarrow> int \<Rightarrow> int \<Rightarrow> bool \<Rightarrow> bool \<Rightarrow> 'z meas_sys_scheme option
    \<Rightarrow> ((uesim_error + rrc_meas_event option \<times> u8) \<times> 'z meas_sys_scheme option) option" where
  "rrc_meas_evaluate_events s t0 now out1 out2 p =
     (if p = None \<or> \<not> out1 \<or> \<not> out2 then Some (Inl UESIM_ERROR_INVALID_PARAM, p)
      else case rrc_meas_get_context s p of
        (Dangling, _) \<Rightarrow> None
      | (No_Context, p') \<Rightarrow> Some (Inl UESIM_ERROR_NOT_INITIALIZED, p')
      | (Context c, p') \<Rightarrow> if \<not> initialized c then Some (Inl UESIM_ERROR_NOT_INITIALIZED, p')
          else let w = the p' in (case evaluate_events t0 now (serving w) (neighbors w) c of (r, c') \<Rightarrow>
            Some (Inr (case r of None \<Rightarrow> (None, 0xFF) | Some (e, i) \<Rightarrow> (Some e, i)),
              Some (set_slot (Context c') w))))"

definition rrc_meas_get_event_state :: "os \<Rightarrow> rrc_meas_event option \<Rightarrow> 'z meas_sys_scheme option
    \<Rightarrow> (rrc_meas_event_state option \<times> 'z meas_sys_scheme option) option" where
  "rrc_meas_get_event_state s ev p = (if p = None then Some (None, p) else case ev of None \<Rightarrow> Some (None, p)
   | Some e \<Rightarrow> (case rrc_meas_get_context s p of
       (Dangling, _) \<Rightarrow> None
     | (No_Context, p') \<Rightarrow> Some (None, p')
     | (Context c, p') \<Rightarrow> Some (if initialized c then Some (events c e) else None, p')))"

end
