(* ===== verification/Rrc_Si.thy ===== *)
theory Rrc_Si
  imports Rrc_Meas
begin

text \<open>
  System information (\<^verbatim>\<open>src/protocol/rrc_si.c\<close>): the context of what a cell broadcasts, the decoders of
  the master block and of the system blocks 1 to 3, their handlers, validity and expiry; and the
  initialisation of the RRC layer with its contexts (\<^verbatim>\<open>src/protocol/rrc.c\<close>).

  A result \<open>None\<close> is a read behind the data or through a null pointer.
\<close>

section \<open>Data\<close>

record rrc_mib =
  mib_sfn :: u16
  subcarrier_spacing :: u8
  dmrs_type_a_position :: u8
  pdcch_config_sib1 :: u8
  cell_barred :: u8
  intra_freq_reselection :: u8
  mib_spare :: u8

record rrc_plmn_id =
  mcc :: u16
  mnc :: u16
  mnc_length :: u8

record rrc_sib1 =
  plmn_id :: rrc_plmn_id
  si_tac :: u16
  si_cell_id :: u32
  cell_reserved :: bool
  access_barring :: u8
  si_periodicity :: u16
  si_window_length :: u16
  num_si_messages :: u8
  si_scheduler_info :: "u8 list"

record rrc_cell_resel_priority =
  resel_priority :: u8
  q_rx_lev_min :: "8 word"
  q_qual_min :: "8 word"
  thresh_x_high :: u8
  thresh_x_low :: u8

record rrc_sib2 =
  intra_freq :: rrc_cell_resel_priority
  q_hyst :: u8
  t_resel_eutra :: u8
  s_non_intra_search :: u8
  thresh_serving_low :: u8

record rrc_neighbor_cell =
  nc_pci :: u16
  nc_earfcn :: u32
  nc_q_offset :: "8 word"

record rrc_sib3 =
  sib3_neighbors :: "rrc_neighbor_cell list"
  sib3_num_neighbors :: u8
  intra_freq_earfcn :: u32
  q_offset_range :: u8

record rrc_si_context =
  si_mib :: rrc_mib
  si_sib1 :: rrc_sib1
  si_sib2 :: rrc_sib2
  si_sib3 :: rrc_sib3
  mib_valid :: bool
  sib1_valid :: bool
  sib2_valid :: bool
  sib3_valid :: bool
  si_expiry_time :: u32
  last_mib_time :: u32
  last_sib1_time :: u32
  last_si_time :: u32
  si_sfn :: u16
  si_subframe :: u8

datatype rrc_si_type = RRC_SI_TYPE_MIB | RRC_SI_TYPE_SIB1 | RRC_SI_TYPE_SIB2 | RRC_SI_TYPE_SIB3
  | RRC_SI_TYPE_SIB4 | RRC_SI_TYPE_SIB5

record si_sys = meas_sys +
  rrc_si_ctx :: "rrc_si_context option"

text \<open>The structures after \<^verbatim>\<open>memset\<close>.\<close>

definition zero_mib :: rrc_mib where
  "zero_mib = \<lparr>mib_sfn = 0, subcarrier_spacing = 0, dmrs_type_a_position = 0, pdcch_config_sib1 = 0,
     cell_barred = 0, intra_freq_reselection = 0, mib_spare = 0\<rparr>"

definition zero_sib1 :: rrc_sib1 where
  "zero_sib1 = \<lparr>plmn_id = \<lparr>mcc = 0, mnc = 0, mnc_length = 0\<rparr>, si_tac = 0, si_cell_id = 0, cell_reserved = False,
     access_barring = 0, si_periodicity = 0, si_window_length = 0, num_si_messages = 0,
     si_scheduler_info = replicate 8 0\<rparr>"

definition zero_sib2 :: rrc_sib2 where
  "zero_sib2 = \<lparr>intra_freq = \<lparr>resel_priority = 0, q_rx_lev_min = 0, q_qual_min = 0, thresh_x_high = 0,
     thresh_x_low = 0\<rparr>, q_hyst = 0, t_resel_eutra = 0, s_non_intra_search = 0, thresh_serving_low = 0\<rparr>"

definition zero_neighbor :: rrc_neighbor_cell where
  "zero_neighbor = \<lparr>nc_pci = 0, nc_earfcn = 0, nc_q_offset = 0\<rparr>"

definition zero_sib3 :: rrc_sib3 where
  "zero_sib3 = \<lparr>sib3_neighbors = replicate 32 zero_neighbor, sib3_num_neighbors = 0, intra_freq_earfcn = 0,
     q_offset_range = 0\<rparr>"

section \<open>The context\<close>

definition zero_si_context :: rrc_si_context where
  "zero_si_context = \<lparr>si_mib = zero_mib, si_sib1 = zero_sib1, si_sib2 = zero_sib2, si_sib3 = zero_sib3,
     mib_valid = False, sib1_valid = False, sib2_valid = False, sib3_valid = False, si_expiry_time = 0,
     last_mib_time = 0, last_sib1_time = 0, last_si_time = 0, si_sfn = 0, si_subframe = 0\<rparr>"

definition rrc_si_init :: "rrc_si_context option \<Rightarrow> uesim_error \<times> rrc_si_context option" where
  "rrc_si_init p = with_ptr p (\<lambda>c. (UESIM_SUCCESS, zero_si_context))"

definition rrc_si_cleanup :: "rrc_si_context option \<Rightarrow> rrc_si_context option" where
  "rrc_si_cleanup p = map_option (\<lambda>c. zero_si_context) p"

definition rrc_si_reset :: "rrc_si_context option \<Rightarrow> uesim_error \<times> rrc_si_context option" where
  "rrc_si_reset p = with_ptr p (\<lambda>c. (UESIM_SUCCESS, c\<lparr>mib_valid := False, sib1_valid := False,
     sib2_valid := False, sib3_valid := False, si_expiry_time := 0\<rparr>))"

section \<open>Decoders\<close>

text \<open>
  The fields are read one after the other; the results of the reads are not looked at, so each is a value
  or a read behind the data. The first guard of every decoder: pointers and a least number of octets.
\<close>

definition si_decoder :: "nat \<Rightarrow> u8 list option \<Rightarrow> bool \<Rightarrow> (u8 list \<Rightarrow> 'a option) \<Rightarrow> (uesim_error + 'a) option" where
  "si_decoder n d out f = (case d of None \<Rightarrow> Some (Inl UESIM_ERROR_INVALID_PARAM) | Some x \<Rightarrow>
     if \<not> out \<or> length x < n then Some (Inl UESIM_ERROR_INVALID_PARAM) else map_option Inr (f x))"

definition mib_fields :: "u8 list \<Rightarrow> rrc_mib option" where
  "mib_fields d = do {
     (sfn, b) \<leftarrow> read_bits d 0 10;
     (scs, b) \<leftarrow> read_bits d b 1;
     (dmrs, b) \<leftarrow> read_bits d b 1;
     (pdcch, b) \<leftarrow> read_bits d b 8;
     (barred, b) \<leftarrow> read_bits d b 1;
     (resel, b) \<leftarrow> read_bits d b 1;
     (spare, b) \<leftarrow> read_bits d b 12;
     Some \<lparr>mib_sfn = ucast sfn, subcarrier_spacing = ucast scs, dmrs_type_a_position = ucast dmrs,
       pdcch_config_sib1 = ucast pdcch, cell_barred = ucast barred, intra_freq_reselection = ucast resel,
       mib_spare = ucast (drop_bit 4 spare)\<rparr> }"

definition rrc_decode_mib :: "u8 list option \<Rightarrow> bool \<Rightarrow> (uesim_error + rrc_mib) option" where
  "rrc_decode_mib d out = si_decoder 4 d out mib_fields"

definition sib1_fields :: "u8 list \<Rightarrow> rrc_sib1 option" where
  "sib1_fields d = do {
     (plmn, b) \<leftarrow> read_bits d 0 24;
     (tac, b) \<leftarrow> read_bits d b 24;
     (hi, b) \<leftarrow> read_bits d b 4;
     (lo, b) \<leftarrow> read_bits d b 32;
     (reserved, b) \<leftarrow> read_bits d b 1;
     (period, b) \<leftarrow> read_bits d b 3;
     (window, b) \<leftarrow> read_bits d b 3;
     Some (zero_sib1\<lparr>plmn_id := \<lparr>mcc = ucast (drop_bit 12 plmn), mnc = ucast (plmn AND 0xFFF), mnc_length = 3\<rparr>,
       si_tac := ucast tac, si_cell_id := ucast (push_bit 32 (ucast hi :: u64) OR ucast lo),
       cell_reserved := reserved \<noteq> 0, si_periodicity := push_bit (unat period) 8,
       si_window_length := push_bit (unat window) 5\<rparr>) }"

definition rrc_decode_sib1 :: "u8 list option \<Rightarrow> bool \<Rightarrow> (uesim_error + rrc_sib1) option" where
  "rrc_decode_sib1 d out = si_decoder 8 d out sib1_fields"

definition sib2_fields :: "u8 list \<Rightarrow> rrc_sib2 option" where
  "sib2_fields d = do {
     (prio, b) \<leftarrow> read_bits d 0 3;
     (lev, b) \<leftarrow> read_bits d b 6;
     (qual, b) \<leftarrow> read_bits d b 5;
     (hyst, b) \<leftarrow> read_bits d b 4;
     (resel, b) \<leftarrow> read_bits d b 3;
     Some (zero_sib2\<lparr>intra_freq := (intra_freq zero_sib2)\<lparr>resel_priority := ucast prio,
         q_rx_lev_min := ucast lev - 70, q_qual_min := ucast qual - 34\<rparr>,
       q_hyst := ucast hyst, t_resel_eutra := ucast resel\<rparr>) }"

definition rrc_decode_sib2 :: "u8 list option \<Rightarrow> bool \<Rightarrow> (uesim_error + rrc_sib2) option" where
  "rrc_decode_sib2 d out = si_decoder 4 d out sib2_fields"

text \<open>The loop over the neighbour cells.\<close>

primrec read_cells :: "u8 list \<Rightarrow> nat \<Rightarrow> nat \<Rightarrow> rrc_neighbor_cell list option" where
  "read_cells d b 0 = Some []"
| "read_cells d b (Suc n) = do {
     (pci, b) \<leftarrow> read_bits d b 16;
     (earfcn, b) \<leftarrow> read_bits d b 18;
     (off, b) \<leftarrow> read_bits d b 5;
     cs \<leftarrow> read_cells d b n;
     Some (\<lparr>nc_pci = ucast pci, nc_earfcn = earfcn, nc_q_offset = ucast off - 16\<rparr> # cs) }"

definition sib3_fields :: "u8 list \<Rightarrow> rrc_sib3 option" where
  "sib3_fields d = do {
     (earfcn, b) \<leftarrow> read_bits d 0 18;
     (range, b) \<leftarrow> read_bits d b 5;
     (num, b) \<leftarrow> read_bits d b 4;
     let n = (if num > 32 then 32 else unat num);
     cs \<leftarrow> read_cells d b n;
     Some \<lparr>sib3_neighbors = cs @ replicate (32 - n) zero_neighbor, sib3_num_neighbors = word_of_nat n,
       intra_freq_earfcn = earfcn, q_offset_range = ucast range\<rparr> }"

definition rrc_decode_sib3 :: "u8 list option \<Rightarrow> bool \<Rightarrow> (uesim_error + rrc_sib3) option" where
  "rrc_decode_sib3 d out = si_decoder 4 d out sib3_fields"

section \<open>Handlers\<close>

text \<open>
  The common part of the handlers: pointers and length, the decoder, then the context, whose address is
  not compared with null. The time is that of the storing.
\<close>

definition handle_si :: "nat \<Rightarrow> (u8 list option \<Rightarrow> bool \<Rightarrow> (uesim_error + 'a) option) \<Rightarrow> u8 list option
    \<Rightarrow> ('a \<Rightarrow> rrc_si_context \<Rightarrow> uesim_error \<times> rrc_si_context) \<Rightarrow> 'z si_sys_scheme option
    \<Rightarrow> (uesim_error \<times> 'z si_sys_scheme option) option" where
  "handle_si n dec d store p = (case (p, d) of
     (Some w, Some x) \<Rightarrow> if length x < n then Some (UESIM_ERROR_INVALID_PARAM, p)
       else (case dec d True of None \<Rightarrow> None
         | Some (Inl r) \<Rightarrow> Some (r, p)
         | Some (Inr v) \<Rightarrow> (case rrc_si_ctx w of None \<Rightarrow> None
           | Some c \<Rightarrow> (case store v c of (r, c') \<Rightarrow> Some (r, Some (w\<lparr>rrc_si_ctx := Some c'\<rparr>)))))
   | _ \<Rightarrow> Some (UESIM_ERROR_INVALID_PARAM, p))"

definition rrc_handle_mib :: "u32 \<Rightarrow> u8 list option \<Rightarrow> 'z si_sys_scheme option
    \<Rightarrow> (uesim_error \<times> 'z si_sys_scheme option) option" where
  "rrc_handle_mib now d p = handle_si 4 rrc_decode_mib d (\<lambda>m c.
     (if cell_barred m \<noteq> 0 then UESIM_ERROR_PROTOCOL else UESIM_SUCCESS,
      c\<lparr>si_mib := m, mib_valid := True, last_mib_time := now, si_sfn := mib_sfn m\<rparr>)) p"

definition rrc_handle_sib1 :: "u32 \<Rightarrow> u8 list option \<Rightarrow> 'z si_sys_scheme option
    \<Rightarrow> (uesim_error \<times> 'z si_sys_scheme option) option" where
  "rrc_handle_sib1 now d p = handle_si 8 rrc_decode_sib1 d (\<lambda>m c.
     (UESIM_SUCCESS, c\<lparr>si_sib1 := m, sib1_valid := True, last_sib1_time := now\<rparr>)) p"

definition rrc_handle_sib2 :: "u32 \<Rightarrow> u8 list option \<Rightarrow> 'z si_sys_scheme option
    \<Rightarrow> (uesim_error \<times> 'z si_sys_scheme option) option" where
  "rrc_handle_sib2 now d p = handle_si 4 rrc_decode_sib2 d (\<lambda>m c.
     (UESIM_SUCCESS, c\<lparr>si_sib2 := m, sib2_valid := True, last_si_time := now\<rparr>)) p"

definition rrc_handle_sib3 :: "u32 \<Rightarrow> u8 list option \<Rightarrow> 'z si_sys_scheme option
    \<Rightarrow> (uesim_error \<times> 'z si_sys_scheme option) option" where
  "rrc_handle_sib3 now d p = handle_si 4 rrc_decode_sib3 d (\<lambda>m c.
     (UESIM_SUCCESS, c\<lparr>si_sib3 := m, sib3_valid := True, last_si_time := now\<rparr>)) p"

definition rrc_process_si_message :: "u32 \<Rightarrow> rrc_si_type option \<Rightarrow> u8 list option \<Rightarrow> 'z si_sys_scheme option
    \<Rightarrow> (uesim_error \<times> 'z si_sys_scheme option) option" where
  "rrc_process_si_message now ty d p =
     (if p = None \<or> d = None \<or> d = Some [] then Some (UESIM_ERROR_INVALID_PARAM, p) else case ty of
        Some RRC_SI_TYPE_MIB \<Rightarrow> rrc_handle_mib now d p
      | Some RRC_SI_TYPE_SIB1 \<Rightarrow> rrc_handle_sib1 now d p
      | Some RRC_SI_TYPE_SIB2 \<Rightarrow> rrc_handle_sib2 now d p
      | Some RRC_SI_TYPE_SIB3 \<Rightarrow> rrc_handle_sib3 now d p
      | _ \<Rightarrow> Some (UESIM_ERROR_INVALID_PARAM, p))"

section \<open>Validity\<close>

definition rrc_is_mib_valid :: "u32 \<Rightarrow> rrc_si_context option \<Rightarrow> bool" where
  "rrc_is_mib_valid now p = (case p of None \<Rightarrow> False | Some c \<Rightarrow> mib_valid c \<and> now - last_mib_time c < 160)"

definition rrc_is_sib1_valid :: "u32 \<Rightarrow> rrc_si_context option \<Rightarrow> bool" where
  "rrc_is_sib1_valid now p = (case p of None \<Rightarrow> False | Some c \<Rightarrow>
     sib1_valid c \<and> now - last_sib1_time c < 600000)"

definition rrc_update_si_timers :: "u32 \<Rightarrow> rrc_si_context option \<Rightarrow> uesim_error \<times> rrc_si_context option" where
  "rrc_update_si_timers now p = with_ptr p (\<lambda>c. let
     c1 = (if mib_valid c \<and> now - last_mib_time c > 160 then c\<lparr>mib_valid := False\<rparr> else c);
     c2 = (if sib1_valid c1 \<and> now - last_sib1_time c1 > 600000 then c1\<lparr>sib1_valid := False\<rparr> else c1);
     c3 = (if sib2_valid c2 \<and> now - last_si_time c2 > 1800000
       then c2\<lparr>sib2_valid := False, sib3_valid := False\<rparr> else c2)
     in (UESIM_SUCCESS, c3))"

definition rrc_is_si_valid :: "rrc_si_context option \<Rightarrow> bool" where
  "rrc_is_si_valid p = (case p of None \<Rightarrow> False | Some c \<Rightarrow> mib_valid c \<and> sib1_valid c)"

section \<open>Frame numbers\<close>

definition rrc_get_sfn_from_mib :: "u8 list option \<Rightarrow> u16 option" where
  "rrc_get_sfn_from_mib d = (case d of None \<Rightarrow> Some 0 | Some x \<Rightarrow> map_option (\<lambda>(v, b). ucast v) (read_bits x 0 10))"

text \<open>The result is 1 at the end of a frame; the counters are those the pointers refer to.\<close>

definition rrc_get_sfn_increment :: "u16 option \<Rightarrow> u8 option \<Rightarrow> u8 \<times> u16 option \<times> u8 option" where
  "rrc_get_sfn_increment p q = (case (p, q) of
     (Some sfn, Some sub) \<Rightarrow> let sub' = sub + 1 in
       if sub' \<ge> 10 then (1, Some (if sfn + 1 \<ge> 1024 then 0 else sfn + 1), Some 0)
       else (0, p, Some sub')
   | _ \<Rightarrow> (0, p, q))"

section \<open>The contexts of the layer\<close>

text \<open>
  \<open>a\<close> is the address of the state context, whose content nothing reads. The allocations are those of the
  state context, of the measurement context and of the system information.
\<close>

definition rrc_init :: "os \<Rightarrow> nat \<Rightarrow> 'z si_sys_scheme option \<Rightarrow> uesim_error \<times> 'z si_sys_scheme option" where
  "rrc_init s a p = with_ptr p (\<lambda>w. let
     w1 = upd_ue (\<lambda>c. c\<lparr>current_state := RRC_STATE_IDLE\<rparr>) w;
     w2 = (if alloc_ok s 0 then upd_ue (\<lambda>c. c\<lparr>rrc_state_ctx := Some a\<rparr>) w1 else w1);
     w3 = the (snd (rrc_meas_init (after_allocs 1 s) (Some w2)));
     w4 = (if alloc_ok s 2 then w3\<lparr>rrc_si_ctx := snd (rrc_si_init (Some zero_si_context))\<rparr> else w3)
     in (UESIM_SUCCESS, w4))"

definition rrc_cleanup :: "os \<Rightarrow> 'z si_sys_scheme option \<Rightarrow> 'z si_sys_scheme option option" where
  "rrc_cleanup s p = (case p of None \<Rightarrow> Some None | Some w \<Rightarrow>
     map_option (map_option (upd_ue (\<lambda>c. c\<lparr>rrc_state_ctx := None\<rparr>)))
       (rrc_meas_cleanup s (Some (w\<lparr>rrc_si_ctx := None\<rparr>))))"

end
