(* ===== verification/Rrc_Meas_Proofs.thy ===== *)
theory Rrc_Meas_Proofs
  imports Rrc_Si Rrc_Proofs
begin

text \<open>
  What holds of the measurements: the arrays of a context stay within their bounds, an event is reported
  only after its entry condition has held for the time to trigger, and what the global table of contexts
  makes of a restart of the layer.
\<close>

section \<open>The shape of a context\<close>

text \<open>The operations on a context, with what each takes from outside.\<close>

datatype meas_op = Configure rrc_meas_event rrc_meas_config | Remove rrc_meas_event
  | Enable rrc_meas_event bool | Measure int "gnb_context option" "(nat \<times> gnb_context) list"
  | Update_Serving rrc_meas_result | Update_Neighbor rrc_meas_result
  | Evaluate int int "gnb_context option" "(nat \<times> gnb_context) list"

fun meas_op_run :: "meas_op \<Rightarrow> rrc_meas_context \<Rightarrow> rrc_meas_context" where
  "meas_op_run (Configure e cfg) c = configure_event e cfg c"
| "meas_op_run (Remove e) c = remove_event e c"
| "meas_op_run (Enable e on) c = enable_event e on c"
| "meas_op_run (Measure t sv nbs) c = perform_measurement t sv nbs c"
| "meas_op_run (Update_Serving r) c = c\<lparr>serving_meas := r\<rparr>"
| "meas_op_run (Update_Neighbor r) c = update_neighbor r c"
| "meas_op_run (Evaluate t0 now sv nbs) c = snd (evaluate_events t0 now sv nbs c)"

text \<open>What the callers give: at most eight neighbours, offsets for eight cells.\<close>

fun meas_op_ok :: "meas_op \<Rightarrow> bool" where
  "meas_op_ok (Configure e cfg) \<longleftrightarrow> length (cell_offset cfg) = MAX_GNB_CANDIDATES"
| "meas_op_ok (Measure t sv nbs) \<longleftrightarrow> length nbs \<le> MAX_GNB_CANDIDATES"
| "meas_op_ok (Evaluate t0 now sv nbs) \<longleftrightarrow> length nbs \<le> MAX_GNB_CANDIDATES"
| "meas_op_ok _ \<longleftrightarrow> True"

definition state_wf :: "rrc_meas_event_state \<Rightarrow> bool" where
  "state_wf st \<longleftrightarrow> length (cell_offset (es_config st)) = MAX_GNB_CANDIDATES
     \<and> length (neighbor_results st) = MAX_GNB_CANDIDATES \<and> unat (num_neighbors st) \<le> MAX_GNB_CANDIDATES"

definition meas_wf :: "rrc_meas_context \<Rightarrow> bool" where
  "meas_wf c \<longleftrightarrow> length (neighbor_meas c) = MAX_GNB_CANDIDATES
     \<and> unat (num_neighbor_meas c) \<le> MAX_GNB_CANDIDATES \<and> (\<forall>e. state_wf (events c e))"

lemma MAX_GNB_8 [simp]: "MAX_GNB_CANDIDATES = 8"
  by (simp add: MAX_GNB_CANDIDATES_def)

lemma u8_inc: "unat (n :: u8) < 8 \<Longrightarrow> unat (n + 1) = unat n + 1"
  by (simp add: unat_word_ariths)

lemma u8_index: "i < unat (n :: u8) \<Longrightarrow> unat (of_nat i :: u8) = i"
  using unsigned_less [of n, where ?'a = nat] by (simp add: unat_of_nat)

lemma upd_event_simps [simp]:
  "neighbor_meas (upd_event e f c) = neighbor_meas c" "num_neighbor_meas (upd_event e f c) = num_neighbor_meas c"
  "events (upd_event e f c) x = (if x = e then f (events c e) else events c x)"
  "serving_meas (upd_event e f c) = serving_meas c" "initialized (upd_event e f c) = initialized c"
  by (simp_all add: upd_event_def)

lemma zero_state_wf [simp]: "state_wf zero_state"
  by (simp add: state_wf_def zero_state_def zero_meas_config_def)

lemma new_context_wf: "meas_wf new_context"
  by (simp add: meas_wf_def new_context_def)

lemma upd_event_wf [intro]: "meas_wf c \<Longrightarrow> state_wf (f (events c e)) \<Longrightarrow> meas_wf (upd_event e f c)"
  by (simp add: meas_wf_def)

lemma meas_wf_frame [simp]:
  "meas_wf (c\<lparr>num_active_events := n\<rparr>) = meas_wf c" "meas_wf (c\<lparr>next_meas_id := i\<rparr>) = meas_wf c"
  "meas_wf (c\<lparr>serving_meas := r\<rparr>) = meas_wf c" "meas_wf (c\<lparr>last_meas_time := t\<rparr>) = meas_wf c"
  by (simp_all add: meas_wf_def)

lemma configure_wf: "meas_wf c \<Longrightarrow> length (cell_offset cfg) = 8 \<Longrightarrow> meas_wf (configure_event e cfg c)"
  by (auto simp: configure_event_def Let_def meas_wf_def state_wf_def)

lemma remove_wf: "meas_wf c \<Longrightarrow> meas_wf (remove_event e c)"
  by (auto simp: remove_event_def)

lemma enable_wf: "meas_wf c \<Longrightarrow> meas_wf (enable_event e on c)"
  by (auto simp: enable_event_def Let_def meas_wf_def state_wf_def)

lemma add_neighbors_wf:
  assumes "meas_wf c" and "unat (num_neighbor_meas c) + length nbs \<le> 8"
  shows "meas_wf (fold (add_neighbor now) nbs c)"
  using assms
proof (induction nbs arbitrary: c)
  case (Cons x nbs)
  have "meas_wf (add_neighbor now x c)"
    using Cons.prems by (simp add: meas_wf_def add_neighbor_def Let_def u8_inc)
  moreover have "unat (num_neighbor_meas (add_neighbor now x c)) = unat (num_neighbor_meas c) + 1"
    using Cons.prems by (simp add: add_neighbor_def Let_def u8_inc)
  ultimately show ?case using Cons.IH Cons.prems by simp
qed simp

lemma perform_wf: "meas_wf c \<Longrightarrow> length nbs \<le> 8 \<Longrightarrow> meas_wf (perform_measurement now sv nbs c)"
  unfolding perform_measurement_def Let_def meas_wf_frame
  by (rule add_neighbors_wf) (auto simp: meas_wf_def split: option.split)

lemma update_neighbor_wf: "meas_wf c \<Longrightarrow> meas_wf (update_neighbor r c)"
  by (auto simp: update_neighbor_def Let_def meas_wf_def u8_inc split: option.split)

lemma copy_wf: "meas_wf c \<Longrightarrow> meas_wf (copy_measurements c)"
  by (auto simp: copy_measurements_def Let_def meas_wf_def state_wf_def)

text \<open>An evaluator changes nothing but the index of the neighbour.\<close>

lemma evaluator_result:
  assumes "evaluator e = Some f"
  obtains (same) "snd (f (Some st)) = Some st" "\<not> fst (f (Some st))"
    | (found) i where "snd (f (Some st)) = Some (st\<lparr>triggered_neighbor_idx := of_nat i\<rparr>)" "fst (f (Some st))"
        "i < unat (num_neighbors st)"
  using assms
  by (cases e)
    (fastforce simp: evaluator_def rrc_meas_eval_a3_def rrc_meas_eval_a4_def rrc_meas_eval_a5_def eval_event_def
      first_above_def split: if_splits option.splits dest: find_index_SomeD)+

lemma trigger_step_frame [simp]:
  "es_config (snd (trigger_step now met st)) = es_config st"
  "neighbor_results (snd (trigger_step now met st)) = neighbor_results st"
  "num_neighbors (snd (trigger_step now met st)) = num_neighbors st"
  "triggered_neighbor_idx (snd (trigger_step now met st)) = triggered_neighbor_idx st"
  by (simp_all add: trigger_step_def)

lemma evaluate_loop_wf: "meas_wf c \<Longrightarrow> meas_wf (snd (evaluate_loop now es c))"
proof (induction es arbitrary: c)
  case (Cons e es)
  show ?case
  proof (cases "mc_enabled (es_config (events c e)) \<and> evaluator e \<noteq> None")
    case True
    then obtain f where f: "evaluator e = Some f" by auto
    obtain st where "snd (f (Some (events c e))) = Some st" "state_wf st"
      using f Cons.prems by (cases rule: evaluator_result [OF f, of "events c e"]) (auto simp: meas_wf_def state_wf_def)
    then have "meas_wf (upd_event e (\<lambda>_. snd (trigger_step now (fst (f (Some (events c e)))) st)) c)"
      using Cons.prems by (intro upd_event_wf) (simp_all add: state_wf_def)
    then show ?thesis
      using True f Cons.IH \<open>snd (f _) = Some st\<close> by (simp add: case_prod_unfold Let_def)
  next
    case False
    then show ?thesis using Cons by auto
  qed
qed simp

lemma meas_op_wf: "meas_wf c \<Longrightarrow> meas_op_ok x \<Longrightarrow> meas_wf (meas_op_run x c)"
  by (cases x) (simp_all add: configure_wf remove_wf enable_wf perform_wf update_neighbor_wf copy_wf
      evaluate_events_def evaluate_loop_wf)

lemma meas_run_wf: "meas_wf c \<Longrightarrow> list_all meas_op_ok xs \<Longrightarrow> meas_wf (fold meas_op_run xs c)"
  by (induction xs arbitrary: c) (simp_all add: meas_op_wf)

lemma length_map_filter: "length (List.map_filter f xs) \<le> length xs"
  by (induction xs) (auto simp: List.map_filter_simps split: option.split)

lemma neighbors_length: "length (neighbors w) \<le> MAX_GNB_CANDIDATES"
  unfolding neighbors_def by (rule order_trans [OF length_map_filter]) simp

text \<open>
  C27. The arrays of a measurement context keep their type. Whatever sequence of configurations, removals,
  measurements, updates and evaluations it goes through, it has eight results of which the first
  \<open>num_neighbor_meas\<close>, at most eight, are in use, and so has each event, with an offset for every
  cell that is looked at. What the layer measures of a UE is within the eight.
\<close>

theorem meas_context_wf:
  assumes "list_all meas_op_ok xs"
  shows "let c = fold meas_op_run xs new_context in
      length (neighbor_meas c) = 8 \<and> unat (num_neighbor_meas c) \<le> 8
      \<and> (\<forall>e. let st = events c e in length (neighbor_results st) = 8 \<and> unat (num_neighbors st) \<le> 8
          \<and> length (cell_offset (es_config st)) = 8)
      \<and> length (neighbors w) \<le> 8"
  using meas_run_wf [OF new_context_wf assms] neighbors_length [of w]
  by (simp add: meas_wf_def state_wf_def Let_def)

definition meas_ops_example :: "meas_op list" where
  "meas_ops_example = [Configure RRC_MEAS_EVENT_A3 rrc_meas_get_default_a3_config,
     Measure 5 (Some no_gnb) [(0, no_gnb), (1, no_gnb)], Evaluate 6 6 None [(0, no_gnb)], Enable RRC_MEAS_EVENT_A3 False]"

definition si_example :: si_sys where
  "si_example = meas_sys.extend (rrc_sys.extend rrc_example \<lparr>ue_id = 1, g_meas_contexts = (\<lambda>_. No_Context)\<rparr>)
     \<lparr>rrc_si_ctx = None\<rparr>"

lemma meas_context_wf_witness:
  "unat (num_neighbor_meas (fold meas_op_run meas_ops_example new_context)) \<le> 8"
proof -
  have "list_all meas_op_ok meas_ops_example"
    by (simp add: meas_ops_example_def rrc_meas_get_default_a3_config_def zero_meas_config_def)
  from meas_context_wf [OF this, of si_example] show ?thesis by (simp add: Let_def)
qed

section \<open>Time to trigger\<close>

text \<open>One call of the evaluation with what it meets, a sequence of calls, and the condition of an event in a call.\<close>

type_synonym meas_input = "int \<times> int \<times> gnb_context option \<times> (nat \<times> gnb_context) list"

definition now_of :: "meas_input \<Rightarrow> int" where
  "now_of x = fst (snd x)"

definition eval_call :: "meas_input \<Rightarrow> rrc_meas_context \<Rightarrow> (rrc_meas_event \<times> u8) option \<times> rrc_meas_context" where
  "eval_call x c = (case x of (t0, now, sv, nbs) \<Rightarrow> evaluate_events t0 now sv nbs c)"

primrec eval_calls :: "meas_input list \<Rightarrow> rrc_meas_context \<Rightarrow> rrc_meas_context" where
  "eval_calls [] c = c"
| "eval_calls (x # xs) c = eval_calls xs (snd (eval_call x c))"

definition refreshed :: "meas_input \<Rightarrow> rrc_meas_context \<Rightarrow> rrc_meas_context" where
  "refreshed x c = (case x of (t0, now, sv, nbs) \<Rightarrow> copy_measurements (perform_measurement t0 sv nbs c))"

definition met_at :: "rrc_meas_event \<Rightarrow> meas_input \<Rightarrow> rrc_meas_context \<Rightarrow> bool" where
  "met_at e x c = (case evaluator e of None \<Rightarrow> False | Some f \<Rightarrow> fst (f (Some (events (refreshed x c) e))))"

text \<open>The call ended with the report of an event that comes before this one.\<close>

definition preempted :: "rrc_meas_event \<Rightarrow> (rrc_meas_event \<times> u8) option \<Rightarrow> bool" where
  "preempted e r = (case r of None \<Rightarrow> False | Some (e', i) \<Rightarrow> e' \<in> set (takeWhile (\<lambda>x. x \<noteq> e) all_events))"

text \<open>The calls in which an event was evaluated: when, and whether its condition held.\<close>

primrec trace :: "rrc_meas_event \<Rightarrow> meas_input list \<Rightarrow> rrc_meas_context \<Rightarrow> (int \<times> bool) list" where
  "trace e [] c = []"
| "trace e (x # xs) c = (if preempted e (fst (eval_call x c)) then [] else [(now_of x, met_at e x c)])
     @ trace e xs (snd (eval_call x c))"

lemma eval_calls_append [simp]: "eval_calls (xs @ ys) c = eval_calls ys (eval_calls xs c)"
  by (induction xs arbitrary: c) simp_all

lemma trace_append: "trace e (xs @ ys) c = trace e xs c @ trace e ys (eval_calls xs c)"
  by (induction xs arbitrary: c) simp_all

lemma add_neighbors_events [simp]: "events (fold (add_neighbor now) nbs c) = events c"
  by (induction nbs arbitrary: c) (simp_all add: add_neighbor_def Let_def)

lemma refreshed_frame [simp]:
  "es_config (events (refreshed x c) e) = es_config (events c e)"
  "event_entered (events (refreshed x c) e) = event_entered (events c e)"
  "event_triggered (events (refreshed x c) e) = event_triggered (events c e)"
  "enter_time (events (refreshed x c) e) = enter_time (events c e)"
  by (simp_all add: refreshed_def copy_measurements_def perform_measurement_def Let_def split: prod.split option.split)

text \<open>What the loop makes of one event: a step of its own, or nothing when it ended before.\<close>

lemma evaluate_loop_other: "e \<notin> set es \<Longrightarrow> evaluate_loop now es c = (r, c') \<Longrightarrow> events c' e = events c e"
proof (induction es arbitrary: c)
  case (Cons x es)
  then show ?case
    by (fastforce simp: case_prod_unfold Let_def split: if_splits option.splits)
qed simp

lemma evaluate_loop_reported: "evaluate_loop now es c = (Some (e, i), c') \<Longrightarrow> e \<in> set es \<and> evaluator e \<noteq> None"
proof (induction es arbitrary: c)
  case (Cons x es)
  then show ?case by (fastforce simp: case_prod_unfold Let_def split: if_splits option.splits)
qed simp

lemma evaluate_loop_event:
  assumes "distinct es" and "e \<in> set es" and "evaluator e = Some f" and "mc_enabled (es_config (events c e))"
    and "evaluate_loop now es c = (r, c')"
  shows "(let st = events c e; res = trigger_step now (fst (f (Some st))) (the (snd (f (Some st)))) in
      events c' e = snd res \<and> (fst res \<longleftrightarrow> (\<exists>i. r = Some (e, i)))
      \<and> (fst res \<longrightarrow> r = Some (e, triggered_neighbor_idx (snd res)))
      \<and> (\<forall>e' i. r = Some (e', i) \<longrightarrow> e' \<notin> set (takeWhile (\<lambda>x. x \<noteq> e) es)))
    \<or> (\<exists>e' i. r = Some (e', i) \<and> e' \<in> set (takeWhile (\<lambda>x. x \<noteq> e) es) \<and> events c' e = events c e)"
  using assms
proof (induction es arbitrary: c)
  case (Cons x es)
  show ?case
  proof (cases "x = e")
    case True
    then have e: "e \<notin> set es" using Cons.prems(1) by simp
    let ?st = "events c e"
    let ?res = "trigger_step now (fst (f (Some ?st))) (the (snd (f (Some ?st))))"
    let ?c = "upd_event e (\<lambda>_. snd ?res) c"
    have step: "evaluate_loop now (x # es) c =
        (if fst ?res then (Some (e, triggered_neighbor_idx (snd ?res)), ?c) else evaluate_loop now es ?c)"
      using True Cons.prems(3,4) by (simp add: case_prod_unfold Let_def)
    show ?thesis
    proof (cases "fst ?res")
      case True
      then show ?thesis using step Cons.prems(5) \<open>x = e\<close> by (auto simp: Let_def)
    next
      case False
      then have "evaluate_loop now es ?c = (r, c')" using step Cons.prems(5) by simp
      from evaluate_loop_other [OF e this] evaluate_loop_reported [of now es ?c] this e
      show ?thesis using False \<open>x = e\<close> by (auto simp: Let_def)
    qed
  next
    case False
    then have e: "distinct es" "e \<in> set es" using Cons.prems(1,2) by auto
    show ?thesis
    proof (cases "mc_enabled (es_config (events c x)) \<and> evaluator x \<noteq> None")
      case True
      then obtain g where g: "evaluator x = Some g" by auto
      let ?res = "trigger_step now (fst (g (Some (events c x)))) (the (snd (g (Some (events c x)))))"
      let ?c = "upd_event x (\<lambda>_. snd ?res) c"
      have step: "evaluate_loop now (x # es) c =
          (if fst ?res then (Some (x, triggered_neighbor_idx (snd ?res)), ?c) else evaluate_loop now es ?c)"
        using True g by (simp add: case_prod_unfold Let_def)
      have st: "events ?c e = events c e" using False by simp
      show ?thesis
      proof (cases "fst ?res")
        case True
        then show ?thesis using step Cons.prems(5) False st by auto
      next
        case no: False
        then have loop: "evaluate_loop now es ?c = (r, c')" using step Cons.prems(5) by simp
        moreover have "x \<noteq> e'" if "r = Some (e', i)" for e' i
          using evaluate_loop_reported loop that Cons.prems(1) by fastforce
        ultimately show ?thesis
          using Cons.IH [of ?c] e Cons.prems(3,4) st False by (auto simp: Let_def)
      qed
    next
      case no: False
      then have loop: "evaluate_loop now es c = (r, c')"
        using Cons.prems(5) by (cases "evaluator x"; cases "mc_enabled (es_config (events c x))") simp_all
      moreover have "x \<noteq> e'" if "r = Some (e', i)" for e' i
        using evaluate_loop_reported loop that Cons.prems(1) by fastforce
      ultimately show ?thesis
        using Cons.IH [of c] e Cons.prems(3,4) False by (auto simp: Let_def)
    qed
  qed
qed simp

text \<open>After a call the event has made its step, or another event was reported before it.\<close>

lemma distinct_all_events: "distinct all_events" and in_all_events: "e \<in> set all_events"
  by (simp add: all_events_def) (cases e; simp add: all_events_def)

lemma eval_call_reported: "eval_call x c = (Some (e, i), c') \<Longrightarrow> evaluator e \<noteq> None"
  using evaluate_loop_reported by (fastforce simp: eval_call_def evaluate_events_def split: prod.splits)

lemma eval_call_event:
  assumes "evaluator e \<noteq> None" and "mc_enabled (es_config (events c e))" and "eval_call x c = (r, c')"
  shows "(\<not> preempted e r \<and> (\<exists>st. triggered_neighbor_idx_update (\<lambda>_. 0) st
            = triggered_neighbor_idx_update (\<lambda>_. 0) (events (refreshed x c) e)
          \<and> (met_at e x c \<longrightarrow> unat (triggered_neighbor_idx st) < unat (num_neighbors st))
          \<and> (let res = trigger_step (now_of x) (met_at e x c) st in
              events c' e = snd res \<and> (fst res \<longleftrightarrow> (\<exists>i. r = Some (e, i)))
              \<and> (fst res \<longrightarrow> r = Some (e, triggered_neighbor_idx st)))))
    \<or> (preempted e r \<and> events c' e = events (refreshed x c) e)"
proof -
  obtain t0 now sv nbs where x: "x = (t0, now, sv, nbs)" by (cases x)
  obtain f where f: "evaluator e = Some f" using assms(1) by auto
  have "evaluate_loop now all_events (refreshed x c) = (r, c')"
    using assms(3) by (simp add: x eval_call_def evaluate_events_def refreshed_def)
  from evaluate_loop_event [OF distinct_all_events in_all_events f _ this] assms(2)
  consider (step) "let st = events (refreshed x c) e;
        res = trigger_step now (fst (f (Some st))) (the (snd (f (Some st)))) in
      events c' e = snd res \<and> (fst res \<longleftrightarrow> (\<exists>i. r = Some (e, i)))
      \<and> (fst res \<longrightarrow> r = Some (e, triggered_neighbor_idx (snd res)))" "\<not> preempted e r"
    | (skip) "preempted e r" "events c' e = events (refreshed x c) e"
    by (auto simp: preempted_def Let_def split: option.splits)
  then show ?thesis
  proof cases
    case step
    let ?st = "the (snd (f (Some (events (refreshed x c) e))))"
    have "triggered_neighbor_idx_update (\<lambda>_. 0) ?st = triggered_neighbor_idx_update (\<lambda>_. 0) (events (refreshed x c) e)"
      and "met_at e x c \<longrightarrow> unat (triggered_neighbor_idx ?st) < unat (num_neighbors ?st)"
      by (cases rule: evaluator_result [OF f, of "events (refreshed x c) e"];
        simp add: met_at_def f u8_index)+
    then show ?thesis
      using step by (intro disjI1 conjI exI [of _ ?st]) (simp_all add: met_at_def f x now_of_def Let_def)
  qed simp
qed

text \<open>An event that waits has a past: calls without a break in which its condition held, since the time of entry.\<close>

definition waiting :: "(int \<times> bool) list \<Rightarrow> rrc_meas_event_state \<Rightarrow> bool" where
  "waiting H st \<longleftrightarrow> (event_entered st \<longrightarrow>
     (\<exists>ys zs. H = ys @ zs \<and> zs \<noteq> [] \<and> list_all snd zs \<and> fst (hd zs) = enter_time st))"

lemma trigger_step_waiting: "waiting H st \<Longrightarrow> waiting (H @ [(now, met)]) (snd (trigger_step now met st))"
proof (cases "met \<and> event_entered st")
  case True
  assume "waiting H st"
  then obtain ys zs where "H = ys @ zs" "zs \<noteq> []" "list_all snd zs" "fst (hd zs) = enter_time st"
    using True by (auto simp: waiting_def)
  moreover have a: "enter_time (snd (trigger_step now met st)) = enter_time st"
    using True by (simp add: trigger_step_def)
  ultimately show ?thesis
    using True unfolding waiting_def a by (intro impI exI [of _ ys] exI [of _ "zs @ [(now, met)]"]) auto
next
  case False
  then show ?thesis
    unfolding waiting_def by (intro impI exI [of _ H] exI [of _ "[(now, met)]"]) (auto simp: trigger_step_def split: if_splits)
qed

lemma trigger_step_reports:
  assumes "waiting H st" and "fst (trigger_step now met st)"
  shows "\<exists>ys zs. H @ [(now, met)] = ys @ zs \<and> 2 \<le> length zs \<and> list_all snd zs
    \<and> word_of_int (now - fst (hd zs)) * 1000 \<ge> time_to_trigger (es_config st)"
proof -
  have m: "met" "event_entered st" "elapsed_ms now st \<ge> time_to_trigger (es_config st)"
    using assms(2) by (auto simp: trigger_step_def split: if_splits)
  then obtain ys zs where "H = ys @ zs" "zs \<noteq> []" "list_all snd zs" "fst (hd zs) = enter_time st"
    using assms(1) by (auto simp: waiting_def)
  then show ?thesis
    using m by (intro exI [of _ ys] exI [of _ "zs @ [(now, met)]"]) (auto simp: elapsed_ms_def Suc_le_eq)
qed

lemma same_but_index:
  "triggered_neighbor_idx_update (\<lambda>_. 0) a = triggered_neighbor_idx_update (\<lambda>_. 0) b \<Longrightarrow>
    event_entered a = event_entered b \<and> event_triggered a = event_triggered b \<and> enter_time a = enter_time b
    \<and> es_config a = es_config b \<and> num_neighbors a = num_neighbors b"
  by (cases a; cases b) simp

lemma waiting_cong: "event_entered a = event_entered b \<Longrightarrow> enter_time a = enter_time b \<Longrightarrow> waiting H a = waiting H b"
  by (simp add: waiting_def)

lemma eval_call_waiting:
  assumes "evaluator e \<noteq> None" and "mc_enabled (es_config (events c e))" and "waiting H (events c e)"
    and "eval_call x c = (r, c')"
  shows "es_config (events c' e) = es_config (events c e)
    \<and> waiting (H @ (if preempted e r then [] else [(now_of x, met_at e x c)])) (events c' e)"
proof -
  have w: "waiting H st"
    if "triggered_neighbor_idx_update (\<lambda>_. 0) st = triggered_neighbor_idx_update (\<lambda>_. 0) (events (refreshed x c) e)" for st
    using assms(3) same_but_index [OF that] by (simp add: waiting_def)
  from eval_call_event [OF assms(1,2,4)] show ?thesis
  proof (elim disjE conjE exE)
    fix st
    assume st: "triggered_neighbor_idx_update (\<lambda>_. 0) st = triggered_neighbor_idx_update (\<lambda>_. 0) (events (refreshed x c) e)"
    then show ?thesis if "\<not> preempted e r" "let res = trigger_step (now_of x) (met_at e x c) st in
              events c' e = snd res \<and> (fst res \<longleftrightarrow> (\<exists>i. r = Some (e, i)))
              \<and> (fst res \<longrightarrow> r = Some (e, triggered_neighbor_idx st))"
      using that trigger_step_waiting [OF w [OF st]] same_but_index [OF st] by (simp add: Let_def)
  qed (use assms(3) in \<open>simp add: waiting_def\<close>)
qed

lemma eval_calls_waiting:
  assumes "evaluator e \<noteq> None" and "mc_enabled (es_config (events c e))" and "waiting H (events c e)"
  shows "es_config (events (eval_calls xs c) e) = es_config (events c e)
    \<and> waiting (H @ trace e xs c) (events (eval_calls xs c) e)"
  using assms(2,3)
proof (induction xs arbitrary: c H)
  case (Cons x xs)
  obtain r c' where x: "eval_call x c = (r, c')" by (cases "eval_call x c")
  note step = eval_call_waiting [OF assms(1) Cons.prems x]
  then show ?case
    using Cons.IH [of c' "H @ (if preempted e r then [] else [(now_of x, met_at e x c)])"] Cons.prems(1) x by simp
qed simp

text \<open>A context with the default configuration, in which the only neighbour is ten decibels better.\<close>

definition a3_context :: rrc_meas_context where
  "a3_context = configure_event RRC_MEAS_EVENT_A3 rrc_meas_get_default_a3_config new_context"

definition a3_input :: "int \<Rightarrow> meas_input" where
  "a3_input t = (t, t, Some (no_gnb\<lparr>rsrp := -90\<rparr>), [(0, no_gnb\<lparr>rsrp := -80\<rparr>)])"

text \<open>
  C28. An event is reported only in time. When a call reports an event that had not been entered at the
  beginning, then its entry condition held in that call and in all calls before it back to the one of the
  entry, at least one earlier, as far as they looked at the event; and the time since then, in the
  milliseconds of the clock that is used, is at least the time to trigger. The reported neighbour is one
  of those that were measured.
\<close>

theorem event_report_sound:
  assumes "mc_enabled (es_config (events c e))" and "\<not> event_entered (events c e)"
    and "eval_call x (eval_calls xs c) = (Some (e, i), c')"
  shows "\<exists>ys zs. trace e (xs @ [x]) c = ys @ zs \<and> 2 \<le> length zs \<and> list_all snd zs
    \<and> word_of_int (now_of x - fst (hd zs)) * 1000 \<ge> time_to_trigger (es_config (events c e))
    \<and> unat i < unat (num_neighbors (events c' e))"
proof -
  let ?c = "eval_calls xs c"
  have e: "evaluator e \<noteq> None"
    using eval_call_reported [OF assms(3)] .
  have w: "waiting (trace e xs c) (events ?c e)" "es_config (events ?c e) = es_config (events c e)"
    using eval_calls_waiting [OF e assms(1), of "[]"] assms(2) by (simp_all add: waiting_def)
  from eval_call_event [OF e _ assms(3)] w(2) assms(1) obtain st where
    st: "triggered_neighbor_idx_update (\<lambda>_. 0) st = triggered_neighbor_idx_update (\<lambda>_. 0) (events (refreshed x ?c) e)"
    and idx: "met_at e x ?c \<longrightarrow> unat (triggered_neighbor_idx st) < unat (num_neighbors st)"
    and step: "\<not> preempted e (Some (e, i))" "events c' e = snd (trigger_step (now_of x) (met_at e x ?c) st)"
      "fst (trigger_step (now_of x) (met_at e x ?c) st)" "i = triggered_neighbor_idx st"
    by (auto simp: Let_def preempted_def dest: set_takeWhileD)
  have "waiting (trace e xs c) st" using w(1) same_but_index [OF st] by (simp add: waiting_def)
  from trigger_step_reports [OF this step(3)] obtain ys zs where
    "trace e xs c @ [(now_of x, met_at e x ?c)] = ys @ zs" "2 \<le> length zs" "list_all snd zs"
    "word_of_int (now_of x - fst (hd zs)) * 1000 \<ge> time_to_trigger (es_config st)" by blast
  moreover have "met_at e x ?c" using step(3) by (auto simp: trigger_step_def split: if_splits)
  ultimately show ?thesis
    using step idx same_but_index [OF st] w(2) assms(3)
    by (intro exI [of _ ys] exI [of _ zs]) (simp add: trace_append)
qed

lemma a3_context_start:
  "mc_enabled (es_config (events a3_context RRC_MEAS_EVENT_A3))" "\<not> event_entered (events a3_context RRC_MEAS_EVENT_A3)"
  "time_to_trigger (es_config (events a3_context RRC_MEAS_EVENT_A3)) = 640"
  by (simp_all add: a3_context_def configure_event_def Let_def new_context_def zero_state_def
      rrc_meas_get_default_a3_config_def zero_meas_config_def)

lemma now_of_a3_input [simp]: "now_of (a3_input t) = t"
  by (simp add: now_of_def a3_input_def)

lemma a3_example_trace: "trace RRC_MEAS_EVENT_A3 [a3_input 5, a3_input 6] a3_context = [(5, True), (6, True)]"
  by code_simp

lemma a3_example_report:
  "fst (eval_call (a3_input 6) (eval_calls [a3_input 5] a3_context)) = Some (RRC_MEAS_EVENT_A3, 0)"
  by code_simp

lemma event_report_sound_witness:
  "\<exists>ys zs. [(5 :: int, True), (6, True)] = ys @ zs \<and> 2 \<le> length zs"
proof -
  obtain c' where "eval_call (a3_input 6) (eval_calls [a3_input 5] a3_context) = (Some (RRC_MEAS_EVENT_A3, 0), c')"
    using a3_example_report by (metis prod.collapse)
  from event_report_sound [OF a3_context_start(1,2) this] show ?thesis
    unfolding append_Cons append_Nil a3_example_trace by blast
qed

text \<open>The event A3 comes first of those that are evaluated.\<close>

lemma a3_not_preempted [simp]: "\<not> preempted RRC_MEAS_EVENT_A3 (fst (eval_call x c))"
proof (cases "eval_call x c")
  case (Pair r c')
  then show ?thesis
  proof (cases r)
    case (Some p)
    obtain e' i where "p = (e', i)" by (cases p)
    then have "evaluator e' \<noteq> None" using eval_call_reported Pair Some by simp
    then show ?thesis
      using Pair Some \<open>p = _\<close> by (cases e') (simp_all add: preempted_def all_events_def evaluator_def)
  qed (simp add: preempted_def)
qed

lemma a3_step:
  assumes "mc_enabled (es_config (events c RRC_MEAS_EVENT_A3))" and "eval_call x c = (r, c')"
    and "met_at RRC_MEAS_EVENT_A3 x c"
  shows "\<exists>st. es_config st = es_config (events c RRC_MEAS_EVENT_A3)
    \<and> event_entered st = event_entered (events c RRC_MEAS_EVENT_A3)
    \<and> event_triggered st = event_triggered (events c RRC_MEAS_EVENT_A3)
    \<and> enter_time st = enter_time (events c RRC_MEAS_EVENT_A3)
    \<and> events c' RRC_MEAS_EVENT_A3 = snd (trigger_step (now_of x) True st)
    \<and> (fst (trigger_step (now_of x) True st) \<longleftrightarrow> (\<exists>i. r = Some (RRC_MEAS_EVENT_A3, i)))"
proof -
  have "\<not> preempted RRC_MEAS_EVENT_A3 r" using a3_not_preempted [of x c] assms(2) by simp
  with eval_call_event [OF _ assms(1,2)] assms(3) obtain st where
    st: "triggered_neighbor_idx_update (\<lambda>_. 0) st = triggered_neighbor_idx_update (\<lambda>_. 0) (events (refreshed x c) RRC_MEAS_EVENT_A3)"
    and "events c' RRC_MEAS_EVENT_A3 = snd (trigger_step (now_of x) True st)"
      "fst (trigger_step (now_of x) True st) \<longleftrightarrow> (\<exists>i. r = Some (RRC_MEAS_EVENT_A3, i))"
    by (auto simp: Let_def evaluator_def)
  then show ?thesis using same_but_index [OF st] by (intro exI [of _ st]) simp
qed

lemma a3_held:
  assumes "mc_enabled (es_config (events c RRC_MEAS_EVENT_A3))" and "\<not> event_entered (events c RRC_MEAS_EVENT_A3)"
    and "list_all snd (trace RRC_MEAS_EVENT_A3 (y # ys) c)"
    and "\<forall>z \<in> set ys. word_of_int (now_of z - now_of y) * 1000 < time_to_trigger (es_config (events c RRC_MEAS_EVENT_A3))"
  shows "let st = events (eval_calls (y # ys) c) RRC_MEAS_EVENT_A3 in es_config st = es_config (events c RRC_MEAS_EVENT_A3)
    \<and> event_entered st \<and> \<not> event_triggered st \<and> enter_time st = now_of y"
  using assms(3,4)
proof (induction ys rule: rev_induct)
  case Nil
  obtain r c' where y: "eval_call y c = (r, c')" by (cases "eval_call y c")
  have met: "met_at RRC_MEAS_EVENT_A3 y c" using Nil.prems(1) by simp
  from a3_step [OF assms(1) y met] assms(2) show ?case by (auto simp: y trigger_step_def Let_def split: if_splits)
next
  case (snoc z zs)
  let ?c = "eval_calls (y # zs) c"
  obtain r c' where z: "eval_call z ?c = (r, c')" by (cases "eval_call z ?c")
  have ih: "let st = events ?c RRC_MEAS_EVENT_A3 in es_config st = es_config (events c RRC_MEAS_EVENT_A3)
      \<and> event_entered st \<and> \<not> event_triggered st \<and> enter_time st = now_of y"
    using snoc.IH snoc.prems trace_append [of _ "y # zs" "[z]" c] by simp
  have met: "met_at RRC_MEAS_EVENT_A3 z ?c"
    using snoc.prems(1) trace_append [of _ "y # zs" "[z]" c] by simp
  have c': "eval_calls (y # zs @ [z]) c = c'" using eval_calls_append [of "y # zs" "[z]" c] z by simp
  from a3_step [OF _ z met] ih assms(1) snoc.prems(2) show ?case
    unfolding c' Let_def by (auto simp: trigger_step_def elapsed_ms_def not_le split: if_splits)
qed

text \<open>
  The time to trigger of A3 is met exactly. When the event is enabled and not entered and its condition
  holds in every one of a sequence of calls, then none is reported while the time since the first of them
  is below the time to trigger, and the next call reports the event if and only if the time has been
  reached by then.
\<close>

theorem a3_reported_in_time:
  assumes "mc_enabled (es_config (events c RRC_MEAS_EVENT_A3))" and "\<not> event_entered (events c RRC_MEAS_EVENT_A3)"
    and "list_all snd (trace RRC_MEAS_EVENT_A3 (y # ys @ [x]) c)"
    and "\<forall>z \<in> set ys. word_of_int (now_of z - now_of y) * 1000 < time_to_trigger (es_config (events c RRC_MEAS_EVENT_A3))"
  shows "(\<exists>i. fst (eval_call x (eval_calls (y # ys) c)) = Some (RRC_MEAS_EVENT_A3, i)) \<longleftrightarrow>
    word_of_int (now_of x - now_of y) * 1000 \<ge> time_to_trigger (es_config (events c RRC_MEAS_EVENT_A3))"
proof -
  let ?c = "eval_calls (y # ys) c"
  obtain r c' where x: "eval_call x ?c = (r, c')" by (cases "eval_call x ?c")
  have met: "list_all snd (trace RRC_MEAS_EVENT_A3 (y # ys) c)" "met_at RRC_MEAS_EVENT_A3 x ?c"
    using assms(3) trace_append [of _ "y # ys" "[x]" c] by simp_all
  have "let st = events ?c RRC_MEAS_EVENT_A3 in es_config st = es_config (events c RRC_MEAS_EVENT_A3)
      \<and> event_entered st \<and> \<not> event_triggered st \<and> enter_time st = now_of y"
    by (rule a3_held [OF assms(1,2) met(1) assms(4)])
  with a3_step [OF _ x met(2)] assms(1) show ?thesis
    unfolding Let_def x by (auto simp: trigger_step_def elapsed_ms_def split: if_splits)
qed

lemma a3_reported_in_time_witness:
  "\<exists>i. fst (eval_call (a3_input 6) (eval_calls [a3_input 5] a3_context)) = Some (RRC_MEAS_EVENT_A3, i)"
  using a3_reported_in_time [OF a3_context_start(1,2), of "a3_input 5" "[]" "a3_input 6"] a3_example_trace
  by (simp add: a3_context_start(3))

section \<open>Configurations\<close>

text \<open>The hysteresis of the default configurations, half a decibel, is cut off to none.\<close>

lemma default_hysteresis_is_none:
  "hysteresis_db (es_config st) = 1 \<Longrightarrow>
    rrc_meas_eval_a3 (Some st) = map_prod id (map_option (es_config_update (\<lambda>_. es_config st)))
      (rrc_meas_eval_a3 (Some (st\<lparr>es_config := (es_config st)\<lparr>hysteresis_db := 0\<rparr>\<rparr>)))"
  by (simp add: rrc_meas_eval_a3_def eval_event_def first_above_def neighbor_level_def serving_level_def Let_def
      split: option.split)

text \<open>Configuring never counts an active event, so that removing one wraps the counter.\<close>

lemma active_events_not_counted:
  "num_active_events (configure_event e cfg c) = num_active_events c"
  "mc_enabled cfg \<Longrightarrow> num_active_events (remove_event e (configure_event e cfg new_context)) = 255"
  by (simp_all add: configure_event_def Let_def remove_event_def upd_event_def new_context_def)

section \<open>A restart of the layer\<close>

text \<open>The operations of the layer on its contexts, any of which the UE may run.\<close>

definition dangling :: "'z meas_sys_scheme \<Rightarrow> bool" where
  "dangling w \<longleftrightarrow> unat (ue_id w) < MAX_UE_INSTANCES \<and> g_meas_contexts w (unat (ue_id w)) = Dangling"

lemma get_context_dangling:
  "fst (rrc_meas_get_context s (Some w)) = Dangling \<longleftrightarrow> dangling w"
  by (auto simp: rrc_meas_get_context_def dangling_def split: meas_slot.split)

lemma with_meas_defined: "with_meas s (Some w) f = None \<longleftrightarrow> dangling w"
  by (auto simp: with_meas_def rrc_meas_get_context_def dangling_def split: meas_slot.split prod.split if_splits)

lemma evaluate_defined: "rrc_meas_evaluate_events s t0 now True True (Some w) = None \<longleftrightarrow> dangling w"
  by (auto simp: rrc_meas_evaluate_events_def rrc_meas_get_context_def dangling_def Let_def
      split: meas_slot.split prod.split if_splits)

lemma meas_cleanup_defined: "rrc_meas_cleanup s (Some w) = None \<longleftrightarrow> dangling w"
  by (auto simp: rrc_meas_cleanup_def rrc_meas_get_context_def dangling_def split: meas_slot.split prod.split if_splits)

lemma meas_cleanup_dangling:
  "rrc_meas_cleanup s (Some w) = Some (Some w') \<Longrightarrow> unat (ue_id w) < MAX_UE_INSTANCES \<Longrightarrow> alloc_ok s 0 \<Longrightarrow> dangling w'"
  by (auto simp: rrc_meas_cleanup_def rrc_meas_get_context_def dangling_def set_slot_def split: meas_slot.splits if_splits)

lemma cleanup_defined: "rrc_cleanup s (Some w) = None \<longleftrightarrow> dangling w"
  using meas_cleanup_defined [of s "w\<lparr>rrc_si_ctx := None\<rparr>"] by (simp add: rrc_cleanup_def dangling_def)

lemma cleanup_Some: "rrc_cleanup s (Some w) = Some q \<Longrightarrow> q \<noteq> None"
  by (cases "g_meas_contexts w (unat (ue_id w))")
    (auto simp: rrc_cleanup_def rrc_meas_cleanup_def rrc_meas_get_context_def split: if_splits)

lemma rrc_init_dangling: "rrc_init s a (Some w) = (r, Some v) \<Longrightarrow> dangling v = dangling w"
  by (auto simp: rrc_init_def rrc_meas_init_def upd_ue_def dangling_def Let_def split: if_splits)

text \<open>
  The layer cannot be restarted. As long as its contexts have not been cleaned up, measuring, evaluating
  and cleaning up are defined whatever the system does. After the cleanup and a new initialisation, for the
  same UE or another one with its number, each of them uses the measurement context that the cleanup freed.
\<close>

theorem rrc_restart_uses_freed_context:
  assumes "unat (ue_id w) < MAX_UE_INSTANCES" and "rrc_cleanup s (Some w) = Some (Some w')" and "alloc_ok s 0"
    and "rrc_init s' a (Some w') = (r, Some v)"
  shows "(\<forall>s2 t. rrc_meas_perform_measurement s2 t (Some w) \<noteq> None
      \<and> rrc_meas_evaluate_events s2 t t True True (Some w) \<noteq> None \<and> rrc_cleanup s2 (Some w) \<noteq> None)
    \<and> (\<forall>s2 t. rrc_meas_perform_measurement s2 t (Some v) = None
      \<and> rrc_meas_evaluate_events s2 t t True True (Some v) = None \<and> rrc_cleanup s2 (Some v) = None)"
proof -
  have w: "\<not> dangling w" using cleanup_defined [of s w] assms(2) by simp
  obtain u where u: "rrc_meas_cleanup s (Some (w\<lparr>rrc_si_ctx := None\<rparr>)) = Some (Some u)"
      "w' = upd_ue (\<lambda>c. c\<lparr>rrc_state_ctx := None\<rparr>) u"
    using assms(2) by (auto simp: rrc_cleanup_def)
  then have "dangling u" using meas_cleanup_dangling [OF u(1)] assms(1,3) by simp
  then have "dangling v" using rrc_init_dangling [OF assms(4)] u(2) by (simp add: upd_ue_def dangling_def)
  then show ?thesis
    using w by (simp add: rrc_meas_perform_measurement_def with_meas_defined evaluate_defined cleanup_defined)
qed

lemma rrc_restart_uses_freed_context_witness:
  "\<exists>w' v. rrc_cleanup good_os (Some si_example) = Some (Some w') \<and> rrc_init good_os 7 (Some w') = (UESIM_SUCCESS, Some v)
    \<and> rrc_cleanup good_os (Some v) = None"
proof -
  have id: "unat (ue_id si_example) < MAX_UE_INSTANCES"
    by (simp add: si_example_def rrc_sys.defs meas_sys.defs MAX_UE_INSTANCES_def)
  have "\<not> dangling si_example"
    by (simp add: si_example_def rrc_sys.defs meas_sys.defs dangling_def)
  then obtain q where q: "rrc_cleanup good_os (Some si_example) = Some q" using cleanup_defined by fastforce
  then obtain w' where w': "rrc_cleanup good_os (Some si_example) = Some (Some w')"
    using cleanup_Some by blast
  moreover obtain v where v: "rrc_init good_os 7 (Some w') = (UESIM_SUCCESS, Some v)"
    by (simp add: rrc_init_def Let_def)
  ultimately show ?thesis
    using rrc_restart_uses_freed_context [OF id w' _ v] by auto
qed

end
