(* ===== verification/Rrc_Si_Proofs.thy ===== *)
theory Rrc_Si_Proofs
  imports Rrc_Si Asn1_Proofs
begin

text \<open>
  What holds of the system information: for which lengths the decoders stay within the data, what the
  master block survives, and the counter of frames.
\<close>

section \<open>Reads within the data\<close>

lemma read_loop_behind: "8 * length d < off + n \<Longrightarrow> 0 < n \<Longrightarrow> read_loop d off v n = None"
proof (induction d off v n rule: read_loop.induct)
  case (2 d off v i)
  then show ?case
    by (cases "i = 0") (auto simp: read_loop.simps)
qed simp

lemma read_bits_defined: "0 < n \<Longrightarrow> read_bits d off n = None \<longleftrightarrow> 8 * length d < off + n"
  using read_loop_ok [of off n d 0] read_loop_behind [of d off n 0] by fastforce

lemma read_bits_position: "read_bits d off n = Some (v, b) \<Longrightarrow> b = off + n"
  using read_loop_ok [of off n d 0] read_loop_behind [of d off n 0]
  by (cases "off + n \<le> 8 * length d"; cases "n = 0") (auto simp: read_loop.simps)

text \<open>A field that is read in a sequence; the value and what follows, or a read behind the data.\<close>

definition field_at :: "u8 list \<Rightarrow> nat \<Rightarrow> nat \<Rightarrow> u32" where
  "field_at d off n = fst (the (read_bits d off n))"

lemma read_then:
  assumes "0 < n"
  shows "(do { (v, b) \<leftarrow> read_bits d off n; f v b }) =
    (if off + n \<le> 8 * length d then f (field_at d off n) (off + n) else None)"
proof (cases "off + n \<le> 8 * length d")
  case True
  then obtain w where "read_bits d off n = Some (w, off + n)" using read_loop_ok [of off n d 0] by blast
  then show ?thesis using True by (simp add: field_at_def)
next
  case False
  then show ?thesis using read_loop_behind [of d off n 0] assms by simp
qed

lemma mib_fields_None: "mib_fields d = None \<longleftrightarrow> 8 * length d < 34"
  by (simp add: mib_fields_def read_then)

lemma sib1_fields_None: "sib1_fields d = None \<longleftrightarrow> 8 * length d < 91"
  by (simp add: sib1_fields_def read_then)

lemma sib2_fields_None: "sib2_fields d = None \<longleftrightarrow> 8 * length d < 21"
  by (simp add: sib2_fields_def read_then)

lemma read_cells_None: "read_cells d b n = None \<longleftrightarrow> 0 < n \<and> 8 * length d < b + 39 * n"
proof (induction n arbitrary: b)
  case (Suc n)
  then show ?case by (auto simp: read_then bind_eq_None_conv)
qed simp

text \<open>The number of neighbour cells that a third block announces.\<close>

definition announced :: "u8 list \<Rightarrow> nat" where
  "announced d = unat (field_at d 23 4)"

lemma field_less: "off + n \<le> 8 * length d \<Longrightarrow> n < 32 \<Longrightarrow> unat (field_at d off n) < 2 ^ n"
proof -
  assume a: "off + n \<le> 8 * length d" "n < 32"
  then obtain w where w: "read_bits d off n = Some (w, off + n)" "\<forall>j. bit w j \<longrightarrow> j < n"
    using read_loop_ok [of off n d 0] by auto
  then have "w = take_bit n w" by (intro bit_word_eqI) (auto simp: bit_take_bit_iff)
  then have "unat w = take_bit n (unat w)" by (metis unsigned_take_bit_eq)
  then show ?thesis by (simp add: field_at_def w(1)) (metis take_bit_nat_less_exp)
qed

lemma sib3_fields_None: "sib3_fields d = None \<longleftrightarrow> 8 * length d < 27 + 39 * announced d"
proof (cases "27 \<le> 8 * length d")
  case True
  then have "unat (field_at d 23 4) < 16" using field_less [of 23 4 d] by simp
  then have "\<not> field_at d 23 4 > 32" by (simp add: word_less_nat_alt)
  then show ?thesis
    using True read_cells_None [of d 27 "announced d"]
    by (auto simp: sib3_fields_def read_then announced_def Let_def bind_eq_None_conv)
next
  case False
  then show ?thesis by (simp add: sib3_fields_def read_then)
qed

lemma si_decoder_None:
  "si_decoder n (Some d) True f = None \<longleftrightarrow> n \<le> length d \<and> f d = None"
  by (auto simp: si_decoder_def)

text \<open>
  Which blocks are read out of bounds. The checks of the length let through blocks that the decoders
  read behind: a master block of exactly four octets (it takes 34 bits), a first system block of eight to
  eleven octets (91 bits), and a third one that announces more neighbour cells than it holds. The second
  one is always read within its data.
\<close>

theorem si_reads_behind:
  "(rrc_decode_mib (Some d) True = None \<longleftrightarrow> length d = 4)
   \<and> (rrc_decode_sib1 (Some d) True = None \<longleftrightarrow> 8 \<le> length d \<and> length d < 12)
   \<and> rrc_decode_sib2 (Some d) True \<noteq> None
   \<and> (rrc_decode_sib3 (Some d) True = None \<longleftrightarrow> 4 \<le> length d \<and> 8 * length d < 27 + 39 * announced d)"
  by (auto simp: rrc_decode_mib_def rrc_decode_sib1_def rrc_decode_sib2_def rrc_decode_sib3_def si_decoder_None
      mib_fields_None sib1_fields_None sib2_fields_None sib3_fields_None)

section \<open>Frames\<close>

text \<open>The counters after a number of subframes are those of the number of subframes: a frame has ten.\<close>

definition next_subframe :: "u16 \<times> u8 \<Rightarrow> u16 \<times> u8" where
  "next_subframe x = map_prod the the (snd (rrc_get_sfn_increment (Some (fst x)) (Some (snd x))))"

lemma sfn_counts:
  "(next_subframe ^^ n) (0, 0) = (of_nat (n div 10 mod 1024), of_nat (n mod 10))"
proof (induction n)
  case (Suc n)
  define q r where "q = n div 10 mod 1024" and "r = n mod 10"
  have less: "q < 1024" "r < 10" by (simp_all add: q_def r_def)
  have r: "unat (of_nat r + 1 :: u8) = r + 1" and q: "unat (of_nat q + 1 :: u16) = q + 1"
    using less by (simp_all add: unat_word_ariths unat_of_nat)
  have sub: "(of_nat r + 1 :: u8) \<ge> 10 \<longleftrightarrow> r = 9" and sfn: "(of_nat q + 1 :: u16) \<ge> 1024 \<longleftrightarrow> q = 1023"
    using less by (auto simp: word_le_nat_alt r q)
  have step: "Suc n div 10 mod 1024 = (if r = 9 then if q = 1023 then 0 else q + 1 else q)"
    "Suc n mod 10 = (if r = 9 then 0 else r + 1)"
    by (auto simp: q_def r_def div_Suc mod_Suc)
  show ?case
    using Suc unfolding step
    by (simp add: next_subframe_def rrc_get_sfn_increment_def Let_def sub sfn flip: q_def r_def)
qed simp

end
