(* ===== verification/Rlf.thy ===== *)
theory Rlf
  imports Rrc
begin

text \<open>
  Radio link failure (\<^verbatim>\<open>src/protocol/rlf_recovery.c\<close>): the counters of synchronisation indications, the
  timers T310, T311 and T301, the declaration of a failure and the recovery through the re-establishment of
  \<open>Rrc\<close>.

  The context is what the field \<^verbatim>\<open>rrc_meas_ctx\<close> of the UE points to in this file. A result \<open>None\<close>
  means that the call does not return: the thread locks the mutex of the context while it holds it. The
  clock of the timers is in milliseconds, that of the detection time in seconds.
\<close>

section \<open>State\<close>

definition RLF_T310_DEFAULT_MS :: u32 where "RLF_T310_DEFAULT_MS = 1000"
definition RLF_T311_DEFAULT_MS :: u32 where "RLF_T311_DEFAULT_MS = 3000"
definition RLF_T301_DEFAULT_MS :: u32 where "RLF_T301_DEFAULT_MS = 1000"
definition RLF_N310_MAX :: u8 where "RLF_N310_MAX = 1"
definition RLF_N311_MAX :: u8 where "RLF_N311_MAX = 2"

datatype rlf_state = RLF_STATE_NORMAL | RLF_STATE_OUT_OF_SYNC | RLF_STATE_T310_RUNNING
  | RLF_STATE_IN_SYNC_RECOVERY | RLF_STATE_DETECTED | RLF_STATE_REESTABLISHING | RLF_STATE_RECOVERED
  | RLF_STATE_FAILED

datatype rlf_cause = RLF_CAUSE_NONE | RLF_CAUSE_T310_EXPIRY | RLF_CAUSE_RANDOM_ACCESS_FAILURE
  | RLF_CAUSE_RLC_MAX_RETX | RLF_CAUSE_HANDOVER_FAILURE | RLF_CAUSE_T304_EXPIRY
  | RLF_CAUSE_CONNECTION_RELEASE | RLF_CAUSE_PHYSICAL_LAYER_ERROR

datatype rlf_reest_result = RLF_REEST_SUCCESS | RLF_REEST_T301_EXPIRY | RLF_REEST_T311_EXPIRY
  | RLF_REEST_CELL_RESELECTION | RLF_REEST_CONNECTION_RELEASE | RLF_REEST_NO_SUITABLE_CELL
  | RLF_REEST_NETWORK_REJECT

record rlf_context =
  rl_state :: rlf_state
  detection_cause :: rlf_cause
  detection_time :: int
  out_of_sync_count :: u8
  in_sync_count :: u8
  t310_start :: u32
  t311_start :: u32
  t301_start :: u32
  t310_on :: bool
  t311_on :: bool
  t301_on :: bool
  t310_value_ms :: u32
  t311_value_ms :: u32
  t301_value_ms :: u32
  n310_threshold :: u8
  n311_threshold :: u8
  reest_attempt_count :: u8
  max_reest_attempts :: u8
  last_reest_result :: rlf_reest_result
  pre_rlf_state :: rrc_state
  pre_rlf_pci :: u32
  pre_rlf_cell_id :: u32
  pre_rlf_c_rnti :: u16
  total_rlf_count :: u64
  successful_recovery_count :: u64
  failed_recovery_count :: u64
  total_out_of_sync_indications :: u64
  total_in_sync_indications :: u64

datatype sync_indication = SYNC_INDICATION_OUT_OF_SYNC | SYNC_INDICATION_IN_SYNC

record rlf_sys = rrc_sys +
  rlf_ctx :: "rlf_context option"

section \<open>Names\<close>

fun rlf_state_to_string :: "rlf_state option \<Rightarrow> string" where
  "rlf_state_to_string None = ''UNKNOWN''"
| "rlf_state_to_string (Some RLF_STATE_NORMAL) = ''NORMAL''"
| "rlf_state_to_string (Some RLF_STATE_OUT_OF_SYNC) = ''OUT_OF_SYNC''"
| "rlf_state_to_string (Some RLF_STATE_T310_RUNNING) = ''T310_RUNNING''"
| "rlf_state_to_string (Some RLF_STATE_IN_SYNC_RECOVERY) = ''IN_SYNC_RECOVERY''"
| "rlf_state_to_string (Some RLF_STATE_DETECTED) = ''DETECTED''"
| "rlf_state_to_string (Some RLF_STATE_REESTABLISHING) = ''REESTABLISHING''"
| "rlf_state_to_string (Some RLF_STATE_RECOVERED) = ''RECOVERED''"
| "rlf_state_to_string (Some RLF_STATE_FAILED) = ''FAILED''"

fun rlf_cause_to_string :: "rlf_cause option \<Rightarrow> string" where
  "rlf_cause_to_string None = ''UNKNOWN''"
| "rlf_cause_to_string (Some RLF_CAUSE_NONE) = ''NONE''"
| "rlf_cause_to_string (Some RLF_CAUSE_T310_EXPIRY) = ''T310_EXPIRY''"
| "rlf_cause_to_string (Some RLF_CAUSE_RANDOM_ACCESS_FAILURE) = ''RANDOM_ACCESS_FAILURE''"
| "rlf_cause_to_string (Some RLF_CAUSE_RLC_MAX_RETX) = ''RLC_MAX_RETX''"
| "rlf_cause_to_string (Some RLF_CAUSE_HANDOVER_FAILURE) = ''HANDOVER_FAILURE''"
| "rlf_cause_to_string (Some RLF_CAUSE_T304_EXPIRY) = ''T304_EXPIRY''"
| "rlf_cause_to_string (Some RLF_CAUSE_CONNECTION_RELEASE) = ''CONNECTION_RELEASE''"
| "rlf_cause_to_string (Some RLF_CAUSE_PHYSICAL_LAYER_ERROR) = ''PHYSICAL_LAYER_ERROR''"

fun rlf_reest_result_to_string :: "rlf_reest_result option \<Rightarrow> string" where
  "rlf_reest_result_to_string None = ''UNKNOWN''"
| "rlf_reest_result_to_string (Some RLF_REEST_SUCCESS) = ''SUCCESS''"
| "rlf_reest_result_to_string (Some RLF_REEST_T301_EXPIRY) = ''T301_EXPIRY''"
| "rlf_reest_result_to_string (Some RLF_REEST_T311_EXPIRY) = ''T311_EXPIRY''"
| "rlf_reest_result_to_string (Some RLF_REEST_CELL_RESELECTION) = ''CELL_RESELECTION''"
| "rlf_reest_result_to_string (Some RLF_REEST_CONNECTION_RELEASE) = ''CONNECTION_RELEASE''"
| "rlf_reest_result_to_string (Some RLF_REEST_NO_SUITABLE_CELL) = ''NO_SUITABLE_CELL''"
| "rlf_reest_result_to_string (Some RLF_REEST_NETWORK_REJECT) = ''NETWORK_REJECT''"

section \<open>Creation and configuration\<close>

definition new_rlf :: rlf_context where
  "new_rlf = \<lparr>rl_state = RLF_STATE_NORMAL, detection_cause = RLF_CAUSE_NONE, detection_time = 0,
     out_of_sync_count = 0, in_sync_count = 0, t310_start = 0, t311_start = 0, t301_start = 0,
     t310_on = False, t311_on = False, t301_on = False, t310_value_ms = RLF_T310_DEFAULT_MS,
     t311_value_ms = RLF_T311_DEFAULT_MS, t301_value_ms = RLF_T301_DEFAULT_MS, n310_threshold = RLF_N310_MAX,
     n311_threshold = RLF_N311_MAX, reest_attempt_count = 0, max_reest_attempts = 3,
     last_reest_result = RLF_REEST_SUCCESS, pre_rlf_state = RRC_STATE_IDLE, pre_rlf_pci = 0, pre_rlf_cell_id = 0,
     pre_rlf_c_rnti = 0, total_rlf_count = 0, successful_recovery_count = 0, failed_recovery_count = 0,
     total_out_of_sync_indications = 0, total_in_sync_indications = 0\<rparr>"

definition rlf_create_context :: "os \<Rightarrow> bool \<Rightarrow> uesim_error + rlf_context" where
  "rlf_create_context s out = (if \<not> out then Inl UESIM_ERROR_INVALID_PARAM
     else if \<not> alloc_ok s 0 then Inl UESIM_ERROR_MEMORY
     else if \<not> init_ok s 0 \<or> \<not> init_ok s 1 then Inl UESIM_ERROR_THREAD
     else Inr new_rlf)"

definition rlf_init :: "os \<Rightarrow> 'z rlf_sys_scheme option \<Rightarrow> uesim_error \<times> 'z rlf_sys_scheme option" where
  "rlf_init s p = with_ptr p (\<lambda>w. case rlf_create_context s True of
     Inl e \<Rightarrow> (e, w) | Inr c \<Rightarrow> (UESIM_SUCCESS, w\<lparr>rlf_ctx := Some c\<rparr>))"

definition rlf_cleanup :: "'z rlf_sys_scheme option \<Rightarrow> 'z rlf_sys_scheme option" where
  "rlf_cleanup p = map_option (\<lambda>w. w\<lparr>rlf_ctx := None\<rparr>) p"

definition rlf_configure :: "os \<Rightarrow> u32 \<Rightarrow> u32 \<Rightarrow> u32 \<Rightarrow> u8 \<Rightarrow> u8 \<Rightarrow> rlf_context option
    \<Rightarrow> uesim_error \<times> rlf_context option" where
  "rlf_configure s t310 t311 t301 n310 n311 q = with_ptr q (\<lambda>c. locked s c (UESIM_SUCCESS,
     c\<lparr>t310_value_ms := t310, t311_value_ms := t311, t301_value_ms := t301,
       n310_threshold := n310, n311_threshold := n311\<rparr>))"

section \<open>Timers\<close>

text \<open>The guards of the operations: the UE, its context, and for some the mutex.\<close>

definition with_rlf :: "'z rlf_sys_scheme option \<Rightarrow> ('z rlf_sys_scheme \<Rightarrow> rlf_context
    \<Rightarrow> (uesim_error \<times> 'z rlf_sys_scheme option) option) \<Rightarrow> (uesim_error \<times> 'z rlf_sys_scheme option) option" where
  "with_rlf p f = (case p of None \<Rightarrow> Some (UESIM_ERROR_INVALID_PARAM, p) | Some w \<Rightarrow>
     (case rlf_ctx w of None \<Rightarrow> Some (UESIM_ERROR_NOT_INITIALIZED, p) | Some c \<Rightarrow> f w c))"

text \<open>An operation that changes the context under its mutex and does nothing else.\<close>

definition rlf_locked :: "os \<Rightarrow> ('z rlf_sys_scheme \<Rightarrow> rlf_context \<Rightarrow> rlf_context) \<Rightarrow> 'z rlf_sys_scheme option
    \<Rightarrow> uesim_error \<times> 'z rlf_sys_scheme option" where
  "rlf_locked s f p = with_ptr p (\<lambda>w. case rlf_ctx w of None \<Rightarrow> (UESIM_ERROR_NOT_INITIALIZED, w)
     | Some c \<Rightarrow> locked s w (UESIM_SUCCESS, w\<lparr>rlf_ctx := Some (f w c)\<rparr>))"

definition rlf_start_t310 :: "os \<Rightarrow> u32 \<Rightarrow> 'z rlf_sys_scheme option \<Rightarrow> uesim_error \<times> 'z rlf_sys_scheme option" where
  "rlf_start_t310 s ms = rlf_locked s (\<lambda>w c. c\<lparr>t310_start := ms, t310_on := True, rl_state := RLF_STATE_T310_RUNNING\<rparr>)"

definition rlf_stop_t310 :: "os \<Rightarrow> 'z rlf_sys_scheme option \<Rightarrow> uesim_error \<times> 'z rlf_sys_scheme option" where
  "rlf_stop_t310 s = rlf_locked s (\<lambda>w c. c\<lparr>t310_on := False, out_of_sync_count := 0\<rparr>)"

definition rlf_start_t311 :: "os \<Rightarrow> u32 \<Rightarrow> 'z rlf_sys_scheme option \<Rightarrow> uesim_error \<times> 'z rlf_sys_scheme option" where
  "rlf_start_t311 s ms = rlf_locked s (\<lambda>w c. c\<lparr>t311_start := ms, t311_on := True\<rparr>)"

definition rlf_stop_t311 :: "os \<Rightarrow> 'z rlf_sys_scheme option \<Rightarrow> uesim_error \<times> 'z rlf_sys_scheme option" where
  "rlf_stop_t311 s = rlf_locked s (\<lambda>w c. c\<lparr>t311_on := False\<rparr>)"

definition rlf_start_t301 :: "os \<Rightarrow> u32 \<Rightarrow> 'z rlf_sys_scheme option \<Rightarrow> uesim_error \<times> 'z rlf_sys_scheme option" where
  "rlf_start_t301 s ms = rlf_locked s (\<lambda>w c. c\<lparr>t301_start := ms, t301_on := True\<rparr>)"

definition rlf_stop_t301 :: "os \<Rightarrow> 'z rlf_sys_scheme option \<Rightarrow> uesim_error \<times> 'z rlf_sys_scheme option" where
  "rlf_stop_t301 s = rlf_locked s (\<lambda>w c. c\<lparr>t301_on := False\<rparr>)"

section \<open>Synchronisation\<close>

text \<open>
  An indication. When the in-sync threshold is reached, the code stops T310 with the mutex held: stopping
  locks the mutex again, and the call does not return.
\<close>

definition out_of_sync :: "os \<Rightarrow> u32 \<Rightarrow> 'z rlf_sys_scheme \<Rightarrow> rlf_context \<Rightarrow> 'z rlf_sys_scheme option" where
  "out_of_sync s ms w c = (let c1 = c\<lparr>total_out_of_sync_indications := total_out_of_sync_indications c + 1\<rparr> in
     if current_state (ue w) \<noteq> RRC_STATE_CONNECTED then Some (w\<lparr>rlf_ctx := Some c1\<rparr>)
     else let c2 = c1\<lparr>in_sync_count := 0\<rparr> in
       if rl_state c2 = RLF_STATE_NORMAL \<or> rl_state c2 = RLF_STATE_IN_SYNC_RECOVERY
       then let c3 = c2\<lparr>out_of_sync_count := out_of_sync_count c2 + 1, rl_state := RLF_STATE_OUT_OF_SYNC\<rparr>;
                w3 = w\<lparr>rlf_ctx := Some c3\<rparr>
            in if out_of_sync_count c3 \<ge> n310_threshold c3 \<and> \<not> t310_on c3
               then snd (rlf_start_t310 (after_locks 1 s) ms (Some w3)) else Some w3
       else Some (w\<lparr>rlf_ctx := Some c2\<rparr>))"

definition in_sync :: "rlf_context \<Rightarrow> rlf_context option" where
  "in_sync c = (let c1 = c\<lparr>total_in_sync_indications := total_in_sync_indications c + 1, out_of_sync_count := 0\<rparr> in
     if rl_state c1 = RLF_STATE_T310_RUNNING
     then let c2 = c1\<lparr>in_sync_count := in_sync_count c1 + 1, rl_state := RLF_STATE_IN_SYNC_RECOVERY\<rparr>
          in if in_sync_count c2 \<ge> n311_threshold c2 then None else Some c2
     else Some c1)"

definition rlf_handle_sync_indication :: "os \<Rightarrow> u32 \<Rightarrow> sync_indication \<Rightarrow> 'z rlf_sys_scheme option
    \<Rightarrow> (uesim_error \<times> 'z rlf_sys_scheme option) option" where
  "rlf_handle_sync_indication s ms i p = with_rlf p (\<lambda>w c.
     if \<not> lock_ok s 0 then Some (UESIM_ERROR_THREAD, p)
     else case i of
       SYNC_INDICATION_OUT_OF_SYNC \<Rightarrow> Some (UESIM_SUCCESS, out_of_sync s ms w c)
     | SYNC_INDICATION_IN_SYNC \<Rightarrow> map_option (\<lambda>c'. (UESIM_SUCCESS, Some (w\<lparr>rlf_ctx := Some c'\<rparr>))) (in_sync c))"

section \<open>Recovery\<close>

text \<open>\<open>at\<close> are the attempts of the re-establishment of the RRC layer.\<close>

definition rlf_start_reestablishment :: "rrc_env \<Rightarrow> u32 \<Rightarrow> (nat \<Rightarrow> rrc_attempt) \<Rightarrow> 'z rlf_sys_scheme option
    \<Rightarrow> (uesim_error \<times> 'z rlf_sys_scheme option) option" where
  "rlf_start_reestablishment e ms at p =
     (case rlf_locked (ev_os e) (\<lambda>w c. c\<lparr>rl_state := RLF_STATE_REESTABLISHING,
         reest_attempt_count := reest_attempt_count c + 1\<rparr>) p of (r, p1) \<Rightarrow>
       if r \<noteq> UESIM_SUCCESS then Some (r, p1)
       else rrc_execute_reestablishment (after_env 0 2 0 e) at
         (snd (rlf_start_t301 (after_locks 1 (ev_os e)) ms p1)))"

definition rlf_initiate_recovery :: "rrc_env \<Rightarrow> u32 \<Rightarrow> (nat \<Rightarrow> rrc_attempt) \<Rightarrow> 'z rlf_sys_scheme option
    \<Rightarrow> (uesim_error \<times> 'z rlf_sys_scheme option) option" where
  "rlf_initiate_recovery e ms at p = (if p = None then Some (UESIM_ERROR_INVALID_PARAM, p)
     else case rlf_start_t311 (ev_os e) ms p of (r, p1) \<Rightarrow>
       if r \<noteq> UESIM_SUCCESS then Some (r, p1) else rlf_start_reestablishment (after_env 0 1 0 e) ms at p1)"

definition rlf_declare_failure :: "rrc_env \<Rightarrow> u32 \<Rightarrow> (nat \<Rightarrow> rrc_attempt) \<Rightarrow> 'z rlf_sys_scheme option
    \<Rightarrow> (uesim_error \<times> 'z rlf_sys_scheme option) option" where
  "rlf_declare_failure e ms at p =
     (case rlf_locked (ev_os e) (\<lambda>w c. c\<lparr>t310_on := False, rl_state := RLF_STATE_DETECTED,
         detection_time := ev_now e, detection_cause := RLF_CAUSE_T310_EXPIRY,
         total_rlf_count := total_rlf_count c + 1, pre_rlf_state := current_state (ue w)\<rparr>) p of (r, p1) \<Rightarrow>
       if r \<noteq> UESIM_SUCCESS then Some (r, p1) else rlf_initiate_recovery (after_env 0 1 0 e) ms at p1)"

definition rlf_detect_failure :: "rrc_env \<Rightarrow> u32 \<Rightarrow> (nat \<Rightarrow> rrc_attempt) \<Rightarrow> rlf_cause option \<Rightarrow> 'z rlf_sys_scheme option
    \<Rightarrow> (uesim_error \<times> 'z rlf_sys_scheme option) option" where
  "rlf_detect_failure e ms at cause p = with_rlf p (\<lambda>w c. rlf_declare_failure e ms at p)"

definition rlf_is_detected :: "'z rlf_sys_scheme option \<Rightarrow> bool" where
  "rlf_is_detected p = (case p of None \<Rightarrow> False | Some w \<Rightarrow> (case rlf_ctx w of None \<Rightarrow> False
     | Some c \<Rightarrow> rl_state c = RLF_STATE_DETECTED \<or> rl_state c = RLF_STATE_REESTABLISHING))"

definition rlf_handle_t310_expiry :: "rrc_env \<Rightarrow> u32 \<Rightarrow> (nat \<Rightarrow> rrc_attempt) \<Rightarrow> 'z rlf_sys_scheme option
    \<Rightarrow> (uesim_error \<times> 'z rlf_sys_scheme option) option" where
  "rlf_handle_t310_expiry e ms at p = with_rlf p (\<lambda>w c. rlf_declare_failure e ms at p)"

definition rlf_go_to_idle :: "rrc_env \<Rightarrow> 'z rlf_sys_scheme option \<Rightarrow> uesim_error \<times> 'z rlf_sys_scheme option" where
  "rlf_go_to_idle e p = (if p = None then (UESIM_ERROR_INVALID_PARAM, p)
     else case rrc_change_state (ev_os e) (ev_now e) (Some RRC_STATE_IDLE) p of (r, p1) \<Rightarrow>
       if r \<noteq> UESIM_SUCCESS then (r, p1)
       else (UESIM_SUCCESS, map_option (\<lambda>w. w\<lparr>rlf_ctx := map_option (\<lambda>c. c\<lparr>rl_state := RLF_STATE_NORMAL,
         out_of_sync_count := 0, in_sync_count := 0, reest_attempt_count := 0\<rparr>) (rlf_ctx w)\<rparr>) p1))"

definition rlf_abort_recovery :: "rrc_env \<Rightarrow> rlf_reest_result \<Rightarrow> 'z rlf_sys_scheme option
    \<Rightarrow> uesim_error \<times> 'z rlf_sys_scheme option" where
  "rlf_abort_recovery e res p =
     (case rlf_locked (ev_os e) (\<lambda>w c. c\<lparr>t310_on := False, t311_on := False, t301_on := False,
         rl_state := RLF_STATE_FAILED, failed_recovery_count := failed_recovery_count c + 1,
         last_reest_result := res\<rparr>) p of (r, p1) \<Rightarrow>
       if r \<noteq> UESIM_SUCCESS then (r, p1) else rlf_go_to_idle (after_env 0 1 0 e) p1)"

text \<open>After the recovery the state is set to normal outside the lock; the intermediate state is overwritten.\<close>

definition rlf_complete_recovery :: "rrc_env \<Rightarrow> 'z rlf_sys_scheme option \<Rightarrow> uesim_error \<times> 'z rlf_sys_scheme option" where
  "rlf_complete_recovery e p = rlf_locked (ev_os e) (\<lambda>w c. (c\<lparr>t310_on := False, t311_on := False, t301_on := False,
     rl_state := RLF_STATE_RECOVERED, successful_recovery_count := successful_recovery_count c + 1,
     reest_attempt_count := 0\<rparr>)\<lparr>rl_state := RLF_STATE_NORMAL\<rparr>) p"

definition rlf_handle_reestablishment_response :: "rrc_env \<Rightarrow> bool \<Rightarrow> 'z rlf_sys_scheme option
    \<Rightarrow> (uesim_error \<times> 'z rlf_sys_scheme option) option" where
  "rlf_handle_reestablishment_response e success p = with_rlf p (\<lambda>w c. Some
     (if success then rlf_complete_recovery e p else rlf_abort_recovery e RLF_REEST_NETWORK_REJECT p))"

definition rlf_handle_t311_expiry :: "rrc_env \<Rightarrow> 'z rlf_sys_scheme option \<Rightarrow> uesim_error \<times> 'z rlf_sys_scheme option" where
  "rlf_handle_t311_expiry e p = (if p = None then (UESIM_ERROR_INVALID_PARAM, p)
     else rlf_abort_recovery e RLF_REEST_T311_EXPIRY p)"

definition rlf_handle_t301_expiry :: "rrc_env \<Rightarrow> u32 \<Rightarrow> (nat \<Rightarrow> rrc_attempt) \<Rightarrow> 'z rlf_sys_scheme option
    \<Rightarrow> (uesim_error \<times> 'z rlf_sys_scheme option) option" where
  "rlf_handle_t301_expiry e ms at p = with_rlf p (\<lambda>w c.
     if reest_attempt_count c < max_reest_attempts c then rlf_start_reestablishment e ms at p
     else Some (rlf_abort_recovery e RLF_REEST_T301_EXPIRY p))"

section \<open>State and statistics\<close>

definition rlf_backup_state :: "os \<Rightarrow> 'z rlf_sys_scheme option \<Rightarrow> uesim_error \<times> 'z rlf_sys_scheme option" where
  "rlf_backup_state s = rlf_locked s (\<lambda>w c. let c1 = c\<lparr>pre_rlf_state := current_state (ue w)\<rparr> in
     case serving_gnb (ue w) of None \<Rightarrow> c1 | Some a \<Rightarrow> c1\<lparr>pre_rlf_pci := ucast (cell_id (gnb_at w a))\<rparr>)"

definition rlf_restore_state :: "rrc_env \<Rightarrow> 'z rlf_sys_scheme option
    \<Rightarrow> (uesim_error \<times> 'z rlf_sys_scheme option) option" where
  "rlf_restore_state e p = with_rlf p (\<lambda>w c.
     Some (rrc_change_state (ev_os e) (ev_now e) (Some (pre_rlf_state c)) p))"

definition rlf_trigger_cell_reselection :: "rrc_env \<Rightarrow> 'z rlf_sys_scheme option
    \<Rightarrow> uesim_error \<times> 'z rlf_sys_scheme option" where
  "rlf_trigger_cell_reselection e p = (if p = None then (UESIM_ERROR_INVALID_PARAM, p) else rlf_go_to_idle e p)"

definition rlf_get_state :: "'z rlf_sys_scheme option \<Rightarrow> rlf_state" where
  "rlf_get_state p = (case p of None \<Rightarrow> RLF_STATE_NORMAL | Some w \<Rightarrow>
     (case rlf_ctx w of None \<Rightarrow> RLF_STATE_NORMAL | Some c \<Rightarrow> rl_state c))"

text \<open>
  The periodic check: one timer that has run out is stopped under the mutex. Which one it was is told
  afterwards from the start times and the flags.
\<close>

datatype rlf_expiry = No_Expiry | T310_Expiry | Other_Expiry

definition stop_expired :: "u32 \<Rightarrow> rlf_context \<Rightarrow> rlf_expiry \<times> rlf_context" where
  "stop_expired ms c =
     (if t310_on c \<and> ms - t310_start c \<ge> t310_value_ms c then (T310_Expiry, c\<lparr>t310_on := False\<rparr>)
      else if t311_on c \<and> ms - t311_start c \<ge> t311_value_ms c then (Other_Expiry, c\<lparr>t311_on := False\<rparr>)
      else if t301_on c \<and> ms - t301_start c \<ge> t301_value_ms c then (Other_Expiry, c\<lparr>t301_on := False\<rparr>)
      else (No_Expiry, c))"

definition rlf_check_timers :: "rrc_env \<Rightarrow> u32 \<Rightarrow> (nat \<Rightarrow> rrc_attempt) \<Rightarrow> 'z rlf_sys_scheme option
    \<Rightarrow> (uesim_error \<times> 'z rlf_sys_scheme option) option" where
  "rlf_check_timers e ms at p = with_rlf p (\<lambda>w c.
     if \<not> lock_ok (ev_os e) 0 then Some (UESIM_ERROR_THREAD, p)
     else case stop_expired ms c of (x, c1) \<Rightarrow>
       let p1 = Some (w\<lparr>rlf_ctx := Some c1\<rparr>); e1 = after_env 0 1 0 e in
       case x of
         No_Expiry \<Rightarrow> Some (UESIM_SUCCESS, p1)
       | T310_Expiry \<Rightarrow> rlf_handle_t310_expiry e1 ms at p1
       | Other_Expiry \<Rightarrow>
           if t311_start c1 > 0 \<and> \<not> t311_on c1 then Some (rlf_handle_t311_expiry e1 p1)
           else if t301_start c1 > 0 \<and> \<not> t301_on c1 then rlf_handle_t301_expiry e1 ms at p1
           else Some (UESIM_SUCCESS, p1))"

definition rlf_get_stats :: "os \<Rightarrow> 'z rlf_sys_scheme option \<Rightarrow> uesim_error + u64 \<times> u64 \<times> u64" where
  "rlf_get_stats s p = (case p of None \<Rightarrow> Inl UESIM_ERROR_INVALID_PARAM | Some w \<Rightarrow>
     (case rlf_ctx w of None \<Rightarrow> Inl UESIM_ERROR_NOT_INITIALIZED | Some c \<Rightarrow>
       if lock_ok s 0 then Inr (total_rlf_count c, successful_recovery_count c, failed_recovery_count c)
       else Inl UESIM_ERROR_THREAD))"

definition rlf_reset_stats :: "os \<Rightarrow> 'z rlf_sys_scheme option \<Rightarrow> uesim_error \<times> 'z rlf_sys_scheme option" where
  "rlf_reset_stats s = rlf_locked s (\<lambda>w c. c\<lparr>total_rlf_count := 0, successful_recovery_count := 0,
     failed_recovery_count := 0, total_out_of_sync_indications := 0, total_in_sync_indications := 0\<rparr>)"

end
