(* ===== verification/Rlf_Proofs.thy ===== *)
theory Rlf_Proofs
  imports Rlf Rrc_Proofs
begin

text \<open>
  What the detection of radio link failures does: T310 once started is never stopped by the radio link, a
  threshold of more than one out-of-sync indication is never reached, and the recovery is refused by RRC.
\<close>

section \<open>Sequences of indications\<close>

text \<open>The indications with the time of each; the locks succeed.\<close>

primrec sync_run :: "(u32 \<times> sync_indication) list \<Rightarrow> 'z rlf_sys_scheme \<Rightarrow> 'z rlf_sys_scheme option" where
  "sync_run [] w = Some w"
| "sync_run (x # xs) w = do {
     (r, p) \<leftarrow> rlf_handle_sync_indication good_os (fst x) (snd x) (Some w);
     sync_run xs (the p) }"

text \<open>What one indication does to a connected UE, on the context alone; and the frame.\<close>

definition sync_step :: "u32 \<Rightarrow> sync_indication \<Rightarrow> rlf_context \<Rightarrow> rlf_context option" where
  "sync_step ms i c = (case i of
     SYNC_INDICATION_IN_SYNC \<Rightarrow> in_sync c
   | SYNC_INDICATION_OUT_OF_SYNC \<Rightarrow> Some (let
       c2 = c\<lparr>total_out_of_sync_indications := total_out_of_sync_indications c + 1, in_sync_count := 0\<rparr> in
       if rl_state c = RLF_STATE_NORMAL \<or> rl_state c = RLF_STATE_IN_SYNC_RECOVERY
       then let c3 = c2\<lparr>out_of_sync_count := out_of_sync_count c + 1, rl_state := RLF_STATE_OUT_OF_SYNC\<rparr>
            in if out_of_sync_count c3 \<ge> n310_threshold c \<and> \<not> t310_on c
               then c3\<lparr>t310_start := ms, t310_on := True, rl_state := RLF_STATE_T310_RUNNING\<rparr> else c3
       else c2))"

lemma sync_run_step:
  assumes "current_state (ue w) = RRC_STATE_CONNECTED" and "rlf_ctx w = Some c"
  shows "sync_run (x # xs) w = (case sync_step (fst x) (snd x) c of None \<Rightarrow> None
    | Some c' \<Rightarrow> sync_run xs (w\<lparr>rlf_ctx := Some c'\<rparr>))"
  using assms
  by (cases "snd x") (simp_all add: sync_run.simps(2) rlf_handle_sync_indication_def with_rlf_def out_of_sync_def sync_step_def
      rlf_start_t310_def rlf_locked_def Let_def split: option.split)

declare sync_run.simps(2) [simp del]

text \<open>An invariant of the context that every step keeps holds at the end of a run, and all calls return.\<close>

lemma sync_run_inv:
  assumes "\<And>ms i c. P c \<Longrightarrow> \<exists>c'. sync_step ms i c = Some c' \<and> P c'"
    and "current_state (ue w) = RRC_STATE_CONNECTED" and "rlf_ctx w = Some c" and "P c"
  shows "\<exists>c'. sync_run xs w = Some (w\<lparr>rlf_ctx := Some c'\<rparr>) \<and> P c'"
  using assms(2-4)
proof (induction xs arbitrary: w c)
  case Nil
  then show ?case by (intro exI [of _ c]) simp
next
  case (Cons x xs)
  obtain c' where c': "sync_step (fst x) (snd x) c = Some c'" "P c'" using assms(1) [OF Cons.prems(3)] by blast
  show ?case
    using Cons.IH [of "w\<lparr>rlf_ctx := Some c'\<rparr>" c'] Cons.prems c'
    by (simp add: sync_run_step [OF Cons.prems(1,2)])
qed

section \<open>T310 is never stopped\<close>

definition t310_pending :: "u32 \<Rightarrow> u32 \<Rightarrow> u64 \<Rightarrow> rlf_context \<Rightarrow> bool" where
  "t310_pending start val tot c \<longleftrightarrow> t310_on c \<and> t310_start c = start \<and> t310_value_ms c = val
     \<and> total_rlf_count c = tot \<and> n311_threshold c \<ge> 2
     \<and> rl_state c \<in> {RLF_STATE_T310_RUNNING, RLF_STATE_IN_SYNC_RECOVERY, RLF_STATE_OUT_OF_SYNC}
     \<and> (rl_state c = RLF_STATE_T310_RUNNING \<longrightarrow> in_sync_count c = 0)"

lemma t310_pending_step: "t310_pending a b n c \<Longrightarrow> \<exists>c'. sync_step ms i c = Some c' \<and> t310_pending a b n c'"
  by (cases i) (auto simp: t310_pending_def sync_step_def in_sync_def Let_def word_le_nat_alt)

text \<open>A re-establishment of a connected UE is refused by the table of transitions.\<close>

lemma connected_refused:
  assumes "current_state (ue w) = RRC_STATE_CONNECTED" and "good_os = ev_os e"
  shows "rrc_execute_reestablishment e at (Some w) = Some (UESIM_ERROR_PROTOCOL, Some (snd (next_transaction w)))"
  using assms(1) assms(2) [symmetric]
  by (simp add: rrc_execute_reestablishment_def rrc_get_current_state_def rrc_start_procedure_def next_transaction_def
      rrc_change_state_def rrc_is_valid_state_transition_def g_valid_state_transitions_def Let_def)

lemma after_env_good [simp]: "ev_os e = good_os \<Longrightarrow> ev_os (after_env i j k e) = good_os"
  by (simp add: after_env_def after_allocs_def after_locks_def good_os_def)

text \<open>A declared failure of a connected UE: the recovery begins and its first step is refused.\<close>

lemma declare_connected:
  assumes "current_state (ue w) = RRC_STATE_CONNECTED" and "rlf_ctx w = Some c" and "ev_os e = good_os"
  shows "\<exists>c' i. rlf_declare_failure e ms at (Some w) = Some (UESIM_ERROR_PROTOCOL,
      Some (w\<lparr>rlf_ctx := Some c', g_transaction_id_counter := i\<rparr>))
    \<and> rl_state c' = RLF_STATE_REESTABLISHING \<and> total_rlf_count c' = total_rlf_count c + 1
    \<and> t311_on c' \<and> t301_on c' \<and> \<not> t310_on c' \<and> reest_attempt_count c' = reest_attempt_count c + 1"
  using assms
  by (simp add: rlf_declare_failure_def rlf_initiate_recovery_def rlf_start_reestablishment_def rlf_start_t311_def
      rlf_start_t301_def rlf_locked_def connected_refused next_transaction_def)
    (intro exI conjI, rule refl, simp_all)

text \<open>
  C29. A radio link does not recover. From the moment T310 runs, with an in-sync threshold of at least two as
  the default is, whatever indications arrive - be they all in-sync - every call returns and the timer keeps
  running: the check at its end declares the failure, and the re-establishment that follows is refused
  before anything is sent.
\<close>

theorem rlf_link_never_recovers:
  assumes "current_state (ue w) = RRC_STATE_CONNECTED" and "rlf_ctx w = Some c"
    and "t310_on c" and "rl_state c = RLF_STATE_T310_RUNNING" and "in_sync_count c = 0" and "n311_threshold c \<ge> 2"
    and "ms - t310_start c \<ge> t310_value_ms c" and "ev_os e = good_os"
  shows "\<exists>w1 w2 c2. sync_run xs w = Some w1
    \<and> rlf_check_timers e ms at (Some w1) = Some (UESIM_ERROR_PROTOCOL, Some w2)
    \<and> rlf_ctx w2 = Some c2 \<and> rl_state c2 = RLF_STATE_REESTABLISHING \<and> total_rlf_count c2 = total_rlf_count c + 1
    \<and> ue w2 = ue w \<and> sent w2 = sent w"
proof -
  have "t310_pending (t310_start c) (t310_value_ms c) (total_rlf_count c) c"
    using assms by (simp add: t310_pending_def)
  from sync_run_inv [OF t310_pending_step assms(1,2) this] obtain c1 where
    run: "sync_run xs w = Some (w\<lparr>rlf_ctx := Some c1\<rparr>)"
    and c1: "t310_pending (t310_start c) (t310_value_ms c) (total_rlf_count c) c1" by blast
  then have stop: "stop_expired ms c1 = (T310_Expiry, c1\<lparr>t310_on := False\<rparr>)"
    using assms(7) by (simp add: stop_expired_def t310_pending_def)
  let ?w = "w\<lparr>rlf_ctx := Some (c1\<lparr>t310_on := False\<rparr>)\<rparr>"
  obtain c2 i where "rlf_declare_failure (after_env 0 1 0 e) ms at (Some ?w) = Some (UESIM_ERROR_PROTOCOL,
      Some (?w\<lparr>rlf_ctx := Some c2, g_transaction_id_counter := i\<rparr>))"
    "rl_state c2 = RLF_STATE_REESTABLISHING" "total_rlf_count c2 = total_rlf_count c + 1"
    using declare_connected [of ?w "c1\<lparr>t310_on := False\<rparr>" "after_env 0 1 0 e" ms at] assms(1,8) c1
    by (auto simp: t310_pending_def)
  then show ?thesis
    using run stop assms(8) by (simp add: rlf_check_timers_def with_rlf_def rlf_handle_t310_expiry_def Let_def)
qed

text \<open>With a threshold of one the first in-sync indication does not return.\<close>

lemma in_sync_deadlock:
  assumes "rlf_ctx w = Some c" and "rl_state c = RLF_STATE_T310_RUNNING" and "in_sync_count c = 0"
    and "n311_threshold c \<le> 1" and "lock_ok s 0"
  shows "rlf_handle_sync_indication s ms SYNC_INDICATION_IN_SYNC (Some w) = None"
  using assms by (simp add: rlf_handle_sync_indication_def with_rlf_def in_sync_def Let_def)

text \<open>
  A failure is not detected when more than one out-of-sync indication is asked for. From the normal
  state, with an out-of-sync threshold of at least two, no sequence of indications starts T310: only the
  first of a series is counted, and the state it leads to is never left.
\<close>

theorem rlf_threshold_never_reached:
  assumes "current_state (ue w) = RRC_STATE_CONNECTED" and "rlf_ctx w = Some c"
    and "rl_state c = RLF_STATE_NORMAL" and "out_of_sync_count c = 0" and "\<not> t310_on c" and "n310_threshold c \<ge> 2"
  shows "\<exists>w' c'. sync_run xs w = Some w' \<and> rlf_ctx w' = Some c' \<and> \<not> t310_on c'
    \<and> rl_state c' \<in> {RLF_STATE_NORMAL, RLF_STATE_OUT_OF_SYNC} \<and> total_rlf_count c' = total_rlf_count c"
proof -
  let ?P = "\<lambda>x. \<not> t310_on x \<and> n310_threshold x \<ge> 2 \<and> total_rlf_count x = total_rlf_count c \<and>
    (rl_state x = RLF_STATE_NORMAL \<and> out_of_sync_count x = 0 \<or> rl_state x = RLF_STATE_OUT_OF_SYNC)"
  have "\<exists>c'. sync_step ms i x = Some c' \<and> ?P c'" if "?P x" for ms i x
    using that by (cases i) (auto simp: sync_step_def in_sync_def Let_def word_le_nat_alt)
  moreover have "?P c" using assms by simp
  ultimately have "\<exists>c'. sync_run xs w = Some (w\<lparr>rlf_ctx := Some c'\<rparr>) \<and> ?P c'"
    using sync_run_inv [of ?P w c xs] assms(1,2) by blast
  then obtain c' where "sync_run xs w = Some (w\<lparr>rlf_ctx := Some c'\<rparr>)" "?P c'" by blast
  then show ?thesis by (intro exI [of _ "w\<lparr>rlf_ctx := Some c'\<rparr>"] exI [of _ c']) auto
qed

definition rlf_example :: "rlf_context \<Rightarrow> rlf_sys" where
  "rlf_example c = rrc_sys.extend (rrc_example\<lparr>ue := (ue rrc_example)\<lparr>current_state := RRC_STATE_CONNECTED\<rparr>\<rparr>) \<lparr>rlf_ctx = Some c\<rparr>"

lemma rlf_example_simps [simp]:
  "current_state (ue (rlf_example c)) = RRC_STATE_CONNECTED" "rlf_ctx (rlf_example c) = Some c"
  by (simp_all add: rlf_example_def rrc_sys.defs)

lemma rlf_link_never_recovers_witness:
  "\<exists>w1 w2. sync_run (replicate 5 (20, SYNC_INDICATION_IN_SYNC))
      (rlf_example (new_rlf\<lparr>rl_state := RLF_STATE_T310_RUNNING, t310_on := True, t310_start := 10\<rparr>)) = Some w1
    \<and> rlf_check_timers env_example 1010 (\<lambda>_. \<lparr>at_env = env_example, at_lock = True, at_wakes = [], at_incoming = []\<rparr>)
      (Some w1) = Some (UESIM_ERROR_PROTOCOL, Some w2)"
proof -
  let ?c = "new_rlf\<lparr>rl_state := RLF_STATE_T310_RUNNING, t310_on := True, t310_start := 10\<rparr>"
  have "t310_on ?c" "rl_state ?c = RLF_STATE_T310_RUNNING" "in_sync_count ?c = 0" "n311_threshold ?c \<ge> 2"
    "1010 - t310_start ?c \<ge> t310_value_ms ?c" "ev_os env_example = good_os"
    by (simp_all add: new_rlf_def RLF_N311_MAX_def RLF_T310_DEFAULT_MS_def env_example_def)
  from rlf_link_never_recovers [OF rlf_example_simps(1) rlf_example_simps(2) this] show ?thesis by blast
qed

lemma rlf_threshold_never_reached_witness:
  "\<exists>w' c'. sync_run (replicate 5 (20, SYNC_INDICATION_OUT_OF_SYNC)) (rlf_example (new_rlf\<lparr>n310_threshold := 3\<rparr>)) = Some w'
    \<and> rlf_ctx w' = Some c' \<and> \<not> t310_on c'"
proof -
  let ?c = "new_rlf\<lparr>n310_threshold := 3\<rparr>"
  have "rl_state ?c = RLF_STATE_NORMAL" "out_of_sync_count ?c = 0" "\<not> t310_on ?c" "n310_threshold ?c \<ge> 2"
    by (simp_all add: new_rlf_def)
  from rlf_threshold_never_reached [OF rlf_example_simps(1) rlf_example_simps(2) this] show ?thesis by blast
qed

end
