(* ===== verification/Resource_Tracker.thy ===== *)
theory Resource_Tracker
  imports Prelude
begin

text \<open>
  The tracker of resources (\<^verbatim>\<open>src/core/resource_tracker.c\<close>): a table of entries that only grows, the
  statistics over it, releasing by handle, owner and type, and the search for leaks.

  A handle is a 64-bit value, 0 the null pointer. Of the table the entries that have been used are kept, as a
  list. \<open>released\<close> is the log of what has been freed, closed or destroyed. A result \<open>None\<close> means that the call
  does not return, because it locks the mutex that it holds.
\<close>

section \<open>State\<close>

definition RESOURCE_TRACKER_MAX_ENTRIES :: nat where "RESOURCE_TRACKER_MAX_ENTRIES = 4096"
definition RESOURCE_TRACKER_MAX_NAME_LEN :: nat where "RESOURCE_TRACKER_MAX_NAME_LEN = 32"

datatype resource_type = RESOURCE_TYPE_MEMORY | RESOURCE_TYPE_SOCKET | RESOURCE_TYPE_THREAD
  | RESOURCE_TYPE_MUTEX | RESOURCE_TYPE_COND | RESOURCE_TYPE_TIMER | RESOURCE_TYPE_CONTEXT
  | RESOURCE_TYPE_BUFFER | RESOURCE_TYPE_FILE

datatype resource_state = RESOURCE_STATE_ACTIVE | RESOURCE_STATE_RELEASED | RESOURCE_STATE_LEAKED

datatype resource_error = RESOURCE_SUCCESS | RESOURCE_ERROR_INVALID_PARAM | RESOURCE_ERROR_NOT_FOUND
  | RESOURCE_ERROR_CAPACITY | RESOURCE_ERROR_ALREADY_TRACKED | RESOURCE_ERROR_NOT_INITIALIZED

record resource_entry =
  re_type :: resource_type
  re_state :: resource_state
  re_handle :: u64
  re_name :: string
  re_owner :: u32
  re_size :: u32
  alloc_time_ms :: u64
  re_flags :: u32

record resource_stats =
  total_allocated :: u32
  total_released :: u32
  current_active :: u32
  memory_bytes_allocated :: u32
  memory_bytes_active :: u32
  sockets_open :: u32
  threads_running :: u32
  leaks_detected :: u32

record resource_sys =
  g_resources :: "resource_entry list"
  g_stats :: resource_stats
  g_initialized :: bool
  released :: "(resource_type \<times> u64) list"

definition zero_resource_stats :: resource_stats where
  "zero_resource_stats = \<lparr>total_allocated = 0, total_released = 0, current_active = 0, memory_bytes_allocated = 0,
     memory_bytes_active = 0, sockets_open = 0, threads_running = 0, leaks_detected = 0\<rparr>"

section \<open>Entries\<close>

abbreviation active :: "resource_entry \<Rightarrow> bool" where
  "active r \<equiv> re_state r = RESOURCE_STATE_ACTIVE"

definition find_resource_index :: "u64 \<Rightarrow> resource_sys \<Rightarrow> nat option" where
  "find_resource_index h w = find_index (\<lambda>r. re_handle r = h \<and> active r) (g_resources w)"

text \<open>The types whose size is counted as memory.\<close>

definition is_memory :: "resource_type \<Rightarrow> bool" where
  "is_memory t \<longleftrightarrow> t = RESOURCE_TYPE_MEMORY \<or> t = RESOURCE_TYPE_BUFFER"

text \<open>A counter that is not decremented below zero.\<close>

definition dec :: "u32 \<Rightarrow> u32" where
  "dec n = (if n > 0 then n - 1 else n)"

text \<open>What is given back to the system when an entry is released; timers, files and threads are not.\<close>

definition given_back :: "resource_entry \<Rightarrow> (resource_type \<times> u64) list" where
  "given_back r = (case re_type r of
     RESOURCE_TYPE_SOCKET \<Rightarrow> if 0 \<le> sint (re_handle r) then [(re_type r, re_handle r)] else []
   | RESOURCE_TYPE_THREAD \<Rightarrow> [] | RESOURCE_TYPE_TIMER \<Rightarrow> [] | RESOURCE_TYPE_FILE \<Rightarrow> []
   | _ \<Rightarrow> if re_handle r \<noteq> 0 then [(re_type r, re_handle r)] else [])"

definition release_resource_internal :: "nat \<Rightarrow> resource_sys \<Rightarrow> resource_sys" where
  "release_resource_internal i w = (let r = g_resources w ! i; s = g_stats w in
     if \<not> active r then w
     else let
       s1 = s\<lparr>total_released := total_released s + 1, current_active := current_active s - 1\<rparr>;
       s2 = (if is_memory (re_type r) then s1\<lparr>memory_bytes_active := memory_bytes_active s1 - re_size r\<rparr> else s1);
       s3 = (if re_type r = RESOURCE_TYPE_SOCKET then s2\<lparr>sockets_open := dec (sockets_open s2)\<rparr> else s2);
       s4 = (if re_type r = RESOURCE_TYPE_THREAD then s3\<lparr>threads_running := dec (threads_running s3)\<rparr> else s3)
       in w\<lparr>g_resources := (g_resources w)[i := r\<lparr>re_state := RESOURCE_STATE_RELEASED\<rparr>], g_stats := s4,
         released := released w @ given_back r\<rparr>)"

text \<open>The loops that release the active entries with a property and count them.\<close>

definition release_turn :: "(resource_entry \<Rightarrow> bool) \<Rightarrow> nat \<Rightarrow> u32 \<times> resource_sys \<Rightarrow> u32 \<times> resource_sys" where
  "release_turn P i x = (case x of (n, w) \<Rightarrow> let r = g_resources w ! i in
     if P r \<and> active r then (n + 1, release_resource_internal i w) else (n, w))"

definition release_where :: "(resource_entry \<Rightarrow> bool) \<Rightarrow> resource_sys \<Rightarrow> u32 \<times> resource_sys" where
  "release_where P w = fold (release_turn P) [0..<length (g_resources w)] (0, w)"

section \<open>Operations\<close>

definition resource_tracker_init :: "resource_sys \<Rightarrow> resource_error \<times> resource_sys" where
  "resource_tracker_init w = (RESOURCE_SUCCESS, if g_initialized w then w
     else w\<lparr>g_resources := [], g_stats := zero_resource_stats, g_initialized := True\<rparr>)"

definition resource_tracker_cleanup :: "resource_sys \<Rightarrow> resource_sys" where
  "resource_tracker_cleanup w = (if \<not> g_initialized w then w
     else (snd (release_where (\<lambda>r. True) w))\<lparr>g_resources := [], g_initialized := False\<rparr>)"

definition resource_tracker_is_initialized :: "resource_sys \<Rightarrow> bool" where
  "resource_tracker_is_initialized w = g_initialized w"

text \<open>\<open>now\<close> is the time in milliseconds.\<close>

definition resource_track :: "u64 \<Rightarrow> resource_type \<Rightarrow> u64 \<Rightarrow> string option \<Rightarrow> u32 \<Rightarrow> u32 \<Rightarrow> resource_sys
    \<Rightarrow> resource_error \<times> resource_sys" where
  "resource_track now t h name owner sz w =
     (if \<not> g_initialized w then (RESOURCE_ERROR_NOT_INITIALIZED, w)
      else if h = 0 \<and> t \<noteq> RESOURCE_TYPE_MUTEX \<and> t \<noteq> RESOURCE_TYPE_COND then (RESOURCE_ERROR_INVALID_PARAM, w)
      else if find_resource_index h w \<noteq> None then (RESOURCE_ERROR_ALREADY_TRACKED, w)
      else if length (g_resources w) \<ge> RESOURCE_TRACKER_MAX_ENTRIES then (RESOURCE_ERROR_CAPACITY, w)
      else let
        r = \<lparr>re_type = t, re_state = RESOURCE_STATE_ACTIVE, re_handle = h,
          re_name = (case name of None \<Rightarrow> [] | Some n \<Rightarrow> take (RESOURCE_TRACKER_MAX_NAME_LEN - 1) n),
          re_owner = owner, re_size = sz, alloc_time_ms = now, re_flags = 0\<rparr>;
        s = g_stats w;
        s1 = s\<lparr>total_allocated := total_allocated s + 1, current_active := current_active s + 1\<rparr>;
        s2 = (if is_memory t then s1\<lparr>memory_bytes_allocated := memory_bytes_allocated s1 + sz,
          memory_bytes_active := memory_bytes_active s1 + sz\<rparr> else s1);
        s3 = (if t = RESOURCE_TYPE_SOCKET then s2\<lparr>sockets_open := sockets_open s2 + 1\<rparr> else s2);
        s4 = (if t = RESOURCE_TYPE_THREAD then s3\<lparr>threads_running := threads_running s3 + 1\<rparr> else s3)
        in (RESOURCE_SUCCESS, w\<lparr>g_resources := g_resources w @ [r], g_stats := s4\<rparr>))"

text \<open>The guards of the operations on one tracked handle.\<close>

definition on_tracked :: "u64 \<Rightarrow> (nat \<Rightarrow> resource_sys \<Rightarrow> resource_sys) \<Rightarrow> resource_sys \<Rightarrow> resource_error \<times> resource_sys" where
  "on_tracked h f w = (if \<not> g_initialized w then (RESOURCE_ERROR_NOT_INITIALIZED, w)
     else if h = 0 then (RESOURCE_ERROR_INVALID_PARAM, w)
     else case find_resource_index h w of None \<Rightarrow> (RESOURCE_ERROR_NOT_FOUND, w)
     | Some i \<Rightarrow> (RESOURCE_SUCCESS, f i w))"

definition untrack_entry :: "nat \<Rightarrow> resource_sys \<Rightarrow> resource_sys" where
  "untrack_entry i w = (let r = g_resources w ! i; s = g_stats w;
     s1 = s\<lparr>total_released := total_released s + 1, current_active := dec (current_active s)\<rparr>;
     s2 = (if is_memory (re_type r) \<and> memory_bytes_active s1 \<ge> re_size r
       then s1\<lparr>memory_bytes_active := memory_bytes_active s1 - re_size r\<rparr> else s1);
     s3 = (if re_type r = RESOURCE_TYPE_SOCKET then s2\<lparr>sockets_open := dec (sockets_open s2)\<rparr> else s2);
     s4 = (if re_type r = RESOURCE_TYPE_THREAD then s3\<lparr>threads_running := dec (threads_running s3)\<rparr> else s3)
     in w\<lparr>g_resources := (g_resources w)[i := r\<lparr>re_state := RESOURCE_STATE_RELEASED\<rparr>], g_stats := s4\<rparr>)"

definition resource_untrack :: "u64 \<Rightarrow> resource_sys \<Rightarrow> resource_error \<times> resource_sys" where
  "resource_untrack h w = on_tracked h untrack_entry w"

definition resource_update_state :: "u64 \<Rightarrow> resource_state \<Rightarrow> resource_sys \<Rightarrow> resource_error \<times> resource_sys" where
  "resource_update_state h st w = on_tracked h (\<lambda>i w.
     w\<lparr>g_resources := (g_resources w)[i := (g_resources w ! i)\<lparr>re_state := st\<rparr>]\<rparr>) w"

definition resource_release :: "u64 \<Rightarrow> resource_sys \<Rightarrow> resource_error \<times> resource_sys" where
  "resource_release h w = on_tracked h release_resource_internal w"

definition resource_cleanup_by_owner :: "u32 \<Rightarrow> resource_sys \<Rightarrow> u32 \<times> resource_sys" where
  "resource_cleanup_by_owner owner w =
     (if g_initialized w then release_where (\<lambda>r. re_owner r = owner) w else (0, w))"

definition resource_cleanup_by_type :: "resource_type \<Rightarrow> resource_sys \<Rightarrow> u32 \<times> resource_sys" where
  "resource_cleanup_by_type t w =
     (if g_initialized w then release_where (\<lambda>r. re_type r = t) w else (0, w))"

definition resource_find :: "u64 \<Rightarrow> resource_sys \<Rightarrow> resource_entry option" where
  "resource_find h w = (if \<not> g_initialized w \<or> h = 0 then None
     else map_option (\<lambda>i. g_resources w ! i) (find_resource_index h w))"

definition resource_get_stats :: "bool \<Rightarrow> resource_sys \<Rightarrow> resource_error + resource_stats" where
  "resource_get_stats out w = (if \<not> g_initialized w then Inl RESOURCE_ERROR_NOT_INITIALIZED
     else if \<not> out then Inl RESOURCE_ERROR_INVALID_PARAM else Inr (g_stats w))"

definition resource_check_leaks :: "resource_sys \<Rightarrow> u32 \<times> resource_sys" where
  "resource_check_leaks w = (if \<not> g_initialized w then (0, w)
     else let n = of_nat (length (filter active (g_resources w))) in
       (n, w\<lparr>g_resources := map (\<lambda>r. if active r then r\<lparr>re_state := RESOURCE_STATE_LEAKED\<rparr> else r) (g_resources w),
          g_stats := (g_stats w)\<lparr>leaks_detected := n\<rparr>\<rparr>))"

text \<open>The report of leaks counts them with the mutex held, and the counting locks it again.\<close>

definition resource_print_leaks :: "resource_sys \<Rightarrow> resource_sys option" where
  "resource_print_leaks w = (if \<not> g_initialized w then Some w else None)"

section \<open>Names\<close>

fun resource_type_to_string :: "resource_type option \<Rightarrow> string" where
  "resource_type_to_string None = ''UNKNOWN''"
| "resource_type_to_string (Some RESOURCE_TYPE_MEMORY) = ''MEMORY''"
| "resource_type_to_string (Some RESOURCE_TYPE_SOCKET) = ''SOCKET''"
| "resource_type_to_string (Some RESOURCE_TYPE_THREAD) = ''THREAD''"
| "resource_type_to_string (Some RESOURCE_TYPE_MUTEX) = ''MUTEX''"
| "resource_type_to_string (Some RESOURCE_TYPE_COND) = ''COND''"
| "resource_type_to_string (Some RESOURCE_TYPE_TIMER) = ''TIMER''"
| "resource_type_to_string (Some RESOURCE_TYPE_CONTEXT) = ''CONTEXT''"
| "resource_type_to_string (Some RESOURCE_TYPE_BUFFER) = ''BUFFER''"
| "resource_type_to_string (Some RESOURCE_TYPE_FILE) = ''FILE''"

fun resource_state_to_string :: "resource_state option \<Rightarrow> string" where
  "resource_state_to_string None = ''UNKNOWN''"
| "resource_state_to_string (Some RESOURCE_STATE_ACTIVE) = ''ACTIVE''"
| "resource_state_to_string (Some RESOURCE_STATE_RELEASED) = ''RELEASED''"
| "resource_state_to_string (Some RESOURCE_STATE_LEAKED) = ''LEAKED''"

fun resource_error_to_string :: "resource_error option \<Rightarrow> string" where
  "resource_error_to_string None = ''Unknown error''"
| "resource_error_to_string (Some RESOURCE_SUCCESS) = ''Success''"
| "resource_error_to_string (Some RESOURCE_ERROR_INVALID_PARAM) = ''Invalid parameter''"
| "resource_error_to_string (Some RESOURCE_ERROR_NOT_FOUND) = ''Resource not found''"
| "resource_error_to_string (Some RESOURCE_ERROR_CAPACITY) = ''Capacity exceeded''"
| "resource_error_to_string (Some RESOURCE_ERROR_ALREADY_TRACKED) = ''Resource already tracked''"
| "resource_error_to_string (Some RESOURCE_ERROR_NOT_INITIALIZED) = ''Not initialized''"

end
