(* ===== verification/Resource_Tracker_Proofs.thy ===== *)
theory Resource_Tracker_Proofs
  imports Resource_Tracker Interfaces
begin

text \<open>
  What the tracker of resources keeps: exact statistics over every sequence of its operations, what a
  cleanup gives back, and a table that is never emptied.
\<close>

section \<open>The statistics\<close>

text \<open>
  The statistics are exact: \<open>stats_ok\<close> says that the counters are those of the active entries of the table,
  and that no two active entries have the same handle.
\<close>

definition num_where :: "(resource_entry \<Rightarrow> bool) \<Rightarrow> resource_sys \<Rightarrow> nat" where
  "num_where P w = length (filter (\<lambda>r. active r \<and> P r) (g_resources w))"

definition active_memory :: "resource_sys \<Rightarrow> nat" where
  "active_memory w = sum_list (map (\<lambda>r. unat (re_size r)) (filter (\<lambda>r. active r \<and> is_memory (re_type r)) (g_resources w)))"

definition stats_ok :: "resource_sys \<Rightarrow> bool" where
  "stats_ok w \<longleftrightarrow> length (g_resources w) \<le> RESOURCE_TRACKER_MAX_ENTRIES
     \<and> distinct (map re_handle (filter active (g_resources w)))
     \<and> unat (current_active (g_stats w)) = num_where (\<lambda>r. True) w
     \<and> unat (sockets_open (g_stats w)) = num_where (\<lambda>r. re_type r = RESOURCE_TYPE_SOCKET) w
     \<and> unat (threads_running (g_stats w)) = num_where (\<lambda>r. re_type r = RESOURCE_TYPE_THREAD) w
     \<and> total_allocated (g_stats w) = total_released (g_stats w) + current_active (g_stats w)
     \<and> unat (memory_bytes_active (g_stats w)) = active_memory w"

lemmas stats_defs = stats_ok_def num_where_def active_memory_def is_memory_def

section \<open>Releasing one entry\<close>

lemma entry_split:
  assumes "i < length xs"
  obtains ys zs where "xs = ys @ xs ! i # zs" "i = length ys"
  using that [of "take i xs" "drop (Suc i) xs"] assms id_take_nth_drop [OF assms] by simp

lemma found_entry:
  assumes "find_resource_index h w = Some i"
  obtains ys r zs where "g_resources w = ys @ r # zs" "i = length ys" "active r" "re_handle r = h"
proof -
  have "i < length (g_resources w)" "active (g_resources w ! i)" "re_handle (g_resources w ! i) = h"
    using find_index_SomeD [OF assms [unfolded find_resource_index_def]] by simp_all
  then show ?thesis using that entry_split by metis
qed

lemma unat_pred: "0 < unat (n :: u32) \<Longrightarrow> unat (n - 1) = unat n - 1"
  by (metis unat_minus_one unat_0 less_irrefl)

lemma unat_dec: "unat (dec n) = unat n - 1"
  by (auto simp: dec_def unat_pred word_less_nat_alt)

lemma unat_minus: "unat b \<le> unat (a :: u32) \<Longrightarrow> unat (a - b) = unat a - unat b"
  by (simp add: unat_sub word_le_nat_alt)

lemma released_entry:
  assumes "stats_ok w" and "g_resources w = ys @ r # zs" and "active r"
  shows "stats_ok (release_resource_internal (length ys) w)"
  using assms
  by (cases "re_type r")
    (simp_all add: stats_defs release_resource_internal_def Let_def unat_dec unat_pred unat_minus word_le_nat_alt)

lemma untracked_entry:
  assumes "stats_ok w" and "g_resources w = ys @ r # zs" and "active r"
  shows "stats_ok (untrack_entry (length ys) w)"
proof -
  have "current_active (g_stats w) \<noteq> 0"
    using assms by (auto simp: stats_ok_def num_where_def)
  then have "dec (current_active (g_stats w)) = current_active (g_stats w) - 1"
    by (simp add: dec_def word_neq_0_conv)
  then show ?thesis
    using assms
    by (cases "re_type r")
      (simp_all add: stats_defs untrack_entry_def Let_def unat_dec unat_pred unat_minus word_le_nat_alt)
qed

lemma shrink_memory:
  assumes "g_resources w = ys @ r # zs"
  shows "active_memory (release_resource_internal (length ys) w) \<le> active_memory w"
    and "active_memory (untrack_entry (length ys) w) \<le> active_memory w"
  using assms by (simp_all add: release_resource_internal_def untrack_entry_def Let_def active_memory_def)

section \<open>Sequences of operations\<close>

text \<open>A loop that releases the entries with a property: what it does to the first entries, one after the other.\<close>

definition release_entry :: "(resource_entry \<Rightarrow> bool) \<Rightarrow> resource_entry \<Rightarrow> resource_entry" where
  "release_entry P r = (if P r \<and> active r then r\<lparr>re_state := RESOURCE_STATE_RELEASED\<rparr> else r)"

lemma release_turn_effect:
  assumes "stats_ok w" and "g_resources w = ys @ r # zs" and "i = length ys"
  shows "\<exists>w'. release_turn P i (n, w) = (if P r \<and> active r then n + 1 else n, w')
    \<and> g_resources w' = ys @ release_entry P r # zs \<and> stats_ok w' \<and> g_initialized w' = g_initialized w
    \<and> released w' = released w @ (if P r \<and> active r then given_back r else [])
    \<and> active_memory w' \<le> active_memory w"
proof (cases "P r \<and> active r")
  case True
  then show ?thesis
    using released_entry [OF assms(1,2)] shrink_memory(1) [OF assms(2)] assms(2,3)
    by (intro exI [of _ "release_resource_internal i w"])
      (simp add: release_turn_def release_entry_def release_resource_internal_def Let_def)
next
  case False
  then show ?thesis using assms by (auto simp: release_turn_def release_entry_def)
qed

lemma release_where_prefix:
  assumes "stats_ok w" and "g_resources w = xs @ zs"
  shows "\<exists>w'. fold (release_turn P) [0..<length xs] (n, w) =
      (n + of_nat (length (filter (\<lambda>r. P r \<and> active r) xs)), w')
    \<and> g_resources w' = map (release_entry P) xs @ zs \<and> stats_ok w' \<and> g_initialized w' = g_initialized w
    \<and> released w' = released w @ concat (map given_back (filter (\<lambda>r. P r \<and> active r) xs))
    \<and> active_memory w' \<le> active_memory w"
  using assms(2)
proof (induction xs arbitrary: zs rule: rev_induct)
  case Nil
  then show ?case using assms(1) by simp
next
  case (snoc r xs)
  define k :: u32 where "k = n + of_nat (length (filter (\<lambda>r. P r \<and> active r) xs))"
  from snoc.IH [of "r # zs"] snoc.prems obtain w' where w':
    "fold (release_turn P) [0..<length xs] (n, w) = (k, w')"
    and g: "g_resources w' = map (release_entry P) xs @ r # zs" "stats_ok w'" "g_initialized w' = g_initialized w"
      "released w' = released w @ concat (map given_back (filter (\<lambda>r. P r \<and> active r) xs))"
      "active_memory w' \<le> active_memory w" by (auto simp: k_def)
  from release_turn_effect [OF g(2,1), of "length xs" P k] obtain w2 where w2:
    "release_turn P (length xs) (k, w') = (if P r \<and> active r then k + 1 else k, w2)"
    "g_resources w2 = map (release_entry P) xs @ release_entry P r # zs" "stats_ok w2"
    "g_initialized w2 = g_initialized w'" "released w2 = released w' @ (if P r \<and> active r then given_back r else [])"
    "active_memory w2 \<le> active_memory w'" by auto
  have "fold (release_turn P) [0..<length (xs @ [r])] (n, w) =
      (n + of_nat (length (filter (\<lambda>r. P r \<and> active r) (xs @ [r]))), w2)"
    by (simp add: w' w2(1)) (simp add: k_def)
  then show ?case using w2 g by (intro exI [of _ w2]) simp
qed

lemma release_where_result:
  assumes "stats_ok w"
  shows "\<exists>w'. release_where P w = (of_nat (length (filter (\<lambda>r. P r \<and> active r) (g_resources w))), w')
    \<and> g_resources w' = map (release_entry P) (g_resources w) \<and> stats_ok w' \<and> g_initialized w' = g_initialized w
    \<and> released w' = released w @ concat (map given_back (filter (\<lambda>r. P r \<and> active r) (g_resources w)))
    \<and> active_memory w' \<le> active_memory w"
  using release_where_prefix [OF assms, of "g_resources w" "[]" P 0] by (simp add: release_where_def)

datatype resource_op = Track u64 resource_type u64 "string option" u32 u32 | Untrack u64 | Release u64
  | By_Owner u32 | By_Type resource_type

fun resource_op_run :: "resource_op \<Rightarrow> resource_sys \<Rightarrow> resource_sys" where
  "resource_op_run (Track now t h name owner sz) w = snd (resource_track now t h name owner sz w)"
| "resource_op_run (Untrack h) w = snd (resource_untrack h w)"
| "resource_op_run (Release h) w = snd (resource_release h w)"
| "resource_op_run (By_Owner owner) w = snd (resource_cleanup_by_owner owner w)"
| "resource_op_run (By_Type t) w = snd (resource_cleanup_by_type t w)"

fun op_size :: "resource_op \<Rightarrow> nat" where
  "op_size (Track now t h name owner sz) = unat sz"
| "op_size _ = 0"

lemma track_ok:
  assumes "stats_ok w" and "active_memory w + unat sz < 2 ^ 32"
  shows "stats_ok (snd (resource_track now t h name owner sz w))
    \<and> active_memory (snd (resource_track now t h name owner sz w)) \<le> active_memory w + unat sz"
proof (cases "fst (resource_track now t h name owner sz w) = RESOURCE_SUCCESS")
  case True
  then have none: "find_resource_index h w = None" and len: "length (g_resources w) < RESOURCE_TRACKER_MAX_ENTRIES"
    and init: "g_initialized w" "h = 0 \<longrightarrow> t = RESOURCE_TYPE_MUTEX \<or> t = RESOURCE_TYPE_COND"
    by (auto simp: resource_track_def split: if_splits)
  have few: "length (filter Q (g_resources w)) < 4096" for Q
    using len le_less_trans [OF length_filter_le] by (simp add: RESOURCE_TRACKER_MAX_ENTRIES_def)
  have inc: "unat (k + 1) = unat k + 1" if "unat k = length (filter Q (g_resources w))" for k :: u32 and Q
    using that few [of Q] by (simp add: unat_word_ariths)
  have add: "unat (m + sz) = unat m + unat sz" if "unat m = active_memory w" for m :: u32
    using that assms(2) by (simp add: unat_word_ariths)
  have new: "h \<notin> re_handle ` {x \<in> set (g_resources w). active x}"
    using none by (auto simp: find_resource_index_def find_index_None)
  show ?thesis
    using assms(1) none len init new
    by (cases t) (simp_all add: resource_track_def stats_ok_def num_where_def is_memory_def inc add active_memory_def Let_def)
next
  case False
  then have "snd (resource_track now t h name owner sz w) = w"
    by (auto simp: resource_track_def Let_def split: if_splits)
  then show ?thesis using assms by simp
qed

lemma on_tracked_ok:
  assumes "stats_ok w"
    and "\<And>ys r zs. g_resources w = ys @ r # zs \<Longrightarrow> active r \<Longrightarrow>
      stats_ok (f (length ys) w) \<and> active_memory (f (length ys) w) \<le> active_memory w"
  shows "stats_ok (snd (on_tracked h f w)) \<and> active_memory (snd (on_tracked h f w)) \<le> active_memory w"
proof (cases "g_initialized w \<and> h \<noteq> 0 \<and> find_resource_index h w \<noteq> None")
  case True
  then obtain i where i: "find_resource_index h w = Some i" by auto
  then show ?thesis using True assms(2) by (auto simp: on_tracked_def elim: found_entry)
next
  case False
  then show ?thesis using assms(1) by (auto simp: on_tracked_def)
qed

lemma resource_op_ok:
  assumes "stats_ok w" and "active_memory w + op_size x < 2 ^ 32"
  shows "stats_ok (resource_op_run x w) \<and> active_memory (resource_op_run x w) \<le> active_memory w + op_size x"
proof (cases x)
  case (Track now t h name owner sz)
  then show ?thesis using track_ok assms by simp
next
  case (Untrack h)
  then show ?thesis
    using on_tracked_ok [OF assms(1), of untrack_entry h] untracked_entry [OF assms(1)] shrink_memory(2)
    by (simp add: resource_untrack_def)
next
  case (Release h)
  then show ?thesis
    using on_tracked_ok [OF assms(1), of release_resource_internal h] released_entry [OF assms(1)] shrink_memory(1)
    by (simp add: resource_release_def)
next
  case (By_Owner owner)
  then show ?thesis
    using release_where_result [OF assms(1), of "\<lambda>r. re_owner r = owner"] assms(1)
    by (auto simp: resource_cleanup_by_owner_def)
next
  case (By_Type t)
  then show ?thesis
    using release_where_result [OF assms(1), of "\<lambda>r. re_type r = t"] assms(1)
    by (auto simp: resource_cleanup_by_type_def)
qed

lemma resource_run_ok:
  assumes "stats_ok w" and "active_memory w + sum_list (map op_size xs) < 2 ^ 32"
  shows "stats_ok (fold resource_op_run xs w)"
  using assms
proof (induction xs arbitrary: w)
  case (Cons x xs)
  then have "stats_ok (resource_op_run x w) \<and> active_memory (resource_op_run x w) \<le> active_memory w + op_size x"
    by (intro resource_op_ok) simp_all
  then show ?case using Cons by simp
qed simp

text \<open>
  C30. The statistics of the tracker are exact. After the initialisation and any sequence of tracking,
  untracking, releasing and cleaning up by owner or type, with sizes of less than \<open>2 ^ 32\<close> octets in
  all, the counters of active resources, open sockets, running threads and memory in use are those of the
  active entries, the numbers of tracked and released resources differ by the active ones, and no two
  active entries have the same handle.
\<close>

theorem resource_stats_exact:
  assumes "\<not> g_initialized w" and "sum_list (map op_size xs) < 2 ^ 32"
  shows "let w' = fold resource_op_run xs (snd (resource_tracker_init w)); s = g_stats w' in
    unat (current_active s) = num_where (\<lambda>r. True) w'
    \<and> unat (sockets_open s) = num_where (\<lambda>r. re_type r = RESOURCE_TYPE_SOCKET) w'
    \<and> unat (threads_running s) = num_where (\<lambda>r. re_type r = RESOURCE_TYPE_THREAD) w'
    \<and> unat (memory_bytes_active s) = active_memory w'
    \<and> total_allocated s = total_released s + current_active s
    \<and> distinct (map re_handle (filter active (g_resources w')))"
proof -
  have "stats_ok (snd (resource_tracker_init w))" "active_memory (snd (resource_tracker_init w)) = 0"
    using assms(1) by (simp_all add: stats_defs resource_tracker_init_def zero_resource_stats_def)
  from resource_run_ok [OF this(1), of xs] this(2) assms(2) show ?thesis
    by (simp add: Let_def stats_ok_def)
qed

text \<open>
  C31. The cleanup of an owner gives back exactly what the owner has. The result is the number of its active
  resources, each of them is given back once, in the order of the tracking, those of other owners are left
  alone, and afterwards the owner has none.
\<close>

theorem cleanup_by_owner_exact:
  assumes "stats_ok w" and "g_initialized w"
  shows "\<exists>w'. resource_cleanup_by_owner owner w =
      (of_nat (length (filter (\<lambda>r. re_owner r = owner \<and> active r) (g_resources w))), w')
    \<and> released w' = released w @ concat (map given_back (filter (\<lambda>r. re_owner r = owner \<and> active r) (g_resources w)))
    \<and> filter (\<lambda>r. re_owner r \<noteq> owner) (g_resources w') = filter (\<lambda>r. re_owner r \<noteq> owner) (g_resources w)
    \<and> (\<forall>r \<in> set (g_resources w'). re_owner r = owner \<longrightarrow> \<not> active r)"
proof -
  let ?P = "\<lambda>r. re_owner r = owner"
  have others: "filter (\<lambda>r. re_owner r \<noteq> owner) (map (release_entry ?P) xs) = filter (\<lambda>r. re_owner r \<noteq> owner) xs"
    for xs by (induction xs) (simp_all add: release_entry_def)
  have own: "\<not> active (release_entry ?P r)" if "re_owner r = owner" for r
    using that by (simp add: release_entry_def)
  have owner: "re_owner (release_entry ?P r) = re_owner r" for r by (simp add: release_entry_def)
  obtain w' where w': "release_where ?P w = (of_nat (length (filter (\<lambda>r. ?P r \<and> active r) (g_resources w))), w')"
    "g_resources w' = map (release_entry ?P) (g_resources w)"
    "released w' = released w @ concat (map given_back (filter (\<lambda>r. ?P r \<and> active r) (g_resources w)))"
    using release_where_result [OF assms(1), of ?P] by blast
  show ?thesis
  proof (intro exI [of _ w'] conjI ballI impI)
    show "filter (\<lambda>r. re_owner r \<noteq> owner) (g_resources w') = filter (\<lambda>r. re_owner r \<noteq> owner) (g_resources w)"
      using others by (simp only: w'(2))
    show "\<not> active r" if r: "r \<in> set (g_resources w')" "re_owner r = owner" for r
    proof -
      obtain x where "r = release_entry ?P x" using r(1) by (auto simp: w'(2))
      then show ?thesis using r(2) own [of x] owner [of x] by simp
    qed
  qed (use w'(1,3) assms(2) in \<open>simp_all only: resource_cleanup_by_owner_def if_True\<close>)
qed

section \<open>The tracker as a store\<close>

text \<open>What is known of an active handle; tracking and releasing are insertion and removal.\<close>

definition tracked :: "resource_sys \<Rightarrow> u64 \<Rightarrow> (resource_type \<times> u32 \<times> u32) option" where
  "tracked w h = map_option (\<lambda>r. (re_type r, re_owner r, re_size r)) (resource_find h w)"

definition track_put :: "u64 \<Rightarrow> resource_type \<times> u32 \<times> u32 \<Rightarrow> resource_sys \<Rightarrow> resource_sys option" where
  "track_put h v w = (case v of (t, owner, sz) \<Rightarrow> (case resource_track 0 t h None owner sz w of (r, w') \<Rightarrow>
     if h \<noteq> 0 \<and> r = RESOURCE_SUCCESS then Some w' else None))"

definition track_drop :: "u64 \<Rightarrow> resource_sys \<Rightarrow> resource_sys option" where
  "track_drop h w = (case resource_release h w of (r, w') \<Rightarrow> if r = RESOURCE_SUCCESS then Some w' else None)"

definition table_ok :: "resource_sys \<Rightarrow> bool" where
  "table_ok w \<longleftrightarrow> g_initialized w \<and> distinct (map re_handle (filter active (g_resources w)))"

lemma find_index_find: "map_option (\<lambda>i. xs ! i) (find_index P xs) = find P xs"
  by (induction xs) (auto simp: option.map_comp comp_def)

lemma find_snoc: "find P (xs @ ys) = (case find P xs of None \<Rightarrow> find P ys | Some x \<Rightarrow> Some x)"
  by (induction xs) auto

lemma tracked_find:
  "g_initialized w \<Longrightarrow> tracked w h = (if h = 0 then None else
    map_option (\<lambda>r. (re_type r, re_owner r, re_size r)) (find (\<lambda>r. re_handle r = h \<and> active r) (g_resources w)))"
  by (simp add: tracked_def resource_find_def find_resource_index_def find_index_find)

lemma find_absent: "h \<notin> re_handle ` {x \<in> set xs. active x} \<Longrightarrow> find (\<lambda>r. re_handle r = h \<and> active r) xs = None"
  by (auto simp: find_None_iff)

interpretation tracker: keyed_store table_ok tracked track_put track_drop
proof
  fix w w' :: resource_sys and h and v :: "resource_type \<times> u32 \<times> u32"
  assume ok: "table_ok w"
  obtain t owner sz where v: "v = (t, owner, sz)" by (cases v)
  show "tracked w' = (tracked w)(h \<mapsto> v)" and "table_ok w'" if put: "track_put h v w = Some w'"
  proof -
    obtain r where r: "g_resources w' = g_resources w @ [r]" "re_handle r = h" "active r"
        "(re_type r, re_owner r, re_size r) = v" "g_initialized w'" "h \<noteq> 0" "find_resource_index h w = None"
      using put ok by (auto simp: v track_put_def resource_track_def Let_def table_ok_def split: if_splits)
    have new: "h \<notin> re_handle ` {x \<in> set (g_resources w). active x}"
      using r(7) by (auto simp: find_resource_index_def find_index_None)
    show "table_ok w'" using ok r new by (auto simp: table_ok_def)
    show "tracked w' = (tracked w)(h \<mapsto> v)"
      using ok r find_absent [OF new]
      by (auto simp: fun_eq_iff tracked_find table_ok_def find_snoc split: option.split)
  qed
  show "tracked w' = (tracked w)(h := None)" and "table_ok w'" if drop: "track_drop h w = Some w'"
  proof -
    obtain i where "find_resource_index h w = Some i" and w': "w' = release_resource_internal i w" and h: "h \<noteq> 0"
      using drop by (auto simp: track_drop_def resource_release_def on_tracked_def split: if_splits option.splits)
    then obtain ys r zs where g: "g_resources w = ys @ r # zs" "i = length ys" "active r" "re_handle r = h"
      by (blast elim: found_entry)
    then have g': "g_resources w' = ys @ r\<lparr>re_state := RESOURCE_STATE_RELEASED\<rparr> # zs" "g_initialized w' = g_initialized w"
      by (simp_all add: w' release_resource_internal_def Let_def)
    have absent: "h \<notin> re_handle ` {x \<in> set ys. active x}" "h \<notin> re_handle ` {x \<in> set zs. active x}"
      using ok g by (auto simp: table_ok_def)
    show "table_ok w'" using ok g g' by (auto simp: table_ok_def)
    show "tracked w' = (tracked w)(h := None)"
      using ok g g' find_absent [OF absent(1)] find_absent [OF absent(2)]
      by (auto simp: fun_eq_iff tracked_find table_ok_def find_snoc split: option.split)
  qed
qed

text \<open>Tracking a handle and releasing it again leaves what is known of all handles as it was.\<close>

lemma track_release:
  "table_ok w \<Longrightarrow> track_put h v w = Some w' \<Longrightarrow> track_drop h w' = Some w'' \<Longrightarrow> tracked w h = None \<Longrightarrow> tracked w'' = tracked w"
  by (rule tracker.insert_remove)

section \<open>A table that fills up\<close>

text \<open>Entries are never used again: after 4096 resources have been tracked, none is tracked any more.\<close>

lemma length_release [simp]: "length (g_resources (release_resource_internal i w)) = length (g_resources w)"
  by (simp add: release_resource_internal_def Let_def)

lemma length_untrack [simp]: "length (g_resources (untrack_entry i w)) = length (g_resources w)"
  by (simp add: untrack_entry_def Let_def)

lemma table_grows:
  assumes "stats_ok w"
  shows "length (g_resources w) \<le> length (g_resources (resource_op_run x w))"
proof (cases x)
  case (Track now t h name owner sz)
  then show ?thesis by (simp add: resource_track_def Let_def)
next
  case (By_Owner owner)
  then show ?thesis
    using release_where_result [OF assms, of "\<lambda>r. re_owner r = owner"] by (auto simp: resource_cleanup_by_owner_def)
next
  case (By_Type t)
  then show ?thesis
    using release_where_result [OF assms, of "\<lambda>r. re_type r = t"] by (auto simp: resource_cleanup_by_type_def)
qed (simp_all add: resource_untrack_def resource_release_def on_tracked_def split: option.split)

lemma table_exhausted:
  assumes "length (g_resources w) = RESOURCE_TRACKER_MAX_ENTRIES"
  shows "fst (resource_track now t h name owner sz w) \<noteq> RESOURCE_SUCCESS"
  using assms by (auto simp: resource_track_def)

text \<open>A resource that has been counted as a leak can neither be found nor released any more.\<close>

lemma leaked_is_lost:
  assumes "g_initialized w" and "h \<noteq> 0"
  shows "fst (resource_release h (snd (resource_check_leaks w))) = RESOURCE_ERROR_NOT_FOUND"
proof -
  have "find_resource_index h (snd (resource_check_leaks w)) = None" "g_initialized (snd (resource_check_leaks w))"
    using assms(1) by (auto simp: find_resource_index_def find_index_None resource_check_leaks_def Let_def)
  then show ?thesis using assms(2) by (simp add: resource_release_def on_tracked_def)
qed

text \<open>The descriptor 0 is the null handle, which cannot be tracked.\<close>

lemma descriptor_0_untracked: "g_initialized w \<Longrightarrow>
    fst (resource_track now RESOURCE_TYPE_SOCKET 0 name owner sz w) = RESOURCE_ERROR_INVALID_PARAM"
  by (simp add: resource_track_def)

definition tracker_example :: resource_sys where
  "tracker_example = \<lparr>g_resources = [], g_stats = zero_resource_stats, g_initialized = False, released = []\<rparr>"

lemma resource_stats_exact_witness:
  "unat (current_active (g_stats (fold resource_op_run [Track 5 RESOURCE_TYPE_SOCKET 3 None 1 0,
      Track 6 RESOURCE_TYPE_MEMORY 4096 (Some ''buf'') 1 64, Release 3] (snd (resource_tracker_init tracker_example))))) =
    num_where (\<lambda>r. True) (fold resource_op_run [Track 5 RESOURCE_TYPE_SOCKET 3 None 1 0,
      Track 6 RESOURCE_TYPE_MEMORY 4096 (Some ''buf'') 1 64, Release 3] (snd (resource_tracker_init tracker_example)))"
proof -
  have "\<not> g_initialized tracker_example" by (simp add: tracker_example_def)
  from resource_stats_exact [OF this, of "[Track 5 RESOURCE_TYPE_SOCKET 3 None 1 0,
      Track 6 RESOURCE_TYPE_MEMORY 4096 (Some ''buf'') 1 64, Release 3]"]
  show ?thesis unfolding Let_def by simp
qed

text \<open>Owner 1 has a socket and a thread, owner 2 a block of memory.\<close>

definition tracker_in_use :: resource_sys where
  "tracker_in_use = fold resource_op_run [Track 5 RESOURCE_TYPE_SOCKET 3 None 1 0,
     Track 6 RESOURCE_TYPE_MEMORY 4096 None 2 64, Track 7 RESOURCE_TYPE_THREAD 9 None 1 0]
     (snd (resource_tracker_init tracker_example))"

lemma tracker_in_use_facts:
  "g_initialized tracker_in_use" "released tracker_in_use = []"
  "filter (\<lambda>r. re_owner r = 1 \<and> active r) (g_resources tracker_in_use) =
    filter (\<lambda>r. re_owner r = 1) (g_resources tracker_in_use)"
  "map re_handle (filter (\<lambda>r. re_owner r = 1) (g_resources tracker_in_use)) = [3, 9]"
  "map re_handle (filter (\<lambda>r. re_owner r \<noteq> 1) (g_resources tracker_in_use)) = [4096]"
  "concat (map given_back (filter (\<lambda>r. re_owner r = 1) (g_resources tracker_in_use))) = [(RESOURCE_TYPE_SOCKET, 3)]"
  by code_simp+

lemma cleanup_by_owner_exact_witness:
  "\<exists>w'. resource_cleanup_by_owner 1 tracker_in_use = (2, w') \<and> released w' = [(RESOURCE_TYPE_SOCKET, 3)]
    \<and> map re_handle (filter (\<lambda>r. re_owner r \<noteq> 1) (g_resources w')) = [4096]"
proof -
  have "stats_ok (snd (resource_tracker_init tracker_example))" "active_memory (snd (resource_tracker_init tracker_example)) = 0"
    by (simp_all add: stats_defs resource_tracker_init_def tracker_example_def zero_resource_stats_def)
  then have ok: "stats_ok tracker_in_use"
    unfolding tracker_in_use_def by (intro resource_run_ok) simp_all
  have "length (filter (\<lambda>r. re_owner r = 1) (g_resources tracker_in_use)) = 2"
    using arg_cong [OF tracker_in_use_facts(4), of length] by simp
  with cleanup_by_owner_exact [OF ok tracker_in_use_facts(1), of 1, unfolded tracker_in_use_facts(2,3,6)]
    tracker_in_use_facts(5)
  show ?thesis by auto
qed

end
