(* ===== verification/Decimals.thy ===== *)
theory Decimals
  imports Prelude
begin

text \<open>The decimal digits that \<^verbatim>\<open>%u\<close> prints.\<close>

fun unsigned_decimal :: "nat \<Rightarrow> string" where
  "unsigned_decimal n = (if n < 10 then [char_of (48 + n)] else unsigned_decimal (n div 10) @ [char_of (48 + n mod 10)])"

declare unsigned_decimal.simps [simp del]

text \<open>The number of an enumerator that has the numbers from 0 on in the order of the list.\<close>

definition enum_code :: "'a list \<Rightarrow> 'a \<Rightarrow> nat" where
  "enum_code xs x = (case find_index (\<lambda>y. y = x) xs of None \<Rightarrow> length xs | Some i \<Rightarrow> i)"

end
