(* ===== verification/Gnb_Manager.thy ===== *)
theory Gnb_Manager
  imports Gnb Decimals
begin

text \<open>
  The manager of gNBs (\<^verbatim>\<open>src/core/gnb_manager.c\<close>): a table of gNB structures by value, with their cells, the
  sockets to them, lookups, the choice of a handover target, measurements and statistics.

  The structures live in the table, so the address of a gNB is its place, and the pointer to the primary
  cell is the place of a structure with the place of a cell in it: it does not move when the structures do.
  \<open>mgr_fds\<close> lists the open descriptors. What \<^verbatim>\<open>socket\<close> returns is an argument.
\<close>

section \<open>State\<close>

definition GNB_MAX_INSTANCES :: nat where "GNB_MAX_INSTANCES = 32"
definition GNB_MAX_CELLS_PER_GNB :: nat where "GNB_MAX_CELLS_PER_GNB = 5"
definition GNB_DEFAULT_NGAP_PORT :: u16 where "GNB_DEFAULT_NGAP_PORT = 38412"
definition GNB_DEFAULT_GTPU_PORT :: u16 where "GNB_DEFAULT_GTPU_PORT = 2152"

record gnb_capabilities =
  supports_xn_handover :: bool
  supports_n2_handover :: bool
  supports_daps :: bool
  supports_conditional_handover :: bool
  max_ues_supported :: u16
  gc_supported_bands :: "u16 list"
  gc_num_bands :: u8

record gnb_cell_info =
  ce_pci :: u16
  ce_cell_id :: u32
  ce_tac :: u16
  ce_arfcn :: u32
  ce_scs :: u8
  ce_bandwidth_mhz :: u8
  ce_rsrp :: s32
  ce_rsrq :: s32
  ce_sinr :: s32

record gnb_extended_context =
  gx_base :: gnb_context
  gx_name :: string
  gx_cells :: "gnb_cell_info list"
  num_cells :: u8
  primary_cell :: "(nat \<times> nat) option"
  gx_capabilities :: gnb_capabilities
  gx_connect_time :: int
  gx_last_activity :: int
  gx_tx_bytes :: u64
  gx_rx_bytes :: u64
  connected_ues :: u32
  is_handover_candidate :: bool
  handover_priority :: s32

record gnb_manager =
  gnb_list :: "gnb_extended_context list"
  num_gnbs :: u8
  default_ngap_port :: u16
  default_gtpu_port :: u16
  mgr_total_tx_bytes :: u64
  mgr_total_rx_bytes :: u64
  mgr_fds :: "int list"

text \<open>The structures after \<^verbatim>\<open>memset\<close>.\<close>

definition zero_cell :: gnb_cell_info where
  "zero_cell = \<lparr>ce_pci = 0, ce_cell_id = 0, ce_tac = 0, ce_arfcn = 0, ce_scs = 0, ce_bandwidth_mhz = 0,
     ce_rsrp = 0, ce_rsrq = 0, ce_sinr = 0\<rparr>"

definition zero_base :: gnb_context where
  "zero_base = \<lparr>gnb_id = 0, gb_type = GNB_TYPE_OAI, gb_state = GNB_STATE_UNKNOWN, gb_addr = (0, 0), gb_ngap = 0,
     gb_gtpu = 0, cell_id = 0, gb_tac = 0, rsrp = 0, rsrq = 0, connect_time = 0, last_activity = 0, is_serving = False\<rparr>"

definition zero_gnb :: gnb_extended_context where
  "zero_gnb = \<lparr>gx_base = zero_base, gx_name = [], gx_cells = replicate GNB_MAX_CELLS_PER_GNB zero_cell, num_cells = 0,
     primary_cell = None, gx_capabilities = \<lparr>supports_xn_handover = False, supports_n2_handover = False,
       supports_daps = False, supports_conditional_handover = False, max_ues_supported = 0,
       gc_supported_bands = replicate 8 0, gc_num_bands = 0\<rparr>, gx_connect_time = 0, gx_last_activity = 0,
     gx_tx_bytes = 0, gx_rx_bytes = 0, connected_ues = 0, is_handover_candidate = False, handover_priority = 0\<rparr>"

section \<open>Names\<close>

fun gnb_type_str :: "gnb_type option \<Rightarrow> string" where
  "gnb_type_str None = ''Unknown''"
| "gnb_type_str (Some GNB_TYPE_OAI) = ''OAI''"
| "gnb_type_str (Some GNB_TYPE_SRSRAN) = ''srsRAN''"
| "gnb_type_str (Some GNB_TYPE_COMMERCIAL) = ''Commercial''"
| "gnb_type_str (Some GNB_TYPE_MOCK) = ''Mock''"

fun gnb_state_str :: "gnb_state option \<Rightarrow> string" where
  "gnb_state_str None = ''Unknown''"
| "gnb_state_str (Some GNB_STATE_UNKNOWN) = ''Unknown''"
| "gnb_state_str (Some GNB_STATE_CONNECTED) = ''Connected''"
| "gnb_state_str (Some GNB_STATE_DISCONNECTED) = ''Disconnected''"
| "gnb_state_str (Some GNB_STATE_HANDOVER_CANDIDATE) = ''HandoverCandidate''"
| "gnb_state_str (Some GNB_STATE_CONNECTING) = ''Connecting''"

section \<open>The table\<close>

definition in_use :: "gnb_manager \<Rightarrow> gnb_extended_context list" where
  "in_use m = take (unat (num_gnbs m)) (gnb_list m)"

definition upd_slot :: "nat \<Rightarrow> (gnb_extended_context \<Rightarrow> gnb_extended_context) \<Rightarrow> gnb_manager \<Rightarrow> gnb_manager" where
  "upd_slot i f m = m\<lparr>gnb_list := (gnb_list m)[i := f (gnb_list m ! i)]\<rparr>"

definition upd_base :: "(gnb_context \<Rightarrow> gnb_context) \<Rightarrow> gnb_extended_context \<Rightarrow> gnb_extended_context" where
  "upd_base f g = g\<lparr>gx_base := f (gx_base g)\<rparr>"

definition close_socket :: "int \<Rightarrow> gnb_manager \<Rightarrow> gnb_manager" where
  "close_socket fd m = (if fd \<ge> 0 then m\<lparr>mgr_fds := remove1 fd (mgr_fds m)\<rparr> else m)"

definition close_sockets :: "gnb_extended_context \<Rightarrow> gnb_manager \<Rightarrow> gnb_manager" where
  "close_sockets g m = close_socket (gb_gtpu (gx_base g)) (close_socket (gb_ngap (gx_base g)) m)"

text \<open>The flag of the module.\<close>

definition gnb_manager_init :: "bool \<Rightarrow> uesim_error \<times> bool" where
  "gnb_manager_init flag = (UESIM_SUCCESS, True)"

definition gnb_manager_cleanup :: "bool \<Rightarrow> bool" where
  "gnb_manager_cleanup flag = False"

definition gnb_manager_create :: "os \<Rightarrow> bool \<Rightarrow> int list \<Rightarrow> uesim_error + gnb_manager" where
  "gnb_manager_create s out open_fds = (if \<not> out then Inl UESIM_ERROR_INVALID_PARAM
     else if \<not> alloc_ok s 0 then Inl UESIM_ERROR_MEMORY
     else if \<not> init_ok s 0 then Inl UESIM_ERROR_THREAD
     else Inr \<lparr>gnb_list = replicate GNB_MAX_INSTANCES zero_gnb, num_gnbs = 0,
       default_ngap_port = GNB_DEFAULT_NGAP_PORT, default_gtpu_port = GNB_DEFAULT_GTPU_PORT,
       mgr_total_tx_bytes = 0, mgr_total_rx_bytes = 0, mgr_fds = open_fds\<rparr>)"

text \<open>The manager is gone; the result is the descriptors that stay open.\<close>

definition gnb_manager_destroy :: "gnb_manager option \<Rightarrow> uesim_error \<times> int list option" where
  "gnb_manager_destroy p = (case p of None \<Rightarrow> (UESIM_ERROR_INVALID_PARAM, None)
   | Some m \<Rightarrow> (UESIM_SUCCESS, Some (mgr_fds (fold close_sockets (in_use m) m))))"

definition gnb_manager_find_by_id :: "gnb_manager option \<Rightarrow> u32 \<Rightarrow> nat option" where
  "gnb_manager_find_by_id p i = (case p of None \<Rightarrow> None
   | Some m \<Rightarrow> find_index (\<lambda>g. gnb_id (gx_base g) = i) (in_use m))"

definition gnb_manager_find_by_socket :: "gnb_manager option \<Rightarrow> int \<Rightarrow> nat option" where
  "gnb_manager_find_by_socket p fd = (case p of None \<Rightarrow> None
   | Some m \<Rightarrow> find_index (\<lambda>g. gb_ngap (gx_base g) = fd \<or> gb_gtpu (gx_base g) = fd) (in_use m))"

text \<open>
  \<open>ip\<close> is the null pointer or the address that \<^verbatim>\<open>inet_pton\<close> stores, 0 for a string it does not
  understand, whose result is not looked at. The place is overwritten before the mutex is initialised.
\<close>

definition fresh_gnb :: "u32 \<Rightarrow> gnb_type \<Rightarrow> u32 \<Rightarrow> u16 \<Rightarrow> gnb_extended_context" where
  "fresh_gnb i ty addr port = zero_gnb\<lparr>
     gx_base := zero_base\<lparr>gnb_id := i, gb_type := ty, gb_state := GNB_STATE_DISCONNECTED, gb_addr := (addr, swap16 port),
       gb_ngap := -1, gb_gtpu := -1\<rparr>,
     gx_name := take 63 (''gnb-'' @ unsigned_decimal (unat i)),
     gx_capabilities := (gx_capabilities zero_gnb)\<lparr>supports_xn_handover := True, supports_n2_handover := True,
       max_ues_supported := 1000\<rparr>\<rparr>"

definition gnb_manager_add :: "os \<Rightarrow> u32 \<Rightarrow> gnb_type \<Rightarrow> u32 option \<Rightarrow> u16 \<Rightarrow> u16 \<Rightarrow> gnb_manager option
    \<Rightarrow> (uesim_error + nat) \<times> gnb_manager option" where
  "gnb_manager_add s i ty ip ngap_port gtpu_port p = with_obj p (\<lambda>m. case ip of
     None \<Rightarrow> (Inl UESIM_ERROR_INVALID_PARAM, m)
   | Some addr \<Rightarrow> let n = unat (num_gnbs m) in
       if n \<ge> GNB_MAX_INSTANCES then (Inl UESIM_ERROR_CAPACITY, m)
       else if gnb_manager_find_by_id p i \<noteq> None then (Inl UESIM_ERROR_ALREADY_EXISTS, m)
       else let m1 = m\<lparr>gnb_list := (gnb_list m)[n := fresh_gnb i ty addr
             (if ngap_port > 0 then ngap_port else default_ngap_port m)]\<rparr> in
         if \<not> init_ok s 0 then (Inl UESIM_ERROR_THREAD, m1)
         else (Inr n, m1\<lparr>num_gnbs := num_gnbs m1 + 1\<rparr>))"

text \<open>The structures after the removed one move down by one place; the last one stays behind, out of use.\<close>

definition shift_down :: "nat \<Rightarrow> nat \<Rightarrow> 'a list \<Rightarrow> 'a list" where
  "shift_down i n xs = take i xs @ take (n - 1 - i) (drop (i + 1) xs) @ drop (n - 1) xs"

definition gnb_manager_remove :: "u32 \<Rightarrow> gnb_manager option \<Rightarrow> uesim_error \<times> gnb_manager option" where
  "gnb_manager_remove i p = with_ptr p (\<lambda>m. case gnb_manager_find_by_id p i of
     None \<Rightarrow> (UESIM_ERROR_NOT_FOUND, m)
   | Some k \<Rightarrow> let m1 = close_sockets (gnb_list m ! k) m in
       (UESIM_SUCCESS, m1\<lparr>gnb_list := shift_down k (unat (num_gnbs m)) (gnb_list m), num_gnbs := num_gnbs m - 1\<rparr>))"

section \<open>Connections\<close>

text \<open>
  \<open>fd1\<close> and \<open>fd2\<close> are what the two calls of \<^verbatim>\<open>socket\<close> return. The result of \<^verbatim>\<open>connect\<close> makes no
  difference. Sockets that the gNB already has are overwritten.
\<close>

definition gnb_manager_connect :: "int \<Rightarrow> int \<Rightarrow> int \<Rightarrow> u32 \<Rightarrow> gnb_manager option \<Rightarrow> uesim_error \<times> gnb_manager option" where
  "gnb_manager_connect fd1 fd2 now i p = with_ptr p (\<lambda>m. case gnb_manager_find_by_id p i of
     None \<Rightarrow> (UESIM_ERROR_NOT_FOUND, m)
   | Some k \<Rightarrow> let m1 = upd_slot k (upd_base (\<lambda>b. b\<lparr>gb_state := GNB_STATE_CONNECTING, gb_ngap := fd1\<rparr>)) m in
       if fd1 < 0 then (UESIM_ERROR_SOCKET, upd_slot k (upd_base (\<lambda>b. b\<lparr>gb_state := GNB_STATE_UNKNOWN\<rparr>)) m1)
       else let m2 = upd_slot k (upd_base (\<lambda>b. b\<lparr>gb_gtpu := fd2\<rparr>)) (m1\<lparr>mgr_fds := fd1 # mgr_fds m1\<rparr>) in
         if fd2 < 0 then (UESIM_ERROR_SOCKET, upd_slot k (upd_base (\<lambda>b. b\<lparr>gb_ngap := -1, gb_state := GNB_STATE_UNKNOWN\<rparr>))
           (close_socket fd1 m2))
         else (UESIM_SUCCESS, upd_slot k (\<lambda>g. (upd_base (\<lambda>b. b\<lparr>gb_state := GNB_STATE_CONNECTED\<rparr>) g)
             \<lparr>gx_connect_time := now, gx_last_activity := now\<rparr>) (m2\<lparr>mgr_fds := fd2 # mgr_fds m2\<rparr>)))"

definition gnb_manager_disconnect :: "u32 \<Rightarrow> gnb_manager option \<Rightarrow> uesim_error \<times> gnb_manager option" where
  "gnb_manager_disconnect i p = with_ptr p (\<lambda>m. case gnb_manager_find_by_id p i of
     None \<Rightarrow> (UESIM_ERROR_NOT_FOUND, m)
   | Some k \<Rightarrow> (UESIM_SUCCESS, upd_slot k (upd_base (\<lambda>b. b\<lparr>gb_ngap := (if gb_ngap b \<ge> 0 then -1 else gb_ngap b),
       gb_gtpu := (if gb_gtpu b \<ge> 0 then -1 else gb_gtpu b), gb_state := GNB_STATE_DISCONNECTED\<rparr>))
       (close_sockets (gnb_list m ! k) m)))"

section \<open>Cells\<close>

definition cell_at :: "gnb_manager \<Rightarrow> nat \<times> nat \<Rightarrow> gnb_cell_info" where
  "cell_at m x = gx_cells (gnb_list m ! fst x) ! snd x"

definition upd_cell :: "nat \<times> nat \<Rightarrow> (gnb_cell_info \<Rightarrow> gnb_cell_info) \<Rightarrow> gnb_manager \<Rightarrow> gnb_manager" where
  "upd_cell x f m = upd_slot (fst x) (\<lambda>g. g\<lparr>gx_cells := (gx_cells g)[snd x := f (gx_cells g ! snd x)]\<rparr>) m"

text \<open>The gNB with the strongest primary cell, as its pointer gives it, among the candidates.\<close>

definition gnb_manager_find_best_handover :: "gnb_manager option \<Rightarrow> nat option \<Rightarrow> nat option" where
  "gnb_manager_find_best_handover p exclude = (case p of None \<Rightarrow> None | Some m \<Rightarrow>
     fst (fold (\<lambda>i (best, level). let g = gnb_list m ! i in
       if exclude = Some i then (best, level)
       else if gb_state (gx_base g) \<noteq> GNB_STATE_CONNECTED \<and> gb_state (gx_base g) \<noteq> GNB_STATE_HANDOVER_CANDIDATE
       then (best, level)
       else if \<not> is_handover_candidate g then (best, level)
       else (case primary_cell g of None \<Rightarrow> (best, level)
         | Some x \<Rightarrow> if sint (ce_rsrp (cell_at m x)) > level then (Some i, sint (ce_rsrp (cell_at m x)))
             else (best, level)))
       [0..<unat (num_gnbs m)] (None, -140)))"

definition gnb_find_cell_by_pci :: "gnb_manager \<Rightarrow> nat option \<Rightarrow> u16 \<Rightarrow> nat option" where
  "gnb_find_cell_by_pci m q pci = (case q of None \<Rightarrow> None | Some k \<Rightarrow> let g = gnb_list m ! k in
     find_index (\<lambda>c. ce_pci c = pci) (take (unat (num_cells g)) (gx_cells g)))"

definition gnb_add_cell :: "nat option \<Rightarrow> gnb_cell_info option \<Rightarrow> gnb_manager \<Rightarrow> uesim_error \<times> gnb_manager" where
  "gnb_add_cell q cell m = (case (q, cell) of
     (Some k, Some c) \<Rightarrow> let n = unat (num_cells (gnb_list m ! k)) in
       if n \<ge> GNB_MAX_CELLS_PER_GNB then (UESIM_ERROR_CAPACITY, m)
       else if gnb_find_cell_by_pci m q (ce_pci c) \<noteq> None then (UESIM_ERROR_ALREADY_EXISTS, m)
       else (UESIM_SUCCESS, upd_slot k (\<lambda>g. g\<lparr>gx_cells := (gx_cells g)[n := c],
         primary_cell := (if n = 0 then Some (k, 0) else primary_cell g), num_cells := num_cells g + 1\<rparr>) m)
   | _ \<Rightarrow> (UESIM_ERROR_INVALID_PARAM, m))"

definition gnb_remove_cell :: "nat option \<Rightarrow> u16 \<Rightarrow> gnb_manager \<Rightarrow> uesim_error \<times> gnb_manager" where
  "gnb_remove_cell q pci m = (case q of None \<Rightarrow> (UESIM_ERROR_INVALID_PARAM, m) | Some k \<Rightarrow>
     (case gnb_find_cell_by_pci m q pci of None \<Rightarrow> (UESIM_ERROR_NOT_FOUND, m)
      | Some i \<Rightarrow> (UESIM_SUCCESS, upd_slot k (\<lambda>g. g\<lparr>
          primary_cell := (if primary_cell g = Some (k, i) then if num_cells g > 1 then Some (k, 0) else None
            else primary_cell g),
          gx_cells := shift_down i (unat (num_cells g)) (gx_cells g), num_cells := num_cells g - 1\<rparr>) m)))"

section \<open>Measurements, handover candidates, statistics\<close>

text \<open>The measurements go to the cell that the pointer refers to.\<close>

definition gnb_update_measurements :: "int \<Rightarrow> nat option \<Rightarrow> s32 \<Rightarrow> s32 \<Rightarrow> s32 \<Rightarrow> gnb_manager \<Rightarrow> uesim_error \<times> gnb_manager" where
  "gnb_update_measurements now q p r n m = (case q of None \<Rightarrow> (UESIM_ERROR_INVALID_PARAM, m) | Some k \<Rightarrow>
     let m1 = (case primary_cell (gnb_list m ! k) of None \<Rightarrow> m
       | Some x \<Rightarrow> upd_cell x (\<lambda>c. c\<lparr>ce_rsrp := p, ce_rsrq := r, ce_sinr := n\<rparr>) m)
     in (UESIM_SUCCESS, upd_slot k (\<lambda>g. g\<lparr>gx_last_activity := now\<rparr>) m1))"

definition gnb_set_handover_candidate :: "nat option \<Rightarrow> bool \<Rightarrow> gnb_manager \<Rightarrow> uesim_error \<times> gnb_manager" where
  "gnb_set_handover_candidate q flag m = (case q of None \<Rightarrow> (UESIM_ERROR_INVALID_PARAM, m) | Some k \<Rightarrow>
     (UESIM_SUCCESS, upd_slot k (\<lambda>g. let g1 = g\<lparr>is_handover_candidate := flag\<rparr> in
       if flag \<and> gb_state (gx_base g1) = GNB_STATE_CONNECTED
       then upd_base (\<lambda>b. b\<lparr>gb_state := GNB_STATE_HANDOVER_CANDIDATE\<rparr>) g1
       else if \<not> flag \<and> gb_state (gx_base g1) = GNB_STATE_HANDOVER_CANDIDATE
       then upd_base (\<lambda>b. b\<lparr>gb_state := GNB_STATE_CONNECTED\<rparr>) g1 else g1) m))"

definition gnb_set_handover_priority :: "nat option \<Rightarrow> s32 \<Rightarrow> gnb_manager \<Rightarrow> uesim_error \<times> gnb_manager" where
  "gnb_set_handover_priority q prio m = (case q of None \<Rightarrow> (UESIM_ERROR_INVALID_PARAM, m) | Some k \<Rightarrow>
     (UESIM_SUCCESS, upd_slot k (\<lambda>g. g\<lparr>handover_priority := prio\<rparr>) m))"

definition gnb_update_stats :: "int \<Rightarrow> nat option \<Rightarrow> u64 \<Rightarrow> u64 \<Rightarrow> gnb_manager \<Rightarrow> uesim_error \<times> gnb_manager" where
  "gnb_update_stats now q tx rx m = (case q of None \<Rightarrow> (UESIM_ERROR_INVALID_PARAM, m) | Some k \<Rightarrow>
     (UESIM_SUCCESS, upd_slot k (\<lambda>g. g\<lparr>gx_tx_bytes := gx_tx_bytes g + tx, gx_rx_bytes := gx_rx_bytes g + rx,
       gx_last_activity := now\<rparr>) m))"

definition gnb_reset_stats :: "nat option \<Rightarrow> gnb_manager \<Rightarrow> gnb_manager" where
  "gnb_reset_stats q m = (case q of None \<Rightarrow> m | Some k \<Rightarrow>
     upd_slot k (\<lambda>g. g\<lparr>gx_tx_bytes := 0, gx_rx_bytes := 0, connected_ues := 0\<rparr>) m)"

section \<open>What moves and what does not\<close>

text \<open>Before anything has been removed, the pointer of every gNB that has cells is to its own first cell.\<close>

definition own_cells :: "gnb_manager \<Rightarrow> bool" where
  "own_cells m \<longleftrightarrow> length (gnb_list m) = GNB_MAX_INSTANCES \<and> unat (num_gnbs m) \<le> GNB_MAX_INSTANCES
     \<and> (\<forall>k < unat (num_gnbs m). length (gx_cells (gnb_list m ! k)) = GNB_MAX_CELLS_PER_GNB
         \<and> primary_cell (gnb_list m ! k) = (if num_cells (gnb_list m ! k) = 0 then None else Some (k, 0)))
     \<and> distinct (map (\<lambda>g. gnb_id (gx_base g)) (in_use m))"

lemma nth_shift_down:
  assumes "i \<le> k" and "k < n - 1" and "n \<le> length xs"
  shows "shift_down i n xs ! k = xs ! (k + 1)"
proof -
  have k: "k - i < n - 1 - i" "i + 1 + (k - i) = k + 1" and t: "length (take i xs) = i" "\<not> k < i"
    and d: "k - i < length (take (n - 1 - i) (drop (i + 1) xs))"
    using assms by auto
  show ?thesis
    unfolding shift_down_def nth_append t using k d t(2) assms by (simp del: take_drop)
qed

lemma close_sockets_frame [simp]:
  "gnb_list (close_sockets g m) = gnb_list m" "num_gnbs (close_sockets g m) = num_gnbs m"
  by (simp_all add: close_sockets_def close_socket_def)

lemma find_by_id_place:
  assumes "own_cells m" and "k < unat (num_gnbs m)"
  shows "gnb_manager_find_by_id (Some m) (gnb_id (gx_base (gnb_list m ! k))) = Some k"
proof -
  have k: "k < length (in_use m)" "in_use m ! k = gnb_list m ! k"
    using assms by (simp_all add: in_use_def own_cells_def)
  have "gnb_id (gx_base (in_use m ! j)) \<noteq> gnb_id (gx_base (in_use m ! k))" if "j < k" for j
    using assms(1) that k(1) unfolding own_cells_def by (auto simp: distinct_conv_nth)
  then show ?thesis
    unfolding gnb_manager_find_by_id_def by (auto intro: find_indexI simp: k simp flip: k(2))
qed

text \<open>
  C32. A removal separates the gNBs behind it from their cells. While nothing has been removed, measurements
  reported for a gNB go to its first cell. After the removal of a gNB, those for each gNB that moved go to
  the structure of the next place: the cells of the gNB are unchanged, and the first cell in that place,
  another gNB's or one out of use, is overwritten.
\<close>

theorem removal_separates_cells:
  assumes "own_cells m" and "i < unat (num_gnbs m)" and "i \<le> k" and "k + 1 < unat (num_gnbs m)"
    and "num_cells (gnb_list m ! (k + 1)) \<noteq> 0"
    and "gnb_manager_remove (gnb_id (gx_base (gnb_list m ! i))) (Some m) = (r, Some m')"
    and "gnb_update_measurements now (Some (k + 1)) p q n m = (r1, u)"
    and "gnb_update_measurements now (Some k) p q n m' = (r2, u')"
  shows "ce_rsrp (cell_at u (k + 1, 0)) = p
    \<and> gnb_id (gx_base (gnb_list m' ! k)) = gnb_id (gx_base (gnb_list m ! (k + 1)))
    \<and> gx_cells (gnb_list u' ! k) = gx_cells (gnb_list m ! (k + 1))
    \<and> ce_rsrp (cell_at u' (k + 1, 0)) = p"
proof -
  have len: "length (gnb_list m) = 32" "unat (num_gnbs m) \<le> 32"
    using assms(1) by (simp_all add: own_cells_def GNB_MAX_INSTANCES_def)
  have cells: "length (gx_cells (gnb_list m ! j)) = 5" if "j < unat (num_gnbs m)" for j
    using assms(1) that by (simp add: own_cells_def GNB_MAX_CELLS_PER_GNB_def)
  have prim: "primary_cell (gnb_list m ! (k + 1)) = Some (k + 1, 0)"
    using assms(1,4,5) by (simp add: own_cells_def)
  have l: "gnb_list m' = shift_down i (unat (num_gnbs m)) (gnb_list m)"
    using assms(6) find_by_id_place [OF assms(1,2)] by (simp add: gnb_manager_remove_def Let_def) auto
  have at: "gnb_list m' ! k = gnb_list m ! (k + 1)"
    using nth_shift_down [of i k "unat (num_gnbs m)" "gnb_list m"] assms(3,4) len l by simp
  have l': "length (gnb_list m') = 32"
    using assms(2) len by (simp add: l shift_down_def)
  have next_place: "length (gx_cells (gnb_list m' ! (k + 1))) = 5"
  proof (cases "k + 2 < unat (num_gnbs m)")
    case True
    then show ?thesis
      using nth_shift_down [of i "k + 1" "unat (num_gnbs m)" "gnb_list m"] assms(3) len l cells [of "k + 2"] by simp
  next
    case False
    then have k: "k + 1 = unat (num_gnbs m) - 1" using assms(4) by simp
    have "gnb_list m' ! (k + 1) = gnb_list m ! (k + 1)"
      using assms(2-4) len k by (simp add: l shift_down_def nth_append min_def)
    then show ?thesis using cells [of "k + 1"] assms(4) by simp
  qed
  have "u = upd_slot (k + 1) (\<lambda>g. g\<lparr>gx_last_activity := now\<rparr>) (upd_cell (k + 1, 0) (\<lambda>c. c\<lparr>ce_rsrp := p, ce_rsrq := q, ce_sinr := n\<rparr>) m)"
    using assms(7) prim by (simp add: gnb_update_measurements_def Let_def)
  then have "ce_rsrp (cell_at u (k + 1, 0)) = p"
    using len assms(4) cells [of "k + 1"] by (simp add: cell_at_def upd_slot_def upd_cell_def)
  moreover have u': "u' = upd_slot k (\<lambda>g. g\<lparr>gx_last_activity := now\<rparr>) (upd_cell (k + 1, 0) (\<lambda>c. c\<lparr>ce_rsrp := p, ce_rsrq := q, ce_sinr := n\<rparr>) m')"
    using assms(8) prim by (simp add: gnb_update_measurements_def Let_def at)
  then have "gx_cells (gnb_list u' ! k) = gx_cells (gnb_list m' ! k)" and "ce_rsrp (cell_at u' (k + 1, 0)) = p"
    using l' len(2) assms(4) next_place by (simp_all add: cell_at_def upd_slot_def upd_cell_def)
  ultimately show ?thesis by (simp add: at)
qed

definition two_places :: gnb_manager where
  "two_places = (let one = (\<lambda>i k. (fresh_gnb i GNB_TYPE_MOCK 1 38412)\<lparr>num_cells := 1, primary_cell := Some (k, 0)\<rparr>) in
     \<lparr>gnb_list = one 7 0 # one 8 1 # replicate 30 zero_gnb, num_gnbs = 2, default_ngap_port = 0, default_gtpu_port = 0,
       mgr_total_tx_bytes = 0, mgr_total_rx_bytes = 0, mgr_fds = []\<rparr>)"

lemma two_places_own: "own_cells two_places"
  by (auto simp: own_cells_def two_places_def fresh_gnb_def zero_gnb_def zero_base_def in_use_def GNB_MAX_INSTANCES_def
      GNB_MAX_CELLS_PER_GNB_def less_2_cases_iff take_Cons')

theorem removal_separates_cells_witness:
  "let m' = the (snd (gnb_manager_remove 7 (Some two_places))); u' = snd (gnb_update_measurements 5 (Some 0) 9 9 9 m')
   in gnb_id (gx_base (gnb_list m' ! 0)) = 8 \<and> ce_rsrp (cell_at u' (1, 0)) = 9"
proof -
  obtain r m' where d: "gnb_manager_remove 7 (Some two_places) = (r, Some m')"
    by (cases "gnb_manager_find_by_id (Some two_places) 7") (auto simp: gnb_manager_remove_def Let_def intro: that)
  obtain r1 u where u: "gnb_update_measurements 5 (Some 1) 9 9 9 two_places = (r1, u)" by fastforce
  obtain r2 u' where u': "gnb_update_measurements 5 (Some 0) 9 9 9 m' = (r2, u')" by fastforce
  have g: "unat (num_gnbs two_places) = 2" "gnb_id (gx_base (gnb_list two_places ! 0)) = 7"
      "gnb_id (gx_base (gnb_list two_places ! Suc 0)) = 8" "num_cells (gnb_list two_places ! Suc 0) = 1"
    by (simp_all add: two_places_def fresh_gnb_def)
  show ?thesis
    using removal_separates_cells [OF two_places_own, of 0 0 r m' 5 9 9 9 r1 u r2 u'] d u u' by (simp add: g)
qed

end
