(* ===== verification/Bit_Codec.thy ===== *)
theory Bit_Codec
  imports Asn1_Proofs Decimals
begin

text \<open>
  What the codecs of the interface messages share: \<^verbatim>\<open>e1ap_messages.c\<close>,
  \<^verbatim>\<open>f1ap_messages.c\<close> and \<^verbatim>\<open>xnap_messages.c\<close> each write a message as a sequence of
  \<^verbatim>\<open>asn1_encode_bits\<close> whose results are not looked at, and read it with
  \<^verbatim>\<open>asn1_decode_bits\<close> on the received octets without their length.

  An encoder is the list of the fields that it writes, a decoder is a reader: a function from the octets
  and the position in bits to the value and the position behind it. A read behind the octets leaves the
  defined behaviour of C, which is the result \<open>None\<close>. An array with a counter is the list of the entries
  that are in use; a name is the list of its octets before the terminating zero.
\<close>

section \<open>Fields\<close>

type_synonym 'a reader = "u8 list \<Rightarrow> nat \<Rightarrow> ('a \<times> nat) option"

definition fld :: "'a::len word \<Rightarrow> nat \<Rightarrow> u32 \<times> nat" where
  "fld w n = (ucast w, n)"

text \<open>A value of more than 32 bits is written in two parts, the upper one first.\<close>

definition fld_pair :: "nat \<Rightarrow> u64 \<Rightarrow> (u32 \<times> nat) list" where
  "fld_pair n w = [(ucast (drop_bit 32 w), n), (ucast w, 32)]"

definition octet_fields :: "u8 list \<Rightarrow> (u32 \<times> nat) list" where
  "octet_fields bs = map (\<lambda>c. fld c 8) bs"

definition word_fields :: "nat \<Rightarrow> 'a::len word list \<Rightarrow> (u32 \<times> nat) list" where
  "word_fields n ws = map (\<lambda>w. fld w n) ws"

definition name_fields :: "u8 list \<Rightarrow> (u32 \<times> nat) list" where
  "name_fields s = (word_of_nat (length s), 8) # octet_fields s"

definition width :: "(u32 \<times> nat) list \<Rightarrow> nat" where
  "width fs = sum_list (map snd fs)"

section \<open>Readers\<close>

text \<open>The value of \<open>n\<close> bits, stored into a field of its type.\<close>

definition read_word :: "nat \<Rightarrow> 'a::len word reader" where
  "read_word n d b = map_option (map_prod ucast id) (read_bits d b n)"

fun read_list :: "'a reader \<Rightarrow> nat \<Rightarrow> 'a list reader" where
  "read_list r 0 d b = Some ([], b)"
| "read_list r (Suc n) d b = do { (x, b) \<leftarrow> r d b; (xs, b) \<leftarrow> read_list r n d b; Some (x # xs, b) }"

definition read_name :: "u8 list reader" where
  "read_name d b = do {
     (len, b) \<leftarrow> read_word 8 d b;
     (cs, b) \<leftarrow> read_list (read_word 8) (min (unat (len :: u8)) 63) d b;
     Some (takeWhile (\<lambda>c. c \<noteq> 0) cs, b) }"

text \<open>
  \<^verbatim>\<open>((uint64_t)decode(n) << 32) | decode(32)\<close>: C does not say which of the two calls comes first. \<open>ord\<close> says
  that it is the left one.
\<close>

definition read_pair :: "bool \<Rightarrow> nat \<Rightarrow> u64 reader" where
  "read_pair ord n d b =
     (if ord then do { (h, b) \<leftarrow> read_word n d b; (l, b) \<leftarrow> read_word 32 d b; Some (push_bit 32 h OR l, b) }
      else do { (l, b) \<leftarrow> read_word 32 d b; (h, b) \<leftarrow> read_word n d b; Some (push_bit 32 h OR l, b) })"

text \<open>A flag of one bit with a part that is there when the flag is set; otherwise it stays zero.\<close>

definition read_opt :: "'a \<Rightarrow> 'a reader \<Rightarrow> (u8 \<times> 'a) reader" where
  "read_opt z r d b = do {
     (f, b) \<leftarrow> read_word 1 d b;
     if f \<noteq> 0 then do { (x, b) \<leftarrow> r d b; Some ((f, x), b) } else Some ((f, z), b) }"

section \<open>Messages\<close>

text \<open>
  The encoder of a message: a block of \<open>cap\<close> octets, which holds \<open>mem\<close>, the fields, and the octets in
  use. \<open>None\<close> is the result -1, \<open>out\<close> says that both output pointers are there.
\<close>

definition encode_fields :: "os \<Rightarrow> u8 list \<Rightarrow> nat \<Rightarrow> bool \<Rightarrow> ('m \<Rightarrow> (u32 \<times> nat) list) \<Rightarrow> 'm option \<Rightarrow> u8 list option" where
  "encode_fields s mem cap out fs msg = (case msg of None \<Rightarrow> None | Some m \<Rightarrow>
     if \<not> out then None else
     let (r, p) = asn1_buffer_alloc s mem cap (Some \<lparr>ab_data = [], ab_size = 0, ab_capacity = 0, ab_offset = 0, own_data = False\<rparr>)
     in if r \<noteq> UESIM_SUCCESS then None
        else map_option (\<lambda>b. let e = emit (fs m) b in take (asn1_buffer_length (Some e)) (ab_data e)) p)"

text \<open>The decoder: the outer option is the defined behaviour, \<open>Inl ()\<close> the result -1.\<close>

definition decode_fields :: "(u8 list \<Rightarrow> 'm option) \<Rightarrow> u8 list option \<Rightarrow> bool \<Rightarrow> (unit + 'm) option" where
  "decode_fields r d out = (case d of None \<Rightarrow> Some (Inl ())
     | Some x \<Rightarrow> if \<not> out \<or> x = [] then Some (Inl ()) else map_option Inr (r x))"

section \<open>Reading what has been written\<close>

text \<open>The octets hold the fields from the position on.\<close>

fun holds :: "u8 list \<Rightarrow> nat \<Rightarrow> (u32 \<times> nat) list \<Rightarrow> bool" where
  "holds d b [] \<longleftrightarrow> True"
| "holds d b ((v, n) # fs) \<longleftrightarrow> read_bits d b n = Some (take_bit n v, b + n) \<and> holds d (b + n) fs"

lemma width_simps [simp]: "width [] = 0" "width ((v, n) # fs) = n + width fs" "width (fs @ gs) = width fs + width gs"
  "width (fld w n # fs) = n + width fs" "width (fld_pair n u) = n + 32" "width (octet_fields bs) = 8 * length bs"
  "width (name_fields bs) = 8 + 8 * length bs" "width (word_fields n ws) = n * length ws"
  by (simp_all add: width_def fld_def fld_pair_def octet_fields_def word_fields_def name_fields_def sum_list_triv comp_def)

lemma holds_append [simp]: "holds d b (fs @ gs) \<longleftrightarrow> holds d b fs \<and> holds d (b + width fs) gs"
  by (induction d b fs rule: holds.induct) (auto simp: add.assoc)

lemma holds_fields: "read_fields d b (map snd fs) = Some (map (\<lambda>(v, n). take_bit n v) fs, q) \<Longrightarrow> holds d b fs"
proof (induction d b fs rule: holds.induct)
  case (2 d b v n fs)
  then obtain p where p: "read_bits d b n = Some (take_bit n v, p)"
    and r: "read_fields d p (map snd fs) = Some (map (\<lambda>(v, n). take_bit n v) fs, q)"
    by (auto simp: read_fields.simps split: Option.bind_splits)
  have "p = b + n" using read_loop_offset [OF p] by simp
  with 2(1) p r show ?case by simp
qed simp

lemma ucast_take_bit: "n \<le> 32 \<Longrightarrow> ucast (take_bit n (ucast (w :: 'a::len word) :: u32)) = take_bit n w"
  by (rule bit_word_eqI) (auto simp: bit_ucast_iff bit_take_bit_iff possible_bit_word)

lemma read_bits_short: "read_bits d b n = Some (r, p) \<Longrightarrow> n \<le> 32 \<Longrightarrow> p = b + n \<and> take_bit n r = r"
proof (cases "n = 0")
  case False
  assume r: "read_bits d b n = Some (r, p)"
  have p: "p = b + n" "b + n \<le> 8 * length d" using read_loop_offset [OF r] False by simp_all
  with read_loop_ok [of b n d 0] r have "\<forall>j. bit r j \<longrightarrow> j < n" by auto
  then have "take_bit n r = r" by (auto intro!: bit_word_eqI simp: bit_take_bit_iff)
  with p show ?thesis by simp
qed (simp add: read_loop.simps)

lemma holds_fld [simp]: "n \<le> 32 \<Longrightarrow> n \<le> LENGTH('a) \<Longrightarrow> holds d b (fld (w :: 'a::len word) n # fs) \<longleftrightarrow>
    read_word n d b = Some (take_bit n w, b + n) \<and> holds d (b + n) fs"
proof -
  assume n: "n \<le> 32" "n \<le> LENGTH('a)"
  have "r = take_bit n (ucast w) \<longleftrightarrow> ucast r = take_bit n w" if "take_bit n r = r" for r :: u32
  proof
    assume *: "ucast r = take_bit n w"
    have "bit r i = bit (take_bit n (ucast w :: u32)) i" if "i < 32" for i
    proof -
      have "bit r i \<longleftrightarrow> i < n \<and> bit r i" using \<open>take_bit n r = r\<close> by (metis bit_take_bit_iff)
      also have "\<dots> \<longleftrightarrow> i < n \<and> bit (ucast r :: 'a word) i" using n by (auto simp: bit_ucast_iff)
      also have "\<dots> \<longleftrightarrow> i < n \<and> bit w i" by (simp add: * bit_take_bit_iff)
      finally show ?thesis using that by (auto simp: bit_take_bit_iff bit_ucast_iff)
    qed
    then show "r = take_bit n (ucast w)" by (intro bit_word_eqI) simp
  qed (use n in \<open>simp add: ucast_take_bit\<close>)
  then have "read_bits d b n = Some (take_bit n (ucast w), b + n) \<longleftrightarrow> read_word n d b = Some (take_bit n w, b + n)"
    using read_bits_short [of d b n] n by (cases "read_bits d b n") (auto simp: read_word_def ucast_take_bit)
  then show ?thesis by (simp add: fld_def)
qed

lemma take_bit_full: "LENGTH('a) \<le> n \<Longrightarrow> take_bit n (w :: 'a::len word) = w"
  by (rule bit_word_eqI) (auto simp: bit_take_bit_iff dest: bit_imp_le_length)

lemma lower_half: "(w :: u64) < 2 ^ 32 \<Longrightarrow> ucast (ucast w :: u32) = w"
proof -
  have "ucast (ucast w :: u32) = take_bit 32 w"
    by (rule bit_word_eqI) (auto simp: bit_ucast_iff bit_take_bit_iff possible_bit_word)
  then show "w < 2 ^ 32 \<Longrightarrow> ?thesis" by (simp add: take_bit_small)
qed

lemma join_halves: "n \<le> 32 \<Longrightarrow> (push_bit 32 (ucast h) OR ucast l = take_bit (n + 32) (w :: u64)) \<longleftrightarrow>
    h = take_bit n (ucast (drop_bit 32 w)) \<and> l = ucast w" if "take_bit n h = h" for h l :: u32
proof -
  assume n: "n \<le> 32"
  have h: "bit h i \<longleftrightarrow> i < n \<and> bit h i" for i using that by (metis bit_take_bit_iff)
  have b: "bit (push_bit 32 (ucast h) OR ucast l :: u64) i \<longleftrightarrow> (if i < 32 then bit l i else i < 64 \<and> bit h (i - 32))" for i
    by (auto simp: bit_or_iff bit_push_bit_iff bit_ucast_iff possible_bit_word dest: bit_imp_le_length)
  show ?thesis
  proof
    assume eq: "push_bit 32 (ucast h) OR ucast l = take_bit (n + 32) w"
    have "bit l i \<longleftrightarrow> bit w i" if "i < 32" for i
      using b [of i] that n by (simp add: eq bit_take_bit_iff)
    moreover have "bit h i \<longleftrightarrow> i < n \<and> bit w (i + 32)" if "i < 32" for i
      using b [of "i + 32"] that n by (simp add: eq bit_take_bit_iff)
    ultimately show "h = take_bit n (ucast (drop_bit 32 w)) \<and> l = ucast w"
      by (auto intro!: bit_word_eqI simp: bit_take_bit_iff bit_ucast_iff bit_drop_bit_eq add.commute)
  next
    assume "h = take_bit n (ucast (drop_bit 32 w)) \<and> l = ucast w"
    then show "push_bit 32 (ucast h) OR ucast l = take_bit (n + 32) w"
      using n by (auto intro!: bit_word_eqI
          simp: bit_or_iff bit_push_bit_iff bit_take_bit_iff bit_ucast_iff bit_drop_bit_eq possible_bit_word)
  qed
qed

lemma holds_pair [simp]: "n \<le> 32 \<Longrightarrow> holds d b (fld_pair n w) \<longleftrightarrow>
    read_pair True n d b = Some (take_bit (n + 32) w, b + (n + 32))"
proof -
  assume n: "n \<le> 32"
  show ?thesis
  proof (cases "read_bits d b n")
    case (Some r)
    then have r: "snd r = b + n" "take_bit n (fst r) = fst r"
      using read_bits_short [of d b n "fst r" "snd r"] n by simp_all
    show ?thesis
    proof (cases "read_bits d (b + n) 32")
      case (Some q)
      then have q: "snd q = b + n + 32" using read_bits_short [of d "b + n" 32 "fst q" "snd q"] by simp
      show ?thesis
        using \<open>read_bits d b n = Some r\<close> Some r q join_halves [OF r(2) n, of "fst q" w]
        by (cases r; cases q) (auto simp: fld_pair_def read_pair_def read_word_def take_bit_full)
    qed (use \<open>read_bits d b n = Some r\<close> r in \<open>cases r; simp add: fld_pair_def read_pair_def read_word_def\<close>)
  qed (simp add: fld_pair_def read_pair_def read_word_def)
qed

lemma read_list_holds:
  assumes "\<And>x b. x \<in> set xs \<Longrightarrow> holds d b (f x) \<Longrightarrow> r d b = Some (g x, b + width (f x))"
    and "holds d b (concat (map f xs))"
  shows "read_list r (length xs) d b = Some (map g xs, b + width (concat (map f xs)))"
  using assms
proof (induction xs arbitrary: b)
  case (Cons a xs)
  have "r d b = Some (g a, b + width (f a))" by (rule Cons.prems(1)) (use Cons.prems(2) in simp_all)
  moreover have "read_list r (length xs) d (b + width (f a)) =
      Some (map g xs, b + width (f a) + width (concat (map f xs)))"
    by (rule Cons.IH) (use Cons.prems in simp_all)
  ultimately show ?case by (simp add: add.assoc)
qed simp

lemma octets_concat: "octet_fields bs = concat (map (\<lambda>c. [fld c 8]) bs)"
  by (induction bs) (simp_all add: octet_fields_def)

lemma read_octets: "holds d b (octet_fields bs) \<Longrightarrow>
    read_list (read_word 8) (length bs) d b = Some (bs, b + 8 * length bs)"
  using read_list_holds [of bs d "\<lambda>c. [fld c 8]" "read_word 8" "\<lambda>c. c" b, folded octets_concat]
  by (simp add: take_bit_full)

lemma words_concat: "word_fields n ws = concat (map (\<lambda>w. [fld w n]) ws)"
  by (induction ws) (simp_all add: word_fields_def)

lemma read_words: "holds d b (word_fields n ws) \<Longrightarrow> n \<le> 32 \<Longrightarrow> n \<le> LENGTH('a) \<Longrightarrow> \<forall>w \<in> set ws. take_bit n w = w \<Longrightarrow>
    read_list (read_word n) (length ws) d b = Some (ws, b + n * length (ws :: 'a::len word list))"
  using read_list_holds [of ws d "\<lambda>w. [fld w n]" "read_word n" "\<lambda>w. w" b, folded words_concat]
  by simp

lemma read_name_holds:
  assumes "holds d b (name_fields s)" and "length s \<le> 63" and "0 \<notin> set s"
  shows "read_name d b = Some (s, b + (8 + 8 * length s))"
proof -
  have len: "unat (ucast (take_bit 8 (word_of_nat (length s) :: u32)) :: u8) = length s"
    using assms(2) by (simp add: unsigned_ucast_eq unsigned_take_bit_eq unsigned_of_nat take_bit_nat_eq_self)
  have "takeWhile (\<lambda>c. c \<noteq> 0) s = s" using assms(3) by (auto simp: takeWhile_eq_all_conv)
  then show ?thesis
    using assms(1,2) read_octets [of d "b + 8" s]
    by (simp add: read_name_def name_fields_def read_word_def len min_def add.assoc)
qed

text \<open>A counted array, and an optional part.\<close>

lemma read_counted:
  assumes "holds d b (concat (map f (take k xs)))" and "length xs = k"
    and "\<And>x b. x \<in> set xs \<Longrightarrow> holds d b (f x) \<Longrightarrow> r d b = Some (x, b + width (f x))"
  shows "read_list r k d b = Some (xs, b + width (concat (map f (take k xs))))"
  using read_list_holds [of xs d f r "\<lambda>x. x" b] assms by simp

lemma read_opt_holds:
  assumes "holds d b (fld f 1 # (if f \<noteq> 0 then fs else []))" and "f < 2"
    and "f \<noteq> 0 \<Longrightarrow> holds d (b + 1) fs \<Longrightarrow> r d (b + 1) = Some (x, b + 1 + width fs)" and "f = 0 \<Longrightarrow> x = z"
  shows "read_opt z r d b = Some ((f, x), b + 1 + (if f \<noteq> 0 then width fs else 0))"
proof (cases "f = 0")
  case False
  then have "f = 1" using assms(2) by unat_arith
  with assms show ?thesis by (simp add: read_opt_def)
qed (use assms in \<open>simp add: read_opt_def\<close>)

text \<open>Two digits in an octet.\<close>

lemma two_digits:
  assumes "(x :: u8) < 16" and "y < 16"
  shows "(x OR push_bit 4 y) AND 15 = x" and "drop_bit 4 (x OR push_bit 4 y) = y" and "y AND 15 = y"
proof -
  have "take_bit 4 x = x" "take_bit 4 y = y" using assms by (simp_all add: take_bit_small)
  then have x: "bit x n \<Longrightarrow> n < 4" and y: "bit y n \<Longrightarrow> n < 4" for n
    by (metis bit_take_bit_iff)+
  have e: "(15 :: u8) = mask 4" by (simp add: mask_eq_exp_minus_1)
  have m: "bit (15 :: u8) n \<longleftrightarrow> n < 4" for n
    by (subst e, subst bit_mask_iff) (auto simp: possible_bit_word)
  show "(x OR push_bit 4 y) AND 15 = x" "drop_bit 4 (x OR push_bit 4 y) = y" "y AND 15 = y"
    by (auto intro!: bit_word_eqI dest: x y simp: m bit_and_iff bit_or_iff bit_push_bit_iff bit_drop_bit_eq possible_bit_word
        simp del: bit_numeral_word_iff)
qed

section \<open>The two ends of an encoding\<close>

lemma encode_zeros:
  assumes "width (fs m) \<le> 8 * cap" and "\<forall>f \<in> set (fs m). snd f \<le> 32" and "0 < cap"
  shows "\<exists>d. encode_fields good_os (replicate cap 0) cap True fs (Some m) = Some d \<and>
    length d = (width (fs m) + 7) div 8 \<and> holds d 0 (fs m)"
proof -
  define b where "b = \<lparr>ab_data = replicate cap (0 :: u8), ab_size = 0, ab_capacity = cap, ab_offset = 0, own_data = True\<rparr>"
  have cl: "clear_buffer b = b" by (simp add: clear_buffer_def b_def blit_def)
  have cap: "ab_capacity b \<le> length (ab_data b)" "ab_capacity b = cap" by (simp_all add: b_def)
  have t: "sum_list (map snd (fs m)) = width (fs m)" by (simp add: width_def)
  note e = emit_ok [OF clear_buffer_ok(1) [OF cap(1)], of "fs m"]
  have off: "ab_offset (emit (fs m) b) = width (fs m)" "length (ab_data (emit (fs m) b)) = cap"
    using e assms(1) by (simp_all add: cl t cap) (simp_all add: b_def)
  have "holds (take ((width (fs m) + 7) div 8) (ab_data (emit (fs m) b))) 0 (fs m)"
    by (rule holds_fields, rule emit_read [of b "fs m" "(width (fs m) + 7) div 8", unfolded cl])
      (use assms cap t in simp_all)
  then show ?thesis
    using assms(1,3) off
    by (auto simp: encode_fields_def asn1_buffer_alloc_def b_def [symmetric] Let_def asn1_buffer_length_def)
qed

text \<open>Bits are only ever set: in a block of ones every field is lost.\<close>

lemma ones_or [simp]: "(255 :: u8) OR x = 255"
proof -
  have "(255 :: u8) = - 1" by simp
  then show ?thesis by (metis bit.disj_one_left)
qed

lemma update_same [simp]: "(replicate k y)[j := y] = replicate k y"
  by (cases "j < k") (simp_all add: list_update_same_conv list_update_beyond)

lemma put_bits_ones:
  "ab_data b = replicate n 255 \<Longrightarrow> ab_capacity b = n \<Longrightarrow> ab_data (snd (put_bits v k b)) = replicate n 255"
proof (induction v k b rule: put_bits.induct)
  case (2 v i b)
  show ?case
  proof (cases "ab_capacity b \<le> ab_offset b div 8")
    case False
    then have "ab_data (snd (put_bits v i (b\<lparr>ab_data := (if bit v i
        then (ab_data b)[ab_offset b div 8 := ab_data b ! (ab_offset b div 8) OR push_bit (7 - ab_offset b mod 8) 1]
        else ab_data b), ab_offset := ab_offset b + 1\<rparr>))) = replicate n 255"
      by (intro 2(1) [OF refl]) (use 2(2,3) in simp_all)
    with False show ?thesis by (simp add: Let_def)
  qed (use 2(2) in \<open>simp add: Let_def\<close>)
qed simp

lemma put_bits_capacity [simp]: "ab_capacity (snd (put_bits v k b)) = ab_capacity b"
  by (induction v k b rule: put_bits.induct) (auto simp: Let_def)

lemma emit_ones:
  "ab_data b = replicate n 255 \<Longrightarrow> ab_capacity b = n \<Longrightarrow> ab_data (emit fs b) = replicate n 255"
proof (induction fs arbitrary: b)
  case (Cons f fs)
  obtain v k where f: "f = (v, k)" by (cases f)
  show ?case unfolding f emit_Cons
    by (rule Cons.IH) (use Cons.prems in \<open>simp_all add: put_bits_ones\<close>)
qed simp

lemma encode_ones:
  "encode_fields good_os (replicate cap 255) cap True fs (Some m) = Some d \<Longrightarrow> \<exists>k. d = replicate k 255"
  by (auto simp: encode_fields_def asn1_buffer_alloc_def Let_def emit_ones split: if_splits)

end
