(* ===== verification/E1ap.thy ===== *)
theory E1ap
  imports Bit_Codec
begin

text \<open>
  The messages between the control plane and the user plane of a central unit
  (\<^verbatim>\<open>src/protocol/e1ap_messages.c\<close>). A message has the payload that its type selects in the union;
  \<open>E1_Other\<close> is a type for which encoder and decoder handle the header only.
\<close>

section \<open>Constants and enumerations\<close>

definition E1AP_MAX_MESSAGE_SIZE :: nat where "E1AP_MAX_MESSAGE_SIZE = 65535"
definition E1AP_MAX_PDU_SESSIONS :: nat where "E1AP_MAX_PDU_SESSIONS = 256"
definition E1AP_MAX_DRB_ID :: nat where "E1AP_MAX_DRB_ID = 32"
definition E1AP_MAX_QOS_FLOWS :: nat where "E1AP_MAX_QOS_FLOWS = 64"
definition E1AP_MAX_TNL_INFO :: nat where "E1AP_MAX_TNL_INFO = 8"

datatype e1ap_procedure_code = E1AP_PROC_E1_SETUP | E1AP_PROC_E1_RESET | E1AP_PROC_ERROR_INDICATION | E1AP_PROC_E1_REMOVAL
  | E1AP_PROC_GNB_CU_UP_CONFIGURATION_UPDATE | E1AP_PROC_GNB_CU_CP_CONFIGURATION_UPDATE | E1AP_PROC_BEARER_CONTEXT_SETUP
  | E1AP_PROC_BEARER_CONTEXT_RELEASE | E1AP_PROC_BEARER_CONTEXT_MODIFICATION | E1AP_PROC_BEARER_CONTEXT_RELEASE_REQUEST
  | E1AP_PROC_PDU_SESSION_RESOURCE_SETUP | E1AP_PROC_PDU_SESSION_RESOURCE_MODIFICATION | E1AP_PROC_PDU_SESSION_RESOURCE_RELEASE

text \<open>The procedures have the numbers from 1 on.\<close>

definition e1ap_proc_code :: "e1ap_procedure_code \<Rightarrow> u32" where
  "e1ap_proc_code p = word_of_nat (1 + enum_code [E1AP_PROC_E1_SETUP, E1AP_PROC_E1_RESET, E1AP_PROC_ERROR_INDICATION,
     E1AP_PROC_E1_REMOVAL, E1AP_PROC_GNB_CU_UP_CONFIGURATION_UPDATE, E1AP_PROC_GNB_CU_CP_CONFIGURATION_UPDATE,
     E1AP_PROC_BEARER_CONTEXT_SETUP, E1AP_PROC_BEARER_CONTEXT_RELEASE, E1AP_PROC_BEARER_CONTEXT_MODIFICATION,
     E1AP_PROC_BEARER_CONTEXT_RELEASE_REQUEST, E1AP_PROC_PDU_SESSION_RESOURCE_SETUP,
     E1AP_PROC_PDU_SESSION_RESOURCE_MODIFICATION, E1AP_PROC_PDU_SESSION_RESOURCE_RELEASE] p)"

text \<open>The message types have the numbers from 0 on.\<close>

definition E1AP_MSG_E1_SETUP_REQUEST :: u32 where "E1AP_MSG_E1_SETUP_REQUEST = 0"
definition E1AP_MSG_E1_SETUP_RESPONSE :: u32 where "E1AP_MSG_E1_SETUP_RESPONSE = 1"
definition E1AP_MSG_E1_SETUP_FAILURE :: u32 where "E1AP_MSG_E1_SETUP_FAILURE = 2"
definition E1AP_MSG_ERROR_INDICATION :: u32 where "E1AP_MSG_ERROR_INDICATION = 5"
definition E1AP_MSG_BEARER_CONTEXT_SETUP_REQUEST :: u32 where "E1AP_MSG_BEARER_CONTEXT_SETUP_REQUEST = 14"
definition E1AP_MSG_BEARER_CONTEXT_SETUP_RESPONSE :: u32 where "E1AP_MSG_BEARER_CONTEXT_SETUP_RESPONSE = 15"
definition E1AP_MSG_BEARER_CONTEXT_SETUP_FAILURE :: u32 where "E1AP_MSG_BEARER_CONTEXT_SETUP_FAILURE = 16"
definition E1AP_MSG_BEARER_CONTEXT_RELEASE_COMMAND :: u32 where "E1AP_MSG_BEARER_CONTEXT_RELEASE_COMMAND = 17"
definition E1AP_MSG_BEARER_CONTEXT_RELEASE_COMPLETE :: u32 where "E1AP_MSG_BEARER_CONTEXT_RELEASE_COMPLETE = 18"
definition E1AP_MSG_BEARER_CONTEXT_RELEASE_REQUEST :: u32 where "E1AP_MSG_BEARER_CONTEXT_RELEASE_REQUEST = 22"

lemmas e1ap_types = E1AP_MSG_E1_SETUP_REQUEST_def E1AP_MSG_E1_SETUP_RESPONSE_def E1AP_MSG_E1_SETUP_FAILURE_def
  E1AP_MSG_ERROR_INDICATION_def E1AP_MSG_BEARER_CONTEXT_SETUP_REQUEST_def E1AP_MSG_BEARER_CONTEXT_SETUP_RESPONSE_def
  E1AP_MSG_BEARER_CONTEXT_SETUP_FAILURE_def E1AP_MSG_BEARER_CONTEXT_RELEASE_COMMAND_def
  E1AP_MSG_BEARER_CONTEXT_RELEASE_COMPLETE_def E1AP_MSG_BEARER_CONTEXT_RELEASE_REQUEST_def

definition e1ap_message_type_strings :: "string list" where
  "e1ap_message_type_strings = [''E1SetupRequest'', ''E1SetupResponse'', ''E1SetupFailure'', ''E1ResetRequest'',
     ''E1ResetResponse'', ''ErrorIndication'', ''E1RemovalRequest'', ''E1RemovalResponse'', ''GNBCUUPConfigUpdate'',
     ''GNBCUUPConfigUpdateAck'', ''GNBCUUPConfigUpdateFailure'', ''GNBCUCPConfigUpdate'', ''GNBCUCPConfigUpdateAck'',
     ''GNBCUCPConfigUpdateFailure'', ''BearerContextSetupRequest'', ''BearerContextSetupResponse'',
     ''BearerContextSetupFailure'', ''BearerContextReleaseCommand'', ''BearerContextReleaseComplete'',
     ''BearerContextModificationRequest'', ''BearerContextModificationResponse'', ''BearerContextModificationFailure'',
     ''BearerContextReleaseRequest'', ''PDUSessionResourceSetupRequest'', ''PDUSessionResourceSetupResponse'',
     ''PDUSessionResourceModificationRequest'', ''PDUSessionResourceModificationResponse'',
     ''PDUSessionResourceReleaseCommand'', ''PDUSessionResourceReleaseComplete'']"

definition e1ap_message_type_to_string :: "u32 \<Rightarrow> string" where
  "e1ap_message_type_to_string t = (if t \<ge> 29 then ''Unknown'' else e1ap_message_type_strings ! unat t)"

datatype e1ap_cause_type = E1AP_CAUSE_RADIO_NETWORK | E1AP_CAUSE_TRANSPORT | E1AP_CAUSE_PROTOCOL | E1AP_CAUSE_MISC
  | E1AP_CAUSE_NG_AND_OR_XN

fun e1ap_cause_type_code :: "e1ap_cause_type \<Rightarrow> u32" where
  "e1ap_cause_type_code E1AP_CAUSE_RADIO_NETWORK = 0"
| "e1ap_cause_type_code E1AP_CAUSE_TRANSPORT = 1"
| "e1ap_cause_type_code E1AP_CAUSE_PROTOCOL = 2"
| "e1ap_cause_type_code E1AP_CAUSE_MISC = 3"
| "e1ap_cause_type_code E1AP_CAUSE_NG_AND_OR_XN = 4"

section \<open>Structures\<close>

record e1ap_cause =
  e1_cause_type :: u32
  e1_cause_value :: u8

record e1ap_gnb_cu_cp_id =
  e1_gnb_cu_cp_id :: u64
  e1_gnb_cu_cp_name :: "u8 list"

record e1ap_gnb_cu_up_id =
  e1_gnb_cu_up_id :: u32
  e1_gnb_cu_up_name :: "u8 list"

record e1ap_ue_ids =
  e1_cu_cp_ue_id :: u32
  e1_cu_up_ue_id :: u32

record e1ap_s_nssai =
  e1_sst :: u8
  e1_sd :: u32
  e1_sd_present :: bool

record e1ap_tnl_info =
  e1_ip_address :: u32
  e1_port :: u16
  e1_teid :: u32
  e1_transport_type :: u8

record e1ap_qos_flow =
  e1_qfi :: u8
  e1_five_qi :: u8
  e1_gfbr_ul :: u64
  e1_gfbr_dl :: u64
  e1_mfbr_ul :: u64
  e1_mfbr_dl :: u64
  e1_priority_level :: u8
  e1_averaging_window_present :: bool
  e1_averaging_window :: u16

record e1ap_drb_info =
  e1_drb_id :: u8
  e1_pdcp_sn_size :: u8
  e1_pdcp_retransmission_timer :: u8
  e1_pdcp_discard_timer :: u8
  e1_rlc_mode :: u8
  e1_rlc_sn_size :: u8
  e1_ul_ambr :: u64
  e1_dl_ambr :: u64
  e1_num_qos_flows :: u8
  e1_qos_flows :: "e1ap_qos_flow list"
  e1_num_dl_up_tnl_info :: u8
  e1_dl_up_tnl_info :: "e1ap_tnl_info list"
  e1_ul_upf_tnl_info :: e1ap_tnl_info

record e1ap_pdu_session_info =
  e1_pdu_session_id :: u8
  e1_pdu_session_type :: u8
  e1_ue_ip_address :: u32
  e1_s_nssai :: e1ap_s_nssai
  e1_num_drbs :: u8
  e1_drbs :: "e1ap_drb_info list"
  e1_upf_ul_tnl_info :: e1ap_tnl_info
  e1_security_indication :: u8
  e1_up_security_policy :: u8

record e1ap_e1_setup_request =
  e1q_cu_up_id :: e1ap_gnb_cu_up_id
  e1q_num_supported_plmns :: u8
  e1q_supported_plmns :: "u8 list list"
  e1q_num_supported_slices :: u8
  e1q_supported_slices :: "e1ap_s_nssai list"
  e1q_capacity :: u32
  e1q_num_tnla :: u8
  e1q_tnla :: "e1ap_tnl_info list"

record e1ap_e1_setup_response =
  e1r_cu_cp_id :: e1ap_gnb_cu_cp_id
  e1r_num_supported_plmns :: u8
  e1r_supported_plmns :: "u8 list list"

record e1ap_e1_setup_failure =
  e1f_cause :: e1ap_cause
  e1f_time_to_wait :: u32

record e1ap_bearer_context_setup_request =
  bcq_ue_ids :: e1ap_ue_ids
  bcq_ran_ue_id :: u64
  bcq_num_pdu_sessions :: u8
  bcq_pdu_sessions :: "e1ap_pdu_session_info list"
  bcq_ue_ambr_dl :: u64
  bcq_ue_ambr_ul :: u64
  bcq_security_key :: "u8 list"
  bcq_security_key_present :: u8

record e1ap_bearer_context_setup_response =
  bcr_ue_ids :: e1ap_ue_ids
  bcr_num_pdu_sessions_setup :: u8
  bcr_pdu_session_ids :: "u8 list"
  bcr_num_drbs_setup :: u8
  bcr_drbs_setup :: "e1ap_drb_info list"
  bcr_num_failed_pdu_sessions :: u8
  bcr_failed_pdu_session_ids :: "u8 list"
  bcr_pdu_session_fail_causes :: "e1ap_cause list"

record e1ap_ids_cause =
  e1x_ue_ids :: e1ap_ue_ids
  e1x_cause :: e1ap_cause

text \<open>\<^verbatim>\<open>bearer_context_setup_failure\<close>, \<^verbatim>\<open>release_command\<close> and \<^verbatim>\<open>release_request\<close> are the same structure.\<close>

record e1ap_error_indication =
  e1e_ue_ids :: e1ap_ue_ids
  e1e_ue_ids_present :: u8
  e1e_cause :: e1ap_cause
  e1e_cause_present :: u8

datatype e1ap_payload =
    E1_Setup_Request e1ap_e1_setup_request
  | E1_Setup_Response e1ap_e1_setup_response
  | E1_Setup_Failure e1ap_e1_setup_failure
  | E1_Bearer_Setup_Request e1ap_bearer_context_setup_request
  | E1_Bearer_Setup_Response e1ap_bearer_context_setup_response
  | E1_Bearer_Setup_Failure e1ap_ids_cause
  | E1_Release_Command e1ap_ids_cause
  | E1_Release_Complete e1ap_ue_ids
  | E1_Release_Request e1ap_ids_cause
  | E1_Error_Indication e1ap_error_indication
  | E1_Other u32

record e1ap_message =
  e1_procedure_code :: u32
  e1_criticality :: u8
  e1_payload :: e1ap_payload

fun e1ap_type :: "e1ap_payload \<Rightarrow> u32" where
  "e1ap_type (E1_Setup_Request _) = E1AP_MSG_E1_SETUP_REQUEST"
| "e1ap_type (E1_Setup_Response _) = E1AP_MSG_E1_SETUP_RESPONSE"
| "e1ap_type (E1_Setup_Failure _) = E1AP_MSG_E1_SETUP_FAILURE"
| "e1ap_type (E1_Bearer_Setup_Request _) = E1AP_MSG_BEARER_CONTEXT_SETUP_REQUEST"
| "e1ap_type (E1_Bearer_Setup_Response _) = E1AP_MSG_BEARER_CONTEXT_SETUP_RESPONSE"
| "e1ap_type (E1_Bearer_Setup_Failure _) = E1AP_MSG_BEARER_CONTEXT_SETUP_FAILURE"
| "e1ap_type (E1_Release_Command _) = E1AP_MSG_BEARER_CONTEXT_RELEASE_COMMAND"
| "e1ap_type (E1_Release_Complete _) = E1AP_MSG_BEARER_CONTEXT_RELEASE_COMPLETE"
| "e1ap_type (E1_Release_Request _) = E1AP_MSG_BEARER_CONTEXT_RELEASE_REQUEST"
| "e1ap_type (E1_Error_Indication _) = E1AP_MSG_ERROR_INDICATION"
| "e1ap_type (E1_Other t) = t"

text \<open>The structures after \<^verbatim>\<open>memset\<close>.\<close>

definition zero_e1_cause :: e1ap_cause where "zero_e1_cause = \<lparr>e1_cause_type = 0, e1_cause_value = 0\<rparr>"
definition zero_e1_ids :: e1ap_ue_ids where "zero_e1_ids = \<lparr>e1_cu_cp_ue_id = 0, e1_cu_up_ue_id = 0\<rparr>"
definition zero_e1_ids_cause :: e1ap_ids_cause where
  "zero_e1_ids_cause = \<lparr>e1x_ue_ids = zero_e1_ids, e1x_cause = zero_e1_cause\<rparr>"
definition zero_e1_tnl :: e1ap_tnl_info where
  "zero_e1_tnl = \<lparr>e1_ip_address = 0, e1_port = 0, e1_teid = 0, e1_transport_type = 0\<rparr>"
definition zero_e1_setup_request :: e1ap_e1_setup_request where
  "zero_e1_setup_request = \<lparr>e1q_cu_up_id = \<lparr>e1_gnb_cu_up_id = 0, e1_gnb_cu_up_name = []\<rparr>, e1q_num_supported_plmns = 0,
     e1q_supported_plmns = [], e1q_num_supported_slices = 0, e1q_supported_slices = [], e1q_capacity = 0,
     e1q_num_tnla = 0, e1q_tnla = []\<rparr>"
definition zero_e1_setup_response :: e1ap_e1_setup_response where
  "zero_e1_setup_response = \<lparr>e1r_cu_cp_id = \<lparr>e1_gnb_cu_cp_id = 0, e1_gnb_cu_cp_name = []\<rparr>, e1r_num_supported_plmns = 0,
     e1r_supported_plmns = []\<rparr>"
definition zero_bearer_setup_request :: e1ap_bearer_context_setup_request where
  "zero_bearer_setup_request = \<lparr>bcq_ue_ids = zero_e1_ids, bcq_ran_ue_id = 0, bcq_num_pdu_sessions = 0,
     bcq_pdu_sessions = [], bcq_ue_ambr_dl = 0, bcq_ue_ambr_ul = 0, bcq_security_key = replicate 32 0,
     bcq_security_key_present = 0\<rparr>"

section \<open>Causes and initial messages\<close>

definition e1ap_cause_to_string :: "e1ap_cause option \<Rightarrow> string" where
  "e1ap_cause_to_string c = (case c of None \<Rightarrow> ''NULL'' | Some x \<Rightarrow>
     take 63 ((if e1_cause_type x < 5
         then [''RadioNetwork'', ''Transport'', ''Protocol'', ''Misc'', ''NGAndOrXn''] ! unat (e1_cause_type x)
         else ''Unknown'') @ '':'' @ unsigned_decimal (unat (e1_cause_value x))))"

text \<open>\<open>value\<close> is the number of an enumerator of the causes of the type.\<close>

definition e1ap_set_cause :: "e1ap_cause_type \<Rightarrow> u8 \<Rightarrow> e1ap_cause option \<Rightarrow> e1ap_cause option" where
  "e1ap_set_cause t v c = map_option (\<lambda>_. \<lparr>e1_cause_type = e1ap_cause_type_code t, e1_cause_value = v\<rparr>) c"

definition e1ap_set_cause_radio :: "u8 \<Rightarrow> e1ap_cause option \<Rightarrow> e1ap_cause option" where
  "e1ap_set_cause_radio = e1ap_set_cause E1AP_CAUSE_RADIO_NETWORK"

definition e1ap_set_cause_transport :: "u8 \<Rightarrow> e1ap_cause option \<Rightarrow> e1ap_cause option" where
  "e1ap_set_cause_transport = e1ap_set_cause E1AP_CAUSE_TRANSPORT"

definition e1ap_set_cause_protocol :: "u8 \<Rightarrow> e1ap_cause option \<Rightarrow> e1ap_cause option" where
  "e1ap_set_cause_protocol = e1ap_set_cause E1AP_CAUSE_PROTOCOL"

definition e1ap_set_cause_misc :: "u8 \<Rightarrow> e1ap_cause option \<Rightarrow> e1ap_cause option" where
  "e1ap_set_cause_misc = e1ap_set_cause E1AP_CAUSE_MISC"

definition e1ap_init :: "e1ap_procedure_code \<Rightarrow> e1ap_payload \<Rightarrow> e1ap_message option \<Rightarrow> e1ap_message option" where
  "e1ap_init p y = map_option (\<lambda>_. \<lparr>e1_procedure_code = e1ap_proc_code p, e1_criticality = 0, e1_payload = y\<rparr>)"

definition e1ap_init_e1_setup_request :: "e1ap_message option \<Rightarrow> e1ap_message option" where
  "e1ap_init_e1_setup_request = e1ap_init E1AP_PROC_E1_SETUP (E1_Setup_Request zero_e1_setup_request)"

definition e1ap_init_e1_setup_response :: "e1ap_message option \<Rightarrow> e1ap_message option" where
  "e1ap_init_e1_setup_response = e1ap_init E1AP_PROC_E1_SETUP (E1_Setup_Response zero_e1_setup_response)"

definition e1ap_init_bearer_context_setup_request :: "e1ap_message option \<Rightarrow> e1ap_message option" where
  "e1ap_init_bearer_context_setup_request =
     e1ap_init E1AP_PROC_BEARER_CONTEXT_SETUP (E1_Bearer_Setup_Request zero_bearer_setup_request)"

definition e1ap_init_bearer_context_release_request :: "e1ap_message option \<Rightarrow> e1ap_message option" where
  "e1ap_init_bearer_context_release_request =
     e1ap_init E1AP_PROC_BEARER_CONTEXT_RELEASE_REQUEST (E1_Release_Request zero_e1_ids_cause)"

section \<open>Encoding\<close>

definition e1ap_encode_header :: "e1ap_message \<Rightarrow> (u32 \<times> nat) list" where
  "e1ap_encode_header m = [fld (e1_procedure_code m) 8, fld (e1_criticality m) 2, fld (e1ap_type (e1_payload m)) 8]"

definition e1ap_encode_cu_up_id :: "e1ap_gnb_cu_up_id \<Rightarrow> (u32 \<times> nat) list" where
  "e1ap_encode_cu_up_id x = fld (e1_gnb_cu_up_id x) 32 # name_fields (e1_gnb_cu_up_name x)"

text \<open>The lower 32 bits of the identity are written.\<close>

definition e1ap_encode_cu_cp_id :: "e1ap_gnb_cu_cp_id \<Rightarrow> (u32 \<times> nat) list" where
  "e1ap_encode_cu_cp_id x = fld (ucast (e1_gnb_cu_cp_id x) :: u32) 32 # name_fields (e1_gnb_cu_cp_name x)"

definition e1ap_encode_ue_ids :: "e1ap_ue_ids \<Rightarrow> (u32 \<times> nat) list" where
  "e1ap_encode_ue_ids x = [fld (e1_cu_cp_ue_id x) 32, fld (e1_cu_up_ue_id x) 32]"

definition e1ap_encode_tnl_info :: "e1ap_tnl_info \<Rightarrow> (u32 \<times> nat) list" where
  "e1ap_encode_tnl_info x = [fld (e1_transport_type x) 4, fld (e1_ip_address x) 32, fld (e1_port x) 16, fld (e1_teid x) 32]"

definition e1ap_encode_qos_flow :: "e1ap_qos_flow \<Rightarrow> (u32 \<times> nat) list" where
  "e1ap_encode_qos_flow x = [fld (e1_qfi x) 6, fld (e1_five_qi x) 8] @ fld_pair 32 (e1_gfbr_ul x) @
     fld_pair 32 (e1_gfbr_dl x) @ [fld (e1_priority_level x) 8]"

definition e1ap_encode_drb_info :: "e1ap_drb_info \<Rightarrow> (u32 \<times> nat) list" where
  "e1ap_encode_drb_info x = [fld (e1_drb_id x) 5, fld (e1_pdcp_sn_size x) 4, fld (e1_rlc_mode x) 2,
     fld (e1_num_qos_flows x) 6] @
     concat (map e1ap_encode_qos_flow (take (min (unat (e1_num_qos_flows x)) E1AP_MAX_QOS_FLOWS) (e1_qos_flows x))) @
     [fld (e1_num_dl_up_tnl_info x) 4] @
     concat (map e1ap_encode_tnl_info (take (min (unat (e1_num_dl_up_tnl_info x)) E1AP_MAX_TNL_INFO) (e1_dl_up_tnl_info x)))"

definition e1ap_encode_pdu_session_info :: "e1ap_pdu_session_info \<Rightarrow> (u32 \<times> nat) list" where
  "e1ap_encode_pdu_session_info x = [fld (e1_pdu_session_id x) 8, fld (e1_pdu_session_type x) 4,
     fld (e1_ue_ip_address x) 32, fld (e1_sst (e1_s_nssai x)) 8, fld (e1_sd (e1_s_nssai x)) 24, fld (e1_num_drbs x) 4] @
     concat (map e1ap_encode_drb_info (take (min (unat (e1_num_drbs x)) E1AP_MAX_DRB_ID) (e1_drbs x))) @
     e1ap_encode_tnl_info (e1_upf_ul_tnl_info x)"

definition e1ap_encode_cause :: "e1ap_cause \<Rightarrow> (u32 \<times> nat) list" where
  "e1ap_encode_cause x = [fld (e1_cause_type x) 3, fld (e1_cause_value x) 8]"

fun e1ap_encode_payload :: "e1ap_payload \<Rightarrow> (u32 \<times> nat) list" where
  "e1ap_encode_payload (E1_Setup_Request x) = e1ap_encode_cu_up_id (e1q_cu_up_id x) @
     [fld (e1q_num_supported_plmns x) 8] @
     concat (map octet_fields (take (min (unat (e1q_num_supported_plmns x)) 12) (e1q_supported_plmns x))) @
     [fld (e1q_capacity x) 32, fld (e1q_num_tnla x) 4] @
     concat (map e1ap_encode_tnl_info (take (min (unat (e1q_num_tnla x)) E1AP_MAX_TNL_INFO) (e1q_tnla x)))"
| "e1ap_encode_payload (E1_Setup_Response x) = e1ap_encode_cu_cp_id (e1r_cu_cp_id x) @
     [fld (e1r_num_supported_plmns x) 8] @
     concat (map octet_fields (take (min (unat (e1r_num_supported_plmns x)) 12) (e1r_supported_plmns x)))"
| "e1ap_encode_payload (E1_Setup_Failure x) = e1ap_encode_cause (e1f_cause x) @ [fld (e1f_time_to_wait x) 32]"
| "e1ap_encode_payload (E1_Bearer_Setup_Request x) = e1ap_encode_ue_ids (bcq_ue_ids x) @
     fld_pair 8 (bcq_ran_ue_id x) @ [fld (bcq_num_pdu_sessions x) 8] @
     concat (map e1ap_encode_pdu_session_info
       (take (min (unat (bcq_num_pdu_sessions x)) E1AP_MAX_PDU_SESSIONS) (bcq_pdu_sessions x))) @
     fld_pair 32 (bcq_ue_ambr_dl x) @ fld_pair 32 (bcq_ue_ambr_ul x) @ [fld (bcq_security_key_present x) 1] @
     (if bcq_security_key_present x \<noteq> 0 then octet_fields (bcq_security_key x) else [])"
| "e1ap_encode_payload (E1_Bearer_Setup_Response x) = e1ap_encode_ue_ids (bcr_ue_ids x) @
     [fld (bcr_num_pdu_sessions_setup x) 8] @
     octet_fields (take (min (unat (bcr_num_pdu_sessions_setup x)) E1AP_MAX_PDU_SESSIONS) (bcr_pdu_session_ids x)) @
     [fld (bcr_num_drbs_setup x) 4] @
     concat (map e1ap_encode_drb_info (take (min (unat (bcr_num_drbs_setup x)) E1AP_MAX_DRB_ID) (bcr_drbs_setup x)))"
| "e1ap_encode_payload (E1_Bearer_Setup_Failure x) = e1ap_encode_ue_ids (e1x_ue_ids x) @ e1ap_encode_cause (e1x_cause x)"
| "e1ap_encode_payload (E1_Release_Command x) = e1ap_encode_ue_ids (e1x_ue_ids x) @ e1ap_encode_cause (e1x_cause x)"
| "e1ap_encode_payload (E1_Release_Complete x) = e1ap_encode_ue_ids x"
| "e1ap_encode_payload (E1_Release_Request x) = e1ap_encode_ue_ids (e1x_ue_ids x) @ e1ap_encode_cause (e1x_cause x)"
| "e1ap_encode_payload (E1_Error_Indication x) = [fld (e1e_ue_ids_present x) 1] @
     (if e1e_ue_ids_present x \<noteq> 0 then e1ap_encode_ue_ids (e1e_ue_ids x) else []) @
     [fld (e1e_cause_present x) 1] @ (if e1e_cause_present x \<noteq> 0 then e1ap_encode_cause (e1e_cause x) else [])"
| "e1ap_encode_payload (E1_Other t) = []"

definition e1ap_fields :: "e1ap_message \<Rightarrow> (u32 \<times> nat) list" where
  "e1ap_fields m = e1ap_encode_header m @ e1ap_encode_payload (e1_payload m)"

definition e1ap_encode_message :: "os \<Rightarrow> u8 list \<Rightarrow> bool \<Rightarrow> e1ap_message option \<Rightarrow> u8 list option" where
  "e1ap_encode_message s mem out msg = encode_fields s mem E1AP_MAX_MESSAGE_SIZE out e1ap_fields msg"

section \<open>Decoding\<close>

definition e1ap_decode_bits :: "nat \<Rightarrow> 'a::len word reader" where
  "e1ap_decode_bits = read_word"

definition e1ap_decode_cu_up_id :: "e1ap_gnb_cu_up_id reader" where
  "e1ap_decode_cu_up_id d b = do {
     (i, b) \<leftarrow> e1ap_decode_bits 32 d b; (n, b) \<leftarrow> read_name d b;
     Some (\<lparr>e1_gnb_cu_up_id = i, e1_gnb_cu_up_name = n\<rparr>, b) }"

definition e1ap_decode_cu_cp_id :: "e1ap_gnb_cu_cp_id reader" where
  "e1ap_decode_cu_cp_id d b = do {
     (i :: u32, b) \<leftarrow> e1ap_decode_bits 32 d b; (n, b) \<leftarrow> read_name d b;
     Some (\<lparr>e1_gnb_cu_cp_id = ucast i, e1_gnb_cu_cp_name = n\<rparr>, b) }"

definition e1ap_decode_ue_ids :: "e1ap_ue_ids reader" where
  "e1ap_decode_ue_ids d b = do {
     (c, b) \<leftarrow> e1ap_decode_bits 32 d b; (u, b) \<leftarrow> e1ap_decode_bits 32 d b;
     Some (\<lparr>e1_cu_cp_ue_id = c, e1_cu_up_ue_id = u\<rparr>, b) }"

definition e1ap_decode_tnl_info :: "e1ap_tnl_info reader" where
  "e1ap_decode_tnl_info d b = do {
     (ty, b) \<leftarrow> e1ap_decode_bits 4 d b; (ip, b) \<leftarrow> e1ap_decode_bits 32 d b;
     (port, b) \<leftarrow> e1ap_decode_bits 16 d b; (teid, b) \<leftarrow> e1ap_decode_bits 32 d b;
     Some (\<lparr>e1_ip_address = ip, e1_port = port, e1_teid = teid, e1_transport_type = ty\<rparr>, b) }"

definition e1ap_decode_qos_flow :: "bool \<Rightarrow> e1ap_qos_flow reader" where
  "e1ap_decode_qos_flow ord d b = do {
     (qfi, b) \<leftarrow> e1ap_decode_bits 6 d b; (fiveqi, b) \<leftarrow> e1ap_decode_bits 8 d b;
     (ul, b) \<leftarrow> read_pair ord 32 d b; (dl, b) \<leftarrow> read_pair ord 32 d b; (prio, b) \<leftarrow> e1ap_decode_bits 8 d b;
     Some (\<lparr>e1_qfi = qfi, e1_five_qi = fiveqi, e1_gfbr_ul = ul, e1_gfbr_dl = dl, e1_mfbr_ul = 0, e1_mfbr_dl = 0,
       e1_priority_level = prio, e1_averaging_window_present = False, e1_averaging_window = 0\<rparr>, b) }"

definition e1ap_decode_drb_info :: "bool \<Rightarrow> e1ap_drb_info reader" where
  "e1ap_decode_drb_info ord d b = do {
     (i, b) \<leftarrow> e1ap_decode_bits 5 d b; (sn, b) \<leftarrow> e1ap_decode_bits 4 d b; (rlc, b) \<leftarrow> e1ap_decode_bits 2 d b;
     (nq, b) \<leftarrow> e1ap_decode_bits 6 d b;
     (qs, b) \<leftarrow> read_list (e1ap_decode_qos_flow ord) (min (unat nq) E1AP_MAX_QOS_FLOWS) d b;
     (nt, b) \<leftarrow> e1ap_decode_bits 4 d b;
     (ts, b) \<leftarrow> read_list e1ap_decode_tnl_info (min (unat nt) E1AP_MAX_TNL_INFO) d b;
     Some (\<lparr>e1_drb_id = i, e1_pdcp_sn_size = sn, e1_pdcp_retransmission_timer = 0, e1_pdcp_discard_timer = 0,
       e1_rlc_mode = rlc, e1_rlc_sn_size = 0, e1_ul_ambr = 0, e1_dl_ambr = 0, e1_num_qos_flows = nq, e1_qos_flows = qs,
       e1_num_dl_up_tnl_info = nt, e1_dl_up_tnl_info = ts, e1_ul_upf_tnl_info = zero_e1_tnl\<rparr>, b) }"

definition e1ap_decode_pdu_session_info :: "bool \<Rightarrow> e1ap_pdu_session_info reader" where
  "e1ap_decode_pdu_session_info ord d b = do {
     (i, b) \<leftarrow> e1ap_decode_bits 8 d b; (ty, b) \<leftarrow> e1ap_decode_bits 4 d b; (ip, b) \<leftarrow> e1ap_decode_bits 32 d b;
     (sst, b) \<leftarrow> e1ap_decode_bits 8 d b; (sd, b) \<leftarrow> e1ap_decode_bits 24 d b; (nd, b) \<leftarrow> e1ap_decode_bits 4 d b;
     (ds, b) \<leftarrow> read_list (e1ap_decode_drb_info ord) (min (unat nd) E1AP_MAX_DRB_ID) d b;
     (t, b) \<leftarrow> e1ap_decode_tnl_info d b;
     Some (\<lparr>e1_pdu_session_id = i, e1_pdu_session_type = ty, e1_ue_ip_address = ip,
       e1_s_nssai = \<lparr>e1_sst = sst, e1_sd = sd, e1_sd_present = False\<rparr>, e1_num_drbs = nd, e1_drbs = ds,
       e1_upf_ul_tnl_info = t, e1_security_indication = 0, e1_up_security_policy = 0\<rparr>, b) }"

definition e1ap_decode_cause :: "e1ap_cause reader" where
  "e1ap_decode_cause d b = do {
     (t, b) \<leftarrow> e1ap_decode_bits 3 d b; (v, b) \<leftarrow> e1ap_decode_bits 8 d b;
     Some (\<lparr>e1_cause_type = t, e1_cause_value = v\<rparr>, b) }"

definition e1ap_decode_setup_request :: "e1ap_e1_setup_request reader" where
  "e1ap_decode_setup_request d b = do {
     (i, b) \<leftarrow> e1ap_decode_cu_up_id d b; (np, b) \<leftarrow> e1ap_decode_bits 8 d b;
     (ps, b) \<leftarrow> read_list (read_list (e1ap_decode_bits 8) 3) (min (unat np) 12) d b;
     (cap, b) \<leftarrow> e1ap_decode_bits 32 d b; (nt, b) \<leftarrow> e1ap_decode_bits 4 d b;
     (ts, b) \<leftarrow> read_list e1ap_decode_tnl_info (min (unat nt) E1AP_MAX_TNL_INFO) d b;
     Some (\<lparr>e1q_cu_up_id = i, e1q_num_supported_plmns = np, e1q_supported_plmns = ps, e1q_num_supported_slices = 0,
       e1q_supported_slices = [], e1q_capacity = cap, e1q_num_tnla = nt, e1q_tnla = ts\<rparr>, b) }"

definition e1ap_decode_setup_response :: "e1ap_e1_setup_response reader" where
  "e1ap_decode_setup_response d b = do {
     (i, b) \<leftarrow> e1ap_decode_cu_cp_id d b; (np, b) \<leftarrow> e1ap_decode_bits 8 d b;
     (ps, b) \<leftarrow> read_list (read_list (e1ap_decode_bits 8) 3) (min (unat np) 12) d b;
     Some (\<lparr>e1r_cu_cp_id = i, e1r_num_supported_plmns = np, e1r_supported_plmns = ps\<rparr>, b) }"

definition e1ap_decode_bearer_setup_request :: "bool \<Rightarrow> e1ap_bearer_context_setup_request reader" where
  "e1ap_decode_bearer_setup_request ord d b = do {
     (ids, b) \<leftarrow> e1ap_decode_ue_ids d b; (ran, b) \<leftarrow> read_pair True 8 d b; (np, b) \<leftarrow> e1ap_decode_bits 8 d b;
     (ps, b) \<leftarrow> read_list (e1ap_decode_pdu_session_info ord) (min (unat np) E1AP_MAX_PDU_SESSIONS) d b;
     (dl, b) \<leftarrow> read_pair ord 32 d b; (ul, b) \<leftarrow> read_pair ord 32 d b;
     ((f, key), b) \<leftarrow> read_opt (replicate 32 0) (read_list (e1ap_decode_bits 8) 32) d b;
     Some (\<lparr>bcq_ue_ids = ids, bcq_ran_ue_id = ran, bcq_num_pdu_sessions = np, bcq_pdu_sessions = ps, bcq_ue_ambr_dl = dl,
       bcq_ue_ambr_ul = ul, bcq_security_key = key, bcq_security_key_present = f\<rparr>, b) }"

definition e1ap_decode_bearer_setup_response :: "bool \<Rightarrow> e1ap_bearer_context_setup_response reader" where
  "e1ap_decode_bearer_setup_response ord d b = do {
     (ids, b) \<leftarrow> e1ap_decode_ue_ids d b; (np, b) \<leftarrow> e1ap_decode_bits 8 d b;
     (ps, b) \<leftarrow> read_list (e1ap_decode_bits 8) (min (unat np) E1AP_MAX_PDU_SESSIONS) d b;
     (nd, b) \<leftarrow> e1ap_decode_bits 4 d b;
     (ds, b) \<leftarrow> read_list (e1ap_decode_drb_info ord) (min (unat nd) E1AP_MAX_DRB_ID) d b;
     Some (\<lparr>bcr_ue_ids = ids, bcr_num_pdu_sessions_setup = np, bcr_pdu_session_ids = ps, bcr_num_drbs_setup = nd,
       bcr_drbs_setup = ds, bcr_num_failed_pdu_sessions = 0, bcr_failed_pdu_session_ids = [],
       bcr_pdu_session_fail_causes = []\<rparr>, b) }"

definition e1ap_decode_error_indication :: "e1ap_error_indication reader" where
  "e1ap_decode_error_indication d b = do {
     ((f, ids), b) \<leftarrow> read_opt zero_e1_ids e1ap_decode_ue_ids d b;
     ((g, c), b) \<leftarrow> read_opt zero_e1_cause e1ap_decode_cause d b;
     Some (\<lparr>e1e_ue_ids = ids, e1e_ue_ids_present = f, e1e_cause = c, e1e_cause_present = g\<rparr>, b) }"

text \<open>Nothing is read for a setup failure and a release request: their structures stay zero.\<close>

definition e1ap_decode_payload :: "bool \<Rightarrow> u32 \<Rightarrow> e1ap_payload reader" where
  "e1ap_decode_payload ord t d b = (
     if t = E1AP_MSG_E1_SETUP_REQUEST then map_option (map_prod E1_Setup_Request id) (e1ap_decode_setup_request d b)
     else if t = E1AP_MSG_E1_SETUP_RESPONSE then map_option (map_prod E1_Setup_Response id) (e1ap_decode_setup_response d b)
     else if t = E1AP_MSG_E1_SETUP_FAILURE then do {
       (c, b) \<leftarrow> e1ap_decode_cause d b; (w, b) \<leftarrow> e1ap_decode_bits 32 d b;
       Some (E1_Setup_Failure \<lparr>e1f_cause = c, e1f_time_to_wait = w\<rparr>, b) }
     else if t = E1AP_MSG_BEARER_CONTEXT_SETUP_REQUEST
     then map_option (map_prod E1_Bearer_Setup_Request id) (e1ap_decode_bearer_setup_request ord d b)
     else if t = E1AP_MSG_BEARER_CONTEXT_SETUP_RESPONSE
     then map_option (map_prod E1_Bearer_Setup_Response id) (e1ap_decode_bearer_setup_response ord d b)
     else if t = E1AP_MSG_BEARER_CONTEXT_SETUP_FAILURE then Some (E1_Bearer_Setup_Failure zero_e1_ids_cause, b)
     else if t = E1AP_MSG_BEARER_CONTEXT_RELEASE_COMMAND then do {
       (ids, b) \<leftarrow> e1ap_decode_ue_ids d b; (c, b) \<leftarrow> e1ap_decode_cause d b;
       Some (E1_Release_Command \<lparr>e1x_ue_ids = ids, e1x_cause = c\<rparr>, b) }
     else if t = E1AP_MSG_BEARER_CONTEXT_RELEASE_COMPLETE
     then map_option (map_prod E1_Release_Complete id) (e1ap_decode_ue_ids d b)
     else if t = E1AP_MSG_BEARER_CONTEXT_RELEASE_REQUEST then Some (E1_Release_Request zero_e1_ids_cause, b)
     else if t = E1AP_MSG_ERROR_INDICATION then map_option (map_prod E1_Error_Indication id) (e1ap_decode_error_indication d b)
     else Some (E1_Other t, b))"

definition e1ap_read_message :: "bool \<Rightarrow> u8 list \<Rightarrow> e1ap_message option" where
  "e1ap_read_message ord d = do {
     (p, b) \<leftarrow> e1ap_decode_bits 8 d 0; (c, b) \<leftarrow> e1ap_decode_bits 2 d b; (t, b) \<leftarrow> e1ap_decode_bits 8 d b;
     (y, b) \<leftarrow> e1ap_decode_payload ord t d b;
     Some \<lparr>e1_procedure_code = p, e1_criticality = c, e1_payload = y\<rparr> }"

definition e1ap_decode_message :: "bool \<Rightarrow> u8 list option \<Rightarrow> bool \<Rightarrow> (unit + e1ap_message) option" where
  "e1ap_decode_message ord d out = decode_fields (e1ap_read_message ord) d out"

text \<open>There is nothing to free.\<close>

definition e1ap_free_message :: "e1ap_message option \<Rightarrow> e1ap_message option" where
  "e1ap_free_message m = m"

end
