(* ===== verification/E1ap_Proofs.thy ===== *)
theory E1ap_Proofs
  imports E1ap
begin

text \<open>
  What survives the way through encoder and decoder of \<^verbatim>\<open>e1ap_messages.c\<close>, and what it depends on.
\<close>

section \<open>What can be sent\<close>

text \<open>
  A structure is sendable when its values fit into their fields, its arrays have as many entries as its
  counters say, and the fields that are not sent are zero. The counter of 16 to 32 bearers does not fit.
\<close>

definition e1_name_ok :: "u8 list \<Rightarrow> bool" where
  "e1_name_ok s \<longleftrightarrow> length s \<le> 63 \<and> 0 \<notin> set s"

definition e1_tnl_ok :: "e1ap_tnl_info \<Rightarrow> bool" where
  "e1_tnl_ok x \<longleftrightarrow> e1_transport_type x < 16"

definition e1_flow_ok :: "e1ap_qos_flow \<Rightarrow> bool" where
  "e1_flow_ok x \<longleftrightarrow> e1_qfi x < 64 \<and> e1_mfbr_ul x = 0 \<and> e1_mfbr_dl x = 0 \<and> \<not> e1_averaging_window_present x
     \<and> e1_averaging_window x = 0"

definition e1_drb_ok :: "e1ap_drb_info \<Rightarrow> bool" where
  "e1_drb_ok x \<longleftrightarrow> e1_drb_id x < 32 \<and> e1_pdcp_sn_size x < 16 \<and> e1_rlc_mode x < 4 \<and> e1_num_qos_flows x < 64
     \<and> length (e1_qos_flows x) = unat (e1_num_qos_flows x) \<and> (\<forall>f \<in> set (e1_qos_flows x). e1_flow_ok f)
     \<and> e1_num_dl_up_tnl_info x \<le> 8 \<and> length (e1_dl_up_tnl_info x) = unat (e1_num_dl_up_tnl_info x)
     \<and> (\<forall>t \<in> set (e1_dl_up_tnl_info x). e1_tnl_ok t)
     \<and> e1_pdcp_retransmission_timer x = 0 \<and> e1_pdcp_discard_timer x = 0 \<and> e1_rlc_sn_size x = 0
     \<and> e1_ul_ambr x = 0 \<and> e1_dl_ambr x = 0 \<and> e1_ul_upf_tnl_info x = zero_e1_tnl"

definition e1_session_ok :: "e1ap_pdu_session_info \<Rightarrow> bool" where
  "e1_session_ok x \<longleftrightarrow> e1_pdu_session_type x < 16 \<and> e1_sd (e1_s_nssai x) < 2 ^ 24 \<and> \<not> e1_sd_present (e1_s_nssai x)
     \<and> e1_num_drbs x < 16 \<and> length (e1_drbs x) = unat (e1_num_drbs x) \<and> (\<forall>y \<in> set (e1_drbs x). e1_drb_ok y)
     \<and> e1_tnl_ok (e1_upf_ul_tnl_info x) \<and> e1_security_indication x = 0 \<and> e1_up_security_policy x = 0"

definition e1_plmns_ok :: "u8 \<Rightarrow> u8 list list \<Rightarrow> bool" where
  "e1_plmns_ok n ps \<longleftrightarrow> length ps = min (unat n) 12 \<and> (\<forall>p \<in> set ps. length p = 3)"

fun e1_sendable :: "e1ap_payload \<Rightarrow> bool" where
  "e1_sendable (E1_Setup_Request x) \<longleftrightarrow> e1_name_ok (e1_gnb_cu_up_name (e1q_cu_up_id x))
     \<and> e1_plmns_ok (e1q_num_supported_plmns x) (e1q_supported_plmns x) \<and> e1q_num_supported_slices x = 0
     \<and> e1q_supported_slices x = [] \<and> e1q_num_tnla x < 16 \<and> length (e1q_tnla x) = min (unat (e1q_num_tnla x)) 8
     \<and> (\<forall>t \<in> set (e1q_tnla x). e1_tnl_ok t)"
| "e1_sendable (E1_Setup_Response x) \<longleftrightarrow> e1_name_ok (e1_gnb_cu_cp_name (e1r_cu_cp_id x))
     \<and> e1_gnb_cu_cp_id (e1r_cu_cp_id x) < 2 ^ 32 \<and> e1_plmns_ok (e1r_num_supported_plmns x) (e1r_supported_plmns x)"
| "e1_sendable (E1_Setup_Failure x) \<longleftrightarrow> e1_cause_type (e1f_cause x) < 8"
| "e1_sendable (E1_Bearer_Setup_Request x) \<longleftrightarrow> bcq_ran_ue_id x < 2 ^ 40
     \<and> length (bcq_pdu_sessions x) = unat (bcq_num_pdu_sessions x) \<and> (\<forall>y \<in> set (bcq_pdu_sessions x). e1_session_ok y)
     \<and> length (bcq_security_key x) = 32 \<and> bcq_security_key_present x < 2
     \<and> (bcq_security_key_present x = 0 \<longrightarrow> bcq_security_key x = replicate 32 0)"
| "e1_sendable (E1_Bearer_Setup_Response x) \<longleftrightarrow> length (bcr_pdu_session_ids x) = unat (bcr_num_pdu_sessions_setup x)
     \<and> bcr_num_drbs_setup x < 16 \<and> length (bcr_drbs_setup x) = unat (bcr_num_drbs_setup x)
     \<and> (\<forall>y \<in> set (bcr_drbs_setup x). e1_drb_ok y) \<and> bcr_num_failed_pdu_sessions x = 0
     \<and> bcr_failed_pdu_session_ids x = [] \<and> bcr_pdu_session_fail_causes x = []"
| "e1_sendable (E1_Bearer_Setup_Failure x) \<longleftrightarrow> x = zero_e1_ids_cause"
| "e1_sendable (E1_Release_Command x) \<longleftrightarrow> e1_cause_type (e1x_cause x) < 8"
| "e1_sendable (E1_Release_Complete x) \<longleftrightarrow> True"
| "e1_sendable (E1_Release_Request x) \<longleftrightarrow> x = zero_e1_ids_cause"
| "e1_sendable (E1_Error_Indication x) \<longleftrightarrow> e1e_ue_ids_present x < 2 \<and> e1e_cause_present x < 2
     \<and> (e1e_ue_ids_present x = 0 \<longrightarrow> e1e_ue_ids x = zero_e1_ids) \<and> e1_cause_type (e1e_cause x) < 8
     \<and> (e1e_cause_present x = 0 \<longrightarrow> e1e_cause x = zero_e1_cause)"
| "e1_sendable (E1_Other t) \<longleftrightarrow> t < 256 \<and> t \<notin> {0, 1, 2, 5, 14, 15, 16, 17, 18, 22}"

section \<open>The structures\<close>

lemma e1_bits [simp]: "e1ap_decode_bits = read_word"
  by (rule ext) (simp add: e1ap_decode_bits_def)

lemma e1_ue_ids_read: "holds d b (e1ap_encode_ue_ids x) \<Longrightarrow> e1ap_decode_ue_ids d b = Some (x, b + 64)"
  by (simp add: e1ap_encode_ue_ids_def e1ap_decode_ue_ids_def take_bit_full)

lemma e1_cause_read: "holds d b (e1ap_encode_cause x) \<Longrightarrow> e1_cause_type x < 8 \<Longrightarrow>
    e1ap_decode_cause d b = Some (x, b + 11)"
  by (simp add: e1ap_encode_cause_def e1ap_decode_cause_def take_bit_full take_bit_small)

lemma e1_tnl_read: "holds d b (e1ap_encode_tnl_info x) \<Longrightarrow> e1_tnl_ok x \<Longrightarrow>
    e1ap_decode_tnl_info d b = Some (x, b + width (e1ap_encode_tnl_info x))"
  by (simp add: e1ap_encode_tnl_info_def e1ap_decode_tnl_info_def e1_tnl_ok_def take_bit_full take_bit_small)

lemma e1_flow_read: "holds d b (e1ap_encode_qos_flow x) \<Longrightarrow> e1_flow_ok x \<Longrightarrow>
    e1ap_decode_qos_flow True d b = Some (x, b + width (e1ap_encode_qos_flow x))"
  by (simp add: e1ap_encode_qos_flow_def e1ap_decode_qos_flow_def e1_flow_ok_def take_bit_full take_bit_small)

lemma e1_drb_read:
  assumes "holds d b (e1ap_encode_drb_info x)" and "e1_drb_ok x"
  shows "e1ap_decode_drb_info True d b = Some (x, b + width (e1ap_encode_drb_info x))"
proof -
  let ?fs = "concat (map e1ap_encode_qos_flow (take (unat (e1_num_qos_flows x)) (e1_qos_flows x)))"
  let ?ts = "concat (map e1ap_encode_tnl_info (take (unat (e1_num_dl_up_tnl_info x)) (e1_dl_up_tnl_info x)))"
  have n: "min (unat (e1_num_qos_flows x)) 64 = unat (e1_num_qos_flows x)"
      "min (unat (e1_num_dl_up_tnl_info x)) 8 = unat (e1_num_dl_up_tnl_info x)" "e1_num_dl_up_tnl_info x < 16"
    using assms(2) by (auto simp: e1_drb_ok_def word_less_nat_alt word_le_nat_alt)
  have h: "holds d (b + 17) ?fs" "holds d (b + 21 + width ?fs) ?ts"
    using assms(1) by (simp_all add: e1ap_encode_drb_info_def E1AP_MAX_QOS_FLOWS_def E1AP_MAX_TNL_INFO_def n ac_simps)
  have q: "read_list (e1ap_decode_qos_flow True) (unat (e1_num_qos_flows x)) d (b + 17) =
      Some (e1_qos_flows x, b + 17 + width ?fs)"
    by (rule read_counted [OF h(1)]) (use assms(2) in \<open>auto simp: e1_drb_ok_def e1_flow_read\<close>)
  have t: "read_list e1ap_decode_tnl_info (unat (e1_num_dl_up_tnl_info x)) d (b + 21 + width ?fs) =
      Some (e1_dl_up_tnl_info x, b + 21 + width ?fs + width ?ts)"
    by (rule read_counted [OF h(2)]) (use assms(2) in \<open>auto simp: e1_drb_ok_def e1_tnl_read\<close>)
  show ?thesis
    using assms n q t
    by (simp add: e1ap_decode_drb_info_def e1ap_encode_drb_info_def e1_drb_ok_def E1AP_MAX_QOS_FLOWS_def
        E1AP_MAX_TNL_INFO_def take_bit_small ac_simps)
qed

lemma e1_session_read:
  assumes "holds d b (e1ap_encode_pdu_session_info x)" and "e1_session_ok x"
  shows "e1ap_decode_pdu_session_info True d b = Some (x, b + width (e1ap_encode_pdu_session_info x))"
proof -
  let ?ds = "concat (map e1ap_encode_drb_info (take (unat (e1_num_drbs x)) (e1_drbs x)))"
  have n: "min (unat (e1_num_drbs x)) 32 = unat (e1_num_drbs x)"
    using assms(2) by (auto simp: e1_session_ok_def word_less_nat_alt)
  have h: "holds d (b + 80) ?ds" "holds d (b + 80 + width ?ds) (e1ap_encode_tnl_info (e1_upf_ul_tnl_info x))"
    using assms(1) by (simp_all add: e1ap_encode_pdu_session_info_def E1AP_MAX_DRB_ID_def n ac_simps)
  have q: "read_list (e1ap_decode_drb_info True) (unat (e1_num_drbs x)) d (b + 80) = Some (e1_drbs x, b + 80 + width ?ds)"
    by (rule read_counted [OF h(1)]) (use assms(2) in \<open>auto simp: e1_session_ok_def e1_drb_read\<close>)
  show ?thesis
    using assms n q e1_tnl_read [OF h(2)]
    by (simp add: e1ap_decode_pdu_session_info_def e1ap_encode_pdu_session_info_def e1_session_ok_def E1AP_MAX_DRB_ID_def
        take_bit_small take_bit_full ac_simps)
qed

lemma e1_plmns_read: "holds d b (concat (map octet_fields (take (min (unat n) 12) ps))) \<Longrightarrow> e1_plmns_ok n ps \<Longrightarrow>
    read_list (read_list (read_word 8) 3) (min (unat n) 12) d b =
    Some (ps, b + width (concat (map octet_fields (take (min (unat n) 12) ps))))"
  by (rule read_counted) (auto simp: e1_plmns_ok_def dest!: read_octets)

section \<open>The payloads\<close>

lemma e1_setup_request_read:
  assumes "holds d b (e1ap_encode_payload (E1_Setup_Request x))" and "e1_sendable (E1_Setup_Request x)"
  shows "\<exists>b'. e1ap_decode_setup_request d b = Some (x, b')"
proof -
  let ?n = "8 * length (e1_gnb_cu_up_name (e1q_cu_up_id x))"
  let ?ps = "concat (map octet_fields (take (min (unat (e1q_num_supported_plmns x)) 12) (e1q_supported_plmns x)))"
  let ?ts = "concat (map e1ap_encode_tnl_info (take (min (unat (e1q_num_tnla x)) 8) (e1q_tnla x)))"
  have h: "holds d (b + 32) (name_fields (e1_gnb_cu_up_name (e1q_cu_up_id x)))" "holds d (b + 48 + ?n) ?ps"
      "holds d (b + 84 + ?n + width ?ps) ?ts"
    using assms(1) by (simp_all add: e1ap_encode_cu_up_id_def E1AP_MAX_TNL_INFO_def ac_simps)
  have nm: "read_name d (b + 32) = Some (e1_gnb_cu_up_name (e1q_cu_up_id x), b + 40 + ?n)"
    using read_name_holds [OF h(1)] assms(2) by (simp add: e1_name_ok_def ac_simps)
  have p: "read_list (read_list (read_word 8) 3) (min (unat (e1q_num_supported_plmns x)) 12) d (b + 48 + ?n) =
      Some (e1q_supported_plmns x, b + 48 + ?n + width ?ps)"
    by (rule e1_plmns_read [OF h(2)]) (use assms(2) in simp)
  have t: "read_list e1ap_decode_tnl_info (min (unat (e1q_num_tnla x)) 8) d (b + 84 + ?n + width ?ps) =
      Some (e1q_tnla x, b + 84 + ?n + width ?ps + width ?ts)"
    by (rule read_counted [OF h(3)]) (use assms(2) in \<open>auto simp: e1_tnl_read\<close>)
  show ?thesis
    using assms nm p t
    by (simp add: e1ap_decode_setup_request_def e1ap_decode_cu_up_id_def e1ap_encode_cu_up_id_def E1AP_MAX_TNL_INFO_def
        take_bit_small take_bit_full ac_simps)
qed

lemma e1_setup_response_read:
  assumes "holds d b (e1ap_encode_payload (E1_Setup_Response x))" and "e1_sendable (E1_Setup_Response x)"
  shows "\<exists>b'. e1ap_decode_setup_response d b = Some (x, b')"
proof -
  let ?n = "8 * length (e1_gnb_cu_cp_name (e1r_cu_cp_id x))"
  let ?ps = "concat (map octet_fields (take (min (unat (e1r_num_supported_plmns x)) 12) (e1r_supported_plmns x)))"
  have h: "holds d (b + 32) (name_fields (e1_gnb_cu_cp_name (e1r_cu_cp_id x)))" "holds d (b + 48 + ?n) ?ps"
    using assms(1) by (simp_all add: e1ap_encode_cu_cp_id_def ac_simps)
  have nm: "read_name d (b + 32) = Some (e1_gnb_cu_cp_name (e1r_cu_cp_id x), b + 40 + ?n)"
    using read_name_holds [OF h(1)] assms(2) by (simp add: e1_name_ok_def ac_simps)
  have p: "read_list (read_list (read_word 8) 3) (min (unat (e1r_num_supported_plmns x)) 12) d (b + 48 + ?n) =
      Some (e1r_supported_plmns x, b + 48 + ?n + width ?ps)"
    by (rule e1_plmns_read [OF h(2)]) (use assms(2) in simp)
  show ?thesis
    using assms nm p
    by (simp add: e1ap_decode_setup_response_def e1ap_decode_cu_cp_id_def e1ap_encode_cu_cp_id_def
        lower_half take_bit_small take_bit_full ac_simps)
qed

lemma e1_bearer_request_read:
  assumes "holds d b (e1ap_encode_payload (E1_Bearer_Setup_Request x))" and "e1_sendable (E1_Bearer_Setup_Request x)"
  shows "\<exists>b'. e1ap_decode_bearer_setup_request True d b = Some (x, b')"
proof -
  let ?ps = "concat (map e1ap_encode_pdu_session_info (take (unat (bcq_num_pdu_sessions x)) (bcq_pdu_sessions x)))"
  have n: "min (unat (bcq_num_pdu_sessions x)) 256 = unat (bcq_num_pdu_sessions x)"
    using unsigned_less [of "bcq_num_pdu_sessions x", where ?'a = nat] by simp
  have h: "holds d b (e1ap_encode_ue_ids (bcq_ue_ids x))" "holds d (b + 112) ?ps"
      "holds d (b + 240 + width ?ps) (fld (bcq_security_key_present x) 1 #
         (if bcq_security_key_present x \<noteq> 0 then octet_fields (bcq_security_key x) else []))"
    using assms(1) by (simp_all add: E1AP_MAX_PDU_SESSIONS_def n e1ap_encode_ue_ids_def ac_simps split: if_splits)
  have p: "read_list (e1ap_decode_pdu_session_info True) (unat (bcq_num_pdu_sessions x)) d (b + 112) =
      Some (bcq_pdu_sessions x, b + 112 + width ?ps)"
    by (rule read_counted [OF h(2)]) (use assms(2) in \<open>auto simp: e1_session_read\<close>)
  have k: "\<exists>q. read_opt (replicate 32 0) (read_list (read_word 8) 32) d (b + 240 + width ?ps) =
      Some ((bcq_security_key_present x, bcq_security_key x), q)"
    using read_opt_holds [OF h(3), of "read_list (read_word 8) 32" "bcq_security_key x"] assms(2)
      read_octets [of d "b + 240 + width ?ps + 1" "bcq_security_key x"] by auto
  show ?thesis
    using assms n p k e1_ue_ids_read [OF h(1)]
    by (auto simp: e1ap_decode_bearer_setup_request_def E1AP_MAX_PDU_SESSIONS_def e1ap_encode_ue_ids_def
        take_bit_small take_bit_full ac_simps)
qed

lemma e1_bearer_response_read:
  assumes "holds d b (e1ap_encode_payload (E1_Bearer_Setup_Response x))" and "e1_sendable (E1_Bearer_Setup_Response x)"
  shows "\<exists>b'. e1ap_decode_bearer_setup_response True d b = Some (x, b')"
proof -
  let ?k = "8 * length (bcr_pdu_session_ids x)"
  let ?ds = "concat (map e1ap_encode_drb_info (take (unat (bcr_num_drbs_setup x)) (bcr_drbs_setup x)))"
  have n: "min (unat (bcr_num_pdu_sessions_setup x)) 256 = length (bcr_pdu_session_ids x)"
      "min (unat (bcr_num_drbs_setup x)) 32 = unat (bcr_num_drbs_setup x)"
    using unsigned_less [of "bcr_num_pdu_sessions_setup x", where ?'a = nat] assms(2) by (auto simp: word_less_nat_alt)
  have h: "holds d b (e1ap_encode_ue_ids (bcr_ue_ids x))" "holds d (b + 72) (octet_fields (bcr_pdu_session_ids x))"
      "holds d (b + 76 + ?k) ?ds"
    using assms(1) by (simp_all add: E1AP_MAX_PDU_SESSIONS_def E1AP_MAX_DRB_ID_def n e1ap_encode_ue_ids_def ac_simps)
  have p: "read_list (e1ap_decode_drb_info True) (unat (bcr_num_drbs_setup x)) d (b + 76 + ?k) =
      Some (bcr_drbs_setup x, b + 76 + ?k + width ?ds)"
    by (rule read_counted [OF h(3)]) (use assms(2) in \<open>auto simp: e1_drb_read\<close>)
  show ?thesis
    using assms n p e1_ue_ids_read [OF h(1)] read_octets [OF h(2)]
    by (auto simp: e1ap_decode_bearer_setup_response_def E1AP_MAX_PDU_SESSIONS_def E1AP_MAX_DRB_ID_def
        e1ap_encode_ue_ids_def take_bit_small take_bit_full ac_simps)
qed

lemma e1_error_read:
  assumes "holds d b (e1ap_encode_payload (E1_Error_Indication x))" and "e1_sendable (E1_Error_Indication x)"
  shows "\<exists>b'. e1ap_decode_error_indication d b = Some (x, b')"
proof -
  let ?k = "if e1e_ue_ids_present x \<noteq> 0 then 64 else 0 :: nat"
  have w: "width (e1ap_encode_ue_ids y) = 64" "width (e1ap_encode_cause c) = 11" for y c
    by (simp_all add: e1ap_encode_ue_ids_def e1ap_encode_cause_def)
  have h: "holds d b (fld (e1e_ue_ids_present x) 1 # (if e1e_ue_ids_present x \<noteq> 0 then e1ap_encode_ue_ids (e1e_ue_ids x) else []))"
      "holds d (b + 1 + ?k) (fld (e1e_cause_present x) 1 # (if e1e_cause_present x \<noteq> 0 then e1ap_encode_cause (e1e_cause x) else []))"
    using assms(1) by (auto simp: w split: if_splits)
  show ?thesis
    using read_opt_holds [OF h(1), of e1ap_decode_ue_ids "e1e_ue_ids x" zero_e1_ids]
      read_opt_holds [OF h(2), of e1ap_decode_cause "e1e_cause x" zero_e1_cause] assms(2)
      e1_ue_ids_read [of d "b + 1"] e1_cause_read [of d "b + 1 + ?k + 1"]
    by (auto simp: e1ap_decode_error_indication_def w split: if_splits)
qed

lemma e1_payload_read:
  assumes "holds d b (e1ap_encode_payload y)" and "e1_sendable y"
  shows "\<exists>b'. e1ap_decode_payload True (e1ap_type y) d b = Some (y, b')"
proof (cases y)
  case (E1_Setup_Request x)
  then show ?thesis using e1_setup_request_read [of d b x] assms by (auto simp: e1ap_decode_payload_def)
next
  case (E1_Setup_Response x)
  then show ?thesis using e1_setup_response_read [of d b x] assms by (auto simp: e1ap_decode_payload_def e1ap_types)
next
  case (E1_Setup_Failure x)
  then show ?thesis using assms e1_cause_read [of d b "e1f_cause x"]
    by (simp add: e1ap_decode_payload_def e1ap_types e1ap_encode_cause_def take_bit_full ac_simps)
next
  case (E1_Bearer_Setup_Request x)
  then show ?thesis using e1_bearer_request_read [of d b x] assms by (auto simp: e1ap_decode_payload_def e1ap_types)
next
  case (E1_Bearer_Setup_Response x)
  then show ?thesis using e1_bearer_response_read [of d b x] assms by (auto simp: e1ap_decode_payload_def e1ap_types)
next
  case (E1_Error_Indication x)
  then show ?thesis using e1_error_read [of d b x] assms by (auto simp: e1ap_decode_payload_def e1ap_types)
next
  case (E1_Release_Command x)
  then have "holds d (b + 64) (e1ap_encode_cause (e1x_cause x))"
    using assms(1) by (simp add: e1ap_encode_ue_ids_def add.commute)
  with E1_Release_Command show ?thesis
    using assms e1_ue_ids_read [of d b "e1x_ue_ids x"] e1_cause_read [of d "b + 64" "e1x_cause x"]
    by (simp add: e1ap_decode_payload_def e1ap_types)
next
  case (E1_Release_Complete x)
  then show ?thesis using assms e1_ue_ids_read [of d b x] by (simp add: e1ap_decode_payload_def e1ap_types)
qed (use assms in \<open>simp_all add: e1ap_decode_payload_def e1ap_types\<close>)

lemma e1_widths: "f \<in> set (e1ap_encode_payload y) \<Longrightarrow> snd f \<le> 32"
  by (cases y) (auto simp: fld_def fld_pair_def octet_fields_def name_fields_def e1ap_encode_cu_up_id_def
      e1ap_encode_cu_cp_id_def e1ap_encode_ue_ids_def e1ap_encode_tnl_info_def e1ap_encode_qos_flow_def
      e1ap_encode_drb_info_def e1ap_encode_pdu_session_info_def e1ap_encode_cause_def split: if_splits)

text \<open>
  C33. Round trip of the messages. A sendable message that fits into the buffer is decoded to itself, when the block
  that the encoder gets from the allocator is zero and the compiler evaluates the two operands of \<^verbatim>\<open>|\<close> from
  left to right. On a block of ones the encoder gives the same octets for all messages of a length.
\<close>

theorem e1ap_roundtrip:
  assumes "e1_sendable (e1_payload m)" and "e1_procedure_code m < 256" and "e1_criticality m < 4"
    and "width (e1ap_fields m) \<le> 8 * E1AP_MAX_MESSAGE_SIZE"
  shows "e1ap_decode_message True (e1ap_encode_message good_os (replicate E1AP_MAX_MESSAGE_SIZE 0) True (Some m)) True =
      Some (Inr m) \<and>
    (\<exists>k. e1ap_encode_message good_os (replicate E1AP_MAX_MESSAGE_SIZE 255) True (Some m) = Some (replicate k 255))"
proof
  have "\<forall>f \<in> set (e1ap_fields m). snd f \<le> 32"
    using e1_widths [of _ "e1_payload m"] by (auto simp: e1ap_fields_def e1ap_encode_header_def fld_def)
  from encode_zeros [of e1ap_fields m E1AP_MAX_MESSAGE_SIZE, OF assms(4) this] obtain d
    where d: "e1ap_encode_message good_os (replicate E1AP_MAX_MESSAGE_SIZE 0) True (Some m) = Some d"
      "holds d 0 (e1ap_fields m)" "length d = (width (e1ap_fields m) + 7) div 8"
    by (auto simp: e1ap_encode_message_def E1AP_MAX_MESSAGE_SIZE_def)
  have t: "e1ap_type (e1_payload m) < 256" using assms(1) by (cases "e1_payload m") (auto simp: e1ap_types)
  have h: "holds d 18 (e1ap_encode_payload (e1_payload m))"
      "read_word 8 d 0 = Some (e1_procedure_code m, 8)" "read_word 2 d 8 = Some (e1_criticality m, 10)"
      "read_word 8 d 10 = Some (e1ap_type (e1_payload m), 18)"
    using d(2) assms(2,3) t by (simp_all add: e1ap_fields_def e1ap_encode_header_def take_bit_small)
  have "d \<noteq> []" using d(3) by (auto simp: e1ap_fields_def e1ap_encode_header_def)
  then show "e1ap_decode_message True (e1ap_encode_message good_os (replicate E1AP_MAX_MESSAGE_SIZE 0) True (Some m)) True =
      Some (Inr m)"
    using e1_payload_read [OF h(1) assms(1)] h(2-4)
    by (auto simp: d(1) e1ap_decode_message_def decode_fields_def e1ap_read_message_def)
  obtain e where "e1ap_encode_message good_os (replicate E1AP_MAX_MESSAGE_SIZE 255) True (Some m) = Some e"
    by (auto simp: e1ap_encode_message_def encode_fields_def asn1_buffer_alloc_def E1AP_MAX_MESSAGE_SIZE_def Let_def)
  then show "\<exists>k. e1ap_encode_message good_os (replicate E1AP_MAX_MESSAGE_SIZE 255) True (Some m) = Some (replicate k 255)"
    using encode_ones [of E1AP_MAX_MESSAGE_SIZE e1ap_fields m e] by (auto simp: e1ap_encode_message_def)
qed

definition e1_example :: e1ap_message where
  "e1_example = \<lparr>e1_procedure_code = 8, e1_criticality = 1, e1_payload = E1_Release_Command
     \<lparr>e1x_ue_ids = \<lparr>e1_cu_cp_ue_id = 7, e1_cu_up_ue_id = 9\<rparr>, e1x_cause = \<lparr>e1_cause_type = 1, e1_cause_value = 3\<rparr>\<rparr>\<rparr>"

theorem e1ap_roundtrip_witness:
  "e1ap_decode_message True (e1ap_encode_message good_os (replicate E1AP_MAX_MESSAGE_SIZE 0) True (Some e1_example)) True =
    Some (Inr e1_example)"
  using e1ap_roundtrip [of e1_example]
  by (simp add: e1_example_def e1ap_fields_def e1ap_encode_header_def e1ap_encode_ue_ids_def e1ap_encode_cause_def
      E1AP_MAX_MESSAGE_SIZE_def)

text \<open>In the other order of evaluation the halves of a rate are exchanged.\<close>

lemma halves_exchanged: "holds d b (fld_pair 32 w) \<Longrightarrow>
    read_pair False 32 d b = Some (push_bit 32 w OR drop_bit 32 w, b + 64)"
proof -
  assume h: "holds d b (fld_pair 32 w)"
  have r: "read_bits d b 32 = Some (ucast (drop_bit 32 w), b + 32)" "read_bits d (b + 32) 32 = Some (ucast w, b + 64)"
    using h [unfolded fld_pair_def] by (simp_all add: take_bit_full)
  have "push_bit 32 (ucast (ucast w :: u32)) OR ucast (ucast (drop_bit 32 w) :: u32) = push_bit 32 w OR drop_bit 32 (w :: u64)"
    by (rule bit_word_eqI)
      (auto simp: bit_or_iff bit_push_bit_iff bit_ucast_iff bit_drop_bit_eq possible_bit_word dest: bit_imp_le_length)
  with r show ?thesis by (simp add: read_pair_def read_word_def)
qed

text \<open>The counter of 16 bearers is written as 0; the setup failure and the release request are decoded empty.\<close>

lemma sixteen_bearers_lost: "e1_num_drbs x = 16 \<Longrightarrow>
    e1ap_encode_pdu_session_info x ! 5 = (16, 4) \<and> take_bit 4 (16 :: u32) = 0"
  by (simp add: e1ap_encode_pdu_session_info_def fld_def)

lemma release_request_decoded_empty:
  "e1ap_decode_payload ord E1AP_MSG_BEARER_CONTEXT_RELEASE_REQUEST d b = Some (E1_Release_Request zero_e1_ids_cause, b)"
  "e1ap_decode_payload ord E1AP_MSG_BEARER_CONTEXT_SETUP_FAILURE d b = Some (E1_Bearer_Setup_Failure zero_e1_ids_cause, b)"
  by (simp_all add: e1ap_decode_payload_def e1ap_types)

end
