(* ===== verification/F1ap.thy ===== *)
theory F1ap
  imports Bit_Codec
begin

text \<open>
  The messages between the central unit and a distributed unit (\<^verbatim>\<open>src/protocol/f1ap_messages.c\<close>).
  A message has the payload that its type selects in the union; \<open>F1_Other\<close> is a type for which encoder and
  decoder handle the header only. An array with a counter is the list of its entries, arrays in step are one
  list of tuples, and an RRC container is the list of the octets in use.
\<close>

section \<open>Constants and enumerations\<close>

definition F1AP_MAX_MESSAGE_SIZE :: nat where "F1AP_MAX_MESSAGE_SIZE = 65535"
definition F1AP_MAX_SRB_ID :: nat where "F1AP_MAX_SRB_ID = 3"
definition F1AP_MAX_CELL_COUNT :: nat where "F1AP_MAX_CELL_COUNT = 512"
definition F1AP_MAX_PLMN_COUNT :: nat where "F1AP_MAX_PLMN_COUNT = 12"
definition F1AP_MAX_SLICE_COUNT :: nat where "F1AP_MAX_SLICE_COUNT = 8"
definition F1AP_MAX_QOS_FLOWS :: nat where "F1AP_MAX_QOS_FLOWS = 64"
definition F1AP_MAX_RRC_CONTAINER_SIZE :: nat where "F1AP_MAX_RRC_CONTAINER_SIZE = 65536"
definition F1AP_MAX_DRB_COUNT :: nat where "F1AP_MAX_DRB_COUNT = 8"

datatype f1ap_procedure_code = F1AP_PROC_F1_SETUP | F1AP_PROC_F1_RESET | F1AP_PROC_ERROR_INDICATION
  | F1AP_PROC_F1_REMOVAL | F1AP_PROC_GNB_DU_CONFIG_UPDATE | F1AP_PROC_GNB_CU_CONFIG_UPDATE | F1AP_PROC_UE_CONTEXT_SETUP
  | F1AP_PROC_UE_CONTEXT_RELEASE | F1AP_PROC_UE_CONTEXT_MODIFICATION | F1AP_PROC_UE_CONTEXT_RELEASE_REQUEST
  | F1AP_PROC_DL_RRC_MESSAGE_TRANSFER | F1AP_PROC_UL_RRC_MESSAGE_TRANSFER | F1AP_PROC_F1_UES_CONTEXT_MANAGEMENT
  | F1AP_PROC_NOTIFY | F1AP_PROC_ACCESS_AND_MOBILITY_INDICATION | F1AP_PROC_SYSTEM_INFORMATION_DELIVERY
  | F1AP_PROC_POSITIONING_MEASUREMENT | F1AP_PROC_POSITIONING_ASSISTANCE_DATA | F1AP_PROC_POSITIONING_INFORMATION
  | F1AP_PROC_POSITIONING_INFORMATION_UPDATE | F1AP_PROC_POSITIONING_MEASUREMENT_ABORT
  | F1AP_PROC_POSITIONING_MEASUREMENT_FAILURE | F1AP_PROC_POSITIONING_ACTIVATION | F1AP_PROC_POSITIONING_DEACTIVATION
  | F1AP_PROC_TRACING | F1AP_PROC_DEACTIVATION

text \<open>The procedures have the numbers from 1 on.\<close>

definition f1ap_proc_code :: "f1ap_procedure_code \<Rightarrow> u32" where
  "f1ap_proc_code p = word_of_nat (1 + enum_code [F1AP_PROC_F1_SETUP, F1AP_PROC_F1_RESET, F1AP_PROC_ERROR_INDICATION,
     F1AP_PROC_F1_REMOVAL, F1AP_PROC_GNB_DU_CONFIG_UPDATE, F1AP_PROC_GNB_CU_CONFIG_UPDATE, F1AP_PROC_UE_CONTEXT_SETUP,
     F1AP_PROC_UE_CONTEXT_RELEASE, F1AP_PROC_UE_CONTEXT_MODIFICATION, F1AP_PROC_UE_CONTEXT_RELEASE_REQUEST,
     F1AP_PROC_DL_RRC_MESSAGE_TRANSFER, F1AP_PROC_UL_RRC_MESSAGE_TRANSFER, F1AP_PROC_F1_UES_CONTEXT_MANAGEMENT,
     F1AP_PROC_NOTIFY, F1AP_PROC_ACCESS_AND_MOBILITY_INDICATION, F1AP_PROC_SYSTEM_INFORMATION_DELIVERY,
     F1AP_PROC_POSITIONING_MEASUREMENT, F1AP_PROC_POSITIONING_ASSISTANCE_DATA, F1AP_PROC_POSITIONING_INFORMATION,
     F1AP_PROC_POSITIONING_INFORMATION_UPDATE, F1AP_PROC_POSITIONING_MEASUREMENT_ABORT,
     F1AP_PROC_POSITIONING_MEASUREMENT_FAILURE, F1AP_PROC_POSITIONING_ACTIVATION, F1AP_PROC_POSITIONING_DEACTIVATION,
     F1AP_PROC_TRACING, F1AP_PROC_DEACTIVATION] p)"

text \<open>The message types have the numbers from 0 on.\<close>

definition F1AP_MSG_F1_SETUP_REQUEST :: u32 where "F1AP_MSG_F1_SETUP_REQUEST = 0"
definition F1AP_MSG_F1_SETUP_RESPONSE :: u32 where "F1AP_MSG_F1_SETUP_RESPONSE = 1"
definition F1AP_MSG_F1_SETUP_FAILURE :: u32 where "F1AP_MSG_F1_SETUP_FAILURE = 2"
definition F1AP_MSG_ERROR_INDICATION :: u32 where "F1AP_MSG_ERROR_INDICATION = 5"
definition F1AP_MSG_UE_CONTEXT_SETUP_REQUEST :: u32 where "F1AP_MSG_UE_CONTEXT_SETUP_REQUEST = 14"
definition F1AP_MSG_UE_CONTEXT_SETUP_RESPONSE :: u32 where "F1AP_MSG_UE_CONTEXT_SETUP_RESPONSE = 15"
definition F1AP_MSG_UE_CONTEXT_RELEASE_COMMAND :: u32 where "F1AP_MSG_UE_CONTEXT_RELEASE_COMMAND = 17"
definition F1AP_MSG_UE_CONTEXT_RELEASE_COMPLETE :: u32 where "F1AP_MSG_UE_CONTEXT_RELEASE_COMPLETE = 18"
definition F1AP_MSG_UE_CONTEXT_RELEASE_REQUEST :: u32 where "F1AP_MSG_UE_CONTEXT_RELEASE_REQUEST = 22"
definition F1AP_MSG_DL_RRC_MESSAGE_TRANSFER :: u32 where "F1AP_MSG_DL_RRC_MESSAGE_TRANSFER = 23"
definition F1AP_MSG_UL_RRC_MESSAGE_TRANSFER :: u32 where "F1AP_MSG_UL_RRC_MESSAGE_TRANSFER = 24"
definition F1AP_MSG_NOTIFY :: u32 where "F1AP_MSG_NOTIFY = 25"

lemmas f1ap_types = F1AP_MSG_F1_SETUP_REQUEST_def F1AP_MSG_F1_SETUP_RESPONSE_def F1AP_MSG_F1_SETUP_FAILURE_def
  F1AP_MSG_ERROR_INDICATION_def F1AP_MSG_UE_CONTEXT_SETUP_REQUEST_def F1AP_MSG_UE_CONTEXT_SETUP_RESPONSE_def
  F1AP_MSG_UE_CONTEXT_RELEASE_COMMAND_def F1AP_MSG_UE_CONTEXT_RELEASE_COMPLETE_def
  F1AP_MSG_UE_CONTEXT_RELEASE_REQUEST_def F1AP_MSG_DL_RRC_MESSAGE_TRANSFER_def F1AP_MSG_UL_RRC_MESSAGE_TRANSFER_def
  F1AP_MSG_NOTIFY_def

definition f1ap_message_type_strings :: "string list" where
  "f1ap_message_type_strings = [''F1SetupRequest'', ''F1SetupResponse'', ''F1SetupFailure'', ''F1ResetRequest'',
     ''F1ResetResponse'', ''ErrorIndication'', ''F1RemovalRequest'', ''F1RemovalResponse'', ''GNBDUConfigUpdate'',
     ''GNBDUConfigUpdateAcknowledge'', ''GNBDUConfigUpdateFailure'', ''GNBCUConfigUpdate'',
     ''GNBCUConfigUpdateAcknowledge'', ''GNBCUConfigUpdateFailure'', ''UEContextSetupRequest'',
     ''UEContextSetupResponse'', ''UEContextSetupFailure'', ''UEContextReleaseCommand'', ''UEContextReleaseComplete'',
     ''UEContextModificationRequest'', ''UEContextModificationResponse'', ''UEContextModificationFailure'',
     ''UEContextReleaseRequest'', ''DLRRCMessageTransfer'', ''ULRRCMessageTransfer'', ''Notify'',
     ''SystemInformationDeliveryCommand'', ''AccessAndMobilityIndication'']"

definition f1ap_message_type_to_string :: "u32 \<Rightarrow> string" where
  "f1ap_message_type_to_string t = (if t \<ge> 28 then ''Unknown'' else f1ap_message_type_strings ! unat t)"

datatype f1ap_cause_type = F1AP_CAUSE_RADIO_NETWORK | F1AP_CAUSE_TRANSPORT | F1AP_CAUSE_PROTOCOL | F1AP_CAUSE_MISC

fun f1ap_cause_type_code :: "f1ap_cause_type \<Rightarrow> u32" where
  "f1ap_cause_type_code F1AP_CAUSE_RADIO_NETWORK = 0"
| "f1ap_cause_type_code F1AP_CAUSE_TRANSPORT = 1"
| "f1ap_cause_type_code F1AP_CAUSE_PROTOCOL = 2"
| "f1ap_cause_type_code F1AP_CAUSE_MISC = 3"

section \<open>Structures\<close>

record f1ap_cause =
  f1_cause_type :: u32
  f1_cause_value :: u8

record f1ap_gnb_du_id =
  f1_gnb_du_id :: u32
  f1_gnb_du_name :: "u8 list"

record f1ap_gnb_cu_id =
  f1_gnb_cu_id :: u64
  f1_gnb_cu_name :: "u8 list"

record f1ap_ue_ids =
  f1_gnb_cu_ue_id :: u32
  f1_gnb_du_ue_id :: u32

record f1ap_plmn_id =
  f1_mcc :: "u8 list"
  f1_mnc :: "u8 list"
  f1_mnc_length :: u8

record f1ap_served_cell_info =
  f1c_nr_cell_id :: u64
  f1c_pci :: u16
  f1c_tac :: u32
  f1c_num_plmns :: u8
  f1c_plmns :: "f1ap_plmn_id list"
  f1c_num_slices :: u8
  f1c_slices :: "(u8 \<times> u32) list"
  f1c_duplex_mode :: u16

record f1ap_drb_info =
  f1_drb_id :: u8
  f1_sdt_mode :: u8
  f1_drb_rlc_mode :: u8
  f1_num_tnl :: u8
  f1_tnl :: "(u32 \<times> u16 \<times> u32) list"
  f1_num_flows :: u8
  f1_flows :: "(u8 \<times> u8) list"

record f1ap_srb_info =
  f1_srb_id :: u8
  f1_srb_rlc_mode :: u8

record f1ap_f1_setup_request =
  f1q_du_id :: f1ap_gnb_du_id
  f1q_num_cells :: u8
  f1q_cells :: "f1ap_served_cell_info list"
  f1q_ranac :: u8
  f1q_rrc_version :: "u8 list"

record f1ap_f1_setup_response =
  f1r_cu_id :: f1ap_gnb_cu_id
  f1r_num_cells :: u8
  f1r_cells :: "f1ap_served_cell_info list"
  f1r_rrc_version :: "u8 list"
  f1r_address :: u32

record f1ap_f1_setup_failure =
  f1f_cause :: f1ap_cause
  f1f_time_to_wait :: u32
  f1f_diagnostics_present :: u8

record f1ap_ue_context_setup_request =
  ucq_ue_ids :: f1ap_ue_ids
  ucq_ran_ue_id :: u64
  ucq_plmn :: f1ap_plmn_id
  ucq_num_drbs :: u8
  ucq_drbs :: "f1ap_drb_info list"
  ucq_num_srbs :: u8
  ucq_srbs :: "f1ap_srb_info list"
  ucq_ambr_dl :: u64
  ucq_ambr_ul :: u64
  ucq_container :: "u8 list"
  ucq_nr_cell_id :: u64
  ucq_serv_cell_idx :: u16
  ucq_sst :: u8
  ucq_sd :: u32

record f1ap_ue_context_setup_response =
  ucr_ue_ids :: f1ap_ue_ids
  ucr_num_drbs :: u8
  ucr_drbs :: "f1ap_drb_info list"
  ucr_num_failed :: u8
  ucr_failed :: "(u8 \<times> f1ap_cause) list"
  ucr_num_srbs :: u8
  ucr_srbs :: "u8 list"
  ucr_container :: "u8 list"

record f1ap_ids_cause =
  f1x_ue_ids :: f1ap_ue_ids
  f1x_cause :: f1ap_cause

record f1ap_release_command =
  f1k_ue_ids :: f1ap_ue_ids
  f1k_cause :: f1ap_cause
  f1k_container :: "u8 list"

record f1ap_release_complete =
  f1l_ue_ids :: f1ap_ue_ids
  f1l_container :: "u8 list"

record f1ap_dl_rrc_message_transfer =
  f1d_ue_ids :: f1ap_ue_ids
  f1d_srb_id :: u8
  f1d_container :: "u8 list"
  f1d_old_id_present :: u8
  f1d_old_id :: u32

record f1ap_ul_rrc_message_transfer =
  f1u_ue_ids :: f1ap_ue_ids
  f1u_srb_id :: u8
  f1u_container :: "u8 list"

record f1ap_notify =
  f1n_ue_ids :: f1ap_ue_ids
  f1n_notification_type :: u8
  f1n_cause :: f1ap_cause

record f1ap_error_indication =
  f1e_ue_ids :: f1ap_ue_ids
  f1e_ue_ids_present :: u8
  f1e_cause :: f1ap_cause
  f1e_cause_present :: u8
  f1e_diagnostics_present :: u8

datatype f1ap_payload =
    F1_Setup_Request f1ap_f1_setup_request
  | F1_Setup_Response f1ap_f1_setup_response
  | F1_Setup_Failure f1ap_f1_setup_failure
  | F1_Context_Setup_Request f1ap_ue_context_setup_request
  | F1_Context_Setup_Response f1ap_ue_context_setup_response
  | F1_Release_Request f1ap_ids_cause
  | F1_Release_Command f1ap_release_command
  | F1_Release_Complete f1ap_release_complete
  | F1_Dl_Rrc_Transfer f1ap_dl_rrc_message_transfer
  | F1_Ul_Rrc_Transfer f1ap_ul_rrc_message_transfer
  | F1_Notify f1ap_notify
  | F1_Error_Indication f1ap_error_indication
  | F1_Other u32

record f1ap_message =
  f1_procedure_code :: u32
  f1_criticality :: u8
  f1_payload :: f1ap_payload

fun f1ap_type :: "f1ap_payload \<Rightarrow> u32" where
  "f1ap_type (F1_Setup_Request _) = F1AP_MSG_F1_SETUP_REQUEST"
| "f1ap_type (F1_Setup_Response _) = F1AP_MSG_F1_SETUP_RESPONSE"
| "f1ap_type (F1_Setup_Failure _) = F1AP_MSG_F1_SETUP_FAILURE"
| "f1ap_type (F1_Context_Setup_Request _) = F1AP_MSG_UE_CONTEXT_SETUP_REQUEST"
| "f1ap_type (F1_Context_Setup_Response _) = F1AP_MSG_UE_CONTEXT_SETUP_RESPONSE"
| "f1ap_type (F1_Release_Request _) = F1AP_MSG_UE_CONTEXT_RELEASE_REQUEST"
| "f1ap_type (F1_Release_Command _) = F1AP_MSG_UE_CONTEXT_RELEASE_COMMAND"
| "f1ap_type (F1_Release_Complete _) = F1AP_MSG_UE_CONTEXT_RELEASE_COMPLETE"
| "f1ap_type (F1_Dl_Rrc_Transfer _) = F1AP_MSG_DL_RRC_MESSAGE_TRANSFER"
| "f1ap_type (F1_Ul_Rrc_Transfer _) = F1AP_MSG_UL_RRC_MESSAGE_TRANSFER"
| "f1ap_type (F1_Notify _) = F1AP_MSG_NOTIFY"
| "f1ap_type (F1_Error_Indication _) = F1AP_MSG_ERROR_INDICATION"
| "f1ap_type (F1_Other t) = t"

text \<open>The structures after \<^verbatim>\<open>memset\<close>.\<close>

definition zero_f1_cause :: f1ap_cause where "zero_f1_cause = \<lparr>f1_cause_type = 0, f1_cause_value = 0\<rparr>"
definition zero_f1_ids :: f1ap_ue_ids where "zero_f1_ids = \<lparr>f1_gnb_cu_ue_id = 0, f1_gnb_du_ue_id = 0\<rparr>"
definition zero_f1_plmn :: f1ap_plmn_id where
  "zero_f1_plmn = \<lparr>f1_mcc = [0, 0, 0], f1_mnc = [0, 0, 0], f1_mnc_length = 0\<rparr>"
definition zero_f1_setup_request :: f1ap_f1_setup_request where
  "zero_f1_setup_request = \<lparr>f1q_du_id = \<lparr>f1_gnb_du_id = 0, f1_gnb_du_name = []\<rparr>, f1q_num_cells = 0, f1q_cells = [],
     f1q_ranac = 0, f1q_rrc_version = [0, 0, 0, 0]\<rparr>"
definition zero_f1_setup_response :: f1ap_f1_setup_response where
  "zero_f1_setup_response = \<lparr>f1r_cu_id = \<lparr>f1_gnb_cu_id = 0, f1_gnb_cu_name = []\<rparr>, f1r_num_cells = 0, f1r_cells = [],
     f1r_rrc_version = [0, 0, 0, 0], f1r_address = 0\<rparr>"
definition zero_context_setup_request :: f1ap_ue_context_setup_request where
  "zero_context_setup_request = \<lparr>ucq_ue_ids = zero_f1_ids, ucq_ran_ue_id = 0, ucq_plmn = zero_f1_plmn, ucq_num_drbs = 0,
     ucq_drbs = [], ucq_num_srbs = 0, ucq_srbs = [], ucq_ambr_dl = 0, ucq_ambr_ul = 0, ucq_container = [],
     ucq_nr_cell_id = 0, ucq_serv_cell_idx = 0, ucq_sst = 0, ucq_sd = 0\<rparr>"
definition zero_dl_transfer :: f1ap_dl_rrc_message_transfer where
  "zero_dl_transfer = \<lparr>f1d_ue_ids = zero_f1_ids, f1d_srb_id = 0, f1d_container = [], f1d_old_id_present = 0, f1d_old_id = 0\<rparr>"
definition zero_ul_transfer :: f1ap_ul_rrc_message_transfer where
  "zero_ul_transfer = \<lparr>f1u_ue_ids = zero_f1_ids, f1u_srb_id = 0, f1u_container = []\<rparr>"

section \<open>Causes and initial messages\<close>

definition f1ap_cause_to_string :: "f1ap_cause option \<Rightarrow> string" where
  "f1ap_cause_to_string c = (case c of None \<Rightarrow> ''NULL'' | Some x \<Rightarrow>
     take 63 ((if f1_cause_type x < 4
         then [''RadioNetwork'', ''Transport'', ''Protocol'', ''Misc''] ! unat (f1_cause_type x)
         else ''Unknown'') @ '':'' @ unsigned_decimal (unat (f1_cause_value x))))"

text \<open>\<open>v\<close> is the number of an enumerator of the causes of the type.\<close>

definition f1ap_set_cause :: "f1ap_cause_type \<Rightarrow> u8 \<Rightarrow> f1ap_cause option \<Rightarrow> f1ap_cause option" where
  "f1ap_set_cause t v c = map_option (\<lambda>_. \<lparr>f1_cause_type = f1ap_cause_type_code t, f1_cause_value = v\<rparr>) c"

definition f1ap_set_cause_radio :: "u8 \<Rightarrow> f1ap_cause option \<Rightarrow> f1ap_cause option" where
  "f1ap_set_cause_radio = f1ap_set_cause F1AP_CAUSE_RADIO_NETWORK"

definition f1ap_set_cause_transport :: "u8 \<Rightarrow> f1ap_cause option \<Rightarrow> f1ap_cause option" where
  "f1ap_set_cause_transport = f1ap_set_cause F1AP_CAUSE_TRANSPORT"

definition f1ap_set_cause_protocol :: "u8 \<Rightarrow> f1ap_cause option \<Rightarrow> f1ap_cause option" where
  "f1ap_set_cause_protocol = f1ap_set_cause F1AP_CAUSE_PROTOCOL"

definition f1ap_set_cause_misc :: "u8 \<Rightarrow> f1ap_cause option \<Rightarrow> f1ap_cause option" where
  "f1ap_set_cause_misc = f1ap_set_cause F1AP_CAUSE_MISC"

definition f1ap_init :: "f1ap_procedure_code \<Rightarrow> u8 \<Rightarrow> f1ap_payload \<Rightarrow> f1ap_message option \<Rightarrow> f1ap_message option" where
  "f1ap_init p c y = map_option (\<lambda>_. \<lparr>f1_procedure_code = f1ap_proc_code p, f1_criticality = c, f1_payload = y\<rparr>)"

definition f1ap_init_f1_setup_request :: "f1ap_message option \<Rightarrow> f1ap_message option" where
  "f1ap_init_f1_setup_request =
     f1ap_init F1AP_PROC_F1_SETUP 0 (F1_Setup_Request (zero_f1_setup_request\<lparr>f1q_rrc_version := [15, 0, 0, 0]\<rparr>))"

definition f1ap_init_f1_setup_response :: "f1ap_message option \<Rightarrow> f1ap_message option" where
  "f1ap_init_f1_setup_response =
     f1ap_init F1AP_PROC_F1_SETUP 0 (F1_Setup_Response (zero_f1_setup_response\<lparr>f1r_rrc_version := [15, 0, 0, 0]\<rparr>))"

definition f1ap_init_ue_context_setup_request :: "f1ap_message option \<Rightarrow> f1ap_message option" where
  "f1ap_init_ue_context_setup_request =
     f1ap_init F1AP_PROC_UE_CONTEXT_SETUP 0 (F1_Context_Setup_Request zero_context_setup_request)"

definition f1ap_init_ue_context_release_request :: "f1ap_message option \<Rightarrow> f1ap_message option" where
  "f1ap_init_ue_context_release_request = f1ap_init F1AP_PROC_UE_CONTEXT_RELEASE_REQUEST 0
     (F1_Release_Request \<lparr>f1x_ue_ids = zero_f1_ids, f1x_cause = zero_f1_cause\<rparr>)"

definition f1ap_init_dl_rrc_message_transfer :: "f1ap_message option \<Rightarrow> f1ap_message option" where
  "f1ap_init_dl_rrc_message_transfer =
     f1ap_init F1AP_PROC_DL_RRC_MESSAGE_TRANSFER 1 (F1_Dl_Rrc_Transfer zero_dl_transfer)"

definition f1ap_init_ul_rrc_message_transfer :: "f1ap_message option \<Rightarrow> f1ap_message option" where
  "f1ap_init_ul_rrc_message_transfer =
     f1ap_init F1AP_PROC_UL_RRC_MESSAGE_TRANSFER 1 (F1_Ul_Rrc_Transfer zero_ul_transfer)"

section \<open>Encoding\<close>

definition f1ap_encode_header :: "f1ap_message \<Rightarrow> (u32 \<times> nat) list" where
  "f1ap_encode_header m = [fld (f1_procedure_code m) 8, fld (f1_criticality m) 2, fld (f1ap_type (f1_payload m)) 8]"

text \<open>The octets of a name are counted in eight bits; all of them are within its array.\<close>

definition f1ap_encode_gnb_du_id :: "f1ap_gnb_du_id \<Rightarrow> (u32 \<times> nat) list" where
  "f1ap_encode_gnb_du_id x = fld (f1_gnb_du_id x) 32 # name_fields (f1_gnb_du_name x)"

definition f1ap_encode_gnb_cu_id :: "f1ap_gnb_cu_id \<Rightarrow> (u32 \<times> nat) list" where
  "f1ap_encode_gnb_cu_id x = fld (ucast (f1_gnb_cu_id x) :: u32) 32 # name_fields (f1_gnb_cu_name x)"

definition f1ap_encode_ue_ids :: "f1ap_ue_ids \<Rightarrow> (u32 \<times> nat) list" where
  "f1ap_encode_ue_ids x = [fld (f1_gnb_cu_ue_id x) 32, fld (f1_gnb_du_ue_id x) 32]"

definition f1ap_encode_nr_cell_id :: "u64 \<Rightarrow> (u32 \<times> nat) list" where
  "f1ap_encode_nr_cell_id i = fld_pair 4 i"

text \<open>The upper half of the last octet is 15 for a code of two and of three digits.\<close>

definition f1ap_encode_plmn_id :: "f1ap_plmn_id \<Rightarrow> (u32 \<times> nat) list" where
  "f1ap_encode_plmn_id x = [
     fld (f1_mcc x ! 0 OR push_bit 4 (f1_mcc x ! 1)) 8,
     fld (f1_mcc x ! 2 OR push_bit 4 0xF) 8,
     fld (f1_mnc x ! 0 OR push_bit 4 (f1_mnc x ! 1)) 8,
     (if f1_mnc_length x = 2 then fld (0xF0 :: u8) 8 else fld (f1_mnc x ! 2 OR push_bit 4 0xF) 8)]"

definition f1ap_encode_slice :: "u8 \<times> u32 \<Rightarrow> (u32 \<times> nat) list" where
  "f1ap_encode_slice p = [fld (fst p) 8, fld (snd p) 24]"

definition f1ap_encode_served_cell_info :: "f1ap_served_cell_info \<Rightarrow> (u32 \<times> nat) list" where
  "f1ap_encode_served_cell_info x = f1ap_encode_nr_cell_id (f1c_nr_cell_id x) @
     [fld (f1c_pci x) 10, fld (f1c_tac x) 24, fld (f1c_num_plmns x) 8] @
     concat (map f1ap_encode_plmn_id (take (min (unat (f1c_num_plmns x)) F1AP_MAX_PLMN_COUNT) (f1c_plmns x))) @
     [fld (f1c_num_slices x) 8] @
     concat (map f1ap_encode_slice (take (min (unat (f1c_num_slices x)) F1AP_MAX_SLICE_COUNT) (f1c_slices x))) @
     [fld (f1c_duplex_mode x) 4]"

text \<open>The length is written in 16 bits, the octets are written all.\<close>

definition f1ap_encode_rrc_container :: "u8 list \<Rightarrow> (u32 \<times> nat) list" where
  "f1ap_encode_rrc_container c = fld (word_of_nat (length c) :: u16) 16 # octet_fields c"

definition f1ap_encode_tnl :: "u32 \<times> u16 \<times> u32 \<Rightarrow> (u32 \<times> nat) list" where
  "f1ap_encode_tnl p = [fld (fst p) 32, fld (fst (snd p)) 16, fld (snd (snd p)) 32]"

definition f1ap_encode_flow :: "u8 \<times> u8 \<Rightarrow> (u32 \<times> nat) list" where
  "f1ap_encode_flow p = [fld (fst p) 6, fld (snd p) 8]"

definition f1ap_encode_drb_info :: "f1ap_drb_info \<Rightarrow> (u32 \<times> nat) list" where
  "f1ap_encode_drb_info x = [fld (f1_drb_id x) 5, fld (f1_sdt_mode x) 1, fld (f1_drb_rlc_mode x) 2, fld (f1_num_tnl x) 4] @
     concat (map f1ap_encode_tnl (take (min (unat (f1_num_tnl x)) F1AP_MAX_DRB_COUNT) (f1_tnl x))) @
     [fld (f1_num_flows x) 6] @
     concat (map f1ap_encode_flow (take (min (unat (f1_num_flows x)) F1AP_MAX_QOS_FLOWS) (f1_flows x)))"

definition f1ap_encode_srb_info :: "f1ap_srb_info \<Rightarrow> (u32 \<times> nat) list" where
  "f1ap_encode_srb_info x = [fld (f1_srb_id x) 2, fld (f1_srb_rlc_mode x) 2]"

definition f1ap_encode_cause :: "f1ap_cause \<Rightarrow> (u32 \<times> nat) list" where
  "f1ap_encode_cause x = [fld (f1_cause_type x) 2, fld (f1_cause_value x) 8]"

definition f1ap_encode_failed_drb :: "u8 \<times> f1ap_cause \<Rightarrow> (u32 \<times> nat) list" where
  "f1ap_encode_failed_drb p = fld (fst p) 5 # f1ap_encode_cause (snd p)"

fun f1ap_encode_payload :: "f1ap_payload \<Rightarrow> (u32 \<times> nat) list" where
  "f1ap_encode_payload (F1_Setup_Request x) = f1ap_encode_gnb_du_id (f1q_du_id x) @ [fld (f1q_num_cells x) 8] @
     concat (map f1ap_encode_served_cell_info (take (min (unat (f1q_num_cells x)) F1AP_MAX_CELL_COUNT) (f1q_cells x))) @
     [fld (f1q_ranac x) 8] @ octet_fields (f1q_rrc_version x)"
| "f1ap_encode_payload (F1_Setup_Response x) = f1ap_encode_gnb_cu_id (f1r_cu_id x) @ [fld (f1r_num_cells x) 8] @
     concat (map f1ap_encode_served_cell_info (take (min (unat (f1r_num_cells x)) F1AP_MAX_CELL_COUNT) (f1r_cells x))) @
     [fld (f1r_address x) 32] @ octet_fields (f1r_rrc_version x)"
| "f1ap_encode_payload (F1_Setup_Failure x) = f1ap_encode_cause (f1f_cause x) @ [fld (f1f_time_to_wait x) 32]"
| "f1ap_encode_payload (F1_Context_Setup_Request x) = f1ap_encode_ue_ids (ucq_ue_ids x) @ fld_pair 8 (ucq_ran_ue_id x) @
     f1ap_encode_plmn_id (ucq_plmn x) @ [fld (ucq_num_drbs x) 4] @
     concat (map f1ap_encode_drb_info (take (min (unat (ucq_num_drbs x)) F1AP_MAX_DRB_COUNT) (ucq_drbs x))) @
     [fld (ucq_num_srbs x) 2] @
     concat (map f1ap_encode_srb_info (take (min (unat (ucq_num_srbs x)) F1AP_MAX_SRB_ID) (ucq_srbs x))) @
     fld_pair 32 (ucq_ambr_dl x) @ fld_pair 32 (ucq_ambr_ul x) @ f1ap_encode_nr_cell_id (ucq_nr_cell_id x) @
     [fld (ucq_serv_cell_idx x) 8, fld (ucq_sst x) 8, fld (ucq_sd x) 24] @ f1ap_encode_rrc_container (ucq_container x)"
| "f1ap_encode_payload (F1_Context_Setup_Response x) = f1ap_encode_ue_ids (ucr_ue_ids x) @ [fld (ucr_num_drbs x) 4] @
     concat (map f1ap_encode_drb_info (take (min (unat (ucr_num_drbs x)) F1AP_MAX_DRB_COUNT) (ucr_drbs x))) @
     [fld (ucr_num_failed x) 4] @
     concat (map f1ap_encode_failed_drb (take (min (unat (ucr_num_failed x)) F1AP_MAX_DRB_COUNT) (ucr_failed x))) @
     [fld (ucr_num_srbs x) 2] @
     word_fields 2 (take (min (unat (ucr_num_srbs x)) F1AP_MAX_SRB_ID) (ucr_srbs x)) @
     f1ap_encode_rrc_container (ucr_container x)"
| "f1ap_encode_payload (F1_Release_Request x) = f1ap_encode_ue_ids (f1x_ue_ids x) @ f1ap_encode_cause (f1x_cause x)"
| "f1ap_encode_payload (F1_Release_Command x) = f1ap_encode_ue_ids (f1k_ue_ids x) @ f1ap_encode_cause (f1k_cause x) @
     f1ap_encode_rrc_container (f1k_container x)"
| "f1ap_encode_payload (F1_Release_Complete x) = f1ap_encode_ue_ids (f1l_ue_ids x) @
     f1ap_encode_rrc_container (f1l_container x)"
| "f1ap_encode_payload (F1_Dl_Rrc_Transfer x) = f1ap_encode_ue_ids (f1d_ue_ids x) @ [fld (f1d_srb_id x) 2] @
     f1ap_encode_rrc_container (f1d_container x) @
     (if f1d_old_id_present x \<noteq> 0 then [fld (1 :: u8) 1, fld (f1d_old_id x) 32] else [fld (0 :: u8) 1])"
| "f1ap_encode_payload (F1_Ul_Rrc_Transfer x) = f1ap_encode_ue_ids (f1u_ue_ids x) @ [fld (f1u_srb_id x) 2] @
     f1ap_encode_rrc_container (f1u_container x)"
| "f1ap_encode_payload (F1_Notify x) = f1ap_encode_ue_ids (f1n_ue_ids x) @ [fld (f1n_notification_type x) 4] @
     f1ap_encode_cause (f1n_cause x)"
| "f1ap_encode_payload (F1_Error_Indication x) = [fld (f1e_ue_ids_present x) 1] @
     (if f1e_ue_ids_present x \<noteq> 0 then f1ap_encode_ue_ids (f1e_ue_ids x) else []) @
     [fld (f1e_cause_present x) 1] @ (if f1e_cause_present x \<noteq> 0 then f1ap_encode_cause (f1e_cause x) else [])"
| "f1ap_encode_payload (F1_Other t) = []"

definition f1ap_fields :: "f1ap_message \<Rightarrow> (u32 \<times> nat) list" where
  "f1ap_fields m = f1ap_encode_header m @ f1ap_encode_payload (f1_payload m)"

definition f1ap_encode_message :: "os \<Rightarrow> u8 list \<Rightarrow> bool \<Rightarrow> f1ap_message option \<Rightarrow> u8 list option" where
  "f1ap_encode_message s mem out msg = encode_fields s mem F1AP_MAX_MESSAGE_SIZE out f1ap_fields msg"

section \<open>Decoding\<close>

definition f1ap_decode_bits :: "nat \<Rightarrow> 'a::len word reader" where
  "f1ap_decode_bits = read_word"

definition f1ap_decode_gnb_du_id :: "f1ap_gnb_du_id reader" where
  "f1ap_decode_gnb_du_id d b = do {
     (i, b) \<leftarrow> f1ap_decode_bits 32 d b; (n, b) \<leftarrow> read_name d b;
     Some (\<lparr>f1_gnb_du_id = i, f1_gnb_du_name = n\<rparr>, b) }"

definition f1ap_decode_gnb_cu_id :: "f1ap_gnb_cu_id reader" where
  "f1ap_decode_gnb_cu_id d b = do {
     (i :: u32, b) \<leftarrow> f1ap_decode_bits 32 d b; (n, b) \<leftarrow> read_name d b;
     Some (\<lparr>f1_gnb_cu_id = ucast i, f1_gnb_cu_name = n\<rparr>, b) }"

definition f1ap_decode_ue_ids :: "f1ap_ue_ids reader" where
  "f1ap_decode_ue_ids d b = do {
     (c, b) \<leftarrow> f1ap_decode_bits 32 d b; (u, b) \<leftarrow> f1ap_decode_bits 32 d b;
     Some (\<lparr>f1_gnb_cu_ue_id = c, f1_gnb_du_ue_id = u\<rparr>, b) }"

definition f1ap_decode_nr_cell_id :: "u64 reader" where
  "f1ap_decode_nr_cell_id = read_pair True 4"

definition f1ap_decode_plmn_id :: "f1ap_plmn_id reader" where
  "f1ap_decode_plmn_id d b = do {
     (b1 :: u8, b) \<leftarrow> f1ap_decode_bits 8 d b; (b2, b) \<leftarrow> f1ap_decode_bits 8 d b;
     (b3, b) \<leftarrow> f1ap_decode_bits 8 d b; (b4, b) \<leftarrow> f1ap_decode_bits 8 d b;
     let two = drop_bit 4 b4 = 0x0F in
     Some (\<lparr>f1_mcc = [b1 AND 0x0F, drop_bit 4 b1 AND 0x0F, b2 AND 0x0F],
       f1_mnc = [b3 AND 0x0F, drop_bit 4 b3 AND 0x0F, if two then 0 else b4 AND 0x0F],
       f1_mnc_length = (if two then 2 else 3)\<rparr>, b) }"

definition f1ap_decode_slice :: "(u8 \<times> u32) reader" where
  "f1ap_decode_slice d b = do { (s, b) \<leftarrow> f1ap_decode_bits 8 d b; (sd, b) \<leftarrow> f1ap_decode_bits 24 d b; Some ((s, sd), b) }"

definition f1ap_decode_served_cell_info :: "f1ap_served_cell_info reader" where
  "f1ap_decode_served_cell_info d b = do {
     (i, b) \<leftarrow> f1ap_decode_nr_cell_id d b; (pci, b) \<leftarrow> f1ap_decode_bits 10 d b; (tac, b) \<leftarrow> f1ap_decode_bits 24 d b;
     (np, b) \<leftarrow> f1ap_decode_bits 8 d b;
     (ps, b) \<leftarrow> read_list f1ap_decode_plmn_id (min (unat np) F1AP_MAX_PLMN_COUNT) d b;
     (ns, b) \<leftarrow> f1ap_decode_bits 8 d b;
     (ss, b) \<leftarrow> read_list f1ap_decode_slice (min (unat ns) F1AP_MAX_SLICE_COUNT) d b;
     (dm, b) \<leftarrow> f1ap_decode_bits 4 d b;
     Some (\<lparr>f1c_nr_cell_id = i, f1c_pci = pci, f1c_tac = tac, f1c_num_plmns = np, f1c_plmns = ps, f1c_num_slices = ns,
       f1c_slices = ss, f1c_duplex_mode = dm\<rparr>, b) }"

definition f1ap_decode_rrc_container :: "u8 list reader" where
  "f1ap_decode_rrc_container d b = do {
     (len :: u16, b) \<leftarrow> f1ap_decode_bits 16 d b;
     read_list (f1ap_decode_bits 8) (min (unat len) F1AP_MAX_RRC_CONTAINER_SIZE) d b }"

definition f1ap_decode_cause :: "f1ap_cause reader" where
  "f1ap_decode_cause d b = do {
     (t, b) \<leftarrow> f1ap_decode_bits 2 d b; (v, b) \<leftarrow> f1ap_decode_bits 8 d b;
     Some (\<lparr>f1_cause_type = t, f1_cause_value = v\<rparr>, b) }"

definition f1ap_decode_tnl :: "(u32 \<times> u16 \<times> u32) reader" where
  "f1ap_decode_tnl d b = do {
     (ip, b) \<leftarrow> f1ap_decode_bits 32 d b; (port, b) \<leftarrow> f1ap_decode_bits 16 d b; (teid, b) \<leftarrow> f1ap_decode_bits 32 d b;
     Some ((ip, port, teid), b) }"

definition f1ap_decode_flow :: "(u8 \<times> u8) reader" where
  "f1ap_decode_flow d b = do { (q, b) \<leftarrow> f1ap_decode_bits 6 d b; (f, b) \<leftarrow> f1ap_decode_bits 8 d b; Some ((q, f), b) }"

definition f1ap_decode_drb_info :: "f1ap_drb_info reader" where
  "f1ap_decode_drb_info d b = do {
     (i, b) \<leftarrow> f1ap_decode_bits 5 d b; (sdt, b) \<leftarrow> f1ap_decode_bits 1 d b; (rlc, b) \<leftarrow> f1ap_decode_bits 2 d b;
     (nt, b) \<leftarrow> f1ap_decode_bits 4 d b;
     (ts, b) \<leftarrow> read_list f1ap_decode_tnl (min (unat nt) F1AP_MAX_DRB_COUNT) d b;
     (nf, b) \<leftarrow> f1ap_decode_bits 6 d b;
     (fs, b) \<leftarrow> read_list f1ap_decode_flow (min (unat nf) F1AP_MAX_QOS_FLOWS) d b;
     Some (\<lparr>f1_drb_id = i, f1_sdt_mode = sdt, f1_drb_rlc_mode = rlc, f1_num_tnl = nt, f1_tnl = ts, f1_num_flows = nf,
       f1_flows = fs\<rparr>, b) }"

definition f1ap_decode_failed_drb :: "(u8 \<times> f1ap_cause) reader" where
  "f1ap_decode_failed_drb d b = do { (i, b) \<leftarrow> f1ap_decode_bits 5 d b; (c, b) \<leftarrow> f1ap_decode_cause d b; Some ((i, c), b) }"

definition f1ap_decode_setup_request :: "f1ap_f1_setup_request reader" where
  "f1ap_decode_setup_request d b = do {
     (i, b) \<leftarrow> f1ap_decode_gnb_du_id d b; (nc, b) \<leftarrow> f1ap_decode_bits 8 d b;
     (cs, b) \<leftarrow> read_list f1ap_decode_served_cell_info (min (unat nc) F1AP_MAX_CELL_COUNT) d b;
     (ra, b) \<leftarrow> f1ap_decode_bits 8 d b; (v, b) \<leftarrow> read_list (f1ap_decode_bits 8) 4 d b;
     Some (\<lparr>f1q_du_id = i, f1q_num_cells = nc, f1q_cells = cs, f1q_ranac = ra, f1q_rrc_version = v\<rparr>, b) }"

definition f1ap_decode_setup_response :: "f1ap_f1_setup_response reader" where
  "f1ap_decode_setup_response d b = do {
     (i, b) \<leftarrow> f1ap_decode_gnb_cu_id d b; (nc, b) \<leftarrow> f1ap_decode_bits 8 d b;
     (cs, b) \<leftarrow> read_list f1ap_decode_served_cell_info (min (unat nc) F1AP_MAX_CELL_COUNT) d b;
     (a, b) \<leftarrow> f1ap_decode_bits 32 d b; (v, b) \<leftarrow> read_list (f1ap_decode_bits 8) 4 d b;
     Some (\<lparr>f1r_cu_id = i, f1r_num_cells = nc, f1r_cells = cs, f1r_rrc_version = v, f1r_address = a\<rparr>, b) }"

text \<open>The signalling bearers that the encoder writes after their number are not read.\<close>

definition f1ap_decode_context_setup_request :: "bool \<Rightarrow> f1ap_ue_context_setup_request reader" where
  "f1ap_decode_context_setup_request ord d b = do {
     (ids, b) \<leftarrow> f1ap_decode_ue_ids d b; (ran, b) \<leftarrow> read_pair True 8 d b; (p, b) \<leftarrow> f1ap_decode_plmn_id d b;
     (nd, b) \<leftarrow> f1ap_decode_bits 4 d b;
     (ds, b) \<leftarrow> read_list f1ap_decode_drb_info (min (unat nd) F1AP_MAX_DRB_COUNT) d b;
     (ns, b) \<leftarrow> f1ap_decode_bits 2 d b; (dl, b) \<leftarrow> read_pair ord 32 d b; (ul, b) \<leftarrow> read_pair ord 32 d b;
     (cell, b) \<leftarrow> f1ap_decode_nr_cell_id d b; (idx, b) \<leftarrow> f1ap_decode_bits 8 d b; (sst, b) \<leftarrow> f1ap_decode_bits 8 d b;
     (sd, b) \<leftarrow> f1ap_decode_bits 24 d b; (c, b) \<leftarrow> f1ap_decode_rrc_container d b;
     Some (\<lparr>ucq_ue_ids = ids, ucq_ran_ue_id = ran, ucq_plmn = p, ucq_num_drbs = nd, ucq_drbs = ds, ucq_num_srbs = ns,
       ucq_srbs = [], ucq_ambr_dl = dl, ucq_ambr_ul = ul, ucq_container = c, ucq_nr_cell_id = cell,
       ucq_serv_cell_idx = idx, ucq_sst = sst, ucq_sd = sd\<rparr>, b) }"

definition f1ap_decode_context_setup_response :: "f1ap_ue_context_setup_response reader" where
  "f1ap_decode_context_setup_response d b = do {
     (ids, b) \<leftarrow> f1ap_decode_ue_ids d b; (nd, b) \<leftarrow> f1ap_decode_bits 4 d b;
     (ds, b) \<leftarrow> read_list f1ap_decode_drb_info (min (unat nd) F1AP_MAX_DRB_COUNT) d b;
     (nf, b) \<leftarrow> f1ap_decode_bits 4 d b;
     (fs, b) \<leftarrow> read_list f1ap_decode_failed_drb (min (unat nf) F1AP_MAX_DRB_COUNT) d b;
     (ns, b) \<leftarrow> f1ap_decode_bits 2 d b;
     (ss, b) \<leftarrow> read_list (f1ap_decode_bits 2) (min (unat ns) F1AP_MAX_SRB_ID) d b;
     (c, b) \<leftarrow> f1ap_decode_rrc_container d b;
     Some (\<lparr>ucr_ue_ids = ids, ucr_num_drbs = nd, ucr_drbs = ds, ucr_num_failed = nf, ucr_failed = fs, ucr_num_srbs = ns,
       ucr_srbs = ss, ucr_container = c\<rparr>, b) }"

definition f1ap_decode_release_command :: "f1ap_release_command reader" where
  "f1ap_decode_release_command d b = do {
     (ids, b) \<leftarrow> f1ap_decode_ue_ids d b; (ca, b) \<leftarrow> f1ap_decode_cause d b; (c, b) \<leftarrow> f1ap_decode_rrc_container d b;
     Some (\<lparr>f1k_ue_ids = ids, f1k_cause = ca, f1k_container = c\<rparr>, b) }"

definition f1ap_decode_dl_transfer :: "f1ap_dl_rrc_message_transfer reader" where
  "f1ap_decode_dl_transfer d b = do {
     (ids, b) \<leftarrow> f1ap_decode_ue_ids d b; (i, b) \<leftarrow> f1ap_decode_bits 2 d b; (c, b) \<leftarrow> f1ap_decode_rrc_container d b;
     ((f, old), b) \<leftarrow> read_opt 0 (f1ap_decode_bits 32) d b;
     Some (\<lparr>f1d_ue_ids = ids, f1d_srb_id = i, f1d_container = c, f1d_old_id_present = f, f1d_old_id = old\<rparr>, b) }"

definition f1ap_decode_error_indication :: "f1ap_error_indication reader" where
  "f1ap_decode_error_indication d b = do {
     ((f, ids), b) \<leftarrow> read_opt zero_f1_ids f1ap_decode_ue_ids d b;
     ((g, c), b) \<leftarrow> read_opt zero_f1_cause f1ap_decode_cause d b;
     Some (\<lparr>f1e_ue_ids = ids, f1e_ue_ids_present = f, f1e_cause = c, f1e_cause_present = g,
       f1e_diagnostics_present = 0\<rparr>, b) }"

definition f1ap_decode_payload :: "bool \<Rightarrow> u32 \<Rightarrow> f1ap_payload reader" where
  "f1ap_decode_payload ord t d b = (
     if t = F1AP_MSG_F1_SETUP_REQUEST then map_option (map_prod F1_Setup_Request id) (f1ap_decode_setup_request d b)
     else if t = F1AP_MSG_F1_SETUP_RESPONSE then map_option (map_prod F1_Setup_Response id) (f1ap_decode_setup_response d b)
     else if t = F1AP_MSG_F1_SETUP_FAILURE then do {
       (c, b) \<leftarrow> f1ap_decode_cause d b; (w, b) \<leftarrow> f1ap_decode_bits 32 d b;
       Some (F1_Setup_Failure \<lparr>f1f_cause = c, f1f_time_to_wait = w, f1f_diagnostics_present = 0\<rparr>, b) }
     else if t = F1AP_MSG_UE_CONTEXT_SETUP_REQUEST
     then map_option (map_prod F1_Context_Setup_Request id) (f1ap_decode_context_setup_request ord d b)
     else if t = F1AP_MSG_UE_CONTEXT_SETUP_RESPONSE
     then map_option (map_prod F1_Context_Setup_Response id) (f1ap_decode_context_setup_response d b)
     else if t = F1AP_MSG_UE_CONTEXT_RELEASE_REQUEST then do {
       (ids, b) \<leftarrow> f1ap_decode_ue_ids d b; (c, b) \<leftarrow> f1ap_decode_cause d b;
       Some (F1_Release_Request \<lparr>f1x_ue_ids = ids, f1x_cause = c\<rparr>, b) }
     else if t = F1AP_MSG_UE_CONTEXT_RELEASE_COMMAND
     then map_option (map_prod F1_Release_Command id) (f1ap_decode_release_command d b)
     else if t = F1AP_MSG_UE_CONTEXT_RELEASE_COMPLETE then do {
       (ids, b) \<leftarrow> f1ap_decode_ue_ids d b; (c, b) \<leftarrow> f1ap_decode_rrc_container d b;
       Some (F1_Release_Complete \<lparr>f1l_ue_ids = ids, f1l_container = c\<rparr>, b) }
     else if t = F1AP_MSG_DL_RRC_MESSAGE_TRANSFER
     then map_option (map_prod F1_Dl_Rrc_Transfer id) (f1ap_decode_dl_transfer d b)
     else if t = F1AP_MSG_UL_RRC_MESSAGE_TRANSFER then do {
       (ids, b) \<leftarrow> f1ap_decode_ue_ids d b; (i, b) \<leftarrow> f1ap_decode_bits 2 d b; (c, b) \<leftarrow> f1ap_decode_rrc_container d b;
       Some (F1_Ul_Rrc_Transfer \<lparr>f1u_ue_ids = ids, f1u_srb_id = i, f1u_container = c\<rparr>, b) }
     else if t = F1AP_MSG_NOTIFY then do {
       (ids, b) \<leftarrow> f1ap_decode_ue_ids d b; (n, b) \<leftarrow> f1ap_decode_bits 4 d b; (c, b) \<leftarrow> f1ap_decode_cause d b;
       Some (F1_Notify \<lparr>f1n_ue_ids = ids, f1n_notification_type = n, f1n_cause = c\<rparr>, b) }
     else if t = F1AP_MSG_ERROR_INDICATION then map_option (map_prod F1_Error_Indication id) (f1ap_decode_error_indication d b)
     else Some (F1_Other t, b))"

definition f1ap_read_message :: "bool \<Rightarrow> u8 list \<Rightarrow> f1ap_message option" where
  "f1ap_read_message ord d = do {
     (p, b) \<leftarrow> f1ap_decode_bits 8 d 0; (c, b) \<leftarrow> f1ap_decode_bits 2 d b; (t, b) \<leftarrow> f1ap_decode_bits 8 d b;
     (y, b) \<leftarrow> f1ap_decode_payload ord t d b;
     Some \<lparr>f1_procedure_code = p, f1_criticality = c, f1_payload = y\<rparr> }"

definition f1ap_decode_message :: "bool \<Rightarrow> u8 list option \<Rightarrow> bool \<Rightarrow> (unit + f1ap_message) option" where
  "f1ap_decode_message ord d out = decode_fields (f1ap_read_message ord) d out"

text \<open>There is nothing to free.\<close>

definition f1ap_free_message :: "f1ap_message option \<Rightarrow> f1ap_message option" where
  "f1ap_free_message m = m"

end
