(* ===== verification/F1ap_Proofs.thy ===== *)
theory F1ap_Proofs
  imports F1ap
begin

text \<open>
  What survives the way through encoder and decoder of \<^verbatim>\<open>f1ap_messages.c\<close>, and what does not: the third digit
  of a network code, and the signalling bearers of a context setup request.
\<close>

section \<open>What can be sent\<close>

definition f1_name_ok :: "u8 list \<Rightarrow> bool" where
  "f1_name_ok s \<longleftrightarrow> length s \<le> 63 \<and> 0 \<notin> set s"

definition f1_digits :: "u8 list \<Rightarrow> bool" where
  "f1_digits ds \<longleftrightarrow> length ds = 3 \<and> (\<forall>x \<in> set ds. x < 16)"

text \<open>Only network codes of two digits are read as they were written.\<close>

definition f1_plmn_ok :: "f1ap_plmn_id \<Rightarrow> bool" where
  "f1_plmn_ok x \<longleftrightarrow> f1_digits (f1_mcc x) \<and> f1_digits (f1_mnc x) \<and> f1_mnc x ! 2 = 0 \<and> f1_mnc_length x = 2"

definition f1_cell_ok :: "f1ap_served_cell_info \<Rightarrow> bool" where
  "f1_cell_ok x \<longleftrightarrow> f1c_nr_cell_id x < 2 ^ 36 \<and> f1c_pci x < 1024 \<and> f1c_tac x < 2 ^ 24
     \<and> length (f1c_plmns x) = min (unat (f1c_num_plmns x)) 12 \<and> (\<forall>p \<in> set (f1c_plmns x). f1_plmn_ok p)
     \<and> length (f1c_slices x) = min (unat (f1c_num_slices x)) 8 \<and> (\<forall>p \<in> set (f1c_slices x). snd p < 2 ^ 24)
     \<and> f1c_duplex_mode x < 16"

definition f1_container_ok :: "u8 list \<Rightarrow> bool" where
  "f1_container_ok c \<longleftrightarrow> length c < 2 ^ 16"

definition f1_drb_ok :: "f1ap_drb_info \<Rightarrow> bool" where
  "f1_drb_ok x \<longleftrightarrow> f1_drb_id x < 32 \<and> f1_sdt_mode x < 2 \<and> f1_drb_rlc_mode x < 4 \<and> f1_num_tnl x < 16
     \<and> length (f1_tnl x) = min (unat (f1_num_tnl x)) 8 \<and> f1_num_flows x < 64
     \<and> length (f1_flows x) = unat (f1_num_flows x) \<and> (\<forall>p \<in> set (f1_flows x). fst p < 64)"

definition f1_drbs_ok :: "u8 \<Rightarrow> f1ap_drb_info list \<Rightarrow> bool" where
  "f1_drbs_ok n ds \<longleftrightarrow> n < 16 \<and> length ds = min (unat n) 8 \<and> (\<forall>x \<in> set ds. f1_drb_ok x)"

fun f1_sendable :: "f1ap_payload \<Rightarrow> bool" where
  "f1_sendable (F1_Setup_Request x) \<longleftrightarrow> f1_name_ok (f1_gnb_du_name (f1q_du_id x))
     \<and> length (f1q_cells x) = unat (f1q_num_cells x) \<and> (\<forall>c \<in> set (f1q_cells x). f1_cell_ok c)
     \<and> length (f1q_rrc_version x) = 4"
| "f1_sendable (F1_Setup_Response x) \<longleftrightarrow> f1_name_ok (f1_gnb_cu_name (f1r_cu_id x)) \<and> f1_gnb_cu_id (f1r_cu_id x) < 2 ^ 32
     \<and> length (f1r_cells x) = unat (f1r_num_cells x) \<and> (\<forall>c \<in> set (f1r_cells x). f1_cell_ok c)
     \<and> length (f1r_rrc_version x) = 4"
| "f1_sendable (F1_Setup_Failure x) \<longleftrightarrow> f1_cause_type (f1f_cause x) < 4 \<and> f1f_diagnostics_present x = 0"
| "f1_sendable (F1_Context_Setup_Request x) \<longleftrightarrow> ucq_ran_ue_id x < 2 ^ 40 \<and> f1_plmn_ok (ucq_plmn x)
     \<and> f1_drbs_ok (ucq_num_drbs x) (ucq_drbs x) \<and> ucq_num_srbs x = 0 \<and> ucq_srbs x = []
     \<and> ucq_nr_cell_id x < 2 ^ 36 \<and> ucq_serv_cell_idx x < 256 \<and> ucq_sd x < 2 ^ 24 \<and> f1_container_ok (ucq_container x)"
| "f1_sendable (F1_Context_Setup_Response x) \<longleftrightarrow> f1_drbs_ok (ucr_num_drbs x) (ucr_drbs x)
     \<and> ucr_num_failed x < 16 \<and> length (ucr_failed x) = min (unat (ucr_num_failed x)) 8
     \<and> (\<forall>p \<in> set (ucr_failed x). fst p < 32 \<and> f1_cause_type (snd p) < 4)
     \<and> ucr_num_srbs x < 4 \<and> length (ucr_srbs x) = unat (ucr_num_srbs x) \<and> (\<forall>i \<in> set (ucr_srbs x). i < 4)
     \<and> f1_container_ok (ucr_container x)"
| "f1_sendable (F1_Release_Request x) \<longleftrightarrow> f1_cause_type (f1x_cause x) < 4"
| "f1_sendable (F1_Release_Command x) \<longleftrightarrow> f1_cause_type (f1k_cause x) < 4 \<and> f1_container_ok (f1k_container x)"
| "f1_sendable (F1_Release_Complete x) \<longleftrightarrow> f1_container_ok (f1l_container x)"
| "f1_sendable (F1_Dl_Rrc_Transfer x) \<longleftrightarrow> f1d_srb_id x < 4 \<and> f1_container_ok (f1d_container x)
     \<and> f1d_old_id_present x < 2 \<and> (f1d_old_id_present x = 0 \<longrightarrow> f1d_old_id x = 0)"
| "f1_sendable (F1_Ul_Rrc_Transfer x) \<longleftrightarrow> f1u_srb_id x < 4 \<and> f1_container_ok (f1u_container x)"
| "f1_sendable (F1_Notify x) \<longleftrightarrow> f1n_notification_type x < 16 \<and> f1_cause_type (f1n_cause x) < 4"
| "f1_sendable (F1_Error_Indication x) \<longleftrightarrow> f1e_ue_ids_present x < 2 \<and> f1e_cause_present x < 2
     \<and> (f1e_ue_ids_present x = 0 \<longrightarrow> f1e_ue_ids x = zero_f1_ids) \<and> f1_cause_type (f1e_cause x) < 4
     \<and> (f1e_cause_present x = 0 \<longrightarrow> f1e_cause x = zero_f1_cause) \<and> f1e_diagnostics_present x = 0"
| "f1_sendable (F1_Other t) \<longleftrightarrow> t < 256 \<and> t \<notin> {0, 1, 2, 5, 14, 15, 17, 18, 22, 23, 24, 25}"

section \<open>The structures\<close>

lemma f1_bits [simp]: "f1ap_decode_bits = read_word"
  by (rule ext) (simp add: f1ap_decode_bits_def)

lemma f1_ue_ids_width [simp]: "width (f1ap_encode_ue_ids x) = 64"
  by (simp add: f1ap_encode_ue_ids_def)

lemma f1_cause_width [simp]: "width (f1ap_encode_cause x) = 10"
  by (simp add: f1ap_encode_cause_def)

lemma f1_plmn_width [simp]: "width (f1ap_encode_plmn_id x) = 32"
  by (simp add: f1ap_encode_plmn_id_def)

lemma f1_cell_id_width [simp]: "width (f1ap_encode_nr_cell_id i) = 36"
  by (simp add: f1ap_encode_nr_cell_id_def)

lemma f1_container_width [simp]: "width (f1ap_encode_rrc_container c) = 16 + 8 * length c"
  by (simp add: f1ap_encode_rrc_container_def)

lemma f1_ue_ids_read: "holds d b (f1ap_encode_ue_ids x) \<Longrightarrow> f1ap_decode_ue_ids d b = Some (x, b + 64)"
  by (simp add: f1ap_encode_ue_ids_def f1ap_decode_ue_ids_def take_bit_full)

lemma f1_cause_read: "holds d b (f1ap_encode_cause x) \<Longrightarrow> f1_cause_type x < 4 \<Longrightarrow>
    f1ap_decode_cause d b = Some (x, b + 10)"
  by (simp add: f1ap_encode_cause_def f1ap_decode_cause_def take_bit_full take_bit_small)

lemma f1_cell_id_read: "holds d b (f1ap_encode_nr_cell_id i) \<Longrightarrow> i < 2 ^ 36 \<Longrightarrow>
    f1ap_decode_nr_cell_id d b = Some (i, b + 36)"
  by (simp add: f1ap_encode_nr_cell_id_def f1ap_decode_nr_cell_id_def take_bit_small)

lemma flag_mod: "(w :: u8) < 2 \<Longrightarrow> w mod 2 = w"
proof -
  assume "w < 2"
  then have "w = 0 \<or> w = 1" by unat_arith
  then show ?thesis by auto
qed

lemma digits_list: "f1_digits ds \<Longrightarrow> \<exists>x y z. ds = [x, y, z] \<and> x < 16 \<and> y < 16 \<and> z < 16"
  by (auto simp: f1_digits_def numeral_3_eq_3 length_Suc_conv)

text \<open>Whatever its length, a network code is read as one of two digits.\<close>

lemma f1_plmn_read:
  assumes "holds d b (f1ap_encode_plmn_id x)" and "f1_digits (f1_mcc x)" and "f1_digits (f1_mnc x)"
  shows "f1ap_decode_plmn_id d b = Some (x\<lparr>f1_mnc := (f1_mnc x)[2 := 0], f1_mnc_length := 2\<rparr>, b + 32)"
proof -
  obtain p q r u v w where x: "f1_mcc x = [p, q, r]" "f1_mnc x = [u, v, w]" and l: "p < 16" "q < 16" "r < 16" "u < 16" "v < 16" "w < 16"
    using digits_list [OF assms(2)] digits_list [OF assms(3)] by auto
  have "drop_bit 4 (w OR push_bit 4 15) = 15" "drop_bit 4 (240 :: u8) = 15" "(r OR push_bit 4 15) AND 15 = r"
    using two_digits [OF l(6), of 15] two_digits [OF l(3), of 15] by simp_all
  then show ?thesis
    using assms(1) two_digits [OF l(1,2)] two_digits [OF l(4,5)] l x
    by (cases x) (simp add: f1ap_encode_plmn_id_def f1ap_decode_plmn_id_def take_bit_full Let_def del: push_bit_of_1 split: if_splits)
qed

lemma f1_plmn_same:
  assumes "holds d b (f1ap_encode_plmn_id x)" and "f1_plmn_ok x"
  shows "f1ap_decode_plmn_id d b = Some (x, b + 32)"
proof -
  have m: "(f1_mnc x)[2 := 0] = f1_mnc x" using assms(2) list_update_id [of "f1_mnc x" 2] by (simp add: f1_plmn_ok_def)
  then have "x\<lparr>f1_mnc := (f1_mnc x)[2 := 0], f1_mnc_length := 2\<rparr> = x"
    using assms(2) by (cases x) (simp add: f1_plmn_ok_def)
  then show ?thesis using f1_plmn_read [OF assms(1)] assms(2) by (simp add: f1_plmn_ok_def)
qed

lemma f1_slice_read: "holds d b (f1ap_encode_slice p) \<Longrightarrow> snd p < 2 ^ 24 \<Longrightarrow>
    f1ap_decode_slice d b = Some (p, b + width (f1ap_encode_slice p))"
  by (simp add: f1ap_encode_slice_def f1ap_decode_slice_def take_bit_full take_bit_small)

lemma f1_tnl_read: "holds d b (f1ap_encode_tnl p) \<Longrightarrow> f1ap_decode_tnl d b = Some (p, b + width (f1ap_encode_tnl p))"
  by (simp add: f1ap_encode_tnl_def f1ap_decode_tnl_def take_bit_full)

lemma f1_flow_read: "holds d b (f1ap_encode_flow p) \<Longrightarrow> fst p < 64 \<Longrightarrow>
    f1ap_decode_flow d b = Some (p, b + width (f1ap_encode_flow p))"
  by (simp add: f1ap_encode_flow_def f1ap_decode_flow_def take_bit_full take_bit_small)

lemma f1_failed_read: "holds d b (f1ap_encode_failed_drb p) \<Longrightarrow> fst p < 32 \<Longrightarrow> f1_cause_type (snd p) < 4 \<Longrightarrow>
    f1ap_decode_failed_drb d b = Some (p, b + width (f1ap_encode_failed_drb p))"
  using f1_cause_read [of d "b + 5" "snd p"]
  by (simp add: f1ap_encode_failed_drb_def f1ap_decode_failed_drb_def take_bit_small)

lemma f1_container_read:
  assumes "holds d b (f1ap_encode_rrc_container c)" and "f1_container_ok c"
  shows "f1ap_decode_rrc_container d b = Some (c, b + 16 + 8 * length c)"
proof -
  have len: "unat (word_of_nat (length c) :: u16) = length c" "min (length c) 65536 = length c"
    using assms(2) by (simp_all add: f1_container_ok_def unsigned_of_nat take_bit_nat_eq_self)
  then show ?thesis
    using assms(1) read_octets [of d "b + 16" c]
    by (simp add: f1ap_encode_rrc_container_def f1ap_decode_rrc_container_def F1AP_MAX_RRC_CONTAINER_SIZE_def take_bit_full)
qed

lemma f1_cell_read:
  assumes "holds d b (f1ap_encode_served_cell_info x)" and "f1_cell_ok x"
  shows "f1ap_decode_served_cell_info d b = Some (x, b + width (f1ap_encode_served_cell_info x))"
proof -
  let ?ps = "concat (map f1ap_encode_plmn_id (take (min (unat (f1c_num_plmns x)) 12) (f1c_plmns x)))"
  let ?ss = "concat (map f1ap_encode_slice (take (min (unat (f1c_num_slices x)) 8) (f1c_slices x)))"
  have h: "holds d b (f1ap_encode_nr_cell_id (f1c_nr_cell_id x))" "holds d (b + 78) ?ps" "holds d (b + 86 + width ?ps) ?ss"
    using assms(1) by (simp_all add: f1ap_encode_served_cell_info_def F1AP_MAX_PLMN_COUNT_def F1AP_MAX_SLICE_COUNT_def ac_simps)
  have p: "read_list f1ap_decode_plmn_id (min (unat (f1c_num_plmns x)) 12) d (b + 78) = Some (f1c_plmns x, b + 78 + width ?ps)"
    by (rule read_counted [OF h(2)]) (use assms(2) in \<open>auto simp: f1_cell_ok_def f1_plmn_same\<close>)
  have s: "read_list f1ap_decode_slice (min (unat (f1c_num_slices x)) 8) d (b + 86 + width ?ps) =
      Some (f1c_slices x, b + 86 + width ?ps + width ?ss)"
    by (rule read_counted [OF h(3)]) (use assms(2) in \<open>auto simp: f1_cell_ok_def f1_slice_read\<close>)
  have i: "f1ap_decode_nr_cell_id d b = Some (f1c_nr_cell_id x, b + 36)"
    using f1_cell_id_read [OF h(1)] assms(2) by (simp add: f1_cell_ok_def)
  show ?thesis
    using assms i p s
    by (simp add: f1ap_decode_served_cell_info_def f1ap_encode_served_cell_info_def f1_cell_ok_def F1AP_MAX_PLMN_COUNT_def
        F1AP_MAX_SLICE_COUNT_def take_bit_small take_bit_full ac_simps)
qed

lemma f1_drb_read:
  assumes "holds d b (f1ap_encode_drb_info x)" and "f1_drb_ok x"
  shows "f1ap_decode_drb_info d b = Some (x, b + width (f1ap_encode_drb_info x))"
proof -
  let ?ts = "concat (map f1ap_encode_tnl (take (min (unat (f1_num_tnl x)) 8) (f1_tnl x)))"
  let ?fs = "concat (map f1ap_encode_flow (take (unat (f1_num_flows x)) (f1_flows x)))"
  have n: "min (unat (f1_num_flows x)) 64 = unat (f1_num_flows x)"
    using assms(2) by (auto simp: f1_drb_ok_def word_less_nat_alt)
  have h: "holds d (b + 12) ?ts" "holds d (b + 18 + width ?ts) ?fs"
    using assms(1) by (simp_all add: f1ap_encode_drb_info_def F1AP_MAX_DRB_COUNT_def F1AP_MAX_QOS_FLOWS_def n ac_simps)
  have t: "read_list f1ap_decode_tnl (min (unat (f1_num_tnl x)) 8) d (b + 12) = Some (f1_tnl x, b + 12 + width ?ts)"
    by (rule read_counted [OF h(1)]) (use assms(2) in \<open>auto simp: f1_drb_ok_def f1_tnl_read\<close>)
  have f: "read_list f1ap_decode_flow (unat (f1_num_flows x)) d (b + 18 + width ?ts) =
      Some (f1_flows x, b + 18 + width ?ts + width ?fs)"
    by (rule read_counted [OF h(2)]) (use assms(2) in \<open>auto simp: f1_drb_ok_def f1_flow_read\<close>)
  show ?thesis
    using assms n t f
    by (simp add: f1ap_decode_drb_info_def f1ap_encode_drb_info_def f1_drb_ok_def F1AP_MAX_DRB_COUNT_def
        F1AP_MAX_QOS_FLOWS_def flag_mod take_bit_small take_bit_full ac_simps)
qed

lemma f1_drbs_read:
  assumes "holds d b (concat (map f1ap_encode_drb_info (take (min (unat n) 8) ds)))" and "f1_drbs_ok n ds"
  shows "read_list f1ap_decode_drb_info (min (unat n) 8) d b =
    Some (ds, b + width (concat (map f1ap_encode_drb_info (take (min (unat n) 8) ds))))"
  by (rule read_counted [OF assms(1)]) (use assms(2) in \<open>auto simp: f1_drbs_ok_def f1_drb_read\<close>)

lemma f1_cells_read:
  assumes "holds d b (concat (map f1ap_encode_served_cell_info (take (unat (n :: u8)) cs)))" and "length cs = unat n"
    and "\<forall>c \<in> set cs. f1_cell_ok c"
  shows "read_list f1ap_decode_served_cell_info (unat n) d b =
    Some (cs, b + width (concat (map f1ap_encode_served_cell_info (take (unat n) cs))))"
  by (rule read_counted [OF assms(1,2)]) (use assms(3) in \<open>auto simp: f1_cell_read\<close>)

section \<open>The payloads\<close>

lemma f1_setup_request_read:
  assumes "holds d b (f1ap_encode_payload (F1_Setup_Request x))" and "f1_sendable (F1_Setup_Request x)"
  shows "\<exists>b'. f1ap_decode_setup_request d b = Some (x, b')"
proof -
  let ?n = "8 * length (f1_gnb_du_name (f1q_du_id x))"
  let ?cs = "concat (map f1ap_encode_served_cell_info (take (unat (f1q_num_cells x)) (f1q_cells x)))"
  have n: "min (unat (f1q_num_cells x)) 512 = unat (f1q_num_cells x)"
    using unsigned_less [of "f1q_num_cells x", where ?'a = nat] by simp
  have h: "holds d (b + 32) (name_fields (f1_gnb_du_name (f1q_du_id x)))" "holds d (b + 48 + ?n) ?cs"
      "holds d (b + 56 + ?n + width ?cs) (octet_fields (f1q_rrc_version x))"
    using assms(1) by (simp_all add: f1ap_encode_gnb_du_id_def F1AP_MAX_CELL_COUNT_def n ac_simps)
  have nm: "read_name d (b + 32) = Some (f1_gnb_du_name (f1q_du_id x), b + 40 + ?n)"
    using read_name_holds [OF h(1)] assms(2) by (simp add: f1_name_ok_def ac_simps)
  have c: "read_list f1ap_decode_served_cell_info (unat (f1q_num_cells x)) d (b + 48 + ?n) =
      Some (f1q_cells x, b + 48 + ?n + width ?cs)"
    by (rule f1_cells_read [OF h(2)]) (use assms(2) in simp_all)
  have v: "read_list (read_word 8) 4 d (b + 56 + ?n + width ?cs) = Some (f1q_rrc_version x, b + 56 + ?n + width ?cs + 32)"
    using read_octets [OF h(3)] assms(2) by simp
  show ?thesis
    using assms(1) n nm c v
    by (cases "f1q_du_id x") (simp add: f1ap_decode_setup_request_def f1ap_decode_gnb_du_id_def f1ap_encode_gnb_du_id_def
        F1AP_MAX_CELL_COUNT_def take_bit_full ac_simps)
qed

lemma f1_setup_response_read:
  assumes "holds d b (f1ap_encode_payload (F1_Setup_Response x))" and "f1_sendable (F1_Setup_Response x)"
  shows "\<exists>b'. f1ap_decode_setup_response d b = Some (x, b')"
proof -
  let ?n = "8 * length (f1_gnb_cu_name (f1r_cu_id x))"
  let ?cs = "concat (map f1ap_encode_served_cell_info (take (unat (f1r_num_cells x)) (f1r_cells x)))"
  have n: "min (unat (f1r_num_cells x)) 512 = unat (f1r_num_cells x)"
    using unsigned_less [of "f1r_num_cells x", where ?'a = nat] by simp
  have h: "holds d (b + 32) (name_fields (f1_gnb_cu_name (f1r_cu_id x)))" "holds d (b + 48 + ?n) ?cs"
      "holds d (b + 80 + ?n + width ?cs) (octet_fields (f1r_rrc_version x))"
    using assms(1) by (simp_all add: f1ap_encode_gnb_cu_id_def F1AP_MAX_CELL_COUNT_def n ac_simps)
  have nm: "read_name d (b + 32) = Some (f1_gnb_cu_name (f1r_cu_id x), b + 40 + ?n)"
    using read_name_holds [OF h(1)] assms(2) by (simp add: f1_name_ok_def ac_simps)
  have c: "read_list f1ap_decode_served_cell_info (unat (f1r_num_cells x)) d (b + 48 + ?n) =
      Some (f1r_cells x, b + 48 + ?n + width ?cs)"
    by (rule f1_cells_read [OF h(2)]) (use assms(2) in simp_all)
  have v: "read_list (read_word 8) 4 d (b + 80 + ?n + width ?cs) = Some (f1r_rrc_version x, b + 80 + ?n + width ?cs + 32)"
    using read_octets [OF h(3)] assms(2) by simp
  have l: "ucast (ucast (f1_gnb_cu_id (f1r_cu_id x)) :: u32) = f1_gnb_cu_id (f1r_cu_id x)"
    using assms(2) by (simp add: lower_half)
  show ?thesis
    using assms(1) n nm c v l
    by (cases "f1r_cu_id x") (simp add: f1ap_decode_setup_response_def f1ap_decode_gnb_cu_id_def f1ap_encode_gnb_cu_id_def
        F1AP_MAX_CELL_COUNT_def take_bit_full ac_simps)
qed

lemma f1_context_request_read:
  assumes "holds d b (f1ap_encode_payload (F1_Context_Setup_Request x))" and "f1_sendable (F1_Context_Setup_Request x)"
  shows "\<exists>b'. f1ap_decode_context_setup_request True d b = Some (x, b')"
proof -
  let ?ds = "concat (map f1ap_encode_drb_info (take (min (unat (ucq_num_drbs x)) 8) (ucq_drbs x)))"
  let ?k = "b + 140 + width ?ds"
  have h: "holds d b (f1ap_encode_ue_ids (ucq_ue_ids x))" "holds d (b + 104) (f1ap_encode_plmn_id (ucq_plmn x))"
      "holds d (b + 140) ?ds" "holds d (?k + 130) (f1ap_encode_nr_cell_id (ucq_nr_cell_id x))"
      "holds d (?k + 206) (f1ap_encode_rrc_container (ucq_container x))"
    using assms by (simp_all add: F1AP_MAX_DRB_COUNT_def F1AP_MAX_SRB_ID_def ac_simps)
  have p: "f1ap_decode_plmn_id d (b + 104) = Some (ucq_plmn x, b + 136)"
    using f1_plmn_same [OF h(2)] assms(2) by simp
  have ds: "read_list f1ap_decode_drb_info (min (unat (ucq_num_drbs x)) 8) d (b + 140) = Some (ucq_drbs x, ?k)"
    by (rule f1_drbs_read [OF h(3)]) (use assms(2) in simp)
  have i: "f1ap_decode_nr_cell_id d (?k + 130) = Some (ucq_nr_cell_id x, ?k + 166)"
    using f1_cell_id_read [OF h(4)] assms(2) by simp
  have c: "f1ap_decode_rrc_container d (?k + 206) = Some (ucq_container x, ?k + 222 + 8 * length (ucq_container x))"
    using f1_container_read [OF h(5)] assms(2) by simp
  show ?thesis
    using assms f1_ue_ids_read [OF h(1)] p ds i c
    by (simp add: f1ap_decode_context_setup_request_def F1AP_MAX_DRB_COUNT_def F1AP_MAX_SRB_ID_def f1_drbs_ok_def
        take_bit_small take_bit_full ac_simps)
qed

text \<open>The signalling bearers of a received request are lost, whatever their number is.\<close>

lemma srbs_not_read: "f1ap_decode_context_setup_request ord d b = Some (x, q) \<Longrightarrow> ucq_srbs x = []"
  by (auto simp: f1ap_decode_context_setup_request_def split: Option.bind_splits prod.splits)

lemma f1_context_response_read:
  assumes "holds d b (f1ap_encode_payload (F1_Context_Setup_Response x))" and "f1_sendable (F1_Context_Setup_Response x)"
  shows "\<exists>b'. f1ap_decode_context_setup_response d b = Some (x, b')"
proof -
  let ?ds = "concat (map f1ap_encode_drb_info (take (min (unat (ucr_num_drbs x)) 8) (ucr_drbs x)))"
  let ?fs = "concat (map f1ap_encode_failed_drb (take (min (unat (ucr_num_failed x)) 8) (ucr_failed x)))"
  let ?ss = "word_fields 2 (ucr_srbs x)"
  let ?k = "b + 72 + width ?ds + width ?fs"
  have n: "min (unat (ucr_num_srbs x)) 3 = unat (ucr_num_srbs x)" using assms(2) by (auto simp: word_less_nat_alt)
  have h: "holds d b (f1ap_encode_ue_ids (ucr_ue_ids x))" "holds d (b + 68) ?ds" "holds d (b + 72 + width ?ds) ?fs"
      "holds d (?k + 2) ?ss" "holds d (?k + 2 + width ?ss) (f1ap_encode_rrc_container (ucr_container x))"
    using assms by (simp_all add: F1AP_MAX_DRB_COUNT_def F1AP_MAX_SRB_ID_def n add.assoc)
  have ds: "read_list f1ap_decode_drb_info (min (unat (ucr_num_drbs x)) 8) d (b + 68) =
      Some (ucr_drbs x, b + 68 + width ?ds)"
    by (rule f1_drbs_read [OF h(2)]) (use assms(2) in simp)
  have fs: "read_list f1ap_decode_failed_drb (min (unat (ucr_num_failed x)) 8) d (b + 72 + width ?ds) =
      Some (ucr_failed x, ?k)"
    by (rule read_counted [OF h(3)]) (use assms(2) in \<open>auto simp: f1_failed_read\<close>)
  have ss: "read_list (read_word 2) (unat (ucr_num_srbs x)) d (?k + 2) = Some (ucr_srbs x, ?k + 2 + width ?ss)"
    using read_words [OF h(4)] assms(2) by (simp add: take_bit_small)
  have c: "f1ap_decode_rrc_container d (?k + 2 + width ?ss) =
      Some (ucr_container x, ?k + 18 + width ?ss + 8 * length (ucr_container x))"
    using f1_container_read [OF h(5)] assms(2) by simp
  have r: "read_word 4 d (b + 64) = Some (ucr_num_drbs x, b + 68)"
      "read_word 4 d (b + 68 + width ?ds) = Some (ucr_num_failed x, b + 72 + width ?ds)"
      "read_word 2 d ?k = Some (ucr_num_srbs x, ?k + 2)"
    using assms by (simp_all add: F1AP_MAX_DRB_COUNT_def F1AP_MAX_SRB_ID_def f1_drbs_ok_def n take_bit_small add.assoc)
  show ?thesis
    using f1_ue_ids_read [OF h(1)] r ds fs ss c
    by (simp add: f1ap_decode_context_setup_response_def F1AP_MAX_DRB_COUNT_def F1AP_MAX_SRB_ID_def n)
qed

lemma f1_command_read:
  assumes "holds d b (f1ap_encode_payload (F1_Release_Command x))" and "f1_sendable (F1_Release_Command x)"
  shows "\<exists>b'. f1ap_decode_release_command d b = Some (x, b')"
proof -
  have h: "holds d b (f1ap_encode_ue_ids (f1k_ue_ids x))" "holds d (b + 64) (f1ap_encode_cause (f1k_cause x))"
      "holds d (b + 74) (f1ap_encode_rrc_container (f1k_container x))"
    using assms(1) by (simp_all add: ac_simps)
  have "f1ap_decode_cause d (b + 64) = Some (f1k_cause x, b + 74)"
    using f1_cause_read [OF h(2)] assms(2) by simp
  then show ?thesis
    using assms(2) f1_ue_ids_read [OF h(1)] f1_container_read [OF h(3)]
    by (simp add: f1ap_decode_release_command_def)
qed

lemma f1_transfer_read:
  assumes "holds d b (f1ap_encode_payload (F1_Dl_Rrc_Transfer x))" and "f1_sendable (F1_Dl_Rrc_Transfer x)"
  shows "\<exists>b'. f1ap_decode_dl_transfer d b = Some (x, b')"
proof -
  let ?k = "b + 82 + 8 * length (f1d_container x)"
  have f: "f1d_old_id_present x = 0 \<or> f1d_old_id_present x = 1" using assms(2) by (auto; unat_arith)
  have h: "holds d b (f1ap_encode_ue_ids (f1d_ue_ids x))" "holds d (b + 66) (f1ap_encode_rrc_container (f1d_container x))"
      "holds d ?k (fld (f1d_old_id_present x) 1 # (if f1d_old_id_present x \<noteq> 0 then [fld (f1d_old_id x) 32] else []))"
    using assms(1) f by (auto simp: ac_simps)
  have c: "f1ap_decode_rrc_container d (b + 66) = Some (f1d_container x, ?k)"
    using f1_container_read [OF h(2)] assms(2) by simp
  have o: "\<exists>q. read_opt 0 (read_word 32) d ?k = Some ((f1d_old_id_present x, f1d_old_id x), q)"
    using read_opt_holds [OF h(3), of "read_word 32" "f1d_old_id x" 0] assms(2) by (auto simp: take_bit_full)
  show ?thesis
    using assms f1_ue_ids_read [OF h(1)] c o
    by (auto simp: f1ap_decode_dl_transfer_def take_bit_small ac_simps)
qed

lemma f1_error_read:
  assumes "holds d b (f1ap_encode_payload (F1_Error_Indication x))" and "f1_sendable (F1_Error_Indication x)"
  shows "\<exists>b'. f1ap_decode_error_indication d b = Some (x, b')"
proof -
  let ?k = "if f1e_ue_ids_present x \<noteq> 0 then 64 else 0 :: nat"
  have h: "holds d b (fld (f1e_ue_ids_present x) 1 # (if f1e_ue_ids_present x \<noteq> 0 then f1ap_encode_ue_ids (f1e_ue_ids x) else []))"
      "holds d (b + 1 + ?k) (fld (f1e_cause_present x) 1 # (if f1e_cause_present x \<noteq> 0 then f1ap_encode_cause (f1e_cause x) else []))"
    using assms(1) by (auto split: if_splits)
  show ?thesis
    using read_opt_holds [OF h(1), of f1ap_decode_ue_ids "f1e_ue_ids x" zero_f1_ids]
      read_opt_holds [OF h(2), of f1ap_decode_cause "f1e_cause x" zero_f1_cause] assms(2)
      f1_ue_ids_read [of d "b + 1"] f1_cause_read [of d "b + 1 + ?k + 1"]
    by (auto simp: f1ap_decode_error_indication_def split: if_splits)
qed

lemma f1_payload_read:
  assumes "holds d b (f1ap_encode_payload y)" and "f1_sendable y"
  shows "\<exists>b'. f1ap_decode_payload True (f1ap_type y) d b = Some (y, b')"
proof (cases y)
  case (F1_Setup_Request x)
  then show ?thesis using f1_setup_request_read [of d b x] assms by (auto simp: f1ap_decode_payload_def)
next
  case (F1_Setup_Response x)
  then show ?thesis using f1_setup_response_read [of d b x] assms by (auto simp: f1ap_decode_payload_def f1ap_types)
next
  case (F1_Setup_Failure x)
  then show ?thesis using assms f1_cause_read [of d b "f1f_cause x"]
    by (simp add: f1ap_decode_payload_def f1ap_types take_bit_full)
next
  case (F1_Context_Setup_Request x)
  then show ?thesis using f1_context_request_read [of d b x] assms by (auto simp: f1ap_decode_payload_def f1ap_types)
next
  case (F1_Context_Setup_Response x)
  then show ?thesis using f1_context_response_read [of d b x] assms by (auto simp: f1ap_decode_payload_def f1ap_types)
next
  case (F1_Release_Request x)
  then show ?thesis using assms f1_ue_ids_read [of d b "f1x_ue_ids x"] f1_cause_read [of d "b + 64" "f1x_cause x"]
    by (simp add: f1ap_decode_payload_def f1ap_types)
next
  case (F1_Release_Command x)
  then show ?thesis using f1_command_read [of d b x] assms by (auto simp: f1ap_decode_payload_def f1ap_types)
next
  case (F1_Release_Complete x)
  then show ?thesis using assms f1_ue_ids_read [of d b "f1l_ue_ids x"] f1_container_read [of d "b + 64" "f1l_container x"]
    by (simp add: f1ap_decode_payload_def f1ap_types)
next
  case (F1_Dl_Rrc_Transfer x)
  then show ?thesis using f1_transfer_read [of d b x] assms by (auto simp: f1ap_decode_payload_def f1ap_types)
next
  case (F1_Ul_Rrc_Transfer x)
  then show ?thesis using assms f1_ue_ids_read [of d b "f1u_ue_ids x"] f1_container_read [of d "66 + b" "f1u_container x"]
    by (simp add: f1ap_decode_payload_def f1ap_types take_bit_small)
next
  case (F1_Notify x)
  then show ?thesis using assms f1_ue_ids_read [of d b "f1n_ue_ids x"] f1_cause_read [of d "68 + b" "f1n_cause x"]
    by (simp add: f1ap_decode_payload_def f1ap_types take_bit_small)
next
  case (F1_Error_Indication x)
  then show ?thesis using f1_error_read [of d b x] assms by (auto simp: f1ap_decode_payload_def f1ap_types)
qed (use assms in \<open>simp_all add: f1ap_decode_payload_def f1ap_types\<close>)

lemma f1_widths: "f \<in> set (f1ap_encode_payload y) \<Longrightarrow> snd f \<le> 32"
  by (cases y) (auto simp: fld_def fld_pair_def octet_fields_def word_fields_def name_fields_def f1ap_encode_gnb_du_id_def
      f1ap_encode_gnb_cu_id_def f1ap_encode_ue_ids_def f1ap_encode_nr_cell_id_def f1ap_encode_plmn_id_def
      f1ap_encode_slice_def f1ap_encode_served_cell_info_def f1ap_encode_rrc_container_def f1ap_encode_tnl_def
      f1ap_encode_flow_def f1ap_encode_drb_info_def f1ap_encode_srb_info_def f1ap_encode_cause_def
      f1ap_encode_failed_drb_def split: if_splits)

text \<open>
  C34. Round trip of the messages. A sendable message that fits into the buffer is decoded to itself, when the block
  that the encoder gets from the allocator is zero and the compiler evaluates the two operands of \<^verbatim>\<open>|\<close> from
  left to right. A network code of three digits is not sendable, and neither is a context setup request with
  signalling bearers.
\<close>

theorem f1ap_roundtrip:
  assumes "f1_sendable (f1_payload m)" and "f1_procedure_code m < 256" and "f1_criticality m < 4"
    and "width (f1ap_fields m) \<le> 8 * F1AP_MAX_MESSAGE_SIZE"
  shows "f1ap_decode_message True (f1ap_encode_message good_os (replicate F1AP_MAX_MESSAGE_SIZE 0) True (Some m)) True =
      Some (Inr m)"
proof -
  have "\<forall>f \<in> set (f1ap_fields m). snd f \<le> 32"
    using f1_widths [of _ "f1_payload m"] by (auto simp: f1ap_fields_def f1ap_encode_header_def fld_def)
  from encode_zeros [of f1ap_fields m F1AP_MAX_MESSAGE_SIZE, OF assms(4) this] obtain d
    where d: "f1ap_encode_message good_os (replicate F1AP_MAX_MESSAGE_SIZE 0) True (Some m) = Some d"
      "holds d 0 (f1ap_fields m)" "length d = (width (f1ap_fields m) + 7) div 8"
    by (auto simp: f1ap_encode_message_def F1AP_MAX_MESSAGE_SIZE_def)
  have t: "f1ap_type (f1_payload m) < 256" using assms(1) by (cases "f1_payload m") (auto simp: f1ap_types)
  have h: "holds d 18 (f1ap_encode_payload (f1_payload m))"
      "read_word 8 d 0 = Some (f1_procedure_code m, 8)" "read_word 2 d 8 = Some (f1_criticality m, 10)"
      "read_word 8 d 10 = Some (f1ap_type (f1_payload m), 18)"
    using d(2) assms(2,3) t by (simp_all add: f1ap_fields_def f1ap_encode_header_def take_bit_small)
  have "d \<noteq> []" using d(3) by (auto simp: f1ap_fields_def f1ap_encode_header_def)
  then show ?thesis
    using f1_payload_read [OF h(1) assms(1)] h(2-4)
    by (auto simp: d(1) f1ap_decode_message_def decode_fields_def f1ap_read_message_def)
qed

definition f1_example :: f1ap_message where
  "f1_example = \<lparr>f1_procedure_code = 12, f1_criticality = 1, f1_payload = F1_Ul_Rrc_Transfer
     \<lparr>f1u_ue_ids = \<lparr>f1_gnb_cu_ue_id = 7, f1_gnb_du_ue_id = 9\<rparr>, f1u_srb_id = 1, f1u_container = [1, 2, 3]\<rparr>\<rparr>"

theorem f1ap_roundtrip_witness:
  "f1ap_decode_message True (f1ap_encode_message good_os (replicate F1AP_MAX_MESSAGE_SIZE 0) True (Some f1_example)) True =
    Some (Inr f1_example)"
  using f1ap_roundtrip [of f1_example]
  by (simp add: f1_example_def f1ap_fields_def f1ap_encode_header_def F1AP_MAX_MESSAGE_SIZE_def f1_container_ok_def)

end
