(* ===== verification/Xnap.thy ===== *)
theory Xnap
  imports Bit_Codec
begin

text \<open>
  The messages between base stations (\<^verbatim>\<open>src/protocol/xnap_messages.c\<close>). A message has the payload that
  its type selects in the union; \<open>Xn_Other\<close> is a type for which encoder and decoder handle the header only.
  An array with a counter is the list of its entries, arrays in step are one list of tuples, and an RRC
  container is the list of the octets in use.
\<close>

section \<open>Constants and enumerations\<close>

definition XNAP_MAX_MESSAGE_SIZE :: nat where "XNAP_MAX_MESSAGE_SIZE = 65535"
definition XNAP_MAX_PLMN_COUNT :: nat where "XNAP_MAX_PLMN_COUNT = 12"
definition XNAP_MAX_TAI_COUNT :: nat where "XNAP_MAX_TAI_COUNT = 16"
definition XNAP_MAX_SLICE_COUNT :: nat where "XNAP_MAX_SLICE_COUNT = 8"
definition XNAP_MAX_DRB_COUNT :: nat where "XNAP_MAX_DRB_COUNT = 8"
definition XNAP_MAX_QOS_FLOWS :: nat where "XNAP_MAX_QOS_FLOWS = 64"
definition XNAP_MAX_RRC_CONTAINER_SIZE :: nat where "XNAP_MAX_RRC_CONTAINER_SIZE = 65536"
definition XNAP_MAX_SERVED_CELL_COUNT :: nat where "XNAP_MAX_SERVED_CELL_COUNT = 64"

datatype xnap_procedure_code = XNAP_PROC_XN_SETUP | XNAP_PROC_XN_RESET | XNAP_PROC_ERROR_INDICATION
  | XNAP_PROC_XN_REMOVAL | XNAP_PROC_PAGING | XNAP_PROC_HANDOVER_PREPARATION | XNAP_PROC_HANDOVER_CANCEL
  | XNAP_PROC_RETRIEVE_UE_CONTEXT | XNAP_PROC_XN_UES_CONTEXT_TRANSFER | XNAP_PROC_HANDOVER_RESTRICTION_INFORMATION
  | XNAP_PROC_RAN_PAGINGING | XNAP_PROC_XN_GENERAL | XNAP_PROC_XN_GENERAL_TRANSFER
  | XNAP_PROC_DUAL_CONNECTIVITY_PREPARATION | XNAP_PROC_XN_INTERFACE_RECONFIGURATION | XNAP_PROC_SIB_TRANSFER
  | XNAP_PROC_ACCESS_AND_MOBILITY_INDICATION | XNAP_PROC_LOCATION_REPORTING
  | XNAP_PROC_NEIGHBOR_CELL_INFORMATION_EXCHANGE

text \<open>The procedures have the numbers from 1 on.\<close>

definition xnap_proc_code :: "xnap_procedure_code \<Rightarrow> u32" where
  "xnap_proc_code p = word_of_nat (1 + enum_code [XNAP_PROC_XN_SETUP, XNAP_PROC_XN_RESET, XNAP_PROC_ERROR_INDICATION,
     XNAP_PROC_XN_REMOVAL, XNAP_PROC_PAGING, XNAP_PROC_HANDOVER_PREPARATION, XNAP_PROC_HANDOVER_CANCEL,
     XNAP_PROC_RETRIEVE_UE_CONTEXT, XNAP_PROC_XN_UES_CONTEXT_TRANSFER, XNAP_PROC_HANDOVER_RESTRICTION_INFORMATION,
     XNAP_PROC_RAN_PAGINGING, XNAP_PROC_XN_GENERAL, XNAP_PROC_XN_GENERAL_TRANSFER,
     XNAP_PROC_DUAL_CONNECTIVITY_PREPARATION, XNAP_PROC_XN_INTERFACE_RECONFIGURATION, XNAP_PROC_SIB_TRANSFER,
     XNAP_PROC_ACCESS_AND_MOBILITY_INDICATION, XNAP_PROC_LOCATION_REPORTING,
     XNAP_PROC_NEIGHBOR_CELL_INFORMATION_EXCHANGE] p)"

text \<open>The message types have the numbers from 0 on.\<close>

definition XNAP_MSG_XN_SETUP_REQUEST :: u32 where "XNAP_MSG_XN_SETUP_REQUEST = 0"
definition XNAP_MSG_XN_SETUP_RESPONSE :: u32 where "XNAP_MSG_XN_SETUP_RESPONSE = 1"
definition XNAP_MSG_XN_SETUP_FAILURE :: u32 where "XNAP_MSG_XN_SETUP_FAILURE = 2"
definition XNAP_MSG_ERROR_INDICATION :: u32 where "XNAP_MSG_ERROR_INDICATION = 5"
definition XNAP_MSG_PAGING :: u32 where "XNAP_MSG_PAGING = 8"
definition XNAP_MSG_HANDOVER_REQUEST :: u32 where "XNAP_MSG_HANDOVER_REQUEST = 9"
definition XNAP_MSG_HANDOVER_REQUEST_ACKNOWLEDGE :: u32 where "XNAP_MSG_HANDOVER_REQUEST_ACKNOWLEDGE = 10"
definition XNAP_MSG_HANDOVER_PREPARATION_FAILURE :: u32 where "XNAP_MSG_HANDOVER_PREPARATION_FAILURE = 11"
definition XNAP_MSG_HANDOVER_COMMAND :: u32 where "XNAP_MSG_HANDOVER_COMMAND = 12"
definition XNAP_MSG_HANDOVER_CANCEL :: u32 where "XNAP_MSG_HANDOVER_CANCEL = 13"
definition XNAP_MSG_HANDOVER_CANCEL_ACKNOWLEDGE :: u32 where "XNAP_MSG_HANDOVER_CANCEL_ACKNOWLEDGE = 14"
definition XNAP_MSG_HANDOVER_NOTIFY :: u32 where "XNAP_MSG_HANDOVER_NOTIFY = 15"
definition XNAP_MSG_SGNB_ADDITION_REQUEST :: u32 where "XNAP_MSG_SGNB_ADDITION_REQUEST = 21"
definition XNAP_MSG_SGNB_ADDITION_REQUEST_ACKNOWLEDGE :: u32 where "XNAP_MSG_SGNB_ADDITION_REQUEST_ACKNOWLEDGE = 22"

lemmas xnap_types = XNAP_MSG_XN_SETUP_REQUEST_def XNAP_MSG_XN_SETUP_RESPONSE_def XNAP_MSG_XN_SETUP_FAILURE_def
  XNAP_MSG_ERROR_INDICATION_def XNAP_MSG_PAGING_def XNAP_MSG_HANDOVER_REQUEST_def
  XNAP_MSG_HANDOVER_REQUEST_ACKNOWLEDGE_def XNAP_MSG_HANDOVER_PREPARATION_FAILURE_def XNAP_MSG_HANDOVER_COMMAND_def
  XNAP_MSG_HANDOVER_CANCEL_def XNAP_MSG_HANDOVER_CANCEL_ACKNOWLEDGE_def XNAP_MSG_HANDOVER_NOTIFY_def
  XNAP_MSG_SGNB_ADDITION_REQUEST_def XNAP_MSG_SGNB_ADDITION_REQUEST_ACKNOWLEDGE_def

definition xnap_message_type_strings :: "string list" where
  "xnap_message_type_strings = [''XnSetupRequest'', ''XnSetupResponse'', ''XnSetupFailure'', ''XnResetRequest'',
     ''XnResetResponse'', ''ErrorIndication'', ''XnRemovalRequest'', ''XnRemovalResponse'', ''Paging'',
     ''HandoverRequest'', ''HandoverRequestAcknowledge'', ''HandoverPreparationFailure'', ''HandoverCommand'',
     ''HandoverCancel'', ''HandoverCancelAcknowledge'', ''HandoverNotify'', ''RetrieveUEContextRequest'',
     ''RetrieveUEContextResponse'', ''RetrieveUEContextFailure'', ''UEContextTransfer'', ''UEContextTransferResponse'',
     ''SgNBAdditionRequest'', ''SgNBAdditionRequestAcknowledge'', ''SgNBAdditionRequestReject'',
     ''SgNBModificationRequest'', ''SgNBModificationRequestAcknowledge'', ''SgNBModificationRequestReject'',
     ''SgNBReleaseRequest'', ''SgNBReleaseRequestAcknowledge'', ''SIBTransferRequest'', ''SIBTransferResponse'',
     ''AccessAndMobilityIndication'', ''NeighborCellInformationRequest'', ''NeighborCellInformationResponse'']"

definition xnap_message_type_to_string :: "u32 \<Rightarrow> string" where
  "xnap_message_type_to_string t = (if t \<ge> 34 then ''Unknown'' else xnap_message_type_strings ! unat t)"

datatype xnap_cause_type = XNAP_CAUSE_RADIO_NETWORK | XNAP_CAUSE_TRANSPORT | XNAP_CAUSE_PROTOCOL | XNAP_CAUSE_MISC

fun xnap_cause_type_code :: "xnap_cause_type \<Rightarrow> u32" where
  "xnap_cause_type_code XNAP_CAUSE_RADIO_NETWORK = 0"
| "xnap_cause_type_code XNAP_CAUSE_TRANSPORT = 1"
| "xnap_cause_type_code XNAP_CAUSE_PROTOCOL = 2"
| "xnap_cause_type_code XNAP_CAUSE_MISC = 3"

section \<open>Structures\<close>

record xnap_cause =
  xn_cause_type :: u32
  xn_cause_value :: u8

record xnap_plmn_id =
  xn_mcc :: "u8 list"
  xn_mnc :: "u8 list"
  xn_mnc_length :: u8

record xnap_global_gnb_id =
  xn_plmn :: xnap_plmn_id
  xn_gnb_id :: u64
  xn_gnb_id_length :: u8

record xnap_ue_ids =
  xn_source_ue_id :: u32
  xn_target_ue_id :: u32

record xnap_served_cell_info =
  xnc_nr_cell_id :: u64
  xnc_pci :: u16
  xnc_tac :: u32
  xnc_num_plmns :: u8
  xnc_plmns :: "xnap_plmn_id list"
  xnc_num_slices :: u8
  xnc_slices :: "(u8 \<times> u32) list"
  xnc_duplex_mode :: u16

record xnap_tnl_info =
  xn_ip_address :: u32
  xn_port :: u16
  xn_teid :: u32
  xn_transport_type :: u8

record xnap_qos_flow =
  xn_qfi :: u8
  xn_five_qi :: u8
  xn_gfbr_ul :: u64
  xn_gfbr_dl :: u64
  xn_mfbr_ul :: u64
  xn_mfbr_dl :: u64

record xnap_drb_info =
  xn_drb_id :: u8
  xn_pdcp_sn_size :: u8
  xn_rlc_mode :: u8
  xn_ul_ambr :: u64
  xn_dl_ambr :: u64
  xn_num_flows :: u8
  xn_flows :: "xnap_qos_flow list"
  xn_num_tnl :: u8
  xn_tnl :: "xnap_tnl_info list"

record xnap_xn_setup_request =
  xnq_gnb_id :: xnap_global_gnb_id
  xnq_name :: "u8 list"
  xnq_num_cells :: u8
  xnq_cells :: "xnap_served_cell_info list"
  xnq_cu_id :: u64
  xnq_cu_id_present :: u8
  xnq_du_id :: u32
  xnq_du_id_present :: u8

record xnap_xn_setup_response =
  xnr_gnb_id :: xnap_global_gnb_id
  xnr_name :: "u8 list"
  xnr_num_cells :: u8
  xnr_cells :: "xnap_served_cell_info list"
  xnr_cu_id :: u64
  xnr_cu_id_present :: u8

record xnap_xn_setup_failure =
  xnf_cause :: xnap_cause
  xnf_time_to_wait :: u32

record xnap_handover_request =
  hq_ue_ids :: xnap_ue_ids
  hq_amf_ue_id :: u64
  hq_ran_ue_id :: u64
  hq_target_gnb_id :: xnap_global_gnb_id
  hq_target_cell_id :: u64
  hq_container :: "u8 list"
  hq_num_drbs :: u8
  hq_drbs :: "xnap_drb_info list"
  hq_ambr_dl :: u64
  hq_ambr_ul :: u64
  hq_slice :: "u8 \<times> u32"
  hq_snssai_present :: u8
  hq_security_key :: "u8 list"
  hq_security_key_present :: u8
  hq_plmn :: xnap_plmn_id

record xnap_handover_request_ack =
  ha_ue_ids :: xnap_ue_ids
  ha_container :: "u8 list"
  ha_num_drbs :: u8
  ha_drbs :: "xnap_drb_info list"
  ha_num_failed :: u8
  ha_failed :: "(u8 \<times> xnap_cause) list"

record xnap_ids_cause =
  xnx_ue_ids :: xnap_ue_ids
  xnx_cause :: xnap_cause

record xnap_handover_command =
  hc_ue_ids :: xnap_ue_ids
  hc_command :: "u8 list"

record xnap_handover_notify =
  hn_ue_ids :: xnap_ue_ids
  hn_target_cell_id :: u64
  hn_pci :: u16

record xnap_paging =
  pg_amf_ue_id :: u64
  pg_ue_identity_index :: u16
  pg_identity_type :: u8
  pg_identity :: u64
  pg_num_tais :: u8
  pg_tais :: "u32 list"
  pg_cause :: u8
  pg_assistance_present :: u8
  pg_attempts :: "u8 \<times> u8"

record xnap_sgnb_addition_request =
  sg_ue_ids :: xnap_ue_ids
  sg_ran_ue_id :: u64
  sg_target_cell_id :: u64
  sg_num_drbs :: u8
  sg_drbs :: "xnap_drb_info list"
  sg_security_key :: "u8 list"
  sg_security_key_present :: u8

record xnap_sgnb_addition_request_ack =
  sa_ue_ids :: xnap_ue_ids
  sa_num_drbs :: u8
  sa_drbs :: "xnap_drb_info list"

record xnap_error_indication =
  xne_ue_ids :: xnap_ue_ids
  xne_ue_ids_present :: u8
  xne_cause :: xnap_cause
  xne_cause_present :: u8

text \<open>A preparation failure and a cancellation are the same structure.\<close>

datatype xnap_payload =
    Xn_Setup_Request xnap_xn_setup_request
  | Xn_Setup_Response xnap_xn_setup_response
  | Xn_Setup_Failure xnap_xn_setup_failure
  | Xn_Handover_Request xnap_handover_request
  | Xn_Handover_Request_Ack xnap_handover_request_ack
  | Xn_Handover_Preparation_Failure xnap_ids_cause
  | Xn_Handover_Command xnap_handover_command
  | Xn_Handover_Cancel xnap_ids_cause
  | Xn_Handover_Cancel_Ack xnap_ue_ids
  | Xn_Handover_Notify xnap_handover_notify
  | Xn_Paging xnap_paging
  | Xn_Error_Indication xnap_error_indication
  | Xn_Sgnb_Addition_Request xnap_sgnb_addition_request
  | Xn_Sgnb_Addition_Request_Ack xnap_sgnb_addition_request_ack
  | Xn_Other u32

record xnap_message =
  xn_procedure_code :: u32
  xn_criticality :: u8
  xn_payload :: xnap_payload

fun xnap_type :: "xnap_payload \<Rightarrow> u32" where
  "xnap_type (Xn_Setup_Request _) = XNAP_MSG_XN_SETUP_REQUEST"
| "xnap_type (Xn_Setup_Response _) = XNAP_MSG_XN_SETUP_RESPONSE"
| "xnap_type (Xn_Setup_Failure _) = XNAP_MSG_XN_SETUP_FAILURE"
| "xnap_type (Xn_Handover_Request _) = XNAP_MSG_HANDOVER_REQUEST"
| "xnap_type (Xn_Handover_Request_Ack _) = XNAP_MSG_HANDOVER_REQUEST_ACKNOWLEDGE"
| "xnap_type (Xn_Handover_Preparation_Failure _) = XNAP_MSG_HANDOVER_PREPARATION_FAILURE"
| "xnap_type (Xn_Handover_Command _) = XNAP_MSG_HANDOVER_COMMAND"
| "xnap_type (Xn_Handover_Cancel _) = XNAP_MSG_HANDOVER_CANCEL"
| "xnap_type (Xn_Handover_Cancel_Ack _) = XNAP_MSG_HANDOVER_CANCEL_ACKNOWLEDGE"
| "xnap_type (Xn_Handover_Notify _) = XNAP_MSG_HANDOVER_NOTIFY"
| "xnap_type (Xn_Paging _) = XNAP_MSG_PAGING"
| "xnap_type (Xn_Error_Indication _) = XNAP_MSG_ERROR_INDICATION"
| "xnap_type (Xn_Sgnb_Addition_Request _) = XNAP_MSG_SGNB_ADDITION_REQUEST"
| "xnap_type (Xn_Sgnb_Addition_Request_Ack _) = XNAP_MSG_SGNB_ADDITION_REQUEST_ACKNOWLEDGE"
| "xnap_type (Xn_Other t) = t"

text \<open>The structures after \<^verbatim>\<open>memset\<close>.\<close>

definition zero_xn_cause :: xnap_cause where "zero_xn_cause = \<lparr>xn_cause_type = 0, xn_cause_value = 0\<rparr>"
definition zero_xn_ids :: xnap_ue_ids where "zero_xn_ids = \<lparr>xn_source_ue_id = 0, xn_target_ue_id = 0\<rparr>"
definition zero_xn_plmn :: xnap_plmn_id where
  "zero_xn_plmn = \<lparr>xn_mcc = [0, 0, 0], xn_mnc = [0, 0, 0], xn_mnc_length = 0\<rparr>"
definition zero_xn_gnb_id :: xnap_global_gnb_id where
  "zero_xn_gnb_id = \<lparr>xn_plmn = zero_xn_plmn, xn_gnb_id = 0, xn_gnb_id_length = 0\<rparr>"

section \<open>Causes and initial messages\<close>

definition xnap_cause_to_string :: "xnap_cause option \<Rightarrow> string" where
  "xnap_cause_to_string c = (case c of None \<Rightarrow> ''NULL'' | Some x \<Rightarrow>
     take 63 ((if xn_cause_type x < 4
         then [''RadioNetwork'', ''Transport'', ''Protocol'', ''Misc''] ! unat (xn_cause_type x)
         else ''Unknown'') @ '':'' @ unsigned_decimal (unat (xn_cause_value x))))"

text \<open>\<open>v\<close> is the number of an enumerator of the causes of the type.\<close>

definition xnap_set_cause :: "xnap_cause_type \<Rightarrow> u8 \<Rightarrow> xnap_cause option \<Rightarrow> xnap_cause option" where
  "xnap_set_cause t v c = map_option (\<lambda>_. \<lparr>xn_cause_type = xnap_cause_type_code t, xn_cause_value = v\<rparr>) c"

definition xnap_set_cause_radio :: "u8 \<Rightarrow> xnap_cause option \<Rightarrow> xnap_cause option" where
  "xnap_set_cause_radio = xnap_set_cause XNAP_CAUSE_RADIO_NETWORK"

definition xnap_set_cause_transport :: "u8 \<Rightarrow> xnap_cause option \<Rightarrow> xnap_cause option" where
  "xnap_set_cause_transport = xnap_set_cause XNAP_CAUSE_TRANSPORT"

definition xnap_set_cause_protocol :: "u8 \<Rightarrow> xnap_cause option \<Rightarrow> xnap_cause option" where
  "xnap_set_cause_protocol = xnap_set_cause XNAP_CAUSE_PROTOCOL"

definition xnap_set_cause_misc :: "u8 \<Rightarrow> xnap_cause option \<Rightarrow> xnap_cause option" where
  "xnap_set_cause_misc = xnap_set_cause XNAP_CAUSE_MISC"

definition xnap_init :: "xnap_procedure_code \<Rightarrow> xnap_payload \<Rightarrow> xnap_message option \<Rightarrow> xnap_message option" where
  "xnap_init p y = map_option (\<lambda>_. \<lparr>xn_procedure_code = xnap_proc_code p, xn_criticality = 0, xn_payload = y\<rparr>)"

definition xnap_init_xn_setup_request :: "xnap_message option \<Rightarrow> xnap_message option" where
  "xnap_init_xn_setup_request = xnap_init XNAP_PROC_XN_SETUP (Xn_Setup_Request \<lparr>xnq_gnb_id = zero_xn_gnb_id, xnq_name = [],
     xnq_num_cells = 0, xnq_cells = [], xnq_cu_id = 0, xnq_cu_id_present = 0, xnq_du_id = 0, xnq_du_id_present = 0\<rparr>)"

definition xnap_init_xn_setup_response :: "xnap_message option \<Rightarrow> xnap_message option" where
  "xnap_init_xn_setup_response = xnap_init XNAP_PROC_XN_SETUP (Xn_Setup_Response \<lparr>xnr_gnb_id = zero_xn_gnb_id,
     xnr_name = [], xnr_num_cells = 0, xnr_cells = [], xnr_cu_id = 0, xnr_cu_id_present = 0\<rparr>)"

definition xnap_init_handover_request :: "xnap_message option \<Rightarrow> xnap_message option" where
  "xnap_init_handover_request = xnap_init XNAP_PROC_HANDOVER_PREPARATION (Xn_Handover_Request \<lparr>hq_ue_ids = zero_xn_ids,
     hq_amf_ue_id = 0, hq_ran_ue_id = 0, hq_target_gnb_id = zero_xn_gnb_id, hq_target_cell_id = 0, hq_container = [],
     hq_num_drbs = 0, hq_drbs = [], hq_ambr_dl = 0, hq_ambr_ul = 0, hq_slice = (0, 0), hq_snssai_present = 0,
     hq_security_key = replicate 32 0, hq_security_key_present = 0, hq_plmn = zero_xn_plmn\<rparr>)"

definition xnap_init_handover_command :: "xnap_message option \<Rightarrow> xnap_message option" where
  "xnap_init_handover_command = xnap_init XNAP_PROC_HANDOVER_PREPARATION
     (Xn_Handover_Command \<lparr>hc_ue_ids = zero_xn_ids, hc_command = []\<rparr>)"

definition xnap_init_paging :: "xnap_message option \<Rightarrow> xnap_message option" where
  "xnap_init_paging = xnap_init XNAP_PROC_PAGING (Xn_Paging \<lparr>pg_amf_ue_id = 0, pg_ue_identity_index = 0,
     pg_identity_type = 0, pg_identity = 0, pg_num_tais = 0, pg_tais = [], pg_cause = 0, pg_assistance_present = 0,
     pg_attempts = (0, 0)\<rparr>)"

section \<open>Encoding\<close>

definition xnap_encode_header :: "xnap_message \<Rightarrow> (u32 \<times> nat) list" where
  "xnap_encode_header m = [fld (xn_procedure_code m) 8, fld (xn_criticality m) 2, fld (xnap_type (xn_payload m)) 8]"

definition xnap_encode_plmn_id :: "xnap_plmn_id \<Rightarrow> (u32 \<times> nat) list" where
  "xnap_encode_plmn_id x = octet_fields (xn_mcc x) @ octet_fields (xn_mnc x) @ [fld (xn_mnc_length x) 3]"

definition xnap_encode_global_gnb_id :: "xnap_global_gnb_id \<Rightarrow> (u32 \<times> nat) list" where
  "xnap_encode_global_gnb_id x =
     xnap_encode_plmn_id (xn_plmn x) @ [fld (xn_gnb_id_length x) 6] @ fld_pair 32 (xn_gnb_id x)"

definition xnap_encode_gnb_name :: "u8 list \<Rightarrow> (u32 \<times> nat) list" where
  "xnap_encode_gnb_name s = name_fields s"

definition xnap_encode_ue_ids :: "xnap_ue_ids \<Rightarrow> (u32 \<times> nat) list" where
  "xnap_encode_ue_ids x = [fld (xn_source_ue_id x) 32, fld (xn_target_ue_id x) 32]"

definition xnap_encode_slice :: "u8 \<times> u32 \<Rightarrow> (u32 \<times> nat) list" where
  "xnap_encode_slice p = [fld (fst p) 8, fld (snd p) 24]"

definition xnap_encode_served_cell_info :: "xnap_served_cell_info \<Rightarrow> (u32 \<times> nat) list" where
  "xnap_encode_served_cell_info x = fld_pair 32 (xnc_nr_cell_id x) @
     [fld (xnc_pci x) 10, fld (xnc_tac x) 24, fld (xnc_num_plmns x) 4] @
     concat (map xnap_encode_plmn_id (take (min (unat (xnc_num_plmns x)) XNAP_MAX_PLMN_COUNT) (xnc_plmns x))) @
     [fld (xnc_num_slices x) 4] @
     concat (map xnap_encode_slice (take (min (unat (xnc_num_slices x)) XNAP_MAX_SLICE_COUNT) (xnc_slices x))) @
     [fld (xnc_duplex_mode x) 4]"

definition xnap_encode_tnl_info :: "xnap_tnl_info \<Rightarrow> (u32 \<times> nat) list" where
  "xnap_encode_tnl_info x = [fld (xn_transport_type x) 4, fld (xn_ip_address x) 32, fld (xn_port x) 16, fld (xn_teid x) 32]"

definition xnap_encode_qos_flow :: "xnap_qos_flow \<Rightarrow> (u32 \<times> nat) list" where
  "xnap_encode_qos_flow x = [fld (xn_qfi x) 6, fld (xn_five_qi x) 8] @ fld_pair 32 (xn_gfbr_ul x) @ fld_pair 32 (xn_gfbr_dl x)"

definition xnap_encode_drb_info :: "xnap_drb_info \<Rightarrow> (u32 \<times> nat) list" where
  "xnap_encode_drb_info x = [fld (xn_drb_id x) 5, fld (xn_pdcp_sn_size x) 4, fld (xn_rlc_mode x) 2, fld (xn_num_flows x) 6] @
     concat (map xnap_encode_qos_flow (take (min (unat (xn_num_flows x)) XNAP_MAX_QOS_FLOWS) (xn_flows x))) @
     [fld (xn_num_tnl x) 4] @
     concat (map xnap_encode_tnl_info (take (min (unat (xn_num_tnl x)) XNAP_MAX_DRB_COUNT) (xn_tnl x)))"

definition xnap_encode_drbs :: "u8 \<Rightarrow> xnap_drb_info list \<Rightarrow> (u32 \<times> nat) list" where
  "xnap_encode_drbs n ds = fld n 4 # concat (map xnap_encode_drb_info (take (min (unat n) XNAP_MAX_DRB_COUNT) ds))"

definition xnap_encode_cause :: "xnap_cause \<Rightarrow> (u32 \<times> nat) list" where
  "xnap_encode_cause x = [fld (xn_cause_type x) 3, fld (xn_cause_value x) 8]"

text \<open>The length is written in 16 bits, the octets are written all.\<close>

definition xnap_encode_rrc_container :: "u8 list \<Rightarrow> (u32 \<times> nat) list" where
  "xnap_encode_rrc_container c = fld (word_of_nat (length c) :: u32) 16 # octet_fields c"

definition xnap_encode_failed_drb :: "u8 \<times> xnap_cause \<Rightarrow> (u32 \<times> nat) list" where
  "xnap_encode_failed_drb p = fld (fst p) 5 # xnap_encode_cause (snd p)"

definition xnap_encode_attempts :: "u8 \<times> u8 \<Rightarrow> (u32 \<times> nat) list" where
  "xnap_encode_attempts p = [fld (fst p) 4, fld (snd p) 4]"

text \<open>A flag of one bit, and the part that is written when the flag is not zero.\<close>

definition opt_fields :: "u8 \<Rightarrow> (u32 \<times> nat) list \<Rightarrow> (u32 \<times> nat) list" where
  "opt_fields f fs = fld f 1 # (if f \<noteq> 0 then fs else [])"

fun xnap_encode_payload :: "xnap_payload \<Rightarrow> (u32 \<times> nat) list" where
  "xnap_encode_payload (Xn_Setup_Request x) = xnap_encode_global_gnb_id (xnq_gnb_id x) @
     xnap_encode_gnb_name (xnq_name x) @ [fld (xnq_num_cells x) 8] @
     concat (map xnap_encode_served_cell_info
       (take (min (unat (xnq_num_cells x)) XNAP_MAX_SERVED_CELL_COUNT) (xnq_cells x))) @
     opt_fields (xnq_cu_id_present x) (fld_pair 32 (xnq_cu_id x)) @
     opt_fields (xnq_du_id_present x) [fld (xnq_du_id x) 32]"
| "xnap_encode_payload (Xn_Setup_Response x) = xnap_encode_global_gnb_id (xnr_gnb_id x) @
     xnap_encode_gnb_name (xnr_name x) @ [fld (xnr_num_cells x) 8] @
     concat (map xnap_encode_served_cell_info
       (take (min (unat (xnr_num_cells x)) XNAP_MAX_SERVED_CELL_COUNT) (xnr_cells x))) @
     opt_fields (xnr_cu_id_present x) (fld_pair 32 (xnr_cu_id x))"
| "xnap_encode_payload (Xn_Setup_Failure x) = xnap_encode_cause (xnf_cause x) @ [fld (xnf_time_to_wait x) 32]"
| "xnap_encode_payload (Xn_Handover_Request x) = xnap_encode_ue_ids (hq_ue_ids x) @ fld_pair 8 (hq_amf_ue_id x) @
     fld_pair 8 (hq_ran_ue_id x) @ xnap_encode_global_gnb_id (hq_target_gnb_id x) @ fld_pair 32 (hq_target_cell_id x) @
     xnap_encode_rrc_container (hq_container x) @ xnap_encode_drbs (hq_num_drbs x) (hq_drbs x) @
     fld_pair 32 (hq_ambr_dl x) @ fld_pair 32 (hq_ambr_ul x) @
     opt_fields (hq_snssai_present x) (xnap_encode_slice (hq_slice x)) @
     opt_fields (hq_security_key_present x) (octet_fields (hq_security_key x)) @ xnap_encode_plmn_id (hq_plmn x)"
| "xnap_encode_payload (Xn_Handover_Request_Ack x) = xnap_encode_ue_ids (ha_ue_ids x) @
     xnap_encode_rrc_container (ha_container x) @ xnap_encode_drbs (ha_num_drbs x) (ha_drbs x) @
     [fld (ha_num_failed x) 4] @
     concat (map xnap_encode_failed_drb (take (min (unat (ha_num_failed x)) XNAP_MAX_DRB_COUNT) (ha_failed x)))"
| "xnap_encode_payload (Xn_Handover_Preparation_Failure x) =
     xnap_encode_ue_ids (xnx_ue_ids x) @ xnap_encode_cause (xnx_cause x)"
| "xnap_encode_payload (Xn_Handover_Command x) =
     xnap_encode_ue_ids (hc_ue_ids x) @ xnap_encode_rrc_container (hc_command x)"
| "xnap_encode_payload (Xn_Handover_Cancel x) = xnap_encode_ue_ids (xnx_ue_ids x) @ xnap_encode_cause (xnx_cause x)"
| "xnap_encode_payload (Xn_Handover_Cancel_Ack x) = xnap_encode_ue_ids x"
| "xnap_encode_payload (Xn_Handover_Notify x) = xnap_encode_ue_ids (hn_ue_ids x) @ fld_pair 32 (hn_target_cell_id x) @
     [fld (hn_pci x) 10]"
| "xnap_encode_payload (Xn_Paging x) = fld_pair 8 (pg_amf_ue_id x) @
     [fld (pg_ue_identity_index x) 16, fld (pg_identity_type x) 1] @ fld_pair 32 (pg_identity x) @ [fld (pg_num_tais x) 4] @
     word_fields 24 (take (min (unat (pg_num_tais x)) XNAP_MAX_TAI_COUNT) (pg_tais x)) @
     [fld (pg_cause x) 1] @ opt_fields (pg_assistance_present x) (xnap_encode_attempts (pg_attempts x))"
| "xnap_encode_payload (Xn_Error_Indication x) = opt_fields (xne_ue_ids_present x) (xnap_encode_ue_ids (xne_ue_ids x)) @
     opt_fields (xne_cause_present x) (xnap_encode_cause (xne_cause x))"
| "xnap_encode_payload (Xn_Sgnb_Addition_Request x) = xnap_encode_ue_ids (sg_ue_ids x) @ fld_pair 8 (sg_ran_ue_id x) @
     fld_pair 32 (sg_target_cell_id x) @ xnap_encode_drbs (sg_num_drbs x) (sg_drbs x) @
     opt_fields (sg_security_key_present x) (octet_fields (sg_security_key x))"
| "xnap_encode_payload (Xn_Sgnb_Addition_Request_Ack x) =
     xnap_encode_ue_ids (sa_ue_ids x) @ xnap_encode_drbs (sa_num_drbs x) (sa_drbs x)"
| "xnap_encode_payload (Xn_Other t) = []"

definition xnap_fields :: "xnap_message \<Rightarrow> (u32 \<times> nat) list" where
  "xnap_fields m = xnap_encode_header m @ xnap_encode_payload (xn_payload m)"

definition xnap_encode_message :: "os \<Rightarrow> u8 list \<Rightarrow> bool \<Rightarrow> xnap_message option \<Rightarrow> u8 list option" where
  "xnap_encode_message s mem out msg = encode_fields s mem XNAP_MAX_MESSAGE_SIZE out xnap_fields msg"

section \<open>Decoding\<close>

definition xnap_decode_bits :: "nat \<Rightarrow> 'a::len word reader" where
  "xnap_decode_bits = read_word"

definition xnap_decode_plmn_id :: "xnap_plmn_id reader" where
  "xnap_decode_plmn_id d b = do {
     (mcc, b) \<leftarrow> read_list (xnap_decode_bits 8) 3 d b; (mnc, b) \<leftarrow> read_list (xnap_decode_bits 8) 3 d b;
     (n, b) \<leftarrow> xnap_decode_bits 3 d b;
     Some (\<lparr>xn_mcc = mcc, xn_mnc = mnc, xn_mnc_length = n\<rparr>, b) }"

definition xnap_decode_global_gnb_id :: "bool \<Rightarrow> xnap_global_gnb_id reader" where
  "xnap_decode_global_gnb_id ord d b = do {
     (p, b) \<leftarrow> xnap_decode_plmn_id d b; (n, b) \<leftarrow> xnap_decode_bits 6 d b; (i, b) \<leftarrow> read_pair ord 32 d b;
     Some (\<lparr>xn_plmn = p, xn_gnb_id = i, xn_gnb_id_length = n\<rparr>, b) }"

definition xnap_decode_gnb_name :: "u8 list reader" where
  "xnap_decode_gnb_name = read_name"

definition xnap_decode_ue_ids :: "xnap_ue_ids reader" where
  "xnap_decode_ue_ids d b = do {
     (s, b) \<leftarrow> xnap_decode_bits 32 d b; (t, b) \<leftarrow> xnap_decode_bits 32 d b;
     Some (\<lparr>xn_source_ue_id = s, xn_target_ue_id = t\<rparr>, b) }"

definition xnap_decode_slice :: "(u8 \<times> u32) reader" where
  "xnap_decode_slice d b = do { (s, b) \<leftarrow> xnap_decode_bits 8 d b; (sd, b) \<leftarrow> xnap_decode_bits 24 d b; Some ((s, sd), b) }"

definition xnap_decode_served_cell_info :: "bool \<Rightarrow> xnap_served_cell_info reader" where
  "xnap_decode_served_cell_info ord d b = do {
     (i, b) \<leftarrow> read_pair ord 32 d b; (pci, b) \<leftarrow> xnap_decode_bits 10 d b; (tac, b) \<leftarrow> xnap_decode_bits 24 d b;
     (np, b) \<leftarrow> xnap_decode_bits 4 d b;
     (ps, b) \<leftarrow> read_list xnap_decode_plmn_id (min (unat np) XNAP_MAX_PLMN_COUNT) d b;
     (ns, b) \<leftarrow> xnap_decode_bits 4 d b;
     (ss, b) \<leftarrow> read_list xnap_decode_slice (min (unat ns) XNAP_MAX_SLICE_COUNT) d b;
     (dm, b) \<leftarrow> xnap_decode_bits 4 d b;
     Some (\<lparr>xnc_nr_cell_id = i, xnc_pci = pci, xnc_tac = tac, xnc_num_plmns = np, xnc_plmns = ps, xnc_num_slices = ns,
       xnc_slices = ss, xnc_duplex_mode = dm\<rparr>, b) }"

definition xnap_decode_tnl_info :: "xnap_tnl_info reader" where
  "xnap_decode_tnl_info d b = do {
     (ty, b) \<leftarrow> xnap_decode_bits 4 d b; (ip, b) \<leftarrow> xnap_decode_bits 32 d b;
     (port, b) \<leftarrow> xnap_decode_bits 16 d b; (teid, b) \<leftarrow> xnap_decode_bits 32 d b;
     Some (\<lparr>xn_ip_address = ip, xn_port = port, xn_teid = teid, xn_transport_type = ty\<rparr>, b) }"

definition xnap_decode_qos_flow :: "bool \<Rightarrow> xnap_qos_flow reader" where
  "xnap_decode_qos_flow ord d b = do {
     (q, b) \<leftarrow> xnap_decode_bits 6 d b; (f, b) \<leftarrow> xnap_decode_bits 8 d b;
     (ul, b) \<leftarrow> read_pair ord 32 d b; (dl, b) \<leftarrow> read_pair ord 32 d b;
     Some (\<lparr>xn_qfi = q, xn_five_qi = f, xn_gfbr_ul = ul, xn_gfbr_dl = dl, xn_mfbr_ul = 0, xn_mfbr_dl = 0\<rparr>, b) }"

definition xnap_decode_drb_info :: "bool \<Rightarrow> xnap_drb_info reader" where
  "xnap_decode_drb_info ord d b = do {
     (i, b) \<leftarrow> xnap_decode_bits 5 d b; (sn, b) \<leftarrow> xnap_decode_bits 4 d b; (rlc, b) \<leftarrow> xnap_decode_bits 2 d b;
     (nf, b) \<leftarrow> xnap_decode_bits 6 d b;
     (fs, b) \<leftarrow> read_list (xnap_decode_qos_flow ord) (min (unat nf) XNAP_MAX_QOS_FLOWS) d b;
     (nt, b) \<leftarrow> xnap_decode_bits 4 d b;
     (ts, b) \<leftarrow> read_list xnap_decode_tnl_info (min (unat nt) XNAP_MAX_DRB_COUNT) d b;
     Some (\<lparr>xn_drb_id = i, xn_pdcp_sn_size = sn, xn_rlc_mode = rlc, xn_ul_ambr = 0, xn_dl_ambr = 0, xn_num_flows = nf,
       xn_flows = fs, xn_num_tnl = nt, xn_tnl = ts\<rparr>, b) }"

definition xnap_decode_drbs :: "bool \<Rightarrow> (u8 \<times> xnap_drb_info list) reader" where
  "xnap_decode_drbs ord d b = do {
     (n, b) \<leftarrow> xnap_decode_bits 4 d b;
     (ds, b) \<leftarrow> read_list (xnap_decode_drb_info ord) (min (unat n) XNAP_MAX_DRB_COUNT) d b;
     Some ((n, ds), b) }"

definition xnap_decode_cause :: "xnap_cause reader" where
  "xnap_decode_cause d b = do {
     (t, b) \<leftarrow> xnap_decode_bits 3 d b; (v, b) \<leftarrow> xnap_decode_bits 8 d b;
     Some (\<lparr>xn_cause_type = t, xn_cause_value = v\<rparr>, b) }"

definition xnap_decode_rrc_container :: "u8 list reader" where
  "xnap_decode_rrc_container d b = do {
     (len :: u32, b) \<leftarrow> xnap_decode_bits 16 d b;
     read_list (xnap_decode_bits 8) (min (unat len) XNAP_MAX_RRC_CONTAINER_SIZE) d b }"

definition xnap_decode_failed_drb :: "(u8 \<times> xnap_cause) reader" where
  "xnap_decode_failed_drb d b = do { (i, b) \<leftarrow> xnap_decode_bits 5 d b; (c, b) \<leftarrow> xnap_decode_cause d b; Some ((i, c), b) }"

definition xnap_decode_attempts :: "(u8 \<times> u8) reader" where
  "xnap_decode_attempts d b = do { (n, b) \<leftarrow> xnap_decode_bits 4 d b; (i, b) \<leftarrow> xnap_decode_bits 4 d b; Some ((n, i), b) }"

definition xnap_decode_setup_request :: "bool \<Rightarrow> xnap_xn_setup_request reader" where
  "xnap_decode_setup_request ord d b = do {
     (i, b) \<leftarrow> xnap_decode_global_gnb_id ord d b; (s, b) \<leftarrow> xnap_decode_gnb_name d b; (nc, b) \<leftarrow> xnap_decode_bits 8 d b;
     (cs, b) \<leftarrow> read_list (xnap_decode_served_cell_info ord) (min (unat nc) XNAP_MAX_SERVED_CELL_COUNT) d b;
     ((f, cu), b) \<leftarrow> read_opt 0 (read_pair ord 32) d b; ((g, du), b) \<leftarrow> read_opt 0 (xnap_decode_bits 32) d b;
     Some (\<lparr>xnq_gnb_id = i, xnq_name = s, xnq_num_cells = nc, xnq_cells = cs, xnq_cu_id = cu, xnq_cu_id_present = f,
       xnq_du_id = du, xnq_du_id_present = g\<rparr>, b) }"

definition xnap_decode_setup_response :: "bool \<Rightarrow> xnap_xn_setup_response reader" where
  "xnap_decode_setup_response ord d b = do {
     (i, b) \<leftarrow> xnap_decode_global_gnb_id ord d b; (s, b) \<leftarrow> xnap_decode_gnb_name d b; (nc, b) \<leftarrow> xnap_decode_bits 8 d b;
     (cs, b) \<leftarrow> read_list (xnap_decode_served_cell_info ord) (min (unat nc) XNAP_MAX_SERVED_CELL_COUNT) d b;
     ((f, cu), b) \<leftarrow> read_opt 0 (read_pair ord 32) d b;
     Some (\<lparr>xnr_gnb_id = i, xnr_name = s, xnr_num_cells = nc, xnr_cells = cs, xnr_cu_id = cu, xnr_cu_id_present = f\<rparr>, b) }"

definition xnap_decode_handover_request :: "bool \<Rightarrow> xnap_handover_request reader" where
  "xnap_decode_handover_request ord d b = do {
     (ids, b) \<leftarrow> xnap_decode_ue_ids d b; (amf, b) \<leftarrow> read_pair ord 8 d b; (ran, b) \<leftarrow> read_pair ord 8 d b;
     (g, b) \<leftarrow> xnap_decode_global_gnb_id ord d b; (cell, b) \<leftarrow> read_pair ord 32 d b;
     (c, b) \<leftarrow> xnap_decode_rrc_container d b; ((n, ds), b) \<leftarrow> xnap_decode_drbs ord d b;
     (dl, b) \<leftarrow> read_pair ord 32 d b; (ul, b) \<leftarrow> read_pair ord 32 d b;
     ((sf, sl), b) \<leftarrow> read_opt (0, 0) xnap_decode_slice d b;
     ((kf, key), b) \<leftarrow> read_opt (replicate 32 0) (read_list (xnap_decode_bits 8) 32) d b;
     (p, b) \<leftarrow> xnap_decode_plmn_id d b;
     Some (\<lparr>hq_ue_ids = ids, hq_amf_ue_id = amf, hq_ran_ue_id = ran, hq_target_gnb_id = g, hq_target_cell_id = cell,
       hq_container = c, hq_num_drbs = n, hq_drbs = ds, hq_ambr_dl = dl, hq_ambr_ul = ul, hq_slice = sl,
       hq_snssai_present = sf, hq_security_key = key, hq_security_key_present = kf, hq_plmn = p\<rparr>, b) }"

definition xnap_decode_handover_request_ack :: "bool \<Rightarrow> xnap_handover_request_ack reader" where
  "xnap_decode_handover_request_ack ord d b = do {
     (ids, b) \<leftarrow> xnap_decode_ue_ids d b; (c, b) \<leftarrow> xnap_decode_rrc_container d b;
     ((n, ds), b) \<leftarrow> xnap_decode_drbs ord d b; (nf, b) \<leftarrow> xnap_decode_bits 4 d b;
     (fs, b) \<leftarrow> read_list xnap_decode_failed_drb (min (unat nf) XNAP_MAX_DRB_COUNT) d b;
     Some (\<lparr>ha_ue_ids = ids, ha_container = c, ha_num_drbs = n, ha_drbs = ds, ha_num_failed = nf, ha_failed = fs\<rparr>, b) }"

definition xnap_decode_ids_cause :: "xnap_ids_cause reader" where
  "xnap_decode_ids_cause d b = do {
     (ids, b) \<leftarrow> xnap_decode_ue_ids d b; (c, b) \<leftarrow> xnap_decode_cause d b;
     Some (\<lparr>xnx_ue_ids = ids, xnx_cause = c\<rparr>, b) }"

definition xnap_decode_paging :: "bool \<Rightarrow> xnap_paging reader" where
  "xnap_decode_paging ord d b = do {
     (amf, b) \<leftarrow> read_pair ord 8 d b; (ix, b) \<leftarrow> xnap_decode_bits 16 d b; (ty, b) \<leftarrow> xnap_decode_bits 1 d b;
     (i, b) \<leftarrow> read_pair ord 32 d b; (n, b) \<leftarrow> xnap_decode_bits 4 d b;
     (ts, b) \<leftarrow> read_list (xnap_decode_bits 24) (min (unat n) XNAP_MAX_TAI_COUNT) d b;
     (c, b) \<leftarrow> xnap_decode_bits 1 d b; ((f, a), b) \<leftarrow> read_opt (0, 0) xnap_decode_attempts d b;
     Some (\<lparr>pg_amf_ue_id = amf, pg_ue_identity_index = ix, pg_identity_type = ty, pg_identity = i, pg_num_tais = n,
       pg_tais = ts, pg_cause = c, pg_assistance_present = f, pg_attempts = a\<rparr>, b) }"

definition xnap_decode_error_indication :: "xnap_error_indication reader" where
  "xnap_decode_error_indication d b = do {
     ((f, ids), b) \<leftarrow> read_opt zero_xn_ids xnap_decode_ue_ids d b;
     ((g, c), b) \<leftarrow> read_opt zero_xn_cause xnap_decode_cause d b;
     Some (\<lparr>xne_ue_ids = ids, xne_ue_ids_present = f, xne_cause = c, xne_cause_present = g\<rparr>, b) }"

definition xnap_decode_sgnb_addition_request :: "bool \<Rightarrow> xnap_sgnb_addition_request reader" where
  "xnap_decode_sgnb_addition_request ord d b = do {
     (ids, b) \<leftarrow> xnap_decode_ue_ids d b; (ran, b) \<leftarrow> read_pair ord 8 d b; (cell, b) \<leftarrow> read_pair ord 32 d b;
     ((n, ds), b) \<leftarrow> xnap_decode_drbs ord d b;
     ((f, key), b) \<leftarrow> read_opt (replicate 32 0) (read_list (xnap_decode_bits 8) 32) d b;
     Some (\<lparr>sg_ue_ids = ids, sg_ran_ue_id = ran, sg_target_cell_id = cell, sg_num_drbs = n, sg_drbs = ds,
       sg_security_key = key, sg_security_key_present = f\<rparr>, b) }"

definition xnap_decode_payload :: "bool \<Rightarrow> u32 \<Rightarrow> xnap_payload reader" where
  "xnap_decode_payload ord t d b = (
     if t = XNAP_MSG_XN_SETUP_REQUEST then map_option (map_prod Xn_Setup_Request id) (xnap_decode_setup_request ord d b)
     else if t = XNAP_MSG_XN_SETUP_RESPONSE
     then map_option (map_prod Xn_Setup_Response id) (xnap_decode_setup_response ord d b)
     else if t = XNAP_MSG_XN_SETUP_FAILURE then do {
       (c, b) \<leftarrow> xnap_decode_cause d b; (w, b) \<leftarrow> xnap_decode_bits 32 d b;
       Some (Xn_Setup_Failure \<lparr>xnf_cause = c, xnf_time_to_wait = w\<rparr>, b) }
     else if t = XNAP_MSG_HANDOVER_REQUEST
     then map_option (map_prod Xn_Handover_Request id) (xnap_decode_handover_request ord d b)
     else if t = XNAP_MSG_HANDOVER_REQUEST_ACKNOWLEDGE
     then map_option (map_prod Xn_Handover_Request_Ack id) (xnap_decode_handover_request_ack ord d b)
     else if t = XNAP_MSG_HANDOVER_PREPARATION_FAILURE
     then map_option (map_prod Xn_Handover_Preparation_Failure id) (xnap_decode_ids_cause d b)
     else if t = XNAP_MSG_HANDOVER_COMMAND then do {
       (ids, b) \<leftarrow> xnap_decode_ue_ids d b; (c, b) \<leftarrow> xnap_decode_rrc_container d b;
       Some (Xn_Handover_Command \<lparr>hc_ue_ids = ids, hc_command = c\<rparr>, b) }
     else if t = XNAP_MSG_HANDOVER_CANCEL then map_option (map_prod Xn_Handover_Cancel id) (xnap_decode_ids_cause d b)
     else if t = XNAP_MSG_HANDOVER_CANCEL_ACKNOWLEDGE
     then map_option (map_prod Xn_Handover_Cancel_Ack id) (xnap_decode_ue_ids d b)
     else if t = XNAP_MSG_HANDOVER_NOTIFY then do {
       (ids, b) \<leftarrow> xnap_decode_ue_ids d b; (i, b) \<leftarrow> read_pair ord 32 d b; (p, b) \<leftarrow> xnap_decode_bits 10 d b;
       Some (Xn_Handover_Notify \<lparr>hn_ue_ids = ids, hn_target_cell_id = i, hn_pci = p\<rparr>, b) }
     else if t = XNAP_MSG_PAGING then map_option (map_prod Xn_Paging id) (xnap_decode_paging ord d b)
     else if t = XNAP_MSG_ERROR_INDICATION then map_option (map_prod Xn_Error_Indication id) (xnap_decode_error_indication d b)
     else if t = XNAP_MSG_SGNB_ADDITION_REQUEST
     then map_option (map_prod Xn_Sgnb_Addition_Request id) (xnap_decode_sgnb_addition_request ord d b)
     else if t = XNAP_MSG_SGNB_ADDITION_REQUEST_ACKNOWLEDGE then do {
       (ids, b) \<leftarrow> xnap_decode_ue_ids d b; ((n, ds), b) \<leftarrow> xnap_decode_drbs ord d b;
       Some (Xn_Sgnb_Addition_Request_Ack \<lparr>sa_ue_ids = ids, sa_num_drbs = n, sa_drbs = ds\<rparr>, b) }
     else Some (Xn_Other t, b))"

definition xnap_read_message :: "bool \<Rightarrow> u8 list \<Rightarrow> xnap_message option" where
  "xnap_read_message ord d = do {
     (p, b) \<leftarrow> xnap_decode_bits 8 d 0; (c, b) \<leftarrow> xnap_decode_bits 2 d b; (t, b) \<leftarrow> xnap_decode_bits 8 d b;
     (y, b) \<leftarrow> xnap_decode_payload ord t d b;
     Some \<lparr>xn_procedure_code = p, xn_criticality = c, xn_payload = y\<rparr> }"

definition xnap_decode_message :: "bool \<Rightarrow> u8 list option \<Rightarrow> bool \<Rightarrow> (unit + xnap_message) option" where
  "xnap_decode_message ord d out = decode_fields (xnap_read_message ord) d out"

text \<open>There is nothing to free.\<close>

definition xnap_free_message :: "xnap_message option \<Rightarrow> xnap_message option" where
  "xnap_free_message m = m"

end
