(* ===== verification/Xnap_Proofs.thy ===== *)
theory Xnap_Proofs
  imports Xnap
begin

text \<open>
  What survives the way through encoder and decoder of \<^verbatim>\<open>xnap_messages.c\<close>.
\<close>

section \<open>What can be sent\<close>

definition xn_name_ok :: "u8 list \<Rightarrow> bool" where
  "xn_name_ok s \<longleftrightarrow> length s \<le> 63 \<and> 0 \<notin> set s"

definition xn_plmn_ok :: "xnap_plmn_id \<Rightarrow> bool" where
  "xn_plmn_ok x \<longleftrightarrow> length (xn_mcc x) = 3 \<and> length (xn_mnc x) = 3 \<and> xn_mnc_length x < 8"

definition xn_gnb_ok :: "xnap_global_gnb_id \<Rightarrow> bool" where
  "xn_gnb_ok x \<longleftrightarrow> xn_plmn_ok (xn_plmn x) \<and> xn_gnb_id_length x < 64"

definition xn_cell_ok :: "xnap_served_cell_info \<Rightarrow> bool" where
  "xn_cell_ok x \<longleftrightarrow> xnc_pci x < 1024 \<and> xnc_tac x < 2 ^ 24 \<and> xnc_num_plmns x < 16
     \<and> length (xnc_plmns x) = min (unat (xnc_num_plmns x)) 12 \<and> (\<forall>p \<in> set (xnc_plmns x). xn_plmn_ok p)
     \<and> xnc_num_slices x < 16 \<and> length (xnc_slices x) = min (unat (xnc_num_slices x)) 8
     \<and> (\<forall>p \<in> set (xnc_slices x). snd p < 2 ^ 24) \<and> xnc_duplex_mode x < 16"

definition xn_cells_ok :: "u8 \<Rightarrow> xnap_served_cell_info list \<Rightarrow> bool" where
  "xn_cells_ok n cs \<longleftrightarrow> length cs = min (unat n) 64 \<and> (\<forall>c \<in> set cs. xn_cell_ok c)"

definition xn_flow_ok :: "xnap_qos_flow \<Rightarrow> bool" where
  "xn_flow_ok x \<longleftrightarrow> xn_qfi x < 64 \<and> xn_mfbr_ul x = 0 \<and> xn_mfbr_dl x = 0"

definition xn_drb_ok :: "xnap_drb_info \<Rightarrow> bool" where
  "xn_drb_ok x \<longleftrightarrow> xn_drb_id x < 32 \<and> xn_pdcp_sn_size x < 16 \<and> xn_rlc_mode x < 4 \<and> xn_ul_ambr x = 0 \<and> xn_dl_ambr x = 0
     \<and> xn_num_flows x < 64 \<and> length (xn_flows x) = unat (xn_num_flows x) \<and> (\<forall>f \<in> set (xn_flows x). xn_flow_ok f)
     \<and> xn_num_tnl x < 16 \<and> length (xn_tnl x) = min (unat (xn_num_tnl x)) 8 \<and> (\<forall>t \<in> set (xn_tnl x). xn_transport_type t < 16)"

definition xn_drbs_ok :: "u8 \<Rightarrow> xnap_drb_info list \<Rightarrow> bool" where
  "xn_drbs_ok n ds \<longleftrightarrow> n < 16 \<and> length ds = min (unat n) 8 \<and> (\<forall>x \<in> set ds. xn_drb_ok x)"

definition xn_container_ok :: "u8 list \<Rightarrow> bool" where
  "xn_container_ok c \<longleftrightarrow> length c < 2 ^ 16"

definition xn_key_ok :: "u8 \<Rightarrow> u8 list \<Rightarrow> bool" where
  "xn_key_ok f key \<longleftrightarrow> f < 2 \<and> length key = 32 \<and> (f = 0 \<longrightarrow> key = replicate 32 0)"

fun xn_sendable :: "xnap_payload \<Rightarrow> bool" where
  "xn_sendable (Xn_Setup_Request x) \<longleftrightarrow> xn_gnb_ok (xnq_gnb_id x) \<and> xn_name_ok (xnq_name x)
     \<and> xn_cells_ok (xnq_num_cells x) (xnq_cells x) \<and> xnq_cu_id_present x < 2 \<and> (xnq_cu_id_present x = 0 \<longrightarrow> xnq_cu_id x = 0)
     \<and> xnq_du_id_present x < 2 \<and> (xnq_du_id_present x = 0 \<longrightarrow> xnq_du_id x = 0)"
| "xn_sendable (Xn_Setup_Response x) \<longleftrightarrow> xn_gnb_ok (xnr_gnb_id x) \<and> xn_name_ok (xnr_name x)
     \<and> xn_cells_ok (xnr_num_cells x) (xnr_cells x) \<and> xnr_cu_id_present x < 2 \<and> (xnr_cu_id_present x = 0 \<longrightarrow> xnr_cu_id x = 0)"
| "xn_sendable (Xn_Setup_Failure x) \<longleftrightarrow> xn_cause_type (xnf_cause x) < 8"
| "xn_sendable (Xn_Handover_Request x) \<longleftrightarrow> hq_amf_ue_id x < 2 ^ 40 \<and> hq_ran_ue_id x < 2 ^ 40
     \<and> xn_gnb_ok (hq_target_gnb_id x) \<and> xn_container_ok (hq_container x) \<and> xn_drbs_ok (hq_num_drbs x) (hq_drbs x)
     \<and> hq_snssai_present x < 2 \<and> snd (hq_slice x) < 2 ^ 24 \<and> (hq_snssai_present x = 0 \<longrightarrow> hq_slice x = (0, 0))
     \<and> xn_key_ok (hq_security_key_present x) (hq_security_key x) \<and> xn_plmn_ok (hq_plmn x)"
| "xn_sendable (Xn_Handover_Request_Ack x) \<longleftrightarrow> xn_container_ok (ha_container x) \<and> xn_drbs_ok (ha_num_drbs x) (ha_drbs x)
     \<and> ha_num_failed x < 16 \<and> length (ha_failed x) = min (unat (ha_num_failed x)) 8
     \<and> (\<forall>p \<in> set (ha_failed x). fst p < 32 \<and> xn_cause_type (snd p) < 8)"
| "xn_sendable (Xn_Handover_Preparation_Failure x) \<longleftrightarrow> xn_cause_type (xnx_cause x) < 8"
| "xn_sendable (Xn_Handover_Command x) \<longleftrightarrow> xn_container_ok (hc_command x)"
| "xn_sendable (Xn_Handover_Cancel x) \<longleftrightarrow> xn_cause_type (xnx_cause x) < 8"
| "xn_sendable (Xn_Handover_Cancel_Ack x) \<longleftrightarrow> True"
| "xn_sendable (Xn_Handover_Notify x) \<longleftrightarrow> hn_pci x < 1024"
| "xn_sendable (Xn_Paging x) \<longleftrightarrow> pg_amf_ue_id x < 2 ^ 40 \<and> pg_identity_type x < 2 \<and> pg_num_tais x < 16
     \<and> length (pg_tais x) = unat (pg_num_tais x) \<and> (\<forall>t \<in> set (pg_tais x). t < 2 ^ 24) \<and> pg_cause x < 2
     \<and> pg_assistance_present x < 2 \<and> fst (pg_attempts x) < 16 \<and> snd (pg_attempts x) < 16
     \<and> (pg_assistance_present x = 0 \<longrightarrow> pg_attempts x = (0, 0))"
| "xn_sendable (Xn_Error_Indication x) \<longleftrightarrow> xne_ue_ids_present x < 2 \<and> xne_cause_present x < 2
     \<and> (xne_ue_ids_present x = 0 \<longrightarrow> xne_ue_ids x = zero_xn_ids) \<and> xn_cause_type (xne_cause x) < 8
     \<and> (xne_cause_present x = 0 \<longrightarrow> xne_cause x = zero_xn_cause)"
| "xn_sendable (Xn_Sgnb_Addition_Request x) \<longleftrightarrow> sg_ran_ue_id x < 2 ^ 40 \<and> xn_drbs_ok (sg_num_drbs x) (sg_drbs x)
     \<and> xn_key_ok (sg_security_key_present x) (sg_security_key x)"
| "xn_sendable (Xn_Sgnb_Addition_Request_Ack x) \<longleftrightarrow> xn_drbs_ok (sa_num_drbs x) (sa_drbs x)"
| "xn_sendable (Xn_Other t) \<longleftrightarrow> t < 256 \<and> t \<notin> {0, 1, 2, 5, 8, 9, 10, 11, 12, 13, 14, 15, 21, 22}"

section \<open>The structures\<close>

lemma xn_bits [simp]: "xnap_decode_bits = read_word"
  by (rule ext) (simp add: xnap_decode_bits_def)

lemma xn_widths_of [simp]: "width (xnap_encode_ue_ids x) = 64" "width (xnap_encode_cause c) = 11"
  "width (xnap_encode_rrc_container r) = 16 + 8 * length r" "width (xnap_encode_gnb_name s) = 8 + 8 * length s"
  by (simp_all add: xnap_encode_ue_ids_def xnap_encode_cause_def xnap_encode_rrc_container_def xnap_encode_gnb_name_def)

lemma xn_plmn_width: "xn_plmn_ok x \<Longrightarrow> width (xnap_encode_plmn_id x) = 51"
  by (simp add: xnap_encode_plmn_id_def xn_plmn_ok_def)

lemma xn_gnb_width: "xn_gnb_ok x \<Longrightarrow> width (xnap_encode_global_gnb_id x) = 121"
  by (simp add: xnap_encode_global_gnb_id_def xn_gnb_ok_def xn_plmn_width)

lemma xn_flag_mod: "(w :: u8) < 2 \<Longrightarrow> w mod 2 = w"
proof -
  assume "w < 2"
  then have "w = 0 \<or> w = 1" by unat_arith
  then show ?thesis by auto
qed

lemma xn_ue_ids_read: "holds d b (xnap_encode_ue_ids x) \<Longrightarrow> xnap_decode_ue_ids d b = Some (x, b + 64)"
  by (simp add: xnap_encode_ue_ids_def xnap_decode_ue_ids_def take_bit_full)

lemma xn_cause_read: "holds d b (xnap_encode_cause x) \<Longrightarrow> xn_cause_type x < 8 \<Longrightarrow>
    xnap_decode_cause d b = Some (x, b + 11)"
  by (simp add: xnap_encode_cause_def xnap_decode_cause_def take_bit_full take_bit_small)

lemma xn_ids_cause_read: "holds d b (xnap_encode_ue_ids (xnx_ue_ids x) @ xnap_encode_cause (xnx_cause x)) \<Longrightarrow>
    xn_cause_type (xnx_cause x) < 8 \<Longrightarrow> xnap_decode_ids_cause d b = Some (x, b + 75)"
  using xn_ue_ids_read [of d b "xnx_ue_ids x"] xn_cause_read [of d "b + 64" "xnx_cause x"]
  by (simp add: xnap_decode_ids_cause_def)

lemma xn_plmn_read:
  assumes "holds d b (xnap_encode_plmn_id x)" and "xn_plmn_ok x"
  shows "xnap_decode_plmn_id d b = Some (x, b + 51)"
proof -
  have h: "holds d b (octet_fields (xn_mcc x))" "holds d (b + 24) (octet_fields (xn_mnc x))"
      "read_word 3 d (b + 48) = Some (xn_mnc_length x, b + 51)"
    using assms by (simp_all add: xnap_encode_plmn_id_def xn_plmn_ok_def take_bit_small ac_simps)
  then show ?thesis
    using read_octets [OF h(1)] read_octets [OF h(2)] assms(2)
    by (simp add: xnap_decode_plmn_id_def xn_plmn_ok_def ac_simps)
qed

lemma xn_gnb_read:
  assumes "holds d b (xnap_encode_global_gnb_id x)" and "xn_gnb_ok x"
  shows "xnap_decode_global_gnb_id True d b = Some (x, b + 121)"
proof -
  have w: "width (xnap_encode_plmn_id (xn_plmn x)) = 51" using assms(2) by (simp add: xn_gnb_ok_def xn_plmn_width)
  have h: "holds d b (xnap_encode_plmn_id (xn_plmn x))" "read_word 6 d (b + 51) = Some (xn_gnb_id_length x, b + 57)"
      "read_pair True 32 d (b + 57) = Some (xn_gnb_id x, b + 121)"
    using assms by (simp_all add: xnap_encode_global_gnb_id_def w xn_gnb_ok_def take_bit_small take_bit_full ac_simps)
  then show ?thesis
    using xn_plmn_read [OF h(1)] assms(2) by (simp add: xnap_decode_global_gnb_id_def xn_gnb_ok_def)
qed

lemma xn_slice_read: "holds d b (xnap_encode_slice p) \<Longrightarrow> snd p < 2 ^ 24 \<Longrightarrow>
    xnap_decode_slice d b = Some (p, b + width (xnap_encode_slice p))"
  by (simp add: xnap_encode_slice_def xnap_decode_slice_def take_bit_full take_bit_small)

lemma xn_tnl_read: "holds d b (xnap_encode_tnl_info x) \<Longrightarrow> xn_transport_type x < 16 \<Longrightarrow>
    xnap_decode_tnl_info d b = Some (x, b + width (xnap_encode_tnl_info x))"
  by (simp add: xnap_encode_tnl_info_def xnap_decode_tnl_info_def take_bit_full take_bit_small)

lemma xn_flow_read: "holds d b (xnap_encode_qos_flow x) \<Longrightarrow> xn_flow_ok x \<Longrightarrow>
    xnap_decode_qos_flow True d b = Some (x, b + width (xnap_encode_qos_flow x))"
  by (simp add: xnap_encode_qos_flow_def xnap_decode_qos_flow_def xn_flow_ok_def take_bit_full take_bit_small)

lemma xn_failed_read: "holds d b (xnap_encode_failed_drb p) \<Longrightarrow> fst p < 32 \<Longrightarrow> xn_cause_type (snd p) < 8 \<Longrightarrow>
    xnap_decode_failed_drb d b = Some (p, b + width (xnap_encode_failed_drb p))"
  using xn_cause_read [of d "b + 5" "snd p"]
  by (simp add: xnap_encode_failed_drb_def xnap_decode_failed_drb_def take_bit_small)

lemma xn_container_read:
  assumes "holds d b (xnap_encode_rrc_container c)" and "xn_container_ok c"
  shows "xnap_decode_rrc_container d b = Some (c, b + 16 + 8 * length c)"
proof -
  have len: "unat (take_bit 16 (word_of_nat (length c)) :: u32) = length c" "min (length c) 65536 = length c"
    using assms(2) by (simp_all add: xn_container_ok_def unsigned_take_bit_eq unsigned_of_nat take_bit_nat_eq_self)
  then show ?thesis
    using assms(1) read_octets [of d "b + 16" c]
    by (simp add: xnap_encode_rrc_container_def xnap_decode_rrc_container_def XNAP_MAX_RRC_CONTAINER_SIZE_def)
qed

lemma xn_cell_read:
  assumes "holds d b (xnap_encode_served_cell_info x)" and "xn_cell_ok x"
  shows "xnap_decode_served_cell_info True d b = Some (x, b + width (xnap_encode_served_cell_info x))"
proof -
  let ?ps = "concat (map xnap_encode_plmn_id (take (min (unat (xnc_num_plmns x)) 12) (xnc_plmns x)))"
  let ?ss = "concat (map xnap_encode_slice (take (min (unat (xnc_num_slices x)) 8) (xnc_slices x)))"
  have h: "holds d (b + 102) ?ps" "holds d (b + 106 + width ?ps) ?ss"
    using assms(1) by (simp_all add: xnap_encode_served_cell_info_def XNAP_MAX_PLMN_COUNT_def XNAP_MAX_SLICE_COUNT_def ac_simps)
  have p: "read_list xnap_decode_plmn_id (min (unat (xnc_num_plmns x)) 12) d (b + 102) = Some (xnc_plmns x, b + 102 + width ?ps)"
    by (rule read_counted [OF h(1)]) (use assms(2) in \<open>auto simp: xn_cell_ok_def xn_plmn_read xn_plmn_width\<close>)
  have s: "read_list xnap_decode_slice (min (unat (xnc_num_slices x)) 8) d (b + 106 + width ?ps) =
      Some (xnc_slices x, b + 106 + width ?ps + width ?ss)"
    by (rule read_counted [OF h(2)]) (use assms(2) in \<open>auto simp: xn_cell_ok_def xn_slice_read\<close>)
  show ?thesis
    using assms p s
    by (simp add: xnap_decode_served_cell_info_def xnap_encode_served_cell_info_def xn_cell_ok_def XNAP_MAX_PLMN_COUNT_def
        XNAP_MAX_SLICE_COUNT_def take_bit_small take_bit_full ac_simps)
qed

lemma xn_cells_read:
  assumes "holds d b (concat (map xnap_encode_served_cell_info (take (min (unat n) 64) cs)))" and "xn_cells_ok n cs"
  shows "read_list (xnap_decode_served_cell_info True) (min (unat n) 64) d b =
    Some (cs, b + width (concat (map xnap_encode_served_cell_info (take (min (unat n) 64) cs))))"
  by (rule read_counted [OF assms(1)]) (use assms(2) in \<open>auto simp: xn_cells_ok_def xn_cell_read\<close>)

lemma xn_drb_read:
  assumes "holds d b (xnap_encode_drb_info x)" and "xn_drb_ok x"
  shows "xnap_decode_drb_info True d b = Some (x, b + width (xnap_encode_drb_info x))"
proof -
  let ?fs = "concat (map xnap_encode_qos_flow (take (unat (xn_num_flows x)) (xn_flows x)))"
  let ?ts = "concat (map xnap_encode_tnl_info (take (min (unat (xn_num_tnl x)) 8) (xn_tnl x)))"
  have n: "min (unat (xn_num_flows x)) 64 = unat (xn_num_flows x)"
    using assms(2) by (auto simp: xn_drb_ok_def word_less_nat_alt)
  have h: "holds d (b + 17) ?fs" "holds d (b + 21 + width ?fs) ?ts"
    using assms(1) by (simp_all add: xnap_encode_drb_info_def XNAP_MAX_DRB_COUNT_def XNAP_MAX_QOS_FLOWS_def n ac_simps)
  have f: "read_list (xnap_decode_qos_flow True) (unat (xn_num_flows x)) d (b + 17) = Some (xn_flows x, b + 17 + width ?fs)"
    by (rule read_counted [OF h(1)]) (use assms(2) in \<open>auto simp: xn_drb_ok_def xn_flow_read\<close>)
  have t: "read_list xnap_decode_tnl_info (min (unat (xn_num_tnl x)) 8) d (b + 21 + width ?fs) =
      Some (xn_tnl x, b + 21 + width ?fs + width ?ts)"
    by (rule read_counted [OF h(2)]) (use assms(2) in \<open>auto simp: xn_drb_ok_def xn_tnl_read\<close>)
  show ?thesis
    using assms n t f
    by (simp add: xnap_decode_drb_info_def xnap_encode_drb_info_def xn_drb_ok_def XNAP_MAX_DRB_COUNT_def
        XNAP_MAX_QOS_FLOWS_def take_bit_small ac_simps)
qed

lemma xn_drbs_read:
  assumes "holds d b (xnap_encode_drbs n ds)" and "xn_drbs_ok n ds"
  shows "xnap_decode_drbs True d b = Some ((n, ds), b + width (xnap_encode_drbs n ds))"
proof -
  let ?xs = "concat (map xnap_encode_drb_info (take (min (unat n) 8) ds))"
  have h: "read_word 4 d b = Some (n, b + 4)" "holds d (b + 4) ?xs"
    using assms by (simp_all add: xnap_encode_drbs_def xn_drbs_ok_def XNAP_MAX_DRB_COUNT_def take_bit_small)
  have "read_list (xnap_decode_drb_info True) (min (unat n) 8) d (b + 4) = Some (ds, b + 4 + width ?xs)"
    by (rule read_counted [OF h(2)]) (use assms(2) in \<open>auto simp: xn_drbs_ok_def xn_drb_read\<close>)
  with h(1) show ?thesis by (simp add: xnap_decode_drbs_def xnap_encode_drbs_def XNAP_MAX_DRB_COUNT_def)
qed

text \<open>An optional part is read with its flag.\<close>

lemma opt_fields_read:
  assumes "holds d b (opt_fields f fs)" and "f < 2"
    and "holds d (b + 1) fs \<Longrightarrow> r d (b + 1) = Some (x, b + 1 + width fs)" and "f = 0 \<Longrightarrow> x = z"
  shows "read_opt z r d b = Some ((f, x), b + width (opt_fields f fs))"
  using read_opt_holds [OF assms(1) [unfolded opt_fields_def] assms(2), of r x z] assms(3,4)
  by (auto simp: opt_fields_def)

lemma xn_key_read:
  assumes "holds d b (opt_fields f (octet_fields key))" and "xn_key_ok f key"
  shows "read_opt (replicate 32 0) (read_list (read_word 8) 32) d b =
    Some ((f, key), b + width (opt_fields f (octet_fields key)))"
  by (rule opt_fields_read [OF assms(1)]) (use assms(2) read_octets [of d "b + 1" key] in \<open>auto simp: xn_key_ok_def\<close>)

section \<open>The payloads\<close>

lemma xn_setup_request_read:
  assumes "holds d b (xnap_encode_payload (Xn_Setup_Request x))" and "xn_sendable (Xn_Setup_Request x)"
  shows "\<exists>b'. xnap_decode_setup_request True d b = Some (x, b')"
proof -
  let ?n = "8 * length (xnq_name x)"
  let ?cs = "concat (map xnap_encode_served_cell_info (take (min (unat (xnq_num_cells x)) 64) (xnq_cells x)))"
  let ?k = "b + 137 + ?n + width ?cs"
  let ?o = "opt_fields (xnq_cu_id_present x) (fld_pair 32 (xnq_cu_id x))"
  have w: "width (xnap_encode_global_gnb_id (xnq_gnb_id x)) = 121" using assms(2) by (simp add: xn_gnb_width)
  have h: "holds d b (xnap_encode_global_gnb_id (xnq_gnb_id x))" "holds d (b + 121) (name_fields (xnq_name x))"
      "read_word 8 d (b + 129 + ?n) = Some (xnq_num_cells x, b + 137 + ?n)" "holds d (b + 137 + ?n) ?cs"
      "holds d ?k ?o" "holds d (?k + width ?o) (opt_fields (xnq_du_id_present x) [fld (xnq_du_id x) 32])"
    using assms(1) by (simp_all add: xnap_encode_gnb_name_def XNAP_MAX_SERVED_CELL_COUNT_def w take_bit_full add.assoc)
  have nm: "read_name d (b + 121) = Some (xnq_name x, b + 129 + ?n)"
    using read_name_holds [OF h(2)] assms(2) by (simp add: xn_name_ok_def)
  have c: "read_list (xnap_decode_served_cell_info True) (min (unat (xnq_num_cells x)) 64) d (b + 137 + ?n) = Some (xnq_cells x, ?k)"
    by (rule xn_cells_read [OF h(4)]) (use assms(2) in simp)
  have o: "read_opt 0 (read_pair True 32) d ?k = Some ((xnq_cu_id_present x, xnq_cu_id x), ?k + width ?o)"
    by (rule opt_fields_read [OF h(5)]) (use assms(2) in \<open>auto simp: take_bit_full\<close>)
  have u: "\<exists>q. read_opt 0 (read_word 32) d (?k + width ?o) = Some ((xnq_du_id_present x, xnq_du_id x), q)"
    using opt_fields_read [OF h(6), of "read_word 32" "xnq_du_id x" 0] assms(2) by (auto simp: take_bit_full)
  show ?thesis
    using xn_gnb_read [OF h(1)] assms(2) h(3) nm c o u
    by (auto simp: xnap_decode_setup_request_def xnap_decode_gnb_name_def XNAP_MAX_SERVED_CELL_COUNT_def)
qed

lemma xn_setup_response_read:
  assumes "holds d b (xnap_encode_payload (Xn_Setup_Response x))" and "xn_sendable (Xn_Setup_Response x)"
  shows "\<exists>b'. xnap_decode_setup_response True d b = Some (x, b')"
proof -
  let ?n = "8 * length (xnr_name x)"
  let ?cs = "concat (map xnap_encode_served_cell_info (take (min (unat (xnr_num_cells x)) 64) (xnr_cells x)))"
  let ?k = "b + 137 + ?n + width ?cs"
  have w: "width (xnap_encode_global_gnb_id (xnr_gnb_id x)) = 121" using assms(2) by (simp add: xn_gnb_width)
  have h: "holds d b (xnap_encode_global_gnb_id (xnr_gnb_id x))" "holds d (b + 121) (name_fields (xnr_name x))"
      "read_word 8 d (b + 129 + ?n) = Some (xnr_num_cells x, b + 137 + ?n)" "holds d (b + 137 + ?n) ?cs"
      "holds d ?k (opt_fields (xnr_cu_id_present x) (fld_pair 32 (xnr_cu_id x)))"
    using assms(1) by (simp_all add: xnap_encode_gnb_name_def XNAP_MAX_SERVED_CELL_COUNT_def w take_bit_full add.assoc)
  have nm: "read_name d (b + 121) = Some (xnr_name x, b + 129 + ?n)"
    using read_name_holds [OF h(2)] assms(2) by (simp add: xn_name_ok_def)
  have c: "read_list (xnap_decode_served_cell_info True) (min (unat (xnr_num_cells x)) 64) d (b + 137 + ?n) = Some (xnr_cells x, ?k)"
    by (rule xn_cells_read [OF h(4)]) (use assms(2) in simp)
  have o: "\<exists>q. read_opt 0 (read_pair True 32) d ?k = Some ((xnr_cu_id_present x, xnr_cu_id x), q)"
    using opt_fields_read [OF h(5), of "read_pair True 32" "xnr_cu_id x" 0] assms(2) by (auto simp: take_bit_full)
  show ?thesis
    using xn_gnb_read [OF h(1)] assms(2) h(3) nm c o
    by (auto simp: xnap_decode_setup_response_def xnap_decode_gnb_name_def XNAP_MAX_SERVED_CELL_COUNT_def)
qed

lemma xn_handover_request_read:
  assumes "holds d b (xnap_encode_payload (Xn_Handover_Request x))" and "xn_sendable (Xn_Handover_Request x)"
  shows "\<exists>b'. xnap_decode_handover_request True d b = Some (x, b')"
proof -
  let ?c = "b + 345 + 8 * length (hq_container x)"
  let ?k = "?c + width (xnap_encode_drbs (hq_num_drbs x) (hq_drbs x))"
  let ?s = "opt_fields (hq_snssai_present x) (xnap_encode_slice (hq_slice x))"
  let ?y = "opt_fields (hq_security_key_present x) (octet_fields (hq_security_key x))"
  have w: "width (xnap_encode_global_gnb_id (hq_target_gnb_id x)) = 121" using assms(2) by (simp add: xn_gnb_width)
  have h: "holds d b (xnap_encode_ue_ids (hq_ue_ids x))" "read_pair True 8 d (b + 64) = Some (hq_amf_ue_id x, b + 104)"
      "read_pair True 8 d (b + 104) = Some (hq_ran_ue_id x, b + 144)"
      "holds d (b + 144) (xnap_encode_global_gnb_id (hq_target_gnb_id x))"
      "read_pair True 32 d (b + 265) = Some (hq_target_cell_id x, b + 329)"
      "holds d (b + 329) (xnap_encode_rrc_container (hq_container x))"
      "holds d ?c (xnap_encode_drbs (hq_num_drbs x) (hq_drbs x))"
      "read_pair True 32 d ?k = Some (hq_ambr_dl x, ?k + 64)" "read_pair True 32 d (?k + 64) = Some (hq_ambr_ul x, ?k + 128)"
      "holds d (?k + 128) ?s" "holds d (?k + 128 + width ?s) ?y"
      "holds d (?k + 128 + width ?s + width ?y) (xnap_encode_plmn_id (hq_plmn x))"
    using assms by (simp_all add: w take_bit_small take_bit_full add.assoc)
  have c: "xnap_decode_rrc_container d (b + 329) = Some (hq_container x, ?c)"
    using xn_container_read [OF h(6)] assms(2) by simp
  have r: "xnap_decode_drbs True d ?c = Some ((hq_num_drbs x, hq_drbs x), ?k)"
    using xn_drbs_read [OF h(7)] assms(2) by simp
  have s: "read_opt (0, 0) xnap_decode_slice d (?k + 128) = Some ((hq_snssai_present x, hq_slice x), ?k + 128 + width ?s)"
    by (rule opt_fields_read [OF h(10)]) (use assms(2) xn_slice_read in auto)
  have y: "read_opt (replicate 32 0) (read_list (read_word 8) 32) d (?k + 128 + width ?s) =
      Some ((hq_security_key_present x, hq_security_key x), ?k + 128 + width ?s + width ?y)"
    by (rule xn_key_read [OF h(11)]) (use assms(2) in simp)
  show ?thesis
    using xn_ue_ids_read [OF h(1)] xn_gnb_read [OF h(4)] xn_plmn_read [OF h(12)] assms(2) h(2,3,5,8,9) c r s y
    by (simp add: xnap_decode_handover_request_def ac_simps)
qed

lemma xn_handover_ack_read:
  assumes "holds d b (xnap_encode_payload (Xn_Handover_Request_Ack x))" and "xn_sendable (Xn_Handover_Request_Ack x)"
  shows "\<exists>b'. xnap_decode_handover_request_ack True d b = Some (x, b')"
proof -
  let ?c = "b + 80 + 8 * length (ha_container x)"
  let ?k = "?c + width (xnap_encode_drbs (ha_num_drbs x) (ha_drbs x))"
  let ?fs = "concat (map xnap_encode_failed_drb (take (min (unat (ha_num_failed x)) 8) (ha_failed x)))"
  have h: "holds d b (xnap_encode_ue_ids (ha_ue_ids x))" "holds d (b + 64) (xnap_encode_rrc_container (ha_container x))"
      "holds d ?c (xnap_encode_drbs (ha_num_drbs x) (ha_drbs x))"
      "read_word 4 d ?k = Some (ha_num_failed x, ?k + 4)" "holds d (?k + 4) ?fs"
    using assms by (simp_all add: XNAP_MAX_DRB_COUNT_def take_bit_small add.assoc)
  have c: "xnap_decode_rrc_container d (b + 64) = Some (ha_container x, ?c)"
    using xn_container_read [OF h(2)] assms(2) by simp
  have r: "xnap_decode_drbs True d ?c = Some ((ha_num_drbs x, ha_drbs x), ?k)"
    using xn_drbs_read [OF h(3)] assms(2) by simp
  have f: "read_list xnap_decode_failed_drb (min (unat (ha_num_failed x)) 8) d (?k + 4) =
      Some (ha_failed x, ?k + 4 + width ?fs)"
    by (rule read_counted [OF h(5)]) (use assms(2) in \<open>auto simp: xn_failed_read\<close>)
  show ?thesis
    using xn_ue_ids_read [OF h(1)] h(4) c r f
    by (simp add: xnap_decode_handover_request_ack_def XNAP_MAX_DRB_COUNT_def)
qed

lemma xn_paging_read:
  assumes "holds d b (xnap_encode_payload (Xn_Paging x))" and "xn_sendable (Xn_Paging x)"
  shows "\<exists>b'. xnap_decode_paging True d b = Some (x, b')"
proof -
  let ?t = "word_fields 24 (pg_tais x)"
  let ?k = "b + 125 + 24 * length (pg_tais x)"
  have n: "min (unat (pg_num_tais x)) 16 = length (pg_tais x)" using assms(2) by (auto simp: word_less_nat_alt)
  have h: "read_pair True 8 d b = Some (pg_amf_ue_id x, b + 40)"
      "read_word 16 d (b + 40) = Some (pg_ue_identity_index x, b + 56)"
      "read_word (Suc 0) d (b + 56) = Some (pg_identity_type x, b + 57)"
      "read_pair True 32 d (b + 57) = Some (pg_identity x, b + 121)"
      "read_word 4 d (b + 121) = Some (pg_num_tais x, b + 125)" "holds d (b + 125) ?t"
      "read_word (Suc 0) d ?k = Some (pg_cause x, ?k + 1)"
      "holds d (?k + 1) (opt_fields (pg_assistance_present x) (xnap_encode_attempts (pg_attempts x)))"
    using assms by (simp_all add: XNAP_MAX_TAI_COUNT_def n xn_flag_mod take_bit_small take_bit_full add.assoc add.commute add.left_commute)
  have t: "read_list (read_word 24) (length (pg_tais x)) d (b + 125) = Some (pg_tais x, ?k)"
    using read_words [OF h(6)] assms(2) by (simp add: take_bit_small)
  have a: "\<exists>q. read_opt (0, 0) xnap_decode_attempts d (?k + 1) = Some ((pg_assistance_present x, pg_attempts x), q)"
    using opt_fields_read [OF h(8), of xnap_decode_attempts "pg_attempts x" "(0, 0)"] assms(2)
    by (auto simp: xnap_encode_attempts_def xnap_decode_attempts_def take_bit_small)
  show ?thesis
    using h(1-5,7) t a by (auto simp: xnap_decode_paging_def XNAP_MAX_TAI_COUNT_def n)
qed

lemma xn_error_read:
  assumes "holds d b (xnap_encode_payload (Xn_Error_Indication x))" and "xn_sendable (Xn_Error_Indication x)"
  shows "\<exists>b'. xnap_decode_error_indication d b = Some (x, b')"
proof -
  let ?o = "opt_fields (xne_ue_ids_present x) (xnap_encode_ue_ids (xne_ue_ids x))"
  have h: "holds d b ?o" "holds d (b + width ?o) (opt_fields (xne_cause_present x) (xnap_encode_cause (xne_cause x)))"
    using assms(1) by simp_all
  have o: "read_opt zero_xn_ids xnap_decode_ue_ids d b = Some ((xne_ue_ids_present x, xne_ue_ids x), b + width ?o)"
    by (rule opt_fields_read [OF h(1)]) (use assms(2) xn_ue_ids_read in auto)
  have c: "\<exists>q. read_opt zero_xn_cause xnap_decode_cause d (b + width ?o) = Some ((xne_cause_present x, xne_cause x), q)"
    using opt_fields_read [OF h(2), of xnap_decode_cause "xne_cause x" zero_xn_cause] assms(2)
      xn_cause_read [of d "b + width ?o + 1" "xne_cause x"] by auto
  show ?thesis using o c by (auto simp: xnap_decode_error_indication_def)
qed

lemma xn_addition_read:
  assumes "holds d b (xnap_encode_payload (Xn_Sgnb_Addition_Request x))" and "xn_sendable (Xn_Sgnb_Addition_Request x)"
  shows "\<exists>b'. xnap_decode_sgnb_addition_request True d b = Some (x, b')"
proof -
  let ?k = "b + 168 + width (xnap_encode_drbs (sg_num_drbs x) (sg_drbs x))"
  have h: "holds d b (xnap_encode_ue_ids (sg_ue_ids x))" "read_pair True 8 d (b + 64) = Some (sg_ran_ue_id x, b + 104)"
      "read_pair True 32 d (b + 104) = Some (sg_target_cell_id x, b + 168)"
      "holds d (b + 168) (xnap_encode_drbs (sg_num_drbs x) (sg_drbs x))"
      "holds d ?k (opt_fields (sg_security_key_present x) (octet_fields (sg_security_key x)))"
    using assms by (simp_all add: take_bit_small take_bit_full add.assoc)
  have r: "xnap_decode_drbs True d (b + 168) = Some ((sg_num_drbs x, sg_drbs x), ?k)"
    using xn_drbs_read [OF h(4)] assms(2) by simp
  show ?thesis
    using xn_ue_ids_read [OF h(1)] h(2,3) r xn_key_read [OF h(5)] assms(2)
    by (simp add: xnap_decode_sgnb_addition_request_def)
qed

lemma xn_payload_read:
  assumes "holds d b (xnap_encode_payload y)" and "xn_sendable y"
  shows "\<exists>b'. xnap_decode_payload True (xnap_type y) d b = Some (y, b')"
proof (cases y)
  case (Xn_Setup_Request x)
  then show ?thesis using xn_setup_request_read [of d b x] assms by (auto simp: xnap_decode_payload_def)
next
  case (Xn_Setup_Response x)
  then show ?thesis using xn_setup_response_read [of d b x] assms by (auto simp: xnap_decode_payload_def xnap_types)
next
  case (Xn_Setup_Failure x)
  then show ?thesis using assms xn_cause_read [of d b "xnf_cause x"]
    by (simp add: xnap_decode_payload_def xnap_types take_bit_full)
next
  case (Xn_Handover_Request x)
  then show ?thesis using xn_handover_request_read [of d b x] assms by (auto simp: xnap_decode_payload_def xnap_types)
next
  case (Xn_Handover_Request_Ack x)
  then show ?thesis using xn_handover_ack_read [of d b x] assms by (auto simp: xnap_decode_payload_def xnap_types)
next
  case (Xn_Handover_Preparation_Failure x)
  then show ?thesis using xn_ids_cause_read [of d b x] assms by (simp add: xnap_decode_payload_def xnap_types)
next
  case (Xn_Handover_Command x)
  then show ?thesis using assms xn_ue_ids_read [of d b "hc_ue_ids x"] xn_container_read [of d "b + 64" "hc_command x"]
    by (simp add: xnap_decode_payload_def xnap_types)
next
  case (Xn_Handover_Cancel x)
  then show ?thesis using xn_ids_cause_read [of d b x] assms by (simp add: xnap_decode_payload_def xnap_types)
next
  case (Xn_Handover_Cancel_Ack x)
  then show ?thesis using assms xn_ue_ids_read [of d b x] by (simp add: xnap_decode_payload_def xnap_types)
next
  case (Xn_Handover_Notify x)
  then show ?thesis using assms xn_ue_ids_read [of d b "hn_ue_ids x"]
    by (simp add: xnap_decode_payload_def xnap_types take_bit_small take_bit_full)
next
  case (Xn_Paging x)
  then show ?thesis using xn_paging_read [of d b x] assms by (auto simp: xnap_decode_payload_def xnap_types)
next
  case (Xn_Error_Indication x)
  then show ?thesis using xn_error_read [of d b x] assms by (auto simp: xnap_decode_payload_def xnap_types)
next
  case (Xn_Sgnb_Addition_Request x)
  then show ?thesis using xn_addition_read [of d b x] assms by (auto simp: xnap_decode_payload_def xnap_types)
next
  case (Xn_Sgnb_Addition_Request_Ack x)
  then show ?thesis using assms xn_ue_ids_read [of d b "sa_ue_ids x"] xn_drbs_read [of d "b + 64" "sa_num_drbs x" "sa_drbs x"]
    by (simp add: xnap_decode_payload_def xnap_types)
qed (use assms in \<open>simp_all add: xnap_decode_payload_def xnap_types\<close>)

lemma xn_widths: "f \<in> set (xnap_encode_payload y) \<Longrightarrow> snd f \<le> 32"
  by (cases y) (auto simp: fld_def fld_pair_def octet_fields_def word_fields_def name_fields_def opt_fields_def
      xnap_encode_plmn_id_def xnap_encode_global_gnb_id_def xnap_encode_gnb_name_def xnap_encode_ue_ids_def
      xnap_encode_slice_def xnap_encode_served_cell_info_def xnap_encode_tnl_info_def xnap_encode_qos_flow_def
      xnap_encode_drb_info_def xnap_encode_drbs_def xnap_encode_cause_def xnap_encode_rrc_container_def
      xnap_encode_failed_drb_def xnap_encode_attempts_def split: if_splits)

text \<open>
  C35. Round trip of the messages. A sendable message that fits into the buffer is decoded to itself, when the block
  that the encoder gets from the allocator is zero and the compiler evaluates the two operands of \<^verbatim>\<open>|\<close> from
  left to right.
\<close>

theorem xnap_roundtrip:
  assumes "xn_sendable (xn_payload m)" and "xn_procedure_code m < 256" and "xn_criticality m < 4"
    and "width (xnap_fields m) \<le> 8 * XNAP_MAX_MESSAGE_SIZE"
  shows "xnap_decode_message True (xnap_encode_message good_os (replicate XNAP_MAX_MESSAGE_SIZE 0) True (Some m)) True =
      Some (Inr m)"
proof -
  have "\<forall>f \<in> set (xnap_fields m). snd f \<le> 32"
    using xn_widths [of _ "xn_payload m"] by (auto simp: xnap_fields_def xnap_encode_header_def fld_def)
  from encode_zeros [of xnap_fields m XNAP_MAX_MESSAGE_SIZE, OF assms(4) this] obtain d
    where d: "xnap_encode_message good_os (replicate XNAP_MAX_MESSAGE_SIZE 0) True (Some m) = Some d"
      "holds d 0 (xnap_fields m)" "length d = (width (xnap_fields m) + 7) div 8"
    by (auto simp: xnap_encode_message_def XNAP_MAX_MESSAGE_SIZE_def)
  have t: "xnap_type (xn_payload m) < 256" using assms(1) by (cases "xn_payload m") (auto simp: xnap_types)
  have h: "holds d 18 (xnap_encode_payload (xn_payload m))"
      "read_word 8 d 0 = Some (xn_procedure_code m, 8)" "read_word 2 d 8 = Some (xn_criticality m, 10)"
      "read_word 8 d 10 = Some (xnap_type (xn_payload m), 18)"
    using d(2) assms(2,3) t by (simp_all add: xnap_fields_def xnap_encode_header_def take_bit_small)
  have "d \<noteq> []" using d(3) by (auto simp: xnap_fields_def xnap_encode_header_def)
  then show ?thesis
    using xn_payload_read [OF h(1) assms(1)] h(2-4)
    by (auto simp: d(1) xnap_decode_message_def decode_fields_def xnap_read_message_def)
qed

definition xn_example :: xnap_message where
  "xn_example = \<lparr>xn_procedure_code = 7, xn_criticality = 0, xn_payload = Xn_Handover_Cancel
     \<lparr>xnx_ue_ids = \<lparr>xn_source_ue_id = 7, xn_target_ue_id = 9\<rparr>, xnx_cause = \<lparr>xn_cause_type = 0, xn_cause_value = 3\<rparr>\<rparr>\<rparr>"

theorem xnap_roundtrip_witness:
  "xnap_decode_message True (xnap_encode_message good_os (replicate XNAP_MAX_MESSAGE_SIZE 0) True (Some xn_example)) True =
    Some (Inr xn_example)"
  using xnap_roundtrip [of xn_example]
  by (simp add: xn_example_def xnap_fields_def xnap_encode_header_def XNAP_MAX_MESSAGE_SIZE_def)

end
