(* ===== verification/Pfcp.thy ===== *)
theory Pfcp
  imports Decimals "HOL-Library.Monad_Syntax"
begin

text \<open>
  The messages between session management and user plane function
  (\<^verbatim>\<open>src/protocol/pfcp_messages.c\<close>): a header and information elements of type, length and content.

  An encoder is the list of the octets that it writes into its zero-based part of the buffer. The structure to
  be sent has the payload that its type selects in the union. The decoder writes the elements that it finds
  into members of the union, whatever the type of the message is, so the payload of a decoded message is the
  octets of the union; where its members are is a parameter of the model, as the compiler decides it.
\<close>

section \<open>Constants\<close>

definition PFCP_MAX_MESSAGE_SIZE :: nat where "PFCP_MAX_MESSAGE_SIZE = 65535"
definition PFCP_MAX_PDR_PER_SESSION :: nat where "PFCP_MAX_PDR_PER_SESSION = 64"
definition PFCP_MAX_FAR_PER_SESSION :: nat where "PFCP_MAX_FAR_PER_SESSION = 64"
definition PFCP_MAX_QER_PER_SESSION :: nat where "PFCP_MAX_QER_PER_SESSION = 64"
definition PFCP_MAX_URR_PER_SESSION :: nat where "PFCP_MAX_URR_PER_SESSION = 32"

definition PFCP_IE_NODE_ID :: u16 where "PFCP_IE_NODE_ID = 60"
definition PFCP_IE_F_SEID :: u16 where "PFCP_IE_F_SEID = 105"
definition PFCP_IE_F_TEID :: u16 where "PFCP_IE_F_TEID = 21"
definition PFCP_IE_CAUSE :: u16 where "PFCP_IE_CAUSE = 19"
definition PFCP_IE_PDI :: u16 where "PFCP_IE_PDI = 2"
definition PFCP_IE_SOURCE_INTERFACE :: u16 where "PFCP_IE_SOURCE_INTERFACE = 20"
definition PFCP_IE_UE_IP_ADDRESS :: u16 where "PFCP_IE_UE_IP_ADDRESS = 93"
definition PFCP_IE_CREATE_PDR :: u16 where "PFCP_IE_CREATE_PDR = 1"
definition PFCP_IE_PDR_ID :: u16 where "PFCP_IE_PDR_ID = 56"
definition PFCP_IE_PRIORITY :: u16 where "PFCP_IE_PRIORITY = 96"
definition PFCP_IE_FAR_ID :: u16 where "PFCP_IE_FAR_ID = 108"
definition PFCP_IE_CREATE_FAR :: u16 where "PFCP_IE_CREATE_FAR = 3"
definition PFCP_IE_GATE_STATUS :: u16 where "PFCP_IE_GATE_STATUS = 25"
definition PFCP_IE_DESTINATION_INTERFACE :: u16 where "PFCP_IE_DESTINATION_INTERFACE = 30"
definition PFCP_IE_OUTER_HEADER_CREATION :: u16 where "PFCP_IE_OUTER_HEADER_CREATION = 84"
definition PFCP_IE_CREATE_QER :: u16 where "PFCP_IE_CREATE_QER = 7"
definition PFCP_IE_QER_ID :: u16 where "PFCP_IE_QER_ID = 109"
definition PFCP_IE_MBR :: u16 where "PFCP_IE_MBR = 26"
definition PFCP_IE_GBR :: u16 where "PFCP_IE_GBR = 27"
definition PFCP_IE_QER_CORRELATION_ID :: u16 where "PFCP_IE_QER_CORRELATION_ID = 28"
definition PFCP_IE_REMOVE_QER :: u16 where "PFCP_IE_REMOVE_QER = 18"
definition PFCP_IE_CREATE_URR :: u16 where "PFCP_IE_CREATE_URR = 6"
definition PFCP_IE_URR_ID :: u16 where "PFCP_IE_URR_ID = 110"
definition PFCP_IE_MEASUREMENT_METHOD :: u16 where "PFCP_IE_MEASUREMENT_METHOD = 62"
definition PFCP_IE_REPORTING_TRIGGERS :: u16 where "PFCP_IE_REPORTING_TRIGGERS = 42"
definition PFCP_IE_VOLUME_THRESHOLD :: u16 where "PFCP_IE_VOLUME_THRESHOLD = 36"
definition PFCP_IE_TIME_THRESHOLD :: u16 where "PFCP_IE_TIME_THRESHOLD = 37"
definition PFCP_IE_VOLUME_QUOTA :: u16 where "PFCP_IE_VOLUME_QUOTA = 64"
definition PFCP_IE_TIME_QUOTA :: u16 where "PFCP_IE_TIME_QUOTA = 65"
definition PFCP_IE_QUOTA_VALIDITY_TIME :: u16 where "PFCP_IE_QUOTA_VALIDITY_TIME = 66"
definition PFCP_IE_REMOVE_URR :: u16 where "PFCP_IE_REMOVE_URR = 17"
definition PFCP_IE_VOLUME_MEASUREMENT :: u16 where "PFCP_IE_VOLUME_MEASUREMENT = 73"
definition PFCP_IE_DURATION_MEASUREMENT :: u16 where "PFCP_IE_DURATION_MEASUREMENT = 74"
definition PFCP_IE_RECOVERY_TIME_STAMP :: u16 where "PFCP_IE_RECOVERY_TIME_STAMP = 75"
definition PFCP_IE_CP_FUNCTION_FEATURES :: u16 where "PFCP_IE_CP_FUNCTION_FEATURES = 101"
definition PFCP_IE_UP_FUNCTION_FEATURES :: u16 where "PFCP_IE_UP_FUNCTION_FEATURES = 102"
definition PFCP_IE_APN_DNN :: u16 where "PFCP_IE_APN_DNN = 82"
definition PFCP_IE_SDF_FILTER :: u16 where "PFCP_IE_SDF_FILTER = 23"
definition PFCP_IE_CREATED_PDR :: u16 where "PFCP_IE_CREATED_PDR = 8"

lemmas pfcp_ie_codes = PFCP_IE_NODE_ID_def PFCP_IE_F_SEID_def PFCP_IE_F_TEID_def PFCP_IE_CAUSE_def
  PFCP_IE_PDI_def PFCP_IE_SOURCE_INTERFACE_def PFCP_IE_UE_IP_ADDRESS_def PFCP_IE_CREATE_PDR_def
  PFCP_IE_PDR_ID_def PFCP_IE_PRIORITY_def PFCP_IE_FAR_ID_def PFCP_IE_CREATE_FAR_def PFCP_IE_GATE_STATUS_def
  PFCP_IE_DESTINATION_INTERFACE_def PFCP_IE_OUTER_HEADER_CREATION_def PFCP_IE_CREATE_QER_def PFCP_IE_QER_ID_def
  PFCP_IE_MBR_def PFCP_IE_GBR_def PFCP_IE_QER_CORRELATION_ID_def PFCP_IE_REMOVE_QER_def PFCP_IE_CREATE_URR_def
  PFCP_IE_URR_ID_def PFCP_IE_MEASUREMENT_METHOD_def PFCP_IE_REPORTING_TRIGGERS_def PFCP_IE_VOLUME_THRESHOLD_def
  PFCP_IE_TIME_THRESHOLD_def PFCP_IE_VOLUME_QUOTA_def PFCP_IE_TIME_QUOTA_def PFCP_IE_QUOTA_VALIDITY_TIME_def
  PFCP_IE_REMOVE_URR_def PFCP_IE_VOLUME_MEASUREMENT_def PFCP_IE_DURATION_MEASUREMENT_def
  PFCP_IE_RECOVERY_TIME_STAMP_def PFCP_IE_CP_FUNCTION_FEATURES_def PFCP_IE_UP_FUNCTION_FEATURES_def
  PFCP_IE_APN_DNN_def PFCP_IE_SDF_FILTER_def PFCP_IE_CREATED_PDR_def

section \<open>Structures\<close>

record pfcp_node_id =
  node_id_type :: u8
  node_ipv4 :: u32
  node_ipv6 :: "u8 list"
  node_fqdn :: "u8 list"

record pfcp_f_seid =
  fs_seid :: u64
  fs_ipv4 :: u32
  fs_ipv6 :: "u8 list"
  fs_v4_present :: u8
  fs_v6_present :: u8

record pfcp_f_teid =
  ft_teid :: u32
  ft_ipv4 :: u32
  ft_ipv6 :: "u8 list"
  ft_v4_present :: u8
  ft_v6_present :: u8
  ft_chid :: u8
  ft_choose_id :: u8

record pfcp_ue_ip_address =
  ui_ipv4 :: u32
  ui_ipv6 :: "u8 list"
  ui_v4_present :: u8
  ui_v6_present :: u8
  ui_sd :: u8

record pfcp_pdi =
  pd_source_interface :: u8
  pd_network_instance :: "u8 list"
  pd_ue_ip_present :: u8
  pd_ue_ip :: pfcp_ue_ip_address
  pd_f_teid_present :: u8
  pd_f_teid :: pfcp_f_teid
  pd_sdf_filter_present :: u8
  pd_sdf_filter :: "u8 list"
  pd_app_id_present :: u8
  pd_app_id :: "u8 list"

record pfcp_pdr =
  pr_pdr_id :: u16
  pr_precedence :: u8
  pr_pdi :: pfcp_pdi
  pr_outer_header_removal_present :: u8
  pr_outer_header_removal :: u8
  pr_far_id_present :: u8
  pr_far_id :: u32
  pr_qer_ids :: "u32 list"
  pr_urr_ids :: "u32 list"

record pfcp_far =
  fa_far_id :: u32
  fa_apply_action :: u8
  fa_forwarding_params_present :: u8
  fa_destination_interface :: u8
  fa_outer_header_creation_present :: u8
  fa_outer_header_creation :: pfcp_f_teid
  fa_redirect_present :: u8
  fa_redirect_type :: u8
  fa_redirect_address :: "u8 list"
  fa_transport_marking_present :: u8
  fa_tos_traffic_class :: u16

record pfcp_qer =
  qe_qer_id :: u32
  qe_ul_gate_status :: u8
  qe_dl_gate_status :: u8
  qe_ul_mbr :: u64
  qe_dl_mbr :: u64
  qe_ul_gbr :: u64
  qe_dl_gbr :: u64
  qe_qfi_present :: u8
  qe_qfi :: u8
  qe_correlation_id_present :: u8
  qe_correlation_id :: u32

record pfcp_urr =
  ur_urr_id :: u32
  ur_measurement_method :: u8
  ur_reporting_triggers :: u8
  ur_volume_threshold_present :: u8
  ur_total_volume_threshold :: u64
  ur_uplink_volume_threshold :: u64
  ur_downlink_volume_threshold :: u64
  ur_time_threshold_present :: u8
  ur_time_threshold :: u32
  ur_volume_quota_present :: u8
  ur_total_volume_quota :: u64
  ur_time_quota_present :: u8
  ur_time_quota :: u32
  ur_quota_validity_time_present :: u8
  ur_quota_validity_time :: u32

record pfcp_volume_measurement =
  vm_total :: u64
  vm_uplink :: u64
  vm_downlink :: u64
  vm_total_present :: u8
  vm_uplink_present :: u8
  vm_downlink_present :: u8

record pfcp_usage_report =
  us_urr_id :: u32
  us_start_time :: u64
  us_end_time :: u64
  us_duration_measurement :: u32
  us_volume_measurement :: pfcp_volume_measurement

text \<open>An array with a counter is the list of its entries, at least as many as the counter says.\<close>

record pfcp_session_establishment_request =
  seq_cp_node_id :: pfcp_node_id
  seq_cp_f_seid :: pfcp_f_seid
  seq_num_create_pdr :: u8
  seq_create_pdr :: "pfcp_pdr list"
  seq_num_create_far :: u8
  seq_create_far :: "pfcp_far list"
  seq_num_create_qer :: u8
  seq_create_qer :: "pfcp_qer list"
  seq_num_create_urr :: u8
  seq_create_urr :: "pfcp_urr list"
  seq_apn_dnn :: "u8 list"
  seq_apn_dnn_len :: u8
  seq_sst :: u8
  seq_sd :: u32
  seq_snssai_present :: u8

record pfcp_session_establishment_response =
  ser_up_node_id :: pfcp_node_id
  ser_cause :: u32
  ser_up_f_seid_present :: u8
  ser_up_f_seid :: pfcp_f_seid
  ser_num_created_pdr :: u8
  ser_created_pdr :: "(u16 \<times> pfcp_f_teid) list"

record pfcp_association_setup_request =
  asq_node_id :: pfcp_node_id
  asq_recovery_time_stamp :: u64
  asq_cp_function_features :: u8
  asq_up_function_features_present :: u8
  asq_up_function_features :: u8

record pfcp_association_setup_response =
  asr_node_id :: pfcp_node_id
  asr_cause :: u32
  asr_recovery_time_stamp :: u64
  asr_up_function_features_present :: u8
  asr_up_function_features :: u8
  asr_cp_function_features :: u8

record pfcp_session_report_request =
  srq_up_f_seid :: pfcp_f_seid
  srq_num_usage_reports :: u8
  srq_usage_reports :: "pfcp_usage_report list"
  srq_downlink_data_report_present :: u8
  srq_pdr_id :: u16
  srq_data_status :: u8

record pfcp_session_deletion_response =
  sdr_cause :: u32
  sdr_num_usage_reports :: u8
  sdr_usage_reports :: "pfcp_usage_report list"

text \<open>The types that the encoder knows; \<open>Pfcp_Other\<close> stands for every other number.\<close>

datatype pfcp_payload =
    Pfcp_Heartbeat_Request u64
  | Pfcp_Heartbeat_Response u64
  | Pfcp_Association_Setup_Request pfcp_association_setup_request
  | Pfcp_Association_Setup_Response pfcp_association_setup_response
  | Pfcp_Session_Establishment_Request pfcp_session_establishment_request
  | Pfcp_Session_Establishment_Response pfcp_session_establishment_response
  | Pfcp_Session_Deletion_Request
  | Pfcp_Session_Deletion_Response pfcp_session_deletion_response
  | Pfcp_Session_Report_Request pfcp_session_report_request
  | Pfcp_Session_Report_Response u32
  | Pfcp_Other u8

fun pfcp_type :: "pfcp_payload \<Rightarrow> u8" where
  "pfcp_type (Pfcp_Heartbeat_Request _) = 1"
| "pfcp_type (Pfcp_Heartbeat_Response _) = 2"
| "pfcp_type (Pfcp_Association_Setup_Request _) = 5"
| "pfcp_type (Pfcp_Association_Setup_Response _) = 6"
| "pfcp_type (Pfcp_Session_Establishment_Request _) = 50"
| "pfcp_type (Pfcp_Session_Establishment_Response _) = 51"
| "pfcp_type Pfcp_Session_Deletion_Request = 54"
| "pfcp_type (Pfcp_Session_Deletion_Response _) = 55"
| "pfcp_type (Pfcp_Session_Report_Request _) = 56"
| "pfcp_type (Pfcp_Session_Report_Response _) = 57"
| "pfcp_type (Pfcp_Other t) = t"

record pfcp_header =
  pf_sequence_number :: u32
  pf_message_length :: u16
  pf_version :: u8
  pf_mp :: u8
  pf_s :: u8
  pf_seid :: u64

record pfcp_message = pfcp_header +
  pf_payload :: pfcp_payload

text \<open>A decoded message: the number of its type and the octets of the union.\<close>

record pfcp_decoded = pfcp_header +
  pf_type :: u8
  pf_union :: "u8 list"

section \<open>Initial messages\<close>

definition zero_node_id :: pfcp_node_id where
  "zero_node_id = \<lparr>node_id_type = 0, node_ipv4 = 0, node_ipv6 = replicate 16 0, node_fqdn = []\<rparr>"

definition zero_f_seid :: pfcp_f_seid where
  "zero_f_seid = \<lparr>fs_seid = 0, fs_ipv4 = 0, fs_ipv6 = replicate 16 0, fs_v4_present = 0, fs_v6_present = 0\<rparr>"

definition pfcp_init :: "u8 \<Rightarrow> pfcp_payload \<Rightarrow> pfcp_message option \<Rightarrow> pfcp_message option" where
  "pfcp_init flag y = map_option (\<lambda>_. \<lparr>pf_sequence_number = 0, pf_message_length = 0, pf_version = 1, pf_mp = 0, pf_s = flag,
     pf_seid = 0, pf_payload = y\<rparr>)"

definition pfcp_init_association_setup_request :: "pfcp_message option \<Rightarrow> pfcp_message option" where
  "pfcp_init_association_setup_request = pfcp_init 0 (Pfcp_Association_Setup_Request \<lparr>asq_node_id = zero_node_id,
     asq_recovery_time_stamp = 0, asq_cp_function_features = 0, asq_up_function_features_present = 0,
     asq_up_function_features = 0\<rparr>)"

definition pfcp_init_association_setup_response :: "pfcp_message option \<Rightarrow> pfcp_message option" where
  "pfcp_init_association_setup_response = pfcp_init 0 (Pfcp_Association_Setup_Response \<lparr>asr_node_id = zero_node_id,
     asr_cause = 0, asr_recovery_time_stamp = 0, asr_up_function_features_present = 0, asr_up_function_features = 0,
     asr_cp_function_features = 0\<rparr>)"

definition pfcp_init_session_establishment_request :: "pfcp_message option \<Rightarrow> pfcp_message option" where
  "pfcp_init_session_establishment_request = pfcp_init 1 (Pfcp_Session_Establishment_Request \<lparr>seq_cp_node_id = zero_node_id,
     seq_cp_f_seid = zero_f_seid, seq_num_create_pdr = 0, seq_create_pdr = [], seq_num_create_far = 0, seq_create_far = [],
     seq_num_create_qer = 0, seq_create_qer = [], seq_num_create_urr = 0, seq_create_urr = [], seq_apn_dnn = [],
     seq_apn_dnn_len = 0, seq_sst = 0, seq_sd = 0, seq_snssai_present = 0\<rparr>)"

definition pfcp_init_session_establishment_response :: "pfcp_message option \<Rightarrow> pfcp_message option" where
  "pfcp_init_session_establishment_response = pfcp_init 1 (Pfcp_Session_Establishment_Response
     \<lparr>ser_up_node_id = zero_node_id, ser_cause = 0, ser_up_f_seid_present = 0, ser_up_f_seid = zero_f_seid,
      ser_num_created_pdr = 0, ser_created_pdr = []\<rparr>)"

definition pfcp_init_session_deletion_request :: "pfcp_message option \<Rightarrow> pfcp_message option" where
  "pfcp_init_session_deletion_request = pfcp_init 1 Pfcp_Session_Deletion_Request"

definition pfcp_set_f_teid :: "u32 \<Rightarrow> u32 \<Rightarrow> pfcp_f_teid option \<Rightarrow> pfcp_f_teid option" where
  "pfcp_set_f_teid t ip = map_option (\<lambda>x. x\<lparr>ft_teid := t, ft_ipv4 := ip, ft_v4_present := 1, ft_v6_present := 0, ft_chid := 0\<rparr>)"

definition pfcp_set_ue_ip :: "u32 \<Rightarrow> pfcp_ue_ip_address option \<Rightarrow> pfcp_ue_ip_address option" where
  "pfcp_set_ue_ip ip = map_option (\<lambda>x. x\<lparr>ui_ipv4 := ip, ui_v4_present := 1, ui_v6_present := 0, ui_sd := 0\<rparr>)"

section \<open>Names\<close>

text \<open>The tables have gaps: for the numbers between its entries the result is the null pointer.\<close>

definition pfcp_message_type_to_string :: "u32 \<Rightarrow> string option" where
  "pfcp_message_type_to_string t = (if t \<le> 57 then map_of [(1, ''HeartbeatRequest''), (2, ''HeartbeatResponse''),
     (5, ''AssociationSetupRequest''), (6, ''AssociationSetupResponse''), (7, ''AssociationUpdateRequest''),
     (8, ''AssociationUpdateResponse''), (9, ''AssociationReleaseRequest''), (10, ''AssociationReleaseResponse''),
     (50, ''SessionEstablishmentRequest''), (51, ''SessionEstablishmentResponse''), (52, ''SessionModificationRequest''),
     (53, ''SessionModificationResponse''), (54, ''SessionDeletionRequest''), (55, ''SessionDeletionResponse''),
     (56, ''SessionReportRequest''), (57, ''SessionReportResponse'')] t else Some ''Unknown'')"

definition pfcp_cause_to_string :: "u32 \<Rightarrow> string option" where
  "pfcp_cause_to_string c = (if c \<le> 12 then map_of [(1, ''RequestAccepted''), (2, ''RequestRejected''),
     (3, ''SessionContextNotFound''), (4, ''MandatoryIEMissing''), (5, ''MandatoryIEIncorrect''), (6, ''SystemFailure''),
     (7, ''RequestTimeout''), (9, ''NoEstablishedPFCPAssociation''), (10, ''RuleCreationModificationFailure''),
     (12, ''NoResourcesAvailable'')] c else Some ''Unknown'')"

section \<open>Encoding of elements\<close>

definition be16 :: "u16 \<Rightarrow> u8 list" where
  "be16 w = [ucast (drop_bit 8 w), ucast w]"

definition be32 :: "u32 \<Rightarrow> u8 list" where
  "be32 w = [ucast (drop_bit 24 w), ucast (drop_bit 16 w), ucast (drop_bit 8 w), ucast w]"

definition be64 :: "u64 \<Rightarrow> u8 list" where
  "be64 w = map (\<lambda>i. ucast (drop_bit (8 * i) w)) [7, 6, 5, 4, 3, 2, 1, 0]"

definition pfcp_encode_ie_header :: "u16 \<Rightarrow> nat \<Rightarrow> u8 list" where
  "pfcp_encode_ie_header t len = be16 t @ be16 (word_of_nat len)"

text \<open>Only an IPv4 address is encoded.\<close>

definition pfcp_encode_node_id :: "pfcp_node_id \<Rightarrow> u8 list" where
  "pfcp_encode_node_id x =
     (if node_id_type x = 0 then pfcp_encode_ie_header PFCP_IE_NODE_ID 5 @ [0] @ be32 (node_ipv4 x) else [])"

text \<open>The correction of the length goes to the upper of its two octets.\<close>

definition pfcp_encode_f_seid :: "pfcp_f_seid \<Rightarrow> u8 list" where
  "pfcp_encode_f_seid x = (let body = [fs_v4_present x OR push_bit 1 (fs_v6_present x)] @ be64 (fs_seid x) in
     if fs_v4_present x \<noteq> 0 then (pfcp_encode_ie_header PFCP_IE_F_SEID 9)[2 := 13] @ body @ be32 (fs_ipv4 x)
     else pfcp_encode_ie_header PFCP_IE_F_SEID 9 @ body)"

text \<open>The identity that the flag \<^verbatim>\<open>chid\<close> announces is not written.\<close>

definition pfcp_encode_f_teid :: "pfcp_f_teid \<Rightarrow> u8 list" where
  "pfcp_encode_f_teid x = pfcp_encode_ie_header PFCP_IE_F_TEID
       (5 + (if ft_v4_present x \<noteq> 0 then 4 else 0) + (if ft_chid x \<noteq> 0 then 1 else 0)) @
     [ft_v4_present x OR push_bit 1 (ft_v6_present x) OR push_bit 2 (ft_chid x)] @ be32 (ft_teid x) @
     (if ft_v4_present x \<noteq> 0 then be32 (ft_ipv4 x) else [])"

definition pfcp_encode_cause :: "u32 \<Rightarrow> u8 list" where
  "pfcp_encode_cause c = pfcp_encode_ie_header PFCP_IE_CAUSE 1 @ [ucast c]"

definition pfcp_encode_pdi :: "pfcp_pdi \<Rightarrow> u8 list" where
  "pfcp_encode_pdi x =
     pfcp_encode_ie_header PFCP_IE_PDI (2 + (if pd_f_teid_present x \<noteq> 0 then 4 + 9 else 0)
       + (if pd_ue_ip_present x \<noteq> 0 then 4 + 5 else 0)) @
     pfcp_encode_ie_header PFCP_IE_SOURCE_INTERFACE 1 @ [pd_source_interface x] @
     (if pd_f_teid_present x \<noteq> 0 then pfcp_encode_f_teid (pd_f_teid x) else []) @
     (if pd_ue_ip_present x \<noteq> 0
      then pfcp_encode_ie_header PFCP_IE_UE_IP_ADDRESS 5 @
        [ui_sd (pd_ue_ip x) OR push_bit 2 (ui_v4_present (pd_ue_ip x))] @ be32 (ui_ipv4 (pd_ue_ip x)) else [])"

text \<open>
  The header of the detection information is written twice: once with its length before the call, which
  writes its own again. Both outer lengths are those of what follows.
\<close>

definition pfcp_encode_create_pdr :: "pfcp_pdr \<Rightarrow> u8 list" where
  "pfcp_encode_create_pdr x = (let
     inner = pfcp_encode_pdi (pr_pdi x) @
       (if pr_far_id_present x \<noteq> 0 then pfcp_encode_ie_header PFCP_IE_FAR_ID 4 @ be32 (pr_far_id x) else []);
     body = pfcp_encode_ie_header PFCP_IE_PDR_ID 2 @ be16 (pr_pdr_id x) @
       pfcp_encode_ie_header PFCP_IE_PRIORITY 1 @ [pr_precedence x] @
       pfcp_encode_ie_header PFCP_IE_PDI (length inner) @ inner
     in pfcp_encode_ie_header PFCP_IE_CREATE_PDR (length body) @ body)"

definition pfcp_encode_create_far :: "pfcp_far \<Rightarrow> u8 list" where
  "pfcp_encode_create_far x =
     pfcp_encode_ie_header PFCP_IE_CREATE_FAR (4 + 4 + (if fa_forwarding_params_present x \<noteq> 0
       then 4 + 1 + (if fa_outer_header_creation_present x \<noteq> 0 then 4 + 9 else 0) else 0)) @
     pfcp_encode_ie_header PFCP_IE_FAR_ID 4 @ be32 (fa_far_id x) @
     pfcp_encode_ie_header PFCP_IE_GATE_STATUS 1 @ [fa_apply_action x] @
     (if fa_forwarding_params_present x \<noteq> 0
      then pfcp_encode_ie_header PFCP_IE_DESTINATION_INTERFACE 1 @ [fa_destination_interface x] @
        (if fa_outer_header_creation_present x \<noteq> 0
         then pfcp_encode_ie_header PFCP_IE_OUTER_HEADER_CREATION 9 @ [0x01] @
           be32 (ft_teid (fa_outer_header_creation x)) @ be32 (ft_ipv4 (fa_outer_header_creation x)) else [])
      else [])"

definition pfcp_encode_create_qer :: "pfcp_qer \<Rightarrow> u8 list" where
  "pfcp_encode_create_qer x =
     pfcp_encode_ie_header PFCP_IE_CREATE_QER (4 + 4 + (4 + 8 + 8) + (4 + 8 + 8)
       + (if qe_qfi_present x \<noteq> 0 then 4 + 1 else 0) + (if qe_correlation_id_present x \<noteq> 0 then 4 + 4 else 0)) @
     pfcp_encode_ie_header PFCP_IE_QER_ID 4 @ be32 (qe_qer_id x) @
     pfcp_encode_ie_header PFCP_IE_GATE_STATUS 1 @ [push_bit 4 (qe_ul_gate_status x) OR (qe_dl_gate_status x AND 0x0F)] @
     pfcp_encode_ie_header PFCP_IE_MBR 8 @ be64 (qe_ul_mbr x) @ pfcp_encode_ie_header PFCP_IE_MBR 8 @ be64 (qe_dl_mbr x) @
     pfcp_encode_ie_header PFCP_IE_GBR 8 @ be64 (qe_ul_gbr x) @ pfcp_encode_ie_header PFCP_IE_GBR 8 @ be64 (qe_dl_gbr x) @
     (if qe_qfi_present x \<noteq> 0 then pfcp_encode_ie_header PFCP_IE_QER_CORRELATION_ID 1 @ [qe_qfi x] else []) @
     (if qe_correlation_id_present x \<noteq> 0
      then pfcp_encode_ie_header PFCP_IE_QER_CORRELATION_ID 4 @ be32 (qe_correlation_id x) else [])"

definition pfcp_encode_update_qer :: "pfcp_qer \<Rightarrow> u8 list" where
  "pfcp_encode_update_qer x = pfcp_encode_create_qer x"

definition pfcp_encode_remove_qer :: "u32 \<Rightarrow> u8 list" where
  "pfcp_encode_remove_qer i = pfcp_encode_ie_header PFCP_IE_REMOVE_QER 4 @ be32 i"

definition pfcp_encode_create_urr :: "pfcp_urr \<Rightarrow> u8 list" where
  "pfcp_encode_create_urr x =
     pfcp_encode_ie_header PFCP_IE_CREATE_URR (4 + 4 + (4 + 1) + (if ur_volume_threshold_present x \<noteq> 0 then 4 + 24 else 0)
       + (if ur_time_threshold_present x \<noteq> 0 then 4 + 4 else 0) + (if ur_volume_quota_present x \<noteq> 0 then 4 + 8 else 0)
       + (if ur_time_quota_present x \<noteq> 0 then 4 + 4 else 0) + (if ur_quota_validity_time_present x \<noteq> 0 then 4 + 4 else 0)) @
     pfcp_encode_ie_header PFCP_IE_URR_ID 4 @ be32 (ur_urr_id x) @
     pfcp_encode_ie_header PFCP_IE_MEASUREMENT_METHOD 1 @ [ur_measurement_method x] @
     pfcp_encode_ie_header PFCP_IE_REPORTING_TRIGGERS 1 @ [ur_reporting_triggers x] @
     (if ur_volume_threshold_present x \<noteq> 0
      then pfcp_encode_ie_header PFCP_IE_VOLUME_THRESHOLD 24 @ be64 (ur_total_volume_threshold x) @
        be64 (ur_uplink_volume_threshold x) @ be64 (ur_downlink_volume_threshold x) else []) @
     (if ur_time_threshold_present x \<noteq> 0
      then pfcp_encode_ie_header PFCP_IE_TIME_THRESHOLD 4 @ be32 (ur_time_threshold x) else []) @
     (if ur_volume_quota_present x \<noteq> 0
      then pfcp_encode_ie_header PFCP_IE_VOLUME_QUOTA 8 @ be64 (ur_total_volume_quota x) else []) @
     (if ur_time_quota_present x \<noteq> 0 then pfcp_encode_ie_header PFCP_IE_TIME_QUOTA 4 @ be32 (ur_time_quota x) else []) @
     (if ur_quota_validity_time_present x \<noteq> 0
      then pfcp_encode_ie_header PFCP_IE_QUOTA_VALIDITY_TIME 4 @ be32 (ur_quota_validity_time x) else [])"

definition pfcp_encode_update_urr :: "pfcp_urr \<Rightarrow> u8 list" where
  "pfcp_encode_update_urr x = pfcp_encode_create_urr x"

definition pfcp_encode_remove_urr :: "u32 \<Rightarrow> u8 list" where
  "pfcp_encode_remove_urr i = pfcp_encode_ie_header PFCP_IE_REMOVE_URR 4 @ be32 i"

definition pfcp_encode_volume_measurement :: "pfcp_volume_measurement \<Rightarrow> u8 list" where
  "pfcp_encode_volume_measurement x = (let body =
       (if vm_total_present x \<noteq> 0 then be64 (vm_total x) else []) @
       (if vm_uplink_present x \<noteq> 0 then be64 (vm_uplink x) else []) @
       (if vm_downlink_present x \<noteq> 0 then be64 (vm_downlink x) else [])
     in if body = [] then [] else pfcp_encode_ie_header PFCP_IE_VOLUME_MEASUREMENT (length body) @ body)"

definition pfcp_encode_duration_measurement :: "u32 \<Rightarrow> u8 list" where
  "pfcp_encode_duration_measurement t = pfcp_encode_ie_header PFCP_IE_DURATION_MEASUREMENT 4 @ be32 t"

section \<open>Encoding of messages\<close>

text \<open>The lower 32 bits of the time stamp are written.\<close>

definition encode_time_stamp :: "u64 \<Rightarrow> u8 list" where
  "encode_time_stamp t = pfcp_encode_ie_header PFCP_IE_RECOVERY_TIME_STAMP 4 @ be32 (ucast t)"

definition for_entries :: "('a \<Rightarrow> u8 list) \<Rightarrow> u8 \<Rightarrow> nat \<Rightarrow> 'a list \<Rightarrow> u8 list" where
  "for_entries f n limit xs = concat (map f (take (min (unat n) limit) xs))"

fun pfcp_encode_body :: "pfcp_payload \<Rightarrow> u8 list option" where
  "pfcp_encode_body (Pfcp_Heartbeat_Request t) = Some (encode_time_stamp t)"
| "pfcp_encode_body (Pfcp_Heartbeat_Response t) = Some (encode_time_stamp t)"
| "pfcp_encode_body (Pfcp_Association_Setup_Request x) = Some (pfcp_encode_node_id (asq_node_id x) @
     encode_time_stamp (asq_recovery_time_stamp x) @
     pfcp_encode_ie_header PFCP_IE_CP_FUNCTION_FEATURES 1 @ [asq_cp_function_features x])"
| "pfcp_encode_body (Pfcp_Association_Setup_Response x) = Some (pfcp_encode_node_id (asr_node_id x) @
     pfcp_encode_cause (asr_cause x) @ encode_time_stamp (asr_recovery_time_stamp x) @
     (if asr_up_function_features_present x \<noteq> 0
      then pfcp_encode_ie_header PFCP_IE_UP_FUNCTION_FEATURES 1 @ [asr_up_function_features x] else []))"
| "pfcp_encode_body (Pfcp_Session_Establishment_Request x) = Some (pfcp_encode_node_id (seq_cp_node_id x) @
     pfcp_encode_f_seid (seq_cp_f_seid x) @
     for_entries pfcp_encode_create_pdr (seq_num_create_pdr x) PFCP_MAX_PDR_PER_SESSION (seq_create_pdr x) @
     for_entries pfcp_encode_create_far (seq_num_create_far x) PFCP_MAX_FAR_PER_SESSION (seq_create_far x) @
     for_entries pfcp_encode_create_qer (seq_num_create_qer x) PFCP_MAX_QER_PER_SESSION (seq_create_qer x) @
     for_entries pfcp_encode_create_urr (seq_num_create_urr x) PFCP_MAX_URR_PER_SESSION (seq_create_urr x) @
     (if seq_apn_dnn_len x > 0 then pfcp_encode_ie_header PFCP_IE_APN_DNN (unat (seq_apn_dnn_len x)) @
        take (unat (seq_apn_dnn_len x)) (seq_apn_dnn x) else []) @
     (if seq_snssai_present x \<noteq> 0 then
        if seq_sd x \<noteq> 0 then pfcp_encode_ie_header PFCP_IE_SDF_FILTER 4 @ [seq_sst x] @ tl (be32 (seq_sd x))
        else pfcp_encode_ie_header PFCP_IE_SDF_FILTER 1 @ [seq_sst x]
      else []))"
| "pfcp_encode_body (Pfcp_Session_Establishment_Response x) = Some (pfcp_encode_node_id (ser_up_node_id x) @
     pfcp_encode_cause (ser_cause x) @
     (if ser_up_f_seid_present x \<noteq> 0 then pfcp_encode_f_seid (ser_up_f_seid x) else []) @
     for_entries (\<lambda>(i, t). pfcp_encode_ie_header PFCP_IE_CREATED_PDR 7 @ be16 i @ pfcp_encode_f_teid t)
       (ser_num_created_pdr x) PFCP_MAX_PDR_PER_SESSION (ser_created_pdr x))"
| "pfcp_encode_body Pfcp_Session_Deletion_Request = Some []"
| "pfcp_encode_body (Pfcp_Session_Deletion_Response x) = Some (pfcp_encode_cause (sdr_cause x))"
| "pfcp_encode_body (Pfcp_Session_Report_Request x) = Some (pfcp_encode_f_seid (srq_up_f_seid x) @
     for_entries (\<lambda>u. pfcp_encode_ie_header 73 (4 + 4 + 4 + 4) @ pfcp_encode_ie_header PFCP_IE_URR_ID 4 @ be32 (us_urr_id u))
       (srq_num_usage_reports x) PFCP_MAX_URR_PER_SESSION (srq_usage_reports x))"
| "pfcp_encode_body (Pfcp_Session_Report_Response c) = Some (pfcp_encode_cause c)"
| "pfcp_encode_body (Pfcp_Other t) = None"

text \<open>
  The last octet of the header is not written: it is what the allocated block holds. Of the sequence number
  the bits 31 to 8 are written.
\<close>

definition pfcp_encode_header :: "u8 list \<Rightarrow> pfcp_message \<Rightarrow> nat \<Rightarrow> u8 list" where
  "pfcp_encode_header mem m len =
     [push_bit 5 (pf_version m) OR push_bit 4 (pf_mp m) OR push_bit 3 (pf_s m), pfcp_type (pf_payload m)] @
     be16 (word_of_nat len) @
     (if pf_s m \<noteq> 0 then be64 (pf_seid m) @ take 3 (be32 (pf_sequence_number m)) @ [mem ! 15]
      else take 3 (be32 (pf_sequence_number m)) @ [mem ! 7])"

text \<open>\<open>None\<close> is the result -1.\<close>

definition pfcp_encode_message :: "os \<Rightarrow> u8 list \<Rightarrow> bool \<Rightarrow> pfcp_message option \<Rightarrow> u8 list option" where
  "pfcp_encode_message s mem out msg = (case msg of None \<Rightarrow> None | Some m \<Rightarrow>
     if \<not> out \<or> \<not> alloc_ok s 0 then None
     else map_option (\<lambda>body. pfcp_encode_header mem m (length body) @ body) (pfcp_encode_body (pf_payload m)))"

section \<open>Decoding\<close>

definition pfcp_decode_uint16 :: "u8 list \<Rightarrow> u16" where
  "pfcp_decode_uint16 b = push_bit 8 (ucast (b ! 0)) OR ucast (b ! 1)"

definition pfcp_decode_uint32 :: "u8 list \<Rightarrow> u32" where
  "pfcp_decode_uint32 b = push_bit 24 (ucast (b ! 0)) OR push_bit 16 (ucast (b ! 1)) OR push_bit 8 (ucast (b ! 2)) OR ucast (b ! 3)"

definition pfcp_decode_uint64 :: "u8 list \<Rightarrow> u64" where
  "pfcp_decode_uint64 b = foldl (\<lambda>a i. a OR push_bit (8 * i) (ucast (b ! (7 - i)))) 0 [7, 6, 5, 4, 3, 2, 1, 0]"

text \<open>
  Where the compiler places the members of the union that the decoder writes, and the order of the octets of a
  number in memory. C places the first members at 0: the type of the node identity, and the time stamp.
\<close>

record pfcp_layout =
  lo_size :: nat
  lo_little_endian :: bool
  lo_node_ipv4 :: nat
  lo_seid :: nat
  lo_seid_ipv4 :: nat
  lo_seid_v4 :: nat
  lo_seid_v6 :: nat
  lo_cause :: nat
  lo_cp_features :: nat
  lo_up_features :: nat
  lo_up_features_present :: nat

definition host_octets :: "pfcp_layout \<Rightarrow> nat \<Rightarrow> u64 \<Rightarrow> u8 list" where
  "host_octets l n w = (let xs = map (\<lambda>i. ucast (drop_bit (8 * i) w)) [0..<n] in if lo_little_endian l then xs else rev xs)"

definition pfcp_decode_node_id :: "pfcp_layout \<Rightarrow> u8 list \<Rightarrow> u8 list \<Rightarrow> u8 list" where
  "pfcp_decode_node_id l b mem =
     (if length b < 1 then mem else let mem = mem[0 := b ! 0] in
        if b ! 0 = 0 \<and> length b \<ge> 5
        then blit mem (lo_node_ipv4 l) (host_octets l 4 (ucast (pfcp_decode_uint32 (drop 1 b)))) else mem)"

definition pfcp_decode_f_seid :: "pfcp_layout \<Rightarrow> u8 list \<Rightarrow> u8 list \<Rightarrow> u8 list" where
  "pfcp_decode_f_seid l b mem =
     (if length b < 9 then mem else
      let mem = mem[lo_seid_v4 l := b ! 0 AND 1, lo_seid_v6 l := drop_bit 1 (b ! 0) AND 1];
          mem = blit mem (lo_seid l) (host_octets l 8 (pfcp_decode_uint64 (drop 1 b)))
      in if b ! 0 AND 1 \<noteq> 0 \<and> length b \<ge> 13
         then blit mem (lo_seid_ipv4 l) (host_octets l 4 (ucast (pfcp_decode_uint32 (drop 9 b)))) else mem)"

text \<open>No element of this type is decoded: the function is not called.\<close>

definition pfcp_decode_f_teid :: "u8 list \<Rightarrow> pfcp_f_teid \<Rightarrow> pfcp_f_teid" where
  "pfcp_decode_f_teid b x = (if length b < 5 then x else
     let y = x\<lparr>ft_v4_present := b ! 0 AND 1, ft_v6_present := drop_bit 1 (b ! 0) AND 1, ft_chid := drop_bit 2 (b ! 0) AND 1,
       ft_teid := pfcp_decode_uint32 (drop 1 b)\<rparr>
     in if b ! 0 AND 1 \<noteq> 0 \<and> length b \<ge> 9 then y\<lparr>ft_ipv4 := pfcp_decode_uint32 (drop 5 b)\<rparr> else y)"

definition pfcp_decode_element :: "pfcp_layout \<Rightarrow> u16 \<Rightarrow> u8 list \<Rightarrow> u8 list \<Rightarrow> u8 list" where
  "pfcp_decode_element l t b mem =
     (if t = PFCP_IE_NODE_ID then pfcp_decode_node_id l b mem
      else if t = PFCP_IE_F_SEID then pfcp_decode_f_seid l b mem
      else if t = PFCP_IE_CAUSE then
        if length b \<ge> 1 then blit mem (lo_cause l) (host_octets l 4 (ucast (b ! 0))) else mem
      else if t = PFCP_IE_RECOVERY_TIME_STAMP then
        if length b \<ge> 4 then blit mem 0 (host_octets l 8 (ucast (pfcp_decode_uint32 b))) else mem
      else if t = PFCP_IE_CP_FUNCTION_FEATURES then
        if length b \<ge> 1 then mem[lo_cp_features l := b ! 0] else mem
      else if t = PFCP_IE_UP_FUNCTION_FEATURES then
        if length b \<ge> 1 then mem[lo_up_features l := b ! 0, lo_up_features_present l := 1] else mem
      else mem)"

text \<open>The loop over the elements, on the octets that are left.\<close>

function pfcp_decode_elements :: "pfcp_layout \<Rightarrow> u8 list \<Rightarrow> u8 list \<Rightarrow> u8 list" where
  "pfcp_decode_elements l b mem =
     (if length b < 4 then mem else
      let len = unat (pfcp_decode_uint16 (drop 2 b)); rest = drop 4 b in
      if length rest < len then mem
      else pfcp_decode_elements l (drop len rest) (pfcp_decode_element l (pfcp_decode_uint16 b) (take len rest) mem))"
  by pat_completeness auto
termination by (relation "measure (\<lambda>(l, b, mem). length b)") auto

declare pfcp_decode_elements.simps [simp del]

definition pfcp_decode_message :: "pfcp_layout \<Rightarrow> u8 list option \<Rightarrow> bool \<Rightarrow> pfcp_decoded option" where
  "pfcp_decode_message l buffer out = (case buffer of None \<Rightarrow> None | Some b \<Rightarrow>
     if \<not> out \<or> length b < 4 then None else
     let s = drop_bit 3 (b ! 0) AND 1; start = (if s \<noteq> 0 then 16 else 8 :: nat) in
     if length b < start then None else
     let q = drop (start - 4) b in
     Some \<lparr>pf_sequence_number = push_bit 16 (ucast (q ! 0)) OR push_bit 8 (ucast (q ! 1)) OR ucast (q ! 2),
       pf_message_length = pfcp_decode_uint16 (drop 2 b), pf_version = drop_bit 5 (b ! 0) AND 7,
       pf_mp = drop_bit 4 (b ! 0) AND 1, pf_s = s, pf_seid = (if s \<noteq> 0 then pfcp_decode_uint64 (drop 4 b) else 0),
       pf_type = b ! 1, pf_union = pfcp_decode_elements l (drop start b) (replicate (lo_size l) 0)\<rparr>)"

definition pfcp_free_message :: "pfcp_message option \<Rightarrow> pfcp_message option" where
  "pfcp_free_message m = m"

end
