(* ===== verification/Pfcp_Proofs.thy ===== *)
theory Pfcp_Proofs
  imports Pfcp
begin

text \<open>
  The encoder of \<^verbatim>\<open>pfcp_messages.c\<close> stays within its buffer; what its decoder makes of the header, and
  which members of the union destroy others.
\<close>

section \<open>Lengths\<close>

lemma pfcp_lengths [simp]: "length (be16 w) = 2" "length (be32 v) = 4" "length (be64 u) = 8"
  "length (pfcp_encode_ie_header t n) = 4"
  by (simp_all add: be16_def be32_def be64_def pfcp_encode_ie_header_def)

lemma node_id_length: "length (pfcp_encode_node_id x) \<le> 9"
  by (simp add: pfcp_encode_node_id_def)

lemma f_seid_length: "length (pfcp_encode_f_seid x) \<le> 17"
  by (simp add: pfcp_encode_f_seid_def Let_def)

lemma f_teid_length: "length (pfcp_encode_f_teid x) \<le> 13"
  by (simp add: pfcp_encode_f_teid_def)

lemma pdi_length: "length (pfcp_encode_pdi x) \<le> 31"
  using f_teid_length [of "pd_f_teid x"] by (simp add: pfcp_encode_pdi_def)

lemma pdr_length: "length (pfcp_encode_create_pdr x) \<le> 58"
  using pdi_length [of "pr_pdi x"] by (simp add: pfcp_encode_create_pdr_def Let_def)

lemma far_length: "length (pfcp_encode_create_far x) \<le> 35"
  by (simp add: pfcp_encode_create_far_def)

lemma qer_length: "length (pfcp_encode_create_qer x) \<le> 78"
  by (simp add: pfcp_encode_create_qer_def)

lemma urr_length: "length (pfcp_encode_create_urr x) \<le> 86"
  by (simp add: pfcp_encode_create_urr_def)

lemma concat_length: "(\<And>x. length (f x) \<le> k) \<Longrightarrow> length (concat (map f xs)) \<le> length xs * k"
  by (induction xs) (simp_all add: add_mono)

lemma for_entries_length: "(\<And>x. length (f x) \<le> k) \<Longrightarrow> length (for_entries f n limit xs) \<le> limit * k"
proof -
  assume "\<And>x. length (f x) \<le> k"
  then have "length (for_entries f n limit xs) \<le> length (take (min (unat n) limit) xs) * k"
    unfolding for_entries_def by (rule concat_length)
  also have "\<dots> \<le> limit * k" by (intro mult_le_mono1) simp
  finally show ?thesis .
qed

lemma pfcp_body_length: "pfcp_encode_body y = Some b \<Longrightarrow> length b \<le> 14000"
proof (cases y)
  case (Pfcp_Session_Establishment_Request x)
  assume b: "pfcp_encode_body y = Some b"
  note l = node_id_length [of "seq_cp_node_id x"] f_seid_length [of "seq_cp_f_seid x"]
    for_entries_length [of pfcp_encode_create_pdr, OF pdr_length, of "seq_num_create_pdr x" 64 "seq_create_pdr x"]
    for_entries_length [of pfcp_encode_create_far, OF far_length, of "seq_num_create_far x" 64 "seq_create_far x"]
    for_entries_length [of pfcp_encode_create_qer, OF qer_length, of "seq_num_create_qer x" 64 "seq_create_qer x"]
    for_entries_length [of pfcp_encode_create_urr, OF urr_length, of "seq_num_create_urr x" 32 "seq_create_urr x"]
  have "unat (seq_apn_dnn_len x) \<le> 255" using unsigned_less [of "seq_apn_dnn_len x", where ?'a = nat] by simp
  then show ?thesis
    using b l by (auto simp: Pfcp_Session_Establishment_Request PFCP_MAX_PDR_PER_SESSION_def PFCP_MAX_FAR_PER_SESSION_def
        PFCP_MAX_QER_PER_SESSION_def PFCP_MAX_URR_PER_SESSION_def)
next
  case (Pfcp_Session_Establishment_Response x)
  assume b: "pfcp_encode_body y = Some b"
  let ?f = "\<lambda>(i, t). pfcp_encode_ie_header PFCP_IE_CREATED_PDR 7 @ be16 i @ pfcp_encode_f_teid t"
  have "length (?f p) \<le> 19" for p
    using f_teid_length [of "snd p"] by (simp add: case_prod_beta)
  from for_entries_length [of ?f, OF this, of "ser_num_created_pdr x" 64 "ser_created_pdr x"]
  show ?thesis
    using b node_id_length [of "ser_up_node_id x"] f_seid_length [of "ser_up_f_seid x"]
    by (auto simp: Pfcp_Session_Establishment_Response PFCP_MAX_PDR_PER_SESSION_def pfcp_encode_cause_def)
next
  case (Pfcp_Session_Report_Request x)
  assume b: "pfcp_encode_body y = Some b"
  let ?f = "\<lambda>u. pfcp_encode_ie_header 73 (4 + 4 + 4 + 4) @ pfcp_encode_ie_header PFCP_IE_URR_ID 4 @ be32 (us_urr_id u)"
  have "length (?f u) \<le> 12" for u by simp
  from for_entries_length [of ?f, OF this, of "srq_num_usage_reports x" 32 "srq_usage_reports x"]
  show ?thesis
    using b f_seid_length [of "srq_up_f_seid x"]
    by (auto simp: Pfcp_Session_Report_Request PFCP_MAX_URR_PER_SESSION_def)
next
  case (Pfcp_Association_Setup_Request x)
  then show "pfcp_encode_body y = Some b \<Longrightarrow> ?thesis"
    using node_id_length [of "asq_node_id x"] by (auto simp: encode_time_stamp_def)
next
  case (Pfcp_Association_Setup_Response x)
  then show "pfcp_encode_body y = Some b \<Longrightarrow> ?thesis"
    using node_id_length [of "asr_node_id x"] by (auto simp: encode_time_stamp_def pfcp_encode_cause_def)
qed (auto simp: encode_time_stamp_def pfcp_encode_cause_def)

section \<open>Numbers\<close>

lemma uint16_be16 [simp]: "pfcp_decode_uint16 (be16 w @ r) = w"
  by (rule bit_word_eqI) (auto simp: pfcp_decode_uint16_def be16_def bit_or_iff bit_push_bit_iff bit_ucast_iff
      bit_drop_bit_eq possible_bit_word)

lemma uint32_be32 [simp]: "pfcp_decode_uint32 (be32 w @ r) = w"
proof (rule bit_word_eqI)
  fix n assume "n < LENGTH(32)"
  then consider "n < 8" | "8 \<le> n" "n < 16" | "16 \<le> n" "n < 24" | "24 \<le> n" "n < 32" by fastforce
  then show "bit (pfcp_decode_uint32 (be32 w @ r)) n = bit w n"
    by cases (auto simp: pfcp_decode_uint32_def be32_def bit_or_iff bit_push_bit_iff bit_ucast_iff bit_drop_bit_eq
        possible_bit_word)
qed

lemma uint64_be64 [simp]: "pfcp_decode_uint64 (be64 w @ r) = w"
proof (rule bit_word_eqI)
  fix n assume "n < LENGTH(64)"
  then consider "n < 8" | "8 \<le> n" "n < 16" | "16 \<le> n" "n < 24" | "24 \<le> n" "n < 32" | "32 \<le> n" "n < 40"
    | "40 \<le> n" "n < 48" | "48 \<le> n" "n < 56" | "56 \<le> n" "n < 64" by fastforce
  then show "bit (pfcp_decode_uint64 (be64 w @ r)) n = bit w n"
    by cases (auto simp: pfcp_decode_uint64_def be64_def bit_or_iff bit_push_bit_iff bit_ucast_iff bit_drop_bit_eq
        possible_bit_word)
qed

lemma ie_header_fields: "pfcp_decode_uint16 (pfcp_encode_ie_header t n @ r) = t"
  "pfcp_decode_uint16 (drop 2 (pfcp_encode_ie_header t n @ r)) = word_of_nat n"
  by (simp_all add: pfcp_encode_ie_header_def)

lemma decode_ie: "length c < 2 ^ 16 \<Longrightarrow> pfcp_decode_elements l (pfcp_encode_ie_header t (length c) @ c @ r) mem =
    pfcp_decode_elements l r (pfcp_decode_element l t c mem)"
  by (subst pfcp_decode_elements.simps)
    (simp only: ie_header_fields Let_def, simp add: unsigned_of_nat take_bit_nat_eq_self)

section \<open>The buffer and the header\<close>

text \<open>Two concrete messages, and the places that a 64-bit compiler chooses.\<close>

definition lp64_layout :: pfcp_layout where
  "lp64_layout = \<lparr>lo_size = 320, lo_little_endian = True, lo_node_ipv4 = 4, lo_seid = 280, lo_seid_ipv4 = 288, lo_seid_v4 = 308,
     lo_seid_v6 = 309, lo_cause = 280, lo_cp_features = 288, lo_up_features = 297, lo_up_features_present = 296\<rparr>"

definition setup_body :: "u32 \<Rightarrow> pfcp_association_setup_request" where
  "setup_body ip = \<lparr>asq_node_id = zero_node_id\<lparr>node_ipv4 := ip\<rparr>, asq_recovery_time_stamp = 7,
     asq_cp_function_features = 1, asq_up_function_features_present = 0, asq_up_function_features = 0\<rparr>"

definition response_body :: "u32 \<Rightarrow> pfcp_session_establishment_response" where
  "response_body c = \<lparr>ser_up_node_id = zero_node_id, ser_cause = c, ser_up_f_seid_present = 1,
     ser_up_f_seid = zero_f_seid\<lparr>fs_seid := 9\<rparr>, ser_num_created_pdr = 0, ser_created_pdr = []\<rparr>"

definition setup_example :: "u32 \<Rightarrow> pfcp_message" where
  "setup_example ip = \<lparr>pf_sequence_number = 0x1FF, pf_message_length = 0, pf_version = 1, pf_mp = 0, pf_s = 0, pf_seid = 0,
     pf_payload = Pfcp_Association_Setup_Request (setup_body ip)\<rparr>"

definition response_example :: "u32 \<Rightarrow> pfcp_message" where
  "response_example c = \<lparr>pf_sequence_number = 0x1FF, pf_message_length = 0, pf_version = 1, pf_mp = 0, pf_s = 1, pf_seid = 5,
     pf_payload = Pfcp_Session_Establishment_Response (response_body c)\<rparr>"

lemma example_encoded:
  "\<exists>d. pfcp_encode_message good_os (replicate PFCP_MAX_MESSAGE_SIZE 0) True (Some (setup_example ip)) = Some d"
  "\<exists>d. pfcp_encode_message good_os (replicate PFCP_MAX_MESSAGE_SIZE 0) True (Some (response_example c)) = Some d"
  by (simp_all add: pfcp_encode_message_def setup_example_def response_example_def)

text \<open>
  C36. The encoder stays within its block of 65535 octets, although it never looks at its size: a message has at most
  14016 octets, whatever the structure holds. The length in the header is the number of octets behind it.
\<close>

theorem pfcp_encoder_fits:
  assumes "pfcp_encode_message s mem out (Some m) = Some d"
  shows "length d \<le> 14016 \<and> 14016 \<le> PFCP_MAX_MESSAGE_SIZE \<and>
    unat (pfcp_decode_uint16 (drop 2 d)) = length d - (if pf_s m \<noteq> 0 then 16 else 8)"
proof -
  obtain b where b: "pfcp_encode_body (pf_payload m) = Some b" "d = pfcp_encode_header mem m (length b) @ b"
    using assms by (auto simp: pfcp_encode_message_def split: if_splits)
  have len: "length b \<le> 14000" using pfcp_body_length [OF b(1)] .
  then have "unat (word_of_nat (length b) :: u16) = length b"
    by (simp add: unsigned_of_nat take_bit_nat_eq_self)
  then show ?thesis using len by (simp add: b(2) pfcp_encode_header_def PFCP_MAX_MESSAGE_SIZE_def)
qed

theorem pfcp_encoder_fits_witness:
  "\<exists>d. pfcp_encode_message good_os (replicate PFCP_MAX_MESSAGE_SIZE 0) True (Some (response_example 1)) = Some d \<and>
     length d \<le> 14016"
  using example_encoded(2) [of 1] pfcp_encoder_fits by blast

lemma header_octet:
  assumes "v < (8 :: u8)" and "p < 2" and "s < 2"
  shows "drop_bit 5 (push_bit 5 v OR push_bit 4 p OR push_bit 3 s) AND 7 = v"
    and "drop_bit 4 (push_bit 5 v OR push_bit 4 p OR push_bit 3 s) AND 1 = p"
    and "drop_bit 3 (push_bit 5 v OR push_bit 4 p OR push_bit 3 s) AND 1 = s"
proof -
  have p: "p = 0 \<or> p = 1" and s: "s = 0 \<or> s = 1" using assms(2,3) by unat_arith+
  have "v = 0 \<or> v = 1 \<or> v = 2 \<or> v = 3 \<or> v = 4 \<or> v = 5 \<or> v = 6 \<or> v = 7" using assms(1) by unat_arith
  with p s show "drop_bit 5 (push_bit 5 v OR push_bit 4 p OR push_bit 3 s) AND 7 = v"
    "drop_bit 4 (push_bit 5 v OR push_bit 4 p OR push_bit 3 s) AND 1 = p"
    "drop_bit 3 (push_bit 5 v OR push_bit 4 p OR push_bit 3 s) AND 1 = s"
    by (elim disjE; simp)+
qed

lemma upper_24_bits: "push_bit 16 (ucast (ucast (drop_bit 24 w) :: u8) :: u32) OR push_bit 8 (ucast (ucast (drop_bit 16 w) :: u8) :: u32)
    OR ucast (ucast (drop_bit 8 w) :: u8) = drop_bit 8 (w :: u32)"
proof (rule bit_word_eqI)
  fix n assume "n < LENGTH(32)"
  then consider "n < 8" | "8 \<le> n" "n < 16" | "16 \<le> n" "n < 24" | "24 \<le> n" "n < 32" by fastforce
  then show "bit (push_bit 16 (ucast (ucast (drop_bit 24 w) :: u8) :: u32) OR push_bit 8 (ucast (ucast (drop_bit 16 w) :: u8) :: u32)
    OR ucast (ucast (drop_bit 8 w) :: u8)) n = bit (drop_bit 8 w) n"
    by cases (auto simp: bit_or_iff bit_push_bit_iff bit_ucast_iff bit_drop_bit_eq possible_bit_word
        dest: bit_imp_le_length)
qed

text \<open>
  C37. Round trip of the header. Version, priority, flag, type and session identity survive; of the sequence
  number the lower eight bits are lost, so the numbers 0 to 255 are all decoded as 0.
\<close>

theorem pfcp_header_roundtrip:
  assumes "pfcp_encode_message s mem out (Some m) = Some d"
    and "pf_version m < 8" and "pf_mp m < 2" and "pf_s m < 2"
  shows "\<exists>x. pfcp_decode_message l (Some d) True = Some x \<and> pf_version x = pf_version m \<and> pf_mp x = pf_mp m \<and>
    pf_s x = pf_s m \<and> pf_type x = pfcp_type (pf_payload m) \<and> pf_seid x = (if pf_s m \<noteq> 0 then pf_seid m else 0) \<and>
    pf_sequence_number x = drop_bit 8 (pf_sequence_number m)"
proof -
  obtain b where b: "pfcp_encode_body (pf_payload m) = Some b" "d = pfcp_encode_header mem m (length b) @ b"
    using assms(1) by (auto simp: pfcp_encode_message_def split: if_splits)
  note o = header_octet [OF assms(2-4)]
  have q: "take 3 (be32 w) = [ucast (drop_bit 24 w), ucast (drop_bit 16 w), ucast (drop_bit 8 w)]" for w
    by (simp add: be32_def)
  have e: "be64 w = [be64 w ! 0, be64 w ! 1, be64 w ! 2, be64 w ! 3, be64 w ! 4, be64 w ! 5, be64 w ! 6, be64 w ! 7]" for w
    by (simp add: be64_def)
  show ?thesis
  proof (cases "pf_s m = 0")
    case True
    then show ?thesis using o
      by (simp add: b(2) pfcp_encode_header_def pfcp_decode_message_def q upper_24_bits be16_def Let_def)
  next
    case False
    then show ?thesis using o uint64_be64 [of "pf_seid m"]
      by (simp add: b(2) pfcp_encode_header_def pfcp_decode_message_def q upper_24_bits be16_def Let_def)
  qed
qed

theorem pfcp_header_roundtrip_witness:
  "\<exists>d x. pfcp_encode_message good_os (replicate PFCP_MAX_MESSAGE_SIZE 0) True (Some (response_example 1)) = Some d \<and>
     pfcp_decode_message lp64_layout (Some d) True = Some x \<and> pf_seid x = 5 \<and> pf_sequence_number x = 1"
proof -
  obtain d where d: "pfcp_encode_message good_os (replicate PFCP_MAX_MESSAGE_SIZE 0) True (Some (response_example 1)) = Some d"
    using example_encoded(2) by blast
  have "pf_version (response_example 1) < 8" "pf_mp (response_example 1) < 2" "pf_s (response_example 1) < 2"
    by (simp_all add: response_example_def)
  from pfcp_header_roundtrip [OF d this, of lp64_layout] d show ?thesis
    by (auto simp: response_example_def)
qed

section \<open>The union\<close>

lemma blit_covered:
  assumes "off + length a \<le> length c" and "length c \<le> length xs"
  shows "blit (blit xs off a) 0 c = c @ drop (length c) xs"
  using assms by (simp add: blit_def)

lemma blit_update_covered:
  assumes "length c \<le> length s" and "k + length s \<le> length mem"
  shows "blit ((blit mem k c)[a := x, b := y]) k s = blit (mem[a := x, b := y]) k s"
proof -
  have "k + length c \<le> length mem" using assms by simp
  then show ?thesis
    using assms by (intro nth_equalityI; cases "a < length mem"; cases "b < length mem")
      (auto simp: nth_blit nth_list_update list_update_beyond)
qed

lemma host_octets_length [simp]: "length (host_octets l n w) = n"
  by (simp add: host_octets_def Let_def)

lemma decode_ie_n: "length c = n \<Longrightarrow> n < 2 ^ 16 \<Longrightarrow> pfcp_decode_elements l (pfcp_encode_ie_header t n @ c @ r) mem =
    pfcp_decode_elements l r (pfcp_decode_element l t c mem)"
  using decode_ie [of c] by simp

lemma no_v4: "w * 2 AND 1 = (0 :: u8)"
  by (rule bit_word_eqI) (auto simp: bit_and_iff bit_1_iff bit_double_iff mult.commute [of w 2])

text \<open>Messages with the same header and bodies of the same elements are decoded to the same message.\<close>

lemma decode_same:
  assumes "pfcp_encode_message s mem out (Some m) = Some d" and "pfcp_encode_message s mem out (Some m') = Some d'"
    and "pfcp_encode_body (pf_payload m) = Some b" and "pfcp_encode_body (pf_payload m') = Some b'"
    and "m' = m\<lparr>pf_payload := pf_payload m'\<rparr>" and "pfcp_type (pf_payload m) = pfcp_type (pf_payload m')"
    and "length b = length b'" and "pf_version m < 8" and "pf_mp m < 2" and "pf_s m < 2"
    and "\<And>u. length u = lo_size l \<Longrightarrow> pfcp_decode_elements l b u = pfcp_decode_elements l b' u"
  shows "pfcp_decode_message l (Some d) True = pfcp_decode_message l (Some d') True"
proof -
  define h where "h = pfcp_encode_header mem m (length b)"
  have "pfcp_encode_header mem m' (length b') = h"
    using assms(6,7) by (subst assms(5)) (simp add: h_def pfcp_encode_header_def)
  then have d: "d = h @ b" "d' = h @ b'"
    using assms(1-4) by (auto simp: pfcp_encode_message_def h_def split: if_splits)
  have len: "length h = (if pf_s m \<noteq> 0 then 16 else 8)" by (simp add: h_def pfcp_encode_header_def)
  have s: "drop_bit 3 (h ! 0) AND 1 = pf_s m"
    using header_octet [OF assms(8-10)] by (simp add: h_def pfcp_encode_header_def)
  show ?thesis
    using len s assms(7) assms(11) [of "replicate (lo_size l) 0"]
    by (auto simp: d pfcp_decode_message_def Let_def nth_append pfcp_decode_uint16_def pfcp_decode_uint64_def)
qed

text \<open>
  The node identity of an association setup request is lost. C places the type and the address of the node
  identity where it places the time stamp, which follows: requests that differ in the address of the node only
  are decoded to the same message.
\<close>

theorem pfcp_node_identity_lost:
  assumes "lo_node_ipv4 l + 4 \<le> 8" and "8 \<le> lo_size l"
    and "pf_payload m = Pfcp_Association_Setup_Request x" and "node_id_type (asq_node_id x) = 0"
    and "m' = m\<lparr>pf_payload := Pfcp_Association_Setup_Request (x\<lparr>asq_node_id := (asq_node_id x)\<lparr>node_ipv4 := ip\<rparr>\<rparr>)\<rparr>"
    and "pf_version m < 8" and "pf_mp m < 2" and "pf_s m < 2"
    and "pfcp_encode_message s mem out (Some m) = Some d" and "pfcp_encode_message s mem out (Some m') = Some d'"
  shows "pfcp_decode_message l (Some d) True = pfcp_decode_message l (Some d') True"
proof -
  let ?body = "\<lambda>a. pfcp_encode_ie_header PFCP_IE_NODE_ID 5 @ (0 # be32 a) @
    pfcp_encode_ie_header PFCP_IE_RECOVERY_TIME_STAMP 4 @ be32 (ucast (asq_recovery_time_stamp x)) @
    pfcp_encode_ie_header PFCP_IE_CP_FUNCTION_FEATURES 1 @ [asq_cp_function_features x]"
  have b: "pfcp_encode_body (pf_payload m) = Some (?body (node_ipv4 (asq_node_id x)))"
    "pfcp_encode_body (pf_payload m') = Some (?body ip)"
    using assms(4) by (simp_all add: assms(3,5) pfcp_encode_node_id_def encode_time_stamp_def)
  have node: "pfcp_decode_node_id l (0 # be32 a) u = blit (u[0 := 0]) (lo_node_ipv4 l) (host_octets l 4 (ucast a))" for a u
    using uint32_be32 [of a "[]"] by (simp add: pfcp_decode_node_id_def Let_def)
  show ?thesis
  proof (rule decode_same [OF assms(9,10) b])
    fix u :: "u8 list"
    assume u: "length u = lo_size l"
    have "pfcp_decode_elements l (?body a) u = pfcp_decode_elements l
        (pfcp_encode_ie_header PFCP_IE_CP_FUNCTION_FEATURES 1 @ [asq_cp_function_features x])
        (host_octets l 8 (ucast (pfcp_decode_uint32 (be32 (ucast (asq_recovery_time_stamp x))))) @ drop 8 (u[0 := 0]))" for a
      using assms(1,2) u
      by (subst decode_ie_n, simp, simp, subst decode_ie_n, simp, simp)
        (simp add: pfcp_decode_element_def pfcp_ie_codes node blit_covered)
    then show "pfcp_decode_elements l (?body (node_ipv4 (asq_node_id x))) u = pfcp_decode_elements l (?body ip) u"
      by simp
  qed (use assms(5-8) in \<open>simp_all add: assms(3)\<close>)
qed

theorem pfcp_node_identity_lost_witness:
  "\<exists>d d'. pfcp_encode_message good_os (replicate PFCP_MAX_MESSAGE_SIZE 0) True (Some (setup_example 1)) = Some d \<and>
     pfcp_encode_message good_os (replicate PFCP_MAX_MESSAGE_SIZE 0) True (Some (setup_example 2)) = Some d' \<and>
     pfcp_decode_message lp64_layout (Some d) True = pfcp_decode_message lp64_layout (Some d') True"
proof -
  obtain d d' where d: "pfcp_encode_message good_os (replicate PFCP_MAX_MESSAGE_SIZE 0) True (Some (setup_example 1)) = Some d"
    "pfcp_encode_message good_os (replicate PFCP_MAX_MESSAGE_SIZE 0) True (Some (setup_example 2)) = Some d'"
    using example_encoded(1) by blast
  have "pfcp_decode_message lp64_layout (Some d) True = pfcp_decode_message lp64_layout (Some d') True"
    by (rule pfcp_node_identity_lost [OF _ _ _ _ _ _ _ _ d, where x = "setup_body 1" and ip = 2])
      (simp_all add: lp64_layout_def setup_example_def setup_body_def zero_node_id_def)
  with d show ?thesis by blast
qed

text \<open>
  The cause of a session establishment response is lost. The compiler places the cause and the session
  identity behind the node identity of their structures; the identity is decoded after the cause. Responses with an
  identity without address that differ in their cause only are decoded to the same message.
\<close>

theorem pfcp_cause_lost:
  assumes "lo_cause l = lo_seid l \<and> lo_seid l + 8 \<le> lo_size l" and "lo_node_ipv4 l + 4 \<le> lo_size l"
    and "pf_payload m = Pfcp_Session_Establishment_Response x" and "ser_up_f_seid_present x \<noteq> 0"
    and "fs_v4_present (ser_up_f_seid x) = 0"
    and "m' = m\<lparr>pf_payload := Pfcp_Session_Establishment_Response (x\<lparr>ser_cause := c\<rparr>)\<rparr>"
    and "pf_version m < 8" and "pf_mp m < 2" and "pf_s m < 2"
    and "pfcp_encode_message s mem out (Some m) = Some d" and "pfcp_encode_message s mem out (Some m') = Some d'"
  shows "pfcp_decode_message l (Some d) True = pfcp_decode_message l (Some d') True"
proof -
  let ?r = "for_entries (\<lambda>(i, t). pfcp_encode_ie_header PFCP_IE_CREATED_PDR 7 @ be16 i @ pfcp_encode_f_teid t)
       (ser_num_created_pdr x) PFCP_MAX_PDR_PER_SESSION (ser_created_pdr x)"
  let ?e = "(push_bit 1 (fs_v6_present (ser_up_f_seid x))) # be64 (fs_seid (ser_up_f_seid x))"
  let ?tail = "\<lambda>c :: u32. pfcp_encode_ie_header PFCP_IE_CAUSE 1 @ [ucast c] @ pfcp_encode_ie_header PFCP_IE_F_SEID 9 @ ?e @ ?r"
  let ?body = "\<lambda>c :: u32. pfcp_encode_node_id (ser_up_node_id x) @ ?tail c"
  have b: "pfcp_encode_body (pf_payload m) = Some (?body (ser_cause x))" "pfcp_encode_body (pf_payload m') = Some (?body c)"
    using assms(4,5) by (simp_all add: assms(3,6) pfcp_encode_cause_def pfcp_encode_f_seid_def)
  have tail: "pfcp_decode_elements l (?tail a) u = pfcp_decode_elements l ?r
      (blit (u[lo_seid_v4 l := 0, lo_seid_v6 l := drop_bit 1 (hd ?e) AND 1]) (lo_seid l)
        (host_octets l 8 (fs_seid (ser_up_f_seid x))))" if "length u = lo_size l" for u a
    using that assms(1,2) no_v4 uint64_be64 [of "fs_seid (ser_up_f_seid x)" "[]"]
    by (subst decode_ie_n, simp, simp, subst decode_ie_n, simp, simp)
      (simp add: pfcp_decode_element_def pfcp_ie_codes pfcp_decode_f_seid_def blit_update_covered Let_def)
  have tails: "pfcp_decode_elements l (?tail c1) u = pfcp_decode_elements l (?tail c2) u" if "length u = lo_size l" for u c1 c2
    using tail [OF that] by simp
  show ?thesis
  proof (rule decode_same [OF assms(10,11) b])
    fix u :: "u8 list"
    assume u: "length u = lo_size l"
    show "pfcp_decode_elements l (?body (ser_cause x)) u = pfcp_decode_elements l (?body c) u"
    proof (cases "node_id_type (ser_up_node_id x) = 0")
      case True
      let ?c = "0 # be32 (node_ipv4 (ser_up_node_id x))"
      have "length (pfcp_decode_element l PFCP_IE_NODE_ID ?c u) = lo_size l"
        using u assms(2) by (simp add: pfcp_decode_element_def pfcp_decode_node_id_def Let_def)
      from tails [OF this, of "ser_cause x" c] show ?thesis
        using decode_ie_n [of ?c 5 l PFCP_IE_NODE_ID "?tail (ser_cause x)" u] decode_ie_n [of ?c 5 l PFCP_IE_NODE_ID "?tail c" u]
        by (simp add: pfcp_encode_node_id_def True)
    qed (use tails [OF u] in \<open>simp add: pfcp_encode_node_id_def\<close>)
  qed (use assms(6-9) in \<open>simp_all add: assms(3)\<close>)
qed

theorem pfcp_cause_lost_witness:
  "\<exists>d d'. pfcp_encode_message good_os (replicate PFCP_MAX_MESSAGE_SIZE 0) True (Some (response_example 1)) = Some d \<and>
     pfcp_encode_message good_os (replicate PFCP_MAX_MESSAGE_SIZE 0) True (Some (response_example 2)) = Some d' \<and>
     pfcp_decode_message lp64_layout (Some d) True = pfcp_decode_message lp64_layout (Some d') True"
proof -
  obtain d d' where d: "pfcp_encode_message good_os (replicate PFCP_MAX_MESSAGE_SIZE 0) True (Some (response_example 1)) = Some d"
    "pfcp_encode_message good_os (replicate PFCP_MAX_MESSAGE_SIZE 0) True (Some (response_example 2)) = Some d'"
    using example_encoded(2) by blast
  have "pfcp_decode_message lp64_layout (Some d) True = pfcp_decode_message lp64_layout (Some d') True"
    by (rule pfcp_cause_lost [OF _ _ _ _ _ _ _ _ _ d, where x = "response_body 1" and c = 2])
      (simp_all add: lp64_layout_def response_example_def response_body_def zero_f_seid_def)
  with d show ?thesis by blast
qed

end
