(* ===== verification/Ngap.thy ===== *)
theory Ngap
  imports Bit_Codec
begin

text \<open>
  The messages between a base station and the core network (\<^verbatim>\<open>src/protocol/ngap_messages.c\<close>).

  The encoder mixes runs of bits with octet strings and length determinants, so that a message is a list
  of items. An array with a counter is the list of the entries in use; \<open>Ng_Other\<close> is a type of message for
  which encoder and decoder handle the header only. An indeterminate value is the argument \<open>junk\<close>.
\<close>

section \<open>Constants and enumerations\<close>

definition NGAP_PORT :: nat where "NGAP_PORT = 38412"
definition NGAP_MAX_MESSAGE_SIZE :: nat where "NGAP_MAX_MESSAGE_SIZE = 65535"
definition NGAP_MAX_TAI :: nat where "NGAP_MAX_TAI = 16"

definition ngap_nas_size :: nat where "ngap_nas_size = 4096"

datatype ngap_procedure_code = NGAP_PROC_NG_SETUP | NGAP_PROC_NG_RESET | NGAP_PROC_NG_STATUS | NGAP_PROC_INITIAL_UE
  | NGAP_PROC_INITIAL_CONTEXT_SETUP | NGAP_PROC_UE_CONTEXT_RELEASE | NGAP_PROC_UE_CONTEXT_MODIFICATION
  | NGAP_PROC_UE_CONTEXT_RELEASE_REQUEST | NGAP_PROC_PDU_SESSION_SETUP | NGAP_PROC_PDU_SESSION_MODIFICATION
  | NGAP_PROC_PDU_SESSION_RELEASE | NGAP_PROC_PDU_SESSION_RESOURCE_NOTIFY | NGAP_PROC_HANDOVER_PREPARATION
  | NGAP_PROC_HANDOVER_RESOURCE_ALLOCATION | NGAP_PROC_HANDOVER_CANCEL | NGAP_PROC_UPLINK_NAS_TRANSPORT
  | NGAP_PROC_DOWNLINK_NAS_TRANSPORT | NGAP_PROC_UPLINK_RAN_STATUS_TRANSFER | NGAP_PROC_DOWNLINK_RAN_STATUS_TRANSFER
  | NGAP_PROC_PATH_SWITCH_REQUEST | NGAP_PROC_LOCATION_REPORT | NGAP_PROC_INITIAL_CONTEXT_MODIFICATION
  | NGAP_PROC_REROUTE_NAS_REQUEST | NGAP_PROC_NAS_NON_DELIVERY_INDICATION | NGAP_PROC_AMF_CONFIGURATION_UPDATE
  | NGAP_PROC_RAN_CONFIGURATION_UPDATE | NGAP_PROC_ERROR_INDICATION | NGAP_PROC_WRITE_REPLACE_WARNING
  | NGAP_PROC_PWS_CANCEL | NGAP_PROC_PWS_RESTART | NGAP_PROC_PWS_FAILURE | NGAP_PROC_UPLINK_UE_ASSOCIATED_NAS_TRANSPORT
  | NGAP_PROC_DOWNLINK_UE_ASSOCIATED_NAS_TRANSPORT | NGAP_PROC_CELL_TRAFFIC_TRACE
  | NGAP_PROC_UPLINK_RAN_CONFIGURATION_TRANSFER | NGAP_PROC_DOWNLINK_RAN_CONFIGURATION_TRANSFER
  | NGAP_PROC_AMF_STATUS_INDICATION

text \<open>The procedures have the numbers from 21 on.\<close>

definition ngap_proc_code :: "ngap_procedure_code \<Rightarrow> u32" where
  "ngap_proc_code p = word_of_nat (21 + enum_code [NGAP_PROC_NG_SETUP, NGAP_PROC_NG_RESET, NGAP_PROC_NG_STATUS,
     NGAP_PROC_INITIAL_UE, NGAP_PROC_INITIAL_CONTEXT_SETUP, NGAP_PROC_UE_CONTEXT_RELEASE,
     NGAP_PROC_UE_CONTEXT_MODIFICATION, NGAP_PROC_UE_CONTEXT_RELEASE_REQUEST, NGAP_PROC_PDU_SESSION_SETUP,
     NGAP_PROC_PDU_SESSION_MODIFICATION, NGAP_PROC_PDU_SESSION_RELEASE, NGAP_PROC_PDU_SESSION_RESOURCE_NOTIFY,
     NGAP_PROC_HANDOVER_PREPARATION, NGAP_PROC_HANDOVER_RESOURCE_ALLOCATION, NGAP_PROC_HANDOVER_CANCEL,
     NGAP_PROC_UPLINK_NAS_TRANSPORT, NGAP_PROC_DOWNLINK_NAS_TRANSPORT, NGAP_PROC_UPLINK_RAN_STATUS_TRANSFER,
     NGAP_PROC_DOWNLINK_RAN_STATUS_TRANSFER, NGAP_PROC_PATH_SWITCH_REQUEST, NGAP_PROC_LOCATION_REPORT,
     NGAP_PROC_INITIAL_CONTEXT_MODIFICATION, NGAP_PROC_REROUTE_NAS_REQUEST, NGAP_PROC_NAS_NON_DELIVERY_INDICATION,
     NGAP_PROC_AMF_CONFIGURATION_UPDATE, NGAP_PROC_RAN_CONFIGURATION_UPDATE, NGAP_PROC_ERROR_INDICATION,
     NGAP_PROC_WRITE_REPLACE_WARNING, NGAP_PROC_PWS_CANCEL, NGAP_PROC_PWS_RESTART, NGAP_PROC_PWS_FAILURE,
     NGAP_PROC_UPLINK_UE_ASSOCIATED_NAS_TRANSPORT, NGAP_PROC_DOWNLINK_UE_ASSOCIATED_NAS_TRANSPORT,
     NGAP_PROC_CELL_TRAFFIC_TRACE, NGAP_PROC_UPLINK_RAN_CONFIGURATION_TRANSFER,
     NGAP_PROC_DOWNLINK_RAN_CONFIGURATION_TRANSFER, NGAP_PROC_AMF_STATUS_INDICATION] p)"

text \<open>The types of the messages have the numbers from 0 on; their number is \<open>NGAP_MSG_MAX\<close>.\<close>

definition NGAP_MSG_NG_SETUP_REQUEST :: u32 where "NGAP_MSG_NG_SETUP_REQUEST = 0"
definition NGAP_MSG_INITIAL_UE_MESSAGE :: u32 where "NGAP_MSG_INITIAL_UE_MESSAGE = 3"
definition NGAP_MSG_INITIAL_CONTEXT_SETUP_REQUEST :: u32 where "NGAP_MSG_INITIAL_CONTEXT_SETUP_REQUEST = 4"
definition NGAP_MSG_UE_CONTEXT_RELEASE_REQUEST :: u32 where "NGAP_MSG_UE_CONTEXT_RELEASE_REQUEST = 7"
definition NGAP_MSG_UE_CONTEXT_RELEASE_COMPLETE :: u32 where "NGAP_MSG_UE_CONTEXT_RELEASE_COMPLETE = 9"
definition NGAP_MSG_UPLINK_NAS_TRANSPORT :: u32 where "NGAP_MSG_UPLINK_NAS_TRANSPORT = 13"
definition NGAP_MSG_PDU_SESSION_SETUP_REQUEST :: u32 where "NGAP_MSG_PDU_SESSION_SETUP_REQUEST = 16"
definition NGAP_MSG_HANDOVER_REQUIRED :: u32 where "NGAP_MSG_HANDOVER_REQUIRED = 26"
definition NGAP_MSG_PATH_SWITCH_REQUEST :: u32 where "NGAP_MSG_PATH_SWITCH_REQUEST = 35"
definition NGAP_MSG_ERROR_INDICATION :: u32 where "NGAP_MSG_ERROR_INDICATION = 38"
definition NGAP_MSG_MAX :: u32 where "NGAP_MSG_MAX = 42"

lemmas ngap_types = NGAP_MSG_NG_SETUP_REQUEST_def NGAP_MSG_INITIAL_UE_MESSAGE_def
  NGAP_MSG_INITIAL_CONTEXT_SETUP_REQUEST_def NGAP_MSG_UE_CONTEXT_RELEASE_REQUEST_def
  NGAP_MSG_UE_CONTEXT_RELEASE_COMPLETE_def NGAP_MSG_UPLINK_NAS_TRANSPORT_def NGAP_MSG_PDU_SESSION_SETUP_REQUEST_def
  NGAP_MSG_HANDOVER_REQUIRED_def NGAP_MSG_PATH_SWITCH_REQUEST_def NGAP_MSG_ERROR_INDICATION_def NGAP_MSG_MAX_def

definition ngap_type_strings :: "string list" where
  "ngap_type_strings = [''NGSetupRequest'', ''NGSetupResponse'', ''NGSetupFailure'',
     ''InitialUEMessage'', ''InitialContextSetupRequest'', ''InitialContextSetupResponse'', ''InitialContextSetupFailure'',
     ''UEContextReleaseRequest'', ''UEContextReleaseCommand'', ''UEContextReleaseComplete'',
     ''UEContextModificationRequest'', ''UEContextModificationResponse'', ''UEContextModificationFailure'',
     ''UplinkNASTransport'', ''DownlinkNASTransport'', ''NASNonDeliveryIndication'',
     ''PDUSessionSetupRequest'', ''PDUSessionSetupResponse'', ''PDUSessionSetupFailure'',
     ''PDUSessionModificationRequest'', ''PDUSessionModificationResponse'', ''PDUSessionModificationFailure'',
     ''PDUSessionReleaseCommand'', ''PDUSessionReleaseResponse'',
     ''PDUSessionResourceNotify'', ''PDUSessionResourceNotifyAck'',
     ''HandoverRequired'', ''HandoverCommand'', ''HandoverPreparationFailure'',
     ''HandoverRequest'', ''HandoverRequestAcknowledge'', ''HandoverFailure'',
     ''HandoverNotify'', ''HandoverCancel'', ''HandoverCancelAcknowledge'',
     ''PathSwitchRequest'', ''PathSwitchRequestAcknowledge'', ''PathSwitchRequestFailure'',
     ''ErrorIndication'', ''NGReset'', ''NGResetAcknowledge'', ''AMFStatusIndication'']"

definition ngap_message_type_to_string :: "u32 \<Rightarrow> string" where
  "ngap_message_type_to_string t = (if t \<ge> NGAP_MSG_MAX then ''Unknown'' else ngap_type_strings ! unat t)"

section \<open>Structures\<close>

record ngap_cause =
  ng_cause_type :: u32
  ng_cause_value :: u32

record ngap_ue_ids =
  ng_ran_ue_ngap_id :: u32
  ng_amf_ue_ngap_id :: u64

record ngap_global_gnb_id =
  ng_gnb_plmn_id :: "u8 list"
  ng_gnb_id :: u32
  ng_gnb_id_len :: u8
  ng_gnb_id_name :: "u8 list"

record ngap_tai =
  ng_tai_plmn_id :: "u8 list"
  ng_tac :: u32

record ngap_ncgi =
  ng_cgi_plmn_id :: "u8 list"
  ng_cell_id :: u32

record ngap_user_location =
  ng_nr_cgi :: ngap_ncgi
  ng_tai :: u32
  ng_time_stamp :: "u8 list"
  ng_time_stamp_present :: bool

record ngap_qos_flow =
  ng_qfi :: u8
  ng_five_qi :: u8
  ng_arp_priority :: u8
  ng_arp_preempt_cap :: bool
  ng_arp_preempt_vuln :: bool
  ng_gbr_ul :: u64
  ng_gbr_dl :: u64
  ng_mbr_ul :: u64
  ng_mbr_dl :: u64

record ngap_pdu_session_resource =
  ng_pdu_session_id :: u8
  ng_upf_teid :: u32
  ng_upf_ip :: u32
  ng_gnb_teid :: u32
  ng_gnb_ip :: u32
  ng_qos_flows :: "ngap_qos_flow list"

record ngap_ng_setup_request =
  ngs_global_gnb_id :: ngap_global_gnb_id
  ngs_tai_list :: "ngap_tai list"
  ngs_default_paging_drx :: u32
  ngs_max_ue_connections :: u32
  ngs_gnb_name :: "u8 list"

record ngap_initial_ue_message =
  ngi_ue_ids :: ngap_ue_ids
  ngi_user_location :: ngap_user_location
  ngi_rrc_establishment_cause :: u8
  ngi_ue_context_request :: u8
  ngi_nas_pdu :: "u8 list"
  ngi_allowed_nssai :: "u8 list"

record ngap_uplink_nas_transport =
  ngu_ue_ids :: ngap_ue_ids
  ngu_user_location :: ngap_user_location
  ngu_nas_pdu :: "u8 list"

record ngap_ue_context_release_request =
  ngr_ue_ids :: ngap_ue_ids
  ngr_cause :: ngap_cause

record ngap_ue_context_release_complete =
  ngc_ue_ids :: ngap_ue_ids
  ngc_user_location :: ngap_user_location
  ngc_pdu_sessions :: "ngap_pdu_session_resource list"

datatype ngap_payload =
    Ng_Setup_Request ngap_ng_setup_request
  | Ng_Initial_Ue ngap_initial_ue_message
  | Ng_Uplink_Nas ngap_uplink_nas_transport
  | Ng_Release_Request ngap_ue_context_release_request
  | Ng_Release_Complete ngap_ue_context_release_complete
  | Ng_Other u32

record ngap_message =
  ng_procedure_code :: u32
  ng_criticality :: u8
  ng_transaction_id :: u32
  ng_payload :: ngap_payload

fun ngap_type :: "ngap_payload \<Rightarrow> u32" where
  "ngap_type (Ng_Setup_Request _) = NGAP_MSG_NG_SETUP_REQUEST"
| "ngap_type (Ng_Initial_Ue _) = NGAP_MSG_INITIAL_UE_MESSAGE"
| "ngap_type (Ng_Uplink_Nas _) = NGAP_MSG_UPLINK_NAS_TRANSPORT"
| "ngap_type (Ng_Release_Request _) = NGAP_MSG_UE_CONTEXT_RELEASE_REQUEST"
| "ngap_type (Ng_Release_Complete _) = NGAP_MSG_UE_CONTEXT_RELEASE_COMPLETE"
| "ngap_type (Ng_Other t) = t"

text \<open>The structures after \<^verbatim>\<open>memset\<close>.\<close>

definition zero_ng_ids :: ngap_ue_ids where "zero_ng_ids = \<lparr>ng_ran_ue_ngap_id = 0, ng_amf_ue_ngap_id = 0\<rparr>"
definition zero_ng_cause :: ngap_cause where "zero_ng_cause = \<lparr>ng_cause_type = 0, ng_cause_value = 0\<rparr>"
definition zero_ng_tai :: ngap_tai where "zero_ng_tai = \<lparr>ng_tai_plmn_id = [0, 0, 0], ng_tac = 0\<rparr>"
definition zero_ng_location :: ngap_user_location where
  "zero_ng_location = \<lparr>ng_nr_cgi = \<lparr>ng_cgi_plmn_id = [0, 0, 0], ng_cell_id = 0\<rparr>, ng_tai = 0,
     ng_time_stamp = [0, 0, 0, 0], ng_time_stamp_present = False\<rparr>"
definition zero_ng_setup :: ngap_ng_setup_request where
  "zero_ng_setup = \<lparr>ngs_global_gnb_id = \<lparr>ng_gnb_plmn_id = [0, 0, 0], ng_gnb_id = 0, ng_gnb_id_len = 0, ng_gnb_id_name = []\<rparr>,
     ngs_tai_list = [], ngs_default_paging_drx = 0, ngs_max_ue_connections = 0, ngs_gnb_name = []\<rparr>"
definition zero_ng_initial :: ngap_initial_ue_message where
  "zero_ng_initial = \<lparr>ngi_ue_ids = zero_ng_ids, ngi_user_location = zero_ng_location, ngi_rrc_establishment_cause = 0,
     ngi_ue_context_request = 0, ngi_nas_pdu = [], ngi_allowed_nssai = []\<rparr>"
definition zero_ng_uplink :: ngap_uplink_nas_transport where
  "zero_ng_uplink = \<lparr>ngu_ue_ids = zero_ng_ids, ngu_user_location = zero_ng_location, ngu_nas_pdu = []\<rparr>"
definition zero_ng_release :: ngap_ue_context_release_request where
  "zero_ng_release = \<lparr>ngr_ue_ids = zero_ng_ids, ngr_cause = zero_ng_cause\<rparr>"

section \<open>Causes and network identities\<close>

definition ngap_cause_to_string :: "ngap_cause \<Rightarrow> string" where
  "ngap_cause_to_string c = (let v = ng_cause_value c; (ty, va) =
     (if ng_cause_type c = 0 then (''RadioNetwork'',
         if v < 4 then [''Unspecified'', ''Tx2RELOverallExpiry'', ''SuccessfulHandover'', ''ReleaseDueTo5GCGenerated''] ! unat v
         else ''Other'')
      else if ng_cause_type c = 1 then (''Transport'', if v = 0 then ''ResourceUnavailable'' else ''Unspecified'')
      else if ng_cause_type c = 2 then (''NAS'', if v = 0 then ''NormalRelease'' else ''Other'')
      else if ng_cause_type c = 3 then (''Protocol'', if v = 0 then ''TransferSyntaxError'' else ''Other'')
      else if ng_cause_type c = 4 then (''Misc'', if v = 0 then ''ControlProcessingOverload'' else ''Other'')
      else (''Unknown'', ''Unknown''))
     in take 63 (ty @ '':'' @ va))"

definition ngap_encode_plmn_id :: "u16 \<Rightarrow> u16 \<Rightarrow> u8 \<Rightarrow> u32" where
  "ngap_encode_plmn_id mcc mnc mnc_len = (let
     mcc_d1 = ucast (mcc div 100); mcc_d2 = ucast ((mcc div 10) mod 10); mcc_d3 = ucast (mcc mod 10);
     (mnc_d1, mnc_d2, mnc_d3) =
       (if mnc_len = 2 then (ucast (mnc div 10), ucast (mnc mod 10), 0xF)
        else (ucast (mnc div 100), ucast ((mnc div 10) mod 10), ucast (mnc mod 10)));
     p0 = push_bit 4 mcc_d2 OR mcc_d1; p1 = push_bit 4 mnc_d3 OR mcc_d3; p2 = push_bit 4 mnc_d2 OR mnc_d1
     in push_bit 16 (ucast (p0 :: u8)) OR push_bit 8 (ucast (p1 :: u8)) OR ucast (p2 :: u8))"

text \<open>The three octets are arguments; the results are the two codes and the number of digits of the second.\<close>

definition ngap_decode_plmn_id :: "u8 \<Rightarrow> u8 \<Rightarrow> u8 \<Rightarrow> u16 \<times> u16 \<times> u8" where
  "ngap_decode_plmn_id p0 p1 p2 = (let
     mcc_d1 = ucast (p0 AND 0xF); mcc_d2 = ucast (drop_bit 4 p0 AND 0xF); mcc_d3 = ucast (p1 AND 0xF);
     mnc_d3 = drop_bit 4 p1 AND 0xF; mnc_d1 = ucast (p2 AND 0xF); mnc_d2 = ucast (drop_bit 4 p2 AND 0xF);
     mcc = mcc_d1 * 100 + mcc_d2 * 10 + mcc_d3
     in if mnc_d3 = 0xF then (mcc, mnc_d1 * 10 + mnc_d2, 2) else (mcc, mnc_d1 * 100 + mnc_d2 * 10 + ucast mnc_d3, 3))"

section \<open>Encoding\<close>

datatype ngap_item = Ng_Bits u32 nat | Ng_Octets "u8 list" | Ng_Length nat

text \<open>The results of the writes are not looked at.\<close>

fun ngap_put :: "ngap_item \<Rightarrow> asn1_buffer option \<Rightarrow> asn1_buffer option" where
  "ngap_put (Ng_Bits v n) p = snd (asn1_encode_bits v n p)"
| "ngap_put (Ng_Octets bs) p = snd (asn1_encode_octet_string (Some bs) (length bs) p)"
| "ngap_put (Ng_Length n) p = snd (asn1_encode_length n p)"

definition ngap_header_items :: "ngap_message \<Rightarrow> ngap_item list" where
  "ngap_header_items m = [Ng_Bits (ng_procedure_code m) 8, Ng_Bits (ucast (ng_criticality m)) 2, Ng_Bits 0 6,
     Ng_Bits (ng_transaction_id m AND 0xFF) 8]"

definition ngap_ids_items :: "ngap_ue_ids \<Rightarrow> ngap_item list" where
  "ngap_ids_items i = [Ng_Bits (ng_ran_ue_ngap_id i) 32, Ng_Bits (ucast (ng_amf_ue_ngap_id i AND 0xFFFFFFFF)) 32,
     Ng_Bits (ucast (drop_bit 32 (ng_amf_ue_ngap_id i))) 8]"

definition ngap_location_items :: "ngap_user_location \<Rightarrow> ngap_item list" where
  "ngap_location_items l = [Ng_Octets (ng_cgi_plmn_id (ng_nr_cgi l)), Ng_Bits (ng_cell_id (ng_nr_cgi l)) 36,
     Ng_Bits (ng_tai l) 24]"

definition ngap_nas_items :: "u8 list \<Rightarrow> ngap_item list" where
  "ngap_nas_items nas = Ng_Length (length nas) # (if nas \<noteq> [] then [Ng_Octets nas] else [])"

fun ngap_payload_items :: "ngap_payload \<Rightarrow> ngap_item list" where
  "ngap_payload_items (Ng_Setup_Request x) =
     [Ng_Octets (ng_gnb_plmn_id (ngs_global_gnb_id x)), Ng_Bits (ng_gnb_id (ngs_global_gnb_id x)) 32,
      Ng_Bits (word_of_nat (length (ngs_tai_list x))) 8] @
     concat (map (\<lambda>t. [Ng_Octets (ng_tai_plmn_id t), Ng_Bits (ng_tac t) 24]) (ngs_tai_list x)) @
     [Ng_Bits (ngs_default_paging_drx x) 4, Ng_Bits 0 4, Ng_Bits (ngs_max_ue_connections x) 16]"
| "ngap_payload_items (Ng_Initial_Ue x) = [Ng_Bits (ng_ran_ue_ngap_id (ngi_ue_ids x)) 32] @
     ngap_location_items (ngi_user_location x) @
     [Ng_Bits (ucast (ngi_rrc_establishment_cause x)) 4, Ng_Bits 0 4] @ ngap_nas_items (ngi_nas_pdu x)"
| "ngap_payload_items (Ng_Uplink_Nas x) = ngap_ids_items (ngu_ue_ids x) @
     ngap_location_items (ngu_user_location x) @ ngap_nas_items (ngu_nas_pdu x)"
| "ngap_payload_items (Ng_Release_Request x) = ngap_ids_items (ngr_ue_ids x) @
     [Ng_Bits (ng_cause_type (ngr_cause x)) 3, Ng_Bits (ng_cause_value (ngr_cause x)) 5]"
| "ngap_payload_items (Ng_Release_Complete x) = ngap_ids_items (ngc_ue_ids x) @
     ngap_location_items (ngc_user_location x)"
| "ngap_payload_items (Ng_Other t) = [Ng_Bits 0 8]"

text \<open>The counters do not point behind the arrays.\<close>

fun ngap_in_bounds :: "ngap_payload \<Rightarrow> bool" where
  "ngap_in_bounds (Ng_Setup_Request x) \<longleftrightarrow> length (ngs_tai_list x) \<le> NGAP_MAX_TAI"
| "ngap_in_bounds (Ng_Initial_Ue x) \<longleftrightarrow> length (ngi_nas_pdu x) \<le> ngap_nas_size"
| "ngap_in_bounds (Ng_Uplink_Nas x) \<longleftrightarrow> length (ngu_nas_pdu x) \<le> ngap_nas_size"
| "ngap_in_bounds _ \<longleftrightarrow> True"

text \<open>\<open>mem\<close> is what the allocated block holds, \<open>out\<close> says that both output pointers are there.\<close>

definition ngap_encode_message ::
  "os \<Rightarrow> u8 list \<Rightarrow> bool \<Rightarrow> ngap_message option \<Rightarrow> (uesim_error + u8 list) option" where
  "ngap_encode_message s mem out msg = (case msg of None \<Rightarrow> Some (Inl UESIM_ERROR_INVALID_PARAM) | Some m \<Rightarrow>
     if \<not> out then Some (Inl UESIM_ERROR_INVALID_PARAM) else
     let (r, p) = asn1_buffer_alloc s mem NGAP_MAX_MESSAGE_SIZE
       (Some \<lparr>ab_data = [], ab_size = 0, ab_capacity = 0, ab_offset = 0, own_data = False\<rparr>)
     in if r \<noteq> UESIM_SUCCESS then Some (Inl r)
        else if \<not> ngap_in_bounds (ng_payload m) then None
        else let p = fold ngap_put (ngap_header_items m @ ngap_payload_items (ng_payload m)) p in
          map_option (\<lambda>b. Inr (take (asn1_buffer_length p) (ab_data b))) p)"

section \<open>Decoding\<close>

definition ngap_type_of_procedure :: "u32 \<Rightarrow> u32" where
  "ngap_type_of_procedure c =
     (if c = ngap_proc_code NGAP_PROC_NG_SETUP then NGAP_MSG_NG_SETUP_REQUEST
      else if c = ngap_proc_code NGAP_PROC_INITIAL_UE then NGAP_MSG_INITIAL_UE_MESSAGE
      else if c = ngap_proc_code NGAP_PROC_UPLINK_NAS_TRANSPORT then NGAP_MSG_UPLINK_NAS_TRANSPORT
      else if c = ngap_proc_code NGAP_PROC_UE_CONTEXT_RELEASE_REQUEST then NGAP_MSG_UE_CONTEXT_RELEASE_REQUEST
      else if c = ngap_proc_code NGAP_PROC_INITIAL_CONTEXT_SETUP then NGAP_MSG_INITIAL_CONTEXT_SETUP_REQUEST
      else if c = ngap_proc_code NGAP_PROC_PDU_SESSION_SETUP then NGAP_MSG_PDU_SESSION_SETUP_REQUEST
      else if c = ngap_proc_code NGAP_PROC_HANDOVER_PREPARATION then NGAP_MSG_HANDOVER_REQUIRED
      else if c = ngap_proc_code NGAP_PROC_PATH_SWITCH_REQUEST then NGAP_MSG_PATH_SWITCH_REQUEST
      else NGAP_MSG_ERROR_INDICATION)"

text \<open>The rest of the message from an octet on, as far as the array of the structure takes it.\<close>

definition ngap_rest :: "u8 list \<Rightarrow> nat \<Rightarrow> u8 list" where
  "ngap_rest d o' = (if o' < length d then take ngap_nas_size (drop o' d) else [])"

text \<open>A cell identity of 36 bits: a read that fails leaves the variable as it is.\<close>

definition ngap_decode_cell :: "u32 \<Rightarrow> u32 reader" where
  "ngap_decode_cell junk d b = (case asn1_decode_bits (Some d) (Some b) True 36 of
     None \<Rightarrow> None | Some (Inl _) \<Rightarrow> Some (junk, b) | Some (Inr r) \<Rightarrow> Some r)"

definition ngap_decode_initial_ue :: "u32 \<Rightarrow> u8 list \<Rightarrow> nat \<Rightarrow> ngap_initial_ue_message option" where
  "ngap_decode_initial_ue junk d b = do {
     (ran_id, b) \<leftarrow> read_word 32 d b;
     (loc, b) \<leftarrow> (let b = align8 b; o' = b div 8 in
       if o' + 10 \<le> length d then do {
         (cell, b) \<leftarrow> ngap_decode_cell junk d ((o' + 3) * 8);
         (tac, b) \<leftarrow> read_word 24 d b;
         Some (zero_ng_location\<lparr>ng_nr_cgi := \<lparr>ng_cgi_plmn_id = take 3 (drop o' d), ng_cell_id = cell\<rparr>, ng_tai := tac\<rparr>, b) }
       else Some (zero_ng_location, b));
     (cause, b) \<leftarrow> read_word 4 d b;
     (spare :: u32, b) \<leftarrow> read_word 4 d b;
     Some (zero_ng_initial\<lparr>ngi_ue_ids := zero_ng_ids\<lparr>ng_ran_ue_ngap_id := ran_id\<rparr>, ngi_user_location := loc,
       ngi_rrc_establishment_cause := cause, ngi_nas_pdu := ngap_rest d (align8 b div 8)\<rparr>) }"

definition ngap_decode_uplink_nas :: "u8 list \<Rightarrow> nat \<Rightarrow> ngap_uplink_nas_transport option" where
  "ngap_decode_uplink_nas d b = do {
     (ran_id, b) \<leftarrow> read_word 32 d b;
     (lo, b) \<leftarrow> read_word 32 d b;
     (hi, b) \<leftarrow> read_word 8 d b;
     Some (zero_ng_uplink\<lparr>
       ngu_ue_ids := \<lparr>ng_ran_ue_ngap_id = ran_id, ng_amf_ue_ngap_id = push_bit 32 (ucast (hi :: u32)) OR ucast (lo :: u32)\<rparr>,
       ngu_nas_pdu := ngap_rest d (align8 b div 8 + 10)\<rparr>) }"

definition ngap_decode_payload :: "u32 \<Rightarrow> u32 \<Rightarrow> u8 list \<Rightarrow> nat \<Rightarrow> ngap_payload option" where
  "ngap_decode_payload junk t d b =
     (if t = NGAP_MSG_INITIAL_UE_MESSAGE then map_option Ng_Initial_Ue (ngap_decode_initial_ue junk d b)
      else if t = NGAP_MSG_UPLINK_NAS_TRANSPORT then map_option Ng_Uplink_Nas (ngap_decode_uplink_nas d b)
      else if t = NGAP_MSG_NG_SETUP_REQUEST then Some (Ng_Setup_Request zero_ng_setup)
      else if t = NGAP_MSG_UE_CONTEXT_RELEASE_REQUEST then Some (Ng_Release_Request zero_ng_release)
      else Some (Ng_Other t))"

definition ngap_read_message :: "u32 \<Rightarrow> u8 list \<Rightarrow> ngap_message option" where
  "ngap_read_message junk d = do {
     (proc, b) \<leftarrow> read_word 8 d 0;
     (crit, b) \<leftarrow> read_word 2 d b;
     (spare :: u32, b) \<leftarrow> read_word 6 d b;
     (trans, b) \<leftarrow> read_word 8 d b;
     y \<leftarrow> ngap_decode_payload junk (ngap_type_of_procedure proc) d (align8 b);
     Some \<lparr>ng_procedure_code = proc, ng_criticality = crit, ng_transaction_id = trans, ng_payload = y\<rparr> }"

definition ngap_decode_message :: "u32 \<Rightarrow> u8 list option \<Rightarrow> bool \<Rightarrow> (uesim_error + ngap_message) option" where
  "ngap_decode_message junk d out = (case d of None \<Rightarrow> Some (Inl UESIM_ERROR_INVALID_PARAM) | Some x \<Rightarrow>
     if length x < 4 \<or> \<not> out then Some (Inl UESIM_ERROR_INVALID_PARAM) else map_option Inr (ngap_read_message junk x))"

definition ngap_free_message :: "ngap_message option \<Rightarrow> uesim_error \<times> ngap_message option" where
  "ngap_free_message p = with_ptr p (\<lambda>m. (UESIM_SUCCESS, m))"

section \<open>Messages of the base station\<close>

definition ngap_create_ng_setup_request ::
  "ngap_global_gnb_id option \<Rightarrow> ngap_message option \<Rightarrow> uesim_error \<times> ngap_message option" where
  "ngap_create_ng_setup_request gnb p = (case gnb of None \<Rightarrow> (UESIM_ERROR_INVALID_PARAM, p) | Some g \<Rightarrow>
     with_ptr p (\<lambda>_. (UESIM_SUCCESS, \<lparr>ng_procedure_code = ngap_proc_code NGAP_PROC_NG_SETUP, ng_criticality = 0,
       ng_transaction_id = 0, ng_payload = Ng_Setup_Request (zero_ng_setup\<lparr>ngs_global_gnb_id := g,
         ngs_tai_list := [zero_ng_tai], ngs_default_paging_drx := 1, ngs_max_ue_connections := 1000\<rparr>)\<rparr>)))"

definition ngap_nas_copy :: "u8 list option \<Rightarrow> u8 list" where
  "ngap_nas_copy nas = (case nas of None \<Rightarrow> [] | Some x \<Rightarrow> take ngap_nas_size x)"

definition ngap_create_initial_ue_message ::
  "u32 \<Rightarrow> u8 list option \<Rightarrow> ngap_message option \<Rightarrow> uesim_error \<times> ngap_message option" where
  "ngap_create_initial_ue_message ran_id nas p = with_ptr p (\<lambda>_. (UESIM_SUCCESS,
     \<lparr>ng_procedure_code = ngap_proc_code NGAP_PROC_INITIAL_UE, ng_criticality = 0, ng_transaction_id = ran_id AND 0xFF,
      ng_payload = Ng_Initial_Ue (zero_ng_initial\<lparr>ngi_ue_ids := zero_ng_ids\<lparr>ng_ran_ue_ngap_id := ran_id\<rparr>,
        ngi_rrc_establishment_cause := 2, ngi_ue_context_request := 1, ngi_nas_pdu := ngap_nas_copy nas\<rparr>)\<rparr>))"

definition ngap_create_uplink_nas_transport ::
  "u32 \<Rightarrow> u64 \<Rightarrow> u8 list option \<Rightarrow> ngap_message option \<Rightarrow> uesim_error \<times> ngap_message option" where
  "ngap_create_uplink_nas_transport ran_id amf nas p = with_ptr p (\<lambda>_. (UESIM_SUCCESS,
     \<lparr>ng_procedure_code = ngap_proc_code NGAP_PROC_UPLINK_NAS_TRANSPORT, ng_criticality = 0,
      ng_transaction_id = ran_id AND 0xFF, ng_payload = Ng_Uplink_Nas (zero_ng_uplink\<lparr>
        ngu_ue_ids := \<lparr>ng_ran_ue_ngap_id = ran_id, ng_amf_ue_ngap_id = amf\<rparr>, ngu_nas_pdu := ngap_nas_copy nas\<rparr>)\<rparr>))"

definition ngap_create_ue_context_release_request ::
  "u32 \<Rightarrow> u64 \<Rightarrow> ngap_cause \<Rightarrow> ngap_message option \<Rightarrow> uesim_error \<times> ngap_message option" where
  "ngap_create_ue_context_release_request ran_id amf cause p = with_ptr p (\<lambda>_. (UESIM_SUCCESS,
     \<lparr>ng_procedure_code = ngap_proc_code NGAP_PROC_UE_CONTEXT_RELEASE_REQUEST, ng_criticality = 0,
      ng_transaction_id = ran_id AND 0xFF, ng_payload = Ng_Release_Request
        \<lparr>ngr_ue_ids = \<lparr>ng_ran_ue_ngap_id = ran_id, ng_amf_ue_ngap_id = amf\<rparr>, ngr_cause = cause\<rparr>\<rparr>))"

end
