(* ===== verification/Ngap_Validation.thy ===== *)
theory Ngap_Validation
  imports Prelude
begin

text \<open>
  The checks of received messages of the core network (\<^verbatim>\<open>src/protocol/ngap_validation.c\<close>). The header of this
  file numbers the types of the messages in its own way, so that its constants begin with \<open>NGV_\<close>. The
  pointer to the octets and their number are one list; a null context is \<open>None\<close>, and a result \<open>None\<close> is
  a write through it. The configuration is a variable of the file: an argument.
\<close>

section \<open>Constants and structures\<close>

definition NGAP_MAX_PDU_SIZE :: nat where "NGAP_MAX_PDU_SIZE = 65535"
definition NGAP_MIN_HEADER_SIZE :: nat where "NGAP_MIN_HEADER_SIZE = 4"
definition NGAP_MAX_NESTED_IES :: nat where "NGAP_MAX_NESTED_IES = 16"

datatype ngap_validation_result = NGAP_VALIDATION_OK | NGAP_VALIDATION_ERROR_LENGTH
  | NGAP_VALIDATION_ERROR_MANDATORY_IE | NGAP_VALIDATION_ERROR_VALUE_RANGE | NGAP_VALIDATION_ERROR_CRITICALITY
  | NGAP_VALIDATION_ERROR_PROCEDURE_CODE | NGAP_VALIDATION_ERROR_MESSAGE_TYPE | NGAP_VALIDATION_ERROR_IE_LENGTH
  | NGAP_VALIDATION_ERROR_IE_TYPE | NGAP_VALIDATION_ERROR_NULL_POINTER | NGAP_VALIDATION_ERROR_BUFFER_TOO_SMALL
  | NGAP_VALIDATION_ERROR_ENCODING | NGAP_VALIDATION_ERROR_SEQUENCE

definition NGV_MSG_ERROR_INDICATION :: u8 where "NGV_MSG_ERROR_INDICATION = 0"
definition NGV_MSG_RESET :: u8 where "NGV_MSG_RESET = 1"
definition NGV_MSG_NG_SETUP_REQUEST :: u8 where "NGV_MSG_NG_SETUP_REQUEST = 21"
definition NGV_MSG_NG_SETUP_RESPONSE :: u8 where "NGV_MSG_NG_SETUP_RESPONSE = 22"
definition NGV_MSG_INITIAL_UE_MESSAGE :: u8 where "NGV_MSG_INITIAL_UE_MESSAGE = 25"
definition NGV_MSG_INITIAL_CONTEXT_SETUP_REQUEST :: u8 where "NGV_MSG_INITIAL_CONTEXT_SETUP_REQUEST = 26"
definition NGV_MSG_PDU_SESSION_SETUP_REQUEST :: u8 where "NGV_MSG_PDU_SESSION_SETUP_REQUEST = 32"

lemmas ngv_types = NGV_MSG_ERROR_INDICATION_def NGV_MSG_RESET_def NGV_MSG_NG_SETUP_REQUEST_def
  NGV_MSG_NG_SETUP_RESPONSE_def NGV_MSG_INITIAL_UE_MESSAGE_def NGV_MSG_INITIAL_CONTEXT_SETUP_REQUEST_def
  NGV_MSG_PDU_SESSION_SETUP_REQUEST_def

datatype ngap_criticality = NGAP_CRITICALITY_REJECT | NGAP_CRITICALITY_IGNORE | NGAP_CRITICALITY_NOTIFY

fun ngap_criticality_code :: "ngap_criticality \<Rightarrow> u8" where
  "ngap_criticality_code NGAP_CRITICALITY_REJECT = 0"
| "ngap_criticality_code NGAP_CRITICALITY_IGNORE = 1"
| "ngap_criticality_code NGAP_CRITICALITY_NOTIFY = 2"

text \<open>The identities of the information elements that the file uses.\<close>

definition NGAP_IE_GLOBAL_RAN_NODE_ID :: u32 where "NGAP_IE_GLOBAL_RAN_NODE_ID = 0"
definition NGAP_IE_GLOBAL_GNB_ID :: u32 where "NGAP_IE_GLOBAL_GNB_ID = 1"
definition NGAP_IE_GNB_NAME :: u32 where "NGAP_IE_GNB_NAME = 2"
definition NGAP_IE_TAI :: u32 where "NGAP_IE_TAI = 3"
definition NGAP_IE_AMF_NAME :: u32 where "NGAP_IE_AMF_NAME = 14"
definition NGAP_IE_AMF_REGION_ID :: u32 where "NGAP_IE_AMF_REGION_ID = 15"
definition NGAP_IE_AMF_SET_ID :: u32 where "NGAP_IE_AMF_SET_ID = 16"
definition NGAP_IE_GUAMI :: u32 where "NGAP_IE_GUAMI = 18"
definition NGAP_IE_RAN_UE_NGAP_ID :: u32 where "NGAP_IE_RAN_UE_NGAP_ID = 66"
definition NGAP_IE_AMF_UE_NGAP_ID :: u32 where "NGAP_IE_AMF_UE_NGAP_ID = 10"
definition NGAP_IE_USER_LOCATION_INFORMATION :: u32 where "NGAP_IE_USER_LOCATION_INFORMATION = 67"
definition NGAP_IE_CAUSE :: u32 where "NGAP_IE_CAUSE = 200"
definition NGAP_IE_NAS_PDU :: u32 where "NGAP_IE_NAS_PDU = 201"
definition NGAP_IE_PDU_SESSION_ID :: u32 where "NGAP_IE_PDU_SESSION_ID = 215"
definition NGAP_IE_PDU_SESSION_TYPE :: u32 where "NGAP_IE_PDU_SESSION_TYPE = 216"
definition NGAP_IE_PDU_ADDRESS :: u32 where "NGAP_IE_PDU_ADDRESS = 217"
definition NGAP_IE_QOS_FLOW_IDENTIFIER :: u32 where "NGAP_IE_QOS_FLOW_IDENTIFIER = 302"

lemmas ngap_ies = NGAP_IE_GLOBAL_RAN_NODE_ID_def NGAP_IE_GLOBAL_GNB_ID_def NGAP_IE_GNB_NAME_def NGAP_IE_TAI_def
  NGAP_IE_AMF_NAME_def NGAP_IE_AMF_REGION_ID_def NGAP_IE_AMF_SET_ID_def NGAP_IE_GUAMI_def NGAP_IE_RAN_UE_NGAP_ID_def
  NGAP_IE_AMF_UE_NGAP_ID_def NGAP_IE_USER_LOCATION_INFORMATION_def NGAP_IE_CAUSE_def NGAP_IE_NAS_PDU_def
  NGAP_IE_PDU_SESSION_ID_def NGAP_IE_PDU_SESSION_TYPE_def NGAP_IE_PDU_ADDRESS_def NGAP_IE_QOS_FLOW_IDENTIFIER_def

text \<open>The message is the list of its characters before the terminating zero.\<close>

record ngap_validation_context =
  nv_result :: ngap_validation_result
  nv_error_ie_id :: u32
  nv_error_ie_offset :: u16
  nv_error_message :: string
  nv_validated_bytes :: u32
  nv_ie_count :: u8
  nv_nested_depth :: u8

record ngap_validation_config =
  nv_check_mandatory_ie :: bool
  nv_check_criticality :: bool
  nv_check_value_ranges :: bool
  nv_strict_mode :: bool
  nv_allow_unknown_ie :: bool
  nv_max_message_size :: u32
  nv_max_nested_depth :: u8

definition zero_ngap_config :: ngap_validation_config where
  "zero_ngap_config = \<lparr>nv_check_mandatory_ie = False, nv_check_criticality = False, nv_check_value_ranges = False,
     nv_strict_mode = False, nv_allow_unknown_ie = False, nv_max_message_size = 0, nv_max_nested_depth = 0\<rparr>"

definition zero_ngap_context :: ngap_validation_context where
  "zero_ngap_context = \<lparr>nv_result = NGAP_VALIDATION_OK, nv_error_ie_id = 0, nv_error_ie_offset = 0,
     nv_error_message = [], nv_validated_bytes = 0, nv_ie_count = 0, nv_nested_depth = 0\<rparr>"

section \<open>The module\<close>

text \<open>The state is the configuration and the flag that it has been set.\<close>

definition ngap_validation_get_default_config :: "ngap_validation_config option \<Rightarrow> ngap_validation_config option" where
  "ngap_validation_get_default_config p = map_option (\<lambda>_. \<lparr>nv_check_mandatory_ie = True, nv_check_criticality = True,
     nv_check_value_ranges = True, nv_strict_mode = False, nv_allow_unknown_ie = True,
     nv_max_message_size = word_of_nat NGAP_MAX_PDU_SIZE, nv_max_nested_depth = word_of_nat NGAP_MAX_NESTED_IES\<rparr>) p"

definition ngap_validation_init ::
  "ngap_validation_config option \<Rightarrow> ngap_validation_config \<times> bool \<Rightarrow> ngap_validation_result \<times> ngap_validation_config \<times> bool" where
  "ngap_validation_init p st = (NGAP_VALIDATION_OK,
     (case p of Some g \<Rightarrow> g | None \<Rightarrow> the (ngap_validation_get_default_config (Some (fst st)))), True)"

definition ngap_validation_cleanup :: "ngap_validation_config \<times> bool \<Rightarrow> ngap_validation_config \<times> bool" where
  "ngap_validation_cleanup st = (zero_ngap_config, False)"

section \<open>The context\<close>

definition ngap_validation_context_init :: "ngap_validation_context option \<Rightarrow> ngap_validation_context option" where
  "ngap_validation_context_init p = map_option (\<lambda>_. zero_ngap_context) p"

definition ngap_validation_set_error :: "ngap_validation_result \<Rightarrow> u32 \<Rightarrow> string option \<Rightarrow>
    ngap_validation_context option \<Rightarrow> ngap_validation_context option" where
  "ngap_validation_set_error r ie msg p = map_option (\<lambda>c. (case msg of
       None \<Rightarrow> (\<lambda>c. c) | Some m \<Rightarrow> (\<lambda>c. c\<lparr>nv_error_message := take 127 m\<rparr>))
     (c\<lparr>nv_result := r, nv_error_ie_id := ie\<rparr>)) p"

abbreviation ngap_refuse :: "ngap_validation_result \<Rightarrow> string \<Rightarrow> ngap_validation_context option \<Rightarrow>
    ngap_validation_result \<times> ngap_validation_context option" where
  "ngap_refuse r msg p \<equiv> (r, ngap_validation_set_error r 0 (Some msg) p)"

text \<open>Without a context a local one is filled and forgotten.\<close>

definition with_ngap_context :: "ngap_validation_context option \<Rightarrow>
    (ngap_validation_context option \<Rightarrow> (ngap_validation_result \<times> ngap_validation_context option) option) \<Rightarrow>
    (ngap_validation_result \<times> ngap_validation_context option) option" where
  "with_ngap_context p f = (case p of
     None \<Rightarrow> map_option (\<lambda>(r, _). (r, None)) (f (Some zero_ngap_context)) | Some c \<Rightarrow> f (Some c))"

section \<open>Information elements\<close>

text \<open>The scan looks at every fourth octet.\<close>

fun ngap_scan :: "u8 list \<Rightarrow> u32 \<Rightarrow> bool" where
  "ngap_scan (a # b # c # d # rest) ie \<longleftrightarrow> ucast a OR push_bit 8 (ucast b) = ie \<or> ngap_scan rest ie"
| "ngap_scan _ ie \<longleftrightarrow> False"

definition ngap_validate_mandatory_ie :: "u8 list option \<Rightarrow> u32 \<Rightarrow> ngap_validation_context option \<Rightarrow>
    ngap_validation_result \<times> ngap_validation_context option" where
  "ngap_validate_mandatory_ie d ie p = (case d of
     None \<Rightarrow> (NGAP_VALIDATION_ERROR_NULL_POINTER, p)
   | Some x \<Rightarrow> if ngap_scan x ie then (NGAP_VALIDATION_OK, p)
       else (NGAP_VALIDATION_ERROR_MANDATORY_IE,
         ngap_validation_set_error NGAP_VALIDATION_ERROR_MANDATORY_IE ie (Some ''Mandatory IE not found'') p))"

text \<open>One element after the other, up to the first that is missing.\<close>

fun ngap_validate_ies :: "u8 list option \<Rightarrow> u32 list \<Rightarrow> ngap_validation_context option \<Rightarrow>
    ngap_validation_result \<times> ngap_validation_context option" where
  "ngap_validate_ies d [] p = (NGAP_VALIDATION_OK, p)"
| "ngap_validate_ies d (ie # ies) p = (case ngap_validate_mandatory_ie d ie p of (r, q) \<Rightarrow>
     if r \<noteq> NGAP_VALIDATION_OK then (r, q) else ngap_validate_ies d ies q)"

definition ngap_validate_criticality :: "u8 \<Rightarrow> ngap_validation_context option \<Rightarrow>
    ngap_validation_result \<times> ngap_validation_context option" where
  "ngap_validate_criticality c p =
     (if c \<in> ngap_criticality_code ` {NGAP_CRITICALITY_REJECT, NGAP_CRITICALITY_IGNORE, NGAP_CRITICALITY_NOTIFY}
      then (NGAP_VALIDATION_OK, p)
      else ngap_refuse NGAP_VALIDATION_ERROR_CRITICALITY ''Invalid criticality value'' p)"

definition ngap_validate_ie_length :: "u16 \<Rightarrow> u16 \<Rightarrow> u16 \<Rightarrow> u16 \<Rightarrow> ngap_validation_result" where
  "ngap_validate_ie_length actual expected lo hi =
     (if expected > 0 then (if actual \<noteq> expected then NGAP_VALIDATION_ERROR_IE_LENGTH else NGAP_VALIDATION_OK)
      else if actual < lo \<or> actual > hi then NGAP_VALIDATION_ERROR_IE_LENGTH else NGAP_VALIDATION_OK)"

section \<open>Messages\<close>

text \<open>
  What the checks of the messages share: at least \<open>lo\<close> octets, the mandatory elements when the
  configuration asks for them, and the number of octets written to the context.
\<close>

definition ngap_validate_body :: "nat \<Rightarrow> string \<Rightarrow> u32 list \<Rightarrow> ngap_validation_config \<Rightarrow> u8 list option \<Rightarrow>
    ngap_validation_context option \<Rightarrow> (ngap_validation_result \<times> ngap_validation_context option) option" where
  "ngap_validate_body lo msg ies g d p = (case d of
     None \<Rightarrow> Some (ngap_refuse NGAP_VALIDATION_ERROR_LENGTH msg p)
   | Some x \<Rightarrow> if length x < lo then Some (ngap_refuse NGAP_VALIDATION_ERROR_LENGTH msg p)
       else case (if nv_check_mandatory_ie g then ngap_validate_ies d ies p else (NGAP_VALIDATION_OK, p)) of (r, q) \<Rightarrow>
         if r \<noteq> NGAP_VALIDATION_OK then Some (r, q)
         else map_option (\<lambda>c. (NGAP_VALIDATION_OK, Some (c\<lparr>nv_validated_bytes := word_of_nat (length x)\<rparr>))) q)"

type_synonym ngap_check = "ngap_validation_config \<Rightarrow> u8 list option \<Rightarrow> ngap_validation_context option \<Rightarrow>
    (ngap_validation_result \<times> ngap_validation_context option) option"

definition ngap_validate_ng_setup_request :: ngap_check where
  "ngap_validate_ng_setup_request = ngap_validate_body 10 ''NG Setup Request too short'' [NGAP_IE_GLOBAL_RAN_NODE_ID]"

definition ngap_validate_ng_setup_response :: ngap_check where
  "ngap_validate_ng_setup_response = ngap_validate_body 10 ''NG Setup Response too short'' [NGAP_IE_AMF_NAME]"

definition ngap_validate_initial_ue_message :: ngap_check where
  "ngap_validate_initial_ue_message =
     ngap_validate_body 20 ''Initial UE Message too short'' [NGAP_IE_RAN_UE_NGAP_ID, NGAP_IE_NAS_PDU]"

definition ngap_validate_initial_context_setup_request :: ngap_check where
  "ngap_validate_initial_context_setup_request = ngap_validate_body 30 ''Initial Context Setup Request too short''
     [NGAP_IE_AMF_UE_NGAP_ID, NGAP_IE_RAN_UE_NGAP_ID]"

definition ngap_validate_pdu_session_setup_request :: ngap_check where
  "ngap_validate_pdu_session_setup_request = ngap_validate_body 20 ''PDU Session Setup Request too short''
     [NGAP_IE_AMF_UE_NGAP_ID, NGAP_IE_RAN_UE_NGAP_ID, NGAP_IE_PDU_SESSION_ID]"

definition ngap_validate_error_indication :: ngap_check where
  "ngap_validate_error_indication = ngap_validate_body 10 ''Error Indication too short'' [NGAP_IE_CAUSE]"

section \<open>The protocol data unit\<close>

definition ngap_is_valid_message_type :: "u8 \<Rightarrow> bool" where
  "ngap_is_valid_message_type t \<longleftrightarrow> t \<le> 2 \<or> (t \<ge> 21 \<and> t \<le> 41)"

definition ngap_is_valid_procedure_code :: "u8 \<Rightarrow> bool" where
  "ngap_is_valid_procedure_code c \<longleftrightarrow> c \<le> 2 \<or> (c \<ge> 21 \<and> c \<le> 41)"

definition ngap_get_min_message_length :: "u8 \<Rightarrow> nat" where
  "ngap_get_min_message_length t =
     (if t = NGV_MSG_NG_SETUP_REQUEST then 20
      else if t = NGV_MSG_NG_SETUP_RESPONSE then 20
      else if t = NGV_MSG_INITIAL_UE_MESSAGE then 30
      else if t = NGV_MSG_INITIAL_CONTEXT_SETUP_REQUEST then 50
      else if t = NGV_MSG_PDU_SESSION_SETUP_REQUEST then 40
      else if t = NGV_MSG_ERROR_INDICATION then 15
      else if t = NGV_MSG_RESET then 10
      else NGAP_MIN_HEADER_SIZE)"

definition ngap_validate_pdu_header :: "u8 list option \<Rightarrow> ngap_validation_context option \<Rightarrow>
    (ngap_validation_result \<times> ngap_validation_context option) option" where
  "ngap_validate_pdu_header d p = with_ngap_context p (\<lambda>p. case d of
     None \<Rightarrow> Some (ngap_refuse NGAP_VALIDATION_ERROR_NULL_POINTER ''NULL data pointer'' p)
   | Some x \<Rightarrow>
       if length x < NGAP_MIN_HEADER_SIZE
       then Some (ngap_refuse NGAP_VALIDATION_ERROR_BUFFER_TOO_SMALL ''Buffer too small for header'' p)
       else if x ! 0 \<noteq> 0
       then Some (ngap_refuse NGAP_VALIDATION_ERROR_MESSAGE_TYPE ''Invalid NGAP discriminator'' p)
       else map_option (\<lambda>c. (NGAP_VALIDATION_OK, Some (c\<lparr>nv_validated_bytes := 4, nv_ie_count := 0\<rparr>))) p)"

definition ngap_validate_message :: "u8 \<Rightarrow> ngap_validation_config \<Rightarrow> u8 list \<Rightarrow> ngap_validation_context option \<Rightarrow>
    (ngap_validation_result \<times> ngap_validation_context option) option" where
  "ngap_validate_message t g x p = (let y = Some (drop 4 x) in
     if t = NGV_MSG_NG_SETUP_REQUEST then ngap_validate_ng_setup_request g y p
     else if t = NGV_MSG_NG_SETUP_RESPONSE then ngap_validate_ng_setup_response g y p
     else if t = NGV_MSG_INITIAL_UE_MESSAGE then ngap_validate_initial_ue_message g y p
     else if t = NGV_MSG_INITIAL_CONTEXT_SETUP_REQUEST then ngap_validate_initial_context_setup_request g y p
     else if t = NGV_MSG_PDU_SESSION_SETUP_REQUEST then ngap_validate_pdu_session_setup_request g y p
     else if t = NGV_MSG_ERROR_INDICATION then ngap_validate_error_indication g y p
     else map_option (\<lambda>c. (NGAP_VALIDATION_OK, Some (c\<lparr>nv_validated_bytes := word_of_nat (length x)\<rparr>))) p)"

definition ngap_validate_pdu :: ngap_check where
  "ngap_validate_pdu g d p = with_ngap_context p (\<lambda>p. case d of
     None \<Rightarrow> Some (ngap_refuse NGAP_VALIDATION_ERROR_NULL_POINTER ''NULL data pointer'' p)
   | Some x \<Rightarrow>
       if length x > unat (nv_max_message_size g)
       then Some (ngap_refuse NGAP_VALIDATION_ERROR_LENGTH ''Message exceeds max size'' p)
       else case ngap_validate_pdu_header d p of
         None \<Rightarrow> None
       | Some (r, q) \<Rightarrow>
           if r \<noteq> NGAP_VALIDATION_OK then Some (r, q)
           else if \<not> ngap_is_valid_procedure_code (x ! 1)
           then Some (ngap_refuse NGAP_VALIDATION_ERROR_PROCEDURE_CODE ''Invalid procedure code'' q)
           else if length x < ngap_get_min_message_length (x ! 2)
           then Some (ngap_refuse NGAP_VALIDATION_ERROR_LENGTH ''Message shorter than minimum'' q)
           else ngap_validate_message (x ! 2) g x q)"

definition ngap_validate_pdu_length :: "nat \<Rightarrow> u8 \<Rightarrow> ngap_validation_result" where
  "ngap_validate_pdu_length len t =
     (if len < ngap_get_min_message_length t then NGAP_VALIDATION_ERROR_LENGTH
      else if len > NGAP_MAX_PDU_SIZE then NGAP_VALIDATION_ERROR_LENGTH else NGAP_VALIDATION_OK)"

section \<open>Names\<close>

fun ngap_validation_result_to_string :: "ngap_validation_result \<Rightarrow> string" where
  "ngap_validation_result_to_string NGAP_VALIDATION_OK = ''OK''"
| "ngap_validation_result_to_string NGAP_VALIDATION_ERROR_LENGTH = ''Length error''"
| "ngap_validation_result_to_string NGAP_VALIDATION_ERROR_MANDATORY_IE = ''Mandatory IE missing''"
| "ngap_validation_result_to_string NGAP_VALIDATION_ERROR_VALUE_RANGE = ''Value out of range''"
| "ngap_validation_result_to_string NGAP_VALIDATION_ERROR_CRITICALITY = ''Criticality error''"
| "ngap_validation_result_to_string NGAP_VALIDATION_ERROR_PROCEDURE_CODE = ''Invalid procedure code''"
| "ngap_validation_result_to_string NGAP_VALIDATION_ERROR_MESSAGE_TYPE = ''Invalid message type''"
| "ngap_validation_result_to_string NGAP_VALIDATION_ERROR_IE_LENGTH = ''IE length error''"
| "ngap_validation_result_to_string NGAP_VALIDATION_ERROR_IE_TYPE = ''Invalid IE type''"
| "ngap_validation_result_to_string NGAP_VALIDATION_ERROR_NULL_POINTER = ''NULL pointer''"
| "ngap_validation_result_to_string NGAP_VALIDATION_ERROR_BUFFER_TOO_SMALL = ''Buffer too small''"
| "ngap_validation_result_to_string NGAP_VALIDATION_ERROR_ENCODING = ''Encoding error''"
| "ngap_validation_result_to_string NGAP_VALIDATION_ERROR_SEQUENCE = ''Sequence error''"

definition ngap_ie_id_to_string :: "u32 \<Rightarrow> string" where
  "ngap_ie_id_to_string ie = (case map_of
     [(NGAP_IE_GLOBAL_RAN_NODE_ID, ''Global RAN Node ID''), (NGAP_IE_GLOBAL_GNB_ID, ''Global gNB ID''),
      (NGAP_IE_GNB_NAME, ''gNB Name''), (NGAP_IE_TAI, ''TAI''), (NGAP_IE_AMF_NAME, ''AMF Name''),
      (NGAP_IE_AMF_REGION_ID, ''AMF Region ID''), (NGAP_IE_AMF_SET_ID, ''AMF Set ID''), (NGAP_IE_GUAMI, ''GUAMI''),
      (NGAP_IE_RAN_UE_NGAP_ID, ''RAN UE NGAP ID''), (NGAP_IE_AMF_UE_NGAP_ID, ''AMF UE NGAP ID''),
      (NGAP_IE_USER_LOCATION_INFORMATION, ''User Location Information''), (NGAP_IE_CAUSE, ''Cause''),
      (NGAP_IE_NAS_PDU, ''NAS PDU''), (NGAP_IE_PDU_SESSION_ID, ''PDU Session ID''),
      (NGAP_IE_PDU_SESSION_TYPE, ''PDU Session Type''), (NGAP_IE_PDU_ADDRESS, ''PDU Address''),
      (NGAP_IE_QOS_FLOW_IDENTIFIER, ''QoS Flow Identifier'')] ie of None \<Rightarrow> ''Unknown IE'' | Some s \<Rightarrow> s)"

end
