(* ===== verification/Ngap_Proofs.thy ===== *)
theory Ngap_Proofs
  imports Ngap Ngap_Validation
begin

text \<open>
  Proofs about the messages of the core network: the writes of an encoder as fields of a zeroed block, what the
  decoder finds in an encoded message, and the checks of received messages.
\<close>

section \<open>Octet strings are fields of eight bits\<close>

lemma bit_position: "x < 8 \<Longrightarrow> (8 * i + x) div 8 = i \<and> (8 * i + x) mod 8 = (x :: nat)"
  by simp

lemma put_bits_own: "own_data (snd (put_bits v n b)) = own_data b"
  by (induction v n b rule: put_bits.induct) (auto simp: Let_def)

lemma buf_eqI:
  assumes "buf_ok b" and "buf_ok c" and "stream b = stream c" and "ab_offset b = ab_offset c"
    and "ab_capacity b = ab_capacity c" and "length (ab_data b) = ab_capacity b" and "length (ab_data c) = ab_capacity c"
    and "ab_size b = ab_size c" and "own_data b = own_data c"
  shows "b = c"
proof -
  have at: "bit_at (ab_data b) k = bit_at (ab_data c) k" if "k < 8 * ab_capacity b" for k
  proof (cases "k < ab_offset b")
    case True
    then have "stream b ! k = bit_at (ab_data b) k" "stream c ! k = bit_at (ab_data c) k"
      using assms(4) by (simp_all add: stream_def)
    with assms(3) show ?thesis by simp
  next
    case False
    with that assms(1,2,4,5) show ?thesis by (simp add: buf_ok_def)
  qed
  have "bit (ab_data b ! i) j = bit (ab_data c ! i) j" if "i < ab_capacity b" "j < 8" for i j
  proof -
    have p: "(8 * i + (7 - j)) div 8 = i" "7 - (8 * i + (7 - j)) mod 8 = j" "8 * i + (7 - j) < 8 * ab_capacity b"
      using bit_position [of "7 - j" i] that by simp_all
    show ?thesis using at [OF p(3)] unfolding bit_at_def p(1,2) .
  qed
  then have "ab_data b = ab_data c" using assms(5-7) by (auto intro!: nth_equalityI bit_word_eqI)
  with assms show ?thesis by (cases b; cases c) simp
qed

lemma put_octet:
  assumes "buf_ok b" and "ab_offset b = 8 * k" and "k < ab_capacity b" and "length (ab_data b) = ab_capacity b"
  shows "put_bits (ucast c) 8 b =
    (UESIM_SUCCESS, b\<lparr>ab_data := (ab_data b)[k := c], ab_offset := 8 * k + 8, ab_size := k + 1\<rparr>)"
proof -
  let ?r = "b\<lparr>ab_data := (ab_data b)[k := c], ab_offset := 8 * k + 8, ab_size := k + 1\<rparr>"
  from put_bits_ok [OF assms(1), of 8 "ucast c"] assms(2,3) obtain b' where b': "put_bits (ucast c) 8 b = (UESIM_SUCCESS, b')"
    "buf_ok b'" "stream b' = stream b @ field_bits (ucast c, 8)" "ab_offset b' = 8 * k + 8"
    "ab_capacity b' = ab_capacity b" "length (ab_data b') = length (ab_data b)" "ab_size b' = k + 1" by auto
  have at: "bit_at ((ab_data b)[k := c]) j = (if j div 8 = k then bit c (7 - j mod 8) else bit_at (ab_data b) j)" for j
    using assms(3,4) by (simp add: bit_at_def nth_list_update)
  have "buf_ok ?r" using assms by (auto simp: buf_ok_def at)
  moreover have "stream ?r = stream b @ field_bits (ucast c, 8)"
  proof (rule nth_equalityI)
    fix j assume "j < length (stream ?r)"
    then have j: "j < 8 * k + 8" by (simp add: stream_def)
    show "stream ?r ! j = (stream b @ field_bits (ucast c, 8)) ! j"
    proof (cases "j < 8 * k")
      case True
      then have "j div 8 \<noteq> k" by auto
      with True show ?thesis using assms(2) by (simp add: stream_def nth_append at)
    next
      case False
      with j have d: "j div 8 = k" "j mod 8 = j - 8 * k" "j - 8 * k < 8" "7 + 8 * k - j < 32"
        using bit_position [of "j - 8 * k" k] by simp_all
      with False j show ?thesis using assms(2)
        by (simp add: stream_def nth_append at field_bits_def bit_ucast_iff del: upt_Suc)
    qed
  qed (use assms(2) in \<open>simp add: stream_def\<close>)
  ultimately have "b' = ?r"
    using b' assms put_bits_own [of "ucast c" 8 b] by (intro buf_eqI) simp_all
  with b'(1) show ?thesis by simp
qed

lemma blit_Cons: "k < length buf \<Longrightarrow> blit (buf[k := c]) (Suc k) cs = blit buf k (c # cs)"
  by (simp add: blit_def take_Suc_conv_app_nth drop_update_cancel)

text \<open>The state of the block between two items.\<close>

definition ngap_buf :: "nat \<Rightarrow> asn1_buffer \<Rightarrow> bool" where
  "ngap_buf k b \<longleftrightarrow> buf_ok b \<and> length (ab_data b) = ab_capacity b \<and> ab_offset b = k \<and> ab_size b = (k + 7) div 8"

lemma put_bits_state: "ngap_buf k b \<Longrightarrow> k + n \<le> 8 * ab_capacity b \<Longrightarrow>
    ngap_buf (k + n) (snd (put_bits v n b)) \<and> fst (put_bits v n b) = UESIM_SUCCESS"
  using put_bits_ok [of b n v] by (auto simp: ngap_buf_def)

lemma put_copy_octets: "ngap_buf (8 * k) b \<Longrightarrow> k + length bs \<le> ab_capacity b \<Longrightarrow>
    put_copy (Some bs) (length bs) b = (UESIM_SUCCESS, emit (octet_fields bs) b)"
proof (induction bs arbitrary: b k)
  case Nil
  then show ?case by (simp add: put_copy_def ngap_buf_def blit_def octet_fields_def)
next
  case (Cons c cs)
  let ?b = "b\<lparr>ab_data := (ab_data b)[k := c], ab_offset := 8 * k + 8, ab_size := k + 1\<rparr>"
  have b: "buf_ok b" "length (ab_data b) = ab_capacity b" "ab_offset b = 8 * k" "ab_size b = k" "k < ab_capacity b"
    using Cons.prems by (simp_all add: ngap_buf_def)
  have p: "put_bits (ucast c) 8 b = (UESIM_SUCCESS, ?b)" by (rule put_octet [OF b(1,3,5,2)])
  have "ngap_buf (8 * (k + 1)) ?b"
    using put_bits_state [OF Cons.prems(1), of 8 "ucast c"] b(5) by (simp add: p algebra_simps)
  from Cons.IH [OF this] Cons.prems(2)
  have "put_copy (Some cs) (length cs) ?b = (UESIM_SUCCESS, emit (octet_fields cs) ?b)" by simp
  moreover have "put_copy (Some (c # cs)) (length (c # cs)) b = put_copy (Some cs) (length cs) ?b"
    using b Cons.prems(2) by (simp add: put_copy_def blit_Cons)
  ultimately show ?case by (simp add: octet_fields_def fld_def emit_Cons p)
qed

text \<open>The fields of an item, and the positions at which octet strings may stand.\<close>

definition length_fields :: "nat \<Rightarrow> (u32 \<times> nat) list" where
  "length_fields n = (if n < 128 then [(word_of_nat n, 8)]
     else if n < 256 then [(0x81, 8), (word_of_nat n, 8)] else [(0x82, 8), (word_of_nat n, 16)])"

fun item_fields :: "ngap_item \<Rightarrow> (u32 \<times> nat) list" where
  "item_fields (Ng_Bits v n) = (if n > 32 then [] else [(v, n)])"
| "item_fields (Ng_Octets bs) = length_fields (length bs) @ octet_fields bs"
| "item_fields (Ng_Length n) = length_fields n"

fun aligned_items :: "nat \<Rightarrow> ngap_item list \<Rightarrow> bool" where
  "aligned_items k [] \<longleftrightarrow> True"
| "aligned_items k (x # xs) \<longleftrightarrow> (case x of Ng_Octets _ \<Rightarrow> k mod 8 = 0 | _ \<Rightarrow> True) \<and>
     aligned_items (k + width (item_fields x)) xs"

lemma emit_append: "emit (fs @ gs) b = emit gs (emit fs b)"
  by (simp add: emit_def)

lemma emit_state: "ngap_buf k b \<Longrightarrow> k + width fs \<le> 8 * ab_capacity b \<Longrightarrow>
    ngap_buf (k + width fs) (emit fs b) \<and> ab_capacity (emit fs b) = ab_capacity b"
  using emit_ok [of b fs] by (cases "fs = []") (auto simp: ngap_buf_def width_def)

lemma put_length_emit: "snd (put_length n b) = emit (length_fields n) b"
  by (simp add: put_length_def length_fields_def emit_Cons)

lemma put_length_ok: "ngap_buf k b \<Longrightarrow> k + width (length_fields n) \<le> 8 * ab_capacity b \<Longrightarrow>
    fst (put_length n b) = UESIM_SUCCESS"
  using put_bits_state [of k b 8] put_bits_state [of "k + 8" _ 8] put_bits_state [of "k + 8" _ 16]
  by (auto simp: put_length_def length_fields_def split: if_splits)

lemma ngap_put_emit:
  assumes "ngap_buf k b" and "k + width (item_fields x) \<le> 8 * ab_capacity b"
    and "case x of Ng_Octets _ \<Rightarrow> k mod 8 = 0 | _ \<Rightarrow> True"
  shows "ngap_put x (Some b) = Some (emit (item_fields x) b)"
proof (cases x)
  case (Ng_Octets bs)
  let ?l = "width (length_fields (length bs))"
  have "(k + ?l) mod 8 = 0" using assms(3) by (simp add: Ng_Octets length_fields_def mod_add_eq [symmetric, of k])
  then obtain j where j: "k + ?l = 8 * j" by (metis mod_0_imp_dvd dvd_def)
  have s: "ngap_buf (8 * j) (emit (length_fields (length bs)) b)"
      "ab_capacity (emit (length_fields (length bs)) b) = ab_capacity b"
    using emit_state [OF assms(1), of "length_fields (length bs)"] assms(2) Ng_Octets j by simp_all
  have "j + length bs \<le> ab_capacity b" using assms(2) Ng_Octets j by simp
  then have "put_octets (Some bs) (length bs) b =
      (UESIM_SUCCESS, emit (octet_fields bs) (emit (length_fields (length bs)) b))"
    using put_copy_octets [OF s(1)] s(2) put_length_emit [of "length bs" b] put_length_ok [OF assms(1), of "length bs"]
      assms(2) Ng_Octets by (cases "put_length (length bs) b") (simp add: put_octets_def)
  then show ?thesis by (simp add: Ng_Octets asn1_encode_octet_string_def emit_append)
next
  case (Ng_Length n)
  then show ?thesis by (simp add: asn1_encode_length_def put_length_emit [symmetric] split: prod.split)
qed (simp add: asn1_encode_bits_def emit_Cons split: prod.split)

lemma ngap_items_emit:
  assumes "ngap_buf k b" and "k + width (concat (map item_fields xs)) \<le> 8 * ab_capacity b" and "aligned_items k xs"
  shows "fold ngap_put xs (Some b) = Some (emit (concat (map item_fields xs)) b)"
  using assms
proof (induction xs arbitrary: k b)
  case (Cons x xs)
  let ?e = "emit (item_fields x) b"
  have "ngap_put x (Some b) = Some ?e" using Cons.prems by (intro ngap_put_emit) auto
  moreover have "ngap_buf (k + width (item_fields x)) ?e" "ab_capacity ?e = ab_capacity b"
    using emit_state [OF Cons.prems(1), of "item_fields x"] Cons.prems(2) by simp_all
  ultimately show ?case using Cons by (simp add: emit_append add.assoc)
qed simp

section \<open>An encoded message\<close>

definition ngap_fields :: "ngap_message \<Rightarrow> (u32 \<times> nat) list" where
  "ngap_fields m = concat (map item_fields (ngap_header_items m @ ngap_payload_items (ng_payload m)))"

lemma ngap_encode_zeros:
  assumes "ngap_in_bounds (ng_payload m)" and "aligned_items 0 (ngap_header_items m @ ngap_payload_items (ng_payload m))"
    and "width (ngap_fields m) \<le> 8 * NGAP_MAX_MESSAGE_SIZE" and "\<forall>f \<in> set (ngap_fields m). snd f \<le> 32"
  shows "\<exists>d. ngap_encode_message good_os (replicate NGAP_MAX_MESSAGE_SIZE 0) True (Some m) = Some (Inr d) \<and>
    length d = (width (ngap_fields m) + 7) div 8 \<and> holds d 0 (ngap_fields m)"
proof -
  define b where "b = \<lparr>ab_data = replicate NGAP_MAX_MESSAGE_SIZE (0 :: u8), ab_size = 0,
    ab_capacity = NGAP_MAX_MESSAGE_SIZE, ab_offset = 0, own_data = True\<rparr>"
  have "ngap_buf 0 b" by (auto simp: ngap_buf_def b_def buf_ok_def bit_at_def less_mult_imp_div_less mult.commute)
  then have i: "fold ngap_put (ngap_header_items m @ ngap_payload_items (ng_payload m)) (Some b) = Some (emit (ngap_fields m) b)"
    unfolding ngap_fields_def by (rule ngap_items_emit) (use assms(2,3) in \<open>simp_all add: ngap_fields_def b_def\<close>)
  have c: "0 < NGAP_MAX_MESSAGE_SIZE" by (simp add: NGAP_MAX_MESSAGE_SIZE_def)
  have "asn1_buffer_alloc good_os (replicate NGAP_MAX_MESSAGE_SIZE 0) NGAP_MAX_MESSAGE_SIZE (Some x) = (UESIM_SUCCESS, Some b)" for x
    using c by (simp add: asn1_buffer_alloc_def b_def)
  then have e: "encode_fields good_os (replicate NGAP_MAX_MESSAGE_SIZE 0) NGAP_MAX_MESSAGE_SIZE True ngap_fields (Some m) = Some d \<longleftrightarrow>
      ngap_encode_message good_os (replicate NGAP_MAX_MESSAGE_SIZE 0) True (Some m) = Some (Inr d)" for d
    using assms(1) by (simp add: encode_fields_def ngap_encode_message_def i Let_def del: fold_append)
  show ?thesis using encode_zeros [of ngap_fields m NGAP_MAX_MESSAGE_SIZE, OF assms(3,4) c] by (simp add: e)
qed

lemma ucast_octet: "take_bit 8 (ucast (c :: u8) :: u32) = ucast c"
  by (rule bit_word_eqI) (auto simp: bit_take_bit_iff bit_ucast_iff dest: bit_imp_le_length)

lemma holds_octets:
  assumes "holds d (8 * k) (octet_fields bs)" and "k + length bs \<le> length d"
  shows "take (length bs) (drop k d) = bs"
  using assms
proof (induction bs arbitrary: k)
  case (Cons c cs)
  have k: "k < length d" using Cons.prems(2) by simp
  have r: "read_bits d (8 * k) 8 = Some (ucast c, 8 * k + 8)" "holds d (8 * (k + 1)) (octet_fields cs)"
    using Cons.prems(1) by (auto simp: octet_fields_def fld_def ucast_octet add.commute simp del: holds_fld)
  have "8 * k + 8 \<le> 8 * length d" using k by simp
  from read_loop_ok [OF this, of 0] obtain v where v: "read_bits d (8 * k) 8 = Some (v, 8 * k + 8)"
    "\<forall>j. bit v j \<longleftrightarrow> bit (0 :: u32) j \<or> (j < 8 \<and> j < 32 \<and> bit_at d (8 * k + (8 - 1 - j)))" by blast
  have "bit (d ! k) j = bit c j" if j: "j < 8" for j
  proof -
    have p: "(8 * k + (8 - 1 - j)) div 8 = k" "7 - (8 * k + (8 - 1 - j)) mod 8 = j"
      using bit_position [of "8 - 1 - j" k] j by simp_all
    have "v = ucast c" using v(1) r(1) by simp
    then have "bit v j = bit c j" using j by (simp add: bit_ucast_iff)
    with spec [OF v(2), of j] j show ?thesis unfolding bit_at_def p by simp
  qed
  then have "d ! k = c" by (auto intro: bit_word_eqI)
  with Cons.IH [OF r(2)] Cons.prems(2) k show ?case
    by (simp add: Cons_nth_drop_Suc [symmetric] del: Cons_nth_drop_Suc)
qed simp

section \<open>Uplink transport of a message of the other layer\<close>

lemma amf_id_joined: "amf < 2 ^ 40 \<Longrightarrow>
    push_bit 32 (ucast (take_bit 8 (ucast (drop_bit 32 amf) :: u32))) OR ucast (ucast (amf AND 0xFFFFFFFF) :: u32) = (amf :: u64)"
proof -
  assume "amf < 2 ^ 40"
  then have "take_bit 40 amf = amf" by (simp add: take_bit_small)
  then have b: "bit amf j \<Longrightarrow> j < 40" for j by (metis bit_take_bit_iff)
  have m: "(0xFFFFFFFF :: u64) = mask 32" by (simp add: mask_eq_exp_minus_1)
  show ?thesis
    unfolding m by (rule bit_word_eqI) (auto simp: bit_or_iff bit_push_bit_iff bit_take_bit_iff bit_ucast_iff bit_drop_bit_eq
      bit_and_iff bit_mask_iff possible_bit_word dest: b)
qed

lemma low_octet: "take_bit 8 x AND 0xFF = (x AND 0xFF :: u32)"
proof -
  have "(0xFF :: u32) = mask 8" by (simp add: mask_eq_exp_minus_1)
  then show ?thesis by (simp add: take_bit_eq_mask and.assoc)
qed

definition uplink_example :: "u32 \<Rightarrow> u64 \<Rightarrow> u8 list \<Rightarrow> ngap_message" where
  "uplink_example r a nas = \<lparr>ng_procedure_code = ngap_proc_code NGAP_PROC_UPLINK_NAS_TRANSPORT, ng_criticality = 0,
     ng_transaction_id = r AND 0xFF, ng_payload = Ng_Uplink_Nas (zero_ng_uplink\<lparr>
       ngu_ue_ids := \<lparr>ng_ran_ue_ngap_id = r, ng_amf_ue_ngap_id = a\<rparr>, ngu_nas_pdu := nas\<rparr>)\<rparr>"

lemma uplink_code: "ngap_proc_code NGAP_PROC_UPLINK_NAS_TRANSPORT = 36" "ngap_proc_code NGAP_PROC_INITIAL_UE = 24"
    "ngap_proc_code NGAP_PROC_NG_SETUP = 21" "ngap_proc_code NGAP_PROC_UE_CONTEXT_RELEASE_REQUEST = 28"
  by code_simp+

text \<open>The octets of a length, as the encoder writes them.\<close>

definition ngap_length_octets :: "nat \<Rightarrow> u8 list" where
  "ngap_length_octets n = (if n < 128 then [word_of_nat n]
     else if n < 256 then [0x81, word_of_nat n] else [0x82, word_of_nat (n div 256), word_of_nat n])"

lemma width_length_fields: "width (length_fields n) = 8 * length (ngap_length_octets n)"
  by (simp add: length_fields_def ngap_length_octets_def)

lemma octets_of_nat:
  "take_bit 8 (word_of_nat n :: u32) = ucast (word_of_nat n :: u8)"
  "drop_bit 8 (take_bit 16 (word_of_nat n :: u32)) = ucast (word_of_nat (n div 256) :: u8)"
proof -
  show "take_bit 8 (word_of_nat n :: u32) = ucast (word_of_nat n :: u8)"
    by (rule bit_word_eqI) (auto simp: bit_take_bit_iff bit_ucast_iff bit_of_nat_iff possible_bit_word)
  have "n div 256 = drop_bit 8 n" by (simp add: drop_bit_eq_div)
  then show "drop_bit 8 (take_bit 16 (word_of_nat n :: u32)) = ucast (word_of_nat (n div 256) :: u8)"
    by (intro bit_word_eqI) (auto simp: bit_take_bit_iff bit_drop_bit_eq bit_ucast_iff bit_of_nat_iff possible_bit_word)
qed

text \<open>A field of sixteen bits is two octets.\<close>

lemma read_bits_bits:
  assumes "i + n \<le> 8 * length d"
  obtains w where "read_bits d i n = Some (w, i + n)"
    "\<forall>j. bit w j \<longleftrightarrow> j < n \<and> j < 32 \<and> bit_at d (i + (n - 1 - j))"
  using read_loop_ok [OF assms, of 0] by auto

lemma read_two_octets:
  assumes "read_bits d i 16 = Some (w, i + 16)" and "i + 16 \<le> 8 * length d"
  shows "read_bits d i 8 = Some (drop_bit 8 w, i + 8)" and "read_bits d (i + 8) 8 = Some (take_bit 8 w, i + 16)"
proof -
  have h: "i + 8 \<le> 8 * length d" and l: "i + 8 + 8 \<le> 8 * length d" using assms(2) by simp_all
  obtain x where x: "read_bits d i 16 = Some (x, i + 16)"
    "\<forall>j. bit x j \<longleftrightarrow> j < 16 \<and> j < 32 \<and> bit_at d (i + (16 - 1 - j))"
    by (rule read_bits_bits [OF assms(2)])
  have "x = w" using assms(1) x(1) by simp
  then have w: "bit w j \<longleftrightarrow> j < 16 \<and> bit_at d (i + (15 - j))" for j
    using spec [OF x(2), of j] by (cases "j < 16") simp_all
  obtain u where u: "read_bits d i 8 = Some (u, i + 8)"
    "\<forall>j. bit u j \<longleftrightarrow> j < 8 \<and> j < 32 \<and> bit_at d (i + (8 - 1 - j))" by (rule read_bits_bits [OF h])
  obtain v where v: "read_bits d (i + 8) 8 = Some (v, i + 8 + 8)"
    "\<forall>j. bit v j \<longleftrightarrow> j < 8 \<and> j < 32 \<and> bit_at d (i + 8 + (8 - 1 - j))" by (rule read_bits_bits [OF l])
  have "bit u j = bit (drop_bit 8 w) j" for j by (auto simp: bit_drop_bit_eq u(2) w)
  then have "u = drop_bit 8 w" by (intro bit_word_eqI) blast
  with u(1) show "read_bits d i 8 = Some (drop_bit 8 w, i + 8)" by simp
  have "bit v j = bit (take_bit 8 w) j" for j
  proof (cases "j < 8")
    case True
    then have "i + 8 + (8 - 1 - j) = i + (15 - j)" by simp
    with True spec [OF v(2), of j] w [of j] show ?thesis by (simp add: bit_take_bit_iff)
  qed (simp add: bit_take_bit_iff v(2))
  then have "v = take_bit 8 w" by (intro bit_word_eqI) blast
  with v(1) show "read_bits d (i + 8) 8 = Some (take_bit 8 w, i + 16)" by simp
qed

lemma take_octet_of_16: "take_bit 8 (take_bit 16 (x :: u32)) = take_bit 8 x"
  by (simp add: take_bit_take_bit)

lemma length_octets_held:
  assumes "holds d (8 * k) (length_fields n)" and "8 * k + width (length_fields n) \<le> 8 * length d"
  shows "holds d (8 * k) (octet_fields (ngap_length_octets n))"
proof (cases "n < 256")
  case True
  then show ?thesis using assms(1)
    by (auto simp: length_fields_def ngap_length_octets_def octet_fields_def fld_def ucast_octet octets_of_nat
        split: if_splits simp del: holds_fld)
next
  case False
  then have r: "read_bits d (8 * k) 8 = Some (0x82, 8 * k + 8)"
    "read_bits d (8 * k + 8) 16 = Some (take_bit 16 (word_of_nat n), 8 * k + 8 + 16)" "8 * k + 8 + 16 \<le> 8 * length d"
    using assms by (simp_all add: length_fields_def)
  from read_two_octets [OF r(2,3)] r(1) False show ?thesis
    by (simp add: ngap_length_octets_def octet_fields_def fld_def ucast_octet octets_of_nat take_octet_of_16
        del: holds_fld)
qed

lemma uplink_fields: "ngap_fields (uplink_example r a nas) =
    [(36, 8), (0, 2), (0, 6), (r AND 0xFF, 8), (r, 32), (ucast (a AND 0xFFFFFFFF), 32), (ucast (drop_bit 32 a), 8),
     (3, 8)] @ octet_fields [0, 0, 0] @ [(0, 24)] @ length_fields (length nas) @
     (if nas \<noteq> [] then length_fields (length nas) @ octet_fields nas else [])"
  by (simp add: ngap_fields_def uplink_example_def ngap_header_items_def ngap_ids_items_def ngap_location_items_def
      ngap_nas_items_def length_fields_def zero_ng_uplink_def zero_ng_location_def uplink_code and.assoc)

definition uplink_tail :: "u8 list \<Rightarrow> u8 list" where
  "uplink_tail nas = ngap_length_octets (length nas) @
     (if nas \<noteq> [] then ngap_length_octets (length nas) @ nas else [])"

lemma uplink_encoded:
  assumes "length nas \<le> ngap_nas_size"
  shows "\<exists>d. ngap_encode_message good_os (replicate NGAP_MAX_MESSAGE_SIZE 0) True (Some (uplink_example r a nas)) = Some (Inr d) \<and>
    length d = 19 + length (uplink_tail nas) \<and> holds d 0 (ngap_fields (uplink_example r a nas))"
proof -
  have "aligned_items 0 (ngap_header_items (uplink_example r a nas) @ ngap_payload_items (ng_payload (uplink_example r a nas)))"
    by (simp add: uplink_example_def ngap_header_items_def ngap_ids_items_def ngap_location_items_def
        ngap_nas_items_def zero_ng_uplink_def zero_ng_location_def width_length_fields)
  moreover have w: "width (ngap_fields (uplink_example r a nas)) = 8 * (19 + length (uplink_tail nas))"
    by (simp add: uplink_fields uplink_tail_def width_length_fields)
  moreover have "\<forall>f \<in> set (ngap_fields (uplink_example r a nas)). snd f \<le> 32"
    by (simp add: uplink_fields length_fields_def) (auto simp: octet_fields_def fld_def)
  moreover have "8 * (19 + length (uplink_tail nas)) \<le> 8 * NGAP_MAX_MESSAGE_SIZE"
    using assms by (simp add: uplink_tail_def ngap_length_octets_def NGAP_MAX_MESSAGE_SIZE_def ngap_nas_size_def)
  ultimately show ?thesis
    using ngap_encode_zeros [of "uplink_example r a nas"] assms
    by (auto simp: uplink_example_def)
qed

lemma octet_fields_append [simp]:
  "octet_fields [] = []" "octet_fields (xs @ ys) = octet_fields xs @ octet_fields ys"
  by (simp_all add: octet_fields_def)

lemma uplink_tail_held:
  assumes "holds d 0 (ngap_fields (uplink_example r a nas))" and "length d = 19 + length (uplink_tail nas)"
  shows "drop 19 d = uplink_tail nas"
proof -
  let ?n = "length nas" and ?l = "length (ngap_length_octets (length nas))"
  have h: "holds d (8 * 19) (length_fields ?n)"
    "nas \<noteq> [] \<Longrightarrow> holds d (8 * (19 + ?l)) (length_fields ?n) \<and> holds d (8 * (19 + ?l + ?l)) (octet_fields nas)"
    using assms(1) by (simp_all add: uplink_fields width_length_fields algebra_simps)
  have "holds d (8 * 19) (octet_fields (ngap_length_octets ?n))"
    by (rule length_octets_held [OF h(1)]) (simp add: assms(2) uplink_tail_def width_length_fields)
  moreover have "holds d (8 * (19 + ?l)) (octet_fields (ngap_length_octets ?n)) \<and> holds d (8 * (19 + ?l + ?l)) (octet_fields nas)"
    if "nas \<noteq> []"
    using h(2) [OF that] length_octets_held [of d "19 + ?l" ?n] that
    by (simp add: assms(2) uplink_tail_def width_length_fields)
  ultimately have "holds d (8 * 19) (octet_fields (uplink_tail nas))"
    by (auto simp: uplink_tail_def algebra_simps)
  from holds_octets [OF this] assms(2) show ?thesis by simp
qed

text \<open>What the decoder takes for the embedded message: everything from the twenty-second octet on.\<close>

definition uplink_received :: "u8 list \<Rightarrow> u8 list" where
  "uplink_received nas =
     (if length nas < 128 then tl nas
      else if length nas < 256 then word_of_nat (length nas) # nas
      else take ngap_nas_size ([0x82, word_of_nat (length nas div 256), word_of_nat (length nas)] @ nas))"

lemma uplink_received_changes:
  assumes "length nas \<le> ngap_nas_size"
  shows "length nas = 0 \<or> length nas = ngap_nas_size \<or> uplink_received nas \<noteq> nas"
proof (cases "uplink_received nas = nas")
  case True
  then have "length (uplink_received nas) = length nas" by (rule arg_cong)
  moreover have "length (uplink_received nas) = (if length nas < 128 then length nas - 1
     else if length nas < 256 then length nas + 1 else min (3 + length nas) ngap_nas_size)"
    by (simp add: uplink_received_def min.commute numeral_3_eq_3)
  ultimately have "length nas = 0 \<or> length nas = ngap_nas_size"
    using assms unfolding min_def by (simp split: if_splits del: length_0_conv; linarith)
  then show ?thesis by blast
qed blast

lemma uplink_rest:
  assumes "drop 19 d = uplink_tail nas" and "length d = 19 + length (uplink_tail nas)"
  shows "ngap_rest d 22 = uplink_received nas"
proof -
  have "drop 3 (drop 19 d) = drop 3 (uplink_tail nas)" using assms(1) by (rule arg_cong)
  then have d: "drop 22 d = drop 3 (uplink_tail nas)" by simp
  consider "nas = []" | "nas \<noteq> []" "length nas < 128" | "128 \<le> length nas" "length nas < 256" | "256 \<le> length nas"
    by linarith
  then show ?thesis
  proof cases
    case 2
    then obtain c cs where "nas = c # cs" by (cases nas) auto
    with 2 show ?thesis using assms(2)
      by (auto simp: ngap_rest_def d uplink_received_def uplink_tail_def ngap_length_octets_def ngap_nas_size_def)
  qed (use assms(2) in \<open>auto simp: ngap_rest_def d uplink_received_def uplink_tail_def ngap_length_octets_def
      ngap_nas_size_def\<close>)
qed

lemma uplink_decoded:
  assumes "amf < 2 ^ 40" and "holds d 0 (ngap_fields (uplink_example r amf nas))"
    and "length d = 19 + length (uplink_tail nas)"
  shows "ngap_decode_message junk (Some d) True = Some (Inr (uplink_example r amf (uplink_received nas)))"
proof -
  note h = assms(2) [unfolded uplink_fields]
  have header: "read_bits d 0 8 = Some (36, 8)" "read_bits d 8 2 = Some (0, 10)" "read_bits d 10 6 = Some (0, 16)"
    "read_bits d 16 8 = Some (r AND 0xFF, 24)"
    using h by (simp_all add: low_octet)
  have ids: "read_bits d 24 32 = Some (r, 56)" "read_bits d 56 32 = Some (ucast (amf AND 0xFFFFFFFF), 88)"
    "read_bits d 88 8 = Some (take_bit 8 (ucast (drop_bit 32 amf)), 96)"
    using h by (simp_all add: take_bit_full)
  note rest = uplink_rest [OF uplink_tail_held [OF assms(2,3)] assms(3)]
  have "ngap_decode_uplink_nas d 24 = Some (zero_ng_uplink\<lparr>
      ngu_ue_ids := \<lparr>ng_ran_ue_ngap_id = r, ng_amf_ue_ngap_id = amf\<rparr>, ngu_nas_pdu := uplink_received nas\<rparr>)"
    by (simp add: ngap_decode_uplink_nas_def read_word_def ids rest align8_def amf_id_joined [OF assms(1)])
  then have "ngap_read_message junk d = Some (uplink_example r amf (uplink_received nas))"
    by (simp add: ngap_read_message_def read_word_def header align8_def ngap_type_of_procedure_def uplink_code
        ngap_decode_payload_def ngap_types uplink_example_def)
  with assms(3) show ?thesis by (simp add: ngap_decode_message_def)
qed

text \<open>
  C38. The transport of a message of the non-access stratum, of which 4096 octets are taken: what the decoder of the
  network side finds has the identities, the procedure and the transaction of the message that was created, but
  a damaged embedded message. The encoder writes its length twice in front of it, and only seven octets of
  location before that, where the decoder skips ten: a message of fewer than 128 octets loses its first octet, a
  longer one has its length in front (one octet up to 255 octets, three octets from 256 on) and loses at the end
  what the array no longer takes. Except when the message is empty or fills the array, the result is never
  the message that was sent.
\<close>

theorem ngap_uplink_nas_damaged:
  assumes "ngap_create_uplink_nas_transport r amf (Some nas) (Some m0) = (UESIM_SUCCESS, Some m)" and "amf < 2 ^ 40"
  shows "let pdu = take ngap_nas_size nas; n = length pdu;
      received = (if n < 128 then tl pdu else if n < 256 then word_of_nat n # pdu
        else take ngap_nas_size ([0x82, word_of_nat (n div 256), word_of_nat n] @ pdu))
    in (\<exists>d. ngap_encode_message good_os (replicate NGAP_MAX_MESSAGE_SIZE 0) True (Some m) = Some (Inr d) \<and>
      ngap_decode_message junk (Some d) True = Some (Inr (m\<lparr>ng_payload := Ng_Uplink_Nas (zero_ng_uplink\<lparr>
        ngu_ue_ids := \<lparr>ng_ran_ue_ngap_id = r, ng_amf_ue_ngap_id = amf\<rparr>, ngu_nas_pdu := received\<rparr>)\<rparr>))) \<and>
      (n = 0 \<or> n = ngap_nas_size \<or> received \<noteq> pdu)"
proof -
  define p where "p = take ngap_nas_size nas"
  have m: "m = uplink_example r amf p"
    using assms(1) by (auto simp: ngap_create_uplink_nas_transport_def ngap_nas_copy_def uplink_example_def p_def)
  have u: "m\<lparr>ng_payload := Ng_Uplink_Nas (zero_ng_uplink\<lparr>ngu_ue_ids := \<lparr>ng_ran_ue_ngap_id = r, ng_amf_ue_ngap_id = amf\<rparr>,
      ngu_nas_pdu := x\<rparr>)\<rparr> = uplink_example r amf x" for x
    by (simp add: m uplink_example_def)
  have len: "length p \<le> ngap_nas_size" by (simp add: p_def)
  obtain d where d: "ngap_encode_message good_os (replicate NGAP_MAX_MESSAGE_SIZE 0) True (Some m) = Some (Inr d)"
    "length d = 19 + length (uplink_tail p)" "holds d 0 (ngap_fields (uplink_example r amf p))"
    using uplink_encoded [OF len, of r amf] unfolding m by blast
  show ?thesis
    unfolding Let_def p_def [symmetric] u uplink_received_def [symmetric]
    using d(1) uplink_decoded [OF assms(2) d(3,2)] uplink_received_changes [OF len] by blast
qed

text \<open>A message of three octets, and one of 130.\<close>

theorem ngap_uplink_nas_damaged_witness:
  "(\<exists>d. ngap_encode_message good_os (replicate NGAP_MAX_MESSAGE_SIZE 0) True (Some (uplink_example 7 9 [0x7E, 0, 0x41])) =
      Some (Inr d) \<and> ngap_decode_message 0 (Some d) True = Some (Inr (uplink_example 7 9 [0, 0x41]))) \<and>
   (\<exists>d. ngap_encode_message good_os (replicate NGAP_MAX_MESSAGE_SIZE 0) True (Some (uplink_example 7 9 (replicate 130 5))) =
      Some (Inr d) \<and> ngap_decode_message 0 (Some d) True = Some (Inr (uplink_example 7 9 (130 # replicate 130 5))))"
proof
  have c: "ngap_create_uplink_nas_transport 7 9 (Some nas) (Some (uplink_example 0 0 [])) =
      (UESIM_SUCCESS, Some (uplink_example 7 9 nas))" if "length nas \<le> 4096" for nas
    using that by (simp add: ngap_create_uplink_nas_transport_def ngap_nas_copy_def ngap_nas_size_def uplink_example_def)
  note t = ngap_uplink_nas_damaged [OF c, of _ 0, unfolded Let_def]
  show "\<exists>d. ngap_encode_message good_os (replicate NGAP_MAX_MESSAGE_SIZE 0) True (Some (uplink_example 7 9 [0x7E, 0, 0x41])) =
      Some (Inr d) \<and> ngap_decode_message 0 (Some d) True = Some (Inr (uplink_example 7 9 [0, 0x41]))"
    using t [of "[0x7E, 0, 0x41]"] by (simp add: ngap_nas_size_def uplink_example_def)
  show "\<exists>d. ngap_encode_message good_os (replicate NGAP_MAX_MESSAGE_SIZE 0) True (Some (uplink_example 7 9 (replicate 130 5))) =
      Some (Inr d) \<and> ngap_decode_message 0 (Some d) True = Some (Inr (uplink_example 7 9 (130 # replicate 130 5)))"
    using t [of "replicate 130 5"] by (simp add: ngap_nas_size_def uplink_example_def)
qed

section \<open>The checks of received messages\<close>

text \<open>A bit of the first octet stays, whatever is written behind it.\<close>

definition octet_bit :: "nat \<Rightarrow> asn1_buffer \<Rightarrow> bool" where
  "octet_bit i b \<longleftrightarrow> ab_data b \<noteq> [] \<and> bit (ab_data b ! 0) i"

definition first_bit :: "nat \<Rightarrow> asn1_buffer \<Rightarrow> bool" where
  "first_bit i b \<longleftrightarrow> octet_bit i b \<and> 0 < ab_offset b \<and> 0 < ab_size b"

definition put_bit :: "u32 \<Rightarrow> nat \<Rightarrow> asn1_buffer \<Rightarrow> asn1_buffer" where
  "put_bit v i b = b\<lparr>ab_data := (if bit v i then (ab_data b)[ab_offset b div 8 := ab_data b ! (ab_offset b div 8) OR
     push_bit (7 - ab_offset b mod 8) 1] else ab_data b), ab_offset := ab_offset b + 1\<rparr>"

lemma put_bits_step: "put_bits v (Suc i) b =
    (if ab_offset b div 8 \<ge> ab_capacity b then (UESIM_ERROR_CAPACITY, b) else put_bits v i (put_bit v i b))"
  by (simp add: put_bit_def Let_def)

lemma put_bit_keeps: "octet_bit i b \<Longrightarrow> octet_bit i (put_bit v j b)"
  by (cases "ab_offset b div 8") (auto simp: put_bit_def octet_bit_def bit_or_iff)

lemma put_bits_octet_bit: "octet_bit i b \<Longrightarrow> octet_bit i (snd (put_bits v n b))"
proof (induction n arbitrary: b)
  case (Suc n)
  then show ?case using put_bit_keeps by (simp add: put_bits_step del: put_bits.simps)
qed (simp add: octet_bit_def)

lemma put_bits_moves: "0 < ab_offset b \<and> 0 < ab_size b \<Longrightarrow>
    0 < ab_offset (snd (put_bits v n b)) \<and> 0 < ab_size (snd (put_bits v n b))"
  by (induction v n b rule: put_bits.induct) (auto simp: Let_def)

lemma put_bits_first_bit: "first_bit i b \<Longrightarrow> first_bit i (snd (put_bits v n b))"
  using put_bits_octet_bit put_bits_moves by (simp add: first_bit_def)

lemma put_length_first_bit: "first_bit i b \<Longrightarrow> first_bit i (snd (put_length n b))"
  by (simp add: put_length_def put_bits_first_bit)

lemma put_copy_first_bit: "first_bit i b \<Longrightarrow> first_bit i (snd (put_copy (Some bs) n b))"
  by (auto simp: first_bit_def octet_bit_def put_copy_def blit_def nth_append)

lemma ngap_put_first_bit: "first_bit i b \<Longrightarrow> \<exists>c. ngap_put x (Some b) = Some c \<and> first_bit i c"
proof (cases x)
  case (Ng_Bits v n)
  then show "first_bit i b \<Longrightarrow> ?thesis"
    using put_bits_first_bit [of i b v n] by (cases "put_bits v n b") (auto simp: asn1_encode_bits_def)
next
  case (Ng_Length n)
  then show "first_bit i b \<Longrightarrow> ?thesis"
    using put_length_first_bit [of i b n] by (cases "put_length n b") (auto simp: asn1_encode_length_def)
next
  case (Ng_Octets bs)
  obtain r c where l: "put_length (length bs) b = (r, c)" by (cases "put_length (length bs) b")
  obtain q e where c: "put_copy (Some bs) (length bs) c = (q, e)" by (cases "put_copy (Some bs) (length bs) c")
  from Ng_Octets show "first_bit i b \<Longrightarrow> ?thesis"
    using put_length_first_bit [of i b "length bs"] put_copy_first_bit [of i c bs "length bs"]
    by (auto simp: asn1_encode_octet_string_def put_octets_def l c)
qed

lemma ngap_items_first_bit: "first_bit i b \<Longrightarrow> \<exists>c. fold ngap_put xs (Some b) = Some c \<and> first_bit i c"
proof (induction xs arbitrary: b)
  case (Cons x xs)
  from ngap_put_first_bit [OF Cons.prems, of x] obtain c where "ngap_put x (Some b) = Some c" "first_bit i c" by blast
  with Cons.IH show ?case by simp
qed simp

lemma put_bits_sets:
  assumes "ab_offset b + n \<le> 8" and "j < n" and "bit v j" and "ab_data b \<noteq> []" and "0 < ab_capacity b"
  shows "octet_bit (j + (8 - ab_offset b - n)) (snd (put_bits v n b))"
  using assms
proof (induction n arbitrary: b)
  case (Suc i)
  have z: "ab_offset b div 8 = 0" "ab_offset b mod 8 = ab_offset b" using Suc.prems(1) by simp_all
  then have s: "snd (put_bits v (Suc i) b) = snd (put_bits v i (put_bit v i b))"
    using Suc.prems(5) by (simp add: put_bits_step del: put_bits.simps)
  have b: "ab_offset (put_bit v i b) = ab_offset b + 1" "ab_data (put_bit v i b) \<noteq> []"
      "ab_capacity (put_bit v i b) = ab_capacity b"
    using Suc.prems(4) by (simp_all add: put_bit_def)
  show ?case
  proof (cases "j = i")
    case True
    have "octet_bit (7 - ab_offset b) (put_bit v i b)"
      using True z Suc.prems(3,4) by (auto simp: put_bit_def octet_bit_def bit_or_iff bit_exp_iff)
    moreover have "j + (8 - ab_offset b - Suc i) = 7 - ab_offset b" using True Suc.prems(1) by simp
    ultimately show ?thesis using put_bits_octet_bit [of "7 - ab_offset b" "put_bit v i b" v i] by (simp only: s)
  next
    case False
    have "octet_bit (j + (8 - ab_offset (put_bit v i b) - i)) (snd (put_bits v i (put_bit v i b)))"
      by (rule Suc.IH) (use Suc.prems False b in simp_all)
    then show ?thesis by (simp add: s b del: put_bits.simps)
  qed
qed simp

lemma put_bits_octet_moves:
  "ab_offset b + n \<le> 8 \<Longrightarrow> 0 < ab_capacity b \<Longrightarrow> ab_offset (snd (put_bits v n b)) = ab_offset b + n \<and>
    ab_size (snd (put_bits v n b)) = (ab_offset b + n + 7) div 8"
  by (induction v n b rule: put_bits.induct) (auto simp: Let_def)

text \<open>
  C40. No message that the encoder writes passes the checks, whatever the configuration: their header has a zero
  in the first octet, and the encoder writes the code of the procedure there, which is not zero for any
  message of the base station. This holds for any content of the allocated block.
\<close>

theorem ngap_checks_refuse_encoder:
  assumes "ngap_encode_message s mem out (Some m) = Some (Inr d)" and "length mem = NGAP_MAX_MESSAGE_SIZE"
    and "ucast (ng_procedure_code m) \<noteq> (0 :: u8)"
  shows "\<exists>r q. ngap_validate_pdu g (Some d) p = Some (r, q) \<and> r \<noteq> NGAP_VALIDATION_OK"
proof -
  let ?b = "\<lparr>ab_data = mem, ab_size = 0, ab_capacity = NGAP_MAX_MESSAGE_SIZE, ab_offset = 0, own_data = True\<rparr>"
  let ?e = "snd (put_bits (ng_procedure_code m) 8 ?b)"
  have size: "mem \<noteq> []" "0 < NGAP_MAX_MESSAGE_SIZE" using assms(2) by (auto simp: NGAP_MAX_MESSAGE_SIZE_def)
  obtain j where j: "j < 8" "bit (ng_procedure_code m) j"
    using assms(3) by (auto simp: bit_eq_iff bit_ucast_iff)
  have "first_bit j ?e"
    using put_bits_sets [of ?b 8 j "ng_procedure_code m"] put_bits_octet_moves [of ?b 8 "ng_procedure_code m"] j size
    by (simp add: first_bit_def)
  then obtain c where c: "fold ngap_put (tl (ngap_header_items m) @ ngap_payload_items (ng_payload m)) (Some ?e) = Some c"
    "first_bit j c" using ngap_items_first_bit by blast
  have "ngap_put (Ng_Bits (ng_procedure_code m) 8) (Some ?b) = Some ?e"
    by (simp add: asn1_encode_bits_def split: prod.split)
  with c(1) have "fold ngap_put (ngap_header_items m @ ngap_payload_items (ng_payload m)) (Some ?b) = Some c"
    by (simp add: ngap_header_items_def)
  then have d: "d = take (asn1_buffer_length (Some c)) (ab_data c)"
    using assms(1) size by (auto simp: ngap_encode_message_def asn1_buffer_alloc_def Let_def split: if_splits)
  have "d \<noteq> []" "d ! 0 \<noteq> 0" using c(2) by (auto simp: d first_bit_def octet_bit_def asn1_buffer_length_def)
  then show ?thesis
    by (cases p) (auto simp: ngap_validate_pdu_def ngap_validate_pdu_header_def with_ngap_context_def)
qed

theorem ngap_checks_refuse_encoder_witness:
  "\<exists>d r q. ngap_encode_message good_os (replicate NGAP_MAX_MESSAGE_SIZE 0) True (Some (uplink_example 7 9 [0x7E, 0, 0x41])) =
      Some (Inr d) \<and> ngap_validate_pdu zero_ngap_config (Some d) None = Some (r, q) \<and> r \<noteq> NGAP_VALIDATION_OK"
proof -
  obtain d where d: "ngap_encode_message good_os (replicate NGAP_MAX_MESSAGE_SIZE 0) True
      (Some (uplink_example 7 9 [0x7E, 0, 0x41])) = Some (Inr d)"
    using uplink_encoded [of "[0x7E, 0, 0x41]" 7 9] by (auto simp: ngap_nas_size_def)
  have "ucast (ng_procedure_code (uplink_example 7 9 [0x7E, 0, 0x41])) \<noteq> (0 :: u8)"
    by (simp add: uplink_example_def uplink_code)
  from ngap_checks_refuse_encoder [OF d _ this, of zero_ngap_config None] d show ?thesis by auto
qed

text \<open>Before the configuration is set every message is too long.\<close>

lemma ngap_checks_unset: "x \<noteq> [] \<Longrightarrow> \<exists>q. ngap_validate_pdu zero_ngap_config (Some x) p = Some (NGAP_VALIDATION_ERROR_LENGTH, q)"
  by (cases p) (auto simp: ngap_validate_pdu_def with_ngap_context_def zero_ngap_config_def)

text \<open>A type that no message has is accepted: the test for valid types is never called.\<close>

lemma ngap_unknown_type_accepted:
  "\<exists>q. ngap_validate_pdu (fst (snd (ngap_validation_init None (zero_ngap_config, False)))) (Some [0, 21, 255, 0]) None =
      Some (NGAP_VALIDATION_OK, q)" "\<not> ngap_is_valid_message_type 255"
  by (simp_all add: ngap_validate_pdu_def ngap_validate_pdu_header_def with_ngap_context_def ngap_validation_init_def
      ngap_validation_get_default_config_def ngap_is_valid_procedure_code_def ngap_get_min_message_length_def ngv_types
      NGAP_MIN_HEADER_SIZE_def NGAP_MAX_PDU_SIZE_def ngap_validate_message_def ngap_is_valid_message_type_def)

section \<open>Network identities\<close>

lemmas swapped_digits = two_digits [unfolded or.commute [of _ "push_bit 4 _"]]

lemma three_octets:
  assumes "e = push_bit 16 (ucast (p :: u8)) OR push_bit 8 (ucast (q :: u8)) OR (ucast (r :: u8) :: u32)"
  shows "ucast (drop_bit 16 e) = p" and "ucast (drop_bit 8 e) = q" and "ucast e = r"
proof -
  have "\<not> bit (w :: u8) (8 + n)" "\<not> bit w (16 + n)" for w n by (auto dest: bit_imp_le_length)
  then show "ucast (drop_bit 16 e) = p" "ucast (drop_bit 8 e) = q" "ucast e = r"
    unfolding assms
    by (auto intro!: bit_word_eqI simp: bit_ucast_iff bit_drop_bit_eq bit_or_iff bit_push_bit_iff possible_bit_word)
qed

lemma octets_joined:
  assumes "d1 < 16" and "d2 < 16" and "d3 < 16" and "d4 < 16" and "d5 < 16" and "d6 < 16"
  shows "ngap_decode_plmn_id (push_bit 4 d2 OR d1) (push_bit 4 d6 OR d3) (push_bit 4 d5 OR d4) =
    (ucast d1 * 100 + ucast d2 * 10 + ucast d3,
     if d6 = 15 then (ucast d4 * 10 + ucast d5, 2) else (ucast d4 * 100 + ucast d5 * 10 + ucast d6, 3))"
  unfolding ngap_decode_plmn_id_def Let_def swapped_digits [OF assms(1,2)] swapped_digits [OF assms(3,6)] swapped_digits [OF assms(4,5)]
  by simp

lemma digit:
  assumes "(y :: u16) < 10"
  shows "(ucast y :: u8) < 16" and "ucast (ucast y :: u8) = y" and "(ucast y :: u8) \<noteq> 15"
proof -
  have y: "unat y < 10" using assms by (simp add: word_less_nat_alt)
  then have u: "unat (ucast y :: u8) = unat y"
    by (simp only: unsigned_ucast_eq unsigned_take_bit_eq) (simp add: take_bit_nat_eq_self)
  then show "(ucast y :: u8) < 16" using y by (simp add: word_less_nat_alt)
  have "unat (ucast (ucast y :: u8) :: u16) = unat y" using u
    by (simp only: unsigned_ucast_eq unsigned_take_bit_eq) (use y in \<open>simp add: take_bit_nat_eq_self\<close>)
  then show "ucast (ucast y :: u8) = y" by (simp add: word_unat_eq_iff)
  show "(ucast y :: u8) \<noteq> 15"
  proof
    assume "(ucast y :: u8) = 15"
    then have "unat (ucast y :: u8) = 15" by simp
    with u y show False by simp
  qed
qed

lemma digits_small: "(x :: u16) mod 10 < 10" "x < 1000 \<Longrightarrow> x div 100 < 10" "x < 100 \<Longrightarrow> x div 10 < 10"
  by (simp_all add: word_less_nat_alt unat_mod unat_div)

lemma digits_value: "(x :: u16) < 1000 \<Longrightarrow> x div 100 * 100 + x div 10 mod 10 * 10 + x mod 10 = x"
  "x div 10 * 10 + x mod 10 = x"
proof -
  show "x div 10 * 10 + x mod 10 = x" by (rule div_mult_mod_eq)
  have "x div 100 = x div 10 div 10" by (simp add: word_unat_eq_iff unat_div div_mult2_eq [symmetric])
  then have "x div 100 * 100 + x div 10 mod 10 * 10 = (x div 10 div 10 * 10 + x div 10 mod 10) * 10"
    by (simp add: algebra_simps)
  also have "\<dots> = x div 10 * 10" by (simp only: div_mult_mod_eq)
  finally show "x div 100 * 100 + x div 10 mod 10 * 10 + x mod 10 = x" by (simp only: div_mult_mod_eq)
qed

text \<open>
  C39. Round trip of the identity of a network: the country code and the network code of two or three digits come
  back from the three octets.
\<close>

theorem ngap_plmn_roundtrip:
  assumes "mcc < 1000" and "n = 2 \<and> mnc < 100 \<or> n = 3 \<and> mnc < 1000" and "e = ngap_encode_plmn_id mcc mnc n"
  shows "ngap_decode_plmn_id (ucast (drop_bit 16 e)) (ucast (drop_bit 8 e)) (ucast e) = (mcc, mnc, n)"
proof -
  note small = digits_small(1) digits_small(2) [OF assms(1)]
  show ?thesis
  proof (cases "n = 2")
    case True
    with assms(2) have m: "mnc < 100" by auto
    have e: "e = push_bit 16 (ucast (push_bit 4 (ucast (mcc div 10 mod 10)) OR ucast (mcc div 100) :: u8)) OR
        push_bit 8 (ucast (push_bit 4 15 OR ucast (mcc mod 10) :: u8)) OR
        ucast (push_bit 4 (ucast (mnc mod 10)) OR ucast (mnc div 10) :: u8)"
      by (simp add: assms(3) True ngap_encode_plmn_id_def Let_def)
    show ?thesis
      unfolding three_octets [OF e]
      by (subst octets_joined) (use small m assms(1) True in \<open>simp_all add: digit digits_small digits_value\<close>)
  next
    case False
    with assms(2) have m: "mnc < 1000" "n = 3" by auto
    have e: "e = push_bit 16 (ucast (push_bit 4 (ucast (mcc div 10 mod 10)) OR ucast (mcc div 100) :: u8)) OR
        push_bit 8 (ucast (push_bit 4 (ucast (mnc mod 10)) OR ucast (mcc mod 10) :: u8)) OR
        ucast (push_bit 4 (ucast (mnc div 10 mod 10)) OR ucast (mnc div 100) :: u8)"
      by (simp add: assms(3) m ngap_encode_plmn_id_def Let_def)
    show ?thesis
      unfolding three_octets [OF e]
      by (subst octets_joined) (use small m assms(1) in \<open>simp_all add: digit digits_small digits_value\<close>)
  qed
qed

theorem ngap_plmn_roundtrip_witness:
  "ngap_decode_plmn_id (ucast (drop_bit 16 (ngap_encode_plmn_id 208 93 2))) (ucast (drop_bit 8 (ngap_encode_plmn_id 208 93 2)))
    (ucast (ngap_encode_plmn_id 208 93 2)) = (208, 93, 2)"
  by (rule ngap_plmn_roundtrip) simp_all

end
