(* ===== verification/Spec2Isabelle.thy ===== *)
theory Spec2Isabelle
  imports Ring_Buffer Ring_Concurrency Memory_Pool Thread_Pool Snow3g Zuc Aes Pdcp Pdcp_Proofs
    Rlc Rlc_Proofs Rlc_Window Rlc_Window_Proofs Ue_Context Ue_Context_Proofs Asn1_Per Asn1_Rrc Asn1_Proofs Sdap Sdap_Proofs Mac_Proofs
    Session_Proofs Slicing_Proofs Nas_Proofs Nas_Validation_Proofs
    Gnb_Proofs Rrc_Proofs Rrc_Meas_Proofs Rrc_Si_Proofs Rlf_Proofs
    Resource_Tracker_Proofs Gnb_Manager E1ap_Proofs F1ap_Proofs Xnap_Proofs Pfcp_Proofs
    Ngap_Proofs
begin

text \<open>
  A verification development for UESIM, a 5G user equipment simulator in C.

  \<^bold>\<open>The program.\<close> A simulated user equipment (\<^verbatim>\<open>src/core\<close>) runs a protocol stack
  (\<^verbatim>\<open>src/protocol\<close>: PHY, MAC, RLC, PDCP, SDAP, RRC and the interface messages;
  \<^verbatim>\<open>src/nas\<close>: NAS, sessions, slices) over sockets (\<^verbatim>\<open>src/transport\<close>) against mock
  network functions (\<^verbatim>\<open>src/mock_core\<close>, \<^verbatim>\<open>src/mock_gnb\<close>). The radio protocol entities
  are objects with a mutex, created, configured, activated and destroyed by the layer above; data
  passes down through PDCP (counter, integrity code, ciphering) and RLC (segmentation, windows)
  and up the same way. The utilities (ring buffer, memory pool, thread pool) are shared.

  \<^bold>\<open>Theories.\<close>
  \<^item> \<open>Prelude\<close>: machine integers, error codes, the outcomes of the operating system, null
    pointers and mutexes as guards, lemmas on lists and words.
  \<^item> \<open>Interfaces\<close>: the contracts \<open>fifo\<close>, \<open>bounded_fifo\<close>, \<open>keystream\<close>, \<open>cipher\<close>, \<open>stream_cipher\<close>
    and \<open>keyed_store\<close> as locales, with the lemmas that hold for every provider.
  \<^item> \<open>Ring_Buffer\<close> (\<^verbatim>\<open>utils/ring_buffer.c\<close>): the buffer as a list with two indices; one turn
    of each loop, the loops, and every error path; runs of reads and writes refine a bounded queue
    of bytes. \<open>Ring_Concurrency\<close>: one writer and one reader, each loop turn split at its accesses to
    the shared fields, as a step relation; the invariant of all interleavings, and two schedules
    after which both threads sleep for ever.
  \<^item> \<open>Memory_Pool\<close> (\<^verbatim>\<open>core/memory.c\<close>): the bump allocator; its blocks are disjoint and stay
    in the pool.
  \<^item> \<open>Thread_Pool\<close> (\<^verbatim>\<open>core/thread_pool.c\<close>): the critical sections as steps; accounting
    and order of the tasks.
  \<^item> \<open>Crypto_Base\<close>, \<open>Snow3g\<close>, \<open>Zuc\<close>, \<open>Aes\<close> (\<^verbatim>\<open>protocol/snow3g.c\<close>, \<^verbatim>\<open>zuc.c\<close>,
    \<^verbatim>\<open>aes.c\<close>): tables, clocking, key schedule, block cipher, ciphering and integrity.
  \<^item> \<open>Pdcp\<close> (\<^verbatim>\<open>protocol/pdcp.c\<close>): entities, security contexts, transmit and receive
    path, header, COUNT, key refresh. \<open>Pdcp_Proofs\<close>: what a receiver makes of a transmitted unit,
    uniqueness and reconstruction of COUNT, header round trip, key separation.
  \<^item> \<open>Rlc\<close> (\<^verbatim>\<open>protocol/rlc.c\<close>): entities, segmentation, reassembly, queues; \<open>Rlc_Proofs\<close>:
    round trip, life cycle, queue order. \<open>Rlc_Window\<close>: windows and status units of the acknowledged
    mode, with the calls that run for ever or leave defined behaviour as outcomes;
    \<open>Rlc_Window_Proofs\<close>: what an acknowledgement frees, and where windows and status units fail.

  \<^item> \<open>Ue_Context\<close> (\<^verbatim>\<open>core/uesim_core.c\<close>, the initialisation in \<^verbatim>\<open>pdcp.c\<close> and
    \<^verbatim>\<open>rlc.c\<close>): the tables of entities and bearers with their counters, the accessors under
    their locks, the configuration of signalling and data bearers. \<open>Ue_Context_Proofs\<close>: the counters
    are exact in every reachable context; the state after initialisation; the two numberings of
    data bearers.
  \<^item> \<open>Asn1_Per\<close>, \<open>Asn1_Rrc\<close> (\<^verbatim>\<open>protocol/asn1_per.c\<close>): the bit buffer and the codecs of
    the RRC messages. \<open>Asn1_Proofs\<close>: the buffer refines a list of bits; which messages survive and
    which do not.
  \<^item> \<open>Sdap\<close>, \<open>Sdap_Proofs\<close> (\<^verbatim>\<open>protocol/sdap.c\<close>): the mapping of flows to bearers, headers,
    reflective mapping; the round trip between two entities, and the table that fills up.
  \<^item> \<open>Mac_Queues\<close>, \<open>Mac\<close>, \<open>Mac_Access\<close>, \<open>Mac_Data\<close> (\<^verbatim>\<open>protocol/mac.c\<close>): the queues of the logical
    channels, the entity and its processes, random access and the encoded control messages, and the
    data path with scheduling. \<open>Mac_Proofs\<close>: order and accounting of the channels, the
    prioritisation as a stable sort, the budget of retransmissions, random access.
  \<^item> \<open>Session\<close>, \<open>Session_Proofs\<close> (\<^verbatim>\<open>nas/pdu_session.c\<close>, \<^verbatim>\<open>nas/qos_flow.c\<close>): the
    managers of sessions and of flows; identities and lookups.
  \<^item> \<open>Slicing\<close>, \<open>Slicing_Proofs\<close> (\<^verbatim>\<open>nas/network_slicing.c\<close>): lists of slices, their
    octets, selection; the round trip through registration.
  \<^item> \<open>Nas\<close>, \<open>Nas_Security\<close>, \<open>Nas_Procedures\<close>, \<open>Nas_Sessions\<close> (\<^verbatim>\<open>nas/nas.c\<close>): the context and
    the codec, the security context with keys, authentication, ciphering and integrity, the handlers
    of mobility and of sessions. \<open>Nas_Proofs\<close>: what the authentication compares, how a security mode
    command ends, under which COUNT messages are ciphered, when the search for an attribute ends, and
    what the codec keeps.
  \<^item> \<open>Nas_Validation\<close>, \<open>Nas_Validation_Proofs\<close> (\<^verbatim>\<open>nas/nas_validation.c\<close>): the validation of
    messages, payloads and sequences of messages; the state table of the validator against its own
    table of transitions, and the format of an authentication request against its handler.
  \<^item> \<open>Gnb\<close>, \<open>Gnb_Proofs\<close> (\<^verbatim>\<open>core/uesim_core.c\<close>): the gNBs of a UE as a store of contexts
    with a serving one and a table of candidates, connecting with retries, and the procedures of the
    core. The tables are consistent in every reachable state; sockets that a handover loses.
  \<^item> \<open>Rrc\<close>, \<open>Rrc_Proofs\<close> (\<^verbatim>\<open>protocol/rrc.c\<close>, the sending in
    \<^verbatim>\<open>transport/socket_mgr.c\<close>): the state machine, the messages in the octets of
    \<open>Asn1_Rrc\<close>, the procedures as loops over attempts, the handlers of received messages. The two
    formats of a message; which procedures can start; how they end, also when the network answers.
  \<^item> \<open>Rrc_Meas\<close>, \<open>Rrc_Meas_Proofs\<close> (\<^verbatim>\<open>protocol/rrc_meas.c\<close>): the measurement contexts in their
    global table, the events with hysteresis and time to trigger; that a report is justified and in
    time, and that the table keeps freed contexts. \<open>Rrc_Si\<close>, \<open>Rrc_Si_Proofs\<close>
    (\<^verbatim>\<open>protocol/rrc_si.c\<close>, with the initialisation and cleanup of RRC): the decoders of the broadcast
    blocks over the bit buffer, and which lengths make them read behind the data.
  \<^item> \<open>Rlf\<close>, \<open>Rlf_Proofs\<close> (\<^verbatim>\<open>protocol/rlf_recovery.c\<close>): detection of a radio link failure and the
    recovery; why a link does not recover.
  \<^item> \<open>Resource_Tracker\<close>, \<open>Resource_Tracker_Proofs\<close> (\<^verbatim>\<open>core/resource_tracker.c\<close>): the table of tracked
    resources; its statistics are exact, its active part is a keyed store, a cleanup releases what an owner has.
  \<^item> \<open>Gnb_Manager\<close> (\<^verbatim>\<open>core/gnb_manager.c\<close>): the table of gNB structures by value, whose pointers to
    cells do not move with them.
  \<^item> \<open>Bit_Codec\<close>: encoders as lists of fields, decoders as readers of octets, and how a reader gets
    back what a list of fields has written. \<open>E1ap\<close>, \<open>F1ap\<close>, \<open>Xnap\<close> with their \<open>_Proofs\<close>
    (\<^verbatim>\<open>protocol/e1ap_messages.c\<close>, \<^verbatim>\<open>f1ap_messages.c\<close>, \<^verbatim>\<open>xnap_messages.c\<close>): the messages between
    the units of a base station and between base stations; which of them survive, and under which
    conditions on allocator and compiler.
  \<^item> \<open>Pfcp\<close>, \<open>Pfcp_Proofs\<close> (\<^verbatim>\<open>protocol/pfcp_messages.c\<close>): header and information elements; the
    encoder stays within its block, and what the decoder, which writes into one union, destroys.
  \<^item> \<open>Ngap\<close> (\<^verbatim>\<open>protocol/ngap_messages.c\<close>): the messages to the core network as items of bits, octets and
    lengths. \<open>Ngap_Validation\<close> (\<^verbatim>\<open>protocol/ngap_validation.c\<close>): the checks of received messages.
    \<open>Ngap_Proofs\<close>: the items as fields of \<open>Bit_Codec\<close>, what the decoder finds in an uplink transport, why the
    checks refuse every encoded message, and the round trip of network identities.

  \<^bold>\<open>Conventions.\<close> A pointer that the code compares with \<^verbatim>\<open>NULL\<close> is an option; an output
  pointer is the boolean that says whether it is non-null. Allocation, locking and initialisation
  outcomes are arguments (record \<open>os\<close>), numbered in the order in which a call asks for them.
  Fixed-width fields are words; sizes and indices are natural numbers, with the wrap-around of
  \<^verbatim>\<open>size_t\<close> written out where the code can reach it. Logging and statistics output have no
  effect on the state and are left out, as is the release of memory that nothing reads again.

  \<^bold>\<open>Bounds and fuel.\<close> Every function is total. The loops of the ring buffer terminate by a measure on the
  rest of the data; the loops of the windows use \<open>while_option\<close>, whose \<open>None\<close> is the outcome
  \<open>Diverges\<close>; the list of missing numbers in a status unit has the fuel of one turn per bit of
  the unit and one more, and every turn moves the position forward by at least 14 bits.

  \<^bold>\<open>Parameters.\<close> What the code takes from outside \<^verbatim>\<open>src/\<close> is an argument: the time,
  the values of \<^verbatim>\<open>rand()\<close>, the content of memory from \<^verbatim>\<open>malloc\<close> and of variables that nothing has set (\<open>junk\<close>), the octets of a structure
  that is copied as a whole, and its size, the order in which the compiler evaluates two calls in an
  expression (\<open>ord\<close>) and where it places the members of a union (record \<open>pfcp_layout\<close>). The network is the outcome of each socket call (record
  \<open>net\<close>, type \<open>send_result\<close>); a wait is the list of its wake-ups (\<open>proc_wake\<close>) with the messages that
  another thread processes meanwhile (record \<open>rrc_attempt\<close>). Nothing is assumed of these values beyond
  what a theorem names.

  \<^bold>\<open>Not modelled.\<close> Sockets, logging, command line, configuration files and mock servers, which are input and output,
  and the floating-point radio model.
\<close>

end
